(* ===== verification/Go_Prelude.thy ===== *)
theory Go_Prelude
  imports Main
begin

text \<open>
  The vocabulary every component of the development shares.

  \<^item> Go strings are byte sequences, so a Go \<^verbatim>\<open>string\<close> is a HOL \<^typ>\<open>string\<close> (a list of bytes).
  \<^item> A Go \<^verbatim>\<open>int64\<close> is an \<^typ>\<open>int\<close>; where the source computes with one, the two's complement
    wrap-around is written out with \<open>wrap64\<close>.
  \<^item> A \<^verbatim>\<open>time.Time\<close> is the instant it denotes, in nanoseconds since Go's zero time
    (January 1, year 1, UTC); the location part that \<^verbatim>\<open>UTC()\<close> rewrites is not kept, and
    \<^verbatim>\<open>IsZero\<close>, \<^verbatim>\<open>Before\<close>, \<^verbatim>\<open>After\<close> and \<^verbatim>\<open>Equal\<close> compare instants.
  \<^item> A Go \<^verbatim>\<open>error\<close> is a value of an option type (\<^const>\<open>None\<close> is \<^verbatim>\<open>nil\<close>), a Go pair
    \<^verbatim>\<open>(value, error)\<close> is a sum, with \<^const>\<open>Inl\<close> for the error. The ladders
    \<^verbatim>\<open>if err := f(x); err != nil { return err }\<close> are \<open>first_error\<close>, the \<^verbatim>\<open>range\<close> loops
    that return at the first bad element are \<open>check_each\<close> and \<open>check_unique\<close>.
\<close>

named_theorems validate_simps "what each validator accepts, as a conjunction"
named_theorems example_simps "evaluation of the concrete resources used by the witnesses"

section \<open>Machine integers\<close>

type_synonym int64 = int
type_synonym time = int

definition min64 :: int where "min64 = - (2 ^ 63)"
definition max64 :: int where "max64 = 2 ^ 63 - 1"

definition in64 :: "int \<Rightarrow> bool" where
  "in64 x \<longleftrightarrow> min64 \<le> x \<and> x \<le> max64"

definition wrap64 :: "int \<Rightarrow> int64" where
  "wrap64 x = (x + 2 ^ 63) mod 2 ^ 64 - 2 ^ 63"

lemma wrap64_in64: "in64 (wrap64 x)"
proof -
  have "0 \<le> (x + 2 ^ 63) mod 2 ^ 64" and "(x + 2 ^ 63) mod 2 ^ 64 < (2 ^ 64 :: int)"
    by simp_all
  then show ?thesis
    by (simp add: in64_def wrap64_def min64_def max64_def)
qed

lemma wrap64_id: "in64 x \<Longrightarrow> wrap64 x = x"
  by (simp add: in64_def wrap64_def min64_def max64_def)

lemma wrap64_eq_iff: "wrap64 x = x \<longleftrightarrow> in64 x"
  using wrap64_id wrap64_in64 by metis

lemma wrap64_succ_le: "in64 x \<Longrightarrow> wrap64 (x + 1) \<le> x + 1"
  by (cases "x = max64") (auto simp: in64_def wrap64_def min64_def max64_def)

lemma wrap64_succ_cases: "in64 x \<Longrightarrow> 0 < wrap64 (x + 1) \<Longrightarrow> wrap64 (x + 1) = x + 1"
  by (cases "x = max64") (auto simp: in64_def wrap64_def min64_def max64_def)

section \<open>Errors as values\<close>

text \<open>
  \<open>fail_if c e\<close> is \<^verbatim>\<open>if c { return e }\<close>; \<open>first_error\<close> runs a sequence of such checks in order
  and stops at the first error; \<open>ok_then\<close> goes on with a result once a check has passed.
\<close>

definition fail_if :: "bool \<Rightarrow> 'e \<Rightarrow> 'e option" where
  "fail_if c e = (if c then Some e else None)"

fun first_error :: "'e option list \<Rightarrow> 'e option" where
  "first_error [] = None"
| "first_error (None # xs) = first_error xs"
| "first_error (Some e # xs) = Some e"

definition ok_then :: "'e option \<Rightarrow> 'e + 'a \<Rightarrow> 'e + 'a" where
  "ok_then c r = (case c of None \<Rightarrow> r | Some e \<Rightarrow> Inl e)"

definition bind_res :: "'e + 'a \<Rightarrow> ('a \<Rightarrow> 'e + 'b) \<Rightarrow> 'e + 'b" where
  "bind_res m f = (case m of Inl e \<Rightarrow> Inl e | Inr x \<Rightarrow> f x)"

definition on_some :: "'a option \<Rightarrow> ('a \<Rightarrow> 'e option) \<Rightarrow> 'e option" where
  "on_some p f = (case p of None \<Rightarrow> None | Some x \<Rightarrow> f x)"

lemma fail_if_None [simp]: "fail_if c e = None \<longleftrightarrow> \<not> c"
  by (simp add: fail_if_def)

lemma fail_if_Some [simp]: "fail_if c e = Some e' \<longleftrightarrow> c \<and> e = e'"
  by (simp add: fail_if_def)

lemma fail_if_True [simp]: "fail_if True e = Some e"
  and fail_if_False [simp]: "fail_if False e = None"
  by (simp_all add: fail_if_def)

lemma first_error_Cons_None [simp]:
  "first_error (x # xs) = None \<longleftrightarrow> x = None \<and> first_error xs = None"
  by (cases x) simp_all

lemma first_error_None_iff: "first_error xs = None \<longleftrightarrow> (\<forall>x\<in>set xs. x = None)"
  by (induction xs) simp_all

lemma first_error_Some_mem: "first_error xs = Some e \<Longrightarrow> Some e \<in> set xs"
  by (induction xs rule: first_error.induct) auto

lemma first_error_append:
  "first_error (xs @ ys) = (case first_error xs of None \<Rightarrow> first_error ys | Some e \<Rightarrow> Some e)"
  by (induction xs rule: first_error.induct) simp_all

lemma ok_then_Inr [simp]: "ok_then c r = Inr x \<longleftrightarrow> c = None \<and> r = Inr x"
  by (simp add: ok_then_def split: option.splits)

lemma ok_then_None [simp]: "ok_then None r = r"
  and ok_then_Some [simp]: "ok_then (Some e) r = Inl e"
  by (simp_all add: ok_then_def)

lemma bind_res_Inr [simp]: "bind_res m f = Inr y \<longleftrightarrow> (\<exists>x. m = Inr x \<and> f x = Inr y)"
  by (simp add: bind_res_def split: sum.splits)

lemma bind_res_simps [simp]: "bind_res (Inl e) f = Inl e" "bind_res (Inr x) f = f x"
  by (simp_all add: bind_res_def)

lemma on_some_None [simp]: "on_some p f = None \<longleftrightarrow> (\<forall>x. p = Some x \<longrightarrow> f x = None)"
  by (simp add: on_some_def split: option.splits)

lemma on_some_simps [simp]: "on_some None f = None" "on_some (Some x) f = f x"
  by (simp_all add: on_some_def)

section \<open>Loops that stop at the first bad element\<close>

text \<open>\<open>check_each f i xs\<close>: \<^verbatim>\<open>for i, x := range xs { if err := f(i, x); err != nil { return err } }\<close>\<close>

fun check_each :: "(nat \<Rightarrow> 'a \<Rightarrow> 'e option) \<Rightarrow> nat \<Rightarrow> 'a list \<Rightarrow> 'e option" where
  "check_each f i [] = None"
| "check_each f i (x # xs) = first_error [f i x, check_each f (Suc i) xs]"

text \<open>
  \<open>check_unique\<close>: the same loop with a \<^verbatim>\<open>seen\<close> set of keys. Each element is checked by \<open>pre\<close>,
  then its key is looked up and recorded, then it is checked by \<open>post\<close>.
\<close>

fun check_unique :: "('a \<Rightarrow> 'k) \<Rightarrow> (nat \<Rightarrow> 'a \<Rightarrow> 'e option) \<Rightarrow> (nat \<Rightarrow> 'e) \<Rightarrow>
    (nat \<Rightarrow> 'a \<Rightarrow> 'e option) \<Rightarrow> 'k list \<Rightarrow> nat \<Rightarrow> 'a list \<Rightarrow> 'e option" where
  "check_unique key pre dup post seen i [] = None"
| "check_unique key pre dup post seen i (x # xs) =
     first_error [pre i x, fail_if (key x \<in> set seen) (dup i), post i x,
                  check_unique key pre dup post (key x # seen) (Suc i) xs]"

lemma check_each_None:
  "(\<And>i x. f i x = None \<longleftrightarrow> P x) \<Longrightarrow> check_each f i xs = None \<longleftrightarrow> (\<forall>x\<in>set xs. P x)"
  by (induction xs arbitrary: i) simp_all

lemma check_unique_None:
  assumes "\<And>i x. pre i x = None \<longleftrightarrow> P x" and "\<And>i x. post i x = None \<longleftrightarrow> Q x"
  shows "check_unique key pre dup post seen i xs = None \<longleftrightarrow>
    (\<forall>x\<in>set xs. P x \<and> Q x) \<and> distinct (map key xs) \<and> set (map key xs) \<inter> set seen = {}"
  using assms by (induction xs arbitrary: seen i) (auto)

section \<open>Strings\<close>

text \<open>The decimal rendering that \<^verbatim>\<open>fmt.Sprintf("%s[%d]", field, i)\<close> puts into a field path.\<close>

definition digit_char :: "nat \<Rightarrow> char" where
  "digit_char d = char_of (48 + d)"

fun dec :: "nat \<Rightarrow> string" where
  "dec n = (if n < 10 then [digit_char n] else dec (n div 10) @ [digit_char (n mod 10)])"

declare dec.simps [simp del]

definition indexed :: "string \<Rightarrow> nat \<Rightarrow> string" where
  "indexed field i = field @ ''['' @ dec i @ '']''"

text \<open>
  \<^verbatim>\<open>strings.TrimSpace\<close>: the UTF-8 encodings of the runes for which \<^verbatim>\<open>unicode.IsSpace\<close> holds are
  removed from both ends. The first six are ASCII; then U+0085, U+00A0, U+1680, U+2000 to U+200A,
  U+2028, U+2029, U+202F, U+205F and U+3000.
\<close>

definition bytes :: "nat list \<Rightarrow> string" where
  "bytes = map char_of"

definition space_encodings :: "string list" where
  "space_encodings = map bytes
    ([[9], [10], [11], [12], [13], [32], [194, 133], [194, 160], [225, 154, 128]]
     @ map (\<lambda>b. [226, 128, b]) [128 ..< 139]
     @ [[226, 128, 168], [226, 128, 169], [226, 128, 175], [226, 129, 159], [227, 128, 128]])"

fun strip_prefix :: "'a list \<Rightarrow> 'a list \<Rightarrow> 'a list option" where
  "strip_prefix [] ys = Some ys"
| "strip_prefix (x # xs) [] = None"
| "strip_prefix (x # xs) (y # ys) = (if x = y then strip_prefix xs ys else None)"

fun strip_any :: "'a list list \<Rightarrow> 'a list \<Rightarrow> 'a list option" where
  "strip_any [] s = None"
| "strip_any (p # ps) s = (case strip_prefix p s of Some r \<Rightarrow> Some r | None \<Rightarrow> strip_any ps s)"

lemma strip_prefix_Some: "strip_prefix p s = Some r \<longleftrightarrow> s = p @ r"
  by (induction p s rule: strip_prefix.induct) auto

lemma strip_any_Some: "strip_any ps s = Some r \<Longrightarrow> \<exists>p\<in>set ps. s = p @ r"
  by (induction ps) (auto simp: strip_prefix_Some split: option.splits)

function trim_left :: "string list \<Rightarrow> string \<Rightarrow> string" where
  "trim_left ps s = (case strip_any ps s of
     None \<Rightarrow> s
   | Some r \<Rightarrow> if length r < length s then trim_left ps r else s)"
  by pat_completeness auto
termination
  by (relation "measure (\<lambda>(ps, s). length s)") auto

declare trim_left.simps [simp del]

definition trim_space :: "string \<Rightarrow> string" where
  "trim_space s = rev (trim_left (map rev space_encodings) (rev (trim_left space_encodings s)))"

text \<open>\<^verbatim>\<open>strings.TrimSpace(s) == ""\<close>\<close>

definition blank :: "string \<Rightarrow> bool" where
  "blank s \<longleftrightarrow> trim_space s = []"

lemma trim_left_suffix: "\<exists>p. s = p @ trim_left ps s"
proof (induction ps s rule: trim_left.induct)
  case (1 ps s)
  show ?case
  proof (cases "strip_any ps s")
    case None
    then show ?thesis by (simp add: trim_left.simps [of ps s])
  next
    case (Some r)
    show ?thesis
    proof (cases "length r < length s")
      case True
      with "1" Some obtain q where "r = q @ trim_left ps r" by auto
      moreover obtain p where "s = p @ r" using Some strip_any_Some by blast
      moreover have "trim_left ps s = trim_left ps r"
        using Some True by (simp add: trim_left.simps [of ps s])
      ultimately show ?thesis by (metis append.assoc)
    next
      case False
      with Some show ?thesis by (simp add: trim_left.simps [of ps s])
    qed
  qed
qed

text \<open>Trimming keeps a contiguous middle part of the string.\<close>

lemma trim_space_infix: "\<exists>p q. s = p @ trim_space s @ q"
proof -
  obtain p where p: "s = p @ trim_left space_encodings s"
    using trim_left_suffix by blast
  let ?t = "trim_left space_encodings s"
  obtain q where "rev ?t = q @ trim_left (map rev space_encodings) (rev ?t)"
    using trim_left_suffix by blast
  then have "rev (rev ?t) = trim_space s @ rev q"
    unfolding trim_space_def by (metis rev_append)
  then show ?thesis
    using p by (metis rev_rev_ident)
qed

lemma blank_Nil [simp]: "blank []"
  by (metis Nil_is_append_conv blank_def trim_space_infix)

lemma not_blank_nonempty: "\<not> blank s \<Longrightarrow> s \<noteq> []"
  by auto

definition is_alnum :: "char \<Rightarrow> bool" where
  "is_alnum c = (let n = of_char c :: nat
     in (65 \<le> n \<and> n \<le> 90) \<or> (97 \<le> n \<and> n \<le> 122) \<or> (48 \<le> n \<and> n \<le> 57))"

text \<open>\<^verbatim>\<open>[A-Za-z0-9._:/-]\<close>\<close>

definition is_ident_char :: "char \<Rightarrow> bool" where
  "is_ident_char c \<longleftrightarrow> is_alnum c \<or> c \<in> set ''._:/-''"

text \<open>\<^verbatim>\<open>[a-f0-9]\<close>\<close>

definition is_lower_hex :: "char \<Rightarrow> bool" where
  "is_lower_hex c = (let n = of_char c :: nat in (97 \<le> n \<and> n \<le> 102) \<or> (48 \<le> n \<and> n \<le> 57))"

text \<open>A string with a letter or digit in it is not blank: no space encoding uses such a byte.\<close>

lemma trim_left_keeps:
  "c \<in> set s \<Longrightarrow> \<forall>p\<in>set ps. c \<notin> set p \<Longrightarrow> c \<in> set (trim_left ps s)"
proof (induction ps s rule: trim_left.induct)
  case (1 ps s)
  show ?case
  proof (cases "strip_any ps s")
    case None
    with "1.prems" show ?thesis by (simp add: trim_left.simps [of ps s])
  next
    case (Some r)
    then obtain p where p: "p \<in> set ps" "s = p @ r" using strip_any_Some by blast
    with "1.prems" have "c \<in> set r" by auto
    with "1" Some show ?thesis by (simp add: trim_left.simps [of ps s])
  qed
qed

lemma space_encodings_not_alnum: "\<forall>b\<in>set (concat space_encodings). \<not> is_alnum b"
  by code_simp

lemma not_blankI:
  assumes "c \<in> set s" and "is_alnum c"
  shows "\<not> blank s"
proof -
  have *: "\<forall>p\<in>set space_encodings. c \<notin> set p"
    using space_encodings_not_alnum assms(2) by auto
  then have "c \<in> set (rev (trim_left space_encodings s))"
    using trim_left_keeps assms(1) by simp
  with * have "c \<in> set (trim_left (map rev space_encodings) (rev (trim_left space_encodings s)))"
    by (intro trim_left_keeps) simp_all
  then show ?thesis by (auto simp: blank_def trim_space_def)
qed

lemma not_blank_Cons [example_simps]: "is_alnum c \<Longrightarrow> \<not> blank (c # s)"
  by (rule not_blankI [of c]) simp_all

text \<open>A string that begins and ends with a letter or digit is trimmed to itself.\<close>

lemma trim_left_id:
  assumes "c \<notin> set (concat ps)" and "[] \<notin> set ps"
  shows "trim_left ps (c # s) = c # s"
proof -
  have "strip_any ps (c # s) = None"
  proof (rule ccontr)
    assume "strip_any ps (c # s) \<noteq> None"
    then obtain r p where p: "p \<in> set ps" "c # s = p @ r" using strip_any_Some by blast
    then have "p \<noteq> []" using assms(2) by blast
    with p(2) have "c \<in> set p" by (cases p) auto
    with p(1) assms(1) show False by auto
  qed
  then show ?thesis by (simp add: trim_left.simps)
qed

lemma trim_space_id:
  assumes "is_alnum c" and "is_alnum d"
  shows "trim_space (c # s @ [d]) = c # s @ [d]"
proof -
  have n: "[] \<notin> set space_encodings" by (simp add: space_encodings_def bytes_def)
  have e: "b \<notin> set (concat space_encodings)" if "is_alnum b" for b
    using space_encodings_not_alnum that by blast
  then have e': "b \<notin> set (concat (map rev space_encodings))" if "is_alnum b" for b
    using that by simp
  have "[] \<noteq> rev x" if "x \<in> set space_encodings" for x using n that by (cases x) auto
  then have n': "[] \<notin> set (map rev space_encodings)" by (metis imageE list.set_map)
  have "trim_left (map rev space_encodings) (d # rev (c # s)) = d # rev (c # s)"
    by (rule trim_left_id [OF e' [OF assms(2)] n'])
  then show ?thesis
    unfolding trim_space_def trim_left_id [OF e [OF assms(1)] n] by simp
qed

section \<open>Positions in a list\<close>

text \<open>The first index whose element satisfies a predicate (\<^const>\<open>None\<close> is the loops' \<^verbatim>\<open>-1\<close>), and
  the list without one index.\<close>

fun find_index :: "('a \<Rightarrow> bool) \<Rightarrow> 'a list \<Rightarrow> nat option" where
  "find_index P [] = None"
| "find_index P (x # xs) = (if P x then Some 0 else map_option Suc (find_index P xs))"

definition remove_at :: "nat \<Rightarrow> 'a list \<Rightarrow> 'a list" where
  "remove_at i xs = take i xs @ drop (Suc i) xs"

lemma find_index_None [simp]: "find_index P xs = None \<longleftrightarrow> (\<forall>x\<in>set xs. \<not> P x)"
  by (induction xs) auto

lemma find_index_Some:
  "find_index P xs = Some i \<Longrightarrow> i < length xs \<and> P (xs ! i) \<and> (\<forall>j<i. \<not> P (xs ! j))"
proof (induction xs arbitrary: i)
  case Nil
  then show ?case by simp
next
  case (Cons x xs)
  then show ?case by (auto simp: less_Suc_eq_0_disj split: if_splits)
qed

lemma map_remove_at: "map f (remove_at i xs) = remove_at i (map f xs)"
  by (simp add: remove_at_def take_map drop_map)

lemma set_remove_at_subset: "set (remove_at i xs) \<subseteq> set xs"
  by (auto simp: remove_at_def dest: in_set_takeD in_set_dropD)

lemma distinct_remove_at: "distinct xs \<Longrightarrow> distinct (remove_at i xs)"
  unfolding remove_at_def
  by (metis append_take_drop_id distinct_append drop_drop plus_1_eq_Suc set_drop_subset
      disjoint_iff subsetD distinct_drop)

lemma length_remove_at: "i < length xs \<Longrightarrow> length (remove_at i xs) = length xs - 1"
  by (simp add: remove_at_def)

lemma remove_at_split: "i < length xs \<Longrightarrow> xs = take i xs @ xs ! i # drop (Suc i) xs"
  by (rule id_take_nth_drop)

lemma distinct_remove_at_nth: "distinct xs \<Longrightarrow> i < length xs \<Longrightarrow> xs ! i \<notin> set (remove_at i xs)"
proof -
  assume a: "distinct xs" "i < length xs"
  have "distinct (take i xs @ xs ! i # drop (Suc i) xs)"
    using a remove_at_split by metis
  then show ?thesis by (auto simp: remove_at_def)
qed

lemma map_list_update_same: "i < length xs \<Longrightarrow> f y = f (xs ! i) \<Longrightarrow> map f (xs[i := y]) = map f xs"
  by (metis list_update_id map_update nth_map)

end
