(* ===== verification/Kernel_Types.thy ===== *)
theory Kernel_Types
  imports Go_Prelude
begin

text \<open>
  The data model of the run kernel: \<^verbatim>\<open>internal/kernel/model/types.go\<close>, the stable errors of
  \<^verbatim>\<open>errors.go\<close> and the execution status of \<^verbatim>\<open>transaction_types.go\<close>.

  A Go string enumeration becomes a datatype with one constructor per declared constant and one
  more for any other string the field may hold, since decoding does not restrict it. A struct
  becomes a record whose selectors carry a prefix and the source's field name. A pointer field
  is an option. A \<^verbatim>\<open>json.RawMessage\<close> holds either the text of one JSON object or other text;
  a run event's payload is the value that strict decoding at the event's own type gives, or the
  reason why it gives none.
\<close>

section \<open>Errors\<close>

datatype ErrorCode =
    ErrorSchemaInvalid | ErrorUnknownField | ErrorIdentityInvalid | ErrorTransitionInvalid
  | ErrorEventSequence | ErrorEventChain | ErrorCapabilityDenied | ErrorCapabilityExpired
  | ErrorCapabilityRevoked | ErrorDelegationExceeded | ErrorApprovalRequired
  | ErrorApprovalInvalid | ErrorBudgetExceeded | ErrorActionUnknown
  | ErrorCheckpointIncompatible | ErrorNotFound | ErrorConflict | ErrorIdempotencyConflict
  | ErrorDriverUnavailable | ErrorTransactionConflict | ErrorEffectSequence
  | ErrorVerificationFailed | ErrorPartialCommit | ErrorInternal

text \<open>The human-readable message and the wrapped cause are not kept.\<close>

datatype KernelError =
  KernelError (ke_Code: ErrorCode) (ke_Operation: string) (ke_Resource: string) (ke_Field: string)

definition newError :: "ErrorCode \<Rightarrow> string \<Rightarrow> string \<Rightarrow> string \<Rightarrow> KernelError" where
  "newError code operation resource field = KernelError code operation resource field"

section \<open>Enumerations\<close>

datatype PrincipalKind =
    PrincipalHuman | PrincipalService | PrincipalAgent | PrincipalRun | PrincipalOperator
  | OtherPrincipalKind string

datatype RunState =
    RunCreated | RunAdmitted | RunRunning | RunWaitingForEvent | RunWaitingForAgent
  | RunWaitingForApproval | RunBlocked | RunFailed | RunCancelled | RunCompleted
  | OtherRunState string

fun RunState_Terminal :: "RunState \<Rightarrow> bool" where
  "RunState_Terminal RunFailed = True"
| "RunState_Terminal RunCancelled = True"
| "RunState_Terminal RunCompleted = True"
| "RunState_Terminal _ = False"

datatype PolicyDecisionKind =
    DecisionAllow | DecisionDeny | DecisionRequireApproval | DecisionConstrain
  | DecisionPause | DecisionTerminate | OtherDecision string

datatype PolicySubjectType =
    SubjectRun | SubjectAction | SubjectDelegation | SubjectCheckpoint | SubjectRelease
  | OtherSubject string

datatype AgentExecutionStatus =
    AgentExecutionRunning | AgentExecutionSucceeded | AgentExecutionFailed
  | AgentExecutionInterrupted | AgentExecutionStartFailed | OtherExecutionStatus string

fun AgentExecutionStatus_Terminal :: "AgentExecutionStatus \<Rightarrow> bool" where
  "AgentExecutionStatus_Terminal AgentExecutionSucceeded = True"
| "AgentExecutionStatus_Terminal AgentExecutionFailed = True"
| "AgentExecutionStatus_Terminal AgentExecutionInterrupted = True"
| "AgentExecutionStatus_Terminal AgentExecutionStartFailed = True"
| "AgentExecutionStatus_Terminal _ = False"

section \<open>Shared structures\<close>

datatype raw_json = RawObject string | RawOther string

record Principal =
  pr_ID :: string
  pr_Kind :: PrincipalKind
  pr_Issuer :: string
  pr_ClaimsDigest :: string

record ArtifactRef =
  ref_URI :: string
  ref_Digest :: string
  ref_MediaType :: string

record ResourceSelector =
  rs_Kind :: string
  rs_Pattern :: string

record BudgetLimits =
  MaxInputTokens :: "int64 option"
  MaxOutputTokens :: "int64 option"
  MaxModelCalls :: "int64 option"
  MaxToolCalls :: "int64 option"
  MaxCostMicros :: "int64 option"
  MaxWallTimeSeconds :: "int64 option"

record BudgetUsage =
  InputTokens :: int64
  OutputTokens :: int64
  ModelCalls :: int64
  ToolCalls :: int64
  CostMicros :: int64
  WallTimeSeconds :: int64

record RuntimeBinding =
  rb_Adapter :: string
  rb_AdapterVersion :: string
  rb_LeaseID :: string
  rb_LeaseExpiresAt :: "time option"

section \<open>Images and contracts\<close>

record AgentRuntime =
  rt_Adapter :: string
  rt_AdapterVersion :: string
  rt_Entrypoint :: "string list"

record ModelRequirement =
  mr_Provider :: string
  mr_Name :: string

record ToolDeclaration =
  td_Name :: string
  td_Driver :: string
  td_Operations :: "string list"

record AgentImage =
  im_Version :: string
  im_ID :: string
  im_Digest :: string
  im_Runtime :: AgentRuntime
  im_Models :: "ModelRequirement list"
  im_Instructions :: "ArtifactRef list"
  im_Tools :: "ToolDeclaration list"
  im_ContractRefs :: "string list"
  im_SourceDigest :: string
  im_Publisher :: Principal
  im_Signature :: "ArtifactRef option"

record CapabilityConditions =
  cc_ApprovalRequired :: bool
  cc_WorkspaceRoot :: string
  cc_EnvironmentAllow :: "string list"
  cc_DataClassifications :: "string list"
  cc_MaxOutputBytes :: "int64 option"

record ContractResource =
  cr_ID :: string
  cr_Selector :: ResourceSelector
  cr_Operations :: "string list"
  cr_Conditions :: CapabilityConditions

record CheckpointRequirement =
  cq_ID :: string
  cq_Trigger :: string
  cq_ApprovalRequired :: bool
  cq_RequiredEvidence :: "string list"

record ContractObligation =
  co_ID :: string
  co_Kind :: string
  co_RequiredEvidence :: string

record EscalationPolicy =
  ep_Owner :: Principal
  ep_TimeoutSeconds :: "int64 option"
  ep_OnTimeout :: string

record ExecutionContract =
  ec_Version :: string
  ec_ID :: string
  ec_Digest :: string
  ec_Owner :: Principal
  ec_Goal :: string
  ec_NonGoals :: "string list"
  ec_Risk :: string
  ec_Resources :: "ContractResource list"
  ec_Budgets :: BudgetLimits
  ec_Deadline :: "time option"
  ec_MaxChildDepth :: "int64 option"
  ec_MaxChildren :: "int64 option"
  ec_Checkpoints :: "CheckpointRequirement list"
  ec_Obligations :: "ContractObligation list"
  ec_Escalation :: "EscalationPolicy option"
  ec_ReleaseContractRef :: string

section \<open>Runs, grants and action requests\<close>

record AgentRun =
  ar_Version :: string
  ar_ID :: string
  ar_Namespace :: string
  ar_ImageDigest :: string
  ar_ContractDigest :: string
  ar_Principal :: Principal
  ar_DelegationChain :: "Principal list"
  ar_ParentRunID :: string
  ar_State :: RunState
  ar_StateReason :: string
  ar_Priority :: int64
  ar_Deadline :: "time option"
  ar_BudgetLimits :: BudgetLimits
  ar_BudgetUsage :: BudgetUsage
  ar_Workspace :: string
  ar_Runtime :: "RuntimeBinding option"
  ar_ActiveExecutionID :: string
  ar_CapabilityIDs :: "string list"
  ar_CheckpointID :: string
  ar_OutstandingApprovalIDs :: "string list"
  ar_EventSequence :: int64
  ar_CreatedAt :: time
  ar_UpdatedAt :: time
  ar_CompletedAt :: "time option"

record CapabilityGrant =
  cg_Version :: string
  cg_ID :: string
  cg_SubjectRunID :: string
  cg_Issuer :: Principal
  cg_Resource :: ResourceSelector
  cg_Operations :: "string list"
  cg_Conditions :: CapabilityConditions
  cg_Delegable :: bool
  cg_DelegationParentID :: string
  cg_IssuedAt :: time
  cg_ExpiresAt :: time
  cg_RevokedAt :: "time option"
  cg_MaxUses :: "int64 option"
  cg_Uses :: int64
  cg_PolicyDecisionID :: string

record ActionRequest =
  aq_Version :: string
  aq_ID :: string
  aq_RunID :: string
  aq_Operation :: string
  aq_Resource :: ResourceSelector
  aq_Arguments :: raw_json
  aq_ArgumentsDigest :: string
  aq_IdempotencyKey :: string
  aq_Intent :: string
  aq_CapabilityHint :: string
  aq_RequestedAt :: time
  aq_ParentActionID :: string
  aq_Attempt :: int64

section \<open>Checkpoints and policy decisions\<close>

record Checkpoint =
  ck_Version :: string
  ck_ID :: string
  ck_RunID :: string
  ck_EventSequence :: int64
  ck_ImageDigest :: string
  ck_ContractDigest :: string
  ck_Runtime :: RuntimeBinding
  ck_CreatedAt :: time
  ck_StateRef :: ArtifactRef
  ck_StateDigest :: string
  ck_MemoryRefs :: "ArtifactRef list"
  ck_WorkspaceRef :: "ArtifactRef option"
  ck_PendingActionIDs :: "string list"
  ck_CompatibleAdapterVersions :: "string list"

text \<open>A value of type \<^verbatim>\<open>any\<close>: the scalar kinds the validator lists, or anything else.\<close>

datatype any_value = AnyNil | AnyString string | AnyBool bool | AnyNumber string | AnyComposite

record PolicyDecision =
  pd_Version :: string
  pd_ID :: string
  pd_RunID :: string
  pd_SubjectType :: PolicySubjectType
  pd_SubjectID :: string
  pd_Decision :: PolicyDecisionKind
  pd_PolicyDigest :: string
  pd_FactsDigest :: string
  pd_RulesFired :: "string list"
  pd_Reasons :: "string list"
  pd_Constraints :: "(string \<times> any_value) list"
  pd_EvaluatedAt :: time

section \<open>Run events and their payloads\<close>

record RunStateChangedPayload =
  sc_From :: RunState
  sc_To :: RunState
  sc_Reason :: string

record RunExecutionStartedPayload =
  xs_TransactionID :: string
  xs_ExecutionID :: string
  xs_Attempt :: int64

record RunExecutionFinishedPayload =
  xf_TransactionID :: string
  xf_ExecutionID :: string
  xf_Attempt :: int64
  xf_Status :: AgentExecutionStatus
  xf_Usage :: BudgetUsage

record CapabilitiesGrantedPayload =
  gp_ContractDigest :: string
  gp_Grants :: "CapabilityGrant list"

record ActionDecisionPayload =
  dp_ActionID :: string
  dp_Decision :: PolicyDecisionKind
  dp_CapabilityID :: string
  dp_Reason :: string
  dp_ErrorCode :: string

record ActionExecutingPayload =
  xp_ActionID :: string
  xp_CapabilityID :: string

record ActionResultPayload =
  rp_ActionID :: string
  rp_CapabilityID :: string
  rp_Status :: string
  rp_ResultDigest :: string
  rp_OutputBytes :: int64
  rp_ErrorCode :: string
  rp_Reason :: string

text \<open>
  Why a payload text does not decode strictly: it is not one JSON object, it has an undeclared
  field, or a field has the wrong type.
\<close>

datatype json_fault = NotOneObject | UnknownField | WrongType

datatype RunPayload =
    RunCreatedPayload AgentRun
  | RunStateChanged RunStateChangedPayload
  | RunExecutionStarted RunExecutionStartedPayload
  | RunExecutionFinished RunExecutionFinishedPayload
  | CapabilitiesGranted CapabilitiesGrantedPayload
  | ActionRequestedPayload ActionRequest
  | ActionDecision ActionDecisionPayload
  | ActionExecuting ActionExecutingPayload
  | ActionResult ActionResultPayload
  | Undecodable json_fault

datatype RunEventType =
    EventRunCreated | EventRunStateChanged | EventRunExecutionStarted
  | EventRunExecutionFinished | EventCapabilitiesGranted | EventActionRequested
  | EventActionDenied | EventActionApprovalRequired | EventActionAuthorized
  | EventActionExecuting | EventActionCommitted | EventActionFailed | EventActionUnknown
  | OtherRunEvent string

fun RunEventType_name :: "RunEventType \<Rightarrow> string" where
  "RunEventType_name EventRunCreated = ''run.created''"
| "RunEventType_name EventRunStateChanged = ''run.state_changed''"
| "RunEventType_name EventRunExecutionStarted = ''run.execution_started''"
| "RunEventType_name EventRunExecutionFinished = ''run.execution_finished''"
| "RunEventType_name EventCapabilitiesGranted = ''capabilities.granted''"
| "RunEventType_name EventActionRequested = ''action.requested''"
| "RunEventType_name EventActionDenied = ''action.denied''"
| "RunEventType_name EventActionApprovalRequired = ''action.approval_required''"
| "RunEventType_name EventActionAuthorized = ''action.authorized''"
| "RunEventType_name EventActionExecuting = ''action.executing''"
| "RunEventType_name EventActionCommitted = ''action.committed''"
| "RunEventType_name EventActionFailed = ''action.failed''"
| "RunEventType_name EventActionUnknown = ''action.unknown''"
| "RunEventType_name (OtherRunEvent s) = s"

record RunEvent =
  ev_Version :: string
  ev_ID :: string
  ev_RunID :: string
  ev_Sequence :: int64
  ev_Type :: RunEventType
  ev_Actor :: Principal
  ev_OccurredAt :: time
  ev_Payload :: RunPayload
  ev_Artifacts :: "ArtifactRef list"
  ev_PolicyDecisionID :: string
  ev_PreviousDigest :: string
  ev_Digest :: string

end
