(* ===== verification/Kernel_Validate.thy ===== *)
theory Kernel_Validate
  imports Kernel_Types "HOL-Library.List_Lexorder" "HOL-Library.Char_ord"
begin

text \<open>
  Structural validation of the run kernel's resources: \<^verbatim>\<open>internal/kernel/model/validate.go\<close>.
  Every \<^verbatim>\<open>Validate\<close> method returns the first error of its ladder of checks, in source order, as
  a \<^typ>\<open>KernelError option\<close>. The collection \<open>validate_simps\<close> says what the shared helpers accept;
  the lemmas at the end say what a valid resource guarantees to the components that use it.
\<close>

section \<open>Patterns\<close>

text \<open>\<^verbatim>\<open>^[A-Za-z0-9][A-Za-z0-9._:/-]{0,255}$\<close>\<close>

definition IsIdentifier :: "string \<Rightarrow> bool" where
  "IsIdentifier value = (case value of
     [] \<Rightarrow> False
   | c # cs \<Rightarrow> is_alnum c \<and> list_all is_ident_char cs \<and> length cs \<le> 255)"

definition hex_suffix :: "string \<Rightarrow> string \<Rightarrow> bool" where
  "hex_suffix prefix value = (case strip_prefix prefix value of
     None \<Rightarrow> False
   | Some r \<Rightarrow> length r = 64 \<and> list_all is_lower_hex r)"

text \<open>\<^verbatim>\<open>^sha256:[a-f0-9]{64}$\<close> and \<^verbatim>\<open>^runtime:[a-f0-9]{64}$\<close>\<close>

definition IsSHA256Digest :: "string \<Rightarrow> bool" where
  "IsSHA256Digest value = hex_suffix ''sha256:'' value"

definition IsRuntimeID :: "string \<Rightarrow> bool" where
  "IsRuntimeID value = hex_suffix ''runtime:'' value"

definition IsEnforcementProfile :: "string \<Rightarrow> bool" where
  "IsEnforcementProfile value \<longleftrightarrow> value = ''development'' \<or> value = ''production''"

section \<open>Shared helpers\<close>

definition invalid :: "string \<Rightarrow> string \<Rightarrow> KernelError" where
  "invalid resource field = newError ErrorSchemaInvalid ''validate'' resource field"

definition identityInvalid :: "string \<Rightarrow> string \<Rightarrow> KernelError" where
  "identityInvalid resource field = newError ErrorIdentityInvalid ''validate'' resource field"

definition validateVersion :: "string \<Rightarrow> string \<Rightarrow> string \<Rightarrow> KernelError option" where
  "validateVersion resource actual expected =
     fail_if (actual \<noteq> expected) (invalid resource ''version'')"

definition validateIdentifier :: "string \<Rightarrow> string \<Rightarrow> string \<Rightarrow> KernelError option" where
  "validateIdentifier resource field value =
     fail_if (\<not> IsIdentifier value) (invalid resource field)"

definition validateDigest :: "string \<Rightarrow> string \<Rightarrow> string \<Rightarrow> KernelError option" where
  "validateDigest resource field value =
     fail_if (\<not> IsSHA256Digest value) (invalid resource field)"

fun known_principal_kind :: "PrincipalKind \<Rightarrow> bool" where
  "known_principal_kind (OtherPrincipalKind _) = False"
| "known_principal_kind _ = True"

definition validatePrincipal :: "string \<Rightarrow> string \<Rightarrow> Principal \<Rightarrow> KernelError option" where
  "validatePrincipal resource field prin = first_error
     [map_option (\<lambda>_. identityInvalid resource (field @ ''.id''))
        (validateIdentifier resource (field @ ''.id'') (pr_ID prin)),
      fail_if (\<not> known_principal_kind (pr_Kind prin))
        (identityInvalid resource (field @ ''.kind'')),
      (if pr_ClaimsDigest prin \<noteq> ''''
       then validateDigest resource (field @ ''.claims_digest'') (pr_ClaimsDigest prin)
       else None)]"

definition validateArtifactRef :: "string \<Rightarrow> string \<Rightarrow> ArtifactRef \<Rightarrow> KernelError option" where
  "validateArtifactRef resource field ref = first_error
     [fail_if (blank (ref_URI ref)) (invalid resource (field @ ''.uri'')),
      validateDigest resource (field @ ''.digest'') (ref_Digest ref)]"

definition validateResourceSelector :: "string \<Rightarrow> string \<Rightarrow> ResourceSelector \<Rightarrow> KernelError option" where
  "validateResourceSelector resource field selector = first_error
     [validateIdentifier resource (field @ ''.kind'') (rs_Kind selector),
      fail_if (blank (rs_Pattern selector)) (invalid resource (field @ ''.pattern''))]"

definition validateOptionalNonnegative :: "string \<Rightarrow> string \<Rightarrow> int64 option \<Rightarrow> KernelError option" where
  "validateOptionalNonnegative resource field value =
     on_some value (\<lambda>v. fail_if (v < 0) (invalid resource field))"

definition validateUniqueIdentifiers :: "string \<Rightarrow> string \<Rightarrow> string list \<Rightarrow> KernelError option" where
  "validateUniqueIdentifiers resource field values =
     check_unique (\<lambda>v. v) (\<lambda>i v. validateIdentifier resource (indexed field i) v)
       (\<lambda>_. invalid resource field) (\<lambda>_ _. None) [] 0 values"

definition validateUniqueNonempty :: "string \<Rightarrow> string \<Rightarrow> string list \<Rightarrow> KernelError option" where
  "validateUniqueNonempty resource field values =
     check_unique (\<lambda>v. v) (\<lambda>i v. fail_if (blank v) (invalid resource (indexed field i)))
       (\<lambda>_. invalid resource field) (\<lambda>_ _. None) [] 0 values"

definition validateConditions :: "string \<Rightarrow> string \<Rightarrow> CapabilityConditions \<Rightarrow> KernelError option" where
  "validateConditions resource field conditions = first_error
     [validateUniqueNonempty resource (field @ ''.environment_allowlist'')
        (cc_EnvironmentAllow conditions),
      validateUniqueNonempty resource (field @ ''.data_classifications'')
        (cc_DataClassifications conditions),
      validateOptionalNonnegative resource (field @ ''.max_output_bytes'')
        (cc_MaxOutputBytes conditions)]"

definition validateOperations :: "string \<Rightarrow> string \<Rightarrow> string list \<Rightarrow> KernelError option" where
  "validateOperations resource field values = first_error
     [fail_if (values = []) (invalid resource field),
      validateUniqueIdentifiers resource field values]"

definition validateBudgetLimits :: "string \<Rightarrow> string \<Rightarrow> BudgetLimits \<Rightarrow> KernelError option" where
  "validateBudgetLimits resource field limits = first_error
     (map (\<lambda>(name, value). validateOptionalNonnegative resource (field @ ''.'' @ name) value)
       [(''max_input_tokens'', MaxInputTokens limits),
        (''max_output_tokens'', MaxOutputTokens limits),
        (''max_model_calls'', MaxModelCalls limits),
        (''max_tool_calls'', MaxToolCalls limits),
        (''max_cost_micros'', MaxCostMicros limits),
        (''max_wall_time_seconds'', MaxWallTimeSeconds limits)])"

definition validateBudgetUsage ::
  "string \<Rightarrow> string \<Rightarrow> BudgetUsage \<Rightarrow> BudgetLimits \<Rightarrow> KernelError option" where
  "validateBudgetUsage resource field usage limits = first_error
     (map (\<lambda>(name, used, limit). first_error
          [fail_if (used < 0) (invalid resource (field @ ''.'' @ name)),
           on_some limit (\<lambda>l. fail_if (used > l)
             (newError ErrorBudgetExceeded ''validate'' resource (field @ ''.'' @ name)))])
       [(''input_tokens'', InputTokens usage, MaxInputTokens limits),
        (''output_tokens'', OutputTokens usage, MaxOutputTokens limits),
        (''model_calls'', ModelCalls usage, MaxModelCalls limits),
        (''tool_calls'', ToolCalls usage, MaxToolCalls limits),
        (''cost_micros'', CostMicros usage, MaxCostMicros limits),
        (''wall_time_seconds'', WallTimeSeconds usage, MaxWallTimeSeconds limits)])"

definition validateRuntimeBinding :: "string \<Rightarrow> string \<Rightarrow> RuntimeBinding \<Rightarrow> KernelError option" where
  "validateRuntimeBinding resource field runtime = first_error
     [validateIdentifier resource (field @ ''.adapter'') (rb_Adapter runtime),
      fail_if (blank (rb_AdapterVersion runtime)) (invalid resource (field @ ''.adapter_version'')),
      (if rb_LeaseID runtime \<noteq> '''' then first_error
         [validateIdentifier resource (field @ ''.lease_id'') (rb_LeaseID runtime),
          fail_if (rb_LeaseExpiresAt runtime = None \<or> rb_LeaseExpiresAt runtime = Some 0)
            (invalid resource (field @ ''.lease_expires_at''))]
       else fail_if (rb_LeaseExpiresAt runtime \<noteq> None) (invalid resource (field @ ''.lease_id'')))]"

fun validateJSONObject :: "string \<Rightarrow> string \<Rightarrow> raw_json \<Rightarrow> KernelError option" where
  "validateJSONObject resource field (RawObject _) = None"
| "validateJSONObject resource field (RawOther _) = Some (invalid resource field)"

definition validRisk :: "string \<Rightarrow> bool" where
  "validRisk value \<longleftrightarrow> value \<in> {''low'', ''medium'', ''high'', ''critical''}"

fun validRunState :: "RunState \<Rightarrow> bool" where
  "validRunState (OtherRunState _) = False"
| "validRunState _ = True"

definition stateRequiresReason :: "RunState \<Rightarrow> bool" where
  "stateRequiresReason state \<longleftrightarrow> state = RunBlocked \<or> state = RunFailed \<or> state = RunCancelled"

fun validDecision :: "PolicyDecisionKind \<Rightarrow> bool" where
  "validDecision (OtherDecision _) = False"
| "validDecision _ = True"

fun validSubjectType :: "PolicySubjectType \<Rightarrow> bool" where
  "validSubjectType (OtherSubject _) = False"
| "validSubjectType _ = True"

fun scalar_value :: "any_value \<Rightarrow> bool" where
  "scalar_value AnyComposite = False"
| "scalar_value _ = True"

section \<open>Resources\<close>

definition AgentImage_Validate :: "AgentImage \<Rightarrow> KernelError option" where
  "AgentImage_Validate img = (let resource = ''AgentImage'' in first_error
     [validateVersion resource (im_Version img) ''gatemole.agent_image.v0'',
      validateIdentifier resource ''id'' (im_ID img),
      validateDigest resource ''digest'' (im_Digest img),
      validateIdentifier resource ''runtime.adapter'' (rt_Adapter (im_Runtime img)),
      fail_if (rt_Entrypoint (im_Runtime img) = []) (invalid resource ''runtime.entrypoint''),
      check_each (\<lambda>i value. fail_if (blank value) (invalid resource (indexed ''runtime.entrypoint'' i)))
        0 (rt_Entrypoint (im_Runtime img)),
      check_each (\<lambda>i requirement. first_error
          [validateIdentifier resource (indexed ''models'' i @ ''.provider'') (mr_Provider requirement),
           fail_if (blank (mr_Name requirement)) (invalid resource (indexed ''models'' i @ ''.name''))])
        0 (im_Models img),
      check_each (\<lambda>i ref. validateArtifactRef resource (indexed ''instructions'' i) ref)
        0 (im_Instructions img),
      check_unique td_Name
        (\<lambda>i tool. validateIdentifier resource (indexed ''tools'' i @ ''.name'') (td_Name tool))
        (\<lambda>i. invalid resource (indexed ''tools'' i @ ''.name''))
        (\<lambda>i tool. first_error
          [validateIdentifier resource (indexed ''tools'' i @ ''.driver'') (td_Driver tool),
           validateOperations resource (indexed ''tools'' i @ ''.operations'') (td_Operations tool)])
        [] 0 (im_Tools img),
      validateUniqueIdentifiers resource ''contract_refs'' (im_ContractRefs img),
      validateDigest resource ''source_digest'' (im_SourceDigest img),
      validatePrincipal resource ''publisher'' (im_Publisher img),
      on_some (im_Signature img) (validateArtifactRef resource ''signature'')])"

definition ExecutionContract_Validate :: "ExecutionContract \<Rightarrow> KernelError option" where
  "ExecutionContract_Validate contract = (let resource = ''ExecutionContract'' in first_error
     [validateVersion resource (ec_Version contract) ''gatemole.execution_contract.v0'',
      validateIdentifier resource ''id'' (ec_ID contract),
      validateDigest resource ''digest'' (ec_Digest contract),
      validatePrincipal resource ''owner'' (ec_Owner contract),
      fail_if (blank (ec_Goal contract)) (invalid resource ''goal''),
      check_each (\<lambda>i value. fail_if (blank value) (invalid resource (indexed ''non_goals'' i)))
        0 (ec_NonGoals contract),
      fail_if (\<not> validRisk (ec_Risk contract)) (invalid resource ''risk''),
      check_unique cr_ID
        (\<lambda>i declared. validateIdentifier resource (indexed ''resources'' i @ ''.id'') (cr_ID declared))
        (\<lambda>i. invalid resource (indexed ''resources'' i @ ''.id''))
        (\<lambda>i declared. first_error
          [validateResourceSelector resource (indexed ''resources'' i @ ''.selector'') (cr_Selector declared),
           validateOperations resource (indexed ''resources'' i @ ''.operations'') (cr_Operations declared),
           validateConditions resource (indexed ''resources'' i @ ''.conditions'') (cr_Conditions declared)])
        [] 0 (ec_Resources contract),
      validateBudgetLimits resource ''budgets'' (ec_Budgets contract),
      fail_if (ec_Deadline contract = Some 0) (invalid resource ''deadline''),
      validateOptionalNonnegative resource ''max_child_depth'' (ec_MaxChildDepth contract),
      validateOptionalNonnegative resource ''max_children'' (ec_MaxChildren contract),
      check_unique cq_ID
        (\<lambda>i checkpoint. validateIdentifier resource (indexed ''checkpoints'' i @ ''.id'') (cq_ID checkpoint))
        (\<lambda>i. invalid resource (indexed ''checkpoints'' i @ ''.id''))
        (\<lambda>i checkpoint. first_error
          [fail_if (blank (cq_Trigger checkpoint)) (invalid resource (indexed ''checkpoints'' i @ ''.trigger'')),
           validateUniqueIdentifiers resource (indexed ''checkpoints'' i @ ''.required_evidence'')
             (cq_RequiredEvidence checkpoint)])
        [] 0 (ec_Checkpoints contract),
      check_unique co_ID
        (\<lambda>i obligation. validateIdentifier resource (indexed ''obligations'' i @ ''.id'') (co_ID obligation))
        (\<lambda>i. invalid resource (indexed ''obligations'' i @ ''.id''))
        (\<lambda>i obligation. first_error
          [validateIdentifier resource (indexed ''obligations'' i @ ''.kind'') (co_Kind obligation),
           validateIdentifier resource (indexed ''obligations'' i @ ''.required_evidence'')
             (co_RequiredEvidence obligation)])
        [] 0 (ec_Obligations contract),
      on_some (ec_Escalation contract) (\<lambda>escalation. first_error
        [validatePrincipal resource ''escalation.owner'' (ep_Owner escalation),
         validateOptionalNonnegative resource ''escalation.timeout_seconds'' (ep_TimeoutSeconds escalation),
         fail_if (ep_OnTimeout escalation \<notin> {''block'', ''cancel'', ''escalate''})
           (invalid resource ''escalation.on_timeout'')]),
      (if ec_ReleaseContractRef contract \<noteq> ''''
       then validateIdentifier resource ''release_contract_ref'' (ec_ReleaseContractRef contract)
       else None)])"

definition AgentRun_Validate :: "AgentRun \<Rightarrow> KernelError option" where
  "AgentRun_Validate run = (let resource = ''AgentRun'' in first_error
     [validateVersion resource (ar_Version run) ''gatemole.agent_run.v0'',
      validateIdentifier resource ''id'' (ar_ID run),
      validateIdentifier resource ''namespace'' (ar_Namespace run),
      validateDigest resource ''image_digest'' (ar_ImageDigest run),
      validateDigest resource ''contract_digest'' (ar_ContractDigest run),
      validatePrincipal resource ''principal'' (ar_Principal run),
      fail_if (pr_Kind (ar_Principal run) \<noteq> PrincipalRun \<or> pr_ID (ar_Principal run) \<noteq> ar_ID run)
        (identityInvalid resource ''principal''),
      check_each (\<lambda>i prin. validatePrincipal resource (indexed ''delegation_chain'' i) prin)
        0 (ar_DelegationChain run),
      (if ar_ParentRunID run \<noteq> ''''
       then validateIdentifier resource ''parent_run_id'' (ar_ParentRunID run) else None),
      fail_if (\<not> validRunState (ar_State run)) (invalid resource ''state''),
      fail_if (stateRequiresReason (ar_State run) \<and> blank (ar_StateReason run))
        (invalid resource ''state_reason''),
      fail_if (ar_Priority run < 0) (invalid resource ''priority''),
      fail_if (ar_Deadline run = Some 0) (invalid resource ''deadline''),
      validateBudgetLimits resource ''budget_limits'' (ar_BudgetLimits run),
      validateBudgetUsage resource ''budget_usage'' (ar_BudgetUsage run) (ar_BudgetLimits run),
      on_some (ar_Runtime run) (validateRuntimeBinding resource ''runtime''),
      (if ar_ActiveExecutionID run \<noteq> '''' then first_error
         [validateIdentifier resource ''active_execution_id'' (ar_ActiveExecutionID run),
          fail_if (ar_State run \<noteq> RunRunning) (invalid resource ''active_execution_id'')]
       else None),
      validateUniqueIdentifiers resource ''capability_ids'' (ar_CapabilityIDs run),
      (if ar_CheckpointID run \<noteq> ''''
       then validateIdentifier resource ''checkpoint_id'' (ar_CheckpointID run) else None),
      validateUniqueIdentifiers resource ''outstanding_approval_ids'' (ar_OutstandingApprovalIDs run),
      fail_if (ar_EventSequence run < 1) (invalid resource ''event_sequence''),
      fail_if (ar_CreatedAt run = 0 \<or> ar_UpdatedAt run = 0) (invalid resource ''created_at''),
      fail_if (ar_UpdatedAt run < ar_CreatedAt run) (invalid resource ''updated_at''),
      (if RunState_Terminal (ar_State run) then
         (case ar_CompletedAt run of
            None \<Rightarrow> Some (invalid resource ''completed_at'')
          | Some t \<Rightarrow> first_error
              [fail_if (t = 0) (invalid resource ''completed_at''),
               fail_if (t < ar_CreatedAt run) (invalid resource ''completed_at'')])
       else fail_if (ar_CompletedAt run \<noteq> None) (invalid resource ''completed_at''))])"

definition CapabilityGrant_Validate :: "CapabilityGrant \<Rightarrow> KernelError option" where
  "CapabilityGrant_Validate grant = (let resource = ''CapabilityGrant'' in first_error
     [validateVersion resource (cg_Version grant) ''gatemole.capability_grant.v0'',
      validateIdentifier resource ''id'' (cg_ID grant),
      validateIdentifier resource ''subject_run_id'' (cg_SubjectRunID grant),
      validatePrincipal resource ''issuer'' (cg_Issuer grant),
      validateResourceSelector resource ''resource'' (cg_Resource grant),
      validateOperations resource ''operations'' (cg_Operations grant),
      validateConditions resource ''conditions'' (cg_Conditions grant),
      (if cg_DelegationParentID grant \<noteq> ''''
       then validateIdentifier resource ''delegation_parent_id'' (cg_DelegationParentID grant)
       else None),
      fail_if (cg_IssuedAt grant = 0 \<or> cg_ExpiresAt grant = 0) (invalid resource ''issued_at''),
      fail_if (\<not> cg_ExpiresAt grant > cg_IssuedAt grant) (invalid resource ''expires_at''),
      on_some (cg_RevokedAt grant)
        (\<lambda>t. fail_if (t < cg_IssuedAt grant) (invalid resource ''revoked_at'')),
      fail_if (cg_Uses grant < 0) (invalid resource ''uses''),
      on_some (cg_MaxUses grant) (\<lambda>m. first_error
        [fail_if (m < 1) (invalid resource ''max_uses''),
         fail_if (cg_Uses grant > m) (invalid resource ''uses'')]),
      validateIdentifier resource ''policy_decision_id'' (cg_PolicyDecisionID grant)])"

definition ActionRequest_Validate :: "ActionRequest \<Rightarrow> KernelError option" where
  "ActionRequest_Validate request = (let resource = ''ActionRequest'' in first_error
     [validateVersion resource (aq_Version request) ''gatemole.action_request.v0'',
      validateIdentifier resource ''id'' (aq_ID request),
      validateIdentifier resource ''run_id'' (aq_RunID request),
      validateIdentifier resource ''operation'' (aq_Operation request),
      validateIdentifier resource ''idempotency_key'' (aq_IdempotencyKey request),
      validateResourceSelector resource ''resource'' (aq_Resource request),
      validateJSONObject resource ''arguments'' (aq_Arguments request),
      validateDigest resource ''arguments_digest'' (aq_ArgumentsDigest request),
      fail_if (blank (aq_Intent request)) (invalid resource ''intent''),
      (if aq_CapabilityHint request \<noteq> ''''
       then validateIdentifier resource ''capability_hint'' (aq_CapabilityHint request) else None),
      fail_if (aq_RequestedAt request = 0) (invalid resource ''requested_at''),
      (if aq_ParentActionID request \<noteq> ''''
       then validateIdentifier resource ''parent_action_id'' (aq_ParentActionID request) else None),
      fail_if (aq_Attempt request < 0) (invalid resource ''attempt'')])"

text \<open>The payload text of an event is one JSON object unless strict decoding found otherwise.\<close>

fun payload_json :: "RunPayload \<Rightarrow> raw_json" where
  "payload_json (Undecodable NotOneObject) = RawOther ''''"
| "payload_json _ = RawObject ''''"

definition RunEvent_Validate :: "RunEvent \<Rightarrow> KernelError option" where
  "RunEvent_Validate event = (let resource = ''RunEvent'' in first_error
     [validateVersion resource (ev_Version event) ''gatemole.run_event.v0'',
      validateIdentifier resource ''id'' (ev_ID event),
      validateIdentifier resource ''run_id'' (ev_RunID event),
      validateIdentifier resource ''type'' (RunEventType_name (ev_Type event)),
      fail_if (ev_Sequence event < 1) (newError ErrorEventSequence ''validate'' resource ''sequence''),
      validatePrincipal resource ''actor'' (ev_Actor event),
      fail_if (ev_OccurredAt event = 0) (invalid resource ''occurred_at''),
      validateJSONObject resource ''payload'' (payload_json (ev_Payload event)),
      check_each (\<lambda>i ref. validateArtifactRef resource (indexed ''artifacts'' i) ref)
        0 (ev_Artifacts event),
      (if ev_PolicyDecisionID event \<noteq> ''''
       then validateIdentifier resource ''policy_decision_id'' (ev_PolicyDecisionID event) else None),
      fail_if (ev_Sequence event = 1 \<and> ev_PreviousDigest event \<noteq> '''')
        (newError ErrorEventChain ''validate'' resource ''previous_digest''),
      (if ev_Sequence event > 1 then first_error
         [fail_if (ev_PreviousDigest event = '''')
            (newError ErrorEventChain ''validate'' resource ''previous_digest''),
          validateDigest resource ''previous_digest'' (ev_PreviousDigest event)]
       else None),
      validateDigest resource ''digest'' (ev_Digest event)])"

definition Checkpoint_Validate :: "Checkpoint \<Rightarrow> KernelError option" where
  "Checkpoint_Validate checkpoint = (let resource = ''Checkpoint'' in first_error
     [validateVersion resource (ck_Version checkpoint) ''gatemole.checkpoint.v0'',
      validateIdentifier resource ''id'' (ck_ID checkpoint),
      validateIdentifier resource ''run_id'' (ck_RunID checkpoint),
      fail_if (ck_EventSequence checkpoint < 1) (invalid resource ''event_sequence''),
      validateDigest resource ''image_digest'' (ck_ImageDigest checkpoint),
      validateDigest resource ''contract_digest'' (ck_ContractDigest checkpoint),
      validateRuntimeBinding resource ''runtime'' (ck_Runtime checkpoint),
      fail_if (ck_CreatedAt checkpoint = 0) (invalid resource ''created_at''),
      validateArtifactRef resource ''state_ref'' (ck_StateRef checkpoint),
      validateDigest resource ''state_digest'' (ck_StateDigest checkpoint),
      check_each (\<lambda>i ref. validateArtifactRef resource (indexed ''memory_refs'' i) ref)
        0 (ck_MemoryRefs checkpoint),
      on_some (ck_WorkspaceRef checkpoint) (validateArtifactRef resource ''workspace_ref''),
      validateUniqueIdentifiers resource ''pending_action_ids'' (ck_PendingActionIDs checkpoint),
      fail_if (ck_CompatibleAdapterVersions checkpoint = [])
        (invalid resource ''compatible_adapter_versions''),
      validateUniqueNonempty resource ''compatible_adapter_versions''
        (ck_CompatibleAdapterVersions checkpoint)])"

text \<open>The constraint map is visited in the order of its sorted keys.\<close>

definition PolicyDecision_Validate :: "PolicyDecision \<Rightarrow> KernelError option" where
  "PolicyDecision_Validate decision = (let resource = ''PolicyDecision'' in first_error
     [validateVersion resource (pd_Version decision) ''gatemole.policy_decision.v0'',
      validateIdentifier resource ''id'' (pd_ID decision),
      validateIdentifier resource ''run_id'' (pd_RunID decision),
      validateIdentifier resource ''subject_id'' (pd_SubjectID decision),
      fail_if (\<not> validSubjectType (pd_SubjectType decision)) (invalid resource ''subject_type''),
      fail_if (\<not> validDecision (pd_Decision decision)) (invalid resource ''decision''),
      validateDigest resource ''policy_digest'' (pd_PolicyDigest decision),
      validateDigest resource ''facts_digest'' (pd_FactsDigest decision),
      fail_if (pd_RulesFired decision = []) (invalid resource ''rules_fired''),
      validateUniqueIdentifiers resource ''rules_fired'' (pd_RulesFired decision),
      fail_if (pd_Reasons decision = []) (invalid resource ''reasons''),
      check_each (\<lambda>i reason. fail_if (blank reason) (invalid resource (indexed ''reasons'' i)))
        0 (pd_Reasons decision),
      check_each (\<lambda>_ (key, value). first_error
          [fail_if (blank key) (invalid resource ''constraints''),
           fail_if (\<not> scalar_value value) (invalid resource (''constraints.'' @ key))])
        0 (sort_key fst (pd_Constraints decision)),
      fail_if (pd_EvaluatedAt decision = 0) (invalid resource ''evaluated_at'')])"

section \<open>What the helpers accept\<close>

lemma validateVersion_None [validate_simps]:
  "validateVersion resource actual expected = None \<longleftrightarrow> actual = expected"
  by (simp add: validateVersion_def)

lemma validateIdentifier_None [validate_simps]:
  "validateIdentifier resource field value = None \<longleftrightarrow> IsIdentifier value"
  by (simp add: validateIdentifier_def)

lemma validateDigest_None [validate_simps]:
  "validateDigest resource field value = None \<longleftrightarrow> IsSHA256Digest value"
  by (simp add: validateDigest_def)

definition valid_principal :: "Principal \<Rightarrow> bool" where
  "valid_principal p \<longleftrightarrow> IsIdentifier (pr_ID p) \<and> known_principal_kind (pr_Kind p) \<and>
     (pr_ClaimsDigest p = '''' \<or> IsSHA256Digest (pr_ClaimsDigest p))"

lemma validatePrincipal_None [validate_simps]:
  "validatePrincipal resource field p = None \<longleftrightarrow> valid_principal p"
  by (auto simp: validatePrincipal_def valid_principal_def validate_simps)

lemma validateArtifactRef_None [validate_simps]:
  "validateArtifactRef resource field ref = None \<longleftrightarrow>
     \<not> blank (ref_URI ref) \<and> IsSHA256Digest (ref_Digest ref)"
  by (simp add: validateArtifactRef_def validate_simps)

lemma validateResourceSelector_None [validate_simps]:
  "validateResourceSelector resource field selector = None \<longleftrightarrow>
     IsIdentifier (rs_Kind selector) \<and> \<not> blank (rs_Pattern selector)"
  by (simp add: validateResourceSelector_def validate_simps)

lemma validateOptionalNonnegative_None [validate_simps]:
  "validateOptionalNonnegative resource field value = None \<longleftrightarrow> (\<forall>v. value = Some v \<longrightarrow> 0 \<le> v)"
  by (auto simp: validateOptionalNonnegative_def not_less)

lemma validateUniqueIdentifiers_None [validate_simps]:
  "validateUniqueIdentifiers resource field values = None \<longleftrightarrow>
     (\<forall>v\<in>set values. IsIdentifier v) \<and> distinct values"
  unfolding validateUniqueIdentifiers_def
  by (subst check_unique_None [where P = IsIdentifier and Q = "\<lambda>_. True"])
    (auto simp: validate_simps)

lemma validateUniqueNonempty_None [validate_simps]:
  "validateUniqueNonempty resource field values = None \<longleftrightarrow>
     (\<forall>v\<in>set values. \<not> blank v) \<and> distinct values"
  unfolding validateUniqueNonempty_def
  by (subst check_unique_None [where P = "\<lambda>v. \<not> blank v" and Q = "\<lambda>_. True"]) auto

definition valid_conditions :: "CapabilityConditions \<Rightarrow> bool" where
  "valid_conditions c \<longleftrightarrow>
     (\<forall>v\<in>set (cc_EnvironmentAllow c). \<not> blank v) \<and> distinct (cc_EnvironmentAllow c) \<and>
     (\<forall>v\<in>set (cc_DataClassifications c). \<not> blank v) \<and> distinct (cc_DataClassifications c) \<and>
     (\<forall>v. cc_MaxOutputBytes c = Some v \<longrightarrow> 0 \<le> v)"

lemma validateConditions_None [validate_simps]:
  "validateConditions resource field c = None \<longleftrightarrow> valid_conditions c"
  by (auto simp: validateConditions_def valid_conditions_def validate_simps)

lemma validateOperations_None [validate_simps]:
  "validateOperations resource field values = None \<longleftrightarrow>
     values \<noteq> [] \<and> (\<forall>v\<in>set values. IsIdentifier v) \<and> distinct values"
  by (simp add: validateOperations_def validate_simps)

text \<open>The limits a budget declares are nonnegative, and usage stays between zero and its limit.\<close>

definition limit_nonneg :: "int64 option \<Rightarrow> bool" where
  "limit_nonneg l \<longleftrightarrow> (\<forall>v. l = Some v \<longrightarrow> 0 \<le> v)"

definition within_limit :: "int64 \<Rightarrow> int64 option \<Rightarrow> bool" where
  "within_limit used limit \<longleftrightarrow> 0 \<le> used \<and> (\<forall>l. limit = Some l \<longrightarrow> used \<le> l)"

definition limits_nonneg :: "BudgetLimits \<Rightarrow> bool" where
  "limits_nonneg l \<longleftrightarrow> limit_nonneg (MaxInputTokens l) \<and> limit_nonneg (MaxOutputTokens l) \<and>
     limit_nonneg (MaxModelCalls l) \<and> limit_nonneg (MaxToolCalls l) \<and>
     limit_nonneg (MaxCostMicros l) \<and> limit_nonneg (MaxWallTimeSeconds l)"

definition within_limits :: "BudgetUsage \<Rightarrow> BudgetLimits \<Rightarrow> bool" where
  "within_limits u l \<longleftrightarrow> within_limit (InputTokens u) (MaxInputTokens l) \<and>
     within_limit (OutputTokens u) (MaxOutputTokens l) \<and>
     within_limit (ModelCalls u) (MaxModelCalls l) \<and> within_limit (ToolCalls u) (MaxToolCalls l) \<and>
     within_limit (CostMicros u) (MaxCostMicros l) \<and>
     within_limit (WallTimeSeconds u) (MaxWallTimeSeconds l)"

lemma validateBudgetLimits_None [validate_simps]:
  "validateBudgetLimits resource field l = None \<longleftrightarrow> limits_nonneg l"
  by (simp add: validateBudgetLimits_def validate_simps limits_nonneg_def limit_nonneg_def)

lemma validateBudgetUsage_None [validate_simps]:
  "validateBudgetUsage resource field u l = None \<longleftrightarrow> within_limits u l"
  by (simp add: validateBudgetUsage_def within_limits_def within_limit_def not_less)

lemma validateRuntimeBinding_None [validate_simps]:
  "validateRuntimeBinding resource field r = None \<longleftrightarrow>
     IsIdentifier (rb_Adapter r) \<and> \<not> blank (rb_AdapterVersion r) \<and>
     (if rb_LeaseID r = '''' then rb_LeaseExpiresAt r = None
      else IsIdentifier (rb_LeaseID r) \<and> rb_LeaseExpiresAt r \<noteq> None \<and> rb_LeaseExpiresAt r \<noteq> Some 0)"
  by (auto simp: validateRuntimeBinding_def validate_simps)

section \<open>What valid resources guarantee\<close>

definition valid_run :: "AgentRun \<Rightarrow> bool" where
  "valid_run run \<longleftrightarrow> AgentRun_Validate run = None"

lemmas AgentRun_Validate_unfold = valid_run_def AgentRun_Validate_def Let_def

lemma valid_run_identity:
  "valid_run run \<Longrightarrow> IsIdentifier (ar_ID run) \<and> IsIdentifier (ar_Namespace run) \<and>
     IsSHA256Digest (ar_ImageDigest run) \<and> IsSHA256Digest (ar_ContractDigest run) \<and>
     pr_Kind (ar_Principal run) = PrincipalRun \<and> pr_ID (ar_Principal run) = ar_ID run"
  by (simp add: AgentRun_Validate_unfold validate_simps)

lemma valid_run_state:
  "valid_run run \<Longrightarrow> validRunState (ar_State run) \<and>
     (stateRequiresReason (ar_State run) \<longrightarrow> \<not> blank (ar_StateReason run))"
  by (simp add: AgentRun_Validate_unfold validate_simps)

lemma valid_run_budget:
  "valid_run run \<Longrightarrow> limits_nonneg (ar_BudgetLimits run) \<and>
     within_limits (ar_BudgetUsage run) (ar_BudgetLimits run)"
  by (simp add: AgentRun_Validate_unfold validate_simps)

lemma valid_run_active:
  "valid_run run \<Longrightarrow> ar_ActiveExecutionID run \<noteq> '''' \<Longrightarrow>
     ar_State run = RunRunning \<and> IsIdentifier (ar_ActiveExecutionID run)"
  by (simp add: AgentRun_Validate_unfold validate_simps)

lemma valid_run_capabilities:
  "valid_run run \<Longrightarrow> distinct (ar_CapabilityIDs run) \<and> (\<forall>c\<in>set (ar_CapabilityIDs run). IsIdentifier c)"
  by (simp add: AgentRun_Validate_unfold validate_simps)

lemma valid_run_clock:
  "valid_run run \<Longrightarrow> 1 \<le> ar_EventSequence run \<and> ar_CreatedAt run \<noteq> 0 \<and> ar_UpdatedAt run \<noteq> 0 \<and>
     ar_CreatedAt run \<le> ar_UpdatedAt run"
  by (auto simp: AgentRun_Validate_unfold validate_simps not_less)

lemma valid_run_completed:
  "valid_run run \<Longrightarrow> RunState_Terminal (ar_State run) \<longleftrightarrow> ar_CompletedAt run \<noteq> None"
  by (auto simp: AgentRun_Validate_unfold validate_simps split: if_splits option.splits)

lemma RunEvent_Validate_chain:
  "RunEvent_Validate event = None \<Longrightarrow>
     1 \<le> ev_Sequence event \<and> IsSHA256Digest (ev_Digest event) \<and> ev_OccurredAt event \<noteq> 0 \<and>
     (ev_PreviousDigest event = '''' \<longleftrightarrow> ev_Sequence event = 1) \<and>
     IsIdentifier (ev_RunID event)"
  by (auto simp: RunEvent_Validate_def Let_def validate_simps split: if_splits)

lemma CapabilityGrant_Validate_window:
  "CapabilityGrant_Validate grant = None \<Longrightarrow>
     cg_IssuedAt grant < cg_ExpiresAt grant \<and> 0 \<le> cg_Uses grant \<and> cg_Operations grant \<noteq> [] \<and>
     IsIdentifier (cg_ID grant) \<and> (\<forall>m. cg_MaxUses grant = Some m \<longrightarrow> 1 \<le> m \<and> cg_Uses grant \<le> m)"
  by (auto simp: CapabilityGrant_Validate_def Let_def validate_simps not_less)

section \<open>Digests and identifiers used by the examples\<close>

text \<open>A digest made of one repeated hexadecimal digit.\<close>

definition sample_digest :: "char \<Rightarrow> string" where
  "sample_digest c = ''sha256:'' @ replicate 64 c"

lemma sample_digest_valid [example_simps]: "is_lower_hex c \<Longrightarrow> IsSHA256Digest (sample_digest c)"
  by (simp add: IsSHA256Digest_def hex_suffix_def sample_digest_def list_all_iff)

lemma sample_digest_nonempty [example_simps, simp]: "sample_digest c \<noteq> []"
  by (simp add: sample_digest_def)

lemma sample_digest_eq_iff [example_simps]: "sample_digest c = sample_digest d \<longleftrightarrow> c = d"
  by (simp add: sample_digest_def)

lemma IsIdentifier_Nil [simp]: "\<not> IsIdentifier []"
  by (simp add: IsIdentifier_def)

end
