(* ===== verification/Event_Ledger.thy ===== *)
theory Event_Ledger
  imports Go_Prelude
begin

text \<open>
  The contract of an event-sourced ledger, the interface between the reducers (which decide
  whether one more event is acceptable) and everything that reads a history. Runs
  (\<^verbatim>\<open>internal/kernel/reducer\<close>) and transactions (\<^verbatim>\<open>internal/kernel/transaction\<close>) both keep such a
  ledger: a projection is rebuilt by applying one event after the other, and an event is accepted
  only if it carries the next sequence number, the digest of its predecessor, the stream's
  identity and a time that does not go backwards.

  What follows from the contract is proved once here: a replayed history is contiguous, linked
  and monotone, replay extends one event at a time, and a collision-free digest makes the head
  digest determine the whole history.
\<close>

locale event_ledger =
  fixes apply_event :: "'p option \<Rightarrow> 'e \<Rightarrow> 'err + 'p"
    and replay_from :: "'p option \<Rightarrow> 'e list \<Rightarrow> 'err + 'p"
    and seq_of :: "'p \<Rightarrow> int"
    and head_of :: "'p \<Rightarrow> string"
    and stream_of :: "'p \<Rightarrow> string"
    and clock_of :: "'p \<Rightarrow> int"
    and e_seq :: "'e \<Rightarrow> int"
    and e_prev :: "'e \<Rightarrow> string"
    and e_digest :: "'e \<Rightarrow> string"
    and e_stream :: "'e \<Rightarrow> string"
    and e_time :: "'e \<Rightarrow> int"
  assumes replay_Nil: "replay_from (Some p) [] = Inr p"
    and replay_empty: "replay_from None [] \<noteq> Inr p"
    and replay_Cons: "replay_from cur (e # es) =
      bind_res (apply_event cur e) (\<lambda>p. replay_from (Some p) es)"
    and apply_first: "apply_event None e = Inr p \<Longrightarrow>
      e_seq e = 1 \<and> e_prev e = [] \<and> seq_of p = 1 \<and> head_of p = e_digest e \<and>
      stream_of p = e_stream e \<and> clock_of p = e_time e"
    and apply_next: "apply_event (Some p) e = Inr q \<Longrightarrow>
      1 \<le> e_seq e \<and> e_seq e = wrap64 (seq_of p + 1) \<and> e_prev e = head_of p \<and>
      e_stream e = stream_of p \<and> clock_of p \<le> e_time e \<and>
      seq_of q = e_seq e \<and> head_of q = e_digest e \<and> stream_of q = stream_of p \<and>
      clock_of q = e_time e"
begin

lemma replay_snoc:
  "es \<noteq> [] \<Longrightarrow>
   replay_from cur (es @ [e]) = bind_res (replay_from cur es) (\<lambda>p. apply_event (Some p) e)"
proof (induction es arbitrary: cur)
  case Nil
  then show ?case by simp
next
  case (Cons x es)
  have single: "replay_from (Some p) [e] = apply_event (Some p) e" for p
    by (cases "apply_event (Some p) e") (simp_all add: replay_Cons replay_Nil)
  show ?case
  proof (cases "apply_event cur x")
    case (Inl err)
    then show ?thesis by (simp add: replay_Cons)
  next
    case (Inr p)
    with Cons single show ?thesis
      by (cases "es = []") (simp_all add: replay_Cons replay_Nil)
  qed
qed

lemma replay_single: "replay_from None [e] = apply_event None e"
  by (cases "apply_event None e") (simp_all add: replay_Cons replay_Nil)

text \<open>Induction over the accepted histories, from the first event on.\<close>

lemma replay_induct [consumes 1, case_names first step]:
  assumes "replay_from None es = Inr p"
    and first: "\<And>e p. apply_event None e = Inr p \<Longrightarrow> P [e] p"
    and step: "\<And>es e p q. replay_from None es = Inr p \<Longrightarrow> es \<noteq> [] \<Longrightarrow> P es p \<Longrightarrow>
      apply_event (Some p) e = Inr q \<Longrightarrow> P (es @ [e]) q"
  shows "P es p"
  using assms(1)
proof (induction es arbitrary: p rule: rev_induct)
  case Nil
  then show ?case using replay_empty by simp
next
  case (snoc e es)
  show ?case
  proof (cases "es = []")
    case True
    with snoc.prems show ?thesis by (simp add: replay_single first)
  next
    case False
    with snoc.prems obtain p' where "replay_from None es = Inr p'" "apply_event (Some p') e = Inr p"
      by (auto simp: replay_snoc)
    with False snoc.IH step show ?thesis by blast
  qed
qed

lemma replay_sequence: "replay_from None es = Inr p \<Longrightarrow> seq_of p = int (length es) \<and> in64 (seq_of p)"
proof (induction rule: replay_induct)
  case (first e p)
  then show ?case using apply_first by (fastforce simp: in64_def min64_def max64_def)
next
  case (step es e p q)
  then have "seq_of q = wrap64 (seq_of p + 1)" "1 \<le> wrap64 (seq_of p + 1)" "in64 (seq_of p)"
    using apply_next by metis+
  with step.IH show ?case using wrap64_succ_cases [of "seq_of p"] wrap64_in64 [of "seq_of p + 1"] by auto
qed

lemma replay_head:
  "replay_from None es = Inr p \<Longrightarrow>
     es \<noteq> [] \<and> head_of p = e_digest (last es) \<and> clock_of p = e_time (last es)"
proof (induction rule: replay_induct)
  case (first e p)
  then show ?case using apply_first by simp
next
  case (step es e p q)
  then show ?case using apply_next by simp
qed

lemma replay_stream: "replay_from None es = Inr p \<Longrightarrow> \<forall>e\<in>set es. e_stream e = stream_of p"
proof (induction rule: replay_induct)
  case (first e p)
  then show ?case using apply_first by simp
next
  case (step es e p q)
  then have "e_stream e = stream_of p" "stream_of q = stream_of p"
    using apply_next by metis+
  with step.IH show ?case by simp
qed

lemma replay_numbered: "replay_from None es = Inr p \<Longrightarrow> i < length es \<Longrightarrow> e_seq (es ! i) = int i + 1"
proof (induction arbitrary: i rule: replay_induct)
  case (first e p)
  then show ?case using apply_first by simp
next
  case (step es e p q)
  show ?case
  proof (cases "i < length es")
    case True
    with step.IH show ?thesis by (simp add: nth_append)
  next
    case False
    with step.prems have i: "i = length es" by simp
    have "replay_from None (es @ [e]) = Inr q"
      using step.hyps by (simp add: replay_snoc)
    then have "seq_of q = int (length es) + 1" using replay_sequence by fastforce
    with i step.hyps(3) show ?thesis using apply_next by (metis nth_append_length)
  qed
qed

lemma replay_linked:
  "replay_from None es = Inr p \<Longrightarrow> Suc i < length es \<Longrightarrow>
     e_prev (es ! Suc i) = e_digest (es ! i) \<and> e_time (es ! i) \<le> e_time (es ! Suc i)"
proof (induction arbitrary: i rule: replay_induct)
  case (first e p)
  then show ?case by simp
next
  case (step es e p q)
  show ?case
  proof (cases "Suc i < length es")
    case True
    with step.IH show ?thesis by (simp add: nth_append)
  next
    case False
    with step.prems have i: "Suc i = length es" by simp
    then have last: "es ! i = last es" using step.hyps(2) by (simp add: last_conv_nth flip: i)
    have "head_of p = e_digest (last es)" "clock_of p = e_time (last es)"
      using replay_head step.hyps(1) by auto
    with step.hyps(3) last i show ?thesis
      using apply_next by (metis less_Suc_eq nth_append nth_append_length)
  qed
qed

lemma replay_take:
  "replay_from None es = Inr p \<Longrightarrow> 0 < k \<Longrightarrow> k \<le> length es \<Longrightarrow> \<exists>q. replay_from None (take k es) = Inr q"
proof (induction rule: replay_induct)
  case (first e p)
  then show ?case by (auto simp: replay_single)
next
  case (step es e p q)
  then show ?case
    by (cases "k \<le> length es") (auto simp: replay_snoc)
qed

lemma replay_append:
  "es \<noteq> [] \<Longrightarrow>
   replay_from cur (es @ fs) = bind_res (replay_from cur es) (\<lambda>p. replay_from (Some p) fs)"
proof (induction fs arbitrary: es)
  case Nil
  then show ?case by (cases "replay_from cur es") (simp_all add: replay_Nil)
next
  case (Cons f fs)
  have "replay_from cur (es @ f # fs) = replay_from cur ((es @ [f]) @ fs)" by simp
  also have "\<dots> = bind_res (replay_from cur (es @ [f])) (\<lambda>p. replay_from (Some p) fs)"
    by (rule Cons.IH) simp
  also have "\<dots> = bind_res (replay_from cur es) (\<lambda>p. replay_from (Some p) (f # fs))"
    using Cons.prems
    by (cases "replay_from cur es") (simp_all add: replay_snoc replay_Cons)
  finally show ?case .
qed

lemma replay_extended:
  "replay_from None es = Inr p \<Longrightarrow> replay_from None (es @ fs) = Inr q \<Longrightarrow> replay_from (Some p) fs = Inr q"
  using replay_head [of es p] by (auto simp: replay_append)

text \<open>Every event of a history but the first is applied to what its predecessors replay to.\<close>

lemma replay_step:
  assumes "replay_from None es = Inr q" and "0 < k" and "k < length es"
  shows "\<exists>r r'. replay_from None (take k es) = Inr r \<and> apply_event (Some r) (es ! k) = Inr r' \<and>
    replay_from None (take (Suc k) es) = Inr r'"
proof -
  from replay_take [OF assms(1), of "Suc k"] assms(3) obtain r' where r': "replay_from None (take (Suc k) es) = Inr r'" by auto
  have "take k es \<noteq> []" using assms(2,3) by auto
  with r' show ?thesis using assms(3) by (auto simp: take_Suc_conv_app_nth replay_snoc)
qed

text \<open>The invariant rules: over a history, and over the part of a history after a projection.\<close>

lemma replay_invariant [consumes 1, case_names first step]:
  assumes "replay_from None es = Inr p"
    and "\<And>e p. apply_event None e = Inr p \<Longrightarrow> I p"
    and "\<And>e p q. I p \<Longrightarrow> apply_event (Some p) e = Inr q \<Longrightarrow> I q"
  shows "I p"
  using assms(1) by (induction rule: replay_induct) (auto intro: assms(2,3))

lemma replay_from_invariant [consumes 1, case_names start step]:
  assumes "replay_from (Some p) fs = Inr q" and "I p"
    and "\<And>e p q. I p \<Longrightarrow> apply_event (Some p) e = Inr q \<Longrightarrow> I q"
  shows "I q"
  using assms(1,2)
proof (induction fs arbitrary: p)
  case Nil
  then show ?case by (simp add: replay_Nil)
next
  case (Cons f fs)
  then obtain r where "apply_event (Some p) f = Inr r" "replay_from (Some r) fs = Inr q"
    by (auto simp: replay_Cons)
  with Cons assms(3) show ?case by blast
qed

text \<open>
  Tamper evidence: where digests distinguish the events of two accepted histories, the head
  digest determines the history.
\<close>

lemma replay_head_determines:
  assumes "replay_from None es = Inr p" and "replay_from None fs = Inr q"
    and "head_of p = head_of q"
    and "\<And>e f. e \<in> set es \<Longrightarrow> f \<in> set fs \<Longrightarrow> e_digest e = e_digest f \<Longrightarrow> e = f"
  shows "es = fs"
  using assms
proof (induction es arbitrary: p q fs rule: rev_induct)
  case Nil
  then show ?case using replay_empty by simp
next
  case (snoc e es)
  obtain f gs where fs: "fs = gs @ [f]"
    using replay_head [OF snoc.prems(2)] by (metis rev_exhaust)
  have "e_digest e = e_digest f"
    using replay_head [OF snoc.prems(1)] replay_head [OF snoc.prems(2)] snoc.prems(3) fs by simp
  then have ef: "e = f" using snoc.prems(4) fs by simp
  have len: "length es = length gs"
    using replay_numbered [OF snoc.prems(1), of "length es"]
      replay_numbered [OF snoc.prems(2), of "length gs"] fs ef by simp
  show ?case
  proof (cases "es = []")
    case True
    with len ef fs show ?thesis by simp
  next
    case False
    with len have "gs \<noteq> []" by auto
    from False snoc.prems(1) obtain p' where
      p': "replay_from None es = Inr p'" "apply_event (Some p') e = Inr p" by (auto simp: replay_snoc)
    from \<open>gs \<noteq> []\<close> snoc.prems(2) fs obtain q' where
      q': "replay_from None gs = Inr q'" "apply_event (Some q') f = Inr q" by (auto simp: replay_snoc)
    have "head_of p' = head_of q'" using apply_next [OF p'(2)] apply_next [OF q'(2)] ef by simp
    then have "es = gs" using snoc.IH [OF p'(1) q'(1)] snoc.prems(4) fs by simp
    with ef fs show ?thesis by simp
  qed
qed

end

end
