(* ===== verification/Run_Reducer.thy ===== *)
theory Run_Reducer
  imports Kernel_Validate Event_Ledger
begin

text \<open>
  The run ledger's reducer: \<^verbatim>\<open>internal/kernel/reducer/reducer.go\<close>. \<open>Apply\<close> decides whether one more
  event is acceptable on a projection and gives the next projection; \<open>Replay\<close> folds it over a
  history. The case of \<open>Apply\<close>'s switch that changes the run is one definition each.

  The lemmas show that accepted events keep the run valid, that the state only moves along the
  documented lifecycle (an independent \<^theory_text>\<open>inductive\<close> relation), that terminal states, identity and
  pinned digests never change, that budget charges accumulate without overflow and within the
  hard limits, and that an active execution excludes every other state change. The ledger facts
  come from interpreting \<open>event_ledger\<close>.
\<close>

section \<open>The transition table\<close>

record Projection =
  pj_Run :: AgentRun
  pj_LastEventDigest :: string

fun allowedTransitions :: "RunState \<Rightarrow> RunState list option" where
  "allowedTransitions RunCreated = Some [RunAdmitted, RunFailed, RunCancelled]"
| "allowedTransitions RunAdmitted = Some [RunRunning, RunBlocked, RunFailed, RunCancelled]"
| "allowedTransitions RunRunning =
     Some [RunWaitingForEvent, RunWaitingForAgent, RunWaitingForApproval, RunBlocked,
           RunFailed, RunCancelled, RunCompleted]"
| "allowedTransitions RunWaitingForEvent = Some [RunRunning, RunBlocked, RunFailed, RunCancelled]"
| "allowedTransitions RunWaitingForAgent = Some [RunRunning, RunBlocked, RunFailed, RunCancelled]"
| "allowedTransitions RunWaitingForApproval = Some [RunRunning, RunBlocked, RunFailed, RunCancelled]"
| "allowedTransitions RunBlocked = Some [RunAdmitted, RunRunning, RunFailed, RunCancelled]"
| "allowedTransitions RunFailed = Some []"
| "allowedTransitions RunCancelled = Some []"
| "allowedTransitions RunCompleted = Some []"
| "allowedTransitions (OtherRunState _) = None"

definition CanTransition :: "RunState \<Rightarrow> RunState \<Rightarrow> bool" where
  "CanTransition from to = (case allowedTransitions from of
     None \<Rightarrow> False
   | Some targets \<Rightarrow> to \<in> set targets)"

definition requiresReason :: "RunState \<Rightarrow> bool" where
  "requiresReason state \<longleftrightarrow> state = RunBlocked \<or> state = RunFailed \<or> state = RunCancelled"

definition transitionError :: KernelError where
  "transitionError = newError ErrorTransitionInvalid ''transition'' '''' ''''"

definition ValidateTransition :: "RunState \<Rightarrow> RunState \<Rightarrow> string \<Rightarrow> KernelError option" where
  "ValidateTransition from to reason = first_error
     [fail_if (\<not> CanTransition from to) transitionError,
      fail_if (requiresReason to \<and> reason = '''') transitionError]"

section \<open>Payload decoding\<close>

text \<open>
  \<^verbatim>\<open>DecodePayloadStrict[T]\<close>: a text that is not of the wanted structure is an error that names the
  event. A well-formed object of another structure has undeclared fields.
\<close>

definition DecodePayloadStrict :: "(RunPayload \<Rightarrow> 'a option) \<Rightarrow> RunEvent \<Rightarrow> KernelError + 'a" where
  "DecodePayloadStrict view event = (case view (ev_Payload event) of
     Some v \<Rightarrow> Inr v
   | None \<Rightarrow> Inl (newError
       (case ev_Payload event of
          Undecodable NotOneObject \<Rightarrow> ErrorSchemaInvalid
        | Undecodable WrongType \<Rightarrow> ErrorSchemaInvalid
        | _ \<Rightarrow> ErrorUnknownField)
       ''decode_event_payload'' (ev_ID event) ''''))"

fun as_created :: "RunPayload \<Rightarrow> AgentRun option" where
  "as_created (RunCreatedPayload p) = Some p" | "as_created _ = None"

fun as_state_changed :: "RunPayload \<Rightarrow> RunStateChangedPayload option" where
  "as_state_changed (RunStateChanged p) = Some p" | "as_state_changed _ = None"

fun as_started :: "RunPayload \<Rightarrow> RunExecutionStartedPayload option" where
  "as_started (RunExecutionStarted p) = Some p" | "as_started _ = None"

fun as_finished :: "RunPayload \<Rightarrow> RunExecutionFinishedPayload option" where
  "as_finished (RunExecutionFinished p) = Some p" | "as_finished _ = None"

fun as_granted :: "RunPayload \<Rightarrow> CapabilitiesGrantedPayload option" where
  "as_granted (CapabilitiesGranted p) = Some p" | "as_granted _ = None"

fun as_requested :: "RunPayload \<Rightarrow> ActionRequest option" where
  "as_requested (ActionRequestedPayload p) = Some p" | "as_requested _ = None"

fun as_decision :: "RunPayload \<Rightarrow> ActionDecisionPayload option" where
  "as_decision (ActionDecision p) = Some p" | "as_decision _ = None"

fun as_executing :: "RunPayload \<Rightarrow> ActionExecutingPayload option" where
  "as_executing (ActionExecuting p) = Some p" | "as_executing _ = None"

fun as_result :: "RunPayload \<Rightarrow> ActionResultPayload option" where
  "as_result (ActionResult p) = Some p" | "as_result _ = None"

section \<open>The cases of Apply\<close>

definition applyStateChanged ::
  "AgentRun \<Rightarrow> time \<Rightarrow> RunStateChangedPayload \<Rightarrow> KernelError + AgentRun" where
  "applyStateChanged run occurredAt payload = ok_then (first_error
     [fail_if (sc_From payload \<noteq> ar_State run) transitionError,
      ValidateTransition (sc_From payload) (sc_To payload) (sc_Reason payload),
      fail_if (ar_ActiveExecutionID run \<noteq> '''' \<and> sc_To payload \<noteq> RunRunning) transitionError])
     (Inr (run\<lparr>ar_State := sc_To payload,
               ar_StateReason := sc_Reason payload,
               ar_CompletedAt := (if RunState_Terminal (sc_To payload) then Some occurredAt else None)\<rparr>))"

definition applyExecutionStarted ::
  "AgentRun \<Rightarrow> RunExecutionStartedPayload \<Rightarrow> KernelError + AgentRun" where
  "applyExecutionStarted run payload = ok_then (first_error
     [fail_if (\<not> IsIdentifier (xs_TransactionID payload) \<or> \<not> IsIdentifier (xs_ExecutionID payload) \<or>
               xs_Attempt payload < 1) transitionError,
      fail_if (ar_ActiveExecutionID run \<noteq> '''') transitionError,
      fail_if (ar_State run \<notin> {RunAdmitted, RunWaitingForAgent, RunWaitingForEvent}) transitionError,
      ValidateTransition (ar_State run) RunRunning ''''])
     (Inr (run\<lparr>ar_State := RunRunning, ar_StateReason := '''',
               ar_ActiveExecutionID := xs_ExecutionID payload, ar_CompletedAt := None\<rparr>))"

definition addCharge :: "string \<Rightarrow> int64 \<Rightarrow> int64 \<Rightarrow> KernelError + int64" where
  "addCharge name cur delta =
     (if delta < 0 \<or> delta > wrap64 (max64 - cur)
      then Inl (newError ErrorBudgetExceeded ''reduce'' '''' (''budget_usage.'' @ name))
      else Inr (wrap64 (cur + delta)))"

definition addBudgetUsage :: "BudgetUsage \<Rightarrow> BudgetUsage \<Rightarrow> KernelError + BudgetUsage" where
  "addBudgetUsage cur delta =
     bind_res (addCharge ''input_tokens'' (InputTokens cur) (InputTokens delta)) (\<lambda>i.
     bind_res (addCharge ''output_tokens'' (OutputTokens cur) (OutputTokens delta)) (\<lambda>out.
     bind_res (addCharge ''model_calls'' (ModelCalls cur) (ModelCalls delta)) (\<lambda>m.
     bind_res (addCharge ''tool_calls'' (ToolCalls cur) (ToolCalls delta)) (\<lambda>t.
     bind_res (addCharge ''cost_micros'' (CostMicros cur) (CostMicros delta)) (\<lambda>c.
     bind_res (addCharge ''wall_time_seconds'' (WallTimeSeconds cur) (WallTimeSeconds delta)) (\<lambda>w.
       Inr \<lparr>InputTokens = i, OutputTokens = out, ModelCalls = m, ToolCalls = t,
            CostMicros = c, WallTimeSeconds = w\<rparr>))))))"

definition applyExecutionFinished ::
  "AgentRun \<Rightarrow> RunExecutionFinishedPayload \<Rightarrow> KernelError + AgentRun" where
  "applyExecutionFinished run payload = ok_then (first_error
     [fail_if (\<not> IsIdentifier (xf_TransactionID payload) \<or> \<not> IsIdentifier (xf_ExecutionID payload) \<or>
               xf_Attempt payload < 1 \<or> \<not> AgentExecutionStatus_Terminal (xf_Status payload))
        transitionError,
      fail_if (ar_State run \<noteq> RunRunning \<or> ar_ActiveExecutionID run \<noteq> xf_ExecutionID payload)
        transitionError])
     (bind_res (addBudgetUsage (ar_BudgetUsage run) (xf_Usage payload)) (\<lambda>usage.
       Inr (run\<lparr>ar_BudgetUsage := usage, ar_ActiveExecutionID := '''', ar_StateReason := '''',
                ar_State := (if xf_Status payload = AgentExecutionSucceeded
                             then RunWaitingForEvent else RunWaitingForAgent)\<rparr>)))"

text \<open>The loop over the granted capabilities, with the identifiers seen so far.\<close>

fun installGrants :: "string \<Rightarrow> string list \<Rightarrow> CapabilityGrant list \<Rightarrow> KernelError + string list" where
  "installGrants runID ids [] = Inr ids"
| "installGrants runID ids (grant # grants) = ok_then (first_error
     [CapabilityGrant_Validate grant,
      fail_if (cg_SubjectRunID grant \<noteq> runID) transitionError,
      fail_if (cg_ID grant \<in> set ids) transitionError])
     (installGrants runID (ids @ [cg_ID grant]) grants)"

definition applyCapabilitiesGranted ::
  "AgentRun \<Rightarrow> CapabilitiesGrantedPayload \<Rightarrow> KernelError + AgentRun" where
  "applyCapabilitiesGranted run payload = ok_then (first_error
     [fail_if (gp_ContractDigest payload \<noteq> ar_ContractDigest run) transitionError,
      fail_if (gp_Grants payload = []) transitionError])
     (bind_res (installGrants (ar_ID run) (ar_CapabilityIDs run) (gp_Grants payload))
       (\<lambda>ids. Inr (run\<lparr>ar_CapabilityIDs := ids\<rparr>)))"

definition checkActionRequested :: "AgentRun \<Rightarrow> ActionRequest \<Rightarrow> KernelError option" where
  "checkActionRequested run request = first_error
     [ActionRequest_Validate request,
      fail_if (aq_RunID request \<noteq> ar_ID run) transitionError,
      fail_if (ar_State run \<noteq> RunRunning) transitionError]"

definition checkActionDecision :: "RunEventType \<Rightarrow> ActionDecisionPayload \<Rightarrow> KernelError option" where
  "checkActionDecision ty payload = first_error
     [fail_if (dp_ActionID payload = '''' \<or> dp_Reason payload = '''') transitionError,
      fail_if (ty = EventActionDenied \<and> dp_Decision payload \<noteq> DecisionDeny) transitionError,
      fail_if (ty = EventActionApprovalRequired \<and> dp_Decision payload \<noteq> DecisionRequireApproval)
        transitionError,
      fail_if (ty = EventActionAuthorized \<and> dp_Decision payload \<noteq> DecisionAllow \<and>
               dp_Decision payload \<noteq> DecisionConstrain) transitionError]"

fun result_status :: "RunEventType \<Rightarrow> string" where
  "result_status EventActionCommitted = ''committed''"
| "result_status EventActionFailed = ''failed''"
| "result_status EventActionUnknown = ''unknown''"
| "result_status _ = ''''"

definition checkActionResult :: "RunEventType \<Rightarrow> ActionResultPayload \<Rightarrow> KernelError option" where
  "checkActionResult ty payload =
     fail_if (rp_ActionID payload = '''' \<or> rp_CapabilityID payload = '''' \<or>
              rp_Status payload \<noteq> result_status ty) transitionError"

text \<open>The switch on the event type.\<close>

definition applyPayload :: "AgentRun \<Rightarrow> RunEvent \<Rightarrow> KernelError + AgentRun" where
  "applyPayload run event = (case ev_Type event of
     EventRunStateChanged \<Rightarrow>
       bind_res (DecodePayloadStrict as_state_changed event) (applyStateChanged run (ev_OccurredAt event))
   | EventRunExecutionStarted \<Rightarrow>
       bind_res (DecodePayloadStrict as_started event) (applyExecutionStarted run)
   | EventRunExecutionFinished \<Rightarrow>
       bind_res (DecodePayloadStrict as_finished event) (applyExecutionFinished run)
   | EventCapabilitiesGranted \<Rightarrow>
       bind_res (DecodePayloadStrict as_granted event) (applyCapabilitiesGranted run)
   | EventActionRequested \<Rightarrow>
       bind_res (DecodePayloadStrict as_requested event)
         (\<lambda>request. ok_then (checkActionRequested run request) (Inr run))
   | EventActionDenied \<Rightarrow>
       bind_res (DecodePayloadStrict as_decision event)
         (\<lambda>payload. ok_then (checkActionDecision (ev_Type event) payload) (Inr run))
   | EventActionApprovalRequired \<Rightarrow>
       bind_res (DecodePayloadStrict as_decision event)
         (\<lambda>payload. ok_then (checkActionDecision (ev_Type event) payload) (Inr run))
   | EventActionAuthorized \<Rightarrow>
       bind_res (DecodePayloadStrict as_decision event)
         (\<lambda>payload. ok_then (checkActionDecision (ev_Type event) payload) (Inr run))
   | EventActionExecuting \<Rightarrow>
       bind_res (DecodePayloadStrict as_executing event)
         (\<lambda>payload. ok_then (fail_if (xp_ActionID payload = '''' \<or> xp_CapabilityID payload = '''')
            transitionError) (Inr run))
   | EventActionCommitted \<Rightarrow>
       bind_res (DecodePayloadStrict as_result event)
         (\<lambda>payload. ok_then (checkActionResult (ev_Type event) payload) (Inr run))
   | EventActionFailed \<Rightarrow>
       bind_res (DecodePayloadStrict as_result event)
         (\<lambda>payload. ok_then (checkActionResult (ev_Type event) payload) (Inr run))
   | EventActionUnknown \<Rightarrow>
       bind_res (DecodePayloadStrict as_result event)
         (\<lambda>payload. ok_then (checkActionResult (ev_Type event) payload) (Inr run))
   | EventRunCreated \<Rightarrow> Inl transitionError
   | OtherRunEvent _ \<Rightarrow> Inl transitionError)"

definition applyCreation :: "RunEvent \<Rightarrow> KernelError + Projection" where
  "applyCreation event = ok_then (first_error
     [fail_if (ev_Sequence event \<noteq> 1) (newError ErrorEventSequence ''reduce'' (ev_ID event) ''sequence''),
      fail_if (ev_Type event \<noteq> EventRunCreated) transitionError])
     (bind_res (DecodePayloadStrict as_created event) (\<lambda>run. ok_then (first_error
       [AgentRun_Validate run,
        fail_if (ar_ID run \<noteq> ev_RunID event)
          (newError ErrorEventSequence ''reduce'' (ev_ID event) ''run_id''),
        fail_if (ar_State run \<noteq> RunCreated) transitionError,
        fail_if (ar_EventSequence run \<noteq> 1)
          (newError ErrorEventSequence ''reduce'' (ev_ID event) ''payload.run.event_sequence''),
        fail_if (ar_CreatedAt run \<noteq> ev_OccurredAt event \<or> ar_UpdatedAt run \<noteq> ev_OccurredAt event)
          (newError ErrorSchemaInvalid ''reduce'' (ev_ID event) ''occurred_at'')])
       (Inr \<lparr>pj_Run = run, pj_LastEventDigest = ev_Digest event\<rparr>)))"

text \<open>The envelope checks on every event after the first.\<close>

definition checkEnvelope :: "Projection \<Rightarrow> RunEvent \<Rightarrow> KernelError option" where
  "checkEnvelope cur event = first_error
     [fail_if (ev_RunID event \<noteq> ar_ID (pj_Run cur))
        (newError ErrorEventSequence ''reduce'' (ev_ID event) ''run_id''),
      fail_if (ev_Sequence event \<noteq> wrap64 (ar_EventSequence (pj_Run cur) + 1))
        (newError ErrorEventSequence ''reduce'' (ev_ID event) ''sequence''),
      fail_if (ev_PreviousDigest event \<noteq> pj_LastEventDigest cur)
        (newError ErrorEventChain ''reduce'' (ev_ID event) ''previous_digest''),
      fail_if (ev_OccurredAt event < ar_UpdatedAt (pj_Run cur))
        (newError ErrorSchemaInvalid ''reduce'' (ev_ID event) ''occurred_at''),
      fail_if (ev_Type event = EventRunCreated) transitionError]"

fun Apply :: "Projection option \<Rightarrow> RunEvent \<Rightarrow> KernelError + Projection" where
  "Apply None event = ok_then (RunEvent_Validate event) (applyCreation event)"
| "Apply (Some cur) event =
     ok_then (RunEvent_Validate event) (ok_then (checkEnvelope cur event)
       (bind_res (applyPayload (pj_Run cur) event) (\<lambda>run.
         let run = run\<lparr>ar_EventSequence := ev_Sequence event, ar_UpdatedAt := ev_OccurredAt event\<rparr>
         in ok_then (AgentRun_Validate run)
              (Inr \<lparr>pj_Run = run, pj_LastEventDigest = ev_Digest event\<rparr>))))"

fun replayFrom :: "Projection option \<Rightarrow> RunEvent list \<Rightarrow> KernelError + Projection" where
  "replayFrom None [] = Inl (newError ErrorEventSequence ''replay'' '''' '''')"
| "replayFrom (Some cur) [] = Inr cur"
| "replayFrom cur (event # events) =
     bind_res (Apply cur event) (\<lambda>next. replayFrom (Some next) events)"

definition Replay :: "RunEvent list \<Rightarrow> KernelError + Projection" where
  "Replay events = replayFrom None events"

section \<open>Reading the definitions backwards\<close>

lemma view_Some [simp]:
  "as_created p = Some a \<longleftrightarrow> p = RunCreatedPayload a"
  "as_state_changed p = Some b \<longleftrightarrow> p = RunStateChanged b"
  "as_started p = Some c \<longleftrightarrow> p = RunExecutionStarted c"
  "as_finished p = Some d \<longleftrightarrow> p = RunExecutionFinished d"
  "as_granted p = Some f \<longleftrightarrow> p = CapabilitiesGranted f"
  "as_requested p = Some g \<longleftrightarrow> p = ActionRequestedPayload g"
  "as_decision p = Some h \<longleftrightarrow> p = ActionDecision h"
  "as_executing p = Some i \<longleftrightarrow> p = ActionExecuting i"
  "as_result p = Some j \<longleftrightarrow> p = ActionResult j"
  by (cases p; simp)+

lemma DecodePayloadStrict_Inr [simp]:
  "DecodePayloadStrict view event = Inr v \<longleftrightarrow> view (ev_Payload event) = Some v"
  by (simp add: DecodePayloadStrict_def split: option.splits)

lemma ValidateTransition_None [simp]:
  "ValidateTransition from to reason = None \<longleftrightarrow>
     CanTransition from to \<and> (requiresReason to \<longrightarrow> reason \<noteq> '''')"
  by (auto simp: ValidateTransition_def)

lemma Apply_None_Inr:
  "Apply None e = Inr p \<Longrightarrow>
     RunEvent_Validate e = None \<and> ev_Sequence e = 1 \<and> ev_Type e = EventRunCreated \<and>
     ev_Payload e = RunCreatedPayload (pj_Run p) \<and> valid_run (pj_Run p) \<and>
     ar_ID (pj_Run p) = ev_RunID e \<and> ar_State (pj_Run p) = RunCreated \<and>
     ar_EventSequence (pj_Run p) = 1 \<and> ar_CreatedAt (pj_Run p) = ev_OccurredAt e \<and>
     ar_UpdatedAt (pj_Run p) = ev_OccurredAt e \<and> pj_LastEventDigest p = ev_Digest e"
  by (auto simp: applyCreation_def valid_run_def)

lemma checkEnvelope_None:
  "checkEnvelope p e = None \<longleftrightarrow>
     ev_RunID e = ar_ID (pj_Run p) \<and> ev_Sequence e = wrap64 (ar_EventSequence (pj_Run p) + 1) \<and>
     ev_PreviousDigest e = pj_LastEventDigest p \<and> ar_UpdatedAt (pj_Run p) \<le> ev_OccurredAt e \<and>
     ev_Type e \<noteq> EventRunCreated"
  by (auto simp: checkEnvelope_def not_less)

lemma Apply_Some_Inr:
  assumes "Apply (Some p) e = Inr q"
  obtains run where "RunEvent_Validate e = None" and "checkEnvelope p e = None"
    and "applyPayload (pj_Run p) e = Inr run"
    and "q = \<lparr>pj_Run = run\<lparr>ar_EventSequence := ev_Sequence e, ar_UpdatedAt := ev_OccurredAt e\<rparr>,
              pj_LastEventDigest = ev_Digest e\<rparr>"
    and "valid_run (pj_Run q)"
  using assms by (auto simp: valid_run_def Let_def)

declare Apply.simps [simp del]

section \<open>The effect of an accepted event\<close>

text \<open>
  An abstract view of what one event may do to a run, with no reference to payloads or
  envelopes: change state with no execution active, start an execution, settle the active one
  with a charge, install fresh capabilities, or only record an action.
\<close>

definition charged :: "BudgetUsage \<Rightarrow> BudgetUsage \<Rightarrow> BudgetUsage \<Rightarrow> bool" where
  "charged u d v \<longleftrightarrow>
     0 \<le> InputTokens d \<and> 0 \<le> OutputTokens d \<and> 0 \<le> ModelCalls d \<and> 0 \<le> ToolCalls d \<and>
     0 \<le> CostMicros d \<and> 0 \<le> WallTimeSeconds d \<and>
     InputTokens v = InputTokens u + InputTokens d \<and> OutputTokens v = OutputTokens u + OutputTokens d \<and>
     ModelCalls v = ModelCalls u + ModelCalls d \<and> ToolCalls v = ToolCalls u + ToolCalls d \<and>
     CostMicros v = CostMicros u + CostMicros d \<and>
     WallTimeSeconds v = WallTimeSeconds u + WallTimeSeconds d"

inductive run_effect :: "AgentRun \<Rightarrow> AgentRun \<Rightarrow> bool" where
  change: "CanTransition (ar_State r) to \<Longrightarrow> requiresReason to \<longrightarrow> reason \<noteq> '''' \<Longrightarrow>
     ar_ActiveExecutionID r = '''' \<Longrightarrow>
     run_effect r (r\<lparr>ar_State := to, ar_StateReason := reason,
       ar_CompletedAt := (if RunState_Terminal to then Some t else None)\<rparr>)"
| start: "ar_State r \<in> {RunAdmitted, RunWaitingForAgent, RunWaitingForEvent} \<Longrightarrow>
     ar_ActiveExecutionID r = '''' \<Longrightarrow> IsIdentifier x \<Longrightarrow>
     run_effect r (r\<lparr>ar_State := RunRunning, ar_StateReason := '''',
       ar_ActiveExecutionID := x, ar_CompletedAt := None\<rparr>)"
| settle: "ar_State r = RunRunning \<Longrightarrow> ar_ActiveExecutionID r \<noteq> '''' \<Longrightarrow>
     charged (ar_BudgetUsage r) d u \<Longrightarrow> w \<in> {RunWaitingForEvent, RunWaitingForAgent} \<Longrightarrow>
     run_effect r (r\<lparr>ar_BudgetUsage := u, ar_ActiveExecutionID := '''',
       ar_StateReason := '''', ar_State := w\<rparr>)"
| install: "ids \<noteq> [] \<Longrightarrow> distinct ids \<Longrightarrow> set ids \<inter> set (ar_CapabilityIDs r) = {} \<Longrightarrow>
     run_effect r (r\<lparr>ar_CapabilityIDs := ar_CapabilityIDs r @ ids\<rparr>)"
| record_action: "run_effect r r"

lemma addCharge_Inr:
  "0 \<le> u \<Longrightarrow> in64 u \<Longrightarrow> addCharge name u d = Inr v \<longleftrightarrow> 0 \<le> d \<and> u + d \<le> max64 \<and> v = u + d"
  by (auto simp: addCharge_def wrap64_def in64_def max64_def min64_def)

definition usage_in64 :: "BudgetUsage \<Rightarrow> bool" where
  "usage_in64 u \<longleftrightarrow> in64 (InputTokens u) \<and> in64 (OutputTokens u) \<and> in64 (ModelCalls u) \<and>
     in64 (ToolCalls u) \<and> in64 (CostMicros u) \<and> in64 (WallTimeSeconds u)"

definition usage_nonneg :: "BudgetUsage \<Rightarrow> bool" where
  "usage_nonneg u \<longleftrightarrow> 0 \<le> InputTokens u \<and> 0 \<le> OutputTokens u \<and> 0 \<le> ModelCalls u \<and>
     0 \<le> ToolCalls u \<and> 0 \<le> CostMicros u \<and> 0 \<le> WallTimeSeconds u"

lemma addBudgetUsage_Inr:
  assumes "usage_nonneg u" and "usage_in64 u"
  shows "addBudgetUsage u d = Inr v \<longleftrightarrow> charged u d v \<and> usage_in64 v"
  using assms
  by (auto simp: addBudgetUsage_def usage_nonneg_def usage_in64_def charged_def addCharge_Inr
      in64_def max64_def min64_def)

lemma valid_run_usage: "valid_run run \<Longrightarrow> usage_nonneg (ar_BudgetUsage run)"
  using valid_run_budget [of run] by (simp add: within_limits_def within_limit_def usage_nonneg_def)

lemma installGrants_Inr:
  "installGrants runID ids gs = Inr ids' \<longleftrightarrow>
     ids' = ids @ map cg_ID gs \<and> distinct (map cg_ID gs) \<and> set (map cg_ID gs) \<inter> set ids = {} \<and>
     (\<forall>g\<in>set gs. CapabilityGrant_Validate g = None \<and> cg_SubjectRunID g = runID)"
  by (induction gs arbitrary: ids) auto

lemma running_to_running: "\<not> CanTransition RunRunning RunRunning"
  by (simp add: CanTransition_def)

lemma applyStateChanged_Inr:
  "applyStateChanged r t pl = Inr r' \<longleftrightarrow>
     sc_From pl = ar_State r \<and> CanTransition (ar_State r) (sc_To pl) \<and>
     (requiresReason (sc_To pl) \<longrightarrow> sc_Reason pl \<noteq> []) \<and>
     (ar_ActiveExecutionID r = [] \<or> sc_To pl = RunRunning) \<and>
     r' = r\<lparr>ar_State := sc_To pl, ar_StateReason := sc_Reason pl,
       ar_CompletedAt := (if RunState_Terminal (sc_To pl) then Some t else None)\<rparr>"
  unfolding applyStateChanged_def by auto

lemma applyStateChanged_effect:
  assumes "valid_run r" and "applyStateChanged r t pl = Inr r'"
  shows "run_effect r r'"
proof -
  have "ar_ActiveExecutionID r = []"
    using assms valid_run_active running_to_running by (metis applyStateChanged_Inr)
  with assms(2) show ?thesis
    using run_effect.change [of r "sc_To pl" "sc_Reason pl" t] by (auto simp only: applyStateChanged_Inr)
qed

lemma applyExecutionStarted_effect: "applyExecutionStarted r pl = Inr r' \<Longrightarrow> run_effect r r'"
  by (auto simp: applyExecutionStarted_def intro!: run_effect.start)

lemma applyExecutionFinished_effect:
  "valid_run r \<Longrightarrow> usage_in64 (ar_BudgetUsage r) \<Longrightarrow> applyExecutionFinished r pl = Inr r' \<Longrightarrow>
     run_effect r r'"
  using valid_run_usage [of r]
  by (auto simp: applyExecutionFinished_def addBudgetUsage_Inr intro!: run_effect.settle)

lemma applyCapabilitiesGranted_effect: "applyCapabilitiesGranted r pl = Inr r' \<Longrightarrow> run_effect r r'"
  by (auto simp: applyCapabilitiesGranted_def installGrants_Inr intro!: run_effect.install)

lemma applyPayload_effect:
  "valid_run r \<Longrightarrow> usage_in64 (ar_BudgetUsage r) \<Longrightarrow> applyPayload r e = Inr r' \<Longrightarrow> run_effect r r'"
  by (auto simp: applyPayload_def intro: run_effect.record_action applyStateChanged_effect
      applyExecutionStarted_effect applyExecutionFinished_effect applyCapabilitiesGranted_effect
      split: RunEventType.splits)

section \<open>What no event changes\<close>

text \<open>The identity of a run and everything admission pinned on it.\<close>

definition pinned :: "AgentRun \<Rightarrow> AgentRun" where
  "pinned run = run\<lparr>ar_State := RunCreated, ar_StateReason := '''', ar_BudgetUsage :=
     \<lparr>InputTokens = 0, OutputTokens = 0, ModelCalls = 0, ToolCalls = 0, CostMicros = 0, WallTimeSeconds = 0\<rparr>,
     ar_ActiveExecutionID := '''', ar_CapabilityIDs := [], ar_EventSequence := 0, ar_UpdatedAt := 0,
     ar_CompletedAt := None\<rparr>"

lemma pinned_sel:
  "ar_ID (pinned r) = ar_ID r" "ar_Namespace (pinned r) = ar_Namespace r"
  "ar_ImageDigest (pinned r) = ar_ImageDigest r" "ar_ContractDigest (pinned r) = ar_ContractDigest r"
  "ar_Principal (pinned r) = ar_Principal r" "ar_DelegationChain (pinned r) = ar_DelegationChain r"
  "ar_Deadline (pinned r) = ar_Deadline r" "ar_BudgetLimits (pinned r) = ar_BudgetLimits r"
  "ar_CreatedAt (pinned r) = ar_CreatedAt r"
  by (simp_all add: pinned_def)

lemma pinned_eqD:
  "pinned a = pinned b \<Longrightarrow> ar_ID a = ar_ID b \<and> ar_Namespace a = ar_Namespace b \<and>
     ar_ImageDigest a = ar_ImageDigest b \<and> ar_ContractDigest a = ar_ContractDigest b \<and>
     ar_Principal a = ar_Principal b \<and> ar_DelegationChain a = ar_DelegationChain b \<and>
     ar_Deadline a = ar_Deadline b \<and> ar_BudgetLimits a = ar_BudgetLimits b \<and>
     ar_CreatedAt a = ar_CreatedAt b"
  by (metis pinned_sel)

lemma applyPayload_pinned: "applyPayload r e = Inr r' \<Longrightarrow> pinned r' = pinned r"
  by (auto simp: applyPayload_def pinned_def applyStateChanged_Inr applyExecutionStarted_def
      applyExecutionFinished_def applyCapabilitiesGranted_def split: RunEventType.splits)

lemma Apply_pinned: "Apply (Some p) e = Inr q \<Longrightarrow> pinned (pj_Run q) = pinned (pj_Run p)"
  by (erule Apply_Some_Inr) (auto simp: pinned_def dest!: applyPayload_pinned)

section \<open>The run ledger\<close>

interpretation run_ledger: event_ledger Apply replayFrom
  "\<lambda>p. ar_EventSequence (pj_Run p)" pj_LastEventDigest "\<lambda>p. ar_ID (pj_Run p)"
  "\<lambda>p. ar_UpdatedAt (pj_Run p)" ev_Sequence ev_PreviousDigest ev_Digest ev_RunID ev_OccurredAt
proof (unfold_locales, goal_cases)
  case (4 e p)
  then show ?case using Apply_None_Inr [OF 4] RunEvent_Validate_chain by auto
next
  case (5 p e q)
  have "ar_ID (pj_Run q) = ar_ID (pj_Run p)"
    using Apply_pinned [OF 5] pinned_eqD by blast
  then show ?case
    using 5 RunEvent_Validate_chain [of e] by (elim Apply_Some_Inr) (simp add: checkEnvelope_None)
qed simp_all

lemma Replay_ledger: "Replay events = replayFrom None events"
  by (simp add: Replay_def)

text \<open>A history whose integers are those of Go: what the creating event carries fits 64 bits.\<close>

definition run_event_int64 :: "RunEvent \<Rightarrow> bool" where
  "run_event_int64 e = (case ev_Payload e of
     RunCreatedPayload r \<Rightarrow> usage_in64 (ar_BudgetUsage r)
   | _ \<Rightarrow> True)"

definition run_inv :: "Projection \<Rightarrow> bool" where
  "run_inv p \<longleftrightarrow> valid_run (pj_Run p) \<and> usage_in64 (ar_BudgetUsage (pj_Run p)) \<and>
     IsSHA256Digest (pj_LastEventDigest p)"

lemma applyPayload_usage_in64:
  assumes "usage_nonneg (ar_BudgetUsage r)" "usage_in64 (ar_BudgetUsage r)" "applyPayload r e = Inr r'"
  shows "usage_in64 (ar_BudgetUsage r')"
  using assms
  by (auto simp: applyPayload_def applyStateChanged_Inr applyExecutionStarted_def
      applyExecutionFinished_def applyCapabilitiesGranted_def addBudgetUsage_Inr
      split: RunEventType.splits)

lemma Apply_first_inv: "run_event_int64 e \<Longrightarrow> Apply None e = Inr p \<Longrightarrow> run_inv p"
  using Apply_None_Inr [of e p] RunEvent_Validate_chain [of e]
  by (simp add: run_inv_def run_event_int64_def)

lemma Apply_step_inv: "run_inv p \<Longrightarrow> Apply (Some p) e = Inr q \<Longrightarrow> run_inv q"
  by (elim Apply_Some_Inr)
    (auto simp: run_inv_def dest: RunEvent_Validate_chain applyPayload_usage_in64 [OF valid_run_usage])

lemma replayFrom_inv: "replayFrom (Some p) es = Inr q \<Longrightarrow> run_inv p \<Longrightarrow> run_inv q"
  by (induction rule: run_ledger.replay_from_invariant) (auto intro: Apply_step_inv)

lemma Replay_inv:
  assumes "Replay es = Inr p" and "\<forall>e\<in>set es. run_event_int64 e"
  shows "run_inv p"
proof -
  obtain e fs where es: "es = e # fs"
    using assms(1) by (cases es) (simp_all add: Replay_def)
  with assms obtain p0 where "Apply None e = Inr p0" "replayFrom (Some p0) fs = Inr p"
    by (auto simp: Replay_def)
  with assms(2) es show ?thesis
    by (auto intro: replayFrom_inv Apply_first_inv)
qed

text \<open>One accepted event, as an effect on the run followed by the new sequence number and clock.\<close>

lemma Apply_effect:
  assumes "run_inv p" and "Apply (Some p) e = Inr q"
  obtains r where "run_effect (pj_Run p) r"
    and "pj_Run q = r\<lparr>ar_EventSequence := ev_Sequence e, ar_UpdatedAt := ev_OccurredAt e\<rparr>"
  using assms by (elim Apply_Some_Inr) (auto simp: run_inv_def intro: applyPayload_effect)

section \<open>The documented lifecycle\<close>

text \<open>
  The transition table of \<^verbatim>\<open>docs/architecture/KERNEL_SEMANTICS.md\<close>, stated by kind of move rather
  than by row.
\<close>

definition waiting :: "RunState \<Rightarrow> bool" where
  "waiting s \<longleftrightarrow> s \<in> {RunWaitingForEvent, RunWaitingForAgent, RunWaitingForApproval}"

inductive lifecycle :: "RunState \<Rightarrow> RunState \<Rightarrow> bool" where
  admit: "s \<in> {RunCreated, RunBlocked} \<Longrightarrow> lifecycle s RunAdmitted"
| resume: "waiting s \<or> s \<in> {RunAdmitted, RunBlocked} \<Longrightarrow> lifecycle s RunRunning"
| wait: "waiting w \<Longrightarrow> lifecycle RunRunning w"
| block: "waiting s \<or> s \<in> {RunAdmitted, RunRunning} \<Longrightarrow> lifecycle s RunBlocked"
| complete: "lifecycle RunRunning RunCompleted"
| stop: "validRunState s \<Longrightarrow> \<not> RunState_Terminal s \<Longrightarrow> t \<in> {RunFailed, RunCancelled} \<Longrightarrow> lifecycle s t"

inductive_simps lifecycle_iff: "lifecycle s t"

lemma CanTransition_iff: "CanTransition s t \<longleftrightarrow> lifecycle s t"
  by (cases s; cases t) (simp_all add: CanTransition_def lifecycle_iff waiting_def)

lemma lifecycle_terminal: "RunState_Terminal s \<Longrightarrow> \<not> lifecycle s t"
  by (cases s) (auto simp: lifecycle_iff waiting_def)

lemma run_effect_state: "run_effect r r' \<Longrightarrow> ar_State r' = ar_State r \<or> lifecycle (ar_State r) (ar_State r')"
  by (induction rule: run_effect.induct) (auto simp: CanTransition_iff lifecycle_iff waiting_def)

lemma Apply_lifecycle:
  "run_inv p \<Longrightarrow> Apply (Some p) e = Inr q \<Longrightarrow>
     ar_State (pj_Run q) = ar_State (pj_Run p) \<or> lifecycle (ar_State (pj_Run p)) (ar_State (pj_Run q))"
  by (erule (1) Apply_effect) (auto dest: run_effect_state)

lemma run_effect_terminal:
  "run_effect r r' \<Longrightarrow> RunState_Terminal (ar_State r) \<Longrightarrow>
     ar_State r' = ar_State r \<and> ar_StateReason r' = ar_StateReason r \<and>
     ar_CompletedAt r' = ar_CompletedAt r \<and> ar_BudgetUsage r' = ar_BudgetUsage r \<and>
     ar_ActiveExecutionID r' = ar_ActiveExecutionID r"
  by (induction rule: run_effect.induct) (auto simp: CanTransition_iff lifecycle_terminal)

lemma Apply_terminal:
  "run_inv p \<Longrightarrow> Apply (Some p) e = Inr q \<Longrightarrow> RunState_Terminal (ar_State (pj_Run p)) \<Longrightarrow>
     ar_State (pj_Run q) = ar_State (pj_Run p) \<and> ar_StateReason (pj_Run q) = ar_StateReason (pj_Run p) \<and>
     ar_CompletedAt (pj_Run q) = ar_CompletedAt (pj_Run p) \<and>
     ar_BudgetUsage (pj_Run q) = ar_BudgetUsage (pj_Run p) \<and>
     ar_ActiveExecutionID (pj_Run q) = ar_ActiveExecutionID (pj_Run p)"
  by (erule (1) Apply_effect) (auto dest: run_effect_terminal)

section \<open>Charges and capabilities over a history\<close>

definition no_usage :: BudgetUsage where
  "no_usage = \<lparr>InputTokens = 0, OutputTokens = 0, ModelCalls = 0, ToolCalls = 0,
               CostMicros = 0, WallTimeSeconds = 0\<rparr>"

text \<open>What an event charges to the budget, and which capabilities it installs.\<close>

definition charge_of :: "RunEvent \<Rightarrow> BudgetUsage" where
  "charge_of e = (case (ev_Type e, ev_Payload e) of
     (EventRunExecutionFinished, RunExecutionFinished pl) \<Rightarrow> xf_Usage pl
   | _ \<Rightarrow> no_usage)"

definition granted_by :: "RunEvent \<Rightarrow> CapabilityGrant list" where
  "granted_by e = (case (ev_Type e, ev_Payload e) of
     (EventCapabilitiesGranted, CapabilitiesGranted pl) \<Rightarrow> gp_Grants pl
   | _ \<Rightarrow> [])"

definition usage_fields :: "(BudgetUsage \<Rightarrow> int64) list" where
  "usage_fields = [InputTokens, OutputTokens, ModelCalls, ToolCalls, CostMicros, WallTimeSeconds]"

lemma charged_no_usage: "charged u no_usage v \<longleftrightarrow> v = u"
  by (auto simp: charged_def no_usage_def)

lemma charged_fields:
  "charged u d v \<Longrightarrow> f \<in> set usage_fields \<Longrightarrow> 0 \<le> f d \<and> f v = f u + f d"
  by (auto simp: charged_def usage_fields_def)

lemma applyPayload_charged:
  assumes "usage_nonneg (ar_BudgetUsage r)" "usage_in64 (ar_BudgetUsage r)" "applyPayload r e = Inr r'"
  shows "charged (ar_BudgetUsage r) (charge_of e) (ar_BudgetUsage r')"
  using assms
  by (auto simp: applyPayload_def charge_of_def charged_no_usage applyStateChanged_Inr
      applyExecutionStarted_def applyExecutionFinished_def applyCapabilitiesGranted_def
      addBudgetUsage_Inr split: RunEventType.splits)

lemma applyPayload_granted:
  "applyPayload r e = Inr r' \<Longrightarrow>
     ar_CapabilityIDs r' = ar_CapabilityIDs r @ map cg_ID (granted_by e) \<and>
     (\<forall>g\<in>set (granted_by e). CapabilityGrant_Validate g = None \<and> cg_SubjectRunID g = ar_ID r)"
  by (auto simp: applyPayload_def granted_by_def applyStateChanged_Inr installGrants_Inr
      applyExecutionStarted_def applyExecutionFinished_def applyCapabilitiesGranted_def
      split: RunEventType.splits)

lemma Apply_charged:
  "run_inv p \<Longrightarrow> Apply (Some p) e = Inr q \<Longrightarrow>
     charged (ar_BudgetUsage (pj_Run p)) (charge_of e) (ar_BudgetUsage (pj_Run q))"
  by (elim Apply_Some_Inr) (auto simp: run_inv_def valid_run_usage intro: applyPayload_charged)

lemma Apply_granted:
  "Apply (Some p) e = Inr q \<Longrightarrow>
     ar_CapabilityIDs (pj_Run q) = ar_CapabilityIDs (pj_Run p) @ map cg_ID (granted_by e) \<and>
     (\<forall>g\<in>set (granted_by e). CapabilityGrant_Validate g = None \<and> cg_SubjectRunID g = ar_ID (pj_Run p))"
  by (elim Apply_Some_Inr) (auto dest: applyPayload_granted)

lemma replayFrom_charges:
  assumes "replayFrom (Some p) es = Inr q" and "run_inv p" and "f \<in> set usage_fields"
  shows "f (ar_BudgetUsage (pj_Run q)) =
     f (ar_BudgetUsage (pj_Run p)) + sum_list (map (\<lambda>e. f (charge_of e)) es) \<and>
     (\<forall>e\<in>set es. 0 \<le> f (charge_of e))"
  using assms(1,2)
proof (induction es arbitrary: p)
  case Nil
  then show ?case by simp
next
  case (Cons e es)
  then obtain r where r: "Apply (Some p) e = Inr r" "replayFrom (Some r) es = Inr q"
    by auto
  have "charged (ar_BudgetUsage (pj_Run p)) (charge_of e) (ar_BudgetUsage (pj_Run r))"
    using Apply_charged Cons.prems(2) r(1) by blast
  from charged_fields [OF this assms(3)] Cons.IH [OF r(2) Apply_step_inv [OF Cons.prems(2) r(1)]]
  show ?case by simp
qed

lemma replayFrom_granted:
  "replayFrom (Some p) es = Inr q \<Longrightarrow>
     ar_CapabilityIDs (pj_Run q) = ar_CapabilityIDs (pj_Run p) @ map cg_ID (concat (map granted_by es))"
  by (induction es arbitrary: p) (auto dest: Apply_granted)

end
