(* ===== verification/Event_Log.thy ===== *)
theory Event_Log
  imports Run_Reducer
begin

text \<open>
  Authoring run events (\<^verbatim>\<open>internal/kernel/eventlog/event.go\<close>) and their digests
  (\<^verbatim>\<open>internal/kernel/model/event_digest.go\<close>).

  SHA-256 over the JSON encoding is an argument of the definitions that use it: \<open>digest e\<close> is the
  prefixed hexadecimal digest of the encoded event, or \<^const>\<open>None\<close> where encoding fails; \<open>hash16 s\<close> is
  the hexadecimal rendering of the first sixteen bytes of the hash of \<open>s\<close>; \<open>encodable\<close> says which
  payloads \<^verbatim>\<open>json.Marshal\<close> accepts. What the theorems need of them is stated as hypotheses: the
  format of the output, and that the digests of the events at hand differ where the events do.
\<close>

section \<open>Digests\<close>

definition ComputeEventDigest :: "(RunEvent \<Rightarrow> string option) \<Rightarrow> RunEvent \<Rightarrow> string option" where
  "ComputeEventDigest digest event = digest (event\<lparr>ev_Digest := ''''\<rparr>)"

definition VerifyEventDigest :: "(RunEvent \<Rightarrow> string option) \<Rightarrow> RunEvent \<Rightarrow> bool option" where
  "VerifyEventDigest digest event = (case ComputeEventDigest digest event of
     None \<Rightarrow> None
   | Some want \<Rightarrow> Some (ev_Digest event = want))"

lemma VerifyEventDigest_True:
  "VerifyEventDigest digest e = Some True \<longleftrightarrow> digest (e\<lparr>ev_Digest := ''''\<rparr>) = Some (ev_Digest e)"
  by (auto simp: VerifyEventDigest_def ComputeEventDigest_def split: option.splits)

section \<open>Authoring the next event\<close>

definition event_ID :: "(string \<Rightarrow> string) \<Rightarrow> string \<Rightarrow> int64 \<Rightarrow> string" where
  "event_ID hash16 runID sequence =
     ''event:'' @ hash16 runID @ '':'' @ (if sequence < 0 then ''-'' else '''') @ dec (nat \<bar>sequence\<bar>)"

definition Next :: "(RunPayload \<Rightarrow> bool) \<Rightarrow> (RunEvent \<Rightarrow> string option) \<Rightarrow> (string \<Rightarrow> string) \<Rightarrow>
    Projection \<Rightarrow> RunEventType \<Rightarrow> Principal \<Rightarrow> time \<Rightarrow> RunPayload \<Rightarrow> RunEvent option" where
  "Next encodable digest hash16 projection eventType actor occurredAt payload =
     (if \<not> encodable payload then None
      else let
        run = pj_Run projection;
        occurredAt = (if occurredAt < ar_UpdatedAt run then ar_UpdatedAt run else occurredAt);
        sequence = wrap64 (ar_EventSequence run + 1);
        event = \<lparr>ev_Version = ''gatemole.run_event.v0'', ev_ID = event_ID hash16 (ar_ID run) sequence,
                 ev_RunID = ar_ID run, ev_Sequence = sequence, ev_Type = eventType, ev_Actor = actor,
                 ev_OccurredAt = occurredAt, ev_Payload = payload, ev_Artifacts = [],
                 ev_PolicyDecisionID = '''', ev_PreviousDigest = pj_LastEventDigest projection,
                 ev_Digest = ''''\<rparr>
      in case ComputeEventDigest digest event of
           None \<Rightarrow> None
         | Some d \<Rightarrow> Some (event\<lparr>ev_Digest := d\<rparr>))"

section \<open>Authored events are well formed\<close>

definition digest_format :: "(RunEvent \<Rightarrow> string option) \<Rightarrow> bool" where
  "digest_format digest \<longleftrightarrow> (\<forall>e d. digest e = Some d \<longrightarrow> IsSHA256Digest d)"

definition hash16_format :: "(string \<Rightarrow> string) \<Rightarrow> bool" where
  "hash16_format hash16 \<longleftrightarrow> (\<forall>s. length (hash16 s) = 32 \<and> list_all is_lower_hex (hash16 s))"

lemma length_dec: "n < 10 ^ Suc k \<Longrightarrow> length (dec n) \<le> Suc k"
proof (induction k arbitrary: n)
  case 0
  then show ?case by (simp add: dec.simps)
next
  case (Suc k)
  show ?case
  proof (cases "n < 10")
    case True
    then show ?thesis by (simp add: dec.simps)
  next
    case False
    from Suc.prems have "n div 10 < 10 ^ Suc k" by (simp add: less_mult_imp_div_less)
    then have "length (dec (n div 10)) \<le> Suc k" by (rule Suc.IH)
    with False show ?thesis by (simp add: dec.simps [of n])
  qed
qed

lemma digit_char_ident: "d < 10 \<Longrightarrow> is_ident_char (digit_char d)"
proof -
  have "\<forall>d\<in>set [0..<10]. is_ident_char (digit_char d)" by code_simp
  then show "d < 10 \<Longrightarrow> ?thesis" by simp
qed

lemma dec_ident: "list_all is_ident_char (dec n)"
proof (induction n rule: dec.induct)
  case (1 n)
  then show ?case by (cases "n < 10") (simp_all add: dec.simps [of n] digit_char_ident)
qed

lemma lower_hex_ident: "is_lower_hex c \<Longrightarrow> is_ident_char c"
  by (auto simp: is_lower_hex_def is_ident_char_def is_alnum_def Let_def)

lemma event_ID_identifier:
  assumes "hash16_format hash16" and "0 \<le> sequence" and "in64 sequence"
  shows "IsIdentifier (event_ID hash16 runID sequence)"
proof -
  have "list_all is_ident_char (hash16 runID)" "length (hash16 runID) = 32"
    using assms(1) lower_hex_ident by (auto simp: hash16_format_def list_all_iff)
  moreover have "nat \<bar>sequence\<bar> < 10 ^ Suc 18"
    using assms(2,3) by (simp add: in64_def max64_def nat_less_iff)
  then have "length (dec (nat \<bar>sequence\<bar>)) \<le> Suc 18" by (rule length_dec)
  ultimately show ?thesis
    using dec_ident [of "nat \<bar>sequence\<bar>"] assms(2)
    by (simp add: IsIdentifier_def event_ID_def is_alnum_def is_ident_char_def)
qed

lemma Next_Some:
  assumes "Next encodable digest hash16 p ty actor t payload = Some e"
  shows "encodable payload" "ev_Version e = ''gatemole.run_event.v0''"
    "ev_ID e = event_ID hash16 (ar_ID (pj_Run p)) (ev_Sequence e)"
    "ev_RunID e = ar_ID (pj_Run p)" "ev_Sequence e = wrap64 (ar_EventSequence (pj_Run p) + 1)"
    "ev_Type e = ty" "ev_Actor e = actor" "ev_OccurredAt e = max t (ar_UpdatedAt (pj_Run p))"
    "ev_Payload e = payload" "ev_Artifacts e = []" "ev_PolicyDecisionID e = ''''"
    "ev_PreviousDigest e = pj_LastEventDigest p"
    "digest (e\<lparr>ev_Digest := ''''\<rparr>) = Some (ev_Digest e)"
  using assms
  by (auto simp: Next_def ComputeEventDigest_def Let_def split: if_splits option.splits)

lemma Next_verified: "Next encodable digest hash16 p ty actor t payload = Some e \<Longrightarrow> VerifyEventDigest digest e = Some True"
  by (simp add: VerifyEventDigest_True Next_Some(13))

lemma Next_validates:
  assumes inv: "run_inv p" and room: "1 \<le> ar_EventSequence (pj_Run p)" "ar_EventSequence (pj_Run p) < max64"
    and formats: "digest_format digest" "hash16_format hash16"
    and parts: "valid_principal actor" "IsIdentifier (RunEventType_name ty)" "payload \<noteq> Undecodable NotOneObject"
    and time: "0 < ar_UpdatedAt (pj_Run p)"
    and "Next": "Next encodable digest hash16 p ty actor t payload = Some e"
  shows "RunEvent_Validate e = None"
proof -
  note e = Next_Some [OF "Next"]
  have seq: "ev_Sequence e = ar_EventSequence (pj_Run p) + 1"
    using e(5) room by (simp add: wrap64_id in64_def min64_def max64_def)
  then have "IsIdentifier (ev_ID e)"
    using event_ID_identifier [OF formats(2)] e(3) room by (simp add: in64_def min64_def)
  moreover have "IsSHA256Digest (ev_Digest e)"
    using formats(1) e(13) by (simp add: digest_format_def)
  moreover have "ev_OccurredAt e \<noteq> 0" using e(8) time by simp
  moreover have "payload_json payload = RawObject ''''"
    using parts(3) by (cases payload rule: payload_json.cases) auto
  moreover have "IsSHA256Digest (pj_LastEventDigest p)" "valid_run (pj_Run p)"
    using inv by (simp_all add: run_inv_def)
  moreover have "pj_LastEventDigest p \<noteq> ''''"
    using calculation(5) by (auto simp: IsSHA256Digest_def hex_suffix_def)
  ultimately show ?thesis
    using e seq parts room valid_run_identity [of "pj_Run p"]
    by (simp add: RunEvent_Validate_def Let_def validate_simps)
qed

lemma Next_envelope:
  assumes "Next encodable digest hash16 p ty actor t payload = Some e" and "ty \<noteq> EventRunCreated"
  shows "checkEnvelope p e = None"
  using Next_Some [OF assms(1)] assms(2) by (simp add: checkEnvelope_None)

end
