(* ===== verification/Run_Examples.thy ===== *)
theory Run_Examples
  imports Event_Log
begin

text \<open>
  One concrete run history on which the theorems about runs are applied: created, granted a
  capability, admitted, started, settled with a charge, and failed.
\<close>

definition ex_actor :: Principal where
  "ex_actor = \<lparr>pr_ID = ''service:gatemoled'', pr_Kind = PrincipalService, pr_Issuer = ''gatemoled'',
               pr_ClaimsDigest = ''''\<rparr>"

definition ex_limits :: BudgetLimits where
  "ex_limits = \<lparr>MaxInputTokens = Some 100, MaxOutputTokens = None, MaxModelCalls = Some 10,
                MaxToolCalls = None, MaxCostMicros = None, MaxWallTimeSeconds = Some 3600\<rparr>"

definition ex_run :: AgentRun where
  "ex_run = \<lparr>ar_Version = ''gatemole.agent_run.v0'', ar_ID = ''run:1'', ar_Namespace = ''team'',
     ar_ImageDigest = sample_digest (CHR ''a''), ar_ContractDigest = sample_digest (CHR ''b''),
     ar_Principal = \<lparr>pr_ID = ''run:1'', pr_Kind = PrincipalRun, pr_Issuer = '''', pr_ClaimsDigest = ''''\<rparr>,
     ar_DelegationChain = [], ar_ParentRunID = '''', ar_State = RunCreated, ar_StateReason = '''',
     ar_Priority = 0, ar_Deadline = None, ar_BudgetLimits = ex_limits, ar_BudgetUsage = no_usage,
     ar_Workspace = '''', ar_Runtime = None, ar_ActiveExecutionID = '''', ar_CapabilityIDs = [],
     ar_CheckpointID = '''', ar_OutstandingApprovalIDs = [], ar_EventSequence = 1,
     ar_CreatedAt = 1000, ar_UpdatedAt = 1000, ar_CompletedAt = None\<rparr>"

definition ex_conditions :: CapabilityConditions where
  "ex_conditions = \<lparr>cc_ApprovalRequired = False, cc_WorkspaceRoot = ''workspace'',
     cc_EnvironmentAllow = [], cc_DataClassifications = [], cc_MaxOutputBytes = None\<rparr>"

definition ex_grant :: CapabilityGrant where
  "ex_grant = \<lparr>cg_Version = ''gatemole.capability_grant.v0'', cg_ID = ''cap:1'',
     cg_SubjectRunID = ''run:1'', cg_Issuer = ex_actor,
     cg_Resource = \<lparr>rs_Kind = ''filesystem'', rs_Pattern = ''workspace/**''\<rparr>,
     cg_Operations = [''filesystem.read''], cg_Conditions = ex_conditions, cg_Delegable = False,
     cg_DelegationParentID = '''', cg_IssuedAt = 1000, cg_ExpiresAt = 9000, cg_RevokedAt = None,
     cg_MaxUses = None, cg_Uses = 0, cg_PolicyDecisionID = ''decision:1''\<rparr>"

text \<open>Event identifiers that differ by sequence number.\<close>

definition ex_event_id :: "nat \<Rightarrow> string" where
  "ex_event_id n = ''event:'' @ replicate (n mod 50) (CHR ''x'')"

lemma ex_event_id_identifier [example_simps]: "IsIdentifier (ex_event_id n)"
proof -
  have "is_ident_char (CHR ''x'')" "list_all is_ident_char ''vent:''" "is_alnum (CHR ''e'')" by code_simp+
  then show ?thesis by (simp add: IsIdentifier_def ex_event_id_def list_all_iff)
qed

lemma ex_event_id_eq_iff [simp]: "m < 50 \<Longrightarrow> n < 50 \<Longrightarrow> ex_event_id m = ex_event_id n \<longleftrightarrow> m = n"
  by (simp add: ex_event_id_def)

definition ex_event :: "int64 \<Rightarrow> RunEventType \<Rightarrow> RunPayload \<Rightarrow> string \<Rightarrow> string \<Rightarrow> RunEvent" where
  "ex_event n ty payload prev digest = \<lparr>ev_Version = ''gatemole.run_event.v0'',
     ev_ID = ex_event_id (nat n), ev_RunID = ''run:1'', ev_Sequence = n, ev_Type = ty,
     ev_Actor = ex_actor, ev_OccurredAt = 999 + n, ev_Payload = payload, ev_Artifacts = [],
     ev_PolicyDecisionID = '''', ev_PreviousDigest = prev, ev_Digest = digest\<rparr>"

definition ex_charge :: BudgetUsage where
  "ex_charge = \<lparr>InputTokens = 40, OutputTokens = 7, ModelCalls = 2, ToolCalls = 0, CostMicros = 0,
                WallTimeSeconds = 60\<rparr>"

definition ex_created :: RunEvent where
  "ex_created = ex_event 1 EventRunCreated (RunCreatedPayload ex_run) '''' (sample_digest (CHR ''1''))"

definition ex_granted :: RunEvent where
  "ex_granted = ex_event 2 EventCapabilitiesGranted
     (CapabilitiesGranted \<lparr>gp_ContractDigest = sample_digest (CHR ''b''), gp_Grants = [ex_grant]\<rparr>)
     (sample_digest (CHR ''1'')) (sample_digest (CHR ''2''))"

definition ex_admitted :: RunEvent where
  "ex_admitted = ex_event 3 EventRunStateChanged
     (RunStateChanged \<lparr>sc_From = RunCreated, sc_To = RunAdmitted, sc_Reason = ''''\<rparr>)
     (sample_digest (CHR ''2'')) (sample_digest (CHR ''3''))"

definition ex_started :: RunEvent where
  "ex_started = ex_event 4 EventRunExecutionStarted
     (RunExecutionStarted \<lparr>xs_TransactionID = ''tx:1'', xs_ExecutionID = ''exec:1'', xs_Attempt = 1\<rparr>)
     (sample_digest (CHR ''3'')) (sample_digest (CHR ''4''))"

definition ex_finished :: RunEvent where
  "ex_finished = ex_event 5 EventRunExecutionFinished
     (RunExecutionFinished \<lparr>xf_TransactionID = ''tx:1'', xf_ExecutionID = ''exec:1'', xf_Attempt = 1,
        xf_Status = AgentExecutionFailed, xf_Usage = ex_charge\<rparr>)
     (sample_digest (CHR ''4'')) (sample_digest (CHR ''5''))"

definition ex_failed :: RunEvent where
  "ex_failed = ex_event 6 EventRunStateChanged
     (RunStateChanged \<lparr>sc_From = RunWaitingForAgent, sc_To = RunFailed, sc_Reason = ''crashed''\<rparr>)
     (sample_digest (CHR ''5'')) (sample_digest (CHR ''6''))"

text \<open>The projections after each event.\<close>

definition ex_p1 :: Projection where
  "ex_p1 = \<lparr>pj_Run = ex_run, pj_LastEventDigest = sample_digest (CHR ''1'')\<rparr>"

definition ex_p2 :: Projection where
  "ex_p2 = \<lparr>pj_Run = ex_run\<lparr>ar_CapabilityIDs := [''cap:1''], ar_EventSequence := 2, ar_UpdatedAt := 1001\<rparr>,
            pj_LastEventDigest = sample_digest (CHR ''2'')\<rparr>"

definition ex_p3 :: Projection where
  "ex_p3 = \<lparr>pj_Run = (pj_Run ex_p2)\<lparr>ar_State := RunAdmitted, ar_EventSequence := 3, ar_UpdatedAt := 1002\<rparr>,
            pj_LastEventDigest = sample_digest (CHR ''3'')\<rparr>"

definition ex_p4 :: Projection where
  "ex_p4 = \<lparr>pj_Run = (pj_Run ex_p3)\<lparr>ar_State := RunRunning, ar_ActiveExecutionID := ''exec:1'',
              ar_EventSequence := 4, ar_UpdatedAt := 1003\<rparr>,
            pj_LastEventDigest = sample_digest (CHR ''4'')\<rparr>"

definition ex_p5 :: Projection where
  "ex_p5 = \<lparr>pj_Run = (pj_Run ex_p4)\<lparr>ar_State := RunWaitingForAgent, ar_ActiveExecutionID := '''',
              ar_BudgetUsage := ex_charge, ar_EventSequence := 5, ar_UpdatedAt := 1004\<rparr>,
            pj_LastEventDigest = sample_digest (CHR ''5'')\<rparr>"

definition ex_p6 :: Projection where
  "ex_p6 = \<lparr>pj_Run = (pj_Run ex_p5)\<lparr>ar_State := RunFailed, ar_StateReason := ''crashed'',
              ar_CompletedAt := Some 1005, ar_EventSequence := 6, ar_UpdatedAt := 1005\<rparr>,
            pj_LastEventDigest = sample_digest (CHR ''6'')\<rparr>"

lemmas ex_event_defs = ex_event_def ex_created_def ex_granted_def ex_admitted_def ex_started_def
  ex_finished_def ex_failed_def

lemmas ex_projection_defs = ex_p1_def ex_p2_def ex_p3_def ex_p4_def ex_p5_def ex_p6_def

lemma ex_identifiers [example_simps]:
  "IsIdentifier ''run:1''" "IsIdentifier ''team''" "IsIdentifier ''service:gatemoled''"
  "IsIdentifier ''cap:1''" "IsIdentifier ''filesystem''" "IsIdentifier ''filesystem.read''"
  "IsIdentifier ''decision:1''" "IsIdentifier ''tx:1''"
  "IsIdentifier ''exec:1''"
  by code_simp+

lemma ex_event_types [example_simps]:
  "IsIdentifier (RunEventType_name EventRunCreated)"
  "IsIdentifier (RunEventType_name EventRunStateChanged)"
  "IsIdentifier (RunEventType_name EventRunExecutionStarted)"
  "IsIdentifier (RunEventType_name EventRunExecutionFinished)"
  "IsIdentifier (RunEventType_name EventCapabilitiesGranted)"
  "IsIdentifier (RunEventType_name EventActionRequested)"
  by code_simp+

lemma ex_chars [example_simps]:
  "is_lower_hex (CHR ''a'')" "is_lower_hex (CHR ''b'')" "is_lower_hex (CHR ''1'')"
  "is_lower_hex (CHR ''2'')" "is_lower_hex (CHR ''3'')" "is_lower_hex (CHR ''4'')"
  "is_lower_hex (CHR ''5'')" "is_lower_hex (CHR ''6'')" "is_alnum (CHR ''w'')" "is_alnum (CHR ''c'')"
  by code_simp+

lemma ex_actor_valid [example_simps]: "valid_principal ex_actor"
  by (simp add: valid_principal_def ex_actor_def example_simps)

lemma ex_event_valid [example_simps]:
  "IsIdentifier (RunEventType_name ty) \<Longrightarrow> payload_json payload = RawObject '''' \<Longrightarrow> 1 \<le> n \<Longrightarrow>
   prev = '''' \<and> n = 1 \<or> IsSHA256Digest prev \<and> 1 < n \<and> prev \<noteq> '''' \<Longrightarrow> IsSHA256Digest digest \<Longrightarrow>
   RunEvent_Validate (ex_event n ty payload prev digest) = None"
  by (auto simp: RunEvent_Validate_def ex_event_def Let_def validate_simps example_simps
      simp del: RunEventType_name.simps)

lemma ex_events_valid:
  "RunEvent_Validate ex_created = None" "RunEvent_Validate ex_granted = None"
  "RunEvent_Validate ex_admitted = None" "RunEvent_Validate ex_started = None"
  "RunEvent_Validate ex_finished = None" "RunEvent_Validate ex_failed = None"
  unfolding ex_created_def ex_granted_def ex_admitted_def ex_started_def ex_finished_def ex_failed_def
  by (rule ex_event_valid; simp add: example_simps del: RunEventType_name.simps)+

lemma ex_grant_sel [example_simps]: "cg_SubjectRunID ex_grant = ''run:1''" "cg_ID ex_grant = ''cap:1''"
  by (simp_all add: ex_grant_def)

lemma ex_grant_valid: "CapabilityGrant_Validate ex_grant = None"
  by (simp add: CapabilityGrant_Validate_def ex_grant_def ex_conditions_def Let_def validate_simps
      example_simps valid_conditions_def)

lemma ex_run_valid: "AgentRun_Validate ex_run = None"
  by (simp add: AgentRun_Validate_def ex_run_def ex_limits_def no_usage_def Let_def validate_simps
      example_simps valid_principal_def limits_nonneg_def limit_nonneg_def within_limits_def
      within_limit_def stateRequiresReason_def)

lemmas ex_eval = AgentRun_Validate_def ex_limits_def no_usage_def Let_def validate_simps
  example_simps valid_principal_def limits_nonneg_def limit_nonneg_def within_limits_def
  within_limit_def stateRequiresReason_def ex_run_def wrap64_def max64_def

lemma ex_apply1: "Apply None ex_created = Inr ex_p1"
  by (simp add: Apply.simps ex_events_valid applyCreation_def DecodePayloadStrict_def ex_run_valid
      ex_p1_def) (simp add: ex_event_defs ex_run_def ex_run_valid [unfolded ex_run_def])

lemmas ex_apply_defs = ex_event_defs checkEnvelope_def applyPayload_def DecodePayloadStrict_def
  applyCapabilitiesGranted_def applyStateChanged_def applyExecutionStarted_def ValidateTransition_def
  CanTransition_def requiresReason_def applyExecutionFinished_def addBudgetUsage_def addCharge_def
  ex_charge_def ex_projection_defs ex_grant_valid ex_eval

lemma ex_apply2: "Apply (Some ex_p1) ex_granted = Inr ex_p2"
  by (simp add: Apply.simps ex_events_valid) (simp add: ex_apply_defs)

lemma ex_apply3: "Apply (Some ex_p2) ex_admitted = Inr ex_p3"
  by (simp add: Apply.simps ex_events_valid) (simp add: ex_apply_defs)

lemma ex_apply4: "Apply (Some ex_p3) ex_started = Inr ex_p4"
  by (simp add: Apply.simps ex_events_valid) (simp add: ex_apply_defs)

lemma ex_apply5: "Apply (Some ex_p4) ex_finished = Inr ex_p5"
  by (simp add: Apply.simps ex_events_valid) (simp add: ex_apply_defs)

lemma ex_apply6: "Apply (Some ex_p5) ex_failed = Inr ex_p6"
  by (simp add: Apply.simps ex_events_valid) (simp add: ex_apply_defs)

lemmas ex_applies = ex_apply1 ex_apply2 ex_apply3 ex_apply4 ex_apply5 ex_apply6

definition ex_history :: "RunEvent list" where
  "ex_history = [ex_created, ex_granted, ex_admitted, ex_started, ex_finished, ex_failed]"

lemma ex_replay: "Replay ex_history = Inr ex_p6"
  by (simp add: Replay_def ex_history_def ex_applies)

lemma ex_replay_running: "Replay [ex_created, ex_granted, ex_admitted, ex_started] = Inr ex_p4"
  by (simp add: Replay_def ex_applies)

lemma ex_history_int64: "\<forall>e\<in>set ex_history. run_event_int64 e"
  by (simp add: ex_history_def run_event_int64_def ex_event_defs ex_run_def no_usage_def usage_in64_def
      in64_def min64_def max64_def)

end
