(* ===== verification/Run_Properties.thy ===== *)
theory Run_Properties
  imports Run_Examples
begin

text \<open>The properties of run histories, each applied to the example history where it has hypotheses.\<close>

text \<open>A replayed run history is contiguous, linked and monotone: event \<open>i\<close> has sequence number
  \<open>i + 1\<close>, names the digest of its predecessor, belongs to the same run and does not go back in
  time, and the projection carries the number and digest of the last event.\<close>

theorem replay_contiguous_chain:
  assumes "Replay events = Inr p"
  shows "events \<noteq> [] \<and> ar_EventSequence (pj_Run p) = int (length events) \<and>
     pj_LastEventDigest p = ev_Digest (last events) \<and>
     (\<forall>i < length events. ev_Sequence (events ! i) = int i + 1 \<and>
        ev_RunID (events ! i) = ar_ID (pj_Run p)) \<and>
     (\<forall>i. Suc i < length events \<longrightarrow>
        ev_PreviousDigest (events ! Suc i) = ev_Digest (events ! i) \<and>
        ev_OccurredAt (events ! i) \<le> ev_OccurredAt (events ! Suc i))"
  using assms run_ledger.replay_head run_ledger.replay_sequence run_ledger.replay_numbered
    run_ledger.replay_stream run_ledger.replay_linked
  unfolding Replay_ledger by (metis nth_mem)

theorem replay_contiguous_chain_witness:
  "Replay ex_history = Inr ex_p6 \<and> ev_Sequence (ex_history ! 4) = 5 \<and>
   ev_PreviousDigest (ex_history ! 4) = ev_Digest (ex_history ! 3)"
proof -
  have len: "length ex_history = 6" by (simp add: ex_history_def)
  note * = replay_contiguous_chain [OF ex_replay]
  have "ev_Sequence (ex_history ! 4) = int 4 + 1" using * len by simp
  moreover have "Suc 3 < length ex_history \<longrightarrow> ev_PreviousDigest (ex_history ! Suc 3) = ev_Digest (ex_history ! 3)"
    using * by blast
  ultimately show ?thesis using len ex_replay by simp
qed

text \<open>C12. Every accepted history leaves a run that passes its own validation: the state is a
  declared one, usage is nonnegative, fits 64 bits and is within the hard limits, an active
  execution implies the running state, capability identifiers are distinct, and completion is
  recorded exactly in the terminal states.\<close>

theorem replay_run_invariant:
  assumes "Replay events = Inr p" and "\<forall>e\<in>set events. run_event_int64 e"
  shows "AgentRun_Validate (pj_Run p) = None \<and>
     validRunState (ar_State (pj_Run p)) \<and>
     usage_in64 (ar_BudgetUsage (pj_Run p)) \<and>
     within_limits (ar_BudgetUsage (pj_Run p)) (ar_BudgetLimits (pj_Run p)) \<and>
     (ar_ActiveExecutionID (pj_Run p) \<noteq> '''' \<longrightarrow> ar_State (pj_Run p) = RunRunning) \<and>
     distinct (ar_CapabilityIDs (pj_Run p)) \<and>
     (RunState_Terminal (ar_State (pj_Run p)) \<longleftrightarrow> ar_CompletedAt (pj_Run p) \<noteq> None)"
proof -
  have "run_inv p" using Replay_inv assms by blast
  then have "valid_run (pj_Run p)" "usage_in64 (ar_BudgetUsage (pj_Run p))"
    by (simp_all add: run_inv_def)
  then show ?thesis
    using valid_run_state valid_run_budget valid_run_active valid_run_capabilities valid_run_completed
    unfolding valid_run_def by blast
qed

theorem replay_run_invariant_witness:
  "Replay ex_history = Inr ex_p6 \<and> AgentRun_Validate (pj_Run ex_p6) = None \<and>
   within_limits (ar_BudgetUsage (pj_Run ex_p6)) (ar_BudgetLimits (pj_Run ex_p6))"
  using replay_run_invariant [OF ex_replay ex_history_int64] ex_replay by blast

text \<open>The transition table of the reducer is exactly the lifecycle of the kernel's semantics
  document, stated as moves: admit, resume, wait, block, complete, stop.\<close>

theorem can_transition_is_lifecycle: "CanTransition from to \<longleftrightarrow> lifecycle from to"
  by (rule CanTransition_iff)

text \<open>What each kind of event may do to the state of a run: one move of the lifecycle, the one the event names or the one
  that starting or finishing an execution makes.\<close>

definition run_step :: "RunEvent \<Rightarrow> RunState \<Rightarrow> RunState \<Rightarrow> bool" where
  "run_step e s t \<longleftrightarrow> (case ev_Type e of
     EventRunStateChanged \<Rightarrow> (\<exists>c. ev_Payload e = RunStateChanged c \<and> sc_From c = s \<and> sc_To c = t \<and> lifecycle s t)
   | EventRunExecutionStarted \<Rightarrow> s \<in> {RunAdmitted, RunWaitingForAgent, RunWaitingForEvent} \<and> t = RunRunning
   | EventRunExecutionFinished \<Rightarrow> s = RunRunning \<and> t \<in> {RunWaitingForAgent, RunWaitingForEvent}
   | _ \<Rightarrow> t = s)"

lemma run_step_lifecycle: "run_step e s t \<Longrightarrow> t = s \<or> lifecycle s t"
  by (auto simp: run_step_def lifecycle_iff waiting_def split: RunEventType.splits)

lemma Apply_run_step: "Apply (Some p) e = Inr q \<Longrightarrow> run_step e (ar_State (pj_Run p)) (ar_State (pj_Run q))"
  by (elim Apply_Some_Inr)
    (auto simp: run_step_def applyPayload_def applyStateChanged_Inr CanTransition_iff applyExecutionStarted_def
      applyExecutionFinished_def applyCapabilitiesGranted_def split: RunEventType.splits)

text \<open>C17. Refinement of the lifecycle, event by event: every accepted history starts in the created state, and each of its
  further events either keeps the state or makes one move of the documented lifecycle of the kind it may make: a
  state change the move it names, the start of an execution the move to running from where an agent may be
  launched, its end the move back to waiting. No other event moves the state.\<close>

theorem run_refines_lifecycle:
  assumes "Replay es = Inr q" and "k < length es"
  shows "if k = 0 then \<exists>r. Replay (take 1 es) = Inr r \<and> ar_State (pj_Run r) = RunCreated
    else \<exists>r r'. Replay (take k es) = Inr r \<and> Replay (take (Suc k) es) = Inr r' \<and>
      run_step (es ! k) (ar_State (pj_Run r)) (ar_State (pj_Run r')) \<and>
      (ar_State (pj_Run r') = ar_State (pj_Run r) \<or> lifecycle (ar_State (pj_Run r)) (ar_State (pj_Run r')))"
proof (cases "k = 0")
  case True
  with assms obtain e fs where es: "es = e # fs" by (cases es) auto
  from run_ledger.replay_take [OF assms(1) [unfolded Replay_ledger], of 1] es obtain r where "replayFrom None [e] = Inr r" by auto
  with es True show ?thesis by (auto simp: Replay_ledger run_ledger.replay_single dest: Apply_None_Inr)
next
  case False
  with run_ledger.replay_step [OF assms(1) [unfolded Replay_ledger] _ assms(2)] Apply_run_step run_step_lifecycle
  show ?thesis unfolding Replay_ledger by fastforce
qed

theorem run_refines_lifecycle_witness:
  "\<exists>r r'. Replay (take 3 ex_history) = Inr r \<and> Replay (take 4 ex_history) = Inr r' \<and>
     run_step (ex_history ! 3) (ar_State (pj_Run r)) (ar_State (pj_Run r'))"
  using run_refines_lifecycle [OF ex_replay, of 3] by (auto simp: ex_history_def)

text \<open>Terminal states are final: whatever is appended to the history of a failed, cancelled or
  completed run, its state, reason, completion time and budget usage stay as they were.\<close>

theorem terminal_runs_are_final:
  assumes "Replay es = Inr p" and "\<forall>e\<in>set es. run_event_int64 e"
    and "RunState_Terminal (ar_State (pj_Run p))" and "Replay (es @ fs) = Inr q"
  shows "ar_State (pj_Run q) = ar_State (pj_Run p) \<and>
     ar_StateReason (pj_Run q) = ar_StateReason (pj_Run p) \<and>
     ar_CompletedAt (pj_Run q) = ar_CompletedAt (pj_Run p) \<and>
     ar_BudgetUsage (pj_Run q) = ar_BudgetUsage (pj_Run p)"
proof -
  have "replayFrom (Some p) fs = Inr q"
    using run_ledger.replay_extended assms(1,4) unfolding Replay_ledger by blast
  then have "run_inv q \<and> ar_State (pj_Run q) = ar_State (pj_Run p) \<and>
     ar_StateReason (pj_Run q) = ar_StateReason (pj_Run p) \<and>
     ar_CompletedAt (pj_Run q) = ar_CompletedAt (pj_Run p) \<and>
     ar_BudgetUsage (pj_Run q) = ar_BudgetUsage (pj_Run p)"
  proof (induction rule: run_ledger.replay_from_invariant)
    case start
    then show ?case using Replay_inv assms by blast
  next
    case (step e r r')
    then show ?case using Apply_step_inv [of r e r'] Apply_terminal [of r e r'] assms(3) by simp
  qed
  then show ?thesis by blast
qed

definition ex_late_grant :: RunEvent where
  "ex_late_grant = ex_event 7 EventCapabilitiesGranted
     (CapabilitiesGranted \<lparr>gp_ContractDigest = sample_digest (CHR ''b''),
        gp_Grants = [ex_grant\<lparr>cg_ID := ''cap:2''\<rparr>]\<rparr>)
     (sample_digest (CHR ''6'')) (sample_digest (CHR ''7''))"

lemma ex_late_grant_applies: "\<exists>q. Apply (Some ex_p6) ex_late_grant = Inr q"
proof -
  have chars: "is_lower_hex (CHR ''7'')" "IsIdentifier ''cap:2''" by code_simp+
  have valid: "RunEvent_Validate ex_late_grant = None"
    unfolding ex_late_grant_def
    by (rule ex_event_valid; simp add: example_simps chars del: RunEventType_name.simps)
  have grant: "CapabilityGrant_Validate (ex_grant\<lparr>cg_ID := ''cap:2''\<rparr>) = None"
    by (simp add: CapabilityGrant_Validate_def ex_grant_def ex_conditions_def Let_def validate_simps
        example_simps valid_conditions_def chars)
  show ?thesis
    by (simp add: Apply.simps valid) (simp add: ex_late_grant_def ex_apply_defs grant chars)
qed

theorem terminal_runs_are_final_witness:
  "\<exists>q. Replay (ex_history @ [ex_late_grant]) = Inr q \<and> ar_State (pj_Run q) = RunFailed"
proof -
  obtain q where q: "Apply (Some ex_p6) ex_late_grant = Inr q" using ex_late_grant_applies by blast
  have "Replay (ex_history @ [ex_late_grant]) = Inr q"
    using q by (simp add: Replay_def ex_history_def ex_applies)
  moreover have "RunState_Terminal (ar_State (pj_Run ex_p6))" by (simp add: ex_projection_defs)
  ultimately have "ar_State (pj_Run q) = ar_State (pj_Run ex_p6)"
    using terminal_runs_are_final [OF ex_replay ex_history_int64] by blast
  then show ?thesis
    using \<open>Replay (ex_history @ [ex_late_grant]) = Inr q\<close> by (auto simp: ex_projection_defs)
qed

text \<open>What admission pinned never changes: identity, namespace, image, contract, principal,
  delegation chain, deadline, budget limits and creation time of a run are those of its history's
  first projection, for every accepted continuation.\<close>

theorem run_authority_is_pinned:
  assumes "Replay es = Inr p" and "Replay (es @ fs) = Inr q"
  shows "ar_ID (pj_Run q) = ar_ID (pj_Run p) \<and> ar_Namespace (pj_Run q) = ar_Namespace (pj_Run p) \<and>
     ar_ImageDigest (pj_Run q) = ar_ImageDigest (pj_Run p) \<and>
     ar_ContractDigest (pj_Run q) = ar_ContractDigest (pj_Run p) \<and>
     ar_Principal (pj_Run q) = ar_Principal (pj_Run p) \<and>
     ar_DelegationChain (pj_Run q) = ar_DelegationChain (pj_Run p) \<and>
     ar_Deadline (pj_Run q) = ar_Deadline (pj_Run p) \<and>
     ar_BudgetLimits (pj_Run q) = ar_BudgetLimits (pj_Run p) \<and>
     ar_CreatedAt (pj_Run q) = ar_CreatedAt (pj_Run p)"
proof -
  have "replayFrom (Some p) fs = Inr q"
    using run_ledger.replay_extended assms unfolding Replay_ledger by blast
  then have "pinned (pj_Run q) = pinned (pj_Run p)"
    by (induction rule: run_ledger.replay_from_invariant) (auto dest: Apply_pinned)
  then show ?thesis by (rule pinned_eqD)
qed

theorem run_authority_is_pinned_witness:
  "ar_BudgetLimits (pj_Run ex_p6) = ar_BudgetLimits (pj_Run ex_p4) \<and> ar_ID (pj_Run ex_p6) = ''run:1''"
proof -
  have "Replay ([ex_created, ex_granted, ex_admitted, ex_started] @ [ex_finished, ex_failed]) = Inr ex_p6"
    using ex_replay by (simp add: ex_history_def)
  from run_authority_is_pinned [OF ex_replay_running this] show ?thesis
    by (simp add: ex_projection_defs ex_run_def)
qed

text \<open>C18. Budget usage is the exact, unwrapped sum of the settled charges: after any accepted
  history every usage counter is the creating event's counter plus the sum of the nonnegative
  charges of the execution settlements in the history.\<close>

theorem budget_usage_is_sum_of_charges:
  assumes "Replay (e # es) = Inr p" and "\<forall>x\<in>set (e # es). run_event_int64 x"
    and "ev_Payload e = RunCreatedPayload r" and "f \<in> set usage_fields"
  shows "f (ar_BudgetUsage (pj_Run p)) = f (ar_BudgetUsage r) + (\<Sum>x\<leftarrow>es. f (charge_of x)) \<and>
     (\<forall>x\<in>set es. 0 \<le> f (charge_of x)) \<and> f (ar_BudgetUsage (pj_Run p)) \<le> max64"
proof -
  obtain p0 where p0: "Apply None e = Inr p0" "replayFrom (Some p0) es = Inr p"
    using assms(1) by (auto simp: Replay_def)
  have r: "pj_Run p0 = r" using Apply_None_Inr [OF p0(1)] assms(3) by simp
  have inv: "run_inv p0" "run_inv p"
    using Apply_first_inv p0(1) assms(2) Replay_inv [OF assms(1,2)] by auto
  have "f (ar_BudgetUsage (pj_Run p)) \<le> max64"
    using inv(2) assms(4) by (auto simp: run_inv_def usage_in64_def in64_def usage_fields_def)
  with replayFrom_charges [OF p0(2) inv(1) assms(4)] r show ?thesis by simp
qed

theorem budget_usage_is_sum_of_charges_witness:
  "InputTokens (ar_BudgetUsage (pj_Run ex_p6)) = 40"
proof -
  have h: "Replay (ex_created # [ex_granted, ex_admitted, ex_started, ex_finished, ex_failed]) = Inr ex_p6"
    and i: "\<forall>x\<in>set (ex_created # [ex_granted, ex_admitted, ex_started, ex_finished, ex_failed]). run_event_int64 x"
    using ex_replay ex_history_int64 by (simp_all add: ex_history_def)
  have c: "ev_Payload ex_created = RunCreatedPayload ex_run" by (simp add: ex_event_defs)
  have f: "InputTokens \<in> set usage_fields" by (simp add: usage_fields_def)
  from budget_usage_is_sum_of_charges [OF h i c f] show ?thesis
    by (simp add: ex_event_defs charge_of_def ex_charge_def no_usage_def ex_run_def)
qed

text \<open>C19. While an execution is active nothing but its own settlement changes the run's state: an
  accepted event either leaves state and active execution as they are or is the
  \<^verbatim>\<open>run.execution_finished\<close> event that names the active execution, after which the run waits.\<close>

theorem active_execution_excludes_transitions:
  assumes "run_inv p" and "ar_ActiveExecutionID (pj_Run p) \<noteq> ''''" and "Apply (Some p) e = Inr q"
  shows "(ar_State (pj_Run q) = RunRunning \<and>
          ar_ActiveExecutionID (pj_Run q) = ar_ActiveExecutionID (pj_Run p)) \<or>
     (ev_Type e = EventRunExecutionFinished \<and>
      (\<exists>pl. ev_Payload e = RunExecutionFinished pl \<and>
         xf_ExecutionID pl = ar_ActiveExecutionID (pj_Run p) \<and>
         ar_State (pj_Run q) =
           (if xf_Status pl = AgentExecutionSucceeded then RunWaitingForEvent else RunWaitingForAgent)) \<and>
      ar_ActiveExecutionID (pj_Run q) = '''')"
proof -
  have running: "ar_State (pj_Run p) = RunRunning"
    using assms valid_run_active by (simp add: run_inv_def)
  from assms(3) obtain r where r: "applyPayload (pj_Run p) e = Inr r" "ar_State (pj_Run q) = ar_State r"
    "ar_ActiveExecutionID (pj_Run q) = ar_ActiveExecutionID r"
    by (elim Apply_Some_Inr) auto
  show ?thesis
    using r assms(2) running running_to_running
    by (auto simp: applyPayload_def applyStateChanged_Inr applyExecutionStarted_def
        applyExecutionFinished_def applyCapabilitiesGranted_def split: RunEventType.splits)
qed

theorem active_execution_excludes_transitions_witness:
  "ar_ActiveExecutionID (pj_Run ex_p4) \<noteq> '''' \<and> Apply (Some ex_p4) ex_finished = Inr ex_p5 \<and>
   ar_State (pj_Run ex_p5) = RunWaitingForAgent"
proof -
  have inv: "run_inv ex_p4"
    using ex_history_int64 by (intro Replay_inv [OF ex_replay_running]) (simp add: ex_history_def)
  have act: "ar_ActiveExecutionID (pj_Run ex_p4) \<noteq> ''''" by (simp add: ex_projection_defs)
  from active_execution_excludes_transitions [OF inv act ex_apply5]
  show ?thesis using act ex_apply5 by (simp add: ex_projection_defs ex_event_defs)
qed

text \<open>The charge of a settlement is added exactly or refused: with nonnegative 64-bit counters,
  \<open>addBudgetUsage\<close> succeeds only with nonnegative charges whose sums fit 64 bits, and then gives
  those sums; so the wrap-around of the machine addition is never seen.\<close>

theorem add_budget_usage_exact:
  assumes "usage_nonneg u" and "usage_in64 u"
  shows "addBudgetUsage u d = Inr v \<longleftrightarrow> charged u d v \<and> usage_in64 v"
  by (rule addBudgetUsage_Inr [OF assms])

theorem add_budget_usage_exact_witness:
  "addBudgetUsage ex_charge ex_charge = Inr (ex_charge\<lparr>InputTokens := 80, OutputTokens := 14,
     ModelCalls := 4, WallTimeSeconds := 120\<rparr>)"
proof -
  have "usage_nonneg ex_charge" "usage_in64 ex_charge"
    by (simp_all add: ex_charge_def usage_nonneg_def usage_in64_def in64_def min64_def max64_def)
  from add_budget_usage_exact [OF this, of ex_charge] show ?thesis
    by (simp add: charged_def ex_charge_def usage_in64_def in64_def min64_def max64_def)
qed

text \<open>C16. Tamper evidence: two accepted histories whose events carry verified digests and end in
  the same digest are the same history, provided the digest function tells the events of the two
  histories apart.\<close>

theorem head_digest_determines_history:
  assumes "Replay es = Inr p" and "Replay fs = Inr q"
    and "pj_LastEventDigest p = pj_LastEventDigest q"
    and "\<forall>e\<in>set es \<union> set fs. VerifyEventDigest digest e = Some True"
    and "inj_on digest ((\<lambda>e. e\<lparr>ev_Digest := ''''\<rparr>) ` (set es \<union> set fs))"
  shows "es = fs"
proof (rule run_ledger.replay_head_determines [OF assms(1,2) [unfolded Replay_ledger] assms(3)])
  fix e f
  assume ef: "e \<in> set es" "f \<in> set fs" "ev_Digest e = ev_Digest f"
  then have "digest (e\<lparr>ev_Digest := ''''\<rparr>) = digest (f\<lparr>ev_Digest := ''''\<rparr>)"
    using assms(4) by (simp add: VerifyEventDigest_True)
  then have "e\<lparr>ev_Digest := ''''\<rparr> = f\<lparr>ev_Digest := ''''\<rparr>"
    using assms(5) ef by (meson UnCI image_eqI inj_onD)
  then have "e\<lparr>ev_Digest := '''', ev_Digest := ev_Digest e\<rparr> = f\<lparr>ev_Digest := '''', ev_Digest := ev_Digest f\<rparr>"
    using ef(3) by simp
  then show "e = f" by simp
qed

definition ex_digest :: "RunEvent \<Rightarrow> string option" where
  "ex_digest e = Some (sample_digest (digit_char (nat (ev_Sequence e))))"

theorem head_digest_determines_history_witness:
  "Replay ex_history = Inr ex_p6 \<and> VerifyEventDigest ex_digest ex_failed = Some True \<and>
   ex_history = [ex_created, ex_granted, ex_admitted, ex_started, ex_finished, ex_failed]"
proof -
  have digits: "digit_char (Suc 0) = CHR ''1''" "digit_char 2 = CHR ''2''" "digit_char 3 = CHR ''3''"
    "digit_char 4 = CHR ''4''" "digit_char 5 = CHR ''5''" "digit_char 6 = CHR ''6''"
    by code_simp+
  let ?fs = "[ex_created, ex_granted, ex_admitted, ex_started, ex_finished, ex_failed]"
  have fs: "Replay ?fs = Inr ex_p6" using ex_replay by (simp only: ex_history_def)
  have un: "set ex_history \<union> set ?fs = set ex_history" by (simp add: ex_history_def)
  have v: "\<forall>e\<in>set ex_history. VerifyEventDigest ex_digest e = Some True"
    by (simp add: ex_history_def VerifyEventDigest_True ex_digest_def ex_event_defs digits)
  have i: "inj_on ex_digest ((\<lambda>e. e\<lparr>ev_Digest := ''''\<rparr>) ` set ex_history)"
    by (simp add: ex_history_def inj_on_def ex_digest_def ex_event_defs digits sample_digest_eq_iff)
  have "ex_history = ?fs"
    by (rule head_digest_determines_history [OF ex_replay fs refl]) (use v i un in simp_all)
  then show ?thesis using v ex_replay by (simp add: ex_history_def)
qed

text \<open>Installed capabilities are exactly the granted ones, in order: the capability list of a
  replayed run is the creating event's list followed by the identifiers granted along the history,
  without repetition, and every grant was valid and issued to this run.\<close>

theorem capabilities_are_the_granted_ones:
  assumes "Replay (e # es) = Inr p" and "ev_Payload e = RunCreatedPayload r"
  shows "ar_CapabilityIDs (pj_Run p) = ar_CapabilityIDs r @ map cg_ID (concat (map granted_by es)) \<and>
     distinct (ar_CapabilityIDs (pj_Run p)) \<and>
     (\<forall>x\<in>set es. \<forall>g\<in>set (granted_by x). CapabilityGrant_Validate g = None \<and> cg_SubjectRunID g = ar_ID r)"
proof -
  obtain p0 where p0: "Apply None e = Inr p0" "replayFrom (Some p0) es = Inr p"
    using assms(1) by (auto simp: Replay_def)
  have r: "pj_Run p0 = r" "valid_run r" using Apply_None_Inr [OF p0(1)] assms(2) by simp_all
  have "valid_run (pj_Run p)" using p0(2)
    by (induction rule: run_ledger.replay_from_invariant) (auto simp: r elim: Apply_Some_Inr)
  moreover have "\<forall>x\<in>set es. \<forall>g\<in>set (granted_by x). CapabilityGrant_Validate g = None \<and>
      cg_SubjectRunID g = ar_ID (pj_Run p0)"
    using p0(2)
  proof (induction es arbitrary: p0)
    case (Cons x es)
    then obtain p1 where p1: "Apply (Some p0) x = Inr p1" "replayFrom (Some p1) es = Inr p" by auto
    have "ar_ID (pj_Run p1) = ar_ID (pj_Run p0)" using Apply_pinned [OF p1(1)] pinned_eqD by blast
    with Cons.IH [OF p1(2)] Apply_granted [OF p1(1)] show ?case by simp
  qed simp
  ultimately show ?thesis using replayFrom_granted [OF p0(2)] valid_run_capabilities [of "pj_Run p"] r by simp
qed

theorem capabilities_are_the_granted_ones_witness:
  "ar_CapabilityIDs (pj_Run ex_p6) = [''cap:1'']"
proof -
  have "Replay (ex_created # [ex_granted, ex_admitted, ex_started, ex_finished, ex_failed]) = Inr ex_p6"
    and "ev_Payload ex_created = RunCreatedPayload ex_run"
    using ex_replay by (simp_all add: ex_history_def ex_event_defs)
  from capabilities_are_the_granted_ones [OF this] show ?thesis
    by (simp add: ex_event_defs granted_by_def ex_run_def example_simps)
qed

text \<open>An event authored by \<open>Next\<close> on a reached projection carries a verified digest and passes
  the event's validation and every envelope check of \<open>Apply\<close>, so whether it is accepted depends
  only on its payload and on the run it leads to.\<close>

theorem authored_events_chain:
  assumes "run_inv p" and "1 \<le> ar_EventSequence (pj_Run p)" and "ar_EventSequence (pj_Run p) < max64"
    and "0 < ar_UpdatedAt (pj_Run p)" and "digest_format digest" and "hash16_format hash16"
    and "valid_principal actor" and "IsIdentifier (RunEventType_name ty)" and "ty \<noteq> EventRunCreated"
    and "payload \<noteq> Undecodable NotOneObject"
    and "Next encodable digest hash16 p ty actor t payload = Some e"
  shows "VerifyEventDigest digest e = Some True \<and> RunEvent_Validate e = None \<and>
     checkEnvelope p e = None"
  using Next_validates [OF assms(1-3,5-8,10,4,11)] Next_envelope [OF assms(11,9)]
    Next_Some(13) [OF assms(11)]
  by (simp add: VerifyEventDigest_True)

definition ex_hash16 :: "string \<Rightarrow> string" where
  "ex_hash16 s = replicate 32 (CHR ''a'')"

theorem authored_events_chain_witness:
  "\<exists>e. Next (\<lambda>_. True) (\<lambda>_. Some (sample_digest (CHR ''4''))) ex_hash16 ex_p3 EventRunExecutionStarted
         ex_actor 0 (ev_Payload ex_started) = Some e \<and>
       RunEvent_Validate e = None \<and> ev_OccurredAt e = 1002"
proof -
  let ?n = "Next (\<lambda>_. True) (\<lambda>_. Some (sample_digest (CHR ''4''))) ex_hash16 ex_p3
    EventRunExecutionStarted ex_actor 0 (ev_Payload ex_started)"
  obtain e where e: "?n = Some e" by (simp add: Next_def ComputeEventDigest_def Let_def)
  have inv: "run_inv ex_p3"
  proof (rule Replay_inv)
    show "Replay [ex_created, ex_granted, ex_admitted] = Inr ex_p3"
      by (simp add: Replay_def ex_applies)
    show "\<forall>e\<in>set [ex_created, ex_granted, ex_admitted]. run_event_int64 e"
      using ex_history_int64 by (simp add: ex_history_def)
  qed
  have n: "1 \<le> ar_EventSequence (pj_Run ex_p3)" "ar_EventSequence (pj_Run ex_p3) < max64"
    "0 < ar_UpdatedAt (pj_Run ex_p3)"
    by (simp_all add: ex_projection_defs max64_def)
  have d: "digest_format (\<lambda>_. Some (sample_digest (CHR ''4'')))" "hash16_format ex_hash16"
    by (simp_all add: digest_format_def hash16_format_def ex_hash16_def list_all_iff example_simps)
  have "RunEvent_Validate e = None"
    using authored_events_chain [OF inv n d ex_actor_valid ex_event_types(3) _ _ e]
    by (simp add: ex_event_defs)
  moreover have "ev_OccurredAt e = 1002"
    using Next_Some(8) [OF e] by (simp add: ex_projection_defs)
  ultimately show ?thesis using e by blast
qed

end
