(* ===== verification/Transaction_Types.thy ===== *)
theory Transaction_Types
  imports Kernel_Types
begin

text \<open>
  The data model of agent transactions: \<^verbatim>\<open>internal/kernel/model/transaction_types.go\<close>, the task of
  \<^verbatim>\<open>agent_task.go\<close> and the event payloads declared in \<^verbatim>\<open>internal/kernel/transaction/reducer.go\<close>.
  The conventions are those of \<^verbatim>\<open>Kernel_Types\<close>: one constructor per declared constant and one for
  any other string, one record per struct, an option for a pointer, the strictly decoded value for
  an event's payload text.
\<close>

section \<open>Enumerations\<close>

datatype TransactionState =
    TransactionCreated | TransactionRunning | TransactionCompletedNoEffect | TransactionStaged
  | TransactionValidating | TransactionValidationFailed | TransactionReviseRequired
  | TransactionBlocked | TransactionPendingApproval | TransactionReadyToCommit
  | TransactionCommitting | TransactionCommitted | TransactionCompensating
  | TransactionRolledBack | TransactionReleaseFailed | TransactionPartiallyCommitted
  | TransactionManualRecoveryRequired | TransactionAborted | OtherTransactionState string

fun TransactionState_Terminal :: "TransactionState \<Rightarrow> bool" where
  "TransactionState_Terminal TransactionCompletedNoEffect = True"
| "TransactionState_Terminal TransactionBlocked = True"
| "TransactionState_Terminal TransactionCommitted = True"
| "TransactionState_Terminal TransactionRolledBack = True"
| "TransactionState_Terminal TransactionReleaseFailed = True"
| "TransactionState_Terminal TransactionPartiallyCommitted = True"
| "TransactionState_Terminal TransactionManualRecoveryRequired = True"
| "TransactionState_Terminal TransactionAborted = True"
| "TransactionState_Terminal _ = False"

datatype EffectRecoveryClass =
    RecoveryReadOnly | RecoveryStageable | RecoveryReversible | RecoveryCompensatable
  | RecoveryIrreversible | OtherRecoveryClass string

datatype EffectStatus =
    EffectProposed | EffectStaged | EffectValidated | EffectReleaseReady | EffectCommitting
  | EffectCommitted | EffectBlocked | EffectRejected | EffectFailed | EffectUnknown
  | EffectCompensating | EffectCompensated | EffectManualRecoveryRequired
  | OtherEffectStatus string

fun EffectStatus_Terminal :: "EffectStatus \<Rightarrow> bool" where
  "EffectStatus_Terminal EffectCommitted = True"
| "EffectStatus_Terminal EffectBlocked = True"
| "EffectStatus_Terminal EffectRejected = True"
| "EffectStatus_Terminal EffectFailed = True"
| "EffectStatus_Terminal EffectCompensated = True"
| "EffectStatus_Terminal EffectManualRecoveryRequired = True"
| "EffectStatus_Terminal _ = False"

datatype VerificationKind =
    VerificationPrecondition | VerificationInvariant | VerificationPostcondition
  | OtherVerificationKind string

datatype VerificationStatus =
    VerificationPassed | VerificationFailed | VerificationIndeterminate
  | OtherVerificationStatus string

datatype VerificationIndependence =
    VerificationAgentSupplied | VerificationPlatformRun | VerificationExternalAttestation
  | OtherVerificationIndependence string

datatype ApprovalDecisionKind =
    ApprovalApprove | ApprovalReject | ApprovalRevise | OtherApprovalDecision string

section \<open>Tasks and executions\<close>

record AgentTaskProfileBinding =
  tp_ID :: string
  tp_Digest :: string
  tp_RuntimeClass :: string
  tp_ImageDigest :: string
  tp_Entrypoint :: string
  tp_CommandDigest :: string

record AgentTask =
  tk_Version :: string
  tk_ID :: string
  tk_TransactionID :: string
  tk_Namespace :: string
  tk_RunID :: string
  tk_Intent :: string
  tk_IntentDigest :: string
  tk_AgentProfile :: AgentTaskProfileBinding
  tk_CreatedAt :: time
  tk_Digest :: string

record ModelBrokerExecution =
  mb_Provider :: string
  mb_ImageDigest :: string
  mb_PolicyDigest :: string
  mb_ReceiptLedgerDigest :: string
  mb_Calls :: int64
  mb_CompletedCalls :: int64
  mb_FailedCalls :: int64
  mb_UnknownCalls :: int64
  mb_InputTokens :: int64
  mb_OutputTokens :: int64

record AgentExecution =
  ax_Version :: string
  ax_ID :: string
  ax_TransactionID :: string
  ax_Attempt :: int64
  ax_RunID :: string
  ax_StageBindingID :: string
  ax_Program :: string
  ax_CommandDigest :: string
  ax_RuntimeClass :: string
  ax_RuntimeConfigDigest :: string
  ax_ImageDigest :: string
  ax_TaskDigest :: string
  ax_ModelBroker :: "ModelBrokerExecution option"
  ax_Status :: AgentExecutionStatus
  ax_ExitCode :: "int64 option"
  ax_StdoutDigest :: string
  ax_StderrDigest :: string
  ax_StartedAt :: time
  ax_CompletedAt :: "time option"

section \<open>Transactions\<close>

record TransactionAdmissionBinding =
  ab_RuntimeID :: string
  ab_EnforcementProfile :: string
  ab_TaskDigest :: string
  ab_RunID :: string
  ab_ContractDigest :: string

record StageBinding =
  sb_ID :: string
  sb_Kind :: string
  sb_Resource :: ResourceSelector
  sb_Location :: string
  sb_BaseRevision :: string
  sb_CreatedAt :: time

record AgentTransaction =
  tx_Version :: string
  tx_ID :: string
  tx_Namespace :: string
  tx_Attempt :: int64
  tx_IntentDigest :: string
  tx_Task :: "AgentTask option"
  tx_Admission :: "TransactionAdmissionBinding option"
  tx_Sponsor :: Principal
  tx_AgentRunIDs :: "string list"
  tx_StageBindings :: "StageBinding list"
  tx_State :: TransactionState
  tx_StateReason :: string
  tx_EffectIDs :: "string list"
  tx_VerificationResultIDs :: "string list"
  tx_OutstandingApprovalIDs :: "string list"
  tx_StagedStateDigest :: string
  tx_EffectSetDigest :: string
  tx_ApprovalPackageDigest :: string
  tx_CommitPlanDigest :: string
  tx_EventSequence :: int64
  tx_CreatedAt :: time
  tx_UpdatedAt :: time
  tx_CompletedAt :: "time option"

section \<open>Effects\<close>

record EffectScope =
  es_Rows :: "int64 option"
  es_Bytes :: "int64 option"
  es_Objects :: "int64 option"

record CompensationSpec =
  cs_Operation :: string
  cs_Arguments :: raw_json
  cs_ArgumentsDigest :: string
  cs_PlanRef :: "ArtifactRef option"

record EffectReceipt =
  er_Driver :: string
  er_OperationID :: string
  er_ResultDigest :: string
  er_ResourceVersion :: string
  er_CommittedAt :: time

record Effect =
  ef_Version :: string
  ef_ID :: string
  ef_TransactionID :: string
  ef_Attempt :: int64
  ef_Sequence :: int64
  ef_RunID :: string
  ef_OriginExecutionID :: string
  ef_OriginActionID :: string
  ef_System :: string
  ef_Resource :: ResourceSelector
  ef_Operation :: string
  ef_Arguments :: raw_json
  ef_ArgumentsDigest :: string
  ef_Dependencies :: "string list"
  ef_EstimatedScope :: EffectScope
  ef_DataClassification :: string
  ef_RecoveryClass :: EffectRecoveryClass
  ef_Status :: EffectStatus
  ef_IdempotencyKey :: string
  ef_StageRef :: "ArtifactRef option"
  ef_BeforeStateRef :: "ArtifactRef option"
  ef_Compensation :: "CompensationSpec option"
  ef_Receipt :: "EffectReceipt option"
  ef_CompensationReceipt :: "EffectReceipt option"
  ef_CreatedAt :: time
  ef_UpdatedAt :: time

section \<open>Verification, approval and commit plans\<close>

record VerificationResult =
  vr_Version :: string
  vr_ID :: string
  vr_TransactionID :: string
  vr_Attempt :: int64
  vr_Name :: string
  vr_Kind :: VerificationKind
  vr_Status :: VerificationStatus
  vr_EffectSetDigest :: string
  vr_StagedStateDigest :: string
  vr_Verifier :: Principal
  vr_Independence :: VerificationIndependence
  vr_VerifierDigest :: string
  vr_InputsDigest :: string
  vr_Evidence :: "ArtifactRef list"
  vr_Summary :: string
  vr_EvaluatedAt :: time
  vr_ExpiresAt :: "time option"

record RiskFinding =
  rf_Code :: string
  rf_Severity :: string
  rf_Summary :: string
  rf_EffectIDs :: "string list"

record ApprovalPackage =
  ap_Version :: string
  ap_ID :: string
  ap_TransactionID :: string
  ap_Attempt :: int64
  ap_IntentDigest :: string
  ap_EffectSetDigest :: string
  ap_StagedStateDigest :: string
  ap_PolicyDigest :: string
  ap_CommitPlanDigest :: string
  ap_VerificationResultIDs :: "string list"
  ap_RiskFindings :: "RiskFinding list"
  ap_RequiredApprovalClasses :: "string list"
  ap_Summary :: string
  ap_Digest :: string
  ap_CreatedAt :: time
  ap_ExpiresAt :: time

record ApprovalDecision =
  ad_Version :: string
  ad_ID :: string
  ad_TransactionID :: string
  ad_ApprovalID :: string
  ad_PackageDigest :: string
  ad_ApprovalClass :: string
  ad_Decision :: ApprovalDecisionKind
  ad_Reason :: string
  ad_Approver :: Principal
  ad_KeyID :: string
  ad_IssuedAt :: time
  ad_ExpiresAt :: time
  ad_Nonce :: string
  ad_Digest :: string
  ad_SignatureBase64 :: string

record CommitStep =
  st_Sequence :: int64
  st_EffectID :: string
  st_DependsOn :: "string list"
  st_PreconditionIDs :: "string list"
  st_IdempotencyKey :: string
  st_TimeoutSeconds :: int64
  st_RequiresReceipt :: bool

record CompensationStep =
  ks_Sequence :: int64
  ks_EffectID :: string
  ks_PreconditionIDs :: "string list"
  ks_PlanRef :: "ArtifactRef option"

record CommitPlan =
  cp_Version :: string
  cp_ID :: string
  cp_TransactionID :: string
  cp_Attempt :: int64
  cp_IntentDigest :: string
  cp_EffectSetDigest :: string
  cp_StagedStateDigest :: string
  cp_PolicyDigest :: string
  cp_Connector :: string
  cp_Target :: ResourceSelector
  cp_ExpectedResourceVersion :: string
  cp_Steps :: "CommitStep list"
  cp_CompensationSteps :: "CompensationStep list"
  cp_IrreversibleEffectIDs :: "string list"
  cp_ManualRecoveryRef :: "ArtifactRef option"
  cp_Digest :: string
  cp_CreatedAt :: time

section \<open>Transaction events and their payloads\<close>

record TransactionStateChangedPayload =
  tc_From :: TransactionState
  tc_To :: TransactionState
  tc_Reason :: string
  tc_OutstandingApprovalIDs :: "string list"

record EffectStateChangedPayload =
  fc_EffectID :: string
  fc_From :: EffectStatus
  fc_To :: EffectStatus
  fc_Receipt :: "EffectReceipt option"
  fc_CompensationReceipt :: "EffectReceipt option"

record TransactionStagedPayload =
  sg_StagedStateDigest :: string
  sg_EffectSetDigest :: string

record VerificationSupersededPayload =
  vs_VerificationID :: string
  vs_Reason :: string

record AgentExecutionFinishedPayload =
  af_ExecutionID :: string
  af_Status :: AgentExecutionStatus
  af_ExitCode :: "int64 option"
  af_StdoutDigest :: string
  af_StderrDigest :: string
  af_ModelBroker :: "ModelBrokerExecution option"

text \<open>The payload structs with a single field are the constructor's argument.\<close>

datatype TransactionPayload =
    TransactionCreatedPayload AgentTransaction
  | TransactionStateChanged TransactionStateChangedPayload
  | EffectAddedPayload Effect
  | StageBindingCreatedPayload StageBinding
  | EffectStateChanged EffectStateChangedPayload
  | TransactionStagedP TransactionStagedPayload
  | VerificationRecordedPayload VerificationResult
  | VerificationSuperseded VerificationSupersededPayload
  | CommitPlanFrozenPayload CommitPlan
  | ApprovalPackageFrozenPayload ApprovalPackage
  | AuthorityRenewedPayload string
  | ApprovalResolvedPayload ApprovalDecision
  | AgentExecutionStartedPayload AgentExecution
  | AgentExecutionFinished AgentExecutionFinishedPayload
  | UndecodableTx json_fault

datatype TransactionEventType =
    EventTransactionCreated | EventTransactionStateChanged | EventEffectAdded
  | EventStageBindingCreated | EventEffectStateChanged | EventTransactionStaged
  | EventVerificationRecorded | EventVerificationSuperseded | EventCommitPlanFrozen
  | EventApprovalPackageFrozen | EventAuthorityRenewed | EventApprovalResolved
  | EventAgentExecutionStarted | EventAgentExecutionFinished | OtherTransactionEvent string

fun TransactionEventType_name :: "TransactionEventType \<Rightarrow> string" where
  "TransactionEventType_name EventTransactionCreated = ''transaction.created''"
| "TransactionEventType_name EventTransactionStateChanged = ''transaction.state_changed''"
| "TransactionEventType_name EventEffectAdded = ''effect.added''"
| "TransactionEventType_name EventStageBindingCreated = ''stage_binding.created''"
| "TransactionEventType_name EventEffectStateChanged = ''effect.state_changed''"
| "TransactionEventType_name EventTransactionStaged = ''transaction.staged''"
| "TransactionEventType_name EventVerificationRecorded = ''verification.recorded''"
| "TransactionEventType_name EventVerificationSuperseded = ''verification.superseded''"
| "TransactionEventType_name EventCommitPlanFrozen = ''commit_plan.frozen''"
| "TransactionEventType_name EventApprovalPackageFrozen = ''approval_package.frozen''"
| "TransactionEventType_name EventAuthorityRenewed = ''authority.renewed''"
| "TransactionEventType_name EventApprovalResolved = ''approval.resolved''"
| "TransactionEventType_name EventAgentExecutionStarted = ''agent_execution.started''"
| "TransactionEventType_name EventAgentExecutionFinished = ''agent_execution.finished''"
| "TransactionEventType_name (OtherTransactionEvent s) = s"

record TransactionEvent =
  te_Version :: string
  te_ID :: string
  te_TransactionID :: string
  te_Sequence :: int64
  te_Type :: TransactionEventType
  te_Actor :: Principal
  te_OccurredAt :: time
  te_Payload :: TransactionPayload
  te_Artifacts :: "ArtifactRef list"
  te_PreviousDigest :: string
  te_Digest :: string

end
