(* ===== verification/Transaction_Digest.thy ===== *)
theory Transaction_Digest
  imports Transaction_Types Kernel_Validate
begin

text \<open>
  The digests that bind the parts of a transaction: \<^verbatim>\<open>internal/kernel/transaction/digest.go\<close>, the
  identifiers of \<^verbatim>\<open>event.go\<close>, and the digests of \<^verbatim>\<open>internal/kernel/model/agent_task.go\<close> and
  \<^verbatim>\<open>event_digest.go\<close>.

  SHA-256 over a JSON encoding is a parameter, one function per type that is hashed, kept together
  in a record: each gives the prefixed hexadecimal digest, or \<^const>\<open>None\<close> where \<^verbatim>\<open>json.Marshal\<close>
  fails. What is hashed (which fields are cleared or left out) is the source's and is defined
  here. The hypotheses about the parameter are \<open>hashing_format\<close>;
  where histories are compared, a theorem states which events the digest separates.
\<close>

text \<open>The fields of an effect that the effect-set digest covers.\<close>

record immutableEffect =
  ie_ID :: string
  ie_TransactionID :: string
  ie_Attempt :: int64
  ie_Sequence :: int64
  ie_RunID :: string
  ie_OriginExecutionID :: string
  ie_OriginActionID :: string
  ie_System :: string
  ie_Resource :: ResourceSelector
  ie_Operation :: string
  ie_ArgumentsDigest :: string
  ie_Dependencies :: "string list"
  ie_EstimatedScope :: EffectScope
  ie_DataClassification :: string
  ie_RecoveryClass :: EffectRecoveryClass
  ie_IdempotencyKey :: string
  ie_StageDigest :: string
  ie_BeforeStateDigest :: string
  ie_Compensation :: "CompensationSpec option"

record Hashing =
  hs_Bytes :: "string \<Rightarrow> string"
  hs_Hash16 :: "string \<Rightarrow> string"
  hs_Task :: "AgentTask \<Rightarrow> string option"
  hs_Effects :: "immutableEffect list \<Rightarrow> string option"
  hs_CommitPlan :: "CommitPlan \<Rightarrow> string option"
  hs_ApprovalPackage :: "ApprovalPackage \<Rightarrow> string option"
  hs_ApprovalDecision :: "ApprovalDecision \<Rightarrow> string option"
  hs_Event :: "TransactionEvent \<Rightarrow> string option"
  hs_Strings :: "string list \<Rightarrow> string option"
  hs_Struct :: "(string \<times> string) list \<Rightarrow> string option"
  hs_Policy :: "string \<Rightarrow> int64 \<Rightarrow> string option"

section \<open>Tasks and events\<close>

definition ComputeAgentTaskIntentDigest :: "Hashing \<Rightarrow> string \<Rightarrow> string" where
  "ComputeAgentTaskIntentDigest H intent = hs_Bytes H intent"

definition ComputeAgentTaskDigest :: "Hashing \<Rightarrow> AgentTask \<Rightarrow> string option" where
  "ComputeAgentTaskDigest H task = hs_Task H (task\<lparr>tk_Digest := ''''\<rparr>)"

definition ComputeTransactionEventDigest :: "Hashing \<Rightarrow> TransactionEvent \<Rightarrow> string option" where
  "ComputeTransactionEventDigest H event = hs_Event H (event\<lparr>te_Digest := ''''\<rparr>)"

definition VerifyTransactionEventDigest :: "Hashing \<Rightarrow> TransactionEvent \<Rightarrow> bool option" where
  "VerifyTransactionEventDigest H event = (case ComputeTransactionEventDigest H event of
     None \<Rightarrow> None
   | Some want \<Rightarrow> Some (te_Digest event = want))"

section \<open>The frozen parts of a transaction\<close>

definition immutable_effect :: "Effect \<Rightarrow> immutableEffect" where
  "immutable_effect effect = \<lparr>
     ie_ID = ef_ID effect, ie_TransactionID = ef_TransactionID effect,
     ie_Attempt = ef_Attempt effect, ie_Sequence = ef_Sequence effect, ie_RunID = ef_RunID effect,
     ie_OriginExecutionID = ef_OriginExecutionID effect,
     ie_OriginActionID = ef_OriginActionID effect, ie_System = ef_System effect,
     ie_Resource = ef_Resource effect, ie_Operation = ef_Operation effect,
     ie_ArgumentsDigest = ef_ArgumentsDigest effect, ie_Dependencies = ef_Dependencies effect,
     ie_EstimatedScope = ef_EstimatedScope effect,
     ie_DataClassification = ef_DataClassification effect,
     ie_RecoveryClass = ef_RecoveryClass effect, ie_IdempotencyKey = ef_IdempotencyKey effect,
     ie_StageDigest = (case ef_StageRef effect of None \<Rightarrow> '''' | Some ref \<Rightarrow> ref_Digest ref),
     ie_BeforeStateDigest = (case ef_BeforeStateRef effect of None \<Rightarrow> '''' | Some ref \<Rightarrow> ref_Digest ref),
     ie_Compensation = ef_Compensation effect\<rparr>"

text \<open>The loop's check that the effect at index \<open>i\<close> has sequence \<open>i + 1\<close>.\<close>

fun sequenced :: "int64 \<Rightarrow> Effect list \<Rightarrow> bool" where
  "sequenced n [] = True"
| "sequenced n (effect # effects) \<longleftrightarrow> ef_Sequence effect = n \<and> sequenced (n + 1) effects"

definition ComputeEffectSetDigest :: "Hashing \<Rightarrow> Effect list \<Rightarrow> string option" where
  "ComputeEffectSetDigest H effects =
     (if sequenced 1 effects then hs_Effects H (map immutable_effect effects) else None)"

definition ComputeCommitPlanDigest :: "Hashing \<Rightarrow> CommitPlan \<Rightarrow> string option" where
  "ComputeCommitPlanDigest H plan = hs_CommitPlan H (plan\<lparr>cp_Digest := ''''\<rparr>)"

definition ComputeApprovalPackageDigest :: "Hashing \<Rightarrow> ApprovalPackage \<Rightarrow> string option" where
  "ComputeApprovalPackageDigest H approval = hs_ApprovalPackage H (approval\<lparr>ap_Digest := ''''\<rparr>)"

definition ComputeApprovalDecisionDigest :: "Hashing \<Rightarrow> ApprovalDecision \<Rightarrow> string option" where
  "ComputeApprovalDecisionDigest H decision =
     hs_ApprovalDecision H (decision\<lparr>ad_Digest := '''', ad_SignatureBase64 := ''''\<rparr>)"

section \<open>Verifier identity and identifiers\<close>

definition ComputeVerifierDigest :: "Hashing \<Rightarrow> string \<Rightarrow> string \<Rightarrow> string \<Rightarrow> string option" where
  "ComputeVerifierDigest H commandDigest runtimeConfigDigest imageDigest = hs_Struct H
     [(''version'', ''gatemole.verifier_identity.v0''), (''command_digest'', commandDigest),
      (''runtime_config_digest'', runtimeConfigDigest), (''image_digest'', imageDigest)]"

definition ComputeCommandDigest :: "Hashing \<Rightarrow> string list \<Rightarrow> string option" where
  "ComputeCommandDigest H command = (if command = [] then None else hs_Strings H command)"

definition ComputeVerificationInputsDigest :: "Hashing \<Rightarrow> string \<Rightarrow> string \<Rightarrow> string option" where
  "ComputeVerificationInputsDigest H effectSetDigest stagedStateDigest = hs_Struct H
     [(''version'', ''gatemole.verification_inputs.v0''), (''effect_set_digest'', effectSetDigest),
      (''staged_state_digest'', stagedStateDigest)]"

text \<open>\<^verbatim>\<open>%d\<close>\<close>

definition dec_int :: "int64 \<Rightarrow> string" where
  "dec_int n = (if n < 0 then ''-'' else '''') @ dec (nat \<bar>n\<bar>)"

definition EventID :: "Hashing \<Rightarrow> string \<Rightarrow> int64 \<Rightarrow> string" where
  "EventID H transactionID sequence =
     ''tx-event:'' @ hs_Hash16 H transactionID @ '':'' @ dec_int sequence"

definition ExecutionID :: "Hashing \<Rightarrow> string \<Rightarrow> int64 \<Rightarrow> string" where
  "ExecutionID H transactionID sequence =
     ''execution:'' @ hs_Hash16 H (transactionID @ '':'' @ dec_int sequence)"

definition VerificationID :: "Hashing \<Rightarrow> string \<Rightarrow> string \<Rightarrow> int64 \<Rightarrow> string" where
  "VerificationID H transactionID name sequence =
     ''verification:'' @ hs_Hash16 H (transactionID @ '':'' @ name @ '':'' @ dec_int sequence)"

section \<open>Hypotheses about the hash\<close>

definition hashing_format :: "Hashing \<Rightarrow> bool" where
  "hashing_format H \<longleftrightarrow>
     (\<forall>s. IsSHA256Digest (hs_Bytes H s)) \<and>
     (\<forall>s. length (hs_Hash16 H s) = 32 \<and> list_all is_lower_hex (hs_Hash16 H s)) \<and>
     (\<forall>x d. hs_Task H x = Some d \<longrightarrow> IsSHA256Digest d) \<and>
     (\<forall>x d. hs_Effects H x = Some d \<longrightarrow> IsSHA256Digest d) \<and>
     (\<forall>x d. hs_CommitPlan H x = Some d \<longrightarrow> IsSHA256Digest d) \<and>
     (\<forall>x d. hs_ApprovalPackage H x = Some d \<longrightarrow> IsSHA256Digest d) \<and>
     (\<forall>x d. hs_ApprovalDecision H x = Some d \<longrightarrow> IsSHA256Digest d) \<and>
     (\<forall>x d. hs_Event H x = Some d \<longrightarrow> IsSHA256Digest d)"

lemma VerifyTransactionEventDigest_True:
  "VerifyTransactionEventDigest H e = Some True \<longleftrightarrow> hs_Event H (e\<lparr>te_Digest := ''''\<rparr>) = Some (te_Digest e)"
  by (auto simp: VerifyTransactionEventDigest_def ComputeTransactionEventDigest_def split: option.splits)

section \<open>What the effect-set digest covers\<close>

lemma sequenced_nth:
  "sequenced n effects \<longleftrightarrow> (\<forall>i < length effects. ef_Sequence (effects ! i) = n + int i)"
proof (induction effects arbitrary: n)
  case Nil
  then show ?case by simp
next
  case (Cons e es)
  then show ?case by (auto simp: All_less_Suc2 algebra_simps)
qed

lemma sequenced_append:
  "sequenced n (xs @ ys) \<longleftrightarrow> sequenced n xs \<and> sequenced (n + int (length xs)) ys"
  by (induction xs arbitrary: n) (auto simp: algebra_simps)

lemma immutable_effect_release [simp]:
  "immutable_effect (e\<lparr>ef_Status := s, ef_Receipt := r, ef_CompensationReceipt := c, ef_UpdatedAt := t\<rparr>) =
     immutable_effect e"
  by (simp add: immutable_effect_def)

lemma immutable_effect_sequenced:
  "map immutable_effect xs = map immutable_effect ys \<Longrightarrow> sequenced n xs = sequenced n ys"
proof (induction xs arbitrary: ys n)
  case Nil
  then show ?case by simp
next
  case (Cons x xs)
  then obtain y ys' where "ys = y # ys'" "immutable_effect x = immutable_effect y"
    "map immutable_effect xs = map immutable_effect ys'"
    by (cases ys) auto
  moreover from this(2) have "ef_Sequence x = ef_Sequence y"
    by (simp add: immutable_effect_def)
  ultimately show ?case using Cons.IH by simp
qed

lemma ComputeEffectSetDigest_cong:
  "map immutable_effect xs = map immutable_effect ys \<Longrightarrow>
     ComputeEffectSetDigest H xs = ComputeEffectSetDigest H ys"
  unfolding ComputeEffectSetDigest_def by (metis immutable_effect_sequenced)

end
