(* ===== verification/Go_Strings.thy ===== *)
theory Go_Strings
  imports Go_Prelude
begin

text \<open>
  The parts of Go's string library that the transaction components call, on byte sequences:
  \<^verbatim>\<open>utf8.ValidString\<close>, \<^verbatim>\<open>strings.ContainsRune(s, 0)\<close>, \<^verbatim>\<open>strings.Contains\<close>, \<^verbatim>\<open>strings.ToLower\<close> as far as
  ASCII matches can tell, \<^verbatim>\<open>base64.StdEncoding.DecodeString\<close> and \<^verbatim>\<open>filepath.Base\<close>.
\<close>

section \<open>UTF-8\<close>

definition byte_in :: "nat \<Rightarrow> nat \<Rightarrow> char \<Rightarrow> bool" where
  "byte_in lo hi c = (let n = of_char c :: nat in lo \<le> n \<and> n \<le> hi)"

fun utf8_valid :: "string \<Rightarrow> bool" where
  "utf8_valid [] = True"
| "utf8_valid (c # s) = (let x = of_char c :: nat in
     if x < 128 then utf8_valid s
     else if 194 \<le> x \<and> x \<le> 223 then
       (case s of b # r \<Rightarrow> byte_in 128 191 b \<and> utf8_valid r | _ \<Rightarrow> False)
     else if 224 \<le> x \<and> x \<le> 239 then
       (case s of b # b' # r \<Rightarrow>
            byte_in (if x = 224 then 160 else 128) (if x = 237 then 159 else 191) b \<and>
            byte_in 128 191 b' \<and> utf8_valid r
        | _ \<Rightarrow> False)
     else if 240 \<le> x \<and> x \<le> 244 then
       (case s of b # b' # b'' # r \<Rightarrow>
            byte_in (if x = 240 then 144 else 128) (if x = 244 then 143 else 191) b \<and>
            byte_in 128 191 b' \<and> byte_in 128 191 b'' \<and> utf8_valid r
        | _ \<Rightarrow> False)
     else False)"

declare utf8_valid.simps(2) [simp del]

lemma utf8_valid_ascii [example_simps]: "(of_char c :: nat) < 128 \<Longrightarrow> utf8_valid (c # s) = utf8_valid s"
  by (simp add: utf8_valid.simps(2))

definition has_nul :: "string \<Rightarrow> bool" where
  "has_nul s \<longleftrightarrow> CHR 0x00 \<in> set s"

section \<open>Searching\<close>

fun has_prefix :: "'a list \<Rightarrow> 'a list \<Rightarrow> bool" where
  "has_prefix [] s = True"
| "has_prefix (p # ps) [] = False"
| "has_prefix (p # ps) (c # s) \<longleftrightarrow> p = c \<and> has_prefix ps s"

fun contains :: "'a list \<Rightarrow> 'a list \<Rightarrow> bool" where
  "contains [] sub \<longleftrightarrow> sub = []"
| "contains (c # s) sub \<longleftrightarrow> has_prefix sub (c # s) \<or> contains s sub"

lemma has_prefix_iff: "has_prefix p s \<longleftrightarrow> (\<exists>r. s = p @ r)"
  by (induction p s rule: has_prefix.induct) auto

lemma contains_iff: "contains s sub \<longleftrightarrow> (\<exists>p q. s = p @ sub @ q)"
proof (induction s)
  case Nil
  then show ?case by auto
next
  case (Cons c s)
  note IH = Cons.IH
  show ?case
  proof
    assume "contains (c # s) sub"
    then consider r where "c # s = sub @ r" | p q where "s = p @ sub @ q"
      using Cons.IH by (auto simp: has_prefix_iff)
    then show "\<exists>p q. c # s = p @ sub @ q"
    proof cases
      case 1
      then show ?thesis by (metis append_Nil)
    next
      case 2
      then show ?thesis by (metis append_Cons)
    qed
  next
    assume "\<exists>p q. c # s = p @ sub @ q"
    then obtain p q where "c # s = p @ sub @ q" by blast
    then show "contains (c # s) sub"
    proof (cases p)
      case Nil
      with \<open>c # s = p @ sub @ q\<close> have "has_prefix sub (c # s)" by (metis has_prefix_iff append_Nil)
      then show ?thesis by simp
    next
      case (Cons d ds)
      with \<open>c # s = p @ sub @ q\<close> show ?thesis using IH by auto
    qed
  qed
qed

text \<open>
  \<^verbatim>\<open>strings.ToLower\<close>. Besides the ASCII capitals, exactly two runes have an ASCII letter as their
  lower case: U+0130 (bytes C4 B0) becomes \<open>i\<close> and U+212A (bytes E2 84 AA) becomes \<open>k\<close>. Every other
  rune beyond ASCII becomes some rune beyond ASCII, so its bytes are left as they are here: no
  search for an ASCII string can see the difference.
\<close>

definition lower_char :: "char \<Rightarrow> char" where
  "lower_char c = (let n = of_char c :: nat in if 65 \<le> n \<and> n \<le> 90 then char_of (n + 32) else c)"

fun to_lower :: "string \<Rightarrow> string" where
  "to_lower [] = []"
| "to_lower (c # s) =
     (if c = CHR 0xC4 \<and> has_prefix [CHR 0xB0] s then CHR ''i'' # to_lower (drop 1 s)
      else if c = CHR 0xE2 \<and> has_prefix [CHR 0x84, CHR 0xAA] s then CHR ''k'' # to_lower (drop 2 s)
      else lower_char c # to_lower s)"

section \<open>Base64\<close>

text \<open>
  \<^verbatim>\<open>base64.StdEncoding.DecodeString\<close>: carriage returns and line feeds are skipped, groups of four
  characters give three bytes, and only the last group may be padded.
\<close>

definition b64_alphabet :: string where
  "b64_alphabet = ''ABCDEFGHIJKLMNOPQRSTUVWXYZabcdefghijklmnopqrstuvwxyz0123456789+/''"

fun index_of :: "'a \<Rightarrow> 'a list \<Rightarrow> nat option" where
  "index_of x [] = None"
| "index_of x (y # ys) = (if x = y then Some 0 else map_option Suc (index_of x ys))"

definition b64_value :: "char \<Rightarrow> nat option" where
  "b64_value c = index_of c b64_alphabet"

fun b64_groups :: "string \<Rightarrow> nat list option" where
  "b64_groups [] = Some []"
| "b64_groups (a # b # c # d # rest) =
     (case (b64_value a, b64_value b) of
        (Some x, Some y) \<Rightarrow>
          (if d = CHR ''='' then
             (if rest \<noteq> [] then None
              else if c = CHR ''='' then Some [(x * 4 + y div 16) mod 256]
              else (case b64_value c of
                  None \<Rightarrow> None
                | Some z \<Rightarrow> Some [(x * 4 + y div 16) mod 256, (y * 16 + z div 4) mod 256]))
           else (case (b64_value c, b64_value d) of
               (Some z, Some w) \<Rightarrow> map_option (\<lambda>bs.
                   (x * 4 + y div 16) mod 256 # (y * 16 + z div 4) mod 256 # (z * 64 + w) mod 256 # bs)
                 (b64_groups rest)
             | _ \<Rightarrow> None))
      | _ \<Rightarrow> None)"
| "b64_groups _ = None"

definition base64_decode :: "string \<Rightarrow> nat list option" where
  "base64_decode s = b64_groups (filter (\<lambda>c. c \<noteq> CHR 0x0A \<and> c \<noteq> CHR 0x0D) s)"

section \<open>Paths\<close>

text \<open>\<^verbatim>\<open>filepath.Base\<close> on a slash-separated path.\<close>

definition path_base :: "string \<Rightarrow> string" where
  "path_base path = (if path = '''' then ''.'' else
     let trimmed = rev (dropWhile (\<lambda>c. c = CHR ''/'') (rev path));
         last_part = rev (takeWhile (\<lambda>c. c \<noteq> CHR ''/'') (rev trimmed))
     in if last_part = '''' then ''/'' else last_part)"

end
