(* ===== verification/Transaction_Validate.thy ===== *)
theory Transaction_Validate
  imports Transaction_Digest Go_Strings
begin

text \<open>
  Structural validation of transaction resources: \<^verbatim>\<open>internal/kernel/model/transaction_validate.go\<close>
  and the task of \<^verbatim>\<open>agent_task.go\<close>. Each \<^verbatim>\<open>Validate\<close> method is its ladder of checks in source
  order; the lemmas at the end say what a valid resource guarantees to the reducer.
\<close>

section \<open>Known constants\<close>

fun validTransactionState :: "TransactionState \<Rightarrow> bool" where
  "validTransactionState (OtherTransactionState _) = False"
| "validTransactionState _ = True"

fun validAgentExecutionStatus :: "AgentExecutionStatus \<Rightarrow> bool" where
  "validAgentExecutionStatus (OtherExecutionStatus _) = False"
| "validAgentExecutionStatus _ = True"

definition transactionStateRequiresReason :: "TransactionState \<Rightarrow> bool" where
  "transactionStateRequiresReason state \<longleftrightarrow> state \<in>
     {TransactionValidationFailed, TransactionReviseRequired, TransactionBlocked,
      TransactionReleaseFailed, TransactionPartiallyCommitted, TransactionManualRecoveryRequired,
      TransactionAborted}"

definition transactionStateRequiresFrozenEffects :: "TransactionState \<Rightarrow> bool" where
  "transactionStateRequiresFrozenEffects state \<longleftrightarrow> state \<in>
     {TransactionStaged, TransactionValidating, TransactionValidationFailed,
      TransactionReviseRequired, TransactionPendingApproval, TransactionReadyToCommit,
      TransactionCommitting, TransactionCommitted, TransactionCompensating, TransactionRolledBack,
      TransactionReleaseFailed, TransactionPartiallyCommitted, TransactionManualRecoveryRequired}"

definition transactionStateRequiresCommitPlan :: "TransactionState \<Rightarrow> bool" where
  "transactionStateRequiresCommitPlan state \<longleftrightarrow> state \<in>
     {TransactionReadyToCommit, TransactionCommitting, TransactionCommitted,
      TransactionCompensating, TransactionRolledBack, TransactionReleaseFailed,
      TransactionPartiallyCommitted, TransactionManualRecoveryRequired}"

fun validRecoveryClass :: "EffectRecoveryClass \<Rightarrow> bool" where
  "validRecoveryClass (OtherRecoveryClass _) = False"
| "validRecoveryClass _ = True"

fun validEffectStatus :: "EffectStatus \<Rightarrow> bool" where
  "validEffectStatus (OtherEffectStatus _) = False"
| "validEffectStatus _ = True"

definition effectStatusRequiresStage :: "EffectStatus \<Rightarrow> bool" where
  "effectStatusRequiresStage status \<longleftrightarrow> status \<in>
     {EffectStaged, EffectValidated, EffectReleaseReady, EffectCommitting, EffectCommitted,
      EffectCompensating, EffectCompensated}"

definition effectStatusRequiresReleaseMetadata :: "EffectStatus \<Rightarrow> bool" where
  "effectStatusRequiresReleaseMetadata status \<longleftrightarrow> status \<in>
     {EffectReleaseReady, EffectCommitting, EffectCommitted, EffectCompensating, EffectCompensated}"

definition effectStatusRequiresReceipt :: "EffectStatus \<Rightarrow> bool" where
  "effectStatusRequiresReceipt status \<longleftrightarrow>
     status \<in> {EffectCommitted, EffectCompensating, EffectCompensated}"

fun validVerificationKind :: "VerificationKind \<Rightarrow> bool" where
  "validVerificationKind (OtherVerificationKind _) = False"
| "validVerificationKind _ = True"

fun validVerificationStatus :: "VerificationStatus \<Rightarrow> bool" where
  "validVerificationStatus (OtherVerificationStatus _) = False"
| "validVerificationStatus _ = True"

fun validVerificationIndependence :: "VerificationIndependence \<Rightarrow> bool" where
  "validVerificationIndependence (OtherVerificationIndependence _) = False"
| "validVerificationIndependence _ = True"

definition validRiskSeverity :: "string \<Rightarrow> bool" where
  "validRiskSeverity value \<longleftrightarrow> value \<in> {''info'', ''low'', ''medium'', ''high'', ''critical''}"

section \<open>Tasks\<close>

definition MaxAgentTaskIntentBytes :: nat where
  "MaxAgentTaskIntentBytes = 65536"

definition AgentTask_Validate :: "Hashing \<Rightarrow> AgentTask \<Rightarrow> KernelError option" where
  "AgentTask_Validate H task = (let resource = ''AgentTask''; profile = tk_AgentProfile task in first_error
     [validateVersion resource (tk_Version task) ''gatemole.agent_task.v0'',
      validateIdentifier resource ''id'' (tk_ID task),
      validateIdentifier resource ''transaction_id'' (tk_TransactionID task),
      validateIdentifier resource ''namespace'' (tk_Namespace task),
      validateIdentifier resource ''run_id'' (tk_RunID task),
      validateIdentifier resource ''agent_profile.id'' (tp_ID profile),
      fail_if (\<not> utf8_valid (tk_Intent task) \<or> blank (tk_Intent task) \<or> has_nul (tk_Intent task))
        (invalid resource ''intent''),
      fail_if (length (tk_Intent task) > MaxAgentTaskIntentBytes) (invalid resource ''intent''),
      validateDigest resource ''intent_digest'' (tk_IntentDigest task),
      validateDigest resource ''agent_profile.digest'' (tp_Digest profile),
      validateDigest resource ''agent_profile.command_digest'' (tp_CommandDigest profile),
      validateDigest resource ''digest'' (tk_Digest task),
      fail_if (tk_IntentDigest task \<noteq> ComputeAgentTaskIntentDigest H (tk_Intent task))
        (invalid resource ''intent_digest''),
      (if tp_RuntimeClass profile = ''oci'' then first_error
         [validateDigest resource ''agent_profile.image_digest'' (tp_ImageDigest profile),
          fail_if (tp_Entrypoint profile \<noteq> '''' \<and>
              (\<not> utf8_valid (tp_Entrypoint profile) \<or> blank (tp_Entrypoint profile) \<or>
               has_nul (tp_Entrypoint profile)))
            (invalid resource ''agent_profile.entrypoint'')]
       else if tp_RuntimeClass profile = ''host'' then first_error
         [fail_if (tp_ImageDigest profile \<noteq> '''') (invalid resource ''agent_profile.image_digest''),
          fail_if (tp_Entrypoint profile \<noteq> '''') (invalid resource ''agent_profile.entrypoint'')]
       else Some (invalid resource ''agent_profile.runtime_class'')),
      fail_if (tk_CreatedAt task = 0) (invalid resource ''created_at''),
      (case ComputeAgentTaskDigest H task of
         None \<Rightarrow> Some (invalid resource ''digest'')
       | Some computed \<Rightarrow> fail_if (tk_Digest task \<noteq> computed) (invalid resource ''digest''))])"

definition NewAgentTask :: "Hashing \<Rightarrow> string \<Rightarrow> string \<Rightarrow> string \<Rightarrow> string \<Rightarrow> string \<Rightarrow>
    AgentTaskProfileBinding \<Rightarrow> time \<Rightarrow> KernelError option + AgentTask" where
  "NewAgentTask H taskID transactionID namespace runID intent profile createdAt =
     (let task = \<lparr>tk_Version = ''gatemole.agent_task.v0'', tk_ID = taskID, tk_TransactionID = transactionID,
                  tk_Namespace = namespace, tk_RunID = runID, tk_Intent = intent,
                  tk_IntentDigest = ComputeAgentTaskIntentDigest H intent, tk_AgentProfile = profile,
                  tk_CreatedAt = createdAt, tk_Digest = ''''\<rparr>
      in case ComputeAgentTaskDigest H task of
           None \<Rightarrow> Inl None
         | Some digest \<Rightarrow> (let task = task\<lparr>tk_Digest := digest\<rparr> in
             case AgentTask_Validate H task of Some err \<Rightarrow> Inl (Some err) | None \<Rightarrow> Inr task))"

section \<open>Transactions\<close>

definition validateStageBindings :: "string \<Rightarrow> StageBinding list \<Rightarrow> KernelError option" where
  "validateStageBindings resource bindings =
     check_unique sb_ID
       (\<lambda>i binding. validateIdentifier resource (indexed ''stage_bindings'' i @ ''.id'') (sb_ID binding))
       (\<lambda>i. invalid resource (indexed ''stage_bindings'' i @ ''.id''))
       (\<lambda>i binding. let field = indexed ''stage_bindings'' i in first_error
         [validateIdentifier resource (field @ ''.kind'') (sb_Kind binding),
          validateResourceSelector resource (field @ ''.resource'') (sb_Resource binding),
          fail_if (blank (sb_Location binding) \<or> has_nul (sb_Location binding))
            (invalid resource (field @ ''.location'')),
          fail_if (blank (sb_BaseRevision binding)) (invalid resource (field @ ''.base_revision'')),
          fail_if (sb_CreatedAt binding = 0) (invalid resource (field @ ''.created_at''))])
       [] 0 bindings"

definition validateTaskBinding :: "Hashing \<Rightarrow> string \<Rightarrow> AgentTransaction \<Rightarrow> KernelError option" where
  "validateTaskBinding H resource tx = on_some (tx_Task tx) (\<lambda>task. first_error
     [AgentTask_Validate H task,
      fail_if (tk_TransactionID task \<noteq> tx_ID tx \<or> tk_Namespace task \<noteq> tx_Namespace tx \<or>
          tk_IntentDigest task \<noteq> tx_IntentDigest tx \<or> tk_CreatedAt task \<noteq> tx_CreatedAt tx)
        (invalid resource ''task''),
      fail_if (tk_RunID task \<notin> set (tx_AgentRunIDs tx)) (invalid resource ''task.run_id'')])"

definition validateAdmissionBinding :: "string \<Rightarrow> AgentTransaction \<Rightarrow> KernelError option" where
  "validateAdmissionBinding resource tx = on_some (tx_Admission tx) (\<lambda>admission. first_error
     [fail_if (ab_RuntimeID admission \<noteq> '''' \<and> \<not> IsRuntimeID (ab_RuntimeID admission))
        (invalid resource ''admission.runtime_id''),
      fail_if ((ab_RuntimeID admission = '''') \<noteq> (ab_EnforcementProfile admission = '''') \<or>
          (ab_EnforcementProfile admission \<noteq> '''' \<and> \<not> IsEnforcementProfile (ab_EnforcementProfile admission)))
        (invalid resource ''admission.enforcement_profile''),
      validateDigest resource ''admission.task_digest'' (ab_TaskDigest admission),
      validateIdentifier resource ''admission.run_id'' (ab_RunID admission),
      validateDigest resource ''admission.contract_digest'' (ab_ContractDigest admission),
      (case tx_Task tx of
         None \<Rightarrow> Some (invalid resource ''admission.task_digest'')
       | Some task \<Rightarrow> first_error
           [fail_if (ab_TaskDigest admission \<noteq> tk_Digest task) (invalid resource ''admission.task_digest''),
            fail_if (ab_RunID admission \<noteq> tk_RunID task) (invalid resource ''admission.run_id'')]),
      fail_if (ab_RunID admission \<notin> set (tx_AgentRunIDs tx)) (invalid resource ''admission.run_id'')])"

definition optionalDigest :: "string \<Rightarrow> string \<Rightarrow> string \<Rightarrow> KernelError option" where
  "optionalDigest resource field value =
     (if value \<noteq> '''' then validateDigest resource field value else None)"

definition AgentTransaction_Validate :: "Hashing \<Rightarrow> AgentTransaction \<Rightarrow> KernelError option" where
  "AgentTransaction_Validate H tx = (let resource = ''AgentTransaction'' in first_error
     [validateVersion resource (tx_Version tx) ''gatemole.agent_transaction.v0'',
      fail_if (tx_Attempt tx < 0) (invalid resource ''attempt''),
      validateIdentifier resource ''id'' (tx_ID tx),
      validateIdentifier resource ''namespace'' (tx_Namespace tx),
      validateStageBindings resource (tx_StageBindings tx),
      validateDigest resource ''intent_digest'' (tx_IntentDigest tx),
      validateTaskBinding H resource tx,
      validateAdmissionBinding resource tx,
      validatePrincipal resource ''sponsor'' (tx_Sponsor tx),
      fail_if (pr_Kind (tx_Sponsor tx) = PrincipalAgent \<or> pr_Kind (tx_Sponsor tx) = PrincipalRun)
        (identityInvalid resource ''sponsor.kind''),
      validateUniqueIdentifiers resource ''agent_run_ids'' (tx_AgentRunIDs tx),
      validateUniqueIdentifiers resource ''effect_ids'' (tx_EffectIDs tx),
      validateUniqueIdentifiers resource ''verification_result_ids'' (tx_VerificationResultIDs tx),
      validateUniqueIdentifiers resource ''outstanding_approval_ids'' (tx_OutstandingApprovalIDs tx),
      fail_if (\<not> validTransactionState (tx_State tx)) (invalid resource ''state''),
      fail_if (transactionStateRequiresReason (tx_State tx) \<and> blank (tx_StateReason tx))
        (invalid resource ''state_reason''),
      optionalDigest resource ''staged_state_digest'' (tx_StagedStateDigest tx),
      optionalDigest resource ''effect_set_digest'' (tx_EffectSetDigest tx),
      optionalDigest resource ''approval_package_digest'' (tx_ApprovalPackageDigest tx),
      optionalDigest resource ''commit_plan_digest'' (tx_CommitPlanDigest tx),
      fail_if (transactionStateRequiresFrozenEffects (tx_State tx) \<and>
          (tx_StagedStateDigest tx = '''' \<or> tx_EffectSetDigest tx = ''''))
        (invalid resource ''effect_set_digest''),
      fail_if (tx_State tx = TransactionPendingApproval \<and>
          (tx_ApprovalPackageDigest tx = '''' \<or> tx_OutstandingApprovalIDs tx = []))
        (invalid resource ''approval_package_digest''),
      fail_if (transactionStateRequiresCommitPlan (tx_State tx) \<and> tx_CommitPlanDigest tx = '''')
        (invalid resource ''commit_plan_digest''),
      fail_if (tx_EventSequence tx < 1) (invalid resource ''event_sequence''),
      fail_if (tx_CreatedAt tx = 0 \<or> tx_UpdatedAt tx = 0) (invalid resource ''created_at''),
      fail_if (tx_UpdatedAt tx < tx_CreatedAt tx) (invalid resource ''updated_at''),
      (if TransactionState_Terminal (tx_State tx) then
         (case tx_CompletedAt tx of
            None \<Rightarrow> Some (invalid resource ''completed_at'')
          | Some t \<Rightarrow> first_error
              [fail_if (t = 0) (invalid resource ''completed_at''),
               fail_if (t < tx_CreatedAt tx) (invalid resource ''completed_at'')])
       else fail_if (tx_CompletedAt tx \<noteq> None) (invalid resource ''completed_at''))])"

section \<open>Executions\<close>

definition validateModelBroker :: "string \<Rightarrow> AgentExecution \<Rightarrow> KernelError option" where
  "validateModelBroker resource execution = on_some (ax_ModelBroker execution) (\<lambda>broker. first_error
     [fail_if (ax_RuntimeClass execution \<noteq> ''oci'' \<or> \<not> IsIdentifier (mb_Provider broker))
        (invalid resource ''model_broker''),
      validateDigest resource ''model_broker.image_digest'' (mb_ImageDigest broker),
      validateDigest resource ''model_broker.policy_digest'' (mb_PolicyDigest broker),
      fail_if (mb_Calls broker < 0 \<or> mb_CompletedCalls broker < 0 \<or> mb_FailedCalls broker < 0 \<or>
          mb_UnknownCalls broker < 0 \<or> mb_InputTokens broker < 0 \<or> mb_OutputTokens broker < 0)
        (invalid resource ''model_broker''),
      fail_if (wrap64 (wrap64 (mb_CompletedCalls broker + mb_FailedCalls broker) + mb_UnknownCalls broker)
          \<noteq> mb_Calls broker)
        (invalid resource ''model_broker''),
      optionalDigest resource ''model_broker.receipt_ledger_digest'' (mb_ReceiptLedgerDigest broker)])"

definition validateRunningExecution :: "string \<Rightarrow> AgentExecution \<Rightarrow> KernelError option" where
  "validateRunningExecution resource execution = first_error
     [fail_if (ax_ExitCode execution \<noteq> None \<or> ax_CompletedAt execution \<noteq> None \<or>
          ax_StdoutDigest execution \<noteq> '''' \<or> ax_StderrDigest execution \<noteq> '''')
        (invalid resource ''status''),
      on_some (ax_ModelBroker execution) (\<lambda>broker.
        fail_if (mb_ReceiptLedgerDigest broker \<noteq> '''' \<or> mb_Calls broker \<noteq> 0 \<or>
            mb_CompletedCalls broker \<noteq> 0 \<or> mb_FailedCalls broker \<noteq> 0 \<or>
            mb_UnknownCalls broker \<noteq> 0 \<or> mb_InputTokens broker \<noteq> 0 \<or> mb_OutputTokens broker \<noteq> 0)
          (invalid resource ''model_broker''))]"

definition validateFinishedExecution :: "string \<Rightarrow> AgentExecution \<Rightarrow> KernelError option" where
  "validateFinishedExecution resource execution = first_error
     [(case ax_CompletedAt execution of
         None \<Rightarrow> Some (invalid resource ''completed_at'')
       | Some t \<Rightarrow> first_error
           [fail_if (t = 0) (invalid resource ''completed_at''),
            fail_if (t < ax_StartedAt execution) (invalid resource ''completed_at'')]),
      validateDigest resource ''stdout_digest'' (ax_StdoutDigest execution),
      validateDigest resource ''stderr_digest'' (ax_StderrDigest execution),
      (case ax_Status execution of
         AgentExecutionSucceeded \<Rightarrow>
           fail_if (ax_ExitCode execution \<noteq> Some 0) (invalid resource ''exit_code'')
       | AgentExecutionFailed \<Rightarrow>
           fail_if (ax_ExitCode execution = None \<or> ax_ExitCode execution = Some 0)
             (invalid resource ''exit_code'')
       | AgentExecutionInterrupted \<Rightarrow>
           fail_if (ax_ExitCode execution \<noteq> None) (invalid resource ''exit_code'')
       | AgentExecutionStartFailed \<Rightarrow>
           fail_if (ax_ExitCode execution \<noteq> None) (invalid resource ''exit_code'')
       | _ \<Rightarrow> None),
      on_some (ax_ModelBroker execution) (\<lambda>broker.
        fail_if (ax_Status execution \<noteq> AgentExecutionInterrupted \<and> mb_ReceiptLedgerDigest broker = '''')
          (invalid resource ''model_broker.receipt_ledger_digest''))]"

definition AgentExecution_Validate :: "AgentExecution \<Rightarrow> KernelError option" where
  "AgentExecution_Validate execution = (let resource = ''AgentExecution'' in first_error
     [validateVersion resource (ax_Version execution) ''gatemole.agent_execution.v0'',
      fail_if (ax_Attempt execution < 0) (invalid resource ''attempt''),
      validateIdentifier resource ''id'' (ax_ID execution),
      validateIdentifier resource ''transaction_id'' (ax_TransactionID execution),
      validateIdentifier resource ''run_id'' (ax_RunID execution),
      validateIdentifier resource ''stage_binding_id'' (ax_StageBindingID execution),
      fail_if (blank (ax_Program execution) \<or> has_nul (ax_Program execution)) (invalid resource ''program''),
      fail_if (length (ax_Program execution) > 4096) (invalid resource ''program''),
      validateDigest resource ''command_digest'' (ax_CommandDigest execution),
      fail_if (ax_RuntimeClass execution \<noteq> ''oci'' \<and> ax_RuntimeClass execution \<noteq> ''host'')
        (invalid resource ''runtime_class''),
      validateDigest resource ''runtime_config_digest'' (ax_RuntimeConfigDigest execution),
      (if ax_RuntimeClass execution = ''oci''
       then validateDigest resource ''image_digest'' (ax_ImageDigest execution)
       else fail_if (ax_ImageDigest execution \<noteq> '''') (invalid resource ''image_digest'')),
      optionalDigest resource ''task_digest'' (ax_TaskDigest execution),
      validateModelBroker resource execution,
      fail_if (\<not> validAgentExecutionStatus (ax_Status execution)) (invalid resource ''status''),
      fail_if (ax_StartedAt execution = 0) (invalid resource ''started_at''),
      (if ax_Status execution = AgentExecutionRunning
       then validateRunningExecution resource execution
       else validateFinishedExecution resource execution)])"

section \<open>Effects\<close>

definition validateEffectReceipt :: "string \<Rightarrow> string \<Rightarrow> EffectReceipt \<Rightarrow> KernelError option" where
  "validateEffectReceipt resource field receipt = first_error
     [validateIdentifier resource (field @ ''.driver'') (er_Driver receipt),
      validateIdentifier resource (field @ ''.operation_id'') (er_OperationID receipt),
      validateDigest resource (field @ ''.result_digest'') (er_ResultDigest receipt),
      fail_if (blank (er_ResourceVersion receipt) \<and> er_ResourceVersion receipt \<noteq> '''')
        (invalid resource (field @ ''.resource_version'')),
      fail_if (er_CommittedAt receipt = 0) (invalid resource (field @ ''.committed_at''))]"

definition optionalIdentifier :: "string \<Rightarrow> string \<Rightarrow> string \<Rightarrow> KernelError option" where
  "optionalIdentifier resource field value =
     (if value \<noteq> '''' then validateIdentifier resource field value else None)"

definition validateCompensation :: "string \<Rightarrow> Effect \<Rightarrow> KernelError option" where
  "validateCompensation resource effect = (case ef_Compensation effect of
     Some compensation \<Rightarrow> first_error
       [fail_if (ef_RecoveryClass effect \<noteq> RecoveryCompensatable) (invalid resource ''compensation''),
        validateIdentifier resource ''compensation.operation'' (cs_Operation compensation),
        validateJSONObject resource ''compensation.arguments'' (cs_Arguments compensation),
        validateDigest resource ''compensation.arguments_digest'' (cs_ArgumentsDigest compensation),
        on_some (cs_PlanRef compensation) (validateArtifactRef resource ''compensation.plan_ref'')]
   | None \<Rightarrow> fail_if (ef_RecoveryClass effect = RecoveryCompensatable \<and>
         effectStatusRequiresReleaseMetadata (ef_Status effect))
       (invalid resource ''compensation''))"

definition Effect_Validate :: "Effect \<Rightarrow> KernelError option" where
  "Effect_Validate effect = (let resource = ''Effect'' in first_error
     [validateVersion resource (ef_Version effect) ''gatemole.effect.v0'',
      fail_if (ef_Attempt effect < 0) (invalid resource ''attempt''),
      validateIdentifier resource ''id'' (ef_ID effect),
      validateIdentifier resource ''transaction_id'' (ef_TransactionID effect),
      validateIdentifier resource ''system'' (ef_System effect),
      validateIdentifier resource ''operation'' (ef_Operation effect),
      optionalIdentifier resource ''run_id'' (ef_RunID effect),
      optionalIdentifier resource ''origin_execution_id'' (ef_OriginExecutionID effect),
      optionalIdentifier resource ''origin_action_id'' (ef_OriginActionID effect),
      optionalIdentifier resource ''idempotency_key'' (ef_IdempotencyKey effect),
      fail_if (ef_Sequence effect < 1) (newError ErrorEffectSequence ''validate'' resource ''sequence''),
      validateResourceSelector resource ''resource'' (ef_Resource effect),
      validateJSONObject resource ''arguments'' (ef_Arguments effect),
      validateDigest resource ''arguments_digest'' (ef_ArgumentsDigest effect),
      validateUniqueIdentifiers resource ''dependencies'' (ef_Dependencies effect),
      fail_if (ef_ID effect \<in> set (ef_Dependencies effect)) (invalid resource ''dependencies''),
      validateOptionalNonnegative resource ''estimated_scope.rows'' (es_Rows (ef_EstimatedScope effect)),
      validateOptionalNonnegative resource ''estimated_scope.bytes'' (es_Bytes (ef_EstimatedScope effect)),
      validateOptionalNonnegative resource ''estimated_scope.objects'' (es_Objects (ef_EstimatedScope effect)),
      fail_if (\<not> validRecoveryClass (ef_RecoveryClass effect)) (invalid resource ''recovery_class''),
      fail_if (\<not> validEffectStatus (ef_Status effect)) (invalid resource ''status''),
      on_some (ef_StageRef effect) (validateArtifactRef resource ''stage_ref''),
      on_some (ef_BeforeStateRef effect) (validateArtifactRef resource ''before_state_ref''),
      fail_if (effectStatusRequiresStage (ef_Status effect) \<and> ef_RecoveryClass effect \<noteq> RecoveryReadOnly \<and>
          ef_StageRef effect = None)
        (invalid resource ''stage_ref''),
      fail_if (effectStatusRequiresReleaseMetadata (ef_Status effect) \<and>
          ef_RecoveryClass effect \<noteq> RecoveryReadOnly \<and> ef_IdempotencyKey effect = '''')
        (invalid resource ''idempotency_key''),
      fail_if (ef_RecoveryClass effect = RecoveryReversible \<and>
          effectStatusRequiresReleaseMetadata (ef_Status effect) \<and> ef_BeforeStateRef effect = None)
        (invalid resource ''before_state_ref''),
      validateCompensation resource effect,
      fail_if (ef_RecoveryClass effect = RecoveryIrreversible \<and> ef_Compensation effect \<noteq> None)
        (invalid resource ''compensation''),
      on_some (ef_Receipt effect) (validateEffectReceipt resource ''receipt''),
      on_some (ef_CompensationReceipt effect) (validateEffectReceipt resource ''compensation_receipt''),
      fail_if (effectStatusRequiresReceipt (ef_Status effect) \<and> ef_Receipt effect = None)
        (invalid resource ''receipt''),
      fail_if (ef_Status effect = EffectCompensated \<and> ef_CompensationReceipt effect = None)
        (invalid resource ''compensation_receipt''),
      fail_if (ef_CreatedAt effect = 0 \<or> ef_UpdatedAt effect = 0) (invalid resource ''created_at''),
      fail_if (ef_UpdatedAt effect < ef_CreatedAt effect) (invalid resource ''updated_at'')])"

section \<open>Verification results, approval packages and decisions\<close>

definition VerificationResult_Validate :: "VerificationResult \<Rightarrow> KernelError option" where
  "VerificationResult_Validate result = (let resource = ''VerificationResult'' in first_error
     [validateVersion resource (vr_Version result) ''gatemole.verification_result.v0'',
      fail_if (vr_Attempt result < 0) (invalid resource ''attempt''),
      validateIdentifier resource ''id'' (vr_ID result),
      validateIdentifier resource ''transaction_id'' (vr_TransactionID result),
      validateIdentifier resource ''name'' (vr_Name result),
      fail_if (\<not> validVerificationKind (vr_Kind result)) (invalid resource ''kind''),
      fail_if (\<not> validVerificationStatus (vr_Status result)) (invalid resource ''status''),
      validateDigest resource ''effect_set_digest'' (vr_EffectSetDigest result),
      validateDigest resource ''staged_state_digest'' (vr_StagedStateDigest result),
      validateDigest resource ''verifier_digest'' (vr_VerifierDigest result),
      validateDigest resource ''inputs_digest'' (vr_InputsDigest result),
      validatePrincipal resource ''verifier'' (vr_Verifier result),
      fail_if (\<not> validVerificationIndependence (vr_Independence result)) (invalid resource ''independence''),
      fail_if (vr_Evidence result = []) (invalid resource ''evidence''),
      check_each (\<lambda>i evidence. validateArtifactRef resource (indexed ''evidence'' i) evidence)
        0 (vr_Evidence result),
      fail_if (blank (vr_Summary result)) (invalid resource ''summary''),
      fail_if (vr_EvaluatedAt result = 0) (invalid resource ''evaluated_at''),
      on_some (vr_ExpiresAt result)
        (\<lambda>t. fail_if (\<not> t > vr_EvaluatedAt result) (invalid resource ''expires_at''))])"

definition ApprovalPackage_Validate :: "ApprovalPackage \<Rightarrow> KernelError option" where
  "ApprovalPackage_Validate approval = (let resource = ''ApprovalPackage'' in first_error
     [validateVersion resource (ap_Version approval) ''gatemole.approval_package.v0'',
      fail_if (ap_Attempt approval < 0) (invalid resource ''attempt''),
      validateIdentifier resource ''id'' (ap_ID approval),
      validateIdentifier resource ''transaction_id'' (ap_TransactionID approval),
      validateDigest resource ''intent_digest'' (ap_IntentDigest approval),
      validateDigest resource ''effect_set_digest'' (ap_EffectSetDigest approval),
      validateDigest resource ''staged_state_digest'' (ap_StagedStateDigest approval),
      validateDigest resource ''policy_digest'' (ap_PolicyDigest approval),
      validateDigest resource ''commit_plan_digest'' (ap_CommitPlanDigest approval),
      validateDigest resource ''digest'' (ap_Digest approval),
      fail_if (ap_VerificationResultIDs approval = []) (invalid resource ''verification_result_ids''),
      validateUniqueIdentifiers resource ''verification_result_ids'' (ap_VerificationResultIDs approval),
      validateUniqueIdentifiers resource ''required_approval_classes'' (ap_RequiredApprovalClasses approval),
      check_each (\<lambda>i finding. let field = indexed ''risk_findings'' i in first_error
          [validateIdentifier resource (field @ ''.code'') (rf_Code finding),
           fail_if (\<not> validRiskSeverity (rf_Severity finding)) (invalid resource (field @ ''.severity'')),
           fail_if (blank (rf_Summary finding)) (invalid resource (field @ ''.summary'')),
           validateUniqueIdentifiers resource (field @ ''.effect_ids'') (rf_EffectIDs finding)])
        0 (ap_RiskFindings approval),
      fail_if (blank (ap_Summary approval)) (invalid resource ''summary''),
      fail_if (ap_CreatedAt approval = 0 \<or> ap_ExpiresAt approval = 0 \<or>
          \<not> ap_ExpiresAt approval > ap_CreatedAt approval)
        (invalid resource ''expires_at'')])"

definition ApprovalDecision_Validate :: "ApprovalDecision \<Rightarrow> KernelError option" where
  "ApprovalDecision_Validate decision = (let resource = ''ApprovalDecision'' in first_error
     [validateVersion resource (ad_Version decision) ''gatemole.approval_decision.v0'',
      validateIdentifier resource ''id'' (ad_ID decision),
      validateIdentifier resource ''transaction_id'' (ad_TransactionID decision),
      validateIdentifier resource ''approval_id'' (ad_ApprovalID decision),
      validateIdentifier resource ''approval_class'' (ad_ApprovalClass decision),
      validateIdentifier resource ''key_id'' (ad_KeyID decision),
      validateIdentifier resource ''nonce'' (ad_Nonce decision),
      validateDigest resource ''package_digest'' (ad_PackageDigest decision),
      validateDigest resource ''digest'' (ad_Digest decision),
      (case ad_Decision decision of
         ApprovalApprove \<Rightarrow> fail_if (\<not> blank (ad_Reason decision)) (invalid resource ''reason'')
       | ApprovalReject \<Rightarrow> fail_if (blank (ad_Reason decision)) (invalid resource ''reason'')
       | ApprovalRevise \<Rightarrow> fail_if (blank (ad_Reason decision)) (invalid resource ''reason'')
       | OtherApprovalDecision _ \<Rightarrow> Some (invalid resource ''decision'')),
      validatePrincipal resource ''approver'' (ad_Approver decision),
      fail_if (pr_Kind (ad_Approver decision) \<noteq> PrincipalHuman) (identityInvalid resource ''approver.kind''),
      fail_if (ad_IssuedAt decision = 0 \<or> ad_ExpiresAt decision = 0 \<or>
          \<not> ad_ExpiresAt decision > ad_IssuedAt decision)
        (invalid resource ''expires_at''),
      (case base64_decode (ad_SignatureBase64 decision) of
         None \<Rightarrow> Some (invalid resource ''signature_base64'')
       | Some signature \<Rightarrow> fail_if (length signature \<noteq> 64) (invalid resource ''signature_base64''))])"

section \<open>Commit plans\<close>

text \<open>The loop over the release steps: \<open>seen\<close> are the effect IDs of the steps before.\<close>

fun validateCommitSteps :: "string \<Rightarrow> string list \<Rightarrow> nat \<Rightarrow> CommitStep list \<Rightarrow> KernelError option" where
  "validateCommitSteps resource seen i [] = None"
| "validateCommitSteps resource seen i (step # steps) = (let field = indexed ''steps'' i in first_error
     [fail_if (st_Sequence step \<noteq> int (i + 1))
        (newError ErrorEffectSequence ''validate'' resource (field @ ''.sequence'')),
      validateIdentifier resource (field @ ''.effect_id'') (st_EffectID step),
      fail_if (st_EffectID step \<in> set seen) (invalid resource (field @ ''.effect_id'')),
      validateUniqueIdentifiers resource (field @ ''.depends_on'') (st_DependsOn step),
      fail_if (\<not> set (st_DependsOn step) \<subseteq> set seen)
        (newError ErrorEffectSequence ''validate'' resource (field @ ''.depends_on'')),
      validateUniqueIdentifiers resource (field @ ''.precondition_ids'') (st_PreconditionIDs step),
      optionalIdentifier resource (field @ ''.idempotency_key'') (st_IdempotencyKey step),
      fail_if (st_TimeoutSeconds step < 1) (invalid resource (field @ ''.timeout_seconds'')),
      fail_if (\<not> st_RequiresReceipt step) (invalid resource (field @ ''.requires_receipt'')),
      validateCommitSteps resource (st_EffectID step # seen) (Suc i) steps])"

fun validateCompensationSteps ::
  "string \<Rightarrow> string list \<Rightarrow> string list \<Rightarrow> nat \<Rightarrow> CompensationStep list \<Rightarrow> KernelError option" where
  "validateCompensationSteps resource planned seen i [] = None"
| "validateCompensationSteps resource planned seen i (step # steps) =
    (let field = indexed ''compensation_steps'' i in first_error
     [fail_if (ks_Sequence step \<noteq> int (i + 1))
        (newError ErrorEffectSequence ''validate'' resource (field @ ''.sequence'')),
      fail_if (ks_EffectID step \<notin> set planned) (invalid resource (field @ ''.effect_id'')),
      fail_if (ks_EffectID step \<in> set seen) (invalid resource (field @ ''.effect_id'')),
      validateUniqueIdentifiers resource (field @ ''.precondition_ids'') (ks_PreconditionIDs step),
      on_some (ks_PlanRef step) (validateArtifactRef resource (field @ ''.plan_ref'')),
      validateCompensationSteps resource planned (ks_EffectID step # seen) (Suc i) steps])"

text \<open>Some step and one of its dependencies are both compensated, and not in reverse order.\<close>

definition compensation_misordered :: "CommitPlan \<Rightarrow> bool" where
  "compensation_misordered plan =
     (let position = (\<lambda>effectID. index_of effectID (map ks_EffectID (cp_CompensationSteps plan)))
      in list_ex (\<lambda>step. list_ex (\<lambda>dependency.
           case (position (st_EffectID step), position dependency) of
             (Some i, Some j) \<Rightarrow> i \<ge> j
           | _ \<Rightarrow> False) (st_DependsOn step)) (cp_Steps plan))"

definition CommitPlan_Validate :: "CommitPlan \<Rightarrow> KernelError option" where
  "CommitPlan_Validate plan =
    (let resource = ''CommitPlan'';
         planned = map st_EffectID (cp_Steps plan);
         compensated = map ks_EffectID (cp_CompensationSteps plan)
     in first_error
     [validateVersion resource (cp_Version plan) ''gatemole.commit_plan.v0'',
      fail_if (cp_Attempt plan < 0) (invalid resource ''attempt''),
      validateIdentifier resource ''id'' (cp_ID plan),
      validateIdentifier resource ''transaction_id'' (cp_TransactionID plan),
      validateIdentifier resource ''connector'' (cp_Connector plan),
      validateResourceSelector resource ''target'' (cp_Target plan),
      fail_if (blank (cp_ExpectedResourceVersion plan) \<or> has_nul (cp_ExpectedResourceVersion plan))
        (invalid resource ''expected_resource_version''),
      validateDigest resource ''intent_digest'' (cp_IntentDigest plan),
      validateDigest resource ''effect_set_digest'' (cp_EffectSetDigest plan),
      validateDigest resource ''staged_state_digest'' (cp_StagedStateDigest plan),
      validateDigest resource ''policy_digest'' (cp_PolicyDigest plan),
      validateDigest resource ''digest'' (cp_Digest plan),
      fail_if (cp_Steps plan = []) (invalid resource ''steps''),
      validateCommitSteps resource [] 0 (cp_Steps plan),
      validateCompensationSteps resource planned [] 0 (cp_CompensationSteps plan),
      fail_if (compensation_misordered plan)
        (newError ErrorEffectSequence ''validate'' resource ''compensation_steps''),
      validateUniqueIdentifiers resource ''irreversible_effect_ids'' (cp_IrreversibleEffectIDs plan),
      check_each (\<lambda>i effectID. first_error
          [fail_if (effectID \<notin> set planned) (invalid resource ''irreversible_effect_ids''),
           fail_if (effectID \<in> set compensated) (invalid resource ''compensation_steps'')])
        0 (cp_IrreversibleEffectIDs plan),
      (case cp_ManualRecoveryRef plan of
         Some ref \<Rightarrow> validateArtifactRef resource ''manual_recovery_ref'' ref
       | None \<Rightarrow> fail_if (cp_IrreversibleEffectIDs plan \<noteq> []) (invalid resource ''manual_recovery_ref'')),
      fail_if (cp_CreatedAt plan = 0) (invalid resource ''created_at'')])"

section \<open>Events\<close>

fun tx_payload_json :: "TransactionPayload \<Rightarrow> raw_json" where
  "tx_payload_json (UndecodableTx NotOneObject) = RawOther ''''"
| "tx_payload_json _ = RawObject ''''"

definition TransactionEvent_Validate :: "TransactionEvent \<Rightarrow> KernelError option" where
  "TransactionEvent_Validate event = (let resource = ''TransactionEvent'' in first_error
     [validateVersion resource (te_Version event) ''gatemole.transaction_event.v0'',
      validateIdentifier resource ''id'' (te_ID event),
      validateIdentifier resource ''transaction_id'' (te_TransactionID event),
      validateIdentifier resource ''type'' (TransactionEventType_name (te_Type event)),
      fail_if (te_Sequence event < 1) (newError ErrorEventSequence ''validate'' resource ''sequence''),
      validatePrincipal resource ''actor'' (te_Actor event),
      fail_if (te_OccurredAt event = 0) (invalid resource ''occurred_at''),
      validateJSONObject resource ''payload'' (tx_payload_json (te_Payload event)),
      check_each (\<lambda>i ref. validateArtifactRef resource (indexed ''artifacts'' i) ref) 0 (te_Artifacts event),
      fail_if (te_Sequence event = 1 \<and> te_PreviousDigest event \<noteq> '''')
        (newError ErrorEventChain ''validate'' resource ''previous_digest''),
      (if te_Sequence event > 1 then first_error
         [fail_if (te_PreviousDigest event = '''')
            (newError ErrorEventChain ''validate'' resource ''previous_digest''),
          validateDigest resource ''previous_digest'' (te_PreviousDigest event)]
       else None),
      validateDigest resource ''digest'' (te_Digest event)])"

end
