(* ===== verification/Transaction_Reducer.thy ===== *)
theory Transaction_Reducer
  imports Transaction_Validate Event_Ledger
begin

text \<open>
  The transaction ledger's reducer: \<^verbatim>\<open>internal/kernel/transaction/reducer.go\<close>. A projection is the
  transaction together with its executions, ordered effects, verification results, frozen commit
  plan and approval package, and what earlier attempts left behind. \<open>ApplyTx\<close> accepts or refuses one
  more event, one definition per case of its switch, and \<open>ReplayTx\<close> folds it over a history. The
  names that the run reducer already uses carry the suffix \<open>Tx\<close>.

  This theory holds the definitions and the lemmas that read them backwards; the invariants are in
  \<^verbatim>\<open>Transaction_Invariant\<close>.
\<close>

section \<open>Projections\<close>

record AuthoritySnapshot =
  sa_Attempt :: int64
  sa_State :: TransactionState
  sa_Reason :: string
  sa_SupersededAt :: time
  sa_OutstandingApprovalIDs :: "string list"
  sa_CommitPlan :: "CommitPlan option"
  sa_ApprovalPackage :: "ApprovalPackage option"
  sa_ApprovalDigests :: "string list"

record AttemptSnapshot =
  at_Attempt :: int64
  at_State :: TransactionState
  at_Reason :: string
  at_SupersededAt :: time
  at_ExecutionIDs :: "string list"
  at_EffectIDs :: "string list"
  at_Effects :: "Effect list"
  at_StagedStateDigest :: string
  at_EffectSetDigest :: string
  at_VerificationResultIDs :: "string list"
  at_Verifications :: "VerificationResult list"
  at_SupersededVerifications :: "VerificationResult list"
  at_CommitPlan :: "CommitPlan option"
  at_CommitPlanDigest :: string
  at_ApprovalPackage :: "ApprovalPackage option"
  at_ApprovalPackageDigest :: string
  at_OutstandingApprovalIDs :: "string list"
  at_ApprovalDigests :: "string list"
  at_SupersededAuthorities :: "AuthoritySnapshot list"

record ProjectionTx =
  tj_Transaction :: AgentTransaction
  tj_Executions :: "AgentExecution list"
  tj_Effects :: "Effect list"
  tj_Verifications :: "VerificationResult list"
  tj_SupersededVerifications :: "VerificationResult list"
  tj_CommitPlan :: "CommitPlan option"
  tj_ApprovalPackage :: "ApprovalPackage option"
  tj_ApprovalDigests :: "string list"
  tj_SupersededAuthorities :: "AuthoritySnapshot list"
  tj_SupersededAttempts :: "AttemptSnapshot list"
  tj_LastEventDigest :: string

section \<open>Transition tables\<close>

fun transactionTransitions :: "TransactionState \<Rightarrow> TransactionState list" where
  "transactionTransitions TransactionCreated = [TransactionRunning, TransactionBlocked, TransactionAborted]"
| "transactionTransitions TransactionRunning =
     [TransactionCompletedNoEffect, TransactionStaged, TransactionBlocked, TransactionAborted]"
| "transactionTransitions TransactionStaged =
     [TransactionRunning, TransactionValidating, TransactionBlocked, TransactionAborted]"
| "transactionTransitions TransactionValidating =
     [TransactionValidationFailed, TransactionReviseRequired, TransactionBlocked,
      TransactionPendingApproval, TransactionReadyToCommit, TransactionAborted]"
| "transactionTransitions TransactionValidationFailed =
     [TransactionRunning, TransactionValidating, TransactionAborted]"
| "transactionTransitions TransactionReviseRequired = [TransactionRunning, TransactionAborted]"
| "transactionTransitions TransactionPendingApproval =
     [TransactionReadyToCommit, TransactionReviseRequired, TransactionBlocked, TransactionAborted]"
| "transactionTransitions TransactionReadyToCommit =
     [TransactionCommitting, TransactionReviseRequired, TransactionBlocked, TransactionAborted]"
| "transactionTransitions TransactionCommitting =
     [TransactionCommitted, TransactionReleaseFailed, TransactionCompensating,
      TransactionPartiallyCommitted, TransactionManualRecoveryRequired]"
| "transactionTransitions TransactionCompensating =
     [TransactionRolledBack, TransactionPartiallyCommitted, TransactionManualRecoveryRequired]"
| "transactionTransitions _ = []"

fun effectTransitions :: "EffectStatus \<Rightarrow> EffectStatus list" where
  "effectTransitions EffectProposed = [EffectStaged, EffectBlocked, EffectRejected, EffectFailed]"
| "effectTransitions EffectStaged = [EffectValidated, EffectBlocked, EffectRejected, EffectFailed]"
| "effectTransitions EffectValidated = [EffectReleaseReady, EffectBlocked, EffectRejected]"
| "effectTransitions EffectReleaseReady = [EffectCommitting, EffectRejected]"
| "effectTransitions EffectCommitting =
     [EffectCommitted, EffectFailed, EffectUnknown, EffectManualRecoveryRequired]"
| "effectTransitions EffectCommitted = [EffectCompensating, EffectManualRecoveryRequired]"
| "effectTransitions EffectUnknown = [EffectCommitted, EffectFailed, EffectManualRecoveryRequired]"
| "effectTransitions EffectCompensating =
     [EffectCompensated, EffectFailed, EffectUnknown, EffectManualRecoveryRequired]"
| "effectTransitions _ = []"

definition CanTransitionTx :: "TransactionState \<Rightarrow> TransactionState \<Rightarrow> bool" where
  "CanTransitionTx from to \<longleftrightarrow> to \<in> set (transactionTransitions from)"

definition CanTransitionEffect :: "EffectStatus \<Rightarrow> EffectStatus \<Rightarrow> bool" where
  "CanTransitionEffect from to \<longleftrightarrow> to \<in> set (effectTransitions from)"

section \<open>Errors, decoding and list helpers\<close>

definition transactionError :: "ErrorCode \<Rightarrow> KernelError" where
  "transactionError code = KernelError code ''transaction'' '''' ''''"

definition transitionErrorTx :: KernelError where
  "transitionErrorTx = transactionError ErrorTransitionInvalid"

text \<open>
  \<^verbatim>\<open>decodePayload[T]\<close>: the payload as the structure of the event's own type, given as the case
  that reads it.
\<close>

definition decodePayload :: "(TransactionPayload \<Rightarrow> 'a option) \<Rightarrow> TransactionEvent \<Rightarrow> KernelError + 'a" where
  "decodePayload view event = (case view (te_Payload event) of
     Some v \<Rightarrow> Inr v
   | None \<Rightarrow> Inl (newError
       (case te_Payload event of
          UndecodableTx NotOneObject \<Rightarrow> ErrorSchemaInvalid
        | UndecodableTx WrongType \<Rightarrow> ErrorSchemaInvalid
        | _ \<Rightarrow> ErrorUnknownField)
       ''decode_transaction_event_payload'' (te_ID event) ''''))"

definition isDigest :: "string \<Rightarrow> bool" where
  "isDigest value \<longleftrightarrow> length value = 7 + 64 \<and> take 7 value = ''sha256:'' \<and>
     list_all is_lower_hex (drop 7 value)"

definition stateRequiresReasonTx :: "TransactionState \<Rightarrow> bool" where
  "stateRequiresReasonTx state \<longleftrightarrow> state \<in>
     {TransactionValidationFailed, TransactionReviseRequired, TransactionBlocked,
      TransactionReleaseFailed, TransactionPartiallyCommitted, TransactionManualRecoveryRequired,
      TransactionAborted}"

definition activeExecutionIndex :: "AgentExecution list \<Rightarrow> nat option" where
  "activeExecutionIndex executions =
     map_option (\<lambda>k. length executions - 1 - k)
       (find_index (\<lambda>execution. ax_Status execution = AgentExecutionRunning) (rev executions))"

definition executionIndex :: "AgentExecution list \<Rightarrow> string \<Rightarrow> nat option" where
  "executionIndex executions executionID = find_index (\<lambda>execution. ax_ID execution = executionID) executions"

definition latestExecutionForAttempt :: "AgentExecution list \<Rightarrow> int64 \<Rightarrow> AgentExecution option" where
  "latestExecutionForAttempt executions attempt =
     find (\<lambda>execution. ax_Attempt execution = attempt) (rev executions)"

definition verificationIndex :: "VerificationResult list \<Rightarrow> string \<Rightarrow> nat option" where
  "verificationIndex verifications verificationID =
     find_index (\<lambda>verification. vr_ID verification = verificationID) verifications"

definition stageBindingIndex :: "StageBinding list \<Rightarrow> string \<Rightarrow> nat option" where
  "stageBindingIndex bindings bindingID = find_index (\<lambda>binding. sb_ID binding = bindingID) bindings"

definition effectIndex :: "Effect list \<Rightarrow> string \<Rightarrow> nat option" where
  "effectIndex effects effectID = find_index (\<lambda>effect. ef_ID effect = effectID) effects"

definition stringIndex :: "string list \<Rightarrow> string \<Rightarrow> nat option" where
  "stringIndex values want = find_index (\<lambda>value. value = want) values"

definition stringContains :: "string list \<Rightarrow> string \<Rightarrow> bool" where
  "stringContains values want \<longleftrightarrow> want \<in> set values"

definition removeVerification :: "VerificationResult list \<Rightarrow> nat \<Rightarrow> VerificationResult list" where
  "removeVerification verifications index = remove_at index verifications"

definition removeString :: "string list \<Rightarrow> nat \<Rightarrow> string list" where
  "removeString values index = remove_at index values"

definition releaseEffectIDs :: "Effect list \<Rightarrow> string list" where
  "releaseEffectIDs effects =
     map ef_ID (filter (\<lambda>effect. ef_RecoveryClass effect \<noteq> RecoveryReadOnly) effects)"

definition hasAnyEffectStatus :: "Effect list \<Rightarrow> EffectStatus list \<Rightarrow> bool" where
  "hasAnyEffectStatus effects statuses \<longleftrightarrow> list_ex (\<lambda>effect. ef_Status effect \<in> set statuses) effects"

definition hasEffectStatus :: "Effect list \<Rightarrow> EffectStatus \<Rightarrow> bool" where
  "hasEffectStatus effects status = hasAnyEffectStatus effects [status]"

fun equalStrings :: "string list \<Rightarrow> string list \<Rightarrow> bool" where
  "equalStrings [] [] = True"
| "equalStrings (x # xs) (y # ys) \<longleftrightarrow> x = y \<and> equalStrings xs ys"
| "equalStrings _ _ = False"

section \<open>Attempts\<close>

definition invalidateFrozenState :: "ProjectionTx \<Rightarrow> ProjectionTx" where
  "invalidateFrozenState p = p\<lparr>
     tj_Transaction := (tj_Transaction p)\<lparr>
       tx_EffectIDs := [], tx_StagedStateDigest := '''', tx_EffectSetDigest := '''',
       tx_VerificationResultIDs := [], tx_OutstandingApprovalIDs := [],
       tx_ApprovalPackageDigest := '''', tx_CommitPlanDigest := ''''\<rparr>,
     tj_Effects := [], tj_Verifications := [], tj_SupersededVerifications := [],
     tj_CommitPlan := None, tj_ApprovalPackage := None, tj_ApprovalDigests := [],
     tj_SupersededAuthorities := []\<rparr>"

definition attemptSnapshot :: "ProjectionTx \<Rightarrow> time \<Rightarrow> AttemptSnapshot" where
  "attemptSnapshot p supersededAt = (let tx = tj_Transaction p in \<lparr>
     at_Attempt = tx_Attempt tx, at_State = tx_State tx,
     at_Reason = (if tx_StateReason tx = '''' then ''transaction work revised'' else tx_StateReason tx),
     at_SupersededAt = supersededAt,
     at_ExecutionIDs = map ax_ID (filter (\<lambda>execution. ax_Attempt execution = tx_Attempt tx) (tj_Executions p)),
     at_EffectIDs = tx_EffectIDs tx, at_Effects = tj_Effects p,
     at_StagedStateDigest = tx_StagedStateDigest tx, at_EffectSetDigest = tx_EffectSetDigest tx,
     at_VerificationResultIDs = tx_VerificationResultIDs tx, at_Verifications = tj_Verifications p,
     at_SupersededVerifications = tj_SupersededVerifications p,
     at_CommitPlan = tj_CommitPlan p, at_CommitPlanDigest = tx_CommitPlanDigest tx,
     at_ApprovalPackage = tj_ApprovalPackage p, at_ApprovalPackageDigest = tx_ApprovalPackageDigest tx,
     at_OutstandingApprovalIDs = tx_OutstandingApprovalIDs tx,
     at_ApprovalDigests = tj_ApprovalDigests p,
     at_SupersededAuthorities = tj_SupersededAuthorities p\<rparr>)"

definition beginNextAttempt :: "ProjectionTx \<Rightarrow> time \<Rightarrow> KernelError + ProjectionTx" where
  "beginNextAttempt p supersededAt =
     ok_then (fail_if (activeExecutionIndex (tj_Executions p) \<noteq> None) transitionErrorTx)
       (Inr (invalidateFrozenState (p\<lparr>
          tj_SupersededAttempts := tj_SupersededAttempts p @ [attemptSnapshot p supersededAt],
          tj_Transaction := (tj_Transaction p)\<lparr>tx_Attempt := wrap64 (tx_Attempt (tj_Transaction p) + 1)\<rparr>\<rparr>)))"

definition applyCompletionTime :: "AgentTransaction \<Rightarrow> time \<Rightarrow> AgentTransaction" where
  "applyCompletionTime tx occurredAt =
     tx\<lparr>tx_CompletedAt := (if TransactionState_Terminal (tx_State tx) then Some occurredAt else None)\<rparr>"

section \<open>Preconditions\<close>

definition requireNoFailedVerification :: "ProjectionTx \<Rightarrow> KernelError option" where
  "requireNoFailedVerification p = first_error
     [fail_if (tj_Verifications p = []) (transactionError ErrorVerificationFailed),
      fail_if (list_ex (\<lambda>result. vr_Status result = VerificationFailed) (tj_Verifications p))
        (transactionError ErrorVerificationFailed)]"

definition requirePassingVerification :: "ProjectionTx \<Rightarrow> KernelError option" where
  "requirePassingVerification p = first_error
     [requireNoFailedVerification p,
      check_each (\<lambda>_ result. first_error
          [fail_if (vr_Status result \<noteq> VerificationPassed) (transactionError ErrorVerificationFailed),
           fail_if (vr_Independence result \<noteq> VerificationPlatformRun)
             (transactionError ErrorVerificationFailed)])
        0 (tj_Verifications p)]"

definition requireAllEffectsStatus :: "Effect list \<Rightarrow> EffectStatus \<Rightarrow> KernelError option" where
  "requireAllEffectsStatus effects status =
     check_each (\<lambda>_ effect. fail_if (ef_RecoveryClass effect \<noteq> RecoveryReadOnly \<and> ef_Status effect \<noteq> status)
       transitionErrorTx) 0 effects"

definition validateStatePreconditions ::
  "ProjectionTx \<Rightarrow> TransactionStateChangedPayload \<Rightarrow> KernelError option" where
  "validateStatePreconditions p payload = (case tc_To payload of
     TransactionCompletedNoEffect \<Rightarrow> first_error
       [fail_if (tj_Effects p \<noteq> [] \<or> activeExecutionIndex (tj_Executions p) \<noteq> None) transitionErrorTx,
        (case latestExecutionForAttempt (tj_Executions p) (tx_Attempt (tj_Transaction p)) of
           None \<Rightarrow> Some transitionErrorTx
         | Some execution \<Rightarrow> fail_if (ax_Status execution \<noteq> AgentExecutionSucceeded) transitionErrorTx)]
   | TransactionValidating \<Rightarrow>
       fail_if (tx_EffectSetDigest (tj_Transaction p) = '''' \<or> tx_StagedStateDigest (tj_Transaction p) = '''')
         transitionErrorTx
   | TransactionPendingApproval \<Rightarrow> first_error
       [fail_if (tj_CommitPlan p = None \<or> tj_ApprovalPackage p = None \<or>
           tc_OutstandingApprovalIDs payload = []) transitionErrorTx,
        requireNoFailedVerification p]
   | TransactionReadyToCommit \<Rightarrow>
       (case (tj_CommitPlan p, tj_ApprovalPackage p) of
          (Some plan, Some approval) \<Rightarrow> first_error
            [fail_if (ap_RequiredApprovalClasses approval \<noteq> []) (transactionError ErrorApprovalRequired),
             fail_if (tc_OutstandingApprovalIDs payload \<noteq> []) transitionErrorTx,
             requirePassingVerification p]
        | _ \<Rightarrow> Some transitionErrorTx)
   | TransactionCommitting \<Rightarrow> requireAllEffectsStatus (tj_Effects p) EffectReleaseReady
   | TransactionCommitted \<Rightarrow> requireAllEffectsStatus (tj_Effects p) EffectCommitted
   | TransactionCompensating \<Rightarrow>
       fail_if (\<not> hasEffectStatus (tj_Effects p) EffectCommitted) transitionErrorTx
   | TransactionRolledBack \<Rightarrow>
       fail_if (list_ex (\<lambda>effect. ef_RecoveryClass effect \<noteq> RecoveryReadOnly \<and>
           ef_Status effect \<in> {EffectCommitted, EffectCompensating, EffectUnknown, EffectManualRecoveryRequired})
           (tj_Effects p))
         (transactionError ErrorPartialCommit)
   | TransactionReleaseFailed \<Rightarrow>
       fail_if (\<not> hasEffectStatus (tj_Effects p) EffectFailed) transitionErrorTx
   | TransactionPartiallyCommitted \<Rightarrow>
       fail_if (\<not> hasAnyEffectStatus (tj_Effects p)
           [EffectCommitted, EffectUnknown, EffectManualRecoveryRequired, EffectFailed])
         (transactionError ErrorPartialCommit)
   | TransactionManualRecoveryRequired \<Rightarrow>
       fail_if (\<not> hasAnyEffectStatus (tj_Effects p)
           [EffectUnknown, EffectManualRecoveryRequired, EffectCommitted])
         (transactionError ErrorPartialCommit)
   | _ \<Rightarrow> None)"

definition validateEffectTransitionContext ::
  "TransactionState \<Rightarrow> EffectStatus \<Rightarrow> EffectStatus \<Rightarrow> KernelError option" where
  "validateEffectTransitionContext state from target =
    (let releasing = (state = TransactionCommitting \<or> state = TransactionCompensating) in
     case target of
       EffectValidated \<Rightarrow> fail_if (state \<noteq> TransactionValidating) transitionErrorTx
     | EffectReleaseReady \<Rightarrow> fail_if (state \<noteq> TransactionReadyToCommit) transitionErrorTx
     | EffectCommitting \<Rightarrow> fail_if (\<not> releasing) transitionErrorTx
     | EffectCommitted \<Rightarrow> fail_if (\<not> releasing) transitionErrorTx
     | EffectUnknown \<Rightarrow> fail_if (\<not> releasing) transitionErrorTx
     | EffectFailed \<Rightarrow>
         fail_if ((from = EffectCommitting \<or> from = EffectCompensating) \<and> \<not> releasing) transitionErrorTx
     | EffectCompensating \<Rightarrow> fail_if (state \<noteq> TransactionCompensating) transitionErrorTx
     | EffectCompensated \<Rightarrow> fail_if (state \<noteq> TransactionCompensating) transitionErrorTx
     | _ \<Rightarrow> None)"

section \<open>The cases of Apply\<close>

fun as_tx_created :: "TransactionPayload \<Rightarrow> AgentTransaction option" where
  "as_tx_created (TransactionCreatedPayload x) = Some x" | "as_tx_created _ = None"
fun as_tx_state_changed :: "TransactionPayload \<Rightarrow> TransactionStateChangedPayload option" where
  "as_tx_state_changed (TransactionStateChanged x) = Some x" | "as_tx_state_changed _ = None"
fun as_effect_added :: "TransactionPayload \<Rightarrow> Effect option" where
  "as_effect_added (EffectAddedPayload x) = Some x" | "as_effect_added _ = None"
fun as_binding :: "TransactionPayload \<Rightarrow> StageBinding option" where
  "as_binding (StageBindingCreatedPayload x) = Some x" | "as_binding _ = None"
fun as_effect_changed :: "TransactionPayload \<Rightarrow> EffectStateChangedPayload option" where
  "as_effect_changed (EffectStateChanged x) = Some x" | "as_effect_changed _ = None"
fun as_staged :: "TransactionPayload \<Rightarrow> TransactionStagedPayload option" where
  "as_staged (TransactionStagedP x) = Some x" | "as_staged _ = None"
fun as_verification :: "TransactionPayload \<Rightarrow> VerificationResult option" where
  "as_verification (VerificationRecordedPayload x) = Some x" | "as_verification _ = None"
fun as_superseded :: "TransactionPayload \<Rightarrow> VerificationSupersededPayload option" where
  "as_superseded (VerificationSuperseded x) = Some x" | "as_superseded _ = None"
fun as_plan :: "TransactionPayload \<Rightarrow> CommitPlan option" where
  "as_plan (CommitPlanFrozenPayload x) = Some x" | "as_plan _ = None"
fun as_package :: "TransactionPayload \<Rightarrow> ApprovalPackage option" where
  "as_package (ApprovalPackageFrozenPayload x) = Some x" | "as_package _ = None"
fun as_renewal :: "TransactionPayload \<Rightarrow> string option" where
  "as_renewal (AuthorityRenewedPayload x) = Some x" | "as_renewal _ = None"
fun as_approval :: "TransactionPayload \<Rightarrow> ApprovalDecision option" where
  "as_approval (ApprovalResolvedPayload x) = Some x" | "as_approval _ = None"
fun as_execution :: "TransactionPayload \<Rightarrow> AgentExecution option" where
  "as_execution (AgentExecutionStartedPayload x) = Some x" | "as_execution _ = None"
fun as_execution_finished :: "TransactionPayload \<Rightarrow> AgentExecutionFinishedPayload option" where
  "as_execution_finished (AgentExecutionFinished x) = Some x" | "as_execution_finished _ = None"

definition applyStageBindingCreated :: "ProjectionTx \<Rightarrow> TransactionEvent \<Rightarrow> KernelError + ProjectionTx" where
  "applyStageBindingCreated p event = (let tx = tj_Transaction p in
     ok_then (fail_if (tx_State tx \<noteq> TransactionRunning) transitionErrorTx)
     (bind_res (decodePayload as_binding event) (\<lambda>binding.
       ok_then (fail_if (list_ex (\<lambda>existing. sb_ID existing = sb_ID binding \<or>
           (sb_Kind existing = sb_Kind binding \<and> sb_Resource existing = sb_Resource binding))
           (tx_StageBindings tx)) (transactionError ErrorConflict))
       (Inr (p\<lparr>tj_Transaction := tx\<lparr>tx_StageBindings := tx_StageBindings tx @ [binding]\<rparr>\<rparr>)))))"

definition applyAgentExecutionStarted :: "ProjectionTx \<Rightarrow> TransactionEvent \<Rightarrow> KernelError + ProjectionTx" where
  "applyAgentExecutionStarted p event = (let tx = tj_Transaction p in
     ok_then (first_error
       [fail_if (tx_State tx \<noteq> TransactionRunning) transitionErrorTx,
        fail_if (activeExecutionIndex (tj_Executions p) \<noteq> None) (transactionError ErrorConflict)])
     (bind_res (decodePayload as_execution event) (\<lambda>execution.
       ok_then (first_error
         [AgentExecution_Validate execution,
          fail_if (ax_TransactionID execution \<noteq> tx_ID tx \<or> ax_Attempt execution \<noteq> tx_Attempt tx \<or>
              ax_Status execution \<noteq> AgentExecutionRunning \<or> ax_StartedAt execution \<noteq> te_OccurredAt event)
            transitionErrorTx,
          fail_if (\<not> stringContains (tx_AgentRunIDs tx) (ax_RunID execution))
            (transactionError ErrorIdentityInvalid),
          (case tx_Task tx of
             Some task \<Rightarrow> fail_if (ax_TaskDigest execution \<noteq> tk_Digest task \<or>
                 ax_RunID execution \<noteq> tk_RunID task \<or>
                 ax_RuntimeClass execution \<noteq> tp_RuntimeClass (tk_AgentProfile task) \<or>
                 ax_ImageDigest execution \<noteq> tp_ImageDigest (tk_AgentProfile task) \<or>
                 ax_CommandDigest execution \<noteq> tp_CommandDigest (tk_AgentProfile task))
               (transactionError ErrorIdentityInvalid)
           | None \<Rightarrow> fail_if (ax_TaskDigest execution \<noteq> '''') (transactionError ErrorEventChain)),
          fail_if (stageBindingIndex (tx_StageBindings tx) (ax_StageBindingID execution) = None)
            (transactionError ErrorNotFound),
          fail_if (list_ex (\<lambda>existing. ax_ID existing = ax_ID execution) (tj_Executions p))
            (transactionError ErrorConflict)])
       (Inr (p\<lparr>tj_Executions := tj_Executions p @ [execution]\<rparr>)))))"

text \<open>The broker receipt of a finished execution replaces the one it started with.\<close>

definition finishModelBroker ::
  "ModelBrokerExecution option \<Rightarrow> ModelBrokerExecution option \<Rightarrow> KernelError + ModelBrokerExecution option" where
  "finishModelBroker started finished = (case (started, finished) of
     (None, None) \<Rightarrow> Inr None
   | (None, Some _) \<Rightarrow> Inl (transactionError ErrorEventChain)
   | (Some _, None) \<Rightarrow> Inl (transactionError ErrorEventChain)
   | (Some a, Some b) \<Rightarrow>
       (if mb_Provider a \<noteq> mb_Provider b \<or> mb_ImageDigest a \<noteq> mb_ImageDigest b \<or>
           mb_PolicyDigest a \<noteq> mb_PolicyDigest b
        then Inl (transactionError ErrorEventChain) else Inr (Some b)))"

definition applyAgentExecutionFinished :: "ProjectionTx \<Rightarrow> TransactionEvent \<Rightarrow> KernelError + ProjectionTx" where
  "applyAgentExecutionFinished p event =
     ok_then (fail_if (tx_State (tj_Transaction p) \<noteq> TransactionRunning) transitionErrorTx)
     (bind_res (decodePayload as_execution_finished event) (\<lambda>payload.
       case executionIndex (tj_Executions p) (af_ExecutionID payload) of
         None \<Rightarrow> Inl (transactionError ErrorNotFound)
       | Some index \<Rightarrow> (let execution = tj_Executions p ! index in
           ok_then (fail_if (ax_Status execution \<noteq> AgentExecutionRunning \<or>
               \<not> AgentExecutionStatus_Terminal (af_Status payload)) transitionErrorTx)
           (bind_res (finishModelBroker (ax_ModelBroker execution) (af_ModelBroker payload)) (\<lambda>broker.
             let execution = execution\<lparr>ax_Status := af_Status payload, ax_ExitCode := af_ExitCode payload,
               ax_StdoutDigest := af_StdoutDigest payload, ax_StderrDigest := af_StderrDigest payload,
               ax_ModelBroker := broker, ax_CompletedAt := Some (te_OccurredAt event)\<rparr>
             in ok_then (AgentExecution_Validate execution)
                 (Inr (p\<lparr>tj_Executions := (tj_Executions p)[index := execution]\<rparr>)))))))"

definition applyStateChange :: "ProjectionTx \<Rightarrow> TransactionEvent \<Rightarrow> KernelError + ProjectionTx" where
  "applyStateChange p event = bind_res (decodePayload as_tx_state_changed event) (\<lambda>payload.
     ok_then (first_error
       [fail_if (tc_From payload \<noteq> tx_State (tj_Transaction p)) transitionErrorTx,
        fail_if (\<not> CanTransitionTx (tc_From payload) (tc_To payload)) transitionErrorTx,
        fail_if (tc_To payload = TransactionStaged) transitionErrorTx,
        fail_if (tc_From payload = TransactionPendingApproval) transitionErrorTx,
        fail_if (stateRequiresReasonTx (tc_To payload) \<and> tc_Reason payload = '''') transitionErrorTx,
        validateStatePreconditions p payload])
     (bind_res (if tc_To payload = TransactionRunning \<and> tc_From payload \<noteq> TransactionCreated
                then beginNextAttempt p (te_OccurredAt event) else Inr p) (\<lambda>p.
       let p = p\<lparr>tj_Transaction := (tj_Transaction p)\<lparr>
             tx_State := tc_To payload, tx_StateReason := tc_Reason payload\<rparr>\<rparr>;
           p = (if tc_To payload = TransactionPendingApproval
                then p\<lparr>tj_Transaction := (tj_Transaction p)\<lparr>
                  tx_OutstandingApprovalIDs := tc_OutstandingApprovalIDs payload\<rparr>\<rparr>
                else p);
           p = (if tc_To payload = TransactionRunning \<and> tc_From payload = TransactionCreated
                then invalidateFrozenState p else p)
       in Inr (p\<lparr>tj_Transaction := applyCompletionTime (tj_Transaction p) (te_OccurredAt event)\<rparr>))))"

definition applyEffectAdded :: "ProjectionTx \<Rightarrow> TransactionEvent \<Rightarrow> KernelError + ProjectionTx" where
  "applyEffectAdded p event = (let tx = tj_Transaction p; known = map ef_ID (tj_Effects p) in
     ok_then (fail_if (tx_State tx \<noteq> TransactionRunning) transitionErrorTx)
     (bind_res (decodePayload as_effect_added event) (\<lambda>effect.
       ok_then (first_error
         [Effect_Validate effect,
          fail_if (ef_TransactionID effect \<noteq> tx_ID tx \<or> ef_Attempt effect \<noteq> tx_Attempt tx \<or>
              ef_Sequence effect \<noteq> int (length (tj_Effects p) + 1)) (transactionError ErrorEffectSequence),
          fail_if (ef_ID effect \<in> set known) (transactionError ErrorConflict),
          fail_if (\<not> set (ef_Dependencies effect) \<subseteq> set known) (transactionError ErrorEffectSequence)])
       (Inr (p\<lparr>tj_Effects := tj_Effects p @ [effect],
               tj_Transaction := tx\<lparr>tx_EffectIDs := tx_EffectIDs tx @ [ef_ID effect]\<rparr>\<rparr>)))))"

definition applyEffectStateChange :: "ProjectionTx \<Rightarrow> TransactionEvent \<Rightarrow> KernelError + ProjectionTx" where
  "applyEffectStateChange p event = bind_res (decodePayload as_effect_changed event) (\<lambda>payload.
     case effectIndex (tj_Effects p) (fc_EffectID payload) of
       None \<Rightarrow> Inl (transactionError ErrorNotFound)
     | Some index \<Rightarrow> (let effect = tj_Effects p ! index in
         ok_then (first_error
           [fail_if (ef_Status effect \<noteq> fc_From payload \<or>
               \<not> CanTransitionEffect (fc_From payload) (fc_To payload)) transitionErrorTx,
            validateEffectTransitionContext (tx_State (tj_Transaction p)) (fc_From payload) (fc_To payload)])
         (let effect = effect\<lparr>ef_Status := fc_To payload,
                ef_Receipt := (if fc_Receipt payload \<noteq> None then fc_Receipt payload else ef_Receipt effect),
                ef_CompensationReceipt := (if fc_CompensationReceipt payload \<noteq> None
                  then fc_CompensationReceipt payload else ef_CompensationReceipt effect),
                ef_UpdatedAt := te_OccurredAt event\<rparr>
          in ok_then (Effect_Validate effect)
               (Inr (p\<lparr>tj_Effects := (tj_Effects p)[index := effect]\<rparr>)))))"

definition applyStaged :: "Hashing \<Rightarrow> ProjectionTx \<Rightarrow> TransactionEvent \<Rightarrow> KernelError + ProjectionTx" where
  "applyStaged H p event = (let tx = tj_Transaction p in
     ok_then (first_error
       [fail_if (tx_State tx \<noteq> TransactionRunning \<or> tj_Effects p = []) transitionErrorTx,
        fail_if (activeExecutionIndex (tj_Executions p) \<noteq> None) transitionErrorTx])
     (bind_res (decodePayload as_staged event) (\<lambda>payload.
       case ComputeEffectSetDigest H (tj_Effects p) of
         None \<Rightarrow> Inl (transactionError ErrorSchemaInvalid)
       | Some want \<Rightarrow> ok_then (first_error
           [fail_if (sg_EffectSetDigest payload \<noteq> want) (transactionError ErrorTransactionConflict),
            fail_if (\<not> isDigest (sg_StagedStateDigest payload)) (transactionError ErrorSchemaInvalid)])
           (Inr (p\<lparr>tj_Transaction := tx\<lparr>tx_State := TransactionStaged,
              tx_StagedStateDigest := sg_StagedStateDigest payload,
              tx_EffectSetDigest := sg_EffectSetDigest payload, tx_StateReason := ''''\<rparr>\<rparr>)))))"

definition applyVerification :: "ProjectionTx \<Rightarrow> TransactionEvent \<Rightarrow> KernelError + ProjectionTx" where
  "applyVerification p event = (let tx = tj_Transaction p in
     ok_then (fail_if (tx_State tx \<noteq> TransactionValidating) transitionErrorTx)
     (bind_res (decodePayload as_verification event) (\<lambda>result.
       ok_then (first_error
         [VerificationResult_Validate result,
          fail_if (vr_TransactionID result \<noteq> tx_ID tx \<or> vr_Attempt result \<noteq> tx_Attempt tx \<or>
              vr_EffectSetDigest result \<noteq> tx_EffectSetDigest tx \<or>
              vr_StagedStateDigest result \<noteq> tx_StagedStateDigest tx)
            (transactionError ErrorTransactionConflict),
          fail_if (list_ex (\<lambda>existing. vr_ID existing = vr_ID result \<or> vr_Name existing = vr_Name result)
              (tj_Verifications p)) (transactionError ErrorConflict),
          fail_if (list_ex (\<lambda>existing. vr_ID existing = vr_ID result) (tj_SupersededVerifications p))
            (transactionError ErrorConflict)])
       (Inr (p\<lparr>tj_Verifications := tj_Verifications p @ [result],
               tj_Transaction := tx\<lparr>tx_VerificationResultIDs := tx_VerificationResultIDs tx @ [vr_ID result]\<rparr>\<rparr>)))))"

definition applyVerificationSuperseded :: "ProjectionTx \<Rightarrow> TransactionEvent \<Rightarrow> KernelError + ProjectionTx" where
  "applyVerificationSuperseded p event = (let tx = tj_Transaction p in
     ok_then (fail_if (tx_State tx \<noteq> TransactionValidating) transitionErrorTx)
     (bind_res (decodePayload as_superseded event) (\<lambda>payload.
       ok_then (fail_if (vs_Reason payload = '''') (transactionError ErrorSchemaInvalid))
       (case verificationIndex (tj_Verifications p) (vs_VerificationID payload) of
          None \<Rightarrow> Inl (transactionError ErrorNotFound)
        | Some index \<Rightarrow> (let result = tj_Verifications p ! index in
            ok_then (fail_if (vr_Status result = VerificationPassed \<and>
                (case vr_ExpiresAt result of None \<Rightarrow> True | Some t \<Rightarrow> t > te_OccurredAt event))
              transitionErrorTx)
            (Inr (p\<lparr>tj_SupersededVerifications := tj_SupersededVerifications p @ [result],
                    tj_Verifications := removeVerification (tj_Verifications p) index,
                    tj_Transaction := tx\<lparr>tx_VerificationResultIDs :=
                      removeString (tx_VerificationResultIDs tx) index\<rparr>\<rparr>)))))))"

definition applyCommitPlan :: "Hashing \<Rightarrow> ProjectionTx \<Rightarrow> TransactionEvent \<Rightarrow> KernelError + ProjectionTx" where
  "applyCommitPlan H p event = (let tx = tj_Transaction p in
     ok_then (fail_if (tx_State tx \<noteq> TransactionValidating) transitionErrorTx)
     (bind_res (decodePayload as_plan event) (\<lambda>plan.
       ok_then (CommitPlan_Validate plan)
       (case ComputeCommitPlanDigest H plan of
          None \<Rightarrow> Inl (transactionError ErrorSchemaInvalid)
        | Some planDigest \<Rightarrow> ok_then (first_error
            [fail_if (cp_Digest plan \<noteq> planDigest) (transactionError ErrorTransactionConflict),
             fail_if (cp_TransactionID plan \<noteq> tx_ID tx \<or> cp_Attempt plan \<noteq> tx_Attempt tx \<or>
                 cp_IntentDigest plan \<noteq> tx_IntentDigest tx \<or> cp_EffectSetDigest plan \<noteq> tx_EffectSetDigest tx \<or>
                 cp_StagedStateDigest plan \<noteq> tx_StagedStateDigest tx)
               (transactionError ErrorTransactionConflict),
             fail_if (\<not> equalStrings (releaseEffectIDs (tj_Effects p)) (map st_EffectID (cp_Steps plan)))
               (transactionError ErrorTransactionConflict)])
            (Inr (p\<lparr>tj_CommitPlan := Some plan,
                    tj_Transaction := tx\<lparr>tx_CommitPlanDigest := cp_Digest plan\<rparr>\<rparr>))))))"

definition applyApprovalPackage :: "Hashing \<Rightarrow> ProjectionTx \<Rightarrow> TransactionEvent \<Rightarrow> KernelError + ProjectionTx" where
  "applyApprovalPackage H p event = (let tx = tj_Transaction p in
     ok_then (fail_if (tx_State tx \<noteq> TransactionValidating \<or> tj_CommitPlan p = None) transitionErrorTx)
     (bind_res (decodePayload as_package event) (\<lambda>approval.
       ok_then (ApprovalPackage_Validate approval)
       (case ComputeApprovalPackageDigest H approval of
          None \<Rightarrow> Inl (transactionError ErrorSchemaInvalid)
        | Some approvalDigest \<Rightarrow> ok_then (first_error
            [fail_if (ap_Digest approval \<noteq> approvalDigest) (transactionError ErrorTransactionConflict),
             fail_if (ap_TransactionID approval \<noteq> tx_ID tx \<or> ap_Attempt approval \<noteq> tx_Attempt tx \<or>
                 ap_IntentDigest approval \<noteq> tx_IntentDigest tx \<or>
                 ap_EffectSetDigest approval \<noteq> tx_EffectSetDigest tx \<or>
                 ap_StagedStateDigest approval \<noteq> tx_StagedStateDigest tx \<or>
                 ap_CommitPlanDigest approval \<noteq> tx_CommitPlanDigest tx \<or>
                 \<not> equalStrings (ap_VerificationResultIDs approval) (tx_VerificationResultIDs tx))
               (transactionError ErrorTransactionConflict)])
            (Inr (p\<lparr>tj_ApprovalPackage := Some approval,
                    tj_Transaction := tx\<lparr>tx_ApprovalPackageDigest := ap_Digest approval\<rparr>\<rparr>))))))"

definition authoritySnapshot :: "ProjectionTx \<Rightarrow> string \<Rightarrow> time \<Rightarrow> AuthoritySnapshot" where
  "authoritySnapshot p reason occurredAt = \<lparr>
     sa_Attempt = tx_Attempt (tj_Transaction p), sa_State = tx_State (tj_Transaction p),
     sa_Reason = reason, sa_SupersededAt = occurredAt,
     sa_OutstandingApprovalIDs = tx_OutstandingApprovalIDs (tj_Transaction p),
     sa_CommitPlan = tj_CommitPlan p, sa_ApprovalPackage = tj_ApprovalPackage p,
     sa_ApprovalDigests = tj_ApprovalDigests p\<rparr>"

definition verification_expired :: "time \<Rightarrow> VerificationResult \<Rightarrow> bool" where
  "verification_expired now result = (case vr_ExpiresAt result of None \<Rightarrow> False | Some t \<Rightarrow> \<not> t > now)"

definition applyAuthorityRenewed :: "ProjectionTx \<Rightarrow> TransactionEvent \<Rightarrow> KernelError + ProjectionTx" where
  "applyAuthorityRenewed p event = (let tx = tj_Transaction p; now = te_OccurredAt event in
     ok_then (fail_if (tx_State tx \<noteq> TransactionPendingApproval \<and> tx_State tx \<noteq> TransactionReadyToCommit)
       transitionErrorTx)
     (bind_res (decodePayload as_renewal event) (\<lambda>reason.
       ok_then (first_error
         [fail_if (reason = '''') (transactionError ErrorSchemaInvalid),
          fail_if (tj_CommitPlan p = None \<or> tj_ApprovalPackage p = None) transitionErrorTx])
       (let kept = filter (\<lambda>(result, resultID). \<not> verification_expired now result)
              (zip (tj_Verifications p) (tx_VerificationResultIDs tx))
        in Inr (p\<lparr>
          tj_SupersededAuthorities := tj_SupersededAuthorities p @ [authoritySnapshot p reason now],
          tj_SupersededVerifications := tj_SupersededVerifications p @
            filter (verification_expired now) (tj_Verifications p),
          tj_Verifications := map fst kept,
          tj_Transaction := applyCompletionTime (tx\<lparr>
            tx_VerificationResultIDs := map snd kept,
            tx_State := TransactionValidating, tx_StateReason := '''',
            tx_OutstandingApprovalIDs := [], tx_ApprovalPackageDigest := '''',
            tx_CommitPlanDigest := ''''\<rparr>) now,
          tj_CommitPlan := None, tj_ApprovalPackage := None, tj_ApprovalDigests := []\<rparr>)))))"

text \<open>\<^verbatim>\<open>2*time.Minute\<close> in nanoseconds.\<close>

definition approval_clock_skew :: int64 where
  "approval_clock_skew = 120000000000"

definition applyApprovalResolution :: "Hashing \<Rightarrow> ProjectionTx \<Rightarrow> TransactionEvent \<Rightarrow> KernelError + ProjectionTx" where
  "applyApprovalResolution H p event = (let tx = tj_Transaction p; now = te_OccurredAt event in
     case (if tx_State tx = TransactionPendingApproval then tj_ApprovalPackage p else None) of
       None \<Rightarrow> Inl transitionErrorTx
     | Some package \<Rightarrow> bind_res (decodePayload as_approval event) (\<lambda>decision.
         ok_then (ApprovalDecision_Validate decision)
         (case ComputeApprovalDecisionDigest H decision of
            None \<Rightarrow> Inl (transactionError ErrorApprovalInvalid)
          | Some decisionDigest \<Rightarrow>
              ok_then (fail_if (ad_Digest decision \<noteq> decisionDigest \<or>
                  ad_TransactionID decision \<noteq> tx_ID tx \<or>
                  ad_PackageDigest decision \<noteq> tx_ApprovalPackageDigest tx \<or>
                  ad_Approver decision \<noteq> te_Actor event \<or>
                  now < ad_IssuedAt decision - approval_clock_skew \<or>
                  \<not> ad_ExpiresAt decision > now \<or> \<not> ap_ExpiresAt package > now \<or>
                  \<not> stringContains (ap_RequiredApprovalClasses package) (ad_ApprovalClass decision))
                (transactionError ErrorApprovalInvalid))
              (case stringIndex (tx_OutstandingApprovalIDs tx) (ad_ApprovalID decision) of
                 None \<Rightarrow> Inl (transactionError ErrorApprovalInvalid)
               | Some index \<Rightarrow> bind_res
                   (case ad_Decision decision of
                      ApprovalApprove \<Rightarrow>
                        (let p = p\<lparr>tj_Transaction := tx\<lparr>tx_OutstandingApprovalIDs :=
                                     removeString (tx_OutstandingApprovalIDs tx) index\<rparr>,
                                   tj_ApprovalDigests := tj_ApprovalDigests p @ [ad_Digest decision]\<rparr>
                         in if tx_OutstandingApprovalIDs (tj_Transaction p) = []
                            then ok_then (requirePassingVerification p)
                              (Inr (p\<lparr>tj_Transaction := (tj_Transaction p)\<lparr>tx_State := TransactionReadyToCommit\<rparr>\<rparr>))
                            else Inr p)
                    | ApprovalReject \<Rightarrow> Inr (p\<lparr>tj_Transaction := tx\<lparr>tx_State := TransactionBlocked,
                        tx_StateReason := ad_Reason decision, tx_OutstandingApprovalIDs := []\<rparr>\<rparr>)
                    | ApprovalRevise \<Rightarrow> Inr (p\<lparr>tj_Transaction := tx\<lparr>tx_State := TransactionReviseRequired,
                        tx_StateReason := ad_Reason decision, tx_OutstandingApprovalIDs := []\<rparr>\<rparr>)
                    | OtherApprovalDecision _ \<Rightarrow> Inl (transactionError ErrorApprovalInvalid))
                   (\<lambda>p. Inr (p\<lparr>tj_Transaction := applyCompletionTime (tj_Transaction p) now\<rparr>))))))"

definition applyCreationTx :: "Hashing \<Rightarrow> TransactionEvent \<Rightarrow> KernelError + ProjectionTx" where
  "applyCreationTx H event =
     ok_then (fail_if (te_Sequence event \<noteq> 1 \<or> te_Type event \<noteq> EventTransactionCreated) transitionErrorTx)
     (bind_res (decodePayload as_tx_created event) (\<lambda>tx.
       ok_then (first_error
         [AgentTransaction_Validate H tx,
          fail_if (tx_ID tx \<noteq> te_TransactionID event \<or> tx_State tx \<noteq> TransactionCreated \<or>
              (tx_Attempt tx \<noteq> 0 \<and> tx_Attempt tx \<noteq> 1)) transitionErrorTx,
          fail_if (tx_EventSequence tx \<noteq> 1 \<or> tx_CreatedAt tx \<noteq> te_OccurredAt event \<or>
              tx_UpdatedAt tx \<noteq> te_OccurredAt event) transitionErrorTx])
       (Inr \<lparr>tj_Transaction = tx, tj_Executions = [], tj_Effects = [], tj_Verifications = [],
             tj_SupersededVerifications = [], tj_CommitPlan = None, tj_ApprovalPackage = None,
             tj_ApprovalDigests = [], tj_SupersededAuthorities = [], tj_SupersededAttempts = [],
             tj_LastEventDigest = te_Digest event\<rparr>)))"

section \<open>Apply and Replay\<close>

text \<open>The switch on the event type.\<close>

definition applyEventTx :: "Hashing \<Rightarrow> ProjectionTx \<Rightarrow> TransactionEvent \<Rightarrow> KernelError + ProjectionTx" where
  "applyEventTx H p event = (case te_Type event of
     EventTransactionStateChanged \<Rightarrow> applyStateChange p event
   | EventEffectAdded \<Rightarrow> applyEffectAdded p event
   | EventStageBindingCreated \<Rightarrow> applyStageBindingCreated p event
   | EventEffectStateChanged \<Rightarrow> applyEffectStateChange p event
   | EventTransactionStaged \<Rightarrow> applyStaged H p event
   | EventVerificationRecorded \<Rightarrow> applyVerification p event
   | EventVerificationSuperseded \<Rightarrow> applyVerificationSuperseded p event
   | EventCommitPlanFrozen \<Rightarrow> applyCommitPlan H p event
   | EventApprovalPackageFrozen \<Rightarrow> applyApprovalPackage H p event
   | EventAuthorityRenewed \<Rightarrow> applyAuthorityRenewed p event
   | EventApprovalResolved \<Rightarrow> applyApprovalResolution H p event
   | EventAgentExecutionStarted \<Rightarrow> applyAgentExecutionStarted p event
   | EventAgentExecutionFinished \<Rightarrow> applyAgentExecutionFinished p event
   | EventTransactionCreated \<Rightarrow> Inl transitionErrorTx
   | OtherTransactionEvent _ \<Rightarrow> Inl transitionErrorTx)"

text \<open>The envelope: the event itself, its digest, and how it continues the ledger.\<close>

definition checkEventTx :: "Hashing \<Rightarrow> TransactionEvent \<Rightarrow> KernelError option" where
  "checkEventTx H event = first_error
     [TransactionEvent_Validate event,
      (case VerifyTransactionEventDigest H event of
         None \<Rightarrow> Some (transactionError ErrorInternal)
       | Some valid \<Rightarrow> fail_if (\<not> valid) (transactionError ErrorEventChain))]"

definition checkEnvelopeTx :: "ProjectionTx \<Rightarrow> TransactionEvent \<Rightarrow> KernelError option" where
  "checkEnvelopeTx p event = first_error
     [fail_if (te_TransactionID event \<noteq> tx_ID (tj_Transaction p)) (transactionError ErrorEventSequence),
      fail_if (te_Sequence event \<noteq> wrap64 (tx_EventSequence (tj_Transaction p) + 1))
        (transactionError ErrorEventSequence),
      fail_if (te_PreviousDigest event \<noteq> tj_LastEventDigest p) (transactionError ErrorEventChain),
      fail_if (te_OccurredAt event < tx_UpdatedAt (tj_Transaction p)) (transactionError ErrorSchemaInvalid),
      fail_if (te_Type event = EventTransactionCreated) transitionErrorTx]"

definition advanceTx :: "ProjectionTx \<Rightarrow> TransactionEvent \<Rightarrow> ProjectionTx" where
  "advanceTx p event = p\<lparr>tj_Transaction := (tj_Transaction p)\<lparr>
     tx_EventSequence := te_Sequence event, tx_UpdatedAt := te_OccurredAt event\<rparr>,
     tj_LastEventDigest := te_Digest event\<rparr>"

fun ApplyTx :: "Hashing \<Rightarrow> ProjectionTx option \<Rightarrow> TransactionEvent \<Rightarrow> KernelError + ProjectionTx" where
  "ApplyTx H None event = ok_then (checkEventTx H event) (applyCreationTx H event)"
| "ApplyTx H (Some cur) event =
     ok_then (checkEventTx H event) (ok_then (checkEnvelopeTx cur event)
       (bind_res (applyEventTx H cur event) (\<lambda>p.
         let p = advanceTx p event
         in ok_then (AgentTransaction_Validate H (tj_Transaction p)) (Inr p))))"

fun replayFromTx :: "Hashing \<Rightarrow> ProjectionTx option \<Rightarrow> TransactionEvent list \<Rightarrow> KernelError + ProjectionTx" where
  "replayFromTx H None [] = Inl (transactionError ErrorEventSequence)"
| "replayFromTx H (Some cur) [] = Inr cur"
| "replayFromTx H cur (event # events) =
     bind_res (ApplyTx H cur event) (\<lambda>next. replayFromTx H (Some next) events)"

definition ReplayTx :: "Hashing \<Rightarrow> TransactionEvent list \<Rightarrow> KernelError + ProjectionTx" where
  "ReplayTx H events = replayFromTx H None events"

declare ApplyTx.simps [simp del]

section \<open>Reading the definitions backwards\<close>

lemma tx_view_Some [simp]:
  "as_tx_created x = Some a \<longleftrightarrow> x = TransactionCreatedPayload a"
  "as_tx_state_changed x = Some b \<longleftrightarrow> x = TransactionStateChanged b"
  "as_effect_added x = Some c \<longleftrightarrow> x = EffectAddedPayload c"
  "as_binding x = Some d \<longleftrightarrow> x = StageBindingCreatedPayload d"
  "as_effect_changed x = Some f \<longleftrightarrow> x = EffectStateChanged f"
  "as_staged x = Some g \<longleftrightarrow> x = TransactionStagedP g"
  "as_verification x = Some h \<longleftrightarrow> x = VerificationRecordedPayload h"
  "as_superseded x = Some i \<longleftrightarrow> x = VerificationSuperseded i"
  "as_plan x = Some j \<longleftrightarrow> x = CommitPlanFrozenPayload j"
  "as_package x = Some k \<longleftrightarrow> x = ApprovalPackageFrozenPayload k"
  "as_renewal x = Some l \<longleftrightarrow> x = AuthorityRenewedPayload l"
  "as_approval x = Some m \<longleftrightarrow> x = ApprovalResolvedPayload m"
  "as_execution x = Some n \<longleftrightarrow> x = AgentExecutionStartedPayload n"
  "as_execution_finished x = Some u \<longleftrightarrow> x = AgentExecutionFinished u"
  by (cases x; simp)+

lemma decodePayload_Inr [simp]: "decodePayload view e = Inr v \<longleftrightarrow> view (te_Payload e) = Some v"
  by (simp add: decodePayload_def split: option.splits)

lemma equalStrings_iff [simp]: "equalStrings xs ys \<longleftrightarrow> xs = ys"
  by (induction xs ys rule: equalStrings.induct) auto

lemma strip_prefix_take:
  "strip_prefix p s = (if take (length p) s = p then Some (drop (length p) s) else None)"
  by (induction p s rule: strip_prefix.induct) auto

lemma isDigest_iff: "isDigest value \<longleftrightarrow> IsSHA256Digest value"
proof -
  have "length ''sha256:'' = 7" by simp
  then have "IsSHA256Digest value \<longleftrightarrow> take 7 value = ''sha256:'' \<and>
      length (drop 7 value) = 64 \<and> list_all is_lower_hex (drop 7 value)"
    by (simp only: IsSHA256Digest_def hex_suffix_def strip_prefix_take split: if_splits) simp
  then show ?thesis by (auto simp only: isDigest_def length_drop)
qed

lemma activeExecutionIndex_None [simp]:
  "activeExecutionIndex xs = None \<longleftrightarrow> (\<forall>x\<in>set xs. ax_Status x \<noteq> AgentExecutionRunning)"
  by (auto simp: activeExecutionIndex_def)

text \<open>What the last step of a state change writes.\<close>

definition movedTx :: "ProjectionTx \<Rightarrow> TransactionStateChangedPayload \<Rightarrow> time \<Rightarrow> ProjectionTx" where
  "movedTx p payload t = p\<lparr>tj_Transaction := (tj_Transaction p)\<lparr>
     tx_State := tc_To payload, tx_StateReason := tc_Reason payload,
     tx_OutstandingApprovalIDs := (if tc_To payload = TransactionPendingApproval
       then tc_OutstandingApprovalIDs payload else tx_OutstandingApprovalIDs (tj_Transaction p)),
     tx_CompletedAt := (if TransactionState_Terminal (tc_To payload) then Some t else None)\<rparr>\<rparr>"

definition retriedTx :: "ProjectionTx \<Rightarrow> time \<Rightarrow> ProjectionTx" where
  "retriedTx p t = invalidateFrozenState (p\<lparr>
     tj_SupersededAttempts := tj_SupersededAttempts p @ [attemptSnapshot p t],
     tj_Transaction := (tj_Transaction p)\<lparr>tx_Attempt := wrap64 (tx_Attempt (tj_Transaction p) + 1)\<rparr>\<rparr>)"

definition allowed_change :: "ProjectionTx \<Rightarrow> TransactionStateChangedPayload \<Rightarrow> bool" where
  "allowed_change p payload \<longleftrightarrow> tc_From payload = tx_State (tj_Transaction p) \<and>
     CanTransitionTx (tx_State (tj_Transaction p)) (tc_To payload) \<and> tc_To payload \<noteq> TransactionStaged \<and>
     tx_State (tj_Transaction p) \<noteq> TransactionPendingApproval \<and>
     (stateRequiresReasonTx (tc_To payload) \<longrightarrow> tc_Reason payload \<noteq> '''') \<and>
     validateStatePreconditions p payload = None"

lemma applyStateChange_cases:
  assumes "applyStateChange p e = Inr q"
  obtains (move) payload where "te_Payload e = TransactionStateChanged payload"
      "allowed_change p payload" "tc_To payload \<noteq> TransactionRunning"
      "q = movedTx p payload (te_OccurredAt e)"
  | (start) payload where "te_Payload e = TransactionStateChanged payload"
      "allowed_change p payload" "tc_To payload = TransactionRunning"
      "tx_State (tj_Transaction p) = TransactionCreated"
      "q = movedTx (invalidateFrozenState p) payload (te_OccurredAt e)"
  | (retry) payload where "te_Payload e = TransactionStateChanged payload"
      "allowed_change p payload" "tc_To payload = TransactionRunning"
      "tx_State (tj_Transaction p) \<in> {TransactionStaged, TransactionValidationFailed, TransactionReviseRequired}"
      "activeExecutionIndex (tj_Executions p) = None"
      "q = movedTx (retriedTx p (te_OccurredAt e)) payload (te_OccurredAt e)"
proof -
  obtain payload where pl: "te_Payload e = TransactionStateChanged payload" and ok: "allowed_change p payload"
    using assms by (auto simp: applyStateChange_def allowed_change_def)
  show thesis
  proof (cases "tc_To payload = TransactionRunning")
    case False
    with assms pl ok have "q = movedTx p payload (te_OccurredAt e)"
      by (auto simp: applyStateChange_def movedTx_def applyCompletionTime_def Let_def)
    with pl ok False show thesis by (rule move)
  next
    case to: True
    show thesis
    proof (cases "tx_State (tj_Transaction p) = TransactionCreated")
      case True
      with assms pl ok to have "q = movedTx (invalidateFrozenState p) payload (te_OccurredAt e)"
        by (auto simp: applyStateChange_def movedTx_def applyCompletionTime_def invalidateFrozenState_def
            allowed_change_def Let_def)
      with pl ok to True show thesis by (rule start)
    next
      case False
      with ok to have origin: "tx_State (tj_Transaction p) \<in>
          {TransactionStaged, TransactionValidationFailed, TransactionReviseRequired}"
        by (cases "tx_State (tj_Transaction p)") (auto simp: allowed_change_def CanTransitionTx_def)
      have "activeExecutionIndex (tj_Executions p) = None"
          "q = movedTx (retriedTx p (te_OccurredAt e)) payload (te_OccurredAt e)"
        using assms pl ok to False
        by (auto simp: applyStateChange_def movedTx_def applyCompletionTime_def invalidateFrozenState_def
            allowed_change_def beginNextAttempt_def retriedTx_def Let_def)
      with pl ok to origin show thesis by (rule retry)
    qed
  qed
qed

text \<open>One case per way an accepted event changes the projection.\<close>

lemma applyEffectStateChange_Inr:
  assumes "applyEffectStateChange p e = Inr q"
  obtains i payload f where "te_Payload e = EffectStateChanged payload"
    "i < length (tj_Effects p)" "ef_ID (tj_Effects p ! i) = fc_EffectID payload"
    "ef_Status (tj_Effects p ! i) = fc_From payload" "CanTransitionEffect (fc_From payload) (fc_To payload)"
    "validateEffectTransitionContext (tx_State (tj_Transaction p)) (fc_From payload) (fc_To payload) = None"
    "f = (tj_Effects p ! i)\<lparr>ef_Status := fc_To payload,
       ef_Receipt := (if fc_Receipt payload \<noteq> None then fc_Receipt payload else ef_Receipt (tj_Effects p ! i)),
       ef_CompensationReceipt := (if fc_CompensationReceipt payload \<noteq> None
         then fc_CompensationReceipt payload else ef_CompensationReceipt (tj_Effects p ! i)),
       ef_UpdatedAt := te_OccurredAt e\<rparr>"
    "Effect_Validate f = None" "q = p\<lparr>tj_Effects := (tj_Effects p)[i := f]\<rparr>"
proof -
  from assms obtain payload i where "te_Payload e = EffectStateChanged payload"
    and i: "effectIndex (tj_Effects p) (fc_EffectID payload) = Some i"
    by (auto simp: applyEffectStateChange_def split: option.splits)
  with assms find_index_Some [OF i [unfolded effectIndex_def]] show thesis
    by (intro that [of payload i]) (auto simp: applyEffectStateChange_def Let_def simp del: if_split)
qed

lemma applyAgentExecutionFinished_Inr:
  assumes "applyAgentExecutionFinished p e = Inr q"
  obtains i payload broker x where "te_Payload e = AgentExecutionFinished payload"
    "tx_State (tj_Transaction p) = TransactionRunning"
    "i < length (tj_Executions p)" "ax_ID (tj_Executions p ! i) = af_ExecutionID payload"
    "ax_Status (tj_Executions p ! i) = AgentExecutionRunning" "AgentExecutionStatus_Terminal (af_Status payload)"
    "x = (tj_Executions p ! i)\<lparr>ax_Status := af_Status payload, ax_ExitCode := af_ExitCode payload,
       ax_StdoutDigest := af_StdoutDigest payload, ax_StderrDigest := af_StderrDigest payload,
       ax_ModelBroker := broker, ax_CompletedAt := Some (te_OccurredAt e)\<rparr>"
    "AgentExecution_Validate x = None" "q = p\<lparr>tj_Executions := (tj_Executions p)[i := x]\<rparr>"
proof -
  from assms obtain payload i where "te_Payload e = AgentExecutionFinished payload"
    and i: "executionIndex (tj_Executions p) (af_ExecutionID payload) = Some i"
    by (auto simp: applyAgentExecutionFinished_def split: option.splits)
  with assms find_index_Some [OF i [unfolded executionIndex_def]] show thesis
    by (auto simp: applyAgentExecutionFinished_def Let_def intro: that)
qed

definition resolvable :: "Hashing \<Rightarrow> ProjectionTx \<Rightarrow> TransactionEvent \<Rightarrow> ApprovalPackage \<Rightarrow> ApprovalDecision \<Rightarrow> bool" where
  "resolvable H p e package decision \<longleftrightarrow>
     te_Payload e = ApprovalResolvedPayload decision \<and>
     tx_State (tj_Transaction p) = TransactionPendingApproval \<and> tj_ApprovalPackage p = Some package \<and>
     ApprovalDecision_Validate decision = None \<and>
     ComputeApprovalDecisionDigest H decision = Some (ad_Digest decision) \<and>
     ad_TransactionID decision = tx_ID (tj_Transaction p) \<and>
     ad_PackageDigest decision = tx_ApprovalPackageDigest (tj_Transaction p) \<and>
     ad_Approver decision = te_Actor e \<and> ad_IssuedAt decision - approval_clock_skew \<le> te_OccurredAt e \<and>
     te_OccurredAt e < ad_ExpiresAt decision \<and> te_OccurredAt e < ap_ExpiresAt package \<and>
     ad_ApprovalClass decision \<in> set (ap_RequiredApprovalClasses package) \<and>
     ad_ApprovalID decision \<in> set (tx_OutstandingApprovalIDs (tj_Transaction p))"

definition approvedTx :: "ProjectionTx \<Rightarrow> nat \<Rightarrow> ApprovalDecision \<Rightarrow> ProjectionTx" where
  "approvedTx p i decision = p\<lparr>tj_Transaction := (tj_Transaction p)\<lparr>
       tx_OutstandingApprovalIDs := removeString (tx_OutstandingApprovalIDs (tj_Transaction p)) i\<rparr>,
     tj_ApprovalDigests := tj_ApprovalDigests p @ [ad_Digest decision]\<rparr>"

lemma requirePassingVerification_frame [simp]:
  "requirePassingVerification (p\<lparr>tj_Transaction := t, tj_ApprovalDigests := d\<rparr>) = requirePassingVerification p"
  by (simp add: requirePassingVerification_def requireNoFailedVerification_def)

lemma applyApprovalResolution_Inr:
  assumes "applyApprovalResolution H p e = Inr q"
  obtains (approve_more) package decision i where "resolvable H p e package decision"
      "ad_Decision decision = ApprovalApprove"
      "stringIndex (tx_OutstandingApprovalIDs (tj_Transaction p)) (ad_ApprovalID decision) = Some i"
      "tx_OutstandingApprovalIDs (tj_Transaction (approvedTx p i decision)) \<noteq> []"
      "q = (approvedTx p i decision)\<lparr>tj_Transaction := (tj_Transaction (approvedTx p i decision))\<lparr>tx_CompletedAt := None\<rparr>\<rparr>"
  | (complete) package decision i where "resolvable H p e package decision"
      "ad_Decision decision = ApprovalApprove"
      "stringIndex (tx_OutstandingApprovalIDs (tj_Transaction p)) (ad_ApprovalID decision) = Some i"
      "tx_OutstandingApprovalIDs (tj_Transaction (approvedTx p i decision)) = []"
      "requirePassingVerification p = None"
      "q = (approvedTx p i decision)\<lparr>tj_Transaction := (tj_Transaction (approvedTx p i decision))\<lparr>
         tx_State := TransactionReadyToCommit, tx_CompletedAt := None\<rparr>\<rparr>"
  | (refuse) package decision s where "resolvable H p e package decision"
      "(ad_Decision decision, s) \<in> {(ApprovalReject, TransactionBlocked), (ApprovalRevise, TransactionReviseRequired)}"
      "q = p\<lparr>tj_Transaction := (tj_Transaction p)\<lparr>tx_State := s, tx_StateReason := ad_Reason decision,
         tx_OutstandingApprovalIDs := [],
         tx_CompletedAt := (if s = TransactionBlocked then Some (te_OccurredAt e) else None)\<rparr>\<rparr>"
proof -
  from assms obtain package decision where
    st: "tx_State (tj_Transaction p) = TransactionPendingApproval" "tj_ApprovalPackage p = Some package"
    and pl: "te_Payload e = ApprovalResolvedPayload decision"
    by (auto simp: applyApprovalResolution_def Let_def split: option.splits if_splits)
  with assms obtain i where ix: "stringIndex (tx_OutstandingApprovalIDs (tj_Transaction p)) (ad_ApprovalID decision) = Some i"
    by (auto simp: applyApprovalResolution_def Let_def split: option.splits)
  from assms st pl ix find_index_Some [OF ix [unfolded stringIndex_def]]
  have r: "resolvable H p e package decision"
    by (auto simp: applyApprovalResolution_def resolvable_def Let_def stringContains_def not_less
        split: option.splits dest: nth_mem)
  note facts = assms st pl ix r [unfolded resolvable_def]
  show thesis
  proof (cases "ad_Decision decision")
    case approve: ApprovalApprove
    show thesis
    proof (cases "removeString (tx_OutstandingApprovalIDs (tj_Transaction p)) i = []")
      case True
      with facts approve show thesis
        by (intro complete [OF r _ ix])
          (auto simp: applyApprovalResolution_def Let_def applyCompletionTime_def stringContains_def approvedTx_def)
    next
      case False
      with facts approve show thesis
        by (intro approve_more [OF r _ ix])
          (auto simp: applyApprovalResolution_def Let_def applyCompletionTime_def stringContains_def approvedTx_def)
    qed
  next
    case ApprovalReject
    with facts show thesis
      by (intro refuse [OF r, of TransactionBlocked])
        (auto simp: applyApprovalResolution_def Let_def applyCompletionTime_def stringContains_def)
  next
    case ApprovalRevise
    with facts show thesis
      by (intro refuse [OF r, of TransactionReviseRequired])
        (auto simp: applyApprovalResolution_def Let_def applyCompletionTime_def stringContains_def)
  next
    case (OtherApprovalDecision x)
    with facts show thesis
      by (auto simp: applyApprovalResolution_def Let_def)
  qed
qed

lemma applyAuthorityRenewed_Inr:
  assumes "applyAuthorityRenewed p e = Inr q"
  obtains reason kept where "te_Payload e = AuthorityRenewedPayload reason" "reason \<noteq> ''''"
    "tx_State (tj_Transaction p) \<in> {TransactionPendingApproval, TransactionReadyToCommit}"
    "tj_CommitPlan p \<noteq> None" "tj_ApprovalPackage p \<noteq> None"
    "kept = filter (\<lambda>(r, i). \<not> verification_expired (te_OccurredAt e) r)
       (zip (tj_Verifications p) (tx_VerificationResultIDs (tj_Transaction p)))"
    "q = p\<lparr>tj_SupersededAuthorities := tj_SupersededAuthorities p @ [authoritySnapshot p reason (te_OccurredAt e)],
        tj_SupersededVerifications := tj_SupersededVerifications p @
          filter (verification_expired (te_OccurredAt e)) (tj_Verifications p),
        tj_Verifications := map fst kept,
        tj_Transaction := (tj_Transaction p)\<lparr>tx_VerificationResultIDs := map snd kept,
          tx_State := TransactionValidating, tx_StateReason := '''', tx_OutstandingApprovalIDs := [],
          tx_ApprovalPackageDigest := '''', tx_CommitPlanDigest := '''', tx_CompletedAt := None\<rparr>,
        tj_CommitPlan := None, tj_ApprovalPackage := None, tj_ApprovalDigests := []\<rparr>"
  using assms by (auto simp: applyAuthorityRenewed_def applyCompletionTime_def Let_def)

lemma applyEventTx_cases [consumes 1, case_names move start retry effect binding effect_status staged
    verified superseded planned packaged renewed approve_more complete refuse started finished]:
  assumes "applyEventTx H p e = Inr q"
  and move: "\<And>payload. te_Payload e = TransactionStateChanged payload \<Longrightarrow> allowed_change p payload \<Longrightarrow>
      tc_To payload \<noteq> TransactionRunning \<Longrightarrow> q = movedTx p payload (te_OccurredAt e) \<Longrightarrow> P"
  and start: "\<And>payload. te_Payload e = TransactionStateChanged payload \<Longrightarrow> allowed_change p payload \<Longrightarrow>
      tc_To payload = TransactionRunning \<Longrightarrow> tx_State (tj_Transaction p) = TransactionCreated \<Longrightarrow>
      q = movedTx (invalidateFrozenState p) payload (te_OccurredAt e) \<Longrightarrow> P"
  and retry: "\<And>payload. te_Payload e = TransactionStateChanged payload \<Longrightarrow> allowed_change p payload \<Longrightarrow>
      tc_To payload = TransactionRunning \<Longrightarrow> tx_State (tj_Transaction p) \<in>
        {TransactionStaged, TransactionValidationFailed, TransactionReviseRequired} \<Longrightarrow>
      activeExecutionIndex (tj_Executions p) = None \<Longrightarrow>
      q = movedTx (retriedTx p (te_OccurredAt e)) payload (te_OccurredAt e) \<Longrightarrow> P"
  and effect: "\<And>f. te_Payload e = EffectAddedPayload f \<Longrightarrow> tx_State (tj_Transaction p) = TransactionRunning \<Longrightarrow>
      Effect_Validate f = None \<Longrightarrow> ef_TransactionID f = tx_ID (tj_Transaction p) \<Longrightarrow>
      ef_Attempt f = tx_Attempt (tj_Transaction p) \<Longrightarrow> ef_Sequence f = int (length (tj_Effects p) + 1) \<Longrightarrow>
      ef_ID f \<notin> ef_ID ` set (tj_Effects p) \<Longrightarrow> set (ef_Dependencies f) \<subseteq> ef_ID ` set (tj_Effects p) \<Longrightarrow>
      q = p\<lparr>tj_Effects := tj_Effects p @ [f], tj_Transaction := (tj_Transaction p)\<lparr>
        tx_EffectIDs := tx_EffectIDs (tj_Transaction p) @ [ef_ID f]\<rparr>\<rparr> \<Longrightarrow> P"
  and binding: "\<And>b. te_Payload e = StageBindingCreatedPayload b \<Longrightarrow> tx_State (tj_Transaction p) = TransactionRunning \<Longrightarrow>
      q = p\<lparr>tj_Transaction := (tj_Transaction p)\<lparr>tx_StageBindings := tx_StageBindings (tj_Transaction p) @ [b]\<rparr>\<rparr> \<Longrightarrow> P"
  and effect_status: "applyEffectStateChange p e = Inr q \<Longrightarrow> P"
  and staged: "\<And>payload. te_Payload e = TransactionStagedP payload \<Longrightarrow> tx_State (tj_Transaction p) = TransactionRunning \<Longrightarrow> tj_Effects p \<noteq> [] \<Longrightarrow>
      activeExecutionIndex (tj_Executions p) = None \<Longrightarrow>
      ComputeEffectSetDigest H (tj_Effects p) = Some (sg_EffectSetDigest payload) \<Longrightarrow>
      IsSHA256Digest (sg_StagedStateDigest payload) \<Longrightarrow>
      q = p\<lparr>tj_Transaction := (tj_Transaction p)\<lparr>tx_State := TransactionStaged,
        tx_StagedStateDigest := sg_StagedStateDigest payload,
        tx_EffectSetDigest := sg_EffectSetDigest payload, tx_StateReason := ''''\<rparr>\<rparr> \<Longrightarrow> P"
  and verified: "\<And>r. te_Payload e = VerificationRecordedPayload r \<Longrightarrow> tx_State (tj_Transaction p) = TransactionValidating \<Longrightarrow> VerificationResult_Validate r = None \<Longrightarrow>
      vr_TransactionID r = tx_ID (tj_Transaction p) \<Longrightarrow> vr_Attempt r = tx_Attempt (tj_Transaction p) \<Longrightarrow>
      vr_EffectSetDigest r = tx_EffectSetDigest (tj_Transaction p) \<Longrightarrow>
      vr_StagedStateDigest r = tx_StagedStateDigest (tj_Transaction p) \<Longrightarrow>
      vr_ID r \<notin> vr_ID ` (set (tj_Verifications p) \<union> set (tj_SupersededVerifications p)) \<Longrightarrow>
      vr_Name r \<notin> vr_Name ` set (tj_Verifications p) \<Longrightarrow>
      q = p\<lparr>tj_Verifications := tj_Verifications p @ [r], tj_Transaction := (tj_Transaction p)\<lparr>
        tx_VerificationResultIDs := tx_VerificationResultIDs (tj_Transaction p) @ [vr_ID r]\<rparr>\<rparr> \<Longrightarrow> P"
  and superseded: "\<And>i. tx_State (tj_Transaction p) = TransactionValidating \<Longrightarrow> i < length (tj_Verifications p) \<Longrightarrow>
      vr_Status (tj_Verifications p ! i) \<noteq> VerificationPassed \<or>
        verification_expired (te_OccurredAt e) (tj_Verifications p ! i) \<Longrightarrow>
      q = p\<lparr>tj_SupersededVerifications := tj_SupersededVerifications p @ [tj_Verifications p ! i],
        tj_Verifications := remove_at i (tj_Verifications p), tj_Transaction := (tj_Transaction p)\<lparr>
          tx_VerificationResultIDs := remove_at i (tx_VerificationResultIDs (tj_Transaction p))\<rparr>\<rparr> \<Longrightarrow> P"
  and planned: "\<And>plan. te_Payload e = CommitPlanFrozenPayload plan \<Longrightarrow> tx_State (tj_Transaction p) = TransactionValidating \<Longrightarrow> CommitPlan_Validate plan = None \<Longrightarrow>
      ComputeCommitPlanDigest H plan = Some (cp_Digest plan) \<Longrightarrow>
      cp_TransactionID plan = tx_ID (tj_Transaction p) \<Longrightarrow> cp_Attempt plan = tx_Attempt (tj_Transaction p) \<Longrightarrow>
      cp_IntentDigest plan = tx_IntentDigest (tj_Transaction p) \<Longrightarrow>
      cp_EffectSetDigest plan = tx_EffectSetDigest (tj_Transaction p) \<Longrightarrow>
      cp_StagedStateDigest plan = tx_StagedStateDigest (tj_Transaction p) \<Longrightarrow>
      map st_EffectID (cp_Steps plan) = releaseEffectIDs (tj_Effects p) \<Longrightarrow>
      q = p\<lparr>tj_CommitPlan := Some plan, tj_Transaction := (tj_Transaction p)\<lparr>
        tx_CommitPlanDigest := cp_Digest plan\<rparr>\<rparr> \<Longrightarrow> P"
  and packaged: "\<And>a. te_Payload e = ApprovalPackageFrozenPayload a \<Longrightarrow> tx_State (tj_Transaction p) = TransactionValidating \<Longrightarrow> tj_CommitPlan p \<noteq> None \<Longrightarrow>
      ApprovalPackage_Validate a = None \<Longrightarrow> ComputeApprovalPackageDigest H a = Some (ap_Digest a) \<Longrightarrow>
      ap_TransactionID a = tx_ID (tj_Transaction p) \<Longrightarrow> ap_Attempt a = tx_Attempt (tj_Transaction p) \<Longrightarrow>
      ap_IntentDigest a = tx_IntentDigest (tj_Transaction p) \<Longrightarrow>
      ap_EffectSetDigest a = tx_EffectSetDigest (tj_Transaction p) \<Longrightarrow>
      ap_StagedStateDigest a = tx_StagedStateDigest (tj_Transaction p) \<Longrightarrow>
      ap_CommitPlanDigest a = tx_CommitPlanDigest (tj_Transaction p) \<Longrightarrow>
      ap_VerificationResultIDs a = tx_VerificationResultIDs (tj_Transaction p) \<Longrightarrow>
      q = p\<lparr>tj_ApprovalPackage := Some a, tj_Transaction := (tj_Transaction p)\<lparr>
        tx_ApprovalPackageDigest := ap_Digest a\<rparr>\<rparr> \<Longrightarrow> P"
  and renewed: "\<And>reason kept. te_Payload e = AuthorityRenewedPayload reason \<Longrightarrow> reason \<noteq> '''' \<Longrightarrow>
      tx_State (tj_Transaction p) \<in> {TransactionPendingApproval, TransactionReadyToCommit} \<Longrightarrow>
      tj_CommitPlan p \<noteq> None \<Longrightarrow> tj_ApprovalPackage p \<noteq> None \<Longrightarrow>
      kept = filter (\<lambda>(r, i). \<not> verification_expired (te_OccurredAt e) r)
        (zip (tj_Verifications p) (tx_VerificationResultIDs (tj_Transaction p))) \<Longrightarrow>
      q = p\<lparr>tj_SupersededAuthorities := tj_SupersededAuthorities p @ [authoritySnapshot p reason (te_OccurredAt e)],
        tj_SupersededVerifications := tj_SupersededVerifications p @
          filter (verification_expired (te_OccurredAt e)) (tj_Verifications p),
        tj_Verifications := map fst kept,
        tj_Transaction := (tj_Transaction p)\<lparr>tx_VerificationResultIDs := map snd kept,
          tx_State := TransactionValidating, tx_StateReason := '''', tx_OutstandingApprovalIDs := [],
          tx_ApprovalPackageDigest := '''', tx_CommitPlanDigest := '''', tx_CompletedAt := None\<rparr>,
        tj_CommitPlan := None, tj_ApprovalPackage := None, tj_ApprovalDigests := []\<rparr> \<Longrightarrow> P"
  and approve_more: "\<And>package decision i. resolvable H p e package decision \<Longrightarrow>
      ad_Decision decision = ApprovalApprove \<Longrightarrow>
      stringIndex (tx_OutstandingApprovalIDs (tj_Transaction p)) (ad_ApprovalID decision) = Some i \<Longrightarrow>
      tx_OutstandingApprovalIDs (tj_Transaction (approvedTx p i decision)) \<noteq> [] \<Longrightarrow>
      q = (approvedTx p i decision)\<lparr>tj_Transaction := (tj_Transaction (approvedTx p i decision))\<lparr>tx_CompletedAt := None\<rparr>\<rparr> \<Longrightarrow> P"
  and complete: "\<And>package decision i. resolvable H p e package decision \<Longrightarrow>
      ad_Decision decision = ApprovalApprove \<Longrightarrow>
      stringIndex (tx_OutstandingApprovalIDs (tj_Transaction p)) (ad_ApprovalID decision) = Some i \<Longrightarrow>
      tx_OutstandingApprovalIDs (tj_Transaction (approvedTx p i decision)) = [] \<Longrightarrow>
      requirePassingVerification p = None \<Longrightarrow>
      q = (approvedTx p i decision)\<lparr>tj_Transaction := (tj_Transaction (approvedTx p i decision))\<lparr>
         tx_State := TransactionReadyToCommit, tx_CompletedAt := None\<rparr>\<rparr> \<Longrightarrow> P"
  and refuse: "\<And>package decision s. resolvable H p e package decision \<Longrightarrow>
      (ad_Decision decision, s) \<in> {(ApprovalReject, TransactionBlocked), (ApprovalRevise, TransactionReviseRequired)} \<Longrightarrow>
      q = p\<lparr>tj_Transaction := (tj_Transaction p)\<lparr>tx_State := s, tx_StateReason := ad_Reason decision,
         tx_OutstandingApprovalIDs := [],
         tx_CompletedAt := (if s = TransactionBlocked then Some (te_OccurredAt e) else None)\<rparr>\<rparr> \<Longrightarrow> P"
  and started: "\<And>x. te_Payload e = AgentExecutionStartedPayload x \<Longrightarrow> tx_State (tj_Transaction p) = TransactionRunning \<Longrightarrow>
      activeExecutionIndex (tj_Executions p) = None \<Longrightarrow> AgentExecution_Validate x = None \<Longrightarrow>
      ax_TransactionID x = tx_ID (tj_Transaction p) \<Longrightarrow> ax_Attempt x = tx_Attempt (tj_Transaction p) \<Longrightarrow>
      ax_Status x = AgentExecutionRunning \<Longrightarrow> ax_StartedAt x = te_OccurredAt e \<Longrightarrow>
      ax_RunID x \<in> set (tx_AgentRunIDs (tj_Transaction p)) \<Longrightarrow>
      (case tx_Task (tj_Transaction p) of
         None \<Rightarrow> ax_TaskDigest x = ''''
       | Some task \<Rightarrow> ax_TaskDigest x = tk_Digest task \<and> ax_RunID x = tk_RunID task \<and>
           ax_RuntimeClass x = tp_RuntimeClass (tk_AgentProfile task) \<and>
           ax_ImageDigest x = tp_ImageDigest (tk_AgentProfile task) \<and>
           ax_CommandDigest x = tp_CommandDigest (tk_AgentProfile task)) \<Longrightarrow>
      \<exists>b\<in>set (tx_StageBindings (tj_Transaction p)). sb_ID b = ax_StageBindingID x \<Longrightarrow>
      ax_ID x \<notin> ax_ID ` set (tj_Executions p) \<Longrightarrow>
      q = p\<lparr>tj_Executions := tj_Executions p @ [x]\<rparr> \<Longrightarrow> P"
  and finished: "\<And>i payload broker x. te_Payload e = AgentExecutionFinished payload \<Longrightarrow>
      tx_State (tj_Transaction p) = TransactionRunning \<Longrightarrow>
      i < length (tj_Executions p) \<Longrightarrow> ax_ID (tj_Executions p ! i) = af_ExecutionID payload \<Longrightarrow>
      ax_Status (tj_Executions p ! i) = AgentExecutionRunning \<Longrightarrow>
      AgentExecutionStatus_Terminal (af_Status payload) \<Longrightarrow>
      x = (tj_Executions p ! i)\<lparr>ax_Status := af_Status payload, ax_ExitCode := af_ExitCode payload,
        ax_StdoutDigest := af_StdoutDigest payload, ax_StderrDigest := af_StderrDigest payload,
        ax_ModelBroker := broker, ax_CompletedAt := Some (te_OccurredAt e)\<rparr> \<Longrightarrow>
      AgentExecution_Validate x = None \<Longrightarrow> q = p\<lparr>tj_Executions := (tj_Executions p)[i := x]\<rparr> \<Longrightarrow> P"
  shows P
proof (cases "te_Type e")
  case EventTransactionStateChanged
  with assms(1) have "applyStateChange p e = Inr q" by (simp add: applyEventTx_def)
  then show P by (cases rule: applyStateChange_cases) (rule move start retry; assumption)+
next
  case EventEffectAdded
  with assms(1) show P
    by (auto simp: applyEventTx_def applyEffectAdded_def Let_def intro!: effect)
next
  case EventStageBindingCreated
  with assms(1) show P
    by (auto simp: applyEventTx_def applyStageBindingCreated_def Let_def intro!: binding)
next
  case EventEffectStateChanged
  with assms(1) effect_status show P by (simp add: applyEventTx_def)
next
  case EventTransactionStaged
  with assms(1) show P
    by (auto simp: applyEventTx_def applyStaged_def Let_def isDigest_iff intro!: staged split: option.splits)
next
  case EventVerificationRecorded
  with assms(1) show P
    by (auto simp: applyEventTx_def applyVerification_def Let_def list_ex_iff intro!: verified)
next
  case EventVerificationSuperseded
  with assms(1) obtain payload i where
    "verificationIndex (tj_Verifications p) (vs_VerificationID payload) = Some i"
    "te_Payload e = VerificationSuperseded payload"
    by (auto simp: applyEventTx_def applyVerificationSuperseded_def Let_def split: option.splits)
  moreover from this(1) have "i < length (tj_Verifications p)"
    using find_index_Some unfolding verificationIndex_def by blast
  ultimately show P
    using assms(1) EventVerificationSuperseded
    by (intro superseded [of i])
      (auto simp: applyEventTx_def applyVerificationSuperseded_def Let_def verification_expired_def
        removeVerification_def removeString_def split: option.splits)
next
  case EventCommitPlanFrozen
  with assms(1) show P
    by (auto simp: applyEventTx_def applyCommitPlan_def Let_def intro!: planned split: option.splits)
next
  case EventApprovalPackageFrozen
  with assms(1) show P
    by (auto simp: applyEventTx_def applyApprovalPackage_def Let_def intro!: packaged split: option.splits)
next
  case EventAuthorityRenewed
  with assms(1) have "applyAuthorityRenewed p e = Inr q" by (simp add: applyEventTx_def)
  then show P by (cases rule: applyAuthorityRenewed_Inr) (rule renewed; assumption)
next
  case EventApprovalResolved
  with assms(1) have "applyApprovalResolution H p e = Inr q" by (simp add: applyEventTx_def)
  then show P by (cases rule: applyApprovalResolution_Inr) (rule approve_more complete refuse; assumption)+
next
  case EventAgentExecutionStarted
  with assms(1) show P
    by (auto simp: applyEventTx_def applyAgentExecutionStarted_def Let_def stringContains_def list_ex_iff
        stageBindingIndex_def image_iff intro!: started split: option.splits)
next
  case EventAgentExecutionFinished
  with assms(1) have "applyAgentExecutionFinished p e = Inr q" by (simp add: applyEventTx_def)
  then show P by (cases rule: applyAgentExecutionFinished_Inr) (rule finished; assumption)
qed (use assms(1) in \<open>simp_all add: applyEventTx_def\<close>)

end
