(* ===== verification/Transaction_Invariant.thy ===== *)
theory Transaction_Invariant
  imports Transaction_Reducer "HOL-Library.Multiset"
begin

text \<open>
  The invariants of the transaction ledger. Each part of a projection has its own invariant (the
  executions, the effects, the verification results, the frozen plan and package, the superseded
  attempts), every accepted event keeps all of them, and so does replay. The ledger facts come from
  interpreting \<open>event_ledger\<close> on the transaction reducer.

  The reducer lets \<^verbatim>\<open>transaction.created\<close> carry effect, verification or approval identifiers and
  frozen digests that belong to nothing; they are dropped when the transaction starts running.
  The histories considered here start from a transaction that carries none (\<open>clean_start\<close>).
\<close>

section \<open>One accepted event\<close>

definition valid_tx :: "Hashing \<Rightarrow> AgentTransaction \<Rightarrow> bool" where
  "valid_tx H tx \<longleftrightarrow> AgentTransaction_Validate H tx = None"

lemma checkEventTx_None:
  "checkEventTx H e = None \<longleftrightarrow>
     TransactionEvent_Validate e = None \<and> VerifyTransactionEventDigest H e = Some True"
  by (auto simp: checkEventTx_def split: option.splits)

lemma ApplyTx_None_Inr:
  "ApplyTx H None e = Inr p \<Longrightarrow>
     TransactionEvent_Validate e = None \<and> VerifyTransactionEventDigest H e = Some True \<and>
     te_Sequence e = 1 \<and> te_Type e = EventTransactionCreated \<and>
     te_Payload e = TransactionCreatedPayload (tj_Transaction p) \<and> valid_tx H (tj_Transaction p) \<and>
     tx_ID (tj_Transaction p) = te_TransactionID e \<and> tx_State (tj_Transaction p) = TransactionCreated \<and>
     tx_Attempt (tj_Transaction p) \<in> {0, 1} \<and> tx_EventSequence (tj_Transaction p) = 1 \<and>
     tx_CreatedAt (tj_Transaction p) = te_OccurredAt e \<and> tx_UpdatedAt (tj_Transaction p) = te_OccurredAt e \<and>
     p = \<lparr>tj_Transaction = tj_Transaction p, tj_Executions = [], tj_Effects = [], tj_Verifications = [],
          tj_SupersededVerifications = [], tj_CommitPlan = None, tj_ApprovalPackage = None,
          tj_ApprovalDigests = [], tj_SupersededAuthorities = [], tj_SupersededAttempts = [],
          tj_LastEventDigest = te_Digest e\<rparr>"
  by (auto simp: ApplyTx.simps applyCreationTx_def checkEventTx_None valid_tx_def)

lemma checkEnvelopeTx_None:
  "checkEnvelopeTx p e = None \<longleftrightarrow>
     te_TransactionID e = tx_ID (tj_Transaction p) \<and>
     te_Sequence e = wrap64 (tx_EventSequence (tj_Transaction p) + 1) \<and>
     te_PreviousDigest e = tj_LastEventDigest p \<and> tx_UpdatedAt (tj_Transaction p) \<le> te_OccurredAt e \<and>
     te_Type e \<noteq> EventTransactionCreated"
  by (auto simp: checkEnvelopeTx_def not_less)

lemma ApplyTx_Some_Inr:
  assumes "ApplyTx H (Some p) e = Inr q"
  obtains r where "TransactionEvent_Validate e = None" and "VerifyTransactionEventDigest H e = Some True"
    and "checkEnvelopeTx p e = None" and "applyEventTx H p e = Inr r" and "q = advanceTx r e"
    and "valid_tx H (tj_Transaction q)"
  using assms by (auto simp: ApplyTx.simps checkEventTx_None valid_tx_def Let_def)

lemma TransactionEvent_Validate_chain:
  "TransactionEvent_Validate e = None \<Longrightarrow>
     1 \<le> te_Sequence e \<and> IsSHA256Digest (te_Digest e) \<and> te_OccurredAt e \<noteq> 0 \<and>
     (te_PreviousDigest e = '''' \<longleftrightarrow> te_Sequence e = 1) \<and> IsIdentifier (te_TransactionID e) \<and>
     valid_principal (te_Actor e)"
  by (auto simp: TransactionEvent_Validate_def Let_def validate_simps split: if_splits)

lemma advanceTx_sel [simp]:
  "tj_Executions (advanceTx p e) = tj_Executions p" "tj_Effects (advanceTx p e) = tj_Effects p"
  "tj_Verifications (advanceTx p e) = tj_Verifications p"
  "tj_SupersededVerifications (advanceTx p e) = tj_SupersededVerifications p"
  "tj_CommitPlan (advanceTx p e) = tj_CommitPlan p" "tj_ApprovalPackage (advanceTx p e) = tj_ApprovalPackage p"
  "tj_ApprovalDigests (advanceTx p e) = tj_ApprovalDigests p"
  "tj_SupersededAuthorities (advanceTx p e) = tj_SupersededAuthorities p"
  "tj_SupersededAttempts (advanceTx p e) = tj_SupersededAttempts p"
  "tj_LastEventDigest (advanceTx p e) = te_Digest e"
  "tj_Transaction (advanceTx p e) = (tj_Transaction p)\<lparr>
     tx_EventSequence := te_Sequence e, tx_UpdatedAt := te_OccurredAt e\<rparr>"
  by (simp_all add: advanceTx_def)

lemmas tx_result_defs = movedTx_def retriedTx_def invalidateFrozenState_def approvedTx_def

section \<open>What no event changes\<close>

text \<open>Identity, intent, task, admission, sponsor, runs and creation time of a transaction.\<close>

definition pinned_tx :: "AgentTransaction \<Rightarrow> AgentTransaction" where
  "pinned_tx tx = tx\<lparr>tx_Attempt := 0, tx_StageBindings := [], tx_State := TransactionCreated,
     tx_StateReason := '''', tx_EffectIDs := [], tx_VerificationResultIDs := [],
     tx_OutstandingApprovalIDs := [], tx_StagedStateDigest := '''', tx_EffectSetDigest := '''',
     tx_ApprovalPackageDigest := '''', tx_CommitPlanDigest := '''', tx_EventSequence := 0,
     tx_UpdatedAt := 0, tx_CompletedAt := None\<rparr>"

lemma pinned_tx_sel:
  "tx_ID (pinned_tx t) = tx_ID t" "tx_Namespace (pinned_tx t) = tx_Namespace t"
  "tx_IntentDigest (pinned_tx t) = tx_IntentDigest t" "tx_Task (pinned_tx t) = tx_Task t"
  "tx_Admission (pinned_tx t) = tx_Admission t" "tx_Sponsor (pinned_tx t) = tx_Sponsor t"
  "tx_AgentRunIDs (pinned_tx t) = tx_AgentRunIDs t" "tx_CreatedAt (pinned_tx t) = tx_CreatedAt t"
  "tx_Version (pinned_tx t) = tx_Version t"
  by (simp_all add: pinned_tx_def)

lemma pinned_tx_eqD:
  "pinned_tx a = pinned_tx b \<Longrightarrow> tx_ID a = tx_ID b \<and> tx_Namespace a = tx_Namespace b \<and>
     tx_IntentDigest a = tx_IntentDigest b \<and> tx_Task a = tx_Task b \<and> tx_Admission a = tx_Admission b \<and>
     tx_Sponsor a = tx_Sponsor b \<and> tx_AgentRunIDs a = tx_AgentRunIDs b \<and> tx_CreatedAt a = tx_CreatedAt b"
  by (metis pinned_tx_sel)

lemma applyEventTx_pinned:
  "applyEventTx H p e = Inr q \<Longrightarrow> pinned_tx (tj_Transaction q) = pinned_tx (tj_Transaction p)"
  by (cases rule: applyEventTx_cases, assumption)
    (auto simp: pinned_tx_def tx_result_defs elim!: applyEffectStateChange_Inr)

lemma ApplyTx_pinned:
  "ApplyTx H (Some p) e = Inr q \<Longrightarrow> pinned_tx (tj_Transaction q) = pinned_tx (tj_Transaction p)"
  by (elim ApplyTx_Some_Inr) (auto simp: pinned_tx_def dest!: applyEventTx_pinned)

section \<open>The transaction ledger\<close>

interpretation tx_ledger: event_ledger "ApplyTx H" "replayFromTx H"
  "\<lambda>p. tx_EventSequence (tj_Transaction p)" tj_LastEventDigest "\<lambda>p. tx_ID (tj_Transaction p)"
  "\<lambda>p. tx_UpdatedAt (tj_Transaction p)" te_Sequence te_PreviousDigest te_Digest te_TransactionID te_OccurredAt
  for H
proof (unfold_locales, goal_cases)
  case (4 e p)
  then show ?case
    using ApplyTx_None_Inr [OF 4] TransactionEvent_Validate_chain [of e]
    by (metis ProjectionTx.select_convs(11))
next
  case (5 p e q)
  have "tx_ID (tj_Transaction q) = tx_ID (tj_Transaction p)"
    using ApplyTx_pinned [OF 5] pinned_tx_eqD by blast
  then show ?case
    using 5 TransactionEvent_Validate_chain [of e]
    by (elim ApplyTx_Some_Inr) (simp add: checkEnvelopeTx_None)
qed simp_all

section \<open>Effects\<close>

definition clean_start :: "AgentTransaction \<Rightarrow> bool" where
  "clean_start tx \<longleftrightarrow> tx_EffectIDs tx = [] \<and> tx_VerificationResultIDs tx = [] \<and>
     tx_OutstandingApprovalIDs tx = [] \<and> tx_StagedStateDigest tx = '''' \<and> tx_EffectSetDigest tx = '''' \<and>
     tx_ApprovalPackageDigest tx = '''' \<and> tx_CommitPlanDigest tx = ''''"

text \<open>A change of an effect's status keeps everything the effect-set digest covers.\<close>

lemma immutable_maps:
  assumes "map immutable_effect xs = map immutable_effect ys"
  shows "map ef_ID xs = map ef_ID ys" "map ef_TransactionID xs = map ef_TransactionID ys"
    "map ef_Attempt xs = map ef_Attempt ys" "map ef_Dependencies xs = map ef_Dependencies ys"
    "map ef_RecoveryClass xs = map ef_RecoveryClass ys" "length xs = length ys"
proof -
  have "ef_ID = ie_ID \<circ> immutable_effect" "ef_TransactionID = ie_TransactionID \<circ> immutable_effect"
    "ef_Attempt = ie_Attempt \<circ> immutable_effect" "ef_Dependencies = ie_Dependencies \<circ> immutable_effect"
    "ef_RecoveryClass = ie_RecoveryClass \<circ> immutable_effect"
    by (simp_all add: immutable_effect_def fun_eq_iff)
  then show "map ef_ID xs = map ef_ID ys" "map ef_TransactionID xs = map ef_TransactionID ys"
    "map ef_Attempt xs = map ef_Attempt ys" "map ef_Dependencies xs = map ef_Dependencies ys"
    "map ef_RecoveryClass xs = map ef_RecoveryClass ys" "length xs = length ys"
    using assms by (metis map_map length_map)+
qed

lemma applyEffectStateChange_frame:
  assumes "applyEffectStateChange p e = Inr q"
  obtains es where "q = p\<lparr>tj_Effects := es\<rparr>"
    and "map immutable_effect es = map immutable_effect (tj_Effects p)"
    and "\<And>f. f \<in> set es \<Longrightarrow> f \<in> set (tj_Effects p) \<or> Effect_Validate f = None"
proof (rule applyEffectStateChange_Inr [OF assms])
  fix i payload f
  assume i: "i < length (tj_Effects p)" and v: "Effect_Validate f = None"
    and q: "q = p\<lparr>tj_Effects := (tj_Effects p)[i := f]\<rparr>"
    and f: "f = (tj_Effects p ! i)\<lparr>ef_Status := fc_To payload,
       ef_Receipt := (if fc_Receipt payload \<noteq> None then fc_Receipt payload else ef_Receipt (tj_Effects p ! i)),
       ef_CompensationReceipt := (if fc_CompensationReceipt payload \<noteq> None
         then fc_CompensationReceipt payload else ef_CompensationReceipt (tj_Effects p ! i)),
       ef_UpdatedAt := te_OccurredAt e\<rparr>"
  have "immutable_effect f = immutable_effect (tj_Effects p ! i)"
    by (simp add: f)
  with i v q show thesis
    by (intro that [of "(tj_Effects p)[i := f]"])
      (auto simp: map_list_update_same dest: set_update_subset_insert [THEN subsetD])
qed

lemma releaseEffectIDs_immutable:
  "releaseEffectIDs es =
     map ie_ID (filter (\<lambda>g. ie_RecoveryClass g \<noteq> RecoveryReadOnly) (map immutable_effect es))"
  by (induction es) (simp_all add: releaseEffectIDs_def immutable_effect_def)

definition effects_inv :: "ProjectionTx \<Rightarrow> bool" where
  "effects_inv p \<longleftrightarrow> tx_EffectIDs (tj_Transaction p) = map ef_ID (tj_Effects p) \<and>
     sequenced 1 (tj_Effects p) \<and> distinct (map ef_ID (tj_Effects p)) \<and>
     (\<forall>f\<in>set (tj_Effects p). Effect_Validate f = None) \<and>
     set (map ef_TransactionID (tj_Effects p)) \<subseteq> {tx_ID (tj_Transaction p)} \<and>
     set (map ef_Attempt (tj_Effects p)) \<subseteq> {tx_Attempt (tj_Transaction p)}"

text \<open>Every dependency of an effect is an earlier effect.\<close>

definition deps_inv :: "ProjectionTx \<Rightarrow> bool" where
  "deps_inv p \<longleftrightarrow> (\<forall>i < length (tj_Effects p).
     set (ef_Dependencies (tj_Effects p ! i)) \<subseteq> set (take i (map ef_ID (tj_Effects p))))"

lemma effects_inv_step:
  assumes inv: "effects_inv p" and step: "applyEventTx H p e = Inr q"
  shows "effects_inv q"
  using step
proof (cases rule: applyEventTx_cases)
  case (effect f)
  with inv show ?thesis
    by (auto simp: effects_inv_def sequenced_append)
next
  case effect_status
  then show ?thesis
  proof (rule applyEffectStateChange_frame)
    fix es
    assume "q = p\<lparr>tj_Effects := es\<rparr>" and es: "map immutable_effect es = map immutable_effect (tj_Effects p)"
      and "\<And>f. f \<in> set es \<Longrightarrow> f \<in> set (tj_Effects p) \<or> Effect_Validate f = None"
    with inv immutable_maps [OF es] immutable_effect_sequenced [OF es]
    show ?thesis by (auto simp: effects_inv_def)
  qed
qed (use inv in \<open>auto simp: effects_inv_def tx_result_defs\<close>)

lemma deps_inv_step:
  assumes inv: "deps_inv p" and step: "applyEventTx H p e = Inr q"
  shows "deps_inv q"
  using step
proof (cases rule: applyEventTx_cases)
  case (effect f)
  with inv show ?thesis
    by (auto simp: deps_inv_def nth_append less_Suc_eq)
next
  case effect_status
  then show ?thesis
  proof (rule applyEffectStateChange_frame)
    fix es
    assume q: "q = p\<lparr>tj_Effects := es\<rparr>" and es: "map immutable_effect es = map immutable_effect (tj_Effects p)"
    have "ef_Dependencies (es ! i) = ef_Dependencies (tj_Effects p ! i)" if "i < length es" for i
      using immutable_maps(4,6) [OF es] that by (metis nth_map)
    with inv q immutable_maps(1,6) [OF es] show ?thesis by (simp add: deps_inv_def)
  qed
qed (use inv in \<open>auto simp: deps_inv_def tx_result_defs\<close>)

section \<open>Executions\<close>

definition executions_inv :: "ProjectionTx \<Rightarrow> bool" where
  "executions_inv p \<longleftrightarrow> distinct (map ax_ID (tj_Executions p)) \<and>
     (\<forall>x\<in>set (tj_Executions p). AgentExecution_Validate x = None \<and>
        ax_TransactionID x = tx_ID (tj_Transaction p) \<and> ax_Attempt x \<le> tx_Attempt (tj_Transaction p) \<and>
        ax_RunID x \<in> set (tx_AgentRunIDs (tj_Transaction p)) \<and>
        (\<exists>b\<in>set (tx_StageBindings (tj_Transaction p)). sb_ID b = ax_StageBindingID x)) \<and>
     (\<forall>x\<in>set (butlast (tj_Executions p)). ax_Status x \<noteq> AgentExecutionRunning)"

text \<open>An execution is active only in a running transaction, or one that was stopped under it.\<close>

definition active_inv :: "ProjectionTx \<Rightarrow> bool" where
  "active_inv p \<longleftrightarrow> (\<forall>x\<in>set (tj_Executions p). ax_Status x = AgentExecutionRunning \<longrightarrow>
     tx_State (tj_Transaction p) \<in> {TransactionRunning, TransactionBlocked, TransactionAborted})"

lemma butlast_update_subset: "set (butlast (xs[i := y])) \<subseteq> insert y (set (butlast xs))"
  by (metis butlast_list_update list_update_beyond nat_le_linear set_update_subset_insert
      subset_insertI)

lemma executions_inv_step:
  assumes inv: "executions_inv p" and step: "applyEventTx H p e = Inr q"
    and attempt: "tx_Attempt (tj_Transaction p) \<le> tx_Attempt (tj_Transaction q)"
  shows "executions_inv q"
  using step
proof (cases rule: applyEventTx_cases)
  case (started x)
  with inv show ?thesis by (auto simp: executions_inv_def)
next
  case (finished i payload broker x)
  from finished have ids: "map ax_ID ((tj_Executions p)[i := x]) = map ax_ID (tj_Executions p)"
    by (intro map_list_update_same) simp_all
  moreover have "ax_Status x \<noteq> AgentExecutionRunning"
    using finished by auto
  moreover from inv finished have "\<forall>y\<in>set ((tj_Executions p)[i := x]). AgentExecution_Validate y = None \<and>
      ax_TransactionID y = tx_ID (tj_Transaction p) \<and> ax_Attempt y \<le> tx_Attempt (tj_Transaction p) \<and>
      ax_RunID y \<in> set (tx_AgentRunIDs (tj_Transaction p)) \<and>
      (\<exists>b\<in>set (tx_StageBindings (tj_Transaction p)). sb_ID b = ax_StageBindingID y)"
    by (auto simp: executions_inv_def dest!: set_update_subset_insert [THEN subsetD])
  ultimately show ?thesis
    using inv finished(9) butlast_update_subset [of "tj_Executions p" i x]
    by (auto simp: executions_inv_def)
next
  case (effect_status)
  then show ?thesis
    by (rule applyEffectStateChange_frame) (use inv in \<open>auto simp: executions_inv_def\<close>)
next
  case (retry payload)
  with inv attempt show ?thesis
    by (fastforce simp: executions_inv_def tx_result_defs)
qed (use inv in \<open>auto simp: executions_inv_def tx_result_defs\<close>)

lemma active_inv_step:
  assumes inv: "active_inv p" and step: "applyEventTx H p e = Inr q"
  shows "active_inv q"
  using step
proof (cases rule: applyEventTx_cases)
  case (move payload)
  with inv show ?thesis
    by (cases "tx_State (tj_Transaction p)")
      (auto simp: active_inv_def movedTx_def allowed_change_def CanTransitionTx_def
        validateStatePreconditions_def split: option.splits)
next
  case (finished i payload broker x)
  with inv show ?thesis
    by (auto simp: active_inv_def dest!: set_update_subset_insert [THEN subsetD])
next
  case (effect_status)
  then show ?thesis
    by (rule applyEffectStateChange_frame) (use inv in \<open>auto simp: active_inv_def\<close>)
qed (use inv in \<open>auto simp: active_inv_def tx_result_defs resolvable_def\<close>)

section \<open>Verification results\<close>

definition bound_result :: "AgentTransaction \<Rightarrow> VerificationResult \<Rightarrow> bool" where
  "bound_result tx r \<longleftrightarrow> VerificationResult_Validate r = None \<and> vr_TransactionID r = tx_ID tx \<and>
     vr_Attempt r = tx_Attempt tx \<and> vr_EffectSetDigest r = tx_EffectSetDigest tx \<and>
     vr_StagedStateDigest r = tx_StagedStateDigest tx"

definition verifications_inv :: "ProjectionTx \<Rightarrow> bool" where
  "verifications_inv p \<longleftrightarrow>
     tx_VerificationResultIDs (tj_Transaction p) = map vr_ID (tj_Verifications p) \<and>
     distinct (map vr_ID (tj_Verifications p @ tj_SupersededVerifications p)) \<and>
     distinct (map vr_Name (tj_Verifications p)) \<and>
     (\<forall>r\<in>set (tj_Verifications p) \<union> set (tj_SupersededVerifications p). bound_result (tj_Transaction p) r)"

text \<open>Before the effects are frozen nothing is bound to them.\<close>

definition unfrozen :: "ProjectionTx \<Rightarrow> bool" where
  "unfrozen p \<longleftrightarrow> clean_start ((tj_Transaction p)\<lparr>tx_EffectIDs := []\<rparr>) \<and> tj_Verifications p = [] \<and>
     tj_SupersededVerifications p = [] \<and> tj_CommitPlan p = None \<and> tj_ApprovalPackage p = None \<and>
     tj_ApprovalDigests p = [] \<and> tj_SupersededAuthorities p = []"

definition unfrozen_inv :: "ProjectionTx \<Rightarrow> bool" where
  "unfrozen_inv p \<longleftrightarrow>
     (tx_State (tj_Transaction p) \<in> {TransactionCreated, TransactionRunning, TransactionCompletedNoEffect} \<longrightarrow>
      unfrozen p)"

lemma unfrozen_inv_step:
  assumes inv: "unfrozen_inv p" and step: "applyEventTx H p e = Inr q"
  shows "unfrozen_inv q"
  using step
proof (cases rule: applyEventTx_cases)
  case (move payload)
  with inv show ?thesis
    by (cases "tx_State (tj_Transaction p)"; cases "tc_To payload")
      (auto simp: unfrozen_inv_def unfrozen_def clean_start_def movedTx_def allowed_change_def CanTransitionTx_def)
next
  case (effect_status)
  then show ?thesis
    by (rule applyEffectStateChange_frame) (use inv in \<open>auto simp: unfrozen_inv_def unfrozen_def clean_start_def\<close>)
qed (use inv in \<open>auto simp: unfrozen_inv_def unfrozen_def clean_start_def tx_result_defs resolvable_def\<close>)

lemma zip_filter_map:
  "map fst (filter (\<lambda>(r, i). Q r) (zip rs (map f rs))) = filter Q rs"
  "map snd (filter (\<lambda>(r, i). Q r) (zip rs (map f rs))) = map f (filter Q rs)"
  by (induction rs) auto

lemma mset_remove_at: "i < length xs \<Longrightarrow> mset (remove_at i xs) + {#xs ! i#} = mset xs"
proof -
  assume "i < length xs"
  then have "mset (take i xs @ xs ! i # drop (Suc i) xs) = mset xs"
    using remove_at_split by metis
  then show ?thesis by (simp add: remove_at_def union_ac)
qed

lemma bound_result_cong:
  "tx_ID t = tx_ID u \<Longrightarrow> tx_Attempt t = tx_Attempt u \<Longrightarrow> tx_EffectSetDigest t = tx_EffectSetDigest u \<Longrightarrow>
     tx_StagedStateDigest t = tx_StagedStateDigest u \<Longrightarrow> bound_result t r = bound_result u r"
  by (simp add: bound_result_def)

text \<open>Moving results from the current to the superseded ones keeps the invariant.\<close>

lemma verifications_inv_moved:
  assumes inv: "verifications_inv p"
    and q: "mset (tj_Verifications q) + mset (tj_SupersededVerifications q) =
      mset (tj_Verifications p) + mset (tj_SupersededVerifications p)"
    and ids: "tx_VerificationResultIDs (tj_Transaction q) = map vr_ID (tj_Verifications q)"
    and names: "distinct (map vr_Name (tj_Verifications q))"
    and same: "\<And>r. bound_result (tj_Transaction q) r = bound_result (tj_Transaction p) r"
  shows "verifications_inv q"
proof -
  from q have ms: "mset (tj_Verifications q @ tj_SupersededVerifications q) =
      mset (tj_Verifications p @ tj_SupersededVerifications p)" by simp
  then have "mset (map vr_ID (tj_Verifications q @ tj_SupersededVerifications q)) =
      mset (map vr_ID (tj_Verifications p @ tj_SupersededVerifications p))"
    by (simp only: mset_map)
  then have "distinct (map vr_ID (tj_Verifications q @ tj_SupersededVerifications q)) \<longleftrightarrow>
      distinct (map vr_ID (tj_Verifications p @ tj_SupersededVerifications p))"
    by (rule mset_eq_imp_distinct_iff)
  moreover have "set (tj_Verifications q @ tj_SupersededVerifications q) =
      set (tj_Verifications p @ tj_SupersededVerifications p)"
    using ms by (rule mset_eq_setD)
  ultimately show ?thesis
    using inv ids names same by (auto simp: verifications_inv_def)
qed

lemma verifications_inv_step:
  assumes inv: "verifications_inv p" and fresh: "unfrozen_inv p" and step: "applyEventTx H p e = Inr q"
  shows "verifications_inv q"
  using step
proof (cases rule: applyEventTx_cases)
  case (staged payload)
  with fresh show ?thesis
    by (simp add: unfrozen_inv_def unfrozen_def clean_start_def verifications_inv_def)
next
  case (verified r)
  with inv show ?thesis
    by (auto simp: verifications_inv_def bound_result_def)
next
  case (superseded i)
  show ?thesis
  proof (rule verifications_inv_moved [OF inv])
    show "mset (tj_Verifications q) + mset (tj_SupersededVerifications q) =
        mset (tj_Verifications p) + mset (tj_SupersededVerifications p)"
      using superseded mset_remove_at [of i "tj_Verifications p"] by (simp add: union_ac)
  qed (use inv superseded in \<open>auto simp: verifications_inv_def map_remove_at bound_result_def
    intro!: distinct_remove_at\<close>)
next
  case (renewed reason kept)
  with inv have kept: "map fst kept = filter (\<lambda>r. \<not> verification_expired (te_OccurredAt e) r) (tj_Verifications p)"
      "map snd kept = map vr_ID (filter (\<lambda>r. \<not> verification_expired (te_OccurredAt e) r) (tj_Verifications p))"
    by (simp_all add: verifications_inv_def zip_filter_map)
  show ?thesis
  proof (rule verifications_inv_moved [OF inv])
    show "mset (tj_Verifications q) + mset (tj_SupersededVerifications q) =
        mset (tj_Verifications p) + mset (tj_SupersededVerifications p)"
      using renewed(7) multiset_partition [of "mset (tj_Verifications p)" "verification_expired (te_OccurredAt e)"]
      by (simp add: kept union_ac)
  qed (use inv renewed(7) kept in \<open>auto simp: verifications_inv_def bound_result_def distinct_map_filter\<close>)
next
  case effect_status
  then show ?thesis
    by (rule applyEffectStateChange_frame) (use inv in \<open>auto simp: verifications_inv_def bound_result_def\<close>)
qed (use inv in \<open>auto simp: verifications_inv_def bound_result_def tx_result_defs\<close>)

section \<open>The frozen effects, plan and approval package\<close>

definition frozen_inv :: "Hashing \<Rightarrow> ProjectionTx \<Rightarrow> bool" where
  "frozen_inv H p \<longleftrightarrow> (tx_EffectSetDigest (tj_Transaction p) \<noteq> '''' \<longrightarrow>
     ComputeEffectSetDigest H (tj_Effects p) = Some (tx_EffectSetDigest (tj_Transaction p)))"

lemma frozen_inv_step:
  assumes inv: "frozen_inv H p" and fresh: "unfrozen_inv p" and step: "applyEventTx H p e = Inr q"
  shows "frozen_inv H q"
  using step
proof (cases rule: applyEventTx_cases)
  case (effect f)
  with fresh show ?thesis
    by (simp add: frozen_inv_def unfrozen_inv_def unfrozen_def clean_start_def)
next
  case effect_status
  then show ?thesis
  proof (rule applyEffectStateChange_frame)
    fix es
    assume "q = p\<lparr>tj_Effects := es\<rparr>" and es: "map immutable_effect es = map immutable_effect (tj_Effects p)"
    with inv ComputeEffectSetDigest_cong [OF es] show ?thesis by (simp add: frozen_inv_def)
  qed
qed (use inv in \<open>auto simp: frozen_inv_def tx_result_defs\<close>)

definition bound_plan :: "Hashing \<Rightarrow> ProjectionTx \<Rightarrow> CommitPlan \<Rightarrow> bool" where
  "bound_plan H p plan \<longleftrightarrow> CommitPlan_Validate plan = None \<and>
     ComputeCommitPlanDigest H plan = Some (cp_Digest plan) \<and>
     cp_TransactionID plan = tx_ID (tj_Transaction p) \<and> cp_Attempt plan = tx_Attempt (tj_Transaction p) \<and>
     cp_IntentDigest plan = tx_IntentDigest (tj_Transaction p) \<and>
     cp_EffectSetDigest plan = tx_EffectSetDigest (tj_Transaction p) \<and>
     cp_StagedStateDigest plan = tx_StagedStateDigest (tj_Transaction p) \<and>
     cp_Digest plan = tx_CommitPlanDigest (tj_Transaction p) \<and>
     map st_EffectID (cp_Steps plan) = releaseEffectIDs (tj_Effects p)"

definition plan_inv :: "Hashing \<Rightarrow> ProjectionTx \<Rightarrow> bool" where
  "plan_inv H p \<longleftrightarrow> (case tj_CommitPlan p of
     None \<Rightarrow> tx_CommitPlanDigest (tj_Transaction p) = ''''
   | Some plan \<Rightarrow> bound_plan H p plan)"

definition bound_package :: "Hashing \<Rightarrow> ProjectionTx \<Rightarrow> ApprovalPackage \<Rightarrow> bool" where
  "bound_package H p a \<longleftrightarrow> ApprovalPackage_Validate a = None \<and>
     ComputeApprovalPackageDigest H a = Some (ap_Digest a) \<and>
     ap_TransactionID a = tx_ID (tj_Transaction p) \<and> ap_Attempt a = tx_Attempt (tj_Transaction p) \<and>
     ap_IntentDigest a = tx_IntentDigest (tj_Transaction p) \<and>
     ap_EffectSetDigest a = tx_EffectSetDigest (tj_Transaction p) \<and>
     ap_StagedStateDigest a = tx_StagedStateDigest (tj_Transaction p) \<and>
     ap_Digest a = tx_ApprovalPackageDigest (tj_Transaction p)"

definition package_inv :: "Hashing \<Rightarrow> ProjectionTx \<Rightarrow> bool" where
  "package_inv H p \<longleftrightarrow> (case tj_ApprovalPackage p of
     None \<Rightarrow> tx_ApprovalPackageDigest (tj_Transaction p) = ''''
   | Some a \<Rightarrow> bound_package H p a \<and> tj_CommitPlan p \<noteq> None)"

lemma plan_inv_step:
  assumes inv: "plan_inv H p" and fresh: "unfrozen_inv p" and step: "applyEventTx H p e = Inr q"
  shows "plan_inv H q"
  using step
proof (cases rule: applyEventTx_cases)
  case effect_status
  then show ?thesis
  proof (rule applyEffectStateChange_frame)
    fix es
    assume "q = p\<lparr>tj_Effects := es\<rparr>" and "map immutable_effect es = map immutable_effect (tj_Effects p)"
    with inv show ?thesis
      by (simp add: plan_inv_def bound_plan_def releaseEffectIDs_immutable split: option.splits)
  qed
qed (use inv fresh in \<open>auto simp: plan_inv_def bound_plan_def tx_result_defs unfrozen_inv_def unfrozen_def
  clean_start_def split: option.splits\<close>)

lemma package_inv_step:
  assumes inv: "package_inv H p" and fresh: "unfrozen_inv p" and step: "applyEventTx H p e = Inr q"
  shows "package_inv H q"
  using step
proof (cases rule: applyEventTx_cases)
  case effect_status
  then show ?thesis
    by (rule applyEffectStateChange_frame)
      (use inv in \<open>auto simp: package_inv_def bound_package_def split: option.splits\<close>)
qed (use inv fresh in \<open>auto simp: package_inv_def bound_package_def tx_result_defs unfrozen_inv_def unfrozen_def
  clean_start_def split: option.splits\<close>)

section \<open>Release authority\<close>

definition release_states :: "TransactionState set" where
  "release_states = {TransactionReadyToCommit, TransactionCommitting, TransactionCommitted,
     TransactionCompensating, TransactionRolledBack, TransactionReleaseFailed,
     TransactionPartiallyCommitted, TransactionManualRecoveryRequired}"

definition outstanding_inv :: "ProjectionTx \<Rightarrow> bool" where
  "outstanding_inv p \<longleftrightarrow> (tx_OutstandingApprovalIDs (tj_Transaction p) \<noteq> [] \<longrightarrow>
     tx_State (tj_Transaction p) = TransactionPendingApproval)"

definition release_inv :: "ProjectionTx \<Rightarrow> bool" where
  "release_inv p \<longleftrightarrow> (tx_State (tj_Transaction p) \<in> release_states \<longrightarrow>
     requirePassingVerification p = None \<and> tj_CommitPlan p \<noteq> None \<and> tj_ApprovalPackage p \<noteq> None)"

text \<open>Every move into a release state is from one, except from validation.\<close>

lemma release_entry:
  "CanTransitionTx s t \<Longrightarrow> t \<in> release_states \<Longrightarrow> s \<noteq> TransactionPendingApproval \<Longrightarrow>
     s \<in> release_states \<or> s = TransactionValidating \<and> t = TransactionReadyToCommit"
  by (cases s) (auto simp: CanTransitionTx_def release_states_def)

lemma requirePassingVerification_cong:
  "tj_Verifications p = tj_Verifications q \<Longrightarrow> requirePassingVerification p = requirePassingVerification q"
  by (simp add: requirePassingVerification_def requireNoFailedVerification_def)

lemma requirePassingVerification_None:
  "requirePassingVerification p = None \<longleftrightarrow> tj_Verifications p \<noteq> [] \<and>
     (\<forall>r\<in>set (tj_Verifications p). vr_Status r = VerificationPassed \<and> vr_Independence r = VerificationPlatformRun)"
  by (auto simp: requirePassingVerification_def requireNoFailedVerification_def list_ex_iff
      check_each_None [where P = "\<lambda>r. vr_Status r = VerificationPassed \<and> vr_Independence r = VerificationPlatformRun"])

lemma outstanding_inv_step:
  assumes inv: "outstanding_inv p" and step: "applyEventTx H p e = Inr q"
  shows "outstanding_inv q"
  using step
proof (cases rule: applyEventTx_cases)
  case effect_status
  then show ?thesis
    by (rule applyEffectStateChange_frame) (use inv in \<open>auto simp: outstanding_inv_def\<close>)
qed (use inv in \<open>auto simp: outstanding_inv_def tx_result_defs resolvable_def allowed_change_def\<close>)

lemma release_inv_step:
  assumes inv: "release_inv p" and pkg: "package_inv H p" and step: "applyEventTx H p e = Inr q"
  shows "release_inv q"
  using step
proof (cases rule: applyEventTx_cases)
  case (move payload)
  show ?thesis
    unfolding release_inv_def
  proof
    assume "tx_State (tj_Transaction q) \<in> release_states"
    with move have to: "tc_To payload \<in> release_states" by (simp add: movedTx_def)
    have same: "requirePassingVerification q = requirePassingVerification p"
        "tj_CommitPlan q = tj_CommitPlan p" "tj_ApprovalPackage q = tj_ApprovalPackage p"
      using move by (auto simp: movedTx_def intro: requirePassingVerification_cong)
    from move(2) to have "tx_State (tj_Transaction p) \<in> release_states \<or>
        tc_To payload = TransactionReadyToCommit"
      using release_entry unfolding allowed_change_def by metis
    then show "requirePassingVerification q = None \<and> tj_CommitPlan q \<noteq> None \<and> tj_ApprovalPackage q \<noteq> None"
      using inv same move(2)
      by (auto simp: release_inv_def allowed_change_def validateStatePreconditions_def split: option.splits)
  qed
next
  case effect_status
  then show ?thesis
    by (rule applyEffectStateChange_frame)
      (use inv in \<open>auto simp: release_inv_def requirePassingVerification_None\<close>)
next
  case (complete package decision i)
  with pkg show ?thesis
    by (auto simp: release_inv_def approvedTx_def resolvable_def package_inv_def requirePassingVerification_None)
qed (use inv in \<open>auto simp: release_inv_def release_states_def tx_result_defs resolvable_def
  requirePassingVerification_None\<close>)

section \<open>State moves\<close>

text \<open>
  The documented life of a transaction (\<^verbatim>\<open>AGENT_TRANSACTION_EXECUTION_PLAN.md\<close>, "State machines", and
  \<^verbatim>\<open>docs/TRANSACTIONS.md\<close> for runs without an effect, retries, aborts and renewals), stated by kind of move.
\<close>

inductive tx_lifecycle :: "TransactionState \<Rightarrow> TransactionState \<Rightarrow> bool" where
  progress: "(s, t) \<in> {(TransactionCreated, TransactionRunning), (TransactionRunning, TransactionStaged),
      (TransactionStaged, TransactionValidating), (TransactionValidating, TransactionPendingApproval),
      (TransactionValidating, TransactionReadyToCommit), (TransactionPendingApproval, TransactionReadyToCommit),
      (TransactionReadyToCommit, TransactionCommitting), (TransactionCommitting, TransactionCommitted)} \<Longrightarrow> tx_lifecycle s t"
| no_effect: "tx_lifecycle TransactionRunning TransactionCompletedNoEffect"
| fail_validation: "tx_lifecycle TransactionValidating TransactionValidationFailed"
| revise: "s \<in> {TransactionValidating, TransactionPendingApproval, TransactionReadyToCommit} \<Longrightarrow> tx_lifecycle s TransactionReviseRequired"
| retry: "s \<in> {TransactionStaged, TransactionValidationFailed, TransactionReviseRequired} \<Longrightarrow> tx_lifecycle s TransactionRunning"
| validate_again: "tx_lifecycle TransactionValidationFailed TransactionValidating"
| block: "s \<in> {TransactionCreated, TransactionRunning, TransactionStaged, TransactionValidating, TransactionPendingApproval,
      TransactionReadyToCommit} \<Longrightarrow> tx_lifecycle s TransactionBlocked"
| abort: "s \<in> {TransactionCreated, TransactionRunning, TransactionStaged, TransactionValidating, TransactionValidationFailed,
      TransactionReviseRequired, TransactionPendingApproval, TransactionReadyToCommit} \<Longrightarrow> tx_lifecycle s TransactionAborted"
| release_trouble: "t \<in> {TransactionReleaseFailed, TransactionCompensating, TransactionPartiallyCommitted,
      TransactionManualRecoveryRequired} \<Longrightarrow> tx_lifecycle TransactionCommitting t"
| compensated: "t \<in> {TransactionRolledBack, TransactionPartiallyCommitted, TransactionManualRecoveryRequired} \<Longrightarrow>
      tx_lifecycle TransactionCompensating t"

inductive_simps tx_lifecycle_iff: "tx_lifecycle s t"

text \<open>The table of the reducer has exactly these moves.\<close>

lemma CanTransitionTx_iff: "CanTransitionTx s t \<longleftrightarrow> tx_lifecycle s t"
  by (cases s; cases t) (simp_all add: CanTransitionTx_def tx_lifecycle_iff)

lemma tx_lifecycle_terminal: "TransactionState_Terminal s \<Longrightarrow> \<not> tx_lifecycle s t"
  by (cases s) (auto simp: tx_lifecycle_iff)

lemma CanTransitionTx_terminal: "TransactionState_Terminal s \<Longrightarrow> \<not> CanTransitionTx s t"
  by (simp add: CanTransitionTx_iff tx_lifecycle_terminal)

text \<open>What each kind of event may do to the state. Renewing authority goes back to validation, which is not in the table.
  Staging has an event of its own, and a pending approval is left only by a decision or a renewal.\<close>

definition tx_step :: "TransactionEvent \<Rightarrow> TransactionState \<Rightarrow> TransactionState \<Rightarrow> bool" where
  "tx_step e s t \<longleftrightarrow> (case te_Type e of
     EventTransactionStateChanged \<Rightarrow> (\<exists>c. te_Payload e = TransactionStateChanged c \<and> tc_From c = s \<and> tc_To c = t \<and>
       tx_lifecycle s t \<and> s \<noteq> TransactionPendingApproval \<and> t \<noteq> TransactionStaged)
   | EventTransactionStaged \<Rightarrow> s = TransactionRunning \<and> t = TransactionStaged
   | EventAuthorityRenewed \<Rightarrow> s \<in> {TransactionPendingApproval, TransactionReadyToCommit} \<and> t = TransactionValidating
   | EventApprovalResolved \<Rightarrow> (\<exists>d. te_Payload e = ApprovalResolvedPayload d \<and> s = TransactionPendingApproval \<and>
       (ad_Decision d = ApprovalApprove \<and> t \<in> {TransactionPendingApproval, TransactionReadyToCommit} \<or>
        ad_Decision d = ApprovalReject \<and> t = TransactionBlocked \<or> ad_Decision d = ApprovalRevise \<and> t = TransactionReviseRequired))
   | _ \<Rightarrow> t = s)"

lemma applyEventTx_step:
  assumes "applyEventTx H p e = Inr q"
  shows "tx_step e (tx_State (tj_Transaction p)) (tx_State (tj_Transaction q))"
proof (cases "te_Type e")
  case EventTransactionStateChanged
  with assms have "applyStateChange p e = Inr q" by (simp add: applyEventTx_def)
  then show ?thesis
    by (cases rule: applyStateChange_cases)
      (auto simp: tx_step_def EventTransactionStateChanged allowed_change_def CanTransitionTx_iff tx_result_defs)
next
  case EventApprovalResolved
  with assms have "applyApprovalResolution H p e = Inr q" by (simp add: applyEventTx_def)
  then show ?thesis
    by (cases rule: applyApprovalResolution_Inr) (auto simp: tx_step_def EventApprovalResolved resolvable_def approvedTx_def)
next
  case EventAuthorityRenewed
  with assms have "applyAuthorityRenewed p e = Inr q" by (simp add: applyEventTx_def)
  then show ?thesis by (cases rule: applyAuthorityRenewed_Inr) (auto simp: tx_step_def EventAuthorityRenewed)
next
  case EventEffectStateChanged
  with assms have "applyEffectStateChange p e = Inr q" by (simp add: applyEventTx_def)
  then show ?thesis by (rule applyEffectStateChange_frame) (simp add: tx_step_def EventEffectStateChanged)
next
  case EventAgentExecutionFinished
  with assms have "applyAgentExecutionFinished p e = Inr q" by (simp add: applyEventTx_def)
  then show ?thesis by (cases rule: applyAgentExecutionFinished_Inr) (simp add: tx_step_def EventAgentExecutionFinished)
next
  case EventVerificationSuperseded
  with assms obtain i where "q = p\<lparr>tj_SupersededVerifications := tj_SupersededVerifications p @ [tj_Verifications p ! i],
      tj_Verifications := remove_at i (tj_Verifications p), tj_Transaction := (tj_Transaction p)\<lparr>
        tx_VerificationResultIDs := removeString (tx_VerificationResultIDs (tj_Transaction p)) i\<rparr>\<rparr>"
    by (fastforce simp: applyEventTx_def applyVerificationSuperseded_def removeVerification_def Let_def split: option.splits)
  with EventVerificationSuperseded show ?thesis by (simp add: tx_step_def)
qed (use assms in \<open>auto simp: tx_step_def applyEventTx_def applyEffectAdded_def applyStageBindingCreated_def applyStaged_def
    applyVerification_def applyCommitPlan_def applyApprovalPackage_def
    applyAgentExecutionStarted_def Let_def split: option.splits\<close>)

lemma ApplyTx_step: "ApplyTx H (Some p) e = Inr q \<Longrightarrow> tx_step e (tx_State (tj_Transaction p)) (tx_State (tj_Transaction q))"
  by (elim ApplyTx_Some_Inr) (auto dest: applyEventTx_step)

lemma tx_step_lifecycle:
  "tx_step e s t \<Longrightarrow> t = s \<or> tx_lifecycle s t \<or>
     te_Type e = EventAuthorityRenewed \<and> s \<in> {TransactionPendingApproval, TransactionReadyToCommit} \<and> t = TransactionValidating"
  by (auto simp: tx_step_def tx_lifecycle_iff split: TransactionEventType.splits)

text \<open>A terminal transaction accepts nothing but changes of the status of its effects.\<close>

lemma applyEventTx_terminal:
  assumes "applyEventTx H p e = Inr q" and "TransactionState_Terminal (tx_State (tj_Transaction p))"
  shows "applyEffectStateChange p e = Inr q"
  using assms(1)
proof (cases rule: applyEventTx_cases)
  case (move payload)
  with assms(2) CanTransitionTx_terminal show ?thesis by (auto simp: allowed_change_def)
qed (use assms(2) in \<open>auto simp: resolvable_def\<close>)

section \<open>Committed effects\<close>

definition releasable :: "Effect \<Rightarrow> bool" where
  "releasable f \<longleftrightarrow> ef_RecoveryClass f \<noteq> RecoveryReadOnly"

definition committed_inv :: "ProjectionTx \<Rightarrow> bool" where
  "committed_inv p \<longleftrightarrow> (tx_State (tj_Transaction p) = TransactionCommitted \<longrightarrow>
     (\<forall>f\<in>set (tj_Effects p). releasable f \<longrightarrow>
        ef_Status f \<in> {EffectCommitted, EffectManualRecoveryRequired} \<and> ef_Receipt f \<noteq> None))"

lemma Effect_Validate_receipt:
  "Effect_Validate f = None \<Longrightarrow> effectStatusRequiresReceipt (ef_Status f) \<Longrightarrow> ef_Receipt f \<noteq> None"
  by (simp add: Effect_Validate_def Let_def)

lemma requireAllEffectsStatus_None:
  "requireAllEffectsStatus fs s = None \<longleftrightarrow> (\<forall>f\<in>set fs. releasable f \<longrightarrow> ef_Status f = s)"
  unfolding requireAllEffectsStatus_def releasable_def
  by (rule check_each_None) auto

lemma effect_move_when_committed:
  "CanTransitionEffect s t \<Longrightarrow> s \<in> {EffectCommitted, EffectManualRecoveryRequired} \<Longrightarrow>
     validateEffectTransitionContext TransactionCommitted s t = None \<Longrightarrow> t = EffectManualRecoveryRequired"
  by (auto simp: CanTransitionEffect_def validateEffectTransitionContext_def)

lemma committed_inv_step:
  assumes inv: "committed_inv p" and eff: "effects_inv p" and step: "applyEventTx H p e = Inr q"
  shows "committed_inv q"
  using step
proof (cases rule: applyEventTx_cases)
  case (move payload)
  show ?thesis
    unfolding committed_inv_def
  proof
    assume "tx_State (tj_Transaction q) = TransactionCommitted"
    with move have "requireAllEffectsStatus (tj_Effects p) EffectCommitted = None"
      by (simp add: movedTx_def allowed_change_def validateStatePreconditions_def)
    with eff move(4) show "\<forall>f\<in>set (tj_Effects q). releasable f \<longrightarrow>
        ef_Status f \<in> {EffectCommitted, EffectManualRecoveryRequired} \<and> ef_Receipt f \<noteq> None"
      using Effect_Validate_receipt
      by (fastforce simp: movedTx_def effects_inv_def requireAllEffectsStatus_None effectStatusRequiresReceipt_def)
  qed
next
  case effect_status
  then show ?thesis
  proof (rule applyEffectStateChange_Inr)
    fix i payload f
    assume i: "i < length (tj_Effects p)" and st: "ef_Status (tj_Effects p ! i) = fc_From payload"
      and can: "CanTransitionEffect (fc_From payload) (fc_To payload)"
      and ctx: "validateEffectTransitionContext (tx_State (tj_Transaction p)) (fc_From payload) (fc_To payload) = None"
      and f: "f = (tj_Effects p ! i)\<lparr>ef_Status := fc_To payload,
       ef_Receipt := (if fc_Receipt payload \<noteq> None then fc_Receipt payload else ef_Receipt (tj_Effects p ! i)),
       ef_CompensationReceipt := (if fc_CompensationReceipt payload \<noteq> None
         then fc_CompensationReceipt payload else ef_CompensationReceipt (tj_Effects p ! i)),
       ef_UpdatedAt := te_OccurredAt e\<rparr>"
      and q: "q = p\<lparr>tj_Effects := (tj_Effects p)[i := f]\<rparr>"
    show ?thesis
      unfolding committed_inv_def
    proof
      assume "tx_State (tj_Transaction q) = TransactionCommitted"
      with q have s: "tx_State (tj_Transaction p) = TransactionCommitted" by simp
      have old: "releasable g \<Longrightarrow> ef_Status g \<in> {EffectCommitted, EffectManualRecoveryRequired} \<and>
          ef_Receipt g \<noteq> None" if "g \<in> set (tj_Effects p)" for g
        using inv s that by (simp add: committed_inv_def)
      have "releasable f \<Longrightarrow> ef_Status f = EffectManualRecoveryRequired \<and> ef_Receipt f \<noteq> None"
        using old [of "tj_Effects p ! i"] i st can ctx s effect_move_when_committed
        by (auto simp: f releasable_def)
      with old show "\<forall>f\<in>set (tj_Effects q). releasable f \<longrightarrow>
          ef_Status f \<in> {EffectCommitted, EffectManualRecoveryRequired} \<and> ef_Receipt f \<noteq> None"
        using set_update_subset_insert [of "tj_Effects p" i f] q by auto
    qed
  qed
qed (use inv in \<open>auto simp: committed_inv_def tx_result_defs resolvable_def\<close>)

section \<open>Attempts\<close>

text \<open>The superseded attempts are numbered without gaps up to the current one.\<close>

definition attempts_inv :: "ProjectionTx \<Rightarrow> bool" where
  "attempts_inv p \<longleftrightarrow> 0 \<le> tx_Attempt (tj_Transaction p) \<and> in64 (tx_Attempt (tj_Transaction p)) \<and>
     (\<exists>first\<in>{0, 1}. tx_Attempt (tj_Transaction p) = first + int (length (tj_SupersededAttempts p)) \<and>
       (\<forall>i < length (tj_SupersededAttempts p). at_Attempt (tj_SupersededAttempts p ! i) = first + int i))"

lemma applyEventTx_attempts:
  assumes "applyEventTx H p e = Inr q"
  shows "tx_Attempt (tj_Transaction q) = tx_Attempt (tj_Transaction p) \<and>
      tj_SupersededAttempts q = tj_SupersededAttempts p \<or>
    tx_Attempt (tj_Transaction q) = wrap64 (tx_Attempt (tj_Transaction p) + 1) \<and>
      tj_SupersededAttempts q = tj_SupersededAttempts p @ [attemptSnapshot p (te_OccurredAt e)]"
  using assms
proof (cases rule: applyEventTx_cases)
  case effect_status
  then show ?thesis by (rule applyEffectStateChange_frame) simp
qed (auto simp: tx_result_defs)

lemma attempts_inv_step:
  assumes inv: "attempts_inv p" and step: "applyEventTx H p e = Inr q" and pos: "0 \<le> tx_Attempt (tj_Transaction q)"
  shows "attempts_inv q" "tx_Attempt (tj_Transaction p) \<le> tx_Attempt (tj_Transaction q)"
proof -
  have "wrap64 (tx_Attempt (tj_Transaction p) + 1) = tx_Attempt (tj_Transaction p) + 1"
    if "0 \<le> wrap64 (tx_Attempt (tj_Transaction p) + 1)"
    using that inv by (cases "tx_Attempt (tj_Transaction p) = max64")
      (auto simp: attempts_inv_def in64_def wrap64_def min64_def max64_def)
  moreover have "in64 (wrap64 (tx_Attempt (tj_Transaction p) + 1))" by (rule wrap64_in64)
  ultimately show "attempts_inv q" "tx_Attempt (tj_Transaction p) \<le> tx_Attempt (tj_Transaction q)"
    using applyEventTx_attempts [OF step] inv pos
    by (auto simp: attempts_inv_def attemptSnapshot_def Let_def nth_append less_Suc_eq)
qed

section \<open>The invariant of a replayed transaction\<close>

definition tx_inv :: "Hashing \<Rightarrow> ProjectionTx \<Rightarrow> bool" where
  "tx_inv H p \<longleftrightarrow> valid_tx H (tj_Transaction p) \<and> IsSHA256Digest (tj_LastEventDigest p) \<and>
     attempts_inv p \<and> effects_inv p \<and> deps_inv p \<and> executions_inv p \<and> active_inv p \<and> unfrozen_inv p \<and>
     verifications_inv p \<and> frozen_inv H p \<and> plan_inv H p \<and> package_inv H p \<and> outstanding_inv p \<and>
     release_inv p \<and> committed_inv p"

lemma valid_tx_attempt: "valid_tx H tx \<Longrightarrow> 0 \<le> tx_Attempt tx"
  by (simp add: valid_tx_def AgentTransaction_Validate_def Let_def)

text \<open>None of the parts looks at the sequence number, the clock or the head digest.\<close>

lemma inv_advance [simp]:
  "attempts_inv (advanceTx p e) = attempts_inv p" "effects_inv (advanceTx p e) = effects_inv p"
  "deps_inv (advanceTx p e) = deps_inv p" "executions_inv (advanceTx p e) = executions_inv p"
  "active_inv (advanceTx p e) = active_inv p" "unfrozen_inv (advanceTx p e) = unfrozen_inv p"
  "verifications_inv (advanceTx p e) = verifications_inv p" "frozen_inv H (advanceTx p e) = frozen_inv H p"
  "plan_inv H (advanceTx p e) = plan_inv H p" "package_inv H (advanceTx p e) = package_inv H p"
  "outstanding_inv (advanceTx p e) = outstanding_inv p" "release_inv (advanceTx p e) = release_inv p"
  "committed_inv (advanceTx p e) = committed_inv p"
  by (simp_all add: attempts_inv_def effects_inv_def deps_inv_def executions_inv_def active_inv_def
      unfrozen_inv_def unfrozen_def clean_start_def verifications_inv_def bound_result_def frozen_inv_def
      plan_inv_def bound_plan_def package_inv_def bound_package_def outstanding_inv_def release_inv_def
      requirePassingVerification_None committed_inv_def split: option.split)

lemma ApplyTx_step_inv:
  assumes inv: "tx_inv H p" and step: "ApplyTx H (Some p) e = Inr q"
  shows "tx_inv H q"
  using step
proof (rule ApplyTx_Some_Inr)
  fix r
  assume e: "TransactionEvent_Validate e = None" and r: "applyEventTx H p e = Inr r"
    and q: "q = advanceTx r e" and v: "valid_tx H (tj_Transaction q)"
  have pos: "0 \<le> tx_Attempt (tj_Transaction r)" using v valid_tx_attempt q by fastforce
  note parts = inv [unfolded tx_inv_def]
  have "attempts_inv r" "tx_Attempt (tj_Transaction p) \<le> tx_Attempt (tj_Transaction r)"
    using attempts_inv_step [OF _ r pos] parts by blast+
  moreover from this(2) have "executions_inv r" using executions_inv_step [OF _ r] parts by blast
  moreover have "effects_inv r" "deps_inv r" "active_inv r" "unfrozen_inv r" "outstanding_inv r"
    using effects_inv_step [OF _ r] deps_inv_step [OF _ r] active_inv_step [OF _ r]
      unfrozen_inv_step [OF _ r] outstanding_inv_step [OF _ r] parts by blast+
  moreover have "verifications_inv r" "frozen_inv H r" "plan_inv H r" "package_inv H r" "release_inv r"
      "committed_inv r"
    using verifications_inv_step [OF _ _ r] frozen_inv_step [OF _ _ r] plan_inv_step [OF _ _ r]
      package_inv_step [OF _ _ r] release_inv_step [OF _ _ r] committed_inv_step [OF _ _ r] parts by blast+
  moreover have "IsSHA256Digest (te_Digest e)" using TransactionEvent_Validate_chain [OF e] by blast
  ultimately show ?thesis using v by (simp add: tx_inv_def q)
qed

definition clean_event :: "TransactionEvent \<Rightarrow> bool" where
  "clean_event e = (case te_Payload e of TransactionCreatedPayload tx \<Rightarrow> clean_start tx | _ \<Rightarrow> True)"

lemma ApplyTx_first_inv:
  assumes "ApplyTx H None e = Inr p" and "clean_event e"
  shows "tx_inv H p"
proof -
  note f = ApplyTx_None_Inr [OF assms(1)]
  define t where "t = tj_Transaction p"
  from f have p: "p = \<lparr>tj_Transaction = t, tj_Executions = [], tj_Effects = [], tj_Verifications = [],
          tj_SupersededVerifications = [], tj_CommitPlan = None, tj_ApprovalPackage = None,
          tj_ApprovalDigests = [], tj_SupersededAuthorities = [], tj_SupersededAttempts = [],
          tj_LastEventDigest = te_Digest e\<rparr>" unfolding t_def by blast
  have t: "clean_start t" "valid_tx H t" "tx_State t = TransactionCreated" "tx_Attempt t \<in> {0, 1}"
    using f assms(2) unfolding t_def by (simp_all add: clean_event_def)
  have "IsSHA256Digest (te_Digest e)" using f TransactionEvent_Validate_chain by blast
  with t show ?thesis
    by (auto simp: p tx_inv_def clean_start_def attempts_inv_def effects_inv_def deps_inv_def executions_inv_def
        active_inv_def unfrozen_inv_def unfrozen_def verifications_inv_def frozen_inv_def plan_inv_def
        package_inv_def outstanding_inv_def release_inv_def release_states_def committed_inv_def
        in64_def min64_def max64_def)
qed

lemma replayFromTx_inv: "replayFromTx H (Some p) es = Inr q \<Longrightarrow> tx_inv H p \<Longrightarrow> tx_inv H q"
  by (induction rule: tx_ledger.replay_from_invariant) (auto intro: ApplyTx_step_inv)

lemma ReplayTx_inv:
  assumes "ReplayTx H es = Inr p" and "list_all clean_event es"
  shows "tx_inv H p"
proof -
  obtain e fs where es: "es = e # fs"
    using assms(1) by (cases es) (simp_all add: ReplayTx_def)
  with assms obtain p0 where "ApplyTx H None e = Inr p0" "replayFromTx H (Some p0) fs = Inr p"
    by (auto simp: ReplayTx_def)
  with assms(2) es show ?thesis
    by (auto intro: replayFromTx_inv ApplyTx_first_inv)
qed

lemma ReplayTx_ledger: "ReplayTx H es = replayFromTx H None es"
  by (simp add: ReplayTx_def)

end
