(* ===== verification/Go_Time.thy ===== *)
theory Go_Time
  imports Go_Prelude
begin

text \<open>RFC 3339 time stamps, as the program writes them into identifiers and into columns of its store.\<close>

text \<open>
  \<^verbatim>\<open>t.UTC().Format(time.RFC3339Nano)\<close>, which is also the store's \<^verbatim>\<open>timeFormat\<close>: the civil date of a day number
  counted from January 1, year 1,
  and the rendering with trailing zeros of the fraction removed.
\<close>

definition civil :: "int \<Rightarrow> int \<times> int \<times> int" where
  "civil days = (let z = days + 306; era = z div 146097; doe = z mod 146097;
     yoe = (doe - doe div 1460 + doe div 36524 - doe div 146096) div 365;
     doy = doe - (365 * yoe + yoe div 4 - yoe div 100);
     mp = (5 * doy + 2) div 153;
     d = doy - (153 * mp + 2) div 5 + 1;
     m = (if mp < 10 then mp + 3 else mp - 9);
     y = yoe + era * 400 + (if m \<le> 2 then 1 else 0)
   in (y, m, d))"

definition padded :: "nat \<Rightarrow> int \<Rightarrow> string" where
  "padded width n = (let s = dec (nat \<bar>n\<bar>) in
     (if n < 0 then ''-'' else '''') @ replicate (width - length s) (CHR ''0'') @ s)"

definition trim_zeros :: "string \<Rightarrow> string" where
  "trim_zeros s = rev (dropWhile (\<lambda>c. c = CHR ''0'') (rev s))"

definition rfc3339nano :: "time \<Rightarrow> string" where
  "rfc3339nano t = (let secs = t div 1000000000; ns = t mod 1000000000; sod = secs mod 86400;
     (y, m, d) = civil (secs div 86400); frac = trim_zeros (padded 9 ns)
   in padded 4 y @ ''-'' @ padded 2 m @ ''-'' @ padded 2 d @ ''T'' @ padded 2 (sod div 3600) @ '':'' @
      padded 2 (sod div 60 mod 60) @ '':'' @ padded 2 (sod mod 60) @
      (if frac = '''' then '''' else ''.'' @ frac) @ ''Z'')"

section \<open>Durations\<close>

text \<open>
  \<^verbatim>\<open>t.Sub(u)\<close> saturates at the least and the greatest 64-bit count of nanoseconds; \<^verbatim>\<open>d / time.Second\<close>
  and \<^verbatim>\<open>d % time.Second\<close> truncate towards zero.
\<close>

definition time_Sub :: "time \<Rightarrow> time \<Rightarrow> int64" where
  "time_Sub t u = max min64 (min max64 (t - u))"

definition Second :: int64 where
  "Second = 1000000000"

definition go_quot :: "int \<Rightarrow> int \<Rightarrow> int" where
  "go_quot a b = sgn a * sgn b * (\<bar>a\<bar> div \<bar>b\<bar>)"

definition go_rem :: "int \<Rightarrow> int \<Rightarrow> int" where
  "go_rem a b = a - b * go_quot a b"

end
