(* ===== verification/Transaction_Policy.thy ===== *)
theory Transaction_Policy
  imports Transaction_Invariant Go_Time
begin

text \<open>
  Deciding about an ordered effect set (\<^verbatim>\<open>internal/kernel/transaction/policy.go\<close>) and preparing commit
  authority for it (\<^verbatim>\<open>prepare.go\<close>): the baseline sequence policy, the commit plan and approval
  package that a decision leads to, and the identifiers derived for them.
\<close>

section \<open>Sequence decisions\<close>

datatype SequenceOutcome =
    SequenceAllow | SequenceRequireApproval | SequenceRevise | SequenceBlock | OtherSequenceOutcome string

fun SequenceOutcome_name :: "SequenceOutcome \<Rightarrow> string" where
  "SequenceOutcome_name SequenceAllow = ''allow''"
| "SequenceOutcome_name SequenceRequireApproval = ''require_approval''"
| "SequenceOutcome_name SequenceRevise = ''revise''"
| "SequenceOutcome_name SequenceBlock = ''block''"
| "SequenceOutcome_name (OtherSequenceOutcome s) = s"

record SequenceFinding =
  sf_RuleID :: string
  sf_Outcome :: SequenceOutcome
  sf_Summary :: string
  sf_EffectIDs :: "string list"

record SequenceDecision =
  sd_Outcome :: SequenceOutcome
  sd_Findings :: "SequenceFinding list"

fun sequenceOutcomeRank :: "SequenceOutcome \<Rightarrow> nat" where
  "sequenceOutcomeRank SequenceAllow = 0"
| "sequenceOutcomeRank SequenceRequireApproval = 1"
| "sequenceOutcomeRank SequenceRevise = 2"
| "sequenceOutcomeRank SequenceBlock = 3"
| "sequenceOutcomeRank _ = 4"

section \<open>The baseline policy\<close>

definition isProtectedControl :: "Effect \<Rightarrow> bool" where
  "isProtectedControl effect =
     (let value = to_lower (rs_Pattern (ef_Resource effect) @ '' '' @ ef_Operation effect)
      in list_ex (contains value) [''auth'', ''permission'', ''security'', ''access-control'', ''policy''])"

definition isVerificationResource :: "Effect \<Rightarrow> bool" where
  "isVerificationResource effect =
     (let path = to_lower (rs_Pattern (ef_Resource effect)); base = path_base path
      in contains path ''/test/'' \<or> contains path ''/tests/'' \<or> contains base ''_test.'' \<or>
         contains base ''.test.'' \<or> contains base ''.spec.'' \<or> contains path ''/fixtures/'')"

definition isLargeDatabaseDelete :: "Effect \<Rightarrow> int64 \<Rightarrow> bool" where
  "isLargeDatabaseDelete effect threshold =
     (if \<not> contains (to_lower (ef_System effect)) ''postgres'' \<and>
         \<not> contains (to_lower (ef_System effect)) ''database'' then False
      else if \<not> contains (to_lower (ef_Operation effect)) ''delete'' then False
      else case es_Rows (ef_EstimatedScope effect) of None \<Rightarrow> False | Some rows \<Rightarrow> rows > threshold)"

definition grants_authority :: "Effect \<Rightarrow> bool" where
  "grants_authority effect = (let operation = to_lower (ef_Operation effect)
     in contains operation ''grant'' \<or> contains operation ''permission.create'')"

fun delegatedAuthoritySelfUse_from :: "string list \<Rightarrow> Effect list \<Rightarrow> SequenceFinding option" where
  "delegatedAuthoritySelfUse_from grants [] = None"
| "delegatedAuthoritySelfUse_from grants (effect # effects) =
     (if grants_authority effect then delegatedAuthoritySelfUse_from (ef_ID effect # grants) effects
      else case find (\<lambda>dependency. dependency \<in> set grants) (ef_Dependencies effect) of
        Some dependency \<Rightarrow> Some \<lparr>sf_RuleID = ''gatemole.sequence.grant-then-self-use'',
          sf_Outcome = SequenceBlock,
          sf_Summary = ''The transaction attempts to consume authority it granted to itself.'',
          sf_EffectIDs = [dependency, ef_ID effect]\<rparr>
      | None \<Rightarrow> delegatedAuthoritySelfUse_from grants effects)"

definition delegatedAuthoritySelfUse :: "Effect list \<Rightarrow> SequenceFinding option" where
  "delegatedAuthoritySelfUse effects = delegatedAuthoritySelfUse_from [] effects"

text \<open>What the loop over the effects finds about one effect.\<close>

definition effect_findings :: "int64 \<Rightarrow> Effect \<Rightarrow> SequenceFinding list" where
  "effect_findings threshold effect =
     (if ef_RecoveryClass effect = RecoveryIrreversible
      then [\<lparr>sf_RuleID = ''gatemole.sequence.irreversible-release'', sf_Outcome = SequenceRequireApproval,
             sf_Summary = ''Irreversible effects require approval before release.'',
             sf_EffectIDs = [ef_ID effect]\<rparr>] else []) @
     (if isLargeDatabaseDelete effect threshold
      then [\<lparr>sf_RuleID = ''gatemole.sequence.large-database-delete'', sf_Outcome = SequenceRequireApproval,
             sf_Summary = ''Database deletion exceeds '' @ dec_int threshold @ '' estimated rows.'',
             sf_EffectIDs = [ef_ID effect]\<rparr>] else [])"

definition coupling_findings :: "Effect list \<Rightarrow> SequenceFinding list" where
  "coupling_findings effects =
     (let protected = filter isProtectedControl effects;
          evidence = map ef_ID (filter isVerificationResource protected);
          controls = map ef_ID (filter (\<lambda>effect. \<not> isVerificationResource effect) protected)
      in if controls \<noteq> [] \<and> evidence \<noteq> []
         then [\<lparr>sf_RuleID = ''gatemole.sequence.control-and-evidence-coupling'',
                sf_Outcome = SequenceRequireApproval,
                sf_Summary = ''A protected control and its verification changed in the same transaction.'',
                sf_EffectIDs = controls @ evidence\<rparr>] else [])"

fun worst_outcome :: "SequenceOutcome \<Rightarrow> SequenceFinding list \<Rightarrow> SequenceOutcome" where
  "worst_outcome outcome [] = outcome"
| "worst_outcome outcome (finding # findings) =
     worst_outcome (if sequenceOutcomeRank (sf_Outcome finding) > sequenceOutcomeRank outcome
                    then sf_Outcome finding else outcome) findings"

definition BaselinePolicy_Evaluate :: "int64 \<Rightarrow> Effect list \<Rightarrow> SequenceDecision" where
  "BaselinePolicy_Evaluate deleteApprovalRows effects =
     (let threshold = (if deleteApprovalRows = 0 then 100 else deleteApprovalRows);
          findings = concat (map (effect_findings threshold) effects) @ coupling_findings effects @
            (case delegatedAuthoritySelfUse effects of None \<Rightarrow> [] | Some finding \<Rightarrow> [finding])
      in \<lparr>sd_Outcome = worst_outcome SequenceAllow findings, sd_Findings = findings\<rparr>)"

definition BaselinePolicy_Digest :: "Hashing \<Rightarrow> int64 \<Rightarrow> string option" where
  "BaselinePolicy_Digest H deleteApprovalRows =
     (let threshold = (if deleteApprovalRows \<le> 0 then 100 else deleteApprovalRows)
      in hs_Policy H ''gatemole.sequence_policy.baseline.v0'' threshold)"

section \<open>Preparing authority\<close>

record ReleaseBinding =
  rl_Connector :: string
  rl_Target :: ResourceSelector
  rl_ExpectedResourceVersion :: string

record PreparedAuthority =
  pa_Plan :: CommitPlan
  pa_Approval :: ApprovalPackage
  pa_TargetState :: TransactionState
  pa_OutstandingApprovalIDs :: "string list"

definition authorityID :: "Hashing \<Rightarrow> string \<Rightarrow> string \<Rightarrow> int64 \<Rightarrow> time \<Rightarrow> string" where
  "authorityID H kind transactionID attempt now =
     kind @ '':'' @ hs_Hash16 H (kind @ [CHR 0x00] @ transactionID @ [CHR 0x00] @ dec_int attempt @
       [CHR 0x00] @ rfc3339nano now)"

text \<open>The release steps, in effect order, and the compensation steps, in reverse.\<close>

fun commitSteps_from :: "string list \<Rightarrow> nat \<Rightarrow> Effect list \<Rightarrow> CommitStep list" where
  "commitSteps_from preconditions n [] = []"
| "commitSteps_from preconditions n (effect # effects) =
     (if ef_RecoveryClass effect = RecoveryReadOnly then commitSteps_from preconditions n effects
      else \<lparr>st_Sequence = int (n + 1), st_EffectID = ef_ID effect, st_DependsOn = ef_Dependencies effect,
            st_PreconditionIDs = preconditions, st_IdempotencyKey = ef_IdempotencyKey effect,
            st_TimeoutSeconds = 60, st_RequiresReceipt = True\<rparr> #
           commitSteps_from preconditions (Suc n) effects)"

fun compensationSteps_from :: "string list \<Rightarrow> nat \<Rightarrow> Effect list \<Rightarrow> KernelError + CompensationStep list" where
  "compensationSteps_from preconditions n [] = Inr []"
| "compensationSteps_from preconditions n (effect # effects) =
    (let step = (\<lambda>ref. \<lparr>ks_Sequence = int (n + 1), ks_EffectID = ef_ID effect,
                        ks_PreconditionIDs = preconditions, ks_PlanRef = ref\<rparr>) in
     case ef_RecoveryClass effect of
       RecoveryReversible \<Rightarrow>
         bind_res (compensationSteps_from preconditions (Suc n) effects)
           (\<lambda>rest. Inr (step (ef_BeforeStateRef effect) # rest))
     | RecoveryCompensatable \<Rightarrow>
         (case ef_Compensation effect of
            None \<Rightarrow> Inl transitionErrorTx
          | Some compensation \<Rightarrow>
              bind_res (compensationSteps_from preconditions (Suc n) effects)
                (\<lambda>rest. Inr (step (cs_PlanRef compensation) # rest)))
     | _ \<Rightarrow> compensationSteps_from preconditions n effects)"

definition riskFindings :: "SequenceDecision \<Rightarrow> RiskFinding list" where
  "riskFindings decision = map (\<lambda>finding. \<lparr>rf_Code = sf_RuleID finding,
     rf_Severity = (if sf_Outcome finding = SequenceRequireApproval then ''high'' else ''medium''),
     rf_Summary = sf_Summary finding, rf_EffectIDs = sf_EffectIDs finding\<rparr>) (sd_Findings decision)"

definition checkPreparation ::
  "ProjectionTx \<Rightarrow> SequenceDecision \<Rightarrow> string \<Rightarrow> ReleaseBinding \<Rightarrow> time \<Rightarrow> KernelError option" where
  "checkPreparation p decision policyDigest release now = first_error
     [fail_if (tx_State (tj_Transaction p) \<noteq> TransactionValidating) transitionErrorTx,
      fail_if (\<not> IsSHA256Digest policyDigest) (transactionError ErrorSchemaInvalid),
      fail_if (\<not> IsIdentifier (rl_Connector release) \<or> \<not> IsIdentifier (rs_Kind (rl_Target release)) \<or>
          rs_Pattern (rl_Target release) = '''' \<or> rl_ExpectedResourceVersion release = '''')
        (transactionError ErrorSchemaInvalid),
      requirePassingVerification p,
      fail_if (list_ex (verification_expired now) (tj_Verifications p)) (transactionError ErrorVerificationFailed),
      check_each (\<lambda>_ effect. first_error
          [fail_if (ef_RecoveryClass effect \<noteq> RecoveryReadOnly \<and> ef_Status effect \<noteq> EffectValidated) transitionErrorTx,
           fail_if (ef_RecoveryClass effect = RecoveryIrreversible) transitionErrorTx])
        0 (tj_Effects p),
      fail_if (sd_Outcome decision \<noteq> SequenceAllow \<and> sd_Outcome decision \<noteq> SequenceRequireApproval)
        transitionErrorTx]"

definition draftPlan :: "Hashing \<Rightarrow> ProjectionTx \<Rightarrow> string \<Rightarrow> ReleaseBinding \<Rightarrow> time \<Rightarrow>
    CompensationStep list \<Rightarrow> CommitPlan" where
  "draftPlan H p policyDigest release now compensation = (let tx = tj_Transaction p in \<lparr>
     cp_Version = ''gatemole.commit_plan.v0'',
     cp_ID = authorityID H ''commit-plan'' (tx_ID tx) (tx_Attempt tx) now,
     cp_TransactionID = tx_ID tx, cp_Attempt = tx_Attempt tx, cp_IntentDigest = tx_IntentDigest tx,
     cp_EffectSetDigest = tx_EffectSetDigest tx, cp_StagedStateDigest = tx_StagedStateDigest tx,
     cp_PolicyDigest = policyDigest, cp_Connector = rl_Connector release, cp_Target = rl_Target release,
     cp_ExpectedResourceVersion = rl_ExpectedResourceVersion release,
     cp_Steps = commitSteps_from (tx_VerificationResultIDs tx) 0 (tj_Effects p),
     cp_CompensationSteps = compensation, cp_IrreversibleEffectIDs = [], cp_ManualRecoveryRef = None,
     cp_Digest = '''', cp_CreatedAt = now\<rparr>)"

definition draftPackage :: "Hashing \<Rightarrow> ProjectionTx \<Rightarrow> SequenceDecision \<Rightarrow> string \<Rightarrow> ReleaseBinding \<Rightarrow>
    time \<Rightarrow> string \<Rightarrow> ApprovalPackage" where
  "draftPackage H p decision policyDigest release now planDigest = (let tx = tj_Transaction p in \<lparr>
     ap_Version = ''gatemole.approval_package.v0'',
     ap_ID = authorityID H ''approval-package'' (tx_ID tx) (tx_Attempt tx) now,
     ap_TransactionID = tx_ID tx, ap_Attempt = tx_Attempt tx, ap_IntentDigest = tx_IntentDigest tx,
     ap_EffectSetDigest = tx_EffectSetDigest tx, ap_StagedStateDigest = tx_StagedStateDigest tx,
     ap_PolicyDigest = policyDigest, ap_CommitPlanDigest = planDigest,
     ap_VerificationResultIDs = tx_VerificationResultIDs tx, ap_RiskFindings = riskFindings decision,
     ap_RequiredApprovalClasses =
       (if sd_Outcome decision = SequenceRequireApproval then [''security-reviewer''] else []),
     ap_Summary = dec_int (int (length (tj_Effects p))) @ '' verified effect(s); sequence decision '' @
       SequenceOutcome_name (sd_Outcome decision) @ ''; release '' @ rl_Connector release @ '' to '' @
       rs_Pattern (rl_Target release),
     ap_Digest = '''', ap_CreatedAt = now, ap_ExpiresAt = now + 3600000000000\<rparr>)"

text \<open>An error that is not a kernel error (a failure to encode) is \<open>Inl None\<close>.\<close>

definition PrepareAuthority :: "Hashing \<Rightarrow> ProjectionTx \<Rightarrow> SequenceDecision \<Rightarrow> string \<Rightarrow> ReleaseBinding \<Rightarrow>
    time \<Rightarrow> KernelError option + PreparedAuthority" where
  "PrepareAuthority H p decision policyDigest release now =
    (case checkPreparation p decision policyDigest release now of
       Some err \<Rightarrow> Inl (Some err)
     | None \<Rightarrow>
    (case compensationSteps_from (tx_VerificationResultIDs (tj_Transaction p)) 0 (rev (tj_Effects p)) of
       Inl err \<Rightarrow> Inl (Some err)
     | Inr compensation \<Rightarrow>
    (let draft = draftPlan H p policyDigest release now compensation in
     case ComputeCommitPlanDigest H draft of
       None \<Rightarrow> Inl None
     | Some planDigest \<Rightarrow>
    (let plan = draft\<lparr>cp_Digest := planDigest\<rparr> in
     case CommitPlan_Validate plan of
       Some err \<Rightarrow> Inl (Some err)
     | None \<Rightarrow>
    (let draft' = draftPackage H p decision policyDigest release now planDigest in
     case ComputeApprovalPackageDigest H draft' of
       None \<Rightarrow> Inl None
     | Some packageDigest \<Rightarrow>
    (let approval = draft'\<lparr>ap_Digest := packageDigest\<rparr> in
     case ApprovalPackage_Validate approval of
       Some err \<Rightarrow> Inl (Some err)
     | None \<Rightarrow> Inr \<lparr>pa_Plan = plan, pa_Approval = approval,
         pa_TargetState = (if sd_Outcome decision = SequenceRequireApproval
           then TransactionPendingApproval else TransactionReadyToCommit),
         pa_OutstandingApprovalIDs = (if sd_Outcome decision = SequenceRequireApproval
           then [authorityID H ''approval'' (tx_ID (tj_Transaction p)) (tx_Attempt (tj_Transaction p)) now]
           else [])\<rparr>))))))"

section \<open>What the policy decides\<close>

lemma worst_outcome_rank:
  "sequenceOutcomeRank (worst_outcome o1 fs) =
     Max (insert (sequenceOutcomeRank o1) ((sequenceOutcomeRank \<circ> sf_Outcome) ` set fs))"
proof (induction fs arbitrary: o1)
  case Nil
  then show ?case by simp
next
  case (Cons f fs)
  show ?case
    unfolding worst_outcome.simps Cons.IH
    by (cases "fs = []") (auto simp: max_def)
qed

lemma worst_outcome_mem: "worst_outcome o1 fs \<in> insert o1 (sf_Outcome ` set fs)"
proof (induction fs arbitrary: o1)
  case Nil
  then show ?case by simp
next
  case (Cons f fs)
  from Cons.IH [of o1] Cons.IH [of "sf_Outcome f"] show ?case by auto
qed

lemma worst_outcome_ge:
  "f \<in> set fs \<Longrightarrow> sequenceOutcomeRank (sf_Outcome f) \<le> sequenceOutcomeRank (worst_outcome o1 fs)"
  by (simp add: worst_outcome_rank)

lemma self_use_finding:
  "delegatedAuthoritySelfUse_from gs fs = Some f \<Longrightarrow> sf_Outcome f = SequenceBlock"
  by (induction gs fs rule: delegatedAuthoritySelfUse_from.induct) (auto split: if_splits option.splits)

lemma finding_outcomes:
  "f \<in> set (sd_Findings (BaselinePolicy_Evaluate n effects)) \<Longrightarrow>
     sf_Outcome f \<in> {SequenceRequireApproval, SequenceBlock}"
  by (auto simp: BaselinePolicy_Evaluate_def Let_def effect_findings_def coupling_findings_def
      delegatedAuthoritySelfUse_def dest: self_use_finding self_use_finding [OF sym] split: if_splits option.splits)

lemma evaluate_outcome:
  "sd_Outcome (BaselinePolicy_Evaluate n effects) =
     worst_outcome SequenceAllow (sd_Findings (BaselinePolicy_Evaluate n effects))"
  by (simp add: BaselinePolicy_Evaluate_def Let_def)

lemma evaluate_outcome_cases:
  "sd_Outcome (BaselinePolicy_Evaluate n effects) \<in> {SequenceAllow, SequenceRequireApproval, SequenceBlock}"
  using worst_outcome_mem [of SequenceAllow "sd_Findings (BaselinePolicy_Evaluate n effects)"] finding_outcomes
  unfolding evaluate_outcome [symmetric] by fastforce

lemma evaluate_allow:
  "sd_Outcome (BaselinePolicy_Evaluate n effects) = SequenceAllow \<longleftrightarrow>
     sd_Findings (BaselinePolicy_Evaluate n effects) = []"
proof
  assume allow: "sd_Outcome (BaselinePolicy_Evaluate n effects) = SequenceAllow"
  have "f \<notin> set (sd_Findings (BaselinePolicy_Evaluate n effects))" for f
    using worst_outcome_ge [of f _ SequenceAllow] finding_outcomes [of f] allow evaluate_outcome by fastforce
  then show "sd_Findings (BaselinePolicy_Evaluate n effects) = []"
    by (metis list.set_intros(1) neq_Nil_conv)
next
  assume "sd_Findings (BaselinePolicy_Evaluate n effects) = []"
  then show "sd_Outcome (BaselinePolicy_Evaluate n effects) = SequenceAllow"
    by (simp add: evaluate_outcome)
qed

lemma evaluate_block:
  "delegatedAuthoritySelfUse effects \<noteq> None \<Longrightarrow> sd_Outcome (BaselinePolicy_Evaluate n effects) = SequenceBlock"
proof -
  assume "delegatedAuthoritySelfUse effects \<noteq> None"
  then obtain f where f: "delegatedAuthoritySelfUse effects = Some f" "sf_Outcome f = SequenceBlock"
    using self_use_finding by (auto simp: delegatedAuthoritySelfUse_def)
  then have "f \<in> set (sd_Findings (BaselinePolicy_Evaluate n effects))"
    by (simp add: BaselinePolicy_Evaluate_def Let_def)
  from worst_outcome_ge [OF this, of SequenceAllow] f(2)
  have "3 \<le> sequenceOutcomeRank (sd_Outcome (BaselinePolicy_Evaluate n effects))"
    by (simp add: evaluate_outcome)
  then show ?thesis using evaluate_outcome_cases [of n effects] by auto
qed

text \<open>
  \<open>self_use gs effects\<close>: some effect that grants no authority depends on one that does, which is
  either known already or earlier in the list. The loop finds a self use exactly when there is one.
\<close>

definition self_use :: "string list \<Rightarrow> Effect list \<Rightarrow> bool" where
  "self_use gs effects \<longleftrightarrow> (\<exists>j < length effects. \<not> grants_authority (effects ! j) \<and>
     (\<exists>d\<in>set (ef_Dependencies (effects ! j)). d \<in> set gs \<or>
        (\<exists>i < j. grants_authority (effects ! i) \<and> ef_ID (effects ! i) = d)))"

lemma self_use_Cons:
  "self_use gs (f # fs) \<longleftrightarrow>
     (if grants_authority f then self_use (ef_ID f # gs) fs
      else set (ef_Dependencies f) \<inter> set gs \<noteq> {} \<or> self_use gs fs)"
  by (auto simp: self_use_def Ex_less_Suc2 simp del: ex_simps)

lemma self_use_from_iff: "delegatedAuthoritySelfUse_from gs effects \<noteq> None \<longleftrightarrow> self_use gs effects"
proof (induction gs effects rule: delegatedAuthoritySelfUse_from.induct)
  case (1 gs)
  then show ?case by (simp add: self_use_def)
next
  case (2 gs f fs)
  show ?case
  proof (cases "find (\<lambda>d. d \<in> set gs) (ef_Dependencies f)")
    case None
    then have "set (ef_Dependencies f) \<inter> set gs = {}" by (auto simp: find_None_iff)
    with 2 None show ?thesis by (auto simp: self_use_Cons)
  next
    case (Some d)
    then have "d \<in> set (ef_Dependencies f) \<inter> set gs" by (auto simp: find_Some_iff)
    with 2(1) Some show ?thesis by (auto simp: self_use_Cons)
  qed
qed

lemma self_use_positions:
  "self_use [] effects \<longleftrightarrow> (\<exists>i j. i < j \<and> j < length effects \<and> grants_authority (effects ! i) \<and>
     \<not> grants_authority (effects ! j) \<and> ef_ID (effects ! i) \<in> set (ef_Dependencies (effects ! j)))"
  by (auto simp: self_use_def)

text \<open>The finding names the grant and the effect that depends on it.\<close>

lemma self_use_pair:
  "delegatedAuthoritySelfUse_from gs effects = Some f \<Longrightarrow> \<exists>d j. j < length effects \<and> \<not> grants_authority (effects ! j) \<and>
     d \<in> set (ef_Dependencies (effects ! j)) \<and> sf_EffectIDs f = [d, ef_ID (effects ! j)] \<and>
     (d \<in> set gs \<or> (\<exists>i<j. grants_authority (effects ! i) \<and> ef_ID (effects ! i) = d))"
proof (induction gs effects rule: delegatedAuthoritySelfUse_from.induct)
  case (2 gs g fs)
  have lift: ?case if "\<exists>d j. j < length fs \<and> \<not> grants_authority (fs ! j) \<and> d \<in> set (ef_Dependencies (fs ! j)) \<and>
      sf_EffectIDs f = [d, ef_ID (fs ! j)] \<and>
      (d \<in> set gs \<or> grants_authority g \<and> ef_ID g = d \<or> (\<exists>i<j. grants_authority (fs ! i) \<and> ef_ID (fs ! i) = d))"
  proof -
    from that obtain d j where j: "j < length fs" "\<not> grants_authority (fs ! j)" "d \<in> set (ef_Dependencies (fs ! j))"
      "sf_EffectIDs f = [d, ef_ID (fs ! j)]"
      and d: "d \<in> set gs \<or> grants_authority g \<and> ef_ID g = d \<or> (\<exists>i<j. grants_authority (fs ! i) \<and> ef_ID (fs ! i) = d)" by blast
    have "d \<in> set gs \<or> (\<exists>i<Suc j. grants_authority ((g # fs) ! i) \<and> ef_ID ((g # fs) ! i) = d)"
      using d by (auto simp: Ex_less_Suc2)
    with j show ?thesis by (intro exI [of _ d] exI [of _ "Suc j"]) simp
  qed
  show ?case
  proof (cases "grants_authority g")
    case True
    with 2 show ?thesis by (intro lift) auto
  next
    case False
    show ?thesis
    proof (cases "find (\<lambda>d. d \<in> set gs) (ef_Dependencies g)")
      case None
      with False 2 show ?thesis by (intro lift) auto
    next
      case (Some d)
      then have "d \<in> set gs" "d \<in> set (ef_Dependencies g)" by (auto simp: find_Some_iff)
      with Some False 2(3) show ?thesis by (intro exI [of _ d] exI [of _ 0]) auto
    qed
  qed
qed simp

lemma evaluate_block_only:
  assumes "sd_Outcome (BaselinePolicy_Evaluate n effects) = SequenceBlock"
  shows "delegatedAuthoritySelfUse effects \<noteq> None"
proof
  assume none: "delegatedAuthoritySelfUse effects = None"
  have "SequenceBlock \<in> insert SequenceAllow (sf_Outcome ` set (sd_Findings (BaselinePolicy_Evaluate n effects)))"
    using worst_outcome_mem [of SequenceAllow "sd_Findings (BaselinePolicy_Evaluate n effects)"] assms
    unfolding evaluate_outcome [symmetric] by simp
  then show False
    using none by (auto simp: BaselinePolicy_Evaluate_def Let_def effect_findings_def coupling_findings_def split: if_splits)
qed

lemma no_findings:
  "sd_Findings (BaselinePolicy_Evaluate n effects) = [] \<longleftrightarrow>
     \<not> (\<exists>f\<in>set effects. ef_RecoveryClass f = RecoveryIrreversible) \<and>
     \<not> (\<exists>f\<in>set effects. isLargeDatabaseDelete f (if n = 0 then 100 else n)) \<and>
     \<not> (\<exists>f\<in>set effects. \<exists>g\<in>set effects. isProtectedControl f \<and> isVerificationResource f \<and>
        isProtectedControl g \<and> \<not> isVerificationResource g) \<and>
     \<not> self_use [] effects"
proof -
  have "concat (map (effect_findings t) effects) = [] \<longleftrightarrow>
      \<not> (\<exists>f\<in>set effects. ef_RecoveryClass f = RecoveryIrreversible) \<and> \<not> (\<exists>f\<in>set effects. isLargeDatabaseDelete f t)" for t
    by (auto simp: effect_findings_def)
  moreover have "coupling_findings effects = [] \<longleftrightarrow>
      \<not> (\<exists>f\<in>set effects. \<exists>g\<in>set effects. isProtectedControl f \<and> isVerificationResource f \<and>
        isProtectedControl g \<and> \<not> isVerificationResource g)"
    by (auto simp: coupling_findings_def Let_def filter_empty_conv)
  moreover have "(case delegatedAuthoritySelfUse effects of None \<Rightarrow> [] | Some finding \<Rightarrow> [finding]) = [] \<longleftrightarrow>
      \<not> self_use [] effects"
    using self_use_from_iff [of "[]" effects] by (auto simp: delegatedAuthoritySelfUse_def split: option.split)
  ultimately show ?thesis by (simp add: BaselinePolicy_Evaluate_def Let_def)
qed

section \<open>What preparation gives\<close>

lemma commitSteps_effects: "map st_EffectID (commitSteps_from pre n effects) = releaseEffectIDs effects"
  by (induction pre n effects rule: commitSteps_from.induct) (simp_all add: releaseEffectIDs_def)

lemma PrepareAuthority_Inr:
  assumes "PrepareAuthority H p decision policyDigest release now = Inr pa"
  obtains compensation where
    "checkPreparation p decision policyDigest release now = None"
    "pa_Plan pa = (draftPlan H p policyDigest release now compensation)\<lparr>cp_Digest := cp_Digest (pa_Plan pa)\<rparr>"
    "ComputeCommitPlanDigest H (pa_Plan pa) = Some (cp_Digest (pa_Plan pa))"
    "CommitPlan_Validate (pa_Plan pa) = None"
    "pa_Approval pa = (draftPackage H p decision policyDigest release now (cp_Digest (pa_Plan pa)))
       \<lparr>ap_Digest := ap_Digest (pa_Approval pa)\<rparr>"
    "ComputeApprovalPackageDigest H (pa_Approval pa) = Some (ap_Digest (pa_Approval pa))"
    "ApprovalPackage_Validate (pa_Approval pa) = None"
    "pa_TargetState pa = (if sd_Outcome decision = SequenceRequireApproval
       then TransactionPendingApproval else TransactionReadyToCommit)"
    "pa_OutstandingApprovalIDs pa = (if sd_Outcome decision = SequenceRequireApproval
       then [authorityID H ''approval'' (tx_ID (tj_Transaction p)) (tx_Attempt (tj_Transaction p)) now] else [])"
proof -
  obtain compensation planDigest packageDigest where
    "checkPreparation p decision policyDigest release now = None"
    "ComputeCommitPlanDigest H (draftPlan H p policyDigest release now compensation) = Some planDigest"
    "CommitPlan_Validate ((draftPlan H p policyDigest release now compensation)\<lparr>cp_Digest := planDigest\<rparr>) = None"
    "ComputeApprovalPackageDigest H (draftPackage H p decision policyDigest release now planDigest) = Some packageDigest"
    "ApprovalPackage_Validate ((draftPackage H p decision policyDigest release now planDigest)
       \<lparr>ap_Digest := packageDigest\<rparr>) = None"
    "pa_Plan pa = (draftPlan H p policyDigest release now compensation)\<lparr>cp_Digest := planDigest\<rparr>"
    "pa_Approval pa = (draftPackage H p decision policyDigest release now planDigest)\<lparr>ap_Digest := packageDigest\<rparr>"
    using assms by (auto simp: PrepareAuthority_def Let_def split: option.splits sum.splits)
  then show thesis
    using assms
    by (intro that [of compensation])
      (auto simp: ComputeCommitPlanDigest_def ComputeApprovalPackageDigest_def PrepareAuthority_def Let_def
        split: option.splits sum.splits)
qed

lemma prepared_plan_applies:
  assumes "PrepareAuthority H p decision policyDigest release now = Inr pa"
    and "te_Payload e = CommitPlanFrozenPayload (pa_Plan pa)"
  shows "applyCommitPlan H p e = Inr (p\<lparr>tj_CommitPlan := Some (pa_Plan pa),
    tj_Transaction := (tj_Transaction p)\<lparr>tx_CommitPlanDigest := cp_Digest (pa_Plan pa)\<rparr>\<rparr>)"
proof (rule PrepareAuthority_Inr [OF assms(1)])
  fix compensation
  assume c: "checkPreparation p decision policyDigest release now = None"
    and plan: "pa_Plan pa = (draftPlan H p policyDigest release now compensation)\<lparr>cp_Digest := cp_Digest (pa_Plan pa)\<rparr>"
    and d: "ComputeCommitPlanDigest H (pa_Plan pa) = Some (cp_Digest (pa_Plan pa))"
    and v: "CommitPlan_Validate (pa_Plan pa) = None"
  define d0 where "d0 = cp_Digest (pa_Plan pa)"
  have f: "cp_TransactionID (pa_Plan pa) = tx_ID (tj_Transaction p)"
    "cp_Attempt (pa_Plan pa) = tx_Attempt (tj_Transaction p)"
    "cp_IntentDigest (pa_Plan pa) = tx_IntentDigest (tj_Transaction p)"
    "cp_EffectSetDigest (pa_Plan pa) = tx_EffectSetDigest (tj_Transaction p)"
    "cp_StagedStateDigest (pa_Plan pa) = tx_StagedStateDigest (tj_Transaction p)"
    "map st_EffectID (cp_Steps (pa_Plan pa)) = releaseEffectIDs (tj_Effects p)"
    by (subst plan [folded d0_def], simp add: draftPlan_def Let_def commitSteps_effects)+
  have "tx_State (tj_Transaction p) = TransactionValidating"
    using c by (simp add: checkPreparation_def)
  with f d v assms(2) show ?thesis
    by (simp add: applyCommitPlan_def Let_def)
qed

lemma prepared_package_applies:
  assumes "PrepareAuthority H p decision policyDigest release now = Inr pa"
    and "te_Payload e = ApprovalPackageFrozenPayload (pa_Approval pa)"
    and q: "q = p\<lparr>tj_CommitPlan := Some (pa_Plan pa),
      tj_Transaction := (tj_Transaction p)\<lparr>tx_CommitPlanDigest := cp_Digest (pa_Plan pa)\<rparr>\<rparr>"
  shows "applyApprovalPackage H q e = Inr (q\<lparr>tj_ApprovalPackage := Some (pa_Approval pa),
    tj_Transaction := (tj_Transaction q)\<lparr>tx_ApprovalPackageDigest := ap_Digest (pa_Approval pa)\<rparr>\<rparr>)"
proof (rule PrepareAuthority_Inr [OF assms(1)])
  fix compensation
  assume c: "checkPreparation p decision policyDigest release now = None"
    and pkg: "pa_Approval pa = (draftPackage H p decision policyDigest release now (cp_Digest (pa_Plan pa)))
       \<lparr>ap_Digest := ap_Digest (pa_Approval pa)\<rparr>"
    and d: "ComputeApprovalPackageDigest H (pa_Approval pa) = Some (ap_Digest (pa_Approval pa))"
    and v: "ApprovalPackage_Validate (pa_Approval pa) = None"
  define d0 where "d0 = ap_Digest (pa_Approval pa)"
  have f: "ap_TransactionID (pa_Approval pa) = tx_ID (tj_Transaction p)"
    "ap_Attempt (pa_Approval pa) = tx_Attempt (tj_Transaction p)"
    "ap_IntentDigest (pa_Approval pa) = tx_IntentDigest (tj_Transaction p)"
    "ap_EffectSetDigest (pa_Approval pa) = tx_EffectSetDigest (tj_Transaction p)"
    "ap_StagedStateDigest (pa_Approval pa) = tx_StagedStateDigest (tj_Transaction p)"
    "ap_CommitPlanDigest (pa_Approval pa) = cp_Digest (pa_Plan pa)"
    "ap_VerificationResultIDs (pa_Approval pa) = tx_VerificationResultIDs (tj_Transaction p)"
    by (subst pkg [folded d0_def], simp add: draftPackage_def Let_def)+
  have "tx_State (tj_Transaction p) = TransactionValidating"
    using c by (simp add: checkPreparation_def)
  with f d v assms(2) show ?thesis
    by (simp add: applyApprovalPackage_def Let_def q)
qed

end
