(* ===== verification/Transaction_Events.thy ===== *)
theory Transaction_Events
  imports Transaction_Policy Event_Log
begin

text \<open>
  Authoring transaction events: \<^verbatim>\<open>internal/kernel/transaction/event.go\<close>. As for runs, \<open>encodable\<close> says
  which payloads \<^verbatim>\<open>json.Marshal\<close> accepts. An authored event passes the checks that the reducer
  makes before it looks at the payload.
\<close>

definition CreationEvent :: "(TransactionPayload \<Rightarrow> bool) \<Rightarrow> Hashing \<Rightarrow> AgentTransaction \<Rightarrow> Principal \<Rightarrow>
    TransactionEvent option" where
  "CreationEvent encodable H tx actor =
     (if \<not> encodable (TransactionCreatedPayload tx) then None
      else let event = \<lparr>te_Version = ''gatemole.transaction_event.v0'', te_ID = EventID H (tx_ID tx) 1,
             te_TransactionID = tx_ID tx, te_Sequence = 1, te_Type = EventTransactionCreated,
             te_Actor = actor, te_OccurredAt = tx_CreatedAt tx, te_Payload = TransactionCreatedPayload tx,
             te_Artifacts = [], te_PreviousDigest = '''', te_Digest = ''''\<rparr>
           in map_option (\<lambda>d. event\<lparr>te_Digest := d\<rparr>) (ComputeTransactionEventDigest H event))"

definition NextEvent :: "(TransactionPayload \<Rightarrow> bool) \<Rightarrow> Hashing \<Rightarrow> ProjectionTx \<Rightarrow> TransactionEventType \<Rightarrow>
    Principal \<Rightarrow> time \<Rightarrow> TransactionPayload \<Rightarrow> TransactionEvent option" where
  "NextEvent encodable H p eventType actor occurredAt payload =
     (if \<not> encodable payload then None
      else let
        tx = tj_Transaction p;
        occurredAt = (if occurredAt < tx_UpdatedAt tx then tx_UpdatedAt tx else occurredAt);
        sequence = wrap64 (tx_EventSequence tx + 1);
        event = \<lparr>te_Version = ''gatemole.transaction_event.v0'', te_ID = EventID H (tx_ID tx) sequence,
          te_TransactionID = tx_ID tx, te_Sequence = sequence, te_Type = eventType, te_Actor = actor,
          te_OccurredAt = occurredAt, te_Payload = payload, te_Artifacts = [],
          te_PreviousDigest = tj_LastEventDigest p, te_Digest = ''''\<rparr>
      in map_option (\<lambda>d. event\<lparr>te_Digest := d\<rparr>) (ComputeTransactionEventDigest H event))"

lemma NextEvent_Some:
  assumes "NextEvent encodable H p ty actor t payload = Some e"
  shows "te_Version e = ''gatemole.transaction_event.v0''"
    "te_ID e = EventID H (tx_ID (tj_Transaction p)) (te_Sequence e)"
    "te_TransactionID e = tx_ID (tj_Transaction p)"
    "te_Sequence e = wrap64 (tx_EventSequence (tj_Transaction p) + 1)"
    "te_Type e = ty" "te_Actor e = actor" "te_OccurredAt e = max t (tx_UpdatedAt (tj_Transaction p))"
    "te_Payload e = payload" "te_Artifacts e = []" "te_PreviousDigest e = tj_LastEventDigest p"
    "VerifyTransactionEventDigest H e = Some True"
  using assms
  by (auto simp: NextEvent_def VerifyTransactionEventDigest_True ComputeTransactionEventDigest_def Let_def
      split: if_splits)

lemma CreationEvent_Some:
  assumes "CreationEvent encodable H tx actor = Some e"
  shows "te_Version e = ''gatemole.transaction_event.v0''" "te_ID e = EventID H (tx_ID tx) 1"
    "te_TransactionID e = tx_ID tx" "te_Sequence e = 1" "te_Type e = EventTransactionCreated"
    "te_Actor e = actor" "te_OccurredAt e = tx_CreatedAt tx" "te_Payload e = TransactionCreatedPayload tx"
    "te_Artifacts e = []" "te_PreviousDigest e = ''''" "VerifyTransactionEventDigest H e = Some True"
  using assms
  by (auto simp: CreationEvent_def VerifyTransactionEventDigest_True ComputeTransactionEventDigest_def Let_def
      split: if_splits)

section \<open>Authored events are well formed\<close>

lemma dec_int_ident: "0 \<le> n \<Longrightarrow> list_all is_ident_char (dec_int n)"
  by (simp add: dec_int_def dec_ident)

lemma length_dec_int: "0 \<le> n \<Longrightarrow> in64 n \<Longrightarrow> length (dec_int n) \<le> 19"
  using length_dec [of "nat n" 18] by (simp add: dec_int_def in64_def max64_def nat_less_iff)

lemma EventID_identifier:
  assumes "hashing_format H" and "0 \<le> n" and "in64 n"
  shows "IsIdentifier (EventID H s n)"
proof -
  have "list_all is_ident_char (hs_Hash16 H s)" "length (hs_Hash16 H s) = 32"
    using assms(1) lower_hex_ident by (auto simp: hashing_format_def list_all_iff)
  with dec_int_ident [OF assms(2)] length_dec_int [OF assms(2,3)] show ?thesis
    by (simp add: IsIdentifier_def EventID_def is_alnum_def is_ident_char_def)
qed

lemma hashing_format_event:
  assumes "hashing_format H" and "VerifyTransactionEventDigest H e = Some True"
  shows "IsSHA256Digest (te_Digest e)"
  using assms by (auto simp: hashing_format_def VerifyTransactionEventDigest_True)

lemma NextEvent_checks:
  assumes inv: "tx_inv H p" and room: "1 \<le> tx_EventSequence (tj_Transaction p)" "tx_EventSequence (tj_Transaction p) < max64"
    and H: "hashing_format H" and time: "0 < tx_UpdatedAt (tj_Transaction p)"
    and parts: "valid_principal actor" "IsIdentifier (TransactionEventType_name ty)"
      "payload \<noteq> UndecodableTx NotOneObject" "ty \<noteq> EventTransactionCreated"
    and e: "NextEvent encodable H p ty actor t payload = Some e"
  shows "checkEventTx H e = None" "checkEnvelopeTx p e = None"
proof -
  note f = NextEvent_Some [OF e]
  have seq: "te_Sequence e = tx_EventSequence (tj_Transaction p) + 1"
    using f(4) room by (simp add: wrap64_id in64_def min64_def max64_def)
  have "IsIdentifier (te_ID e)"
    using EventID_identifier [OF H] f(2) seq room by (simp add: in64_def min64_def)
  moreover have "IsSHA256Digest (te_Digest e)" using hashing_format_event H f(11) by blast
  moreover have "tx_payload_json payload = RawObject ''''"
    using parts(3) by (cases payload rule: tx_payload_json.cases) auto
  moreover have "IsIdentifier (tx_ID (tj_Transaction p))" "IsSHA256Digest (tj_LastEventDigest p)"
    using inv by (simp_all add: tx_inv_def valid_tx_def AgentTransaction_Validate_def Let_def validate_simps)
  moreover have "tj_LastEventDigest p \<noteq> ''''"
    using calculation(5) by (auto simp: IsSHA256Digest_def hex_suffix_def)
  ultimately have "TransactionEvent_Validate e = None"
    using f seq parts room time by (simp add: TransactionEvent_Validate_def Let_def validate_simps)
  with f(11) show "checkEventTx H e = None" by (simp add: checkEventTx_None)
  show "checkEnvelopeTx p e = None" using f parts(4) by (simp add: checkEnvelopeTx_None)
qed

end
