(* ===== verification/Transaction_History.thy ===== *)
theory Transaction_History
  imports Transaction_Events
begin

text \<open>
  Invariants that relate a projection to the history it came from or to an earlier projection of the
  same history: which approvals a release rests on, what executions were started for a task, and what
  stays fixed while the effects are frozen or after a transaction has ended.
\<close>

section \<open>Verified events\<close>

lemma ReplayTx_verified:
  "ReplayTx H es = Inr p \<Longrightarrow> \<forall>e\<in>set es. VerifyTransactionEventDigest H e = Some True"
  unfolding ReplayTx_ledger
proof (induction rule: tx_ledger.replay_induct)
  case (first e p)
  then show ?case using ApplyTx_None_Inr by simp
next
  case (step es e p q)
  then show ?case by (auto elim: ApplyTx_Some_Inr)
qed

section \<open>Approvals\<close>

text \<open>An accepted event that approves a package: signed for its digest, for a required class, by the
  human who sent it, before package and decision expire.\<close>

definition approves :: "ApprovalPackage \<Rightarrow> TransactionEvent \<Rightarrow> bool" where
  "approves a e = (case te_Payload e of
     ApprovalResolvedPayload d \<Rightarrow> ad_Decision d = ApprovalApprove \<and> ad_PackageDigest d = ap_Digest a \<and>
       ad_ApprovalClass d \<in> set (ap_RequiredApprovalClasses a) \<and> ad_Approver d = te_Actor e \<and>
       pr_Kind (te_Actor e) = PrincipalHuman \<and> te_OccurredAt e < ap_ExpiresAt a \<and>
       te_OccurredAt e < ad_ExpiresAt d
   | _ \<Rightarrow> False)"

lemma approves_iff:
  "approves a e \<longleftrightarrow> (\<exists>d. te_Payload e = ApprovalResolvedPayload d \<and> ad_Decision d = ApprovalApprove \<and>
     ad_PackageDigest d = ap_Digest a \<and> ad_ApprovalClass d \<in> set (ap_RequiredApprovalClasses a) \<and>
     ad_Approver d = te_Actor e \<and> pr_Kind (te_Actor e) = PrincipalHuman \<and>
     te_OccurredAt e < ap_ExpiresAt a \<and> te_OccurredAt e < ad_ExpiresAt d)"
  by (cases "te_Payload e") (simp_all add: approves_def)

definition approval_inv :: "TransactionEvent list \<Rightarrow> ProjectionTx \<Rightarrow> bool" where
  "approval_inv es p \<longleftrightarrow> (tx_State (tj_Transaction p) \<in> release_states \<longrightarrow>
     (\<exists>a. tj_ApprovalPackage p = Some a \<and>
       (ap_RequiredApprovalClasses a = [] \<or> (\<exists>e\<in>set es. approves a e))))"

lemma ApprovalDecision_Validate_human:
  "ApprovalDecision_Validate d = None \<Longrightarrow> pr_Kind (ad_Approver d) = PrincipalHuman"
  by (simp add: ApprovalDecision_Validate_def Let_def)

lemma resolvable_approves:
  assumes "resolvable H p e a d" and "ad_Decision d = ApprovalApprove" and "package_inv H p"
  shows "approves a e" "tj_ApprovalPackage p = Some a"
proof -
  have "ap_Digest a = tx_ApprovalPackageDigest (tj_Transaction p)"
    using assms(1,3) by (simp add: resolvable_def package_inv_def bound_package_def)
  with assms(1,2) ApprovalDecision_Validate_human [of d] show "approves a e" "tj_ApprovalPackage p = Some a"
    by (auto simp: resolvable_def approves_def)
qed

lemma approval_inv_step:
  assumes inv: "approval_inv es p" and pkg: "package_inv H p" and step: "applyEventTx H p e = Inr q"
  shows "approval_inv (es @ [e]) q"
  using step
proof (cases rule: applyEventTx_cases)
  case (move payload)
  show ?thesis
    unfolding approval_inv_def
  proof
    assume "tx_State (tj_Transaction q) \<in> release_states"
    with move have to: "tc_To payload \<in> release_states" by (simp add: movedTx_def)
    have same: "tj_ApprovalPackage q = tj_ApprovalPackage p" using move by (simp add: movedTx_def)
    from move(2) to have "tx_State (tj_Transaction p) \<in> release_states \<or>
        tc_To payload = TransactionReadyToCommit"
      using release_entry unfolding allowed_change_def by metis
    then show "\<exists>a. tj_ApprovalPackage q = Some a \<and>
        (ap_RequiredApprovalClasses a = [] \<or> (\<exists>e\<in>set (es @ [e]). approves a e))"
      using inv same move(2)
      by (auto simp: approval_inv_def allowed_change_def validateStatePreconditions_def split: option.splits)
  qed
next
  case effect_status
  then show ?thesis
    by (rule applyEffectStateChange_frame) (use inv in \<open>auto simp: approval_inv_def\<close>)
next
  case (complete package decision i)
  with pkg resolvable_approves [of H p e package decision] show ?thesis
    by (auto simp: approval_inv_def approvedTx_def)
qed (use inv in \<open>auto simp: approval_inv_def release_states_def tx_result_defs resolvable_def\<close>)

lemma approval_inv_advance [simp]: "approval_inv es (advanceTx p e) = approval_inv es p"
  by (simp add: approval_inv_def)

lemma ReplayTx_approval_inv:
  assumes "ReplayTx H es = Inr p" and "list_all clean_event es"
  shows "approval_inv es p"
proof -
  from assms have "tx_inv H p \<and> approval_inv es p"
    unfolding ReplayTx_ledger
  proof (induction rule: tx_ledger.replay_induct)
    case (first e p)
    then show ?case
      using ApplyTx_first_inv [of H e p] ApplyTx_None_Inr [of H e p]
      by (simp add: approval_inv_def release_states_def)
  next
    case (step es e p q)
    then have inv: "tx_inv H p" "approval_inv es p" by simp_all
    from step.hyps(3) obtain r where r: "applyEventTx H p e = Inr r" "q = advanceTx r e"
      by (elim ApplyTx_Some_Inr)
    have "approval_inv (es @ [e]) r" using approval_inv_step [OF inv(2) _ r(1)] inv(1) by (simp add: tx_inv_def)
    with r(2) ApplyTx_step_inv [OF inv(1) step.hyps(3)] show ?case by simp
  qed
  then show ?thesis by blast
qed

section \<open>Executions of a task\<close>

definition task_inv :: "ProjectionTx \<Rightarrow> bool" where
  "task_inv p \<longleftrightarrow> (\<forall>x\<in>set (tj_Executions p). case tx_Task (tj_Transaction p) of
     None \<Rightarrow> ax_TaskDigest x = ''''
   | Some task \<Rightarrow> ax_TaskDigest x = tk_Digest task \<and> ax_RunID x = tk_RunID task \<and>
       ax_RuntimeClass x = tp_RuntimeClass (tk_AgentProfile task) \<and>
       ax_ImageDigest x = tp_ImageDigest (tk_AgentProfile task) \<and>
       ax_CommandDigest x = tp_CommandDigest (tk_AgentProfile task))"

lemma task_inv_step:
  assumes inv: "task_inv p" and step: "applyEventTx H p e = Inr q"
  shows "task_inv q"
  using step
proof (cases rule: applyEventTx_cases)
  case (finished i payload broker x)
  then have "tj_Executions p ! i \<in> set (tj_Executions p)" by simp
  with inv finished(7,9) show ?thesis
    by (auto simp: task_inv_def split: option.splits dest!: set_update_subset_insert [THEN subsetD])
next
  case effect_status
  then show ?thesis
    by (rule applyEffectStateChange_frame) (use inv in \<open>auto simp: task_inv_def\<close>)
qed (use inv in \<open>auto simp: task_inv_def tx_result_defs\<close>)

lemma ReplayTx_task_inv: "ReplayTx H es = Inr p \<Longrightarrow> task_inv p"
  unfolding ReplayTx_ledger
proof (induction rule: tx_ledger.replay_invariant)
  case (first e p)
  then show ?case using ApplyTx_None_Inr [of H e p] by (metis ProjectionTx.select_convs(2) empty_iff list.set(1) task_inv_def)
next
  case (step e p q)
  from step(2) obtain r where "applyEventTx H p e = Inr r" "q = advanceTx r e" by (elim ApplyTx_Some_Inr)
  with task_inv_step step(1) show ?case by (fastforce simp: task_inv_def)
qed

section \<open>What stays fixed\<close>

lemma wrap64_succ_neq: "in64 a \<Longrightarrow> wrap64 (a + 1) \<noteq> a"
  by (cases "a = max64") (auto simp: in64_def wrap64_def min64_def max64_def)

text \<open>While the effects are frozen, nothing their digest covers changes within the attempt.\<close>

lemma frozen_step:
  assumes inv: "tx_inv H p" and step: "ApplyTx H (Some p) e = Inr q"
    and frozen: "tx_EffectSetDigest (tj_Transaction p) \<noteq> ''''"
    and same: "tx_Attempt (tj_Transaction q) = tx_Attempt (tj_Transaction p)"
  shows "tx_EffectSetDigest (tj_Transaction q) = tx_EffectSetDigest (tj_Transaction p) \<and>
    tx_StagedStateDigest (tj_Transaction q) = tx_StagedStateDigest (tj_Transaction p) \<and>
    map immutable_effect (tj_Effects q) = map immutable_effect (tj_Effects p)"
proof -
  from step obtain r where r: "applyEventTx H p e = Inr r" and q: "q = advanceTx r e"
    by (elim ApplyTx_Some_Inr)
  have unfr: "tx_State (tj_Transaction p) \<notin> {TransactionCreated, TransactionRunning, TransactionCompletedNoEffect}"
    using inv frozen by (auto simp: tx_inv_def unfrozen_inv_def unfrozen_def clean_start_def)
  from r show ?thesis
  proof (cases rule: applyEventTx_cases)
    case (retry payload)
    have "wrap64 (tx_Attempt (tj_Transaction p) + 1) \<noteq> tx_Attempt (tj_Transaction p)"
      using inv wrap64_succ_neq by (simp add: tx_inv_def attempts_inv_def)
    with retry q same show ?thesis by (simp add: tx_result_defs)
  next
    case effect_status
    then show ?thesis by (rule applyEffectStateChange_frame) (simp add: q)
  qed (use unfr q in \<open>auto simp: tx_result_defs\<close>)
qed

text \<open>A transaction that has ended keeps everything but the status of its effects.\<close>

definition ended :: "ProjectionTx \<Rightarrow> ProjectionTx" where
  "ended p = p\<lparr>tj_Transaction := (tj_Transaction p)\<lparr>tx_EventSequence := 0, tx_UpdatedAt := 0\<rparr>,
     tj_Effects := [], tj_LastEventDigest := ''''\<rparr>"

lemma terminal_step:
  assumes step: "ApplyTx H (Some p) e = Inr q" and "TransactionState_Terminal (tx_State (tj_Transaction p))"
  shows "ended q = ended p \<and> map immutable_effect (tj_Effects q) = map immutable_effect (tj_Effects p)"
proof -
  from step obtain r where r: "applyEventTx H p e = Inr r" and q: "q = advanceTx r e"
    by (elim ApplyTx_Some_Inr)
  from applyEventTx_terminal [OF r assms(2)] show ?thesis
    by (rule applyEffectStateChange_frame) (simp add: q ended_def advanceTx_def)
qed

lemma ended_state: "ended q = ended p \<Longrightarrow> tx_State (tj_Transaction q) = tx_State (tj_Transaction p)"
proof -
  assume "ended q = ended p"
  then have "tx_State (tj_Transaction (ended q)) = tx_State (tj_Transaction (ended p))" by simp
  then show ?thesis by (simp add: ended_def)
qed

lemma ended_eqD:
  assumes "ended q = ended p"
  shows "tj_Transaction q = (tj_Transaction p)\<lparr>tx_EventSequence := tx_EventSequence (tj_Transaction q),
      tx_UpdatedAt := tx_UpdatedAt (tj_Transaction q)\<rparr>"
    and "q = p\<lparr>tj_Transaction := tj_Transaction q, tj_Effects := tj_Effects q,
      tj_LastEventDigest := tj_LastEventDigest q\<rparr>"
proof -
  have whole: "p = (ended p)\<lparr>tj_Transaction := (tj_Transaction (ended p))\<lparr>
      tx_EventSequence := tx_EventSequence (tj_Transaction p), tx_UpdatedAt := tx_UpdatedAt (tj_Transaction p)\<rparr>,
      tj_Effects := tj_Effects p, tj_LastEventDigest := tj_LastEventDigest p\<rparr>" for p
    by (simp add: ended_def)
  have t: "tj_Transaction q = (tj_Transaction (ended q))\<lparr>tx_EventSequence := tx_EventSequence (tj_Transaction q),
      tx_UpdatedAt := tx_UpdatedAt (tj_Transaction q)\<rparr>"
    by (simp add: ended_def)
  show "tj_Transaction q = (tj_Transaction p)\<lparr>tx_EventSequence := tx_EventSequence (tj_Transaction q),
      tx_UpdatedAt := tx_UpdatedAt (tj_Transaction q)\<rparr>"
    by (subst t, subst assms) (simp add: ended_def)
  have "q = (ended p)\<lparr>tj_Transaction := tj_Transaction q, tj_Effects := tj_Effects q,
      tj_LastEventDigest := tj_LastEventDigest q\<rparr>"
    using whole [of q] t by (simp add: assms)
  then show "q = p\<lparr>tj_Transaction := tj_Transaction q, tj_Effects := tj_Effects q,
      tj_LastEventDigest := tj_LastEventDigest q\<rparr>"
    by (simp add: ended_def)
qed

text \<open>The archive of superseded attempts only grows, and attempts are never renumbered.\<close>

lemma archive_step:
  assumes "tx_inv H p" and "ApplyTx H (Some p) e = Inr q"
  shows "\<exists>new. tj_SupersededAttempts q = tj_SupersededAttempts p @ new \<and>
    tx_Attempt (tj_Transaction q) = tx_Attempt (tj_Transaction p) + int (length new)"
proof -
  from assms(2) obtain r where r: "applyEventTx H p e = Inr r" and q: "q = advanceTx r e"
    by (elim ApplyTx_Some_Inr)
  have "0 \<le> tx_Attempt (tj_Transaction r)"
    using ApplyTx_step_inv [OF assms] q by (simp add: tx_inv_def attempts_inv_def)
  moreover have "wrap64 (tx_Attempt (tj_Transaction p) + 1) = tx_Attempt (tj_Transaction p) + 1"
    if "0 \<le> wrap64 (tx_Attempt (tj_Transaction p) + 1)"
    using that assms(1) by (cases "tx_Attempt (tj_Transaction p) = max64")
      (auto simp: tx_inv_def attempts_inv_def in64_def wrap64_def min64_def max64_def)
  ultimately show ?thesis using applyEventTx_attempts [OF r] q by auto
qed

text \<open>So the frozen effects are fixed as long as the attempt lasts.\<close>

lemma frozen_while:
  assumes "replayFromTx H (Some p) fs = Inr q" and "tx_inv H p"
    and "tx_EffectSetDigest (tj_Transaction p) \<noteq> ''''"
    and "tx_Attempt (tj_Transaction q) = tx_Attempt (tj_Transaction p)"
  shows "tx_EffectSetDigest (tj_Transaction q) = tx_EffectSetDigest (tj_Transaction p) \<and>
    tx_StagedStateDigest (tj_Transaction q) = tx_StagedStateDigest (tj_Transaction p) \<and>
    map immutable_effect (tj_Effects q) = map immutable_effect (tj_Effects p)"
proof -
  let ?same = "\<lambda>q. tx_EffectSetDigest (tj_Transaction q) = tx_EffectSetDigest (tj_Transaction p) \<and>
    tx_StagedStateDigest (tj_Transaction q) = tx_StagedStateDigest (tj_Transaction p) \<and>
    map immutable_effect (tj_Effects q) = map immutable_effect (tj_Effects p)"
  from assms(1) have "tx_inv H q \<and> tx_Attempt (tj_Transaction p) \<le> tx_Attempt (tj_Transaction q) \<and>
    (tx_Attempt (tj_Transaction q) = tx_Attempt (tj_Transaction p) \<longrightarrow> ?same q)"
  proof (induction rule: tx_ledger.replay_from_invariant)
    case start
    then show ?case using assms(2) by simp
  next
    case (step e r s)
    obtain new where "tx_Attempt (tj_Transaction s) = tx_Attempt (tj_Transaction r) + int (length (new :: AttemptSnapshot list))"
      using archive_step step by blast
    then have le: "tx_Attempt (tj_Transaction r) \<le> tx_Attempt (tj_Transaction s)" by simp
    have "?same s" if s: "tx_Attempt (tj_Transaction s) = tx_Attempt (tj_Transaction p)"
    proof -
      from s le step(1) have r: "tx_Attempt (tj_Transaction r) = tx_Attempt (tj_Transaction p)" "?same r" by auto
      with frozen_step [OF _ step(2)] step(1) s assms(3) show ?thesis by simp
    qed
    with le step ApplyTx_step_inv show ?case by fastforce
  qed
  with assms(4) show ?thesis by blast
qed

text \<open>An effect starts to commit only from the release queue of a transaction in release.\<close>

lemma commit_start_step:
  assumes "ApplyTx H (Some p) e = Inr q"
    and "i < length (tj_Effects q)" "i < length (tj_Effects p)"
    and "ef_Status (tj_Effects q ! i) = EffectCommitting" "ef_Status (tj_Effects p ! i) \<noteq> EffectCommitting"
  shows "tx_State (tj_Transaction p) \<in> {TransactionCommitting, TransactionCompensating} \<and>
    CanTransitionEffect (ef_Status (tj_Effects p ! i)) EffectCommitting"
proof -
  from assms(1) obtain r where r: "applyEventTx H p e = Inr r" and q: "q = advanceTx r e"
    by (elim ApplyTx_Some_Inr)
  from r show ?thesis
  proof (cases rule: applyEventTx_cases)
    case effect_status
    then show ?thesis
      by (rule applyEffectStateChange_Inr)
        (use assms(2-5) q in \<open>auto simp: nth_list_update validateEffectTransitionContext_def split: if_splits\<close>)
  qed (use assms(2-5) q in \<open>auto simp: tx_result_defs nth_append\<close>)
qed

section \<open>Rolled-back transactions\<close>

definition rolled_back_inv :: "ProjectionTx \<Rightarrow> bool" where
  "rolled_back_inv p \<longleftrightarrow> (tx_State (tj_Transaction p) = TransactionRolledBack \<longrightarrow>
     (\<forall>f\<in>set (tj_Effects p). releasable f \<longrightarrow>
        ef_Status f \<notin> {EffectCommitted, EffectCompensating, EffectUnknown}))"

lemma rolled_back_inv_step:
  assumes inv: "rolled_back_inv p" and step: "applyEventTx H p e = Inr q"
  shows "rolled_back_inv q"
  using step
proof (cases rule: applyEventTx_cases)
  case (move payload)
  then show ?thesis
    by (auto simp: rolled_back_inv_def releasable_def movedTx_def allowed_change_def
        validateStatePreconditions_def list_ex_iff)
next
  case effect_status
  then show ?thesis
  proof (rule applyEffectStateChange_Inr)
    fix i payload f
    assume ctx: "validateEffectTransitionContext (tx_State (tj_Transaction p)) (fc_From payload) (fc_To payload) = None"
      and f: "f = (tj_Effects p ! i)\<lparr>ef_Status := fc_To payload,
       ef_Receipt := (if fc_Receipt payload \<noteq> None then fc_Receipt payload else ef_Receipt (tj_Effects p ! i)),
       ef_CompensationReceipt := (if fc_CompensationReceipt payload \<noteq> None
         then fc_CompensationReceipt payload else ef_CompensationReceipt (tj_Effects p ! i)),
       ef_UpdatedAt := te_OccurredAt e\<rparr>"
      and q: "q = p\<lparr>tj_Effects := (tj_Effects p)[i := f]\<rparr>"
    have "ef_Status f \<notin> {EffectCommitted, EffectCompensating, EffectUnknown}"
      if "tx_State (tj_Transaction p) = TransactionRolledBack"
      using ctx that by (auto simp: f validateEffectTransitionContext_def)
    with inv q show ?thesis
      using set_update_subset_insert [of "tj_Effects p" i f] by (auto simp: rolled_back_inv_def)
  qed
qed (use inv in \<open>auto simp: rolled_back_inv_def tx_result_defs resolvable_def\<close>)

lemma rolled_back_inv_advance [simp]: "rolled_back_inv (advanceTx p e) = rolled_back_inv p"
  by (simp add: rolled_back_inv_def)

lemma ReplayTx_rolled_back_inv: "ReplayTx H es = Inr p \<Longrightarrow> rolled_back_inv p"
  unfolding ReplayTx_ledger
proof (induction rule: tx_ledger.replay_invariant)
  case (first e p)
  then have "tx_State (tj_Transaction p) = TransactionCreated" using ApplyTx_None_Inr by blast
  then show ?case by (simp add: rolled_back_inv_def)
next
  case (step e p q)
  from step(2) obtain r where "applyEventTx H p e = Inr r" "q = advanceTx r e" by (elim ApplyTx_Some_Inr)
  with rolled_back_inv_step [OF step(1)] show ?case by simp
qed

section \<open>Resolving an approval\<close>

lemma remove_at_first:
  "stringIndex xs x = Some i \<Longrightarrow> removeString xs i = remove1 x xs"
proof (induction xs arbitrary: i)
  case Nil
  then show ?case by (simp add: stringIndex_def)
next
  case (Cons y ys)
  then show ?case
    by (cases i) (auto simp: stringIndex_def removeString_def remove_at_def split: if_splits)
qed

lemma resolution_step:
  assumes "applyApprovalResolution H p e = Inr q"
  shows "\<exists>package d. resolvable H p e package d \<and> (case ad_Decision d of
       ApprovalApprove \<Rightarrow>
         tx_OutstandingApprovalIDs (tj_Transaction q) =
           remove1 (ad_ApprovalID d) (tx_OutstandingApprovalIDs (tj_Transaction p)) \<and>
         tj_ApprovalDigests q = tj_ApprovalDigests p @ [ad_Digest d] \<and>
         tx_State (tj_Transaction q) = (if tx_OutstandingApprovalIDs (tj_Transaction q) = []
           then TransactionReadyToCommit else TransactionPendingApproval)
     | ApprovalReject \<Rightarrow> tx_State (tj_Transaction q) = TransactionBlocked \<and>
         tx_OutstandingApprovalIDs (tj_Transaction q) = []
     | ApprovalRevise \<Rightarrow> tx_State (tj_Transaction q) = TransactionReviseRequired \<and>
         tx_OutstandingApprovalIDs (tj_Transaction q) = []
     | OtherApprovalDecision _ \<Rightarrow> False)"
  using assms
proof (cases rule: applyApprovalResolution_Inr)
  case (approve_more package d i)
  then show ?thesis
    by (intro exI [of _ package] exI [of _ d]) (simp add: approvedTx_def remove_at_first resolvable_def)
next
  case (complete package d i)
  then show ?thesis
    by (intro exI [of _ package] exI [of _ d]) (simp add: approvedTx_def remove_at_first)
next
  case (refuse package d s)
  then show ?thesis
    by (intro exI [of _ package] exI [of _ d]) auto
qed

end
