(* ===== verification/Transaction_Examples.thy ===== *)
theory Transaction_Examples
  imports Transaction_Events Run_Examples
begin

text \<open>
  One concrete transaction history on which the theorems about transactions are applied: created,
  started, given a stage boundary, one successful execution, one staged effect, frozen, verified by
  the platform, planned, packaged, approved by a human, released and committed. The hash is
  instantiated by a function whose event digests differ by sequence number.
\<close>

definition step_digest :: "nat \<Rightarrow> string" where
  "step_digest n = ''sha256:'' @ replicate n (CHR ''a'') @ replicate (64 - n) (CHR ''0'')"

definition ex_H :: Hashing where
  "ex_H = \<lparr>hs_Bytes = (\<lambda>_. step_digest 50), hs_Hash16 = (\<lambda>_. replicate 32 (CHR ''0'')),
     hs_Task = (\<lambda>_. Some (step_digest 51)), hs_Effects = (\<lambda>_. Some (step_digest 52)),
     hs_CommitPlan = (\<lambda>_. Some (step_digest 53)), hs_ApprovalPackage = (\<lambda>_. Some (step_digest 54)),
     hs_ApprovalDecision = (\<lambda>_. Some (step_digest 55)),
     hs_Event = (\<lambda>e. Some (step_digest (nat (te_Sequence e) mod 50))),
     hs_Strings = (\<lambda>_. Some (step_digest 56)), hs_Struct = (\<lambda>_. Some (step_digest 57)),
     hs_Policy = (\<lambda>_ n. Some (step_digest (nat n mod 50)))\<rparr>"

definition ex_human :: Principal where
  "ex_human = \<lparr>pr_ID = ''human:alice'', pr_Kind = PrincipalHuman, pr_Issuer = '''', pr_ClaimsDigest = ''''\<rparr>"

definition ex_daemon :: Principal where
  "ex_daemon = \<lparr>pr_ID = ''service:d'', pr_Kind = PrincipalService, pr_Issuer = '''', pr_ClaimsDigest = ''''\<rparr>"

definition ex_tx :: AgentTransaction where
  "ex_tx = \<lparr>tx_Version = ''gatemole.agent_transaction.v0'', tx_ID = ''tx:1'', tx_Namespace = ''team'',
     tx_Attempt = 1, tx_IntentDigest = step_digest 40, tx_Task = None, tx_Admission = None,
     tx_Sponsor = ex_human, tx_AgentRunIDs = [''run:1''], tx_StageBindings = [],
     tx_State = TransactionCreated, tx_StateReason = '''', tx_EffectIDs = [], tx_VerificationResultIDs = [],
     tx_OutstandingApprovalIDs = [], tx_StagedStateDigest = '''', tx_EffectSetDigest = '''',
     tx_ApprovalPackageDigest = '''', tx_CommitPlanDigest = '''', tx_EventSequence = 1,
     tx_CreatedAt = 1000, tx_UpdatedAt = 1000, tx_CompletedAt = None\<rparr>"

definition ex_tx_event :: "nat \<Rightarrow> Principal \<Rightarrow> TransactionEventType \<Rightarrow> TransactionPayload \<Rightarrow> TransactionEvent" where
  "ex_tx_event n actor ty payload = \<lparr>te_Version = ''gatemole.transaction_event.v0'', te_ID = ex_event_id n,
     te_TransactionID = ''tx:1'', te_Sequence = int n, te_Type = ty, te_Actor = actor,
     te_OccurredAt = 999 + int n, te_Payload = payload, te_Artifacts = [],
     te_PreviousDigest = (if n = 1 then '''' else step_digest (n - 1)), te_Digest = step_digest n\<rparr>"

definition ex_move :: "nat \<Rightarrow> TransactionState \<Rightarrow> TransactionState \<Rightarrow> string list \<Rightarrow> TransactionEvent" where
  "ex_move n s t ids = ex_tx_event n ex_daemon EventTransactionStateChanged (TransactionStateChanged
     \<lparr>tc_From = s, tc_To = t, tc_Reason = '''', tc_OutstandingApprovalIDs = ids\<rparr>)"

definition ex_binding :: StageBinding where
  "ex_binding = \<lparr>sb_ID = ''stage:1'', sb_Kind = ''git'', sb_Resource = \<lparr>rs_Kind = ''git'', rs_Pattern = ''repo''\<rparr>,
     sb_Location = ''stages/1'', sb_BaseRevision = ''abc'', sb_CreatedAt = 1002\<rparr>"

definition ex_execution :: AgentExecution where
  "ex_execution = \<lparr>ax_Version = ''gatemole.agent_execution.v0'', ax_ID = ''exec:1'', ax_TransactionID = ''tx:1'',
     ax_Attempt = 1, ax_RunID = ''run:1'', ax_StageBindingID = ''stage:1'', ax_Program = ''agent'',
     ax_CommandDigest = step_digest 41, ax_RuntimeClass = ''host'', ax_RuntimeConfigDigest = step_digest 42,
     ax_ImageDigest = '''', ax_TaskDigest = '''', ax_ModelBroker = None, ax_Status = AgentExecutionRunning,
     ax_ExitCode = None, ax_StdoutDigest = '''', ax_StderrDigest = '''', ax_StartedAt = 1003, ax_CompletedAt = None\<rparr>"

definition ex_effect :: Effect where
  "ex_effect = \<lparr>ef_Version = ''gatemole.effect.v0'', ef_ID = ''effect:1'', ef_TransactionID = ''tx:1'',
     ef_Attempt = 1, ef_Sequence = 1, ef_RunID = ''run:1'', ef_OriginExecutionID = ''exec:1'',
     ef_OriginActionID = '''', ef_System = ''git'', ef_Resource = \<lparr>rs_Kind = ''git'', rs_Pattern = ''repo''\<rparr>,
     ef_Operation = ''git.commit'', ef_Arguments = RawObject ''{}'', ef_ArgumentsDigest = step_digest 43,
     ef_Dependencies = [], ef_EstimatedScope = \<lparr>es_Rows = None, es_Bytes = None, es_Objects = None\<rparr>,
     ef_DataClassification = '''', ef_RecoveryClass = RecoveryStageable, ef_Status = EffectStaged,
     ef_IdempotencyKey = ''key:1'',
     ef_StageRef = Some \<lparr>ref_URI = ''stage'', ref_Digest = step_digest 44, ref_MediaType = ''''\<rparr>,
     ef_BeforeStateRef = None, ef_Compensation = None, ef_Receipt = None, ef_CompensationReceipt = None,
     ef_CreatedAt = 1005, ef_UpdatedAt = 1005\<rparr>"

definition ex_effect_move :: "nat \<Rightarrow> EffectStatus \<Rightarrow> EffectStatus \<Rightarrow> EffectReceipt option \<Rightarrow> TransactionEvent" where
  "ex_effect_move n s t r = ex_tx_event n ex_daemon EventEffectStateChanged (EffectStateChanged
     \<lparr>fc_EffectID = ''effect:1'', fc_From = s, fc_To = t, fc_Receipt = r, fc_CompensationReceipt = None\<rparr>)"

definition ex_result :: VerificationResult where
  "ex_result = \<lparr>vr_Version = ''gatemole.verification_result.v0'', vr_ID = ''ver:1'', vr_TransactionID = ''tx:1'',
     vr_Attempt = 1, vr_Name = ''tests'', vr_Kind = VerificationPostcondition, vr_Status = VerificationPassed,
     vr_EffectSetDigest = step_digest 52, vr_StagedStateDigest = step_digest 45, vr_Verifier = ex_daemon,
     vr_Independence = VerificationPlatformRun, vr_VerifierDigest = step_digest 46,
     vr_InputsDigest = step_digest 47,
     vr_Evidence = [\<lparr>ref_URI = ''log'', ref_Digest = step_digest 48, ref_MediaType = ''''\<rparr>],
     vr_Summary = ''passed'', vr_EvaluatedAt = 1008, vr_ExpiresAt = Some 5000\<rparr>"

definition ex_plan :: CommitPlan where
  "ex_plan = \<lparr>cp_Version = ''gatemole.commit_plan.v0'', cp_ID = ''plan:1'', cp_TransactionID = ''tx:1'',
     cp_Attempt = 1, cp_IntentDigest = step_digest 40, cp_EffectSetDigest = step_digest 52,
     cp_StagedStateDigest = step_digest 45, cp_PolicyDigest = step_digest 49, cp_Connector = ''git'',
     cp_Target = \<lparr>rs_Kind = ''git'', rs_Pattern = ''repo''\<rparr>, cp_ExpectedResourceVersion = ''abc'',
     cp_Steps = [\<lparr>st_Sequence = 1, st_EffectID = ''effect:1'', st_DependsOn = [],
       st_PreconditionIDs = [''ver:1''], st_IdempotencyKey = ''key:1'', st_TimeoutSeconds = 60,
       st_RequiresReceipt = True\<rparr>],
     cp_CompensationSteps = [], cp_IrreversibleEffectIDs = [], cp_ManualRecoveryRef = None,
     cp_Digest = step_digest 53, cp_CreatedAt = 1010\<rparr>"

definition ex_package :: ApprovalPackage where
  "ex_package = \<lparr>ap_Version = ''gatemole.approval_package.v0'', ap_ID = ''package:1'', ap_TransactionID = ''tx:1'',
     ap_Attempt = 1, ap_IntentDigest = step_digest 40, ap_EffectSetDigest = step_digest 52,
     ap_StagedStateDigest = step_digest 45, ap_PolicyDigest = step_digest 49,
     ap_CommitPlanDigest = step_digest 53, ap_VerificationResultIDs = [''ver:1''], ap_RiskFindings = [],
     ap_RequiredApprovalClasses = [''security-reviewer''], ap_Summary = ''release'',
     ap_Digest = step_digest 54, ap_CreatedAt = 1011, ap_ExpiresAt = 6000\<rparr>"

definition ex_decision :: ApprovalDecision where
  "ex_decision = \<lparr>ad_Version = ''gatemole.approval_decision.v0'', ad_ID = ''decision:1'',
     ad_TransactionID = ''tx:1'', ad_ApprovalID = ''approval:1'', ad_PackageDigest = step_digest 54,
     ad_ApprovalClass = ''security-reviewer'', ad_Decision = ApprovalApprove, ad_Reason = '''',
     ad_Approver = ex_human, ad_KeyID = ''key:a'', ad_IssuedAt = 1012, ad_ExpiresAt = 5000,
     ad_Nonce = ''n1'', ad_Digest = step_digest 55,
     ad_SignatureBase64 = replicate 86 (CHR ''A'') @ ''==''\<rparr>"

definition ex_receipt :: EffectReceipt where
  "ex_receipt = \<lparr>er_Driver = ''git'', er_OperationID = ''op:1'', er_ResultDigest = step_digest 48,
     er_ResourceVersion = ''def'', er_CommittedAt = 1016\<rparr>"

definition ex_approval_event :: TransactionEvent where
  "ex_approval_event = ex_tx_event 14 ex_human EventApprovalResolved (ApprovalResolvedPayload ex_decision)"

definition ex_tx_history :: "TransactionEvent list" where
  "ex_tx_history =
    [ex_tx_event 1 ex_human EventTransactionCreated (TransactionCreatedPayload ex_tx),
     ex_move 2 TransactionCreated TransactionRunning [],
     ex_tx_event 3 ex_daemon EventStageBindingCreated (StageBindingCreatedPayload ex_binding),
     ex_tx_event 4 ex_daemon EventAgentExecutionStarted (AgentExecutionStartedPayload ex_execution),
     ex_tx_event 5 ex_daemon EventAgentExecutionFinished (AgentExecutionFinished
       \<lparr>af_ExecutionID = ''exec:1'', af_Status = AgentExecutionSucceeded, af_ExitCode = Some 0,
        af_StdoutDigest = step_digest 41, af_StderrDigest = step_digest 42, af_ModelBroker = None\<rparr>),
     ex_tx_event 6 ex_daemon EventEffectAdded (EffectAddedPayload ex_effect),
     ex_tx_event 7 ex_daemon EventTransactionStaged (TransactionStagedP
       \<lparr>sg_StagedStateDigest = step_digest 45, sg_EffectSetDigest = step_digest 52\<rparr>),
     ex_move 8 TransactionStaged TransactionValidating [],
     ex_tx_event 9 ex_daemon EventVerificationRecorded (VerificationRecordedPayload ex_result),
     ex_effect_move 10 EffectStaged EffectValidated None,
     ex_tx_event 11 ex_daemon EventCommitPlanFrozen (CommitPlanFrozenPayload ex_plan),
     ex_tx_event 12 ex_daemon EventApprovalPackageFrozen (ApprovalPackageFrozenPayload ex_package),
     ex_move 13 TransactionValidating TransactionPendingApproval [''approval:1''],
     ex_approval_event,
     ex_effect_move 15 EffectValidated EffectReleaseReady None,
     ex_move 16 TransactionReadyToCommit TransactionCommitting [],
     ex_effect_move 17 EffectReleaseReady EffectCommitting None,
     ex_effect_move 18 EffectCommitting EffectCommitted (Some ex_receipt),
     ex_move 19 TransactionCommitting TransactionCommitted []]"

section \<open>Evaluating the history\<close>

lemma step_digest_valid [example_simps]: "n \<le> 64 \<Longrightarrow> IsSHA256Digest (step_digest n)"
proof -
  assume "n \<le> 64"
  moreover have "is_lower_hex (CHR ''a'')" "is_lower_hex (CHR ''0'')" by code_simp+
  ultimately show ?thesis
    by (simp add: IsSHA256Digest_def hex_suffix_def step_digest_def list_all_iff ball_Un)
qed

lemma step_digest_nonempty [example_simps, simp]: "step_digest n \<noteq> []"
  by (simp add: step_digest_def)

lemma step_digest_eq_iff [example_simps, simp]:
  "m \<le> 64 \<Longrightarrow> n \<le> 64 \<Longrightarrow> step_digest m = step_digest n \<longleftrightarrow> m = n"
proof
  assume "step_digest m = step_digest n"
  then have "filter (\<lambda>c. c = CHR ''a'') (step_digest m) = filter (\<lambda>c. c = CHR ''a'') (step_digest n)" by simp
  then show "m = n" by (simp add: step_digest_def)
qed simp

lemma ex_tx_identifiers [example_simps]:
  "IsIdentifier ''tx:1''" "IsIdentifier ''team''" "IsIdentifier ''run:1''" "IsIdentifier ''human:alice''"
  "IsIdentifier ''service:d''" "IsIdentifier ''stage:1''" "IsIdentifier ''git''"
  "IsIdentifier ''exec:1''" "IsIdentifier ''effect:1''" "IsIdentifier ''git.commit''" "IsIdentifier ''key:1''"
  "IsIdentifier ''ver:1''" "IsIdentifier ''tests''" "IsIdentifier ''plan:1''" "IsIdentifier ''package:1''"
  "IsIdentifier ''security-reviewer''" "IsIdentifier ''decision:1''" "IsIdentifier ''approval:1''"
  "IsIdentifier ''key:a''" "IsIdentifier ''n1''" "IsIdentifier ''op:1''"
  by code_simp+

lemma ex_tx_types [example_simps]:
  "IsIdentifier (TransactionEventType_name EventTransactionCreated)"
  "IsIdentifier (TransactionEventType_name EventTransactionStateChanged)"
  "IsIdentifier (TransactionEventType_name EventEffectAdded)"
  "IsIdentifier (TransactionEventType_name EventStageBindingCreated)"
  "IsIdentifier (TransactionEventType_name EventEffectStateChanged)"
  "IsIdentifier (TransactionEventType_name EventTransactionStaged)"
  "IsIdentifier (TransactionEventType_name EventVerificationRecorded)"
  "IsIdentifier (TransactionEventType_name EventVerificationSuperseded)"
  "IsIdentifier (TransactionEventType_name EventCommitPlanFrozen)"
  "IsIdentifier (TransactionEventType_name EventApprovalPackageFrozen)"
  "IsIdentifier (TransactionEventType_name EventAuthorityRenewed)"
  "IsIdentifier (TransactionEventType_name EventApprovalResolved)"
  "IsIdentifier (TransactionEventType_name EventAgentExecutionStarted)"
  "IsIdentifier (TransactionEventType_name EventAgentExecutionFinished)"
  by code_simp+

lemma ex_tx_chars [example_simps]:
  "is_alnum (CHR ''r'')" "is_alnum (CHR ''s'')" "is_alnum (CHR ''a'')" "is_alnum (CHR ''l'')"
  "is_alnum (CHR ''p'')" "is_alnum (CHR ''d'')"
  by code_simp+

lemma ex_principals_valid [example_simps]: "valid_principal ex_human" "valid_principal ex_daemon"
  "pr_Kind ex_human = PrincipalHuman" "pr_Kind ex_daemon = PrincipalService"
  by (simp_all add: valid_principal_def ex_human_def ex_daemon_def example_simps)

lemma ex_tx_event_valid:
  assumes "IsIdentifier (TransactionEventType_name ty)" "tx_payload_json payload = RawObject ''''"
    "valid_principal actor" "1 \<le> n" "n < 50"
  shows "checkEventTx ex_H (ex_tx_event n actor ty payload) = None"
proof -
  have "TransactionEvent_Validate (ex_tx_event n actor ty payload) = None"
    using assms
    by (cases "n = 1") (simp_all add: TransactionEvent_Validate_def ex_tx_event_def Let_def validate_simps
        example_simps)
  moreover have "VerifyTransactionEventDigest ex_H (ex_tx_event n actor ty payload) = Some True"
    using assms(5) by (simp add: VerifyTransactionEventDigest_True ex_H_def ex_tx_event_def)
  ultimately show ?thesis by (simp add: checkEventTx_None)
qed

lemma ex_execution_valid: "AgentExecution_Validate ex_execution = None"
  by (simp add: AgentExecution_Validate_def ex_execution_def Let_def validate_simps example_simps has_nul_def
      validateModelBroker_def validateRunningExecution_def optionalDigest_def)

lemma ex_effect_valid: "Effect_Validate ex_effect = None"
  by (simp add: Effect_Validate_def ex_effect_def Let_def validate_simps example_simps optionalIdentifier_def
      validateCompensation_def effectStatusRequiresStage_def effectStatusRequiresReleaseMetadata_def
      effectStatusRequiresReceipt_def)

lemma ex_result_valid: "VerificationResult_Validate ex_result = None"
  by (simp add: VerificationResult_Validate_def ex_result_def Let_def validate_simps example_simps)

lemma ex_plan_valid: "CommitPlan_Validate ex_plan = None"
  by (simp add: CommitPlan_Validate_def ex_plan_def Let_def validate_simps example_simps has_nul_def
      optionalIdentifier_def compensation_misordered_def)

lemma ex_package_valid: "ApprovalPackage_Validate ex_package = None"
  by (simp add: ApprovalPackage_Validate_def ex_package_def Let_def validate_simps example_simps)

lemma ex_decision_valid: "ApprovalDecision_Validate ex_decision = None"
proof -
  have "map_option length (base64_decode (ad_SignatureBase64 ex_decision)) = Some 64"
    by code_simp
  then obtain bs where "base64_decode (ad_SignatureBase64 ex_decision) = Some bs" "length bs = 64"
    by auto
  then show ?thesis
    by (simp add: ApprovalDecision_Validate_def Let_def)
      (simp add: ex_decision_def validate_simps example_simps)
qed

lemma ex_tx_valid: "AgentTransaction_Validate ex_H ex_tx = None"
  by (simp add: AgentTransaction_Validate_def ex_tx_def Let_def validate_simps example_simps
      validateStageBindings_def validateTaskBinding_def validateAdmissionBinding_def optionalDigest_def
      transactionStateRequiresReason_def transactionStateRequiresFrozenEffects_def
      transactionStateRequiresCommitPlan_def)

text \<open>The projections along the history.\<close>

definition ex_q1 :: ProjectionTx where
  "ex_q1 = \<lparr>tj_Transaction = ex_tx, tj_Executions = [], tj_Effects = [], tj_Verifications = [],
     tj_SupersededVerifications = [], tj_CommitPlan = None, tj_ApprovalPackage = None,
     tj_ApprovalDigests = [], tj_SupersededAuthorities = [], tj_SupersededAttempts = [],
     tj_LastEventDigest = step_digest 1\<rparr>"

text \<open>\<open>ex_next n f q\<close>: the fields written after event \<open>n\<close>.\<close>

definition ex_next :: "nat \<Rightarrow> (AgentTransaction \<Rightarrow> AgentTransaction) \<Rightarrow> ProjectionTx \<Rightarrow> ProjectionTx" where
  "ex_next n f q = q\<lparr>tj_Transaction := (f (tj_Transaction q))\<lparr>tx_EventSequence := int n, tx_UpdatedAt := 999 + int n\<rparr>,
     tj_LastEventDigest := step_digest n\<rparr>"

definition ex_q2 :: ProjectionTx where "ex_q2 = ex_next 2 (\<lambda>t. t\<lparr>tx_State := TransactionRunning\<rparr>) ex_q1"
definition ex_q3 :: ProjectionTx where "ex_q3 = ex_next 3 (\<lambda>t. t\<lparr>tx_StageBindings := [ex_binding]\<rparr>) ex_q2"
definition ex_q4 :: ProjectionTx where "ex_q4 = ex_next 4 id (ex_q3\<lparr>tj_Executions := [ex_execution]\<rparr>)"
definition ex_q5 :: ProjectionTx where
  "ex_q5 = ex_next 5 id (ex_q4\<lparr>tj_Executions := [ex_execution\<lparr>ax_Status := AgentExecutionSucceeded,
     ax_ExitCode := Some 0, ax_StdoutDigest := step_digest 41, ax_StderrDigest := step_digest 42,
     ax_CompletedAt := Some 1004\<rparr>]\<rparr>)"
definition ex_q6 :: ProjectionTx where
  "ex_q6 = ex_next 6 (\<lambda>t. t\<lparr>tx_EffectIDs := [''effect:1'']\<rparr>) (ex_q5\<lparr>tj_Effects := [ex_effect]\<rparr>)"
definition ex_q7 :: ProjectionTx where
  "ex_q7 = ex_next 7 (\<lambda>t. t\<lparr>tx_State := TransactionStaged, tx_StagedStateDigest := step_digest 45,
     tx_EffectSetDigest := step_digest 52\<rparr>) ex_q6"
definition ex_q8 :: ProjectionTx where "ex_q8 = ex_next 8 (\<lambda>t. t\<lparr>tx_State := TransactionValidating\<rparr>) ex_q7"
definition ex_q9 :: ProjectionTx where
  "ex_q9 = ex_next 9 (\<lambda>t. t\<lparr>tx_VerificationResultIDs := [''ver:1'']\<rparr>) (ex_q8\<lparr>tj_Verifications := [ex_result]\<rparr>)"
definition ex_q10 :: ProjectionTx where
  "ex_q10 = ex_next 10 id (ex_q9\<lparr>tj_Effects := [ex_effect\<lparr>ef_Status := EffectValidated, ef_UpdatedAt := 1009\<rparr>]\<rparr>)"
definition ex_q11 :: ProjectionTx where
  "ex_q11 = ex_next 11 (\<lambda>t. t\<lparr>tx_CommitPlanDigest := step_digest 53\<rparr>) (ex_q10\<lparr>tj_CommitPlan := Some ex_plan\<rparr>)"
definition ex_q12 :: ProjectionTx where
  "ex_q12 = ex_next 12 (\<lambda>t. t\<lparr>tx_ApprovalPackageDigest := step_digest 54\<rparr>)
     (ex_q11\<lparr>tj_ApprovalPackage := Some ex_package\<rparr>)"
definition ex_q13 :: ProjectionTx where
  "ex_q13 = ex_next 13 (\<lambda>t. t\<lparr>tx_State := TransactionPendingApproval,
     tx_OutstandingApprovalIDs := [''approval:1'']\<rparr>) ex_q12"
definition ex_q14 :: ProjectionTx where
  "ex_q14 = ex_next 14 (\<lambda>t. t\<lparr>tx_State := TransactionReadyToCommit, tx_OutstandingApprovalIDs := []\<rparr>)
     (ex_q13\<lparr>tj_ApprovalDigests := [step_digest 55]\<rparr>)"
definition ex_q15 :: ProjectionTx where
  "ex_q15 = ex_next 15 id (ex_q14\<lparr>tj_Effects := [ex_effect\<lparr>ef_Status := EffectReleaseReady, ef_UpdatedAt := 1014\<rparr>]\<rparr>)"
definition ex_q16 :: ProjectionTx where "ex_q16 = ex_next 16 (\<lambda>t. t\<lparr>tx_State := TransactionCommitting\<rparr>) ex_q15"
definition ex_q17 :: ProjectionTx where
  "ex_q17 = ex_next 17 id (ex_q16\<lparr>tj_Effects := [ex_effect\<lparr>ef_Status := EffectCommitting, ef_UpdatedAt := 1016\<rparr>]\<rparr>)"
definition ex_q18 :: ProjectionTx where
  "ex_q18 = ex_next 18 id (ex_q17\<lparr>tj_Effects := [ex_effect\<lparr>ef_Status := EffectCommitted,
     ef_Receipt := Some ex_receipt, ef_UpdatedAt := 1017\<rparr>]\<rparr>)"
definition ex_q19 :: ProjectionTx where
  "ex_q19 = ex_next 19 (\<lambda>t. t\<lparr>tx_State := TransactionCommitted, tx_CompletedAt := Some 1018\<rparr>) ex_q18"

lemmas ex_q_defs = ex_q1_def ex_q2_def ex_q3_def ex_q4_def ex_q5_def ex_q6_def ex_q7_def ex_q8_def ex_q9_def
  ex_q10_def ex_q11_def ex_q12_def ex_q13_def ex_q14_def ex_q15_def ex_q16_def ex_q17_def ex_q18_def ex_q19_def
  ex_next_def

lemmas ex_tx_eval = AgentTransaction_Validate_def Let_def validate_simps example_simps
  validateStageBindings_def validateTaskBinding_def validateAdmissionBinding_def optionalDigest_def
  transactionStateRequiresReason_def transactionStateRequiresFrozenEffects_def
  transactionStateRequiresCommitPlan_def ex_binding_def has_nul_def

lemmas ex_tx_ops = applyEventTx_def decodePayload_def checkEnvelopeTx_def advanceTx_def ex_tx_event_def
  ex_move_def ex_effect_move_def wrap64_def applyStateChange_def CanTransitionTx_def stateRequiresReasonTx_def
  validateStatePreconditions_def applyCompletionTime_def invalidateFrozenState_def
  requireNoFailedVerification_def requirePassingVerification_def requireAllEffectsStatus_def

lemma ex_tx_events_check: "list_all (\<lambda>e. checkEventTx ex_H e = None) ex_tx_history"
  unfolding ex_tx_history_def ex_move_def ex_effect_move_def ex_approval_event_def
  by (simp only: list.pred_inject simp_thms, intro conjI; rule ex_tx_event_valid; simp add: example_simps del: TransactionEventType_name.simps)

lemma ex_tx_nth_check: "i < 19 \<Longrightarrow> checkEventTx ex_H (ex_tx_history ! i) = None"
  using ex_tx_events_check by (simp add: list_all_length) (simp add: ex_tx_history_def)

lemma ex_step1: "ApplyTx ex_H None (ex_tx_history ! 0) = Inr ex_q1"
  using ex_tx_nth_check [of 0]
  by (simp add: ApplyTx.simps)
    (simp add: applyCreationTx_def ex_tx_history_def decodePayload_def ex_q1_def
        ex_tx_event_def ex_tx_valid, simp add: ex_tx_def)

text \<open>
  In each step the event's own checks are known to pass, the operation is evaluated on the concrete
  projection, and the result is compared with the next one.
\<close>

lemma ApplyTx_eval:
  assumes "checkEventTx H e = None"
  shows "ApplyTx H (Some p) e = ok_then (checkEnvelopeTx p e) (bind_res (applyEventTx H p e) (\<lambda>r.
    ok_then (AgentTransaction_Validate H (tj_Transaction (advanceTx r e))) (Inr (advanceTx r e))))"
  using assms by (simp add: ApplyTx.simps Let_def del: ok_then_Inr bind_res_Inr)

lemmas ex_step_eval = ex_tx_history_def ex_tx_ops ex_q_defs ex_tx_def ex_tx_eval

lemma ex_execution_sel [simp]:
  "ax_ID ex_execution = ''exec:1''" "ax_TransactionID ex_execution = ''tx:1''" "ax_Attempt ex_execution = 1"
  "ax_Status ex_execution = AgentExecutionRunning" "ax_StartedAt ex_execution = 1003"
  "ax_RunID ex_execution = ''run:1''" "ax_TaskDigest ex_execution = ''''" "ax_StageBindingID ex_execution = ''stage:1''"
  "ax_ModelBroker ex_execution = None"
  by (simp_all add: ex_execution_def)

lemma ex_effect_sel [simp]:
  "ef_ID ex_effect = ''effect:1''" "ef_TransactionID ex_effect = ''tx:1''" "ef_Attempt ex_effect = 1"
  "ef_Sequence ex_effect = 1" "ef_Dependencies ex_effect = []" "ef_Status ex_effect = EffectStaged"
  "ef_Receipt ex_effect = None" "ef_CompensationReceipt ex_effect = None"
  "ef_RecoveryClass ex_effect = RecoveryStageable"
  by (simp_all add: ex_effect_def)

lemma ex_result_sel [simp]:
  "vr_ID ex_result = ''ver:1''" "vr_Name ex_result = ''tests''" "vr_TransactionID ex_result = ''tx:1''"
  "vr_Attempt ex_result = 1" "vr_EffectSetDigest ex_result = step_digest 52"
  "vr_StagedStateDigest ex_result = step_digest 45" "vr_Status ex_result = VerificationPassed"
  "vr_Independence ex_result = VerificationPlatformRun"
  by (simp_all add: ex_result_def)

lemma ex_step2: "ApplyTx ex_H (Some ex_q1) (ex_tx_history ! 1) = Inr ex_q2"
  by (subst ApplyTx_eval [OF ex_tx_nth_check], simp) (simp add: ex_step_eval del: ok_then_Inr bind_res_Inr,
      simp add: validate_simps example_simps)

lemma ex_step3: "ApplyTx ex_H (Some ex_q2) (ex_tx_history ! 2) = Inr ex_q3"
  by (subst ApplyTx_eval [OF ex_tx_nth_check], simp) (simp add: ex_step_eval applyStageBindingCreated_def del: ok_then_Inr bind_res_Inr,
      simp add: validate_simps example_simps)

lemma ex_step4: "ApplyTx ex_H (Some ex_q3) (ex_tx_history ! 3) = Inr ex_q4"
  by (subst ApplyTx_eval [OF ex_tx_nth_check], simp) (simp add: ex_step_eval applyAgentExecutionStarted_def stringContains_def stageBindingIndex_def
      ex_execution_valid del: ok_then_Inr bind_res_Inr,
      simp add: validate_simps example_simps)

lemma ex_execution_done_valid: "AgentExecution_Validate (ex_execution\<lparr>ax_Status := AgentExecutionSucceeded,
     ax_ExitCode := Some 0, ax_StdoutDigest := step_digest 41, ax_StderrDigest := step_digest 42,
     ax_ModelBroker := None, ax_CompletedAt := Some 1004\<rparr>) = None"
  by (simp add: AgentExecution_Validate_def ex_execution_def Let_def validate_simps example_simps has_nul_def
      validateModelBroker_def validateFinishedExecution_def optionalDigest_def)

lemma ex_step5: "ApplyTx ex_H (Some ex_q4) (ex_tx_history ! 4) = Inr ex_q5"
proof -
  have x: "executionIndex [ex_execution] ''exec:1'' = Some 0" by (simp add: executionIndex_def)
  show ?thesis
    by (subst ApplyTx_eval [OF ex_tx_nth_check], simp) (simp add: ex_step_eval applyAgentExecutionFinished_def x finishModelBroker_def ex_execution_done_valid
        del: ok_then_Inr bind_res_Inr,
      simp add: validate_simps example_simps)
qed

lemma ex_step6: "ApplyTx ex_H (Some ex_q5) (ex_tx_history ! 5) = Inr ex_q6"
  by (subst ApplyTx_eval [OF ex_tx_nth_check], simp) (simp add: ex_step_eval applyEffectAdded_def ex_effect_valid del: ok_then_Inr bind_res_Inr,
      simp add: validate_simps example_simps)

lemma ex_step7: "ApplyTx ex_H (Some ex_q6) (ex_tx_history ! 6) = Inr ex_q7"
proof -
  have "ComputeEffectSetDigest ex_H [ex_effect] = Some (step_digest 52)"
    by (simp add: ComputeEffectSetDigest_def ex_H_def)
  then show ?thesis
    by (subst ApplyTx_eval [OF ex_tx_nth_check], simp) (simp add: ex_step_eval applyStaged_def isDigest_iff del: ok_then_Inr bind_res_Inr,
      simp add: validate_simps example_simps)
qed

lemma ex_step8: "ApplyTx ex_H (Some ex_q7) (ex_tx_history ! 7) = Inr ex_q8"
  by (subst ApplyTx_eval [OF ex_tx_nth_check], simp) (simp add: ex_step_eval del: ok_then_Inr bind_res_Inr,
      simp add: validate_simps example_simps)

lemma ex_step9: "ApplyTx ex_H (Some ex_q8) (ex_tx_history ! 8) = Inr ex_q9"
  by (subst ApplyTx_eval [OF ex_tx_nth_check], simp) (simp add: ex_step_eval applyVerification_def ex_result_valid del: ok_then_Inr bind_res_Inr,
      simp add: validate_simps example_simps)

lemmas ex_effect_eval = Effect_Validate_def Let_def validate_simps example_simps optionalIdentifier_def
  validateCompensation_def effectStatusRequiresStage_def effectStatusRequiresReleaseMetadata_def
  effectStatusRequiresReceipt_def validateEffectReceipt_def

lemma ex_effects_valid:
  "Effect_Validate (ex_effect\<lparr>ef_Status := EffectValidated, ef_UpdatedAt := 1009\<rparr>) = None"
  "Effect_Validate (ex_effect\<lparr>ef_Status := EffectReleaseReady, ef_UpdatedAt := 1014\<rparr>) = None"
  "Effect_Validate (ex_effect\<lparr>ef_Status := EffectCommitting, ef_UpdatedAt := 1016\<rparr>) = None"
  "Effect_Validate (ex_effect\<lparr>ef_Status := EffectCommitted, ef_Receipt := Some ex_receipt, ef_UpdatedAt := 1017\<rparr>) = None"
  by (simp_all add: ex_effect_def ex_receipt_def ex_effect_eval)

lemma ex_effect_update:
  "ex_effect\<lparr>ef_Status := s, ef_Receipt := None, ef_CompensationReceipt := None, ef_UpdatedAt := t\<rparr> =
     ex_effect\<lparr>ef_Status := s, ef_UpdatedAt := t\<rparr>"
  "ex_effect\<lparr>ef_Status := s, ef_Receipt := r, ef_CompensationReceipt := None, ef_UpdatedAt := t\<rparr> =
     ex_effect\<lparr>ef_Status := s, ef_Receipt := r, ef_UpdatedAt := t\<rparr>"
  by (simp_all add: ex_effect_def)

lemmas ex_effect_step = applyEffectStateChange_def effectIndex_def CanTransitionEffect_def
  validateEffectTransitionContext_def ex_effects_valid ex_effect_update

lemma ex_step10: "ApplyTx ex_H (Some ex_q9) (ex_tx_history ! 9) = Inr ex_q10"
  by (subst ApplyTx_eval [OF ex_tx_nth_check], simp) (simp add: ex_step_eval ex_effect_step
      del: ok_then_Inr bind_res_Inr, simp add: validate_simps example_simps)

lemma ex_step11: "ApplyTx ex_H (Some ex_q10) (ex_tx_history ! 10) = Inr ex_q11"
proof -
  have d: "ComputeCommitPlanDigest ex_H ex_plan = Some (step_digest 53)"
    by (simp add: ComputeCommitPlanDigest_def ex_H_def)
  have f: "cp_Digest ex_plan = step_digest 53" "cp_TransactionID ex_plan = ''tx:1''" "cp_Attempt ex_plan = 1"
    "cp_IntentDigest ex_plan = step_digest 40" "cp_EffectSetDigest ex_plan = step_digest 52"
    "cp_StagedStateDigest ex_plan = step_digest 45" "map st_EffectID (cp_Steps ex_plan) = [''effect:1'']"
    by (simp_all add: ex_plan_def)
  show ?thesis
    by (subst ApplyTx_eval [OF ex_tx_nth_check], simp) (simp add: ex_step_eval applyCommitPlan_def d f
        ex_plan_valid releaseEffectIDs_def del: ok_then_Inr bind_res_Inr, simp add: validate_simps example_simps)
qed

lemma ex_package_sel:
  "ap_Digest ex_package = step_digest 54" "ap_TransactionID ex_package = ''tx:1''" "ap_Attempt ex_package = 1"
  "ap_IntentDigest ex_package = step_digest 40" "ap_EffectSetDigest ex_package = step_digest 52"
  "ap_StagedStateDigest ex_package = step_digest 45" "ap_CommitPlanDigest ex_package = step_digest 53"
  "ap_VerificationResultIDs ex_package = [''ver:1'']" "ap_ExpiresAt ex_package = 6000"
  "ap_RequiredApprovalClasses ex_package = [''security-reviewer'']"
  by (simp_all add: ex_package_def)

lemma ex_step12: "ApplyTx ex_H (Some ex_q11) (ex_tx_history ! 11) = Inr ex_q12"
proof -
  have d: "ComputeApprovalPackageDigest ex_H ex_package = Some (step_digest 54)"
    by (simp add: ComputeApprovalPackageDigest_def ex_H_def)
  show ?thesis
    by (subst ApplyTx_eval [OF ex_tx_nth_check], simp) (simp add: ex_step_eval applyApprovalPackage_def d
        ex_package_sel ex_package_valid del: ok_then_Inr bind_res_Inr, simp add: validate_simps example_simps)
qed

lemma ex_step13: "ApplyTx ex_H (Some ex_q12) (ex_tx_history ! 12) = Inr ex_q13"
  by (subst ApplyTx_eval [OF ex_tx_nth_check], simp) (simp add: ex_step_eval
      del: ok_then_Inr bind_res_Inr, simp add: validate_simps example_simps)

lemma ex_step14: "ApplyTx ex_H (Some ex_q13) (ex_tx_history ! 13) = Inr ex_q14"
proof -
  have d: "ComputeApprovalDecisionDigest ex_H ex_decision = Some (step_digest 55)"
    by (simp add: ComputeApprovalDecisionDigest_def ex_H_def)
  have f: "ad_Digest ex_decision = step_digest 55" "ad_TransactionID ex_decision = ''tx:1''"
    "ad_PackageDigest ex_decision = step_digest 54" "ad_Approver ex_decision = ex_human"
    "ad_IssuedAt ex_decision = 1012" "ad_ExpiresAt ex_decision = 5000" "ad_Decision ex_decision = ApprovalApprove"
    "ad_ApprovalClass ex_decision = ''security-reviewer''" "ad_ApprovalID ex_decision = ''approval:1''"
    by (simp_all add: ex_decision_def)
  show ?thesis
    by (subst ApplyTx_eval [OF ex_tx_nth_check], simp) (simp add: ex_step_eval ex_approval_event_def
        applyApprovalResolution_def d f ex_package_sel ex_decision_valid approval_clock_skew_def
        stringContains_def stringIndex_def removeString_def remove_at_def
        del: ok_then_Inr bind_res_Inr, simp add: validate_simps example_simps)
qed

lemma ex_step15: "ApplyTx ex_H (Some ex_q14) (ex_tx_history ! 14) = Inr ex_q15"
  by (subst ApplyTx_eval [OF ex_tx_nth_check], simp) (simp add: ex_step_eval ex_effect_step
      del: ok_then_Inr bind_res_Inr, simp add: validate_simps example_simps)

lemma ex_step16: "ApplyTx ex_H (Some ex_q15) (ex_tx_history ! 15) = Inr ex_q16"
  by (subst ApplyTx_eval [OF ex_tx_nth_check], simp) (simp add: ex_step_eval
      del: ok_then_Inr bind_res_Inr, simp add: validate_simps example_simps)

lemma ex_step17: "ApplyTx ex_H (Some ex_q16) (ex_tx_history ! 16) = Inr ex_q17"
  by (subst ApplyTx_eval [OF ex_tx_nth_check], simp) (simp add: ex_step_eval ex_effect_step
      del: ok_then_Inr bind_res_Inr, simp add: validate_simps example_simps)

lemma ex_step18: "ApplyTx ex_H (Some ex_q17) (ex_tx_history ! 17) = Inr ex_q18"
  by (subst ApplyTx_eval [OF ex_tx_nth_check], simp) (simp add: ex_step_eval ex_effect_step
      del: ok_then_Inr bind_res_Inr, simp add: validate_simps example_simps)

lemma ex_step19: "ApplyTx ex_H (Some ex_q18) (ex_tx_history ! 18) = Inr ex_q19"
  by (subst ApplyTx_eval [OF ex_tx_nth_check], simp) (simp add: ex_step_eval
      del: ok_then_Inr bind_res_Inr, simp add: validate_simps example_simps)

lemmas ex_steps = ex_step1 ex_step2 ex_step3 ex_step4 ex_step5 ex_step6 ex_step7 ex_step8 ex_step9 ex_step10
  ex_step11 ex_step12 ex_step13 ex_step14 ex_step15 ex_step16 ex_step17 ex_step18 ex_step19

lemma ex_length: "length ex_tx_history = 19"
  by (simp add: ex_tx_history_def)

lemma ex_take: "n \<le> 19 \<Longrightarrow> take n ex_tx_history = map ((!) ex_tx_history) [0..<n]"
  by (metis ex_length map_nth min.absorb2 take_map take_upt add_0)

lemma ex_tx_replay_validating: "ReplayTx ex_H (take 10 ex_tx_history) = Inr ex_q10"
proof -
  have "[0..<10] = [0, 1, 2, 3, 4, 5, 6, 7, 8, 9::nat]" by (simp add: upt_rec)
  with ex_take [of 10] have h: "take 10 ex_tx_history = map ((!) ex_tx_history)
      [0, 1, 2, 3, 4, 5, 6, 7, 8, 9]" by simp
  show ?thesis unfolding ReplayTx_def by (subst h) (simp add: ex_steps del: One_nat_def)
qed

lemma ex_replay_take:
  assumes "n \<le> 18" and "0 < n" and "ReplayTx ex_H (take n ex_tx_history) = Inr p"
    and "ApplyTx ex_H (Some p) (ex_tx_history ! n) = Inr q"
  shows "ReplayTx ex_H (take (Suc n) ex_tx_history) = Inr q"
proof -
  have "take (Suc n) ex_tx_history = take n ex_tx_history @ [ex_tx_history ! n]" "take n ex_tx_history \<noteq> []"
    using assms(1,2) ex_length by (auto simp: take_Suc_conv_app_nth)
  with assms(3,4) show ?thesis
    unfolding ReplayTx_ledger by (simp add: tx_ledger.replay_snoc)
qed

lemma ex_replay_three:
  assumes "n \<le> 16" "0 < n" "ReplayTx ex_H (take n ex_tx_history) = Inr p"
    "ApplyTx ex_H (Some p) (ex_tx_history ! n) = Inr q" "ApplyTx ex_H (Some q) (ex_tx_history ! (n + 1)) = Inr r"
    "ApplyTx ex_H (Some r) (ex_tx_history ! (n + 2)) = Inr s"
  shows "ReplayTx ex_H (take (n + 3) ex_tx_history) = Inr s"
  using ex_replay_take [of "n + 2" r s] ex_replay_take [of "n + 1" q r] ex_replay_take [of n p q] assms
  by (simp add: numeral_3_eq_3)

lemma ex_tx_replay_pending: "ReplayTx ex_H (take 13 ex_tx_history) = Inr ex_q13"
  using ex_replay_three [OF _ _ ex_tx_replay_validating ex_step11, of ex_q12 ex_q13] ex_step12 ex_step13 by simp

lemma ex_tx_replay_committing: "ReplayTx ex_H (take 16 ex_tx_history) = Inr ex_q16"
  using ex_replay_three [OF _ _ ex_tx_replay_pending ex_step14, of ex_q15 ex_q16] ex_step15 ex_step16 by simp

lemma ex_tx_replay: "ReplayTx ex_H ex_tx_history = Inr ex_q19"
  using ex_replay_three [OF _ _ ex_tx_replay_committing ex_step17, of ex_q18 ex_q19] ex_step18 ex_step19
    ex_length by simp

lemma ex_tx_clean: "list_all clean_event ex_tx_history"
  by (simp add: ex_tx_history_def clean_event_def clean_start_def ex_tx_event_def ex_move_def ex_effect_move_def
      ex_approval_event_def ex_tx_def)

lemma ex_tx_clean_take: "list_all clean_event (take n ex_tx_history)"
  using ex_tx_clean by (auto simp: list_all_iff dest: in_set_takeD)

lemma ex_H_format: "hashing_format ex_H"
proof -
  have "is_lower_hex (CHR ''0'')" by code_simp
  then show ?thesis by (auto simp: hashing_format_def ex_H_def step_digest_valid list_all_iff)
qed

lemma ex_q_states:
  "tx_State (tj_Transaction ex_q4) = TransactionRunning" "tx_State (tj_Transaction ex_q10) = TransactionValidating"
  "tx_State (tj_Transaction ex_q13) = TransactionPendingApproval"
  "tx_State (tj_Transaction ex_q14) = TransactionReadyToCommit"
  "tx_State (tj_Transaction ex_q19) = TransactionCommitted"
  by (simp_all add: ex_q_defs ex_tx_def)

text \<open>After the commit the driver still reports that the effect needs a hand.\<close>

definition ex_late_effect_move :: TransactionEvent where
  "ex_late_effect_move = ex_effect_move 20 EffectCommitted EffectManualRecoveryRequired None"

definition ex_q20 :: ProjectionTx where
  "ex_q20 = ex_next 20 id (ex_q19\<lparr>tj_Effects := [ex_effect\<lparr>ef_Status := EffectManualRecoveryRequired,
     ef_Receipt := Some ex_receipt, ef_UpdatedAt := 1019\<rparr>]\<rparr>)"

lemma ex_late_step: "ApplyTx ex_H (Some ex_q19) ex_late_effect_move = Inr ex_q20"
proof -
  have c: "checkEventTx ex_H ex_late_effect_move = None"
    unfolding ex_late_effect_move_def ex_effect_move_def
    by (rule ex_tx_event_valid) (simp_all add: example_simps del: TransactionEventType_name.simps)
  have v: "Effect_Validate (ex_effect\<lparr>ef_Status := EffectManualRecoveryRequired, ef_Receipt := Some ex_receipt,
      ef_UpdatedAt := 1019\<rparr>) = None"
    by (simp add: ex_effect_def ex_receipt_def ex_effect_eval)
  have v': "Effect_Validate (ex_effect\<lparr>ef_Receipt := Some ex_receipt, ef_Status := EffectManualRecoveryRequired,
      ef_UpdatedAt := 1019\<rparr>) = None"
    by (simp add: ex_effect_def ex_receipt_def ex_effect_eval)
  have u: "ex_effect\<lparr>ef_Status := s, ef_Receipt := r, ef_UpdatedAt := t, ef_Status := s', ef_Receipt := r,
      ef_CompensationReceipt := None, ef_UpdatedAt := t'\<rparr> = ex_effect\<lparr>ef_Status := s', ef_Receipt := r,
      ef_UpdatedAt := t'\<rparr>" for s r t s' t'
    by (simp add: ex_effect_def)
  show ?thesis
    by (subst ApplyTx_eval [OF c]) (simp add: ex_late_effect_move_def ex_q20_def ex_step_eval ex_effect_step v v' u
      del: ok_then_Inr bind_res_Inr, simp add: validate_simps example_simps)
qed

end
