(* ===== verification/Transaction_Properties.thy ===== *)
theory Transaction_Properties
  imports Transaction_History Transaction_Examples
begin

text \<open>
  The properties of transaction histories. Each is stated over histories that the reducer accepts and
  is applied to the example history where it has hypotheses. Where a property is about what a
  transaction carries, the history starts from a transaction that carries nothing yet
  (\<open>clean_event\<close>).
\<close>

section \<open>The ledger\<close>

text \<open>A replayed transaction history is contiguous, linked and monotone: event \<open>i\<close> has sequence
  number \<open>i + 1\<close>, names the digest of its predecessor, belongs to the same transaction, does not go
  back in time and carries the digest computed over its content, and the projection carries the
  number and digest of the last event.\<close>

theorem tx_contiguous_chain:
  assumes "ReplayTx H events = Inr p"
  shows "events \<noteq> [] \<and> tx_EventSequence (tj_Transaction p) = int (length events) \<and>
     tj_LastEventDigest p = te_Digest (last events) \<and>
     (\<forall>i < length events. te_Sequence (events ! i) = int i + 1 \<and>
        te_TransactionID (events ! i) = tx_ID (tj_Transaction p) \<and>
        VerifyTransactionEventDigest H (events ! i) = Some True) \<and>
     (\<forall>i. Suc i < length events \<longrightarrow>
        te_PreviousDigest (events ! Suc i) = te_Digest (events ! i) \<and>
        te_OccurredAt (events ! i) \<le> te_OccurredAt (events ! Suc i))"
  using assms tx_ledger.replay_head tx_ledger.replay_sequence tx_ledger.replay_numbered
    tx_ledger.replay_stream tx_ledger.replay_linked ReplayTx_verified [OF assms]
  unfolding ReplayTx_ledger by (metis nth_mem)

theorem tx_contiguous_chain_witness:
  "ReplayTx ex_H ex_tx_history = Inr ex_q19 \<and> te_Sequence (ex_tx_history ! 17) = 18 \<and>
   te_PreviousDigest (ex_tx_history ! 18) = te_Digest (ex_tx_history ! 17)"
proof -
  note * = tx_contiguous_chain [OF ex_tx_replay]
  have "te_Sequence (ex_tx_history ! 17) = int 17 + 1" using * ex_length by simp
  moreover have "Suc 17 < length ex_tx_history \<longrightarrow>
      te_PreviousDigest (ex_tx_history ! Suc 17) = te_Digest (ex_tx_history ! 17)" using * by blast
  ultimately show ?thesis using ex_length ex_tx_replay by simp
qed

text \<open>Tamper evidence: two accepted transaction histories that end in the same digest are the
  same history, provided the event hash tells the events of the two histories apart.\<close>

theorem tx_head_digest_determines_history:
  assumes "ReplayTx H es = Inr p" and "ReplayTx H fs = Inr q"
    and "tj_LastEventDigest p = tj_LastEventDigest q"
    and "inj_on (hs_Event H) ((\<lambda>e. e\<lparr>te_Digest := ''''\<rparr>) ` (set es \<union> set fs))"
  shows "es = fs"
proof (rule tx_ledger.replay_head_determines [OF assms(1,2) [unfolded ReplayTx_ledger] assms(3)])
  fix e f
  assume ef: "e \<in> set es" "f \<in> set fs" "te_Digest e = te_Digest f"
  then have "hs_Event H (e\<lparr>te_Digest := ''''\<rparr>) = hs_Event H (f\<lparr>te_Digest := ''''\<rparr>)"
    using ReplayTx_verified [OF assms(1)] ReplayTx_verified [OF assms(2)]
    by (simp add: VerifyTransactionEventDigest_True)
  then have "e\<lparr>te_Digest := ''''\<rparr> = f\<lparr>te_Digest := ''''\<rparr>"
    using assms(4) ef by (meson UnCI image_eqI inj_onD)
  then have "e\<lparr>te_Digest := '''', te_Digest := te_Digest e\<rparr> = f\<lparr>te_Digest := '''', te_Digest := te_Digest f\<rparr>"
    using ef(3) by simp
  then show "e = f" by simp
qed

theorem tx_head_digest_determines_history_witness:
  "ReplayTx ex_H ex_tx_history = Inr ex_q19 \<and> ex_tx_history = map ((!) ex_tx_history) [0..<19]"
proof -
  have same: "map ((!) ex_tx_history) [0..<19] = ex_tx_history"
    by (metis ex_length map_nth)
  have "inj_on (hs_Event ex_H) ((\<lambda>e. e\<lparr>te_Digest := ''''\<rparr>) ` set ex_tx_history)"
  proof (rule inj_onI)
    fix a b
    assume "a \<in> (\<lambda>e. e\<lparr>te_Digest := ''''\<rparr>) ` set ex_tx_history" "b \<in> (\<lambda>e. e\<lparr>te_Digest := ''''\<rparr>) ` set ex_tx_history"
      and ab: "hs_Event ex_H a = hs_Event ex_H b"
    then obtain i j where i: "i < 19" "a = (ex_tx_history ! i)\<lparr>te_Digest := ''''\<rparr>"
      and j: "j < 19" "b = (ex_tx_history ! j)\<lparr>te_Digest := ''''\<rparr>"
      by (auto simp: in_set_conv_nth ex_length)
    from tx_ledger.replay_numbered [OF ex_tx_replay [unfolded ReplayTx_ledger]] i j ab
    have "step_digest ((i + 1) mod 50) = step_digest ((j + 1) mod 50)"
      by (simp add: ex_H_def ex_length nat_add_distrib)
    with i j show "a = b" by (simp add: step_digest_eq_iff)
  qed
  then have "ex_tx_history = map ((!) ex_tx_history) [0..<19]"
    by (intro tx_head_digest_determines_history [OF ex_tx_replay _ refl]) (simp_all add: same ex_tx_replay)
  then show ?thesis using ex_tx_replay by blast
qed

text \<open>What creation pinned never changes: identity, namespace, intent, task, admission,
  sponsor, run identifiers and creation time of a transaction.\<close>

theorem tx_authority_is_pinned:
  assumes "ReplayTx H es = Inr p" and "ReplayTx H (es @ fs) = Inr q"
  shows "tx_ID (tj_Transaction q) = tx_ID (tj_Transaction p) \<and>
     tx_Namespace (tj_Transaction q) = tx_Namespace (tj_Transaction p) \<and>
     tx_IntentDigest (tj_Transaction q) = tx_IntentDigest (tj_Transaction p) \<and>
     tx_Task (tj_Transaction q) = tx_Task (tj_Transaction p) \<and>
     tx_Admission (tj_Transaction q) = tx_Admission (tj_Transaction p) \<and>
     tx_Sponsor (tj_Transaction q) = tx_Sponsor (tj_Transaction p) \<and>
     tx_AgentRunIDs (tj_Transaction q) = tx_AgentRunIDs (tj_Transaction p) \<and>
     tx_CreatedAt (tj_Transaction q) = tx_CreatedAt (tj_Transaction p)"
proof -
  have "replayFromTx H (Some p) fs = Inr q"
    using tx_ledger.replay_extended assms unfolding ReplayTx_ledger by blast
  then have "pinned_tx (tj_Transaction q) = pinned_tx (tj_Transaction p)"
    by (induction rule: tx_ledger.replay_from_invariant) (auto dest: ApplyTx_pinned)
  then show ?thesis by (rule pinned_tx_eqD)
qed

theorem tx_authority_is_pinned_witness:
  "tx_IntentDigest (tj_Transaction ex_q19) = step_digest 40 \<and>
   tx_Sponsor (tj_Transaction ex_q19) = tx_Sponsor (tj_Transaction ex_q13)"
proof -
  have "ReplayTx ex_H (take 13 ex_tx_history @ drop 13 ex_tx_history) = Inr ex_q19"
    by (simp add: ex_tx_replay)
  from tx_authority_is_pinned [OF ex_tx_replay_pending this] show ?thesis
    by (simp add: ex_q_defs ex_tx_def)
qed

section \<open>The lifecycle\<close>

text \<open>C22. Refinement of the lifecycle, event by event: every accepted history starts in the created state, and each of its
  further events either keeps the state or makes one documented move of the kind it may make: a state change the move
  it names, a staging event the move to staged, a decision on a package the move it decides, and a renewal the move of
  pending or ready authority back to validation. No other event moves the state.\<close>

theorem tx_refines_lifecycle:
  assumes "ReplayTx H es = Inr q" and "k < length es"
  shows "if k = 0 then \<exists>r. ReplayTx H (take 1 es) = Inr r \<and> tx_State (tj_Transaction r) = TransactionCreated
    else \<exists>r r'. ReplayTx H (take k es) = Inr r \<and> ReplayTx H (take (Suc k) es) = Inr r' \<and>
      tx_step (es ! k) (tx_State (tj_Transaction r)) (tx_State (tj_Transaction r'))"
proof (cases "k = 0")
  case True
  with assms obtain e fs where es: "es = e # fs" by (cases es) auto
  from tx_ledger.replay_take [OF assms(1) [unfolded ReplayTx_ledger], of 1] es obtain r where "replayFromTx H None [e] = Inr r" by auto
  with es True show ?thesis by (auto simp: ReplayTx_ledger tx_ledger.replay_single dest: ApplyTx_None_Inr)
next
  case False
  with tx_ledger.replay_step [OF assms(1) [unfolded ReplayTx_ledger] _ assms(2)] ApplyTx_step
  show ?thesis unfolding ReplayTx_ledger by fastforce
qed

theorem tx_refines_lifecycle_witness:
  "\<exists>r r'. ReplayTx ex_H (take 13 ex_tx_history) = Inr r \<and> ReplayTx ex_H (take 14 ex_tx_history) = Inr r' \<and>
     tx_step (ex_tx_history ! 13) (tx_State (tj_Transaction r)) (tx_State (tj_Transaction r'))"
  using tx_refines_lifecycle [OF ex_tx_replay, of 13] by (simp add: ex_tx_history_def)

text \<open>A transaction that has ended is final: whatever is appended to its history, it keeps its
  state, reason, attempt, frozen digests, executions, verification results, plan, package, decisions
  and archives; only the status, receipts and update times of its effects can still change.\<close>

theorem terminal_transactions_are_final:
  assumes "ReplayTx H es = Inr p" and "ReplayTx H (es @ fs) = Inr q"
    and "TransactionState_Terminal (tx_State (tj_Transaction p))"
  shows "tj_Transaction q = (tj_Transaction p)\<lparr>tx_EventSequence := tx_EventSequence (tj_Transaction q),
       tx_UpdatedAt := tx_UpdatedAt (tj_Transaction q)\<rparr> \<and>
     q = p\<lparr>tj_Transaction := tj_Transaction q, tj_Effects := tj_Effects q,
       tj_LastEventDigest := tj_LastEventDigest q\<rparr> \<and>
     map immutable_effect (tj_Effects q) = map immutable_effect (tj_Effects p)"
proof -
  have "replayFromTx H (Some p) fs = Inr q"
    using tx_ledger.replay_extended assms unfolding ReplayTx_ledger by blast
  then have "ended q = ended p \<and> map immutable_effect (tj_Effects q) = map immutable_effect (tj_Effects p)"
  proof (induction rule: tx_ledger.replay_from_invariant)
    case (step e r s)
    then have "TransactionState_Terminal (tx_State (tj_Transaction r))" using assms(3) ended_state by metis
    with step terminal_step [of H r e s] show ?case by simp
  qed simp
  then show ?thesis using ended_eqD [of q p] by blast
qed

theorem terminal_transactions_are_final_witness:
  "tx_State (tj_Transaction ex_q19) = TransactionCommitted \<and>
   (\<exists>q. ReplayTx ex_H (ex_tx_history @ [ex_late_effect_move]) = Inr q \<and>
        tx_CompletedAt (tj_Transaction q) = Some 1018 \<and> tj_ApprovalDigests q = [step_digest 55])"
proof -
  have q: "ReplayTx ex_H (ex_tx_history @ [ex_late_effect_move]) = Inr ex_q20"
    unfolding ReplayTx_ledger
    using ex_tx_replay ex_late_step ex_length
    by (subst tx_ledger.replay_snoc) (auto simp: ReplayTx_ledger)
  have t: "TransactionState_Terminal (tx_State (tj_Transaction ex_q19))" by (simp add: ex_q_states)
  from terminal_transactions_are_final [OF ex_tx_replay q t]
  have f: "tj_Transaction ex_q20 = (tj_Transaction ex_q19)\<lparr>tx_EventSequence := tx_EventSequence (tj_Transaction ex_q20),
       tx_UpdatedAt := tx_UpdatedAt (tj_Transaction ex_q20)\<rparr>"
    and g: "ex_q20 = ex_q19\<lparr>tj_Transaction := tj_Transaction ex_q20, tj_Effects := tj_Effects ex_q20,
       tj_LastEventDigest := tj_LastEventDigest ex_q20\<rparr>" by blast+
  have "tx_CompletedAt (tj_Transaction ex_q20) = tx_CompletedAt (tj_Transaction ex_q19)"
    by (subst f) simp
  moreover have "tj_ApprovalDigests ex_q20 = tj_ApprovalDigests ex_q19" by (subst g) simp
  moreover have "tx_CompletedAt (tj_Transaction ex_q19) = Some 1018" "tj_ApprovalDigests ex_q19 = [step_digest 55]"
    by (simp_all add: ex_q_defs)
  ultimately show ?thesis using q ex_q_states(5) by auto
qed

section \<open>Release authority\<close>

text \<open>C1. Nothing is released without independent verification: a transaction that is ready to commit
  or further in its release has current verification results, all of them passed and run by the
  platform, each bound to this attempt and to the frozen effect set and staged state; it has a valid
  commit plan and approval package whose digests are the recorded ones and are those computed over
  them; the plan releases exactly the effects that are not read-only, in order; and no approval is
  outstanding.\<close>

theorem release_requires_verified_authority:
  assumes "ReplayTx H es = Inr p" and "list_all clean_event es"
    and "tx_State (tj_Transaction p) \<in> release_states"
  shows "tj_Verifications p \<noteq> [] \<and>
     (\<forall>r\<in>set (tj_Verifications p). vr_Status r = VerificationPassed \<and> vr_Independence r = VerificationPlatformRun \<and>
        vr_Attempt r = tx_Attempt (tj_Transaction p) \<and>
        vr_EffectSetDigest r = tx_EffectSetDigest (tj_Transaction p) \<and>
        vr_StagedStateDigest r = tx_StagedStateDigest (tj_Transaction p)) \<and>
     (\<exists>plan package. tj_CommitPlan p = Some plan \<and> tj_ApprovalPackage p = Some package \<and>
        CommitPlan_Validate plan = None \<and> ApprovalPackage_Validate package = None \<and>
        ComputeCommitPlanDigest H plan = Some (tx_CommitPlanDigest (tj_Transaction p)) \<and>
        ComputeApprovalPackageDigest H package = Some (tx_ApprovalPackageDigest (tj_Transaction p)) \<and>
        cp_EffectSetDigest plan = tx_EffectSetDigest (tj_Transaction p) \<and>
        ap_EffectSetDigest package = tx_EffectSetDigest (tj_Transaction p) \<and>
        map st_EffectID (cp_Steps plan) = map ef_ID (filter releasable (tj_Effects p))) \<and>
     tx_OutstandingApprovalIDs (tj_Transaction p) = []"
proof -
  have "tx_inv H p" using ReplayTx_inv assms by blast
  then have rel: "release_inv p" and ver: "verifications_inv p" and pl: "plan_inv H p" and pk: "package_inv H p"
    and out: "outstanding_inv p" by (simp_all add: tx_inv_def)
  from rel assms(3) obtain plan package where pp: "tj_CommitPlan p = Some plan" "tj_ApprovalPackage p = Some package"
    and pass: "requirePassingVerification p = None" by (auto simp: release_inv_def)
  have "bound_plan H p plan" "bound_package H p package" using pl pk pp by (simp_all add: plan_inv_def package_inv_def)
  moreover have "\<forall>r\<in>set (tj_Verifications p). bound_result (tj_Transaction p) r"
    using ver by (simp add: verifications_inv_def)
  moreover have "tx_OutstandingApprovalIDs (tj_Transaction p) = []"
    using out assms(3) by (auto simp: outstanding_inv_def release_states_def)
  moreover have "releaseEffectIDs (tj_Effects p) = map ef_ID (filter releasable (tj_Effects p))"
    by (simp add: releaseEffectIDs_def releasable_def [abs_def])
  ultimately show ?thesis
    using pp pass by (simp add: requirePassingVerification_None bound_plan_def bound_package_def bound_result_def)
qed

theorem release_requires_verified_authority_witness:
  "tx_State (tj_Transaction ex_q19) \<in> release_states \<and> tj_Verifications ex_q19 \<noteq> [] \<and>
   tx_OutstandingApprovalIDs (tj_Transaction ex_q19) = []"
proof -
  have r: "tx_State (tj_Transaction ex_q19) \<in> release_states" by (simp add: ex_q_states release_states_def)
  from release_requires_verified_authority [OF ex_tx_replay ex_tx_clean r] r show ?thesis by blast
qed

text \<open>C4. Required approvals cannot be bypassed: when the package of a transaction that is ready to
  commit, or further in its release, requires an approval class, the history contains a decision to
  approve exactly this package, for a required class, sent by the human who decided it, before the
  package and the decision expired.\<close>

theorem required_approval_cannot_be_bypassed:
  assumes "ReplayTx H es = Inr p" and "list_all clean_event es"
    and "tx_State (tj_Transaction p) \<in> release_states"
  shows "\<exists>package. tj_ApprovalPackage p = Some package \<and>
     (ap_RequiredApprovalClasses package = [] \<or>
      (\<exists>e\<in>set es. \<exists>d. te_Payload e = ApprovalResolvedPayload d \<and> ad_Decision d = ApprovalApprove \<and>
         ad_PackageDigest d = ap_Digest package \<and>
         ad_ApprovalClass d \<in> set (ap_RequiredApprovalClasses package) \<and>
         ad_Approver d = te_Actor e \<and> pr_Kind (te_Actor e) = PrincipalHuman \<and>
         te_OccurredAt e < ap_ExpiresAt package \<and> te_OccurredAt e < ad_ExpiresAt d))"
  using ReplayTx_approval_inv [OF assms(1,2)] assms(3) unfolding approval_inv_def approves_iff by blast

theorem required_approval_cannot_be_bypassed_witness:
  "\<exists>e d. List.member ex_tx_history e \<and> te_Payload e = ApprovalResolvedPayload d \<and> ad_Decision d = ApprovalApprove \<and>
     ad_PackageDigest d = step_digest 54 \<and> pr_Kind (te_Actor e) = PrincipalHuman"
proof -
  have r: "tx_State (tj_Transaction ex_q19) \<in> release_states" by (simp add: ex_q_states release_states_def)
  have "tj_ApprovalPackage ex_q19 = Some ex_package" by (simp add: ex_q_defs)
  with required_approval_cannot_be_bypassed [OF ex_tx_replay ex_tx_clean r] show ?thesis
    by (auto simp: ex_package_sel)
qed

text \<open>C20. A committed transaction really committed its effects: every effect that is not read-only
  carries the receipt of its driver and is committed, or was handed over to manual recovery
  afterwards.\<close>

theorem committed_effects_have_receipts:
  assumes "ReplayTx H es = Inr p" and "list_all clean_event es"
    and "tx_State (tj_Transaction p) = TransactionCommitted"
    and "f \<in> set (tj_Effects p)" and "ef_RecoveryClass f \<noteq> RecoveryReadOnly"
  shows "ef_Status f \<in> {EffectCommitted, EffectManualRecoveryRequired} \<and> ef_Receipt f \<noteq> None"
proof -
  have "tx_inv H p" using ReplayTx_inv assms by blast
  with assms show ?thesis by (auto simp: tx_inv_def committed_inv_def releasable_def)
qed

theorem committed_effects_have_receipts_witness:
  "\<exists>f. tj_Effects ex_q19 = [f] \<and> ef_Receipt f \<noteq> None"
proof -
  obtain f where f: "tj_Effects ex_q19 = [f]" "ef_RecoveryClass f \<noteq> RecoveryReadOnly"
    by (simp add: ex_q_defs)
  from committed_effects_have_receipts [OF ex_tx_replay ex_tx_clean ex_q_states(5), of f] f show ?thesis by simp
qed

section \<open>Frozen effects\<close>

text \<open>C21. Freezing is binding: while the effect set is frozen, its recorded digest is the one computed
  over the current effects, and along any continuation within the same attempt neither that digest,
  nor the staged state digest, nor anything the digest covers changes.\<close>

theorem frozen_effects_are_fixed:
  assumes "ReplayTx H es = Inr p" and "list_all clean_event es"
    and "tx_EffectSetDigest (tj_Transaction p) \<noteq> ''''"
    and "ReplayTx H (es @ fs) = Inr q"
    and "tx_Attempt (tj_Transaction q) = tx_Attempt (tj_Transaction p)"
  shows "ComputeEffectSetDigest H (tj_Effects p) = Some (tx_EffectSetDigest (tj_Transaction p)) \<and>
     tx_EffectSetDigest (tj_Transaction q) = tx_EffectSetDigest (tj_Transaction p) \<and>
     tx_StagedStateDigest (tj_Transaction q) = tx_StagedStateDigest (tj_Transaction p) \<and>
     map immutable_effect (tj_Effects q) = map immutable_effect (tj_Effects p)"
proof -
  have inv: "tx_inv H p" using ReplayTx_inv assms by blast
  then have "frozen_inv H p" by (simp add: tx_inv_def)
  moreover have "replayFromTx H (Some p) fs = Inr q"
    using tx_ledger.replay_extended assms unfolding ReplayTx_ledger by blast
  ultimately show ?thesis
    using frozen_while [OF _ inv assms(3)] assms(3,5) by (simp add: frozen_inv_def)
qed

theorem frozen_effects_are_fixed_witness:
  "ComputeEffectSetDigest ex_H (tj_Effects ex_q13) = Some (step_digest 52) \<and>
   map immutable_effect (tj_Effects ex_q19) = map immutable_effect (tj_Effects ex_q13)"
proof -
  have "tx_EffectSetDigest (tj_Transaction ex_q13) = step_digest 52"
    "tx_Attempt (tj_Transaction ex_q19) = tx_Attempt (tj_Transaction ex_q13)"
    by (simp_all add: ex_q_defs)
  moreover have "ReplayTx ex_H (take 13 ex_tx_history @ drop 13 ex_tx_history) = Inr ex_q19"
    by (simp add: ex_tx_replay)
  ultimately show ?thesis
    using frozen_effects_are_fixed [OF ex_tx_replay_pending ex_tx_clean_take,
      where fs = "drop 13 ex_tx_history" and q = ex_q19] by simp
qed

text \<open>The effects of an attempt are an ordered set: numbered from one without gaps, valid, with
  distinct identifiers that are the transaction's effect identifiers, of this transaction and
  attempt, and each depends only on effects before it.\<close>

theorem effects_are_ordered:
  assumes "ReplayTx H es = Inr p" and "list_all clean_event es" and "i < length (tj_Effects p)"
  shows "tx_EffectIDs (tj_Transaction p) = map ef_ID (tj_Effects p) \<and> distinct (map ef_ID (tj_Effects p)) \<and>
     ef_Sequence (tj_Effects p ! i) = int i + 1 \<and> Effect_Validate (tj_Effects p ! i) = None \<and>
     ef_TransactionID (tj_Effects p ! i) = tx_ID (tj_Transaction p) \<and>
     ef_Attempt (tj_Effects p ! i) = tx_Attempt (tj_Transaction p) \<and>
     set (ef_Dependencies (tj_Effects p ! i)) \<subseteq> set (map ef_ID (take i (tj_Effects p)))"
proof -
  have "effects_inv p" "deps_inv p" using ReplayTx_inv [OF assms(1,2)] by (simp_all add: tx_inv_def)
  then show ?thesis using assms(3) sequenced_nth [of 1 "tj_Effects p"]
    by (auto simp: effects_inv_def deps_inv_def take_map image_subset_iff)
qed

theorem effects_are_ordered_witness:
  "ef_Sequence (tj_Effects ex_q19 ! 0) = 1 \<and> tx_EffectIDs (tj_Transaction ex_q19) = [''effect:1'']"
proof -
  have n: "0 < length (tj_Effects ex_q19)" "map ef_ID (tj_Effects ex_q19) = [''effect:1'']"
    by (simp_all add: ex_q_defs)
  from effects_are_ordered [OF ex_tx_replay ex_tx_clean n(1)] n show ?thesis by simp
qed

text \<open>C10. External change starts only under release authority: an event that makes an effect
  committing finds the effect release-ready and the transaction committing or compensating, hence
  with platform-run passing verification, a bound plan and package, and no outstanding approval.\<close>

theorem commit_starts_under_authority:
  assumes "ReplayTx H es = Inr p" and "list_all clean_event es" and "ApplyTx H (Some p) e = Inr q"
    and "i < length (tj_Effects p)" and "i < length (tj_Effects q)"
    and "ef_Status (tj_Effects q ! i) = EffectCommitting" and "ef_Status (tj_Effects p ! i) \<noteq> EffectCommitting"
  shows "ef_Status (tj_Effects p ! i) = EffectReleaseReady \<and>
     tx_State (tj_Transaction p) \<in> {TransactionCommitting, TransactionCompensating} \<and>
     requirePassingVerification p = None \<and> tj_CommitPlan p \<noteq> None \<and> tj_ApprovalPackage p \<noteq> None \<and>
     tx_OutstandingApprovalIDs (tj_Transaction p) = []"
proof -
  have inv: "release_inv p" "outstanding_inv p" using ReplayTx_inv [OF assms(1,2)] by (simp_all add: tx_inv_def)
  from commit_start_step [OF assms(3,5,4,6,7)]
  have s: "tx_State (tj_Transaction p) \<in> {TransactionCommitting, TransactionCompensating}"
    and c: "CanTransitionEffect (ef_Status (tj_Effects p ! i)) EffectCommitting" by blast+
  have "ef_Status (tj_Effects p ! i) = EffectReleaseReady"
    using c by (cases "ef_Status (tj_Effects p ! i)") (simp_all add: CanTransitionEffect_def)
  moreover have "tx_State (tj_Transaction p) \<in> release_states" "tx_State (tj_Transaction p) \<noteq> TransactionPendingApproval"
    using s by (auto simp: release_states_def)
  ultimately show ?thesis using inv s unfolding release_inv_def outstanding_inv_def by blast
qed

theorem commit_starts_under_authority_witness:
  "ef_Status (tj_Effects ex_q16 ! 0) = EffectReleaseReady \<and> requirePassingVerification ex_q16 = None"
proof -
  have n: "0 < length (tj_Effects ex_q16)" "0 < length (tj_Effects ex_q17)"
    "ef_Status (tj_Effects ex_q17 ! 0) = EffectCommitting" "ef_Status (tj_Effects ex_q16 ! 0) \<noteq> EffectCommitting"
    by (simp_all add: ex_q_defs)
  from commit_starts_under_authority [OF ex_tx_replay_committing ex_tx_clean_take ex_step17 n] show ?thesis by blast
qed

section \<open>Executions and attempts\<close>

text \<open>One agent at a time, inside its admission: executions have distinct identifiers, only the
  latest can be running, and only while the transaction runs or was stopped under it; each belongs to
  a run and a stage boundary of the transaction and to an attempt up to the current one, and when the
  transaction has a task, to that task with the pinned runtime, image and command.\<close>

theorem executions_are_exclusive_and_bound:
  assumes "ReplayTx H es = Inr p" and "list_all clean_event es" and "i < length (tj_Executions p)"
  shows "distinct (map ax_ID (tj_Executions p)) \<and>
     (ax_Status (tj_Executions p ! i) = AgentExecutionRunning \<longrightarrow> Suc i = length (tj_Executions p) \<and>
       tx_State (tj_Transaction p) \<in> {TransactionRunning, TransactionBlocked, TransactionAborted}) \<and>
     ax_RunID (tj_Executions p ! i) \<in> set (tx_AgentRunIDs (tj_Transaction p)) \<and>
     ax_StageBindingID (tj_Executions p ! i) \<in> set (map sb_ID (tx_StageBindings (tj_Transaction p))) \<and>
     ax_Attempt (tj_Executions p ! i) \<le> tx_Attempt (tj_Transaction p) \<and>
     (case tx_Task (tj_Transaction p) of
        None \<Rightarrow> ax_TaskDigest (tj_Executions p ! i) = ''''
      | Some task \<Rightarrow> ax_TaskDigest (tj_Executions p ! i) = tk_Digest task \<and>
          ax_RunID (tj_Executions p ! i) = tk_RunID task \<and>
          ax_RuntimeClass (tj_Executions p ! i) = tp_RuntimeClass (tk_AgentProfile task) \<and>
          ax_ImageDigest (tj_Executions p ! i) = tp_ImageDigest (tk_AgentProfile task) \<and>
          ax_CommandDigest (tj_Executions p ! i) = tp_CommandDigest (tk_AgentProfile task))"
proof -
  let ?x = "tj_Executions p ! i"
  have inv: "executions_inv p" "active_inv p" using ReplayTx_inv [OF assms(1,2)] by (simp_all add: tx_inv_def)
  have mem: "?x \<in> set (tj_Executions p)" using assms(3) by simp
  have "Suc i = length (tj_Executions p)" if "ax_Status ?x = AgentExecutionRunning"
  proof (rule ccontr)
    assume "Suc i \<noteq> length (tj_Executions p)"
    with assms(3) have "i < length (butlast (tj_Executions p))" by simp
    then have "?x \<in> set (butlast (tj_Executions p))" by (metis nth_butlast nth_mem)
    with inv(1) that show False by (auto simp: executions_inv_def)
  qed
  moreover have "ax_Attempt ?x \<le> tx_Attempt (tj_Transaction p) \<and>
      ax_RunID ?x \<in> set (tx_AgentRunIDs (tj_Transaction p)) \<and>
      ax_StageBindingID ?x \<in> set (map sb_ID (tx_StageBindings (tj_Transaction p)))"
    using inv(1) mem unfolding executions_inv_def set_map by (metis imageI)
  moreover have "distinct (map ax_ID (tj_Executions p))" using inv(1) by (simp add: executions_inv_def)
  moreover have "ax_Status ?x = AgentExecutionRunning \<longrightarrow>
      tx_State (tj_Transaction p) \<in> {TransactionRunning, TransactionBlocked, TransactionAborted}"
    using inv(2) mem unfolding active_inv_def by blast
  moreover note ReplayTx_task_inv [OF assms(1), unfolded task_inv_def, rule_format, OF mem]
  ultimately show ?thesis by blast
qed

theorem executions_are_exclusive_and_bound_witness:
  "distinct (map ax_ID (tj_Executions ex_q19)) \<and> ax_TaskDigest (tj_Executions ex_q19 ! 0) = ''''"
proof -
  have n: "0 < length (tj_Executions ex_q19)" "tx_Task (tj_Transaction ex_q19) = None"
    by (simp_all add: ex_q_defs ex_tx_def)
  from executions_are_exclusive_and_bound [OF ex_tx_replay ex_tx_clean n(1)] n(2) show ?thesis by simp
qed

text \<open>The archive of superseded attempts only grows: along any continuation the earlier archive
  is a prefix of the later one, the attempt number advances by the number of new archive entries, and
  the archived attempts are numbered consecutively up to the current one.\<close>

theorem attempts_are_archived:
  assumes "ReplayTx H es = Inr p" and "list_all clean_event es" and "ReplayTx H (es @ fs) = Inr q"
  shows "(\<exists>new. tj_SupersededAttempts q = tj_SupersededAttempts p @ new \<and>
       tx_Attempt (tj_Transaction q) = tx_Attempt (tj_Transaction p) + int (length new)) \<and>
     (\<forall>i < length (tj_SupersededAttempts q). at_Attempt (tj_SupersededAttempts q ! i) =
        tx_Attempt (tj_Transaction q) - int (length (tj_SupersededAttempts q)) + int i)"
proof -
  have inv: "tx_inv H p" using ReplayTx_inv assms by blast
  have "replayFromTx H (Some p) fs = Inr q"
    using tx_ledger.replay_extended assms unfolding ReplayTx_ledger by blast
  then have "tx_inv H q \<and> (\<exists>new. tj_SupersededAttempts q = tj_SupersededAttempts p @ new \<and>
      tx_Attempt (tj_Transaction q) = tx_Attempt (tj_Transaction p) + int (length new))"
  proof (induction rule: tx_ledger.replay_from_invariant)
    case start
    then show ?case using inv by simp
  next
    case (step e r s)
    then obtain new new' where "tj_SupersededAttempts r = tj_SupersededAttempts p @ new"
      "tx_Attempt (tj_Transaction r) = tx_Attempt (tj_Transaction p) + int (length new)"
      "tj_SupersededAttempts s = tj_SupersededAttempts r @ new'"
      "tx_Attempt (tj_Transaction s) = tx_Attempt (tj_Transaction r) + int (length new')"
      using archive_step [of H r e s] by blast
    with step ApplyTx_step_inv [of H r e s] show ?case by (intro conjI exI [of _ "new @ new'"]) simp_all
  qed
  then show ?thesis by (auto simp: tx_inv_def attempts_inv_def)
qed

theorem attempts_are_archived_witness:
  "\<exists>new. tj_SupersededAttempts ex_q19 = tj_SupersededAttempts ex_q13 @ new \<and>
     tx_Attempt (tj_Transaction ex_q19) = 1 + int (length new)"
proof -
  have "ReplayTx ex_H (take 13 ex_tx_history @ drop 13 ex_tx_history) = Inr ex_q19"
    "tx_Attempt (tj_Transaction ex_q13) = 1"
    by (simp_all add: ex_tx_replay ex_q_defs ex_tx_def)
  with attempts_are_archived [OF ex_tx_replay_pending ex_tx_clean_take] show ?thesis by fastforce
qed

end
