(* ===== verification/Commit_Plan.thy ===== *)
theory Commit_Plan
  imports Transaction_Validate
begin

text \<open>
  What the validator of commit plans (\<^verbatim>\<open>CommitPlan.Validate\<close>) accepts, stated without its loops: a
  release order in which every step comes after what it depends on, and a compensation order that
  undoes dependent steps first.
\<close>

lemma index_of_nth:
  "distinct xs \<Longrightarrow> i < length xs \<Longrightarrow> index_of (xs ! i) xs = Some i"
proof (induction xs arbitrary: i)
  case (Cons x xs)
  then show ?case by (cases i) (auto simp: nth_mem)
qed simp

lemma validateCommitSteps_None:
  "validateCommitSteps resource seen i steps = None \<Longrightarrow>
     distinct (map st_EffectID steps) \<and> set (map st_EffectID steps) \<inter> set seen = {} \<and>
     (\<forall>k < length steps. st_Sequence (steps ! k) = int (i + k) + 1 \<and> 1 \<le> st_TimeoutSeconds (steps ! k) \<and>
        st_RequiresReceipt (steps ! k) \<and>
        set (st_DependsOn (steps ! k)) \<subseteq> set seen \<union> set (map st_EffectID (take k steps)))"
proof (induction resource seen i steps rule: validateCommitSteps.induct)
  case (1 resource seen i)
  then show ?case by simp
next
  case (2 resource seen i step steps)
  let ?rest = "validateCommitSteps resource (st_EffectID step # seen) (Suc i) steps"
  from "2.prems" have rest: "?rest = None" and step: "st_Sequence step = int (i + 1)" "st_EffectID step \<notin> set seen"
    "set (st_DependsOn step) \<subseteq> set seen" "\<not> st_TimeoutSeconds step < 1" "st_RequiresReceipt step"
    by (simp_all add: Let_def)
  note ih = "2.IH" [OF refl rest]
  show ?case
  proof (intro conjI allI impI)
    fix k
    assume k: "k < length (step # steps)"
    show "st_Sequence ((step # steps) ! k) = int (i + k) + 1" "1 \<le> st_TimeoutSeconds ((step # steps) ! k)"
      "st_RequiresReceipt ((step # steps) ! k)"
      "set (st_DependsOn ((step # steps) ! k)) \<subseteq> set seen \<union> set (map st_EffectID (take k (step # steps)))"
      using k ih step by (cases k; auto)+
  qed (use ih step in auto)
qed

lemma validateCompensationSteps_None:
  "validateCompensationSteps resource planned seen i steps = None \<Longrightarrow>
     distinct (map ks_EffectID steps) \<and> set (map ks_EffectID steps) \<inter> set seen = {} \<and>
     set (map ks_EffectID steps) \<subseteq> set planned \<and>
     (\<forall>k < length steps. ks_Sequence (steps ! k) = int (i + k) + 1)"
proof (induction resource planned seen i steps rule: validateCompensationSteps.induct)
  case (1 resource planned seen i)
  then show ?case by simp
next
  case (2 resource planned seen i step steps)
  from "2.prems" have rest: "validateCompensationSteps resource planned (ks_EffectID step # seen) (Suc i) steps = None"
    and step: "ks_Sequence step = int (i + 1)" "ks_EffectID step \<in> set planned" "ks_EffectID step \<notin> set seen"
    by (simp_all add: Let_def)
  note ih = "2.IH" [OF refl rest]
  have "ks_Sequence ((step # steps) ! k) = int (i + k) + 1" if "k < length (step # steps)" for k
    using that ih step by (cases k) auto
  with ih step show ?case by auto
qed

text \<open>A valid plan, as a release order.\<close>

definition release_order :: "CommitPlan \<Rightarrow> bool" where
  "release_order plan \<longleftrightarrow> cp_Steps plan \<noteq> [] \<and> distinct (map st_EffectID (cp_Steps plan)) \<and>
     (\<forall>k < length (cp_Steps plan). st_Sequence (cp_Steps plan ! k) = int k + 1 \<and>
        1 \<le> st_TimeoutSeconds (cp_Steps plan ! k) \<and> st_RequiresReceipt (cp_Steps plan ! k) \<and>
        set (st_DependsOn (cp_Steps plan ! k)) \<subseteq> set (map st_EffectID (take k (cp_Steps plan))))"

text \<open>When a step and something it depends on are both compensated, the step is compensated first.\<close>

definition compensation_order :: "CommitPlan \<Rightarrow> bool" where
  "compensation_order plan \<longleftrightarrow> distinct (map ks_EffectID (cp_CompensationSteps plan)) \<and>
     set (map ks_EffectID (cp_CompensationSteps plan)) \<subseteq> set (map st_EffectID (cp_Steps plan)) \<and>
     (\<forall>step i j. step \<in> set (cp_Steps plan) \<and>
        i < length (cp_CompensationSteps plan) \<and> j < length (cp_CompensationSteps plan) \<and>
        ks_EffectID (cp_CompensationSteps plan ! i) = st_EffectID step \<and>
        ks_EffectID (cp_CompensationSteps plan ! j) \<in> set (st_DependsOn step) \<longrightarrow> i < j)"

lemma valid_plan_release_order:
  assumes "CommitPlan_Validate plan = None"
  shows "release_order plan"
proof -
  have "cp_Steps plan \<noteq> []" "validateCommitSteps ''CommitPlan'' [] 0 (cp_Steps plan) = None"
    using assms by (simp_all add: CommitPlan_Validate_def Let_def)
  with validateCommitSteps_None [of "''CommitPlan''" "[]" 0 "cp_Steps plan"] show ?thesis
    by (simp add: release_order_def)
qed

lemma valid_plan_compensation_order:
  assumes "CommitPlan_Validate plan = None"
  shows "compensation_order plan"
proof -
  let ?ids = "map ks_EffectID (cp_CompensationSteps plan)"
  have v: "validateCompensationSteps ''CommitPlan'' (map st_EffectID (cp_Steps plan)) [] 0 (cp_CompensationSteps plan) = None"
    and m: "\<not> compensation_misordered plan"
    using assms by (simp_all add: CommitPlan_Validate_def Let_def)
  note ok = validateCompensationSteps_None [OF v]
  have "i < j" if step: "step \<in> set (cp_Steps plan)" and ij: "i < length ?ids" "j < length ?ids"
    and i: "?ids ! i = st_EffectID step" and j: "?ids ! j \<in> set (st_DependsOn step)" for step i j
  proof -
    have at: "index_of (st_EffectID step) ?ids = Some i" "index_of (?ids ! j) ?ids = Some j"
      using index_of_nth [of ?ids] ok ij i by metis+
    with m step j have "\<not> j \<le> i"
      by (fastforce simp: compensation_misordered_def Let_def list_ex_iff split: option.splits)
    then show "i < j" by simp
  qed
  with ok show ?thesis by (auto simp: compensation_order_def)
qed

lemma valid_plan_irreversible:
  assumes "CommitPlan_Validate plan = None" and "effectID \<in> set (cp_IrreversibleEffectIDs plan)"
  shows "effectID \<in> set (map st_EffectID (cp_Steps plan))"
    and "effectID \<notin> set (map ks_EffectID (cp_CompensationSteps plan))" and "cp_ManualRecoveryRef plan \<noteq> None"
proof -
  have c: "check_each (\<lambda>i effectID. first_error
          [fail_if (effectID \<notin> set (map st_EffectID (cp_Steps plan))) (invalid ''CommitPlan'' ''irreversible_effect_ids''),
           fail_if (effectID \<in> set (map ks_EffectID (cp_CompensationSteps plan))) (invalid ''CommitPlan'' ''compensation_steps'')])
        0 (cp_IrreversibleEffectIDs plan) = None"
    using assms(1) by (simp add: CommitPlan_Validate_def Let_def)
  then have "\<forall>x\<in>set (cp_IrreversibleEffectIDs plan). x \<in> set (map st_EffectID (cp_Steps plan)) \<and>
      x \<notin> set (map ks_EffectID (cp_CompensationSteps plan))"
    by (subst (asm) check_each_None) auto
  with assms(2) show "effectID \<in> set (map st_EffectID (cp_Steps plan))"
    "effectID \<notin> set (map ks_EffectID (cp_CompensationSteps plan))" by blast+
  show "cp_ManualRecoveryRef plan \<noteq> None"
    using assms by (cases "cp_ManualRecoveryRef plan") (auto simp: CommitPlan_Validate_def Let_def)
qed

end
