(* ===== verification/Authority_Properties.thy ===== *)
theory Authority_Properties
  imports Transaction_History Transaction_Examples Commit_Plan
begin

text \<open>
  The properties of approvals, policy decisions, commit plans and prepared authority.
\<close>

section \<open>Approvals\<close>

text \<open>C28. What a signed decision does: an accepted \<^verbatim>\<open>approval.resolved\<close> event finds the transaction
  pending, decides about exactly its frozen package before either expires, comes from the human who
  sent it and consumes one outstanding approval. An approval removes that approval and records the
  decision's digest, and only the last one makes the transaction ready to commit; a rejection blocks
  it and a request for revision sends it back, each clearing every outstanding approval.\<close>

theorem approval_decision_outcome:
  assumes "ReplayTx H es = Inr p" and "list_all clean_event es" and "ApplyTx H (Some p) e = Inr q"
    and "te_Type e = EventApprovalResolved"
  shows "\<exists>package d. tj_ApprovalPackage p = Some package \<and> te_Payload e = ApprovalResolvedPayload d \<and>
     tx_State (tj_Transaction p) = TransactionPendingApproval \<and> ad_PackageDigest d = ap_Digest package \<and>
     ad_Approver d = te_Actor e \<and> pr_Kind (te_Actor e) = PrincipalHuman \<and>
     te_OccurredAt e < ad_ExpiresAt d \<and> te_OccurredAt e < ap_ExpiresAt package \<and>
     ad_ApprovalID d \<in> set (tx_OutstandingApprovalIDs (tj_Transaction p)) \<and>
     (case ad_Decision d of
        ApprovalApprove \<Rightarrow>
          tx_OutstandingApprovalIDs (tj_Transaction q) =
            remove1 (ad_ApprovalID d) (tx_OutstandingApprovalIDs (tj_Transaction p)) \<and>
          tj_ApprovalDigests q = tj_ApprovalDigests p @ [ad_Digest d] \<and>
          tx_State (tj_Transaction q) = (if tx_OutstandingApprovalIDs (tj_Transaction q) = []
            then TransactionReadyToCommit else TransactionPendingApproval)
      | ApprovalReject \<Rightarrow> tx_State (tj_Transaction q) = TransactionBlocked \<and>
          tx_OutstandingApprovalIDs (tj_Transaction q) = []
      | ApprovalRevise \<Rightarrow> tx_State (tj_Transaction q) = TransactionReviseRequired \<and>
          tx_OutstandingApprovalIDs (tj_Transaction q) = []
      | OtherApprovalDecision _ \<Rightarrow> False)"
proof -
  have inv: "package_inv H p" using ReplayTx_inv [OF assms(1,2)] by (simp add: tx_inv_def)
  from assms(3,4) obtain r where r: "applyApprovalResolution H p e = Inr r" and q: "q = advanceTx r e"
    by (elim ApplyTx_Some_Inr) (simp add: applyEventTx_def)
  from resolution_step [OF r] obtain package d where rs: "resolvable H p e package d"
    and out: "case ad_Decision d of
        ApprovalApprove \<Rightarrow>
          tx_OutstandingApprovalIDs (tj_Transaction r) =
            remove1 (ad_ApprovalID d) (tx_OutstandingApprovalIDs (tj_Transaction p)) \<and>
          tj_ApprovalDigests r = tj_ApprovalDigests p @ [ad_Digest d] \<and>
          tx_State (tj_Transaction r) = (if tx_OutstandingApprovalIDs (tj_Transaction r) = []
            then TransactionReadyToCommit else TransactionPendingApproval)
      | ApprovalReject \<Rightarrow> tx_State (tj_Transaction r) = TransactionBlocked \<and>
          tx_OutstandingApprovalIDs (tj_Transaction r) = []
      | ApprovalRevise \<Rightarrow> tx_State (tj_Transaction r) = TransactionReviseRequired \<and>
          tx_OutstandingApprovalIDs (tj_Transaction r) = []
      | OtherApprovalDecision _ \<Rightarrow> False" by blast
  have "ap_Digest package = tx_ApprovalPackageDigest (tj_Transaction p)"
    using inv rs by (simp add: package_inv_def resolvable_def bound_package_def)
  moreover have "pr_Kind (ad_Approver d) = PrincipalHuman"
    using rs ApprovalDecision_Validate_human [of d] by (simp add: resolvable_def)
  ultimately show ?thesis using rs out q
    by (intro exI [of _ package] exI [of _ d]) (simp add: resolvable_def split: ApprovalDecisionKind.splits)
qed

theorem approval_decision_outcome_witness:
  "tx_State (tj_Transaction ex_q13) = TransactionPendingApproval \<and>
   tx_State (tj_Transaction ex_q14) = TransactionReadyToCommit \<and>
   tj_ApprovalDigests ex_q14 = tj_ApprovalDigests ex_q13 @ [step_digest 55]"
proof -
  have e: "ex_tx_history ! 13 = ex_approval_event" by (simp add: ex_tx_history_def)
  have t: "te_Type (ex_tx_history ! 13) = EventApprovalResolved"
    and pl: "te_Payload (ex_tx_history ! 13) = ApprovalResolvedPayload ex_decision"
    by (simp_all only: e) (simp_all add: ex_approval_event_def ex_tx_event_def)
  have d: "ad_Decision ex_decision = ApprovalApprove" "ad_Digest ex_decision = step_digest 55"
    "ad_ApprovalID ex_decision = ''approval:1''"
    by (simp_all add: ex_decision_def)
  have o: "tx_OutstandingApprovalIDs (tj_Transaction ex_q13) = [''approval:1'']" by (simp add: ex_q_defs)
  from approval_decision_outcome [OF ex_tx_replay_pending ex_tx_clean_take ex_step14 t] d o pl
  show ?thesis by (auto simp: ex_q_states)
qed

text \<open>The two ways the kernel recognises a digest agree: the reducer's own test accepts exactly the
  strings that the model's validator accepts.\<close>

theorem digest_tests_agree: "isDigest value \<longleftrightarrow> IsSHA256Digest value"
  by (rule isDigest_iff)

section \<open>Commit plans\<close>

text \<open>C29. A valid commit plan is a release order: its steps are numbered from one, name distinct
  effects, require receipts, have a timeout and depend only on earlier steps; its compensation steps
  name distinct planned effects and undo a step before anything that step depends on; irreversible
  effects are planned, never compensated, and come with a manual recovery reference.\<close>

theorem valid_commit_plan_is_release_order:
  assumes "CommitPlan_Validate plan = None"
  shows "distinct (map st_EffectID (cp_Steps plan)) \<and>
     (\<forall>k < length (cp_Steps plan). st_Sequence (cp_Steps plan ! k) = int k + 1 \<and>
        1 \<le> st_TimeoutSeconds (cp_Steps plan ! k) \<and> st_RequiresReceipt (cp_Steps plan ! k) \<and>
        set (st_DependsOn (cp_Steps plan ! k)) \<subseteq> set (map st_EffectID (take k (cp_Steps plan)))) \<and>
     distinct (map ks_EffectID (cp_CompensationSteps plan)) \<and>
     set (map ks_EffectID (cp_CompensationSteps plan)) \<subseteq> set (map st_EffectID (cp_Steps plan)) \<and>
     (\<forall>step i j. step \<in> set (cp_Steps plan) \<and>
        i < length (cp_CompensationSteps plan) \<and> j < length (cp_CompensationSteps plan) \<and>
        ks_EffectID (cp_CompensationSteps plan ! i) = st_EffectID step \<and>
        ks_EffectID (cp_CompensationSteps plan ! j) \<in> set (st_DependsOn step) \<longrightarrow> i < j) \<and>
     (\<forall>f \<in> set (cp_IrreversibleEffectIDs plan). f \<in> set (map st_EffectID (cp_Steps plan)) \<and>
        f \<notin> set (map ks_EffectID (cp_CompensationSteps plan)) \<and> cp_ManualRecoveryRef plan \<noteq> None)"
  using valid_plan_release_order [OF assms] valid_plan_compensation_order [OF assms]
    valid_plan_irreversible [OF assms]
  unfolding release_order_def compensation_order_def by blast

theorem valid_commit_plan_is_release_order_witness:
  "CommitPlan_Validate ex_plan = None \<and> distinct (map st_EffectID (cp_Steps ex_plan))"
  using valid_commit_plan_is_release_order [OF ex_plan_valid] ex_plan_valid by blast

section \<open>Sequence policy\<close>

text \<open>When the baseline policy allows a sequence of effects: exactly when no effect is
  irreversible, no database deletion exceeds the threshold (100 rows when the policy names none), no
  protected control changes together with verification of protected controls, and no effect that grants
  no authority itself depends on an earlier one of the sequence that does.\<close>

theorem policy_allows_exactly:
  "sd_Outcome (BaselinePolicy_Evaluate n effects) = SequenceAllow \<longleftrightarrow>
     \<not> (\<exists>f\<in>set effects. ef_RecoveryClass f = RecoveryIrreversible) \<and>
     \<not> (\<exists>f\<in>set effects. isLargeDatabaseDelete f (if n = 0 then 100 else n)) \<and>
     \<not> (\<exists>f\<in>set effects. \<exists>g\<in>set effects. isProtectedControl f \<and> isVerificationResource f \<and>
        isProtectedControl g \<and> \<not> isVerificationResource g) \<and>
     \<not> (\<exists>i j. i < j \<and> j < length effects \<and> grants_authority (effects ! i) \<and>
        \<not> grants_authority (effects ! j) \<and> ef_ID (effects ! i) \<in> set (ef_Dependencies (effects ! j)))"
  unfolding evaluate_allow no_findings self_use_positions by (rule refl)

text \<open>C30. When a sequence is blocked for using authority it grants to itself: exactly when an effect whose operation is no
  grant depends on an earlier effect whose operation is one, that is, contains \<^verbatim>\<open>grant\<close> or \<^verbatim>\<open>permission.create\<close> in
  lower case. The finding names such a pair. A blocked decision prepares no commit authority whatever the
  projection, the release target and the time. Effects that are grants themselves are not looked at, whatever
  they depend on.\<close>

theorem self_granted_authority_is_blocked:
  fixes effects :: "Effect list"
  defines "is_grant f \<equiv> contains (to_lower (ef_Operation f)) ''grant'' \<or> contains (to_lower (ef_Operation f)) ''permission.create''"
  shows "(sd_Outcome (BaselinePolicy_Evaluate n effects) = SequenceBlock \<longleftrightarrow>
      (\<exists>i j. i < j \<and> j < length effects \<and> is_grant (effects ! i) \<and> \<not> is_grant (effects ! j) \<and>
        ef_ID (effects ! i) \<in> set (ef_Dependencies (effects ! j)))) \<and>
    (sd_Outcome (BaselinePolicy_Evaluate n effects) = SequenceBlock \<longrightarrow>
      (\<exists>f\<in>set (sd_Findings (BaselinePolicy_Evaluate n effects)). sf_Outcome f = SequenceBlock \<and>
        (\<exists>i j. i < j \<and> j < length effects \<and> is_grant (effects ! i) \<and> \<not> is_grant (effects ! j) \<and>
          ef_ID (effects ! i) \<in> set (ef_Dependencies (effects ! j)) \<and>
          sf_EffectIDs f = [ef_ID (effects ! i), ef_ID (effects ! j)])) \<and>
      (\<exists>err. PrepareAuthority H p (BaselinePolicy_Evaluate n effects) policyDigest release now = Inl err))"
proof -
  have g: "is_grant = grants_authority" by (rule ext) (simp add: is_grant_def grants_authority_def Let_def)
  have i: "sd_Outcome (BaselinePolicy_Evaluate n effects) = SequenceBlock \<longleftrightarrow> delegatedAuthoritySelfUse effects \<noteq> None"
    using evaluate_block evaluate_block_only by blast
  have "\<exists>err. PrepareAuthority H p (BaselinePolicy_Evaluate n effects) policyDigest release now = Inl err"
    if b: "sd_Outcome (BaselinePolicy_Evaluate n effects) = SequenceBlock"
  proof -
    from b have "checkPreparation p (BaselinePolicy_Evaluate n effects) policyDigest release now \<noteq> None"
      by (simp add: checkPreparation_def)
    with b show ?thesis by (auto simp: PrepareAuthority_def)
  qed
  moreover have "\<exists>f\<in>set (sd_Findings (BaselinePolicy_Evaluate n effects)). sf_Outcome f = SequenceBlock \<and>
        (\<exists>i j. i < j \<and> j < length effects \<and> grants_authority (effects ! i) \<and> \<not> grants_authority (effects ! j) \<and>
          ef_ID (effects ! i) \<in> set (ef_Dependencies (effects ! j)) \<and>
          sf_EffectIDs f = [ef_ID (effects ! i), ef_ID (effects ! j)])"
    if "sd_Outcome (BaselinePolicy_Evaluate n effects) = SequenceBlock"
  proof -
    from that i obtain f where f: "delegatedAuthoritySelfUse effects = Some f" by auto
    then have "f \<in> set (sd_Findings (BaselinePolicy_Evaluate n effects))" by (simp add: BaselinePolicy_Evaluate_def Let_def)
    with f self_use_finding self_use_pair [of "[]"] show ?thesis
      unfolding delegatedAuthoritySelfUse_def by fastforce
  qed
  moreover have "delegatedAuthoritySelfUse effects \<noteq> None \<longleftrightarrow> (\<exists>i j. i < j \<and> j < length effects \<and> grants_authority (effects ! i) \<and>
     \<not> grants_authority (effects ! j) \<and> ef_ID (effects ! i) \<in> set (ef_Dependencies (effects ! j)))"
    using self_use_from_iff [of "[]"] self_use_positions unfolding delegatedAuthoritySelfUse_def by blast
  ultimately show ?thesis unfolding g i by blast
qed

definition ex_granting :: Effect where
  "ex_granting = ex_effect\<lparr>ef_ID := ''effect:g'', ef_Operation := ''iam.grant''\<rparr>"

definition ex_using :: Effect where
  "ex_using = ex_effect\<lparr>ef_ID := ''effect:u'', ef_Operation := ''db.write'', ef_Dependencies := [''effect:g'']\<rparr>"

definition ex_release :: ReleaseBinding where
  "ex_release = \<lparr>rl_Connector = ''git'', rl_Target = ef_Resource ex_effect, rl_ExpectedResourceVersion = ''''\<rparr>"

theorem self_granted_authority_is_blocked_witness:
  "sd_Outcome (BaselinePolicy_Evaluate 0 [ex_granting, ex_using]) = SequenceBlock \<and>
   (\<exists>err. PrepareAuthority ex_H ex_q13 (BaselinePolicy_Evaluate 0 [ex_granting, ex_using]) '''' ex_release 0 = Inl err)"
proof -
  have "contains (to_lower (ef_Operation ex_granting)) ''grant''" by code_simp
  moreover have "\<not> contains (to_lower (ef_Operation ex_using)) ''grant''" "\<not> contains (to_lower (ef_Operation ex_using)) ''permission.create''"
    by code_simp+
  moreover have "ef_ID ex_granting \<in> set (ef_Dependencies ex_using)" by (simp add: ex_granting_def ex_using_def)
  ultimately have "\<exists>i j. i < j \<and> j < length [ex_granting, ex_using] \<and>
      contains (to_lower (ef_Operation ([ex_granting, ex_using] ! i))) ''grant'' \<and>
      \<not> (contains (to_lower (ef_Operation ([ex_granting, ex_using] ! j))) ''grant'' \<or>
         contains (to_lower (ef_Operation ([ex_granting, ex_using] ! j))) ''permission.create'') \<and>
      ef_ID ([ex_granting, ex_using] ! i) \<in> set (ef_Dependencies ([ex_granting, ex_using] ! j))"
    by (intro exI [of _ 0] exI [of _ "Suc 0"]) simp
  then show ?thesis
    using self_granted_authority_is_blocked [of 0 "[ex_granting, ex_using]" ex_H ex_q13 "''''" ex_release 0] by blast
qed

end
