(* ===== verification/Store_Tables.thy ===== *)
theory Store_Tables
  imports Event_Ledger Kernel_Validate Go_Time
begin

text \<open>
  The tables of the kernel store and the SQL statements that the store runs on them
  (\<^verbatim>\<open>internal/kernel/store/sqlite.go\<close>), and the contract of an event store.

  A table is the list of its rows. The two pairs of tables that hold a ledger (\<^verbatim>\<open>runs\<close> with
  \<^verbatim>\<open>events\<close>, and \<^verbatim>\<open>agent_transactions\<close> with \<^verbatim>\<open>transaction_events\<close>) have the same columns up to the
  names of two of them, so their rows share a record type. The encoded JSON of a BLOB column is a
  value of a type \<open>'j\<close>, a parameter.

  SQLite is a parameter too, as far as it can fail: \<open>driver\<close> gives, for every step of an operation, the
  fault that the step reports, if any. What the code relies on is the documented behaviour of a
  serializable transaction: a statement that fails changes nothing, and a transaction that is not
  committed, or whose commit fails, leaves the committed state as it was.
\<close>

section \<open>Errors\<close>

datatype db_fault = DatabaseLocked | ConstraintFailed | OtherFault

text \<open>
  The steps of one store operation at which the driver can report a fault. Calls of other store
  operations get a part of the driver of their own.
\<close>

datatype db_step = BeginStep | QueryStep | ScanStep nat | RowsErrStep | UpdateStep | AffectedStep
  | InsertHeadStep | InsertEventStep nat | StatementStep nat | CommitStep | Sub nat db_step

type_synonym driver = "db_step \<Rightarrow> db_fault option"

definition sub_driver :: "driver \<Rightarrow> nat \<Rightarrow> driver" where
  "sub_driver D n = (\<lambda>step. D (Sub n step))"

definition storeError :: "ErrorCode \<Rightarrow> string \<Rightarrow> string \<Rightarrow> KernelError" where
  "storeError code operation resource = KernelError code operation resource ''''"

definition conflict :: "string \<Rightarrow> string \<Rightarrow> KernelError" where
  "conflict operation resource = storeError ErrorConflict operation resource"

definition classifyWriteError :: "string \<Rightarrow> string \<Rightarrow> db_fault \<Rightarrow> KernelError" where
  "classifyWriteError operation resource err = (case err of
     OtherFault \<Rightarrow> storeError ErrorInternal operation resource
   | _ \<Rightarrow> conflict operation resource)"

definition validateNamespace :: "string \<Rightarrow> KernelError option" where
  "validateNamespace namespace =
     fail_if (\<not> IsIdentifier namespace) (storeError ErrorSchemaInvalid ''validate_namespace'' namespace)"

lemma identifier_not_blank: "IsIdentifier s \<Longrightarrow> \<not> blank s"
  by (cases s) (auto simp: IsIdentifier_def not_blank_Cons)

lemma storeError_code [simp]: "ke_Code (storeError c a b) = c"
  by (simp add: storeError_def)

lemma conflict_code [simp]: "ke_Code (conflict a b) = ErrorConflict"
  by (simp add: conflict_def)

text \<open>A step that reads: any fault of it is an internal error.\<close>

definition read_step :: "driver \<Rightarrow> db_step \<Rightarrow> string \<Rightarrow> string \<Rightarrow> KernelError option" where
  "read_step D step operation resource = fail_if (D step \<noteq> None) (storeError ErrorInternal operation resource)"

text \<open>A statement that writes: a fault of the driver, or \<^const>\<open>None\<close> from the table for a violated
  constraint, is classified.\<close>

definition exec_write :: "driver \<Rightarrow> db_step \<Rightarrow> string \<Rightarrow> string \<Rightarrow> 'a option \<Rightarrow> KernelError + 'a" where
  "exec_write D step operation resource r = (case D step of
     Some err \<Rightarrow> Inl (classifyWriteError operation resource err)
   | None \<Rightarrow> (case r of
       None \<Rightarrow> Inl (classifyWriteError operation resource ConstraintFailed)
     | Some x \<Rightarrow> Inr x))"

text \<open>\<^verbatim>\<open>v, err := f(x); if err != nil { return storeError(code, operation, resource, ...) }\<close>, where the
  error itself is dropped.\<close>

definition or_error :: "ErrorCode \<Rightarrow> string \<Rightarrow> string \<Rightarrow> 'a option \<Rightarrow> KernelError + 'a" where
  "or_error code operation resource v = (case v of
     None \<Rightarrow> Inl (storeError code operation resource) | Some x \<Rightarrow> Inr x)"

definition wrap_error :: "ErrorCode \<Rightarrow> string \<Rightarrow> string \<Rightarrow> 'e + 'a \<Rightarrow> KernelError + 'a" where
  "wrap_error code operation resource r = (case r of
     Inl _ \<Rightarrow> Inl (storeError code operation resource) | Inr x \<Rightarrow> Inr x)"

lemma or_error_Inr [simp]: "or_error c op res v = Inr x \<longleftrightarrow> v = Some x"
  by (simp add: or_error_def split: option.splits)

lemma or_error_simps [simp]: "or_error c op res None = Inl (storeError c op res)" "or_error c op res (Some x) = Inr x"
  by (simp_all add: or_error_def)

lemma wrap_error_Inr [simp]: "wrap_error c op res r = Inr x \<longleftrightarrow> r = Inr x"
  by (simp add: wrap_error_def split: sum.splits)

lemma wrap_error_simps [simp]:
  "wrap_error c op res (Inl e) = Inl (storeError c op res)" "wrap_error c op res (Inr x) = Inr x"
  by (simp_all add: wrap_error_def)

lemma read_step_None [simp]: "read_step D step op res = None \<longleftrightarrow> D step = None"
  by (simp add: read_step_def)

lemma read_step_ok [simp]: "D step = None \<Longrightarrow> read_step D step op res = None"
  by simp

lemma exec_write_Inr [simp]: "exec_write D step op res r = Inr x \<longleftrightarrow> D step = None \<and> r = Some x"
  by (auto simp: exec_write_def split: option.splits)

section \<open>Rows\<close>

record 'j head_row =
  hr_namespace :: string
  hr_id :: string
  hr_event_sequence :: int64
  hr_last_event_digest :: string
  hr_json :: 'j
  hr_created_at :: string
  hr_updated_at :: string

record 'j event_row =
  er_namespace :: string
  er_id :: string
  er_sequence :: int64
  er_event_id :: string
  er_event_type :: string
  er_event_digest :: string
  er_json :: 'j
  er_occurred_at :: string

definition hkey :: "'j head_row \<Rightarrow> string \<times> string" where
  "hkey h = (hr_namespace h, hr_id h)"

definition ekey :: "'j event_row \<Rightarrow> string \<times> string" where
  "ekey r = (er_namespace r, er_id r)"

text \<open>
  \<^verbatim>\<open>INSERT INTO runs\<close> and \<^verbatim>\<open>INSERT INTO agent_transactions\<close>: the primary key is new and the sequence
  passes its check. \<^verbatim>\<open>INSERT INTO events\<close> and \<^verbatim>\<open>INSERT INTO transaction_events\<close>: the primary key is
  new, the event ID is new in the whole table, the sequence passes its check and the stream exists.
\<close>

definition insert_head :: "'j head_row list \<Rightarrow> 'j head_row \<Rightarrow> 'j head_row list option" where
  "insert_head heads h =
     (if hkey h \<in> set (map hkey heads) \<or> hr_event_sequence h < 1 then None else Some (heads @ [h]))"

definition insert_event_row ::
  "'j head_row list \<Rightarrow> 'j event_row list \<Rightarrow> 'j event_row \<Rightarrow> 'j event_row list option" where
  "insert_event_row heads events r =
     (if (ekey r, er_sequence r) \<in> set (map (\<lambda>x. (ekey x, er_sequence x)) events) \<or>
         er_event_id r \<in> set (map er_event_id events) \<or> er_sequence r < 1 \<or>
         ekey r \<notin> set (map hkey heads)
      then None else Some (events @ [r]))"

text \<open>
  \<^verbatim>\<open>UPDATE ... SET event_sequence, last_event_digest, json, updated_at WHERE ...\<close> and the number of rows
  it affects; \<^const>\<open>None\<close> where the new sequence of a matching row fails its check.
\<close>

definition update_heads :: "('j head_row \<Rightarrow> bool) \<Rightarrow> int64 \<Rightarrow> string \<Rightarrow> 'j \<Rightarrow> string \<Rightarrow> 'j head_row list \<Rightarrow>
    ('j head_row list \<times> nat) option" where
  "update_heads matches event_sequence digest json updated_at heads =
     (if event_sequence < 1 \<and> list_ex matches heads then None
      else Some (map (\<lambda>h. if matches h
          then h\<lparr>hr_event_sequence := event_sequence, hr_last_event_digest := digest, hr_json := json,
                 hr_updated_at := updated_at\<rparr> else h) heads,
        length (filter matches heads)))"

text \<open>\<^verbatim>\<open>SELECT ... WHERE namespace = ? AND run_id = ?\<close> reads the first matching row.\<close>

definition select_head :: "'j head_row list \<Rightarrow> string \<Rightarrow> string \<Rightarrow> 'j head_row option" where
  "select_head heads namespace ident = find (\<lambda>h. hkey h = (namespace, ident)) heads"

text \<open>\<^verbatim>\<open>SELECT event_json ... WHERE namespace = ? AND run_id = ? AND sequence > ? ORDER BY sequence\<close>\<close>

definition select_events :: "'j event_row list \<Rightarrow> string \<Rightarrow> string \<Rightarrow> int64 \<Rightarrow> 'j list" where
  "select_events events namespace ident after =
     map er_json (sort_key er_sequence
       (filter (\<lambda>r. ekey r = (namespace, ident) \<and> after < er_sequence r) events))"

text \<open>\<^verbatim>\<open>for rows.Next() { rows.Scan(...) ... }\<close>, each row turned into a value or an error, then
  \<^verbatim>\<open>rows.Err()\<close>.\<close>

fun scan_rows :: "driver \<Rightarrow> string \<Rightarrow> string \<Rightarrow> ('r \<Rightarrow> KernelError + 'a) \<Rightarrow> nat \<Rightarrow> 'r list \<Rightarrow>
    KernelError + 'a list" where
  "scan_rows D operation resource f i [] = ok_then (read_step D RowsErrStep operation resource) (Inr [])"
| "scan_rows D operation resource f i (r # rs) =
     ok_then (read_step D (ScanStep i) operation resource)
       (bind_res (f r) (\<lambda>x. bind_res (scan_rows D operation resource f (Suc i) rs) (\<lambda>xs. Inr (x # xs))))"

lemma scan_rows_Inr:
  assumes "\<And>n. D (ScanStep n) = None" and "D RowsErrStep = None"
    and "list_all2 (\<lambda>r x. f r = Inr x) rs xs"
  shows "scan_rows D operation resource f i rs = Inr xs"
  using assms(3) by (induction arbitrary: i rule: list_all2_induct) (use assms(1,2) in auto)

lemma scan_rows_InrD:
  "scan_rows D operation resource f i rs = Inr xs \<Longrightarrow> list_all2 (\<lambda>r x. f r = Inr x) rs xs"
  by (induction rs arbitrary: i xs) auto

lemma insert_head_Some: "insert_head heads h = Some hs \<longleftrightarrow>
    hkey h \<notin> set (map hkey heads) \<and> 1 \<le> hr_event_sequence h \<and> hs = heads @ [h]"
  by (auto simp: insert_head_def)

lemma insert_event_row_Some: "insert_event_row heads events r = Some rs \<longleftrightarrow>
    (ekey r, er_sequence r) \<notin> set (map (\<lambda>x. (ekey x, er_sequence x)) events) \<and>
    er_event_id r \<notin> set (map er_event_id events) \<and> 1 \<le> er_sequence r \<and>
    ekey r \<in> set (map hkey heads) \<and> rs = events @ [r]"
  by (auto simp: insert_event_row_def)

lemma update_heads_Some: "update_heads m s d j u heads = Some (hs, n) \<Longrightarrow>
    hs = map (\<lambda>h. if m h then h\<lparr>hr_event_sequence := s, hr_last_event_digest := d, hr_json := j,
                 hr_updated_at := u\<rparr> else h) heads \<and> n = length (filter m heads)"
  by (auto simp: update_heads_def split: if_splits)

lemma select_head_Some:
  "select_head heads ns i = Some h \<Longrightarrow> h \<in> set heads \<and> hkey h = (ns, i)"
  by (auto simp: select_head_def find_Some_iff in_set_conv_nth)

lemma select_head_None: "select_head heads ns i = None \<longleftrightarrow> (ns, i) \<notin> set (map hkey heads)"
  unfolding select_head_def find_None_iff by force

lemma select_head_unique:
  assumes "distinct (map hkey heads)" and "h \<in> set heads" and "hkey h = (ns, i)"
  shows "select_head heads ns i = Some h"
proof (cases "select_head heads ns i")
  case None
  with assms(2,3) show ?thesis unfolding select_head_None by force
next
  case (Some h')
  then have "h' \<in> set heads" "hkey h' = hkey h" using select_head_Some assms(3) by metis+
  with assms Some show ?thesis by (simp add: distinct_map inj_on_def)
qed

text \<open>With distinct keys the conditional update replaces exactly the row that was read.\<close>

lemma update_heads_row:
  assumes "distinct (map hkey heads)" and "h \<in> set heads" and "hkey h = k" and "hr_event_sequence h = n"
    and "update_heads (\<lambda>h. hkey h = k \<and> hr_event_sequence h = n \<and> M h) s d j u heads = Some (hs, 1)" and "M h"
  shows "hs = map (\<lambda>x. if hkey x = hkey h then h\<lparr>hr_event_sequence := s, hr_last_event_digest := d,
    hr_json := j, hr_updated_at := u\<rparr> else x) heads"
proof -
  have "x = h" if "x \<in> set heads" "hkey x = hkey h" for x
    using assms(1,2) that by (simp add: distinct_map inj_on_def)
  then have "(hkey x = k \<and> hr_event_sequence x = n \<and> M x) = (x = h)" if "x \<in> set heads" for x
    using that assms(3,4,6) by auto
  then show ?thesis
    using update_heads_Some [OF assms(5)] \<open>\<And>x. x \<in> set heads \<Longrightarrow> hkey x = hkey h \<Longrightarrow> x = h\<close>
    by (auto intro: map_cong)
qed

text \<open>The rows of a batch go in one after the other.\<close>

fun insert_rows :: "'j head_row list \<Rightarrow> 'j event_row list \<Rightarrow> 'j event_row list \<Rightarrow> 'j event_row list option" where
  "insert_rows heads events [] = Some events"
| "insert_rows heads events (r # rs) = (case insert_event_row heads events r of
     None \<Rightarrow> None
   | Some events' \<Rightarrow> insert_rows heads events' rs)"

lemma insert_rows_Some:
  "insert_rows heads events rs = Some events' \<Longrightarrow> distinct (map er_event_id events) \<Longrightarrow>
     events' = events @ rs \<and> distinct (map er_event_id events')"
proof (induction rs arbitrary: events)
  case Nil
  then show ?case by simp
next
  case (Cons r rs)
  then obtain evs where r: "insert_event_row heads events r = Some evs" "insert_rows heads evs rs = Some events'"
    by (auto split: option.splits)
  then have "evs = events @ [r]" "distinct (map er_event_id evs)"
    using Cons.prems(2) by (auto simp: insert_event_row_Some)
  with Cons.IH [OF r(2)] show ?case by (metis append.assoc append_Cons append_Nil)
qed

section \<open>The database\<close>

record 'j contract_row =
  cr_namespace :: string
  cr_contract_digest :: string
  cr_contract_id :: string
  cr_contract_json :: 'j
  cr_created_at :: string

record 'j task_row =
  kr_namespace :: string
  kr_task_id :: string
  kr_task_digest :: string
  kr_transaction_id :: string
  kr_run_id :: string
  kr_task_json :: 'j
  kr_created_at :: string

record 'j admission_row =
  mr_namespace :: string
  mr_idempotency_key :: string
  mr_request_digest :: string
  mr_task_id :: string
  mr_task_digest :: string
  mr_contract_digest :: string
  mr_run_id :: string
  mr_transaction_id :: string
  mr_result_json :: 'j
  mr_created_at :: string

record 'j DB =
  db_metadata :: "string \<rightharpoonup> string"
  db_runs :: "'j head_row list"
  db_events :: "'j event_row list"
  db_transactions :: "'j head_row list"
  db_transaction_events :: "'j event_row list"
  db_contracts :: "'j contract_row list"
  db_tasks :: "'j task_row list"
  db_admissions :: "'j admission_row list"

definition empty_db :: "'j DB" where
  "empty_db = \<lparr>db_metadata = Map.empty, db_runs = [], db_events = [], db_transactions = [],
     db_transaction_events = [], db_contracts = [], db_tasks = [], db_admissions = []\<rparr>"

text \<open>\<^verbatim>\<open>defer tx.Rollback()\<close>: what a transaction did is kept only if it was committed.\<close>

definition settle :: "'j DB \<Rightarrow> KernelError + 'j DB \<times> 'a \<Rightarrow> 'j DB \<times> (KernelError + 'a)" where
  "settle db r = (case r of Inl err \<Rightarrow> (db, Inl err) | Inr (db', x) \<Rightarrow> (db', Inr x))"

lemma settle_Inr [simp]: "settle db r = (db', Inr x) \<longleftrightarrow> r = Inr (db', x)"
  by (auto simp: settle_def split: sum.splits prod.splits)

lemma settle_Inl [simp]: "settle db r = (db', Inl err) \<longleftrightarrow> r = Inl err \<and> db' = db"
  by (auto simp: settle_def split: sum.splits prod.splits)

end
