(* ===== verification/Event_Store.thy ===== *)
theory Event_Store
  imports Store_Tables
begin

text \<open>
  The contract of a stored ledger: a table of stream heads and a table of events, kept in step.

  Every head row is the materialised projection of the events stored for its key, and every event
  row belongs to a stream. The abstract content of the two tables is a finite map from keys to
  histories; creating a stream and appending events are updates of this map. Runs and transactions
  both store their ledgers this way; the locale is interpreted for both.
\<close>

locale event_store =
  event_ledger apply_event replay_from seq_of head_of stream_of clock_of e_seq e_prev e_digest e_stream e_time
  for apply_event :: "'p option \<Rightarrow> 'e \<Rightarrow> 'err + 'p" and replay_from :: "'p option \<Rightarrow> 'e list \<Rightarrow> 'err + 'p"
    and seq_of :: "'p \<Rightarrow> int" and head_of :: "'p \<Rightarrow> string" and stream_of :: "'p \<Rightarrow> string"
    and clock_of :: "'p \<Rightarrow> int" and e_seq :: "'e \<Rightarrow> int" and e_prev :: "'e \<Rightarrow> string"
    and e_digest :: "'e \<Rightarrow> string" and e_stream :: "'e \<Rightarrow> string" and e_time :: "'e \<Rightarrow> int" +
  fixes ns_of :: "'p \<Rightarrow> string"
    and e_id :: "'e \<Rightarrow> string"
    and valid_p :: "'p \<Rightarrow> bool"
    and valid_e :: "'e \<Rightarrow> bool"
    and enc_p :: "'p \<Rightarrow> 'j option"
    and dec_p :: "'j \<Rightarrow> string \<Rightarrow> 'p option"
    and enc_e :: "'e \<Rightarrow> 'j option"
    and dec_e :: "'j \<Rightarrow> 'e option"
    and e_type :: "'e \<Rightarrow> string"
    and sealed :: "'e \<Rightarrow> bool"
  assumes ns_stable: "apply_event (Some p) e = Inr q \<Longrightarrow> ns_of q = ns_of p"
    and event_valid: "apply_event cur e = Inr q \<Longrightarrow> valid_e e"
begin

text \<open>The row that holds an event, whose digest is \<open>sealed\<close>, and the row that holds a projection.\<close>

definition row_for :: "string \<Rightarrow> 'e \<Rightarrow> 'j event_row \<Rightarrow> bool" where
  "row_for ns e r \<longleftrightarrow> ekey r = (ns, e_stream e) \<and> er_sequence r = e_seq e \<and> er_event_id r = e_id e \<and>
     er_event_digest r = e_digest e \<and> er_event_type r = e_type e \<and> dec_e (er_json r) = Some e \<and> sealed e"

definition head_for :: "'p \<Rightarrow> 'j head_row \<Rightarrow> bool" where
  "head_for p h \<longleftrightarrow> hkey h = (ns_of p, stream_of p) \<and> hr_event_sequence h = seq_of p \<and>
     hr_last_event_digest h = head_of p \<and> enc_p p = Some (hr_json h) \<and>
     dec_p (hr_json h) (hr_last_event_digest h) = Some p \<and> valid_p p"

definition rows_of :: "'j event_row list \<Rightarrow> string \<times> string \<Rightarrow> 'j event_row list" where
  "rows_of events k = filter (\<lambda>r. ekey r = k) events"

definition stored :: "'j event_row list \<Rightarrow> 'j head_row \<Rightarrow> 'e list \<Rightarrow> 'p \<Rightarrow> bool" where
  "stored events h es p \<longleftrightarrow> replay_from None es = Inr p \<and> head_for p h \<and>
     list_all2 (row_for (fst (hkey h))) es (rows_of events (hkey h))"

definition consistent :: "'j head_row list \<Rightarrow> 'j event_row list \<Rightarrow> bool" where
  "consistent heads events \<longleftrightarrow> distinct (map hkey heads) \<and> distinct (map er_event_id events) \<and>
     ekey ` set events \<subseteq> hkey ` set heads \<and> (\<forall>h\<in>set heads. \<exists>es p. stored events h es p)"

text \<open>The abstract content: the history of every stream that exists.\<close>

definition histories :: "'j head_row list \<Rightarrow> 'j event_row list \<Rightarrow> string \<times> string \<Rightarrow> 'e list option" where
  "histories heads events k =
     (if k \<in> hkey ` set heads then Some (map (\<lambda>r. the (dec_e (er_json r))) (rows_of events k)) else None)"

lemma consistent_empty: "consistent [] []"
  by (simp add: consistent_def)

lemma rows_decode: "list_all2 (row_for ns) es rs \<Longrightarrow> map (\<lambda>r. the (dec_e (er_json r))) rs = es"
  by (induction rule: list_all2_induct) (simp_all add: row_for_def)

lemma stored_history:
  "stored events h es p \<Longrightarrow> h \<in> set heads \<Longrightarrow> histories heads events (hkey h) = Some es"
  unfolding stored_def histories_def using rows_decode by auto

lemma stored_unique:
  assumes "stored events h es p" and "stored events h fs q"
  shows "fs = es \<and> q = p"
proof -
  have "fs = es" using assms rows_decode unfolding stored_def by metis
  with assms show ?thesis by (simp add: stored_def)
qed

lemma consistent_history:
  assumes "consistent heads events" and "histories heads events k = Some es"
  obtains h p where "h \<in> set heads" and "hkey h = k" and "stored events h es p"
proof -
  from assms(2) obtain h where h: "h \<in> set heads" "hkey h = k" by (auto simp: histories_def split: if_splits)
  with assms(1) obtain fs p where s: "stored events h fs p" by (auto simp: consistent_def)
  with h assms(2) stored_history have "fs = es" by fastforce
  with s h that show ?thesis by blast
qed

text \<open>A store that holds one stream.\<close>

lemma consistent_single:
  assumes "replay_from None es = Inr p" and "head_for p h" and "list_all2 (row_for (ns_of p)) es rs"
    and "distinct (map e_id es)"
  shows "consistent [h] rs" "histories [h] rs = [hkey h \<mapsto> es]"
proof -
  have k: "hkey h = (ns_of p, stream_of p)" using assms(2) by (simp add: head_for_def)
  have "ekey r = hkey h" if "r \<in> set rs" for r
    using that assms(3) replay_stream [OF assms(1)] nth_mem [of _ es] k
    by (auto simp: list_all2_conv_all_nth in_set_conv_nth row_for_def)
  then have rows: "rows_of rs (hkey h) = rs" and sub: "ekey ` set rs \<subseteq> {hkey h}"
    by (auto simp: rows_of_def)
  have "map er_event_id rs = map e_id es"
    using assms(3) by (auto simp: list_all2_conv_all_nth row_for_def intro: nth_equalityI)
  with assms(4) have "distinct (map er_event_id rs)" by simp
  moreover have "stored rs h es p" using assms(1-3) rows k by (simp add: stored_def)
  ultimately show "consistent [h] rs" using sub by (auto simp: consistent_def)
  show "histories [h] rs = [hkey h \<mapsto> es]"
    using \<open>stored rs h es p\<close> stored_history [of rs h es p "[h]"] by (auto simp: histories_def)
qed

text \<open>Creating a stream.\<close>

lemma create_consistent:
  assumes c: "consistent heads events" and p: "apply_event None e = Inr p"
    and h: "head_for p h" and r: "row_for (ns_of p) e r"
    and ih: "insert_head heads h = Some heads'" and ie: "insert_event_row heads' events r = Some events'"
  shows "consistent heads' events'"
    "histories heads' events' = (histories heads events)(hkey h \<mapsto> [e])"
proof -
  from ih have h': "heads' = heads @ [h]" "hkey h \<notin> hkey ` set heads" by (auto simp: insert_head_Some)
  from ie have e': "events' = events @ [r]" "er_event_id r \<notin> er_event_id ` set events"
    by (auto simp: insert_event_row_Some)
  have k: "ekey r = hkey h" using h r apply_first [OF p] by (simp add: head_for_def row_for_def)
  have none: "rows_of events (hkey h) = []"
  proof -
    have "ekey x \<noteq> hkey h" if "x \<in> set events" for x
      using that c h'(2) unfolding consistent_def by (metis image_eqI subsetD)
    then show ?thesis by (simp add: rows_of_def filter_empty_conv)
  qed
  have new: "stored events' h [e] p"
  proof -
    have "rows_of events' (hkey h) = [r]" using k none e'(1) by (simp add: rows_of_def)
    moreover have "fst (hkey h) = ns_of p" using h by (simp add: head_for_def)
    ultimately show ?thesis using h r p by (simp add: stored_def replay_single)
  qed
  have old: "rows_of events' k' = rows_of events k'" if "k' \<in> hkey ` set heads" for k'
    using that h'(2) k e'(1) by (auto simp: rows_of_def)
  then have "stored events' x es q = stored events x es q" if "x \<in> set heads" for x es q
    using that by (simp add: stored_def)
  then have "\<exists>es q. stored events' x es q" if "x \<in> set heads'" for x
    using that new c unfolding h'(1) consistent_def by auto
  moreover have "ekey ` set events' \<subseteq> hkey ` set heads'"
    using c k unfolding h'(1) e'(1) consistent_def by auto
  ultimately show "consistent heads' events'"
    using c h' e' by (simp add: consistent_def)
  show "histories heads' events' = (histories heads events)(hkey h \<mapsto> [e])"
  proof (rule ext)
    fix k'
    show "histories heads' events' k' = ((histories heads events)(hkey h \<mapsto> [e])) k'"
    proof (cases "k' = hkey h")
      case True
      then show ?thesis using stored_history [OF new] h'(1) by simp
    next
      case False
      then have "rows_of events' k' = rows_of events k'" using k e'(1) by (simp add: rows_of_def)
      with False h'(1) show ?thesis by (simp add: histories_def)
    qed
  qed
qed

text \<open>Appending a batch: the rows go in one after the other, after the head has been updated.\<close>

lemma replay_from_stream:
  "replay_from (Some p) fs = Inr q \<Longrightarrow> stream_of q = stream_of p \<and> ns_of q = ns_of p \<and>
     (\<forall>e\<in>set fs. e_stream e = stream_of p)"
proof (induction fs arbitrary: p)
  case Nil
  then show ?case by (simp add: replay_Nil)
next
  case (Cons f fs)
  then obtain r where "apply_event (Some p) f = Inr r" "replay_from (Some r) fs = Inr q"
    by (auto simp: replay_Cons)
  with Cons.IH show ?case using apply_next ns_stable by fastforce
qed

lemma append_consistent:
  assumes c: "consistent heads events" and h: "h \<in> set heads" "head_for p h"
    and q: "replay_from (Some p) fs = Inr q" and h': "head_for q h'"
    and rs: "list_all2 (row_for (ns_of p)) fs rs"
    and heads': "heads' = map (\<lambda>x. if hkey x = hkey h then h' else x) heads"
    and ie: "insert_rows heads' events rs = Some events'"
  shows "consistent heads' events'"
    "\<exists>es. histories heads events (hkey h) = Some es \<and> replay_from None es = Inr p \<and>
       replay_from None (es @ fs) = Inr q \<and>
       histories heads' events' = (histories heads events)(hkey h \<mapsto> es @ fs)"
proof -
  note st = replay_from_stream [OF q]
  have k': "hkey h' = hkey h" using h h' st by (simp add: head_for_def)
  from c h(1) obtain es p' where s: "stored events h es p'" by (auto simp: consistent_def)
  with h(2) have p': "p' = p" unfolding stored_def head_for_def by (metis option.inject)
  with s have es: "replay_from None es = Inr p" by (simp add: stored_def)
  have rep: "replay_from None (es @ fs) = Inr q"
    using replay_head [OF es] es q by (simp add: replay_append)
  have ev: "events' = events @ rs" "distinct (map er_event_id events')"
    using insert_rows_Some [OF ie] c unfolding consistent_def by blast+
  have kh: "hkey h = (ns_of p, stream_of p)" using h(2) by (simp add: head_for_def)
  have rk: "\<forall>r\<in>set rs. ekey r = hkey h"
    using rs st kh nth_mem [of _ fs] by (auto simp: list_all2_conv_all_nth in_set_conv_nth row_for_def)
  then have rows: "rows_of events' k = (if k = hkey h then rows_of events k @ rs else rows_of events k)" for k
    by (auto simp: ev(1) rows_of_def filter_empty_conv)
  have keys: "map hkey heads' = map hkey heads" using k' heads' by simp
  then have keyset: "hkey ` set heads' = hkey ` set heads" by (metis list.set_map)
  have new: "stored events' h' (es @ fs) q"
    using rep h' k' rows s rs kh by (auto simp: stored_def p' intro: list_all2_appendI)
  have "\<exists>es p. stored events' x es p" if x: "x \<in> set heads'" for x
  proof (cases "x = h'")
    case True
    with new show ?thesis by blast
  next
    case False
    with x heads' have "x \<in> set heads" "hkey x \<noteq> hkey h" by (auto split: if_splits)
    with c rows show ?thesis by (auto simp: consistent_def stored_def)
  qed
  moreover have "ekey ` set events' \<subseteq> hkey ` set heads'"
    using c ev(1) rk h(1) keyset by (auto simp: consistent_def)
  ultimately show "consistent heads' events'"
    using c keys ev(2) by (simp add: consistent_def)
  have "histories heads' events' = (histories heads events)(hkey h \<mapsto> es @ fs)"
  proof (rule ext)
    fix k
    show "histories heads' events' k = ((histories heads events)(hkey h \<mapsto> es @ fs)) k"
    proof (cases "k = hkey h")
      case True
      have "h' \<in> set heads'" using h(1) heads' by force
      then show ?thesis using stored_history [OF new, of heads'] True k' by simp
    next
      case False
      then show ?thesis by (simp add: histories_def rows keyset)
    qed
  qed
  with es rep stored_history [OF s h(1)] show "\<exists>es. histories heads events (hkey h) = Some es \<and>
       replay_from None es = Inr p \<and> replay_from None (es @ fs) = Inr q \<and>
       histories heads' events' = (histories heads events)(hkey h \<mapsto> es @ fs)" by blast
qed

text \<open>The conditional update of a head that was read before, with the rows of the new events.\<close>

lemma lookup_head:
  assumes "consistent heads events" and "select_head heads ns i = Some h"
    and "dec_p (hr_json h) (hr_last_event_digest h) = Some p"
  shows "head_for p h"
proof -
  from select_head_Some [OF assms(2)] assms(1) obtain es q where "stored events h es q"
    unfolding consistent_def by blast
  then have q: "head_for q h" by (simp add: stored_def)
  then have "dec_p (hr_json h) (hr_last_event_digest h) = Some q" unfolding head_for_def by blast
  with assms(3) q show ?thesis by simp
qed

lemma selected_history:
  assumes "consistent heads events" and "histories heads events (ns, i) = Some es"
  obtains h p where "select_head heads ns i = Some h" and "hkey h = (ns, i)" and "stored events h es p"
proof -
  from assms obtain h p where h: "h \<in> set heads" "hkey h = (ns, i)" and s: "stored events h es p"
    by (rule consistent_history)
  moreover have "select_head heads ns i = Some h"
    by (rule select_head_unique [OF _ h]) (use assms(1) in \<open>simp add: consistent_def\<close>)
  ultimately show ?thesis using that by blast
qed

lemma update_consistent:
  assumes c: "consistent heads events" and h: "select_head heads ns i = Some h" and hp: "head_for p h"
    and q: "replay_from (Some p) fs = Inr q"
    and enc: "enc_p q = Some j" and dec: "dec_p j (head_of q) = Some q" and v: "valid_p q"
    and upd: "update_heads (\<lambda>x. hkey x = (ns, i) \<and> hr_event_sequence x = seq_of p \<and> M x)
       (seq_of q) (head_of q) j u heads = Some (heads', 1)" and M: "M h"
    and rows: "list_all2 (row_for (ns_of p)) fs rs" and ins: "insert_rows heads' events rs = Some events'"
  shows "consistent heads' events'"
    "\<exists>es. histories heads events (ns, i) = Some es \<and> replay_from None es = Inr p \<and>
       replay_from None (es @ fs) = Inr q \<and>
       histories heads' events' = (histories heads events)((ns, i) \<mapsto> es @ fs)"
proof -
  from select_head_Some [OF h] have k: "h \<in> set heads" "hkey h = (ns, i)" by simp_all
  define h' where "h' = h\<lparr>hr_event_sequence := seq_of q, hr_last_event_digest := head_of q, hr_json := j,
    hr_updated_at := u\<rparr>"
  have d: "distinct (map hkey heads)" using c by (simp add: consistent_def)
  have "hr_event_sequence h = seq_of p" using hp by (simp add: head_for_def)
  from update_heads_row [OF d k this upd M]
  have heads': "heads' = map (\<lambda>x. if hkey x = hkey h then h' else x) heads" by (simp add: h'_def)
  have "hkey h' = hkey h" by (simp add: h'_def hkey_def)
  then have h': "head_for q h'"
    using hp enc dec v replay_from_stream [OF q] by (simp add: head_for_def h'_def)
  from append_consistent [OF c k(1) hp q h' rows heads' ins] k(2)
  show "consistent heads' events'"
    and "\<exists>es. histories heads events (ns, i) = Some es \<and> replay_from None es = Inr p \<and>
       replay_from None (es @ fs) = Inr q \<and>
       histories heads' events' = (histories heads events)((ns, i) \<mapsto> es @ fs)"
    by simp_all
qed

text \<open>Reading the events of a stream in order of their sequence gives its history.\<close>

lemma stored_sorted:
  assumes "stored events h es p"
  shows "sorted (map er_sequence (rows_of events (hkey h)))"
proof -
  let ?rs = "rows_of events (hkey h)"
  have l: "list_all2 (row_for (fst (hkey h))) es ?rs" and r: "replay_from None es = Inr p"
    using assms by (auto simp: stored_def)
  then have "er_sequence (?rs ! i) = int i + 1" if "i < length ?rs" for i
    using that replay_numbered [OF r] by (auto simp: list_all2_conv_all_nth row_for_def)
  then show ?thesis by (auto simp: sorted_iff_nth_mono)
qed

lemma select_events_stored:
  assumes "stored events h es p" and "hkey h = (ns, i)" and "0 \<le> after"
  shows "list_all2 (\<lambda>j e. dec_e j = Some e) (select_events events ns i after) (drop (nat after) es)"
proof -
  let ?rs = "rows_of events (ns, i)"
  have l: "list_all2 (row_for ns) es ?rs" and r: "replay_from None es = Inr p"
    using assms by (auto simp: stored_def)
  then have seqs: "er_sequence (?rs ! j) = int j + 1" if "j < length ?rs" for j
    using that replay_numbered [OF r] by (auto simp: list_all2_conv_all_nth row_for_def)
  have drop_filter: "filter (\<lambda>x. after < er_sequence x) ?rs = drop (nat after) ?rs"
  proof -
    have "filter (\<lambda>x. after < er_sequence x) (take (nat after) ?rs) = []"
      using seqs assms(3) by (fastforce simp: filter_empty_conv in_set_conv_nth)
    moreover have "filter (\<lambda>x. after < er_sequence x) (drop (nat after) ?rs) = drop (nat after) ?rs"
      using seqs assms(3) by (fastforce simp: filter_id_conv in_set_conv_nth)
    ultimately show ?thesis
      by (metis append_Nil append_take_drop_id filter_append)
  qed
  have "sorted (map er_sequence (drop (nat after) ?rs))"
    using stored_sorted [OF assms(1)] assms(2) by (metis drop_map sorted_wrt_drop)
  then have "select_events events ns i after = map er_json (drop (nat after) ?rs)"
    using drop_filter
    by (simp add: select_events_def rows_of_def sort_key_id_if_sorted conj_commute)
  moreover have "list_all2 (row_for ns) (drop (nat after) es) (drop (nat after) ?rs)"
    using l by (rule list_all2_dropI)
  ultimately show ?thesis
    by (auto simp: list_all2_conv_all_nth row_for_def)
qed

lemma replay_events_valid: "replay_from cur es = Inr p \<Longrightarrow> \<forall>e\<in>set es. valid_e e"
proof (induction es arbitrary: cur)
  case Nil
  then show ?case by simp
next
  case (Cons e es)
  then obtain q where "apply_event cur e = Inr q" "replay_from (Some q) es = Inr p"
    by (auto simp: replay_Cons)
  with Cons.IH event_valid show ?case by auto
qed

end

end
