(* ===== verification/Run_Store.thy ===== *)
theory Run_Store
  imports Event_Store Event_Log "HOL-Library.List_Lexorder" "HOL-Library.Char_ord" "HOL-Library.Product_Lexorder"
begin

text \<open>
  The runs of the kernel store (\<^verbatim>\<open>internal/kernel/store/sqlite.go\<close>): creating a run, appending an
  event, reading and listing runs, reading their events and verifying a run against its history.

  The JSON encoding of runs and events, the digest of an event and the hash in its identifier are
  arguments (the fields of \<open>RunCodec\<close>); \<^const>\<open>None\<close> is the encoder's or decoder's error. The statements need of them that what is
  written can be read back: \<open>run_roundtrip\<close> says so of the run and the event that an operation writes.
\<close>

record 'j RunCodec =
  rc_Encodable :: "RunPayload \<Rightarrow> bool"
  rc_Digest :: "RunEvent \<Rightarrow> string option"
  rc_Hash16 :: "string \<Rightarrow> string"
  rc_EncRun :: "AgentRun \<Rightarrow> 'j option"
  rc_DecRun :: "'j \<Rightarrow> AgentRun option"
  rc_EncEvent :: "RunEvent \<Rightarrow> 'j option"
  rc_DecEvent :: "'j \<Rightarrow> RunEvent option"

section \<open>Operations\<close>

definition verifyEventDigest :: "'j RunCodec \<Rightarrow> RunEvent \<Rightarrow> KernelError option" where
  "verifyEventDigest C event = (case VerifyEventDigest (rc_Digest C) event of
     None \<Rightarrow> Some (storeError ErrorInternal ''verify_event'' (ev_ID event))
   | Some valid \<Rightarrow> fail_if (\<not> valid) (storeError ErrorEventChain ''verify_event'' (ev_ID event)))"

definition loadProjection :: "'j RunCodec \<Rightarrow> driver \<Rightarrow> 'j DB \<Rightarrow> string \<Rightarrow> string \<Rightarrow> KernelError + Projection" where
  "loadProjection C D db namespace runID =
     ok_then (read_step D QueryStep ''get_run'' runID)
       (bind_res (or_error ErrorNotFound ''get_run'' runID (select_head (db_runs db) namespace runID)) (\<lambda>row.
        bind_res (or_error ErrorEventChain ''get_run'' runID (rc_DecRun C (hr_json row))) (\<lambda>run.
        ok_then (first_error
           [fail_if (AgentRun_Validate run \<noteq> None) (storeError ErrorEventChain ''get_run'' runID),
            fail_if (ar_Namespace run \<noteq> namespace \<or> ar_ID run \<noteq> runID \<or>
                ar_EventSequence run \<noteq> hr_event_sequence row) (storeError ErrorEventChain ''get_run'' runID),
            fail_if (\<not> IsSHA256Digest (hr_last_event_digest row)) (storeError ErrorEventChain ''get_run'' runID)])
          (Inr \<lparr>pj_Run = run, pj_LastEventDigest = hr_last_event_digest row\<rparr>))))"

definition event_row_of :: "string \<Rightarrow> RunEvent \<Rightarrow> 'j \<Rightarrow> 'j event_row" where
  "event_row_of namespace event data =
     \<lparr>er_namespace = namespace, er_id = ev_RunID event, er_sequence = ev_Sequence event,
      er_event_id = ev_ID event, er_event_type = RunEventType_name (ev_Type event),
      er_event_digest = ev_Digest event, er_json = data, er_occurred_at = rfc3339nano (ev_OccurredAt event)\<rparr>"

definition insertEvent :: "driver \<Rightarrow> 'j DB \<Rightarrow> string \<Rightarrow> RunEvent \<Rightarrow> 'j \<Rightarrow> KernelError + 'j DB" where
  "insertEvent D tx namespace event data =
     bind_res (exec_write D (InsertEventStep 0) ''append_event'' (ev_RunID event)
        (insert_event_row (db_runs tx) (db_events tx) (event_row_of namespace event data)))
       (\<lambda>events. Inr (tx\<lparr>db_events := events\<rparr>))"

definition run_row_of :: "Projection \<Rightarrow> 'j \<Rightarrow> 'j head_row" where
  "run_row_of p data =
     \<lparr>hr_namespace = ar_Namespace (pj_Run p), hr_id = ar_ID (pj_Run p),
      hr_event_sequence = ar_EventSequence (pj_Run p), hr_last_event_digest = pj_LastEventDigest p,
      hr_json = data, hr_created_at = rfc3339nano (ar_CreatedAt (pj_Run p)),
      hr_updated_at = rfc3339nano (ar_UpdatedAt (pj_Run p))\<rparr>"

definition CreateRun :: "'j RunCodec \<Rightarrow> driver \<Rightarrow> 'j DB \<Rightarrow> RunEvent \<Rightarrow> 'j DB \<times> (KernelError + Projection)" where
  "CreateRun C D db event = settle db
     (ok_then (verifyEventDigest C event)
       (bind_res (Apply None event) (\<lambda>projection. let run = pj_Run projection; op = ''create_run'' in
        bind_res (or_error ErrorInternal op (ar_ID run) (rc_EncRun C run)) (\<lambda>runJSON.
        bind_res (or_error ErrorInternal op (ar_ID run) (rc_EncEvent C event)) (\<lambda>eventJSON.
        ok_then (read_step D BeginStep op (ar_ID run))
          (bind_res (exec_write D InsertHeadStep op (ar_ID run)
              (insert_head (db_runs db) (run_row_of projection runJSON))) (\<lambda>runs.
           bind_res (insertEvent D (db\<lparr>db_runs := runs\<rparr>) (ar_Namespace run) event eventJSON) (\<lambda>tx.
           ok_then (read_step D CommitStep op (ar_ID run))
             (Inr (tx, projection))))))))))"

definition AppendEvent :: "'j RunCodec \<Rightarrow> driver \<Rightarrow> 'j DB \<Rightarrow> string \<Rightarrow> int64 \<Rightarrow> RunEvent \<Rightarrow>
    'j DB \<times> (KernelError + Projection)" where
  "AppendEvent C D db namespace expectedSequence event = (let op = ''append_event''; runID = ev_RunID event in
   settle db
     (ok_then (first_error [validateNamespace namespace, verifyEventDigest C event,
          read_step D BeginStep op runID])
       (bind_res (loadProjection C (sub_driver D 0) db namespace runID) (\<lambda>current.
        ok_then (fail_if (ar_EventSequence (pj_Run current) \<noteq> expectedSequence) (conflict op runID))
       (bind_res (Apply (Some current) event) (\<lambda>nxt.
        bind_res (or_error ErrorInternal op runID (rc_EncRun C (pj_Run nxt))) (\<lambda>runJSON.
        bind_res (or_error ErrorInternal op runID (rc_EncEvent C event)) (\<lambda>eventJSON.
        bind_res (exec_write D UpdateStep op runID
            (update_heads (\<lambda>h. hkey h = (namespace, runID) \<and> hr_event_sequence h = expectedSequence)
               (ar_EventSequence (pj_Run nxt)) (pj_LastEventDigest nxt) runJSON
               (rfc3339nano (ar_UpdatedAt (pj_Run nxt))) (db_runs db))) (\<lambda>(runs, rows).
        ok_then (first_error [read_step D AffectedStep op runID, fail_if (rows \<noteq> 1) (conflict op runID)])
       (bind_res (insertEvent D (db\<lparr>db_runs := runs\<rparr>) namespace event eventJSON) (\<lambda>tx.
        bind_res (exec_write D CommitStep op runID (Some tx)) (\<lambda>tx. Inr (tx, nxt)))))))))))))"

definition GetRun :: "'j RunCodec \<Rightarrow> driver \<Rightarrow> 'j DB \<Rightarrow> string \<Rightarrow> string \<Rightarrow> KernelError + Projection" where
  "GetRun C D db namespace runID =
     ok_then (first_error [validateNamespace namespace,
         fail_if (blank runID) (storeError ErrorSchemaInvalid ''get_run'' runID)])
       (loadProjection C D db namespace runID)"

definition ListRuns :: "'j RunCodec \<Rightarrow> driver \<Rightarrow> 'j DB \<Rightarrow> string \<Rightarrow> KernelError + AgentRun list" where
  "ListRuns C D db namespace =
     ok_then (first_error [validateNamespace namespace, read_step D QueryStep ''list_runs'' namespace])
       (scan_rows D ''list_runs'' namespace
          (\<lambda>data. bind_res (or_error ErrorEventChain ''list_runs'' namespace (rc_DecRun C data)) (\<lambda>run.
             ok_then (fail_if (AgentRun_Validate run \<noteq> None) (storeError ErrorEventChain ''list_runs'' (ar_ID run)))
               (Inr run)))
          0 (map hr_json (sort_key (\<lambda>h. (hr_created_at h, hr_id h))
               (filter (\<lambda>h. hr_namespace h = namespace) (db_runs db)))))"

definition ListAllRuns :: "'j RunCodec \<Rightarrow> driver \<Rightarrow> 'j DB \<Rightarrow> KernelError + Projection list" where
  "ListAllRuns C D db =
     ok_then (read_step D QueryStep ''list_all_runs'' '''')
       (scan_rows D ''list_all_runs'' ''''
          (\<lambda>row. bind_res (or_error ErrorEventChain ''list_all_runs'' (hr_id row) (rc_DecRun C (hr_json row))) (\<lambda>run.
             ok_then (first_error
                [fail_if (AgentRun_Validate run \<noteq> None) (storeError ErrorEventChain ''list_all_runs'' (hr_id row)),
                 fail_if (ar_Namespace run \<noteq> hr_namespace row \<or> ar_ID run \<noteq> hr_id row \<or>
                    \<not> IsSHA256Digest (hr_last_event_digest row))
                   (storeError ErrorEventChain ''list_all_runs'' (hr_id row))])
               (Inr \<lparr>pj_Run = run, pj_LastEventDigest = hr_last_event_digest row\<rparr>)))
          0 (sort_key (\<lambda>h. (hr_namespace h, hr_created_at h, hr_id h)) (db_runs db)))"

definition Events :: "'j RunCodec \<Rightarrow> driver \<Rightarrow> 'j DB \<Rightarrow> string \<Rightarrow> string \<Rightarrow> int64 \<Rightarrow> KernelError + RunEvent list" where
  "Events C D db namespace runID afterSequence =
     ok_then (first_error [validateNamespace namespace,
         fail_if (blank runID) (storeError ErrorSchemaInvalid ''list_events'' runID),
         fail_if (afterSequence < 0) (storeError ErrorSchemaInvalid ''list_events'' runID)])
       (bind_res (GetRun C (sub_driver D 0) db namespace runID) (\<lambda>_.
        ok_then (read_step D QueryStep ''list_events'' runID)
          (scan_rows D ''list_events'' runID
             (\<lambda>data. bind_res (or_error ErrorEventChain ''list_events'' runID (rc_DecEvent C data)) (\<lambda>event.
                ok_then (fail_if (RunEvent_Validate event \<noteq> None)
                    (storeError ErrorEventChain ''list_events'' (ev_ID event))) (Inr event)))
             0 (select_events (db_events db) namespace runID afterSequence))))"

definition VerifyRun :: "'j RunCodec \<Rightarrow> driver \<Rightarrow> 'j DB \<Rightarrow> string \<Rightarrow> string \<Rightarrow> KernelError option" where
  "VerifyRun C D db namespace runID = (let op = ''verify_run'' in
     case bind_res (Events C (sub_driver D 0) db namespace runID 0) (\<lambda>events.
       bind_res (wrap_error ErrorEventChain op runID (Replay events)) (\<lambda>replayed.
       bind_res (GetRun C (sub_driver D 1) db namespace runID) (\<lambda>stored.
       bind_res (or_error ErrorInternal op runID (rc_EncRun C (pj_Run replayed))) (\<lambda>replayedJSON.
       bind_res (or_error ErrorInternal op runID (rc_EncRun C (pj_Run stored))) (\<lambda>storedJSON.
       ok_then (fail_if (replayedJSON \<noteq> storedJSON \<or> pj_LastEventDigest replayed \<noteq> pj_LastEventDigest stored)
           (storeError ErrorEventChain op runID)) (Inr ()))))))
     of Inl err \<Rightarrow> Some err | Inr _ \<Rightarrow> None)"


section \<open>Opening a store\<close>

text \<open>
  \<^verbatim>\<open>initialize\<close>: the pragmas, the table definitions (which change nothing in a model whose tables
  always exist), then the schema version is recorded if there is none and brought up to date. Each
  statement commits by itself, so a fault leaves what the statements before it did.
\<close>

definition sqliteSchemaVersion :: string where
  "sqliteSchemaVersion = ''3''"

definition upgrade_version :: "'j DB \<Rightarrow> string \<Rightarrow> string \<Rightarrow> 'j DB" where
  "upgrade_version db from to =
     (if db_metadata db ''schema_version'' = Some from
      then db\<lparr>db_metadata := (db_metadata db)(''schema_version'' \<mapsto> to)\<rparr> else db)"

definition initialize :: "driver \<Rightarrow> 'j DB \<Rightarrow> 'j DB \<times> KernelError option" where
  "initialize D db = (let internal = (\<lambda>op. Some (storeError ErrorInternal op '''')) in
     if list_ex (\<lambda>i. D (StatementStep i) \<noteq> None) [0..<4] then (db, internal ''initialize_store'')
     else if list_ex (\<lambda>i. D (StatementStep i) \<noteq> None) [4..<15] then (db, internal ''migrate_store'')
     else let db = (if db_metadata db ''schema_version'' = None
            then db\<lparr>db_metadata := (db_metadata db)(''schema_version'' \<mapsto> sqliteSchemaVersion)\<rparr> else db) in
       case db_metadata db ''schema_version'' of
         None \<Rightarrow> (db, internal ''migrate_store'')
       | Some version \<Rightarrow>
           if D QueryStep \<noteq> None then (db, internal ''migrate_store'')
           else if version = ''1'' \<and> D (StatementStep 15) \<noteq> None then (db, internal ''migrate_store'')
           else let db = (if version = ''1'' then upgrade_version db ''1'' ''2'' else db);
                    version = (if version = ''1'' then ''2'' else version) in
             if version = ''2'' \<and> D (StatementStep 16) \<noteq> None then (db, internal ''migrate_store'')
             else let db = (if version = ''2'' then upgrade_version db ''2'' sqliteSchemaVersion else db);
                      version = (if version = ''2'' then sqliteSchemaVersion else version) in
               (db, fail_if (version \<noteq> sqliteSchemaVersion)
                  (storeError ErrorCheckpointIncompatible ''migrate_store'' '''')))"

text \<open>Opening succeeds exactly on a new store and on the versions with an upgrade path, and touches
  nothing but the version, which it leaves current.\<close>

lemma initialize_no_faults:
  fixes db :: "'j DB"
  assumes "\<And>step. D step = None"
  shows "initialize D db =
    (if db_metadata db ''schema_version'' \<in> {None, Some ''1'', Some ''2'', Some ''3''}
     then (db\<lparr>db_metadata := (db_metadata db)(''schema_version'' \<mapsto> sqliteSchemaVersion)\<rparr>, None)
     else (db, Some (storeError ErrorCheckpointIncompatible ''migrate_store'' '''')))"
proof -
  have 0: "\<not> list_ex (\<lambda>i. D (StatementStep i) \<noteq> None) xs" for xs by (simp add: assms list_ex_iff)
  show ?thesis
    unfolding initialize_def Let_def 0 if_False
    by (auto simp: assms list_ex_iff upgrade_version_def sqliteSchemaVersion_def map_upd_triv split: option.splits)
qed

section \<open>The stored run ledger\<close>

definition stored_run_ok :: "Projection \<Rightarrow> bool" where
  "stored_run_ok p \<longleftrightarrow> AgentRun_Validate (pj_Run p) = None \<and> IsSHA256Digest (pj_LastEventDigest p)"

definition decode_head :: "'j RunCodec \<Rightarrow> 'j \<Rightarrow> string \<Rightarrow> Projection option" where
  "decode_head C j d = map_option (\<lambda>run. \<lparr>pj_Run = run, pj_LastEventDigest = d\<rparr>) (rc_DecRun C j)"

lemma Apply_stored_ok:
  "Apply cur e = Inr p \<Longrightarrow> stored_run_ok p \<and> RunEvent_Validate e = None"
proof (cases cur)
  case None
  assume "Apply cur e = Inr p"
  with None Apply_None_Inr [of e p] RunEvent_Validate_chain [of e] show ?thesis
    by (simp add: stored_run_ok_def valid_run_def)
next
  case (Some c)
  assume "Apply cur e = Inr p"
  with Some obtain "RunEvent_Validate e = None" "valid_run (pj_Run p)" "pj_LastEventDigest p = ev_Digest e"
    by (metis Apply_Some_Inr Projection.select_convs(2))
  then show ?thesis using RunEvent_Validate_chain [of e] by (simp add: stored_run_ok_def valid_run_def)
qed

interpretation run_store: event_store Apply replayFrom
  "\<lambda>p. ar_EventSequence (pj_Run p)" pj_LastEventDigest "\<lambda>p. ar_ID (pj_Run p)"
  "\<lambda>p. ar_UpdatedAt (pj_Run p)" ev_Sequence ev_PreviousDigest ev_Digest ev_RunID ev_OccurredAt
  "\<lambda>p. ar_Namespace (pj_Run p)" ev_ID stored_run_ok "\<lambda>e. RunEvent_Validate e = None"
  "\<lambda>p. rc_EncRun C (pj_Run p)" "decode_head C" "rc_EncEvent C" "rc_DecEvent C"
  "\<lambda>e. RunEventType_name (ev_Type e)" "\<lambda>e. VerifyEventDigest (rc_Digest C) e = Some True"
  for C :: "'j RunCodec"
proof (unfold_locales, goal_cases)
  case (1 p e q)
  then show ?case using Apply_pinned [OF 1] pinned_eqD by blast
next
  case (2 cur e q)
  then show ?case using Apply_stored_ok by blast
qed

text \<open>What the two tables hold: the stored history of every run, and that they are in step.\<close>

definition run_histories :: "'j RunCodec \<Rightarrow> 'j DB \<Rightarrow> string \<times> string \<Rightarrow> RunEvent list option" where
  "run_histories C db k =
     (if k \<in> hkey ` set (db_runs db)
      then Some (map (\<lambda>r. the (rc_DecEvent C (er_json r))) (filter (\<lambda>r. ekey r = k) (db_events db))) else None)"

definition run_store_ok :: "'j RunCodec \<Rightarrow> 'j DB \<Rightarrow> bool" where
  "run_store_ok C db \<longleftrightarrow> run_store.consistent C (db_runs db) (db_events db)"

definition run_roundtrip :: "'j RunCodec \<Rightarrow> RunEvent \<Rightarrow> Projection \<Rightarrow> bool" where
  "run_roundtrip C e p \<longleftrightarrow> (\<forall>j. rc_EncEvent C e = Some j \<longrightarrow> rc_DecEvent C j = Some e) \<and>
     (\<forall>j. rc_EncRun C (pj_Run p) = Some j \<longrightarrow> rc_DecRun C j = Some (pj_Run p))"

lemma run_histories_eq: "run_histories C db = run_store.histories C (db_runs db) (db_events db)"
  by (rule ext) (simp add: run_histories_def run_store.histories_def run_store.rows_of_def)

lemma insertEvent_Inr:
  "insertEvent D tx ns e j = Inr tx' \<longleftrightarrow> D (InsertEventStep 0) = None \<and>
     (\<exists>evs. insert_event_row (db_runs tx) (db_events tx) (event_row_of ns e j) = Some evs \<and>
        tx' = tx\<lparr>db_events := evs\<rparr>)"
  by (auto simp: insertEvent_def)

lemma row_for_event_row_of:
  assumes "run_roundtrip C e p" and "rc_EncEvent C e = Some j" and "VerifyEventDigest (rc_Digest C) e = Some True"
  shows "run_store.row_for C ns e (event_row_of ns e j)"
  using assms by (simp add: run_store.row_for_def event_row_of_def ekey_def run_roundtrip_def)

lemma head_for_run_row_of:
  assumes "run_roundtrip C e p" and "rc_EncRun C (pj_Run p) = Some j" and "Apply cur e = Inr p"
  shows "run_store.head_for C p (run_row_of p j)"
  using assms Apply_stored_ok [OF assms(3)]
  by (simp add: run_store.head_for_def run_row_of_def hkey_def run_roundtrip_def decode_head_def)

lemma CreateRun_Inr:
  assumes "CreateRun C D db e = (db', Inr p)"
  obtains j k runs evs where "Apply None e = Inr p" and "VerifyEventDigest (rc_Digest C) e = Some True"
    and "rc_EncRun C (pj_Run p) = Some j"
    and "rc_EncEvent C e = Some k" and "insert_head (db_runs db) (run_row_of p j) = Some runs"
    and "insert_event_row runs (db_events db) (event_row_of (ar_Namespace (pj_Run p)) e k) = Some evs"
    and "db' = db\<lparr>db_runs := runs, db_events := evs\<rparr>"
  using assms
  by (auto simp: CreateRun_def Let_def insertEvent_Inr verifyEventDigest_def split: option.splits)

lemma CreateRun_step:
  assumes ok: "run_store_ok C db" and c: "CreateRun C D db e = (db', Inr p)" and rt: "run_roundtrip C e p"
  shows "run_store_ok C db'" "Replay [e] = Inr p"
    "run_histories C db (ar_Namespace (pj_Run p), ev_RunID e) = None"
    "run_histories C db' = (run_histories C db)((ar_Namespace (pj_Run p), ev_RunID e) \<mapsto> [e])"
proof -
  from c obtain j k runs evs where a: "Apply None e = Inr p" and sl: "VerifyEventDigest (rc_Digest C) e = Some True"
    and enc: "rc_EncRun C (pj_Run p) = Some j" "rc_EncEvent C e = Some k"
    and ins: "insert_head (db_runs db) (run_row_of p j) = Some runs"
      "insert_event_row runs (db_events db) (event_row_of (ar_Namespace (pj_Run p)) e k) = Some evs"
    and db': "db' = db\<lparr>db_runs := runs, db_events := evs\<rparr>"
    by (rule CreateRun_Inr)
  note step = run_store.create_consistent [OF ok [unfolded run_store_ok_def] a
      head_for_run_row_of [OF rt enc(1) a] row_for_event_row_of [OF rt enc(2) sl] ins]
  have key: "hkey (run_row_of p j) = (ar_Namespace (pj_Run p), ev_RunID e)"
    using Apply_None_Inr [OF a] by (simp add: hkey_def run_row_of_def)
  show "run_store_ok C db'" using step(1) db' by (simp add: run_store_ok_def)
  show "Replay [e] = Inr p" using a by (simp add: Replay_def)
  show "run_histories C db (ar_Namespace (pj_Run p), ev_RunID e) = None"
    using ins(1) key by (auto simp: run_histories_def insert_head_Some)
  show "run_histories C db' = (run_histories C db)((ar_Namespace (pj_Run p), ev_RunID e) \<mapsto> [e])"
    using step(2) db' key by (simp add: run_histories_eq)
qed

text \<open>Reading a run: the lookup finds the projection of the stored history, if there is one.\<close>

lemma loadProjection_Inr:
  assumes "run_store_ok C db" and "loadProjection C D db ns i = Inr p"
  obtains h where "select_head (db_runs db) ns i = Some h" and "run_store.head_for C p h"
proof -
  from assms(2) obtain h where h: "select_head (db_runs db) ns i = Some h"
    "decode_head C (hr_json h) (hr_last_event_digest h) = Some p"
    by (auto simp: loadProjection_def decode_head_def)
  with assms(1) that run_store.lookup_head show ?thesis unfolding run_store_ok_def by blast
qed

lemma loadProjection_complete:
  assumes h: "select_head (db_runs db) ns i = Some h" and p: "run_store.head_for C p h"
    and D: "D QueryStep = None"
  shows "loadProjection C D db ns i = Inr p"
proof -
  have k: "hkey h = (ns, i)" using select_head_Some [OF h] by simp
  have "rc_DecRun C (hr_json h) = Some (pj_Run p)" "hr_last_event_digest h = pj_LastEventDigest p"
    using p by (auto simp: run_store.head_for_def decode_head_def)
  with h k p D show ?thesis
    by (simp add: loadProjection_def run_store.head_for_def stored_run_ok_def hkey_def)
qed

lemma run_history_head:
  assumes "run_store_ok C db" and "run_histories C db (ns, i) = Some es"
  obtains h p where "select_head (db_runs db) ns i = Some h" and "hkey h = (ns, i)"
    and "run_store.stored C (db_events db) h es p" and "Replay es = Inr p"
proof -
  from assms obtain h p where h: "select_head (db_runs db) ns i = Some h" "hkey h = (ns, i)"
    and s: "run_store.stored C (db_events db) h es p"
    unfolding run_store_ok_def run_histories_eq by (rule run_store.selected_history)
  moreover have "Replay es = Inr p" using s run_ledger.replay_head by (auto simp: run_store.stored_def Replay_def)
  ultimately show ?thesis using that by blast
qed

section \<open>Appending\<close>

lemma AppendEvent_Inr:
  assumes "AppendEvent C D db ns n e = (db', Inr q)"
  obtains p j k runs evs where "loadProjection C (sub_driver D 0) db ns (ev_RunID e) = Inr p"
    and "VerifyEventDigest (rc_Digest C) e = Some True"
    and "ar_EventSequence (pj_Run p) = n" and "Apply (Some p) e = Inr q"
    and "rc_EncRun C (pj_Run q) = Some j" and "rc_EncEvent C e = Some k"
    and "update_heads (\<lambda>h. hkey h = (ns, ev_RunID e) \<and> hr_event_sequence h = n)
        (ar_EventSequence (pj_Run q)) (pj_LastEventDigest q) j (rfc3339nano (ar_UpdatedAt (pj_Run q))) (db_runs db)
      = Some (runs, 1)"
    and "insert_event_row runs (db_events db) (event_row_of ns e k) = Some evs"
    and "db' = db\<lparr>db_runs := runs, db_events := evs\<rparr>"
  using assms
  by (auto simp: AppendEvent_def Let_def insertEvent_Inr verifyEventDigest_def split: option.splits)

lemma AppendEvent_step:
  assumes ok: "run_store_ok C db" and a: "AppendEvent C D db ns n e = (db', Inr q)" and rt: "run_roundtrip C e q"
  shows "run_store_ok C db'"
    "\<exists>es. run_histories C db (ns, ev_RunID e) = Some es \<and> int (length es) = n \<and> Replay (es @ [e]) = Inr q \<and>
       run_histories C db' = (run_histories C db)((ns, ev_RunID e) \<mapsto> es @ [e])"
proof -
  from a obtain p j k' runs evs where load: "loadProjection C (sub_driver D 0) db ns (ev_RunID e) = Inr p"
    and sl: "VerifyEventDigest (rc_Digest C) e = Some True"
    and n: "ar_EventSequence (pj_Run p) = n" and ap: "Apply (Some p) e = Inr q"
    and enc: "rc_EncRun C (pj_Run q) = Some j" "rc_EncEvent C e = Some k'"
    and upd: "update_heads (\<lambda>h. hkey h = (ns, ev_RunID e) \<and> hr_event_sequence h = n)
        (ar_EventSequence (pj_Run q)) (pj_LastEventDigest q) j (rfc3339nano (ar_UpdatedAt (pj_Run q))) (db_runs db)
      = Some (runs, 1)"
    and ins: "insert_event_row runs (db_events db) (event_row_of ns e k') = Some evs"
    and db': "db' = db\<lparr>db_runs := runs, db_events := evs\<rparr>"
    by (rule AppendEvent_Inr)
  from loadProjection_Inr [OF ok load] obtain h where h: "select_head (db_runs db) ns (ev_RunID e) = Some h"
    and hp: "run_store.head_for C p h" .
  have c: "run_store.consistent C (db_runs db) (db_events db)" using ok by (simp add: run_store_ok_def)
  have k: "hkey h = (ns, ev_RunID e)" using select_head_Some [OF h] by simp
  then have ns: "ar_Namespace (pj_Run p) = ns" using hp by (simp add: run_store.head_for_def)
  have q: "replayFrom (Some p) [e] = Inr q" by (simp add: ap)
  have dec: "decode_head C j (pj_LastEventDigest q) = Some q" "stored_run_ok q"
    using rt enc(1) Apply_stored_ok [OF ap] by (simp_all add: run_roundtrip_def decode_head_def)
  have upd': "update_heads (\<lambda>x. hkey x = (ns, ev_RunID e) \<and> hr_event_sequence x = ar_EventSequence (pj_Run p) \<and> True)
        (ar_EventSequence (pj_Run q)) (pj_LastEventDigest q) j (rfc3339nano (ar_UpdatedAt (pj_Run q))) (db_runs db)
      = Some (runs, 1)" using upd n by simp
  have rows: "list_all2 (run_store.row_for C (ar_Namespace (pj_Run p))) [e] [event_row_of ns e k']"
    using row_for_event_row_of [OF rt enc(2) sl] ns by simp
  have "insert_rows runs (db_events db) [event_row_of ns e k'] = Some evs" using ins by simp
  note step = run_store.update_consistent [OF c h hp q enc(1) dec upd' TrueI rows this]
  show "run_store_ok C db'" using step(1) db' by (simp add: run_store_ok_def)
  from step(2) obtain es where es: "run_store.histories C (db_runs db) (db_events db) (ns, ev_RunID e) = Some es"
      "replayFrom None es = Inr p" "replayFrom None (es @ [e]) = Inr q"
      "run_store.histories C runs evs =
         (run_store.histories C (db_runs db) (db_events db))((ns, ev_RunID e) \<mapsto> es @ [e])" by blast
  have "int (length es) = n" using run_ledger.replay_sequence [OF es(2)] n by simp
  with es db' show "\<exists>es. run_histories C db (ns, ev_RunID e) = Some es \<and> int (length es) = n \<and> Replay (es @ [e]) = Inr q \<and>
       run_histories C db' = (run_histories C db)((ns, ev_RunID e) \<mapsto> es @ [e])"
    by (auto simp: run_histories_eq Replay_def)
qed

section \<open>Reading back\<close>

definition no_faults :: driver where
  "no_faults = (\<lambda>_. None)"

lemma no_faults_simps [simp]: "no_faults step = None" "sub_driver no_faults n = no_faults"
  by (simp_all add: no_faults_def sub_driver_def)

lemma replayed_stream: "Replay es = Inr p \<Longrightarrow> replayFrom None es = Inr p"
  by (cases es) (simp_all add: Replay_def)

lemma run_history_identity:
  assumes "run_store_ok C db" and "run_histories C db (ns, i) = Some es"
  shows "IsIdentifier ns \<and> IsIdentifier i \<and> \<not> blank i"
proof -
  from run_history_head [OF assms] obtain h p where k: "hkey h = (ns, i)"
    and s: "run_store.stored C (db_events db) h es p" .
  then have "valid_run (pj_Run p)" "ns = ar_Namespace (pj_Run p)" "i = ar_ID (pj_Run p)"
    by (auto simp: run_store.stored_def run_store.head_for_def stored_run_ok_def valid_run_def)
  then show ?thesis using valid_run_identity [of "pj_Run p"] identifier_not_blank by blast
qed

lemma GetRun_complete:
  assumes ok: "run_store_ok C db" and h: "run_histories C db (ns, i) = Some es"
  shows "\<exists>p. GetRun C no_faults db ns i = Inr p \<and> Replay es = Inr p"
proof -
  from run_history_head [OF assms] obtain h p where s: "select_head (db_runs db) ns i = Some h"
    "run_store.stored C (db_events db) h es p" "Replay es = Inr p" .
  then have "loadProjection C no_faults db ns i = Inr p"
    using loadProjection_complete [of db ns i h C p no_faults] by (simp add: run_store.stored_def)
  with s run_history_identity [OF assms] show ?thesis
    by (simp add: GetRun_def validateNamespace_def)
qed

lemma GetRun_missing:
  assumes "run_histories C db (ns, i) = None" and "IsIdentifier ns" and "\<not> blank i"
  shows "GetRun C no_faults db ns i = Inl (storeError ErrorNotFound ''get_run'' i)"
proof -
  have "select_head (db_runs db) ns i = None"
    using assms(1) by (auto simp: select_head_None run_histories_def split: if_splits)
  with assms(2,3) show ?thesis
    by (simp add: GetRun_def validateNamespace_def loadProjection_def)
qed

lemma Events_complete:
  assumes ok: "run_store_ok C db" and h: "run_histories C db (ns, i) = Some es" and "0 \<le> after"
  shows "Events C no_faults db ns i after = Inr (drop (nat after) es)"
proof -
  from run_history_head [OF ok h] obtain hd p where k: "hkey hd = (ns, i)"
    and s: "run_store.stored C (db_events db) hd es p" and r: "Replay es = Inr p" .
  have v: "\<forall>e\<in>set es. RunEvent_Validate e = None"
    using run_store.replay_events_valid replayed_stream [OF r] by blast
  have "list_all2 (\<lambda>j e. rc_DecEvent C j = Some e) (select_events (db_events db) ns i after) (drop (nat after) es)"
    using run_store.select_events_stored [OF s k assms(3)] .
  then have "list_all2 (\<lambda>j e. bind_res (or_error ErrorEventChain ''list_events'' i (rc_DecEvent C j)) (\<lambda>event.
                ok_then (fail_if (RunEvent_Validate event \<noteq> None)
                    (storeError ErrorEventChain ''list_events'' (ev_ID event))) (Inr event)) = Inr e)
        (select_events (db_events db) ns i after) (drop (nat after) es)"
    by (rule list.rel_mono_strong) (use v in \<open>auto dest: in_set_dropD\<close>)
  then have "scan_rows no_faults ''list_events'' i
        (\<lambda>data. bind_res (or_error ErrorEventChain ''list_events'' i (rc_DecEvent C data)) (\<lambda>event.
                ok_then (fail_if (RunEvent_Validate event \<noteq> None)
                    (storeError ErrorEventChain ''list_events'' (ev_ID event))) (Inr event)))
        0 (select_events (db_events db) ns i after) = Inr (drop (nat after) es)"
    by (intro scan_rows_Inr) simp_all
  with GetRun_complete [OF ok h] run_history_identity [OF ok h] assms(3) show ?thesis
    by (auto simp: Events_def validateNamespace_def)
qed

lemma VerifyRun_complete:
  assumes ok: "run_store_ok C db" and h: "run_histories C db (ns, i) = Some es"
  shows "VerifyRun C no_faults db ns i = None"
proof -
  from run_history_head [OF ok h] obtain hd p where s: "run_store.stored C (db_events db) hd es p"
    and r: "Replay es = Inr p" .
  then have "rc_EncRun C (pj_Run p) = Some (hr_json hd)"
    by (simp add: run_store.stored_def run_store.head_for_def)
  moreover have "GetRun C no_faults db ns i = Inr p" using GetRun_complete [OF ok h] r by auto
  moreover have "Events C no_faults db ns i 0 = Inr es" using Events_complete [OF ok h, of 0] by simp
  ultimately show ?thesis using r by (simp add: VerifyRun_def)
qed

text \<open>What verification establishes of any database: the stored events replay, to the stored run.\<close>

lemma VerifyRun_sound:
  assumes "VerifyRun C D db ns i = None"
  obtains es p q where "Events C (sub_driver D 0) db ns i 0 = Inr es" and "Replay es = Inr p"
    and "GetRun C (sub_driver D 1) db ns i = Inr q" and "rc_EncRun C (pj_Run p) = rc_EncRun C (pj_Run q)"
    and "pj_LastEventDigest p = pj_LastEventDigest q"
  using assms by (auto simp: VerifyRun_def Let_def split: sum.splits)

section \<open>Optimistic concurrency\<close>

lemma AppendEvent_stale:
  assumes ok: "run_store_ok C db" and h: "run_histories C db (ns, ev_RunID e) = Some es"
    and d: "VerifyEventDigest (rc_Digest C) e = Some True" and n: "int (length es) \<noteq> n"
    and D: "D BeginStep = None" "D (Sub 0 QueryStep) = None"
  shows "AppendEvent C D db ns n e = (db, Inl (conflict ''append_event'' (ev_RunID e)))"
proof -
  from run_history_head [OF ok h] obtain hd p where s: "select_head (db_runs db) ns (ev_RunID e) = Some hd"
    "run_store.stored C (db_events db) hd es p" "Replay es = Inr p" .
  have "loadProjection C (sub_driver D 0) db ns (ev_RunID e) = Inr p"
    using loadProjection_complete [OF s(1), of C p "sub_driver D 0"] s(2) D(2) by (simp add: run_store.stored_def sub_driver_def)
  moreover have "ar_EventSequence (pj_Run p) \<noteq> n"
    using run_ledger.replay_sequence [OF replayed_stream [OF s(3)]] n by simp
  ultimately show ?thesis
    using d D(1) run_history_identity [OF ok h]
    by (simp add: AppendEvent_def Let_def validateNamespace_def verifyEventDigest_def)
qed

end
