(* ===== verification/Transaction_Projection.thy ===== *)
theory Transaction_Projection
  imports Transaction_History
begin

text \<open>
  \<^verbatim>\<open>Projection.Validate\<close> and its helpers \<^verbatim>\<open>validateProjectionHistory\<close> and
  \<^verbatim>\<open>validateAuthoritySnapshot\<close> of \<^verbatim>\<open>internal/kernel/transaction/reducer.go\<close>: the check that the store
  makes of a projection before writing it and after reading it.
\<close>

abbreviation chainError :: KernelError where
  "chainError \<equiv> transactionError ErrorEventChain"

section \<open>The parts of the check\<close>

text \<open>The loop over the executions; \<open>seen\<close> are the identifiers before.\<close>

fun validateExecutions :: "AgentTransaction \<Rightarrow> string list \<Rightarrow> AgentExecution list \<Rightarrow> KernelError option" where
  "validateExecutions tx seen [] = None"
| "validateExecutions tx seen (execution # executions) = first_error
     [AgentExecution_Validate execution,
      fail_if (ax_TransactionID execution \<noteq> tx_ID tx) chainError,
      fail_if (ax_Attempt execution > tx_Attempt tx) chainError,
      fail_if (ax_ID execution \<in> set seen) chainError,
      fail_if (\<not> stringContains (tx_AgentRunIDs tx) (ax_RunID execution)) chainError,
      fail_if (stageBindingIndex (tx_StageBindings tx) (ax_StageBindingID execution) = None) chainError,
      fail_if (ax_Status execution = AgentExecutionRunning \<and> executions \<noteq> []) chainError,
      validateExecutions tx (ax_ID execution # seen) executions]"

definition validateEffectOrigin :: "ProjectionTx \<Rightarrow> Effect \<Rightarrow> KernelError option" where
  "validateEffectOrigin p effect =
     (if ef_OriginExecutionID effect \<noteq> '''' then
        (case executionIndex (tj_Executions p) (ef_OriginExecutionID effect) of
           None \<Rightarrow> Some chainError
         | Some index \<Rightarrow> (let execution = tj_Executions p ! index in
             fail_if (ax_Attempt execution \<noteq> ef_Attempt effect \<or>
                 ax_Status execution \<noteq> AgentExecutionSucceeded \<or>
                 (ef_RunID effect \<noteq> '''' \<and> ax_RunID execution \<noteq> ef_RunID effect)) chainError))
      else fail_if (tx_Task (tj_Transaction p) \<noteq> None \<and> tx_Attempt (tj_Transaction p) > 0) chainError)"

definition validateEffects :: "ProjectionTx \<Rightarrow> KernelError option" where
  "validateEffects p = (let tx = tj_Transaction p in
     check_each (\<lambda>i effect. first_error
       [Effect_Validate effect,
        fail_if (ef_TransactionID effect \<noteq> tx_ID tx \<or> ef_Attempt effect \<noteq> tx_Attempt tx \<or>
            ef_ID effect \<noteq> tx_EffectIDs tx ! i \<or> ef_Sequence effect \<noteq> int (i + 1)) chainError,
        validateEffectOrigin p effect]) 0 (tj_Effects p))"

definition misbound_result :: "AgentTransaction \<Rightarrow> VerificationResult \<Rightarrow> bool" where
  "misbound_result tx result \<longleftrightarrow> vr_TransactionID result \<noteq> tx_ID tx \<or> vr_Attempt result \<noteq> tx_Attempt tx \<or>
     vr_EffectSetDigest result \<noteq> tx_EffectSetDigest tx \<or> vr_StagedStateDigest result \<noteq> tx_StagedStateDigest tx"

text \<open>The loop over the current results, with the identifiers and names before, and the one over the
  superseded results, with every identifier before.\<close>

fun validateVerifications ::
  "AgentTransaction \<Rightarrow> string list \<Rightarrow> string list \<Rightarrow> nat \<Rightarrow> VerificationResult list \<Rightarrow> KernelError option" where
  "validateVerifications tx ids names i [] = None"
| "validateVerifications tx ids names i (result # results) = first_error
     [VerificationResult_Validate result,
      fail_if (misbound_result tx result \<or> vr_ID result \<noteq> tx_VerificationResultIDs tx ! i) chainError,
      fail_if (vr_ID result \<in> set ids) chainError,
      fail_if (vr_Name result \<in> set names) chainError,
      validateVerifications tx (vr_ID result # ids) (vr_Name result # names) (Suc i) results]"

fun validateSuperseded :: "AgentTransaction \<Rightarrow> string list \<Rightarrow> VerificationResult list \<Rightarrow> KernelError option" where
  "validateSuperseded tx ids [] = None"
| "validateSuperseded tx ids (result # results) = first_error
     [VerificationResult_Validate result,
      fail_if (misbound_result tx result) chainError,
      fail_if (vr_ID result \<in> set ids) chainError,
      validateSuperseded tx (vr_ID result # ids) results]"

definition validatePlanProjection :: "Hashing \<Rightarrow> ProjectionTx \<Rightarrow> KernelError option" where
  "validatePlanProjection H p = (let tx = tj_Transaction p in
     case tj_CommitPlan p of
       Some plan \<Rightarrow> first_error
         [CommitPlan_Validate plan,
          (case ComputeCommitPlanDigest H plan of
             None \<Rightarrow> Some chainError
           | Some computed \<Rightarrow> fail_if (cp_TransactionID plan \<noteq> tx_ID tx \<or> cp_Attempt plan \<noteq> tx_Attempt tx \<or>
               cp_IntentDigest plan \<noteq> tx_IntentDigest tx \<or> cp_EffectSetDigest plan \<noteq> tx_EffectSetDigest tx \<or>
               cp_StagedStateDigest plan \<noteq> tx_StagedStateDigest tx \<or> cp_Digest plan \<noteq> tx_CommitPlanDigest tx \<or>
               cp_Digest plan \<noteq> computed) chainError),
          fail_if (\<not> equalStrings (releaseEffectIDs (tj_Effects p)) (map st_EffectID (cp_Steps plan))) chainError]
     | None \<Rightarrow> fail_if (tx_CommitPlanDigest tx \<noteq> '''') chainError)"

definition validatePackageProjection :: "Hashing \<Rightarrow> ProjectionTx \<Rightarrow> KernelError option" where
  "validatePackageProjection H p = (let tx = tj_Transaction p in
     case tj_ApprovalPackage p of
       Some package \<Rightarrow> first_error
         [ApprovalPackage_Validate package,
          (case ComputeApprovalPackageDigest H package of
             None \<Rightarrow> Some chainError
           | Some computed \<Rightarrow> (case tj_CommitPlan p of
               None \<Rightarrow> Some chainError
             | Some plan \<Rightarrow> fail_if (ap_TransactionID package \<noteq> tx_ID tx \<or> ap_Attempt package \<noteq> tx_Attempt tx \<or>
                 ap_IntentDigest package \<noteq> tx_IntentDigest tx \<or> ap_EffectSetDigest package \<noteq> tx_EffectSetDigest tx \<or>
                 ap_StagedStateDigest package \<noteq> tx_StagedStateDigest tx \<or>
                 ap_CommitPlanDigest package \<noteq> tx_CommitPlanDigest tx \<or>
                 ap_PolicyDigest package \<noteq> cp_PolicyDigest plan \<or>
                 \<not> equalStrings (ap_VerificationResultIDs package) (tx_VerificationResultIDs tx) \<or>
                 ap_Digest package \<noteq> tx_ApprovalPackageDigest tx \<or> ap_Digest package \<noteq> computed) chainError))]
     | None \<Rightarrow> fail_if (tx_ApprovalPackageDigest tx \<noteq> '''') chainError)"

section \<open>Superseded authorities and attempts\<close>

definition validateAuthoritySnapshot ::
  "Hashing \<Rightarrow> AuthoritySnapshot \<Rightarrow> string \<Rightarrow> int64 \<Rightarrow> KernelError option" where
  "validateAuthoritySnapshot H authority transactionID attempt =
    (case (if sa_Attempt authority \<noteq> attempt \<or>
              (sa_State authority \<noteq> TransactionPendingApproval \<and> sa_State authority \<noteq> TransactionReadyToCommit) \<or>
              sa_Reason authority = '''' \<or> sa_SupersededAt authority = 0
           then (None, None) else (sa_CommitPlan authority, sa_ApprovalPackage authority)) of
       (Some plan, Some package) \<Rightarrow> first_error
         [CommitPlan_Validate plan,
          ApprovalPackage_Validate package,
          fail_if (ComputeCommitPlanDigest H plan \<noteq> Some (cp_Digest plan) \<or>
              ComputeApprovalPackageDigest H package \<noteq> Some (ap_Digest package)) chainError,
          fail_if (cp_TransactionID plan \<noteq> transactionID \<or> cp_Attempt plan \<noteq> attempt \<or>
              ap_TransactionID package \<noteq> transactionID \<or> ap_Attempt package \<noteq> attempt \<or>
              ap_CommitPlanDigest package \<noteq> cp_Digest plan) chainError]
     | _ \<Rightarrow> Some chainError)"

definition misbound_attempt_result :: "string \<Rightarrow> AttemptSnapshot \<Rightarrow> VerificationResult \<Rightarrow> bool" where
  "misbound_attempt_result transactionID attempt result \<longleftrightarrow>
     vr_TransactionID result \<noteq> transactionID \<or> vr_Attempt result \<noteq> at_Attempt attempt \<or>
     vr_EffectSetDigest result \<noteq> at_EffectSetDigest attempt \<or>
     vr_StagedStateDigest result \<noteq> at_StagedStateDigest attempt"

definition validateAttemptPlan :: "Hashing \<Rightarrow> string \<Rightarrow> AttemptSnapshot \<Rightarrow> KernelError option" where
  "validateAttemptPlan H transactionID attempt = (case at_CommitPlan attempt of
     Some plan \<Rightarrow> first_error
       [CommitPlan_Validate plan,
        fail_if (ComputeCommitPlanDigest H plan \<noteq> Some (cp_Digest plan)) chainError,
        fail_if (cp_TransactionID plan \<noteq> transactionID \<or> cp_Attempt plan \<noteq> at_Attempt attempt \<or>
            cp_Digest plan \<noteq> at_CommitPlanDigest attempt \<or> cp_EffectSetDigest plan \<noteq> at_EffectSetDigest attempt \<or>
            cp_StagedStateDigest plan \<noteq> at_StagedStateDigest attempt) chainError]
   | None \<Rightarrow> fail_if (at_CommitPlanDigest attempt \<noteq> '''') chainError)"

definition validateAttemptPackage :: "Hashing \<Rightarrow> string \<Rightarrow> AttemptSnapshot \<Rightarrow> KernelError option" where
  "validateAttemptPackage H transactionID attempt = (case at_ApprovalPackage attempt of
     Some package \<Rightarrow> first_error
       [ApprovalPackage_Validate package,
        fail_if (ComputeApprovalPackageDigest H package \<noteq> Some (ap_Digest package)) chainError,
        fail_if (ap_TransactionID package \<noteq> transactionID \<or> ap_Attempt package \<noteq> at_Attempt attempt \<or>
            ap_Digest package \<noteq> at_ApprovalPackageDigest attempt \<or>
            ap_EffectSetDigest package \<noteq> at_EffectSetDigest attempt \<or>
            ap_StagedStateDigest package \<noteq> at_StagedStateDigest attempt \<or>
            ap_CommitPlanDigest package \<noteq> at_CommitPlanDigest attempt) chainError]
   | None \<Rightarrow> fail_if (at_ApprovalPackageDigest attempt \<noteq> '''') chainError)"

text \<open>The body of the loop over the superseded attempts, after the attempt numbers.\<close>

definition validateAttempt :: "Hashing \<Rightarrow> ProjectionTx \<Rightarrow> AttemptSnapshot \<Rightarrow> KernelError option" where
  "validateAttempt H p attempt = (let id = tx_ID (tj_Transaction p) in first_error
     [fail_if (at_SupersededAt attempt = 0 \<or> at_Reason attempt = '''' \<or>
        (at_State attempt \<noteq> TransactionStaged \<and> at_State attempt \<noteq> TransactionValidationFailed \<and>
         at_State attempt \<noteq> TransactionReviseRequired)) chainError,
      check_unique (\<lambda>x. x) (\<lambda>_ _. None) (\<lambda>_. chainError)
        (\<lambda>_ executionID. case executionIndex (tj_Executions p) executionID of
           None \<Rightarrow> Some chainError
         | Some index \<Rightarrow> fail_if (ax_Attempt (tj_Executions p ! index) \<noteq> at_Attempt attempt) chainError)
        [] 0 (at_ExecutionIDs attempt),
      fail_if (length (at_EffectIDs attempt) \<noteq> length (at_Effects attempt) \<or>
        \<not> isDigest (at_StagedStateDigest attempt) \<or> \<not> isDigest (at_EffectSetDigest attempt)) chainError,
      check_each (\<lambda>i effect. first_error
        [Effect_Validate effect,
         fail_if (ef_TransactionID effect \<noteq> id \<or> ef_Attempt effect \<noteq> at_Attempt attempt \<or>
           ef_ID effect \<noteq> at_EffectIDs attempt ! i \<or> ef_Sequence effect \<noteq> int (i + 1)) chainError])
        0 (at_Effects attempt),
      fail_if (ComputeEffectSetDigest H (at_Effects attempt) \<noteq> Some (at_EffectSetDigest attempt)) chainError,
      fail_if (length (at_VerificationResultIDs attempt) \<noteq> length (at_Verifications attempt)) chainError,
      check_each (\<lambda>i result. first_error
        [VerificationResult_Validate result,
         fail_if (misbound_attempt_result id attempt result \<or>
           vr_ID result \<noteq> at_VerificationResultIDs attempt ! i) chainError])
        0 (at_Verifications attempt),
      check_each (\<lambda>_ result. first_error
        [VerificationResult_Validate result,
         fail_if (misbound_attempt_result id attempt result) chainError])
        0 (at_SupersededVerifications attempt),
      validateAttemptPlan H id attempt,
      validateAttemptPackage H id attempt,
      check_each (\<lambda>_ authority. validateAuthoritySnapshot H authority id (at_Attempt attempt))
        0 (at_SupersededAuthorities attempt)])"

fun validateAttempts :: "Hashing \<Rightarrow> ProjectionTx \<Rightarrow> int64 \<Rightarrow> AttemptSnapshot list \<Rightarrow> KernelError option" where
  "validateAttempts H p previous [] =
     fail_if (wrap64 (previous + 1) \<noteq> tx_Attempt (tj_Transaction p)) chainError"
| "validateAttempts H p previous (attempt # attempts) = first_error
     [fail_if (at_Attempt attempt \<noteq> wrap64 (previous + 1) \<or>
        at_Attempt attempt \<ge> tx_Attempt (tj_Transaction p)) chainError,
      validateAttempt H p attempt,
      validateAttempts H p (at_Attempt attempt) attempts]"

definition validateProjectionHistory :: "Hashing \<Rightarrow> ProjectionTx \<Rightarrow> KernelError option" where
  "validateProjectionHistory H p = first_error
     [check_each (\<lambda>_ authority. validateAuthoritySnapshot H authority (tx_ID (tj_Transaction p))
        (tx_Attempt (tj_Transaction p))) 0 (tj_SupersededAuthorities p),
      (case tj_SupersededAttempts p of
         [] \<Rightarrow> fail_if (tx_Attempt (tj_Transaction p) > 1) chainError
       | attempt # _ \<Rightarrow> first_error
           [fail_if (at_Attempt attempt \<noteq> 0 \<and> at_Attempt attempt \<noteq> 1) chainError,
            validateAttempts H p (wrap64 (at_Attempt attempt - 1)) (tj_SupersededAttempts p)])]"

section \<open>Projection.Validate\<close>

definition ProjectionTx_Validate :: "Hashing \<Rightarrow> ProjectionTx \<Rightarrow> KernelError option" where
  "ProjectionTx_Validate H p = (let tx = tj_Transaction p in first_error
     [AgentTransaction_Validate H tx,
      fail_if (length (tx_EffectIDs tx) \<noteq> length (tj_Effects p)) chainError,
      validateExecutions tx [] (tj_Executions p),
      fail_if (length (filter (\<lambda>x. ax_Status x = AgentExecutionRunning) (tj_Executions p)) > 1) chainError,
      validateEffects p,
      (if tx_EffectSetDigest tx \<noteq> '''' then
         (case ComputeEffectSetDigest H (tj_Effects p) of
            None \<Rightarrow> Some chainError
          | Some computed \<Rightarrow> fail_if (computed \<noteq> tx_EffectSetDigest tx) chainError)
       else None),
      fail_if (length (tx_VerificationResultIDs tx) \<noteq> length (tj_Verifications p)) chainError,
      validateVerifications tx [] [] 0 (tj_Verifications p),
      validateSuperseded tx (map vr_ID (tj_Verifications p)) (tj_SupersededVerifications p),
      validatePlanProjection H p,
      validatePackageProjection H p,
      validateProjectionHistory H p,
      fail_if (\<not> isDigest (tj_LastEventDigest p)) chainError])"

end
