(* ===== verification/Transaction_Store.thy ===== *)
theory Transaction_Store
  imports Run_Store Transaction_Projection
begin

text \<open>
  The transactions of the kernel store (\<^verbatim>\<open>internal/kernel/store/transaction_store.go\<close>): creating a
  transaction, appending a batch of events, reading, listing and verifying.

  The encoders of projections and events are arguments, the fields of \<open>TxCodec\<close>; \<open>tx_roundtrip\<close> says that
  what an operation writes can be read back.
\<close>

record 'j TxCodec =
  tc_EncProjection :: "ProjectionTx \<Rightarrow> 'j option"
  tc_DecProjection :: "'j \<Rightarrow> ProjectionTx option"
  tc_EncEvent :: "TransactionEvent \<Rightarrow> 'j option"
  tc_DecEvent :: "'j \<Rightarrow> TransactionEvent option"

section \<open>Operations\<close>

definition verifyTransactionEventDigest :: "Hashing \<Rightarrow> TransactionEvent \<Rightarrow> KernelError option" where
  "verifyTransactionEventDigest H event = (case VerifyTransactionEventDigest H event of
     None \<Rightarrow> Some (storeError ErrorInternal ''verify_transaction_event'' (te_ID event))
   | Some valid \<Rightarrow> fail_if (\<not> valid) (storeError ErrorEventChain ''verify_transaction_event'' (te_ID event)))"

definition loadTransactionProjection :: "Hashing \<Rightarrow> 'j TxCodec \<Rightarrow> driver \<Rightarrow> 'j DB \<Rightarrow> string \<Rightarrow> string \<Rightarrow>
    KernelError + ProjectionTx" where
  "loadTransactionProjection H C D db namespace transactionID = (let op = ''get_transaction'' in
     ok_then (read_step D QueryStep op transactionID)
       (bind_res (or_error ErrorNotFound op transactionID
            (select_head (db_transactions db) namespace transactionID)) (\<lambda>row.
        bind_res (or_error ErrorEventChain op transactionID (tc_DecProjection C (hr_json row))) (\<lambda>projection.
        ok_then (first_error
           [fail_if (ProjectionTx_Validate H projection \<noteq> None) (storeError ErrorEventChain op transactionID),
            fail_if (tx_Namespace (tj_Transaction projection) \<noteq> namespace \<or>
                tx_ID (tj_Transaction projection) \<noteq> transactionID \<or>
                tx_EventSequence (tj_Transaction projection) \<noteq> hr_event_sequence row \<or>
                tj_LastEventDigest projection \<noteq> hr_last_event_digest row)
              (storeError ErrorEventChain op transactionID)])
          (Inr projection)))))"

definition tx_event_row_of :: "string \<Rightarrow> TransactionEvent \<Rightarrow> 'j \<Rightarrow> 'j event_row" where
  "tx_event_row_of namespace event data =
     \<lparr>er_namespace = namespace, er_id = te_TransactionID event, er_sequence = te_Sequence event,
      er_event_id = te_ID event, er_event_type = TransactionEventType_name (te_Type event),
      er_event_digest = te_Digest event, er_json = data, er_occurred_at = rfc3339nano (te_OccurredAt event)\<rparr>"

definition insertTransactionEvent :: "driver \<Rightarrow> nat \<Rightarrow> 'j DB \<Rightarrow> string \<Rightarrow> TransactionEvent \<Rightarrow> 'j \<Rightarrow>
    KernelError + 'j DB" where
  "insertTransactionEvent D i tx namespace event data =
     bind_res (exec_write D (InsertEventStep i) ''append_transaction_events'' (te_TransactionID event)
        (insert_event_row (db_transactions tx) (db_transaction_events tx) (tx_event_row_of namespace event data)))
       (\<lambda>events. Inr (tx\<lparr>db_transaction_events := events\<rparr>))"

fun insertTransactionEvents :: "driver \<Rightarrow> nat \<Rightarrow> 'j DB \<Rightarrow> string \<Rightarrow> (TransactionEvent \<times> 'j) list \<Rightarrow>
    KernelError + 'j DB" where
  "insertTransactionEvents D i tx namespace [] = Inr tx"
| "insertTransactionEvents D i tx namespace ((event, data) # rest) =
     bind_res (insertTransactionEvent D i tx namespace event data)
       (\<lambda>tx. insertTransactionEvents D (Suc i) tx namespace rest)"

definition tx_row_of :: "ProjectionTx \<Rightarrow> 'j \<Rightarrow> 'j head_row" where
  "tx_row_of p data =
     \<lparr>hr_namespace = tx_Namespace (tj_Transaction p), hr_id = tx_ID (tj_Transaction p),
      hr_event_sequence = tx_EventSequence (tj_Transaction p), hr_last_event_digest = tj_LastEventDigest p,
      hr_json = data, hr_created_at = rfc3339nano (tx_CreatedAt (tj_Transaction p)),
      hr_updated_at = rfc3339nano (tx_UpdatedAt (tj_Transaction p))\<rparr>"

definition CreateTransaction :: "Hashing \<Rightarrow> 'j TxCodec \<Rightarrow> driver \<Rightarrow> 'j DB \<Rightarrow> TransactionEvent \<Rightarrow>
    'j DB \<times> (KernelError + ProjectionTx)" where
  "CreateTransaction H C D db event = (let op = ''create_transaction''; transactionID = te_TransactionID event in
   settle db
     (ok_then (verifyTransactionEventDigest H event)
       (bind_res (ApplyTx H None event) (\<lambda>projection.
        ok_then (first_error [ProjectionTx_Validate H projection,
            fail_if (tx_Admission (tj_Transaction projection) \<noteq> None)
              (storeError ErrorCapabilityDenied op transactionID)])
       (bind_res (or_error ErrorInternal op transactionID (tc_EncProjection C projection)) (\<lambda>projectionJSON.
        bind_res (or_error ErrorInternal op transactionID (tc_EncEvent C event)) (\<lambda>eventJSON.
        ok_then (read_step D BeginStep op transactionID)
       (bind_res (exec_write D InsertHeadStep op transactionID
            (insert_head (db_transactions db) (tx_row_of projection projectionJSON))) (\<lambda>heads.
        bind_res (insertTransactionEvent D 0 (db\<lparr>db_transactions := heads\<rparr>)
            (tx_Namespace (tj_Transaction projection)) event eventJSON) (\<lambda>tx.
        bind_res (exec_write D CommitStep op transactionID (Some tx)) (\<lambda>tx. Inr (tx, projection))))))))))))"

text \<open>The loop of \<^verbatim>\<open>appendTransactionEvents\<close> that applies the batch and encodes its events.\<close>

fun apply_batch :: "Hashing \<Rightarrow> 'j TxCodec \<Rightarrow> string \<Rightarrow> string \<Rightarrow> ProjectionTx \<Rightarrow> TransactionEvent list \<Rightarrow>
    KernelError + ProjectionTx \<times> (TransactionEvent \<times> 'j) list" where
  "apply_batch H C operation transactionID nxt [] = Inr (nxt, [])"
| "apply_batch H C operation transactionID nxt (event # events) =
     ok_then (fail_if (te_TransactionID event \<noteq> transactionID)
         (storeError ErrorEventSequence operation (te_ID event)))
       (bind_res (ApplyTx H (Some nxt) event) (\<lambda>nxt.
        bind_res (or_error ErrorInternal operation (te_ID event) (tc_EncEvent C event)) (\<lambda>data.
        bind_res (apply_batch H C operation transactionID nxt events) (\<lambda>(final, rows).
        Inr (final, (event, data) # rows)))))"

definition appendTransactionEvents :: "Hashing \<Rightarrow> 'j TxCodec \<Rightarrow> driver \<Rightarrow> 'j DB \<Rightarrow> string \<Rightarrow> int64 \<Rightarrow>
    TransactionEvent list \<Rightarrow> string \<Rightarrow> 'j DB \<times> (KernelError + ProjectionTx)" where
  "appendTransactionEvents H C D db namespace expectedSequence events operation = settle db
     (ok_then (first_error [validateNamespace namespace,
          fail_if (events = []) (storeError ErrorSchemaInvalid operation ''''),
          check_each (\<lambda>_. verifyTransactionEventDigest H) 0 events,
          read_step D BeginStep operation (te_TransactionID (hd events))])
       (bind_res (loadTransactionProjection H C (sub_driver D 0) db namespace (te_TransactionID (hd events))) (\<lambda>current.
        let transactionID = tx_ID (tj_Transaction current) in
        ok_then (fail_if (tx_EventSequence (tj_Transaction current) \<noteq> expectedSequence)
            (conflict operation (te_TransactionID (hd events))))
       (bind_res (apply_batch H C operation transactionID current events) (\<lambda>(nxt, rows).
        ok_then (ProjectionTx_Validate H nxt)
       (bind_res (or_error ErrorInternal operation transactionID (tc_EncProjection C nxt)) (\<lambda>projectionJSON.
        bind_res (exec_write D UpdateStep operation transactionID
            (update_heads (\<lambda>h. hkey h = (namespace, transactionID) \<and> hr_event_sequence h = expectedSequence \<and>
                 hr_last_event_digest h = tj_LastEventDigest current)
               (tx_EventSequence (tj_Transaction nxt)) (tj_LastEventDigest nxt) projectionJSON
               (rfc3339nano (tx_UpdatedAt (tj_Transaction nxt))) (db_transactions db))) (\<lambda>(heads, affected).
        ok_then (first_error [read_step D AffectedStep operation transactionID,
            fail_if (affected \<noteq> 1) (conflict operation transactionID)])
       (bind_res (insertTransactionEvents D 0 (db\<lparr>db_transactions := heads\<rparr>) namespace rows) (\<lambda>tx.
        bind_res (exec_write D CommitStep operation transactionID (Some tx)) (\<lambda>tx. Inr (tx, nxt))))))))))))"

definition AppendTransactionEvents :: "Hashing \<Rightarrow> 'j TxCodec \<Rightarrow> driver \<Rightarrow> 'j DB \<Rightarrow> string \<Rightarrow> int64 \<Rightarrow>
    TransactionEvent list \<Rightarrow> 'j DB \<times> (KernelError + ProjectionTx)" where
  "AppendTransactionEvents H C D db namespace expectedSequence events =
     appendTransactionEvents H C D db namespace expectedSequence events ''append_transaction_events''"

definition GetTransaction :: "Hashing \<Rightarrow> 'j TxCodec \<Rightarrow> driver \<Rightarrow> 'j DB \<Rightarrow> string \<Rightarrow> string \<Rightarrow>
    KernelError + ProjectionTx" where
  "GetTransaction H C D db namespace transactionID =
     ok_then (first_error [validateNamespace namespace,
         fail_if (blank transactionID) (storeError ErrorSchemaInvalid ''get_transaction'' transactionID)])
       (loadTransactionProjection H C D db namespace transactionID)"

definition ListTransactions :: "Hashing \<Rightarrow> 'j TxCodec \<Rightarrow> driver \<Rightarrow> 'j DB \<Rightarrow> string \<Rightarrow>
    KernelError + AgentTransaction list" where
  "ListTransactions H C D db namespace = (let op = ''list_transactions'' in
     ok_then (first_error [validateNamespace namespace, read_step D QueryStep op namespace])
       (scan_rows D op namespace
          (\<lambda>data. bind_res (or_error ErrorEventChain op namespace (tc_DecProjection C data)) (\<lambda>projection.
             ok_then (fail_if (ProjectionTx_Validate H projection \<noteq> None)
                 (storeError ErrorEventChain op (tx_ID (tj_Transaction projection))))
               (Inr (tj_Transaction projection))))
          0 (map hr_json (sort_key (\<lambda>h. (hr_created_at h, hr_id h))
               (filter (\<lambda>h. hr_namespace h = namespace) (db_transactions db))))))"

definition ListAllTransactions :: "Hashing \<Rightarrow> 'j TxCodec \<Rightarrow> driver \<Rightarrow> 'j DB \<Rightarrow> KernelError + ProjectionTx list" where
  "ListAllTransactions H C D db = (let op = ''list_all_transactions'' in
     ok_then (read_step D QueryStep op '''')
       (scan_rows D op ''''
          (\<lambda>row. bind_res (or_error ErrorEventChain op (hr_id row) (tc_DecProjection C (hr_json row))) (\<lambda>projection.
             ok_then (first_error
                [fail_if (ProjectionTx_Validate H projection \<noteq> None) (storeError ErrorEventChain op (hr_id row)),
                 fail_if (tx_Namespace (tj_Transaction projection) \<noteq> hr_namespace row \<or>
                    tx_ID (tj_Transaction projection) \<noteq> hr_id row \<or>
                    tj_LastEventDigest projection \<noteq> hr_last_event_digest row \<or>
                    \<not> IsSHA256Digest (hr_last_event_digest row))
                   (storeError ErrorEventChain op (hr_id row))])
               (Inr projection)))
          0 (sort_key (\<lambda>h. (hr_namespace h, hr_created_at h, hr_id h)) (db_transactions db))))"

definition TransactionEvents :: "Hashing \<Rightarrow> 'j TxCodec \<Rightarrow> driver \<Rightarrow> 'j DB \<Rightarrow> string \<Rightarrow> string \<Rightarrow> int64 \<Rightarrow>
    KernelError + TransactionEvent list" where
  "TransactionEvents H C D db namespace transactionID afterSequence = (let op = ''list_transaction_events'' in
     ok_then (first_error [validateNamespace namespace,
         fail_if (blank transactionID \<or> afterSequence < 0) (storeError ErrorSchemaInvalid op transactionID)])
       (bind_res (GetTransaction H C (sub_driver D 0) db namespace transactionID) (\<lambda>_.
        ok_then (read_step D QueryStep op transactionID)
          (scan_rows D op transactionID
             (\<lambda>data. bind_res (or_error ErrorEventChain op transactionID (tc_DecEvent C data)) (\<lambda>event.
                ok_then (fail_if (TransactionEvent_Validate event \<noteq> None)
                    (storeError ErrorEventChain op (te_ID event))) (Inr event)))
             0 (select_events (db_transaction_events db) namespace transactionID afterSequence)))))"

definition VerifyTransaction :: "Hashing \<Rightarrow> 'j TxCodec \<Rightarrow> driver \<Rightarrow> 'j DB \<Rightarrow> string \<Rightarrow> string \<Rightarrow>
    KernelError option" where
  "VerifyTransaction H C D db namespace transactionID = (let op = ''verify_transaction'' in
     case bind_res (TransactionEvents H C (sub_driver D 0) db namespace transactionID 0) (\<lambda>events.
       bind_res (wrap_error ErrorEventChain op transactionID (ReplayTx H events)) (\<lambda>replayed.
       bind_res (GetTransaction H C (sub_driver D 1) db namespace transactionID) (\<lambda>stored.
       bind_res (or_error ErrorInternal op transactionID (tc_EncProjection C replayed)) (\<lambda>replayedJSON.
       bind_res (or_error ErrorInternal op transactionID (tc_EncProjection C stored)) (\<lambda>storedJSON.
       ok_then (fail_if (replayedJSON \<noteq> storedJSON) (storeError ErrorEventChain op transactionID)) (Inr ()))))))
     of Inl err \<Rightarrow> Some err | Inr _ \<Rightarrow> None)"

section \<open>The stored transaction ledger\<close>

definition stored_tx_ok :: "Hashing \<Rightarrow> ProjectionTx \<Rightarrow> bool" where
  "stored_tx_ok H p \<longleftrightarrow> ProjectionTx_Validate H p = None"

lemma ApplyTx_event_valid: "ApplyTx H cur e = Inr p \<Longrightarrow> TransactionEvent_Validate e = None"
  by (cases cur) (auto dest: ApplyTx_None_Inr elim: ApplyTx_Some_Inr)

interpretation tx_store: event_store "ApplyTx H" "replayFromTx H"
  "\<lambda>p. tx_EventSequence (tj_Transaction p)" tj_LastEventDigest "\<lambda>p. tx_ID (tj_Transaction p)"
  "\<lambda>p. tx_UpdatedAt (tj_Transaction p)" te_Sequence te_PreviousDigest te_Digest te_TransactionID te_OccurredAt
  "\<lambda>p. tx_Namespace (tj_Transaction p)" te_ID "stored_tx_ok H" "\<lambda>e. TransactionEvent_Validate e = None"
  "tc_EncProjection C" "\<lambda>j _. tc_DecProjection C j" "tc_EncEvent C" "tc_DecEvent C"
  "\<lambda>e. TransactionEventType_name (te_Type e)" "\<lambda>e. VerifyTransactionEventDigest H e = Some True"
  for H and C :: "'j TxCodec"
proof (unfold_locales, goal_cases)
  case (1 p e q)
  then show ?case using ApplyTx_pinned [OF 1] pinned_tx_eqD by blast
next
  case (2 cur e q)
  then show ?case by (rule ApplyTx_event_valid)
qed

definition tx_histories :: "'j TxCodec \<Rightarrow> 'j DB \<Rightarrow> string \<times> string \<Rightarrow> TransactionEvent list option" where
  "tx_histories C db k =
     (if k \<in> hkey ` set (db_transactions db)
      then Some (map (\<lambda>r. the (tc_DecEvent C (er_json r)))
        (filter (\<lambda>r. ekey r = k) (db_transaction_events db))) else None)"

definition tx_store_ok :: "Hashing \<Rightarrow> 'j TxCodec \<Rightarrow> 'j DB \<Rightarrow> bool" where
  "tx_store_ok H C db \<longleftrightarrow> tx_store.consistent H C (db_transactions db) (db_transaction_events db)"

definition tx_roundtrip :: "'j TxCodec \<Rightarrow> TransactionEvent list \<Rightarrow> ProjectionTx \<Rightarrow> bool" where
  "tx_roundtrip C es p \<longleftrightarrow> (\<forall>e\<in>set es. \<forall>j. tc_EncEvent C e = Some j \<longrightarrow> tc_DecEvent C j = Some e) \<and>
     (\<forall>j. tc_EncProjection C p = Some j \<longrightarrow> tc_DecProjection C j = Some p)"

lemma tx_histories_eq: "tx_histories C db = tx_store.histories C (db_transactions db) (db_transaction_events db)"
  by (rule ext) (simp add: tx_histories_def tx_store.histories_def tx_store.rows_of_def)

lemma insertTransactionEvent_Inr:
  "insertTransactionEvent D i tx ns e j = Inr tx' \<longleftrightarrow> D (InsertEventStep i) = None \<and>
     (\<exists>evs. insert_event_row (db_transactions tx) (db_transaction_events tx) (tx_event_row_of ns e j) = Some evs \<and>
        tx' = tx\<lparr>db_transaction_events := evs\<rparr>)"
  by (auto simp: insertTransactionEvent_def)

lemma insertTransactionEvents_Inr:
  "insertTransactionEvents D i tx ns rows = Inr tx' \<Longrightarrow>
     \<exists>evs. insert_rows (db_transactions tx) (db_transaction_events tx)
         (map (\<lambda>(e, j). tx_event_row_of ns e j) rows) = Some evs \<and> tx' = tx\<lparr>db_transaction_events := evs\<rparr>"
proof (induction rows arbitrary: i tx)
  case Nil
  then show ?case by simp
next
  case (Cons row rows)
  obtain e j where row: "row = (e, j)" by (cases row)
  with Cons.prems obtain evs where
    "insert_event_row (db_transactions tx) (db_transaction_events tx) (tx_event_row_of ns e j) = Some evs"
    "insertTransactionEvents D (Suc i) (tx\<lparr>db_transaction_events := evs\<rparr>) ns rows = Inr tx'"
    by (auto simp: insertTransactionEvent_Inr)
  with Cons.IH row show ?case by fastforce
qed

lemma ApplyTx_sealed: "ApplyTx H cur e = Inr p \<Longrightarrow> VerifyTransactionEventDigest H e = Some True"
  by (cases cur) (auto dest: ApplyTx_None_Inr elim: ApplyTx_Some_Inr)

lemma replayFromTx_sealed: "replayFromTx H cur es = Inr p \<Longrightarrow> \<forall>e\<in>set es. VerifyTransactionEventDigest H e = Some True"
  by (induction es arbitrary: cur) (auto dest: ApplyTx_sealed)

lemma tx_row_for:
  assumes "tx_roundtrip C es p" and "e \<in> set es" and "tc_EncEvent C e = Some j" and "VerifyTransactionEventDigest H e = Some True"
  shows "tx_store.row_for C H ns e (tx_event_row_of ns e j)"
  using assms by (simp add: tx_store.row_for_def tx_event_row_of_def ekey_def tx_roundtrip_def)

lemma tx_head_for:
  assumes "tx_roundtrip C es p" and "tc_EncProjection C p = Some j" and "ProjectionTx_Validate H p = None"
  shows "tx_store.head_for H C p (tx_row_of p j)"
  using assms by (simp add: tx_store.head_for_def tx_row_of_def hkey_def tx_roundtrip_def stored_tx_ok_def)

lemma CreateTransaction_Inr:
  assumes "CreateTransaction H C D db e = (db', Inr p)"
  obtains j k heads evs where "ApplyTx H None e = Inr p" and "ProjectionTx_Validate H p = None"
    and "tx_Admission (tj_Transaction p) = None" and "tc_EncProjection C p = Some j"
    and "tc_EncEvent C e = Some k" and "insert_head (db_transactions db) (tx_row_of p j) = Some heads"
    and "insert_event_row heads (db_transaction_events db)
       (tx_event_row_of (tx_Namespace (tj_Transaction p)) e k) = Some evs"
    and "db' = db\<lparr>db_transactions := heads, db_transaction_events := evs\<rparr>"
  using assms
  by (auto simp: CreateTransaction_def Let_def insertTransactionEvent_Inr)

lemma CreateTransaction_step:
  assumes ok: "tx_store_ok H C db" and c: "CreateTransaction H C D db e = (db', Inr p)" and rt: "tx_roundtrip C [e] p"
  shows "tx_store_ok H C db'" "ReplayTx H [e] = Inr p"
    "tx_histories C db (tx_Namespace (tj_Transaction p), te_TransactionID e) = None"
    "tx_histories C db' = (tx_histories C db)((tx_Namespace (tj_Transaction p), te_TransactionID e) \<mapsto> [e])"
proof -
  from c obtain j k heads evs where a: "ApplyTx H None e = Inr p" and v: "ProjectionTx_Validate H p = None"
    and enc: "tc_EncProjection C p = Some j" "tc_EncEvent C e = Some k"
    and ins: "insert_head (db_transactions db) (tx_row_of p j) = Some heads"
      "insert_event_row heads (db_transaction_events db)
       (tx_event_row_of (tx_Namespace (tj_Transaction p)) e k) = Some evs"
    and db': "db' = db\<lparr>db_transactions := heads, db_transaction_events := evs\<rparr>"
    by (rule CreateTransaction_Inr)
  have r: "tx_store.row_for C H (tx_Namespace (tj_Transaction p)) e
      (tx_event_row_of (tx_Namespace (tj_Transaction p)) e k)"
    by (rule tx_row_for [OF rt _ enc(2) ApplyTx_sealed [OF a]]) simp
  note step = tx_store.create_consistent [OF ok [unfolded tx_store_ok_def] a tx_head_for [OF rt enc(1) v] r ins]
  have key: "hkey (tx_row_of p j) = (tx_Namespace (tj_Transaction p), te_TransactionID e)"
    using ApplyTx_None_Inr [OF a] by (simp add: hkey_def tx_row_of_def)
  show "tx_store_ok H C db'" using step(1) db' by (simp add: tx_store_ok_def)
  show "ReplayTx H [e] = Inr p" using a by (simp add: ReplayTx_def)
  show "tx_histories C db (tx_Namespace (tj_Transaction p), te_TransactionID e) = None"
    using ins(1) key by (auto simp: tx_histories_def insert_head_Some)
  show "tx_histories C db' = (tx_histories C db)((tx_Namespace (tj_Transaction p), te_TransactionID e) \<mapsto> [e])"
    using step(2) db' key by (simp add: tx_histories_eq)
qed

section \<open>Reading a transaction\<close>

lemma loadTx_Inr:
  assumes "tx_store_ok H C db" and "loadTransactionProjection H C D db ns i = Inr p"
  obtains h where "select_head (db_transactions db) ns i = Some h" and "tx_store.head_for H C p h"
proof -
  from assms(2) obtain h where h: "select_head (db_transactions db) ns i = Some h"
    "tc_DecProjection C (hr_json h) = Some p"
    by (auto simp: loadTransactionProjection_def Let_def)
  with assms(1) that tx_store.lookup_head show ?thesis unfolding tx_store_ok_def by blast
qed

lemma loadTx_complete:
  assumes h: "select_head (db_transactions db) ns i = Some h" and p: "tx_store.head_for H C p h"
    and D: "D QueryStep = None"
  shows "loadTransactionProjection H C D db ns i = Inr p"
proof -
  have k: "hkey h = (ns, i)" using select_head_Some [OF h] by simp
  with h p D show ?thesis
    by (simp add: loadTransactionProjection_def Let_def tx_store.head_for_def stored_tx_ok_def hkey_def)
qed

lemma tx_history_head:
  assumes "tx_store_ok H C db" and "tx_histories C db (ns, i) = Some es"
  obtains h p where "select_head (db_transactions db) ns i = Some h" and "hkey h = (ns, i)"
    and "tx_store.stored H C (db_transaction_events db) h es p" and "ReplayTx H es = Inr p"
proof -
  from assms obtain h p where h: "select_head (db_transactions db) ns i = Some h" "hkey h = (ns, i)"
    and s: "tx_store.stored H C (db_transaction_events db) h es p"
    unfolding tx_store_ok_def tx_histories_eq by (rule tx_store.selected_history)
  moreover have "ReplayTx H es = Inr p"
    using s tx_ledger.replay_head by (auto simp: tx_store.stored_def ReplayTx_def)
  ultimately show ?thesis using that by blast
qed

lemma replayedTx_stream: "ReplayTx H es = Inr p \<Longrightarrow> replayFromTx H None es = Inr p"
  by (cases es) (simp_all add: ReplayTx_def)

lemma tx_history_identity:
  assumes "tx_store_ok H C db" and "tx_histories C db (ns, i) = Some es"
  shows "IsIdentifier ns \<and> IsIdentifier i \<and> \<not> blank i"
proof -
  from tx_history_head [OF assms] obtain h p where k: "hkey h = (ns, i)"
    and s: "tx_store.stored H C (db_transaction_events db) h es p" .
  then have "ProjectionTx_Validate H p = None" "ns = tx_Namespace (tj_Transaction p)" "i = tx_ID (tj_Transaction p)"
    by (auto simp: tx_store.stored_def tx_store.head_for_def stored_tx_ok_def)
  then have "AgentTransaction_Validate H (tj_Transaction p) = None"
    by (simp add: ProjectionTx_Validate_def Let_def)
  then have "IsIdentifier (tx_Namespace (tj_Transaction p))" "IsIdentifier (tx_ID (tj_Transaction p))"
    by (simp_all add: AgentTransaction_Validate_def Let_def validate_simps)
  then show ?thesis using identifier_not_blank \<open>ns = _\<close> \<open>i = _\<close> by simp
qed

lemma GetTransaction_complete:
  assumes ok: "tx_store_ok H C db" and h: "tx_histories C db (ns, i) = Some es"
  shows "\<exists>p. GetTransaction H C no_faults db ns i = Inr p \<and> ReplayTx H es = Inr p"
proof -
  from tx_history_head [OF assms] obtain h p where s: "select_head (db_transactions db) ns i = Some h"
    "tx_store.stored H C (db_transaction_events db) h es p" "ReplayTx H es = Inr p" .
  then have "loadTransactionProjection H C no_faults db ns i = Inr p"
    using loadTx_complete [of db ns i h H C p no_faults] by (simp add: tx_store.stored_def)
  with s tx_history_identity [OF assms] show ?thesis
    by (simp add: GetTransaction_def validateNamespace_def)
qed

lemma TransactionEvents_complete:
  assumes ok: "tx_store_ok H C db" and h: "tx_histories C db (ns, i) = Some es" and "0 \<le> after"
  shows "TransactionEvents H C no_faults db ns i after = Inr (drop (nat after) es)"
proof -
  from tx_history_head [OF ok h] obtain hd p where k: "hkey hd = (ns, i)"
    and s: "tx_store.stored H C (db_transaction_events db) hd es p" and r: "ReplayTx H es = Inr p" .
  have v: "\<forall>e\<in>set es. TransactionEvent_Validate e = None"
    using tx_store.replay_events_valid replayedTx_stream [OF r] by blast
  let ?f = "\<lambda>data. bind_res (or_error ErrorEventChain ''list_transaction_events'' i (tc_DecEvent C data)) (\<lambda>event.
                ok_then (fail_if (TransactionEvent_Validate event \<noteq> None)
                    (storeError ErrorEventChain ''list_transaction_events'' (te_ID event))) (Inr event))"
  have "list_all2 (\<lambda>j e. tc_DecEvent C j = Some e) (select_events (db_transaction_events db) ns i after)
      (drop (nat after) es)"
    using tx_store.select_events_stored [OF s k assms(3)] .
  then have "list_all2 (\<lambda>j e. ?f j = Inr e) (select_events (db_transaction_events db) ns i after) (drop (nat after) es)"
    by (rule list.rel_mono_strong) (use v in \<open>auto dest: in_set_dropD\<close>)
  then have "scan_rows no_faults ''list_transaction_events'' i ?f
        0 (select_events (db_transaction_events db) ns i after) = Inr (drop (nat after) es)"
    by (intro scan_rows_Inr) simp_all
  with GetTransaction_complete [OF ok h] tx_history_identity [OF ok h] assms(3) show ?thesis
    by (auto simp: TransactionEvents_def Let_def validateNamespace_def)
qed

lemma VerifyTransaction_complete:
  assumes ok: "tx_store_ok H C db" and h: "tx_histories C db (ns, i) = Some es"
  shows "VerifyTransaction H C no_faults db ns i = None"
proof -
  from tx_history_head [OF ok h] obtain hd p where s: "tx_store.stored H C (db_transaction_events db) hd es p"
    and r: "ReplayTx H es = Inr p" .
  then have "tc_EncProjection C p = Some (hr_json hd)"
    by (simp add: tx_store.stored_def tx_store.head_for_def)
  moreover have "GetTransaction H C no_faults db ns i = Inr p" using GetTransaction_complete [OF ok h] r by auto
  moreover have "TransactionEvents H C no_faults db ns i 0 = Inr es"
    using TransactionEvents_complete [OF ok h, of 0] by simp
  ultimately show ?thesis using r by (simp add: VerifyTransaction_def)
qed

lemma VerifyTransaction_sound:
  assumes "VerifyTransaction H C D db ns i = None"
  obtains es p q where "TransactionEvents H C (sub_driver D 0) db ns i 0 = Inr es" and "ReplayTx H es = Inr p"
    and "GetTransaction H C (sub_driver D 1) db ns i = Inr q" and "tc_EncProjection C p = tc_EncProjection C q"
  using assms by (auto simp: VerifyTransaction_def Let_def split: sum.splits)

section \<open>Appending a batch\<close>

lemma apply_batch_Inr:
  "apply_batch H C op i p es = Inr (q, rows) \<Longrightarrow>
     replayFromTx H (Some p) es = Inr q \<and> map fst rows = es \<and>
     (\<forall>e j. (e, j) \<in> set rows \<longrightarrow> tc_EncEvent C e = Some j)"
  by (induction es arbitrary: p rows) (fastforce split: prod.splits)+

lemma batch_rows:
  assumes "map fst rows = es" and "\<forall>e j. (e, j) \<in> set rows \<longrightarrow> tc_EncEvent C e = Some j"
    and "tx_roundtrip C es q" and sl: "\<forall>e\<in>set es. VerifyTransactionEventDigest H e = Some True"
  shows "list_all2 (tx_store.row_for C H ns) es (map (\<lambda>(e, j). tx_event_row_of ns e j) rows)"
  unfolding assms(1) [symmetric] list.rel_map
proof (rule list.rel_refl_strong)
  fix x
  assume x: "x \<in> set rows"
  obtain e j where ej: "x = (e, j)" by (cases x)
  then have "e \<in> set es" using x unfolding assms(1) [symmetric] by force
  with tx_row_for [OF assms(3)] assms(2) x ej sl
  show "tx_store.row_for C H ns (fst x) (case x of (e, j) \<Rightarrow> tx_event_row_of ns e j)" by simp
qed

lemma appendTx_Inr:
  assumes "appendTransactionEvents H C D db ns n es op = (db', Inr q)"
  obtains p rows j heads evs where "es \<noteq> []"
    and "loadTransactionProjection H C (sub_driver D 0) db ns (te_TransactionID (hd es)) = Inr p"
    and "tx_EventSequence (tj_Transaction p) = n"
    and "apply_batch H C op (tx_ID (tj_Transaction p)) p es = Inr (q, rows)"
    and "ProjectionTx_Validate H q = None" and "tc_EncProjection C q = Some j"
    and "update_heads (\<lambda>h. hkey h = (ns, tx_ID (tj_Transaction p)) \<and> hr_event_sequence h = n \<and>
        hr_last_event_digest h = tj_LastEventDigest p)
        (tx_EventSequence (tj_Transaction q)) (tj_LastEventDigest q) j
        (rfc3339nano (tx_UpdatedAt (tj_Transaction q))) (db_transactions db) = Some (heads, 1)"
    and "insert_rows heads (db_transaction_events db) (map (\<lambda>(e, j). tx_event_row_of ns e j) rows) = Some evs"
    and "db' = db\<lparr>db_transactions := heads, db_transaction_events := evs\<rparr>"
  using assms
  by (auto simp: appendTransactionEvents_def Let_def dest!: insertTransactionEvents_Inr)

lemma appendTx_step:
  assumes ok: "tx_store_ok H C db" and a: "appendTransactionEvents H C D db ns n fs op = (db', Inr q)"
    and rt: "tx_roundtrip C fs q"
  shows "tx_store_ok H C db'"
    "\<exists>es. tx_histories C db (ns, te_TransactionID (hd fs)) = Some es \<and> int (length es) = n \<and>
       ReplayTx H (es @ fs) = Inr q \<and>
       tx_histories C db' = (tx_histories C db)((ns, te_TransactionID (hd fs)) \<mapsto> es @ fs)"
proof -
  let ?i = "te_TransactionID (hd fs)"
  from a obtain p rows j heads evs where ne: "fs \<noteq> []"
    and load: "loadTransactionProjection H C (sub_driver D 0) db ns ?i = Inr p"
    and n: "tx_EventSequence (tj_Transaction p) = n"
    and b: "apply_batch H C op (tx_ID (tj_Transaction p)) p fs = Inr (q, rows)"
    and v: "ProjectionTx_Validate H q = None" and enc: "tc_EncProjection C q = Some j"
    and upd: "update_heads (\<lambda>h. hkey h = (ns, tx_ID (tj_Transaction p)) \<and> hr_event_sequence h = n \<and>
        hr_last_event_digest h = tj_LastEventDigest p)
        (tx_EventSequence (tj_Transaction q)) (tj_LastEventDigest q) j
        (rfc3339nano (tx_UpdatedAt (tj_Transaction q))) (db_transactions db) = Some (heads, 1)"
    and ins: "insert_rows heads (db_transaction_events db) (map (\<lambda>(e, j). tx_event_row_of ns e j) rows) = Some evs"
    and db': "db' = db\<lparr>db_transactions := heads, db_transaction_events := evs\<rparr>"
    by (rule appendTx_Inr)
  from loadTx_Inr [OF ok load] obtain h where h: "select_head (db_transactions db) ns ?i = Some h"
    and hp: "tx_store.head_for H C p h" .
  have c: "tx_store.consistent H C (db_transactions db) (db_transaction_events db)"
    using ok by (simp add: tx_store_ok_def)
  have k: "hkey h = (ns, ?i)" using select_head_Some [OF h] by simp
  then have ns: "tx_Namespace (tj_Transaction p) = ns" "tx_ID (tj_Transaction p) = ?i"
    using hp by (auto simp: tx_store.head_for_def)
  from apply_batch_Inr [OF b] have q: "replayFromTx H (Some p) fs = Inr q" by blast
  from apply_batch_Inr [OF b] have rows: "list_all2 (tx_store.row_for C H (tx_Namespace (tj_Transaction p))) fs
       (map (\<lambda>(e, j). tx_event_row_of ns e j) rows)"
    using batch_rows [OF _ _ rt replayFromTx_sealed [OF q]] ns(1) by blast
  have dec: "tc_DecProjection C j = Some q" "stored_tx_ok H q"
    using rt enc v by (simp_all add: tx_roundtrip_def stored_tx_ok_def)
  have M: "hr_last_event_digest h = tj_LastEventDigest p" using hp by (simp add: tx_store.head_for_def)
  note step = tx_store.update_consistent [OF c h hp q enc dec upd [unfolded ns(2) n [symmetric]] M rows ins]
  show "tx_store_ok H C db'" using step(1) db' by (simp add: tx_store_ok_def)
  from step(2) obtain es where es:
      "tx_store.histories C (db_transactions db) (db_transaction_events db) (ns, ?i) = Some es"
      "replayFromTx H None es = Inr p" "replayFromTx H None (es @ fs) = Inr q"
      "tx_store.histories C heads evs =
         (tx_store.histories C (db_transactions db) (db_transaction_events db))((ns, ?i) \<mapsto> es @ fs)" by blast
  have "int (length es) = n" using tx_ledger.replay_sequence [OF es(2)] n by simp
  with es ne db' show "\<exists>es. tx_histories C db (ns, ?i) = Some es \<and> int (length es) = n \<and>
       ReplayTx H (es @ fs) = Inr q \<and> tx_histories C db' = (tx_histories C db)((ns, ?i) \<mapsto> es @ fs)"
    by (auto simp: tx_histories_eq ReplayTx_def)
qed

lemma appendTx_stale:
  assumes ok: "tx_store_ok H C db" and h: "tx_histories C db (ns, te_TransactionID e) = Some es"
    and d: "\<forall>f\<in>set (e # fs). VerifyTransactionEventDigest H f = Some True" and n: "int (length es) \<noteq> n"
    and D: "D BeginStep = None" "D (Sub 0 QueryStep) = None"
  shows "appendTransactionEvents H C D db ns n (e # fs) op = (db, Inl (conflict op (te_TransactionID e)))"
proof -
  from tx_history_head [OF ok h] obtain hd p where s: "select_head (db_transactions db) ns (te_TransactionID e) = Some hd"
    "tx_store.stored H C (db_transaction_events db) hd es p" "ReplayTx H es = Inr p" .
  have load: "loadTransactionProjection H C (sub_driver D 0) db ns (te_TransactionID e) = Inr p"
    using loadTx_complete [OF s(1), of H C p "sub_driver D 0"] s(2) D(2) by (simp add: tx_store.stored_def sub_driver_def)
  have seq: "tx_EventSequence (tj_Transaction p) \<noteq> n"
    using tx_ledger.replay_sequence [OF replayedTx_stream [OF s(3)]] n by simp
  have "check_each (\<lambda>_. verifyTransactionEventDigest H) 0 (e # fs) = None"
    using d check_each_None [of "\<lambda>_. verifyTransactionEventDigest H" "\<lambda>f. verifyTransactionEventDigest H f = None" 0 "e # fs"]
    by (simp add: verifyTransactionEventDigest_def)
  with load seq D(1) tx_history_identity [OF ok h] show ?thesis
    by (simp add: appendTransactionEvents_def Let_def validateNamespace_def del: check_each.simps)
qed

end
