(* ===== verification/Execution_Store.thy ===== *)
theory Execution_Store
  imports Transaction_Store
begin

text \<open>
  Paired execution events (\<^verbatim>\<open>internal/kernel/store/execution_store.go\<close>): an execution of an admitted
  task starts and settles in the transaction's ledger and in the run's ledger in one database
  transaction. The run's events and the budget charge are derived here from the transaction's event.

  The store's fault hook is an argument: \<open>hook point\<close> says whether it reports an error at a point (a store
  without a hook is \<open>\<lambda>_. False\<close>).
\<close>

record ExecutionHeads =
  xh_TransactionSequence :: int64
  xh_TransactionDigest :: string
  xh_RunSequence :: int64
  xh_RunDigest :: string

record ExecutionProjection =
  xj_Run :: Projection
  xj_Transaction :: ProjectionTx

definition pairedExecutionOperation :: string where
  "pairedExecutionOperation = ''append_paired_execution_event''"

section \<open>Budget charges\<close>

definition boundedBudgetCharge :: "int64 \<Rightarrow> int64 \<Rightarrow> int64 option \<Rightarrow> int64" where
  "boundedBudgetCharge actual cur limit =
     (if actual \<le> 0 then 0
      else if cur < 0 then 0
      else let remaining = wrap64 (max64 - cur);
               remaining = (case limit of
                  None \<Rightarrow> remaining
                | Some l \<Rightarrow> let limitedRemaining = wrap64 (l - cur) in
                    if limitedRemaining < remaining then limitedRemaining else remaining)
           in if remaining \<le> 0 then 0
              else if actual > remaining then remaining
              else actual)"

definition executionBudgetUsage :: "AgentExecution \<Rightarrow> AgentRun \<Rightarrow> BudgetUsage" where
  "executionBudgetUsage execution run = (let
     wall = (case ax_CompletedAt execution of
        None \<Rightarrow> 0
      | Some completed \<Rightarrow> let duration = time_Sub completed (ax_StartedAt execution) in
          if go_rem duration Second \<noteq> 0 then wrap64 (go_quot duration Second + 1) else go_quot duration Second);
     (calls, input, out) = (case ax_ModelBroker execution of
        None \<Rightarrow> (0, 0, 0)
      | Some broker \<Rightarrow> (mb_Calls broker, mb_InputTokens broker, mb_OutputTokens broker));
     used = ar_BudgetUsage run; limits = ar_BudgetLimits run
   in \<lparr>InputTokens = boundedBudgetCharge input (InputTokens used) (MaxInputTokens limits),
       OutputTokens = boundedBudgetCharge out (OutputTokens used) (MaxOutputTokens limits),
       ModelCalls = boundedBudgetCharge calls (ModelCalls used) (MaxModelCalls limits),
       ToolCalls = boundedBudgetCharge 0 (ToolCalls used) (MaxToolCalls limits),
       CostMicros = boundedBudgetCharge 0 (CostMicros used) (MaxCostMicros limits),
       WallTimeSeconds = boundedBudgetCharge wall (WallTimeSeconds used) (MaxWallTimeSeconds limits)\<rparr>)"

section \<open>Deriving the run's events\<close>

text \<open>An error of \<^verbatim>\<open>eventlog.Next\<close> is not a kernel error; it is kept as an internal one.\<close>

definition appendRunEvent :: "'j RunCodec \<Rightarrow> Principal \<Rightarrow> RunEvent list \<times> Projection \<Rightarrow> RunEventType \<Rightarrow> time \<Rightarrow>
    RunPayload \<Rightarrow> KernelError + RunEvent list \<times> Projection" where
  "appendRunEvent C actor acc eventType occurredAt payload = (case acc of (events, cur) \<Rightarrow>
     bind_res (or_error ErrorInternal '''' ''''
         (Next (rc_Encodable C) (rc_Digest C) (rc_Hash16 C) cur eventType actor occurredAt payload)) (\<lambda>event.
     bind_res (Apply (Some cur) event) (\<lambda>nxt. Inr (events @ [event], nxt))))"

definition startPayload :: "AgentExecution \<Rightarrow> RunPayload" where
  "startPayload execution = RunExecutionStarted \<lparr>xs_TransactionID = ax_TransactionID execution,
     xs_ExecutionID = ax_ID execution, xs_Attempt = ax_Attempt execution\<rparr>"

definition finishPayload :: "AgentExecution \<Rightarrow> AgentRun \<Rightarrow> RunPayload" where
  "finishPayload execution run = RunExecutionFinished \<lparr>xf_TransactionID = ax_TransactionID execution,
     xf_ExecutionID = ax_ID execution, xf_Attempt = ax_Attempt execution, xf_Status = ax_Status execution,
     xf_Usage = executionBudgetUsage execution run\<rparr>"

definition pairedRunEvents :: "'j RunCodec \<Rightarrow> Projection \<Rightarrow> TransactionEvent \<Rightarrow> AgentExecution \<Rightarrow>
    KernelError + RunEvent list \<times> Projection" where
  "pairedRunEvents C projection transactionEvent execution =
     (case te_Type transactionEvent of
        EventAgentExecutionStarted \<Rightarrow>
          appendRunEvent C (te_Actor transactionEvent) ([], projection) EventRunExecutionStarted
            (te_OccurredAt transactionEvent) (startPayload execution)
      | EventAgentExecutionFinished \<Rightarrow>
          bind_res (if ar_ActiveExecutionID (pj_Run projection) = '''' \<and> ar_State (pj_Run projection) = RunAdmitted
              then appendRunEvent C (te_Actor transactionEvent) ([], projection) EventRunExecutionStarted
                (ax_StartedAt execution) (startPayload execution)
              else Inr ([], projection)) (\<lambda>(events, cur).
          appendRunEvent C (te_Actor transactionEvent) (events, cur) EventRunExecutionFinished
            (te_OccurredAt transactionEvent) (finishPayload execution (pj_Run cur)))
      | _ \<Rightarrow> Inl (storeError ErrorInternal '''' ''''))"

definition pairedExecutionReceipt :: "TransactionEvent \<Rightarrow> ProjectionTx \<Rightarrow> string \<Rightarrow> KernelError + AgentExecution" where
  "pairedExecutionReceipt event projection runID = (let op = pairedExecutionOperation in
     bind_res (case te_Type event of
        EventAgentExecutionStarted \<Rightarrow>
          (if tj_Executions projection = [] then Inl (storeError ErrorEventChain op (te_ID event))
           else Inr (Some (last (tj_Executions projection))))
      | EventAgentExecutionFinished \<Rightarrow>
          bind_res (decodePayload as_execution_finished event) (\<lambda>payload.
            Inr (find (\<lambda>execution. ax_ID execution = af_ExecutionID payload) (tj_Executions projection)))
      | _ \<Rightarrow> Inr None) (\<lambda>found. case found of
        None \<Rightarrow> Inl (storeError ErrorIdentityInvalid op (te_ID event))
      | Some execution \<Rightarrow>
          ok_then (fail_if (ax_ID execution = '''' \<or> ax_RunID execution \<noteq> runID \<or> ax_Attempt execution < 1)
              (storeError ErrorIdentityInvalid op (te_ID event)))
            (Inr execution)))"

definition loadAdmittedExecutionRun :: "'j RunCodec \<Rightarrow> driver \<Rightarrow> 'j DB \<Rightarrow> string \<Rightarrow> ProjectionTx \<Rightarrow>
    KernelError + Projection" where
  "loadAdmittedExecutionRun C D tx namespace transaction = (let op = pairedExecutionOperation;
       id = tx_ID (tj_Transaction transaction) in
     case (tx_Admission (tj_Transaction transaction), tx_Task (tj_Transaction transaction)) of
       (Some binding, Some task) \<Rightarrow>
         ok_then (read_step D QueryStep op id)
         (bind_res (or_error ErrorNotFound op id
            (find (\<lambda>row. mr_namespace row = namespace \<and> mr_transaction_id row = id) (db_admissions tx))) (\<lambda>row.
          ok_then (fail_if (mr_run_id row \<noteq> ab_RunID binding \<or> mr_run_id row \<noteq> tk_RunID task \<or>
              mr_task_digest row \<noteq> ab_TaskDigest binding \<or> mr_task_digest row \<noteq> tk_Digest task \<or>
              mr_contract_digest row \<noteq> ab_ContractDigest binding) (storeError ErrorEventChain op id))
          (loadProjection C (sub_driver D 0) tx namespace (mr_run_id row))))
     | _ \<Rightarrow> Inl (storeError ErrorCapabilityDenied op id))"

section \<open>The paired append\<close>

definition updatePairedRun :: "driver \<Rightarrow> 'j DB \<Rightarrow> string \<Rightarrow> Projection \<Rightarrow> Projection \<Rightarrow> 'j \<Rightarrow> KernelError + 'j DB" where
  "updatePairedRun D tx namespace cur nxt projectionJSON = (let op = pairedExecutionOperation;
       id = ar_ID (pj_Run cur) in
     bind_res (exec_write D UpdateStep op id
        (update_heads (\<lambda>h. hkey h = (namespace, id) \<and> hr_event_sequence h = ar_EventSequence (pj_Run cur) \<and>
             hr_last_event_digest h = pj_LastEventDigest cur)
           (ar_EventSequence (pj_Run nxt)) (pj_LastEventDigest nxt) projectionJSON
           (rfc3339nano (ar_UpdatedAt (pj_Run nxt))) (db_runs tx))) (\<lambda>(runs, rows).
      ok_then (first_error [read_step D AffectedStep op id, fail_if (rows \<noteq> 1) (conflict op id)])
        (Inr (tx\<lparr>db_runs := runs\<rparr>))))"

definition updatePairedTransaction :: "driver \<Rightarrow> 'j DB \<Rightarrow> string \<Rightarrow> ProjectionTx \<Rightarrow> ProjectionTx \<Rightarrow> 'j \<Rightarrow>
    KernelError + 'j DB" where
  "updatePairedTransaction D tx namespace cur nxt projectionJSON = (let op = pairedExecutionOperation;
       id = tx_ID (tj_Transaction cur) in
     bind_res (exec_write D UpdateStep op id
        (update_heads (\<lambda>h. hkey h = (namespace, id) \<and>
             hr_event_sequence h = tx_EventSequence (tj_Transaction cur) \<and>
             hr_last_event_digest h = tj_LastEventDigest cur)
           (tx_EventSequence (tj_Transaction nxt)) (tj_LastEventDigest nxt) projectionJSON
           (rfc3339nano (tx_UpdatedAt (tj_Transaction nxt))) (db_transactions tx))) (\<lambda>(heads, rows).
      ok_then (first_error [read_step D AffectedStep op id, fail_if (rows \<noteq> 1) (conflict op id)])
        (Inr (tx\<lparr>db_transactions := heads\<rparr>))))"

definition runPairedExecutionFault :: "(string \<Rightarrow> bool) \<Rightarrow> string \<Rightarrow> string \<Rightarrow> KernelError option" where
  "runPairedExecutionFault hook point executionID =
     fail_if (hook point) (storeError ErrorInternal pairedExecutionOperation executionID)"

text \<open>The run's events go in one after the other, with the hook called after each.\<close>

fun insertPairedEvents :: "(string \<Rightarrow> bool) \<Rightarrow> driver \<Rightarrow> string \<Rightarrow> nat \<Rightarrow> 'j DB \<Rightarrow> string \<Rightarrow> (RunEvent \<times> 'j) list \<Rightarrow>
    KernelError + 'j DB" where
  "insertPairedEvents hook D executionID i tx namespace [] = Inr tx"
| "insertPairedEvents hook D executionID i tx namespace ((event, data) # rest) =
     bind_res (insertEvent (sub_driver D i) tx namespace event data) (\<lambda>tx.
     ok_then (runPairedExecutionFault hook ''after_run_event'' executionID)
       (insertPairedEvents hook D executionID (Suc i) tx namespace rest))"

fun encode_events :: "'j RunCodec \<Rightarrow> string \<Rightarrow> RunEvent list \<Rightarrow> KernelError + (RunEvent \<times> 'j) list" where
  "encode_events C op [] = Inr []"
| "encode_events C op (event # events) =
     bind_res (or_error ErrorInternal op (ev_ID event) (rc_EncEvent C event)) (\<lambda>data.
     bind_res (encode_events C op events) (\<lambda>rows. Inr ((event, data) # rows)))"

definition AppendPairedExecutionEvent :: "Hashing \<Rightarrow> 'j RunCodec \<Rightarrow> 'j TxCodec \<Rightarrow> (string \<Rightarrow> bool) \<Rightarrow> driver \<Rightarrow> 'j DB \<Rightarrow>
    string \<Rightarrow> ExecutionHeads \<Rightarrow> TransactionEvent \<Rightarrow> 'j DB \<times> (KernelError + ExecutionProjection)" where
  "AppendPairedExecutionEvent H CR CT hook D db namespace heads transactionEvent = (let
     op = pairedExecutionOperation; transactionID = te_TransactionID transactionEvent in
   settle db
    (ok_then (first_error [validateNamespace namespace,
        fail_if (xh_TransactionSequence heads < 1 \<or> xh_RunSequence heads < 1 \<or>
            \<not> IsSHA256Digest (xh_TransactionDigest heads) \<or> \<not> IsSHA256Digest (xh_RunDigest heads))
          (storeError ErrorSchemaInvalid op transactionID),
        fail_if (te_Type transactionEvent \<noteq> EventAgentExecutionStarted \<and>
            te_Type transactionEvent \<noteq> EventAgentExecutionFinished)
          (storeError ErrorSchemaInvalid op (te_ID transactionEvent)),
        verifyTransactionEventDigest H transactionEvent,
        read_step D BeginStep op transactionID])
    (bind_res (loadTransactionProjection H CT (sub_driver D 0) db namespace transactionID) (\<lambda>currentTransaction.
     ok_then (fail_if (tx_EventSequence (tj_Transaction currentTransaction) \<noteq> xh_TransactionSequence heads \<or>
         tj_LastEventDigest currentTransaction \<noteq> xh_TransactionDigest heads) (conflict op transactionID))
    (bind_res (loadAdmittedExecutionRun CR (sub_driver D 1) db namespace currentTransaction) (\<lambda>currentRun.
     let runID = ar_ID (pj_Run currentRun) in
     ok_then (fail_if (ar_EventSequence (pj_Run currentRun) \<noteq> xh_RunSequence heads \<or>
         pj_LastEventDigest currentRun \<noteq> xh_RunDigest heads) (conflict op runID))
    (bind_res (ApplyTx H (Some currentTransaction) transactionEvent) (\<lambda>nextTransaction.
     ok_then (ProjectionTx_Validate H nextTransaction)
    (bind_res (pairedExecutionReceipt transactionEvent nextTransaction runID) (\<lambda>execution.
     bind_res (pairedRunEvents CR currentRun transactionEvent execution) (\<lambda>(runEvents, nextRun).
     ok_then (check_each (\<lambda>_. verifyEventDigest CR) 0 runEvents)
    (bind_res (or_error ErrorInternal op runID (rc_EncRun CR (pj_Run nextRun))) (\<lambda>runJSON.
     bind_res (encode_events CR op runEvents) (\<lambda>runRows.
     bind_res (or_error ErrorInternal op (tx_ID (tj_Transaction currentTransaction))
         (tc_EncProjection CT nextTransaction)) (\<lambda>transactionJSON.
     bind_res (or_error ErrorInternal op (te_ID transactionEvent) (tc_EncEvent CT transactionEvent))
       (\<lambda>transactionEventJSON.
     bind_res (updatePairedRun (sub_driver D 2) db namespace currentRun nextRun runJSON) (\<lambda>tx.
     ok_then (runPairedExecutionFault hook ''after_run_update'' (ax_ID execution))
    (bind_res (insertPairedEvents hook (sub_driver D 3) (ax_ID execution) 0 tx namespace runRows) (\<lambda>tx.
     bind_res (updatePairedTransaction (sub_driver D 4) tx namespace currentTransaction nextTransaction
         transactionJSON) (\<lambda>tx.
     ok_then (runPairedExecutionFault hook ''after_transaction_update'' (ax_ID execution))
    (bind_res (insertTransactionEvent D 0 tx namespace transactionEvent transactionEventJSON) (\<lambda>tx.
     ok_then (first_error [runPairedExecutionFault hook ''after_transaction_event'' (ax_ID execution),
         runPairedExecutionFault hook ''before_commit'' (ax_ID execution)])
    (bind_res (exec_write D CommitStep op (ax_ID execution) (Some tx)) (\<lambda>tx.
     Inr (tx, \<lparr>xj_Run = nextRun, xj_Transaction = nextTransaction\<rparr>)))))))))))))))))))))))))"

section \<open>The charge fits what is left of the budget\<close>

text \<open>What a charge comes to: the actual amount, cut to what is left below the hard limit and below
  the largest 64-bit integer, and never negative.\<close>

lemma boundedBudgetCharge_eq:
  assumes "in64 cur" and "0 \<le> cur" and "\<And>l. limit = Some l \<Longrightarrow> 0 \<le> l \<and> l \<le> max64"
  shows "boundedBudgetCharge actual cur limit =
    max 0 (min actual (case limit of None \<Rightarrow> max64 - cur | Some l \<Rightarrow> l - cur))"
proof -
  have w: "wrap64 (max64 - cur) = max64 - cur"
    using assms(1,2) by (simp add: wrap64_id in64_def min64_def max64_def)
  show ?thesis
  proof (cases limit)
    case None
    with w assms(1,2) show ?thesis by (auto simp: boundedBudgetCharge_def Let_def in64_def)
  next
    case (Some l)
    with assms have "wrap64 (l - cur) = l - cur" by (simp add: wrap64_id in64_def min64_def max64_def)
    with w Some assms show ?thesis by (auto simp: boundedBudgetCharge_def Let_def in64_def)
  qed
qed

definition limits_in64 :: "BudgetLimits \<Rightarrow> bool" where
  "limits_in64 l \<longleftrightarrow> (\<forall>x\<in>{MaxInputTokens l, MaxOutputTokens l, MaxModelCalls l, MaxToolCalls l,
     MaxCostMicros l, MaxWallTimeSeconds l}. \<forall>v. x = Some v \<longrightarrow> v \<le> max64)"

lemma bounded_within:
  assumes "in64 cur" and "within_limit cur limit" and "limit_nonneg limit" and "\<forall>v. limit = Some v \<longrightarrow> v \<le> max64"
  shows "0 \<le> boundedBudgetCharge actual cur limit \<and> cur + boundedBudgetCharge actual cur limit \<le> max64 \<and>
    within_limit (cur + boundedBudgetCharge actual cur limit) limit"
proof -
  have "0 \<le> cur" using assms(2) by (simp add: within_limit_def)
  moreover have "limit = Some l \<Longrightarrow> 0 \<le> l \<and> l \<le> max64" for l
    using assms(3,4) by (simp add: limit_nonneg_def)
  ultimately have "boundedBudgetCharge actual cur limit =
    max 0 (min actual (case limit of None \<Rightarrow> max64 - cur | Some l \<Rightarrow> l - cur))"
    using boundedBudgetCharge_eq assms(1) by blast
  with \<open>0 \<le> cur\<close> assms show ?thesis
    by (cases limit) (auto simp: within_limit_def in64_def)
qed

text \<open>Settling an execution never exceeds the budget: the derived charge is always accepted.\<close>

lemma executionBudgetUsage_fits:
  assumes "usage_in64 (ar_BudgetUsage run)" and "within_limits (ar_BudgetUsage run) (ar_BudgetLimits run)"
    and "limits_nonneg (ar_BudgetLimits run)" and "limits_in64 (ar_BudgetLimits run)"
  shows "\<exists>v. addBudgetUsage (ar_BudgetUsage run) (executionBudgetUsage execution run) = Inr v \<and>
    within_limits v (ar_BudgetLimits run) \<and> usage_in64 v"
proof -
  let ?u = "ar_BudgetUsage run" and ?l = "ar_BudgetLimits run" and ?d = "executionBudgetUsage execution run"
  have nn: "usage_nonneg ?u" using assms(2) by (simp add: within_limits_def within_limit_def usage_nonneg_def)
  define v where "v = \<lparr>InputTokens = InputTokens ?u + InputTokens ?d, OutputTokens = OutputTokens ?u + OutputTokens ?d,
     ModelCalls = ModelCalls ?u + ModelCalls ?d, ToolCalls = ToolCalls ?u + ToolCalls ?d,
     CostMicros = CostMicros ?u + CostMicros ?d, WallTimeSeconds = WallTimeSeconds ?u + WallTimeSeconds ?d\<rparr>"
  have b: "0 \<le> InputTokens ?d \<and> InputTokens v \<le> max64 \<and> within_limit (InputTokens v) (MaxInputTokens ?l)"
    "0 \<le> OutputTokens ?d \<and> OutputTokens v \<le> max64 \<and> within_limit (OutputTokens v) (MaxOutputTokens ?l)"
    "0 \<le> ModelCalls ?d \<and> ModelCalls v \<le> max64 \<and> within_limit (ModelCalls v) (MaxModelCalls ?l)"
    "0 \<le> ToolCalls ?d \<and> ToolCalls v \<le> max64 \<and> within_limit (ToolCalls v) (MaxToolCalls ?l)"
    "0 \<le> CostMicros ?d \<and> CostMicros v \<le> max64 \<and> within_limit (CostMicros v) (MaxCostMicros ?l)"
    "0 \<le> WallTimeSeconds ?d \<and> WallTimeSeconds v \<le> max64 \<and> within_limit (WallTimeSeconds v) (MaxWallTimeSeconds ?l)"
    unfolding v_def executionBudgetUsage_def Let_def BudgetUsage.simps split_def
    using assms by (simp_all add: bounded_within usage_in64_def within_limits_def limits_nonneg_def limits_in64_def)
  have "charged ?u ?d v" unfolding charged_def
    using b by (simp add: v_def)
  moreover have "usage_in64 v"
    using b nn assms(1) by (auto simp: usage_in64_def in64_def v_def usage_nonneg_def min64_def)
  ultimately show ?thesis using addBudgetUsage_Inr [OF nn assms(1)] b by (auto simp: within_limits_def)
qed

lemma settled_run_valid:
  assumes "valid_run r" and "ar_State r = RunRunning" and "within_limits v (ar_BudgetLimits r)"
    and "st \<in> {RunWaitingForEvent, RunWaitingForAgent}" and "1 \<le> n" and "ar_UpdatedAt r \<le> t" and "0 < ar_UpdatedAt r"
  shows "valid_run (r\<lparr>ar_BudgetUsage := v, ar_ActiveExecutionID := '''', ar_StateReason := '''', ar_State := st,
    ar_EventSequence := n, ar_UpdatedAt := t\<rparr>)"
proof -
  have "\<not> stateRequiresReason st" "validRunState st" "\<not> RunState_Terminal st"
    using assms(4) by (auto simp: stateRequiresReason_def)
  moreover have "ar_CompletedAt r = None"
    using assms(1,2) by (simp add: AgentRun_Validate_unfold validate_simps)
  ultimately show ?thesis
    using assms by (auto simp: AgentRun_Validate_unfold validate_simps split: if_splits)
qed

lemma execution_event_types:
  "IsIdentifier (RunEventType_name EventRunExecutionStarted)"
  "IsIdentifier (RunEventType_name EventRunExecutionFinished)"
  by code_simp+

text \<open>A running execution of a run can always be settled: the event that the store derives for it is
  accepted whatever the execution used.\<close>

lemma settlement_accepted:
  assumes inv: "run_inv p" and lim: "limits_in64 (ar_BudgetLimits (pj_Run p))"
    and run: "ar_State (pj_Run p) = RunRunning" "ar_ActiveExecutionID (pj_Run p) = ax_ID x"
    and x: "IsIdentifier (ax_ID x)" "IsIdentifier (ax_TransactionID x)" "1 \<le> ax_Attempt x"
      "AgentExecutionStatus_Terminal (ax_Status x)"
    and seq: "1 \<le> ar_EventSequence (pj_Run p)" "ar_EventSequence (pj_Run p) < max64" "0 < ar_UpdatedAt (pj_Run p)"
    and env: "digest_format (rc_Digest C)" "hash16_format (rc_Hash16 C)" "valid_principal actor"
    and e: "Next (rc_Encodable C) (rc_Digest C) (rc_Hash16 C) p EventRunExecutionFinished actor t
       (finishPayload x (pj_Run p)) = Some e"
  shows "\<exists>q. Apply (Some p) e = Inr q \<and> ar_ActiveExecutionID (pj_Run q) = '''' \<and>
     ar_State (pj_Run q) = (if ax_Status x = AgentExecutionSucceeded then RunWaitingForEvent else RunWaitingForAgent) \<and>
     charged (ar_BudgetUsage (pj_Run p)) (executionBudgetUsage x (pj_Run p)) (ar_BudgetUsage (pj_Run q))"
proof -
  let ?r = "pj_Run p"
  note f = Next_Some [OF e]
  have v: "valid_run ?r" "usage_in64 (ar_BudgetUsage ?r)" using inv by (simp_all add: run_inv_def)
  then have w: "within_limits (ar_BudgetUsage ?r) (ar_BudgetLimits ?r)" "limits_nonneg (ar_BudgetLimits ?r)"
    using valid_run_budget by blast+
  from executionBudgetUsage_fits [OF v(2) w lim, of x] obtain u where
    u: "addBudgetUsage (ar_BudgetUsage ?r) (executionBudgetUsage x ?r) = Inr u"
      "within_limits u (ar_BudgetLimits ?r)" by blast
  have nn: "usage_nonneg (ar_BudgetUsage ?r)"
    using w(1) by (simp add: within_limits_def within_limit_def usage_nonneg_def)
  have ev: "RunEvent_Validate e = None" "checkEnvelope p e = None"
    using Next_validates [OF inv seq(1,2) env(1,2,3) execution_event_types(2) _ seq(3) e] Next_envelope [OF e]
    by (simp_all add: finishPayload_def)
  let ?st = "if ax_Status x = AgentExecutionSucceeded then RunWaitingForEvent else RunWaitingForAgent"
  let ?r' = "?r\<lparr>ar_BudgetUsage := u, ar_ActiveExecutionID := '''', ar_StateReason := '''', ar_State := ?st\<rparr>"
  have ap: "applyPayload ?r e = Inr ?r'"
    using f(6,9) run x u by (simp add: applyPayload_def DecodePayloadStrict_def finishPayload_def applyExecutionFinished_def)
  have "ev_Sequence e = ar_EventSequence ?r + 1"
    using f(5) seq by (simp add: wrap64_id in64_def min64_def max64_def)
  then have "valid_run (?r'\<lparr>ar_EventSequence := ev_Sequence e, ar_UpdatedAt := ev_OccurredAt e\<rparr>)"
    using settled_run_valid [OF v(1) run(1) u(2), of ?st "ev_Sequence e" "ev_OccurredAt e"] f(8) seq by simp
  then have "Apply (Some p) e = Inr \<lparr>pj_Run = ?r'\<lparr>ar_EventSequence := ev_Sequence e, ar_UpdatedAt := ev_OccurredAt e\<rparr>,
      pj_LastEventDigest = ev_Digest e\<rparr>"
    using ev ap by (simp add: Apply.simps valid_run_def Let_def)
  moreover have "charged (ar_BudgetUsage ?r) (executionBudgetUsage x ?r) u"
    using addBudgetUsage_Inr [OF nn v(2)] u(1) by blast
  ultimately show ?thesis by simp
qed

section \<open>Both ledgers advance together\<close>

lemma appendRunEvent_Inr:
  "appendRunEvent C actor (es, p) ty t payload = Inr (es', q) \<longleftrightarrow>
     (\<exists>e. Next (rc_Encodable C) (rc_Digest C) (rc_Hash16 C) p ty actor t payload = Some e \<and>
        Apply (Some p) e = Inr q \<and> es' = es @ [e])"
  by (auto simp: appendRunEvent_def)

lemma pairedRunEvents_Inr:
  assumes "pairedRunEvents C p e x = Inr (es, q)"
  shows "replayFrom (Some p) es = Inr q" "\<forall>f\<in>set es. VerifyEventDigest (rc_Digest C) f = Some True"
  using assms
  by (auto simp: pairedRunEvents_def appendRunEvent_Inr Next_verified split: TransactionEventType.splits if_splits)

lemma insertPairedEvents_Inr:
  "insertPairedEvents hook D x i tx ns rows = Inr tx' \<Longrightarrow>
     \<exists>evs. insert_rows (db_runs tx) (db_events tx) (map (\<lambda>(e, j). event_row_of ns e j) rows) = Some evs \<and>
        tx' = tx\<lparr>db_events := evs\<rparr>"
proof (induction rows arbitrary: i tx)
  case Nil
  then show ?case by simp
next
  case (Cons row rows)
  obtain e j where row: "row = (e, j)" by (cases row)
  with Cons.prems obtain evs where
    "insert_event_row (db_runs tx) (db_events tx) (event_row_of ns e j) = Some evs"
    "insertPairedEvents hook D x (Suc i) (tx\<lparr>db_events := evs\<rparr>) ns rows = Inr tx'"
    by (auto simp: insertEvent_Inr)
  with Cons.IH row show ?case by fastforce
qed

lemma encode_events_Inr:
  "encode_events C op es = Inr rows \<Longrightarrow> map fst rows = es \<and> (\<forall>e j. (e, j) \<in> set rows \<longrightarrow> rc_EncEvent C e = Some j)"
  by (induction es arbitrary: rows) fastforce+

lemma paired_rows:
  assumes "map fst rows = es" and "\<forall>e j. (e, j) \<in> set rows \<longrightarrow> rc_EncEvent C e = Some j"
    and "\<forall>e\<in>set es. run_roundtrip C e q" and sl: "\<forall>e\<in>set es. VerifyEventDigest (rc_Digest C) e = Some True"
  shows "list_all2 (run_store.row_for C ns) es (map (\<lambda>(e, j). event_row_of ns e j) rows)"
  unfolding assms(1) [symmetric] list.rel_map
proof (rule list.rel_refl_strong)
  fix x
  assume x: "x \<in> set rows"
  obtain e j where ej: "x = (e, j)" by (cases x)
  then have "e \<in> set es" using x unfolding assms(1) [symmetric] by force
  with row_for_event_row_of assms(2,3) sl x ej
  show "run_store.row_for C ns (fst x) (case x of (e, j) \<Rightarrow> event_row_of ns e j)" by fastforce
qed

lemma updatePairedRun_Inr:
  "updatePairedRun D tx ns p q j = Inr tx' \<Longrightarrow>
     \<exists>runs. update_heads (\<lambda>h. hkey h = (ns, ar_ID (pj_Run p)) \<and> hr_event_sequence h = ar_EventSequence (pj_Run p) \<and>
          hr_last_event_digest h = pj_LastEventDigest p)
        (ar_EventSequence (pj_Run q)) (pj_LastEventDigest q) j (rfc3339nano (ar_UpdatedAt (pj_Run q))) (db_runs tx)
      = Some (runs, 1) \<and> tx' = tx\<lparr>db_runs := runs\<rparr>"
  by (auto simp: updatePairedRun_def Let_def)

lemma updatePairedTransaction_Inr:
  "updatePairedTransaction D tx ns p q j = Inr tx' \<Longrightarrow>
     \<exists>heads. update_heads (\<lambda>h. hkey h = (ns, tx_ID (tj_Transaction p)) \<and>
          hr_event_sequence h = tx_EventSequence (tj_Transaction p) \<and>
          hr_last_event_digest h = tj_LastEventDigest p)
        (tx_EventSequence (tj_Transaction q)) (tj_LastEventDigest q) j
        (rfc3339nano (tx_UpdatedAt (tj_Transaction q))) (db_transactions tx)
      = Some (heads, 1) \<and> tx' = tx\<lparr>db_transactions := heads\<rparr>"
  by (auto simp: updatePairedTransaction_def Let_def)

text \<open>What a successful paired append did.\<close>

record paired_step =
  ps_Run :: Projection
  ps_Transaction :: ProjectionTx
  ps_Execution :: AgentExecution
  ps_RunEvents :: "RunEvent list"

definition paired_ok :: "Hashing \<Rightarrow> 'j RunCodec \<Rightarrow> 'j TxCodec \<Rightarrow> driver \<Rightarrow> 'j DB \<Rightarrow> string \<Rightarrow> ExecutionHeads \<Rightarrow>
    TransactionEvent \<Rightarrow> ExecutionProjection \<Rightarrow> 'j DB \<Rightarrow> paired_step \<Rightarrow> bool" where
  "paired_ok H CR CT D db ns heads e r db' s \<longleftrightarrow>
     te_Type e \<in> {EventAgentExecutionStarted, EventAgentExecutionFinished} \<and>
     loadTransactionProjection H CT (sub_driver D 0) db ns (te_TransactionID e) = Inr (ps_Transaction s) \<and>
     loadAdmittedExecutionRun CR (sub_driver D 1) db ns (ps_Transaction s) = Inr (ps_Run s) \<and>
     tx_EventSequence (tj_Transaction (ps_Transaction s)) = xh_TransactionSequence heads \<and>
     ar_EventSequence (pj_Run (ps_Run s)) = xh_RunSequence heads \<and>
     ApplyTx H (Some (ps_Transaction s)) e = Inr (xj_Transaction r) \<and>
     ProjectionTx_Validate H (xj_Transaction r) = None \<and>
     pairedExecutionReceipt e (xj_Transaction r) (ar_ID (pj_Run (ps_Run s))) = Inr (ps_Execution s) \<and>
     pairedRunEvents CR (ps_Run s) e (ps_Execution s) = Inr (ps_RunEvents s, xj_Run r) \<and>
     (\<exists>rj rows tj ej runs evs txs tevs. rc_EncRun CR (pj_Run (xj_Run r)) = Some rj \<and>
        map fst rows = ps_RunEvents s \<and> (\<forall>f j. (f, j) \<in> set rows \<longrightarrow> rc_EncEvent CR f = Some j) \<and>
        tc_EncProjection CT (xj_Transaction r) = Some tj \<and> tc_EncEvent CT e = Some ej \<and>
        update_heads (\<lambda>h. hkey h = (ns, ar_ID (pj_Run (ps_Run s))) \<and>
            hr_event_sequence h = ar_EventSequence (pj_Run (ps_Run s)) \<and>
            hr_last_event_digest h = pj_LastEventDigest (ps_Run s))
          (ar_EventSequence (pj_Run (xj_Run r))) (pj_LastEventDigest (xj_Run r)) rj
          (rfc3339nano (ar_UpdatedAt (pj_Run (xj_Run r)))) (db_runs db) = Some (runs, 1) \<and>
        insert_rows runs (db_events db) (map (\<lambda>(e, j). event_row_of ns e j) rows) = Some evs \<and>
        update_heads (\<lambda>h. hkey h = (ns, tx_ID (tj_Transaction (ps_Transaction s))) \<and>
            hr_event_sequence h = tx_EventSequence (tj_Transaction (ps_Transaction s)) \<and>
            hr_last_event_digest h = tj_LastEventDigest (ps_Transaction s))
          (tx_EventSequence (tj_Transaction (xj_Transaction r))) (tj_LastEventDigest (xj_Transaction r)) tj
          (rfc3339nano (tx_UpdatedAt (tj_Transaction (xj_Transaction r)))) (db_transactions db) = Some (txs, 1) \<and>
        insert_event_row txs (db_transaction_events db) (tx_event_row_of ns e ej) = Some tevs \<and>
        db' = db\<lparr>db_runs := runs, db_events := evs, db_transactions := txs, db_transaction_events := tevs\<rparr>)"

lemma AppendPaired_Inr:
  assumes "AppendPairedExecutionEvent H CR CT hook D db ns heads e = (db', Inr r)"
  obtains s where "paired_ok H CR CT D db ns heads e r db' s"
proof -
  from assms obtain p rn x es rj rows tj ej tx1 tx2 tx3 tx4 where
    ty: "te_Type e \<in> {EventAgentExecutionStarted, EventAgentExecutionFinished}"
    and lt: "loadTransactionProjection H CT (sub_driver D 0) db ns (te_TransactionID e) = Inr p"
    and lr: "loadAdmittedExecutionRun CR (sub_driver D 1) db ns p = Inr rn"
    and sq: "tx_EventSequence (tj_Transaction p) = xh_TransactionSequence heads"
      "ar_EventSequence (pj_Run rn) = xh_RunSequence heads"
    and ap: "ApplyTx H (Some p) e = Inr (xj_Transaction r)" "ProjectionTx_Validate H (xj_Transaction r) = None"
    and rc: "pairedExecutionReceipt e (xj_Transaction r) (ar_ID (pj_Run rn)) = Inr x"
    and ev: "pairedRunEvents CR rn e x = Inr (es, xj_Run r)"
    and en: "rc_EncRun CR (pj_Run (xj_Run r)) = Some rj" "encode_events CR pairedExecutionOperation es = Inr rows"
      "tc_EncProjection CT (xj_Transaction r) = Some tj" "tc_EncEvent CT e = Some ej"
    and w: "updatePairedRun (sub_driver D 2) db ns rn (xj_Run r) rj = Inr tx1"
      "insertPairedEvents hook (sub_driver D 3) (ax_ID x) 0 tx1 ns rows = Inr tx2"
      "updatePairedTransaction (sub_driver D 4) tx2 ns p (xj_Transaction r) tj = Inr tx3"
      "insertTransactionEvent D 0 tx3 ns e ej = Inr db'"
    by (auto simp: AppendPairedExecutionEvent_def Let_def)
  from updatePairedRun_Inr [OF w(1)] obtain runs where
    u1: "update_heads (\<lambda>h. hkey h = (ns, ar_ID (pj_Run rn)) \<and>
            hr_event_sequence h = ar_EventSequence (pj_Run rn) \<and> hr_last_event_digest h = pj_LastEventDigest rn)
          (ar_EventSequence (pj_Run (xj_Run r))) (pj_LastEventDigest (xj_Run r)) rj
          (rfc3339nano (ar_UpdatedAt (pj_Run (xj_Run r)))) (db_runs db) = Some (runs, 1)"
    and t1: "tx1 = db\<lparr>db_runs := runs\<rparr>" by blast
  from insertPairedEvents_Inr [OF w(2)] obtain evs where
    i1: "insert_rows runs (db_events db) (map (\<lambda>(e, j). event_row_of ns e j) rows) = Some evs"
    and t2: "tx2 = db\<lparr>db_runs := runs, db_events := evs\<rparr>" unfolding t1 by auto
  from updatePairedTransaction_Inr [OF w(3)] obtain txs where
    u2: "update_heads (\<lambda>h. hkey h = (ns, tx_ID (tj_Transaction p)) \<and>
            hr_event_sequence h = tx_EventSequence (tj_Transaction p) \<and> hr_last_event_digest h = tj_LastEventDigest p)
          (tx_EventSequence (tj_Transaction (xj_Transaction r))) (tj_LastEventDigest (xj_Transaction r)) tj
          (rfc3339nano (tx_UpdatedAt (tj_Transaction (xj_Transaction r)))) (db_transactions db) = Some (txs, 1)"
    and t3: "tx3 = db\<lparr>db_runs := runs, db_events := evs, db_transactions := txs\<rparr>" unfolding t2 by auto
  from w(4) obtain tevs where
    i2: "insert_event_row txs (db_transaction_events db) (tx_event_row_of ns e ej) = Some tevs"
    and t4: "db' = db\<lparr>db_runs := runs, db_events := evs, db_transactions := txs, db_transaction_events := tevs\<rparr>"
    unfolding t3 by (auto simp: insertTransactionEvent_Inr)
  define s where "s = \<lparr>ps_Run = rn, ps_Transaction = p, ps_Execution = x, ps_RunEvents = es\<rparr>"
  have s: "ps_Run s = rn" "ps_Transaction s = p" "ps_Execution s = x" "ps_RunEvents s = es" by (simp_all add: s_def)
  have "paired_ok H CR CT D db ns heads e r db' s"
    unfolding paired_ok_def s
    using ty lt lr sq ap rc ev en(1,3,4) encode_events_Inr [OF en(2)] u1 i1 u2 i2 t4 by blast
  with that show ?thesis by blast
qed

lemma loadAdmitted_Inr:
  assumes "loadAdmittedExecutionRun C D db ns p = Inr q"
  shows "\<exists>b i. tx_Admission (tj_Transaction p) = Some b \<and> i = ab_RunID b \<and> 
    loadProjection C (sub_driver D 0) db ns i = Inr q"
  using assms
  by (auto simp: loadAdmittedExecutionRun_def Let_def split: option.splits)

text \<open>The two halves of a paired append are appends to the two stores.\<close>

lemma paired_run_half:
  assumes ok: "run_store_ok CR db" and s: "paired_ok H CR CT D db ns heads e r db' s"
    and rt: "\<forall>f\<in>set (ps_RunEvents s). run_roundtrip CR f (xj_Run r)" and ne: "ps_RunEvents s \<noteq> []"
  shows "run_store_ok CR db'"
    "\<exists>es. run_histories CR db (ns, ar_ID (pj_Run (ps_Run s))) = Some es \<and>
       int (length es) = xh_RunSequence heads \<and> Replay (es @ ps_RunEvents s) = Inr (xj_Run r) \<and>
       run_histories CR db' =
         (run_histories CR db)((ns, ar_ID (pj_Run (ps_Run s))) \<mapsto> es @ ps_RunEvents s)"
proof -
  let ?p = "ps_Run s" and ?q = "xj_Run r" and ?fs = "ps_RunEvents s"
  from s obtain rj rows runs evs txs tevs where
    load: "loadAdmittedExecutionRun CR (sub_driver D 1) db ns (ps_Transaction s) = Inr ?p"
    and sq: "ar_EventSequence (pj_Run ?p) = xh_RunSequence heads"
    and ev: "pairedRunEvents CR ?p e (ps_Execution s) = Inr (?fs, ?q)"
    and enc: "rc_EncRun CR (pj_Run ?q) = Some rj"
    and rows: "map fst rows = ?fs" "\<forall>f j. (f, j) \<in> set rows \<longrightarrow> rc_EncEvent CR f = Some j"
    and upd: "update_heads (\<lambda>h. hkey h = (ns, ar_ID (pj_Run ?p)) \<and> hr_event_sequence h = ar_EventSequence (pj_Run ?p) \<and>
        hr_last_event_digest h = pj_LastEventDigest ?p)
        (ar_EventSequence (pj_Run ?q)) (pj_LastEventDigest ?q) rj (rfc3339nano (ar_UpdatedAt (pj_Run ?q))) (db_runs db)
        = Some (runs, 1)"
    and ins: "insert_rows runs (db_events db) (map (\<lambda>(e, j). event_row_of ns e j) rows) = Some evs"
    and db': "db' = db\<lparr>db_runs := runs, db_events := evs, db_transactions := txs, db_transaction_events := tevs\<rparr>"
    unfolding paired_ok_def by blast
  from loadAdmitted_Inr [OF load] obtain i D' where lp: "loadProjection CR D' db ns i = Inr ?p" by blast
  from loadProjection_Inr [OF ok lp] obtain h where h: "select_head (db_runs db) ns i = Some h"
    and hp: "run_store.head_for CR ?p h" .
  have i: "ar_ID (pj_Run ?p) = i" "ar_Namespace (pj_Run ?p) = ns"
    using hp select_head_Some [OF h] by (simp_all add: run_store.head_for_def)
  have c: "run_store.consistent CR (db_runs db) (db_events db)" using ok by (simp add: run_store_ok_def)
  have q: "replayFrom (Some ?p) ?fs = Inr ?q" by (rule pairedRunEvents_Inr(1) [OF ev])
  obtain f where f: "f \<in> set ?fs" using ne by (cases ?fs) auto
  have "stored_run_ok ?q"
    using q ne by (induction rule: run_ledger.replay_from_invariant) (use hp in \<open>auto simp: run_store.head_for_def dest: Apply_stored_ok\<close>)
  moreover have "decode_head CR rj (pj_LastEventDigest ?q) = Some ?q"
    using rt f enc by (auto simp: run_roundtrip_def decode_head_def)
  moreover have M: "hr_last_event_digest h = pj_LastEventDigest ?p" using hp by (simp add: run_store.head_for_def)
  moreover note rw = paired_rows [OF rows rt pairedRunEvents_Inr(2) [OF ev], of ns]
  ultimately have step: "run_store.consistent CR runs evs"
    "\<exists>es. run_store.histories CR (db_runs db) (db_events db) (ns, i) = Some es \<and> replayFrom None es = Inr ?p \<and>
       replayFrom None (es @ ?fs) = Inr ?q \<and>
       run_store.histories CR runs evs = (run_store.histories CR (db_runs db) (db_events db))((ns, i) \<mapsto> es @ ?fs)"
    using run_store.update_consistent [OF c h hp q enc _ _ upd [unfolded i(1)] M _ ins] i(2) by simp_all
  show "run_store_ok CR db'" using step(1) db' by (simp add: run_store_ok_def)
  from step(2) obtain es where es: "run_store.histories CR (db_runs db) (db_events db) (ns, i) = Some es"
    "replayFrom None es = Inr ?p" "replayFrom None (es @ ?fs) = Inr ?q"
    "run_store.histories CR runs evs = (run_store.histories CR (db_runs db) (db_events db))((ns, i) \<mapsto> es @ ?fs)" by blast
  then have "int (length es) = xh_RunSequence heads" using run_ledger.replay_sequence [OF es(2)] sq by simp
  with es ne i db' show "\<exists>es. run_histories CR db (ns, ar_ID (pj_Run ?p)) = Some es \<and>
       int (length es) = xh_RunSequence heads \<and> Replay (es @ ?fs) = Inr ?q \<and>
       run_histories CR db' = (run_histories CR db)((ns, ar_ID (pj_Run ?p)) \<mapsto> es @ ?fs)"
    by (auto simp: run_histories_eq Replay_ledger)
qed

lemma paired_tx_half:
  assumes ok: "tx_store_ok H CT db" and s: "paired_ok H CR CT D db ns heads e r db' s"
    and rt: "tx_roundtrip CT [e] (xj_Transaction r)"
  shows "tx_store_ok H CT db'"
    "\<exists>es. tx_histories CT db (ns, te_TransactionID e) = Some es \<and>
       int (length es) = xh_TransactionSequence heads \<and> ReplayTx H (es @ [e]) = Inr (xj_Transaction r) \<and>
       tx_histories CT db' = (tx_histories CT db)((ns, te_TransactionID e) \<mapsto> es @ [e])"
proof -
  let ?p = "ps_Transaction s" and ?q = "xj_Transaction r" and ?i = "te_TransactionID e"
  from s obtain tj ej runs evs txs tevs where
    load: "loadTransactionProjection H CT (sub_driver D 0) db ns ?i = Inr ?p"
    and sq: "tx_EventSequence (tj_Transaction ?p) = xh_TransactionSequence heads"
    and ap: "ApplyTx H (Some ?p) e = Inr ?q" "ProjectionTx_Validate H ?q = None"
    and enc: "tc_EncProjection CT ?q = Some tj" "tc_EncEvent CT e = Some ej"
    and upd: "update_heads (\<lambda>h. hkey h = (ns, tx_ID (tj_Transaction ?p)) \<and>
            hr_event_sequence h = tx_EventSequence (tj_Transaction ?p) \<and> hr_last_event_digest h = tj_LastEventDigest ?p)
          (tx_EventSequence (tj_Transaction ?q)) (tj_LastEventDigest ?q) tj
          (rfc3339nano (tx_UpdatedAt (tj_Transaction ?q))) (db_transactions db) = Some (txs, 1)"
    and ins: "insert_event_row txs (db_transaction_events db) (tx_event_row_of ns e ej) = Some tevs"
    and db': "db' = db\<lparr>db_runs := runs, db_events := evs, db_transactions := txs, db_transaction_events := tevs\<rparr>"
    unfolding paired_ok_def by blast
  from loadTx_Inr [OF ok load] obtain h where h: "select_head (db_transactions db) ns ?i = Some h"
    and hp: "tx_store.head_for H CT ?p h" .
  have i: "tx_ID (tj_Transaction ?p) = ?i" "tx_Namespace (tj_Transaction ?p) = ns"
    using hp select_head_Some [OF h] by (simp_all add: tx_store.head_for_def)
  have c: "tx_store.consistent H CT (db_transactions db) (db_transaction_events db)"
    using ok by (simp add: tx_store_ok_def)
  have q: "replayFromTx H (Some ?p) [e] = Inr ?q" using ap(1) by simp
  have dec: "tc_DecProjection CT tj = Some ?q" "stored_tx_ok H ?q"
    using rt enc ap(2) by (simp_all add: tx_roundtrip_def stored_tx_ok_def)
  have M: "hr_last_event_digest h = tj_LastEventDigest ?p" using hp by (simp add: tx_store.head_for_def)
  have rows: "list_all2 (tx_store.row_for CT H (tx_Namespace (tj_Transaction ?p))) [e] [tx_event_row_of ns e ej]"
    using tx_row_for [OF rt _ enc(2) ApplyTx_sealed [OF ap(1)]] i by simp
  have ins': "insert_rows txs (db_transaction_events db) [tx_event_row_of ns e ej] = Some tevs" using ins by simp
  note step = tx_store.update_consistent [OF c h hp q enc(1) dec upd [unfolded i(1)] M rows ins']
  show "tx_store_ok H CT db'" using step(1) db' by (simp add: tx_store_ok_def)
  from step(2) obtain es where es:
      "tx_store.histories CT (db_transactions db) (db_transaction_events db) (ns, ?i) = Some es"
      "replayFromTx H None es = Inr ?p" "replayFromTx H None (es @ [e]) = Inr ?q"
      "tx_store.histories CT txs tevs =
         (tx_store.histories CT (db_transactions db) (db_transaction_events db))((ns, ?i) \<mapsto> es @ [e])" by blast
  have "int (length es) = xh_TransactionSequence heads" using tx_ledger.replay_sequence [OF es(2)] sq by simp
  with es db' show "\<exists>es. tx_histories CT db (ns, ?i) = Some es \<and>
       int (length es) = xh_TransactionSequence heads \<and> ReplayTx H (es @ [e]) = Inr ?q \<and>
       tx_histories CT db' = (tx_histories CT db)((ns, ?i) \<mapsto> es @ [e])"
    by (auto simp: tx_histories_eq ReplayTx_def)
qed

lemma find_updated:
  "find_index P xs = Some i \<Longrightarrow> P y \<Longrightarrow> find P (xs[i := y]) = Some y"
  by (induction xs arbitrary: i) (auto split: if_splits)

lemma started_run:
  assumes "Apply (Some p) f = Inr q" and "ev_Type f = EventRunExecutionStarted" and "ev_Payload f = startPayload x"
  shows "ar_State (pj_Run q) = RunRunning \<and> ar_ActiveExecutionID (pj_Run q) = ax_ID x \<and>
    ar_BudgetUsage (pj_Run q) = ar_BudgetUsage (pj_Run p)"
  using assms(1)
proof (rule Apply_Some_Inr)
  fix run
  assume "applyPayload (pj_Run p) f = Inr run"
    and "q = \<lparr>pj_Run = run\<lparr>ar_EventSequence := ev_Sequence f, ar_UpdatedAt := ev_OccurredAt f\<rparr>,
              pj_LastEventDigest = ev_Digest f\<rparr>"
  with assms(2,3) show ?thesis
    by (auto simp: applyPayload_def DecodePayloadStrict_def startPayload_def applyExecutionStarted_def)
qed

lemma finished_run:
  assumes "Apply (Some p) f = Inr q" and "ev_Type f = EventRunExecutionFinished"
    and "ev_Payload f = finishPayload x (pj_Run p)"
  shows "ar_State (pj_Run p) = RunRunning \<and> ar_ActiveExecutionID (pj_Run p) = ax_ID x \<and>
    ar_ActiveExecutionID (pj_Run q) = '''' \<and> ar_State (pj_Run q) \<in> {RunWaitingForEvent, RunWaitingForAgent} \<and>
    addBudgetUsage (ar_BudgetUsage (pj_Run p)) (executionBudgetUsage x (pj_Run p)) = Inr (ar_BudgetUsage (pj_Run q))"
  using assms(1)
proof (rule Apply_Some_Inr)
  fix run
  assume "applyPayload (pj_Run p) f = Inr run"
    and "q = \<lparr>pj_Run = run\<lparr>ar_EventSequence := ev_Sequence f, ar_UpdatedAt := ev_OccurredAt f\<rparr>,
              pj_LastEventDigest = ev_Digest f\<rparr>"
  with assms(2,3) show ?thesis
    by (auto simp: applyPayload_def DecodePayloadStrict_def finishPayload_def applyExecutionFinished_def split: if_splits)
qed

lemma receipt_of_start:
  assumes "ApplyTx H (Some p) e = Inr q" and "te_Type e = EventAgentExecutionStarted"
    and "pairedExecutionReceipt e q i = Inr x"
  shows "x \<in> set (tj_Executions q) \<and> ax_Status x = AgentExecutionRunning \<and> ax_RunID x = i \<and> ax_ID x \<noteq> ''''"
proof -
  from assms(1,2) obtain y where "tj_Executions q = tj_Executions p @ [y]" "ax_Status y = AgentExecutionRunning"
    by (elim ApplyTx_Some_Inr) (auto simp: applyEventTx_def applyAgentExecutionStarted_def Let_def advanceTx_def)
  with assms(2,3) show ?thesis by (auto simp: pairedExecutionReceipt_def Let_def)
qed

lemma receipt_of_finish:
  assumes "ApplyTx H (Some p) e = Inr q" and "te_Type e = EventAgentExecutionFinished"
    and "pairedExecutionReceipt e q i = Inr x"
  shows "x \<in> set (tj_Executions q) \<and> AgentExecutionStatus_Terminal (ax_Status x) \<and> ax_RunID x = i \<and> ax_ID x \<noteq> ''''"
proof -
  from assms(1,2) obtain pl k y where pl: "te_Payload e = AgentExecutionFinished pl"
    and k: "find_index (\<lambda>z. ax_ID z = af_ExecutionID pl) (tj_Executions p) = Some k"
    and y: "tj_Executions q = (tj_Executions p)[k := y]" "ax_ID y = ax_ID (tj_Executions p ! k)"
      "AgentExecutionStatus_Terminal (ax_Status y)"
    by (elim ApplyTx_Some_Inr)
      (auto simp: applyEventTx_def applyAgentExecutionFinished_def Let_def advanceTx_def decodePayload_def
        executionIndex_def split: option.splits TransactionPayload.splits elim!: as_execution_finished.elims)
  have f: "find (\<lambda>z. ax_ID z = af_ExecutionID pl) (tj_Executions q) = Some y"
    using find_index_Some [OF k] y find_updated [OF k] by auto
  then have "y \<in> set (tj_Executions q)" by (auto simp: find_Some_iff)
  moreover have "x = y \<and> ax_RunID y = i \<and> ax_ID y \<noteq> ''''"
    using f assms(2,3) pl by (auto simp: pairedExecutionReceipt_def Let_def decodePayload_def)
  ultimately show ?thesis using y(3) by simp
qed

text \<open>After a paired append the two ledgers agree about the execution.\<close>

definition ledgers_agree :: "AgentExecution \<Rightarrow> ExecutionProjection \<Rightarrow> bool" where
  "ledgers_agree x r \<longleftrightarrow> x \<in> set (tj_Executions (xj_Transaction r)) \<and> ax_RunID x = ar_ID (pj_Run (xj_Run r)) \<and>
     (if ax_Status x = AgentExecutionRunning
      then ar_State (pj_Run (xj_Run r)) = RunRunning \<and> ar_ActiveExecutionID (pj_Run (xj_Run r)) = ax_ID x
      else AgentExecutionStatus_Terminal (ax_Status x) \<and> ar_ActiveExecutionID (pj_Run (xj_Run r)) = '''' \<and>
        ar_State (pj_Run (xj_Run r)) \<in> {RunWaitingForEvent, RunWaitingForAgent})"

lemma paired_events_nonempty: "pairedRunEvents C p e x = Inr (es, q) \<Longrightarrow> es \<noteq> []"
  by (auto simp: pairedRunEvents_def appendRunEvent_Inr split: TransactionEventType.splits if_splits)

lemma paired_agreement:
  assumes "paired_ok H CR CT D db ns heads e r db' s"
  shows "ledgers_agree (ps_Execution s) r"
proof -
  let ?x = "ps_Execution s"
  from assms have ty: "te_Type e \<in> {EventAgentExecutionStarted, EventAgentExecutionFinished}"
    and ap: "ApplyTx H (Some (ps_Transaction s)) e = Inr (xj_Transaction r)"
    and rc: "pairedExecutionReceipt e (xj_Transaction r) (ar_ID (pj_Run (ps_Run s))) = Inr ?x"
    and ev: "pairedRunEvents CR (ps_Run s) e ?x = Inr (ps_RunEvents s, xj_Run r)"
    unfolding paired_ok_def by blast+
  have id: "ar_ID (pj_Run (xj_Run r)) = ar_ID (pj_Run (ps_Run s))"
    using run_store.replay_from_stream [OF pairedRunEvents_Inr(1) [OF ev]] by simp
  show ?thesis
  proof (cases "te_Type e = EventAgentExecutionStarted")
    case True
    with ev obtain f where "Next (rc_Encodable CR) (rc_Digest CR) (rc_Hash16 CR) (ps_Run s) EventRunExecutionStarted
        (te_Actor e) (te_OccurredAt e) (startPayload ?x) = Some f" "Apply (Some (ps_Run s)) f = Inr (xj_Run r)"
      by (auto simp: pairedRunEvents_def appendRunEvent_Inr)
    then have "ar_State (pj_Run (xj_Run r)) = RunRunning \<and> ar_ActiveExecutionID (pj_Run (xj_Run r)) = ax_ID ?x"
      using started_run [of "ps_Run s" f] Next_Some(6,9) by metis
    with receipt_of_start [OF ap True rc] id show ?thesis by (simp add: ledgers_agree_def)
  next
    case False
    with ty have fin: "te_Type e = EventAgentExecutionFinished" by simp
    with ev obtain c f where "Next (rc_Encodable CR) (rc_Digest CR) (rc_Hash16 CR) c EventRunExecutionFinished
        (te_Actor e) (te_OccurredAt e) (finishPayload ?x (pj_Run c)) = Some f" "Apply (Some c) f = Inr (xj_Run r)"
      by (auto simp: pairedRunEvents_def appendRunEvent_Inr split: if_splits)
    then have "ar_ActiveExecutionID (pj_Run (xj_Run r)) = '''' \<and>
      ar_State (pj_Run (xj_Run r)) \<in> {RunWaitingForEvent, RunWaitingForAgent}"
      using finished_run [of c f] Next_Some(6,9) by metis
    moreover have "AgentExecutionStatus_Terminal (ax_Status ?x) \<Longrightarrow> ax_Status ?x \<noteq> AgentExecutionRunning" by auto
    ultimately show ?thesis using receipt_of_finish [OF ap fin rc] id by (simp add: ledgers_agree_def)
  qed
qed

end
