(* ===== verification/Store_Examples.thy ===== *)
theory Store_Examples
  imports Execution_Store Transaction_Examples Run_Examples
begin

text \<open>
  A concrete store on which the theorems about the store are applied. JSON is instantiated by a
  datatype that keeps the encoded value, so that encoding and decoding are inverse. The store holds
  an admitted run and a running transaction bound to it, with a stage boundary, ready for its first
  execution.
\<close>

datatype ex_json = JRun AgentRun | JEvent RunEvent | JProjection ProjectionTx | JTxEvent TransactionEvent

fun un_JRun :: "ex_json \<Rightarrow> AgentRun option" where "un_JRun (JRun x) = Some x" | "un_JRun _ = None"
fun un_JEvent :: "ex_json \<Rightarrow> RunEvent option" where "un_JEvent (JEvent x) = Some x" | "un_JEvent _ = None"
fun un_JProjection :: "ex_json \<Rightarrow> ProjectionTx option" where
  "un_JProjection (JProjection x) = Some x" | "un_JProjection _ = None"
fun un_JTxEvent :: "ex_json \<Rightarrow> TransactionEvent option" where
  "un_JTxEvent (JTxEvent x) = Some x" | "un_JTxEvent _ = None"

definition ex_CR :: "ex_json RunCodec" where
  "ex_CR = \<lparr>rc_Encodable = (\<lambda>_. True), rc_Digest = (\<lambda>e. Some (sample_digest (digit_char (nat (ev_Sequence e) mod 10)))),
     rc_Hash16 = (\<lambda>_. replicate 32 (CHR ''a'')), rc_EncRun = Some \<circ> JRun, rc_DecRun = un_JRun,
     rc_EncEvent = Some \<circ> JEvent, rc_DecEvent = un_JEvent\<rparr>"

definition ex_CT :: "ex_json TxCodec" where
  "ex_CT = \<lparr>tc_EncProjection = Some \<circ> JProjection, tc_DecProjection = un_JProjection,
     tc_EncEvent = Some \<circ> JTxEvent, tc_DecEvent = un_JTxEvent\<rparr>"

lemma ex_codec_sel [simp]:
  "rc_EncRun ex_CR x = Some (JRun x)" "rc_DecRun ex_CR = un_JRun"
  "rc_EncEvent ex_CR e = Some (JEvent e)" "rc_DecEvent ex_CR = un_JEvent"
  "rc_Encodable ex_CR = (\<lambda>_. True)" "rc_Hash16 ex_CR = (\<lambda>_. replicate 32 (CHR ''a''))"
  "tc_EncProjection ex_CT p = Some (JProjection p)" "tc_DecProjection ex_CT = un_JProjection"
  "tc_EncEvent ex_CT f = Some (JTxEvent f)" "tc_DecEvent ex_CT = un_JTxEvent"
  by (simp_all add: ex_CR_def ex_CT_def)

lemma ex_roundtrips [simp]: "run_roundtrip ex_CR e p" "tx_roundtrip ex_CT fs q"
  by (simp_all add: run_roundtrip_def tx_roundtrip_def)

lemma ex_formats: "digest_format (rc_Digest ex_CR)" "hash16_format (rc_Hash16 ex_CR)"
proof -
  have "\<forall>d\<in>set [0..<10]. is_lower_hex (digit_char d)" by code_simp
  then have "is_lower_hex (digit_char (n mod 10))" for n by simp
  then show "digest_format (rc_Digest ex_CR)" by (simp add: digest_format_def ex_CR_def example_simps)
  show "hash16_format (rc_Hash16 ex_CR)" by (simp add: hash16_format_def list_all_iff example_simps)
qed

section \<open>The admitted run\<close>

definition ex_run_events :: "RunEvent list" where
  "ex_run_events = [ex_created, ex_granted, ex_admitted]"

lemma ex_run_events_replay: "Replay ex_run_events = Inr ex_p3"
  by (simp add: ex_run_events_def Replay_def ex_applies)

lemma ex_digits: "digit_char 1 = CHR ''1''" "digit_char 2 = CHR ''2''" "digit_char 3 = CHR ''3''"
  "digit_char 4 = CHR ''4''" "digit_char 5 = CHR ''5''" "digit_char (Suc 0) = CHR ''1''"
  by code_simp+

lemma ex_digest_ok [simp]:
  "VerifyEventDigest (rc_Digest ex_CR) ex_created = Some True"
  "VerifyEventDigest (rc_Digest ex_CR) ex_granted = Some True"
  "VerifyEventDigest (rc_Digest ex_CR) ex_admitted = Some True"
  "VerifyEventDigest (rc_Digest ex_CR) ex_started = Some True"
  by (simp_all add: VerifyEventDigest_True ex_CR_def ex_event_defs ex_digits)

definition ex_run_row :: "ex_json head_row" where
  "ex_run_row = run_row_of ex_p3 (JRun (pj_Run ex_p3))"

definition ex_run_rows :: "ex_json event_row list" where
  "ex_run_rows = map (\<lambda>e. event_row_of ''team'' e (JEvent e)) ex_run_events"

lemma ex_p3_sel [simp]: "ar_Namespace (pj_Run ex_p3) = ''team''" "ar_ID (pj_Run ex_p3) = ''run:1''"
  "ar_EventSequence (pj_Run ex_p3) = 3" "pj_LastEventDigest ex_p3 = sample_digest (CHR ''3'')"
  "ar_State (pj_Run ex_p3) = RunAdmitted" "ar_ActiveExecutionID (pj_Run ex_p3) = ''''"
  by (simp_all add: ex_projection_defs ex_run_def)

lemma ex_run_ids: "map ev_ID ex_run_events = [ex_event_id 1, ex_event_id 2, ex_event_id 3]"
  by (simp add: ex_run_events_def ex_event_defs)

lemma ex_runs_consistent:
  "run_store.consistent ex_CR [ex_run_row] ex_run_rows"
  "run_store.histories ex_CR [ex_run_row] ex_run_rows = [(''team'', ''run:1'') \<mapsto> ex_run_events]"
proof -
  have r: "replayFrom None ex_run_events = Inr ex_p3" by (rule replayed_stream [OF ex_run_events_replay])
  have "stored_run_ok ex_p3" using Apply_stored_ok [OF ex_apply3] by simp
  then have h: "run_store.head_for ex_CR ex_p3 ex_run_row"
    unfolding run_store.head_for_def by (simp add: ex_run_row_def run_row_of_def hkey_def decode_head_def)
  have rows: "list_all2 (run_store.row_for ex_CR (ar_Namespace (pj_Run ex_p3))) ex_run_events ex_run_rows"
    unfolding ex_run_rows_def list.rel_map run_store.row_for_def
    by (intro list.rel_refl_strong) (auto simp: event_row_of_def ekey_def ex_run_events_def)
  have d: "distinct (map ev_ID ex_run_events)" unfolding ex_run_ids by simp
  have k: "hkey ex_run_row = (''team'', ''run:1'')" by (simp add: hkey_def ex_run_row_def run_row_of_def)
  from run_store.consistent_single [OF r h rows d]
  show "run_store.consistent ex_CR [ex_run_row] ex_run_rows"
    "run_store.histories ex_CR [ex_run_row] ex_run_rows = [(''team'', ''run:1'') \<mapsto> ex_run_events]"
    using k by simp_all
qed

section \<open>The transaction admitted with it\<close>

definition ex_profile :: AgentTaskProfileBinding where
  "ex_profile = \<lparr>tp_ID = ''profile:1'', tp_Digest = step_digest 39, tp_RuntimeClass = ''host'',
     tp_ImageDigest = '''', tp_Entrypoint = '''', tp_CommandDigest = step_digest 41\<rparr>"

definition ex_task :: AgentTask where
  "ex_task = \<lparr>tk_Version = ''gatemole.agent_task.v0'', tk_ID = ''task:1'', tk_TransactionID = ''tx:1'',
     tk_Namespace = ''team'', tk_RunID = ''run:1'', tk_Intent = ''repair'', tk_IntentDigest = step_digest 50,
     tk_AgentProfile = ex_profile, tk_CreatedAt = 1000, tk_Digest = step_digest 51\<rparr>"

definition ex_admission :: TransactionAdmissionBinding where
  "ex_admission = \<lparr>ab_RuntimeID = '''', ab_EnforcementProfile = '''', ab_TaskDigest = step_digest 51,
     ab_RunID = ''run:1'', ab_ContractDigest = sample_digest (CHR ''b'')\<rparr>"

definition ex_atx :: AgentTransaction where
  "ex_atx = ex_tx\<lparr>tx_IntentDigest := step_digest 50, tx_Task := Some ex_task, tx_Admission := Some ex_admission\<rparr>"

definition ex_aexec :: AgentExecution where
  "ex_aexec = ex_execution\<lparr>ax_TaskDigest := step_digest 51\<rparr>"

definition ex_tx_events :: "TransactionEvent list" where
  "ex_tx_events =
    [ex_tx_event 1 ex_human EventTransactionCreated (TransactionCreatedPayload ex_atx),
     ex_move 2 TransactionCreated TransactionRunning [],
     ex_tx_event 3 ex_daemon EventStageBindingCreated (StageBindingCreatedPayload ex_binding)]"

definition ex_start :: TransactionEvent where
  "ex_start = ex_tx_event 4 ex_daemon EventAgentExecutionStarted (AgentExecutionStartedPayload ex_aexec)"

definition ex_a1 :: ProjectionTx where "ex_a1 = ex_q1\<lparr>tj_Transaction := ex_atx\<rparr>"
definition ex_a2 :: ProjectionTx where "ex_a2 = ex_next 2 (\<lambda>t. t\<lparr>tx_State := TransactionRunning\<rparr>) ex_a1"
definition ex_a3 :: ProjectionTx where "ex_a3 = ex_next 3 (\<lambda>t. t\<lparr>tx_StageBindings := [ex_binding]\<rparr>) ex_a2"
definition ex_a4 :: ProjectionTx where "ex_a4 = ex_next 4 id (ex_a3\<lparr>tj_Executions := [ex_aexec]\<rparr>)"

lemmas ex_a_defs = ex_a1_def ex_a2_def ex_a3_def ex_a4_def ex_q1_def ex_next_def

lemma ex_task_identifiers [example_simps]: "IsIdentifier ''profile:1''" "IsIdentifier ''task:1''"
  "utf8_valid ''repair''" "\<not> has_nul ''repair''"
  by code_simp+

lemma ex_task_valid: "AgentTask_Validate ex_H ex_task = None"
  by (simp add: AgentTask_Validate_def ex_task_def ex_profile_def Let_def validate_simps example_simps
      ComputeAgentTaskIntentDigest_def ComputeAgentTaskDigest_def ex_H_def MaxAgentTaskIntentBytes_def)

lemma ex_atx_events_check:
  "checkEventTx ex_H (ex_tx_events ! 0) = None" "checkEventTx ex_H (ex_tx_events ! 1) = None"
  "checkEventTx ex_H (ex_tx_events ! 2) = None" "checkEventTx ex_H ex_start = None"
  unfolding ex_tx_events_def ex_move_def ex_start_def
  by (simp_all only: nth_Cons_0 nth_Cons_numeral nth_Cons_Suc One_nat_def numeral_2_eq_2)
    (rule ex_tx_event_valid; simp add: example_simps del: TransactionEventType_name.simps)+

lemma ex_aexec_valid: "AgentExecution_Validate ex_aexec = None"
  by (simp add: AgentExecution_Validate_def ex_aexec_def ex_execution_def Let_def validate_simps example_simps has_nul_def
      validateModelBroker_def validateRunningExecution_def optionalDigest_def)

lemma ex_task_sel [simp]: "tk_TransactionID ex_task = ''tx:1''" "tk_Namespace ex_task = ''team''"
  "tk_RunID ex_task = ''run:1''" "tk_IntentDigest ex_task = step_digest 50" "tk_CreatedAt ex_task = 1000"
  "tk_Digest ex_task = step_digest 51" "tp_RuntimeClass (tk_AgentProfile ex_task) = ''host''"
  "tp_ImageDigest (tk_AgentProfile ex_task) = ''''" "tp_CommandDigest (tk_AgentProfile ex_task) = step_digest 41"
  by (simp_all add: ex_task_def ex_profile_def)

lemma ex_aexec_sel [simp]:
  "ax_ID ex_aexec = ''exec:1''" "ax_TransactionID ex_aexec = ''tx:1''" "ax_Attempt ex_aexec = 1"
  "ax_Status ex_aexec = AgentExecutionRunning" "ax_StartedAt ex_aexec = 1003" "ax_RunID ex_aexec = ''run:1''"
  "ax_TaskDigest ex_aexec = step_digest 51" "ax_StageBindingID ex_aexec = ''stage:1''" "ax_ModelBroker ex_aexec = None"
  "ax_RuntimeClass ex_aexec = ''host''" "ax_ImageDigest ex_aexec = ''''" "ax_CommandDigest ex_aexec = step_digest 41"
  by (simp_all add: ex_aexec_def ex_execution_def)

lemmas ex_a_eval = ex_tx_events_def ex_start_def ex_tx_ops ex_a_defs ex_atx_def ex_tx_def ex_tx_eval ex_task_valid
  ex_admission_def

lemma ex_a1: "ApplyTx ex_H None (ex_tx_events ! 0) = Inr ex_a1"
  using ex_atx_events_check(1)
  by (simp add: ApplyTx.simps)
    (simp add: ex_a_eval applyCreationTx_def)

lemma ex_a2: "ApplyTx ex_H (Some ex_a1) (ex_tx_events ! 1) = Inr ex_a2"
  by (subst ApplyTx_eval [OF ex_atx_events_check(2)]) (simp add: ex_a_eval del: ok_then_Inr bind_res_Inr,
      simp add: validate_simps example_simps)

lemma ex_a3: "ApplyTx ex_H (Some ex_a2) (ex_tx_events ! 2) = Inr ex_a3"
  by (subst ApplyTx_eval [OF ex_atx_events_check(3)])
    (simp add: ex_a_eval applyStageBindingCreated_def del: ok_then_Inr bind_res_Inr,
      simp add: validate_simps example_simps)

lemma ex_a4: "ApplyTx ex_H (Some ex_a3) ex_start = Inr ex_a4"
  by (subst ApplyTx_eval [OF ex_atx_events_check(4)])
    (simp add: ex_a_eval applyAgentExecutionStarted_def stringContains_def stageBindingIndex_def
      ex_aexec_valid del: ok_then_Inr bind_res_Inr, simp add: validate_simps example_simps)

lemma ex_tx_events_replay: "ReplayTx ex_H ex_tx_events = Inr ex_a3"
  using ex_a1 ex_a2 ex_a3 by (simp add: ReplayTx_def ex_tx_events_def)

lemmas ex_projection_eval = ProjectionTx_Validate_def Let_def validateProjectionHistory_def validatePlanProjection_def
  validatePackageProjection_def validateEffects_def isDigest_iff

lemma ex_a3_valid: "ProjectionTx_Validate ex_H ex_a3 = None"
proof -
  have "AgentTransaction_Validate ex_H (tj_Transaction ex_a3) = None"
    using ex_a3 by (elim ApplyTx_Some_Inr) (simp add: valid_tx_def)
  then show ?thesis
    by (simp add: ex_projection_eval) (simp add: ex_a_defs ex_atx_def ex_tx_def example_simps)
qed

lemma ex_a4_valid: "ProjectionTx_Validate ex_H ex_a4 = None"
proof -
  have "AgentTransaction_Validate ex_H (tj_Transaction ex_a4) = None"
    using ex_a4 by (elim ApplyTx_Some_Inr) (simp add: valid_tx_def)
  then show ?thesis
    by (simp add: ex_projection_eval)
      (simp add: ex_a_defs ex_atx_def ex_tx_def example_simps ex_aexec_valid stringContains_def stageBindingIndex_def
        ex_binding_def)
qed

definition ex_tx_row :: "ex_json head_row" where
  "ex_tx_row = tx_row_of ex_a3 (JProjection ex_a3)"

definition ex_tx_rows :: "ex_json event_row list" where
  "ex_tx_rows = map (\<lambda>e. tx_event_row_of ''team'' e (JTxEvent e)) ex_tx_events"

lemma ex_a3_sel [simp]: "tx_Namespace (tj_Transaction ex_a3) = ''team''" "tx_ID (tj_Transaction ex_a3) = ''tx:1''"
  "tx_EventSequence (tj_Transaction ex_a3) = 3" "tj_LastEventDigest ex_a3 = step_digest 3"
  "tx_Admission (tj_Transaction ex_a3) = Some ex_admission" "tx_Task (tj_Transaction ex_a3) = Some ex_task"
  by (simp_all add: ex_a_defs ex_atx_def ex_tx_def)

lemma ex_txs_consistent:
  "tx_store.consistent ex_H ex_CT [ex_tx_row] ex_tx_rows"
  "tx_store.histories ex_CT [ex_tx_row] ex_tx_rows = [(''team'', ''tx:1'') \<mapsto> ex_tx_events]"
proof -
  have r: "replayFromTx ex_H None ex_tx_events = Inr ex_a3" by (rule replayedTx_stream [OF ex_tx_events_replay])
  have h: "tx_store.head_for ex_H ex_CT ex_a3 ex_tx_row"
    unfolding tx_store.head_for_def
    by (simp add: ex_tx_row_def tx_row_of_def hkey_def stored_tx_ok_def ex_a3_valid)
  have rows: "list_all2 (tx_store.row_for ex_CT ex_H (tx_Namespace (tj_Transaction ex_a3))) ex_tx_events ex_tx_rows"
    unfolding ex_tx_rows_def list.rel_map tx_store.row_for_def using replayFromTx_sealed [OF r]
    by (intro list.rel_refl_strong) (auto simp: tx_event_row_of_def ekey_def)
  have d: "distinct (map te_ID ex_tx_events)" by (simp add: ex_tx_events_def ex_tx_event_def ex_move_def)
  have k: "hkey ex_tx_row = (''team'', ''tx:1'')" by (simp add: hkey_def ex_tx_row_def tx_row_of_def)
  from tx_store.consistent_single [OF r h rows d]
  show "tx_store.consistent ex_H ex_CT [ex_tx_row] ex_tx_rows"
    "tx_store.histories ex_CT [ex_tx_row] ex_tx_rows = [(''team'', ''tx:1'') \<mapsto> ex_tx_events]"
    using k by simp_all
qed

section \<open>The store\<close>

definition ex_admission_row :: "ex_json admission_row" where
  "ex_admission_row = \<lparr>mr_namespace = ''team'', mr_idempotency_key = ''key:1'', mr_request_digest = step_digest 38,
     mr_task_id = ''task:1'', mr_task_digest = step_digest 51, mr_contract_digest = sample_digest (CHR ''b''),
     mr_run_id = ''run:1'', mr_transaction_id = ''tx:1'', mr_result_json = JRun ex_run, mr_created_at = ''''\<rparr>"

definition ex_db :: "ex_json DB" where
  "ex_db = \<lparr>db_metadata = Map.empty, db_runs = [ex_run_row], db_events = ex_run_rows, db_transactions = [ex_tx_row],
     db_transaction_events = ex_tx_rows, db_contracts = [], db_tasks = [], db_admissions = [ex_admission_row]\<rparr>"

lemma ex_db_ok: "run_store_ok ex_CR ex_db" "tx_store_ok ex_H ex_CT ex_db"
  using ex_runs_consistent(1) ex_txs_consistent(1) by (simp_all only: run_store_ok_def tx_store_ok_def ex_db_def DB.simps)

lemma ex_db_histories:
  "run_histories ex_CR ex_db = [(''team'', ''run:1'') \<mapsto> ex_run_events]"
  "tx_histories ex_CT ex_db = [(''team'', ''tx:1'') \<mapsto> ex_tx_events]"
  unfolding run_histories_eq tx_histories_eq ex_db_def DB.simps by (fact ex_runs_consistent(2) ex_txs_consistent(2))+

lemma ex_run_key: "hkey ex_run_row = (''team'', ''run:1'')" "hkey ex_tx_row = (''team'', ''tx:1'')"
  by (simp_all add: hkey_def ex_run_row_def run_row_of_def ex_tx_row_def tx_row_of_def)

lemma ex_loads:
  "loadProjection ex_CR no_faults ex_db ''team'' ''run:1'' = Inr ex_p3"
  "loadTransactionProjection ex_H ex_CT no_faults ex_db ''team'' ''tx:1'' = Inr ex_a3"
  "loadAdmittedExecutionRun ex_CR no_faults ex_db ''team'' ex_a3 = Inr ex_p3"
proof -
  from GetRun_complete [OF ex_db_ok(1), of "''team''" "''run:1''" ex_run_events] ex_run_events_replay
  show 1: "loadProjection ex_CR no_faults ex_db ''team'' ''run:1'' = Inr ex_p3"
    by (simp add: ex_db_histories GetRun_def)
  from GetTransaction_complete [OF ex_db_ok(2), of "''team''" "''tx:1''" ex_tx_events] ex_tx_events_replay
  show "loadTransactionProjection ex_H ex_CT no_faults ex_db ''team'' ''tx:1'' = Inr ex_a3"
    by (simp add: ex_db_histories GetTransaction_def)
  have "db_admissions ex_db = [ex_admission_row]" by (simp add: ex_db_def)
  with 1 show "loadAdmittedExecutionRun ex_CR no_faults ex_db ''team'' ex_a3 = Inr ex_p3"
    by (simp add: loadAdmittedExecutionRun_def Let_def ex_admission_row_def ex_admission_def)
qed

section \<open>A paired start\<close>

definition ex_paired_event :: RunEvent where
  "ex_paired_event = ex_started\<lparr>ev_ID := event_ID (\<lambda>_. replicate 32 (CHR ''a'')) ''run:1'' 4, ev_Actor := ex_daemon\<rparr>"

lemma ex_paired_next:
  "Next (rc_Encodable ex_CR) (rc_Digest ex_CR) (rc_Hash16 ex_CR) ex_p3 EventRunExecutionStarted ex_daemon 1003
     (startPayload ex_aexec) = Some ex_paired_event"
  by (simp add: Next_def ComputeEventDigest_def Let_def ex_paired_event_def startPayload_def)
    (simp add: ex_CR_def ex_event_defs ex_projection_defs ex_run_def ex_digits wrap64_def)

lemma ex_paired_apply: "Apply (Some ex_p3) ex_paired_event = Inr ex_p4"
proof -
  have "IsIdentifier (ev_ID ex_paired_event)"
    using event_ID_identifier [of "\<lambda>_. replicate 32 (CHR ''a'')" 4 "''run:1''"] ex_formats(2)
    by (simp add: ex_paired_event_def in64_def min64_def max64_def)
  then have "RunEvent_Validate ex_paired_event = None"
    using ex_events_valid(4)
    by (auto simp: RunEvent_Validate_def ex_paired_event_def Let_def validate_simps example_simps split: if_splits)
  then show ?thesis
    by (simp add: Apply.simps) (simp add: ex_paired_event_def ex_apply_defs)
qed

definition ex_heads :: ExecutionHeads where
  "ex_heads = \<lparr>xh_TransactionSequence = 3, xh_TransactionDigest = step_digest 3, xh_RunSequence = 3,
     xh_RunDigest = sample_digest (CHR ''3'')\<rparr>"

lemma ex_start_sel [simp]: "te_TransactionID ex_start = ''tx:1''" "te_Type ex_start = EventAgentExecutionStarted"
  "te_Actor ex_start = ex_daemon" "te_OccurredAt ex_start = 1003" "te_Sequence ex_start = 4"
  "te_ID ex_start = ex_event_id 4"
  by (simp_all add: ex_start_def ex_tx_event_def)

lemma ex_start_digest: "VerifyTransactionEventDigest ex_H ex_start = Some True"
  using ex_atx_events_check(4) by (simp add: checkEventTx_None)

lemma ex_paired_sel [simp]: "ev_RunID ex_paired_event = ''run:1''" "ev_Sequence ex_paired_event = 4"
  "ev_ID ex_paired_event = event_ID (\<lambda>_. replicate 32 (CHR ''a'')) ''run:1'' 4"
  by (simp_all add: ex_paired_event_def ex_event_defs)

lemma ex_receipt_found: "pairedExecutionReceipt ex_start ex_a4 ''run:1'' = Inr ex_aexec"
  by (simp add: pairedExecutionReceipt_def Let_def) (simp add: ex_a_defs)

lemma ex_run_events_derived: "pairedRunEvents ex_CR ex_p3 ex_start ex_aexec = Inr ([ex_paired_event], ex_p4)"
  using ex_paired_next ex_paired_apply by (simp add: pairedRunEvents_def appendRunEvent_def)

lemma ex_paired_digest: "VerifyEventDigest (rc_Digest ex_CR) ex_paired_event = Some True"
  using Next_Some(13) [OF ex_paired_next] by (simp add: VerifyEventDigest_True)

definition ex_run_row4 :: "ex_json head_row" where
  "ex_run_row4 = ex_run_row\<lparr>hr_event_sequence := 4, hr_last_event_digest := pj_LastEventDigest ex_p4,
     hr_json := JRun (pj_Run ex_p4), hr_updated_at := rfc3339nano (ar_UpdatedAt (pj_Run ex_p4))\<rparr>"

definition ex_tx_row4 :: "ex_json head_row" where
  "ex_tx_row4 = ex_tx_row\<lparr>hr_event_sequence := 4, hr_last_event_digest := tj_LastEventDigest ex_a4,
     hr_json := JProjection ex_a4, hr_updated_at := rfc3339nano (tx_UpdatedAt (tj_Transaction ex_a4))\<rparr>"

definition ex_db4 :: "ex_json DB" where
  "ex_db4 = ex_db\<lparr>db_runs := [ex_run_row4],
     db_events := ex_run_rows @ [event_row_of ''team'' ex_paired_event (JEvent ex_paired_event)],
     db_transactions := [ex_tx_row4],
     db_transaction_events := ex_tx_rows @ [tx_event_row_of ''team'' ex_start (JTxEvent ex_start)]\<rparr>"

lemma ex_heads4: "ar_EventSequence (pj_Run ex_p4) = 4" "tx_EventSequence (tj_Transaction ex_a4) = 4"
  by (simp_all add: ex_projection_defs ex_a_defs)

lemma ex_update_run: "updatePairedRun no_faults ex_db ''team'' ex_p3 ex_p4 (JRun (pj_Run ex_p4)) =
    Inr (ex_db\<lparr>db_runs := [ex_run_row4]\<rparr>)"
proof -
  have "hr_event_sequence ex_run_row = 3" "hr_last_event_digest ex_run_row = sample_digest (CHR ''3'')"
    by (simp_all add: ex_run_row_def run_row_of_def)
  then show ?thesis
    by (simp add: updatePairedRun_def Let_def update_heads_def ex_run_key ex_heads4 ex_db_def ex_run_row4_def)
qed

lemma ex_update_tx:
  "updatePairedTransaction no_faults (ex_db\<lparr>db_runs := rs, db_events := es\<rparr>) ''team'' ex_a3 ex_a4 (JProjection ex_a4) =
    Inr (ex_db\<lparr>db_runs := rs, db_events := es, db_transactions := [ex_tx_row4]\<rparr>)"
proof -
  have "hr_event_sequence ex_tx_row = 3" "hr_last_event_digest ex_tx_row = step_digest 3"
    by (simp_all add: ex_tx_row_def tx_row_of_def)
  then show ?thesis
    by (simp add: updatePairedTransaction_def Let_def update_heads_def ex_run_key ex_heads4 ex_db_def ex_tx_row4_def)
qed

lemma ex_rows_keys:
  "map er_event_id ex_run_rows = [ex_event_id 1, ex_event_id 2, ex_event_id 3]"
  "map er_sequence ex_run_rows = [1, 2, 3]"
  "map er_event_id ex_tx_rows = [ex_event_id 1, ex_event_id 2, ex_event_id 3]"
  "map er_sequence ex_tx_rows = [1, 2, 3]"
  by (simp_all add: ex_run_rows_def ex_run_events_def event_row_of_def ex_event_defs ex_tx_rows_def ex_tx_events_def
      tx_event_row_of_def ex_tx_event_def ex_move_def)

lemma ex_fresh_id: "event_ID (\<lambda>_. replicate 32 (CHR ''a'')) i n \<noteq> ex_event_id k"
proof -
  have "CHR ''a'' \<in> set (event_ID (\<lambda>_. replicate 32 (CHR ''a'')) i n)" by (simp add: event_ID_def)
  moreover have "CHR ''a'' \<notin> set (ex_event_id k)" by (simp add: ex_event_id_def)
  ultimately show ?thesis by metis
qed

lemma ex_keys4: "hkey ex_run_row4 = (''team'', ''run:1'')" "hkey ex_tx_row4 = (''team'', ''tx:1'')"
  using ex_run_key by (simp_all add: hkey_def ex_run_row4_def ex_tx_row4_def)

lemma not_in_map: "f x \<notin> set (map f xs) \<Longrightarrow> (g x, f x) \<notin> set (map (\<lambda>y. (g y, f y)) xs)"
  by auto

lemma ex_insert_run: "insert_event_row [ex_run_row4] ex_run_rows (event_row_of ''team'' ex_paired_event j) =
    Some (ex_run_rows @ [event_row_of ''team'' ex_paired_event j])"
proof -
  let ?r = "event_row_of ''team'' ex_paired_event j"
  have "er_sequence ?r \<notin> set (map er_sequence ex_run_rows)" unfolding ex_rows_keys by (simp add: event_row_of_def)
  moreover have "er_event_id ?r \<notin> set (map er_event_id ex_run_rows)"
    unfolding ex_rows_keys using ex_fresh_id by (simp add: event_row_of_def)
  moreover from calculation(1) have "(ekey ?r, er_sequence ?r) \<notin> set (map (\<lambda>x. (ekey x, er_sequence x)) ex_run_rows)"
    by (rule not_in_map)
  moreover have "1 \<le> er_sequence ?r" "ekey ?r \<in> set (map hkey [ex_run_row4])"
    using ex_keys4 by (simp_all add: event_row_of_def ekey_def)
  ultimately show ?thesis unfolding insert_event_row_Some by blast
qed

lemma ex_insert_tx: "insert_event_row [ex_tx_row4] ex_tx_rows (tx_event_row_of ''team'' ex_start j) =
    Some (ex_tx_rows @ [tx_event_row_of ''team'' ex_start j])"
proof -
  let ?r = "tx_event_row_of ''team'' ex_start j"
  have "er_sequence ?r \<notin> set (map er_sequence ex_tx_rows)" unfolding ex_rows_keys by (simp add: tx_event_row_of_def)
  moreover have "er_event_id ?r \<notin> set (map er_event_id ex_tx_rows)"
    unfolding ex_rows_keys by (simp add: tx_event_row_of_def)
  moreover from calculation(1) have "(ekey ?r, er_sequence ?r) \<notin> set (map (\<lambda>x. (ekey x, er_sequence x)) ex_tx_rows)"
    by (rule not_in_map)
  moreover have "1 \<le> er_sequence ?r" "ekey ?r \<in> set (map hkey [ex_tx_row4])"
    using ex_keys4 by (simp_all add: tx_event_row_of_def ekey_def)
  ultimately show ?thesis unfolding insert_event_row_Some by blast
qed

lemma ex_paired_append:
  "AppendPairedExecutionEvent ex_H ex_CR ex_CT (\<lambda>_. False) no_faults ex_db ''team'' ex_heads ex_start =
     (ex_db4, Inr \<lparr>xj_Run = ex_p4, xj_Transaction = ex_a4\<rparr>)"
proof -
  have v: "verifyTransactionEventDigest ex_H ex_start = None" "verifyEventDigest ex_CR ex_paired_event = None"
    by (simp_all add: verifyTransactionEventDigest_def verifyEventDigest_def ex_start_digest ex_paired_digest)
  have d: "db_events (ex_db\<lparr>db_runs := rs\<rparr>) = ex_run_rows" "db_transaction_events (ex_db\<lparr>db_runs := rs, db_events := es,
      db_transactions := ts\<rparr>) = ex_tx_rows" for rs es ts
    by (simp_all add: ex_db_def)
  show ?thesis
    unfolding AppendPairedExecutionEvent_def Let_def settle_Inr
    by (simp add: v ex_loads ex_a4 ex_a4_valid ex_receipt_found ex_run_events_derived ex_update_run ex_update_tx
        ex_heads_def validateNamespace_def example_simps insertEvent_def insertTransactionEvent_def ex_insert_run
        ex_insert_tx runPairedExecutionFault_def d exec_write_def ex_db4_def)
qed

end
