(* ===== verification/Go_Path.thy ===== *)
theory Go_Path
  imports Go_Strings
begin

text \<open>
  Go's package \<^verbatim>\<open>path\<close> on byte strings, as far as the capability compiler and the filesystem driver use
  it: \<^verbatim>\<open>strings.Split\<close> and \<^verbatim>\<open>strings.Join\<close> at slashes, \<^verbatim>\<open>path.IsAbs\<close>, \<^verbatim>\<open>path.Clean\<close>, \<^verbatim>\<open>path.Join\<close>, \<^verbatim>\<open>path.Dir\<close> and
  \<^verbatim>\<open>path.Match\<close>.
\<close>

section \<open>Components\<close>

fun split_on :: "char \<Rightarrow> string \<Rightarrow> string list" where
  "split_on sep [] = [[]]"
| "split_on sep (c # s) = (if c = sep then [] # split_on sep s
     else (case split_on sep s of x # xs \<Rightarrow> (c # x) # xs | [] \<Rightarrow> [[c]]))"

fun join_with :: "char \<Rightarrow> string list \<Rightarrow> string" where
  "join_with sep [] = []"
| "join_with sep [x] = x"
| "join_with sep (x # y # xs) = x @ sep # join_with sep (y # xs)"

lemma split_on_nonempty [simp]: "split_on sep s \<noteq> []"
  by (cases s) (auto split: list.splits)

lemma join_split [simp]: "join_with sep (split_on sep s) = s"
proof (induction s)
  case (Cons c s)
  then show ?case by (cases "split_on sep s"; cases "tl (split_on sep s)") auto
qed simp

lemma split_on_no_sep: "x \<in> set (split_on sep s) \<Longrightarrow> sep \<notin> set x"
proof (induction s arbitrary: x)
  case (Cons c s)
  then show ?case by (cases "split_on sep s") (auto split: if_splits)
qed simp

lemma split_on_plain: "sep \<notin> set x \<Longrightarrow> split_on sep x = [x]"
  by (induction x) auto

lemma split_on_append: "sep \<notin> set x \<Longrightarrow> split_on sep (x @ sep # s) = x # split_on sep s"
  by (induction x) auto

lemma split_join: "xs \<noteq> [] \<Longrightarrow> \<forall>x\<in>set xs. sep \<notin> set x \<Longrightarrow> split_on sep (join_with sep xs) = xs"
  by (induction sep xs rule: join_with.induct) (auto simp: split_on_plain split_on_append)

lemma join_with_Cons: "xs \<noteq> [] \<Longrightarrow> join_with sep (x # xs) = x @ sep # join_with sep xs"
  by (cases xs) auto

lemma split_on_cat: "split_on sep (s @ sep # t) = split_on sep s @ split_on sep t"
proof (induction s)
  case (Cons c s)
  then show ?case by (cases "split_on sep s") auto
qed simp

section \<open>Clean\<close>

definition path_IsAbs :: "string \<Rightarrow> bool" where
  "path_IsAbs p = has_prefix ''/'' p"

text \<open>The lexical simplification, on components: the stack holds what has been written, last first.\<close>

fun clean_components :: "bool \<Rightarrow> string list \<Rightarrow> string list \<Rightarrow> string list" where
  "clean_components rooted stack [] = rev stack"
| "clean_components rooted stack (c # cs) =
     (if c = '''' \<or> c = ''.'' then clean_components rooted stack cs
      else if c = ''..'' then
        (case stack of
           t # ts \<Rightarrow> if t \<noteq> ''..'' then clean_components rooted ts cs
                     else if rooted then clean_components rooted stack cs
                     else clean_components rooted (''..'' # stack) cs
         | [] \<Rightarrow> if rooted then clean_components rooted [] cs else clean_components rooted [''..''] cs)
      else clean_components rooted (c # stack) cs)"

definition path_Clean :: "string \<Rightarrow> string" where
  "path_Clean p = (if p = '''' then ''.'' else
     let rooted = path_IsAbs p; out = join_with (CHR ''/'') (clean_components rooted [] (split_on (CHR ''/'') p))
     in if rooted then CHR ''/'' # out else if out = '''' then ''.'' else out)"

definition path_Join2 :: "string \<Rightarrow> string \<Rightarrow> string" where
  "path_Join2 a b = (if a = '''' \<and> b = '''' then '''' else if a = '''' then path_Clean b
     else if b = '''' then path_Clean a else path_Clean (a @ ''/'' @ b))"

definition path_Dir :: "string \<Rightarrow> string" where
  "path_Dir p = path_Clean (rev (dropWhile (\<lambda>c. c \<noteq> CHR ''/'') (rev p)))"

definition proper_component :: "string \<Rightarrow> bool" where
  "proper_component c \<longleftrightarrow> c \<noteq> '''' \<and> c \<noteq> ''.'' \<and> c \<noteq> ''..''"

lemma clean_components_proper:
  "\<forall>c\<in>set cs. proper_component c \<Longrightarrow> clean_components rooted stack cs = rev stack @ cs"
  by (induction cs arbitrary: stack) (auto simp: proper_component_def)

text \<open>What the stack of a relative path looks like: proper components above leading parent references.\<close>

lemma clean_components_shape:
  "\<forall>c\<in>set upper. proper_component c \<Longrightarrow>
   \<exists>m qs. (\<forall>c\<in>set qs. proper_component c) \<and> clean_components False (upper @ replicate k ''..'') cs = replicate m ''..'' @ qs"
proof (induction cs arbitrary: upper k)
  case Nil
  then show ?case by (intro exI [of _ k] exI [of _ "rev upper"]) simp
next
  case (Cons c cs)
  consider "c = '''' \<or> c = ''.''" | "c = ''..''" "upper = []" | "c = ''..''" "upper \<noteq> []" | "proper_component c"
    unfolding proper_component_def by blast
  then show ?case
  proof cases
    case 1
    then show ?thesis using Cons by auto
  next
    case 2
    from Cons.IH [of "[]" "Suc k"] 2 show ?thesis by (cases k) auto
  next
    case 3
    then obtain t ts where "upper = t # ts" by (cases upper) auto
    with 3 Cons.prems Cons.IH [of ts k] show ?thesis by (auto simp: proper_component_def)
  next
    case 4
    with Cons.prems Cons.IH [of "c # upper" k] show ?thesis by (auto simp: proper_component_def)
  qed
qed

lemma path_Clean_relative_fixed:
  assumes "\<not> path_IsAbs p" and "p \<noteq> ''''"
  shows "path_Clean p = p \<and> p \<noteq> ''.'' \<and> p \<noteq> ''..'' \<and> \<not> has_prefix ''../'' p \<longleftrightarrow>
    (\<forall>c\<in>set (split_on (CHR ''/'') p). proper_component c)"
    (is "?clean \<longleftrightarrow> ?proper")
proof
  assume ?proper
  then have "path_Clean p = p"
    using assms by (simp add: path_Clean_def Let_def clean_components_proper)
  moreover have "p \<noteq> c" if "c = ''.'' \<or> c = ''..''" for c
  proof
    assume "p = c"
    with that have "split_on (CHR ''/'') p = [c]" by auto
    with \<open>?proper\<close> have "proper_component c" by simp
    with that show False by (auto simp: proper_component_def)
  qed
  moreover have "\<not> has_prefix ''../'' p"
  proof
    assume "has_prefix ''../'' p"
    then obtain r where "p = ''..'' @ CHR ''/'' # r" by (auto simp: has_prefix_iff)
    then have "''..'' \<in> set (split_on (CHR ''/'') p)" using split_on_append [of "CHR ''/''" "''..''" r] by simp
    with \<open>?proper\<close> show False by (auto simp: proper_component_def)
  qed
  ultimately show ?clean by blast
next
  assume c: ?clean
  obtain m qs where qs: "\<forall>c\<in>set qs. proper_component c"
    and eq: "clean_components False [] (split_on (CHR ''/'') p) = replicate m ''..'' @ qs"
    using clean_components_shape [of "[]" 0 "split_on (CHR ''/'') p"] by auto
  let ?cs = "replicate m ''..'' @ qs"
  have out: "p = join_with (CHR ''/'') ?cs"
    using c assms eq by (auto simp: path_Clean_def Let_def split: if_splits)
  have "m = 0"
  proof (rule ccontr)
    assume "m \<noteq> 0"
    then obtain n where m: "m = Suc n" by (cases m) auto
    show False
    proof (cases "replicate n ''..'' @ qs")
      case Nil
      with out m have "p = ''..''" by simp
      with c show False by blast
    next
      case (Cons y ys)
      then have "p = ''..'' @ CHR ''/'' # join_with (CHR ''/'') (y # ys)" using out m by simp
      then have "has_prefix ''../'' p" by (simp add: has_prefix_iff)
      with c show False by blast
    qed
  qed
  with out have p: "p = join_with (CHR ''/'') qs" by simp
  then have ne: "qs \<noteq> []" using assms(2) by auto
  have "set (clean_components False [] (split_on (CHR ''/'') p)) \<subseteq> set (split_on (CHR ''/'') p) \<union> {''..''}"
  proof -
    have "set (clean_components False st cs) \<subseteq> set st \<union> set cs \<union> {''..''}" for st cs
      by (induction "False" st cs rule: clean_components.induct) (auto split: list.splits if_splits)
    from this [of "[]"] show ?thesis by simp
  qed
  then have "\<forall>x\<in>set qs. CHR ''/'' \<notin> set x"
    using eq \<open>m = 0\<close> split_on_no_sep by fastforce
  then have "split_on (CHR ''/'') p = qs" unfolding p by (rule split_join [OF ne])
  with qs show ?proper by simp
qed

end
