(* ===== verification/Go_Glob.thy ===== *)
theory Go_Glob
  imports Go_Path
begin

text \<open>
  Go's \<^verbatim>\<open>path.Match\<close> on byte strings, with its functions \<^verbatim>\<open>scanChunk\<close>, \<^verbatim>\<open>matchChunk\<close> and \<^verbatim>\<open>getEsc\<close>. A malformed
  pattern is \<^const>\<open>None\<close>; inside, no match is \<open>Some None\<close> and a match \<open>Some (Some rest)\<close>.
\<close>

section \<open>Runes\<close>

definition cont_byte :: "char \<Rightarrow> nat" where
  "cont_byte c = of_char c mod 64"

text \<open>\<^verbatim>\<open>utf8.DecodeRuneInString\<close>: the code point and its length, \<open>(65533, 1)\<close> for a byte that starts none.\<close>

definition rune_len :: "string \<Rightarrow> nat" where
  "rune_len s = (case s of
     [] \<Rightarrow> 0
   | c # r \<Rightarrow>
       if byte_in 194 223 c \<and> r \<noteq> [] \<and> byte_in 128 191 (r ! 0) then 2
       else if byte_in 224 239 c \<and> 2 \<le> length r \<and>
          byte_in (if c = CHR 0xE0 then 160 else 128) (if c = CHR 0xED then 159 else 191) (r ! 0) \<and>
          byte_in 128 191 (r ! 1) then 3
       else if byte_in 240 244 c \<and> 3 \<le> length r \<and>
          byte_in (if c = CHR 0xF0 then 144 else 128) (if c = CHR 0xF4 then 143 else 191) (r ! 0) \<and>
          byte_in 128 191 (r ! 1) \<and> byte_in 128 191 (r ! 2) then 4
       else 1)"

definition decode_rune :: "string \<Rightarrow> nat \<times> nat" where
  "decode_rune s = (let n = rune_len s; x = of_char (s ! 0) :: nat in
     (if n = 1 \<and> x < 128 then x
      else if n = 2 then (x mod 32) * 64 + cont_byte (s ! 1)
      else if n = 3 then (x mod 16) * 4096 + cont_byte (s ! 1) * 64 + cont_byte (s ! 2)
      else if n = 4 then (x mod 8) * 262144 + cont_byte (s ! 1) * 4096 + cont_byte (s ! 2) * 64 + cont_byte (s ! 3)
      else 65533, n))"

lemma snd_decode_rune [simp]: "snd (decode_rune s) = rune_len s"
  by (simp add: decode_rune_def Let_def)

lemma decode_rune_progress: "s \<noteq> [] \<Longrightarrow> 1 \<le> rune_len s"
  by (auto simp: rune_len_def split: list.splits)

section \<open>Chunks\<close>

text \<open>The bytes up to the next star outside a class; a backslash takes the next byte with it.\<close>

fun scan_plain :: "bool \<Rightarrow> string \<Rightarrow> string \<times> string" where
  "scan_plain inrange [] = ([], [])"
| "scan_plain inrange [c] =
     (if c = CHR ''*'' \<and> \<not> inrange then ([], [c]) else ([c], []))"
| "scan_plain inrange (c # d # s) =
     (if c = CHR 0x5C then (let (a, b) = scan_plain inrange s in (c # d # a, b))
      else if c = CHR ''*'' \<and> \<not> inrange then ([], c # d # s)
      else (let (a, b) = scan_plain (if c = CHR ''['' then True else if c = CHR '']'' then False else inrange) (d # s)
            in (c # a, b)))"

definition scanChunk :: "string \<Rightarrow> bool \<times> string \<times> string" where
  "scanChunk pattern = (let pattern' = dropWhile (\<lambda>c. c = CHR ''*'') pattern
     in (pattern' \<noteq> pattern, scan_plain False pattern'))"

definition getEsc :: "string \<Rightarrow> (nat \<times> string) option" where
  "getEsc chunk = (case chunk of
     [] \<Rightarrow> None
   | c # r \<Rightarrow> if c = CHR ''-'' \<or> c = CHR '']'' then None
       else (let chunk = (if c = CHR 0x5C then r else chunk); (rune, n) = decode_rune chunk in
         if chunk = [] \<or> rune = 65533 \<and> n = 1 \<or> drop n chunk = [] then None
         else Some (rune, drop n chunk)))"

lemma getEsc_shorter: "getEsc chunk = Some (r, rest) \<Longrightarrow> length rest < length chunk \<and> rest \<noteq> []"
proof -
  assume e: "getEsc chunk = Some (r, rest)"
  then obtain c s where c: "chunk = c # s" by (cases chunk) (auto simp: getEsc_def)
  define t where "t = (if c = CHR 0x5C then s else chunk)"
  have t: "length t \<le> length chunk" by (simp add: t_def c)
  from e c have "t \<noteq> []" "rest = drop (snd (decode_rune t)) t" "rest \<noteq> []"
    by (auto simp: getEsc_def Let_def t_def simp del: snd_decode_rune split: if_splits prod.splits)
  with t decode_rune_progress [of t] show ?thesis by (cases t) auto
qed

text \<open>The ranges of a class, up to its closing bracket: whether the rune is in one of them.\<close>

function match_ranges :: "nat \<Rightarrow> bool \<Rightarrow> bool \<Rightarrow> string \<Rightarrow> (bool \<times> string) option" where
  "match_ranges r found more chunk =
     (if more \<and> chunk \<noteq> [] \<and> hd chunk = CHR '']'' then Some (found, tl chunk)
      else case getEsc chunk of
        None \<Rightarrow> None
      | Some (lo, chunk1) \<Rightarrow>
          (if hd chunk1 = CHR ''-'' then
             (case getEsc (tl chunk1) of
                None \<Rightarrow> None
              | Some (hi, chunk2) \<Rightarrow> match_ranges r (found \<or> lo \<le> r \<and> r \<le> hi) True chunk2)
           else match_ranges r (found \<or> r = lo) True chunk1))"
  by pat_completeness auto
termination
  by (relation "measure (\<lambda>(_, _, _, chunk). length chunk)") (auto dest!: getEsc_shorter)

declare match_ranges.simps [simp del]

lemma match_ranges_shorter: "match_ranges r f m chunk = Some (b, rest) \<Longrightarrow> length rest < length chunk"
proof (induction chunk arbitrary: f m rule: length_induct)
  case (1 chunk)
  show ?case
  proof (cases "m \<and> chunk \<noteq> [] \<and> hd chunk = CHR '']''")
    case True
    with "1.prems" show ?thesis by (subst (asm) match_ranges.simps) auto
  next
    case False
    with "1.prems" obtain lo c where e: "getEsc chunk = Some (lo, c)"
      by (subst (asm) match_ranges.simps) (auto split: option.splits if_splits)
    note c = getEsc_shorter [OF e]
    show ?thesis
    proof (cases "hd c = CHR ''-''")
      case True
      with "1.prems" False e obtain hi d where g: "getEsc (tl c) = Some (hi, d)"
        and m: "match_ranges r (f \<or> lo \<le> r \<and> r \<le> hi) True d = Some (b, rest)"
        by (subst (asm) match_ranges.simps) (auto split: option.splits if_splits)
      have "length d < length chunk" using getEsc_shorter [OF g] c by (simp, linarith)
      with "1.IH" m have "length rest < length d" by blast
      with \<open>length d < length chunk\<close> show ?thesis by simp
    next
      case nd: False
      with "1.prems" False e have "match_ranges r (f \<or> r = lo) True c = Some (b, rest)"
        by (subst (asm) match_ranges.simps) (auto split: option.splits if_splits)
      with "1.IH" c have "length rest < length c" by blast
      with c show ?thesis by simp
    qed
  qed
qed

function matchChunk :: "bool \<Rightarrow> string \<Rightarrow> string \<Rightarrow> string option option" where
  "matchChunk failed [] s = (if failed then Some None else Some (Some s))"
| "matchChunk failed (c # chunk) s = (let failed = failed \<or> s = [] in
     if c = CHR ''['' then
       (let (r, n) = (if failed then (0, 0) else decode_rune s);
            negated = chunk \<noteq> [] \<and> hd chunk = CHR ''^''
        in case match_ranges r False False (if negated then tl chunk else chunk) of
             None \<Rightarrow> None
           | Some (found, rest) \<Rightarrow> matchChunk (failed \<or> found = negated) rest (drop n s))
     else if c = CHR ''?'' then
       (if failed then matchChunk True chunk s
        else matchChunk (hd s = CHR ''/'') chunk (drop (rune_len s) s))
     else if c = CHR 0x5C then
       (case chunk of
          [] \<Rightarrow> None
        | d # rest \<Rightarrow> if failed then matchChunk True rest s else matchChunk (d \<noteq> hd s) rest (tl s))
     else if failed then matchChunk True chunk s
     else matchChunk (c \<noteq> hd s) chunk (tl s))"
  by pat_completeness auto
termination
  by (relation "measure (\<lambda>(_, chunk, _). length chunk)") (auto dest!: match_ranges_shorter split: if_splits)

section \<open>Match\<close>

text \<open>After a star: the first position behind at least one byte, before any slash, where the chunk matches.\<close>

fun skip_match :: "string \<Rightarrow> bool \<Rightarrow> string \<Rightarrow> string option option" where
  "skip_match chunk final [] = Some None"
| "skip_match chunk final (c # name) =
     (if c = CHR ''/'' then Some None
      else case matchChunk False chunk name of
        None \<Rightarrow> None
      | Some None \<Rightarrow> skip_match chunk final name
      | Some (Some t) \<Rightarrow> if final \<and> t \<noteq> [] then skip_match chunk final name else Some (Some t))"

lemma scan_plain_cat: "scan_plain b s = (chunk, rest) \<Longrightarrow> s = chunk @ rest"
  by (induction b s arbitrary: chunk rest rule: scan_plain.induct) (auto split: prod.splits if_splits)

lemma scan_plain_progress: "s \<noteq> [] \<Longrightarrow> hd s \<noteq> CHR ''*'' \<Longrightarrow> scan_plain b s = (chunk, rest) \<Longrightarrow> chunk \<noteq> []"
  by (induction b s rule: scan_plain.induct) (auto split: prod.splits if_splits)

lemma scanChunk_shorter:
  assumes "pattern \<noteq> []" and "scanChunk pattern = (star, chunk, rest)"
  shows "length rest < length pattern"
proof (cases "dropWhile (\<lambda>c. c = CHR ''*'') pattern = pattern")
  case True
  from assms(2) have sp: "scan_plain False pattern = (chunk, rest)"
    unfolding scanChunk_def Let_def True by simp
  from True assms(1) have "hd pattern \<noteq> CHR ''*''" by (simp only: dropWhile_eq_self_iff, blast)
  from scan_plain_progress [OF assms(1) this sp] scan_plain_cat [OF sp] show ?thesis by simp
next
  case False
  let ?d = "dropWhile (\<lambda>c. c = CHR ''*'') pattern" and ?t = "takeWhile (\<lambda>c. c = CHR ''*'') pattern"
  have "?t @ ?d = pattern" by (rule takeWhile_dropWhile_id)
  then have len: "length pattern = length ?t + length ?d" and "?t \<noteq> []"
    using False by (metis length_append, metis append_Nil)
  moreover have "scan_plain False ?d = (chunk, rest)"
    using assms(2) unfolding scanChunk_def Let_def prod.inject by blast
  then have "?d = chunk @ rest" by (rule scan_plain_cat)
  then have "length ?d = length chunk + length rest" by simp
  moreover have "0 < length ?t" using \<open>?t \<noteq> []\<close> by blast
  ultimately show ?thesis by linarith
qed

lemma scanChunk_rest [simp]: "pattern \<noteq> [] \<Longrightarrow> length (snd (snd (scanChunk pattern))) < length pattern"
  by (cases "scanChunk pattern") (auto dest: scanChunk_shorter)

text \<open>Whether the remaining chunks are well formed.\<close>

function chunks_ok :: "string \<Rightarrow> bool" where
  "chunks_ok pattern \<longleftrightarrow> (if pattern = [] then True
     else matchChunk False (fst (snd (scanChunk pattern))) [] \<noteq> None \<and> chunks_ok (snd (snd (scanChunk pattern))))"
  by pat_completeness auto
termination
  by (relation "measure length") auto

text \<open>One chunk at the head of the name: what is left of the name, if it matches.\<close>

definition match_step :: "bool \<Rightarrow> string \<Rightarrow> bool \<Rightarrow> string \<Rightarrow> string option option" where
  "match_step star chunk final name = (let retry = (if star then skip_match chunk final name else Some None) in
     case matchChunk False chunk name of
       None \<Rightarrow> None
     | Some None \<Rightarrow> retry
     | Some (Some t) \<Rightarrow> if t = [] \<or> \<not> final then Some (Some t) else retry)"

function path_Match :: "string \<Rightarrow> string \<Rightarrow> bool option" where
  "path_Match pattern name = (if pattern = [] then Some (name = []) else
     (let star = fst (scanChunk pattern); chunk = fst (snd (scanChunk pattern)); rest = snd (snd (scanChunk pattern)) in
        if star \<and> chunk = [] then Some (CHR ''/'' \<notin> set name)
        else case match_step star chunk (rest = []) name of
            None \<Rightarrow> None
          | Some (Some t) \<Rightarrow> path_Match rest t
          | Some None \<Rightarrow> if chunks_ok rest then Some False else None))"
  by pat_completeness auto
termination
  by (relation "measure (\<lambda>(pattern, _). length pattern)") auto

declare chunks_ok.simps [simp del] path_Match.simps [simp del]

section \<open>A pattern without classes stays at its depth\<close>

definition plain_glob :: "string \<Rightarrow> bool" where
  "plain_glob pattern \<longleftrightarrow> CHR ''['' \<notin> set pattern \<and> CHR 0x5C \<notin> set pattern"

definition slashes :: "string \<Rightarrow> nat" where
  "slashes s = count_list s (CHR ''/'')"

lemma slashes_simps [simp]: "slashes [] = 0" "slashes (c # s) = (if c = CHR ''/'' then 1 else 0) + slashes s"
  "slashes (a @ b) = slashes a + slashes b"
  by (simp_all add: slashes_def)

lemma slashes_zero: "slashes s = 0 \<longleftrightarrow> CHR ''/'' \<notin> set s"
  by (simp add: slashes_def count_list_0_iff)

lemma cont_not_slash: "byte_in lo hi b \<Longrightarrow> 128 \<le> lo \<Longrightarrow> b \<noteq> CHR ''/''"
  by (auto simp: byte_in_def)

lemma rune_no_slash:
  assumes "s \<noteq> []" and "hd s \<noteq> CHR ''/''"
  shows "slashes (take (rune_len s) s) = 0"
proof -
  from assms(1) obtain c r where s: "s = c # r" by (cases s) auto
  have "CHR ''/'' \<notin> set (take (rune_len s - 1) r)"
  proof -
    consider "rune_len s - 1 = 0" | "rune_len s - 1 = 1" "1 \<le> length r" "r ! 0 \<noteq> CHR ''/''"
      | "rune_len s - 1 = 2" "2 \<le> length r" "r ! 0 \<noteq> CHR ''/''" "r ! 1 \<noteq> CHR ''/''"
      | "rune_len s - 1 = 3" "3 \<le> length r" "r ! 0 \<noteq> CHR ''/''" "r ! 1 \<noteq> CHR ''/''" "r ! 2 \<noteq> CHR ''/''"
    proof -
      let ?a = "byte_in 194 223 c \<and> r \<noteq> [] \<and> byte_in 128 191 (r ! 0)"
      let ?x = "if c = CHR 0xE0 then 160 else 128 :: nat" and ?y = "if c = CHR 0xF0 then 144 else 128 :: nat"
      let ?b = "byte_in 224 239 c \<and> 2 \<le> length r \<and> byte_in ?x (if c = CHR 0xED then 159 else 191) (r ! 0) \<and>
          byte_in 128 191 (r ! 1)"
      let ?d = "byte_in 240 244 c \<and> 3 \<le> length r \<and> byte_in ?y (if c = CHR 0xF4 then 143 else 191) (r ! 0) \<and>
          byte_in 128 191 (r ! 1) \<and> byte_in 128 191 (r ! 2)"
      have len: "rune_len s = (if ?a then 2 else if ?b then 3 else if ?d then 4 else 1)"
        unfolding s rune_len_def list.case by (rule refl)
      have lo: "128 \<le> ?x" "128 \<le> ?y" by simp_all
      note n = cont_not_slash [OF _ order_refl] cont_not_slash [OF _ lo(1)] cont_not_slash [OF _ lo(2)]
      show thesis
      proof (cases ?a)
        case True
        then have "rune_len s - 1 = 1" "1 \<le> length r" unfolding len by (simp_all add: Suc_le_eq)
        with True n show thesis using that(2) by blast
      next
        case na: False
        show thesis
        proof (cases ?b)
          case True
          then have "rune_len s - 1 = 2" unfolding len using na by simp
          with True n show thesis using that(3) by blast
        next
          case nb: False
          show thesis
          proof (cases ?d)
            case True
            then have "rune_len s - 1 = 3" unfolding len using na nb by simp
            with True n show thesis using that(4) by blast
          next
            case False
            then have "rune_len s - 1 = 0" unfolding len using na nb by simp
            with that(1) show thesis by blast
          qed
        qed
      qed
    qed
    then show ?thesis
    proof cases
      case 2
      then show ?thesis by (cases r) auto
    next
      case 3
      then obtain a b r' where "r = a # b # r'" by (metis Suc_le_length_iff numeral_2_eq_2)
      with 3 show ?thesis by auto
    next
      case 4
      then obtain a b d r' where "r = a # b # d # r'" by (metis Suc_le_length_iff numeral_3_eq_3)
      with 4 show ?thesis by auto
    qed simp
  qed
  then show ?thesis
    using assms(2) decode_rune_progress [OF assms(1)] unfolding s
    by (cases "rune_len (c # r)") (auto simp: slashes_zero)
qed

lemma matchChunk_slashes:
  "matchChunk failed chunk s = Some (Some t) \<Longrightarrow> plain_glob chunk \<Longrightarrow>
     \<not> failed \<and> (\<exists>u. s = u @ t \<and> slashes u = slashes chunk)"
proof (induction failed chunk s rule: matchChunk.induct)
  case (1 failed s)
  then show ?case by (auto split: if_splits)
next
  case (2 failed c chunk s)
  have p: "c \<noteq> CHR ''[''" "c \<noteq> CHR 0x5C" "plain_glob chunk" using "2.prems"(2) by (auto simp: plain_glob_def)
  show ?case
  proof (cases "failed \<or> s = []")
    case True
    with "2.prems"(1) p have "matchChunk True chunk s = Some (Some t)" by (simp add: Let_def split: if_splits)
    with True "2.IH" p show ?thesis by (auto simp: Let_def split: if_splits)
  next
    case False
    then obtain d r where s: "s = d # r" by (cases s) auto
    show ?thesis
    proof (cases "c = CHR ''?''")
      case True
      let ?n = "rune_len s"
      from True False p "2.prems"(1) have "matchChunk (hd s = CHR ''/'') chunk (drop ?n s) = Some (Some t)"
        by (simp add: Let_def)
      from "2.IH"(3) [OF refl p(1) True _ this p(3)] False obtain u where
        u: "hd s \<noteq> CHR ''/''" "drop ?n s = u @ t" "slashes u = slashes chunk" by auto
      have "s = (take ?n s @ u) @ t" using u(2) by (metis append.assoc append_take_drop_id)
      moreover have "slashes (take ?n s @ u) = slashes (c # chunk)" using rune_no_slash [of s] u True False by simp
      ultimately show ?thesis using False by blast
    next
      case nq: False
      from nq False p "2.prems"(1) s have "matchChunk (c \<noteq> hd s) chunk (tl s) = Some (Some t)"
        by (simp add: Let_def)
      with "2.IH" False nq p have "\<not> c \<noteq> hd s \<and> (\<exists>u. tl s = u @ t \<and> slashes u = slashes chunk)"
        by (simp add: Let_def)
      then obtain u where "c = d" "r = u @ t" "slashes u = slashes chunk" using s by auto
      then have "s = (d # u) @ t \<and> slashes (d # u) = slashes (c # chunk)" using s by simp
      then show ?thesis using False by blast
    qed
  qed
qed

lemma skip_match_slashes:
  "skip_match chunk final name = Some (Some t) \<Longrightarrow> plain_glob chunk \<Longrightarrow>
     \<exists>u. name = u @ t \<and> slashes u = slashes chunk"
proof (induction chunk final name rule: skip_match.induct)
  case (2 chunk final c name)
  then have c: "c \<noteq> CHR ''/''" by (auto split: if_splits)
  then have step: "(matchChunk False chunk name = Some None \<or>
      (\<exists>v. matchChunk False chunk name = Some (Some v) \<and> final \<and> v \<noteq> [])) \<and> skip_match chunk final name = Some (Some t) \<or>
    matchChunk False chunk name = Some (Some t)"
    using "2.prems"(1) by (auto split: option.splits if_splits)
  have "\<exists>u. name = u @ t \<and> slashes u = slashes chunk"
  proof (cases "matchChunk False chunk name = Some (Some t)")
    case True
    with matchChunk_slashes "2.prems"(2) show ?thesis by blast
  next
    case False
    with step have "skip_match chunk final name = Some (Some t)"
      "matchChunk False chunk name = Some None \<or> (\<exists>v. matchChunk False chunk name = Some (Some v) \<and> final \<and> v \<noteq> [])"
      by blast+
    with "2.IH" [OF c] "2.prems"(2) show ?thesis by auto
  qed
  then obtain u where "c # name = (c # u) @ t \<and> slashes (c # u) = slashes chunk" using c by auto
  then show ?case by blast
qed simp

lemma scanChunk_cat:
  "\<exists>stars. pattern = stars @ fst (snd (scanChunk pattern)) @ snd (snd (scanChunk pattern)) \<and> set stars \<subseteq> {CHR ''*''}"
proof -
  let ?d = "dropWhile (\<lambda>c. c = CHR ''*'') pattern" and ?t = "takeWhile (\<lambda>c. c = CHR ''*'') pattern"
  have "?d = fst (snd (scanChunk pattern)) @ snd (snd (scanChunk pattern))"
    unfolding scanChunk_def Let_def snd_conv by (rule scan_plain_cat) simp
  moreover have "pattern = ?t @ ?d" by simp
  moreover have "set ?t \<subseteq> {CHR ''*''}" by (auto dest: set_takeWhileD)
  ultimately show ?thesis by metis
qed

lemma slashes_stars: "set stars \<subseteq> {CHR ''*''} \<Longrightarrow> slashes stars = 0"
  by (auto simp: slashes_zero)

lemma path_Match_slashes:
  "path_Match pattern name = Some True \<Longrightarrow> plain_glob pattern \<Longrightarrow> slashes name = slashes pattern"
proof (induction pattern name rule: path_Match.induct)
  case (1 pattern name)
  show ?case
  proof (cases "pattern = []")
    case True
    with "1.prems"(1) show ?thesis by (subst (asm) path_Match.simps) simp
  next
    case False
    let ?chunk = "fst (snd (scanChunk pattern))" and ?rest = "snd (snd (scanChunk pattern))"
    obtain stars where cat: "pattern = stars @ ?chunk @ ?rest" and stars: "set stars \<subseteq> {CHR ''*''}"
      using scanChunk_cat by blast
    have plain: "plain_glob ?chunk" "plain_glob ?rest"
      using "1.prems"(2) cat unfolding plain_glob_def by (metis Un_iff set_append)+
    have sl: "slashes pattern = slashes ?chunk + slashes ?rest"
      using slashes_stars [OF stars] cat by (metis add_0 slashes_simps(3))
    show ?thesis
    proof (cases "fst (scanChunk pattern) \<and> ?chunk = []")
      case True
      with False "1.prems"(1) have "CHR ''/'' \<notin> set name" by (subst (asm) path_Match.simps) (simp add: Let_def)
      moreover have "?rest = []"
      proof (rule ccontr)
        assume ne: "?rest \<noteq> []"
        let ?d = "dropWhile (\<lambda>c. c = CHR ''*'') pattern"
        have sp: "scan_plain False ?d = (?chunk, ?rest)" by (simp add: scanChunk_def Let_def)
        then have "?d \<noteq> []" using ne scan_plain_cat [OF sp] by simp
        moreover have "hd ?d \<noteq> CHR ''*''" using hd_dropWhile [OF \<open>?d \<noteq> []\<close>] by blast
        ultimately have "?chunk \<noteq> []" by (rule scan_plain_progress [OF _ _ sp])
        with True show False by simp
      qed
      ultimately have "slashes name = 0" "slashes pattern = 0" using True sl by (simp_all add: slashes_zero)
      then show ?thesis by simp
    next
      case nt: False
      with False "1.prems"(1) obtain t where
        m: "match_step (fst (scanChunk pattern)) ?chunk (?rest = []) name = Some (Some t)"
        and p: "path_Match ?rest t = Some True"
        by (subst (asm) path_Match.simps) (auto simp: Let_def split: option.splits if_splits)
      from m have "\<exists>u. name = u @ t \<and> slashes u = slashes ?chunk"
        using matchChunk_slashes [OF _ plain(1)] skip_match_slashes [OF _ plain(1)]
        by (fastforce simp: match_step_def Let_def split: option.splits if_splits)
      moreover have "slashes t = slashes ?rest"
        using "1.IH" [OF False refl refl refl nt m refl p plain(2)] .
      ultimately show ?thesis using sl by auto
    qed
  qed
qed

end
