(* ===== verification/Capability.thy ===== *)
theory Capability
  imports Go_Glob Run_Reducer "HOL-Library.Sublist"
begin

text \<open>
  \<^verbatim>\<open>capability/compiler.go\<close>: clean logical paths, the matching of resources against selectors, the grants a
  contract is compiled to, and the installed grants and their uses as read from a run's events. The
  map of grants is the list of its values in the order of insertion; its keys are their identifiers.
  The hash (hexadecimal, of the first 16 bytes of SHA-256) is a parameter.
\<close>

section \<open>Logical paths\<close>

definition CleanLogicalPath :: "string \<Rightarrow> string option" where
  "CleanLogicalPath value =
     (if value = '''' \<or> CHR 0x5C \<in> set value \<or> has_nul value \<or> path_IsAbs value then None
      else let clean = path_Clean value in
        if clean = ''.'' \<or> clean = ''..'' \<or> has_prefix ''../'' clean \<or> clean \<noteq> value then None else Some clean)"

definition WorkspaceRelative :: "string \<Rightarrow> string \<Rightarrow> string option" where
  "WorkspaceRelative workspaceRoot target =
     (case CleanLogicalPath workspaceRoot of
        None \<Rightarrow> None
      | Some root \<Rightarrow> (case CleanLogicalPath target of
          None \<Rightarrow> None
        | Some cleanTarget \<Rightarrow>
            if cleanTarget = root then None
            else if \<not> has_prefix (root @ ''/'') cleanTarget then None
            else Some (drop (length root + 1) cleanTarget)))"

definition MatchResource :: "string \<Rightarrow> string \<Rightarrow> bool" where
  "MatchResource selector target =
     (case CleanLogicalPath target of
        None \<Rightarrow> False
      | Some cleanTarget \<Rightarrow>
          if suffix ''/**'' selector then
            (case CleanLogicalPath (take (length selector - 3) selector) of
               None \<Rightarrow> False
             | Some cleanBase \<Rightarrow> cleanTarget = cleanBase \<or> has_prefix (cleanBase @ ''/'') cleanTarget)
          else if path_Clean selector \<noteq> selector \<or> CHR 0x5C \<in> set selector \<or> path_IsAbs selector then False
          else path_Match selector cleanTarget = Some True)"

section \<open>Compilation\<close>

definition stableID :: "(string \<Rightarrow> string) \<Rightarrow> string \<Rightarrow> string list \<Rightarrow> string" where
  "stableID hash16 kind values = kind @ '':'' @ hash16 (concat (map (\<lambda>value. value @ [CHR 0x00]) values))"

definition defaultGrantTTL :: int64 where
  "defaultGrantTTL = 3600000000000"

definition capabilityServicePrincipal :: Principal where
  "capabilityServicePrincipal = \<lparr>pr_ID = ''service:gatemoled'', pr_Kind = PrincipalService, pr_Issuer = ''gatemoled'',
     pr_ClaimsDigest = ''''\<rparr>"

definition compileError :: "ErrorCode \<Rightarrow> string \<Rightarrow> KernelError" where
  "compileError code resource = newError code ''compile_capabilities'' resource ''''"

definition validateFilesystemScope :: "ContractResource \<Rightarrow> KernelError option" where
  "validateFilesystemScope resource =
     (case CleanLogicalPath (cc_WorkspaceRoot (cr_Conditions resource)) of
        None \<Rightarrow> Some (compileError ErrorSchemaInvalid (cr_ID resource))
      | Some root \<Rightarrow> let pattern = rs_Pattern (cr_Selector resource) in first_error
          [fail_if (pattern \<noteq> root \<and> \<not> has_prefix (root @ ''/'') pattern)
             (compileError ErrorCapabilityDenied (cr_ID resource)),
           check_each (\<lambda>_ operation. fail_if (operation \<noteq> ''filesystem.read'' \<and> operation \<noteq> ''filesystem.write'')
             (compileError ErrorSchemaInvalid (cr_ID resource))) 0 (cr_Operations resource)])"

text \<open>The grant of one resource, and the loop over the resources of the contract.\<close>

definition compileGrant :: "(string \<Rightarrow> string) \<Rightarrow> ExecutionContract \<Rightarrow> AgentRun \<Rightarrow> time \<Rightarrow> time \<Rightarrow>
    ContractResource \<Rightarrow> CapabilityGrant" where
  "compileGrant hash16 contract run issuedAt expiresAt resource = \<lparr>
     cg_Version = ''gatemole.capability_grant.v0'',
     cg_ID = stableID hash16 ''cap'' [ec_Digest contract, ar_ID run, cr_ID resource],
     cg_SubjectRunID = ar_ID run, cg_Issuer = capabilityServicePrincipal, cg_Resource = cr_Selector resource,
     cg_Operations = cr_Operations resource, cg_Conditions = cr_Conditions resource, cg_Delegable = False,
     cg_DelegationParentID = '''', cg_IssuedAt = issuedAt, cg_ExpiresAt = expiresAt, cg_RevokedAt = None,
     cg_MaxUses = MaxToolCalls (ec_Budgets contract), cg_Uses = 0,
     cg_PolicyDecisionID = stableID hash16 ''decision'' [ec_Digest contract, ar_ID run]\<rparr>"

fun compileResources :: "(string \<Rightarrow> string) \<Rightarrow> ExecutionContract \<Rightarrow> AgentRun \<Rightarrow> time \<Rightarrow> time \<Rightarrow>
    ContractResource list \<Rightarrow> KernelError + CapabilityGrant list" where
  "compileResources hash16 contract run issuedAt expiresAt [] = Inr []"
| "compileResources hash16 contract run issuedAt expiresAt (resource # resources) =
     (let grant = compileGrant hash16 contract run issuedAt expiresAt resource in
      ok_then (first_error
        [if rs_Kind (cr_Selector resource) = ''filesystem'' then validateFilesystemScope resource else None,
         CapabilityGrant_Validate grant])
      (bind_res (compileResources hash16 contract run issuedAt expiresAt resources) (\<lambda>grants. Inr (grant # grants))))"

definition earlier :: "time option \<Rightarrow> time \<Rightarrow> time" where
  "earlier deadline expiresAt = (case deadline of None \<Rightarrow> expiresAt | Some t \<Rightarrow> if t < expiresAt then t else expiresAt)"

definition Compile :: "(string \<Rightarrow> string) \<Rightarrow> ExecutionContract \<Rightarrow> AgentRun \<Rightarrow> time \<Rightarrow> KernelError + CapabilityGrant list" where
  "Compile hash16 contract run issuedAt = ok_then (first_error
     [ExecutionContract_Validate contract,
      AgentRun_Validate run,
      fail_if (ec_Digest contract \<noteq> ar_ContractDigest run) (compileError ErrorCapabilityDenied (ar_ID run)),
      fail_if (RunState_Terminal (ar_State run)) (compileError ErrorCapabilityDenied (ar_ID run)),
      fail_if (issuedAt = 0) (compileError ErrorSchemaInvalid (ar_ID run))])
     (let expiresAt = earlier (ec_Deadline contract) (earlier (ar_Deadline run) (issuedAt + defaultGrantTTL)) in
      ok_then (fail_if (\<not> expiresAt > issuedAt) (compileError ErrorCapabilityExpired (ar_ID run)))
      (bind_res (compileResources hash16 contract run issuedAt expiresAt (ec_Resources contract)) (\<lambda>grants.
        ok_then (fail_if (grants = []) (compileError ErrorCapabilityDenied (ar_ID run))) (Inr grants))))"

section \<open>Installed grants\<close>

fun addGrants :: "CapabilityGrant list \<Rightarrow> CapabilityGrant list \<Rightarrow> KernelError + CapabilityGrant list" where
  "addGrants grants [] = Inr grants"
| "addGrants grants (grant # others) = ok_then (first_error
     [CapabilityGrant_Validate grant,
      fail_if (cg_ID grant \<in> set (map cg_ID grants))
        (newError ErrorEventChain ''replay_capabilities'' (cg_ID grant) '''')])
     (addGrants (grants @ [grant]) others)"

fun grantsFrom :: "CapabilityGrant list \<Rightarrow> (string \<Rightarrow> int64) \<Rightarrow> RunEvent list \<Rightarrow>
    KernelError + CapabilityGrant list \<times> (string \<Rightarrow> int64)" where
  "grantsFrom grants uses [] = Inr (grants, uses)"
| "grantsFrom grants uses (event # events) = (case ev_Type event of
     EventCapabilitiesGranted \<Rightarrow> bind_res (DecodePayloadStrict as_granted event) (\<lambda>payload.
       bind_res (addGrants grants (gp_Grants payload)) (\<lambda>grants. grantsFrom grants uses events))
   | EventActionAuthorized \<Rightarrow> bind_res (DecodePayloadStrict as_decision event) (\<lambda>payload.
       grantsFrom grants (uses(dp_CapabilityID payload := wrap64 (uses (dp_CapabilityID payload) + 1))) events)
   | _ \<Rightarrow> grantsFrom grants uses events)"

definition GrantsFromEvents :: "RunEvent list \<Rightarrow> KernelError + CapabilityGrant list \<times> (string \<Rightarrow> int64)" where
  "GrantsFromEvents events = grantsFrom [] (\<lambda>_. 0) events"

section \<open>Paths as components\<close>

definition components :: "string \<Rightarrow> string list" where
  "components p = split_on (CHR ''/'') p"

definition logical_path :: "string \<Rightarrow> bool" where
  "logical_path p \<longleftrightarrow> CHR 0x5C \<notin> set p \<and> \<not> has_nul p \<and> (\<forall>c\<in>set (components p). proper_component c)"

lemma CleanLogicalPath_iff: "CleanLogicalPath p = Some c \<longleftrightarrow> logical_path p \<and> c = p"
proof (cases "p = '''' \<or> path_IsAbs p")
  case True
  have "'''' \<in> set (components p)"
  proof (cases "p = ''''")
    case False
    with True obtain r where "p = CHR ''/'' # r" by (auto simp: path_IsAbs_def has_prefix_iff)
    then show ?thesis by (simp add: components_def)
  qed (simp add: components_def)
  then have "\<not> logical_path p" by (auto simp: logical_path_def proper_component_def)
  with True show ?thesis by (auto simp: CleanLogicalPath_def)
next
  case False
  then have abs: "\<not> path_IsAbs p" and ne: "p \<noteq> ''''" by blast+
  have "(\<forall>c\<in>set (components p). proper_component c) \<longleftrightarrow>
      path_Clean p = p \<and> p \<noteq> ''.'' \<and> p \<noteq> ''..'' \<and> \<not> has_prefix ''../'' p"
    unfolding components_def using path_Clean_relative_fixed [OF abs ne] by blast
  with abs ne show ?thesis unfolding logical_path_def CleanLogicalPath_def Let_def by auto
qed

lemma CleanLogicalPath_None: "CleanLogicalPath p = None \<longleftrightarrow> \<not> logical_path p"
  using CleanLogicalPath_iff by (metis not_None_eq)

lemma components_append: "components (p @ CHR ''/'' # q) = components p @ components q"
  by (simp add: components_def split_on_cat)

lemma components_inject: "components p = components q \<longleftrightarrow> p = q"
  using join_split unfolding components_def by metis

lemma below_iff: "has_prefix (p @ ''/'') q \<longleftrightarrow> strict_prefix (components p) (components q)"
proof
  assume "has_prefix (p @ ''/'') q"
  then obtain r where "q = p @ CHR ''/'' # r" by (auto simp: has_prefix_iff)
  then show "strict_prefix (components p) (components q)"
    unfolding components_def by (simp add: split_on_cat strict_prefix_def)
next
  assume "strict_prefix (components p) (components q)"
  then obtain x xs where e: "components q = components p @ x # xs" by (auto elim: strict_prefixE')
  let ?r = "join_with (CHR ''/'') (x # xs)"
  have "\<forall>y\<in>set (components q). CHR ''/'' \<notin> set y" unfolding components_def using split_on_no_sep by blast
  then have "\<forall>y\<in>set (x # xs). CHR ''/'' \<notin> set y" unfolding e by simp
  then have "components ?r = x # xs" unfolding components_def by (rule split_join [rotated]) simp
  then have "components q = components (p @ CHR ''/'' # ?r)" using e by (simp only: components_append)
  then have "q = p @ CHR ''/'' # ?r" by (simp only: components_inject)
  then show "has_prefix (p @ ''/'') q" by (simp add: has_prefix_iff)
qed

lemma prefix_or_eq: "p = q \<or> has_prefix (p @ ''/'') q \<longleftrightarrow> prefix (components p) (components q)"
  unfolding below_iff by (auto simp: strict_prefix_def components_inject)

lemma WorkspaceRelative_iff:
  "WorkspaceRelative root target = Some r \<longleftrightarrow>
     logical_path root \<and> logical_path target \<and> target = root @ CHR ''/'' # r"
proof -
  have "has_prefix (root @ ''/'') target \<and> r = drop (length root + 1) target \<longleftrightarrow> target = root @ CHR ''/'' # r"
    by (auto simp: has_prefix_iff)
  moreover have "root \<noteq> root @ CHR ''/'' # r" by simp
  ultimately show ?thesis
    unfolding WorkspaceRelative_def using CleanLogicalPath_None CleanLogicalPath_iff
    by (auto split: option.splits if_splits)
qed

lemma MatchResource_tree:
  "MatchResource (base @ ''/**'') target \<longleftrightarrow>
     logical_path base \<and> logical_path target \<and> prefix (components base) (components target)"
proof -
  have "suffix ''/**'' (base @ ''/**'')" by (simp add: suffix_def)
  moreover have "take (length (base @ ''/**'') - 3) (base @ ''/**'') = base" by simp
  ultimately have "MatchResource (base @ ''/**'') target \<longleftrightarrow>
      logical_path base \<and> logical_path target \<and> (base = target \<or> has_prefix (base @ ''/'') target)"
    unfolding MatchResource_def using CleanLogicalPath_None CleanLogicalPath_iff
    by (auto split: option.splits)
  then show ?thesis unfolding prefix_or_eq .
qed

lemma MatchResource_target: "MatchResource selector target \<Longrightarrow> logical_path target"
  unfolding MatchResource_def using CleanLogicalPath_iff by (auto split: option.splits)

lemma length_components: "length (components p) = Suc (slashes p)"
proof (induction p)
  case (Cons c p)
  have "components p \<noteq> []" by (simp add: components_def)
  with Cons show ?case by (cases "components p") (auto simp: components_def)
qed (simp add: components_def)

lemma MatchResource_glob:
  assumes "MatchResource selector target" and "\<not> suffix ''/**'' selector" and "CHR ''['' \<notin> set selector"
  shows "length (components target) = length (components selector)"
proof -
  from assms(1,2) have "CHR 0x5C \<notin> set selector" "path_Match selector target = Some True"
    unfolding MatchResource_def using CleanLogicalPath_iff by (auto split: option.splits if_splits)
  with assms(3) path_Match_slashes [of selector target] show ?thesis
    by (simp add: length_components plain_glob_def)
qed

section \<open>What compilation gives\<close>

lemma earlier_le: "earlier d e \<le> e" "d = Some t \<Longrightarrow> earlier d e \<le> t"
  by (auto simp: earlier_def split: option.splits)

lemma compileResources_Inr:
  "compileResources h contract run issued expires resources = Inr grants \<Longrightarrow>
     grants = map (compileGrant h contract run issued expires) resources \<and>
     (\<forall>g\<in>set grants. CapabilityGrant_Validate g = None) \<and>
     (\<forall>r\<in>set resources. rs_Kind (cr_Selector r) = ''filesystem'' \<longrightarrow> validateFilesystemScope r = None)"
  by (induction resources arbitrary: grants) (auto simp: Let_def split: if_splits)

lemma filesystem_scope:
  assumes "validateFilesystemScope resource = None"
  shows "logical_path (cc_WorkspaceRoot (cr_Conditions resource)) \<and>
     prefix (components (cc_WorkspaceRoot (cr_Conditions resource))) (components (rs_Pattern (cr_Selector resource))) \<and>
     set (cr_Operations resource) \<subseteq> {''filesystem.read'', ''filesystem.write''}"
proof -
  from assms obtain root where "CleanLogicalPath (cc_WorkspaceRoot (cr_Conditions resource)) = Some root"
    by (auto simp: validateFilesystemScope_def split: option.splits)
  then have r: "root = cc_WorkspaceRoot (cr_Conditions resource)" "logical_path root"
    using CleanLogicalPath_iff by auto
  with assms have "root = rs_Pattern (cr_Selector resource) \<or> has_prefix (root @ ''/'') (rs_Pattern (cr_Selector resource))"
    and "\<forall>x\<in>set (cr_Operations resource). x = ''filesystem.read'' \<or> x = ''filesystem.write''"
    using CleanLogicalPath_iff
    by (auto simp: validateFilesystemScope_def Let_def check_each_None split: option.splits)
  then show ?thesis using r unfolding prefix_or_eq by blast
qed

lemma Compile_Inr:
  assumes "Compile h contract run issued = Inr grants"
  obtains expires where "ec_Digest contract = ar_ContractDigest run" and "\<not> RunState_Terminal (ar_State run)"
    and "issued < expires" and "expires \<le> issued + defaultGrantTTL"
    and "\<And>t. ar_Deadline run = Some t \<Longrightarrow> expires \<le> t" and "\<And>t. ec_Deadline contract = Some t \<Longrightarrow> expires \<le> t"
    and "grants = map (compileGrant h contract run issued expires) (ec_Resources contract)" and "grants \<noteq> []"
    and "\<forall>g\<in>set grants. CapabilityGrant_Validate g = None"
    and "\<forall>r\<in>set (ec_Resources contract). rs_Kind (cr_Selector r) = ''filesystem'' \<longrightarrow> validateFilesystemScope r = None"
proof -
  let ?e = "earlier (ec_Deadline contract) (earlier (ar_Deadline run) (issued + defaultGrantTTL))"
  from assms have c: "compileResources h contract run issued ?e (ec_Resources contract) = Inr grants"
    and "grants \<noteq> []" "issued < ?e" "ec_Digest contract = ar_ContractDigest run" "\<not> RunState_Terminal (ar_State run)"
    by (auto simp: Compile_def Let_def)
  moreover have "?e \<le> issued + defaultGrantTTL" "\<And>t. ar_Deadline run = Some t \<Longrightarrow> ?e \<le> t"
    "\<And>t. ec_Deadline contract = Some t \<Longrightarrow> ?e \<le> t"
    using earlier_le by (meson order_trans)+
  ultimately show thesis using that compileResources_Inr [OF c] by blast
qed

section \<open>What the history installs\<close>

lemma addGrants_Inr:
  "addGrants grants more_grants = Inr out \<Longrightarrow> distinct (map cg_ID grants) \<Longrightarrow>
     out = grants @ more_grants \<and> distinct (map cg_ID out)"
proof (induction grants more_grants rule: addGrants.induct)
  case (2 grants grant others)
  from "2.prems" have "cg_ID grant \<notin> set (map cg_ID grants)" "addGrants (grants @ [grant]) others = Inr out"
    and v: "first_error [CapabilityGrant_Validate grant, fail_if (cg_ID grant \<in> set (map cg_ID grants))
        (newError ErrorEventChain ''replay_capabilities'' (cg_ID grant) '''')] = None"
    by simp_all
  then have "distinct (map cg_ID (grants @ [grant]))" using "2.prems"(2) by simp
  from "2.IH" [OF \<open>addGrants (grants @ [grant]) others = Inr out\<close> this] show ?case
    by (metis append.assoc append_Cons append_Nil)
qed simp

lemma bind_res_assoc: "bind_res (bind_res m f) k = bind_res m (\<lambda>x. bind_res (f x) k)"
  by (simp add: bind_res_def split: sum.splits)

lemma grantsFrom_append:
  "grantsFrom g u (xs @ ys) = bind_res (grantsFrom g u xs) (\<lambda>(g', u'). grantsFrom g' u' ys)"
proof (induction xs arbitrary: g u)
  case (Cons e xs)
  then show ?case
    by (cases "ev_Type e") (simp_all add: bind_res_assoc fun_upd_def)
qed simp

end
