(* ===== verification/Admission.thy ===== *)
theory Admission
  imports Capability Run_Store Transaction_Events Transaction_Projection
begin

text \<open>
  \<^verbatim>\<open>admission/admission.go\<close>: the daemon turns a task request into the authority for one run: a contract, a
  task, a run with its grants, and the transaction the run works for, together with the three run
  events and the one transaction event that create them.

  Parameters are the digests of a contract and of a request (SHA-256 over JSON), which transaction
  payloads the encoder accepts, and the codec and hashing of the two ledgers. An error that is not a
  kernel error is \<^term>\<open>Inl None\<close>. \<^verbatim>\<open>reflect.DeepEqual\<close> is equality of the modelled values: a nil and an
  empty slice, and the location of a time, are not told apart.
\<close>

section \<open>Requests and results\<close>

record ContractSpec =
  cn_Risk :: string
  cn_Resources :: "ContractResource list"
  cn_Budgets :: BudgetLimits
  cn_Deadline :: "time option"
  cn_MaxChildDepth :: "int64 option"
  cn_MaxChildren :: "int64 option"
  cn_Checkpoints :: "CheckpointRequirement list"
  cn_Obligations :: "ContractObligation list"
  cn_Escalation :: "EscalationPolicy option"
  cn_ReleaseContractRef :: string

record AdmissionRequest =
  rq_Version :: string
  rq_ExpectedRuntimeID :: string
  rq_ExpectedEnforcementProfile :: string
  rq_IdempotencyKey :: string
  rq_TransactionID :: string
  rq_RunID :: string
  rq_Intent :: string
  rq_AgentProfile :: AgentTaskProfileBinding
  rq_Sponsor :: Principal
  rq_Actor :: Principal
  rq_Contract :: ContractSpec

record AdmissionResult =
  an_Version :: string
  an_RuntimeID :: string
  an_EnforcementProfile :: string
  an_IdempotencyKey :: string
  an_RequestDigest :: string
  an_Task :: AgentTask
  an_Contract :: ExecutionContract
  an_Run :: Projection
  an_Grants :: "CapabilityGrant list"
  an_Transaction :: ProjectionTx

record Prepared =
  pp_Namespace :: string
  pp_IdempotencyKey :: string
  pp_RequestDigest :: string
  pp_Result :: AdmissionResult
  pp_RunEvents :: "RunEvent list"
  pp_TransactionEvent :: TransactionEvent

record AdmissionHashing =
  nh_Contract :: "ExecutionContract \<Rightarrow> string option"
  nh_Request :: "string \<Rightarrow> AdmissionRequest \<Rightarrow> string option"
  nh_TxEncodable :: "TransactionPayload \<Rightarrow> bool"

definition LegacyRequestVersion :: string where "LegacyRequestVersion = ''gatemole.task_admission_request.v0''"
definition RequestVersion :: string where "RequestVersion = ''gatemole.task_admission_request.v1''"
definition LegacyResultVersion :: string where "LegacyResultVersion = ''gatemole.task_admission.v0''"
definition ResultVersion :: string where "ResultVersion = ''gatemole.task_admission.v1''"

definition admissionError :: "ErrorCode \<Rightarrow> string \<Rightarrow> string \<Rightarrow> KernelError" where
  "admissionError code operation resource = newError code operation resource ''''"

definition kernel_res :: "KernelError + 'a \<Rightarrow> KernelError option + 'a" where
  "kernel_res r = (case r of Inl err \<Rightarrow> Inl (Some err) | Inr x \<Rightarrow> Inr x)"

definition other_res :: "'a option \<Rightarrow> KernelError option + 'a" where
  "other_res r = (case r of None \<Rightarrow> Inl None | Some x \<Rightarrow> Inr x)"

definition check :: "KernelError option \<Rightarrow> KernelError option option" where
  "check e = map_option Some e"

lemma lifted_Inr [simp]: "kernel_res r = Inr x \<longleftrightarrow> r = Inr x" "other_res v = Inr x \<longleftrightarrow> v = Some x" "check e = None \<longleftrightarrow> e = None"
  by (simp_all add: kernel_res_def other_res_def check_def split: sum.splits option.splits)

section \<open>Digests\<close>

definition ComputeExecutionContractDigest :: "AdmissionHashing \<Rightarrow> ExecutionContract \<Rightarrow> string option" where
  "ComputeExecutionContractDigest N contract = nh_Contract N (contract\<lparr>ec_Digest := ''''\<rparr>)"

definition ComputeRequestDigest :: "AdmissionHashing \<Rightarrow> string \<Rightarrow> AdmissionRequest \<Rightarrow> KernelError + string" where
  "ComputeRequestDigest N namespace request = (let op = ''compute_admission_request_digest'' in
     ok_then (fail_if (\<not> IsIdentifier namespace) (admissionError ErrorSchemaInvalid op namespace))
     (let normalized = request\<lparr>rq_IdempotencyKey := '''', rq_Actor := (rq_Actor request)\<lparr>pr_ClaimsDigest := ''''\<rparr>\<rparr> in
      case nh_Request N namespace normalized of
        None \<Rightarrow> Inl (admissionError ErrorInternal op (rq_TransactionID request))
      | Some digest \<Rightarrow> Inr digest))"

section \<open>Validation\<close>

definition checkResultVersion :: "AdmissionResult \<Rightarrow> KernelError option" where
  "checkResultVersion result = (let wrong = (\<lambda>resource. admissionError ErrorEventChain ''validate_task_admission'' resource) in
     if an_Version result = LegacyResultVersion then
       fail_if (an_RuntimeID result \<noteq> '''' \<or> an_EnforcementProfile result \<noteq> '''') (wrong (an_RuntimeID result))
     else if an_Version result = ResultVersion then
       fail_if (\<not> IsRuntimeID (an_RuntimeID result) \<or> \<not> IsEnforcementProfile (an_EnforcementProfile result))
         (wrong (an_RuntimeID result))
     else Some (wrong (an_Version result)))"

text \<open>The long disjunction of \<^verbatim>\<open>Result.Validate\<close>: the parts of the admission name each other.\<close>

definition resultBound :: "string \<Rightarrow> AdmissionResult \<Rightarrow> bool" where
  "resultBound namespace result \<longleftrightarrow> (let run = pj_Run (an_Run result); tx = tj_Transaction (an_Transaction result);
       task = an_Task result; contract = an_Contract result in
     ar_State run = RunAdmitted \<and> ar_EventSequence run = 3 \<and> tx_State tx = TransactionCreated \<and> tx_EventSequence tx = 1 \<and>
     (case tx_Admission tx of None \<Rightarrow> False | Some binding \<Rightarrow>
        ab_RuntimeID binding = an_RuntimeID result \<and> ab_EnforcementProfile binding = an_EnforcementProfile result \<and>
        ab_TaskDigest binding = tk_Digest task \<and> ab_RunID binding = ar_ID run \<and>
        ab_ContractDigest binding = ec_Digest contract) \<and>
     tk_Namespace task = namespace \<and> ar_Namespace run = namespace \<and> tx_Namespace tx = namespace \<and>
     tk_TransactionID task = tx_ID tx \<and> tk_RunID task = ar_ID run \<and> tk_IntentDigest task = tx_IntentDigest tx \<and>
     tx_Task tx = Some task \<and> tx_AgentRunIDs tx = [ar_ID run] \<and> ar_ContractDigest run = ec_Digest contract)"

definition Result_Validate :: "AdmissionHashing \<Rightarrow> Hashing \<Rightarrow> string \<Rightarrow> AdmissionResult \<Rightarrow> KernelError option option" where
  "Result_Validate N H namespace result = (let op = ''validate_task_admission''; run = pj_Run (an_Run result);
       wrong = (\<lambda>resource. admissionError ErrorEventChain op resource) in first_error
     [check (fail_if (\<not> IsIdentifier namespace \<or> \<not> IsIdentifier (an_IdempotencyKey result) \<or>
         \<not> IsSHA256Digest (an_RequestDigest result)) (wrong (an_IdempotencyKey result))),
      check (checkResultVersion result),
      check (AgentTask_Validate H (an_Task result)),
      check (ExecutionContract_Validate (an_Contract result)),
      (case ComputeExecutionContractDigest N (an_Contract result) of
         None \<Rightarrow> Some None
       | Some digest \<Rightarrow> check (fail_if (digest \<noteq> ec_Digest (an_Contract result)) (wrong (ec_ID (an_Contract result))))),
      check (AgentRun_Validate run),
      check (ProjectionTx_Validate H (an_Transaction result)),
      check (fail_if (\<not> resultBound namespace result) (wrong (tx_ID (tj_Transaction (an_Transaction result))))),
      check (fail_if (length (ar_CapabilityIDs run) \<noteq> length (an_Grants result)) (wrong (ar_ID run))),
      check (check_each (\<lambda>index grant. first_error [CapabilityGrant_Validate grant,
          fail_if (cg_SubjectRunID grant \<noteq> ar_ID run \<or> ar_CapabilityIDs run ! index \<noteq> cg_ID grant) (wrong (cg_ID grant))])
        0 (an_Grants result))])"

definition Prepared_Validate :: "AdmissionHashing \<Rightarrow> Hashing \<Rightarrow> 'j RunCodec \<Rightarrow> Prepared \<Rightarrow> KernelError option option" where
  "Prepared_Validate N H C prepared = (let op = ''validate_task_admission''; result = pp_Result prepared;
       runID = ar_ID (pj_Run (an_Run result)); wrong = (\<lambda>resource. admissionError ErrorEventChain op resource) in
     case ok_then (first_error
       [check (fail_if (\<not> IsIdentifier (pp_Namespace prepared) \<or> pp_IdempotencyKey prepared \<noteq> an_IdempotencyKey result \<or>
           pp_RequestDigest prepared \<noteq> an_RequestDigest result)
          (admissionError ErrorSchemaInvalid op (pp_IdempotencyKey prepared))),
        Result_Validate N H (pp_Namespace prepared) result,
        check (fail_if (map ev_Type (pp_RunEvents prepared) \<noteq> [EventRunCreated, EventCapabilitiesGranted, EventRunStateChanged])
          (admissionError ErrorEventSequence op runID)),
        check (check_each (\<lambda>_ event. case VerifyEventDigest (rc_Digest C) event of
            None \<Rightarrow> Some (admissionError ErrorInternal op (ev_ID event))
          | Some valid \<Rightarrow> fail_if (\<not> valid) (wrong (ev_ID event))) 0 (pp_RunEvents prepared))])
      (bind_res (kernel_res (Replay (pp_RunEvents prepared))) (\<lambda>replayedRun.
       ok_then (check (fail_if (replayedRun \<noteq> an_Run result) (wrong runID)))
      (bind_res (kernel_res (GrantsFromEvents (pp_RunEvents prepared))) (\<lambda>(grantMap, _).
       ok_then (first_error
         [check (fail_if (length grantMap \<noteq> length (an_Grants result) \<or>
             length (ar_CapabilityIDs (pj_Run (an_Run result))) \<noteq> length (an_Grants result)) (wrong runID)),
          check (check_each (\<lambda>index grant. fail_if
              (find (\<lambda>g. cg_ID g = cg_ID grant) grantMap \<noteq> Some grant \<or>
               ar_CapabilityIDs (pj_Run (an_Run result)) ! index \<noteq> cg_ID grant) (wrong (cg_ID grant)))
            0 (an_Grants result))])
      (bind_res (kernel_res (ReplayTx H [pp_TransactionEvent prepared])) (\<lambda>replayedTransaction.
       ok_then (check (fail_if (replayedTransaction \<noteq> an_Transaction result)
           (wrong (tx_ID (tj_Transaction (an_Transaction result)))))) (Inr ())))))))
     of Inl err \<Rightarrow> Some err | Inr _ \<Rightarrow> None)"

section \<open>Preparation\<close>

fun workspaceRootFrom :: "string \<Rightarrow> ContractResource list \<Rightarrow> string" where
  "workspaceRootFrom root [] = root"
| "workspaceRootFrom root (resource # resources) =
     (let candidate = cc_WorkspaceRoot (cr_Conditions resource) in
      if candidate = '''' then workspaceRootFrom root resources
      else if root \<noteq> '''' \<and> root \<noteq> candidate then ''''
      else workspaceRootFrom candidate resources)"

definition admittedWorkspaceRoot :: "ContractResource list \<Rightarrow> string" where
  "admittedWorkspaceRoot resources = workspaceRootFrom '''' resources"

definition createRunEvent :: "'j RunCodec \<Rightarrow> AgentRun \<Rightarrow> Principal \<Rightarrow> time \<Rightarrow> KernelError + RunEvent" where
  "createRunEvent C run actor occurredAt =
     (let wrong = Inl (admissionError ErrorInternal ''prepare_task_admission'' (ar_ID run)) in
      if \<not> rc_Encodable C (RunCreatedPayload run) then wrong
      else let event = \<lparr>ev_Version = ''gatemole.run_event.v0'', ev_ID = event_ID (rc_Hash16 C) (ar_ID run) 1,
          ev_RunID = ar_ID run, ev_Sequence = 1, ev_Type = EventRunCreated, ev_Actor = actor, ev_OccurredAt = occurredAt,
          ev_Payload = RunCreatedPayload run, ev_Artifacts = [], ev_PolicyDecisionID = '''', ev_PreviousDigest = '''',
          ev_Digest = ''''\<rparr> in
        case ComputeEventDigest (rc_Digest C) event of None \<Rightarrow> wrong | Some digest \<Rightarrow> Inr (event\<lparr>ev_Digest := digest\<rparr>))"

definition checkRequest :: "AdmissionRequest \<Rightarrow> time \<Rightarrow> KernelError option" where
  "checkRequest request now = (let wrong = (\<lambda>resource. admissionError ErrorSchemaInvalid ''prepare_task_admission'' resource);
       id = rq_TransactionID request in first_error
     [(if rq_Version request = LegacyRequestVersion then
         fail_if (rq_ExpectedRuntimeID request \<noteq> '''' \<or> rq_ExpectedEnforcementProfile request \<noteq> '''') (wrong id)
       else if rq_Version request = RequestVersion then
         fail_if (\<not> IsRuntimeID (rq_ExpectedRuntimeID request) \<or>
             \<not> IsEnforcementProfile (rq_ExpectedEnforcementProfile request)) (wrong (rq_ExpectedRuntimeID request))
       else Some (wrong id)),
      fail_if (\<not> IsIdentifier (rq_IdempotencyKey request) \<or> \<not> IsIdentifier (rq_TransactionID request)) (wrong id),
      fail_if (rq_RunID request \<noteq> '''' \<and> \<not> IsIdentifier (rq_RunID request)) (wrong (rq_RunID request)),
      fail_if (now = 0) (wrong id)])"

definition maxDurationSeconds :: int64 where
  "maxDurationSeconds = max64 div 1000000000"

definition admittedDeadline :: "AdmissionRequest \<Rightarrow> time \<Rightarrow> KernelError + time option" where
  "admittedDeadline request now = (let deadline = cn_Deadline (rq_Contract request) in
     case MaxWallTimeSeconds (cn_Budgets (rq_Contract request)) of
       None \<Rightarrow> Inr deadline
     | Some seconds \<Rightarrow>
         if seconds < 1 \<or> seconds > maxDurationSeconds
         then Inl (admissionError ErrorSchemaInvalid ''prepare_task_admission'' (rq_TransactionID request))
         else let wallTimeDeadline = now + seconds * 1000000000 in
           Inr (case deadline of
               None \<Rightarrow> Some wallTimeDeadline
             | Some d \<Rightarrow> if wallTimeDeadline < d then Some wallTimeDeadline else Some d))"

definition draftContract :: "string \<Rightarrow> AdmissionRequest \<Rightarrow> time option \<Rightarrow> ExecutionContract" where
  "draftContract contractID request deadline = (let spec = rq_Contract request in
     \<lparr>ec_Version = ''gatemole.execution_contract.v0'', ec_ID = contractID, ec_Digest = '''', ec_Owner = rq_Sponsor request,
      ec_Goal = rq_Intent request, ec_NonGoals = [], ec_Risk = cn_Risk spec, ec_Resources = cn_Resources spec,
      ec_Budgets = cn_Budgets spec, ec_Deadline = deadline, ec_MaxChildDepth = cn_MaxChildDepth spec,
      ec_MaxChildren = cn_MaxChildren spec, ec_Checkpoints = cn_Checkpoints spec, ec_Obligations = cn_Obligations spec,
      ec_Escalation = cn_Escalation spec, ec_ReleaseContractRef = cn_ReleaseContractRef spec\<rparr>)"

definition draftRun :: "string \<Rightarrow> AdmissionRequest \<Rightarrow> string \<Rightarrow> ExecutionContract \<Rightarrow> time \<Rightarrow> AgentRun" where
  "draftRun namespace request runID contract now = (let profile = rq_AgentProfile request in
     \<lparr>ar_Version = ''gatemole.agent_run.v0'', ar_ID = runID, ar_Namespace = namespace,
      ar_ImageDigest = (if tp_ImageDigest profile = '''' then tp_CommandDigest profile else tp_ImageDigest profile),
      ar_ContractDigest = ec_Digest contract,
      ar_Principal = \<lparr>pr_ID = runID, pr_Kind = PrincipalRun, pr_Issuer = ''gatemoled'', pr_ClaimsDigest = ''''\<rparr>,
      ar_DelegationChain = [rq_Sponsor request], ar_ParentRunID = '''', ar_State = RunCreated, ar_StateReason = '''',
      ar_Priority = 0, ar_Deadline = ec_Deadline contract, ar_BudgetLimits = ec_Budgets contract, ar_BudgetUsage = no_usage,
      ar_Workspace = admittedWorkspaceRoot (ec_Resources contract), ar_Runtime = None, ar_ActiveExecutionID = '''',
      ar_CapabilityIDs = [], ar_CheckpointID = '''', ar_OutstandingApprovalIDs = [], ar_EventSequence = 1,
      ar_CreatedAt = now, ar_UpdatedAt = now, ar_CompletedAt = None\<rparr>)"

definition draftTransaction :: "string \<Rightarrow> AdmissionRequest \<Rightarrow> string \<Rightarrow> AgentTask \<Rightarrow> ExecutionContract \<Rightarrow> time \<Rightarrow> AgentTransaction" where
  "draftTransaction namespace request runID task contract now =
     \<lparr>tx_Version = ''gatemole.agent_transaction.v0'', tx_ID = rq_TransactionID request, tx_Namespace = namespace,
      tx_Attempt = 1, tx_IntentDigest = tk_IntentDigest task, tx_Task = Some task,
      tx_Admission = Some \<lparr>ab_RuntimeID = rq_ExpectedRuntimeID request,
        ab_EnforcementProfile = rq_ExpectedEnforcementProfile request, ab_TaskDigest = tk_Digest task,
        ab_RunID = runID, ab_ContractDigest = ec_Digest contract\<rparr>,
      tx_Sponsor = rq_Sponsor request, tx_AgentRunIDs = [runID], tx_StageBindings = [], tx_State = TransactionCreated,
      tx_StateReason = '''', tx_EffectIDs = [], tx_VerificationResultIDs = [], tx_OutstandingApprovalIDs = [],
      tx_StagedStateDigest = '''', tx_EffectSetDigest = '''', tx_ApprovalPackageDigest = '''', tx_CommitPlanDigest = '''',
      tx_EventSequence = 1, tx_CreatedAt = now, tx_UpdatedAt = now, tx_CompletedAt = None\<rparr>"

text \<open>The run's three events: creation, the compiled grants, admission.\<close>

definition prepareRun :: "'j RunCodec \<Rightarrow> ExecutionContract \<Rightarrow> AgentRun \<Rightarrow> Principal \<Rightarrow> time \<Rightarrow>
    KernelError option + Projection \<times> CapabilityGrant list \<times> RunEvent list" where
  "prepareRun C contract run actor now =
     bind_res (kernel_res (createRunEvent C run actor now)) (\<lambda>createdEvent.
     bind_res (kernel_res (Apply None createdEvent)) (\<lambda>created.
     bind_res (kernel_res (Compile (rc_Hash16 C) contract (pj_Run created) now)) (\<lambda>grants.
     bind_res (other_res (Next (rc_Encodable C) (rc_Digest C) (rc_Hash16 C) created EventCapabilitiesGranted
         capabilityServicePrincipal now (CapabilitiesGranted \<lparr>gp_ContractDigest = ec_Digest contract, gp_Grants = grants\<rparr>)))
       (\<lambda>event. let event = event\<lparr>ev_PolicyDecisionID := cg_PolicyDecisionID (hd grants)\<rparr> in
     bind_res (other_res (ComputeEventDigest (rc_Digest C) event)) (\<lambda>digest. let grantsEvent = event\<lparr>ev_Digest := digest\<rparr> in
     bind_res (kernel_res (Apply (Some created) grantsEvent)) (\<lambda>granted.
     bind_res (other_res (Next (rc_Encodable C) (rc_Digest C) (rc_Hash16 C) granted EventRunStateChanged
         capabilityServicePrincipal now (RunStateChanged \<lparr>sc_From = RunCreated, sc_To = RunAdmitted, sc_Reason = ''''\<rparr>)))
       (\<lambda>admittedEvent.
     bind_res (kernel_res (Apply (Some granted) admittedEvent)) (\<lambda>admitted.
     Inr (admitted, grants, [createdEvent, grantsEvent, admittedEvent])))))))))"

definition Prepare :: "AdmissionHashing \<Rightarrow> Hashing \<Rightarrow> 'j RunCodec \<Rightarrow> string \<Rightarrow> AdmissionRequest \<Rightarrow> time \<Rightarrow>
    KernelError option + Prepared" where
  "Prepare N H C namespace request now = ok_then (check (checkRequest request now))
     (bind_res (kernel_res (ComputeRequestDigest N namespace request)) (\<lambda>requestDigest.
      let id = rq_TransactionID request;
          runID = (if rq_RunID request = '''' then stableID (rc_Hash16 C) ''run'' [namespace, id] else rq_RunID request);
          taskID = stableID (rc_Hash16 C) ''task'' [namespace, id];
          contractID = stableID (rc_Hash16 C) ''contract'' [namespace, id] in
      bind_res (kernel_res (admittedDeadline request now)) (\<lambda>deadline. let draft = draftContract contractID request deadline in
      bind_res (other_res (ComputeExecutionContractDigest N draft)) (\<lambda>digest. let contract = draft\<lparr>ec_Digest := digest\<rparr> in
      ok_then (check (ExecutionContract_Validate contract))
     (bind_res (NewAgentTask H taskID id namespace runID (rq_Intent request) (rq_AgentProfile request) now) (\<lambda>task.
      let run = draftRun namespace request runID contract now in
      ok_then (check (AgentRun_Validate run))
     (bind_res (prepareRun C contract run (rq_Actor request) now) (\<lambda>(runProjection, grants, runEvents).
      bind_res (other_res (CreationEvent (nh_TxEncodable N) H (draftTransaction namespace request runID task contract now)
          (rq_Actor request))) (\<lambda>transactionEvent.
      bind_res (kernel_res (ApplyTx H None transactionEvent)) (\<lambda>transactionProjection.
      let prepared = \<lparr>pp_Namespace = namespace, pp_IdempotencyKey = rq_IdempotencyKey request, pp_RequestDigest = requestDigest,
          pp_Result = \<lparr>an_Version = (if rq_Version request = LegacyRequestVersion then LegacyResultVersion else ResultVersion),
            an_RuntimeID = rq_ExpectedRuntimeID request, an_EnforcementProfile = rq_ExpectedEnforcementProfile request,
            an_IdempotencyKey = rq_IdempotencyKey request, an_RequestDigest = requestDigest, an_Task = task,
            an_Contract = contract, an_Run = runProjection, an_Grants = grants, an_Transaction = transactionProjection\<rparr>,
          pp_RunEvents = runEvents, pp_TransactionEvent = transactionEvent\<rparr> in
      ok_then (Prepared_Validate N H C prepared) (Inr prepared)))))))))))"

text \<open>A client checks what the daemon returned against what it asked for.\<close>

definition ValidateAgainstRequest :: "AdmissionHashing \<Rightarrow> Hashing \<Rightarrow> 'j RunCodec \<Rightarrow> string \<Rightarrow> AdmissionRequest \<Rightarrow>
    AdmissionResult \<Rightarrow> KernelError option option" where
  "ValidateAgainstRequest N H C namespace request result = (let
       wrong = Some (Some (admissionError ErrorEventChain ''validate_task_admission_response'' (rq_TransactionID request))) in
     case Result_Validate N H namespace result of Some err \<Rightarrow> Some err | None \<Rightarrow>
    (case Prepare N H C namespace request (tk_CreatedAt (an_Task result)) of
       Inl _ \<Rightarrow> wrong
     | Inr prepared \<Rightarrow> (let expected = pp_Result prepared; tx = tj_Transaction (an_Transaction result);
           expectedTx = tj_Transaction (an_Transaction expected);
           expectedTx = (if tx_Attempt tx = 0 \<and> tx_Attempt expectedTx = 1 then expectedTx\<lparr>tx_Attempt := 0\<rparr> else expectedTx) in
         if an_Version result \<noteq> an_Version expected \<or> an_RuntimeID result \<noteq> rq_ExpectedRuntimeID request \<or>
            an_EnforcementProfile result \<noteq> rq_ExpectedEnforcementProfile request \<or>
            an_IdempotencyKey result \<noteq> rq_IdempotencyKey request \<or> an_Task result \<noteq> an_Task expected \<or>
            an_Contract result \<noteq> an_Contract expected \<or> pj_Run (an_Run result) \<noteq> pj_Run (an_Run expected) \<or>
            an_Grants result \<noteq> an_Grants expected \<or> tx \<noteq> expectedTx
         then wrong else None)))"

end
