(* ===== verification/Runtime_Metadata.thy ===== *)
theory Runtime_Metadata
  imports Run_Store
begin

text \<open>
  \<^verbatim>\<open>store/runtime_metadata.go\<close> and \<^verbatim>\<open>store/enforcement_profile.go\<close>: a ledger is bound to one Runtime
  instance and one enforcement profile. The bindings are rows of \<^verbatim>\<open>kernel_metadata\<close>. Opening a ledger
  first inspects the bindings it finds, then brings the schema up to date, then binds; admission
  asks whether the binding is the one it expects.
\<close>

section \<open>Metadata rows\<close>

definition runtimeIDMetadataKey :: string where "runtimeIDMetadataKey = ''runtime_id''"
definition enforcementProfileMetadataKey :: string where "enforcementProfileMetadataKey = ''enforcement_profile''"
definition EnforcementProfileDevelopment :: string where "EnforcementProfileDevelopment = ''development''"
definition EnforcementProfileProduction :: string where "EnforcementProfileProduction = ''production''"
definition bindRuntimeMetadataOp :: string where "bindRuntimeMetadataOp = ''bind_runtime_metadata''"
definition bindEnforcementProfileOp :: string where "bindEnforcementProfileOp = ''bind_enforcement_profile''"

definition knownProfile :: "string \<Rightarrow> bool" where
  "knownProfile profile \<longleftrightarrow> profile = EnforcementProfileDevelopment \<or> profile = EnforcementProfileProduction"

definition runtimeMetadataError :: "ErrorCode \<Rightarrow> string \<Rightarrow> KernelError" where
  "runtimeMetadataError code resource = storeError code bindRuntimeMetadataOp resource"

definition enforcementProfileError :: "ErrorCode \<Rightarrow> KernelError" where
  "enforcementProfileError code = storeError code bindEnforcementProfileOp enforcementProfileMetadataKey"

text \<open>A query of one row: a fault of the driver is the error given; no row is \<^term>\<open>Inr None\<close>.\<close>

definition readKernelMetadata :: "driver \<Rightarrow> nat \<Rightarrow> KernelError \<Rightarrow> 'j DB \<Rightarrow> string \<Rightarrow> KernelError + string option" where
  "readKernelMetadata D i err db key = ok_then (fail_if (D (StatementStep i) \<noteq> None) err) (Inr (db_metadata db key))"

definition requireOneMetadataRow :: "driver \<Rightarrow> nat \<Rightarrow> string \<Rightarrow> nat \<Rightarrow> KernelError option" where
  "requireOneMetadataRow D i key rows = first_error
     [fail_if (D (Sub i AffectedStep) \<noteq> None) (runtimeMetadataError ErrorInternal key),
      fail_if (rows \<noteq> 1) (runtimeMetadataError ErrorConflict key)]"

definition insertKernelMetadata :: "driver \<Rightarrow> nat \<Rightarrow> 'j DB \<Rightarrow> string \<Rightarrow> string \<Rightarrow> KernelError + 'j DB" where
  "insertKernelMetadata D i tx key val =
     bind_res (exec_write D (StatementStep i) bindRuntimeMetadataOp key
        (if db_metadata tx key = None then Some (tx\<lparr>db_metadata := (db_metadata tx)(key \<mapsto> val)\<rparr>) else None))
       (\<lambda>tx. ok_then (requireOneMetadataRow D i key 1) (Inr tx))"

definition updateKernelMetadata :: "driver \<Rightarrow> nat \<Rightarrow> 'j DB \<Rightarrow> string \<Rightarrow> string \<Rightarrow> string \<Rightarrow> KernelError + 'j DB" where
  "updateKernelMetadata D i tx key from to =
     (let hit = db_metadata tx key = Some from in
      bind_res (exec_write D (StatementStep i) bindRuntimeMetadataOp key
         (Some (if hit then tx\<lparr>db_metadata := (db_metadata tx)(key \<mapsto> to)\<rparr> else tx)))
        (\<lambda>tx. ok_then (requireOneMetadataRow D i key (if hit then 1 else 0)) (Inr tx)))"

definition db_nonempty :: "'j DB \<Rightarrow> bool" where
  "db_nonempty db \<longleftrightarrow> db_runs db \<noteq> [] \<or> db_events db \<noteq> [] \<or> db_transactions db \<noteq> [] \<or> db_transaction_events db \<noteq> [] \<or>
     db_contracts db \<noteq> [] \<or> db_tasks db \<noteq> [] \<or> db_admissions db \<noteq> []"

definition ledgerHasEntries :: "driver \<Rightarrow> nat \<Rightarrow> 'j DB \<Rightarrow> KernelError + bool" where
  "ledgerHasEntries D i tx =
     ok_then (fail_if (D (StatementStep i) \<noteq> None) (enforcementProfileError ErrorInternal)) (Inr (db_nonempty tx))"

section \<open>Binding\<close>

definition commitEnforcementProfileBinding :: "driver \<Rightarrow> 'j DB \<Rightarrow> KernelError + 'j DB \<times> unit" where
  "commitEnforcementProfileBinding D tx =
     ok_then (fail_if (D CommitStep \<noteq> None) (enforcementProfileError ErrorInternal)) (Inr (tx, ()))"

definition BindEnforcementProfile :: "driver \<Rightarrow> 'j DB \<Rightarrow> string \<Rightarrow> 'j DB \<times> (KernelError + unit)" where
  "BindEnforcementProfile D db profile = (let key = enforcementProfileMetadataKey; wrong = enforcementProfileError in settle db
     (ok_then (first_error [fail_if (\<not> knownProfile profile) (wrong ErrorSchemaInvalid),
          fail_if (D BeginStep \<noteq> None) (wrong ErrorInternal)])
     (bind_res (readKernelMetadata D 0 (wrong ErrorInternal) db key) (\<lambda>bound.
      if (case bound of Some p \<Rightarrow> \<not> knownProfile p | None \<Rightarrow> False) then Inl (wrong ErrorCheckpointIncompatible)
      else if bound = Some profile then commitEnforcementProfileBinding D db
      else bind_res (ledgerHasEntries D 1 db) (\<lambda>nonempty.
        ok_then (first_error
          [fail_if (nonempty \<and> bound = None \<and> profile = EnforcementProfileProduction) (wrong ErrorCheckpointIncompatible),
           fail_if (nonempty \<and> bound \<noteq> None) (wrong ErrorCheckpointIncompatible)])
       (bind_res (exec_write D (StatementStep 2) bindEnforcementProfileOp key
            (Some (db\<lparr>db_metadata := (db_metadata db)(key \<mapsto> profile)\<rparr>))) (\<lambda>tx.
        ok_then (fail_if (D AffectedStep \<noteq> None) (wrong ErrorInternal))
          (commitEnforcementProfileBinding D tx))))))))"

definition validateRuntimeMetadataInput :: "string \<Rightarrow> string \<Rightarrow> KernelError option" where
  "validateRuntimeMetadataInput runtimeID profile = first_error
     [fail_if (\<not> IsRuntimeID runtimeID) (runtimeMetadataError ErrorSchemaInvalid runtimeIDMetadataKey),
      fail_if (\<not> knownProfile profile) (runtimeMetadataError ErrorSchemaInvalid enforcementProfileMetadataKey)]"

text \<open>The refusals of binding: what is stored is invalid or another's, or the ledger has entries and would have to be
  relabelled.\<close>

definition refuseStoredRuntime :: "string option \<Rightarrow> string \<Rightarrow> KernelError option" where
  "refuseStoredRuntime bound runtimeID = on_some bound (\<lambda>stored. first_error
     [fail_if (\<not> IsRuntimeID stored) (runtimeMetadataError ErrorCheckpointIncompatible runtimeIDMetadataKey),
      fail_if (stored \<noteq> runtimeID) (runtimeMetadataError ErrorCheckpointIncompatible runtimeIDMetadataKey)])"

definition refuseStoredProfile :: "string option \<Rightarrow> KernelError option" where
  "refuseStoredProfile bound = on_some bound (\<lambda>stored.
     fail_if (\<not> knownProfile stored) (runtimeMetadataError ErrorCheckpointIncompatible enforcementProfileMetadataKey))"

definition refuseRelabelling :: "bool \<Rightarrow> string option \<Rightarrow> string option \<Rightarrow> string \<Rightarrow> KernelError option" where
  "refuseRelabelling nonempty boundRuntime boundProfile profile = first_error
     [fail_if (nonempty \<and> boundRuntime = None \<and> profile = EnforcementProfileProduction)
        (runtimeMetadataError ErrorCheckpointIncompatible runtimeIDMetadataKey),
      fail_if (nonempty \<and> boundProfile \<noteq> Some profile \<and>
          (boundProfile = None \<and> profile = EnforcementProfileProduction \<or> boundProfile \<noteq> None))
        (runtimeMetadataError ErrorCheckpointIncompatible enforcementProfileMetadataKey)]"

definition BindRuntimeMetadata :: "driver \<Rightarrow> 'j DB \<Rightarrow> string \<Rightarrow> string \<Rightarrow> 'j DB \<times> (KernelError + unit)" where
  "BindRuntimeMetadata D db runtimeID profile = (let wrong = runtimeMetadataError in settle db
     (ok_then (first_error [validateRuntimeMetadataInput runtimeID profile,
          fail_if (D BeginStep \<noteq> None) (wrong ErrorInternal runtimeIDMetadataKey)])
     (bind_res (readKernelMetadata D 0 (wrong ErrorInternal runtimeIDMetadataKey) db runtimeIDMetadataKey) (\<lambda>boundRuntimeID.
      ok_then (refuseStoredRuntime boundRuntimeID runtimeID)
     (bind_res (readKernelMetadata D 1 (wrong ErrorInternal enforcementProfileMetadataKey) db
          enforcementProfileMetadataKey) (\<lambda>boundProfile.
      ok_then (refuseStoredProfile boundProfile)
     (let needsRuntimeWrite = (boundRuntimeID = None); needsProfileWrite = (boundProfile \<noteq> Some profile) in
      bind_res (if needsRuntimeWrite \<or> needsProfileWrite then ledgerHasEntries D 2 db else Inr False) (\<lambda>nonempty.
      ok_then (refuseRelabelling nonempty boundRuntimeID boundProfile profile)
     (bind_res (if needsRuntimeWrite then insertKernelMetadata D 3 db runtimeIDMetadataKey runtimeID else Inr db) (\<lambda>tx.
      bind_res (if needsProfileWrite then (case boundProfile of
            None \<Rightarrow> insertKernelMetadata D 4 tx enforcementProfileMetadataKey profile
          | Some from \<Rightarrow> updateKernelMetadata D 4 tx enforcementProfileMetadataKey from profile) else Inr tx) (\<lambda>tx.
      ok_then (fail_if (D CommitStep \<noteq> None) (wrong ErrorInternal runtimeIDMetadataKey)) (Inr (tx, ())))))))))))))"

section \<open>Inspecting a ledger before it is opened\<close>

text \<open>A file written by an older version may lack tables; \<open>has\<close> says which exist. A table that does not exist
  has no rows.\<close>

definition table_nonempty :: "'j DB \<Rightarrow> string \<Rightarrow> bool" where
  "table_nonempty db table \<longleftrightarrow>
     (if table = ''runs'' then db_runs db \<noteq> []
      else if table = ''events'' then db_events db \<noteq> []
      else if table = ''agent_transactions'' then db_transactions db \<noteq> []
      else if table = ''transaction_events'' then db_transaction_events db \<noteq> []
      else if table = ''execution_contracts'' then db_contracts db \<noteq> []
      else if table = ''agent_tasks'' then db_tasks db \<noteq> []
      else table = ''task_admissions'' \<and> db_admissions db \<noteq> [])"

fun existingEntries :: "driver \<Rightarrow> (string \<Rightarrow> bool) \<Rightarrow> 'j DB \<Rightarrow> nat \<Rightarrow> string list \<Rightarrow> KernelError + bool" where
  "existingEntries D has db i [] = Inr False"
| "existingEntries D has db i (table # tables) =
     ok_then (fail_if (D (Sub i QueryStep) \<noteq> None) (runtimeMetadataError ErrorInternal runtimeIDMetadataKey))
     (if \<not> has table then existingEntries D has db (Suc i) tables
      else ok_then (fail_if (D (Sub i (ScanStep 0)) \<noteq> None) (runtimeMetadataError ErrorInternal runtimeIDMetadataKey))
        (if table_nonempty db table then Inr True else existingEntries D has db (Suc i) tables))"

definition existingLedgerHasEntries :: "driver \<Rightarrow> (string \<Rightarrow> bool) \<Rightarrow> 'j DB \<Rightarrow> KernelError + bool" where
  "existingLedgerHasEntries D has db = existingEntries D has db 0
     [''runs'', ''events'', ''agent_transactions'', ''transaction_events'', ''execution_contracts'', ''agent_tasks'',
      ''task_admissions'']"

text \<open>The inspection repeats the refusals of binding, in a switch of its own.\<close>

definition refuseExisting :: "bool \<Rightarrow> string option \<Rightarrow> string option \<Rightarrow> string \<Rightarrow> string \<Rightarrow> KernelError option" where
  "refuseExisting nonempty storedRuntimeID storedProfile expectedRuntimeID expectedProfile =
     (let wrong = runtimeMetadataError ErrorCheckpointIncompatible; needsRuntimeWrite = (storedRuntimeID = None);
          needsProfileWrite = (case storedProfile of None \<Rightarrow> True | Some stored \<Rightarrow> stored \<noteq> expectedProfile) in first_error
     [fail_if (case storedRuntimeID of None \<Rightarrow> False | Some stored \<Rightarrow> \<not> IsRuntimeID stored) (wrong runtimeIDMetadataKey),
      fail_if (case storedRuntimeID of None \<Rightarrow> False | Some stored \<Rightarrow> stored \<noteq> expectedRuntimeID) (wrong runtimeIDMetadataKey),
      fail_if (case storedProfile of None \<Rightarrow> False | Some stored \<Rightarrow>
          stored \<noteq> EnforcementProfileDevelopment \<and> stored \<noteq> EnforcementProfileProduction) (wrong enforcementProfileMetadataKey),
      fail_if (nonempty \<and> needsRuntimeWrite \<and> expectedProfile = EnforcementProfileProduction) (wrong runtimeIDMetadataKey),
      (if nonempty \<and> needsProfileWrite then (case storedProfile of
           None \<Rightarrow> fail_if (expectedProfile = EnforcementProfileProduction) (wrong enforcementProfileMetadataKey)
         | Some _ \<Rightarrow> Some (wrong enforcementProfileMetadataKey)) else None)])"

definition checkExistingRuntimeMetadata :: "driver \<Rightarrow> (string \<Rightarrow> bool) \<Rightarrow> 'j DB \<Rightarrow> string \<Rightarrow> string \<Rightarrow> KernelError option" where
  "checkExistingRuntimeMetadata D has db expectedRuntimeID expectedProfile = (let wrong = runtimeMetadataError in
     case ok_then (fail_if (D QueryStep \<noteq> None) (wrong ErrorInternal runtimeIDMetadataKey))
      (bind_res (existingLedgerHasEntries D has db) (\<lambda>nonempty.
       bind_res (if has ''kernel_metadata'' then
           bind_res (readKernelMetadata D 0 (wrong ErrorInternal runtimeIDMetadataKey) db runtimeIDMetadataKey) (\<lambda>storedRuntimeID.
           bind_res (readKernelMetadata D 1 (wrong ErrorInternal enforcementProfileMetadataKey) db
             enforcementProfileMetadataKey) (\<lambda>storedProfile. Inr (storedRuntimeID, storedProfile)))
         else Inr (None, None)) (\<lambda>(storedRuntimeID, storedProfile).
       ok_then (refuseExisting nonempty storedRuntimeID storedProfile expectedRuntimeID expectedProfile) (Inr ()))))
     of Inl err \<Rightarrow> Some err | Inr _ \<Rightarrow> None)"

text \<open>
  Opening: \<open>file\<close> is the error of preparing the database file, \<open>mode\<close> that of restricting its permissions
  afterwards. A ledger that was opened but could not be bound is closed again; what was committed stays.
\<close>

definition OpenSQLiteForRuntime :: "KernelError option \<Rightarrow> KernelError option \<Rightarrow> driver \<Rightarrow> (string \<Rightarrow> bool) \<Rightarrow> 'j DB \<Rightarrow>
    string \<Rightarrow> string \<Rightarrow> 'j DB \<times> KernelError option" where
  "OpenSQLiteForRuntime file mode D has db runtimeID profile =
     (case first_error [validateRuntimeMetadataInput runtimeID profile, file,
          checkExistingRuntimeMetadata (sub_driver D 0) has db runtimeID profile] of
        Some err \<Rightarrow> (db, Some err)
      | None \<Rightarrow> (case initialize (sub_driver D 1) db of
          (db, Some err) \<Rightarrow> (db, Some err)
        | (db, None) \<Rightarrow> (case mode of
            Some err \<Rightarrow> (db, Some err)
          | None \<Rightarrow> (case BindRuntimeMetadata (sub_driver D 2) db runtimeID profile of
              (db, Inl err) \<Rightarrow> (db, Some err)
            | (db, Inr _) \<Rightarrow> (db, None)))))"

section \<open>The binding an admission expects\<close>

definition requireStoredRuntimeBinding :: "driver \<Rightarrow> 'j DB \<Rightarrow> string \<Rightarrow> string \<Rightarrow> bool \<Rightarrow> string \<Rightarrow> string \<Rightarrow>
    KernelError option" where
  "requireStoredRuntimeBinding D db expectedRuntimeID expectedProfile allowLegacy operation resource =
     (let wrong = (\<lambda>code. Some (storeError code operation resource)) in
      if D (StatementStep 0) \<noteq> None then wrong ErrorInternal
      else case db_metadata db runtimeIDMetadataKey of
        None \<Rightarrow> if expectedRuntimeID = '''' then None else wrong ErrorCheckpointIncompatible
      | Some storedRuntimeID \<Rightarrow>
          if \<not> IsRuntimeID storedRuntimeID then wrong ErrorCheckpointIncompatible
          else if expectedRuntimeID = '''' \<and> \<not> allowLegacy then wrong ErrorCheckpointIncompatible
          else if expectedRuntimeID \<noteq> '''' \<and> \<not> IsRuntimeID expectedRuntimeID then wrong ErrorSchemaInvalid
          else if expectedRuntimeID \<noteq> '''' \<and> storedRuntimeID \<noteq> expectedRuntimeID then wrong ErrorCheckpointIncompatible
          else let legacy = (expectedRuntimeID = '''') in
          if \<not> legacy \<and> \<not> IsEnforcementProfile expectedProfile then wrong ErrorSchemaInvalid
          else if D (StatementStep 1) \<noteq> None then wrong ErrorInternal
          else case db_metadata db enforcementProfileMetadataKey of
            None \<Rightarrow> wrong ErrorCheckpointIncompatible
          | Some storedProfile \<Rightarrow>
              if storedProfile \<noteq> (if legacy then EnforcementProfileDevelopment else expectedProfile)
              then wrong ErrorCheckpointIncompatible else None)"

text \<open>\<^verbatim>\<open>Health\<close> writes a row inside a transaction that it rolls back, so the database never changes.\<close>

definition Health :: "driver \<Rightarrow> int \<Rightarrow> KernelError option" where
  "Health D one = (let wrong = storeError ErrorInternal ''health_store'' '''' in first_error
     [fail_if (D (Sub 0 BeginStep) \<noteq> None) wrong, fail_if (D QueryStep \<noteq> None) wrong, fail_if (one \<noteq> 1) wrong,
      fail_if (D BeginStep \<noteq> None) wrong, fail_if (D (StatementStep 0) \<noteq> None) wrong,
      fail_if (D (Sub 1 CommitStep) \<noteq> None) wrong])"

section \<open>What binding does\<close>

definition bound_to :: "'j DB \<Rightarrow> string \<Rightarrow> string \<Rightarrow> 'j DB" where
  "bound_to db runtimeID profile = db\<lparr>db_metadata := (db_metadata db)
     (runtimeIDMetadataKey \<mapsto> runtimeID, enforcementProfileMetadataKey \<mapsto> profile)\<rparr>"

lemma metadata_keys: "runtimeIDMetadataKey \<noteq> enforcementProfileMetadataKey"
  "runtimeIDMetadataKey \<noteq> ''schema_version''" "enforcementProfileMetadataKey \<noteq> ''schema_version''"
  by (simp_all add: runtimeIDMetadataKey_def enforcementProfileMetadataKey_def)

lemma metadata_triv: "db_metadata db k = Some v \<Longrightarrow> db\<lparr>db_metadata := (db_metadata db)(k \<mapsto> v)\<rparr> = db"
  by (simp add: map_upd_triv)

lemma insertKernelMetadata_Inr: "insertKernelMetadata D i tx key v = Inr tx' \<Longrightarrow>
    db_metadata tx key = None \<and> tx' = tx\<lparr>db_metadata := (db_metadata tx)(key \<mapsto> v)\<rparr>"
  by (auto simp: insertKernelMetadata_def split: if_splits)

lemma updateKernelMetadata_Inr: "updateKernelMetadata D i tx key from to = Inr tx' \<Longrightarrow>
    tx' = tx\<lparr>db_metadata := (db_metadata tx)(key \<mapsto> to)\<rparr>"
  by (auto simp: updateKernelMetadata_def requireOneMetadataRow_def Let_def split: if_splits)

lemma readKernelMetadata_Inr [simp]: "readKernelMetadata D i err db key = Inr v \<longleftrightarrow> D (StatementStep i) = None \<and> v = db_metadata db key"
  by (auto simp: readKernelMetadata_def)

lemma ledgerHasEntries_Inr [simp]: "ledgerHasEntries D i db = Inr b \<longleftrightarrow> D (StatementStep i) = None \<and> b = db_nonempty db"
  by (auto simp: ledgerHasEntries_def)

lemma BindRuntimeMetadata_Inr:
  assumes "BindRuntimeMetadata D db r p = (db', Inr x)"
  shows "IsRuntimeID r \<and> knownProfile p \<and> db_metadata db runtimeIDMetadataKey \<in> {None, Some r} \<and>
    refuseRelabelling (db_nonempty db) (db_metadata db runtimeIDMetadataKey) (db_metadata db enforcementProfileMetadataKey) p = None \<and>
    db' = bound_to db r p"
proof -
  let ?br = "db_metadata db runtimeIDMetadataKey" and ?bp = "db_metadata db enforcementProfileMetadataKey"
  from assms obtain n tx where v: "validateRuntimeMetadataInput r p = None" "refuseStoredRuntime ?br r = None"
    and n: "(if ?br = None \<or> ?bp \<noteq> Some p then ledgerHasEntries D 2 db else Inr False) = Inr n" "refuseRelabelling n ?br ?bp p = None"
    and w: "(if ?br = None then insertKernelMetadata D 3 db runtimeIDMetadataKey r else Inr db) = Inr tx"
      "(if ?bp \<noteq> Some p then (case ?bp of None \<Rightarrow> insertKernelMetadata D 4 tx enforcementProfileMetadataKey p
          | Some from \<Rightarrow> updateKernelMetadata D 4 tx enforcementProfileMetadataKey from p) else Inr tx) = Inr db'"
    by (simp add: BindRuntimeMetadata_def Let_def del: split_paired_Ex split: prod.splits) blast
  from v have r: "IsRuntimeID r" "knownProfile p" "?br \<in> {None, Some r}"
    by (cases ?br; auto simp: validateRuntimeMetadataInput_def refuseStoredRuntime_def)+
  have "refuseRelabelling (db_nonempty db) ?br ?bp p = None"
    using n by (cases "?br = None \<or> ?bp \<noteq> Some p") (auto simp: refuseRelabelling_def)
  moreover have tx: "tx = db\<lparr>db_metadata := (db_metadata db)(runtimeIDMetadataKey \<mapsto> r)\<rparr>"
    using w(1) r(3) by (auto dest!: insertKernelMetadata_Inr simp: metadata_triv split: if_splits)
  moreover have "db' = tx\<lparr>db_metadata := (db_metadata tx)(enforcementProfileMetadataKey \<mapsto> p)\<rparr>"
  proof (cases "?bp = Some p")
    case True
    then have "db_metadata tx enforcementProfileMetadataKey = Some p" using tx metadata_keys by simp
    with w(2) True show ?thesis by (simp add: metadata_triv)
  next
    case False
    with w(2) show ?thesis by (auto dest!: insertKernelMetadata_Inr updateKernelMetadata_Inr split: option.splits)
  qed
  ultimately show ?thesis using r by (simp add: bound_to_def)
qed

lemma BindRuntimeMetadata_Inl: "BindRuntimeMetadata D db r p = (db', Inl e) \<Longrightarrow> db' = db"
  by (simp add: BindRuntimeMetadata_def Let_def)

lemma BindEnforcementProfile_cases:
  assumes "BindEnforcementProfile D db p = (db', res)"
  shows "db' = db \<or> knownProfile p \<and> db' = db\<lparr>db_metadata := (db_metadata db)(enforcementProfileMetadataKey \<mapsto> p)\<rparr> \<and>
    (db_nonempty db \<longrightarrow> db_metadata db enforcementProfileMetadataKey = None \<and> p = EnforcementProfileDevelopment)"
proof (cases res)
  case (Inl e)
  with assms show ?thesis by (simp add: BindEnforcementProfile_def Let_def)
next
  case (Inr x)
  with assms show ?thesis
    by (auto simp: BindEnforcementProfile_def commitEnforcementProfileBinding_def knownProfile_def Let_def split: if_splits)
qed

lemma initialize_rows: "initialize D db = (db', res) \<Longrightarrow> \<exists>md. db' = db\<lparr>db_metadata := md\<rparr> \<and> (\<forall>k. k \<noteq> ''schema_version'' \<longrightarrow> md k = db_metadata db k)"
  unfolding initialize_def Let_def upgrade_version_def
  by (auto split: if_splits option.splits intro: exI [of _ "db_metadata db"])

text \<open>
  What no sequence of bindings and ledger operations undoes: the Runtime identity once it is bound, and,
  once the ledger has entries, the enforcement profile; production never adopts a ledger with entries.
\<close>

definition keeps_binding :: "'j DB \<Rightarrow> 'j DB \<Rightarrow> bool" where
  "keeps_binding db db' \<longleftrightarrow> (let runtime = runtimeIDMetadataKey; profile = enforcementProfileMetadataKey in
     (\<forall>r. db_metadata db runtime = Some r \<longrightarrow> db_metadata db' runtime = Some r) \<and>
     (db_nonempty db \<longrightarrow> db_nonempty db' \<and>
       (\<forall>p. db_metadata db profile = Some p \<longrightarrow> db_metadata db' profile = Some p) \<and>
       (db_metadata db profile = None \<longrightarrow> db_metadata db' profile \<in> {None, Some EnforcementProfileDevelopment}) \<and>
       (db_metadata db runtime = None \<and> db_metadata db profile = Some EnforcementProfileProduction \<longrightarrow>
          db_metadata db' runtime = None)))"

inductive ledger_step :: "'j DB \<Rightarrow> 'j DB \<Rightarrow> bool" where
  bind_runtime: "BindRuntimeMetadata D db r p = (db', res) \<Longrightarrow> ledger_step db db'"
| bind_profile: "BindEnforcementProfile D db p = (db', res) \<Longrightarrow> ledger_step db db'"
| reopen: "OpenSQLiteForRuntime file mode D has db r p = (db', err) \<Longrightarrow> ledger_step db db'"
| work: "db_metadata db' = db_metadata db \<Longrightarrow> db_nonempty db \<longrightarrow> db_nonempty db' \<Longrightarrow> ledger_step db db'"

lemma keeps_binding_refl [simp]: "keeps_binding db db"
  by (simp add: keeps_binding_def Let_def)

lemma keeps_binding_trans: "keeps_binding a b \<Longrightarrow> keeps_binding b c \<Longrightarrow> keeps_binding a c"
  unfolding keeps_binding_def Let_def by (cases "db_nonempty a") auto

lemma bind_runtime_keeps: "BindRuntimeMetadata D db r p = (db', res) \<Longrightarrow> keeps_binding db db'"
proof (cases res)
  case (Inr x)
  assume "BindRuntimeMetadata D db r p = (db', res)"
  with Inr have "IsRuntimeID r \<and> knownProfile p \<and> db_metadata db runtimeIDMetadataKey \<in> {None, Some r} \<and>
    refuseRelabelling (db_nonempty db) (db_metadata db runtimeIDMetadataKey) (db_metadata db enforcementProfileMetadataKey) p = None \<and>
    db' = bound_to db r p" by (intro BindRuntimeMetadata_Inr) simp
  then have b: "knownProfile p" "db_metadata db runtimeIDMetadataKey \<in> {None, Some r}"
    "refuseRelabelling (db_nonempty db) (db_metadata db runtimeIDMetadataKey) (db_metadata db enforcementProfileMetadataKey) p = None"
    "db' = bound_to db r p" by simp_all
  have "db_nonempty db' = db_nonempty db" using b(4) by (simp add: bound_to_def db_nonempty_def)
  with b show ?thesis using metadata_keys
    by (cases "db_nonempty db") (auto simp: keeps_binding_def Let_def bound_to_def refuseRelabelling_def knownProfile_def)
qed (auto dest: BindRuntimeMetadata_Inl)

lemma bind_profile_keeps: "BindEnforcementProfile D db p = (db', res) \<Longrightarrow> keeps_binding db db'"
  using BindEnforcementProfile_cases [of D db p db' res] metadata_keys
  by (auto simp: keeps_binding_def Let_def db_nonempty_def)

lemma initialize_keeps: "initialize D db = (db', res) \<Longrightarrow> keeps_binding db db'"
proof -
  assume "initialize D db = (db', res)"
  then obtain md where "db' = db\<lparr>db_metadata := md\<rparr>" "\<forall>k. k \<noteq> ''schema_version'' \<longrightarrow> md k = db_metadata db k"
    using initialize_rows by blast
  then show ?thesis using metadata_keys by (auto simp: keeps_binding_def Let_def db_nonempty_def)
qed

lemma reopen_keeps: "OpenSQLiteForRuntime file mode D has db r p = (db', err) \<Longrightarrow> keeps_binding db db'"
  unfolding OpenSQLiteForRuntime_def
  by (auto split: option.splits prod.splits sum.splits dest: initialize_keeps bind_runtime_keeps BindRuntimeMetadata_Inl
      intro: keeps_binding_trans)

lemma ledger_steps_keep: "ledger_step\<^sup>*\<^sup>* db db' \<Longrightarrow> keeps_binding db db'"
proof (induction rule: rtranclp_induct)
  case (step b c)
  have "keeps_binding b c" using step(2)
  proof cases
    case work
    then show ?thesis by (simp add: keeps_binding_def Let_def)
  qed (blast intro: bind_runtime_keeps bind_profile_keeps reopen_keeps)+
  with step.IH show ?case by (rule keeps_binding_trans)
qed simp

end
