(* ===== verification/Admission_Store.thy ===== *)
theory Admission_Store
  imports Admission Runtime_Metadata Execution_Store
begin

text \<open>
  \<^verbatim>\<open>store/admission_store.go\<close>: a prepared admission becomes rows of seven tables in one database
  transaction, or nothing; reading it back checks the whole of it against the ledgers it created.

  \<open>AdmissionCodec\<close> holds the JSON encoding of the values that this file encodes and the decoders of those
  it reads. \<open>hook point\<close> says whether the store's fault hook reports an error at a point. An error of
  validation that is not a kernel error is kept as an internal one.
\<close>

section \<open>Encoded values\<close>

datatype AdmissionValue = ValResult AdmissionResult | ValTask AgentTask | ValContract ExecutionContract
  | ValText string | ValTexts "string list" | ValPrincipal Principal | ValPrincipals "Principal list"
  | ValTime "time option" | ValLimits BudgetLimits | ValTaskRef "AgentTask option"
  | ValBinding "TransactionAdmissionBinding option"

record 'j AdmissionCodec =
  mc_Encode :: "AdmissionValue \<Rightarrow> 'j option"
  mc_DecResult :: "'j \<Rightarrow> AdmissionResult option"
  mc_DecTask :: "'j \<Rightarrow> AgentTask option"
  mc_DecContract :: "'j \<Rightarrow> ExecutionContract option"

definition admitTaskOperation :: string where "admitTaskOperation = ''admit_task''"
definition getTaskAdmissionOperation :: string where "getTaskAdmissionOperation = ''get_task_admission''"

definition kernel_error :: "KernelError option \<Rightarrow> KernelError" where
  "kernel_error err = (case err of Some e \<Rightarrow> e | None \<Rightarrow> storeError ErrorInternal '''' '''')"

definition validateAdmissionLookupKey :: "string \<Rightarrow> string \<Rightarrow> KernelError option" where
  "validateAdmissionLookupKey namespace idempotencyKey = first_error
     [validateNamespace namespace,
      fail_if (\<not> IsIdentifier idempotencyKey) (storeError ErrorSchemaInvalid getTaskAdmissionOperation idempotencyKey)]"

definition validateAdmissionKey :: "string \<Rightarrow> string \<Rightarrow> string \<Rightarrow> KernelError option" where
  "validateAdmissionKey namespace idempotencyKey requestDigest = first_error
     [validateAdmissionLookupKey namespace idempotencyKey,
      fail_if (\<not> IsSHA256Digest requestDigest) (storeError ErrorSchemaInvalid admitTaskOperation idempotencyKey)]"

definition equalJSON :: "'j AdmissionCodec \<Rightarrow> AdmissionValue \<Rightarrow> AdmissionValue \<Rightarrow> string \<Rightarrow> KernelError option" where
  "equalJSON M left right resource = (case (mc_Encode M left, mc_Encode M right) of
     (Some leftJSON, Some rightJSON) \<Rightarrow> fail_if (leftJSON \<noteq> rightJSON) (storeError ErrorEventChain admitTaskOperation resource)
   | _ \<Rightarrow> Some (storeError ErrorInternal admitTaskOperation resource))"

definition decodeAdmissionJSON :: "('j \<Rightarrow> 'a option) \<Rightarrow> 'j \<Rightarrow> string \<Rightarrow> KernelError + 'a" where
  "decodeAdmissionJSON decode data resource = or_error ErrorEventChain getTaskAdmissionOperation resource (decode data)"

section \<open>Rows\<close>

definition insert_contract :: "'j contract_row list \<Rightarrow> 'j contract_row \<Rightarrow> 'j contract_row list option" where
  "insert_contract rows r =
     (if \<exists>x\<in>set rows. cr_namespace x = cr_namespace r \<and>
           (cr_contract_digest x = cr_contract_digest r \<or> cr_contract_id x = cr_contract_id r)
      then None else Some (rows @ [r]))"

definition insert_task :: "'j task_row list \<Rightarrow> 'j task_row \<Rightarrow> 'j task_row list option" where
  "insert_task rows r =
     (if \<exists>x\<in>set rows. kr_namespace x = kr_namespace r \<and>
           (kr_task_id x = kr_task_id r \<or> kr_task_digest x = kr_task_digest r \<or>
            kr_transaction_id x = kr_transaction_id r \<or> kr_run_id x = kr_run_id r)
      then None else Some (rows @ [r]))"

definition insert_admission :: "'j DB \<Rightarrow> 'j admission_row \<Rightarrow> 'j admission_row list option" where
  "insert_admission db r =
     (if (\<exists>x\<in>set (db_admissions db). mr_namespace x = mr_namespace r \<and>
           (mr_idempotency_key x = mr_idempotency_key r \<or> mr_task_id x = mr_task_id r \<or>
            mr_run_id x = mr_run_id r \<or> mr_transaction_id x = mr_transaction_id r)) \<or>
         (mr_namespace r, mr_task_id r, mr_task_digest r) \<notin>
           set (map (\<lambda>t. (kr_namespace t, kr_task_id t, kr_task_digest t)) (db_tasks db)) \<or>
         (mr_namespace r, mr_contract_digest r) \<notin> set (map (\<lambda>c. (cr_namespace c, cr_contract_digest c)) (db_contracts db)) \<or>
         (mr_namespace r, mr_run_id r) \<notin> set (map hkey (db_runs db)) \<or>
         (mr_namespace r, mr_transaction_id r) \<notin> set (map hkey (db_transactions db))
      then None else Some (db_admissions db @ [r]))"

text \<open>The query of \<^verbatim>\<open>loadTaskAdmission\<close>: the admission joined with its task, contract, run and transaction.\<close>

definition select_admission :: "'j DB \<Rightarrow> string \<Rightarrow> string \<Rightarrow>
    ('j admission_row \<times> 'j task_row \<times> 'j contract_row \<times> 'j head_row \<times> 'j head_row) option" where
  "select_admission db namespace key =
     (case find (\<lambda>a. mr_namespace a = namespace \<and> mr_idempotency_key a = key) (db_admissions db) of None \<Rightarrow> None | Some a \<Rightarrow>
     (case find (\<lambda>t. kr_namespace t = namespace \<and> kr_task_id t = mr_task_id a \<and> kr_task_digest t = mr_task_digest a)
        (db_tasks db) of None \<Rightarrow> None | Some t \<Rightarrow>
     (case find (\<lambda>c. cr_namespace c = namespace \<and> cr_contract_digest c = mr_contract_digest a) (db_contracts db) of
        None \<Rightarrow> None | Some c \<Rightarrow>
     (case select_head (db_runs db) namespace (mr_run_id a) of None \<Rightarrow> None | Some r \<Rightarrow>
     (case select_head (db_transactions db) namespace (mr_transaction_id a) of None \<Rightarrow> None | Some x \<Rightarrow>
        Some (a, t, c, r, x))))))"

section \<open>Reading an admission\<close>

definition validateLoadedAdmissionResult :: "AdmissionHashing \<Rightarrow> Hashing \<Rightarrow> AdmissionResult \<Rightarrow> string \<Rightarrow> string \<Rightarrow> string \<Rightarrow>
    KernelError option" where
  "validateLoadedAdmissionResult N H result namespace idempotencyKey requestDigest =
     (let wrong = storeError ErrorEventChain getTaskAdmissionOperation idempotencyKey in first_error
     [fail_if (an_IdempotencyKey result \<noteq> idempotencyKey \<or> an_RequestDigest result \<noteq> requestDigest) wrong,
      fail_if (Result_Validate N H namespace result \<noteq> None) wrong])"

definition validateCurrentAdmissionBindings :: "'j AdmissionCodec \<Rightarrow> AdmissionResult \<Rightarrow> AgentRun \<Rightarrow> ProjectionTx \<Rightarrow>
    KernelError option" where
  "validateCurrentAdmissionBindings M initial currentRun currentTransaction =
     (let initialRun = pj_Run (an_Run initial); cur = tj_Transaction currentTransaction;
          admitted = tj_Transaction (an_Transaction initial); runID = ar_ID currentRun; id = tx_ID cur in first_error
     [equalJSON M (ValText (ar_ImageDigest currentRun)) (ValText (ar_ImageDigest initialRun)) runID,
      equalJSON M (ValText (ar_ContractDigest currentRun)) (ValText (ar_ContractDigest initialRun)) runID,
      equalJSON M (ValPrincipal (ar_Principal currentRun)) (ValPrincipal (ar_Principal initialRun)) runID,
      equalJSON M (ValPrincipals (ar_DelegationChain currentRun)) (ValPrincipals (ar_DelegationChain initialRun)) runID,
      equalJSON M (ValText (ar_ParentRunID currentRun)) (ValText (ar_ParentRunID initialRun)) runID,
      equalJSON M (ValTime (ar_Deadline currentRun)) (ValTime (ar_Deadline initialRun)) runID,
      equalJSON M (ValLimits (ar_BudgetLimits currentRun)) (ValLimits (ar_BudgetLimits initialRun)) runID,
      equalJSON M (ValText (tx_IntentDigest cur)) (ValText (tx_IntentDigest admitted)) id,
      equalJSON M (ValTaskRef (tx_Task cur)) (ValTaskRef (tx_Task admitted)) id,
      equalJSON M (ValBinding (tx_Admission cur)) (ValBinding (tx_Admission admitted)) id,
      equalJSON M (ValPrincipal (tx_Sponsor cur)) (ValPrincipal (tx_Sponsor admitted)) id,
      equalJSON M (ValTexts (tx_AgentRunIDs cur)) (ValTexts (tx_AgentRunIDs admitted)) id,
      fail_if (length (ar_CapabilityIDs currentRun) < length (ar_CapabilityIDs initialRun) \<or>
          take (length (ar_CapabilityIDs initialRun)) (ar_CapabilityIDs currentRun) \<noteq> ar_CapabilityIDs initialRun)
        (storeError ErrorEventChain getTaskAdmissionOperation runID)])"

text \<open>The events of the run with the sequence numbers given, one query each.\<close>

fun loadRunPrefix :: "'j RunCodec \<Rightarrow> driver \<Rightarrow> 'j DB \<Rightarrow> string \<Rightarrow> string \<Rightarrow> nat \<Rightarrow> nat \<Rightarrow> KernelError + RunEvent list" where
  "loadRunPrefix C D db namespace runID i 0 = Inr []"
| "loadRunPrefix C D db namespace runID i (Suc n) =
     ok_then (fail_if (D (ScanStep i) \<noteq> None) (storeError ErrorEventChain getTaskAdmissionOperation runID))
     (bind_res (or_error ErrorEventChain getTaskAdmissionOperation runID
        (find (\<lambda>r. ekey r = (namespace, runID) \<and> er_sequence r = int i + 1) (db_events db))) (\<lambda>row.
      bind_res (decodeAdmissionJSON (rc_DecEvent C) (er_json row) runID) (\<lambda>event.
      bind_res (loadRunPrefix C D db namespace runID (Suc i) n) (\<lambda>events. Inr (event # events)))))"

definition verifyAdmissionEventPrefixes :: "AdmissionHashing \<Rightarrow> Hashing \<Rightarrow> 'j RunCodec \<Rightarrow> 'j TxCodec \<Rightarrow> driver \<Rightarrow> 'j DB \<Rightarrow>
    string \<Rightarrow> AdmissionResult \<Rightarrow> KernelError option" where
  "verifyAdmissionEventPrefixes N H CR CT D db namespace result = (let op = getTaskAdmissionOperation;
       runID = ar_ID (pj_Run (an_Run result)); id = tx_ID (tj_Transaction (an_Transaction result)) in
     case bind_res (loadRunPrefix CR D db namespace runID 0 (nat (ar_EventSequence (pj_Run (an_Run result))))) (\<lambda>runEvents.
       ok_then (fail_if (D QueryStep \<noteq> None) (storeError ErrorEventChain op id))
      (bind_res (or_error ErrorEventChain op id
          (find (\<lambda>r. ekey r = (namespace, id) \<and> er_sequence r = 1) (db_transaction_events db))) (\<lambda>row.
       bind_res (decodeAdmissionJSON (tc_DecEvent CT) (er_json row) id) (\<lambda>transactionEvent.
       ok_then (fail_if (Prepared_Validate N H CR \<lparr>pp_Namespace = namespace, pp_IdempotencyKey = an_IdempotencyKey result,
             pp_RequestDigest = an_RequestDigest result, pp_Result = result, pp_RunEvents = runEvents,
             pp_TransactionEvent = transactionEvent\<rparr> \<noteq> None) (storeError ErrorEventChain op (an_IdempotencyKey result)))
         (Inr ())))))
     of Inl err \<Rightarrow> Some err | Inr _ \<Rightarrow> None)"

definition loadTaskAdmission :: "AdmissionHashing \<Rightarrow> Hashing \<Rightarrow> 'j RunCodec \<Rightarrow> 'j TxCodec \<Rightarrow> 'j AdmissionCodec \<Rightarrow> driver \<Rightarrow> 'j DB \<Rightarrow>
    string \<Rightarrow> string \<Rightarrow> KernelError + AdmissionResult \<times> string" where
  "loadTaskAdmission N H CR CT M D db namespace key = (let op = getTaskAdmissionOperation;
       wrong = (\<lambda>resource. storeError ErrorEventChain op resource) in
     ok_then (read_step D QueryStep op key)
    (bind_res (or_error ErrorNotFound op key (select_admission db namespace key)) (\<lambda>(a, t, c, r, x).
     bind_res (decodeAdmissionJSON (mc_DecResult M) (mr_result_json a) key) (\<lambda>result.
     ok_then (requireStoredRuntimeBinding (sub_driver D 0) db (an_RuntimeID result) (an_EnforcementProfile result)
         (an_Version result = LegacyResultVersion) op key)
    (bind_res (decodeAdmissionJSON (mc_DecTask M) (kr_task_json t) (mr_task_id a)) (\<lambda>task.
     bind_res (decodeAdmissionJSON (mc_DecContract M) (cr_contract_json c) (mr_contract_digest a)) (\<lambda>contract.
     bind_res (decodeAdmissionJSON (rc_DecRun CR) (hr_json r) (mr_run_id a)) (\<lambda>run.
     ok_then (fail_if (AgentRun_Validate run \<noteq> None) (wrong (mr_run_id a)))
    (bind_res (decodeAdmissionJSON (tc_DecProjection CT) (hr_json x) (mr_transaction_id a)) (\<lambda>transaction.
     ok_then (first_error
       [fail_if (ProjectionTx_Validate H transaction \<noteq> None) (wrong (mr_transaction_id a)),
        fail_if (\<not> IsSHA256Digest (mr_request_digest a) \<or> an_IdempotencyKey result \<noteq> key \<or>
            an_RequestDigest result \<noteq> mr_request_digest a \<or> tk_ID (an_Task result) \<noteq> mr_task_id a \<or>
            tk_Digest (an_Task result) \<noteq> mr_task_digest a \<or> ec_Digest (an_Contract result) \<noteq> mr_contract_digest a \<or>
            ar_ID (pj_Run (an_Run result)) \<noteq> mr_run_id a \<or>
            tx_ID (tj_Transaction (an_Transaction result)) \<noteq> mr_transaction_id a) (wrong key),
        validateLoadedAdmissionResult N H result namespace key (mr_request_digest a),
        equalJSON M (ValTask task) (ValTask (an_Task result)) (mr_task_id a),
        equalJSON M (ValContract contract) (ValContract (an_Contract result)) (mr_contract_digest a),
        (let runSequence = ar_EventSequence (pj_Run (an_Run result));
             txSequence = tx_EventSequence (tj_Transaction (an_Transaction result)) in first_error
         [fail_if (\<not> IsSHA256Digest (hr_last_event_digest r) \<or> \<not> IsSHA256Digest (hr_last_event_digest x) \<or>
             ar_EventSequence run < runSequence \<or> tx_EventSequence (tj_Transaction transaction) < txSequence) (wrong key),
          fail_if (ar_EventSequence run = runSequence \<and> hr_last_event_digest r \<noteq> pj_LastEventDigest (an_Run result) \<or>
             tx_EventSequence (tj_Transaction transaction) = txSequence \<and>
               hr_last_event_digest x \<noteq> tj_LastEventDigest (an_Transaction result)) (wrong key)]),
        validateCurrentAdmissionBindings M result run transaction,
        verifyAdmissionEventPrefixes N H CR CT (sub_driver D 1) db namespace result])
      (Inr (result, mr_request_digest a))))))))))))"

definition GetTaskAdmission :: "AdmissionHashing \<Rightarrow> Hashing \<Rightarrow> 'j RunCodec \<Rightarrow> 'j TxCodec \<Rightarrow> 'j AdmissionCodec \<Rightarrow> driver \<Rightarrow> 'j DB \<Rightarrow>
    string \<Rightarrow> string \<Rightarrow> KernelError + AdmissionResult \<times> string" where
  "GetTaskAdmission N H CR CT M D db namespace key =
     ok_then (validateAdmissionLookupKey namespace key) (loadTaskAdmission N H CR CT M D db namespace key)"

section \<open>Admitting a task\<close>

record 'j EncodedAdmission =
  xa_Result :: 'j
  xa_Task :: 'j
  xa_Contract :: 'j
  xa_Run :: 'j
  xa_Transaction :: 'j
  xa_TransactionEvent :: 'j
  xa_RunEvents :: "(RunEvent \<times> 'j) list"

definition prepareAdmission :: "AdmissionHashing \<Rightarrow> Hashing \<Rightarrow> 'j RunCodec \<Rightarrow> 'j TxCodec \<Rightarrow> 'j AdmissionCodec \<Rightarrow> Prepared \<Rightarrow>
    KernelError + 'j EncodedAdmission" where
  "prepareAdmission N H CR CT M prepared = (let op = admitTaskOperation; result = pp_Result prepared;
       encoded = or_error ErrorInternal op (pp_IdempotencyKey prepared) in
     ok_then (map_option kernel_error (Prepared_Validate N H CR prepared))
    (bind_res (encoded (mc_Encode M (ValResult result))) (\<lambda>resultJSON.
     bind_res (encoded (mc_Encode M (ValTask (an_Task result)))) (\<lambda>taskJSON.
     bind_res (encoded (mc_Encode M (ValContract (an_Contract result)))) (\<lambda>contractJSON.
     bind_res (encoded (rc_EncRun CR (pj_Run (an_Run result)))) (\<lambda>runJSON.
     bind_res (encoded (tc_EncProjection CT (an_Transaction result))) (\<lambda>transactionJSON.
     bind_res (encoded (tc_EncEvent CT (pp_TransactionEvent prepared))) (\<lambda>transactionEventJSON.
     bind_res (encode_events CR op (pp_RunEvents prepared)) (\<lambda>runEvents.
     Inr \<lparr>xa_Result = resultJSON, xa_Task = taskJSON, xa_Contract = contractJSON, xa_Run = runJSON,
       xa_Transaction = transactionJSON, xa_TransactionEvent = transactionEventJSON, xa_RunEvents = runEvents\<rparr>)))))))))"

definition ensureExecutionContract :: "driver \<Rightarrow> 'j DB \<Rightarrow> Prepared \<Rightarrow> 'j \<Rightarrow> KernelError + 'j DB" where
  "ensureExecutionContract D tx prepared contractJSON = (let op = admitTaskOperation; contract = an_Contract (pp_Result prepared);
       digest = ec_Digest contract in
     ok_then (read_step D QueryStep op digest)
     (case find (\<lambda>c. cr_namespace c = pp_Namespace prepared \<and> cr_contract_digest c = digest) (db_contracts tx) of
        Some existing \<Rightarrow>
          ok_then (fail_if (cr_contract_id existing \<noteq> ec_ID contract \<or> cr_contract_json existing \<noteq> contractJSON)
            (conflict op digest)) (Inr tx)
      | None \<Rightarrow>
          bind_res (exec_write D (StatementStep 0) op digest (insert_contract (db_contracts tx)
            \<lparr>cr_namespace = pp_Namespace prepared, cr_contract_digest = digest, cr_contract_id = ec_ID contract,
             cr_contract_json = contractJSON, cr_created_at = rfc3339nano (tk_CreatedAt (an_Task (pp_Result prepared)))\<rparr>))
          (\<lambda>contracts. Inr (tx\<lparr>db_contracts := contracts\<rparr>))))"

definition runAdmissionFault :: "(string \<Rightarrow> bool) \<Rightarrow> string \<Rightarrow> string \<Rightarrow> KernelError option" where
  "runAdmissionFault hook point resource = fail_if (hook point) (storeError ErrorInternal admitTaskOperation resource)"

definition execAdmissionStep :: "(string \<Rightarrow> bool) \<Rightarrow> driver \<Rightarrow> nat \<Rightarrow> string \<Rightarrow> string \<Rightarrow> string \<Rightarrow> 'a option \<Rightarrow> KernelError + 'a" where
  "execAdmissionStep hook D i point admissionKey resource statement =
     bind_res (exec_write D (StatementStep i) admitTaskOperation resource statement)
       (\<lambda>x. ok_then (runAdmissionFault hook point admissionKey) (Inr x))"

fun insertAdmissionEvents :: "(string \<Rightarrow> bool) \<Rightarrow> driver \<Rightarrow> string \<Rightarrow> nat \<Rightarrow> 'j DB \<Rightarrow> string \<Rightarrow> string list \<Rightarrow>
    (RunEvent \<times> 'j) list \<Rightarrow> KernelError + 'j DB" where
  "insertAdmissionEvents hook D key i tx namespace (point # points) ((event, data) # rows) =
     bind_res (insertEvent (sub_driver D i) tx namespace event data) (\<lambda>tx.
     ok_then (runAdmissionFault hook point key) (insertAdmissionEvents hook D key (Suc i) tx namespace points rows))"
| "insertAdmissionEvents hook D key i tx namespace points rows = Inr tx"

definition taskRow :: "Prepared \<Rightarrow> 'j \<Rightarrow> 'j task_row" where
  "taskRow prepared data = (let task = an_Task (pp_Result prepared) in
     \<lparr>kr_namespace = pp_Namespace prepared, kr_task_id = tk_ID task, kr_task_digest = tk_Digest task,
      kr_transaction_id = tk_TransactionID task, kr_run_id = tk_RunID task, kr_task_json = data,
      kr_created_at = rfc3339nano (tk_CreatedAt task)\<rparr>)"

definition admissionRow :: "Prepared \<Rightarrow> 'j \<Rightarrow> 'j admission_row" where
  "admissionRow prepared data = (let result = pp_Result prepared; task = an_Task result in
     \<lparr>mr_namespace = pp_Namespace prepared, mr_idempotency_key = pp_IdempotencyKey prepared,
      mr_request_digest = pp_RequestDigest prepared, mr_task_id = tk_ID task, mr_task_digest = tk_Digest task,
      mr_contract_digest = ec_Digest (an_Contract result), mr_run_id = ar_ID (pj_Run (an_Run result)),
      mr_transaction_id = tx_ID (tj_Transaction (an_Transaction result)), mr_result_json = data,
      mr_created_at = rfc3339nano (tk_CreatedAt task)\<rparr>)"

text \<open>The statements of the transaction, after the lookup found no admission under the key.\<close>

definition writeAdmission :: "(string \<Rightarrow> bool) \<Rightarrow> driver \<Rightarrow> 'j DB \<Rightarrow> Prepared \<Rightarrow> 'j EncodedAdmission \<Rightarrow> KernelError + 'j DB" where
  "writeAdmission hook D db prepared encoded = (let key = pp_IdempotencyKey prepared; result = pp_Result prepared;
       ns = pp_Namespace prepared; runID = ar_ID (pj_Run (an_Run result));
       id = tx_ID (tj_Transaction (an_Transaction result)) in
     bind_res (ensureExecutionContract (sub_driver D 2) db prepared (xa_Contract encoded)) (\<lambda>tx.
     ok_then (runAdmissionFault hook ''after_contract_insert'' key)
    (bind_res (execAdmissionStep hook D 1 ''after_task_insert'' key (tk_ID (an_Task result))
        (insert_task (db_tasks tx) (taskRow prepared (xa_Task encoded)))) (\<lambda>tasks. let tx = tx\<lparr>db_tasks := tasks\<rparr> in
     bind_res (execAdmissionStep hook D 2 ''after_run_projection_insert'' key runID
        (insert_head (db_runs tx) (run_row_of (an_Run result) (xa_Run encoded)))) (\<lambda>runs. let tx = tx\<lparr>db_runs := runs\<rparr> in
     bind_res (insertAdmissionEvents hook (sub_driver D 3) key 0 tx ns
        [''after_run_created_event'', ''after_capabilities_granted_event'', ''after_run_admitted_event'']
        (xa_RunEvents encoded)) (\<lambda>tx.
     bind_res (execAdmissionStep hook D 3 ''after_transaction_projection_insert'' key id
        (insert_head (db_transactions tx) (tx_row_of (an_Transaction result) (xa_Transaction encoded))))
        (\<lambda>heads. let tx = tx\<lparr>db_transactions := heads\<rparr> in
     bind_res (insertTransactionEvent D 0 tx ns (pp_TransactionEvent prepared) (xa_TransactionEvent encoded)) (\<lambda>tx.
     ok_then (runAdmissionFault hook ''after_transaction_created_event'' key)
    (bind_res (execAdmissionStep hook D 4 ''after_admission_insert'' key key
        (insert_admission tx (admissionRow prepared (xa_Result encoded)))) (\<lambda>admissions.
     ok_then (runAdmissionFault hook ''before_commit'' key)
     (exec_write D CommitStep admitTaskOperation key (Some (tx\<lparr>db_admissions := admissions\<rparr>)))))))))))))"

definition AdmitTask :: "AdmissionHashing \<Rightarrow> Hashing \<Rightarrow> 'j RunCodec \<Rightarrow> 'j TxCodec \<Rightarrow> 'j AdmissionCodec \<Rightarrow> (string \<Rightarrow> bool) \<Rightarrow> driver \<Rightarrow>
    'j DB \<Rightarrow> Prepared \<Rightarrow> 'j DB \<times> (KernelError + AdmissionResult \<times> bool)" where
  "AdmitTask N H CR CT M hook D db prepared = (let op = admitTaskOperation; key = pp_IdempotencyKey prepared;
       result = pp_Result prepared in settle db
    (ok_then (first_error [validateAdmissionKey (pp_Namespace prepared) key (pp_RequestDigest prepared),
         read_step D BeginStep op key,
         requireStoredRuntimeBinding (sub_driver D 0) db (an_RuntimeID result) (an_EnforcementProfile result) False op key])
    (case loadTaskAdmission N H CR CT M (sub_driver D 1) db (pp_Namespace prepared) key of
       Inr (existing, requestDigest) \<Rightarrow>
         if requestDigest \<noteq> pp_RequestDigest prepared then Inl (storeError ErrorIdempotencyConflict op key)
         else Inr (db, existing, False)
     | Inl err \<Rightarrow>
         if ke_Code err \<noteq> ErrorNotFound then Inl err
         else bind_res (prepareAdmission N H CR CT M prepared) (\<lambda>encoded.
           bind_res (writeAdmission hook D db prepared encoded) (\<lambda>tx. Inr (tx, result, True))))))"

end
