(* ===== verification/Admission_Safety.thy ===== *)
theory Admission_Safety
  imports Admission_Store
begin

text \<open>
  What admission writes and what reading it back finds. The first part extends the contract of an event
  store: a stream may be created with several events at once, and a single event can be looked up.
\<close>

section \<open>Streams created with several events\<close>

lemma find_conj: "find (\<lambda>x. P x \<and> Q x) xs = find Q (filter P xs)"
  by (induction xs) simp_all

lemma find_append: "find P (xs @ ys) = (case find P xs of None \<Rightarrow> find P ys | Some x \<Rightarrow> Some x)"
  by (induction xs) simp_all

lemma find_extended: "find P xs = Some x \<Longrightarrow> find P (xs @ ys) = Some x"
  by (simp add: find_append)

context event_store
begin

lemma create_batch_consistent:
  assumes c: "consistent heads events" and p: "replay_from None es = Inr p" and h: "head_for p h"
    and rs: "list_all2 (row_for (ns_of p)) es rs"
    and ih: "insert_head heads h = Some heads'" and ie: "insert_rows heads' events rs = Some events'"
  shows "consistent heads' events'" "histories heads' events' = (histories heads events)(hkey h \<mapsto> es)"
    "histories heads events (hkey h) = None"
proof -
  from ih have h': "heads' = heads @ [h]" "hkey h \<notin> hkey ` set heads" by (auto simp: insert_head_Some)
  from insert_rows_Some [OF ie] c have e': "events' = events @ rs" "distinct (map er_event_id events')"
    unfolding consistent_def by metis+
  have kh: "hkey h = (ns_of p, stream_of p)" using h by (simp add: head_for_def)
  have k: "ekey r = hkey h" if "r \<in> set rs" for r
    using that rs replay_stream [OF p] nth_mem [of _ es] kh
    by (auto simp: list_all2_conv_all_nth in_set_conv_nth row_for_def)
  have none: "rows_of events (hkey h) = []"
  proof -
    have "ekey x \<noteq> hkey h" if "x \<in> set events" for x
      using that c h'(2) unfolding consistent_def by (metis image_eqI subsetD)
    then show ?thesis by (simp add: rows_of_def filter_empty_conv)
  qed
  have rows: "rows_of events' (hkey h) = rs" using k none e'(1) by (simp add: rows_of_def filter_id_conv)
  have other: "rows_of events' k' = rows_of events k'" if "k' \<noteq> hkey h" for k'
    using k that e'(1) by (simp add: rows_of_def filter_empty_conv)
  have new: "stored events' h es p" using rows h p rs kh by (simp add: stored_def)
  have "stored events' x fs q = stored events x fs q" if "x \<in> set heads" for x fs q
  proof -
    have "hkey x \<noteq> hkey h" using that h'(2) by (metis image_eqI)
    with other [of "hkey x"] show ?thesis by (simp add: stored_def)
  qed
  then have "\<exists>es q. stored events' x es q" if "x \<in> set heads'" for x
    using that new c unfolding h'(1) consistent_def by auto
  moreover have "ekey ` set events' \<subseteq> hkey ` set heads'"
    using c k unfolding h'(1) e'(1) consistent_def by auto
  ultimately show "consistent heads' events'" using c h' e' by (simp add: consistent_def)
  show "histories heads' events' = (histories heads events)(hkey h \<mapsto> es)"
  proof (rule ext)
    fix k'
    show "histories heads' events' k' = ((histories heads events)(hkey h \<mapsto> es)) k'"
    proof (cases "k' = hkey h")
      case True
      then show ?thesis using stored_history [OF new] h'(1) by simp
    next
      case False
      with other h'(1) show ?thesis by (simp add: histories_def)
    qed
  qed
  show "histories heads events (hkey h) = None" using h'(2) by (simp add: histories_def)
qed

lemma find_event:
  assumes "stored events h es p" and "i < length es"
  shows "\<exists>r. find (\<lambda>r. ekey r = hkey h \<and> er_sequence r = int i + 1) events = Some r \<and> dec_e (er_json r) = Some (es ! i)"
proof -
  let ?rs = "rows_of events (hkey h)"
  have l: "list_all2 (row_for (fst (hkey h))) es ?rs" and r: "replay_from None es = Inr p"
    using assms(1) by (auto simp: stored_def)
  then have seqs: "er_sequence (?rs ! j) = int j + 1" if "j < length ?rs" for j
    using that replay_numbered [OF r] by (auto simp: list_all2_conv_all_nth row_for_def)
  have i: "i < length ?rs" using l assms(2) by (simp add: list_all2_lengthD)
  have "find (\<lambda>r. er_sequence r = int i + 1) ?rs = Some (?rs ! i)"
    unfolding find_Some_iff using i seqs by (intro exI [of _ i]) auto
  moreover have "dec_e (er_json (?rs ! i)) = Some (es ! i)"
    using l i by (auto simp: list_all2_conv_all_nth row_for_def)
  ultimately show ?thesis unfolding find_conj by (simp add: rows_of_def)
qed

end


section \<open>What a valid preparation says\<close>

lemma Result_Validate_None:
  assumes "Result_Validate N H ns result = None"
  shows "IsIdentifier ns" "IsSHA256Digest (an_RequestDigest result)" "checkResultVersion result = None"
    "AgentRun_Validate (pj_Run (an_Run result)) = None" "ProjectionTx_Validate H (an_Transaction result) = None"
    "resultBound ns result"
  using assms by (simp_all add: Result_Validate_def Let_def split: option.splits)

lemma Prepared_Validate_None:
  assumes "Prepared_Validate N H C p = None"
  shows "Result_Validate N H (pp_Namespace p) (pp_Result p) = None"
    "pp_IdempotencyKey p = an_IdempotencyKey (pp_Result p)" "pp_RequestDigest p = an_RequestDigest (pp_Result p)"
    "map ev_Type (pp_RunEvents p) = [EventRunCreated, EventCapabilitiesGranted, EventRunStateChanged]"
    "Replay (pp_RunEvents p) = Inr (an_Run (pp_Result p))"
    "ReplayTx H [pp_TransactionEvent p] = Inr (an_Transaction (pp_Result p))"
    "\<forall>e\<in>set (pp_RunEvents p). VerifyEventDigest (rc_Digest C) e = Some True"
proof -
  have "check_each (\<lambda>_ event. case VerifyEventDigest (rc_Digest C) event of
      None \<Rightarrow> Some (admissionError ErrorInternal ''validate_task_admission'' (ev_ID event))
    | Some valid \<Rightarrow> fail_if (\<not> valid) (admissionError ErrorEventChain ''validate_task_admission'' (ev_ID event))) 0 (pp_RunEvents p) = None \<longleftrightarrow>
    (\<forall>e\<in>set (pp_RunEvents p). VerifyEventDigest (rc_Digest C) e = Some True)"
    by (rule check_each_None) (simp split: option.splits)
  with assms show "\<forall>e\<in>set (pp_RunEvents p). VerifyEventDigest (rc_Digest C) e = Some True"
    by (simp add: Prepared_Validate_def Let_def split: sum.splits)
qed (use assms in \<open>auto simp: Prepared_Validate_def Let_def split: sum.splits prod.splits if_splits\<close>)

text \<open>The result of an admission names its parts by the identifiers and digests under which they are stored.\<close>

lemma resultBound_names:
  assumes "resultBound ns result"
  shows "ar_Namespace (pj_Run (an_Run result)) = ns" "tx_Namespace (tj_Transaction (an_Transaction result)) = ns"
    "ar_EventSequence (pj_Run (an_Run result)) = 3" "tx_EventSequence (tj_Transaction (an_Transaction result)) = 1"
    "tk_RunID (an_Task result) = ar_ID (pj_Run (an_Run result))"
    "tk_TransactionID (an_Task result) = tx_ID (tj_Transaction (an_Transaction result))"
  using assms by (simp_all add: resultBound_def Let_def)

section \<open>What an admission writes\<close>

text \<open>What was just encoded decodes to itself, for everything an admission writes.\<close>

definition admission_roundtrip :: "'j RunCodec \<Rightarrow> 'j TxCodec \<Rightarrow> 'j AdmissionCodec \<Rightarrow> Prepared \<Rightarrow> bool" where
  "admission_roundtrip CR CT M p \<longleftrightarrow> (let result = pp_Result p in
     (\<forall>e\<in>set (pp_RunEvents p). run_roundtrip CR e (an_Run result)) \<and> tx_roundtrip CT [pp_TransactionEvent p] (an_Transaction result) \<and>
     (\<forall>j. mc_Encode M (ValResult result) = Some j \<longrightarrow> mc_DecResult M j = Some result) \<and>
     (\<forall>j. mc_Encode M (ValTask (an_Task result)) = Some j \<longrightarrow> mc_DecTask M j = Some (an_Task result)) \<and>
     (\<forall>j. mc_Encode M (ValContract (an_Contract result)) = Some j \<longrightarrow> mc_DecContract M j = Some (an_Contract result)))"

lemma prepareAdmission_Inr:
  assumes "prepareAdmission N H CR CT M p = Inr x"
  shows "Prepared_Validate N H CR p = None" "mc_Encode M (ValResult (pp_Result p)) = Some (xa_Result x)"
    "mc_Encode M (ValTask (an_Task (pp_Result p))) = Some (xa_Task x)"
    "mc_Encode M (ValContract (an_Contract (pp_Result p))) = Some (xa_Contract x)"
    "rc_EncRun CR (pj_Run (an_Run (pp_Result p))) = Some (xa_Run x)"
    "tc_EncProjection CT (an_Transaction (pp_Result p)) = Some (xa_Transaction x)"
    "tc_EncEvent CT (pp_TransactionEvent p) = Some (xa_TransactionEvent x)"
    "map fst (xa_RunEvents x) = pp_RunEvents p" "\<forall>e j. (e, j) \<in> set (xa_RunEvents x) \<longrightarrow> rc_EncEvent CR e = Some j"
  using assms encode_events_Inr [of CR admitTaskOperation "pp_RunEvents p"]
  by (auto simp: prepareAdmission_def Let_def)

lemma insertAdmissionEvents_Inr:
  "insertAdmissionEvents hook D key i tx ns points rows = Inr tx' \<Longrightarrow> length rows \<le> length points \<Longrightarrow>
     \<exists>evs. insert_rows (db_runs tx) (db_events tx) (map (\<lambda>(e, j). event_row_of ns e j) rows) = Some evs \<and>
       tx' = tx\<lparr>db_events := evs\<rparr>"
proof (induction rows arbitrary: i tx points)
  case Nil
  then show ?case by (cases points) auto
next
  case (Cons row rows)
  obtain e j where row: "row = (e, j)" by (cases row)
  obtain q qs where points: "points = q # qs" using Cons.prems(2) by (cases points) auto
  from Cons.prems(1) row points obtain evs where
    "insert_event_row (db_runs tx) (db_events tx) (event_row_of ns e j) = Some evs"
    "insertAdmissionEvents hook D key (Suc i) (tx\<lparr>db_events := evs\<rparr>) ns qs rows = Inr tx'"
    by (auto simp: insertEvent_Inr)
  with Cons.IH Cons.prems(2) row points show ?case by fastforce
qed

lemma ensureExecutionContract_Inr:
  assumes "ensureExecutionContract D db p data = Inr tx"
  obtains cs c where "tx = db\<lparr>db_contracts := db_contracts db @ cs\<rparr>"
    and "find (\<lambda>c. cr_namespace c = pp_Namespace p \<and> cr_contract_digest c = ec_Digest (an_Contract (pp_Result p)))
      (db_contracts db @ cs) = Some c" and "cr_contract_json c = data"
proof (cases "find (\<lambda>c. cr_namespace c = pp_Namespace p \<and> cr_contract_digest c = ec_Digest (an_Contract (pp_Result p)))
    (db_contracts db)")
  case None
  with assms that show ?thesis
    by (auto simp: ensureExecutionContract_def Let_def insert_contract_def find_append split: if_splits)
next
  case (Some c)
  with assms that [of "[]" c] show ?thesis by (simp add: ensureExecutionContract_def Let_def)
qed

lemma execAdmissionStep_Inr:
  "execAdmissionStep hook D i point key res st = Inr x \<longleftrightarrow> D (StatementStep i) = None \<and> st = Some x \<and> \<not> hook point"
  by (auto simp: execAdmissionStep_def runAdmissionFault_def)

text \<open>No admission row in the way: none with the same key, run or transaction.\<close>

definition unadmitted :: "'j DB \<Rightarrow> Prepared \<Rightarrow> bool" where
  "unadmitted db p \<longleftrightarrow> (let result = pp_Result p in \<forall>a\<in>set (db_admissions db). mr_namespace a = pp_Namespace p \<longrightarrow>
     mr_idempotency_key a \<noteq> pp_IdempotencyKey p \<and> mr_run_id a \<noteq> ar_ID (pj_Run (an_Run result)) \<and>
     mr_transaction_id a \<noteq> tx_ID (tj_Transaction (an_Transaction result)))"

lemma writeAdmission_Inr:
  assumes "writeAdmission hook D db p x = Inr db'" and "length (xa_RunEvents x) = 3"
  obtains tx runs evs heads tevs ads where
    "ensureExecutionContract (sub_driver D 2) db p (xa_Contract x) = Inr tx"
    and "insert_task (db_tasks tx) (taskRow p (xa_Task x)) = Some (db_tasks db')"
    and "insert_head (db_runs tx) (run_row_of (an_Run (pp_Result p)) (xa_Run x)) = Some (db_runs db')"
    and "insert_rows (db_runs db') (db_events tx) (map (\<lambda>(e, j). event_row_of (pp_Namespace p) e j) (xa_RunEvents x)) =
      Some (db_events db')"
    and "insert_head (db_transactions tx) (tx_row_of (an_Transaction (pp_Result p)) (xa_Transaction x)) =
      Some (db_transactions db')"
    and "insert_event_row (db_transactions db') (db_transaction_events tx)
      (tx_event_row_of (pp_Namespace p) (pp_TransactionEvent p) (xa_TransactionEvent x)) = Some (db_transaction_events db')"
    and "unadmitted db p"
    and "db_admissions db' = db_admissions db @ [admissionRow p (xa_Result x)]"
    and "db_metadata db' = db_metadata tx" "db_contracts db' = db_contracts tx"
proof -
  from assms(1) obtain tx where tx: "ensureExecutionContract (sub_driver D 2) db p (xa_Contract x) = Inr tx"
    by (auto simp: writeAdmission_def Let_def)
  then have same: "db_admissions tx = db_admissions db"
    by (auto elim!: ensureExecutionContract_Inr)
  from assms tx obtain ts runs evs heads tevs ads where
    w: "insert_task (db_tasks tx) (taskRow p (xa_Task x)) = Some ts"
      "insert_head (db_runs tx) (run_row_of (an_Run (pp_Result p)) (xa_Run x)) = Some runs"
      "insert_rows runs (db_events tx) (map (\<lambda>(e, j). event_row_of (pp_Namespace p) e j) (xa_RunEvents x)) = Some evs"
      "insert_head (db_transactions tx) (tx_row_of (an_Transaction (pp_Result p)) (xa_Transaction x)) = Some heads"
      "insert_event_row heads (db_transaction_events tx)
        (tx_event_row_of (pp_Namespace p) (pp_TransactionEvent p) (xa_TransactionEvent x)) = Some tevs"
      "insert_admission (tx\<lparr>db_tasks := ts, db_runs := runs, db_events := evs, db_transactions := heads,
        db_transaction_events := tevs\<rparr>) (admissionRow p (xa_Result x)) = Some ads"
    and db': "db' = tx\<lparr>db_tasks := ts, db_runs := runs, db_events := evs, db_transactions := heads,
        db_transaction_events := tevs, db_admissions := ads\<rparr>"
    by (auto simp: writeAdmission_def Let_def execAdmissionStep_Inr insertTransactionEvent_Inr dest!: insertAdmissionEvents_Inr)
  then show ?thesis
    using that [OF tx] same by (auto simp: insert_admission_def admissionRow_def unadmitted_def Let_def split: if_splits)
qed

lemma AdmitTask_created:
  assumes "AdmitTask N H CR CT M hook D db p = (db', Inr (r, True))"
  obtains x where "r = pp_Result p" and "prepareAdmission N H CR CT M p = Inr x" and "writeAdmission hook D db p x = Inr db'"
    and "validateAdmissionKey (pp_Namespace p) (pp_IdempotencyKey p) (pp_RequestDigest p) = None"
    and "requireStoredRuntimeBinding (sub_driver D 0) db (an_RuntimeID r) (an_EnforcementProfile r) False
      admitTaskOperation (pp_IdempotencyKey p) = None"
  using assms by (auto simp: AdmitTask_def Let_def split: sum.splits prod.splits if_splits)

lemma AdmitTask_replayed:
  assumes "AdmitTask N H CR CT M hook D db p = (db', Inr (r, False))"
  shows "db' = db" "loadTaskAdmission N H CR CT M (sub_driver D 1) db (pp_Namespace p) (pp_IdempotencyKey p) =
      Inr (r, pp_RequestDigest p)"
  using assms by (auto simp: AdmitTask_def Let_def split: sum.splits prod.splits if_splits)

lemma AdmitTask_failed: "AdmitTask N H CR CT M hook D db p = (db', Inl err) \<Longrightarrow> db' = db"
  by (simp add: AdmitTask_def Let_def)

text \<open>All rows of an admission, over the tables it found.\<close>

lemma AdmitTask_rows:
  assumes "AdmitTask N H CR CT M hook D db p = (db', Inr (r, True))"
  obtains x c cs where "r = pp_Result p" and "prepareAdmission N H CR CT M p = Inr x"
    and "db_metadata db' = db_metadata db" "db_contracts db' = db_contracts db @ cs"
    and "find (\<lambda>c. cr_namespace c = pp_Namespace p \<and> cr_contract_digest c = ec_Digest (an_Contract r)) (db_contracts db') = Some c"
    and "cr_contract_json c = xa_Contract x"
    and "insert_task (db_tasks db) (taskRow p (xa_Task x)) = Some (db_tasks db')"
    and "insert_head (db_runs db) (run_row_of (an_Run r) (xa_Run x)) = Some (db_runs db')"
    and "insert_rows (db_runs db') (db_events db) (map (\<lambda>(e, j). event_row_of (pp_Namespace p) e j) (xa_RunEvents x)) =
      Some (db_events db')"
    and "insert_head (db_transactions db) (tx_row_of (an_Transaction r) (xa_Transaction x)) = Some (db_transactions db')"
    and "insert_event_row (db_transactions db') (db_transaction_events db)
      (tx_event_row_of (pp_Namespace p) (pp_TransactionEvent p) (xa_TransactionEvent x)) = Some (db_transaction_events db')"
    and "unadmitted db p"
    and "db_admissions db' = db_admissions db @ [admissionRow p (xa_Result x)]"
proof -
  from assms obtain x where r: "r = pp_Result p" and x: "prepareAdmission N H CR CT M p = Inr x"
    and w: "writeAdmission hook D db p x = Inr db'" by (rule AdmitTask_created)
  note enc = prepareAdmission_Inr [OF x]
  have "length (xa_RunEvents x) = length (pp_RunEvents p)" using enc(8) by (metis length_map)
  also have "\<dots> = 3" using arg_cong [OF Prepared_Validate_None(4) [OF enc(1)], of length] by simp
  finally show ?thesis
  proof (rule writeAdmission_Inr [OF w])
    fix tx
    assume tx: "ensureExecutionContract (sub_driver D 2) db p (xa_Contract x) = Inr tx"
      and rows: "insert_task (db_tasks tx) (taskRow p (xa_Task x)) = Some (db_tasks db')"
        "insert_head (db_runs tx) (run_row_of (an_Run (pp_Result p)) (xa_Run x)) = Some (db_runs db')"
        "insert_rows (db_runs db') (db_events tx) (map (\<lambda>(e, j). event_row_of (pp_Namespace p) e j) (xa_RunEvents x)) =
          Some (db_events db')"
        "insert_head (db_transactions tx) (tx_row_of (an_Transaction (pp_Result p)) (xa_Transaction x)) =
          Some (db_transactions db')"
        "insert_event_row (db_transactions db') (db_transaction_events tx)
          (tx_event_row_of (pp_Namespace p) (pp_TransactionEvent p) (xa_TransactionEvent x)) = Some (db_transaction_events db')"
        "unadmitted db p"
        "db_admissions db' = db_admissions db @ [admissionRow p (xa_Result x)]"
      and rest: "db_metadata db' = db_metadata tx" "db_contracts db' = db_contracts tx"
    from tx obtain cs c where c: "tx = db\<lparr>db_contracts := db_contracts db @ cs\<rparr>" "cr_contract_json c = xa_Contract x"
      "find (\<lambda>c. cr_namespace c = pp_Namespace p \<and> cr_contract_digest c = ec_Digest (an_Contract (pp_Result p)))
        (db_contracts db @ cs) = Some c" by (rule ensureExecutionContract_Inr)
    show ?thesis by (rule that [OF r x, of cs c]) (use c rows rest r in simp_all)
  qed
qed

text \<open>The ledgers after an admission: one new history each, the prepared events.\<close>

lemma AdmitTask_run_ledger:
  assumes ok: "run_store_ok CR db"
    and a: "AdmitTask N H CR CT M hook D db p = (db', Inr (r, True))" and rt: "admission_roundtrip CR CT M p"
  shows "run_store_ok CR db'"
    "run_histories CR db' = (run_histories CR db)((pp_Namespace p, ar_ID (pj_Run (an_Run r))) \<mapsto> pp_RunEvents p)"
    "run_histories CR db (pp_Namespace p, ar_ID (pj_Run (an_Run r))) = None"
proof -
  from a obtain x where r: "r = pp_Result p" and x: "prepareAdmission N H CR CT M p = Inr x"
    and runs: "insert_head (db_runs db) (run_row_of (an_Run r) (xa_Run x)) = Some (db_runs db')"
    and evs: "insert_rows (db_runs db') (db_events db) (map (\<lambda>(e, j). event_row_of (pp_Namespace p) e j) (xa_RunEvents x)) =
      Some (db_events db')" by (rule AdmitTask_rows)
  note enc = prepareAdmission_Inr [OF x, folded r]
  note valid = Prepared_Validate_None [OF enc(1), folded r]
  note names = resultBound_names [OF Result_Validate_None(6) [OF valid(1)]]
  let ?run = "an_Run r"
  have rts: "\<forall>e\<in>set (pp_RunEvents p). run_roundtrip CR e ?run"
    using rt r by (simp add: admission_roundtrip_def Let_def)
  have rep: "replayFrom None (pp_RunEvents p) = Inr ?run" using valid(5) by (simp add: Replay_ledger)
  obtain e where "e \<in> set (pp_RunEvents p)" using valid(4) by (cases "pp_RunEvents p") auto
  with rts have dec: "rc_DecRun CR (xa_Run x) = Some (pj_Run ?run)" using enc(5) by (auto simp: run_roundtrip_def)
  have "stored_run_ok ?run" using rep by (induction rule: run_ledger.replay_induct) (auto dest: Apply_stored_ok)
  with dec enc(5) have head: "run_store.head_for CR ?run (run_row_of ?run (xa_Run x))"
    by (simp add: run_store.head_for_def run_row_of_def hkey_def decode_head_def)
  have k: "hkey (run_row_of ?run (xa_Run x)) = (pp_Namespace p, ar_ID (pj_Run ?run))"
    using names by (simp add: hkey_def run_row_of_def)
  have rows: "list_all2 (run_store.row_for CR (ar_Namespace (pj_Run ?run))) (pp_RunEvents p)
      (map (\<lambda>(e, j). event_row_of (pp_Namespace p) e j) (xa_RunEvents x))"
    unfolding names(1) by (rule paired_rows [OF enc(8,9) rts valid(7)])
  note step = run_store.create_batch_consistent [OF ok [unfolded run_store_ok_def] rep head rows runs evs]
  from step k show "run_store_ok CR db'"
    "run_histories CR db' = (run_histories CR db)((pp_Namespace p, ar_ID (pj_Run (an_Run r))) \<mapsto> pp_RunEvents p)"
    "run_histories CR db (pp_Namespace p, ar_ID (pj_Run (an_Run r))) = None"
    by (simp_all add: run_store_ok_def run_histories_eq)
qed

lemma AdmitTask_tx_ledger:
  assumes ok: "tx_store_ok H CT db"
    and a: "AdmitTask N H CR CT M hook D db p = (db', Inr (r, True))" and rt: "admission_roundtrip CR CT M p"
  shows "tx_store_ok H CT db'"
    "tx_histories CT db' =
      (tx_histories CT db)((pp_Namespace p, tx_ID (tj_Transaction (an_Transaction r))) \<mapsto> [pp_TransactionEvent p])"
    "tx_histories CT db (pp_Namespace p, tx_ID (tj_Transaction (an_Transaction r))) = None"
proof -
  from a obtain x where r: "r = pp_Result p" and x: "prepareAdmission N H CR CT M p = Inr x"
    and heads: "insert_head (db_transactions db) (tx_row_of (an_Transaction r) (xa_Transaction x)) = Some (db_transactions db')"
    and tevs: "insert_event_row (db_transactions db') (db_transaction_events db)
      (tx_event_row_of (pp_Namespace p) (pp_TransactionEvent p) (xa_TransactionEvent x)) = Some (db_transaction_events db')"
    by (rule AdmitTask_rows)
  note enc = prepareAdmission_Inr [OF x, folded r]
  note valid = Prepared_Validate_None [OF enc(1), folded r]
  note res = Result_Validate_None [OF valid(1)]
  note names = resultBound_names [OF res(6)]
  let ?tx = "an_Transaction r"
  have rts: "tx_roundtrip CT [pp_TransactionEvent p] ?tx" using rt r by (simp add: admission_roundtrip_def Let_def)
  have ap: "ApplyTx H None (pp_TransactionEvent p) = Inr ?tx" using valid(6) by (simp add: ReplayTx_def)
  have row: "tx_store.row_for CT H (tx_Namespace (tj_Transaction ?tx)) (pp_TransactionEvent p)
      (tx_event_row_of (pp_Namespace p) (pp_TransactionEvent p) (xa_TransactionEvent x))"
    unfolding names(2) by (rule tx_row_for [OF rts _ enc(7) ApplyTx_sealed [OF ap]]) simp
  have k: "hkey (tx_row_of ?tx (xa_Transaction x)) = (pp_Namespace p, tx_ID (tj_Transaction ?tx))"
    using names by (simp add: hkey_def tx_row_of_def)
  note step = tx_store.create_consistent [OF ok [unfolded tx_store_ok_def] ap tx_head_for [OF rts enc(6) res(5)] row heads tevs]
  from step k show "tx_store_ok H CT db'"
    "tx_histories CT db' =
      (tx_histories CT db)((pp_Namespace p, tx_ID (tj_Transaction (an_Transaction r))) \<mapsto> [pp_TransactionEvent p])"
    by (simp_all add: tx_store_ok_def tx_histories_eq)
  show "tx_histories CT db (pp_Namespace p, tx_ID (tj_Transaction (an_Transaction r))) = None"
    using heads k by (auto simp: tx_histories_def insert_head_Some)
qed

end
