(* ===== verification/Kernel_Steps.thy ===== *)
theory Kernel_Steps
  imports Admission_Safety
begin

text \<open>
  The write operations of the kernel's store as one step relation: creating and appending runs and
  transactions, the paired append, admission, binding and reopening the ledger, each with any driver and
  any outcome. Every step keeps both ledgers consistent, only adds to what is stored and keeps the
  binding of the ledger to its Runtime.
\<close>

section \<open>Failed operations change nothing\<close>

lemma CreateRun_unchanged: "CreateRun C D db e = (db', Inl err) \<Longrightarrow> db' = db"
  by (auto simp: CreateRun_def)

lemma AppendEvent_unchanged: "AppendEvent C D db ns n e = (db', Inl err) \<Longrightarrow> db' = db"
  by (auto simp: AppendEvent_def Let_def)

lemma CreateTransaction_unchanged: "CreateTransaction H C D db e = (db', Inl err) \<Longrightarrow> db' = db"
  by (auto simp: CreateTransaction_def Let_def)

lemma appendTx_unchanged: "appendTransactionEvents H C D db ns n es op = (db', Inl err) \<Longrightarrow> db' = db"
  by (auto simp: appendTransactionEvents_def)

lemma paired_unchanged:
  "AppendPairedExecutionEvent H CR CT hook D db ns heads e = (db', Inl err) \<Longrightarrow> db' = db"
  by (auto simp: AppendPairedExecutionEvent_def Let_def)

section \<open>The step relation\<close>

text \<open>Where an operation succeeds, what it wrote can be read back.\<close>

definition paired_roundtrip :: "Hashing \<Rightarrow> 'j RunCodec \<Rightarrow> 'j TxCodec \<Rightarrow> driver \<Rightarrow> 'j DB \<Rightarrow> string \<Rightarrow> ExecutionHeads \<Rightarrow>
    TransactionEvent \<Rightarrow> 'j DB \<Rightarrow> ExecutionProjection \<Rightarrow> bool" where
  "paired_roundtrip H CR CT D db ns heads e db' r \<longleftrightarrow> tx_roundtrip CT [e] (xj_Transaction r) \<and>
     (\<forall>s. paired_ok H CR CT D db ns heads e r db' s \<longrightarrow> (\<forall>f\<in>set (ps_RunEvents s). run_roundtrip CR f (xj_Run r)))"

inductive kernel_step :: "Hashing \<Rightarrow> 'j RunCodec \<Rightarrow> 'j TxCodec \<Rightarrow> 'j DB \<Rightarrow> 'j DB \<Rightarrow> bool"
  for H :: Hashing and CR :: "'j RunCodec" and CT :: "'j TxCodec" where
  create_run: "CreateRun CR D db e = (db', r) \<Longrightarrow> (\<And>p. r = Inr p \<Longrightarrow> run_roundtrip CR e p) \<Longrightarrow>
    kernel_step H CR CT db db'"
| append_run: "AppendEvent CR D db ns n e = (db', r) \<Longrightarrow> (\<And>p. r = Inr p \<Longrightarrow> run_roundtrip CR e p) \<Longrightarrow>
    kernel_step H CR CT db db'"
| create_tx: "CreateTransaction H CT D db f = (db', s) \<Longrightarrow> (\<And>p. s = Inr p \<Longrightarrow> tx_roundtrip CT [f] p) \<Longrightarrow>
    kernel_step H CR CT db db'"
| append_tx: "AppendTransactionEvents H CT D db ns n fs = (db', s) \<Longrightarrow> (\<And>p. s = Inr p \<Longrightarrow> tx_roundtrip CT fs p) \<Longrightarrow>
    kernel_step H CR CT db db'"
| paired: "AppendPairedExecutionEvent H CR CT hook D db ns heads f = (db', t) \<Longrightarrow>
    (\<And>x. t = Inr x \<Longrightarrow> paired_roundtrip H CR CT D db ns heads f db' x) \<Longrightarrow> kernel_step H CR CT db db'"
| admit: "AdmitTask N H CR CT M hook D db prepared = (db', a) \<Longrightarrow>
    (\<And>result. a = Inr (result, True) \<Longrightarrow> admission_roundtrip CR CT M prepared) \<Longrightarrow> kernel_step H CR CT db db'"
| bind_runtime: "BindRuntimeMetadata D db runtime profile = (db', b) \<Longrightarrow> kernel_step H CR CT db db'"
| bind_profile: "BindEnforcementProfile D db profile = (db', b) \<Longrightarrow> kernel_step H CR CT db db'"
| reopen: "OpenSQLiteForRuntime prep mode D tables db runtime profile = (db', c) \<Longrightarrow> kernel_step H CR CT db db'"

abbreviation kernel_steps :: "Hashing \<Rightarrow> 'j RunCodec \<Rightarrow> 'j TxCodec \<Rightarrow> 'j DB \<Rightarrow> 'j DB \<Rightarrow> bool" where
  "kernel_steps H CR CT \<equiv> (kernel_step H CR CT)\<^sup>*\<^sup>*"

definition kernel_reachable :: "Hashing \<Rightarrow> 'j RunCodec \<Rightarrow> 'j TxCodec \<Rightarrow> 'j DB \<Rightarrow> bool" where
  "kernel_reachable H CR CT db \<longleftrightarrow> kernel_steps H CR CT empty_db db"

section \<open>What a step adds\<close>

text \<open>Nothing stored is lost: rows of admissions stay in place, histories are only extended.\<close>

definition grows :: "('k \<Rightarrow> 'e list option) \<Rightarrow> ('k \<Rightarrow> 'e list option) \<Rightarrow> bool" where
  "grows h h' \<longleftrightarrow> (\<forall>k es. h k = Some es \<longrightarrow> (\<exists>fs. h' k = Some (es @ fs)))"

lemma grows_refl [simp]: "grows h h"
  by (simp add: grows_def)

lemma grows_trans: "grows f g \<Longrightarrow> grows g h \<Longrightarrow> grows f h"
  unfolding grows_def by (metis append.assoc)

lemma grows_new: "h k = None \<Longrightarrow> grows h (h(k \<mapsto> es))"
  by (simp add: grows_def)

lemma grows_more: "h k = Some es \<Longrightarrow> grows h (h(k \<mapsto> es @ fs))"
  by (simp add: grows_def)

lemma grows_empty [simp]: "grows h Map.empty \<longleftrightarrow> h = Map.empty"
  by (auto simp: grows_def fun_eq_iff)

definition extends :: "'j RunCodec \<Rightarrow> 'j TxCodec \<Rightarrow> 'j DB \<Rightarrow> 'j DB \<Rightarrow> bool" where
  "extends CR CT db db' \<longleftrightarrow> (\<exists>xs. db_contracts db' = db_contracts db @ xs) \<and> (\<exists>xs. db_tasks db' = db_tasks db @ xs) \<and>
     (\<exists>xs. db_admissions db' = db_admissions db @ xs) \<and>
     grows (run_histories CR db) (run_histories CR db') \<and> grows (tx_histories CT db) (tx_histories CT db')"

lemma extends_refl [simp]: "extends CR CT db db"
  by (simp add: extends_def)

lemma extends_trans: "extends CR CT a b \<Longrightarrow> extends CR CT b c \<Longrightarrow> extends CR CT a c"
  unfolding extends_def by (auto intro: grows_trans)

definition ledgers_ok :: "Hashing \<Rightarrow> 'j RunCodec \<Rightarrow> 'j TxCodec \<Rightarrow> 'j DB \<Rightarrow> bool" where
  "ledgers_ok H CR CT db \<longleftrightarrow> run_store_ok CR db \<and> tx_store_ok H CT db"

text \<open>A ledger has rows exactly when it has a history, a contract, a task or an admission.\<close>

lemma nonempty_ledgers:
  assumes "ledgers_ok H CR CT db"
  shows "db_nonempty db \<longleftrightarrow> run_histories CR db \<noteq> Map.empty \<or> tx_histories CT db \<noteq> Map.empty \<or>
    db_contracts db \<noteq> [] \<or> db_tasks db \<noteq> [] \<or> db_admissions db \<noteq> []"
proof -
  have "ekey ` set (db_events db) \<subseteq> hkey ` set (db_runs db)"
    "ekey ` set (db_transaction_events db) \<subseteq> hkey ` set (db_transactions db)"
    using assms by (simp_all add: ledgers_ok_def run_store_ok_def tx_store_ok_def run_store.consistent_def tx_store.consistent_def)
  then have "db_events db \<noteq> [] \<Longrightarrow> db_runs db \<noteq> []" "db_transaction_events db \<noteq> [] \<Longrightarrow> db_transactions db \<noteq> []" by auto
  moreover have "run_histories CR db \<noteq> Map.empty \<longleftrightarrow> db_runs db \<noteq> []"
    unfolding run_histories_def fun_eq_iff by (cases "db_runs db") (auto simp: hkey_def)
  moreover have "tx_histories CT db \<noteq> Map.empty \<longleftrightarrow> db_transactions db \<noteq> []"
    unfolding tx_histories_def fun_eq_iff by (cases "db_transactions db") (auto simp: hkey_def)
  ultimately show ?thesis unfolding db_nonempty_def by blast
qed

lemma extends_nonempty:
  assumes "ledgers_ok H CR CT db" and "ledgers_ok H CR CT db'" and "extends CR CT db db'" and "db_nonempty db"
  shows "db_nonempty db'"
  using assms unfolding nonempty_ledgers [OF assms(1)] nonempty_ledgers [OF assms(2)] extends_def by auto

text \<open>An operation that writes runs, or transactions, or only the binding.\<close>

definition step_ok :: "Hashing \<Rightarrow> 'j RunCodec \<Rightarrow> 'j TxCodec \<Rightarrow> 'j DB \<Rightarrow> 'j DB \<Rightarrow> bool" where
  "step_ok H CR CT db db' \<longleftrightarrow> ledgers_ok H CR CT db' \<and> extends CR CT db db' \<and> keeps_binding db db'"

lemma step_ok_refl: "ledgers_ok H CR CT db \<Longrightarrow> step_ok H CR CT db db"
  by (simp add: step_ok_def)

lemma step_okI:
  assumes "ledgers_ok H CR CT db" and "ledgers_ok H CR CT db'" and "extends CR CT db db'" and "db_metadata db' = db_metadata db"
  shows "step_ok H CR CT db db'"
  using assms extends_nonempty [OF assms(1-3)]
  by (auto simp: step_ok_def keeps_binding_def Let_def)

lemma step_ok_runs:
  assumes ok: "ledgers_ok H CR CT db" and db': "db' = db\<lparr>db_runs := runs, db_events := evs\<rparr>"
    and r: "run_store_ok CR db'" "grows (run_histories CR db) (run_histories CR db')"
  shows "step_ok H CR CT db db'"
proof (rule step_okI [OF ok])
  have "tx_histories CT db' = tx_histories CT db" by (simp add: db' tx_histories_def fun_eq_iff)
  then show "extends CR CT db db'" using r(2) by (simp add: extends_def db')
  show "ledgers_ok H CR CT db'" using ok r(1) by (simp add: ledgers_ok_def tx_store_ok_def db')
qed (simp add: db')

lemma step_ok_txs:
  assumes ok: "ledgers_ok H CR CT db" and db': "db' = db\<lparr>db_transactions := heads, db_transaction_events := evs\<rparr>"
    and r: "tx_store_ok H CT db'" "grows (tx_histories CT db) (tx_histories CT db')"
  shows "step_ok H CR CT db db'"
proof (rule step_okI [OF ok])
  have "run_histories CR db' = run_histories CR db" by (simp add: db' run_histories_def fun_eq_iff)
  then show "extends CR CT db db'" using r(2) by (simp add: extends_def db')
  show "ledgers_ok H CR CT db'" using ok r(1) by (simp add: ledgers_ok_def run_store_ok_def db')
qed (simp add: db')

lemma step_ok_binding:
  assumes "ledgers_ok H CR CT db" and "db' = db\<lparr>db_metadata := m\<rparr>" and "keeps_binding db db'"
  shows "step_ok H CR CT db db'"
proof -
  have "run_histories CR db' = run_histories CR db" "tx_histories CT db' = tx_histories CT db"
    by (simp_all add: assms(2) run_histories_def tx_histories_def fun_eq_iff)
  with assms show ?thesis
    by (simp add: step_ok_def ledgers_ok_def run_store_ok_def tx_store_ok_def extends_def)
qed


section \<open>Every step\<close>

lemma insert_task_Some: "insert_task rows r = Some rs \<Longrightarrow> rs = rows @ [r]"
  by (auto simp: insert_task_def split: if_splits)

lemma AdmitTask_adds:
  assumes "AdmitTask N H CR CT M hook D db p = (db', Inr (r, True))"
  shows "db_metadata db' = db_metadata db" "\<exists>cs. db_contracts db' = db_contracts db @ cs"
    "\<exists>t. db_tasks db' = db_tasks db @ [t]" "\<exists>a. db_admissions db' = db_admissions db @ [a]"
  by (rule AdmitTask_rows [OF assms]; auto dest: insert_task_Some)+

lemma admit_step_ok:
  assumes ok: "ledgers_ok H CR CT db" and a: "AdmitTask N H CR CT M hook D db p = (db', res)"
    and rt: "\<And>r. res = Inr (r, True) \<Longrightarrow> admission_roundtrip CR CT M p"
  shows "step_ok H CR CT db db'"
proof (cases "\<exists>r. res = Inr (r, True)")
  case True
  then obtain r where r: "res = Inr (r, True)" by blast
  note a = a [unfolded r] and rt = rt [OF r]
  have c: "run_store_ok CR db" "tx_store_ok H CT db" using ok by (simp_all add: ledgers_ok_def)
  have "extends CR CT db db'"
    using AdmitTask_adds [OF a] AdmitTask_run_ledger(2,3) [OF c(1) a rt] AdmitTask_tx_ledger(2,3) [OF c(2) a rt]
    by (auto simp: extends_def intro: grows_new)
  with ok AdmitTask_run_ledger(1) [OF c(1) a rt] AdmitTask_tx_ledger(1) [OF c(2) a rt] AdmitTask_adds(1) [OF a]
  show ?thesis by (intro step_okI) (simp_all add: ledgers_ok_def)
next
  case False
  have "db' = db"
  proof (cases res)
    case (Inl err)
    with a show ?thesis by (auto dest: AdmitTask_failed)
  next
    case (Inr y)
    with False obtain r where "res = Inr (r, False)" by (cases "snd y"; cases y) auto
    with a show ?thesis by (auto dest: AdmitTask_replayed(1))
  qed
  with ok show ?thesis by (simp add: step_ok_refl)
qed

lemma paired_step_ok:
  assumes ok: "ledgers_ok H CR CT db" and a: "AppendPairedExecutionEvent H CR CT hook D db ns heads e = (db', Inr r)"
    and rt: "paired_roundtrip H CR CT D db ns heads e db' r"
  shows "step_ok H CR CT db db'"
proof -
  from AppendPaired_Inr [OF a] obtain s where s: "paired_ok H CR CT D db ns heads e r db' s" .
  then have ne: "ps_RunEvents s \<noteq> []" unfolding paired_ok_def using paired_events_nonempty by blast
  have c: "run_store_ok CR db" "tx_store_ok H CT db" using ok by (simp_all add: ledgers_ok_def)
  from rt s have rts: "\<forall>f\<in>set (ps_RunEvents s). run_roundtrip CR f (xj_Run r)" "tx_roundtrip CT [e] (xj_Transaction r)"
    unfolding paired_roundtrip_def by blast+
  from s have "db_contracts db' = db_contracts db" "db_tasks db' = db_tasks db" "db_admissions db' = db_admissions db"
    "db_metadata db' = db_metadata db" unfolding paired_ok_def by auto
  with paired_run_half [OF c(1) s rts(1) ne] paired_tx_half [OF c(2) s rts(2)]
  show ?thesis by (intro step_okI [OF ok]) (auto simp: ledgers_ok_def extends_def intro: grows_more)
qed

lemma binding_rows: "BindRuntimeMetadata D db r p = (db', res) \<Longrightarrow> \<exists>m. db' = db\<lparr>db_metadata := m\<rparr>"
proof (cases res)
  case (Inr x)
  moreover assume "BindRuntimeMetadata D db r p = (db', res)"
  ultimately show ?thesis using BindRuntimeMetadata_Inr [of D db r p db' x] by (auto simp: bound_to_def)
next
  case (Inl err)
  moreover assume "BindRuntimeMetadata D db r p = (db', res)"
  ultimately have "db' = db" using BindRuntimeMetadata_Inl by metis
  then show ?thesis by (auto intro: exI [of _ "db_metadata db"])
qed

lemma reopen_rows: "OpenSQLiteForRuntime file mode D has db r p = (db', err) \<Longrightarrow> \<exists>m. db' = db\<lparr>db_metadata := m\<rparr>"
  unfolding OpenSQLiteForRuntime_def
  by (auto split: option.splits prod.splits sum.splits dest!: initialize_rows binding_rows intro: exI [of _ "db_metadata db"])

theorem kernel_step_ok: "kernel_step H CR CT db db' \<Longrightarrow> ledgers_ok H CR CT db \<Longrightarrow> step_ok H CR CT db db'"
proof (induction rule: kernel_step.induct)
  case (create_run D db e db' r)
  show ?case
  proof (cases r)
    case (Inr p)
    from create_run(3) have c: "run_store_ok CR db" by (simp add: ledgers_ok_def)
    note a = create_run(1) [unfolded Inr] and rt = create_run(2) [OF Inr]
    from a obtain runs evs where "db' = db\<lparr>db_runs := runs, db_events := evs\<rparr>" by (rule CreateRun_Inr)
    with CreateRun_step [OF c a rt] create_run(3) show ?thesis by (intro step_ok_runs) (auto intro: grows_new)
  qed (use create_run in \<open>auto dest: CreateRun_unchanged simp: step_ok_refl\<close>)
next
  case (append_run D db ns n e db' r)
  show ?case
  proof (cases r)
    case (Inr p)
    from append_run(3) have c: "run_store_ok CR db" by (simp add: ledgers_ok_def)
    note a = append_run(1) [unfolded Inr] and rt = append_run(2) [OF Inr]
    from a obtain runs evs where "db' = db\<lparr>db_runs := runs, db_events := evs\<rparr>" by (rule AppendEvent_Inr)
    with AppendEvent_step [OF c a rt] append_run(3) show ?thesis by (intro step_ok_runs) (auto intro: grows_more)
  qed (use append_run in \<open>auto dest: AppendEvent_unchanged simp: step_ok_refl\<close>)
next
  case (create_tx D db f db' s)
  show ?case
  proof (cases s)
    case (Inr p)
    from create_tx(3) have c: "tx_store_ok H CT db" by (simp add: ledgers_ok_def)
    note a = create_tx(1) [unfolded Inr] and rt = create_tx(2) [OF Inr]
    from a obtain heads evs where "db' = db\<lparr>db_transactions := heads, db_transaction_events := evs\<rparr>"
      by (rule CreateTransaction_Inr)
    with CreateTransaction_step [OF c a rt] create_tx(3) show ?thesis by (intro step_ok_txs) (auto intro: grows_new)
  qed (use create_tx in \<open>auto dest: CreateTransaction_unchanged simp: step_ok_refl\<close>)
next
  case (append_tx D db ns n fs db' s)
  show ?case
  proof (cases s)
    case (Inr p)
    from append_tx(3) have c: "tx_store_ok H CT db" by (simp add: ledgers_ok_def)
    note a = append_tx(1) [unfolded Inr AppendTransactionEvents_def] and rt = append_tx(2) [OF Inr]
    from a obtain heads evs where "db' = db\<lparr>db_transactions := heads, db_transaction_events := evs\<rparr>"
      by (rule appendTx_Inr)
    with appendTx_step [OF c a rt] append_tx(3) show ?thesis by (intro step_ok_txs) (auto intro: grows_more)
  qed (use append_tx in \<open>auto dest: appendTx_unchanged simp: step_ok_refl AppendTransactionEvents_def\<close>)
next
  case (paired hook D db ns heads f db' t)
  then show ?case by (cases t) (auto dest: paired_unchanged paired_step_ok simp: step_ok_refl)
next
  case (admit N M hook D db prepared db' a)
  then show ?case using admit_step_ok by blast
next
  case (bind_runtime D db runtime profile db' b)
  then show ?case using binding_rows [OF bind_runtime(1)] bind_runtime_keeps step_ok_binding by blast
next
  case (bind_profile D db profile db' b)
  then have "\<exists>m. db' = db\<lparr>db_metadata := m\<rparr>"
    using BindEnforcementProfile_cases [OF bind_profile(1)] by (auto intro: exI [of _ "db_metadata db"])
  with bind_profile show ?case using bind_profile_keeps step_ok_binding by blast
next
  case (reopen prep mode D tables db runtime profile db' c)
  then show ?case using reopen_rows [OF reopen(1)] reopen_keeps step_ok_binding by blast
qed

lemma step_ok_trans: "step_ok H CR CT a b \<Longrightarrow> step_ok H CR CT b c \<Longrightarrow> step_ok H CR CT a c"
  unfolding step_ok_def by (blast intro: extends_trans keeps_binding_trans)

lemma kernel_steps_ok: "kernel_steps H CR CT db db' \<Longrightarrow> ledgers_ok H CR CT db \<Longrightarrow> step_ok H CR CT db db'"
proof (induction rule: rtranclp_induct)
  case base
  then show ?case by (rule step_ok_refl)
next
  case (step b c)
  then show ?case using kernel_step_ok step_ok_trans unfolding step_ok_def by meson
qed

lemma empty_ledgers_ok: "ledgers_ok H CR CT empty_db"
  by (simp add: ledgers_ok_def run_store_ok_def tx_store_ok_def empty_db_def run_store.consistent_empty tx_store.consistent_empty)

lemma reachable_ledgers_ok: "kernel_reachable H CR CT db \<Longrightarrow> ledgers_ok H CR CT db"
  using kernel_steps_ok empty_ledgers_ok unfolding kernel_reachable_def step_ok_def by blast

lemma reachable_ok: "kernel_reachable H CR CT db \<Longrightarrow> run_store_ok CR db \<and> tx_store_ok H CT db"
  using reachable_ledgers_ok unfolding ledgers_ok_def by blast

lemma reachable_empty: "kernel_reachable H CR CT empty_db"
  by (simp add: kernel_reachable_def)

lemma reachable_step: "kernel_reachable H CR CT db \<Longrightarrow> kernel_step H CR CT db db' \<Longrightarrow> kernel_reachable H CR CT db'"
  unfolding kernel_reachable_def by (rule rtranclp.rtrancl_into_rtrancl)

end
