(* ===== verification/Store_Properties.thy ===== *)
theory Store_Properties
  imports Store_Examples Kernel_Steps
begin

text \<open>
  The properties of the kernel store: what it keeps, what an append does, how writers that race are
  told apart, and what verification of a stored history establishes.
\<close>

section \<open>What is stored replays\<close>

text \<open>C5. Materialised state equals event replay: in every database that the store's write operations
  reach, whatever faults they met, each stored history of a run or a transaction replays, reading the
  stream returns the replayed projection, reading its events returns the history, and verification
  of the stream succeeds.\<close>

theorem stored_histories_replay:
  assumes "kernel_reachable H CR CT db"
  shows "(\<forall>ns i es. run_histories CR db (ns, i) = Some es \<longrightarrow>
       (\<exists>p. Replay es = Inr p \<and> GetRun CR no_faults db ns i = Inr p) \<and>
       Events CR no_faults db ns i 0 = Inr es \<and> VerifyRun CR no_faults db ns i = None) \<and>
    (\<forall>ns i es. tx_histories CT db (ns, i) = Some es \<longrightarrow>
       (\<exists>p. ReplayTx H es = Inr p \<and> GetTransaction H CT no_faults db ns i = Inr p) \<and>
       TransactionEvents H CT no_faults db ns i 0 = Inr es \<and> VerifyTransaction H CT no_faults db ns i = None)"
  using reachable_ok [OF assms] GetRun_complete VerifyRun_complete Events_complete [where after = 0]
    GetTransaction_complete VerifyTransaction_complete TransactionEvents_complete [where after = 0]
  by fastforce

lemma ex_create: "CreateRun ex_CR no_faults empty_db ex_created =
  (empty_db\<lparr>db_runs := [run_row_of ex_p1 (JRun ex_run)],
     db_events := [event_row_of ''team'' ex_created (JEvent ex_created)]\<rparr>, Inr ex_p1)"
proof -
  have "pj_Run ex_p1 = ex_run" "ar_Namespace ex_run = ''team''" "ar_ID ex_run = ''run:1''" "ar_EventSequence ex_run = 1"
    "ev_RunID ex_created = ''run:1''" "ev_Sequence ex_created = 1"
    by (simp_all add: ex_p1_def ex_run_def ex_event_defs)
  then show ?thesis
    by (simp add: CreateRun_def Let_def verifyEventDigest_def ex_apply1 insert_head_def insertEvent_def exec_write_def
        insert_event_row_def run_row_of_def event_row_of_def hkey_def ekey_def empty_db_def)
qed

definition ex_db1 :: "ex_json DB" where
  "ex_db1 = empty_db\<lparr>db_runs := [run_row_of ex_p1 (JRun ex_run)],
     db_events := [event_row_of ''team'' ex_created (JEvent ex_created)]\<rparr>"

lemma ex_db1_reachable: "kernel_reachable ex_H ex_CR ex_CT ex_db1"
  using reachable_step [OF reachable_empty kernel_step.create_run [OF ex_create]] by (simp add: ex_db1_def)

lemma ex_db1_history: "run_histories ex_CR ex_db1 (''team'', ''run:1'') = Some [ex_created]"
  using CreateRun_step(4) [OF _ ex_create, of] reachable_ok [OF reachable_empty]
  by (simp add: ex_db1_def run_histories_def hkey_def ekey_def run_row_of_def event_row_of_def ex_p1_def ex_run_def
      ex_event_defs)

theorem stored_histories_replay_witness:
  "VerifyRun ex_CR no_faults ex_db1 ''team'' ''run:1'' = None \<and>
   Events ex_CR no_faults ex_db1 ''team'' ''run:1'' 0 = Inr [ex_created]"
  using stored_histories_replay [OF ex_db1_reachable] ex_db1_history by blast

section \<open>Appending\<close>

text \<open>C23. Appending a run event is all or nothing, and extends exactly one history by exactly that event:
  an append that fails, at whatever step, leaves the database as it was; one that succeeds found a
  history of the expected length, leaves it extended by the event and accepted, and leaves every
  other history, and every transaction, untouched.\<close>

theorem append_event_extends_one_history:
  assumes "kernel_reachable H CR CT db" and "AppendEvent CR D db ns n e = (db', r)"
  shows "case r of
      Inl err \<Rightarrow> db' = db
    | Inr q \<Rightarrow> run_roundtrip CR e q \<longrightarrow>
        (\<exists>es. run_histories CR db (ns, ev_RunID e) = Some es \<and> int (length es) = n \<and> Replay (es @ [e]) = Inr q \<and>
          run_histories CR db' = (run_histories CR db)((ns, ev_RunID e) \<mapsto> es @ [e]) \<and>
          tx_histories CT db' = tx_histories CT db)"
proof (cases r)
  case (Inl err)
  with assms(2) show ?thesis by (auto dest: AppendEvent_unchanged)
next
  case (Inr q)
  with assms(2) have a: "AppendEvent CR D db ns n e = (db', Inr q)" by simp
  then have "tx_histories CT db' = tx_histories CT db"
    by (auto simp: fun_eq_iff tx_histories_def elim!: AppendEvent_Inr)
  with Inr AppendEvent_step(2) [OF _ a] reachable_ok [OF assms(1)] show ?thesis by auto
qed

definition ex_db2 :: "ex_json DB" where
  "ex_db2 = fst (AppendEvent ex_CR no_faults ex_db1 ''team'' 1 ex_granted)"

lemma ex_append: "AppendEvent ex_CR no_faults ex_db1 ''team'' 1 ex_granted = (ex_db2, Inr ex_p2)"
proof -
  have l: "loadProjection ex_CR no_faults ex_db1 ''team'' ''run:1'' = Inr ex_p1"
    using GetRun_complete [OF _ ex_db1_history] reachable_ok [OF ex_db1_reachable] ex_apply1
    by (auto simp: GetRun_def Replay_def)
  have e: "ev_RunID ex_granted = ''run:1''" "ev_Sequence ex_granted = 2" "ev_ID ex_granted = ex_event_id 2"
    "ev_ID ex_created = ex_event_id 1" "ev_Sequence ex_created = 1" "ev_RunID ex_created = ''run:1''"
    "ar_EventSequence (pj_Run ex_p1) = 1" "ar_EventSequence (pj_Run ex_p2) = 2"
    "ar_Namespace (pj_Run ex_p1) = ''team''" "ar_ID (pj_Run ex_p1) = ''run:1''"
    by (simp_all add: ex_event_defs ex_projection_defs ex_run_def)
  have "snd (AppendEvent ex_CR no_faults ex_db1 ''team'' 1 ex_granted) = Inr ex_p2"
    by (simp add: AppendEvent_def Let_def validateNamespace_def example_simps verifyEventDigest_def e l ex_apply2)
      (simp add: ex_db1_def update_heads_def hkey_def run_row_of_def e insertEvent_def insert_event_row_def ekey_def
        event_row_of_def exec_write_def settle_def empty_db_def)
  then show ?thesis by (simp add: ex_db2_def prod_eq_iff)
qed

theorem append_event_extends_one_history_witness:
  "run_histories ex_CR ex_db2 (''team'', ''run:1'') = Some [ex_created, ex_granted]"
  using append_event_extends_one_history [OF ex_db1_reachable ex_append] ex_db1_history
  by (auto simp: ex_event_defs)

text \<open>A batch of transaction events is all or nothing: an append that fails, at whatever step, leaves
  the database as it was; one that succeeds extends exactly one history by the whole batch, in
  order, and the extended history replays to the projection that is stored and returned.\<close>

theorem append_batch_extends_one_history:
  assumes "kernel_reachable H CR CT db" and "AppendTransactionEvents H CT D db ns n fs = (db', r)"
  shows "case r of
      Inl err \<Rightarrow> db' = db
    | Inr q \<Rightarrow> tx_roundtrip CT fs q \<longrightarrow>
        (\<exists>es. tx_histories CT db (ns, te_TransactionID (hd fs)) = Some es \<and> int (length es) = n \<and>
          ReplayTx H (es @ fs) = Inr q \<and> ProjectionTx_Validate H q = None \<and>
          tx_histories CT db' = (tx_histories CT db)((ns, te_TransactionID (hd fs)) \<mapsto> es @ fs))"
proof (cases r)
  case (Inl err)
  with assms(2) show ?thesis unfolding AppendTransactionEvents_def by (auto dest: appendTx_unchanged)
next
  case (Inr q)
  with assms(2) have a: "appendTransactionEvents H CT D db ns n fs ''append_transaction_events'' = (db', Inr q)"
    by (simp add: AppendTransactionEvents_def)
  then have "ProjectionTx_Validate H q = None" by (rule appendTx_Inr)
  with Inr appendTx_step(2) [OF _ a] reachable_ok [OF assms(1)] show ?thesis by auto
qed

definition ex_tx_created :: TransactionEvent where
  "ex_tx_created = ex_tx_events ! 0"

definition ex_tx_db1 :: "ex_json DB" where
  "ex_tx_db1 = fst (CreateTransaction ex_H ex_CT no_faults empty_db
     (ex_tx_event 1 ex_human EventTransactionCreated (TransactionCreatedPayload ex_tx)))"

lemma ex_tx_first: "ex_tx_history ! 0 = ex_tx_event 1 ex_human EventTransactionCreated (TransactionCreatedPayload ex_tx)"
  "ex_tx_history ! 1 = ex_move 2 TransactionCreated TransactionRunning []"
  by (simp_all add: ex_tx_history_def)

lemma ex_q12_valid: "ProjectionTx_Validate ex_H ex_q1 = None" "ProjectionTx_Validate ex_H ex_q2 = None"
proof -
  have "AgentTransaction_Validate ex_H (tj_Transaction ex_q1) = None" using ex_tx_valid by (simp add: ex_q1_def)
  moreover have "AgentTransaction_Validate ex_H (tj_Transaction ex_q2) = None"
    using ex_step2 by (elim ApplyTx_Some_Inr) (simp add: valid_tx_def)
  ultimately show "ProjectionTx_Validate ex_H ex_q1 = None" "ProjectionTx_Validate ex_H ex_q2 = None"
    by (simp_all add: ex_projection_eval) (simp_all add: ex_q_defs ex_tx_def example_simps)
qed

lemma ex_tx_verify: "i < 19 \<Longrightarrow> verifyTransactionEventDigest ex_H (ex_tx_history ! i) = None"
  using ex_tx_nth_check [of i] by (simp add: checkEventTx_None verifyTransactionEventDigest_def)

lemma ex_tx_ev [simp]: "te_TransactionID (ex_tx_event n a ty pl) = ''tx:1''" "te_Sequence (ex_tx_event n a ty pl) = int n"
  "te_ID (ex_tx_event n a ty pl) = ex_event_id n"
  by (simp_all add: ex_tx_event_def)

lemma ex_q_sel [simp]: "tx_Namespace (tj_Transaction ex_q1) = ''team''" "tx_ID (tj_Transaction ex_q1) = ''tx:1''"
  "tx_EventSequence (tj_Transaction ex_q1) = 1" "tx_Admission (tj_Transaction ex_q1) = None"
  "tx_EventSequence (tj_Transaction ex_q2) = 2"
  by (simp_all add: ex_q_defs ex_tx_def)

lemma ex_tx_create: "CreateTransaction ex_H ex_CT no_faults empty_db (ex_tx_history ! 0) = (ex_tx_db1, Inr ex_q1)"
proof -
  have "snd (CreateTransaction ex_H ex_CT no_faults empty_db (ex_tx_history ! 0)) = Inr ex_q1"
    using ex_step1 ex_tx_verify [of 0] ex_q12_valid(1)
    by (simp add: CreateTransaction_def Let_def ex_tx_first insert_head_def insertTransactionEvent_def exec_write_def
        insert_event_row_def tx_row_of_def tx_event_row_of_def hkey_def ekey_def empty_db_def settle_def)
  then show ?thesis by (simp add: ex_tx_db1_def prod_eq_iff ex_tx_first)
qed

lemma ex_tx_db1_reachable: "kernel_reachable ex_H ex_CR ex_CT ex_tx_db1"
  by (rule reachable_step [OF reachable_empty kernel_step.create_tx [OF ex_tx_create]]) simp

lemma ex_tx_db1_history: "tx_histories ex_CT ex_tx_db1 (''team'', ''tx:1'') = Some [ex_tx_history ! 0]"
proof -
  have "tx_store_ok ex_H ex_CT empty_db" using reachable_ok [OF reachable_empty] by blast
  from CreateTransaction_step(4) [OF this ex_tx_create] show ?thesis by (simp add: ex_tx_first)
qed

lemma ex_tx_db1_eq: "ex_tx_db1 = empty_db\<lparr>db_transactions := [tx_row_of ex_q1 (JProjection ex_q1)],
    db_transaction_events := [tx_event_row_of ''team'' (ex_tx_history ! 0) (JTxEvent (ex_tx_history ! 0))]\<rparr>"
  using ex_step1 ex_tx_verify [of 0] ex_q12_valid(1)
  by (simp add: ex_tx_db1_def CreateTransaction_def Let_def ex_tx_first insert_head_def insertTransactionEvent_def
      insert_event_row_def exec_write_def tx_row_of_def tx_event_row_of_def hkey_def ekey_def empty_db_def settle_def)

lemma ex_tx_second: "te_TransactionID (ex_tx_history ! 1) = ''tx:1''" "te_Sequence (ex_tx_history ! 1) = 2"
  "te_ID (ex_tx_history ! 1) = ex_event_id 2"
  using ex_tx_first(2) by (simp_all add: ex_move_def)

lemma ex_tx_append: "\<exists>db. AppendTransactionEvents ex_H ex_CT no_faults ex_tx_db1 ''team'' 1 [ex_tx_history ! 1] = (db, Inr ex_q2)"
proof -
  define e where "e = ex_tx_history ! 1"
  have e: "te_TransactionID e = ''tx:1''" "te_Sequence e = 2" "te_ID e = ex_event_id 2"
    using ex_tx_second by (simp_all add: e_def)
  have ok: "tx_store_ok ex_H ex_CT ex_tx_db1" using reachable_ok [OF ex_tx_db1_reachable] by blast
  have l: "loadTransactionProjection ex_H ex_CT no_faults ex_tx_db1 ''team'' ''tx:1'' = Inr ex_q1"
    using GetTransaction_complete [OF ok ex_tx_db1_history] ex_step1
    by (auto simp: GetTransaction_def ReplayTx_def)
  have steps: "ApplyTx ex_H (Some ex_q1) e = Inr ex_q2" "verifyTransactionEventDigest ex_H e = None"
    using ex_step2 ex_tx_verify [of 1] by (simp_all add: e_def)
  have "snd (AppendTransactionEvents ex_H ex_CT no_faults ex_tx_db1 ''team'' 1 [e]) = Inr ex_q2"
    using l steps e ex_q12_valid(2)
    by (simp add: AppendTransactionEvents_def appendTransactionEvents_def Let_def validateNamespace_def example_simps)
      (simp add: ex_tx_db1_eq ex_tx_first update_heads_def hkey_def tx_row_of_def insertTransactionEvent_def
        insert_event_row_def ekey_def tx_event_row_of_def exec_write_def settle_def empty_db_def)
  then show ?thesis unfolding e_def by (metis prod.collapse)
qed

theorem append_batch_extends_one_history_witness:
  "\<exists>db. tx_histories ex_CT db (''team'', ''tx:1'') = Some [ex_tx_history ! 0, ex_tx_history ! 1]"
proof -
  from ex_tx_append obtain db where
    a: "AppendTransactionEvents ex_H ex_CT no_faults ex_tx_db1 ''team'' 1 [ex_tx_history ! 1] = (db, Inr ex_q2)" ..
  from append_batch_extends_one_history [OF ex_tx_db1_reachable a] ex_tx_db1_history
  have "tx_histories ex_CT db (''team'', ''tx:1'') = Some [ex_tx_history ! 0, ex_tx_history ! 1]"
    by (simp add: ex_tx_second [unfolded One_nat_def])
  then show ?thesis by blast
qed

section \<open>Racing writers\<close>

text \<open>C24. Of two run events computed against the same head only one is stored: once an append with an
  expected sequence has succeeded, every later append with the same expected sequence to the same run
  fails as a conflict and changes nothing.\<close>

theorem racing_append_conflicts:
  assumes "kernel_reachable H CR CT db" and "AppendEvent CR D db ns n e = (db', Inr q)" and "run_roundtrip CR e q"
    and "ev_RunID f = ev_RunID e" and "VerifyEventDigest (rc_Digest CR) f = Some True"
    and "D' BeginStep = None" and "D' (Sub 0 QueryStep) = None"
  shows "AppendEvent CR D' db' ns n f = (db', Inl (conflict ''append_event'' (ev_RunID e)))"
proof -
  from reachable_ok [OF assms(1)] have ok: "run_store_ok CR db" by blast
  from AppendEvent_step [OF ok assms(2,3)] obtain es where ok': "run_store_ok CR db'"
    and n: "int (length es) = n" and h: "run_histories CR db' (ns, ev_RunID f) = Some (es @ [e])"
    by (auto simp: assms(4))
  have "int (length (es @ [e])) \<noteq> n" using n by simp
  from AppendEvent_stale [OF ok' h assms(5) this assms(6,7)] show ?thesis by (simp add: assms(4))
qed

theorem racing_append_conflicts_witness:
  "AppendEvent ex_CR no_faults ex_db2 ''team'' 1 ex_granted =
     (ex_db2, Inl (conflict ''append_event'' (ev_RunID ex_granted)))"
  by (rule racing_append_conflicts [OF ex_db1_reachable ex_append _ refl]) (simp_all add: no_faults_def)

section \<open>The two ledgers of an execution\<close>

text \<open>C25. A paired append writes both ledgers or neither. Where it fails, at any step and under any
  injected fault, the database is unchanged. Where it succeeds, both heads were the expected ones, the
  run's history is extended by the events derived for it and the transaction's by the given event,
  both extended histories replay to what is returned, and the ledgers agree about the execution: while
  it runs the run is running it, and once it is settled the run has released it.\<close>

theorem paired_append_is_atomic:
  assumes "run_store_ok CR db" and "tx_store_ok H CT db"
    and "AppendPairedExecutionEvent H CR CT hook D db ns heads e = (db', res)"
  shows "case res of
      Inl err \<Rightarrow> db' = db
    | Inr r \<Rightarrow> paired_roundtrip H CR CT D db ns heads e db' r \<longrightarrow>
        (\<exists>x rs fs ts. int (length rs) = xh_RunSequence heads \<and> int (length ts) = xh_TransactionSequence heads \<and>
          run_histories CR db (ns, ax_RunID x) = Some rs \<and> tx_histories CT db (ns, te_TransactionID e) = Some ts \<and>
          Replay (rs @ fs) = Inr (xj_Run r) \<and> ReplayTx H (ts @ [e]) = Inr (xj_Transaction r) \<and>
          run_histories CR db' = (run_histories CR db)((ns, ax_RunID x) \<mapsto> rs @ fs) \<and>
          tx_histories CT db' = (tx_histories CT db)((ns, te_TransactionID e) \<mapsto> ts @ [e]) \<and>
          ledgers_agree x r)"
proof (cases res)
  case (Inl err)
  with assms(3) show ?thesis by (auto dest: paired_unchanged)
next
  case (Inr r)
  with assms(3) have "AppendPairedExecutionEvent H CR CT hook D db ns heads e = (db', Inr r)" by simp
  from AppendPaired_Inr [OF this] obtain s where s: "paired_ok H CR CT D db ns heads e r db' s" .
  from s have ne: "ps_RunEvents s \<noteq> []" unfolding paired_ok_def using paired_events_nonempty by blast
  from s have ev: "pairedRunEvents CR (ps_Run s) e (ps_Execution s) = Inr (ps_RunEvents s, xj_Run r)"
    unfolding paired_ok_def by blast
  have agree: "ledgers_agree (ps_Execution s) r" by (rule paired_agreement [OF s])
  then have id: "ar_ID (pj_Run (ps_Run s)) = ax_RunID (ps_Execution s)"
    using run_store.replay_from_stream [OF pairedRunEvents_Inr(1) [OF ev]] by (simp add: ledgers_agree_def)
  show ?thesis
  proof (clarsimp simp: Inr)
    assume "paired_roundtrip H CR CT D db ns heads e db' r"
    then have "\<forall>f\<in>set (ps_RunEvents s). run_roundtrip CR f (xj_Run r)" "tx_roundtrip CT [e] (xj_Transaction r)"
      using s unfolding paired_roundtrip_def by blast+
    with paired_run_half(2) [OF assms(1) s _ ne] paired_tx_half(2) [OF assms(2) s] agree
    show "\<exists>x rs. int (length rs) = xh_RunSequence heads \<and> (\<exists>fs ts. int (length ts) = xh_TransactionSequence heads \<and>
        run_histories CR db (ns, ax_RunID x) = Some rs \<and> tx_histories CT db (ns, te_TransactionID e) = Some ts \<and>
        Replay (rs @ fs) = Inr (xj_Run r) \<and> ReplayTx H (ts @ [e]) = Inr (xj_Transaction r) \<and>
        run_histories CR db' = (run_histories CR db)((ns, ax_RunID x) \<mapsto> rs @ fs) \<and>
        tx_histories CT db' = (tx_histories CT db)((ns, te_TransactionID e) \<mapsto> ts @ [e]) \<and> ledgers_agree x r)"
      unfolding id by blast
  qed
qed

theorem paired_append_is_atomic_witness:
  "\<exists>x fs. run_histories ex_CR ex_db4 (''team'', ax_RunID x) = Some (ex_run_events @ fs) \<and>
     tx_histories ex_CT ex_db4 (''team'', ''tx:1'') = Some (ex_tx_events @ [ex_start]) \<and>
     ledgers_agree x \<lparr>xj_Run = ex_p4, xj_Transaction = ex_a4\<rparr>"
proof -
  have rt: "paired_roundtrip ex_H ex_CR ex_CT no_faults ex_db ''team'' ex_heads ex_start ex_db4
      \<lparr>xj_Run = ex_p4, xj_Transaction = ex_a4\<rparr>" by (simp add: paired_roundtrip_def)
  from paired_append_is_atomic [OF ex_db_ok ex_paired_append] rt show ?thesis
    by (auto simp: ex_db_histories split: if_splits)
qed

text \<open>C26. What an append returns is what is read back: after a successful append of a run event, under any
  driver, reading the run gives the returned projection, asking for the events after the expected
  sequence gives exactly the appended one, and the verification of the stored run finds nothing.\<close>

theorem appended_event_reads_back:
  assumes "kernel_reachable H CR CT db" and "AppendEvent CR D db ns n e = (db', Inr q)" and "run_roundtrip CR e q"
  shows "GetRun CR no_faults db' ns (ev_RunID e) = Inr q \<and> Events CR no_faults db' ns (ev_RunID e) n = Inr [e] \<and>
    VerifyRun CR no_faults db' ns (ev_RunID e) = None"
proof -
  from reachable_ok [OF assms(1)] have ok: "run_store_ok CR db" by blast
  from AppendEvent_step [OF ok assms(2,3)] obtain es where ok': "run_store_ok CR db'"
    and n: "int (length es) = n" and r: "Replay (es @ [e]) = Inr q"
    and h: "run_histories CR db' (ns, ev_RunID e) = Some (es @ [e])" by auto
  have "Events CR no_faults db' ns (ev_RunID e) n = Inr (drop (nat n) (es @ [e]))"
    using Events_complete [OF ok' h, of n] n by simp
  moreover have "drop (nat n) (es @ [e]) = [e]" using n by auto
  ultimately show ?thesis using GetRun_complete [OF ok' h] VerifyRun_complete [OF ok' h] r by auto
qed

theorem appended_event_reads_back_witness:
  "GetRun ex_CR no_faults ex_db2 ''team'' ''run:1'' = Inr ex_p2 \<and>
   Events ex_CR no_faults ex_db2 ''team'' ''run:1'' 1 = Inr [ex_granted] \<and>
   VerifyRun ex_CR no_faults ex_db2 ''team'' ''run:1'' = None"
proof -
  have "ev_RunID ex_granted = ''run:1''" by (simp add: ex_event_defs)
  with appended_event_reads_back [OF ex_db1_reachable ex_append] show ?thesis by simp
qed

section \<open>Charging executions\<close>

text \<open>C27. The budget that settling an execution charges is the used amount, clipped to what is left: never
  negative, never more than was used, never past the hard limit, and at most what 64 bits still hold
  where there is no limit; the machine subtractions in it do not wrap.\<close>

theorem charge_is_clipped:
  assumes "0 \<le> cur" and "cur \<le> max64" and "\<And>l. limit = Some l \<Longrightarrow> 0 \<le> l \<and> l \<le> max64"
  shows "boundedBudgetCharge actual cur limit =
    max 0 (min actual (case limit of None \<Rightarrow> max64 - cur | Some l \<Rightarrow> l - cur))"
proof -
  have "in64 cur" using assms(1,2) by (simp add: in64_def min64_def)
  then show ?thesis using boundedBudgetCharge_eq assms(1,3) by blast
qed

theorem charge_is_clipped_witness:
  "boundedBudgetCharge 500 40 (Some 100) = 60 \<and> boundedBudgetCharge 5 (max64 - 2) None = 2"
  using charge_is_clipped [of 40 "Some 100" 500] charge_is_clipped [of "max64 - 2" None 5]
  by (simp add: max64_def)

text \<open>A running execution can always be settled, whatever it used: the event the store derives for an
  execution that ended is accepted by the run, which then has no active execution, waits for an event
  or for its agent, and is charged the clipped usage.\<close>

theorem running_execution_can_be_settled:
  assumes "Replay es = Inr p" and "\<forall>f\<in>set es. run_event_int64 f" and "limits_in64 (ar_BudgetLimits (pj_Run p))"
    and "ar_EventSequence (pj_Run p) < max64" and "0 < ar_UpdatedAt (pj_Run p)"
    and "ar_State (pj_Run p) = RunRunning" and "ar_ActiveExecutionID (pj_Run p) = ax_ID x"
    and "AgentExecution_Validate x = None" and "1 \<le> ax_Attempt x" and "AgentExecutionStatus_Terminal (ax_Status x)"
    and "digest_format (rc_Digest C)" and "hash16_format (rc_Hash16 C)" and "valid_principal actor"
    and "Next (rc_Encodable C) (rc_Digest C) (rc_Hash16 C) p EventRunExecutionFinished actor t
       (finishPayload x (pj_Run p)) = Some e"
  shows "\<exists>q. Apply (Some p) e = Inr q \<and> ar_ActiveExecutionID (pj_Run q) = '''' \<and>
     ar_State (pj_Run q) = (if ax_Status x = AgentExecutionSucceeded then RunWaitingForEvent else RunWaitingForAgent) \<and>
     charged (ar_BudgetUsage (pj_Run p)) (executionBudgetUsage x (pj_Run p)) (ar_BudgetUsage (pj_Run q))"
proof -
  have inv: "run_inv p" using Replay_inv [OF assms(1,2)] .
  have st: "1 \<le> ar_EventSequence (pj_Run p)"
    using inv by (auto simp: run_inv_def AgentRun_Validate_unfold validate_simps)
  have x: "IsIdentifier (ax_ID x)" "IsIdentifier (ax_TransactionID x)"
    using assms(8) by (auto simp: AgentExecution_Validate_def Let_def validate_simps split: if_splits)
  from settlement_accepted [OF inv assms(3,6,7) x assms(9,10) st assms(4,5,11-14)] show ?thesis .
qed

definition ex_ended :: AgentExecution where
  "ex_ended = ex_aexec\<lparr>ax_Status := AgentExecutionFailed, ax_ExitCode := Some 2,
     ax_StdoutDigest := step_digest 41, ax_StderrDigest := step_digest 42, ax_CompletedAt := Some 1004\<rparr>"

lemma ex_ended_valid: "AgentExecution_Validate ex_ended = None"
  by (simp add: AgentExecution_Validate_def ex_ended_def ex_aexec_def ex_execution_def Let_def validate_simps
      example_simps has_nul_def validateModelBroker_def validateFinishedExecution_def optionalDigest_def)

theorem running_execution_can_be_settled_witness:
  "\<exists>q e. Apply (Some ex_p4) e = Inr q \<and> ar_ActiveExecutionID (pj_Run q) = '''' \<and>
     ar_State (pj_Run q) = RunWaitingForAgent"
proof -
  obtain e where e: "Next (rc_Encodable ex_CR) (rc_Digest ex_CR) (rc_Hash16 ex_CR) ex_p4 EventRunExecutionFinished
      ex_daemon 1010 (finishPayload ex_ended (pj_Run ex_p4)) = Some e"
    by (simp add: Next_def ComputeEventDigest_def Let_def) (simp add: ex_CR_def)
  have run: "limits_in64 (ar_BudgetLimits (pj_Run ex_p4))" "ar_EventSequence (pj_Run ex_p4) < max64"
    "0 < ar_UpdatedAt (pj_Run ex_p4)" "ar_State (pj_Run ex_p4) = RunRunning"
    "ar_ActiveExecutionID (pj_Run ex_p4) = ax_ID ex_ended"
    by (simp_all add: ex_projection_defs ex_run_def limits_in64_def ex_limits_def max64_def ex_ended_def)
  have x: "1 \<le> ax_Attempt ex_ended" "AgentExecutionStatus_Terminal (ax_Status ex_ended)" "valid_principal ex_daemon"
    by (simp_all add: ex_ended_def example_simps)
  have es: "\<forall>f\<in>set [ex_created, ex_granted, ex_admitted, ex_started]. run_event_int64 f"
    using ex_history_int64 by (simp add: ex_history_def)
  have "ax_Status ex_ended = AgentExecutionFailed" by (simp add: ex_ended_def)
  with running_execution_can_be_settled [OF ex_replay_running es run ex_ended_valid x(1,2) ex_formats x(3) e]
  show ?thesis by auto
qed

end
