(* ===== verification/Boundary_Facts.thy ===== *)
theory Boundary_Facts
  imports Store_Properties Authority_Properties "HOL-Library.List_Lexorder" "HOL-Library.Char_ord"
begin

text \<open>
  Facts about corner cases of the code that a reader of the documentation would not expect: what the
  digest of the policy leaves out, grants that use granted authority, effects that make a transaction
  impossible to release, what the verification of a stored run does not check, and the order and
  uniqueness of stored rows.
\<close>

section \<open>Policy\<close>

text \<open>A negative threshold is recorded as the default one by \<^verbatim>\<open>BaselinePolicy.Digest\<close> but used as it is
  by \<^verbatim>\<open>BaselinePolicy.Evaluate\<close>: two policies with one digest decide differently.\<close>

definition ex_delete :: Effect where
  "ex_delete = ex_effect\<lparr>ef_System := ''postgres'', ef_Operation := ''rows.delete'',
     ef_EstimatedScope := (ef_EstimatedScope ex_effect)\<lparr>es_Rows := Some 50\<rparr>\<rparr>"

theorem policy_digest_hides_threshold:
  "BaselinePolicy_Digest H (- 1) = BaselinePolicy_Digest H 100 \<and>
   sd_Outcome (BaselinePolicy_Evaluate (- 1) [ex_delete]) = SequenceRequireApproval \<and>
   sd_Outcome (BaselinePolicy_Evaluate 100 [ex_delete]) = SequenceAllow"
proof -
  have "sd_Outcome (BaselinePolicy_Evaluate (- 1) [ex_delete]) = SequenceRequireApproval"
    "sd_Outcome (BaselinePolicy_Evaluate 100 [ex_delete]) = SequenceAllow"
    by code_simp+
  then show ?thesis by (simp add: BaselinePolicy_Digest_def)
qed

text \<open>An effect that grants authority is recorded as a grant and not looked at any further: a grant that uses authority the
  sequence grants to itself is allowed.\<close>

definition ex_regranting :: Effect where
  "ex_regranting = ex_effect\<lparr>ef_ID := ''effect:r'', ef_Operation := ''iam.grant'', ef_Dependencies := [''effect:g'']\<rparr>"

theorem grants_may_use_granted_authority:
  "grants_authority ex_granting \<and> grants_authority ex_regranting \<and> ef_Dependencies ex_regranting = [ef_ID ex_granting] \<and>
   sd_Outcome (BaselinePolicy_Evaluate 0 [ex_granting, ex_regranting]) = SequenceAllow"
  by (intro conjI; code_simp)

section \<open>Authority\<close>

lemma commitSteps_dependencies:
  "effect \<in> set effects \<Longrightarrow> ef_RecoveryClass effect \<noteq> RecoveryReadOnly \<Longrightarrow>
     \<exists>step\<in>set (commitSteps_from pre n effects). st_DependsOn step = ef_Dependencies effect"
  by (induction pre n effects rule: commitSteps_from.induct) auto

text \<open>C31. A releasable effect that depends on a read-only effect, which the reducer accepts, can never be
  released: read-only effects are left out of the commit plan, the dependency on them is kept, and the
  plan does not validate.\<close>

theorem read_only_dependency_blocks_release:
  assumes "effect \<in> set (tj_Effects p)" and "ef_RecoveryClass effect \<noteq> RecoveryReadOnly"
    and "dep \<in> set (ef_Dependencies effect)" and "dep \<notin> set (releaseEffectIDs (tj_Effects p))"
  shows "PrepareAuthority H p decision policyDigest release now \<noteq> Inr pa"
proof
  assume "PrepareAuthority H p decision policyDigest release now = Inr pa"
  then obtain c where plan: "cp_Steps (pa_Plan pa) =
      commitSteps_from (tx_VerificationResultIDs (tj_Transaction p)) 0 (tj_Effects p)"
    and v: "CommitPlan_Validate (pa_Plan pa) = None"
    by (elim PrepareAuthority_Inr) (auto simp: draftPlan_def Let_def dest: arg_cong [where f = cp_Steps])
  from commitSteps_dependencies [OF assms(1,2)] assms(3) obtain step where
    "step \<in> set (cp_Steps (pa_Plan pa))" "dep \<in> set (st_DependsOn step)" unfolding plan by metis
  then obtain k where "k < length (cp_Steps (pa_Plan pa))" "dep \<in> set (st_DependsOn (cp_Steps (pa_Plan pa) ! k))"
    by (metis in_set_conv_nth)
  with valid_plan_release_order [OF v] have "dep \<in> set (map st_EffectID (take k (cp_Steps (pa_Plan pa))))"
    unfolding release_order_def by blast
  then have "dep \<in> set (map st_EffectID (cp_Steps (pa_Plan pa)))" by (auto dest: in_set_takeD)
  with assms(4) show False by (simp add: plan commitSteps_effects)
qed

definition ex_dependent_effects :: "Effect list" where
  "ex_dependent_effects = [ex_effect\<lparr>ef_ID := ''effect:0'', ef_RecoveryClass := RecoveryReadOnly\<rparr>,
     ex_effect\<lparr>ef_Sequence := 2, ef_Dependencies := [''effect:0'']\<rparr>]"

theorem read_only_dependency_blocks_release_witness:
  "\<forall>d policyDigest release now pa. PrepareAuthority ex_H (ex_q8\<lparr>tj_Effects := ex_dependent_effects\<rparr>) d policyDigest release now \<noteq> Inr pa"
proof -
  let ?e = "ex_effect\<lparr>ef_Sequence := 2, ef_Dependencies := [''effect:0'']\<rparr>"
  let ?p = "ex_q8\<lparr>tj_Effects := ex_dependent_effects\<rparr>"
  have "?e \<in> set (tj_Effects ?p)" "ef_RecoveryClass ?e \<noteq> RecoveryReadOnly" "''effect:0'' \<in> set (ef_Dependencies ?e)"
    "''effect:0'' \<notin> set (releaseEffectIDs (tj_Effects ?p))"
    by (simp_all add: ex_dependent_effects_def ex_effect_def releaseEffectIDs_def)
  from read_only_dependency_blocks_release [OF this] show ?thesis by blast
qed

section \<open>The store\<close>

text \<open>The verification of a stored run never recomputes a content digest: its result does not depend on
  the digest function at all. (The verification of a stored transaction does recompute them.)\<close>

theorem verify_run_ignores_event_digests:
  "VerifyRun (C\<lparr>rc_Digest := digest\<rparr>) D db ns i = VerifyRun C D db ns i"
  by (simp add: VerifyRun_def GetRun_def Events_def loadProjection_def decode_head_def)

text \<open>Event identifiers are unique across the whole store, not per namespace: a run whose first event
  carries a stored identifier is refused, whatever its namespace.\<close>

theorem event_identifier_is_global:
  assumes "ev_ID e \<in> set (map er_event_id (db_events db))"
  shows "\<exists>err. CreateRun C D db e = (db, Inl err)"
proof -
  have "insert_event_row runs (db_events db) (event_row_of ns e k) = None" for runs ns k
    using assms by (simp add: insert_event_row_def event_row_of_def)
  then have "\<nexists>p db'. CreateRun C D db e = (db', Inr p)" by (fastforce elim!: CreateRun_Inr)
  then obtain db' err where "CreateRun C D db e = (db', Inl err)"
    by (cases "CreateRun C D db e"; cases "snd (CreateRun C D db e)") auto
  with CreateRun_unchanged show ?thesis by blast
qed

lemma ex_digit_chars: "digit_char 0 = CHR ''0''" "digit_char 1 = CHR ''1''" "digit_char 5 = CHR ''5''"
  "digit_char (Suc 0) = CHR ''1''"
  by code_simp+

lemma ex_half_second: "dec 500000000 = ''500000000''"
proof -
  have "n < 10 \<Longrightarrow> dec n = [digit_char n]" "10 \<le> n \<Longrightarrow> dec n = dec (n div 10) @ [digit_char (n mod 10)]" for n
    by (subst dec.simps, simp)+
  then show ?thesis by (simp add: ex_digit_chars del: dec.simps)
qed

lemma ex_time_fields: "civil 0 = (1, 1, 1)" "padded 9 0 = ''000000000''" "padded 2 5 = ''05''" "padded 2 0 = ''00''"
  "padded 2 1 = ''01''" "padded 4 1 = ''0001''" "trim_zeros ''000000000'' = ''''" "trim_zeros ''500000000'' = ''5''"
  by code_simp+

lemma ex_time_parts:
  "(5000000000::int) div 1000000000 = 5" "(5500000000::int) div 1000000000 = 5"
  "(5000000000::int) mod 1000000000 = 0" "(5500000000::int) mod 1000000000 = 500000000"
  "(5::int) div 86400 = 0" "(5::int) mod 86400 = 5" "(5::int) div 3600 = 0" "(5::int) div 60 = 0"
  "(5::int) mod 60 = 5" "(0::int) mod 60 = 0"
  by simp_all

lemma ex_times: "rfc3339nano 5000000000 = ''0001-01-01T00:00:05Z''"
  "rfc3339nano 5500000000 = ''0001-01-01T00:00:05.5Z''"
proof -
  have "padded 9 500000000 = ''500000000''" by (simp add: padded_def ex_half_second)
  then show "rfc3339nano 5000000000 = ''0001-01-01T00:00:05Z''" "rfc3339nano 5500000000 = ''0001-01-01T00:00:05.5Z''"
    by (simp_all only: rfc3339nano_def Let_def ex_time_fields ex_time_parts prod.case append.simps list.distinct
        if_False if_True simp_thms)
qed

text \<open>Creation times are stored as text with trailing zeros dropped and listed in the order of that text,
  which is not the order of time: half a second after a full second sorts before it.\<close>

theorem text_order_is_not_time_order:
  "(5000000000 :: time) < 5500000000 \<and> rfc3339nano 5500000000 < rfc3339nano 5000000000"
proof -
  have "CHR ''.'' < CHR ''Z''" by (simp add: less_char_def)
  then show ?thesis by (simp add: ex_times)
qed

end
