(* ===== verification/Filesystem_Driver.thy ===== *)
theory Filesystem_Driver
  imports Capability
begin

text \<open>
  \<^verbatim>\<open>driver/filesystem.go\<close>: the driver that performs authorized file reads and writes inside a run's
  workspace. The operating system is a parameter: a state of any type and the operations of
  \<^verbatim>\<open>os.Root\<close> on it, each of which may fail. A root is named by its path below the repository. SHA-256
  (in hexadecimal) and the decoding and encoding of the typed arguments are parameters.
\<close>

section \<open>The operating system\<close>

datatype lstat_result = NotExist | LstatFailed | FileInfo bool

record read_handle =
  rh_Regular :: "bool option"
  rh_Content :: "string option"

record 'w OS =
  os_OpenRepository :: "'w \<Rightarrow> bool"
  os_OpenWorkspace :: "string \<Rightarrow> 'w \<Rightarrow> bool"
  os_Lstat :: "string \<Rightarrow> string \<Rightarrow> 'w \<Rightarrow> lstat_result"
  os_OpenRead :: "string \<Rightarrow> string \<Rightarrow> 'w \<Rightarrow> read_handle option"
  os_Random :: "'w \<Rightarrow> string option"
  os_Create :: "string \<Rightarrow> string \<Rightarrow> 'w \<Rightarrow> 'w \<times> bool"
  os_Write :: "string \<Rightarrow> string \<Rightarrow> string \<Rightarrow> 'w \<Rightarrow> 'w \<times> bool"
  os_Sync :: "string \<Rightarrow> string \<Rightarrow> 'w \<Rightarrow> 'w \<times> bool"
  os_Close :: "string \<Rightarrow> string \<Rightarrow> 'w \<Rightarrow> 'w \<times> bool"
  os_Rename :: "string \<Rightarrow> string \<Rightarrow> string \<Rightarrow> 'w \<Rightarrow> 'w \<times> bool"
  os_Remove :: "string \<Rightarrow> string \<Rightarrow> 'w \<Rightarrow> 'w"
  os_SyncDirectory :: "string \<Rightarrow> string \<Rightarrow> 'w \<Rightarrow> 'w \<times> bool"

text \<open>An error of the driver: a kernel error, another failure, or an effect whose outcome is unknown.\<close>

datatype ExecutionError = KernelFailure KernelError | OtherFailure | UnknownEffect

record FilesystemReadArguments =
  fr_Path :: string

record FilesystemWriteArguments =
  fw_Path :: string
  fw_ContentDigest :: string

record ArgumentCodec =
  ac_Sha256 :: "string \<Rightarrow> string"
  ac_DecodeRead :: "raw_json \<Rightarrow> KernelError + FilesystemReadArguments"
  ac_DecodeWrite :: "raw_json \<Rightarrow> KernelError + FilesystemWriteArguments"
  ac_EncodeRead :: "FilesystemReadArguments \<Rightarrow> string option"
  ac_EncodeWrite :: "FilesystemWriteArguments \<Rightarrow> string option"

record FilesystemResult =
  fx_Digest :: string
  fx_Bytes :: int64
  fx_Output :: string

section \<open>Guards\<close>

definition FilesystemRead :: string where "FilesystemRead = ''filesystem.read''"
definition FilesystemWrite :: string where "FilesystemWrite = ''filesystem.write''"
definition defaultMaxBytes :: int64 where "defaultMaxBytes = 1048576"

definition denied :: "string \<Rightarrow> ExecutionError" where
  "denied resource = KernelFailure (newError ErrorCapabilityDenied ''filesystem_action'' resource '''')"

definition schemaError :: "string \<Rightarrow> ExecutionError" where
  "schemaError resource = KernelFailure (newError ErrorSchemaInvalid ''filesystem_action'' resource '''')"

definition DigestBytes :: "ArgumentCodec \<Rightarrow> string \<Rightarrow> string" where
  "DigestBytes A data = ''sha256:'' @ ac_Sha256 A data"

definition is_hex :: "char \<Rightarrow> bool" where
  "is_hex c \<longleftrightarrow> byte_in 48 57 c \<or> byte_in 97 102 c \<or> byte_in 65 70 c"

definition validDigest :: "string \<Rightarrow> bool" where
  "validDigest value \<longleftrightarrow> has_prefix ''sha256:'' value \<and> length value = length ''sha256:'' + 64 \<and>
     list_all is_hex (drop 7 value) \<and> to_lower value = value"

text \<open>
  \<^verbatim>\<open>strings.EqualFold\<close> against a literal without \<^verbatim>\<open>k\<close> and \<^verbatim>\<open>s\<close>, which are the only letters with a fold outside
  ASCII: the letters are compared in lower case.
\<close>

definition equal_fold :: "string \<Rightarrow> string \<Rightarrow> bool" where
  "equal_fold s t \<longleftrightarrow> map lower_char s = map lower_char t"

definition trim_right :: "char set \<Rightarrow> string \<Rightarrow> string" where
  "trim_right cutset s = rev (dropWhile (\<lambda>c. c \<in> cutset) (rev s))"

definition controlMetadataComponent :: "string \<Rightarrow> bool" where
  "controlMetadataComponent component \<longleftrightarrow>
     (let normalized = takeWhile (\<lambda>c. c \<noteq> CHR '':'') (trim_right {CHR ''.'', CHR '' ''} component)
      in equal_fold normalized ''.git'' \<or> equal_fold normalized ''.gatemole'' \<or> equal_fold normalized ''.vouch'')"

definition containsControlMetadataPath :: "string \<Rightarrow> bool" where
  "containsControlMetadataPath logicalPath \<longleftrightarrow> list_ex controlMetadataComponent (components logicalPath)"

text \<open>The loop of \<^verbatim>\<open>rejectSymlinkComponents\<close>, from the path that has been checked.\<close>

fun rejectSymlinks :: "(string \<Rightarrow> lstat_result) \<Rightarrow> string \<Rightarrow> string \<Rightarrow> string list \<Rightarrow> ExecutionError option" where
  "rejectSymlinks lstat resource cur [] = None"
| "rejectSymlinks lstat resource cur (component # rest) = (let cur = path_Join2 cur component in
     case lstat cur of
       NotExist \<Rightarrow> None
     | LstatFailed \<Rightarrow> Some OtherFailure
     | FileInfo symlink \<Rightarrow> if symlink then Some (denied resource) else rejectSymlinks lstat resource cur rest)"

definition rejectSymlinkComponents ::
  "'w OS \<Rightarrow> string \<Rightarrow> string \<Rightarrow> string \<Rightarrow> bool \<Rightarrow> 'w \<Rightarrow> ExecutionError option" where
  "rejectSymlinkComponents os root logicalPath resource includeLeaf w =
     (let cs = components logicalPath
      in rejectSymlinks (\<lambda>p. os_Lstat os root p w) resource '''' (if includeLeaf then cs else butlast cs))"

definition NormalizeArguments :: "ArgumentCodec \<Rightarrow> string \<Rightarrow> raw_json \<Rightarrow> ExecutionError + string \<times> string \<times> string" where
  "NormalizeArguments A operation raw =
     (if operation = FilesystemRead then (case ac_DecodeRead A raw of
          Inl err \<Rightarrow> Inl (KernelFailure err)
        | Inr arguments \<Rightarrow>
            if CleanLogicalPath (fr_Path arguments) = None then Inl (schemaError '''')
            else (case ac_EncodeRead A arguments of
                None \<Rightarrow> Inl OtherFailure | Some normalized \<Rightarrow> Inr (fr_Path arguments, '''', normalized)))
      else if operation = FilesystemWrite then (case ac_DecodeWrite A raw of
          Inl err \<Rightarrow> Inl (KernelFailure err)
        | Inr arguments \<Rightarrow>
            if CleanLogicalPath (fw_Path arguments) = None then Inl (schemaError '''')
            else if \<not> validDigest (fw_ContentDigest arguments) then Inl (schemaError '''')
            else (case ac_EncodeWrite A arguments of
                None \<Rightarrow> Inl OtherFailure
              | Some normalized \<Rightarrow> Inr (fw_Path arguments, fw_ContentDigest arguments, normalized)))
      else Inl (schemaError ''''))"

section \<open>Effects\<close>

definition readFile :: "ArgumentCodec \<Rightarrow> 'w OS \<Rightarrow> string \<Rightarrow> string \<Rightarrow> int64 \<Rightarrow> 'w \<Rightarrow> ExecutionError + FilesystemResult" where
  "readFile A os root relative limit w =
     (case os_OpenRead os root relative w of
        None \<Rightarrow> Inl OtherFailure
      | Some h \<Rightarrow>
          if rh_Regular h \<noteq> Some True then Inl OtherFailure
          else (case rh_Content h of
              None \<Rightarrow> Inl OtherFailure
            | Some content \<Rightarrow> let data = take (nat (wrap64 (limit + 1))) content in
                if int (length data) > limit then Inl OtherFailure
                else Inr \<lparr>fx_Digest = DigestBytes A data, fx_Bytes = int (length data), fx_Output = data\<rparr>))"

text \<open>The deferred clean-up of \<^verbatim>\<open>writeFile\<close> before the rename.\<close>

definition abandon :: "'w OS \<Rightarrow> string \<Rightarrow> string \<Rightarrow> 'w \<Rightarrow> 'w" where
  "abandon os root temporary w = os_Remove os root temporary (fst (os_Close os root temporary w))"

definition temporaryName :: "string \<Rightarrow> string \<Rightarrow> string" where
  "temporaryName relative random = path_Join2 (path_Dir relative) (''.gatemole-write-'' @ random)"

definition writeFile :: "ArgumentCodec \<Rightarrow> 'w OS \<Rightarrow> string \<Rightarrow> string \<Rightarrow> string \<Rightarrow> 'w \<Rightarrow>
    'w \<times> (ExecutionError + FilesystemResult)" where
  "writeFile A os root relative data w =
     (case os_Random os w of
        None \<Rightarrow> (w, Inl OtherFailure)
      | Some random \<Rightarrow> (let temporary = temporaryName relative random; (w, ok) = os_Create os root temporary w in
          if \<not> ok then (w, Inl OtherFailure)
          else let (w, ok) = os_Write os root temporary data w in
          if \<not> ok then (abandon os root temporary w, Inl OtherFailure)
          else let (w, ok) = os_Sync os root temporary w in
          if \<not> ok then (abandon os root temporary w, Inl OtherFailure)
          else let (w, ok) = os_Close os root temporary w in
          if \<not> ok then (abandon os root temporary w, Inl OtherFailure)
          else let (w, ok) = os_Rename os root temporary relative w in
          if \<not> ok then (abandon os root temporary w, Inl OtherFailure)
          else let (w, ok) = os_SyncDirectory os root (path_Dir relative) w in
          (fst (os_Close os root temporary w),
           if \<not> ok then Inl UnknownEffect
           else Inr \<lparr>fx_Digest = DigestBytes A data, fx_Bytes = int (length data), fx_Output = ''''\<rparr>)))"

text \<open>What is checked before anything is opened: the logical path, the content digest and the path below
  the workspace.\<close>

definition checkAction :: "ArgumentCodec \<Rightarrow> AgentRun \<Rightarrow> CapabilityGrant \<Rightarrow> ActionRequest \<Rightarrow>
    ExecutionError + string \<times> string \<times> string" where
  "checkAction A run grant request = ok_then (first_error
     [fail_if (cg_SubjectRunID grant \<noteq> ar_ID run \<or> aq_RunID request \<noteq> ar_ID run) (denied (aq_ID request)),
      fail_if (rs_Kind (cg_Resource grant) \<noteq> ''filesystem'' \<or> rs_Kind (aq_Resource request) \<noteq> ''filesystem'')
        (denied (aq_ID request)),
      fail_if (aq_Operation request \<notin> set (cg_Operations grant)) (denied (aq_ID request))])
     (bind_res (NormalizeArguments A (aq_Operation request) (aq_Arguments request))
       (\<lambda>(logicalPath, contentDigest, normalized). ok_then (first_error
          [fail_if (rs_Pattern (aq_Resource request) \<noteq> logicalPath) (denied (aq_ID request)),
           fail_if (\<not> MatchResource (rs_Pattern (cg_Resource grant)) logicalPath) (denied (aq_ID request)),
           fail_if (aq_ArgumentsDigest request \<noteq> DigestBytes A normalized) (schemaError (aq_ID request)),
           fail_if (CleanLogicalPath (ar_Workspace run) = None \<or>
               cc_WorkspaceRoot (cg_Conditions grant) \<noteq> ar_Workspace run) (denied (aq_ID request)),
           fail_if (containsControlMetadataPath (ar_Workspace run) \<or> containsControlMetadataPath logicalPath)
             (denied (aq_ID request))])
         (case WorkspaceRelative (ar_Workspace run) logicalPath of
            None \<Rightarrow> Inl (denied (aq_ID request))
          | Some relative \<Rightarrow> Inr (logicalPath, contentDigest, relative))))"

definition outputLimit :: "CapabilityGrant \<Rightarrow> int64" where
  "outputLimit grant = (case cc_MaxOutputBytes (cg_Conditions grant) of None \<Rightarrow> defaultMaxBytes | Some n \<Rightarrow> n)"

definition Filesystem_Execute :: "ArgumentCodec \<Rightarrow> 'w OS \<Rightarrow> AgentRun \<Rightarrow> CapabilityGrant \<Rightarrow> ActionRequest \<Rightarrow> string \<Rightarrow>
    'w \<Rightarrow> 'w \<times> (ExecutionError + FilesystemResult)" where
  "Filesystem_Execute A os run grant request input w =
     (case checkAction A run grant request of
        Inl err \<Rightarrow> (w, Inl err)
      | Inr (logicalPath, contentDigest, relative) \<Rightarrow> (let workspace = ar_Workspace run; id = aq_ID request in
          if \<not> os_OpenRepository os w then (w, Inl OtherFailure)
          else case rejectSymlinkComponents os '''' workspace id True w of Some err \<Rightarrow> (w, Inl err)
        | None \<Rightarrow> if \<not> os_OpenWorkspace os workspace w then (w, Inl OtherFailure)
          else if aq_Operation request = FilesystemRead then
            (w, if input \<noteq> '''' then Inl (schemaError id)
                else case rejectSymlinkComponents os workspace relative id True w of Some err \<Rightarrow> Inl err
              | None \<Rightarrow> readFile A os workspace relative (outputLimit grant) w)
          else if aq_Operation request = FilesystemWrite then
            (if int (length input) > outputLimit grant then (w, Inl (denied id))
             else if DigestBytes A input \<noteq> contentDigest then (w, Inl (schemaError id))
             else case rejectSymlinkComponents os workspace relative id False w of Some err \<Rightarrow> (w, Inl err)
              | None \<Rightarrow> writeFile A os workspace relative input w)
          else (w, Inl (schemaError id))))"

end
