(* ===== verification/Broker.thy ===== *)
theory Broker
  imports Filesystem_Driver Run_Store
begin

text \<open>
  \<^verbatim>\<open>broker/broker.go\<close>: the broker that authorizes the actions a run requests against its installed
  grants, records each step in the run's history before it acts, and performs the action through the
  filesystem driver; and its recovery after a crash. The state is the database and that of the
  operating system. The clock and the database driver of every step are parameters.
\<close>

section \<open>Errors and their text\<close>

fun ErrorCode_text :: "ErrorCode \<Rightarrow> string" where
  "ErrorCode_text ErrorSchemaInvalid = ''KERNEL_SCHEMA_INVALID''"
| "ErrorCode_text ErrorUnknownField = ''KERNEL_UNKNOWN_FIELD''"
| "ErrorCode_text ErrorIdentityInvalid = ''KERNEL_IDENTITY_INVALID''"
| "ErrorCode_text ErrorTransitionInvalid = ''KERNEL_TRANSITION_INVALID''"
| "ErrorCode_text ErrorEventSequence = ''KERNEL_EVENT_SEQUENCE''"
| "ErrorCode_text ErrorEventChain = ''KERNEL_EVENT_CHAIN''"
| "ErrorCode_text ErrorCapabilityDenied = ''KERNEL_CAPABILITY_DENIED''"
| "ErrorCode_text ErrorCapabilityExpired = ''KERNEL_CAPABILITY_EXPIRED''"
| "ErrorCode_text ErrorCapabilityRevoked = ''KERNEL_CAPABILITY_REVOKED''"
| "ErrorCode_text ErrorDelegationExceeded = ''KERNEL_DELEGATION_EXCEEDED''"
| "ErrorCode_text ErrorApprovalRequired = ''KERNEL_APPROVAL_REQUIRED''"
| "ErrorCode_text ErrorApprovalInvalid = ''KERNEL_APPROVAL_INVALID''"
| "ErrorCode_text ErrorBudgetExceeded = ''KERNEL_BUDGET_EXCEEDED''"
| "ErrorCode_text ErrorActionUnknown = ''KERNEL_ACTION_UNKNOWN''"
| "ErrorCode_text ErrorCheckpointIncompatible = ''KERNEL_CHECKPOINT_INCOMPATIBLE''"
| "ErrorCode_text ErrorNotFound = ''KERNEL_NOT_FOUND''"
| "ErrorCode_text ErrorConflict = ''KERNEL_CONFLICT''"
| "ErrorCode_text ErrorIdempotencyConflict = ''KERNEL_IDEMPOTENCY_CONFLICT''"
| "ErrorCode_text ErrorDriverUnavailable = ''KERNEL_DRIVER_UNAVAILABLE''"
| "ErrorCode_text ErrorTransactionConflict = ''TRANSACTION_CONFLICT''"
| "ErrorCode_text ErrorEffectSequence = ''TRANSACTION_EFFECT_SEQUENCE''"
| "ErrorCode_text ErrorVerificationFailed = ''TRANSACTION_VERIFICATION_FAILED''"
| "ErrorCode_text ErrorPartialCommit = ''TRANSACTION_PARTIAL_COMMIT''"
| "ErrorCode_text ErrorInternal = ''KERNEL_INTERNAL''"

definition KernelError_Error :: "KernelError \<Rightarrow> string \<Rightarrow> string" where
  "KernelError_Error err message =
     ErrorCode_text (ke_Code err) @ (if ke_Operation err \<noteq> '''' then '' '' @ ke_Operation err else '''') @
     (if ke_Field err \<noteq> '''' then '': '' @ ke_Field err else '''') @ '': '' @ message"

definition requestError :: "ErrorCode \<Rightarrow> string \<Rightarrow> KernelError" where
  "requestError code resource = newError code ''request_action'' resource ''''"

section \<open>Authorization\<close>

text \<open>The errors of \<^verbatim>\<open>authorize\<close> come with their message, which the broker records.\<close>

definition capabilityError :: "ErrorCode \<Rightarrow> string \<Rightarrow> string \<Rightarrow> KernelError \<times> string" where
  "capabilityError code resource message = (newError code ''authorize_action'' resource '''', message)"

definition grantCovers :: "ActionRequest \<Rightarrow> CapabilityGrant \<Rightarrow> bool" where
  "grantCovers request grant \<longleftrightarrow>
     cg_SubjectRunID grant = aq_RunID request \<and> rs_Kind (cg_Resource grant) = rs_Kind (aq_Resource request) \<and>
     aq_Operation request \<in> set (cg_Operations grant) \<and>
     MatchResource (rs_Pattern (cg_Resource grant)) (rs_Pattern (aq_Resource request))"

fun authorizeAmong :: "ActionRequest \<Rightarrow> (string \<Rightarrow> int64) \<Rightarrow> time \<Rightarrow> CapabilityGrant list \<Rightarrow>
    KernelError \<times> string + CapabilityGrant" where
  "authorizeAmong request uses now [] =
     Inl (capabilityError ErrorCapabilityDenied '''' ''no capability authorizes the requested resource and operation'')"
| "authorizeAmong request uses now (grant # grants) =
     (if \<not> grantCovers request grant then authorizeAmong request uses now grants
      else ok_then (first_error
        [on_some (cg_RevokedAt grant) (\<lambda>t. fail_if (\<not> t > now)
           (capabilityError ErrorCapabilityRevoked (cg_ID grant) ''capability is revoked'')),
         fail_if (\<not> cg_ExpiresAt grant > now)
           (capabilityError ErrorCapabilityExpired (cg_ID grant) ''capability is expired''),
         on_some (cg_MaxUses grant) (\<lambda>m. fail_if (uses (cg_ID grant) \<ge> m)
           (capabilityError ErrorCapabilityDenied (cg_ID grant) ''capability use limit is exhausted'')),
         fail_if (cc_ApprovalRequired (cg_Conditions grant))
           (capabilityError ErrorApprovalRequired (cg_ID grant) ''capability requires human approval'')])
        (Inr grant))"

definition authorize :: "ActionRequest \<Rightarrow> CapabilityGrant list \<Rightarrow> (string \<Rightarrow> int64) \<Rightarrow> time \<Rightarrow>
    KernelError \<times> string + CapabilityGrant" where
  "authorize request grants uses now =
     (if aq_CapabilityHint request \<noteq> '''' then
        (case find (\<lambda>grant. cg_ID grant = aq_CapabilityHint request) grants of
           None \<Rightarrow> Inl (capabilityError ErrorCapabilityDenied (aq_CapabilityHint request)
             ''hinted capability is not installed'')
         | Some grant \<Rightarrow> authorizeAmong request uses now [grant])
      else authorizeAmong request uses now (sort_key cg_ID grants))"

fun ensureUniqueAttempt :: "ActionRequest \<Rightarrow> RunEvent list \<Rightarrow> KernelError option" where
  "ensureUniqueAttempt request [] = None"
| "ensureUniqueAttempt request (event # events) =
     (if ev_Type event \<noteq> EventActionRequested then ensureUniqueAttempt request events
      else case DecodePayloadStrict as_requested event of
        Inl err \<Rightarrow> Some err
      | Inr other \<Rightarrow>
          if aq_ID other = aq_ID request \<or> aq_IdempotencyKey other = aq_IdempotencyKey request
          then Some (requestError ErrorConflict (aq_ID request))
          else ensureUniqueAttempt request events)"

section \<open>Input\<close>

text \<open>
  \<^verbatim>\<open>base64.StdEncoding.Strict()\<close>: as \<^const>\<open>base64_decode\<close>, and the bits that padding leaves over are zero.
\<close>

fun strict_padding :: "string \<Rightarrow> bool" where
  "strict_padding (a # b # c # d # rest) =
     (if d = CHR ''='' then
        (if c = CHR ''='' then (case b64_value b of Some y \<Rightarrow> y mod 16 = 0 | None \<Rightarrow> True)
         else (case b64_value c of Some z \<Rightarrow> z mod 4 = 0 | None \<Rightarrow> True))
      else strict_padding rest)"
| "strict_padding _ = True"

definition decodeInput :: "string \<Rightarrow> KernelError + string" where
  "decodeInput value = (if value = '''' then Inr '''' else
     let text = filter (\<lambda>c. c \<noteq> CHR 0x0A \<and> c \<noteq> CHR 0x0D) value in
     case base64_decode value of
       None \<Rightarrow> Inl (requestError ErrorSchemaInvalid '''')
     | Some octets \<Rightarrow> if strict_padding text then Inr (map char_of octets) else Inl (requestError ErrorSchemaInvalid ''''))"

fun b64_encode :: "nat list \<Rightarrow> string" where
  "b64_encode [] = []"
| "b64_encode [x] = [b64_alphabet ! (x div 4), b64_alphabet ! (x mod 4 * 16), CHR ''='', CHR ''='']"
| "b64_encode [x, y] = [b64_alphabet ! (x div 4), b64_alphabet ! (x mod 4 * 16 + y div 16),
     b64_alphabet ! (y mod 16 * 4), CHR ''='']"
| "b64_encode (x # y # z # rest) = b64_alphabet ! (x div 4) # b64_alphabet ! (x mod 4 * 16 + y div 16) #
     b64_alphabet ! (y mod 16 * 4 + z div 64) # b64_alphabet ! (z mod 64) # b64_encode rest"

definition base64_encode :: "string \<Rightarrow> string" where
  "base64_encode s = b64_encode (map of_char s)"

section \<open>Recording\<close>

record ExecuteRequest =
  xr_ExpectedSequence :: int64
  xr_Action :: ActionRequest
  xr_InputBase64 :: string

text \<open>The projection of an outcome is \<^const>\<open>None\<close> where the code returns the zero projection.\<close>

record Outcome =
  oc_ActionID :: string
  oc_Status :: string
  oc_CapabilityID :: string
  oc_ResultDigest :: string
  oc_OutputBytes :: int64
  oc_OutputBase64 :: string
  oc_Projection :: "Projection option"

record ('j, 'w) BrokerEnv =
  be_Codec :: "'j RunCodec"
  be_Arguments :: ArgumentCodec
  be_OS :: "'w OS"
  be_Now :: "nat \<Rightarrow> time"
  be_Driver :: "nat \<Rightarrow> driver"
  be_ErrorText :: "ExecutionError \<Rightarrow> string"

definition outcome :: "string \<Rightarrow> string \<Rightarrow> string \<Rightarrow> Projection option \<Rightarrow> Outcome" where
  "outcome actionID status capabilityID projection = \<lparr>oc_ActionID = actionID, oc_Status = status,
     oc_CapabilityID = capabilityID, oc_ResultDigest = '''', oc_OutputBytes = 0, oc_OutputBase64 = '''',
     oc_Projection = projection\<rparr>"

text \<open>The event of \<^verbatim>\<open>Broker.append\<close>, with the policy decision it refers to; and \<^verbatim>\<open>Broker.append\<close>, whose error
  comes with the projection it returns.\<close>

definition brokerEvent :: "'j RunCodec \<Rightarrow> Projection \<Rightarrow> RunEventType \<Rightarrow> Principal \<Rightarrow> time \<Rightarrow> RunPayload \<Rightarrow> string \<Rightarrow>
    RunEvent option" where
  "brokerEvent C projection eventType actor now payload policyDecisionID =
     (case Next (rc_Encodable C) (rc_Digest C) (rc_Hash16 C) projection eventType actor now payload of
        None \<Rightarrow> None
      | Some event \<Rightarrow>
          if policyDecisionID = '''' then Some event
          else let event = event\<lparr>ev_PolicyDecisionID := policyDecisionID\<rparr> in
            map_option (\<lambda>digest. event\<lparr>ev_Digest := digest\<rparr>) (ComputeEventDigest (rc_Digest C) event))"

definition broker_append :: "('j, 'w) BrokerEnv \<Rightarrow> nat \<Rightarrow> 'j DB \<Rightarrow> string \<Rightarrow> Projection \<Rightarrow> RunEventType \<Rightarrow> Principal \<Rightarrow>
    RunPayload \<Rightarrow> string \<Rightarrow> 'j DB \<times> ((ExecutionError \<times> Projection option) + Projection)" where
  "broker_append E k db namespace projection eventType actor payload policyDecisionID =
     (case brokerEvent (be_Codec E) projection eventType actor (be_Now E k) payload policyDecisionID of
        None \<Rightarrow> (db, Inl (OtherFailure, Some projection))
      | Some event \<Rightarrow>
          (case AppendEvent (be_Codec E) (be_Driver E k) db namespace (ar_EventSequence (pj_Run projection)) event of
             (db, Inl err) \<Rightarrow> (db, Inl (KernelFailure err, None))
           | (db, Inr nxt) \<Rightarrow> (db, Inr nxt)))"

definition recordFailure :: "('j, 'w) BrokerEnv \<Rightarrow> nat \<Rightarrow> 'j DB \<Rightarrow> string \<Rightarrow> Projection \<Rightarrow> CapabilityGrant \<Rightarrow> ActionRequest \<Rightarrow>
    ExecutionError \<Rightarrow> bool \<Rightarrow> 'j DB \<times> Outcome \<times> ExecutionError option" where
  "recordFailure E k db namespace projection grant request cause unknown =
     (let status = (if unknown then ''unknown'' else ''failed'');
          payload = \<lparr>rp_ActionID = aq_ID request, rp_CapabilityID = cg_ID grant, rp_Status = status,
            rp_ResultDigest = '''', rp_OutputBytes = 0,
            rp_ErrorCode = ErrorCode_text (if unknown then ErrorActionUnknown else ErrorDriverUnavailable),
            rp_Reason = be_ErrorText E cause\<rparr>
      in case broker_append E k db namespace projection (if unknown then EventActionUnknown else EventActionFailed)
            capabilityServicePrincipal (ActionResult payload) (cg_PolicyDecisionID grant) of
        (db, Inl _) \<Rightarrow> (db, outcome (aq_ID request) ''unknown'' (cg_ID grant) (Some projection),
           Some (KernelFailure (newError ErrorActionUnknown ''record_action_failure'' (aq_ID request) '''')))
      | (db, Inr nxt) \<Rightarrow> (db, outcome (aq_ID request) status (cg_ID grant) (Some nxt), None))"

section \<open>Execution\<close>

text \<open>A refused request: the decision is recorded and the refusal returned.\<close>

definition refuse :: "('j, 'w) BrokerEnv \<Rightarrow> 'j DB \<Rightarrow> string \<Rightarrow> Projection \<Rightarrow> ActionRequest \<Rightarrow> KernelError \<times> string \<Rightarrow>
    'j DB \<times> Outcome \<times> ExecutionError option" where
  "refuse E db namespace projection request refusal =
     (let approval = ke_Code (fst refusal) = ErrorApprovalRequired; capabilityID = ke_Resource (fst refusal);
          payload = \<lparr>dp_ActionID = aq_ID request,
            dp_Decision = (if approval then DecisionRequireApproval else DecisionDeny), dp_CapabilityID = capabilityID,
            dp_Reason = KernelError_Error (fst refusal) (snd refusal),
            dp_ErrorCode = ErrorCode_text (ke_Code (fst refusal))\<rparr>
      in case broker_append E 4 db namespace projection
            (if approval then EventActionApprovalRequired else EventActionDenied)
            capabilityServicePrincipal (ActionDecision payload) '''' of
        (db, Inl (err, p)) \<Rightarrow> (db, outcome (aq_ID request) ''unknown'' '''' p, Some err)
      | (db, Inr nxt) \<Rightarrow> (db, outcome (aq_ID request) (if approval then ''approval_required'' else ''denied'')
           capabilityID (Some nxt), Some (KernelFailure (fst refusal))))"

text \<open>The effect of an action whose execution has been recorded, and its receipt.\<close>

definition perform :: "('j, 'w) BrokerEnv \<Rightarrow> 'j DB \<Rightarrow> 'w \<Rightarrow> string \<Rightarrow> Projection \<Rightarrow> CapabilityGrant \<Rightarrow> ActionRequest \<Rightarrow> string \<Rightarrow>
    'j DB \<times> 'w \<times> Outcome \<times> ExecutionError option" where
  "perform E db w namespace projection grant request inputBase64 =
     (case decodeInput inputBase64 of
        Inl err \<Rightarrow> (case recordFailure E 6 db namespace projection grant request (KernelFailure err) False of
          (db, r) \<Rightarrow> (db, w, r))
      | Inr input \<Rightarrow>
          (case Filesystem_Execute (be_Arguments E) (be_OS E) (pj_Run projection) grant request input w of
             (w, Inl err) \<Rightarrow> (case recordFailure E 6 db namespace projection grant request err (err = UnknownEffect) of
               (db, r) \<Rightarrow> (db, w, r))
           | (w, Inr result) \<Rightarrow>
               (case broker_append E 6 db namespace projection EventActionCommitted capabilityServicePrincipal
                    (ActionResult \<lparr>rp_ActionID = aq_ID request, rp_CapabilityID = cg_ID grant, rp_Status = ''committed'',
                       rp_ResultDigest = fx_Digest result, rp_OutputBytes = fx_Bytes result, rp_ErrorCode = '''',
                       rp_Reason = ''''\<rparr>) (cg_PolicyDecisionID grant) of
                  (db, Inl (_, p)) \<Rightarrow> (db, w, (outcome (aq_ID request) ''unknown'' (cg_ID grant) p)
                      \<lparr>oc_ResultDigest := fx_Digest result, oc_OutputBytes := fx_Bytes result\<rparr>,
                      Some (KernelFailure (newError ErrorActionUnknown ''commit_action_receipt'' (aq_ID request) '''')))
                | (db, Inr nxt) \<Rightarrow> (db, w, (outcome (aq_ID request) ''committed'' (cg_ID grant) (Some nxt))
                      \<lparr>oc_ResultDigest := fx_Digest result, oc_OutputBytes := fx_Bytes result,
                       oc_OutputBase64 := base64_encode (fx_Output result)\<rparr>, None))))"

text \<open>An authorized action: the authorization and the execution are recorded before the effect.\<close>

definition executeAuthorized :: "('j, 'w) BrokerEnv \<Rightarrow> 'j DB \<Rightarrow> 'w \<Rightarrow> string \<Rightarrow> Projection \<Rightarrow> CapabilityGrant \<Rightarrow> ActionRequest \<Rightarrow>
    string \<Rightarrow> 'j DB \<times> 'w \<times> Outcome \<times> ExecutionError option" where
  "executeAuthorized E db w namespace projection grant request inputBase64 =
     (case broker_append E 4 db namespace projection EventActionAuthorized capabilityServicePrincipal
         (ActionDecision \<lparr>dp_ActionID = aq_ID request, dp_Decision = DecisionAllow, dp_CapabilityID = cg_ID grant,
            dp_Reason = ''request matched an active capability grant'', dp_ErrorCode = ''''\<rparr>)
         (cg_PolicyDecisionID grant) of
        (db, Inl (err, p)) \<Rightarrow> (db, w, outcome (aq_ID request) ''unknown'' (cg_ID grant) p, Some err)
      | (db, Inr projection) \<Rightarrow>
     (case broker_append E 5 db namespace projection EventActionExecuting capabilityServicePrincipal
         (ActionExecuting \<lparr>xp_ActionID = aq_ID request, xp_CapabilityID = cg_ID grant\<rparr>) (cg_PolicyDecisionID grant) of
        (db, Inl (err, p)) \<Rightarrow> (db, w, outcome (aq_ID request) ''unknown'' (cg_ID grant) p, Some err)
      | (db, Inr projection) \<Rightarrow> perform E db w namespace projection grant request inputBase64))"

text \<open>What is known before the request is recorded: the projection, the grants and their uses.\<close>

definition prepareAction :: "('j, 'w) BrokerEnv \<Rightarrow> 'j DB \<Rightarrow> string \<Rightarrow> ExecuteRequest \<Rightarrow>
    (Outcome \<times> KernelError) + Projection \<times> CapabilityGrant list \<times> (string \<Rightarrow> int64)" where
  "prepareAction E db namespace input = (let request = xr_Action input; id = aq_ID request;
       stop = (\<lambda>p err. Inl (outcome id '''' '''' p, err)) in
     case ActionRequest_Validate request of Some err \<Rightarrow> stop None err | None \<Rightarrow>
    (case GetRun (be_Codec E) (be_Driver E 0) db namespace (aq_RunID request) of
       Inl err \<Rightarrow> stop None err
     | Inr projection \<Rightarrow>
         if ar_EventSequence (pj_Run projection) \<noteq> xr_ExpectedSequence input
         then stop (Some projection) (requestError ErrorConflict id)
         else if ar_State (pj_Run projection) \<noteq> RunRunning
         then stop (Some projection) (requestError ErrorTransitionInvalid id)
         else (case Events (be_Codec E) (be_Driver E 1) db namespace (aq_RunID request) 0 of
             Inl err \<Rightarrow> stop (Some projection) err
           | Inr events \<Rightarrow> (case ensureUniqueAttempt request events of
               Some err \<Rightarrow> stop (Some projection) err
             | None \<Rightarrow> (case GrantsFromEvents events of
                 Inl err \<Rightarrow> stop (Some projection) err
               | Inr (grants, uses) \<Rightarrow> Inr (projection, grants, uses))))))"

definition Broker_Execute :: "('j, 'w) BrokerEnv \<Rightarrow> 'j DB \<Rightarrow> 'w \<Rightarrow> string \<Rightarrow> ExecuteRequest \<Rightarrow>
    'j DB \<times> 'w \<times> Outcome \<times> ExecutionError option" where
  "Broker_Execute E db w namespace input = (let request = xr_Action input in
     case prepareAction E db namespace input of
       Inl (out, err) \<Rightarrow> (db, w, out, Some (KernelFailure err))
     | Inr (projection, grants, uses) \<Rightarrow>
    (case broker_append E 2 db namespace projection EventActionRequested (ar_Principal (pj_Run projection))
        (ActionRequestedPayload request) '''' of
       (db, Inl (err, p)) \<Rightarrow> (db, w, outcome (aq_ID request) '''' '''' p, Some err)
     | (db, Inr projection) \<Rightarrow>
    (case authorize request grants uses (be_Now E 3) of
       Inl refusal \<Rightarrow> (case refuse E db namespace projection request refusal of (db, r) \<Rightarrow> (db, w, r))
     | Inr grant \<Rightarrow> executeAuthorized E db w namespace projection grant request (xr_InputBase64 input))))"

section \<open>Recovery\<close>

text \<open>The actions whose history has a request but no outcome, with the capability they were authorized
  under (empty before authorization), and the order of the requests.\<close>

fun interruptedFrom :: "(string \<Rightarrow> string option) \<Rightarrow> string list \<Rightarrow> RunEvent list \<Rightarrow>
    KernelError + (string \<Rightarrow> string option) \<times> string list" where
  "interruptedFrom pending order [] = Inr (pending, order)"
| "interruptedFrom pending order (event # events) = (case ev_Type event of
     EventActionRequested \<Rightarrow> bind_res (DecodePayloadStrict as_requested event) (\<lambda>request.
       interruptedFrom (pending(aq_ID request := Some '''')) (order @ [aq_ID request]) events)
   | EventActionAuthorized \<Rightarrow> bind_res (DecodePayloadStrict as_decision event) (\<lambda>payload.
       interruptedFrom (if pending (dp_ActionID payload) \<noteq> None
         then pending(dp_ActionID payload := Some (dp_CapabilityID payload)) else pending) order events)
   | EventActionExecuting \<Rightarrow> bind_res (DecodePayloadStrict as_executing event) (\<lambda>payload.
       interruptedFrom (if pending (xp_ActionID payload) \<noteq> None
         then pending(xp_ActionID payload := Some (xp_CapabilityID payload)) else pending) order events)
   | EventActionDenied \<Rightarrow> bind_res (DecodePayloadStrict as_decision event) (\<lambda>payload.
       interruptedFrom (pending(dp_ActionID payload := None)) order events)
   | EventActionApprovalRequired \<Rightarrow> bind_res (DecodePayloadStrict as_decision event) (\<lambda>payload.
       interruptedFrom (pending(dp_ActionID payload := None)) order events)
   | EventActionCommitted \<Rightarrow> bind_res (DecodePayloadStrict as_result event) (\<lambda>payload.
       interruptedFrom (pending(rp_ActionID payload := None)) order events)
   | EventActionFailed \<Rightarrow> bind_res (DecodePayloadStrict as_result event) (\<lambda>payload.
       interruptedFrom (pending(rp_ActionID payload := None)) order events)
   | EventActionUnknown \<Rightarrow> bind_res (DecodePayloadStrict as_result event) (\<lambda>payload.
       interruptedFrom (pending(rp_ActionID payload := None)) order events)
   | _ \<Rightarrow> interruptedFrom pending order events)"

definition interruptedActions :: "RunEvent list \<Rightarrow> KernelError + (string \<Rightarrow> string option) \<times> string list" where
  "interruptedActions events = interruptedFrom (\<lambda>_. None) [] events"

text \<open>The event that closes one interrupted action.\<close>

definition recoveryEvent :: "string \<Rightarrow> string \<Rightarrow> RunEventType \<times> RunPayload" where
  "recoveryEvent actionID capabilityID =
     (if capabilityID = ''''
      then (EventActionDenied, ActionDecision \<lparr>dp_ActionID = actionID, dp_Decision = DecisionDeny, dp_CapabilityID = '''',
        dp_Reason = ''daemon restarted before authorization completed'',
        dp_ErrorCode = ErrorCode_text ErrorDriverUnavailable\<rparr>)
      else (EventActionUnknown, ActionResult \<lparr>rp_ActionID = actionID, rp_CapabilityID = capabilityID,
        rp_Status = ''unknown'', rp_ResultDigest = '''', rp_OutputBytes = 0,
        rp_ErrorCode = ErrorCode_text ErrorActionUnknown,
        rp_Reason = ''daemon restarted after authorization; effect requires reconciliation''\<rparr>))"

fun recoverActions :: "('j, 'w) BrokerEnv \<Rightarrow> nat \<Rightarrow> 'j DB \<Rightarrow> string \<Rightarrow> Projection \<Rightarrow> (string \<Rightarrow> string option) \<Rightarrow>
    string list \<Rightarrow> nat \<Rightarrow> 'j DB \<times> nat \<times> ExecutionError option" where
  "recoverActions E k db namespace projection pending [] recovered = (db, recovered, None)"
| "recoverActions E k db namespace projection pending (actionID # order) recovered =
     (case pending actionID of
        None \<Rightarrow> recoverActions E k db namespace projection pending order recovered
      | Some capabilityID \<Rightarrow> (let (eventType, payload) = recoveryEvent actionID capabilityID in
          case broker_append E k db namespace projection eventType capabilityServicePrincipal payload '''' of
            (db, Inl (err, _)) \<Rightarrow> (db, recovered, Some err)
          | (db, Inr nxt) \<Rightarrow> recoverActions E (Suc k) db namespace nxt pending order (Suc recovered)))"

text \<open>The loop over the stored runs; every run draws its clock readings and drivers from its own sequence.\<close>

fun recoverRuns :: "(nat \<Rightarrow> ('j, 'w) BrokerEnv) \<Rightarrow> nat \<Rightarrow> 'j DB \<Rightarrow> nat \<Rightarrow> Projection list \<Rightarrow>
    'j DB \<times> nat \<times> ExecutionError option" where
  "recoverRuns Es i db recovered [] = (db, recovered, None)"
| "recoverRuns Es i db recovered (projection # projections) =
     (if RunState_Terminal (ar_State (pj_Run projection)) then recoverRuns Es (Suc i) db recovered projections
      else (case Events (be_Codec (Es i)) (be_Driver (Es i) 0) db (ar_Namespace (pj_Run projection))
            (ar_ID (pj_Run projection)) 0 of
          Inl err \<Rightarrow> (db, recovered, Some (KernelFailure err))
        | Inr events \<Rightarrow> (case interruptedActions events of
            Inl err \<Rightarrow> (db, recovered, Some (KernelFailure err))
          | Inr (pending, order) \<Rightarrow>
              (case recoverActions (Es i) 1 db (ar_Namespace (pj_Run projection)) projection pending order recovered of
                 (db, recovered, Some err) \<Rightarrow> (db, recovered, Some err)
               | (db, recovered, None) \<Rightarrow> recoverRuns Es (Suc i) db recovered projections))))"

definition Broker_Recover :: "(nat \<Rightarrow> ('j, 'w) BrokerEnv) \<Rightarrow> 'j DB \<Rightarrow> 'j DB \<times> nat \<times> ExecutionError option" where
  "Broker_Recover Es db = (case ListAllRuns (be_Codec (Es 0)) (be_Driver (Es 0) 0) db of
     Inl err \<Rightarrow> (db, 0, Some (KernelFailure err))
   | Inr projections \<Rightarrow> recoverRuns Es 1 db 0 projections)"

end
