(* ===== verification/Broker_Safety.thy ===== *)
theory Broker_Safety
  imports Broker
begin

text \<open>
  What the broker guarantees: every step it takes is an event appended to the run's stored history, the
  effect comes after the recorded authorization and under a grant the history installs, and the uses of
  a grant stay within its limit.
\<close>

section \<open>Reading under any driver\<close>

lemma loadProjection_any: "loadProjection C D db ns i = Inr p \<Longrightarrow> loadProjection C no_faults db ns i = Inr p"
  by (simp add: loadProjection_def read_step_def)

lemma GetRun_any: "GetRun C D db ns i = Inr p \<Longrightarrow> GetRun C no_faults db ns i = Inr p"
  by (auto simp: GetRun_def intro: loadProjection_any)

lemma Events_any: "Events C D db ns i n = Inr es \<Longrightarrow> Events C no_faults db ns i n = Inr es"
proof -
  assume e: "Events C D db ns i n = Inr es"
  let ?f = "\<lambda>data. bind_res (or_error ErrorEventChain ''list_events'' i (rc_DecEvent C data)) (\<lambda>event.
    ok_then (fail_if (RunEvent_Validate event \<noteq> None) (storeError ErrorEventChain ''list_events'' (ev_ID event))) (Inr event))"
  let ?rows = "select_events (db_events db) ns i n"
  from e obtain p where g: "GetRun C (sub_driver D 0) db ns i = Inr p"
    and s: "scan_rows D ''list_events'' i ?f 0 ?rows = Inr es"
    and v: "validateNamespace ns = None" "\<not> blank i" "\<not> n < 0"
    unfolding Events_def by (auto simp only: ok_then_Inr bind_res_Inr first_error_Cons_None fail_if_None)
  have "scan_rows no_faults ''list_events'' i ?f 0 ?rows = Inr es"
    by (rule scan_rows_Inr [OF _ _ scan_rows_InrD [OF s]]) simp_all
  then show ?thesis unfolding Events_def using GetRun_any [OF g] v by (simp add: read_step_def)
qed

lemma GetRun_history:
  assumes ok: "run_store_ok C db" and g: "GetRun C D db ns i = Inr p"
  obtains es where "run_histories C db (ns, i) = Some es" and "Replay es = Inr p" and "ar_ID (pj_Run p) = i"
proof -
  from g have l: "loadProjection C D db ns i = Inr p" by (simp add: GetRun_def)
  from loadProjection_Inr [OF ok l] obtain h where "select_head (db_runs db) ns i = Some h" .
  then have "(ns, i) \<in> hkey ` set (db_runs db)" using select_head_Some by force
  then obtain es where es: "run_histories C db (ns, i) = Some es" by (auto simp: run_histories_def)
  with GetRun_complete [OF ok es] GetRun_any [OF g] have "Replay es = Inr p" by auto
  moreover have "ar_ID (pj_Run p) = i" using l by (auto simp: loadProjection_def)
  ultimately show ?thesis using that es by blast
qed

lemma Events_history:
  assumes "run_store_ok C db" and "run_histories C db (ns, i) = Some es" and "Events C D db ns i 0 = Inr fs"
  shows "fs = es"
  using Events_complete [OF assms(1,2), of 0] Events_any [OF assms(3)] by simp

section \<open>One recorded step\<close>

definition faithful_codec :: "'j RunCodec \<Rightarrow> bool" where
  "faithful_codec C \<longleftrightarrow> (\<forall>e p. run_roundtrip C e p)"

text \<open>The event recorded for a step: its type, its payload and the policy decision it refers to.\<close>

definition step_event :: "RunEventType \<Rightarrow> RunPayload \<Rightarrow> string \<Rightarrow> RunEvent \<Rightarrow> bool" where
  "step_event ty payload decision e \<longleftrightarrow> ev_Type e = ty \<and> ev_Payload e = payload \<and> ev_PolicyDecisionID e = decision"

lemma brokerEvent_Some:
  assumes "brokerEvent C p ty actor now payload decision = Some e"
  shows "step_event ty payload decision e \<and> ev_RunID e = ar_ID (pj_Run p)"
proof -
  from assms obtain f where f: "Next (rc_Encodable C) (rc_Digest C) (rc_Hash16 C) p ty actor now payload = Some f"
    and e: "decision = '''' \<and> e = f \<or> (\<exists>d. e = f\<lparr>ev_PolicyDecisionID := decision, ev_Digest := d\<rparr>)"
    by (auto simp: brokerEvent_def Let_def split: option.splits if_splits)
  from Next_Some(4,6,9,11) [OF f] e show ?thesis by (auto simp: step_event_def)
qed

lemma broker_append_Inl: "broker_append E k db ns p ty actor payload decision = (db', Inl x) \<Longrightarrow> db' = db"
  unfolding broker_append_def
  by (auto simp: AppendEvent_def Let_def split: option.splits sum.splits prod.splits)

lemma broker_append_Inr:
  assumes ok: "run_store_ok (be_Codec E) db" and c: "faithful_codec (be_Codec E)"
    and a: "broker_append E k db ns p ty actor payload decision = (db', Inr q)"
  obtains es e where "run_histories (be_Codec E) db (ns, ar_ID (pj_Run p)) = Some es"
    and "step_event ty payload decision e" and "Replay (es @ [e]) = Inr q"
    and "run_histories (be_Codec E) db' = (run_histories (be_Codec E) db)((ns, ar_ID (pj_Run p)) \<mapsto> es @ [e])"
    and "run_store_ok (be_Codec E) db'" and "ar_ID (pj_Run q) = ar_ID (pj_Run p)"
proof -
  from a obtain e where e: "brokerEvent (be_Codec E) p ty actor (be_Now E k) payload decision = Some e"
    and ap: "AppendEvent (be_Codec E) (be_Driver E k) db ns (ar_EventSequence (pj_Run p)) e = (db', Inr q)"
    by (auto simp: broker_append_def split: option.splits sum.splits prod.splits)
  note b = brokerEvent_Some [OF e]
  have rt: "run_roundtrip (be_Codec E) e q" using c by (simp add: faithful_codec_def)
  from AppendEvent_step(2) [OF ok ap rt] b obtain es where
    es: "run_histories (be_Codec E) db (ns, ar_ID (pj_Run p)) = Some es" "Replay (es @ [e]) = Inr q"
      "run_histories (be_Codec E) db' = (run_histories (be_Codec E) db)((ns, ar_ID (pj_Run p)) \<mapsto> es @ [e])" by auto
  have "ar_ID (pj_Run q) = ev_RunID e"
  proof -
    from ap obtain p' where l: "loadProjection (be_Codec E) (sub_driver (be_Driver E k) 0) db ns (ev_RunID e) = Inr p'"
      and "Apply (Some p') e = Inr q" by (rule AppendEvent_Inr)
    then have "ar_ID (pj_Run q) = ar_ID (pj_Run p')" using run_store.replay_from_stream [of p' "[e]" q] by simp
    then show ?thesis using l by (auto simp: loadProjection_def)
  qed
  with that es b AppendEvent_step(1) [OF ok ap rt] show ?thesis by metis
qed

section \<open>The extension of a history\<close>

definition extended :: "'j RunCodec \<Rightarrow> 'j DB \<Rightarrow> string \<times> string \<Rightarrow> RunEvent list \<Rightarrow> 'j DB \<Rightarrow> bool" where
  "extended C db key fs db' \<longleftrightarrow> run_store_ok C db' \<and> (\<exists>es. run_histories C db key = Some es \<and>
     run_histories C db' = (run_histories C db)(key \<mapsto> es @ fs))"

lemma extended_refl: "run_store_ok C db \<Longrightarrow> run_histories C db key = Some es \<Longrightarrow> extended C db key [] db"
  by (auto simp: extended_def)

lemma extended_trans: "extended C db key fs db1 \<Longrightarrow> extended C db1 key gs db2 \<Longrightarrow> extended C db key (fs @ gs) db2"
  by (auto simp: extended_def)

lemma extended_trans1: "extended C db key [f] db1 \<Longrightarrow> extended C db1 key gs db2 \<Longrightarrow> extended C db key (f # gs) db2"
  using extended_trans [of C db key "[f]"] by simp

lemma extended_ok: "extended C db key fs db' \<Longrightarrow> run_store_ok C db'"
  by (simp add: extended_def)

lemma extended_history:
  "extended C db key fs db' \<Longrightarrow> run_histories C db key = Some es \<Longrightarrow> run_histories C db' key = Some (es @ fs)"
  by (auto simp: extended_def)

lemma broker_append_extended:
  assumes "run_store_ok (be_Codec E) db" and "faithful_codec (be_Codec E)"
    and "broker_append E k db ns p ty actor payload decision = (db', Inr q)"
  obtains e where "extended (be_Codec E) db (ns, ar_ID (pj_Run p)) [e] db'" and "step_event ty payload decision e"
    and "ar_ID (pj_Run q) = ar_ID (pj_Run p)"
  using broker_append_Inr [OF assms] unfolding extended_def by metis

section \<open>What the history installs and authorizes\<close>

definition installed_grants :: "RunEvent list \<Rightarrow> CapabilityGrant list" where
  "installed_grants es = concat (map granted_by es)"

definition authorizes :: "string \<Rightarrow> RunEvent \<Rightarrow> bool" where
  "authorizes c e \<longleftrightarrow> ev_Type e = EventActionAuthorized \<and>
     (case ev_Payload e of ActionDecision d \<Rightarrow> dp_CapabilityID d = c | _ \<Rightarrow> False)"

definition authorizations :: "string \<Rightarrow> RunEvent list \<Rightarrow> nat" where
  "authorizations c es = length (filter (authorizes c) es)"

lemma authorizations_simps [simp]: "authorizations c [] = 0"
  "authorizations c (e # es) = (if authorizes c e then 1 else 0) + authorizations c es"
  "authorizations c (es @ fs) = authorizations c es + authorizations c fs"
  by (simp_all add: authorizations_def)

lemma installed_simps [simp]: "installed_grants [] = []" "installed_grants (e # es) = granted_by e @ installed_grants es"
  "installed_grants (es @ fs) = installed_grants es @ installed_grants fs"
  by (simp_all add: installed_grants_def)

lemma DecodePayload_views:
  "DecodePayloadStrict as_granted e = Inr p \<longleftrightarrow> ev_Payload e = CapabilitiesGranted p"
  "DecodePayloadStrict as_decision e = Inr d \<longleftrightarrow> ev_Payload e = ActionDecision d"
  "DecodePayloadStrict as_requested e = Inr r \<longleftrightarrow> ev_Payload e = ActionRequestedPayload r"
  "DecodePayloadStrict as_executing e = Inr x \<longleftrightarrow> ev_Payload e = ActionExecuting x"
  "DecodePayloadStrict as_result e = Inr v \<longleftrightarrow> ev_Payload e = ActionResult v"
  by (cases "ev_Payload e"; simp add: DecodePayloadStrict_def)+

lemma grantsFrom_Inr:
  "grantsFrom g u es = Inr (g', u') \<Longrightarrow> distinct (map cg_ID g) \<Longrightarrow> \<forall>c. 0 \<le> u c \<and> u c + int (length es) \<le> max64 \<Longrightarrow>
     g' = g @ installed_grants es \<and> distinct (map cg_ID g') \<and> (\<forall>c. u' c = u c + int (authorizations c es))"
proof (induction es arbitrary: g u)
  case (Cons e es)
  show ?case
  proof (cases "ev_Type e = EventCapabilitiesGranted")
    case True
    with Cons.prems(1) obtain p h where p: "ev_Payload e = CapabilitiesGranted p"
      and h: "addGrants g (gp_Grants p) = Inr h" and r: "grantsFrom h u es = Inr (g', u')"
      by (auto simp: DecodePayload_views)
    from addGrants_Inr [OF h Cons.prems(2)] have h': "h = g @ gp_Grants p" "distinct (map cg_ID h)" by blast+
    have "\<forall>c. 0 \<le> u c \<and> u c + int (length es) \<le> max64"
    proof
      fix c show "0 \<le> u c \<and> u c + int (length es) \<le> max64" using spec [OF Cons.prems(3), of c] by simp
    qed
    from Cons.IH [OF r h'(2) this] have "g' = h @ installed_grants es" "distinct (map cg_ID g')"
      "\<forall>c. u' c = u c + int (authorizations c es)" by blast+
    moreover have "granted_by e = gp_Grants p" "\<And>c. \<not> authorizes c e"
      using True p by (simp_all add: granted_by_def authorizes_def)
    ultimately show ?thesis using h'(1) by (simp del: map_append distinct_append)
  next
    case ng: False
    show ?thesis
    proof (cases "ev_Type e = EventActionAuthorized")
      case True
      with Cons.prems(1) obtain d where d: "ev_Payload e = ActionDecision d"
        and r: "grantsFrom g (u(dp_CapabilityID d := wrap64 (u (dp_CapabilityID d) + 1))) es = Inr (g', u')"
        by (auto simp: DecodePayload_views)
      let ?c = "dp_CapabilityID d"
      have "wrap64 (u ?c + 1) = u ?c + 1"
        using spec [OF Cons.prems(3), of ?c] by (simp add: wrap64_id in64_def min64_def max64_def)
      then have u: "u(?c := wrap64 (u ?c + 1)) = u(?c := u ?c + 1)" by simp
      have "\<forall>c. 0 \<le> (u(?c := u ?c + 1)) c \<and> (u(?c := u ?c + 1)) c + int (length es) \<le> max64"
      proof
        fix c show "0 \<le> (u(?c := u ?c + 1)) c \<and> (u(?c := u ?c + 1)) c + int (length es) \<le> max64"
          using spec [OF Cons.prems(3), of c] by (cases "c = ?c") auto
      qed
      from Cons.IH [OF r [unfolded u] Cons.prems(2) this] have "g' = g @ installed_grants es" "distinct (map cg_ID g')"
        "\<forall>c. u' c = (u(?c := u ?c + 1)) c + int (authorizations c es)" by blast+
      moreover have "granted_by e = []" "\<And>c. authorizes c e \<longleftrightarrow> c = ?c"
        using True d by (auto simp: granted_by_def authorizes_def)
      ultimately show ?thesis by (simp del: map_append distinct_append)
    next
      case False
      with ng Cons.prems(1) have r: "grantsFrom g u es = Inr (g', u')" by (auto split: RunEventType.splits)
      have "\<forall>c. 0 \<le> u c \<and> u c + int (length es) \<le> max64"
      proof
        fix c show "0 \<le> u c \<and> u c + int (length es) \<le> max64" using spec [OF Cons.prems(3), of c] by simp
      qed
      from Cons.IH [OF r Cons.prems(2) this] have "g' = g @ installed_grants es" "distinct (map cg_ID g')"
        "\<forall>c. u' c = u c + int (authorizations c es)" by blast+
      moreover have "granted_by e = []" "\<And>c. \<not> authorizes c e"
        using ng False by (auto simp: granted_by_def authorizes_def split: RunEventType.splits)
      ultimately show ?thesis by (simp del: map_append distinct_append)
    qed
  qed
qed simp

lemma GrantsFromEvents_Inr:
  assumes "GrantsFromEvents es = Inr (grants, uses)" and "Replay es = Inr p"
  shows "grants = installed_grants es" "distinct (map cg_ID grants)" "uses c = int (authorizations c es)"
proof -
  have "int (length es) \<le> max64"
    using run_ledger.replay_sequence [OF replayed_stream [OF assms(2)]] by (auto simp: in64_def)
  with assms(1) grantsFrom_Inr [of "[]" "\<lambda>_. 0" es grants uses]
  show "grants = installed_grants es" "distinct (map cg_ID grants)" "uses c = int (authorizations c es)"
    by (auto simp: GrantsFromEvents_def)
qed

section \<open>Authorization\<close>

text \<open>A grant under which a request may be performed now, with so many uses before.\<close>

definition may_use :: "ActionRequest \<Rightarrow> time \<Rightarrow> nat \<Rightarrow> CapabilityGrant \<Rightarrow> bool" where
  "may_use request now uses grant \<longleftrightarrow> grantCovers request grant \<and> (\<forall>t. cg_RevokedAt grant = Some t \<longrightarrow> now < t) \<and>
     now < cg_ExpiresAt grant \<and> (\<forall>m. cg_MaxUses grant = Some m \<longrightarrow> int uses < m) \<and>
     \<not> cc_ApprovalRequired (cg_Conditions grant)"

lemma authorizeAmong_Inr:
  "authorizeAmong request uses now grants = Inr g \<Longrightarrow> uses (cg_ID g) = int n \<Longrightarrow> g \<in> set grants \<and> may_use request now n g"
  by (induction request uses now grants rule: authorizeAmong.induct)
    (auto simp: may_use_def on_some_def split: if_splits option.splits)

lemma authorize_Inr:
  assumes "authorize request grants uses now = Inr g" and "uses (cg_ID g) = int n"
  shows "g \<in> set grants \<and> may_use request now n g"
proof -
  from assms(1) consider (hint) g0 where "find (\<lambda>grant. cg_ID grant = aq_CapabilityHint request) grants = Some g0"
      "authorizeAmong request uses now [g0] = Inr g"
    | (scan) "authorizeAmong request uses now (sort_key cg_ID grants) = Inr g"
    unfolding authorize_def by (auto split: if_splits option.splits)
  then show ?thesis
  proof cases
    case hint
    from hint(1) have "g0 \<in> set grants" by (auto simp: find_Some_iff)
    with authorizeAmong_Inr [OF hint(2) assms(2)] show ?thesis by auto
  next
    case scan
    with authorizeAmong_Inr [OF scan assms(2)] show ?thesis by simp
  qed
qed

lemma ensureUniqueAttempt_None:
  "ensureUniqueAttempt request es = None \<Longrightarrow> e \<in> set es \<Longrightarrow> ev_Type e = EventActionRequested \<Longrightarrow>
     \<exists>other. ev_Payload e = ActionRequestedPayload other \<and> aq_ID other \<noteq> aq_ID request \<and>
       aq_IdempotencyKey other \<noteq> aq_IdempotencyKey request"
  by (induction request es rule: ensureUniqueAttempt.induct)
    (auto simp: DecodePayload_views split: if_splits sum.splits)

lemma prepareAction_Inr:
  assumes ok: "run_store_ok (be_Codec E) db" and p: "prepareAction E db ns input = Inr (p, grants, uses)"
  obtains es where "run_histories (be_Codec E) db (ns, aq_RunID (xr_Action input)) = Some es" and "Replay es = Inr p"
    and "ar_ID (pj_Run p) = aq_RunID (xr_Action input)" and "ar_State (pj_Run p) = RunRunning"
    and "ar_EventSequence (pj_Run p) = xr_ExpectedSequence input"
    and "ensureUniqueAttempt (xr_Action input) es = None" and "GrantsFromEvents es = Inr (grants, uses)"
proof -
  from p obtain fs where g: "GetRun (be_Codec E) (be_Driver E 0) db ns (aq_RunID (xr_Action input)) = Inr p"
    and f: "Events (be_Codec E) (be_Driver E 1) db ns (aq_RunID (xr_Action input)) 0 = Inr fs"
    and r: "ar_EventSequence (pj_Run p) = xr_ExpectedSequence input" "ar_State (pj_Run p) = RunRunning"
      "ensureUniqueAttempt (xr_Action input) fs = None" "GrantsFromEvents fs = Inr (grants, uses)"
    by (auto simp: prepareAction_def Let_def split: option.splits sum.splits if_splits prod.splits)
  from GetRun_history [OF ok g] obtain es where es: "run_histories (be_Codec E) db (ns, aq_RunID (xr_Action input)) = Some es"
    "Replay es = Inr p" "ar_ID (pj_Run p) = aq_RunID (xr_Action input)" .
  from Events_history [OF ok es(1) f] r es that show ?thesis by blast
qed


section \<open>The steps of an execution\<close>

lemma recordFailure_cases:
  assumes "run_store_ok (be_Codec E) db" and "faithful_codec (be_Codec E)"
    and "recordFailure E k db ns p grant request cause u = (db', out, err)"
  obtains "db' = db" and "oc_Status out = ''unknown''" and "err \<noteq> None"
  | e v where "extended (be_Codec E) db (ns, ar_ID (pj_Run p)) [e] db'"
    and "step_event (if u then EventActionUnknown else EventActionFailed) (ActionResult v) (cg_PolicyDecisionID grant) e"
    and "rp_ActionID v = aq_ID request" and "rp_CapabilityID v = cg_ID grant"
    and "oc_Status out = (if u then ''unknown'' else ''failed'')" and "err = None"
proof -
  let ?payload = "\<lparr>rp_ActionID = aq_ID request, rp_CapabilityID = cg_ID grant, rp_Status = if u then ''unknown'' else ''failed'',
    rp_ResultDigest = '''', rp_OutputBytes = 0,
    rp_ErrorCode = ErrorCode_text (if u then ErrorActionUnknown else ErrorDriverUnavailable), rp_Reason = be_ErrorText E cause\<rparr>"
  let ?ap = "broker_append E k db ns p (if u then EventActionUnknown else EventActionFailed) capabilityServicePrincipal
    (ActionResult ?payload) (cg_PolicyDecisionID grant)"
  show thesis
  proof (cases "snd ?ap")
    case (Inl x)
    then have ap: "?ap = (fst ?ap, Inl x)" by (metis prod.collapse)
    from broker_append_Inl [OF ap] have "fst ?ap = db" .
    with assms(3) ap that(1) show thesis by (auto simp: recordFailure_def Let_def outcome_def split: prod.splits sum.splits)
  next
    case (Inr q)
    then have ap: "?ap = (fst ?ap, Inr q)" by (metis prod.collapse)
    then have "db' = fst ?ap" "oc_Status out = (if u then ''unknown'' else ''failed'')" "err = None"
      using assms(3) by (auto simp: recordFailure_def Let_def outcome_def split: prod.splits sum.splits)
    with broker_append_extended [OF assms(1,2) ap] that(2) show thesis by (metis ActionResultPayload.select_convs(1,2))
  qed
qed

lemma refuse_cases:
  assumes "run_store_ok (be_Codec E) db" and "faithful_codec (be_Codec E)"
    and "refuse E db ns p request refusal = (db', out, err)"
  obtains "db' = db" and "oc_Status out = ''unknown''" and "err \<noteq> None"
  | e d where "extended (be_Codec E) db (ns, ar_ID (pj_Run p)) [e] db'"
    and "step_event (if ke_Code (fst refusal) = ErrorApprovalRequired then EventActionApprovalRequired else EventActionDenied)
      (ActionDecision d) '''' e"
    and "dp_ActionID d = aq_ID request" and "dp_CapabilityID d = ke_Resource (fst refusal)"
    and "oc_Status out = (if ke_Code (fst refusal) = ErrorApprovalRequired then ''approval_required'' else ''denied'')"
    and "err = Some (KernelFailure (fst refusal))"
proof -
  let ?a = "ke_Code (fst refusal) = ErrorApprovalRequired"
  let ?payload = "\<lparr>dp_ActionID = aq_ID request, dp_Decision = if ?a then DecisionRequireApproval else DecisionDeny,
    dp_CapabilityID = ke_Resource (fst refusal), dp_Reason = KernelError_Error (fst refusal) (snd refusal),
    dp_ErrorCode = ErrorCode_text (ke_Code (fst refusal))\<rparr>"
  let ?ap = "broker_append E 4 db ns p (if ?a then EventActionApprovalRequired else EventActionDenied)
    capabilityServicePrincipal (ActionDecision ?payload) ''''"
  show thesis
  proof (cases "snd ?ap")
    case (Inl x)
    then have ap: "?ap = (fst ?ap, Inl x)" by (metis prod.collapse)
    from broker_append_Inl [OF ap] have "fst ?ap = db" .
    with assms(3) ap that(1) show thesis by (auto simp: refuse_def Let_def outcome_def split: prod.splits sum.splits)
  next
    case (Inr q)
    then have ap: "?ap = (fst ?ap, Inr q)" by (metis prod.collapse)
    then have "db' = fst ?ap" "oc_Status out = (if ?a then ''approval_required'' else ''denied'')"
      "err = Some (KernelFailure (fst refusal))"
      using assms(3) by (auto simp: refuse_def Let_def outcome_def split: prod.splits sum.splits)
    with broker_append_extended [OF assms(1,2) ap] that(2) show thesis by (metis ActionDecisionPayload.select_convs(1,3))
  qed
qed

definition effect_of :: "('j, 'w) BrokerEnv \<Rightarrow> AgentRun \<Rightarrow> CapabilityGrant \<Rightarrow> ActionRequest \<Rightarrow> string \<Rightarrow> 'w \<Rightarrow>
    'w \<times> (ExecutionError + FilesystemResult)" where
  "effect_of E run grant request inputBase64 w = (case decodeInput inputBase64 of
     Inl err \<Rightarrow> (w, Inl (KernelFailure err))
   | Inr input \<Rightarrow> Filesystem_Execute (be_Arguments E) (be_OS E) run grant request input w)"

definition effect_event :: "ExecutionError + FilesystemResult \<Rightarrow> RunEventType" where
  "effect_event eff = (case eff of Inr _ \<Rightarrow> EventActionCommitted
     | Inl err \<Rightarrow> if err = UnknownEffect then EventActionUnknown else EventActionFailed)"

definition effect_status :: "ExecutionError + FilesystemResult \<Rightarrow> string" where
  "effect_status eff = (case eff of Inr _ \<Rightarrow> ''committed'' | Inl err \<Rightarrow> if err = UnknownEffect then ''unknown'' else ''failed'')"

text \<open>The events of an authorized action: the decision, the start of its execution and its result.\<close>

definition decides :: "CapabilityGrant \<Rightarrow> ActionRequest \<Rightarrow> RunEvent \<Rightarrow> bool" where
  "decides g r e \<longleftrightarrow> (\<exists>d. step_event EventActionAuthorized (ActionDecision d) (cg_PolicyDecisionID g) e \<and>
     dp_ActionID d = aq_ID r \<and> dp_CapabilityID d = cg_ID g \<and> dp_Decision d = DecisionAllow)"

definition starts :: "CapabilityGrant \<Rightarrow> ActionRequest \<Rightarrow> RunEvent \<Rightarrow> bool" where
  "starts g r e \<longleftrightarrow> step_event EventActionExecuting
     (ActionExecuting \<lparr>xp_ActionID = aq_ID r, xp_CapabilityID = cg_ID g\<rparr>) (cg_PolicyDecisionID g) e"

definition closes :: "CapabilityGrant \<Rightarrow> ActionRequest \<Rightarrow> ExecutionError + FilesystemResult \<Rightarrow> RunEvent \<Rightarrow> bool" where
  "closes g r eff e \<longleftrightarrow> (\<exists>v. step_event (effect_event eff) (ActionResult v) (cg_PolicyDecisionID g) e \<and>
     rp_ActionID v = aq_ID r \<and> rp_CapabilityID v = cg_ID g \<and> (\<forall>result. eff = Inr result \<longrightarrow> rp_ResultDigest v = fx_Digest result))"

definition closing :: "CapabilityGrant \<Rightarrow> ActionRequest \<Rightarrow> ExecutionError + FilesystemResult \<Rightarrow> RunEvent list \<Rightarrow> string \<Rightarrow> bool" where
  "closing g r eff fs status \<longleftrightarrow> fs = [] \<and> status = ''unknown'' \<or> (\<exists>e. fs = [e] \<and> closes g r eff e \<and> status = effect_status eff)"

lemma perform_effect:
  "perform E db w ns p g r b = (case effect_of E (pj_Run p) g r b w of
     (w, Inl err) \<Rightarrow> (case recordFailure E 6 db ns p g r err (err = UnknownEffect) of (db, o') \<Rightarrow> (db, w, o'))
   | (w, Inr result) \<Rightarrow>
       (case broker_append E 6 db ns p EventActionCommitted capabilityServicePrincipal
            (ActionResult \<lparr>rp_ActionID = aq_ID r, rp_CapabilityID = cg_ID g, rp_Status = ''committed'',
               rp_ResultDigest = fx_Digest result, rp_OutputBytes = fx_Bytes result, rp_ErrorCode = '''',
               rp_Reason = ''''\<rparr>) (cg_PolicyDecisionID g) of
          (db, Inl (_, p)) \<Rightarrow> (db, w, (outcome (aq_ID r) ''unknown'' (cg_ID g) p)
              \<lparr>oc_ResultDigest := fx_Digest result, oc_OutputBytes := fx_Bytes result\<rparr>,
              Some (KernelFailure (newError ErrorActionUnknown ''commit_action_receipt'' (aq_ID r) '''')))
        | (db, Inr nxt) \<Rightarrow> (db, w, (outcome (aq_ID r) ''committed'' (cg_ID g) (Some nxt))
              \<lparr>oc_ResultDigest := fx_Digest result, oc_OutputBytes := fx_Bytes result,
               oc_OutputBase64 := base64_encode (fx_Output result)\<rparr>, None)))"
  by (simp add: perform_def effect_of_def split: sum.split)

lemma perform_cases:
  assumes ok: "run_store_ok (be_Codec E) db" and c: "faithful_codec (be_Codec E)"
    and h: "run_histories (be_Codec E) db (ns, ar_ID (pj_Run p)) = Some es"
    and p: "perform E db w ns p g r b = (db', w', out, err)" and eff: "effect_of E (pj_Run p) g r b w = (w1, eff)"
  shows "w' = w1 \<and> (\<exists>fs. extended (be_Codec E) db (ns, ar_ID (pj_Run p)) fs db' \<and> closing g r eff fs (oc_Status out))"
proof (cases eff)
  case (Inl x)
  obtain db2 out2 err2 where f: "recordFailure E 6 db ns p g r x (x = UnknownEffect) = (db2, out2, err2)"
    by (metis prod_cases3)
  with p eff Inl have e: "db' = db2" "w' = w1" "out = out2" by (auto simp: perform_effect)
  from ok c f show ?thesis
  proof (cases rule: recordFailure_cases)
    case 1
    with extended_refl [OF ok h] e show ?thesis by (auto simp: closing_def)
  next
    case (2 e v)
    then have "closes g r eff e" by (auto simp: closes_def effect_event_def Inl)
    with 2 e Inl show ?thesis by (auto simp: closing_def effect_status_def)
  qed
next
  case (Inr result)
  let ?payload = "\<lparr>rp_ActionID = aq_ID r, rp_CapabilityID = cg_ID g, rp_Status = ''committed'',
    rp_ResultDigest = fx_Digest result, rp_OutputBytes = fx_Bytes result, rp_ErrorCode = '''', rp_Reason = ''''\<rparr>"
  let ?ap = "broker_append E 6 db ns p EventActionCommitted capabilityServicePrincipal (ActionResult ?payload) (cg_PolicyDecisionID g)"
  show ?thesis
  proof (cases "snd ?ap")
    case (Inl x)
    then have ap: "?ap = (fst ?ap, Inl x)" by (metis prod.collapse)
    from broker_append_Inl [OF ap] have "fst ?ap = db" .
    with p eff Inr ap extended_refl [OF ok h] show ?thesis
      by (auto simp: perform_effect outcome_def closing_def split: prod.splits)
  next
    case (Inr q)
    then have ap: "?ap = (fst ?ap, Inr q)" by (metis prod.collapse)
    from broker_append_extended [OF ok c ap] obtain e where x: "extended (be_Codec E) db (ns, ar_ID (pj_Run p)) [e] (fst ?ap)"
      and s: "step_event EventActionCommitted (ActionResult ?payload) (cg_PolicyDecisionID g) e" .
    have "closes g r eff e" unfolding closes_def
      by (rule exI [of _ ?payload]) (use s \<open>eff = Inr result\<close> in \<open>simp add: effect_event_def\<close>)
    moreover have "db' = fst ?ap" "w' = w1" "oc_Status out = ''committed''"
      using p eff \<open>eff = Inr result\<close> ap by (auto simp: perform_effect outcome_def split: prod.splits sum.splits)
    ultimately show ?thesis using x \<open>eff = Inr result\<close> by (auto simp: closing_def effect_status_def)
  qed
qed

section \<open>The trace of an execution\<close>

fun authorized_trace :: "CapabilityGrant \<Rightarrow> ActionRequest \<Rightarrow> 'w \<Rightarrow> 'w \<times> (ExecutionError + FilesystemResult) \<Rightarrow>
    RunEvent list \<Rightarrow> string \<Rightarrow> 'w \<Rightarrow> bool" where
  "authorized_trace g r w eff [] status w' \<longleftrightarrow> status = ''unknown'' \<and> w' = w"
| "authorized_trace g r w eff [e] status w' \<longleftrightarrow> decides g r e \<and> status = ''unknown'' \<and> w' = w"
| "authorized_trace g r w eff (e # f # fs) status w' \<longleftrightarrow>
     decides g r e \<and> starts g r f \<and> closing g r (snd eff) fs status \<and> w' = fst eff"

definition refuses :: "ActionRequest \<Rightarrow> RunEvent \<Rightarrow> string \<Rightarrow> bool" where
  "refuses r e status \<longleftrightarrow> (\<exists>d. dp_ActionID d = aq_ID r \<and>
     (step_event EventActionDenied (ActionDecision d) '''' e \<and> status = ''denied'' \<or>
      step_event EventActionApprovalRequired (ActionDecision d) '''' e \<and> status = ''approval_required''))"

text \<open>
  The contract of the broker, as a relation: the run's history before, the time of the decision, the
  request, what performing it under a grant would do, the state of the operating system, and then the
  events appended, the status reported and the state after. A request is rejected without a trace, or
  recorded and refused without an effect, or recorded and authorized by an installed grant that may
  still be used; the effect takes place only after the authorization and the start of the execution have
  been recorded, and its result is recorded if it can be.
\<close>

inductive action_trace :: "RunEvent list \<Rightarrow> time \<Rightarrow> ActionRequest \<Rightarrow> (CapabilityGrant \<Rightarrow> 'w \<times> (ExecutionError + FilesystemResult)) \<Rightarrow>
    'w \<Rightarrow> RunEvent list \<Rightarrow> string \<Rightarrow> 'w \<Rightarrow> bool" for es now r eff w where
  rejected: "action_trace es now r eff w [] '''' w"
| unrefused: "step_event EventActionRequested (ActionRequestedPayload r) '''' e \<Longrightarrow> action_trace es now r eff w [e] ''unknown'' w"
| refused: "step_event EventActionRequested (ActionRequestedPayload r) '''' e \<Longrightarrow> refuses r f status \<Longrightarrow>
    action_trace es now r eff w [e, f] status w"
| authorized: "step_event EventActionRequested (ActionRequestedPayload r) '''' e \<Longrightarrow> g \<in> set (installed_grants es) \<Longrightarrow>
    may_use r now (authorizations (cg_ID g) es) g \<Longrightarrow> authorized_trace g r w (eff g) fs status w' \<Longrightarrow>
    action_trace es now r eff w (e # fs) status w'"

text \<open>The driver looks at a run's identity and workspace only, which no event changes.\<close>

lemma Filesystem_Execute_cong:
  assumes "ar_ID p = ar_ID q" and "ar_Workspace p = ar_Workspace q"
  shows "Filesystem_Execute A os p g r input w = Filesystem_Execute A os q g r input w"
  unfolding Filesystem_Execute_def checkAction_def assms by (rule refl)

lemma effect_of_pinned: "pinned p = pinned q \<Longrightarrow> effect_of E p g r b w = effect_of E q g r b w"
proof -
  assume e: "pinned p = pinned q"
  have s: "ar_ID (pinned run) = ar_ID run" "ar_Workspace (pinned run) = ar_Workspace run" for run
    by (simp_all add: pinned_def)
  have i: "ar_ID p = ar_ID q" using s(1) [of p] s(1) [of q] e by simp
  have w: "ar_Workspace p = ar_Workspace q" using s(2) [of p] s(2) [of q] e by simp
  show ?thesis unfolding effect_of_def Filesystem_Execute_cong [OF i w] by (rule refl)
qed

lemma broker_append_next:
  assumes ok: "run_store_ok (be_Codec E) db" and c: "faithful_codec (be_Codec E)"
    and h: "run_histories (be_Codec E) db (ns, ar_ID (pj_Run p)) = Some es" and p: "Replay es = Inr p"
    and a: "broker_append E k db ns p ty actor payload decision = (db', Inr q)"
  obtains e where "extended (be_Codec E) db (ns, ar_ID (pj_Run p)) [e] db'" and "step_event ty payload decision e"
    and "ar_ID (pj_Run q) = ar_ID (pj_Run p)" and "pinned (pj_Run q) = pinned (pj_Run p)"
    and "run_histories (be_Codec E) db' (ns, ar_ID (pj_Run q)) = Some (es @ [e])" and "Replay (es @ [e]) = Inr q"
proof -
  from broker_append_Inr [OF ok c a] obtain e where e: "step_event ty payload decision e" "Replay (es @ [e]) = Inr q"
    "run_histories (be_Codec E) db' = (run_histories (be_Codec E) db)((ns, ar_ID (pj_Run p)) \<mapsto> es @ [e])"
    "run_store_ok (be_Codec E) db'" "ar_ID (pj_Run q) = ar_ID (pj_Run p)"
    using h by (metis option.inject)
  have "Apply (Some p) e = Inr q"
    using run_ledger.replay_extended [of es p "[e]" q] p e(2) by (simp add: Replay_ledger)
  from Apply_pinned [OF this] e h that show thesis by (auto simp: extended_def)
qed

lemma executeAuthorized_cases:
  assumes ok: "run_store_ok (be_Codec E) db" and c: "faithful_codec (be_Codec E)"
    and h: "run_histories (be_Codec E) db (ns, ar_ID (pj_Run p)) = Some es" and p: "Replay es = Inr p"
    and x: "executeAuthorized E db w ns p g r b = (db', w', out, err)"
  shows "\<exists>fs. extended (be_Codec E) db (ns, ar_ID (pj_Run p)) fs db' \<and>
     authorized_trace g r w (effect_of E (pj_Run p) g r b w) fs (oc_Status out) w'"
proof -
  let ?d = "\<lparr>dp_ActionID = aq_ID r, dp_Decision = DecisionAllow, dp_CapabilityID = cg_ID g,
            dp_Reason = ''request matched an active capability grant'', dp_ErrorCode = ''''\<rparr>"
  let ?ap = "broker_append E 4 db ns p EventActionAuthorized capabilityServicePrincipal (ActionDecision ?d) (cg_PolicyDecisionID g)"
  let ?xp = "\<lambda>db p. broker_append E 5 db ns p EventActionExecuting capabilityServicePrincipal
    (ActionExecuting \<lparr>xp_ActionID = aq_ID r, xp_CapabilityID = cg_ID g\<rparr>) (cg_PolicyDecisionID g)"
  show ?thesis
  proof (cases "snd ?ap")
    case (Inl y)
    then have ap: "?ap = (fst ?ap, Inl y)" by (metis prod.collapse)
    from broker_append_Inl [OF ap] have "fst ?ap = db" .
    with x ap have "db' = db" "w' = w" "oc_Status out = ''unknown''"
      by (auto simp: executeAuthorized_def outcome_def split: prod.splits)
    then have "extended (be_Codec E) db (ns, ar_ID (pj_Run p)) [] db' \<and>
        authorized_trace g r w (effect_of E (pj_Run p) g r b w) [] (oc_Status out) w'" using extended_refl [OF ok h] by simp
    then show ?thesis ..
  next
    case (Inr q)
    note aq = Inr
    then have ap: "?ap = (fst ?ap, Inr q)" by (metis prod.collapse)
    let ?db1 = "fst ?ap"
    from broker_append_next [OF ok c h p ap] obtain e where e:
      "extended (be_Codec E) db (ns, ar_ID (pj_Run p)) [e] ?db1"
      "step_event EventActionAuthorized (ActionDecision ?d) (cg_PolicyDecisionID g) e"
      "ar_ID (pj_Run q) = ar_ID (pj_Run p)" "pinned (pj_Run q) = pinned (pj_Run p)"
      "run_histories (be_Codec E) ?db1 (ns, ar_ID (pj_Run q)) = Some (es @ [e])" "Replay (es @ [e]) = Inr q" .
    have d: "decides g r e" unfolding decides_def by (rule exI [of _ ?d]) (use e(2) in simp)
    note ok1 = extended_ok [OF e(1)]
    show ?thesis
    proof (cases "snd (?xp ?db1 q)")
      case (Inl y)
      then have xp: "?xp ?db1 q = (fst (?xp ?db1 q), Inl y)" by (metis prod.collapse)
      from broker_append_Inl [OF xp] have "fst (?xp ?db1 q) = ?db1" .
      with x ap xp have "db' = ?db1" "w' = w" "oc_Status out = ''unknown''"
        by (auto simp: executeAuthorized_def outcome_def split: prod.splits)
      with d e(1) have "extended (be_Codec E) db (ns, ar_ID (pj_Run p)) [e] db' \<and>
        authorized_trace g r w (effect_of E (pj_Run p) g r b w) [e] (oc_Status out) w'" by simp
      then show ?thesis ..
    next
      case (Inr q2)
      then have xp: "?xp ?db1 q = (fst (?xp ?db1 q), Inr q2)" by (metis prod.collapse)
      let ?db2 = "fst (?xp ?db1 q)"
      from broker_append_next [OF ok1 c e(5,6) xp] obtain f where f:
        "extended (be_Codec E) ?db1 (ns, ar_ID (pj_Run q)) [f] ?db2"
        "step_event EventActionExecuting (ActionExecuting \<lparr>xp_ActionID = aq_ID r, xp_CapabilityID = cg_ID g\<rparr>)
           (cg_PolicyDecisionID g) f"
        "ar_ID (pj_Run q2) = ar_ID (pj_Run q)" "pinned (pj_Run q2) = pinned (pj_Run q)"
        "run_histories (be_Codec E) ?db2 (ns, ar_ID (pj_Run q2)) = Some ((es @ [e]) @ [f])" .
      from x ap xp have pf: "perform E ?db2 w ns q2 g r b = (db', w', out, err)"
        by (simp add: executeAuthorized_def split_beta Inr aq)
      have eff: "effect_of E (pj_Run q2) g r b w = effect_of E (pj_Run p) g r b w"
        by (rule effect_of_pinned) (use e(4) f(4) in simp)
      from perform_cases [OF extended_ok [OF f(1)] c f(5) pf, of "fst (effect_of E (pj_Run q2) g r b w)"
          "snd (effect_of E (pj_Run q2) g r b w)"]
      obtain gs where gs: "extended (be_Codec E) ?db2 (ns, ar_ID (pj_Run q2)) gs db'"
        "closing g r (snd (effect_of E (pj_Run p) g r b w)) gs (oc_Status out)" "w' = fst (effect_of E (pj_Run p) g r b w)"
        by (auto simp: eff)
      have "starts g r f" using f(2) by (simp add: starts_def)
      with d gs(2,3) have "authorized_trace g r w (effect_of E (pj_Run p) g r b w) (e # f # gs) (oc_Status out) w'" by simp
      moreover have "extended (be_Codec E) db (ns, ar_ID (pj_Run p)) (e # f # gs) db'"
        using extended_trans1 [OF e(1) extended_trans1 [OF f(1) [unfolded e(3)]]] gs(1) e(3) f(3) by simp
      ultimately show ?thesis by blast
    qed
  qed
qed

section \<open>The broker keeps its contract\<close>

definition traced :: "('j, 'w) BrokerEnv \<Rightarrow> 'j DB \<Rightarrow> string \<Rightarrow> ExecuteRequest \<Rightarrow> 'w \<Rightarrow> RunEvent list \<Rightarrow> Projection \<Rightarrow>
    'j DB \<Rightarrow> 'w \<Rightarrow> string \<Rightarrow> bool" where
  "traced E db ns input w es p db' w' status \<longleftrightarrow>
     (\<exists>fs. extended (be_Codec E) db (ns, aq_RunID (xr_Action input)) fs db' \<and>
        action_trace es (be_Now E 3) (xr_Action input)
          (\<lambda>g. effect_of E (pj_Run p) g (xr_Action input) (xr_InputBase64 input) w) w fs status w')"

lemma Broker_Execute_prepared:
  assumes ok: "run_store_ok (be_Codec E) db" and c: "faithful_codec (be_Codec E)"
    and x: "Broker_Execute E db w ns input = (db', w', out, err)"
    and pre: "prepareAction E db ns input = Inr (p, grants, uses)"
    and h: "run_histories (be_Codec E) db (ns, aq_RunID (xr_Action input)) = Some es" and p: "Replay es = Inr p"
    and id: "ar_ID (pj_Run p) = aq_RunID (xr_Action input)" and g: "GrantsFromEvents es = Inr (grants, uses)"
  shows "traced E db ns input w es p db' w' (oc_Status out)"
proof -
  let ?r = "xr_Action input" and ?key = "(ns, aq_RunID (xr_Action input))"
  let ?eff = "\<lambda>g. effect_of E (pj_Run p) g ?r (xr_InputBase64 input) w"
  note gu = GrantsFromEvents_Inr [OF g p]
  note h' = h [folded id]
  let ?ap = "broker_append E 2 db ns p EventActionRequested (ar_Principal (pj_Run p)) (ActionRequestedPayload ?r) ''''"
  let ?db1 = "fst ?ap"
  have traceI: "extended (be_Codec E) db ?key fs db' \<Longrightarrow> action_trace es (be_Now E 3) ?r ?eff w fs (oc_Status out) w' \<Longrightarrow> ?thesis" for fs
    unfolding traced_def by blast
  show ?thesis
  proof (cases "snd ?ap")
    case (Inl y)
    then have ap: "?ap = (fst ?ap, Inl y)" by (metis prod.collapse)
    from broker_append_Inl [OF ap] have "?db1 = db" .
    with x pre ap have r: "db' = db" "w' = w" "oc_Status out = ''''" by (auto simp: Broker_Execute_def outcome_def split: prod.splits)
    show ?thesis by (rule traceI [of "[]"]) (use r extended_refl [OF ok h] in \<open>auto intro: action_trace.rejected\<close>)
  next
    case (Inr q)
    note aq = Inr
    then have ap: "?ap = (?db1, Inr q)" by (metis prod.collapse)
    from broker_append_next [OF ok c h' p ap] obtain e where e:
      "extended (be_Codec E) db ?key [e] ?db1" "step_event EventActionRequested (ActionRequestedPayload ?r) '''' e"
      "ar_ID (pj_Run q) = aq_RunID ?r" "pinned (pj_Run q) = pinned (pj_Run p)"
      "run_histories (be_Codec E) ?db1 (ns, ar_ID (pj_Run q)) = Some (es @ [e])" "Replay (es @ [e]) = Inr q" by (metis id)
    note ok1 = extended_ok [OF e(1)]
    show ?thesis
    proof (cases "authorize ?r grants uses (be_Now E 3)")
      case (Inl refusal)
      obtain db2 out2 err2 where rf: "refuse E ?db1 ns q ?r refusal = (db2, out2, err2)" by (metis prod_cases3)
      with x pre aq Inl have r: "db' = db2" "w' = w" "out = out2" by (simp_all add: Broker_Execute_def Let_def split_beta)
      from ok1 c rf show ?thesis
      proof (cases rule: refuse_cases)
        case 1
        show ?thesis by (rule traceI [of "[e]"]) (use 1 e(1,2) r in \<open>auto intro: action_trace.unrefused\<close>)
      next
        case (2 f d)
        have "refuses ?r f (oc_Status out)" unfolding refuses_def using 2 r by (auto split: if_splits)
        from action_trace.refused [OF e(2) this] have t: "action_trace es (be_Now E 3) ?r ?eff w [e, f] (oc_Status out) w" .
        show ?thesis by (rule traceI [of "[e, f]"]) (use t r 2(1) extended_trans1 [OF e(1)] e(3) in simp_all)
      qed
    next
      case (Inr g)
      with x pre aq have xa: "executeAuthorized E ?db1 w ns q g ?r (xr_InputBase64 input) = (db', w', out, err)"
        by (simp add: Broker_Execute_def Let_def split_beta)
      from authorize_Inr [OF Inr gu(3)] gu(1) have g: "g \<in> set (installed_grants es)"
        "may_use ?r (be_Now E 3) (authorizations (cg_ID g) es) g" by simp_all
      from executeAuthorized_cases [OF ok1 c e(5,6) xa] obtain fs where fs:
        "extended (be_Codec E) ?db1 (ns, ar_ID (pj_Run q)) fs db'" "authorized_trace g ?r w (?eff g) fs (oc_Status out) w'"
        by (auto simp: effect_of_pinned [OF e(4)])
      have "action_trace es (be_Now E 3) ?r ?eff w (e # fs) (oc_Status out) w'"
        by (rule action_trace.authorized [where eff = ?eff and g = g, OF e(2) g fs(2)])
      then show ?thesis by - (rule traceI [of "e # fs"], use extended_trans1 [OF e(1)] fs(1) e(3) in simp_all)
    qed
  qed
qed

lemma Broker_Execute_unprepared:
  assumes "Broker_Execute E db w ns input = (db', w', out, err)" and "prepareAction E db ns input = Inl z"
  shows "db' = db \<and> w' = w \<and> oc_Status out = '''' \<and> err \<noteq> None"
proof -
  have "oc_Status (fst z) = ''''" using assms(2)
    by (auto simp: prepareAction_def Let_def outcome_def split: option.splits sum.splits if_splits prod.splits)
  with assms show ?thesis by (cases z) (auto simp: Broker_Execute_def Let_def)
qed

lemma Broker_Execute_cases:
  assumes ok: "run_store_ok (be_Codec E) db" and c: "faithful_codec (be_Codec E)"
    and x: "Broker_Execute E db w ns input = (db', w', out, err)"
  obtains "db' = db" and "w' = w" and "oc_Status out = ''''" and "err \<noteq> None"
  | es p grants uses where "run_histories (be_Codec E) db (ns, aq_RunID (xr_Action input)) = Some es" and "Replay es = Inr p"
    and "ar_ID (pj_Run p) = aq_RunID (xr_Action input)" and "ar_State (pj_Run p) = RunRunning"
    and "ar_EventSequence (pj_Run p) = xr_ExpectedSequence input"
    and "ensureUniqueAttempt (xr_Action input) es = None" and "GrantsFromEvents es = Inr (grants, uses)"
    and "traced E db ns input w es p db' w' (oc_Status out)"
proof (cases "prepareAction E db ns input")
  case (Inl z)
  with Broker_Execute_unprepared [OF x] that(1) show thesis by blast
next
  case (Inr z)
  then obtain p grants uses where pre: "prepareAction E db ns input = Inr (p, grants, uses)" by (cases z) auto
  from prepareAction_Inr [OF ok pre] Broker_Execute_prepared [OF ok c x pre] that(2) show thesis by metis
qed

section \<open>The uses of a grant\<close>

text \<open>No grant that a run's history installs has been used more often than it may be.\<close>

definition within_use_limits :: "RunEvent list \<Rightarrow> bool" where
  "within_use_limits es \<longleftrightarrow> (\<forall>g\<in>set (installed_grants es). \<forall>m. cg_MaxUses g = Some m \<longrightarrow> int (authorizations (cg_ID g) es) \<le> m)"

definition use_limits_ok :: "'j RunCodec \<Rightarrow> 'j DB \<Rightarrow> bool" where
  "use_limits_ok C db \<longleftrightarrow> (\<forall>key es. run_histories C db key = Some es \<longrightarrow> within_use_limits es)"

text \<open>What an execution appends installs nothing and authorizes at most once, under the grant it chose.\<close>

lemma step_installs: "step_event ty payload d e \<Longrightarrow> ty \<noteq> EventCapabilitiesGranted \<Longrightarrow> granted_by e = []"
  by (auto simp: step_event_def granted_by_def split: RunEventType.splits)

lemma step_authorizes: "step_event ty payload d e \<Longrightarrow> ty \<noteq> EventActionAuthorized \<Longrightarrow> \<not> authorizes c e"
  by (simp add: step_event_def authorizes_def)

lemma closing_neutral: "closing g r eff fs status \<Longrightarrow> installed_grants fs = [] \<and> authorizations c fs = 0"
proof -
  have ty: "effect_event eff \<noteq> EventCapabilitiesGranted" "effect_event eff \<noteq> EventActionAuthorized"
    by (auto simp: effect_event_def split: sum.splits)
  assume "closing g r eff fs status"
  then consider "fs = []" | e where "fs = [e]" "closes g r eff e" unfolding closing_def by blast
  then show ?thesis
  proof cases
    case 2
    then obtain v where "step_event (effect_event eff) (ActionResult v) (cg_PolicyDecisionID g) e" by (auto simp: closes_def)
    from step_installs [OF this ty(1)] step_authorizes [OF this ty(2)] 2(1) show ?thesis by simp
  qed simp
qed

lemma authorized_trace_neutral:
  assumes "authorized_trace g r w eff fs status w'"
  shows "installed_grants fs = [] \<and> authorizations c fs \<le> (if c = cg_ID g then 1 else 0)"
proof -
  have d: "granted_by e = []" "authorizes c e \<longleftrightarrow> c = cg_ID g" if "decides g r e" for e c
    using that by (auto simp: decides_def step_event_def granted_by_def authorizes_def)
  have s: "granted_by e = []" "\<not> authorizes c e" if "starts g r e" for e c
    using that by (auto simp: starts_def step_event_def granted_by_def authorizes_def)
  from assms show ?thesis
  proof (cases rule: authorized_trace.cases [of "(g, r, w, eff, fs, status, w')"])
    case (2 g' r' w0 eff' e st w1)
    with assms show ?thesis by (auto simp: d)
  next
    case (3 g' r' w0 eff' e f gs st w1)
    with assms have "decides g r e" "starts g r f" "closing g r (snd eff) gs status" by auto
    with 3 closing_neutral [of g r "snd eff" gs status c] show ?thesis by (auto simp: d s)
  qed simp
qed

lemma action_trace_neutral:
  assumes "action_trace es now r eff w fs status w'"
  shows "installed_grants fs = [] \<and> ((\<forall>c. authorizations c fs = 0) \<or>
    (\<exists>g\<in>set (installed_grants es). may_use r now (authorizations (cg_ID g) es) g \<and>
       (\<forall>c. authorizations c fs \<le> (if c = cg_ID g then 1 else 0))))"
  using assms
proof cases
  case (unrefused e)
  from step_installs [OF unrefused(4)] step_authorizes [OF unrefused(4)] unrefused(1) show ?thesis by simp
next
  case (refused e f)
  from refused(4) obtain ty d where "step_event ty (ActionDecision d) '''' f" "ty \<noteq> EventActionAuthorized" "ty \<noteq> EventCapabilitiesGranted"
    unfolding refuses_def by blast
  from step_installs [OF this(1,3)] step_authorizes [OF this(1,2)] step_installs [OF refused(3)] step_authorizes [OF refused(3)]
    refused(1) show ?thesis by simp
next
  case (authorized e g gs)
  have "granted_by e = []" "\<And>c. \<not> authorizes c e"
    using step_installs [OF authorized(2)] step_authorizes [OF authorized(2)] by simp_all
  then have "installed_grants fs = []" "\<forall>c. authorizations c fs \<le> (if c = cg_ID g then 1 else 0)"
    using authorized_trace_neutral [OF authorized(5)] authorized(1) by simp_all
  with authorized(3,4) show ?thesis by blast
qed simp

lemma within_use_limits_extended:
  assumes lim: "within_use_limits es" and d: "distinct (map cg_ID (installed_grants es))"
    and t: "action_trace es now r eff w fs status w'"
  shows "within_use_limits (es @ fs)"
  unfolding within_use_limits_def
proof (intro ballI allI impI)
  fix g m assume "g \<in> set (installed_grants (es @ fs))" and m: "cg_MaxUses g = Some m"
  with action_trace_neutral [OF t] have g: "g \<in> set (installed_grants es)" by simp
  with lim m have le: "int (authorizations (cg_ID g) es) \<le> m" by (auto simp: within_use_limits_def)
  from action_trace_neutral [OF t, THEN conjunct2] consider "\<forall>c. authorizations c fs = 0"
    | g' where "g' \<in> set (installed_grants es)" "may_use r now (authorizations (cg_ID g') es) g'"
      "\<forall>c. authorizations c fs \<le> (if c = cg_ID g' then 1 else 0)" by blast
  then show "int (authorizations (cg_ID g) (es @ fs)) \<le> m"
  proof cases
    case 2
    show ?thesis
    proof (cases "cg_ID g = cg_ID g'")
      case True
      with g 2(1) d have "g = g'" by (auto simp: distinct_map inj_on_def)
      with 2(2) m have "int (authorizations (cg_ID g) es) < m" by (auto simp: may_use_def)
      with spec [OF 2(3), of "cg_ID g"] True show ?thesis by simp
    next
      case False
      with spec [OF 2(3), of "cg_ID g"] le show ?thesis by simp
    qed
  qed (use le in simp)
qed
end
