(* ===== verification/Broker_Progress.thy ===== *)
theory Broker_Progress
  imports Broker_Safety
begin

text \<open>
  Progress of the broker: where the database reports no fault, the codec encodes everything and event
  identifiers do not collide, no step of an execution is lost, so that the outcome of an authorized
  action is the one the driver reported.
\<close>

section \<open>Appending succeeds\<close>

lemma dec_inject: "dec m = dec n \<longleftrightarrow> m = n"
proof
  have digit: "a = b" if "digit_char a = digit_char b" "a < 10" "b < 10" for a b
  proof -
    have "\<forall>a\<in>set [0..<10]. \<forall>b\<in>set [0..<10]. digit_char a = digit_char b \<longrightarrow> a = b" by code_simp
    with that show ?thesis by simp
  qed
  have ne: "dec n \<noteq> []" for n by (simp add: dec.simps [of n])
  show "dec m = dec n \<Longrightarrow> m = n"
  proof (induction m arbitrary: n rule: dec.induct)
    case (1 m)
    show ?case
    proof (cases "m < 10")
      case True
      with "1.prems" ne [of "n div 10"] show ?thesis
        by (cases "n < 10") (auto simp: dec.simps [of m] dec.simps [of n] append_eq_Cons_conv dest: digit)
    next
      case False
      with "1.prems" ne [of "m div 10"] have n: "\<not> n < 10"
        by (auto simp: dec.simps [of m] dec.simps [of n] append_eq_Cons_conv)
      with False "1.prems" have "dec (m div 10) = dec (n div 10)" "m mod 10 = n mod 10"
        by (auto simp: dec.simps [of m] dec.simps [of n] dest: digit)
      with "1.IH" [OF False] show ?thesis by (metis div_mult_mod_eq)
    qed
  qed
qed simp

lemma event_ID_inject: "0 \<le> m \<Longrightarrow> 0 \<le> n \<Longrightarrow> event_ID h r m = event_ID h r n \<longleftrightarrow> m = n"
  by (simp add: event_ID_def dec_inject) presburger

lemma update_heads_one:
  assumes "distinct (map hkey heads)" and "h \<in> set heads" and "matches h" and "1 \<le> n"
    and "\<And>x. matches x \<Longrightarrow> hkey x = hkey h"
  shows "\<exists>heads'. update_heads matches n d j t heads = Some (heads', 1) \<and> hkey ` set heads' = hkey ` set heads"
proof -
  have "filter matches heads = [h]" using assms(1,2,3,5)
  proof (induction heads)
    case (Cons x xs)
    show ?case
    proof (cases "x = h")
      case True
      with Cons.prems(1) have "hkey y \<noteq> hkey h" if "y \<in> set xs" for y using that by (metis distinct.simps(2) image_eqI list.simps(9) set_map)
      with Cons.prems(4) have "\<forall>y\<in>set xs. \<not> matches y" by blast
      with True Cons.prems(3) show ?thesis by (simp add: filter_empty_conv)
    next
      case False
      with Cons.prems(2) have hx: "h \<in> set xs" by simp
      then have "hkey h \<in> hkey ` set xs" by (rule imageI)
      with Cons.prems(1) have "hkey x \<noteq> hkey h" by auto
      with Cons.prems(4) have "\<not> matches x" by blast
      note this hx
      with Cons.IH [OF _ hx Cons.prems(3,4)] Cons.prems(1) show ?thesis by simp
    qed
  qed simp
  moreover have "hkey (if matches h then h\<lparr>hr_event_sequence := n, hr_last_event_digest := d, hr_json := j,
                 hr_updated_at := t\<rparr> else h) = hkey h" for h by (simp add: hkey_def)
  then have "hkey ` set (map (\<lambda>h. if matches h then h\<lparr>hr_event_sequence := n, hr_last_event_digest := d, hr_json := j,
                 hr_updated_at := t\<rparr> else h) heads) = hkey ` set heads" unfolding set_map image_image by simp
  ultimately show ?thesis using assms(4) by (simp add: update_heads_def)
qed

definition fresh_ids :: "'j RunCodec \<Rightarrow> 'j DB \<Rightarrow> string \<Rightarrow> int64 \<Rightarrow> bool" where
  "fresh_ids C db runID n \<longleftrightarrow> (\<forall>k\<ge>n. event_ID (rc_Hash16 C) runID k \<notin> set (map er_event_id (db_events db)))"

lemma AppendEvent_accepts:
  assumes ok: "run_store_ok C db" and h: "run_histories C db (ns, ev_RunID e) = Some es" and p: "Replay es = Inr p"
    and d: "VerifyEventDigest (rc_Digest C) e = Some True" and ap: "Apply (Some p) e = Inr q"
    and enc: "rc_EncRun C (pj_Run q) \<noteq> None" "rc_EncEvent C e \<noteq> None"
    and id: "ev_ID e \<notin> set (map er_event_id (db_events db))"
    and room: "ar_EventSequence (pj_Run p) < max64"
  shows "\<exists>db'. AppendEvent C no_faults db ns (ar_EventSequence (pj_Run p)) e = (db', Inr q) \<and>
     map er_event_id (db_events db') = map er_event_id (db_events db) @ [ev_ID e]"
proof -
  from run_history_head [OF ok h] obtain hd p' where s: "select_head (db_runs db) ns (ev_RunID e) = Some hd"
    and k: "hkey hd = (ns, ev_RunID e)" and st: "run_store.stored C (db_events db) hd es p'" and "Replay es = Inr p'" .
  with p have p': "p' = p" by simp
  have hp: "run_store.head_for C p hd" using st p' by (simp add: run_store.stored_def)
  have l: "loadProjection C no_faults db ns (ev_RunID e) = Inr p" by (rule loadProjection_complete [OF s hp]) simp
  have n: "hr_event_sequence hd = ar_EventSequence (pj_Run p)" using hp by (simp add: run_store.head_for_def)
  note seqs = run_ledger.replay_sequence [OF replayed_stream [OF p]]
  have len: "int (length es) = ar_EventSequence (pj_Run p)" using seqs by simp
  have "Replay (es @ [e]) = Inr q"
    using replayed_stream [OF p] ap run_ledger.replay_head [OF replayed_stream [OF p]] by (simp add: Replay_def run_ledger.replay_append)
  note seqs' = run_ledger.replay_sequence [OF replayed_stream [OF this]]
  have q: "ar_EventSequence (pj_Run q) = ar_EventSequence (pj_Run p) + 1" "ev_Sequence e = ar_EventSequence (pj_Run p) + 1"
    using seqs' len ap room
    by (auto elim!: Apply_Some_Inr simp: checkEnvelope_None wrap64_id in64_def min64_def)
  obtain j k' where j: "rc_EncRun C (pj_Run q) = Some j" "rc_EncEvent C e = Some k'" using enc by blast
  have dist: "distinct (map hkey (db_runs db))" using ok by (simp add: run_store_ok_def run_store.consistent_def)
  have hin: "hd \<in> set (db_runs db)" using select_head_Some [OF s] by simp
  let ?m = "\<lambda>x. hkey x = (ns, ev_RunID e) \<and> hr_event_sequence x = ar_EventSequence (pj_Run p)"
  have "\<exists>runs. update_heads ?m (ar_EventSequence (pj_Run q)) (pj_LastEventDigest q) j
      (rfc3339nano (ar_UpdatedAt (pj_Run q))) (db_runs db) = Some (runs, 1) \<and> hkey ` set runs = hkey ` set (db_runs db)"
    by (rule update_heads_one [OF dist hin]) (use k n q(1) len in auto)
  then obtain runs where u: "update_heads ?m (ar_EventSequence (pj_Run q)) (pj_LastEventDigest q) j
      (rfc3339nano (ar_UpdatedAt (pj_Run q))) (db_runs db) = Some (runs, 1)" "hkey ` set runs = hkey ` set (db_runs db)"
    by blast
  have rows: "ekey r = (ns, ev_RunID e) \<Longrightarrow> r \<in> set (db_events db) \<Longrightarrow> er_sequence r \<le> int (length es)" for r
  proof -
    assume "ekey r = (ns, ev_RunID e)" "r \<in> set (db_events db)"
    then have "r \<in> set (run_store.rows_of (db_events db) (hkey hd))" using k by (simp add: run_store.rows_of_def)
    then obtain i where "i < length es" "er_sequence r = ev_Sequence (es ! i)"
      using st by (auto simp: run_store.stored_def run_store.row_for_def list_all2_conv_all_nth in_set_conv_nth)
    with run_ledger.replay_numbered [OF replayed_stream [OF p]] show ?thesis by auto
  qed
  have "insert_event_row runs (db_events db) (event_row_of ns e k') = Some (db_events db @ [event_row_of ns e k'])"
    using id rows q(2) len u(2) k hin
    by (fastforce simp: insert_event_row_def event_row_of_def ekey_def image_iff hkey_def)
  then have "AppendEvent C no_faults db ns (ar_EventSequence (pj_Run p)) e =
      (db\<lparr>db_runs := runs, db_events := db_events db @ [event_row_of ns e k']\<rparr>, Inr q)"
    using run_history_identity [OF ok h] l d ap j u(1)
    by (simp add: AppendEvent_def Let_def validateNamespace_def verifyEventDigest_def insertEvent_def exec_write_def
        settle_def)
  then show ?thesis by (simp add: event_row_of_def)
qed


section \<open>Recording succeeds\<close>

text \<open>
  An environment without faults: the database reports none, everything can be encoded and hashed in
  the documented formats, and the clock has been set.
\<close>

definition serviceable :: "('j, 'w) BrokerEnv \<Rightarrow> bool" where
  "serviceable E \<longleftrightarrow> (\<forall>k. be_Driver E k = no_faults) \<and> (\<forall>k. 0 < be_Now E k) \<and> faithful_codec (be_Codec E) \<and>
     (\<forall>payload. rc_Encodable (be_Codec E) payload) \<and> (\<forall>run. rc_EncRun (be_Codec E) run \<noteq> None) \<and>
     (\<forall>e. rc_EncEvent (be_Codec E) e \<noteq> None) \<and> (\<forall>e. rc_Digest (be_Codec E) e \<noteq> None) \<and>
     digest_format (rc_Digest (be_Codec E)) \<and> hash16_format (rc_Hash16 (be_Codec E))"

lemma installed_valid:
  assumes "Replay es = Inr p" and "g \<in> set (installed_grants es)"
  shows "CapabilityGrant_Validate g = None \<and> cg_SubjectRunID g = ar_ID (pj_Run p)"
proof -
  have "\<forall>g\<in>set (installed_grants es). CapabilityGrant_Validate g = None \<and> cg_SubjectRunID g = ar_ID (pj_Run p)"
    using replayed_stream [OF assms(1)]
  proof (induction rule: run_ledger.replay_induct)
    case (first e p)
    then have "granted_by e = []" using Apply_None_Inr by (auto simp: granted_by_def)
    then show ?case by simp
  next
    case (step es e p q)
    have "ar_ID (pj_Run q) = ar_ID (pj_Run p)" using Apply_pinned [OF step.hyps(3)] pinned_eqD by blast
    with step.IH Apply_granted [OF step.hyps(3)] show ?case by auto
  qed
  with assms(2) show ?thesis by blast
qed

lemma brokerEvent_accepted:
  assumes E: "serviceable E" and p: "stored_run_ok p" and room: "ar_EventSequence (pj_Run p) < max64"
    and actor: "valid_principal actor" and ty: "ty \<noteq> EventRunCreated" "IsIdentifier (RunEventType_name ty)"
    and payload: "payload_json payload = RawObject ''''" and d: "decision = '''' \<or> IsIdentifier decision"
  shows "\<exists>e. brokerEvent (be_Codec E) p ty actor (be_Now E k) payload decision = Some e \<and> RunEvent_Validate e = None \<and>
     checkEnvelope p e = None \<and> VerifyEventDigest (rc_Digest (be_Codec E)) e = Some True \<and>
     ev_ID e = event_ID (rc_Hash16 (be_Codec E)) (ar_ID (pj_Run p)) (ar_EventSequence (pj_Run p) + 1)"
proof -
  let ?C = "be_Codec E"
  obtain f where f: "Next (rc_Encodable ?C) (rc_Digest ?C) (rc_Hash16 ?C) p ty actor (be_Now E k) payload = Some f"
  proof -
    have "rc_Encodable ?C payload" "rc_Digest ?C e \<noteq> None" for e using E by (simp_all add: serviceable_def)
    then have "Next (rc_Encodable ?C) (rc_Digest ?C) (rc_Hash16 ?C) p ty actor (be_Now E k) payload \<noteq> None"
      by (simp add: Next_def ComputeEventDigest_def Let_def del: not_None_eq split: option.split)
    with that show thesis by blast
  qed
  note s = Next_Some [OF f]
  have v: "valid_run (pj_Run p)" "IsSHA256Digest (pj_LastEventDigest p)" using p by (simp_all add: stored_run_ok_def valid_run_def)
  have seq0: "1 \<le> ar_EventSequence (pj_Run p)" using v(1) by (simp add: AgentRun_Validate_unfold validate_simps)
  have seq: "ev_Sequence f = ar_EventSequence (pj_Run p) + 1"
    using s(5) room seq0 by (simp add: wrap64_id in64_def min64_def max64_def)
  have idok: "IsIdentifier (ev_ID f)" unfolding s(3)
    by (rule event_ID_identifier) (use E seq seq0 room in \<open>simp_all add: serviceable_def in64_def min64_def\<close>)
  have now: "0 < be_Now E k" using E by (simp add: serviceable_def)
  have time: "ev_OccurredAt f \<noteq> 0" using s(8) now by simp
  obtain dg where dg: "ComputeEventDigest (rc_Digest ?C) (f\<lparr>ev_PolicyDecisionID := decision\<rparr>) = Some dg"
  proof -
    have "rc_Digest ?C e \<noteq> None" for e using E by (simp add: serviceable_def)
    with that show thesis by (auto simp: ComputeEventDigest_def)
  qed
  let ?e = "if decision = '''' then f else f\<lparr>ev_PolicyDecisionID := decision, ev_Digest := dg\<rparr>"
  have b: "brokerEvent ?C p ty actor (be_Now E k) payload decision = Some ?e"
    using f dg by (simp add: brokerEvent_def Let_def)
  have fmt: "IsSHA256Digest (ev_Digest ?e)" using E s(13) dg by (auto simp: serviceable_def digest_format_def ComputeEventDigest_def)
  have ne: "pj_LastEventDigest p \<noteq> ''''" using v(2) by (auto simp: IsSHA256Digest_def hex_suffix_def)
  have e: "ev_Version ?e = ''gatemole.run_event.v0''" "ev_ID ?e = ev_ID f" "ev_RunID ?e = ar_ID (pj_Run p)" "ev_Sequence ?e = ev_Sequence f"
    "ev_Type ?e = ty" "ev_Actor ?e = actor" "ev_OccurredAt ?e = ev_OccurredAt f" "ev_Payload ?e = payload"
    "ev_Artifacts ?e = []" "ev_PreviousDigest ?e = pj_LastEventDigest p" "ev_PolicyDecisionID ?e = decision"
    using s by auto
  have "RunEvent_Validate ?e = None"
    unfolding RunEvent_Validate_def Let_def e
    using idok time seq seq0 actor ty(2) payload d fmt v(2) ne valid_run_identity [OF v(1)] by (simp add: validate_simps) blast
  moreover have "checkEnvelope p ?e = None" unfolding checkEnvelope_None e using s(5,8) ty(1) by simp
  moreover have "VerifyEventDigest (rc_Digest ?C) ?e = Some True"
    using s(13) dg by (auto simp: VerifyEventDigest_True ComputeEventDigest_def)
  moreover have "ev_ID ?e = event_ID (rc_Hash16 ?C) (ar_ID (pj_Run p)) (ar_EventSequence (pj_Run p) + 1)"
    using e(2) s(3) seq by simp
  ultimately show ?thesis using b by blast
qed

definition at_head :: "'j RunCodec \<Rightarrow> 'j DB \<Rightarrow> string \<Rightarrow> Projection \<Rightarrow> RunEvent list \<Rightarrow> bool" where
  "at_head C db ns p es \<longleftrightarrow> run_store_ok C db \<and> run_histories C db (ns, ar_ID (pj_Run p)) = Some es \<and> Replay es = Inr p \<and>
     fresh_ids C db (ar_ID (pj_Run p)) (ar_EventSequence (pj_Run p) + 1)"

definition keeps_run :: "AgentRun \<Rightarrow> AgentRun \<Rightarrow> bool" where
  "keeps_run r s \<longleftrightarrow> (\<exists>t. s = r\<lparr>ar_EventSequence := ar_EventSequence r + 1, ar_UpdatedAt := t\<rparr>)"

lemma valid_run_tick:
  assumes "valid_run r" and "1 \<le> n" and "ar_UpdatedAt r \<le> t" and "t \<noteq> 0"
  shows "valid_run (r\<lparr>ar_EventSequence := n, ar_UpdatedAt := t\<rparr>)"
proof -
  let ?s = "r\<lparr>ar_EventSequence := n, ar_UpdatedAt := t\<rparr>"
  have created: "ar_CreatedAt r \<noteq> 0" "ar_CreatedAt r \<le> ar_UpdatedAt r" "\<not> ar_EventSequence r < 1"
    "ar_UpdatedAt r \<noteq> 0" "\<not> ar_UpdatedAt r < ar_CreatedAt r"
    using assms(1) by (simp_all add: AgentRun_Validate_unfold validate_simps)
  have fresh: "\<not> n < 1" "t \<noteq> 0" "\<not> t < ar_CreatedAt r" using assms(2-4) created by auto
  have "AgentRun_Validate ?s = AgentRun_Validate r"
    unfolding AgentRun_Validate_def Let_def by (simp add: fresh created split del: if_split cong: if_cong option.case_cong)
  with assms(1) show ?thesis by (simp add: valid_run_def)
qed

lemma at_head_stored: "at_head C db ns p es \<Longrightarrow> stored_run_ok p \<and> 1 \<le> ar_EventSequence (pj_Run p)"
proof -
  assume "at_head C db ns p es"
  then have r: "Replay es = Inr p" by (simp add: at_head_def)
  have "stored_run_ok p" using replayed_stream [OF r]
    by (induction rule: run_ledger.replay_invariant) (auto dest: Apply_stored_ok)
  then show ?thesis by (auto simp: stored_run_ok_def AgentRun_Validate_unfold [unfolded valid_run_def] AgentRun_Validate_def Let_def validate_simps)
qed

lemma broker_append_accepts:
  assumes E: "serviceable E" and a: "at_head (be_Codec E) db ns p es" and room: "ar_EventSequence (pj_Run p) < max64"
    and actor: "valid_principal actor" and ty: "ty \<noteq> EventRunCreated" "IsIdentifier (RunEventType_name ty)"
    and payload: "payload_json payload = RawObject ''''" and d: "decision = '''' \<or> IsIdentifier decision"
    and acc: "\<And>e. step_event ty payload decision e \<Longrightarrow> applyPayload (pj_Run p) e = Inr (pj_Run p)"
  obtains db' q e where "broker_append E k db ns p ty actor payload decision = (db', Inr q)"
    and "at_head (be_Codec E) db' ns q (es @ [e])" and "keeps_run (pj_Run p) (pj_Run q)" and "step_event ty payload decision e"
proof -
  let ?C = "be_Codec E" and ?run = "pj_Run p" and ?n = "ar_EventSequence (pj_Run p)"
  from a have ok: "run_store_ok ?C db" and h: "run_histories ?C db (ns, ar_ID ?run) = Some es" and r: "Replay es = Inr p"
    and fr: "fresh_ids ?C db (ar_ID ?run) (?n + 1)" by (simp_all add: at_head_def)
  have c: "faithful_codec ?C" using E by (simp add: serviceable_def)
  note st = at_head_stored [OF a]
  from brokerEvent_accepted [OF E _ room actor ty payload d, of k] st obtain e where
    e: "brokerEvent ?C p ty actor (be_Now E k) payload decision = Some e" "RunEvent_Validate e = None" "checkEnvelope p e = None"
      "VerifyEventDigest (rc_Digest ?C) e = Some True" "ev_ID e = event_ID (rc_Hash16 ?C) (ar_ID ?run) (?n + 1)" by blast
  note b = brokerEvent_Some [OF e(1)]
  have env: "ev_Sequence e = ?n + 1" "ar_UpdatedAt ?run \<le> ev_OccurredAt e"
    using e(3) st room by (simp_all add: checkEnvelope_None wrap64_id in64_def min64_def max64_def)
  let ?r = "?run\<lparr>ar_EventSequence := ?n + 1, ar_UpdatedAt := ev_OccurredAt e\<rparr>"
  let ?q = "\<lparr>pj_Run = ?r, pj_LastEventDigest = ev_Digest e\<rparr>"
  have "ev_OccurredAt e \<noteq> 0" using e(2) by (simp add: RunEvent_Validate_def Let_def validate_simps)
  then have "valid_run ?r" using st env by (intro valid_run_tick) (simp_all add: stored_run_ok_def valid_run_def)
  then have ap: "Apply (Some p) e = Inr ?q"
    using e(2,3) acc b env(1) by (simp add: Apply.simps Let_def valid_run_def)
  have enc: "rc_EncRun ?C (pj_Run ?q) \<noteq> None" "rc_EncEvent ?C e \<noteq> None" using E by (simp_all add: serviceable_def)
  have id: "ev_ID e \<notin> set (map er_event_id (db_events db))" using fr e(5) by (simp add: fresh_ids_def)
  have h': "run_histories ?C db (ns, ev_RunID e) = Some es" using h b by simp
  from AppendEvent_accepts [OF ok h' r e(4) ap enc id room] obtain db' where
    db': "AppendEvent ?C no_faults db ns ?n e = (db', Inr ?q)"
    "map er_event_id (db_events db') = map er_event_id (db_events db) @ [ev_ID e]" by blast
  then have ba: "broker_append E k db ns p ty actor payload decision = (db', Inr ?q)"
    using E e(1) by (simp add: broker_append_def serviceable_def)
  from broker_append_next [OF ok c h r ba] obtain f where f: "run_histories ?C db' (ns, ar_ID (pj_Run ?q)) = Some (es @ [f])"
    "Replay (es @ [f]) = Inr ?q" "extended ?C db (ns, ar_ID ?run) [f] db'" "step_event ty payload decision f" .
  have "fresh_ids ?C db' (ar_ID ?run) (?n + 1 + 1)"
    unfolding fresh_ids_def db'(2)
  proof (intro allI impI)
    fix k assume k: "?n + 1 + 1 \<le> k"
    with fr have "event_ID (rc_Hash16 ?C) (ar_ID ?run) k \<notin> set (map er_event_id (db_events db))" by (simp add: fresh_ids_def)
    moreover have "event_ID (rc_Hash16 ?C) (ar_ID ?run) k \<noteq> ev_ID e" unfolding e(5)
      using event_ID_inject [of k "?n + 1" "rc_Hash16 ?C" "ar_ID ?run"] k st by simp
    ultimately show "event_ID (rc_Hash16 ?C) (ar_ID ?run) k \<notin> set (map er_event_id (db_events db) @ [ev_ID e])" by simp
  qed
  then have "at_head ?C db' ns ?q (es @ [f])" using f extended_ok [OF f(3)] by (simp add: at_head_def)
  moreover have "keeps_run ?run (pj_Run ?q)" by (auto simp: keeps_run_def)
  ultimately show thesis using that ba f(4) by blast
qed

section \<open>An authorized action is performed and reported\<close>

lemma action_event_names:
  "IsIdentifier (RunEventType_name EventActionRequested)" "IsIdentifier (RunEventType_name EventActionAuthorized)"
  "IsIdentifier (RunEventType_name EventActionExecuting)" "IsIdentifier (RunEventType_name EventActionCommitted)"
  "IsIdentifier (RunEventType_name EventActionFailed)" "IsIdentifier (RunEventType_name EventActionUnknown)"
  "IsIdentifier (RunEventType_name EventActionDenied)" "IsIdentifier (RunEventType_name EventActionApprovalRequired)"
  by code_simp+

lemma service_principal_valid: "valid_principal capabilityServicePrincipal"
  by code_simp

lemma keeps_run_sel: "keeps_run r s \<Longrightarrow> ar_ID s = ar_ID r \<and> ar_State s = ar_State r \<and> ar_Principal s = ar_Principal r \<and>
    ar_EventSequence s = ar_EventSequence r + 1 \<and> pinned s = pinned r"
  by (auto simp: keeps_run_def pinned_def)

lemma identifier_nonempty: "IsIdentifier s \<Longrightarrow> s \<noteq> ''''"
  by (auto simp: IsIdentifier_def)

lemmas apply_action_simps = applyPayload_def step_event_def DecodePayload_views checkActionRequested_def
  checkActionDecision_def checkActionResult_def

lemma perform_progress:
  assumes E: "serviceable E" and a: "at_head (be_Codec E) db ns p es" and room: "ar_EventSequence (pj_Run p) < max64"
    and g: "CapabilityGrant_Validate g = None" and r: "aq_ID r \<noteq> ''''" and eff: "effect_of E (pj_Run p) g r b w = (w1, eff)"
  shows "\<exists>db' out. perform E db w ns p g r b = (db', w1, out, None) \<and> oc_Status out = effect_status eff \<and>
     oc_CapabilityID out = cg_ID g \<and>
     (\<forall>result. eff = Inr result \<longrightarrow> oc_ResultDigest out = fx_Digest result \<and> oc_OutputBase64 out = base64_encode (fx_Output result))"
proof -
  have gid: "cg_ID g \<noteq> ''''" "IsIdentifier (cg_PolicyDecisionID g)"
    using g identifier_nonempty by (auto simp: CapabilityGrant_Validate_def Let_def validate_simps)
  show ?thesis
  proof (cases eff)
    case (Inl err)
    let ?u = "err = UnknownEffect"
    let ?ty = "if ?u then EventActionUnknown else EventActionFailed"
    let ?v = "\<lparr>rp_ActionID = aq_ID r, rp_CapabilityID = cg_ID g, rp_Status = if ?u then ''unknown'' else ''failed'',
      rp_ResultDigest = '''', rp_OutputBytes = 0,
      rp_ErrorCode = ErrorCode_text (if ?u then ErrorActionUnknown else ErrorDriverUnavailable), rp_Reason = be_ErrorText E err\<rparr>"
    obtain db' q where "broker_append E 6 db ns p ?ty capabilityServicePrincipal (ActionResult ?v) (cg_PolicyDecisionID g) = (db', Inr q)"
    proof (rule broker_append_accepts [OF E a room service_principal_valid, of ?ty "ActionResult ?v" "cg_PolicyDecisionID g" 6])
      show "IsIdentifier (RunEventType_name ?ty)" by (simp only: action_event_names split: if_split) simp
      show "applyPayload (pj_Run p) e = Inr (pj_Run p)" if "step_event ?ty (ActionResult ?v) (cg_PolicyDecisionID g) e" for e
        using that r gid(1) by (auto simp: apply_action_simps)
    qed (use gid in auto)
    with eff Inl show ?thesis by (simp add: perform_effect recordFailure_def Let_def outcome_def effect_status_def)
  next
    case (Inr result)
    let ?v = "\<lparr>rp_ActionID = aq_ID r, rp_CapabilityID = cg_ID g, rp_Status = ''committed'',
      rp_ResultDigest = fx_Digest result, rp_OutputBytes = fx_Bytes result, rp_ErrorCode = '''', rp_Reason = ''''\<rparr>"
    obtain db' q where "broker_append E 6 db ns p EventActionCommitted capabilityServicePrincipal (ActionResult ?v)
        (cg_PolicyDecisionID g) = (db', Inr q)"
    proof (rule broker_append_accepts [OF E a room service_principal_valid, of EventActionCommitted "ActionResult ?v" "cg_PolicyDecisionID g" 6])
      show "applyPayload (pj_Run p) e = Inr (pj_Run p)" if "step_event EventActionCommitted (ActionResult ?v) (cg_PolicyDecisionID g) e" for e
        using that r gid(1) by (auto simp: apply_action_simps)
    qed (use gid action_event_names in \<open>auto simp del: RunEventType_name.simps\<close>)
    with eff Inr show ?thesis by (simp add: perform_effect outcome_def effect_status_def)
  qed
qed

lemma prepareAction_complete:
  assumes E: "serviceable E" and a: "at_head (be_Codec E) db ns p es" and id: "ar_ID (pj_Run p) = aq_RunID (xr_Action input)"
    and run: "ar_State (pj_Run p) = RunRunning" "ar_EventSequence (pj_Run p) = xr_ExpectedSequence input"
    and r: "ActionRequest_Validate (xr_Action input) = None" "ensureUniqueAttempt (xr_Action input) es = None"
    and g: "GrantsFromEvents es = Inr (grants, uses)"
  shows "prepareAction E db ns input = Inr (p, grants, uses)"
proof -
  from a id have ok: "run_store_ok (be_Codec E) db" and h: "run_histories (be_Codec E) db (ns, aq_RunID (xr_Action input)) = Some es"
    and p: "Replay es = Inr p" by (simp_all add: at_head_def)
  have "GetRun (be_Codec E) no_faults db ns (aq_RunID (xr_Action input)) = Inr p" using GetRun_complete [OF ok h] p by auto
  moreover have "Events (be_Codec E) no_faults db ns (aq_RunID (xr_Action input)) 0 = Inr es" using Events_complete [OF ok h, of 0] by simp
  moreover have "be_Driver E k = no_faults" for k using E by (simp add: serviceable_def)
  ultimately show ?thesis using run r g by (simp add: prepareAction_def Let_def)
qed

lemma Broker_Execute_progress:
  assumes E: "serviceable E" and a: "at_head (be_Codec E) db ns p es" and id: "ar_ID (pj_Run p) = aq_RunID (xr_Action input)"
    and run: "ar_State (pj_Run p) = RunRunning" "ar_EventSequence (pj_Run p) = xr_ExpectedSequence input"
    and r: "ActionRequest_Validate (xr_Action input) = None" "ensureUniqueAttempt (xr_Action input) es = None"
    and g: "GrantsFromEvents es = Inr (grants, uses)" "authorize (xr_Action input) grants uses (be_Now E 3) = Inr g"
    and room: "xr_ExpectedSequence input \<le> max64 - 4"
    and eff: "effect_of E (pj_Run p) g (xr_Action input) (xr_InputBase64 input) w = (w1, eff)"
  shows "\<exists>db' out. Broker_Execute E db w ns input = (db', w1, out, None) \<and> oc_Status out = effect_status eff \<and>
     oc_CapabilityID out = cg_ID g \<and>
     (\<forall>result. eff = Inr result \<longrightarrow> oc_ResultDigest out = fx_Digest result \<and> oc_OutputBase64 out = base64_encode (fx_Output result))"
proof -
  let ?r = "xr_Action input" and ?C = "be_Codec E"
  from a have p: "Replay es = Inr p" by (simp add: at_head_def)
  note gu = GrantsFromEvents_Inr [OF g(1) p]
  have "g \<in> set (installed_grants es)" using authorize_Inr [OF g(2) gu(3)] gu(1) by simp
  then have gv: "CapabilityGrant_Validate g = None" using installed_valid [OF p] by blast
  then have gid: "cg_ID g \<noteq> ''''" "IsIdentifier (cg_PolicyDecisionID g)"
    using identifier_nonempty by (auto simp: CapabilityGrant_Validate_def Let_def validate_simps)
  have rid: "aq_ID ?r \<noteq> ''''" using r(1) identifier_nonempty by (auto simp: ActionRequest_Validate_def Let_def validate_simps)
  have rp: "valid_principal (ar_Principal (pj_Run p))"
    using at_head_stored [OF a] by (simp add: stored_run_ok_def AgentRun_Validate_def Let_def validate_simps)
  obtain db1 p1 e1 where s1: "broker_append E 2 db ns p EventActionRequested (ar_Principal (pj_Run p)) (ActionRequestedPayload ?r) '''' = (db1, Inr p1)"
    "at_head ?C db1 ns p1 (es @ [e1])" "keeps_run (pj_Run p) (pj_Run p1)"
  proof (rule broker_append_accepts [OF E a _ rp, of EventActionRequested "ActionRequestedPayload ?r" "''''" 2])
    show "applyPayload (pj_Run p) e = Inr (pj_Run p)" if "step_event EventActionRequested (ActionRequestedPayload ?r) '''' e" for e
      using that r(1) run id by (auto simp: apply_action_simps)
  qed (use room run action_event_names in \<open>auto simp del: RunEventType_name.simps\<close>)
  note k1 = keeps_run_sel [OF s1(3)]
  let ?d = "\<lparr>dp_ActionID = aq_ID ?r, dp_Decision = DecisionAllow, dp_CapabilityID = cg_ID g,
     dp_Reason = ''request matched an active capability grant'', dp_ErrorCode = ''''\<rparr>"
  obtain db2 p2 e2 where s2: "broker_append E 4 db1 ns p1 EventActionAuthorized capabilityServicePrincipal (ActionDecision ?d) (cg_PolicyDecisionID g) = (db2, Inr p2)"
    "at_head ?C db2 ns p2 ((es @ [e1]) @ [e2])" "keeps_run (pj_Run p1) (pj_Run p2)"
  proof (rule broker_append_accepts [OF E s1(2) _ service_principal_valid, of EventActionAuthorized "ActionDecision ?d" "cg_PolicyDecisionID g" 4])
    show "applyPayload (pj_Run p1) e = Inr (pj_Run p1)" if "step_event EventActionAuthorized (ActionDecision ?d) (cg_PolicyDecisionID g) e" for e
      using that rid by (auto simp: apply_action_simps)
  qed (use room run k1 gid action_event_names in \<open>auto simp del: RunEventType_name.simps\<close>)
  note k2 = keeps_run_sel [OF s2(3)]
  let ?x = "ActionExecuting \<lparr>xp_ActionID = aq_ID ?r, xp_CapabilityID = cg_ID g\<rparr>"
  obtain db3 p3 e3 where s3: "broker_append E 5 db2 ns p2 EventActionExecuting capabilityServicePrincipal ?x (cg_PolicyDecisionID g) = (db3, Inr p3)"
    "at_head ?C db3 ns p3 (((es @ [e1]) @ [e2]) @ [e3])" "keeps_run (pj_Run p2) (pj_Run p3)"
  proof (rule broker_append_accepts [OF E s2(2) _ service_principal_valid, of EventActionExecuting ?x "cg_PolicyDecisionID g" 5])
    show "applyPayload (pj_Run p2) e = Inr (pj_Run p2)" if "step_event EventActionExecuting ?x (cg_PolicyDecisionID g) e" for e
      using that rid gid by (auto simp: apply_action_simps)
  qed (use room run k1 k2 gid action_event_names in \<open>auto simp del: RunEventType_name.simps\<close>)
  note k3 = keeps_run_sel [OF s3(3)]
  have same: "effect_of E (pj_Run p3) g ?r (xr_InputBase64 input) w = (w1, eff)"
  proof -
    have "pinned (pj_Run p3) = pinned (pj_Run p)" using k1 k2 k3 by simp
    from effect_of_pinned [OF this, of E] eff show ?thesis by simp
  qed
  have pre: "prepareAction E db ns input = Inr (p, grants, uses)" by (rule prepareAction_complete [OF E a id run r g(1)])
  have "Broker_Execute E db w ns input = perform E db3 w ns p3 g ?r (xr_InputBase64 input)"
    using pre s1(1) s2(1) s3(1) g(2) by (simp add: Broker_Execute_def executeAuthorized_def Let_def)
  with perform_progress [OF E s3(2) _ gv rid same] room run k1 k2 k3 show ?thesis by simp
qed
end
