(* ===== verification/Broker_Recovery.thy ===== *)
theory Broker_Recovery
  imports Broker_Safety
begin

text \<open>
  Recovery after a restart: what an interrupted action is, independently of the code that looks for it,
  and that a recovery that reports no error leaves none, in any run that can still change.
\<close>

section \<open>Interrupted actions\<close>

definition requests_action :: "string \<Rightarrow> RunEvent \<Rightarrow> bool" where
  "requests_action a e \<longleftrightarrow> ev_Type e = EventActionRequested \<and> (\<exists>r. ev_Payload e = ActionRequestedPayload r \<and> aq_ID r = a)"

definition closes_action :: "string \<Rightarrow> RunEvent \<Rightarrow> bool" where
  "closes_action a e \<longleftrightarrow>
     ev_Type e \<in> {EventActionDenied, EventActionApprovalRequired} \<and> (\<exists>d. ev_Payload e = ActionDecision d \<and> dp_ActionID d = a) \<or>
     ev_Type e \<in> {EventActionCommitted, EventActionFailed, EventActionUnknown} \<and>
       (\<exists>v. ev_Payload e = ActionResult v \<and> rp_ActionID v = a)"

definition advances_action :: "string \<Rightarrow> string \<Rightarrow> RunEvent \<Rightarrow> bool" where
  "advances_action a c e \<longleftrightarrow>
     ev_Type e = EventActionAuthorized \<and> (\<exists>d. ev_Payload e = ActionDecision d \<and> dp_ActionID d = a \<and> dp_CapabilityID d = c) \<or>
     ev_Type e = EventActionExecuting \<and> (\<exists>x. ev_Payload e = ActionExecuting x \<and> xp_ActionID x = a \<and> xp_CapabilityID x = c)"

lemmas action_views = requests_action_def closes_action_def advances_action_def

fun interrupted :: "string \<Rightarrow> RunEvent list \<Rightarrow> bool" where
  "interrupted a [] \<longleftrightarrow> False"
| "interrupted a (e # es) \<longleftrightarrow> requests_action a e \<and> (\<forall>f\<in>set es. \<not> closes_action a f) \<or> interrupted a es"

lemma interrupted_split:
  "interrupted a es \<longleftrightarrow> (\<exists>us e vs. es = us @ e # vs \<and> requests_action a e \<and> (\<forall>f\<in>set vs. \<not> closes_action a f))"
proof (induction es)
  case (Cons e es)
  show ?case
  proof
    assume "interrupted a (e # es)"
    then consider "requests_action a e" "\<forall>f\<in>set es. \<not> closes_action a f" | "interrupted a es" by auto
    then show "\<exists>us f vs. e # es = us @ f # vs \<and> requests_action a f \<and> (\<forall>f\<in>set vs. \<not> closes_action a f)"
    proof cases
      case 1
      then show ?thesis by (intro exI [of _ "[]"]) auto
    next
      case 2
      with Cons.IH obtain us f vs where "es = us @ f # vs" "requests_action a f" "\<forall>f\<in>set vs. \<not> closes_action a f" by blast
      then show ?thesis by (intro exI [of _ "e # us"]) auto
    qed
  next
    assume "\<exists>us f vs. e # es = us @ f # vs \<and> requests_action a f \<and> (\<forall>f\<in>set vs. \<not> closes_action a f)"
    then obtain us f vs where s: "e # es = us @ f # vs" "requests_action a f" "\<forall>f\<in>set vs. \<not> closes_action a f" by blast
    show "interrupted a (e # es)"
    proof (cases us)
      case Nil
      with s show ?thesis by auto
    next
      case (Cons u us')
      with s have "es = us' @ f # vs" by simp
      with s Cons.IH show ?thesis by auto
    qed
  qed
qed simp

lemma interrupted_append:
  "interrupted a (es @ fs) \<longleftrightarrow> interrupted a es \<and> (\<forall>f\<in>set fs. \<not> closes_action a f) \<or> interrupted a fs"
  by (induction es) auto

text \<open>What one event does to the record of the actions that are open.\<close>

lemma interruptedFrom_step:
  assumes "interruptedFrom pending order (e # es) = Inr r"
  obtains pending' order' where "interruptedFrom pending' order' es = Inr r"
    and "\<And>a. pending' a \<noteq> None \<longleftrightarrow> requests_action a e \<or> pending a \<noteq> None \<and> \<not> closes_action a e"
    and "\<And>a c. pending' a = Some c \<Longrightarrow> c \<noteq> '''' \<Longrightarrow> pending a = Some c \<or> advances_action a c e"
    and "set order' = set order \<union> {a. requests_action a e}"
proof (cases "ev_Type e")
  case EventActionRequested
  with assms obtain r' where r': "ev_Payload e = ActionRequestedPayload r'"
    "interruptedFrom (pending(aq_ID r' := Some '''')) (order @ [aq_ID r']) es = Inr r" by (auto simp: DecodePayload_views)
  show thesis
    by (rule that [OF r'(2)])
      (use r'(1) EventActionRequested in \<open>auto simp: action_views split: if_splits\<close>)
next
  case EventActionAuthorized
  with assms obtain d where p: "ev_Payload e = ActionDecision d"
    and i: "interruptedFrom (if pending (dp_ActionID d) \<noteq> None then pending(dp_ActionID d := Some (dp_CapabilityID d)) else pending) order es = Inr r"
    by (auto simp: DecodePayload_views)
  show thesis
    by (rule that [OF i]) (use p EventActionAuthorized in \<open>auto simp: action_views split: if_splits\<close>)
next
  case EventActionExecuting
  with assms obtain x where p: "ev_Payload e = ActionExecuting x"
    and i: "interruptedFrom (if pending (xp_ActionID x) \<noteq> None then pending(xp_ActionID x := Some (xp_CapabilityID x)) else pending) order es = Inr r"
    by (auto simp: DecodePayload_views)
  show thesis
    by (rule that [OF i]) (use p EventActionExecuting in \<open>auto simp: action_views split: if_splits\<close>)
next
  case EventActionDenied
  with assms obtain d where p: "ev_Payload e = ActionDecision d"
    and i: "interruptedFrom (pending(dp_ActionID d := None)) order es = Inr r"
    by (auto simp: DecodePayload_views)
  show thesis
    by (rule that [OF i]) (use p EventActionDenied in \<open>auto simp: action_views split: if_splits\<close>)
next
  case EventActionApprovalRequired
  with assms obtain d where p: "ev_Payload e = ActionDecision d"
    and i: "interruptedFrom (pending(dp_ActionID d := None)) order es = Inr r"
    by (auto simp: DecodePayload_views)
  show thesis
    by (rule that [OF i]) (use p EventActionApprovalRequired in \<open>auto simp: action_views split: if_splits\<close>)
next
  case EventActionCommitted
  with assms obtain v where p: "ev_Payload e = ActionResult v"
    and i: "interruptedFrom (pending(rp_ActionID v := None)) order es = Inr r"
    by (auto simp: DecodePayload_views)
  show thesis
    by (rule that [OF i]) (use p EventActionCommitted in \<open>auto simp: action_views split: if_splits\<close>)
next
  case EventActionFailed
  with assms obtain v where p: "ev_Payload e = ActionResult v"
    and i: "interruptedFrom (pending(rp_ActionID v := None)) order es = Inr r"
    by (auto simp: DecodePayload_views)
  show thesis
    by (rule that [OF i]) (use p EventActionFailed in \<open>auto simp: action_views split: if_splits\<close>)
next
  case EventActionUnknown
  with assms obtain v where p: "ev_Payload e = ActionResult v"
    and i: "interruptedFrom (pending(rp_ActionID v := None)) order es = Inr r"
    by (auto simp: DecodePayload_views)
  show thesis
    by (rule that [OF i]) (use p EventActionUnknown in \<open>auto simp: action_views split: if_splits\<close>)
qed (use assms that [of pending order] in \<open>auto simp: action_views\<close>)

lemma interruptedFrom_Inr:
  "interruptedFrom pending order es = Inr (pending', order') \<Longrightarrow>
     (pending' a \<noteq> None \<longleftrightarrow> interrupted a es \<or> pending a \<noteq> None \<and> (\<forall>f\<in>set es. \<not> closes_action a f)) \<and>
     (\<forall>c. pending' a = Some c \<longrightarrow> c \<noteq> '''' \<longrightarrow> pending a = Some c \<or> (\<exists>e\<in>set es. advances_action a c e)) \<and>
     set order \<subseteq> set order' \<and> (interrupted a es \<longrightarrow> a \<in> set order')"
proof (induction es arbitrary: pending order)
  case (Cons e es)
  from Cons.prems obtain p1 o1 where s: "interruptedFrom p1 o1 es = Inr (pending', order')"
    and p1: "\<And>a. p1 a \<noteq> None \<longleftrightarrow> requests_action a e \<or> pending a \<noteq> None \<and> \<not> closes_action a e"
      "\<And>a c. p1 a = Some c \<Longrightarrow> c \<noteq> '''' \<Longrightarrow> pending a = Some c \<or> advances_action a c e"
      "set o1 = set order \<union> {a. requests_action a e}" by (rule interruptedFrom_step) (rule that)
  note IH = Cons.IH [OF s]
  from IH p1(1) [of a] have "pending' a \<noteq> None \<longleftrightarrow> interrupted a (e # es) \<or> pending a \<noteq> None \<and> (\<forall>f\<in>set (e # es). \<not> closes_action a f)"
    by auto
  moreover from IH p1(2) [of a] have "\<forall>c. pending' a = Some c \<longrightarrow> c \<noteq> '''' \<longrightarrow> pending a = Some c \<or> (\<exists>e\<in>set (e # es). advances_action a c e)"
    by (metis list.set_intros)
  moreover from IH p1(3) have "set order \<subseteq> set order' \<and> (interrupted a (e # es) \<longrightarrow> a \<in> set order')" by auto
  ultimately show ?case by blast
qed simp

lemma interruptedActions_Inr:
  assumes "interruptedActions es = Inr (pending, order)"
  shows "pending a \<noteq> None \<longleftrightarrow> interrupted a es" "pending a = Some c \<Longrightarrow> c \<noteq> '''' \<Longrightarrow> \<exists>e\<in>set es. advances_action a c e"
    "interrupted a es \<Longrightarrow> a \<in> set order"
  using interruptedFrom_Inr [OF assms [unfolded interruptedActions_def], of a] by auto


section \<open>Recovering one run\<close>

text \<open>The events that close the open actions, in the order of their requests.\<close>

definition open_in_order :: "(string \<Rightarrow> string option) \<Rightarrow> string list \<Rightarrow> string list" where
  "open_in_order pending order = filter (\<lambda>a. pending a \<noteq> None) order"

definition recovery_event :: "(string \<Rightarrow> string option) \<Rightarrow> string \<Rightarrow> RunEvent \<Rightarrow> bool" where
  "recovery_event pending a e \<longleftrightarrow>
     step_event (fst (recoveryEvent a (the (pending a)))) (snd (recoveryEvent a (the (pending a)))) '''' e"

lemma recovery_event_closes: "recovery_event pending a e \<Longrightarrow> closes_action a e \<and> (\<forall>b. \<not> requests_action b e)"
  by (auto simp: recovery_event_def recoveryEvent_def step_event_def action_views split: if_splits)

lemma recovery_event_type:
  "recovery_event pending a e \<Longrightarrow> ev_Type e = (if the (pending a) = '''' then EventActionDenied else EventActionUnknown)"
  by (auto simp: recovery_event_def recoveryEvent_def step_event_def)

lemma recoverActions_cases:
  assumes "faithful_codec (be_Codec E)" and "run_store_ok (be_Codec E) db" and "run_histories (be_Codec E) db (ns, ar_ID (pj_Run p)) = Some es"
    and "Replay es = Inr p" and "recoverActions E k db ns p pending order n = (db', n', err)"
  shows "\<exists>fs. extended (be_Codec E) db (ns, ar_ID (pj_Run p)) fs db' \<and> n' = n + length fs \<and>
     list_all2 (recovery_event pending) (take (length fs) (open_in_order pending order)) fs \<and>
     (err = None \<longrightarrow> length fs = length (open_in_order pending order))"
  using assms(2-5)
proof (induction order arbitrary: k db p n es)
  case Nil
  then have "extended (be_Codec E) db (ns, ar_ID (pj_Run p)) [] db'" using extended_refl by simp
  with Nil show ?case by (intro exI [of _ "[]"]) (simp add: open_in_order_def)
next
  case (Cons a order)
  show ?case
  proof (cases "pending a")
    case None
    with Cons.prems(4) have "recoverActions E k db ns p pending order n = (db', n', err)" by simp
    from Cons.IH [OF Cons.prems(1-3) this] None show ?thesis by (simp add: open_in_order_def)
  next
    case (Some c)
    obtain ty payload where ev: "recoveryEvent a c = (ty, payload)" by (cases "recoveryEvent a c")
    let ?ap = "broker_append E k db ns p ty capabilityServicePrincipal payload ''''"
    show ?thesis
    proof (cases "snd ?ap")
      case (Inl x)
      then have ap: "?ap = (fst ?ap, Inl x)" by (metis prod.collapse)
      from broker_append_Inl [OF ap] have "fst ?ap = db" .
      with Cons.prems(4) Some ev ap have r: "db' = db" "n' = n" "err \<noteq> None" by (auto split: prod.splits)
      show ?thesis by (rule exI [of _ "[]"]) (use r extended_refl [OF Cons.prems(1,2)] in auto)
    next
      case (Inr q)
      then have ap: "?ap = (fst ?ap, Inr q)" by (metis prod.collapse)
      from broker_append_next [OF Cons.prems(1) assms(1) Cons.prems(2,3) ap] obtain e where e:
        "extended (be_Codec E) db (ns, ar_ID (pj_Run p)) [e] (fst ?ap)" "step_event ty payload '''' e"
        "ar_ID (pj_Run q) = ar_ID (pj_Run p)" "run_histories (be_Codec E) (fst ?ap) (ns, ar_ID (pj_Run q)) = Some (es @ [e])"
        "Replay (es @ [e]) = Inr q" .
      from Cons.prems(4) Some ev ap have "recoverActions E (Suc k) (fst ?ap) ns q pending order (Suc n) = (db', n', err)"
        by (auto split: prod.splits)
      from Cons.IH [OF extended_ok [OF e(1)] e(4,5) this] obtain fs where fs:
        "extended (be_Codec E) (fst ?ap) (ns, ar_ID (pj_Run q)) fs db'" "n' = Suc n + length fs"
        "list_all2 (recovery_event pending) (take (length fs) (open_in_order pending order)) fs"
        "err = None \<longrightarrow> length fs = length (open_in_order pending order)" by blast
      have "recovery_event pending a e" using e(2) ev Some by (simp add: recovery_event_def)
      with fs extended_trans1 [OF e(1)] e(3) Some show ?thesis
        by (intro exI [of _ "e # fs"]) (simp add: open_in_order_def)
    qed
  qed
qed

text \<open>A complete recovery closes everything that was open.\<close>

lemma recovery_complete:
  assumes i: "interruptedActions es = Inr (pending, order)"
    and fs: "list_all2 (recovery_event pending) (open_in_order pending order) fs"
  shows "\<not> interrupted a (es @ fs)"
proof -
  have "\<forall>f\<in>set fs. \<forall>b. \<not> requests_action b f"
    using fs recovery_event_closes by (metis in_set_conv_nth list_all2_conv_all_nth)
  then have no: "\<not> interrupted a fs" by (induction fs) auto
  have "\<exists>f\<in>set fs. closes_action a f" if "interrupted a es"
  proof -
    from interruptedActions_Inr [OF i] that have "a \<in> set (open_in_order pending order)" by (auto simp: open_in_order_def)
    then obtain j where "j < length (open_in_order pending order)" "open_in_order pending order ! j = a" by (auto simp: in_set_conv_nth)
    with fs recovery_event_closes show ?thesis by (metis list_all2_conv_all_nth nth_mem)
  qed
  with no show ?thesis by (auto simp: interrupted_append)
qed

section \<open>Recovering every run\<close>

definition projection_key :: "Projection \<Rightarrow> string \<times> string" where
  "projection_key p = (ar_Namespace (pj_Run p), ar_ID (pj_Run p))"

lemma ListAllRuns_Inr:
  assumes ok: "run_store_ok C db" and l: "ListAllRuns C D db = Inr ps"
  shows "distinct (map projection_key ps) \<and> projection_key ` set ps = dom (run_histories C db) \<and>
     (\<forall>p\<in>set ps. \<exists>es. run_histories C db (projection_key p) = Some es \<and> Replay es = Inr p)"
proof -
  let ?rows = "sort_key (\<lambda>h. (hr_namespace h, hr_created_at h, hr_id h)) (db_runs db)"
  let ?f = "\<lambda>row. bind_res (or_error ErrorEventChain ''list_all_runs'' (hr_id row) (rc_DecRun C (hr_json row))) (\<lambda>run.
             ok_then (first_error
                [fail_if (AgentRun_Validate run \<noteq> None) (storeError ErrorEventChain ''list_all_runs'' (hr_id row)),
                 fail_if (ar_Namespace run \<noteq> hr_namespace row \<or> ar_ID run \<noteq> hr_id row \<or>
                    \<not> IsSHA256Digest (hr_last_event_digest row))
                   (storeError ErrorEventChain ''list_all_runs'' (hr_id row))])
               (Inr \<lparr>pj_Run = run, pj_LastEventDigest = hr_last_event_digest row\<rparr>))"
  from l have s: "scan_rows D ''list_all_runs'' '''' ?f 0 ?rows = Inr ps"
    unfolding ListAllRuns_def by (simp only: ok_then_Inr)
  note rs = scan_rows_InrD [OF s]
  have c: "run_store.consistent C (db_runs db) (db_events db)" using ok by (simp add: run_store_ok_def)
  have row: "projection_key p = hkey h \<and> (\<exists>es. run_histories C db (hkey h) = Some es \<and> Replay es = Inr p)"
    if f: "?f h = Inr p" and h: "h \<in> set (db_runs db)" for h p
  proof -
    from c h obtain es q where st: "run_store.stored C (db_events db) h es q" unfolding run_store.consistent_def by blast
    then have hq: "run_store.head_for C q h" by (simp add: run_store.stored_def)
    then have "rc_DecRun C (hr_json h) = Some (pj_Run q)" "hr_last_event_digest h = pj_LastEventDigest q"
      by (auto simp: run_store.head_for_def decode_head_def)
    with f have "p = q" by auto
    moreover have "projection_key q = hkey h" using hq by (simp add: run_store.head_for_def projection_key_def)
    moreover have "run_histories C db (hkey h) = Some es" unfolding run_histories_eq by (rule run_store.stored_history [OF st h])
    moreover have "Replay es = Inr q" using st by (auto simp: run_store.stored_def Replay_def)
    ultimately show ?thesis by blast
  qed
  have len: "length ?rows = length ps" using rs by (rule list_all2_lengthD)
  have point: "projection_key (ps ! i) = hkey (?rows ! i) \<and> (\<exists>es. run_histories C db (hkey (?rows ! i)) = Some es \<and> Replay es = Inr (ps ! i))"
    if "i < length ps" for i
  proof (rule row)
    show "?f (?rows ! i) = Inr (ps ! i)" using list_all2_nthD2 [OF rs that] .
    have "?rows ! i \<in> set ?rows" by (rule nth_mem) (use that len in simp)
    then show "?rows ! i \<in> set (db_runs db)" by simp
  qed
  have keys: "map projection_key ps = map hkey ?rows"
    by (rule nth_equalityI) (use point len in simp_all)
  have "distinct (map hkey ?rows)" using c by (simp add: run_store.consistent_def distinct_map)
  with keys have d: "distinct (map projection_key ps)" by simp
  have "projection_key ` set ps = hkey ` set (db_runs db)" using arg_cong [OF keys, of set] by simp
  then have k: "projection_key ` set ps = dom (run_histories C db)" by (auto simp: run_histories_def dom_def)
  have "\<forall>p\<in>set ps. \<exists>es. run_histories C db (projection_key p) = Some es \<and> Replay es = Inr p"
  proof
    fix p assume "p \<in> set ps"
    then obtain i where i: "i < length ps" "ps ! i = p" by (auto simp: in_set_conv_nth)
    with point [OF i(1)] show "\<exists>es. run_histories C db (projection_key p) = Some es \<and> Replay es = Inr p" by metis
  qed
  with d k show ?thesis by blast
qed

text \<open>What recovery may add to a history.\<close>

definition recovery_of :: "RunEvent list \<Rightarrow> RunEvent list \<Rightarrow> bool" where
  "recovery_of es fs \<longleftrightarrow> fs = [] \<or> (\<exists>pending order. interruptedActions es = Inr (pending, order) \<and>
     list_all2 (recovery_event pending) (take (length fs) (open_in_order pending order)) fs)"

definition grown :: "(string \<times> string \<Rightarrow> RunEvent list option) \<Rightarrow> (string \<times> string \<Rightarrow> RunEvent list option) \<Rightarrow>
    (string \<times> string \<Rightarrow> RunEvent list) \<Rightarrow> bool" where
  "grown h h' f \<longleftrightarrow> (\<forall>key. h' key = map_option (\<lambda>es. es @ f key) (h key))"

lemma recoverRuns_cases:
  assumes "\<forall>i. be_Codec (Es i) = C" and c: "faithful_codec C"
    and "run_store_ok C db" and "distinct (map projection_key ps)"
    and "\<forall>p\<in>set ps. \<exists>es. run_histories C db (projection_key p) = Some es \<and> Replay es = Inr p"
    and "recoverRuns Es i db n ps = (db', n', err)"
  shows "run_store_ok C db' \<and> (\<exists>f. grown (run_histories C db) (run_histories C db') f \<and>
     (\<forall>key. key \<notin> projection_key ` set ps \<longrightarrow> f key = []) \<and>
     (\<forall>p\<in>set ps. \<forall>es. run_histories C db (projection_key p) = Some es \<longrightarrow> recovery_of es (f (projection_key p)) \<and>
        (RunState_Terminal (ar_State (pj_Run p)) \<longrightarrow> f (projection_key p) = []) \<and>
        (err = None \<longrightarrow> \<not> RunState_Terminal (ar_State (pj_Run p)) \<longrightarrow> (\<forall>a. \<not> interrupted a (es @ f (projection_key p))))))"
  using assms(3-6)
proof (induction ps arbitrary: i db n)
  case Nil
  then show ?case by (intro conjI exI [of _ "\<lambda>_. []"]) (auto simp: grown_def option.map_id0 map_option.identity)
next
  case (Cons p ps)
  from Cons.prems(3) obtain es where es: "run_histories C db (projection_key p) = Some es" "Replay es = Inr p" by auto
  have C: "be_Codec (Es i) = C" using assms(1) by simp
  have stay: "?case" if "db' = db" "err \<noteq> None"
    using that Cons.prems(1) by (intro conjI exI [of _ "\<lambda>_. []"]) (auto simp: grown_def map_option.identity recovery_of_def)
  show ?case
  proof (cases "RunState_Terminal (ar_State (pj_Run p))")
    case True
    with Cons.prems(4) have r: "recoverRuns Es (Suc i) db n ps = (db', n', err)" by simp
    have d: "distinct (map projection_key ps)" "projection_key p \<notin> projection_key ` set ps" using Cons.prems(2) by simp_all
    have h: "\<forall>p\<in>set ps. \<exists>es. run_histories C db (projection_key p) = Some es \<and> Replay es = Inr p" using Cons.prems(3) by simp
    from Cons.IH [OF Cons.prems(1) d(1) h r] obtain f where f: "run_store_ok C db'" "grown (run_histories C db) (run_histories C db') f"
      "\<forall>key. key \<notin> projection_key ` set ps \<longrightarrow> f key = []"
      "\<forall>p\<in>set ps. \<forall>es. run_histories C db (projection_key p) = Some es \<longrightarrow> recovery_of es (f (projection_key p)) \<and>
        (RunState_Terminal (ar_State (pj_Run p)) \<longrightarrow> f (projection_key p) = []) \<and>
        (err = None \<longrightarrow> \<not> RunState_Terminal (ar_State (pj_Run p)) \<longrightarrow> (\<forall>a. \<not> interrupted a (es @ f (projection_key p))))" by blast
    have "f (projection_key p) = []" using f(3) d(2) by blast
    with f True show ?thesis by (intro conjI exI [of _ f]) (auto simp: recovery_of_def)
  next
    case False
    show ?thesis
    proof (cases "Events C (be_Driver (Es i) 0) db (ar_Namespace (pj_Run p)) (ar_ID (pj_Run p)) 0")
      case (Inl x)
      with Cons.prems(4) False C have "db' = db" "err \<noteq> None" by auto
      with stay show ?thesis by blast
    next
      case (Inr fs)
      with Events_history [OF Cons.prems(1) es(1) [unfolded projection_key_def]] have fs: "fs = es" by blast
      show ?thesis
      proof (cases "interruptedActions es")
        case (Inl x)
        with Cons.prems(4) False C Inr fs have "db' = db" "err \<noteq> None" by auto
        with stay show ?thesis by blast
      next
        case i: (Inr z)
        obtain pending order where ia: "interruptedActions es = Inr (pending, order)" using i by (cases z) auto
        obtain db1 n1 err1 where ra: "recoverActions (Es i) 1 db (ar_Namespace (pj_Run p)) p pending order n = (db1, n1, err1)"
          by (metis prod_cases3)
        from recoverActions_cases [of "Es i", unfolded C, OF c Cons.prems(1) es(1) [unfolded projection_key_def] es(2) ra]
        obtain gs where gs: "extended C db (projection_key p) gs db1"
          "list_all2 (recovery_event pending) (take (length gs) (open_in_order pending order)) gs"
          "err1 = None \<longrightarrow> length gs = length (open_in_order pending order)" unfolding projection_key_def by blast
        have rec: "recovery_of es gs" using ia gs(2) by (auto simp: recovery_of_def)
        show ?thesis
        proof (cases err1)
          case (Some e1)
          with Cons.prems(4) False C Inr fs ia ra have "db' = db1" "err = Some e1" by auto
          moreover have "\<forall>x\<in>set ps. projection_key x \<noteq> projection_key p"
            using Cons.prems(2) by (metis distinct.simps(2) image_eqI list.simps(9) set_map)
          ultimately show ?thesis using gs(1) es rec False extended_ok [OF gs(1)]
            by (intro conjI exI [of _ "(\<lambda>_. [])(projection_key p := gs)"])
              (auto simp: grown_def extended_def map_option.identity recovery_of_def)
        next
          case None
          with Cons.prems(4) False C Inr fs ia ra have r: "recoverRuns Es (Suc i) db1 n1 ps = (db', n', err)" by auto
          have closed: "\<not> interrupted a (es @ gs)" for a by (rule recovery_complete [OF ia]) (use gs None in simp)
          have d: "distinct (map projection_key ps)" "projection_key p \<notin> projection_key ` set ps" using Cons.prems(2) by simp_all
          have h1: "run_histories C db1 key = (if key = projection_key p then Some (es @ gs) else run_histories C db key)" for key
            using gs(1) es(1) by (auto simp: extended_def)
          have other: "\<forall>x\<in>set ps. projection_key x \<noteq> projection_key p" using d(2) by (metis image_eqI)
          have h: "\<forall>p\<in>set ps. \<exists>es. run_histories C db1 (projection_key p) = Some es \<and> Replay es = Inr p"
            using Cons.prems(3) other by (simp add: h1)
          from Cons.IH [OF extended_ok [OF gs(1)] d(1) h r] obtain f where f: "run_store_ok C db'"
            "grown (run_histories C db1) (run_histories C db') f" "\<forall>key. key \<notin> projection_key ` set ps \<longrightarrow> f key = []"
            "\<forall>p\<in>set ps. \<forall>es. run_histories C db1 (projection_key p) = Some es \<longrightarrow> recovery_of es (f (projection_key p)) \<and>
              (RunState_Terminal (ar_State (pj_Run p)) \<longrightarrow> f (projection_key p) = []) \<and>
              (err = None \<longrightarrow> \<not> RunState_Terminal (ar_State (pj_Run p)) \<longrightarrow> (\<forall>a. \<not> interrupted a (es @ f (projection_key p))))"
            by blast
          have fp: "f (projection_key p) = []" using f(3) d(2) by blast
          have "grown (run_histories C db) (run_histories C db') (f(projection_key p := gs))"
            using f(2) h1 es(1) fp by (auto simp: grown_def)
          moreover have "\<forall>key. key \<notin> projection_key ` set (p # ps) \<longrightarrow> (f(projection_key p := gs)) key = []"
            using f(3) by simp
          moreover have "recovery_of es (f (projection_key x)) \<and> (RunState_Terminal (ar_State (pj_Run x)) \<longrightarrow> f (projection_key x) = []) \<and>
              (err = None \<longrightarrow> \<not> RunState_Terminal (ar_State (pj_Run x)) \<longrightarrow> (\<forall>a. \<not> interrupted a (es @ f (projection_key x))))"
            if "x \<in> set ps" "run_histories C db (projection_key x) = Some es" for x es
            using f(4) other that h1 [of "projection_key x"] by simp
          then have "\<forall>x\<in>set (p # ps). \<forall>es. run_histories C db (projection_key x) = Some es \<longrightarrow>
              recovery_of es ((f(projection_key p := gs)) (projection_key x)) \<and>
              (RunState_Terminal (ar_State (pj_Run x)) \<longrightarrow> (f(projection_key p := gs)) (projection_key x) = []) \<and>
              (err = None \<longrightarrow> \<not> RunState_Terminal (ar_State (pj_Run x)) \<longrightarrow>
                (\<forall>a. \<not> interrupted a (es @ (f(projection_key p := gs)) (projection_key x))))"
            using other rec False closed es(1) by simp
          ultimately show ?thesis using f(1) by blast
        qed
      qed
    qed
  qed
qed

lemma Broker_Recover_cases:
  assumes C: "\<forall>i. be_Codec (Es i) = C" and c: "faithful_codec C" and ok: "run_store_ok C db"
    and r: "Broker_Recover Es db = (db', n, err)"
  obtains f where "run_store_ok C db'" and "grown (run_histories C db) (run_histories C db') f"
    and "\<And>key es p. run_histories C db key = Some es \<Longrightarrow> Replay es = Inr p \<Longrightarrow> recovery_of es (f key) \<and>
       (RunState_Terminal (ar_State (pj_Run p)) \<longrightarrow> f key = []) \<and>
       (err = None \<longrightarrow> \<not> RunState_Terminal (ar_State (pj_Run p)) \<longrightarrow> (\<forall>a. \<not> interrupted a (es @ f key)))"
proof (cases "ListAllRuns C (be_Driver (Es 0) 0) db")
  case (Inl x)
  with r C have "db' = db" "err \<noteq> None" by (auto simp: Broker_Recover_def)
  with ok that [of "\<lambda>_. []"] show thesis by (auto simp: grown_def map_option.identity recovery_of_def)
next
  case (Inr ps)
  with r C have rr: "recoverRuns Es 1 db 0 ps = (db', n, err)" by (simp add: Broker_Recover_def)
  note l = ListAllRuns_Inr [OF ok Inr]
  from recoverRuns_cases [OF C c ok _ _ rr] l obtain f where f: "run_store_ok C db'" "grown (run_histories C db) (run_histories C db') f"
    "\<forall>p\<in>set ps. \<forall>es. run_histories C db (projection_key p) = Some es \<longrightarrow> recovery_of es (f (projection_key p)) \<and>
        (RunState_Terminal (ar_State (pj_Run p)) \<longrightarrow> f (projection_key p) = []) \<and>
        (err = None \<longrightarrow> \<not> RunState_Terminal (ar_State (pj_Run p)) \<longrightarrow> (\<forall>a. \<not> interrupted a (es @ f (projection_key p))))" by blast
  show thesis
  proof (rule that [OF f(1,2)])
    fix key es p assume h: "run_histories C db key = Some es" "Replay es = Inr p"
    then have "key \<in> projection_key ` set ps" using l by auto
    then obtain q where q: "q \<in> set ps" "key = projection_key q" by auto
    with l h have "q = p" by fastforce
    with f(3) q h(1) show "recovery_of es (f key) \<and>
       (RunState_Terminal (ar_State (pj_Run p)) \<longrightarrow> f key = []) \<and>
       (err = None \<longrightarrow> \<not> RunState_Terminal (ar_State (pj_Run p)) \<longrightarrow> (\<forall>a. \<not> interrupted a (es @ f key)))" by blast
  qed
qed

text \<open>Recovery denies what never reached authorization and marks the rest unknown.\<close>

lemma recovery_of_verdict:
  assumes "recovery_of es fs" and "e \<in> set fs"
  shows "\<exists>a. interrupted a es \<and> closes_action a e \<and>
     (ev_Type e = EventActionDenied \<or> ev_Type e = EventActionUnknown \<and> (\<exists>f\<in>set es. \<exists>c. advances_action a c f))"
proof -
  from assms obtain pending order where i: "interruptedActions es = Inr (pending, order)"
    and l: "list_all2 (recovery_event pending) (take (length fs) (open_in_order pending order)) fs"
    unfolding recovery_of_def by auto
  from assms(2) obtain k where k: "k < length fs" "fs ! k = e" by (auto simp: in_set_conv_nth)
  let ?a = "take (length fs) (open_in_order pending order) ! k"
  have r: "recovery_event pending ?a e" using list_all2_nthD2 [OF l k(1)] k(2) by simp
  have "?a \<in> set (take (length fs) (open_in_order pending order))"
    by (rule nth_mem) (use list_all2_lengthD [OF l] k(1) in simp)
  then have "?a \<in> set (open_in_order pending order)" by (rule in_set_takeD)
  then obtain c where c: "pending ?a = Some c" by (auto simp: open_in_order_def)
  then have int: "interrupted ?a es" using interruptedActions_Inr(1) [OF i, of ?a] by simp
  have "c = '''' \<or> (\<exists>f\<in>set es. advances_action ?a c f)" using interruptedActions_Inr(2) [OF i c] by blast
  with int recovery_event_closes [OF r] recovery_event_type [OF r] c show ?thesis by (metis option.sel)
qed

lemma recovery_of_neutral: "recovery_of es fs \<Longrightarrow> installed_grants fs = [] \<and> authorizations c fs = 0 \<and> (\<forall>e\<in>set fs. \<not> requests_action a e)"
proof -
  assume "recovery_of es fs"
  then have t: "\<forall>e\<in>set fs. ev_Type e = EventActionDenied \<or> ev_Type e = EventActionUnknown" using recovery_of_verdict by blast
  then have "\<forall>e\<in>set fs. granted_by e = [] \<and> \<not> authorizes c e \<and> \<not> requests_action a e"
    by (auto simp: granted_by_def authorizes_def requests_action_def)
  then show ?thesis by (induction fs) auto
qed

section \<open>Sequences of executions and recoveries\<close>

text \<open>Whatever the broker does to the database and the operating system, in any order.\<close>

inductive broker_steps :: "'j RunCodec \<Rightarrow> 'j DB \<times> 'w \<Rightarrow> 'j DB \<times> 'w \<Rightarrow> bool" for C s where
  start: "broker_steps C s s"
| execute: "broker_steps C s (db, w) \<Longrightarrow> be_Codec E = C \<Longrightarrow> Broker_Execute E db w ns input = (db', w', out, err) \<Longrightarrow>
    broker_steps C s (db', w')"
| recover: "broker_steps C s (db, w) \<Longrightarrow> \<forall>i. be_Codec (Es i) = C \<Longrightarrow>
    Broker_Recover (Es :: nat \<Rightarrow> ('j, 'w) BrokerEnv) db = (db', n, err) \<Longrightarrow>
    broker_steps C s (db', w)"

text \<open>A property of histories that no execution and no recovery breaks.\<close>

lemma broker_steps_invariant:
  assumes "broker_steps C (s :: 'j DB \<times> 'w) s'" and c: "faithful_codec C" and ok: "run_store_ok C (fst s)"
    and start: "\<And>key es. run_histories C (fst s) key = Some es \<Longrightarrow> I es"
    and execute: "\<And>es p r now eff (w :: 'w) fs status w'. I es \<Longrightarrow> Replay es = Inr p \<Longrightarrow> distinct (map cg_ID (installed_grants es)) \<Longrightarrow>
       ensureUniqueAttempt r es = None \<Longrightarrow> action_trace es now r eff w fs status w' \<Longrightarrow> I (es @ fs)"
    and recover: "\<And>es fs. I es \<Longrightarrow> recovery_of es fs \<Longrightarrow> I (es @ fs)"
  shows "run_store_ok C (fst s') \<and> (\<forall>key es. run_histories C (fst s') key = Some es \<longrightarrow> I es)"
  using assms(1)
proof induction
  case start
  then show ?case using ok assms(4) by blast
next
  case (execute db w E ns input db' w' out err)
  then have ok': "run_store_ok (be_Codec E) db" and I: "\<forall>key es. run_histories C db key = Some es \<longrightarrow> I es"
    and c': "faithful_codec (be_Codec E)" using c by auto
  from ok' c' execute(3) show ?case
  proof (cases rule: Broker_Execute_cases)
    case 1
    with ok' I execute(2) show ?thesis by simp
  next
    case (2 es p grants uses)
    from 2(8) obtain fs where x: "extended C db (ns, aq_RunID (xr_Action input)) fs db'"
      and t: "action_trace es (be_Now E 3) (xr_Action input) (\<lambda>g. effect_of E (pj_Run p) g (xr_Action input) (xr_InputBase64 input) w) w fs (oc_Status out) w'"
      unfolding traced_def execute(2) by blast
    have "I es" using I 2(1) execute(2) by simp
    then have "I (es @ fs)"
      by (rule assms(5) [OF _ 2(2) _ 2(6) t]) (use GrantsFromEvents_Inr(1,2) [OF 2(7,2)] in simp)
    with x I 2(1) execute(2) show ?thesis by (auto simp: extended_def)
  qed
next
  case (recover db w Es db' n err)
  then have ok': "run_store_ok C db" and I: "\<forall>key es. run_histories C db key = Some es \<longrightarrow> I es" by auto
  from recover(2) c ok' recover(3) obtain f where f: "run_store_ok C db'" "grown (run_histories C db) (run_histories C db') f"
    "\<And>key es p. run_histories C db key = Some es \<Longrightarrow> Replay es = Inr p \<Longrightarrow> recovery_of es (f key)"
    by (rule Broker_Recover_cases) blast
  have "I es" if "run_histories C db' key = Some es" for key es
  proof -
    obtain ns i where k: "key = (ns, i)" by (cases key)
    from that f(2) obtain es0 where es: "run_histories C db key = Some es0" "es = es0 @ f key" by (auto simp: grown_def k)
    from run_history_head [OF ok' es(1) [unfolded k]] obtain p where "Replay es0 = Inr p" by blast
    with f(3) es assms(6) I show ?thesis by blast
  qed
  with f(1) show ?case by simp
qed

section \<open>Attempts\<close>

text \<open>The actions a history has requested, in order; no two share an identifier or an idempotency key.\<close>

definition requested_by :: "RunEvent \<Rightarrow> ActionRequest list" where
  "requested_by e = (case (ev_Type e, ev_Payload e) of (EventActionRequested, ActionRequestedPayload r) \<Rightarrow> [r] | _ \<Rightarrow> [])"

definition attempts :: "RunEvent list \<Rightarrow> ActionRequest list" where
  "attempts es = concat (map requested_by es)"

definition attempts_distinct :: "RunEvent list \<Rightarrow> bool" where
  "attempts_distinct es \<longleftrightarrow> distinct (map aq_ID (attempts es)) \<and> distinct (map aq_IdempotencyKey (attempts es))"

lemma attempts_append [simp]: "attempts (es @ fs) = attempts es @ attempts fs"
  by (simp add: attempts_def)

lemma not_requested: "ev_Type e \<noteq> EventActionRequested \<Longrightarrow> requested_by e = []"
  by (simp add: requested_by_def split: RunEventType.splits)

lemma no_attempts: "\<forall>e\<in>set fs. ev_Type e \<noteq> EventActionRequested \<Longrightarrow> attempts fs = []"
  by (simp add: attempts_def not_requested)

lemma effect_event_range: "effect_event eff \<in> {EventActionCommitted, EventActionFailed, EventActionUnknown}"
  by (simp add: effect_event_def split: sum.split)

lemma authorized_trace_types:
  assumes "authorized_trace g r w eff fs status w'"
  shows "map ev_Type fs = take (length fs) [EventActionAuthorized, EventActionExecuting, effect_event (snd eff)] \<and> length fs \<le> 3"
  using assms
proof (cases rule: authorized_trace.cases [of "(g, r, w, eff, fs, status, w')"])
  case (2 g' r' w0 eff' e st w1)
  with assms show ?thesis by (auto simp: decides_def step_event_def)
next
  case (3 g' r' w0 eff' e f gs st w1)
  with assms have "ev_Type e = EventActionAuthorized" "ev_Type f = EventActionExecuting" "closing g r (snd eff) gs status"
    by (auto simp: decides_def starts_def step_event_def)
  with 3 show ?thesis by (auto simp: closing_def closes_def step_event_def)
qed simp

lemma authorized_trace_attempts:
  assumes "authorized_trace g r w eff fs status w'"
  shows "attempts fs = []"
proof (rule no_attempts)
  have "set (map ev_Type fs) \<subseteq> {EventActionAuthorized, EventActionExecuting, effect_event (snd eff)}"
    using authorized_trace_types [OF assms] by (metis (no_types, lifting) list.set(1,2) set_take_subset)
  then show "\<forall>e\<in>set fs. ev_Type e \<noteq> EventActionRequested" using effect_event_range [of "snd eff"] by auto
qed

lemma action_trace_attempts:
  assumes "action_trace es now r eff w fs status w'"
  shows "attempts fs = [] \<or> attempts fs = [r]"
  using assms
proof cases
  case (unrefused e)
  then show ?thesis by (simp add: attempts_def requested_by_def step_event_def)
next
  case (refused e f)
  then have "requested_by f = []" by (auto simp: refuses_def step_event_def requested_by_def)
  with refused show ?thesis by (simp add: attempts_def requested_by_def step_event_def)
next
  case (authorized e g gs)
  with authorized_trace_attempts [OF authorized(5)] show ?thesis by (simp add: attempts_def requested_by_def step_event_def)
qed (simp add: attempts_def)

lemma attempts_fresh:
  assumes "ensureUniqueAttempt r es = None" and "x \<in> set (attempts es)"
  shows "aq_ID x \<noteq> aq_ID r \<and> aq_IdempotencyKey x \<noteq> aq_IdempotencyKey r"
proof -
  from assms(2) obtain e where "e \<in> set es" "ev_Type e = EventActionRequested" "ev_Payload e = ActionRequestedPayload x"
    by (auto simp: attempts_def requested_by_def split: RunEventType.splits RunPayload.splits)
  with ensureUniqueAttempt_None [OF assms(1)] show ?thesis by fastforce
qed

lemma attempts_distinct_extended:
  assumes "attempts_distinct es" and "ensureUniqueAttempt r es = None" and "action_trace es now r eff w fs status w'"
  shows "attempts_distinct (es @ fs)"
  using action_trace_attempts [OF assms(3)] attempts_fresh [OF assms(2)] assms(1) by (auto simp: attempts_distinct_def)

lemma recovery_of_attempts: "recovery_of es fs \<Longrightarrow> attempts fs = []"
  using recovery_of_verdict by (intro no_attempts) force
end
