(* ===== verification/Driver_Safety.thy ===== *)
theory Driver_Safety
  imports Filesystem_Driver
begin

text \<open>
  What the filesystem driver guarantees: it changes nothing unless a write has passed every guard, the
  path written lies in the run's workspace and outside control metadata, and on an operating system
  that keeps its documented promises the file is replaced as a whole or not at all.
\<close>

section \<open>Guards\<close>

text \<open>A target that a grant lets a run touch: the path below the run's workspace.\<close>

definition within_grant :: "AgentRun \<Rightarrow> CapabilityGrant \<Rightarrow> ActionRequest \<Rightarrow> string \<Rightarrow> bool" where
  "within_grant run grant request relative \<longleftrightarrow>
     cg_SubjectRunID grant = ar_ID run \<and> aq_RunID request = ar_ID run \<and>
     aq_Operation request \<in> set (cg_Operations grant) \<and>
     rs_Kind (cg_Resource grant) = ''filesystem'' \<and> rs_Kind (aq_Resource request) = ''filesystem'' \<and>
     cc_WorkspaceRoot (cg_Conditions grant) = ar_Workspace run \<and>
     MatchResource (rs_Pattern (cg_Resource grant)) (rs_Pattern (aq_Resource request)) \<and>
     components (rs_Pattern (aq_Resource request)) = components (ar_Workspace run) @ components relative \<and>
     (\<forall>c\<in>set (components (rs_Pattern (aq_Resource request))). proper_component c \<and> \<not> controlMetadataComponent c)"

lemma NormalizeArguments_write:
  "NormalizeArguments A FilesystemWrite raw = Inr (p, d, n) \<longleftrightarrow>
     (\<exists>a. ac_DecodeWrite A raw = Inr a \<and> logical_path (fw_Path a) \<and> validDigest (fw_ContentDigest a) \<and>
        ac_EncodeWrite A a = Some n \<and> p = fw_Path a \<and> d = fw_ContentDigest a)"
  by (auto simp: NormalizeArguments_def FilesystemRead_def FilesystemWrite_def CleanLogicalPath_None
      split: sum.splits option.splits if_splits)

lemma checkAction_Inr:
  assumes "checkAction A run grant request = Inr (logicalPath, contentDigest, relative)"
  shows "within_grant run grant request relative" "logicalPath = rs_Pattern (aq_Resource request)"
    "\<exists>n. NormalizeArguments A (aq_Operation request) (aq_Arguments request) = Inr (logicalPath, contentDigest, n) \<and>
       aq_ArgumentsDigest request = DigestBytes A n"
proof -
  let ?ws = "ar_Workspace run"
  from assms have ids: "cg_SubjectRunID grant = ar_ID run" "aq_RunID request = ar_ID run"
      "aq_Operation request \<in> set (cg_Operations grant)"
      "rs_Kind (cg_Resource grant) = ''filesystem''" "rs_Kind (aq_Resource request) = ''filesystem''"
    and p: "rs_Pattern (aq_Resource request) = logicalPath" "MatchResource (rs_Pattern (cg_Resource grant)) logicalPath"
      "cc_WorkspaceRoot (cg_Conditions grant) = ?ws"
    and meta: "\<not> containsControlMetadataPath ?ws" "\<not> containsControlMetadataPath logicalPath"
    and rel: "WorkspaceRelative ?ws logicalPath = Some relative"
    and n: "\<exists>n. NormalizeArguments A (aq_Operation request) (aq_Arguments request) = Inr (logicalPath, contentDigest, n) \<and>
       aq_ArgumentsDigest request = DigestBytes A n"
    by (auto simp: checkAction_def split: option.splits)
  from rel have r: "logical_path logicalPath" "logicalPath = ?ws @ CHR ''/'' # relative"
    unfolding WorkspaceRelative_iff by blast+
  then have c: "components logicalPath = components ?ws @ components relative" by (simp only: components_append)
  have "\<forall>x\<in>set (components logicalPath). proper_component x \<and> \<not> controlMetadataComponent x"
    using r(1) meta(2) by (auto simp: logical_path_def containsControlMetadataPath_def list_ex_iff)
  then show "within_grant run grant request relative" using ids p c by (simp add: within_grant_def)
  show "logicalPath = rs_Pattern (aq_Resource request)" using p(1) by simp
  show "\<exists>n. NormalizeArguments A (aq_Operation request) (aq_Arguments request) = Inr (logicalPath, contentDigest, n) \<and>
       aq_ArgumentsDigest request = DigestBytes A n" by (rule n)
qed

text \<open>A write that the guards let through, in a given state.\<close>

definition write_admitted :: "ArgumentCodec \<Rightarrow> 'w OS \<Rightarrow> AgentRun \<Rightarrow> CapabilityGrant \<Rightarrow> ActionRequest \<Rightarrow> string \<Rightarrow> string \<Rightarrow> 'w \<Rightarrow> bool" where
  "write_admitted A os run grant request relative input w \<longleftrightarrow>
     aq_Operation request = FilesystemWrite \<and> within_grant run grant request relative \<and>
     (\<exists>a n. ac_DecodeWrite A (aq_Arguments request) = Inr a \<and> ac_EncodeWrite A a = Some n \<and>
        aq_ArgumentsDigest request = DigestBytes A n \<and> fw_Path a = rs_Pattern (aq_Resource request) \<and>
        fw_ContentDigest a = DigestBytes A input) \<and>
     int (length input) \<le> outputLimit grant \<and> os_OpenRepository os w \<and> os_OpenWorkspace os (ar_Workspace run) w \<and>
     rejectSymlinkComponents os '''' (ar_Workspace run) (aq_ID request) True w = None \<and>
     rejectSymlinkComponents os (ar_Workspace run) relative (aq_ID request) False w = None"

lemma no_unknown_effect:
  "NormalizeArguments A operation raw \<noteq> Inl UnknownEffect" "checkAction A run grant request \<noteq> Inl UnknownEffect"
  "rejectSymlinks lstat resource cur cs \<noteq> Some UnknownEffect"
proof -
  show n: "NormalizeArguments A operation raw \<noteq> Inl UnknownEffect" for operation raw
    by (auto simp: NormalizeArguments_def schemaError_def split: sum.splits option.splits)
  show "checkAction A run grant request \<noteq> Inl UnknownEffect"
    using n [of "aq_Operation request" "aq_Arguments request"]
    by (auto simp: checkAction_def ok_then_def bind_res_def fail_if_def denied_def schemaError_def
        split: option.splits sum.splits dest!: first_error_Some_mem split: if_splits)
  show "rejectSymlinks lstat resource cur cs \<noteq> Some UnknownEffect"
    by (induction lstat resource cur cs rule: rejectSymlinks.induct) (auto simp: Let_def denied_def split: lstat_result.splits)
qed

lemma Filesystem_Execute_cases:
  assumes "Filesystem_Execute A os run grant request input w = (w', result)"
  obtains (unchanged) "w' = w" and "aq_Operation request = FilesystemWrite \<longrightarrow> (\<exists>err. result = Inl err \<and> err \<noteq> UnknownEffect)"
  | (written) relative where "write_admitted A os run grant request relative input w"
    and "writeFile A os (ar_Workspace run) relative input w = (w', result)"
proof (cases "checkAction A run grant request")
  case (Inl err)
  with assms no_unknown_effect(2) [of A run grant request] unchanged show thesis by (auto simp: Filesystem_Execute_def)
next
  case (Inr z)
  then obtain logicalPath contentDigest relative where c: "checkAction A run grant request = Inr (logicalPath, contentDigest, relative)"
    by (cases z) auto
  let ?open = "os_OpenRepository os w \<and> rejectSymlinkComponents os '''' (ar_Workspace run) (aq_ID request) True w = None \<and>
    os_OpenWorkspace os (ar_Workspace run) w"
  let ?put = "int (length input) \<le> outputLimit grant \<and> DigestBytes A input = contentDigest \<and>
    rejectSymlinkComponents os (ar_Workspace run) relative (aq_ID request) False w = None"
  have sym: "rejectSymlinkComponents os root p i b w \<noteq> Some UnknownEffect" for root p i b
    using no_unknown_effect(3) by (simp add: rejectSymlinkComponents_def Let_def)
  show thesis
  proof (cases "aq_Operation request = FilesystemWrite \<and> ?open \<and> ?put")
    case True
    have x: "writeFile A os (ar_Workspace run) relative input w = (w', result)"
      using assms True c by (simp add: Filesystem_Execute_def Let_def FilesystemRead_def FilesystemWrite_def)
    note g = checkAction_Inr [OF c]
    from g(3) True g(2) have "\<exists>a n. ac_DecodeWrite A (aq_Arguments request) = Inr a \<and> ac_EncodeWrite A a = Some n \<and>
          aq_ArgumentsDigest request = DigestBytes A n \<and> fw_Path a = rs_Pattern (aq_Resource request) \<and>
          fw_ContentDigest a = DigestBytes A input"
      by (auto simp: NormalizeArguments_write)
    with True g(1) have "write_admitted A os run grant request relative input w" by (simp add: write_admitted_def)
    with x written show thesis by blast
  next
    case False
    have "w' = w \<and> (aq_Operation request = FilesystemWrite \<longrightarrow> (\<exists>err. result = Inl err \<and> err \<noteq> UnknownEffect))"
      using assms False c sym
      by (auto simp: Filesystem_Execute_def Let_def FilesystemRead_def FilesystemWrite_def denied_def schemaError_def
          split: option.splits if_splits)
    with unchanged show thesis by blast
  qed
qed

text \<open>No component on the way to a checked path is a symbolic link, as far as the path exists.\<close>

fun joined :: "string \<Rightarrow> string list \<Rightarrow> string" where
  "joined cur [] = cur"
| "joined cur (c # cs) = joined (path_Join2 cur c) cs"

lemma rejectSymlinks_None:
  "rejectSymlinks lstat resource cur cs = None \<Longrightarrow> prefix ds cs \<Longrightarrow> ds \<noteq> [] \<Longrightarrow>
     (\<forall>es. es \<noteq> [] \<longrightarrow> prefix es ds \<longrightarrow> lstat (joined cur es) \<noteq> NotExist) \<Longrightarrow> lstat (joined cur ds) = FileInfo False"
proof (induction lstat resource cur cs arbitrary: ds rule: rejectSymlinks.induct)
  case (2 lstat resource cur c cs)
  then obtain ds' where ds: "ds = c # ds'" "prefix ds' cs" by (cases ds) auto
  have "lstat (path_Join2 cur c) \<noteq> NotExist" using "2.prems"(4) ds(1) by (metis joined.simps list.distinct(1) prefix_code(1) Cons_prefix_Cons)
  with "2.prems"(1) have l: "lstat (path_Join2 cur c) = FileInfo False" "rejectSymlinks lstat resource (path_Join2 cur c) cs = None"
    by (auto simp: Let_def split: lstat_result.splits if_splits)
  show ?case
  proof (cases "ds' = []")
    case True
    with ds l show ?thesis by simp
  next
    case False
    have "lstat (joined (path_Join2 cur c) ds') = FileInfo False"
    proof (rule "2.IH" [OF refl l(1) _ l(2) ds(2) False])
      show "\<forall>es. es \<noteq> [] \<longrightarrow> prefix es ds' \<longrightarrow> lstat (joined (path_Join2 cur c) es) \<noteq> NotExist"
        using "2.prems"(4) ds(1) by (metis Cons_prefix_Cons joined.simps(2) list.distinct(1))
    qed simp
    with ds show ?thesis by simp
  qed
qed simp

text \<open>\<open>real_directories\<close>: none of the directories with these components below a root is a symbolic link, as far as they exist.\<close>

definition real_directories :: "'w OS \<Rightarrow> string \<Rightarrow> string list \<Rightarrow> 'w \<Rightarrow> bool" where
  "real_directories os root cs w \<longleftrightarrow> (\<forall>ds. ds \<noteq> [] \<longrightarrow> prefix ds cs \<longrightarrow>
     (\<forall>es. es \<noteq> [] \<longrightarrow> prefix es ds \<longrightarrow> os_Lstat os root (joined '''' es) w \<noteq> NotExist) \<longrightarrow>
     os_Lstat os root (joined '''' ds) w = FileInfo False)"

lemma rejectSymlinkComponents_None:
  assumes "rejectSymlinkComponents os root path resource includeLeaf w = None"
  shows "real_directories os root (if includeLeaf then components path else butlast (components path)) w"
proof -
  let ?cs = "if includeLeaf then components path else butlast (components path)"
  have r: "rejectSymlinks (\<lambda>p. os_Lstat os root p w) resource '''' ?cs = None"
    using assms by (simp only: rejectSymlinkComponents_def Let_def)
  show ?thesis
    unfolding real_directories_def
  proof (intro allI impI)
    fix ds assume "ds \<noteq> []" "prefix ds ?cs"
      "\<forall>es. es \<noteq> [] \<longrightarrow> prefix es ds \<longrightarrow> os_Lstat os root (joined '''' es) w \<noteq> NotExist"
    with rejectSymlinks_None [OF r] show "os_Lstat os root (joined '''' ds) w = FileInfo False" by blast
  qed
qed

section \<open>What a write does to the operating system\<close>

text \<open>
  \<open>written os root temporary target data\<close>: the states that can be reached by the operations of one write below
  \<open>root\<close>, each of which may have failed: the temporary file is created, gets the data, is synchronised, closed and
  removed, it is renamed to the target, and the directory of the target is synchronised. Nothing else is asked of
  the operating system, and nothing below another root.
\<close>

inductive written :: "'w OS \<Rightarrow> string \<Rightarrow> string \<Rightarrow> string \<Rightarrow> string \<Rightarrow> 'w \<Rightarrow> 'w \<Rightarrow> bool"
  for os root temporary target data w0 where
  start: "written os root temporary target data w0 w0"
| create: "written os root temporary target data w0 w \<Longrightarrow>
    written os root temporary target data w0 (fst (os_Create os root temporary w))"
| fill: "written os root temporary target data w0 w \<Longrightarrow>
    written os root temporary target data w0 (fst (os_Write os root temporary data w))"
| flush: "written os root temporary target data w0 w \<Longrightarrow>
    written os root temporary target data w0 (fst (os_Sync os root temporary w))"
| close: "written os root temporary target data w0 w \<Longrightarrow>
    written os root temporary target data w0 (fst (os_Close os root temporary w))"
| remove: "written os root temporary target data w0 w \<Longrightarrow>
    written os root temporary target data w0 (os_Remove os root temporary w)"
| rename: "written os root temporary target data w0 w \<Longrightarrow>
    written os root temporary target data w0 (fst (os_Rename os root temporary target w))"
| flush_directory: "written os root temporary target data w0 w \<Longrightarrow>
    written os root temporary target data w0 (fst (os_SyncDirectory os root (path_Dir target) w))"

lemma writeFile_written:
  assumes x: "writeFile A os root relative data w = (w', result)" and "w' \<noteq> w"
  shows "\<exists>random. os_Random os w = Some random \<and> written os root (temporaryName relative random) relative data w w'"
proof -
  from assms obtain random where r: "os_Random os w = Some random" by (cases "os_Random os w") (auto simp: writeFile_def)
  let ?t = "temporaryName relative random"
  let ?W = "written os root ?t relative data w"
  obtain w1 b1 where c1: "os_Create os root ?t w = (w1, b1)" by fastforce
  obtain w2 b2 where c2: "os_Write os root ?t data w1 = (w2, b2)" by fastforce
  obtain w3 b3 where c3: "os_Sync os root ?t w2 = (w3, b3)" by fastforce
  obtain w4 b4 where c4: "os_Close os root ?t w3 = (w4, b4)" by fastforce
  obtain w5 b5 where c5: "os_Rename os root ?t relative w4 = (w5, b5)" by fastforce
  obtain w6 b6 where c6: "os_SyncDirectory os root (path_Dir relative) w5 = (w6, b6)" by fastforce
  have w1: "?W w1" using written.create [OF written.start] c1 by (metis fst_conv)
  have w2: "?W w2" using written.fill [OF w1] c2 by (metis fst_conv)
  have w3: "?W w3" using written.flush [OF w2] c3 by (metis fst_conv)
  have w4: "?W w4" using written.close [OF w3] c4 by (metis fst_conv)
  have w5: "?W w5" using written.rename [OF w4] c5 by (metis fst_conv)
  have w6: "?W w6" using written.flush_directory [OF w5] c6 by (metis fst_conv)
  have ab: "?W (abandon os root ?t wx)" if "?W wx" for wx
    unfolding abandon_def by (rule written.remove [OF written.close [OF that]])
  have "?W w'"
    using x r c1 c2 c3 c4 c5 c6 w1 ab [OF w2] ab [OF w3] ab [OF w4] ab [OF w5] written.close [OF w6]
    by (auto simp: writeFile_def Let_def split: if_splits)
  with r show ?thesis by blast
qed

section \<open>The documented behaviour of the operating system\<close>

text \<open>
  \<open>view w p\<close> is the content of the file \<open>p\<close> below the root, if there is one. Creating is exclusive; writing,
  synchronising and closing touch the named file only; a rename replaces the target by the source in one
  step or, where it fails, changes nothing.
\<close>

definition posix_root :: "'w OS \<Rightarrow> string \<Rightarrow> ('w \<Rightarrow> string \<Rightarrow> string option) \<Rightarrow> bool" where
  "posix_root os root view \<longleftrightarrow> (\<forall>w p q data.
     (case os_Create os root p w of (w', ok) \<Rightarrow>
        view w' = (if ok then (view w)(p := Some '''') else view w) \<and> (ok \<longrightarrow> view w p = None)) \<and>
     (case os_Write os root p data w of (w', ok) \<Rightarrow> (\<forall>x. x \<noteq> p \<longrightarrow> view w' x = view w x) \<and>
        (ok \<longrightarrow> (\<forall>c. view w p = Some c \<longrightarrow> view w' p = Some (c @ data)))) \<and>
     view (fst (os_Sync os root p w)) = view w \<and> view (fst (os_Close os root p w)) = view w \<and>
     view (fst (os_SyncDirectory os root p w)) = view w \<and>
     (case os_Rename os root p q w of (w', ok) \<Rightarrow> view w' = (if ok then (view w)(p := None, q := view w p) else view w)) \<and>
     (\<forall>x. x \<noteq> p \<longrightarrow> view (os_Remove os root p w) x = view w x))"

lemma posix_rootD:
  assumes "posix_root os root view"
  shows "os_Create os root p w = (w', ok) \<Longrightarrow> view w' = (if ok then (view w)(p := Some '''') else view w)"
    "os_Write os root p data w = (w', ok) \<Longrightarrow> x \<noteq> p \<Longrightarrow> view w' x = view w x"
    "os_Write os root p data w = (w', True) \<Longrightarrow> view w p = Some c \<Longrightarrow> view w' p = Some (c @ data)"
    "os_Sync os root p w = (w', ok) \<Longrightarrow> view w' = view w"
    "os_Close os root p w = (w', ok) \<Longrightarrow> view w' = view w"
    "os_SyncDirectory os root p w = (w', ok) \<Longrightarrow> view w' = view w"
    "os_Rename os root p q w = (w', ok) \<Longrightarrow> view w' = (if ok then (view w)(p := None, q := view w p) else view w)"
    "x \<noteq> p \<Longrightarrow> view (os_Remove os root p w) x = view w x"
proof -
  note r = assms [unfolded posix_root_def, THEN spec, THEN spec, THEN spec, THEN spec]
  show "os_Create os root p w = (w', ok) \<Longrightarrow> view w' = (if ok then (view w)(p := Some '''') else view w)"
    using r [of w p data q] by simp
  show "os_Write os root p data w = (w', ok) \<Longrightarrow> x \<noteq> p \<Longrightarrow> view w' x = view w x"
    using r [of w p data q] by simp
  show "os_Write os root p data w = (w', True) \<Longrightarrow> view w p = Some c \<Longrightarrow> view w' p = Some (c @ data)"
    using r [of w p data q] by simp
  show "os_Sync os root p w = (w', ok) \<Longrightarrow> view w' = view w" using r [of w p data q] by simp
  show "os_Close os root p w = (w', ok) \<Longrightarrow> view w' = view w" using r [of w p data q] by simp
  show "os_SyncDirectory os root p w = (w', ok) \<Longrightarrow> view w' = view w" using r [of w p data q] by simp
  show "os_Rename os root p q w = (w', ok) \<Longrightarrow> view w' = (if ok then (view w)(p := None, q := view w p) else view w)"
    using r [of w p data q] by simp
  show "x \<noteq> p \<Longrightarrow> view (os_Remove os root p w) x = view w x" using r [of w p data q] by simp
qed

lemma abandon_view:
  assumes "posix_root os root view" and "x \<noteq> temp"
  shows "view (abandon os root temp w) x = view w x"
  using posix_rootD(5,8) [OF assms(1)] assms(2) by (metis abandon_def prod.collapse)

text \<open>The effect of a write, step by step: up to the rename only the temporary file differs.\<close>

lemma writeFile_steps:
  assumes P: "posix_root os root view" and x: "writeFile A os root relative data w = (w', result)"
    and temp: "\<And>random. os_Random os w = Some random \<Longrightarrow> temporaryName relative random \<noteq> relative"
  obtains (kept) "result = Inl OtherFailure"
      "\<forall>p. (\<forall>random. os_Random os w = Some random \<longrightarrow> p \<noteq> temporaryName relative random) \<longrightarrow> view w' p = view w p"
  | (replaced) random where "os_Random os w = Some random"
      "view w' = (view w)(temporaryName relative random := None, relative := Some data)"
      "result = Inl UnknownEffect \<or>
       result = Inr \<lparr>fx_Digest = DigestBytes A data, fx_Bytes = int (length data), fx_Output = ''''\<rparr>"
proof (cases "os_Random os w")
  case None
  with x kept show thesis by (simp add: writeFile_def)
next
  case (Some random)
  let ?t = "temporaryName relative random"
  have failed: thesis if "result = Inl OtherFailure" "\<And>p. p \<noteq> ?t \<Longrightarrow> view w' p = view w p"
    by (rule kept) (use that Some in auto)
  obtain w1 b1 where c1: "os_Create os root ?t w = (w1, b1)" by fastforce
  note v1 = posix_rootD(1) [OF P c1]
  obtain w2 b2 where c2: "os_Write os root ?t data w1 = (w2, b2)" by fastforce
  obtain w3 b3 where c3: "os_Sync os root ?t w2 = (w3, b3)" by fastforce
  note v3 = posix_rootD(4) [OF P c3]
  obtain w4 b4 where c4: "os_Close os root ?t w3 = (w4, b4)" by fastforce
  note v4 = posix_rootD(5) [OF P c4]
  obtain w5 b5 where c5: "os_Rename os root ?t relative w4 = (w5, b5)" by fastforce
  note v5 = posix_rootD(7) [OF P c5]
  obtain w6 b6 where c6: "os_SyncDirectory os root (path_Dir relative) w5 = (w6, b6)" by fastforce
  note v6 = posix_rootD(6) [OF P c6]
  have off: "view w2 p = view w p" if "p \<noteq> ?t" for p
    using posix_rootD(2) [OF P c2] v1 that by simp
  consider "\<not> b1" | "b1" "\<not> (b2 \<and> b3 \<and> b4 \<and> b5)" | "b1" "b2" "b3" "b4" "b5" by blast
  then show thesis
  proof cases
    case 1
    with x Some c1 have "w' = w1" "result = Inl OtherFailure" by (auto simp: writeFile_def Let_def)
    with v1 1 failed show thesis by simp
  next
    case 2
    then consider "\<not> b2" | "b2" "\<not> b3" | "b2" "b3" "\<not> b4" | "b2" "b3" "b4" "\<not> b5" by blast
    then obtain wx where wx: "w' = abandon os root ?t wx" "result = Inl OtherFailure" "view wx = view w2"
    proof cases
      case 1
      with x Some c1 c2 \<open>b1\<close> that show thesis by (auto simp: writeFile_def Let_def)
    next
      case 2
      with x Some c1 c2 c3 \<open>b1\<close> v3 that show thesis by (auto simp: writeFile_def Let_def)
    next
      case 3
      with x Some c1 c2 c3 c4 \<open>b1\<close> v3 v4 that show thesis by (auto simp: writeFile_def Let_def)
    next
      case 4
      with x Some c1 c2 c3 c4 c5 \<open>b1\<close> v3 v4 v5 that show thesis by (auto simp: writeFile_def Let_def)
    qed
    with failed off abandon_view [OF P] show thesis by simp
  next
    case 3
    have t: "view w2 ?t = Some data" using posix_rootD(3) [OF P c2 [unfolded eqTrueI [OF 3(2)]]] v1 3(1) by simp
    have "view w5 = (view w)(?t := None, relative := Some data)"
      using v5 v3 v4 3(5) off t temp [OF Some] by (auto simp: fun_eq_iff)
    moreover have "w' = fst (os_Close os root ?t w6)" "result = (if b6
        then Inr \<lparr>fx_Digest = DigestBytes A data, fx_Bytes = int (length data), fx_Output = ''''\<rparr> else Inl UnknownEffect)"
      using x Some c1 c2 c3 c4 c5 c6 3 by (auto simp: writeFile_def Let_def)
    moreover have "view (fst (os_Close os root ?t w6)) = view w6" using posix_rootD(5) [OF P] by (metis prod.collapse)
    ultimately show thesis using replaced [OF Some] v6 by simp
  qed
qed
end
