(* ===== verification/Broker_Examples.thy ===== *)
theory Broker_Examples
  imports Broker_Progress Broker_Recovery Driver_Safety Store_Examples
begin

text \<open>
  A running run with a workspace and a grant for two reads or writes in it, on which the theorems about
  the broker and the driver are applied. The operating system is a map from paths to contents.
\<close>

section \<open>The run\<close>

definition bx_run :: AgentRun where
  "bx_run = ex_run\<lparr>ar_Workspace := ''work''\<rparr>"

definition bx_grant :: CapabilityGrant where
  "bx_grant = ex_grant\<lparr>cg_Resource := \<lparr>rs_Kind = ''filesystem'', rs_Pattern = ''work/**''\<rparr>,
     cg_Operations := [''filesystem.read'', ''filesystem.write''],
     cg_Conditions := ex_conditions\<lparr>cc_WorkspaceRoot := ''work''\<rparr>, cg_MaxUses := Some 2\<rparr>"

definition bx_created :: RunEvent where
  "bx_created = ex_event 1 EventRunCreated (RunCreatedPayload bx_run) '''' (sample_digest (CHR ''1''))"

definition bx_granted :: RunEvent where
  "bx_granted = ex_event 2 EventCapabilitiesGranted
     (CapabilitiesGranted \<lparr>gp_ContractDigest = sample_digest (CHR ''b''), gp_Grants = [bx_grant]\<rparr>)
     (sample_digest (CHR ''1'')) (sample_digest (CHR ''2''))"

definition bx_running :: RunEvent where
  "bx_running = ex_event 4 EventRunStateChanged
     (RunStateChanged \<lparr>sc_From = RunAdmitted, sc_To = RunRunning, sc_Reason = ''''\<rparr>)
     (sample_digest (CHR ''3'')) (sample_digest (CHR ''4''))"

definition bx_p1 :: Projection where
  "bx_p1 = \<lparr>pj_Run = bx_run, pj_LastEventDigest = sample_digest (CHR ''1'')\<rparr>"

definition bx_p2 :: Projection where
  "bx_p2 = \<lparr>pj_Run = bx_run\<lparr>ar_CapabilityIDs := [''cap:1''], ar_EventSequence := 2, ar_UpdatedAt := 1001\<rparr>,
            pj_LastEventDigest = sample_digest (CHR ''2'')\<rparr>"

definition bx_p3 :: Projection where
  "bx_p3 = \<lparr>pj_Run = (pj_Run bx_p2)\<lparr>ar_State := RunAdmitted, ar_EventSequence := 3, ar_UpdatedAt := 1002\<rparr>,
            pj_LastEventDigest = sample_digest (CHR ''3'')\<rparr>"

definition bx_p4 :: Projection where
  "bx_p4 = \<lparr>pj_Run = (pj_Run bx_p3)\<lparr>ar_State := RunRunning, ar_EventSequence := 4, ar_UpdatedAt := 1003\<rparr>,
            pj_LastEventDigest = sample_digest (CHR ''4'')\<rparr>"

definition bx_events :: "RunEvent list" where
  "bx_events = [bx_created, bx_granted, ex_admitted, bx_running]"

lemmas bx_event_defs = bx_created_def bx_granted_def ex_admitted_def bx_running_def ex_event_def
lemmas bx_projection_defs = bx_p1_def bx_p2_def bx_p3_def bx_p4_def bx_run_def

lemma bx_events_valid: "RunEvent_Validate bx_created = None" "RunEvent_Validate bx_granted = None"
  "RunEvent_Validate bx_running = None"
  unfolding bx_created_def bx_granted_def bx_running_def
  by (rule ex_event_valid; simp add: example_simps del: RunEventType_name.simps)+

lemma bx_identifiers: "IsIdentifier ''filesystem.write''" "IsIdentifier ''action:1''" "IsIdentifier ''key:1''"
  by code_simp+

lemma bx_grant_valid: "CapabilityGrant_Validate bx_grant = None"
  by (simp add: CapabilityGrant_Validate_def bx_grant_def ex_grant_def ex_conditions_def Let_def validate_simps
      example_simps bx_identifiers valid_conditions_def)

lemma bx_run_valid: "AgentRun_Validate bx_run = None"
  by (simp add: bx_run_def ex_eval)

lemma bx_grant_sel: "cg_ID bx_grant = ''cap:1''" "cg_SubjectRunID bx_grant = ''run:1''"
  by (simp_all add: bx_grant_def ex_grant_def)

lemmas bx_apply_defs = bx_event_defs checkEnvelope_def applyPayload_def DecodePayloadStrict_def
  applyCapabilitiesGranted_def applyStateChanged_def ValidateTransition_def CanTransition_def requiresReason_def
  bx_projection_defs bx_grant_valid ex_eval

lemma bx_apply1: "Apply None bx_created = Inr bx_p1"
  by (simp add: Apply.simps bx_events_valid applyCreation_def DecodePayloadStrict_def bx_run_valid bx_p1_def)
    (simp add: bx_event_defs ex_run_def bx_run_def bx_run_valid [unfolded bx_run_def ex_run_def])

lemma bx_apply2: "Apply (Some bx_p1) bx_granted = Inr bx_p2"
  by (simp add: Apply.simps bx_events_valid) (simp add: bx_apply_defs bx_grant_sel)


lemma bx_apply3: "Apply (Some bx_p2) ex_admitted = Inr bx_p3"
  by (simp add: Apply.simps ex_events_valid) (simp add: bx_apply_defs)

lemma bx_apply4: "Apply (Some bx_p3) bx_running = Inr bx_p4"
  by (simp add: Apply.simps bx_events_valid) (simp add: bx_apply_defs)

lemma bx_replay: "Replay bx_events = Inr bx_p4"
  by (simp add: bx_events_def Replay_def bx_apply1 bx_apply2 bx_apply3 bx_apply4)

lemma bx_p4_sel [simp]: "ar_Namespace (pj_Run bx_p4) = ''team''" "ar_ID (pj_Run bx_p4) = ''run:1''"
  "ar_EventSequence (pj_Run bx_p4) = 4" "ar_State (pj_Run bx_p4) = RunRunning" "ar_Workspace (pj_Run bx_p4) = ''work''"
  by (simp_all add: bx_projection_defs ex_run_def)

section \<open>The store\<close>

definition bx_run_row :: "ex_json head_row" where
  "bx_run_row = run_row_of bx_p4 (JRun (pj_Run bx_p4))"

definition bx_db :: "ex_json DB" where
  "bx_db = empty_db\<lparr>db_runs := [bx_run_row], db_events := map (\<lambda>e. event_row_of ''team'' e (JEvent e)) bx_events\<rparr>"

lemma bx_rows: "db_events bx_db = map (\<lambda>e. event_row_of ''team'' e (JEvent e)) bx_events"
  by (simp add: bx_db_def)

lemma bx_ids: "map ev_ID bx_events = [ex_event_id 1, ex_event_id 2, ex_event_id 3, ex_event_id 4]"
  by (simp add: bx_events_def bx_event_defs)

lemma bx_sealed: "\<forall>e\<in>set bx_events. VerifyEventDigest (rc_Digest ex_CR) e = Some True"
  by (simp add: bx_events_def VerifyEventDigest_True ex_CR_def bx_event_defs ex_digits)

lemma bx_store: "run_store_ok ex_CR bx_db" "run_histories ex_CR bx_db = [(''team'', ''run:1'') \<mapsto> bx_events]"
proof -
  have r: "replayFrom None bx_events = Inr bx_p4" by (rule replayed_stream [OF bx_replay])
  have "stored_run_ok bx_p4" using Apply_stored_ok [OF bx_apply4] by simp
  then have h: "run_store.head_for ex_CR bx_p4 bx_run_row"
    unfolding run_store.head_for_def by (simp add: bx_run_row_def run_row_of_def hkey_def decode_head_def)
  have rows: "list_all2 (run_store.row_for ex_CR (ar_Namespace (pj_Run bx_p4))) bx_events (db_events bx_db)"
    unfolding bx_rows list.rel_map run_store.row_for_def using bx_sealed
    by (intro list.rel_refl_strong) (auto simp: event_row_of_def ekey_def)
  have d: "distinct (map ev_ID bx_events)" unfolding bx_ids by simp
  have k: "hkey bx_run_row = (''team'', ''run:1'')" by (simp add: hkey_def bx_run_row_def run_row_of_def)
  from run_store.consistent_single [OF r h rows d] k
  show "run_store_ok ex_CR bx_db" "run_histories ex_CR bx_db = [(''team'', ''run:1'') \<mapsto> bx_events]"
    unfolding run_store_ok_def run_histories_eq by (simp_all add: bx_db_def)
qed

lemma bx_at_head: "at_head ex_CR bx_db ''team'' bx_p4 bx_events"
proof -
  have "map er_event_id (db_events bx_db) = map ev_ID bx_events" by (simp add: bx_db_def event_row_of_def)
  then have "fresh_ids ex_CR bx_db ''run:1'' 5"
    unfolding fresh_ids_def bx_ids by (simp add: event_ID_def ex_event_id_def) (simp add: numeral_eq_Suc)
  then show ?thesis using bx_store bx_replay by (simp add: at_head_def)
qed

section \<open>The environment\<close>

text \<open>The state of the operating system: the contents of the files below the workspace.\<close>

definition bx_OS :: "(string \<Rightarrow> string option) OS" where
  "bx_OS = \<lparr>os_OpenRepository = (\<lambda>w. True), os_OpenWorkspace = (\<lambda>p w. True),
     os_Lstat = (\<lambda>root p w. if w p = None then NotExist else FileInfo False),
     os_OpenRead = (\<lambda>root p w. map_option (\<lambda>c. \<lparr>rh_Regular = Some True, rh_Content = Some c\<rparr>) (w p)),
     os_Random = (\<lambda>w. Some ''1''),
     os_Create = (\<lambda>root p w. if w p = None then (w(p := Some ''''), True) else (w, False)),
     os_Write = (\<lambda>root p data w. (w(p := map_option (\<lambda>c. c @ data) (w p)), True)),
     os_Sync = (\<lambda>root p w. (w, True)), os_Close = (\<lambda>root p w. (w, True)),
     os_Rename = (\<lambda>root p q w. (w(p := None, q := w p), True)), os_Remove = (\<lambda>root p w. w(p := None)),
     os_SyncDirectory = (\<lambda>root p w. (w, True))\<rparr>"

definition bx_sha :: "string \<Rightarrow> string" where
  "bx_sha s = replicate 64 (if s = ''hi'' then CHR ''a'' else CHR ''b'')"

definition bx_arguments :: ArgumentCodec where
  "bx_arguments = \<lparr>ac_Sha256 = bx_sha, ac_DecodeRead = (\<lambda>_. Inr \<lparr>fr_Path = ''work/a''\<rparr>),
     ac_DecodeWrite = (\<lambda>_. Inr \<lparr>fw_Path = ''work/a'', fw_ContentDigest = ''sha256:'' @ bx_sha ''hi''\<rparr>),
     ac_EncodeRead = (\<lambda>_. Some ''read''), ac_EncodeWrite = (\<lambda>_. Some ''write'')\<rparr>"

definition bx_E :: "(ex_json, string \<Rightarrow> string option) BrokerEnv" where
  "bx_E = \<lparr>be_Codec = ex_CR, be_Arguments = bx_arguments, be_OS = bx_OS, be_Now = (\<lambda>k. 2000),
     be_Driver = (\<lambda>k. no_faults), be_ErrorText = (\<lambda>_. ''failed'')\<rparr>"

definition bx_request :: ActionRequest where
  "bx_request = \<lparr>aq_Version = ''gatemole.action_request.v0'', aq_ID = ''action:1'', aq_RunID = ''run:1'',
     aq_Operation = ''filesystem.write'', aq_Resource = \<lparr>rs_Kind = ''filesystem'', rs_Pattern = ''work/a''\<rparr>,
     aq_Arguments = RawObject '''', aq_ArgumentsDigest = ''sha256:'' @ bx_sha ''write'', aq_IdempotencyKey = ''key:1'',
     aq_Intent = ''write'', aq_CapabilityHint = '''', aq_RequestedAt = 1500, aq_ParentActionID = '''', aq_Attempt = 0\<rparr>"

definition bx_input :: ExecuteRequest where
  "bx_input = \<lparr>xr_ExpectedSequence = 4, xr_Action = bx_request, xr_InputBase64 = base64_encode ''hi''\<rparr>"

definition bx_w :: "string \<Rightarrow> string option" where
  "bx_w = [''work'' \<mapsto> '''', ''a'' \<mapsto> ''old'']"

lemma bx_E_sel [simp]: "be_Codec bx_E = ex_CR" "be_Now bx_E k = 2000" "be_Driver bx_E k = no_faults"
  "be_Arguments bx_E = bx_arguments" "be_OS bx_E = bx_OS"
  by (simp_all add: bx_E_def)

lemma bx_input_sel [simp]: "xr_Action bx_input = bx_request" "xr_ExpectedSequence bx_input = 4"
  "xr_InputBase64 bx_input = base64_encode ''hi''"
  by (simp_all add: bx_input_def)

lemma bx_request_sel [simp]: "aq_ID bx_request = ''action:1''" "aq_RunID bx_request = ''run:1''"
  by (simp_all add: bx_request_def)

lemma bx_faithful: "faithful_codec ex_CR"
  by (simp add: faithful_codec_def)

lemma bx_serviceable: "serviceable bx_E"
  unfolding serviceable_def using ex_formats by (simp add: bx_faithful) (simp add: ex_CR_def)

lemma bx_request_valid: "ActionRequest_Validate bx_request = None"
  by (simp add: ActionRequest_Validate_def bx_request_def Let_def validate_simps example_simps bx_identifiers)
    (simp add: bx_sha_def example_simps IsSHA256Digest_def hex_suffix_def list_all_iff)

lemma bx_granted_state: "GrantsFromEvents bx_events = Inr ([bx_grant], \<lambda>_. 0)"
  by (simp add: GrantsFromEvents_def bx_events_def bx_event_defs DecodePayloadStrict_def bx_grant_valid)

lemma bx_unique: "ensureUniqueAttempt bx_request bx_events = None"
  by (simp add: bx_events_def bx_event_defs)

lemma bx_logical: "logical_path ''work''" "logical_path ''work/a''"
  by code_simp+

lemma bx_matches: "MatchResource ''work/**'' ''work/a''"
  by code_simp

lemma bx_authorize: "authorize bx_request [bx_grant] (\<lambda>_. 0) 2000 = Inr bx_grant"
  by (simp add: authorize_def bx_request_def) (simp add: grantCovers_def bx_grant_def ex_grant_def ex_conditions_def bx_matches)

lemma bx_check: "checkAction bx_arguments (pj_Run bx_p4) bx_grant bx_request = Inr (''work/a'', ''sha256:'' @ bx_sha ''hi'', ''a'')"
proof -
  have "validDigest (''sha256:'' @ bx_sha ''hi'')" "WorkspaceRelative ''work'' ''work/a'' = Some ''a''"
    "\<not> containsControlMetadataPath ''work''" "\<not> containsControlMetadataPath ''work/a''"
    "CleanLogicalPath ''work/a'' = Some ''work/a''" "CleanLogicalPath ''work'' = Some ''work''" by code_simp+
  then show ?thesis
    by (simp add: checkAction_def bx_request_def NormalizeArguments_def FilesystemRead_def FilesystemWrite_def bx_arguments_def
        DigestBytes_def bx_grant_def ex_grant_def ex_conditions_def bx_matches)
qed

definition bx_written :: "string \<Rightarrow> string option" where
  "bx_written = bx_w(''.gatemole-write-1'' := None, ''a'' := Some ''hi'')"

lemma bx_temporary: "temporaryName ''a'' ''1'' = ''.gatemole-write-1''"
  by code_simp

lemma bx_execute: "Filesystem_Execute bx_arguments bx_OS (pj_Run bx_p4) bx_grant bx_request ''hi'' bx_w =
    (bx_written, Inr \<lparr>fx_Digest = ''sha256:'' @ bx_sha ''hi'', fx_Bytes = 2, fx_Output = ''''\<rparr>)"
proof -
  have c: "components ''work'' = [''work'']" "components ''a'' = [''a'']" "path_Join2 '''' ''work'' = ''work''"
    "aq_Operation bx_request = FilesystemWrite" "FilesystemWrite \<noteq> FilesystemRead"
    "outputLimit bx_grant = defaultMaxBytes" "(2::int) \<le> defaultMaxBytes"
    by (code_simp, code_simp, code_simp)
      (simp_all add: bx_request_def FilesystemWrite_def FilesystemRead_def outputLimit_def bx_grant_def ex_grant_def ex_conditions_def
        defaultMaxBytes_def)
  have r: "rejectSymlinkComponents bx_OS '''' ''work'' i True bx_w = None"
    "rejectSymlinkComponents bx_OS ''work'' ''a'' i False bx_w = None" for i
    using c by (simp_all add: rejectSymlinkComponents_def Let_def bx_OS_def bx_w_def)
  have "writeFile bx_arguments bx_OS ''work'' ''a'' ''hi'' bx_w =
    (bx_written, Inr \<lparr>fx_Digest = ''sha256:'' @ bx_sha ''hi'', fx_Bytes = 2, fx_Output = ''''\<rparr>)"
    by (simp add: writeFile_def bx_OS_def bx_temporary Let_def bx_w_def bx_written_def DigestBytes_def bx_arguments_def fun_eq_iff)
  moreover have "os_OpenRepository bx_OS w" "os_OpenWorkspace bx_OS p w" "ac_Sha256 bx_arguments = bx_sha" for w p
    by (simp_all add: bx_OS_def bx_arguments_def)
  ultimately show ?thesis using c r by (simp add: Filesystem_Execute_def bx_check Let_def DigestBytes_def)
qed

lemma bx_effect: "effect_of bx_E (pj_Run bx_p4) bx_grant bx_request (base64_encode ''hi'') bx_w =
    (bx_written, Inr \<lparr>fx_Digest = ''sha256:'' @ bx_sha ''hi'', fx_Bytes = 2, fx_Output = ''''\<rparr>)"
proof -
  have "decodeInput (base64_encode ''hi'') = Inr ''hi''" by code_simp
  then show ?thesis by (simp add: effect_of_def bx_execute)
qed

lemma bx_posix: "posix_root bx_OS root (\<lambda>w. w)"
  by (simp add: posix_root_def bx_OS_def)

lemma bx_changed: "bx_written \<noteq> bx_w" "bx_written ''a'' = Some ''hi''"
  by (auto simp: bx_written_def bx_w_def fun_eq_iff)

lemma bx_runs: "\<exists>db' out. Broker_Execute bx_E bx_db bx_w ''team'' bx_input = (db', bx_written, out, None) \<and> oc_Status out = ''committed''"
proof -
  have "at_head (be_Codec bx_E) bx_db ''team'' bx_p4 bx_events" using bx_at_head by simp
  from Broker_Execute_progress [OF bx_serviceable this, of bx_input "[bx_grant]" "\<lambda>_. 0" bx_grant bx_w bx_written]
  have "\<exists>db' out. Broker_Execute bx_E bx_db bx_w ''team'' bx_input = (db', bx_written, out, None) \<and> oc_Status out = ''committed'' \<and>
      oc_CapabilityID out = cg_ID bx_grant"
    by (simp add: bx_request_valid bx_unique bx_granted_state bx_authorize bx_effect max64_def effect_status_def) blast
  then show ?thesis by blast
qed

section \<open>A request that was interrupted\<close>

definition bx_requested :: RunEvent where
  "bx_requested = ex_event 5 EventActionRequested (ActionRequestedPayload bx_request)
     (sample_digest (CHR ''4'')) (sample_digest (CHR ''5''))"

definition bx_p5 :: Projection where
  "bx_p5 = \<lparr>pj_Run = (pj_Run bx_p4)\<lparr>ar_EventSequence := 5, ar_UpdatedAt := 1004\<rparr>,
            pj_LastEventDigest = sample_digest (CHR ''5'')\<rparr>"

lemma bx_requested_valid: "RunEvent_Validate bx_requested = None"
  unfolding bx_requested_def by (rule ex_event_valid; simp add: example_simps del: RunEventType_name.simps)

lemma bx_apply5: "Apply (Some bx_p4) bx_requested = Inr bx_p5"
  by (simp add: Apply.simps bx_requested_valid)
    (simp add: bx_requested_def ex_event_def checkEnvelope_def applyPayload_def DecodePayloadStrict_def checkActionRequested_def
      bx_request_valid bx_p5_def bx_projection_defs ex_eval)

definition bx_crashed :: "ex_json DB" where
  "bx_crashed = empty_db\<lparr>db_runs := [run_row_of bx_p5 (JRun (pj_Run bx_p5))],
     db_events := map (\<lambda>e. event_row_of ''team'' e (JEvent e)) (bx_events @ [bx_requested])\<rparr>"

lemma bx_crashed_replay: "Replay (bx_events @ [bx_requested]) = Inr bx_p5"
  by (simp add: bx_events_def Replay_def bx_apply1 bx_apply2 bx_apply3 bx_apply4 bx_apply5)

lemma bx_p5_sel [simp]: "ar_Namespace (pj_Run bx_p5) = ''team''" "ar_ID (pj_Run bx_p5) = ''run:1''"
  "ar_EventSequence (pj_Run bx_p5) = 5" "ar_State (pj_Run bx_p5) = RunRunning" "pj_LastEventDigest bx_p5 = sample_digest (CHR ''5'')"
  by (simp_all add: bx_p5_def bx_projection_defs ex_run_def)

lemma bx_requested_sealed: "VerifyEventDigest (rc_Digest ex_CR) bx_requested = Some True"
  by (simp add: VerifyEventDigest_True ex_CR_def bx_requested_def ex_event_def ex_digits)

lemma bx_crashed_store: "run_store_ok ex_CR bx_crashed"
  "run_histories ex_CR bx_crashed = [(''team'', ''run:1'') \<mapsto> bx_events @ [bx_requested]]"
proof -
  have r: "replayFrom None (bx_events @ [bx_requested]) = Inr bx_p5" by (rule replayed_stream [OF bx_crashed_replay])
  have "stored_run_ok bx_p5" using Apply_stored_ok [OF bx_apply5] by simp
  then have h: "run_store.head_for ex_CR bx_p5 (run_row_of bx_p5 (JRun (pj_Run bx_p5)))"
    unfolding run_store.head_for_def by (simp add: run_row_of_def hkey_def decode_head_def)
  have e: "db_events bx_crashed = map (\<lambda>e. event_row_of ''team'' e (JEvent e)) (bx_events @ [bx_requested])"
    "db_runs bx_crashed = [run_row_of bx_p5 (JRun (pj_Run bx_p5))]" by (simp_all add: bx_crashed_def)
  have rows: "list_all2 (run_store.row_for ex_CR (ar_Namespace (pj_Run bx_p5))) (bx_events @ [bx_requested]) (db_events bx_crashed)"
    unfolding e(1) list.rel_map run_store.row_for_def using bx_sealed bx_requested_sealed
    by (intro list.rel_refl_strong) (auto simp: event_row_of_def ekey_def)
  have d: "distinct (map ev_ID (bx_events @ [bx_requested]))"
    unfolding map_append bx_ids by (simp add: bx_requested_def ex_event_def)
  have k: "hkey (run_row_of bx_p5 (JRun (pj_Run bx_p5))) = (''team'', ''run:1'')" by (simp add: hkey_def run_row_of_def)
  from run_store.consistent_single [OF r h rows d] k
  show "run_store_ok ex_CR bx_crashed" "run_histories ex_CR bx_crashed = [(''team'', ''run:1'') \<mapsto> bx_events @ [bx_requested]]"
    unfolding run_store_ok_def run_histories_eq by (simp_all add: e)
qed

lemma bx_crashed_at_head: "at_head ex_CR bx_crashed ''team'' bx_p5 (bx_events @ [bx_requested])"
proof -
  have "map er_event_id (db_events bx_crashed) = map ev_ID (bx_events @ [bx_requested])" by (simp add: bx_crashed_def event_row_of_def)
  also have "\<dots> = [ex_event_id 1, ex_event_id 2, ex_event_id 3, ex_event_id 4, ex_event_id 5]"
    unfolding map_append bx_ids by (simp add: bx_requested_def ex_event_def)
  finally have ids: "map er_event_id (db_events bx_crashed) = [ex_event_id 1, ex_event_id 2, ex_event_id 3, ex_event_id 4, ex_event_id 5]" .
  have "fresh_ids ex_CR bx_crashed ''run:1'' 6"
    unfolding fresh_ids_def ids by (simp add: event_ID_def ex_event_id_def) (simp add: numeral_eq_Suc)
  then show ?thesis using bx_crashed_store bx_crashed_replay by (simp add: at_head_def)
qed

lemma bx_crashed_list: "ListAllRuns ex_CR no_faults bx_crashed = Inr [bx_p5]"
proof -
  have v: "AgentRun_Validate (pj_Run bx_p5) = None"
    using at_head_stored [OF bx_crashed_at_head] by (simp add: stored_run_ok_def)
  show ?thesis by (simp add: ListAllRuns_def bx_crashed_def run_row_of_def) (simp add: v example_simps)
qed

lemma bx_interrupted: "interruptedActions (bx_events @ [bx_requested]) = Inr ([''action:1'' \<mapsto> ''''], [''action:1''])"
  by (simp add: interruptedActions_def bx_events_def bx_event_defs bx_requested_def DecodePayloadStrict_def)

lemma bx_recovers: "\<exists>db'. Broker_Recover (\<lambda>_. bx_E) bx_crashed = (db', 1, None)"
proof -
  define d where "d = snd (recoveryEvent ''action:1'' '''')"
  have r: "recoveryEvent ''action:1'' '''' = (EventActionDenied, d)" by (simp add: d_def recoveryEvent_def)
  have a: "at_head (be_Codec bx_E) bx_crashed ''team'' bx_p5 (bx_events @ [bx_requested])" using bx_crashed_at_head by simp
  obtain db' q where ap: "broker_append bx_E 1 bx_crashed ''team'' bx_p5 EventActionDenied capabilityServicePrincipal d '''' = (db', Inr q)"
  proof (rule broker_append_accepts [OF bx_serviceable a _ service_principal_valid, of EventActionDenied d "''''" 1])
    show "applyPayload (pj_Run bx_p5) e = Inr (pj_Run bx_p5)" if "step_event EventActionDenied d '''' e" for e
      using that by (auto simp: d_def apply_action_simps recoveryEvent_def)
  qed (use action_event_names in \<open>auto simp: d_def recoveryEvent_def max64_def simp del: RunEventType_name.simps\<close>)
  have e: "Events ex_CR no_faults bx_crashed ''team'' ''run:1'' 0 = Inr (bx_events @ [bx_requested])"
    using Events_complete [OF bx_crashed_store(1), of "''team''" "''run:1''" _ 0] bx_crashed_store(2) by simp
  show ?thesis
    using ap r by (simp add: Broker_Recover_def bx_crashed_list e bx_interrupted)
qed
end
