(* ===== verification/Base64_Roundtrip.thy ===== *)
theory Base64_Roundtrip
  imports Broker
begin

text \<open>The text the broker returns for an action's output decodes, strictly, to that output.\<close>

lemma b64_alphabet_length: "length b64_alphabet = 64"
  by (simp add: b64_alphabet_def)

lemma b64_value_alphabet: "n < 64 \<Longrightarrow> b64_value (b64_alphabet ! n) = Some n"
proof -
  have "\<forall>n\<in>set [0..<64]. b64_value (b64_alphabet ! n) = Some n" by code_simp
  then show "n < 64 \<Longrightarrow> ?thesis" by simp
qed

lemma b64_alphabet_plain: "n < 64 \<Longrightarrow> b64_alphabet ! n \<notin> {CHR ''='', CHR 0x0A, CHR 0x0D}"
proof -
  have "\<forall>n\<in>set [0..<64]. b64_alphabet ! n \<notin> set [CHR ''='', CHR 0x0A, CHR 0x0D]" by code_simp
  then show "n < 64 \<Longrightarrow> ?thesis" by simp
qed

lemma b64_encode_plain: "list_all (\<lambda>x. x < 256) xs \<Longrightarrow> c \<in> set (b64_encode xs) \<Longrightarrow> c \<noteq> CHR 0x0A \<and> c \<noteq> CHR 0x0D"
  by (induction xs rule: b64_encode.induct)
    (use b64_alphabet_plain in \<open>auto simp: less_mult_imp_div_less dest!: b64_alphabet_plain [THEN notE]\<close>)


text \<open>Three bytes as four digits, and back.\<close>

lemma digits_of_bytes:
  fixes x y z :: nat
  assumes "x < 256" and "y < 256" and "z < 256"
  shows "x div 4 < 64" "x mod 4 * 16 + y div 16 < 64" "y mod 16 * 4 + z div 64 < 64" "z mod 64 < 64" "x mod 4 * 16 < 64" "y mod 16 * 4 < 64"
    "(x div 4 * 4 + (x mod 4 * 16 + y div 16) div 16) mod 256 = x"
    "((x mod 4 * 16 + y div 16) * 16 + (y mod 16 * 4 + z div 64) div 4) mod 256 = y"
    "((y mod 16 * 4 + z div 64) * 64 + z mod 64) mod 256 = z"
    "(x div 4 * 4 + x mod 4 * 16 div 16) mod 256 = x"
    "((x mod 4 * 16 + y div 16) * 16 + y mod 16 * 4 div 4) mod 256 = y"
proof -
  have d: "y div 16 < 16" "z div 64 < 4" using assms by (simp_all add: less_mult_imp_div_less)
  have m: "x mod 4 < 4" "y mod 16 < 16" "z mod 64 < 64" by simp_all
  show "x div 4 < 64" using assms(1) by (simp add: less_mult_imp_div_less)
  show "x mod 4 * 16 + y div 16 < 64" "y mod 16 * 4 + z div 64 < 64" "z mod 64 < 64" "x mod 4 * 16 < 64" "y mod 16 * 4 < 64"
    using d m by linarith+
  have "(x mod 4 * 16 + y div 16) div 16 = x mod 4" using d(1) by simp
  then show "(x div 4 * 4 + (x mod 4 * 16 + y div 16) div 16) mod 256 = x" using assms(1) by simp
  have "(y mod 16 * 4 + z div 64) div 4 = y mod 16" using d(2) by simp
  then have "((x mod 4 * 16 + y div 16) * 16 + (y mod 16 * 4 + z div 64) div 4) = x mod 4 * 256 + y"
    by (simp add: algebra_simps)
  then show "((x mod 4 * 16 + y div 16) * 16 + (y mod 16 * 4 + z div 64) div 4) mod 256 = y" using assms(2) by simp
  have "(y mod 16 * 4 + z div 64) * 64 + z mod 64 = y mod 16 * 256 + z" by (simp add: algebra_simps)
  then show "((y mod 16 * 4 + z div 64) * 64 + z mod 64) mod 256 = z" using assms(3) by simp
  show "(x div 4 * 4 + x mod 4 * 16 div 16) mod 256 = x" using assms(1) by simp
  have "(x mod 4 * 16 + y div 16) * 16 + y mod 16 * 4 div 4 = x mod 4 * 256 + y" by (simp add: algebra_simps)
  then show "((x mod 4 * 16 + y div 16) * 16 + y mod 16 * 4 div 4) mod 256 = y" using assms(2) by simp
qed

lemma alphabet_not_padding: "n < 64 \<Longrightarrow> b64_alphabet ! n \<noteq> CHR ''=''"
  using b64_alphabet_plain by blast

lemma b64_value_padding: "b64_value (CHR ''='') = None"
  by code_simp

lemma b64_groups_encode:
  "list_all (\<lambda>x. x < 256) xs \<Longrightarrow> b64_groups (b64_encode xs) = Some xs \<and> strict_padding (b64_encode xs)"
proof (induction xs rule: b64_encode.induct)
  case (2 x)
  then have "x < 256" by simp
  note d = digits_of_bytes [OF this this this]
  show ?case using d by (simp add: b64_value_alphabet alphabet_not_padding)
next
  case (3 x y)
  then have "x < 256" "y < 256" by simp_all
  note d = digits_of_bytes [OF this \<open>y < 256\<close>]
  have "y mod 16 * 4 mod 4 = 0" by simp
  then show ?case using d by (simp add: b64_value_alphabet alphabet_not_padding)
next
  case (4 x y z rest)
  then have "x < 256" "y < 256" "z < 256" by simp_all
  note d = digits_of_bytes [OF this]
  show ?case using d 4 by (simp add: b64_value_alphabet alphabet_not_padding)
qed simp

lemma decode_encode: "decodeInput (base64_encode s) = Inr s"
proof (cases "s = ''''")
  case True
  then show ?thesis by (simp add: decodeInput_def base64_encode_def)
next
  case False
  let ?xs = "map of_char s :: nat list"
  have xs: "list_all (\<lambda>x. x < 256) ?xs" by (simp add: list_all_iff)
  have "filter (\<lambda>c. c \<noteq> CHR 0x0A \<and> c \<noteq> CHR 0x0D) (base64_encode s) = base64_encode s"
    unfolding base64_encode_def by (rule filter_True) (use b64_encode_plain [OF xs] in blast)
  moreover have "base64_encode s \<noteq> ''''" unfolding base64_encode_def
    using False by (cases ?xs rule: b64_encode.cases) auto
  ultimately show ?thesis
    using b64_groups_encode [OF xs] by (simp add: decodeInput_def base64_decode_def base64_encode_def comp_def)
qed
end
