(* ===== verification/Broker_Properties.thy ===== *)
theory Broker_Properties
  imports Broker_Examples Base64_Roundtrip
begin

text \<open>
  The properties of the broker, its recovery, the filesystem driver and the capability compiler, each
  applied to the example run.
\<close>

section \<open>The broker\<close>

text \<open>C3. The broker acts only under authority: whenever an execution changes the state of the operating
  system, the run was running at the sequence the caller expected, no earlier request of the run had
  the same identifier or idempotency key, and the run's history has been extended by the request, its
  authorization under a grant that the history installs, that covers the request and that is neither
  revoked, expired, used up nor subject to approval, and the start of the execution; at most the result
  comes after. No other run's history changes.\<close>

theorem broker_acts_under_authority:
  assumes "run_store_ok (be_Codec E) db" and "faithful_codec (be_Codec E)"
    and "Broker_Execute E db w ns input = (db', w', out, err)" and "w' \<noteq> w"
  shows "\<exists>es p g e1 e2 e3 fs. run_histories (be_Codec E) db (ns, aq_RunID (xr_Action input)) = Some es \<and> Replay es = Inr p \<and>
     ar_State (pj_Run p) = RunRunning \<and> ar_EventSequence (pj_Run p) = xr_ExpectedSequence input \<and>
     (\<forall>e\<in>set es. \<forall>r. ev_Type e = EventActionRequested \<and> ev_Payload e = ActionRequestedPayload r \<longrightarrow>
        aq_ID r \<noteq> aq_ID (xr_Action input) \<and> aq_IdempotencyKey r \<noteq> aq_IdempotencyKey (xr_Action input)) \<and>
     g \<in> set (installed_grants es) \<and> may_use (xr_Action input) (be_Now E 3) (authorizations (cg_ID g) es) g \<and>
     step_event EventActionRequested (ActionRequestedPayload (xr_Action input)) '''' e1 \<and>
     decides g (xr_Action input) e2 \<and> starts g (xr_Action input) e3 \<and> length fs \<le> 1 \<and>
     run_histories (be_Codec E) db' = (run_histories (be_Codec E) db)((ns, aq_RunID (xr_Action input)) \<mapsto> es @ e1 # e2 # e3 # fs)"
  using assms(1-3)
proof (cases rule: Broker_Execute_cases)
  case 1
  with assms(4) show ?thesis by simp
next
  case (2 es p grants uses)
  let ?r = "xr_Action input"
  from 2(8) obtain fs where x: "extended (be_Codec E) db (ns, aq_RunID ?r) fs db'"
    and t: "action_trace es (be_Now E 3) ?r (\<lambda>g. effect_of E (pj_Run p) g ?r (xr_InputBase64 input) w) w fs (oc_Status out) w'"
    unfolding traced_def by blast
  from t assms(4) obtain e1 g gs where fs: "fs = e1 # gs" and e1: "step_event EventActionRequested (ActionRequestedPayload ?r) '''' e1"
    and g: "g \<in> set (installed_grants es)" "may_use ?r (be_Now E 3) (authorizations (cg_ID g) es) g"
    and a: "authorized_trace g ?r w (effect_of E (pj_Run p) g ?r (xr_InputBase64 input) w) gs (oc_Status out) w'"
    by (cases rule: action_trace.cases) auto
  from a assms(4) obtain e2 e3 hs where gs: "gs = e2 # e3 # hs" "decides g ?r e2" "starts g ?r e3"
    "closing g ?r (snd (effect_of E (pj_Run p) g ?r (xr_InputBase64 input) w)) hs (oc_Status out)"
    by (elim authorized_trace.elims) auto
  from gs(4) have "length hs \<le> 1" by (auto simp: closing_def)
  moreover have "run_histories (be_Codec E) db' = (run_histories (be_Codec E) db)((ns, aq_RunID ?r) \<mapsto> es @ e1 # e2 # e3 # hs)"
    using x 2(1) fs gs(1) by (auto simp: extended_def)
  moreover have "\<forall>e\<in>set es. \<forall>r. ev_Type e = EventActionRequested \<and> ev_Payload e = ActionRequestedPayload r \<longrightarrow>
        aq_ID r \<noteq> aq_ID ?r \<and> aq_IdempotencyKey r \<noteq> aq_IdempotencyKey ?r"
    using ensureUniqueAttempt_None [OF 2(6)] by fastforce
  ultimately show ?thesis using 2(1-5) g e1 gs(2,3) by blast
qed

theorem broker_acts_under_authority_witness:
  "\<exists>db' out. Broker_Execute bx_E bx_db bx_w ''team'' bx_input = (db', bx_written, out, None) \<and> bx_written ''a'' = Some ''hi'' \<and>
     bx_w ''a'' = Some ''old'' \<and> (\<exists>g\<in>set (installed_grants bx_events). may_use bx_request 2000 (authorizations (cg_ID g) bx_events) g)"
proof -
  obtain db' out where x: "Broker_Execute bx_E bx_db bx_w ''team'' bx_input = (db', bx_written, out, None)" using bx_runs by blast
  have "run_store_ok (be_Codec bx_E) bx_db" "faithful_codec (be_Codec bx_E)" using bx_store bx_faithful by simp_all
  from broker_acts_under_authority [OF this x] have "\<exists>g\<in>set (installed_grants bx_events).
      may_use bx_request 2000 (authorizations (cg_ID g) bx_events) g" using bx_changed(1) bx_store(2) by auto
  moreover have "bx_w ''a'' = Some ''old''" by (simp add: bx_w_def)
  ultimately show ?thesis using x bx_changed(2) by blast
qed

text \<open>C11. Every execution keeps the contract of the broker: either nothing happens and an error is returned,
  or the history of the one run it names is extended by a trace that the contract admits for the
  status it reports, the grants it installs and the effect the driver had; the store stays consistent.\<close>

theorem broker_keeps_contract:
  assumes "run_store_ok (be_Codec E) db" and "faithful_codec (be_Codec E)"
    and "Broker_Execute E db w ns input = (db', w', out, err)"
  shows "run_store_ok (be_Codec E) db' \<and>
     (db' = db \<and> w' = w \<and> oc_Status out = '''' \<and> err \<noteq> None \<or>
      (\<exists>es p fs. run_histories (be_Codec E) db (ns, aq_RunID (xr_Action input)) = Some es \<and> Replay es = Inr p \<and>
         run_histories (be_Codec E) db' = (run_histories (be_Codec E) db)((ns, aq_RunID (xr_Action input)) \<mapsto> es @ fs) \<and>
         action_trace es (be_Now E 3) (xr_Action input)
           (\<lambda>g. effect_of E (pj_Run p) g (xr_Action input) (xr_InputBase64 input) w) w fs (oc_Status out) w'))"
  using assms
proof (cases rule: Broker_Execute_cases)
  case 1
  with assms(1) show ?thesis by simp
next
  case (2 es p grants uses)
  then show ?thesis unfolding traced_def by (auto simp: extended_def)
qed

theorem broker_keeps_contract_witness:
  "\<exists>db' out (p :: Projection) fs. Broker_Execute bx_E bx_db bx_w ''team'' bx_input = (db', bx_written, out, None) \<and>
     run_histories ex_CR db' = [(''team'', ''run:1'') \<mapsto> bx_events @ fs] \<and>
     action_trace bx_events 2000 bx_request
       (\<lambda>g. effect_of bx_E (pj_Run p) g bx_request (base64_encode ''hi'') bx_w) bx_w fs ''committed'' bx_written"
proof -
  obtain db' out where x: "Broker_Execute bx_E bx_db bx_w ''team'' bx_input = (db', bx_written, out, None)" "oc_Status out = ''committed''"
    using bx_runs by blast
  have "run_store_ok (be_Codec bx_E) bx_db" "faithful_codec (be_Codec bx_E)" using bx_store bx_faithful by simp_all
  from broker_keeps_contract [OF this x(1)] bx_changed(1) bx_store(2)
  have "\<exists>(p :: Projection) fs. run_histories ex_CR db' = [(''team'', ''run:1'') \<mapsto> bx_events @ fs] \<and> action_trace bx_events 2000 bx_request
     (\<lambda>g. effect_of bx_E (pj_Run p) g bx_request (base64_encode ''hi'') bx_w) bx_w fs (oc_Status out) bx_written"
    by auto
  then show ?thesis unfolding x(2) using x(1) by (elim exE conjE) (intro exI conjI)
qed

definition status_traces :: "string \<Rightarrow> RunEventType list set" where
  "status_traces status =
     (let requested = [EventActionRequested]; executing = requested @ [EventActionAuthorized, EventActionExecuting] in
      if status = '''' then {[]}
      else if status = ''denied'' then {requested @ [EventActionDenied]}
      else if status = ''approval_required'' then {requested @ [EventActionApprovalRequired]}
      else if status = ''committed'' then {executing @ [EventActionCommitted]}
      else if status = ''failed'' then {executing @ [EventActionFailed]}
      else if status = ''unknown'' then {requested, requested @ [EventActionAuthorized], executing, executing @ [EventActionUnknown]}
      else {})"

text \<open>The status tells what was recorded, and whether anything was done: without a status nothing was
  recorded; denied, approval required, committed and failed each stand for one sequence of events; unknown
  leaves open how far the record got. Only committed, failed and unknown allow for an effect, and
  without a recorded start there is none.\<close>

theorem broker_status_is_the_record:
  assumes "run_store_ok (be_Codec E) db" and "faithful_codec (be_Codec E)"
    and "Broker_Execute E db w ns input = (db', w', out, err)"
  shows "\<exists>fs. (fs = [] \<and> db' = db \<or> extended (be_Codec E) db (ns, aq_RunID (xr_Action input)) fs db') \<and>
     map ev_Type fs \<in> status_traces (oc_Status out) \<and> (length fs < 3 \<longrightarrow> w' = w)"
  using assms
proof (cases rule: Broker_Execute_cases)
  case 1
  then show ?thesis by (intro exI [of _ "[]"]) (simp add: status_traces_def Let_def)
next
  case (2 es p grants uses)
  let ?eff = "\<lambda>g. effect_of E (pj_Run p) g (xr_Action input) (xr_InputBase64 input) w"
  from 2(8) obtain fs where x: "extended (be_Codec E) db (ns, aq_RunID (xr_Action input)) fs db'"
    and t: "action_trace es (be_Now E 3) (xr_Action input) ?eff w fs (oc_Status out) w'" unfolding traced_def by blast
  from t have "map ev_Type fs \<in> status_traces (oc_Status out) \<and> (length fs < 3 \<longrightarrow> w' = w)"
  proof cases
    case (authorized e g gs)
    then have e: "ev_Type e = EventActionRequested" by (simp add: step_event_def)
    from authorized(5) show ?thesis
    proof (cases rule: authorized_trace.cases [of "(g, xr_Action input, w, ?eff g, gs, oc_Status out, w')"])
      case (3 g' r' w0 eff' a b hs st w1)
      with authorized(5) have "ev_Type a = EventActionAuthorized" "ev_Type b = EventActionExecuting"
        and c: "closing g (xr_Action input) (snd (?eff g)) hs (oc_Status out)" by (auto simp: decides_def starts_def step_event_def)
      moreover have "map ev_Type hs = [] \<and> oc_Status out = ''unknown'' \<or>
          map ev_Type hs = [effect_event (snd (?eff g))] \<and> oc_Status out = effect_status (snd (?eff g))"
        using c by (auto simp: closing_def closes_def step_event_def)
      ultimately show ?thesis using e authorized(1) 3
        by (auto simp: status_traces_def Let_def effect_event_def effect_status_def split: sum.splits if_splits)
    qed (use authorized e in \<open>auto simp: status_traces_def Let_def decides_def step_event_def\<close>)
  qed (auto simp: status_traces_def Let_def refuses_def step_event_def)
  with x show ?thesis by blast
qed

theorem broker_status_is_the_record_witness:
  "\<exists>db' out fs. Broker_Execute bx_E bx_db bx_w ''team'' bx_input = (db', bx_written, out, None) \<and>
     extended ex_CR bx_db (''team'', ''run:1'') fs db' \<and>
     map ev_Type fs = [EventActionRequested, EventActionAuthorized, EventActionExecuting, EventActionCommitted]"
proof -
  obtain db' out where x: "Broker_Execute bx_E bx_db bx_w ''team'' bx_input = (db', bx_written, out, None)" "oc_Status out = ''committed''"
    using bx_runs by blast
  have "run_store_ok (be_Codec bx_E) bx_db" "faithful_codec (be_Codec bx_E)" using bx_store bx_faithful by simp_all
  from broker_status_is_the_record [OF this x(1)] obtain fs where
    f: "fs = [] \<and> db' = bx_db \<or> extended (be_Codec bx_E) bx_db (''team'', aq_RunID (xr_Action bx_input)) fs db'"
      "map ev_Type fs \<in> status_traces (oc_Status out)" by blast
  from f(2) x(2) have m: "map ev_Type fs = [EventActionRequested, EventActionAuthorized, EventActionExecuting, EventActionCommitted]"
    by (simp add: status_traces_def Let_def)
  then have "fs \<noteq> []" by blast
  with f(1) have "extended ex_CR bx_db (''team'', ''run:1'') fs db'" by simp
  with x(1) m show ?thesis by (intro exI conjI)
qed

text \<open>C14. Use limits hold for ever: whatever sequence of executions and recoveries the broker goes through, no
  grant of any run is authorized more often than it may be used, if that was so at the start.\<close>

theorem grants_are_not_overused:
  assumes "broker_steps C (db, w) (db', w')" and "faithful_codec C" and "run_store_ok C db"
    and "\<forall>key es. run_histories C db key = Some es \<longrightarrow> within_use_limits es"
    and "run_histories C db' key = Some es" and "g \<in> set (installed_grants es)" and "cg_MaxUses g = Some m"
  shows "int (authorizations (cg_ID g) es) \<le> m"
proof -
  have "run_store_ok C (fst (db', w')) \<and> (\<forall>key es. run_histories C (fst (db', w')) key = Some es \<longrightarrow> within_use_limits es)"
    using assms(1,2)
  proof (rule broker_steps_invariant)
    show "within_use_limits (es @ fs)" if "within_use_limits es" "recovery_of es fs" for es fs
      using that recovery_of_neutral [OF that(2)] by (simp add: within_use_limits_def)
  qed (use assms(3,4) within_use_limits_extended in auto)
  then have "within_use_limits es" unfolding fst_conv using assms(5) by blast
  with assms(6,7) show ?thesis by (simp add: within_use_limits_def)
qed

lemma bx_limits: "run_histories ex_CR bx_db key = Some es \<Longrightarrow> within_use_limits es \<and> attempts_distinct es"
  unfolding bx_store(2) by (auto simp: within_use_limits_def attempts_distinct_def attempts_def requested_by_def bx_events_def
      bx_event_defs authorizes_def bx_grant_sel granted_by_def bx_grant_def split: if_splits)

lemma bx_steps: "\<exists>db'. broker_steps ex_CR (bx_db, bx_w) (db', bx_written) \<and> (\<exists>fs. run_histories ex_CR db' (''team'', ''run:1'') = Some (bx_events @ fs))"
proof -
  obtain db' out where x: "Broker_Execute bx_E bx_db bx_w ''team'' bx_input = (db', bx_written, out, None)" using bx_runs by blast
  have ok: "run_store_ok (be_Codec bx_E) bx_db" "faithful_codec (be_Codec bx_E)" using bx_store bx_faithful by simp_all
  have "broker_steps ex_CR (bx_db, bx_w) (db', bx_written)"
    by (rule broker_steps.execute [OF broker_steps.start _ x]) simp
  moreover from ok x have "\<exists>fs. run_histories ex_CR db' (''team'', ''run:1'') = Some (bx_events @ fs)"
  proof (cases rule: Broker_Execute_cases)
    case 1
    with bx_changed(1) show ?thesis by simp
  next
    case (2 es p grants uses)
    then show ?thesis using bx_store(2) by (auto simp: traced_def extended_def)
  qed
  ultimately show ?thesis by blast
qed

theorem grants_are_not_overused_witness:
  "\<exists>db' es. broker_steps ex_CR (bx_db, bx_w) (db', bx_written) \<and> run_histories ex_CR db' (''team'', ''run:1'') = Some es \<and>
     int (authorizations ''cap:1'' es) \<le> 2"
proof -
  obtain db' fs where s: "broker_steps ex_CR (bx_db, bx_w) (db', bx_written)"
    and h: "run_histories ex_CR db' (''team'', ''run:1'') = Some (bx_events @ fs)" using bx_steps by blast
  have g: "bx_grant \<in> set (installed_grants (bx_events @ fs))" "cg_MaxUses bx_grant = Some 2"
    by (simp_all add: bx_events_def bx_event_defs granted_by_def bx_grant_def)
  have "int (authorizations (cg_ID bx_grant) (bx_events @ fs)) \<le> 2"
    by (rule grants_are_not_overused [OF s bx_faithful bx_store(1) _ h g]) (use bx_limits in blast)
  with s h show ?thesis by (auto simp: bx_grant_sel)
qed

text \<open>C32. No attempt is made twice: along every sequence of executions and recoveries the requests recorded
  in a run's history keep different action identifiers and different idempotency keys.\<close>

theorem attempts_are_never_repeated:
  assumes "broker_steps C (db, w) (db', w')" and "faithful_codec C" and "run_store_ok C db"
    and "\<forall>key es. run_histories C db key = Some es \<longrightarrow> attempts_distinct es"
    and "run_histories C db' key = Some es"
  shows "distinct (map aq_ID (attempts es)) \<and> distinct (map aq_IdempotencyKey (attempts es))"
proof -
  have "run_store_ok C (fst (db', w')) \<and> (\<forall>key es. run_histories C (fst (db', w')) key = Some es \<longrightarrow> attempts_distinct es)"
    using assms(1,2)
  proof (rule broker_steps_invariant)
    show "attempts_distinct (es @ fs)" if "attempts_distinct es" "recovery_of es fs" for es fs
      using that recovery_of_attempts [OF that(2)] by (simp add: attempts_distinct_def)
  qed (use assms(3,4) attempts_distinct_extended in auto)
  then have "attempts_distinct es" unfolding fst_conv using assms(5) by blast
  then show ?thesis by (simp add: attempts_distinct_def)
qed

theorem attempts_are_never_repeated_witness:
  "\<exists>db' es. broker_steps ex_CR (bx_db, bx_w) (db', bx_written) \<and> run_histories ex_CR db' (''team'', ''run:1'') = Some es \<and>
     distinct (map aq_ID (attempts es))"
proof -
  obtain db' fs where s: "broker_steps ex_CR (bx_db, bx_w) (db', bx_written)"
    and h: "run_histories ex_CR db' (''team'', ''run:1'') = Some (bx_events @ fs)" using bx_steps by blast
  from attempts_are_never_repeated [OF s bx_faithful bx_store(1) _ h] bx_limits s h show ?thesis by blast
qed

text \<open>C33. Progress: where the database reports no fault, the codec encodes everything and event identifiers are
  new, a valid request that an installed grant authorizes is carried out, without an error, and the outcome is
  the one the driver reported, with its digest and its output.\<close>

theorem authorized_action_is_performed:
  assumes "serviceable E" and "at_head (be_Codec E) db ns p es" and "ar_ID (pj_Run p) = aq_RunID (xr_Action input)"
    and "ar_State (pj_Run p) = RunRunning" and "ar_EventSequence (pj_Run p) = xr_ExpectedSequence input"
    and "xr_ExpectedSequence input \<le> max64 - 4"
    and "ActionRequest_Validate (xr_Action input) = None" and "ensureUniqueAttempt (xr_Action input) es = None"
    and "GrantsFromEvents es = Inr (grants, uses)" and "authorize (xr_Action input) grants uses (be_Now E 3) = Inr g"
    and "decodeInput (xr_InputBase64 input) = Inr data"
    and "Filesystem_Execute (be_Arguments E) (be_OS E) (pj_Run p) g (xr_Action input) data w = (w', result)"
  shows "\<exists>db' out. Broker_Execute E db w ns input = (db', w', out, None) \<and> oc_CapabilityID out = cg_ID g \<and>
     (case result of
        Inr r \<Rightarrow> oc_Status out = ''committed'' \<and> oc_ResultDigest out = fx_Digest r \<and> decodeInput (oc_OutputBase64 out) = Inr (fx_Output r)
      | Inl err \<Rightarrow> oc_Status out = (if err = UnknownEffect then ''unknown'' else ''failed''))"
proof -
  have eff: "effect_of E (pj_Run p) g (xr_Action input) (xr_InputBase64 input) w = (w', result)"
    using assms(11,12) by (simp add: effect_of_def)
  from Broker_Execute_progress [OF assms(1-5,7-10,6) eff] obtain db' out where
    "Broker_Execute E db w ns input = (db', w', out, None)" "oc_Status out = effect_status result" "oc_CapabilityID out = cg_ID g"
    "\<forall>r. result = Inr r \<longrightarrow> oc_ResultDigest out = fx_Digest r \<and> oc_OutputBase64 out = base64_encode (fx_Output r)" by blast
  then show ?thesis by (cases result) (auto simp: effect_status_def decode_encode)
qed

theorem authorized_action_is_performed_witness:
  "\<exists>db' out. Broker_Execute bx_E bx_db bx_w ''team'' bx_input = (db', bx_written, out, None) \<and> oc_Status out = ''committed'' \<and>
     oc_ResultDigest out = ''sha256:'' @ bx_sha ''hi''"
proof -
  have a: "at_head (be_Codec bx_E) bx_db ''team'' bx_p4 bx_events" using bx_at_head by simp
  have d: "decodeInput (xr_InputBase64 bx_input) = Inr ''hi''" by (simp add: decode_encode)
  have x: "Filesystem_Execute (be_Arguments bx_E) (be_OS bx_E) (pj_Run bx_p4) bx_grant (xr_Action bx_input) ''hi'' bx_w =
    (bx_written, Inr \<lparr>fx_Digest = ''sha256:'' @ bx_sha ''hi'', fx_Bytes = 2, fx_Output = ''''\<rparr>)" using bx_execute by simp
  from authorized_action_is_performed [OF bx_serviceable a _ _ _ _ _ _ bx_granted_state _ d x]
  show ?thesis by (simp add: bx_request_valid bx_unique bx_authorize max64_def) blast
qed

section \<open>Authorization\<close>

lemma authorizeAmong_find:
  "authorizeAmong request uses now grants = (case find (grantCovers request) grants of
     None \<Rightarrow> Inl (capabilityError ErrorCapabilityDenied '''' ''no capability authorizes the requested resource and operation'')
   | Some g \<Rightarrow> authorizeAmong request uses now [g])"
  by (induction grants) auto

lemma authorizeAmong_member: "authorizeAmong request uses now [h] = Inr g \<Longrightarrow> g = h"
  by (auto split: if_splits)

lemma authorizeAmong_one:
  "uses (cg_ID g) = int n \<Longrightarrow> grantCovers request g \<Longrightarrow> authorizeAmong request uses now [g] = Inr g' \<longleftrightarrow> g' = g \<and> may_use request now n g"
  by (auto simp: may_use_def on_some_def split: option.splits)

lemma find_sorted_least:
  assumes "distinct (map key xs)"
  shows "find P (sort_key key xs) = Some x \<longleftrightarrow> x \<in> set xs \<and> P x \<and> (\<forall>y\<in>set xs. P y \<longrightarrow> key x \<le> (key y :: 'k :: linorder))"
proof -
  have "\<forall>ys. sorted (map key ys) \<longrightarrow> distinct (map key ys) \<longrightarrow>
      (find P ys = Some x \<longleftrightarrow> x \<in> set ys \<and> P x \<and> (\<forall>y\<in>set ys. P y \<longrightarrow> key x \<le> key y))"
  proof
    fix ys show "sorted (map key ys) \<longrightarrow> distinct (map key ys) \<longrightarrow>
      (find P ys = Some x \<longleftrightarrow> x \<in> set ys \<and> P x \<and> (\<forall>y\<in>set ys. P y \<longrightarrow> key x \<le> key y))"
      by (induction ys) (auto simp: dest: order_antisym)
  qed
  moreover have "distinct (map key (sort_key key xs))" using assms by (simp add: distinct_map)
  ultimately show ?thesis by simp
qed

text \<open>Which grant authorizes: without a hint it is the covering grant with the least identifier, and no other,
  so that a covering grant that is revoked, expired, used up or subject to approval hides every covering
  grant after it; with a hint it is the grant named, if it covers the request.\<close>

theorem authorization_uses_the_first_covering_grant:
  assumes "distinct (map cg_ID grants)" and "\<forall>g\<in>set grants. uses (cg_ID g) = int (used g)"
  shows "authorize request grants uses now = Inr g \<longleftrightarrow> g \<in> set grants \<and> may_use request now (used g) g \<and>
     (if aq_CapabilityHint request \<noteq> '''' then cg_ID g = aq_CapabilityHint request
      else \<forall>h\<in>set grants. grantCovers request h \<longrightarrow> cg_ID g \<le> cg_ID h)"
proof (cases "aq_CapabilityHint request = ''''")
  case True
  let ?s = "sort_key cg_ID grants"
  have "authorize request grants uses now = Inr g \<longleftrightarrow> find (grantCovers request) ?s = Some g \<and> authorizeAmong request uses now [g] = Inr g"
    unfolding authorize_def using True authorizeAmong_find [of request uses now ?s]
    by (auto split: option.splits simp del: authorizeAmong.simps dest: authorizeAmong_member)
  also have "\<dots> \<longleftrightarrow> g \<in> set grants \<and> may_use request now (used g) g \<and> (\<forall>h\<in>set grants. grantCovers request h \<longrightarrow> cg_ID g \<le> cg_ID h)"
    unfolding find_sorted_least [OF assms(1)] using assms(2) authorizeAmong_one [of uses g "used g" request now g]
    by (auto simp: may_use_def simp del: authorizeAmong.simps)
  finally show ?thesis using True by simp
next
  case False
  show ?thesis
  proof (cases "find (\<lambda>g. cg_ID g = aq_CapabilityHint request) grants")
    case None
    then have "\<forall>g\<in>set grants. cg_ID g \<noteq> aq_CapabilityHint request" by (simp add: find_None_iff)
    moreover have "authorize request grants uses now \<noteq> Inr g" using False None by (simp add: authorize_def)
    ultimately show ?thesis using False by auto
  next
    case (Some h)
    then have h: "h \<in> set grants" "cg_ID h = aq_CapabilityHint request" by (auto simp: find_Some_iff)
    have "\<not> grantCovers request h \<Longrightarrow> authorizeAmong request uses now [h] \<noteq> Inr g" by simp
    then have "authorize request grants uses now = Inr g \<longleftrightarrow> g = h \<and> may_use request now (used h) h"
      using False Some authorizeAmong_one [of uses h "used h" request now g] assms(2) h(1)
      by (cases "grantCovers request h") (auto simp: authorize_def may_use_def simp del: authorizeAmong.simps(2) split: if_splits)
    moreover have "g = h" if "g \<in> set grants" "cg_ID g = aq_CapabilityHint request"
      using that h assms(1) by (auto simp: distinct_map inj_on_def)
    ultimately show ?thesis using False h by auto
  qed
qed

theorem authorization_uses_the_first_covering_grant_witness:
  "authorize bx_request [bx_grant] (\<lambda>_. 0) 2000 = Inr bx_grant \<and>
   authorize bx_request [bx_grant\<lparr>cg_ID := ''cap:0'', cg_ExpiresAt := 1900\<rparr>, bx_grant] (\<lambda>_. 0) 2000 \<noteq> Inr bx_grant"
proof -
  let ?old = "bx_grant\<lparr>cg_ID := ''cap:0'', cg_ExpiresAt := 1900\<rparr>"
  have c: "grantCovers bx_request bx_grant" "grantCovers bx_request ?old" "aq_CapabilityHint bx_request = ''''"
    by (simp_all add: bx_request_def grantCovers_def bx_grant_def ex_grant_def bx_matches)
  have m: "may_use bx_request 2000 0 bx_grant"
    using c(1) by (simp add: may_use_def bx_grant_def ex_grant_def ex_conditions_def)
  have less: "\<not> ''cap:1'' \<le> ''cap:0''" by code_simp
  from authorization_uses_the_first_covering_grant [of "[bx_grant]" "\<lambda>_. 0" "\<lambda>_. 0" bx_request 2000 bx_grant] m c(3)
    authorization_uses_the_first_covering_grant [of "[?old, bx_grant]" "\<lambda>_. 0" "\<lambda>_. 0" bx_request 2000 bx_grant] c less
  show ?thesis by (simp add: bx_grant_sel)
qed
end
