(* ===== verification/Driver_Properties.thy ===== *)
theory Driver_Properties
  imports Broker_Properties
begin

text \<open>
  The properties of recovery, of the filesystem driver and of the capability compiler.
\<close>

section \<open>Recovery\<close>

text \<open>C34. Recovery closes what a crash left open: whatever it does, it only appends to the histories of runs that
  can still change; where it reports no error, no action of such a run is interrupted any more.\<close>

theorem recovery_closes_interrupted_actions:
  assumes "\<forall>i. be_Codec (Es i) = C" and "faithful_codec C" and "run_store_ok C db" and "Broker_Recover Es db = (db', n, err)"
    and "run_histories C db key = Some es" and "Replay es = Inr p"
  shows "run_store_ok C db' \<and> (\<exists>fs. run_histories C db' key = Some (es @ fs) \<and>
     (RunState_Terminal (ar_State (pj_Run p)) \<longrightarrow> fs = []) \<and>
     (err = None \<longrightarrow> \<not> RunState_Terminal (ar_State (pj_Run p)) \<longrightarrow> (\<forall>a. \<not> interrupted a (es @ fs))))"
proof -
  from assms(1-4) obtain f where f: "run_store_ok C db'" "grown (run_histories C db) (run_histories C db') f"
    "recovery_of es (f key) \<and> (RunState_Terminal (ar_State (pj_Run p)) \<longrightarrow> f key = []) \<and>
       (err = None \<longrightarrow> \<not> RunState_Terminal (ar_State (pj_Run p)) \<longrightarrow> (\<forall>a. \<not> interrupted a (es @ f key)))"
    by (rule Broker_Recover_cases) (use assms(5,6) in blast)
  from f(2) assms(5) have "run_histories C db' key = Some (es @ f key)" by (cases key) (simp add: grown_def)
  with f(1,3) show ?thesis by blast
qed

theorem recovery_closes_interrupted_actions_witness:
  "interrupted ''action:1'' (bx_events @ [bx_requested]) \<and>
   (\<exists>db' fs. Broker_Recover (\<lambda>_. bx_E) bx_crashed = (db', 1, None) \<and>
     run_histories ex_CR db' (''team'', ''run:1'') = Some ((bx_events @ [bx_requested]) @ fs) \<and>
     \<not> interrupted ''action:1'' ((bx_events @ [bx_requested]) @ fs))"
proof -
  obtain db' where r: "Broker_Recover (\<lambda>_. bx_E) bx_crashed = (db', 1, None)" using bx_recovers by blast
  have h: "run_histories ex_CR bx_crashed (''team'', ''run:1'') = Some (bx_events @ [bx_requested])" by (simp add: bx_crashed_store(2))
  have "\<forall>i. be_Codec ((\<lambda>_. bx_E) (i :: nat)) = ex_CR" by simp
  from recovery_closes_interrupted_actions [OF this bx_faithful bx_crashed_store(1) r h bx_crashed_replay] obtain fs where
    "run_histories ex_CR db' (''team'', ''run:1'') = Some ((bx_events @ [bx_requested]) @ fs)"
    "\<not> interrupted ''action:1'' ((bx_events @ [bx_requested]) @ fs)" by auto
  moreover have "interrupted ''action:1'' (bx_events @ [bx_requested])"
    by (simp add: bx_events_def bx_event_defs bx_requested_def requests_action_def)
  ultimately show ?thesis using r by blast
qed

text \<open>Recovery never decides in favour of an action: every event it appends closes an action that was
  interrupted, by denying it, or by marking it unknown where the history had authorized or started it.\<close>

theorem recovery_only_denies_or_doubts:
  assumes "\<forall>i. be_Codec (Es i) = C" and "faithful_codec C" and "run_store_ok C db" and "Broker_Recover Es db = (db', n, err)"
    and "run_histories C db key = Some es" and "run_histories C db' key = Some (es @ fs)" and "e \<in> set fs"
  shows "\<exists>a. interrupted a es \<and> closes_action a e \<and>
     (ev_Type e = EventActionDenied \<or> ev_Type e = EventActionUnknown \<and> (\<exists>f\<in>set es. \<exists>c. advances_action a c f))"
proof -
  obtain ns i where k: "key = (ns, i)" by (cases key)
  from run_history_head [OF assms(3) assms(5) [unfolded k]] obtain p where p: "Replay es = Inr p" by blast
  from assms(1-4) obtain f where "grown (run_histories C db) (run_histories C db') f" "recovery_of es (f key)"
    by (rule Broker_Recover_cases) (use assms(5) p in blast)
  with assms(5,6) have "recovery_of es fs" by (simp add: grown_def k)
  from recovery_of_verdict [OF this assms(7)] show ?thesis .
qed

theorem recovery_only_denies_or_doubts_witness:
  "\<exists>db' e. Broker_Recover (\<lambda>_. bx_E) bx_crashed = (db', 1, None) \<and> closes_action ''action:1'' e \<and>
     run_histories ex_CR db' (''team'', ''run:1'') = Some ((bx_events @ [bx_requested]) @ [e]) \<and> ev_Type e = EventActionDenied"
proof -
  obtain db' where r: "Broker_Recover (\<lambda>_. bx_E) bx_crashed = (db', 1, None)" using bx_recovers by blast
  have h: "run_histories ex_CR bx_crashed (''team'', ''run:1'') = Some (bx_events @ [bx_requested])" by (simp add: bx_crashed_store(2))
  have C: "\<forall>i. be_Codec ((\<lambda>_. bx_E) (i :: nat)) = ex_CR" by simp
  from C bx_faithful bx_crashed_store(1) r obtain f where g: "grown (run_histories ex_CR bx_crashed) (run_histories ex_CR db') f"
    and v: "recovery_of (bx_events @ [bx_requested]) (f (''team'', ''run:1''))"
      "\<forall>a. \<not> interrupted a ((bx_events @ [bx_requested]) @ f (''team'', ''run:1''))"
    by (rule Broker_Recover_cases) (use h bx_crashed_replay in force)
  let ?fs = "f (''team'', ''run:1'')"
  have h': "run_histories ex_CR db' (''team'', ''run:1'') = Some ((bx_events @ [bx_requested]) @ ?fs)"
    using g h by (simp add: grown_def)
  have "length ?fs \<le> 1" using v(1) by (auto simp: recovery_of_def bx_interrupted open_in_order_def list_all2_conv_all_nth)
  moreover have "?fs \<noteq> []" using v(2) by (auto simp: bx_events_def bx_event_defs bx_requested_def requests_action_def)
  ultimately obtain e where fs: "?fs = [e]" by (cases ?fs) auto
  then have "e \<in> set ?fs" by simp
  from recovery_only_denies_or_doubts [OF C bx_faithful bx_crashed_store(1) r h h' this] obtain a where
    a: "interrupted a (bx_events @ [bx_requested])" "closes_action a e"
      "ev_Type e = EventActionDenied \<or> (\<exists>f\<in>set (bx_events @ [bx_requested]). \<exists>c. advances_action a c f)" by blast
  have "a = ''action:1''" using a(1) by (simp add: bx_events_def bx_event_defs bx_requested_def requests_action_def)
  moreover have "\<not> (\<exists>f\<in>set (bx_events @ [bx_requested]). \<exists>c. advances_action a c f)"
    by (simp add: bx_events_def bx_event_defs bx_requested_def advances_action_def)
  ultimately show ?thesis using r h' fs a by auto
qed

section \<open>The filesystem driver\<close>

text \<open>C35. The driver changes nothing outside the authority of the grant. Where the state of the operating system changes at
  all, the action is a write of a clean path inside the run's workspace that the grant's selector matches and in which no
  component names control metadata, grant and request are for files, the arguments and the content have the
  announced digests, the content fits the output limit, and no existing directory on the way, from the repository to the
  workspace or inside the workspace, is a symbolic link. The change is then made by operations below the root of the
  run's workspace and nowhere else: the content goes to one temporary file in the directory of the target, which is
  renamed to the target, the path below the workspace.\<close>

theorem driver_writes_only_within_grant:
  assumes "Filesystem_Execute A os run grant request input w = (w', result)" and "w' \<noteq> w"
  shows "aq_Operation request = FilesystemWrite \<and> FilesystemWrite \<in> set (cg_Operations grant) \<and>
     cg_SubjectRunID grant = ar_ID run \<and> aq_RunID request = ar_ID run \<and> cc_WorkspaceRoot (cg_Conditions grant) = ar_Workspace run \<and>
     rs_Kind (cg_Resource grant) = ''filesystem'' \<and> rs_Kind (aq_Resource request) = ''filesystem'' \<and>
     MatchResource (rs_Pattern (cg_Resource grant)) (rs_Pattern (aq_Resource request)) \<and>
     strict_prefix (components (ar_Workspace run)) (components (rs_Pattern (aq_Resource request))) \<and>
     (\<forall>c\<in>set (components (rs_Pattern (aq_Resource request))). proper_component c \<and> \<not> controlMetadataComponent c) \<and>
     (\<exists>a n. ac_DecodeWrite A (aq_Arguments request) = Inr a \<and> ac_EncodeWrite A a = Some n \<and>
        aq_ArgumentsDigest request = DigestBytes A n \<and> fw_Path a = rs_Pattern (aq_Resource request) \<and>
        fw_ContentDigest a = DigestBytes A input) \<and>
     int (length input) \<le> outputLimit grant \<and> os_OpenRepository os w \<and> os_OpenWorkspace os (ar_Workspace run) w \<and>
     real_directories os '''' (components (ar_Workspace run)) w \<and>
     (\<exists>relative random. components (rs_Pattern (aq_Resource request)) = components (ar_Workspace run) @ components relative \<and>
        real_directories os (ar_Workspace run) (butlast (components relative)) w \<and> os_Random os w = Some random \<and>
        written os (ar_Workspace run) (path_Join2 (path_Dir relative) (''.gatemole-write-'' @ random)) relative input w w')"
  using assms(1)
proof (cases rule: Filesystem_Execute_cases)
  case unchanged
  with assms(2) show ?thesis by simp
next
  case (written relative)
  then have w: "aq_Operation request = FilesystemWrite" "within_grant run grant request relative"
    "\<exists>a n. ac_DecodeWrite A (aq_Arguments request) = Inr a \<and> ac_EncodeWrite A a = Some n \<and>
        aq_ArgumentsDigest request = DigestBytes A n \<and> fw_Path a = rs_Pattern (aq_Resource request) \<and>
        fw_ContentDigest a = DigestBytes A input" "int (length input) \<le> outputLimit grant"
    "os_OpenRepository os w" "os_OpenWorkspace os (ar_Workspace run) w"
    and s: "rejectSymlinkComponents os '''' (ar_Workspace run) (aq_ID request) True w = None"
      "rejectSymlinkComponents os (ar_Workspace run) relative (aq_ID request) False w = None"
    by (simp_all add: write_admitted_def)
  have d: "real_directories os '''' (components (ar_Workspace run)) w"
      "real_directories os (ar_Workspace run) (butlast (components relative)) w"
    using rejectSymlinkComponents_None [OF s(1)] rejectSymlinkComponents_None [OF s(2)] by simp_all
  from writeFile_written [OF written(2) assms(2)] obtain random where r: "os_Random os w = Some random"
    "Driver_Safety.written os (ar_Workspace run) (path_Join2 (path_Dir relative) (''.gatemole-write-'' @ random)) relative input w w'"
    unfolding temporaryName_def by blast
  have "components relative \<noteq> []" by (simp add: components_def)
  then have "strict_prefix (components (ar_Workspace run)) (components (ar_Workspace run) @ components relative)"
    by (simp add: strict_prefix_def)
  with w d r show ?thesis unfolding within_grant_def by auto
qed

theorem driver_writes_only_within_grant_witness:
  "Filesystem_Execute bx_arguments bx_OS (pj_Run bx_p4) bx_grant bx_request ''hi'' bx_w =
     (bx_written, Inr \<lparr>fx_Digest = ''sha256:'' @ bx_sha ''hi'', fx_Bytes = 2, fx_Output = ''''\<rparr>) \<and>
   (\<exists>relative. components (rs_Pattern (aq_Resource bx_request)) = components (ar_Workspace (pj_Run bx_p4)) @ components relative \<and>
      written bx_OS (ar_Workspace (pj_Run bx_p4)) (path_Join2 (path_Dir relative) ''.gatemole-write-1'') relative ''hi'' bx_w bx_written)"
proof -
  have r: "os_Random bx_OS bx_w = Some random \<Longrightarrow> random = ''1''" for random by (simp add: bx_OS_def)
  from driver_writes_only_within_grant [OF bx_execute bx_changed(1)] bx_execute r show ?thesis by fastforce
qed

text \<open>C36. A write is all or nothing: on an operating system that keeps its documented promises, a write touches
  only its target and one temporary file next to it; where it reports success or an unknown outcome the target
  holds exactly the new content, and where it reports any other failure the target is as it was.\<close>

theorem driver_write_is_atomic:
  assumes "posix_root os (ar_Workspace run) view" and "aq_Operation request = FilesystemWrite"
    and "Filesystem_Execute A os run grant request input w = (w', result)"
    and "rs_Pattern (aq_Resource request) = ar_Workspace run @ CHR ''/'' # relative"
    and "\<forall>random. os_Random os w = Some random \<longrightarrow> temporaryName relative random \<noteq> relative"
  shows "(\<forall>p. p \<noteq> relative \<longrightarrow> (\<forall>random. os_Random os w = Some random \<longrightarrow> p \<noteq> temporaryName relative random) \<longrightarrow> view w' p = view w p) \<and>
     (case result of
        Inr r \<Rightarrow> view w' relative = Some input \<and> fx_Digest r = DigestBytes A input \<and> fx_Bytes r = int (length input)
      | Inl UnknownEffect \<Rightarrow> view w' relative = Some input
      | Inl _ \<Rightarrow> view w' relative = view w relative)"
  using assms(3)
proof (cases rule: Filesystem_Execute_cases)
  case unchanged
  with assms(2) show ?thesis by (auto split: ExecutionError.splits)
next
  case (written relative')
  have "components (rs_Pattern (aq_Resource request)) = components (ar_Workspace run) @ components relative"
    unfolding assms(4) by (simp add: components_append)
  with written(1) have "relative' = relative" by (simp add: write_admitted_def within_grant_def components_inject)
  with written(2) have x: "writeFile A os (ar_Workspace run) relative input w = (w', result)" by simp
  show ?thesis
  proof (rule writeFile_steps [OF assms(1) x])
    show "temporaryName relative random \<noteq> relative" if "os_Random os w = Some random" for random
      using assms(5) that by simp
  next
    assume r: "result = Inl OtherFailure"
      and kept: "\<forall>p. (\<forall>random. os_Random os w = Some random \<longrightarrow> p \<noteq> temporaryName relative random) \<longrightarrow> view w' p = view w p"
    have "\<forall>random. os_Random os w = Some random \<longrightarrow> relative \<noteq> temporaryName relative random" using assms(5) by metis
    then have "view w' relative = view w relative" by (rule kept [THEN spec, THEN mp])
    with kept show ?thesis unfolding r by (simp only: sum.case ExecutionError.case simp_thms) blast
  next
    fix random
    assume replaced: "os_Random os w = Some random" "view w' = (view w)(temporaryName relative random := None, relative := Some input)"
      "result = Inl UnknownEffect \<or>
       result = Inr \<lparr>fx_Digest = DigestBytes A input, fx_Bytes = int (length input), fx_Output = ''''\<rparr>"
    have target: "view w' relative = Some input" unfolding replaced(2) by (rule fun_upd_same)
    have others: "view w' p = view w p" if p: "p \<noteq> relative" "\<forall>random. os_Random os w = Some random \<longrightarrow> p \<noteq> temporaryName relative random" for p
    proof -
      from p(2) replaced(1) have "p \<noteq> temporaryName relative random" by blast
      with p(1) show ?thesis unfolding replaced(2) fun_upd_def by (simp only: if_False)
    qed
    from replaced(3) show ?thesis
    proof
      assume "result = Inl UnknownEffect"
      with target others show ?thesis by (simp only: sum.case ExecutionError.case) blast
    next
      assume "result = Inr \<lparr>fx_Digest = DigestBytes A input, fx_Bytes = int (length input), fx_Output = ''''\<rparr>"
      with target others show ?thesis by (simp only: sum.case FilesystemResult.select_convs) blast
    qed
  qed
qed

theorem driver_write_is_atomic_witness:
  "Filesystem_Execute bx_arguments bx_OS (pj_Run bx_p4) bx_grant bx_request ''hi'' bx_w =
     (bx_written, Inr \<lparr>fx_Digest = ''sha256:'' @ bx_sha ''hi'', fx_Bytes = 2, fx_Output = ''''\<rparr>) \<and>
   bx_w ''a'' = Some ''old'' \<and> bx_written ''a'' = Some ''hi'' \<and> bx_written ''b'' = bx_w ''b''"
proof -
  have o: "aq_Operation bx_request = FilesystemWrite" "rs_Pattern (aq_Resource bx_request) = ar_Workspace (pj_Run bx_p4) @ CHR ''/'' # ''a''"
    by (simp_all add: bx_request_def FilesystemWrite_def)
  have r: "os_Random bx_OS bx_w = Some ''1''" by (simp add: bx_OS_def)
  have t: "\<forall>random. os_Random bx_OS bx_w = Some random \<longrightarrow> temporaryName ''a'' random \<noteq> ''a''"
    using r bx_temporary by auto
  from driver_write_is_atomic [OF bx_posix o(1) bx_execute o(2) t]
  have "bx_written ''a'' = Some ''hi''" "\<And>p. p \<noteq> ''a'' \<Longrightarrow> p \<noteq> ''.gatemole-write-1'' \<Longrightarrow> bx_written p = bx_w p"
    by (simp_all add: r bx_temporary)
  then show ?thesis using bx_execute by (simp add: bx_w_def)
qed

text \<open>C37. What a read returns, for every limit from none to the greatest 64-bit number. Below the greatest limit a
  regular file that can be opened and read is returned whole, with its digest and length, exactly when it fits the limit, and
  refused otherwise; at the greatest limit, which validation accepts, the bound of the reader wraps around and every such read
  succeeds with no content at all. What cannot be opened, is not a regular file or cannot be read is refused.\<close>

theorem read_is_exact_below_the_greatest_limit:
  assumes "0 \<le> limit" and "limit \<le> max64"
  shows "readFile A os root relative limit w =
    (case os_OpenRead os root relative w of
       None \<Rightarrow> Inl OtherFailure
     | Some h \<Rightarrow> (case (rh_Regular h, rh_Content h) of
         (Some True, Some content) \<Rightarrow>
           if limit = max64 then Inr \<lparr>fx_Digest = DigestBytes A '''', fx_Bytes = 0, fx_Output = ''''\<rparr>
           else if int (length content) \<le> limit
           then Inr \<lparr>fx_Digest = DigestBytes A content, fx_Bytes = int (length content), fx_Output = content\<rparr>
           else Inl OtherFailure
       | _ \<Rightarrow> Inl OtherFailure))"
proof -
  have wrap: "nat (wrap64 (limit + 1)) = (if limit = max64 then 0 else Suc (nat limit))"
  proof (cases "limit = max64")
    case True
    then show ?thesis by (simp add: wrap64_def max64_def)
  next
    case False
    with assms have "wrap64 (limit + 1) = limit + 1" by (simp add: wrap64_id in64_def min64_def max64_def)
    with False assms(1) show ?thesis by (simp add: Suc_nat_eq_nat_zadd1 add.commute)
  qed
  have fits: "int (length (take (Suc (nat limit)) content)) \<le> limit \<longleftrightarrow> int (length content) \<le> limit"
    "int (length content) \<le> limit \<Longrightarrow> take (Suc (nat limit)) content = content" for content :: string
    using assms(1) by auto
  show ?thesis
    using assms(1) fits unfolding readFile_def wrap
    by (auto simp: Let_def max64_def split: option.splits)
qed

theorem read_is_exact_below_the_greatest_limit_witness:
  "readFile bx_arguments bx_OS ''work'' ''a'' 3 bx_w = Inr \<lparr>fx_Digest = ''sha256:'' @ bx_sha ''old'', fx_Bytes = 3, fx_Output = ''old''\<rparr> \<and>
   readFile bx_arguments bx_OS ''work'' ''a'' 2 bx_w = Inl OtherFailure \<and>
   readFile bx_arguments bx_OS ''work'' ''a'' max64 bx_w = Inr \<lparr>fx_Digest = ''sha256:'' @ bx_sha '''', fx_Bytes = 0, fx_Output = ''''\<rparr>"
proof -
  have o: "os_OpenRead bx_OS ''work'' ''a'' bx_w = Some \<lparr>rh_Regular = Some True, rh_Content = Some ''old''\<rparr>"
    by (simp add: bx_OS_def bx_w_def)
  have d: "DigestBytes bx_arguments s = ''sha256:'' @ bx_sha s" for s by (simp add: DigestBytes_def bx_arguments_def)
  note read = read_is_exact_below_the_greatest_limit [of _ bx_arguments bx_OS "''work''" "''a''" bx_w]
  show ?thesis using read [of 3] read [of 2] read [of max64] by (simp add: o d max64_def)
qed

section \<open>The capability compiler\<close>

text \<open>C38. What a contract is compiled to: one valid, non-delegable grant for every resource, in order, issued to
  the run the contract's digest was admitted for, with the operations, selector and conditions of the resource,
  the use limit of the budget and a lifetime that ends within an hour and by both deadlines; the scope of a
  filesystem grant lies below its own clean workspace root and allows reads and writes only.\<close>

theorem compiled_grants_are_scoped:
  assumes "Compile h contract run issued = Inr grants"
  shows "ec_Digest contract = ar_ContractDigest run \<and> length grants = length (ec_Resources contract) \<and> grants \<noteq> [] \<and>
     (\<forall>i<length grants. let g = grants ! i; r = ec_Resources contract ! i in
        CapabilityGrant_Validate g = None \<and> cg_SubjectRunID g = ar_ID run \<and> cg_Resource g = cr_Selector r \<and>
        cg_Operations g = cr_Operations r \<and> cg_Conditions g = cr_Conditions r \<and>
        cg_MaxUses g = MaxToolCalls (ec_Budgets contract) \<and> \<not> cg_Delegable g \<and>
        cg_IssuedAt g = issued \<and> issued < cg_ExpiresAt g \<and> cg_ExpiresAt g \<le> issued + defaultGrantTTL \<and>
        (\<forall>t. ar_Deadline run = Some t \<or> ec_Deadline contract = Some t \<longrightarrow> cg_ExpiresAt g \<le> t) \<and>
        (rs_Kind (cg_Resource g) = ''filesystem'' \<longrightarrow> logical_path (cc_WorkspaceRoot (cg_Conditions g)) \<and>
           prefix (components (cc_WorkspaceRoot (cg_Conditions g))) (components (rs_Pattern (cg_Resource g))) \<and>
           set (cg_Operations g) \<subseteq> {''filesystem.read'', ''filesystem.write''}))"
proof -
  from assms obtain expires where e: "ec_Digest contract = ar_ContractDigest run" "issued < expires" "expires \<le> issued + defaultGrantTTL"
    "\<And>t. ar_Deadline run = Some t \<Longrightarrow> expires \<le> t" "\<And>t. ec_Deadline contract = Some t \<Longrightarrow> expires \<le> t"
    and g: "grants = map (compileGrant h contract run issued expires) (ec_Resources contract)" "grants \<noteq> []"
    and v: "\<forall>g\<in>set grants. CapabilityGrant_Validate g = None"
      "\<forall>r\<in>set (ec_Resources contract). rs_Kind (cr_Selector r) = ''filesystem'' \<longrightarrow> validateFilesystemScope r = None"
    by (rule Compile_Inr) blast
  have "\<forall>i<length grants. let g = grants ! i; r = ec_Resources contract ! i in
        CapabilityGrant_Validate g = None \<and> cg_SubjectRunID g = ar_ID run \<and> cg_Resource g = cr_Selector r \<and>
        cg_Operations g = cr_Operations r \<and> cg_Conditions g = cr_Conditions r \<and>
        cg_MaxUses g = MaxToolCalls (ec_Budgets contract) \<and> \<not> cg_Delegable g \<and>
        cg_IssuedAt g = issued \<and> issued < cg_ExpiresAt g \<and> cg_ExpiresAt g \<le> issued + defaultGrantTTL \<and>
        (\<forall>t. ar_Deadline run = Some t \<or> ec_Deadline contract = Some t \<longrightarrow> cg_ExpiresAt g \<le> t) \<and>
        (rs_Kind (cg_Resource g) = ''filesystem'' \<longrightarrow> logical_path (cc_WorkspaceRoot (cg_Conditions g)) \<and>
           prefix (components (cc_WorkspaceRoot (cg_Conditions g))) (components (rs_Pattern (cg_Resource g))) \<and>
           set (cg_Operations g) \<subseteq> {''filesystem.read'', ''filesystem.write''})"
  proof (intro allI impI)
    fix i assume i: "i < length grants"
    let ?r = "ec_Resources contract ! i"
    have r: "?r \<in> set (ec_Resources contract)" using i g(1) by simp
    have gi: "grants ! i = compileGrant h contract run issued expires ?r" using i g(1) by simp
    have vi: "CapabilityGrant_Validate (grants ! i) = None" using v(1) i by simp
    have f: "rs_Kind (cr_Selector ?r) = ''filesystem'' \<Longrightarrow> logical_path (cc_WorkspaceRoot (cr_Conditions ?r)) \<and>
       prefix (components (cc_WorkspaceRoot (cr_Conditions ?r))) (components (rs_Pattern (cr_Selector ?r))) \<and>
       set (cr_Operations ?r) \<subseteq> {''filesystem.read'', ''filesystem.write''}"
      using v(2) r filesystem_scope by blast
    show "let g = grants ! i; r = ec_Resources contract ! i in
        CapabilityGrant_Validate g = None \<and> cg_SubjectRunID g = ar_ID run \<and> cg_Resource g = cr_Selector r \<and>
        cg_Operations g = cr_Operations r \<and> cg_Conditions g = cr_Conditions r \<and>
        cg_MaxUses g = MaxToolCalls (ec_Budgets contract) \<and> \<not> cg_Delegable g \<and>
        cg_IssuedAt g = issued \<and> issued < cg_ExpiresAt g \<and> cg_ExpiresAt g \<le> issued + defaultGrantTTL \<and>
        (\<forall>t. ar_Deadline run = Some t \<or> ec_Deadline contract = Some t \<longrightarrow> cg_ExpiresAt g \<le> t) \<and>
        (rs_Kind (cg_Resource g) = ''filesystem'' \<longrightarrow> logical_path (cc_WorkspaceRoot (cg_Conditions g)) \<and>
           prefix (components (cc_WorkspaceRoot (cg_Conditions g))) (components (rs_Pattern (cg_Resource g))) \<and>
           set (cg_Operations g) \<subseteq> {''filesystem.read'', ''filesystem.write''})"
      using vi e(2-5) f unfolding gi by (auto simp: compileGrant_def Let_def)
  qed
  with e(1) g show ?thesis by simp
qed

definition bx_resource :: ContractResource where
  "bx_resource = \<lparr>cr_ID = ''resource:1'', cr_Selector = \<lparr>rs_Kind = ''filesystem'', rs_Pattern = ''work/**''\<rparr>,
     cr_Operations = [''filesystem.read'', ''filesystem.write''], cr_Conditions = ex_conditions\<lparr>cc_WorkspaceRoot := ''work''\<rparr>\<rparr>"

definition bx_contract :: ExecutionContract where
  "bx_contract = \<lparr>ec_Version = ''gatemole.execution_contract.v0'', ec_ID = ''contract:1'', ec_Digest = sample_digest (CHR ''b''),
     ec_Owner = ex_actor, ec_Goal = ''write'', ec_NonGoals = [], ec_Risk = ''low'', ec_Resources = [bx_resource],
     ec_Budgets = ex_limits, ec_Deadline = None, ec_MaxChildDepth = None, ec_MaxChildren = None, ec_Checkpoints = [],
     ec_Obligations = [], ec_Escalation = None, ec_ReleaseContractRef = ''''\<rparr>"

lemma bx_compiled: "\<exists>grants. Compile (\<lambda>_. replicate 32 (CHR ''a'')) bx_contract bx_run 1500 = Inr grants"
proof -
  have i: "IsIdentifier ''contract:1''" "IsIdentifier ''resource:1''" by code_simp+
  have low: "validRisk ''low''" by (simp add: validRisk_def)
  have c: "ExecutionContract_Validate bx_contract = None"
    by (simp add: ExecutionContract_Validate_def bx_contract_def bx_resource_def ex_conditions_def ex_limits_def Let_def validate_simps
        example_simps i low bx_identifiers valid_conditions_def limits_nonneg_def limit_nonneg_def)
  have "CleanLogicalPath ''work'' = Some ''work''" using bx_logical by (simp add: CleanLogicalPath_iff)
  then have s: "validateFilesystemScope bx_resource = None"
    by (simp add: validateFilesystemScope_def bx_resource_def has_prefix_iff check_each_None)
  have ids: "IsIdentifier (stableID (\<lambda>_. replicate 32 (CHR ''a'')) ''cap'' xs)" "IsIdentifier (stableID (\<lambda>_. replicate 32 (CHR ''a'')) ''decision'' xs)" for xs
  proof -
    have "stableID (\<lambda>_. replicate 32 (CHR ''a'')) k xs = k @ '':'' @ replicate 32 (CHR ''a'')" for k by (simp add: stableID_def)
    moreover have "IsIdentifier (''cap'' @ '':'' @ replicate 32 (CHR ''a''))" "IsIdentifier (''decision'' @ '':'' @ replicate 32 (CHR ''a''))"
      by code_simp+
    ultimately show "IsIdentifier (stableID (\<lambda>_. replicate 32 (CHR ''a'')) ''cap'' xs)"
      "IsIdentifier (stableID (\<lambda>_. replicate 32 (CHR ''a'')) ''decision'' xs)" by simp_all
  qed
  have p: "valid_principal capabilityServicePrincipal" by (rule service_principal_valid)
  have g: "CapabilityGrant_Validate (compileGrant (\<lambda>_. replicate 32 (CHR ''a'')) bx_contract bx_run 1500 3600000001500 bx_resource) = None"
    by (simp add: CapabilityGrant_Validate_def compileGrant_def ids p bx_resource_def bx_run_def ex_run_def ex_conditions_def Let_def
        validate_simps example_simps bx_identifiers valid_conditions_def bx_contract_def ex_limits_def)
  have sel: "ec_Deadline bx_contract = None" "ec_Resources bx_contract = [bx_resource]" "ec_Digest bx_contract = sample_digest (CHR ''b'')"
    "ar_Deadline bx_run = None" "ar_ContractDigest bx_run = sample_digest (CHR ''b'')" "ar_State bx_run = RunCreated"
    by (simp_all add: bx_contract_def bx_run_def ex_run_def)
  show ?thesis by (simp add: Compile_def c bx_run_valid sel earlier_def s g defaultGrantTTL_def Let_def)
qed

theorem compiled_grants_are_scoped_witness:
  "\<exists>grants. Compile (\<lambda>_. replicate 32 (CHR ''a'')) bx_contract bx_run 1500 = Inr grants \<and> length grants = 1 \<and>
     cg_SubjectRunID (hd grants) = ''run:1''"
proof -
  obtain grants where g: "Compile (\<lambda>_. replicate 32 (CHR ''a'')) bx_contract bx_run 1500 = Inr grants" using bx_compiled ..
  from compiled_grants_are_scoped [OF g] have l: "length grants = 1" and n: "grants \<noteq> []"
    and s: "\<forall>i<length grants. cg_SubjectRunID (grants ! i) = ''run:1''"
    by (simp_all add: bx_contract_def Let_def bx_run_def ex_run_def)
  from s n have "cg_SubjectRunID (grants ! 0) = ''run:1''" by blast
  with g l n show ?thesis by (auto simp: hd_conv_nth)
qed

text \<open>A tree selector covers exactly the subtree of its base: the base and the target are clean logical paths
  and the components of the base are the first components of the target.\<close>

theorem tree_selector_covers_the_subtree:
  "MatchResource (base @ ''/**'') target \<longleftrightarrow>
     (\<forall>p\<in>{base, target}. CHR 0x5C \<notin> set p \<and> \<not> has_nul p \<and> (\<forall>c\<in>set (components p). c \<noteq> '''' \<and> c \<noteq> ''.'' \<and> c \<noteq> ''..'')) \<and>
     (\<exists>rest. components target = components base @ rest)"
  unfolding MatchResource_tree by (auto simp: logical_path_def proper_component_def prefix_def)

theorem tree_selector_covers_the_subtree_witness:
  "MatchResource (''work'' @ ''/**'') ''work/a'' \<and> \<not> MatchResource (''work'' @ ''/**'') ''workshop/a''"
proof -
  have "components ''work'' = [''work'']" "components ''work/a'' = [''work'', ''a'']" "components ''workshop/a'' = [''workshop'', ''a'']"
    "\<not> has_nul ''work''" "\<not> has_nul ''work/a''" by (simp_all add: components_def has_nul_def)
  then show ?thesis unfolding tree_selector_covers_the_subtree by simp
qed

text \<open>What the broker returns as output decodes, in the strict encoding it demands of its inputs, to exactly the
  bytes the driver read, whatever their number.\<close>

theorem broker_output_round_trip: "decodeInput (base64_encode s) = Inr s"
  by (rule decode_encode)
end
