(* ===== verification/Metadata_Properties.thy ===== *)
theory Metadata_Properties
  imports Runtime_Metadata
begin

text \<open>
  The properties of the binding of a ledger to a Runtime instance and an enforcement profile.
\<close>

text \<open>C15. The binding of a ledger is permanent: whatever sequence of bindings, reopenings and ledger operations
  follows, a bound Runtime identity stays; once the ledger has entries its enforcement profile stays, a
  ledger without a profile is never adopted by production, and one that runs under production without an
  identity is never given one.\<close>

theorem ledger_binding_is_permanent:
  assumes "ledger_step\<^sup>*\<^sup>* db db'"
  shows "(\<forall>r. db_metadata db runtimeIDMetadataKey = Some r \<longrightarrow> db_metadata db' runtimeIDMetadataKey = Some r) \<and>
    (db_nonempty db \<longrightarrow>
      (\<forall>p. db_metadata db enforcementProfileMetadataKey = Some p \<longrightarrow> db_metadata db' enforcementProfileMetadataKey = Some p) \<and>
      (db_metadata db enforcementProfileMetadataKey = None \<longrightarrow>
         db_metadata db' enforcementProfileMetadataKey \<in> {None, Some EnforcementProfileDevelopment}) \<and>
      (db_metadata db runtimeIDMetadataKey = None \<and> db_metadata db enforcementProfileMetadataKey = Some EnforcementProfileProduction \<longrightarrow>
         db_metadata db' runtimeIDMetadataKey = None))"
  using ledger_steps_keep [OF assms] unfolding keeps_binding_def Let_def by blast

definition mx_runtime :: string where
  "mx_runtime = ''runtime:'' @ replicate 64 CHR ''0''"

definition mx_db :: "nat DB" where
  "mx_db = \<lparr>db_metadata = Map.empty, db_runs = [], db_events = [], db_transactions = [], db_transaction_events = [],
     db_contracts = [], db_tasks = [], db_admissions = []\<rparr>"

definition mx_bound :: "nat DB" where
  "mx_bound = mx_db\<lparr>db_metadata := [''schema_version'' \<mapsto> ''3'', ''runtime_id'' \<mapsto> mx_runtime,
     ''enforcement_profile'' \<mapsto> ''production'']\<rparr>"

lemma mx_runtime_valid: "IsRuntimeID mx_runtime"
  by code_simp

lemma mx_input_valid: "validateRuntimeMetadataInput mx_runtime ''production'' = None"
  by (simp add: validateRuntimeMetadataInput_def mx_runtime_valid knownProfile_def EnforcementProfileProduction_def)

lemma mx_bind: "D = no_faults \<Longrightarrow> BindRuntimeMetadata D mx_bound mx_runtime ''development'' =
    (mx_bound\<lparr>db_metadata := (db_metadata mx_bound)(''enforcement_profile'' \<mapsto> ''development'')\<rparr>, Inr ())"
  by (simp add: BindRuntimeMetadata_def Let_def validateRuntimeMetadataInput_def mx_runtime_valid knownProfile_def
      EnforcementProfileDevelopment_def EnforcementProfileProduction_def readKernelMetadata_def refuseStoredRuntime_def
      refuseStoredProfile_def refuseRelabelling_def ledgerHasEntries_def updateKernelMetadata_def requireOneMetadataRow_def
      runtimeIDMetadataKey_def enforcementProfileMetadataKey_def mx_bound_def mx_db_def db_nonempty_def exec_write_def settle_def)

theorem ledger_binding_is_permanent_witness:
  "\<exists>db'. ledger_step mx_bound db' \<and> db_metadata db' ''enforcement_profile'' = Some ''development'' \<and>
     db_metadata db' ''runtime_id'' = Some mx_runtime"
proof -
  have s: "ledger_step mx_bound (mx_bound\<lparr>db_metadata := (db_metadata mx_bound)(''enforcement_profile'' \<mapsto> ''development'')\<rparr>)"
    (is "ledger_step _ ?db'") using bind_runtime [OF mx_bind [OF refl]] .
  then have "ledger_step\<^sup>*\<^sup>* mx_bound ?db'" by simp
  from ledger_binding_is_permanent [OF this] have "db_metadata ?db' ''runtime_id'' = Some mx_runtime"
    by (simp add: runtimeIDMetadataKey_def mx_bound_def)
  with s show ?thesis by (intro exI [of _ ?db']) simp
qed

text \<open>The two copies of the refusals agree.\<close>

lemma refuseExisting_eq:
  "refuseExisting nonempty br bp r p = first_error [refuseStoredRuntime br r, refuseStoredProfile bp, refuseRelabelling nonempty br bp p]"
  by (cases br; cases bp)
    (auto simp: refuseExisting_def refuseStoredRuntime_def refuseStoredProfile_def refuseRelabelling_def knownProfile_def Let_def fail_if_def)

text \<open>\<open>has_tables has db\<close>: the tables that a file lacks hold nothing.\<close>

definition has_tables :: "(string \<Rightarrow> bool) \<Rightarrow> 'j DB \<Rightarrow> bool" where
  "has_tables has db \<longleftrightarrow> (\<forall>table. \<not> has table \<longrightarrow> \<not> table_nonempty db table) \<and>
     (\<not> has ''kernel_metadata'' \<longrightarrow> db_metadata db runtimeIDMetadataKey = None \<and> db_metadata db enforcementProfileMetadataKey = None)"

lemma existingEntries_Inr:
  assumes "\<forall>step. D step = None" and "has_tables has db"
  shows "existingEntries D has db i tables = Inr (\<exists>table\<in>set tables. table_nonempty db table)"
  using assms by (induction tables arbitrary: i) (auto simp: has_tables_def)

text \<open>C39. The inspection before a ledger is opened foretells the binding after it. For a valid Runtime identity and profile
  and a database that reports no fault, whichever tables the file has, it refuses exactly the ledgers that binding would
  refuse once the schema has been brought up to date, with the same error: the two are separate copies of the
  same decision in the code.\<close>

theorem inspection_foretells_binding:
  assumes "validateRuntimeMetadataInput r p = None" and "\<forall>step. D step = None" and "\<forall>step. D' step = None"
    and "has_tables has db" and "initialize D'' db = (db', None)"
  shows "checkExistingRuntimeMetadata D has db r p =
    (case snd (BindRuntimeMetadata D' db' r p) of Inl err \<Rightarrow> Some err | Inr _ \<Rightarrow> None)"
proof -
  let ?br = "db_metadata db runtimeIDMetadataKey" and ?bp = "db_metadata db enforcementProfileMetadataKey"
  from initialize_rows [OF assms(5)] obtain md where md: "db' = db\<lparr>db_metadata := md\<rparr>"
    "\<forall>k. k \<noteq> ''schema_version'' \<longrightarrow> md k = db_metadata db k" by blast
  then have same: "db_metadata db' runtimeIDMetadataKey = ?br" "db_metadata db' enforcementProfileMetadataKey = ?bp"
    "db_nonempty db' = db_nonempty db" using metadata_keys by (auto simp: db_nonempty_def)
  have n: "existingLedgerHasEntries D has db = Inr (db_nonempty db)"
    unfolding existingLedgerHasEntries_def existingEntries_Inr [OF assms(2,4)]
    by (auto simp: table_nonempty_def db_nonempty_def)
  have c: "checkExistingRuntimeMetadata D has db r p =
      first_error [refuseStoredRuntime ?br r, refuseStoredProfile ?bp, refuseRelabelling (db_nonempty db) ?br ?bp p]"
    using assms(2,4) n unfolding refuseExisting_eq [symmetric]
    by (auto simp: checkExistingRuntimeMetadata_def Let_def readKernelMetadata_def ok_then_def has_tables_def split: option.splits sum.splits)
  let ?W = "bind_res (if ?br = None then insertKernelMetadata D' 3 db' runtimeIDMetadataKey r else Inr db') (\<lambda>tx.
      bind_res (if ?bp \<noteq> Some p then (case ?bp of
            None \<Rightarrow> insertKernelMetadata D' 4 tx enforcementProfileMetadataKey p
          | Some from \<Rightarrow> updateKernelMetadata D' 4 tx enforcementProfileMetadataKey from p) else Inr tx) (\<lambda>tx. Inr (tx, ())))"
  have b: "BindRuntimeMetadata D' db' r p = settle db' (ok_then (refuseStoredRuntime ?br r) (ok_then (refuseStoredProfile ?bp)
      (ok_then (refuseRelabelling ((?br = None \<or> ?bp \<noteq> Some p) \<and> db_nonempty db) ?br ?bp p) ?W)))"
    using assms(1,3) same by (cases ?br) (simp_all add: BindRuntimeMetadata_def Let_def readKernelMetadata_def ledgerHasEntries_def)
  have "refuseRelabelling ((?br = None \<or> ?bp \<noteq> Some p) \<and> db_nonempty db) ?br ?bp p = refuseRelabelling (db_nonempty db) ?br ?bp p"
    by (auto simp: refuseRelabelling_def fail_if_def)
  moreover have "\<exists>x. ?W = Inr x"
    using assms(3) metadata_keys same
    by (auto simp: insertKernelMetadata_def updateKernelMetadata_def requireOneMetadataRow_def exec_write_def split: option.splits)
  ultimately show ?thesis unfolding c b
    by (auto simp: ok_then_def settle_def split: option.splits)
qed

theorem inspection_foretells_binding_witness:
  "checkExistingRuntimeMetadata no_faults (\<lambda>table. table \<noteq> ''task_admissions'') mx_bound mx_runtime ''production'' = None \<and>
   snd (BindRuntimeMetadata no_faults mx_bound mx_runtime ''production'') = Inr () \<and>
   checkExistingRuntimeMetadata no_faults (\<lambda>_. False) mx_db mx_runtime ''production'' = None"
proof -
  have "BindRuntimeMetadata no_faults mx_bound mx_runtime ''production'' = (mx_bound, Inr ())"
    by (simp add: BindRuntimeMetadata_def Let_def mx_input_valid refuseStoredProfile_def refuseStoredRuntime_def refuseRelabelling_def
        mx_runtime_valid readKernelMetadata_def knownProfile_def EnforcementProfileProduction_def mx_bound_def mx_db_def
        runtimeIDMetadataKey_def enforcementProfileMetadataKey_def settle_def)
  moreover have "initialize no_faults mx_bound = (mx_bound, None)"
    by (subst initialize_no_faults) (simp_all add: mx_bound_def mx_db_def sqliteSchemaVersion_def fun_upd_twist)
  moreover have "has_tables (\<lambda>table. table \<noteq> ''task_admissions'') mx_bound"
    by (simp add: has_tables_def table_nonempty_def mx_bound_def mx_db_def)
  moreover have "initialize no_faults mx_db = (mx_db\<lparr>db_metadata := [''schema_version'' \<mapsto> ''3'']\<rparr>, None)"
    by (subst initialize_no_faults) (simp_all add: mx_db_def sqliteSchemaVersion_def)
  moreover have "has_tables (\<lambda>_. False) mx_db" by (simp add: has_tables_def table_nonempty_def mx_db_def)
  moreover have "snd (BindRuntimeMetadata no_faults (mx_db\<lparr>db_metadata := [''schema_version'' \<mapsto> ''3'']\<rparr>) mx_runtime ''production'') = Inr ()"
    by (simp add: BindRuntimeMetadata_def Let_def mx_input_valid refuseStoredProfile_def refuseStoredRuntime_def refuseRelabelling_def
        readKernelMetadata_def insertKernelMetadata_def requireOneMetadataRow_def exec_write_def mx_db_def db_nonempty_def
        runtimeIDMetadataKey_def enforcementProfileMetadataKey_def settle_def ledgerHasEntries_def)
  ultimately show ?thesis
    using inspection_foretells_binding [OF mx_input_valid, of no_faults no_faults _ mx_bound no_faults]
      inspection_foretells_binding [OF mx_input_valid, of no_faults no_faults _ mx_db no_faults] by simp
qed

text \<open>An opened ledger serves the Runtime it was opened for: where opening succeeds, no row of the ledger has
  changed, and of all admissions exactly those bound to that identity and profile are accepted; one without a
  binding is accepted only as a replay of a legacy one under development.\<close>

theorem opened_ledger_serves_its_runtime:
  assumes "OpenSQLiteForRuntime file mode D has db r p = (db', None)"
  shows "db' = db\<lparr>db_metadata := db_metadata db'\<rparr> \<and>
    (requireStoredRuntimeBinding no_faults db' r' p' allowLegacy op res = None \<longleftrightarrow>
       r' = r \<and> p' = p \<or> r' = '''' \<and> allowLegacy \<and> p = EnforcementProfileDevelopment)"
proof -
  from assms obtain db1 u where i: "initialize (sub_driver D 1) db = (db1, None)"
    and b: "BindRuntimeMetadata (sub_driver D 2) db1 r p = (db', Inr u)"
    by (auto simp: OpenSQLiteForRuntime_def split: option.splits prod.splits sum.splits)
  from initialize_rows [OF i] obtain md where md: "db1 = db\<lparr>db_metadata := md\<rparr>" by blast
  from BindRuntimeMetadata_Inr [OF b] have v: "IsRuntimeID r" "knownProfile p" "db' = bound_to db1 r p" by simp_all
  then have m: "db_metadata db' runtimeIDMetadataKey = Some r" "db_metadata db' enforcementProfileMetadataKey = Some p"
    using metadata_keys by (simp_all add: bound_to_def)
  have "r \<noteq> ''''" using v(1) by (auto simp: IsRuntimeID_def hex_suffix_def)
  then have "requireStoredRuntimeBinding no_faults db' r' p' allowLegacy op res = None \<longleftrightarrow>
       r' = r \<and> p' = p \<or> r' = '''' \<and> allowLegacy \<and> p = EnforcementProfileDevelopment"
    using m v(1,2) by (auto simp: requireStoredRuntimeBinding_def Let_def knownProfile_def IsEnforcementProfile_def
        EnforcementProfileDevelopment_def EnforcementProfileProduction_def)
  moreover have "db' = db\<lparr>db_metadata := db_metadata db'\<rparr>" using v(3) md by (simp add: bound_to_def)
  ultimately show ?thesis by blast
qed

theorem opened_ledger_serves_its_runtime_witness:
  "\<exists>db'. OpenSQLiteForRuntime None None no_faults (\<lambda>_. False) mx_db mx_runtime ''production'' = (db', None) \<and>
     requireStoredRuntimeBinding no_faults db' mx_runtime ''production'' False ''admit_task'' '''' = None \<and>
     requireStoredRuntimeBinding no_faults db' '''' '''' True ''admit_task'' '''' \<noteq> None"
proof -
  let ?db1 = "mx_db\<lparr>db_metadata := [''schema_version'' \<mapsto> ''3'']\<rparr>"
  have i: "initialize no_faults mx_db = (?db1, None)"
    by (subst initialize_no_faults) (simp_all add: mx_db_def sqliteSchemaVersion_def)
  have c: "checkExistingRuntimeMetadata no_faults (\<lambda>_. False) mx_db mx_runtime ''production'' = None"
    by (simp add: checkExistingRuntimeMetadata_def Let_def existingLedgerHasEntries_def refuseExisting_def)
  have "\<exists>db'. BindRuntimeMetadata no_faults ?db1 mx_runtime ''production'' = (db', Inr ())"
    by (simp add: BindRuntimeMetadata_def Let_def mx_input_valid refuseStoredProfile_def refuseStoredRuntime_def refuseRelabelling_def
        readKernelMetadata_def insertKernelMetadata_def requireOneMetadataRow_def exec_write_def mx_db_def db_nonempty_def
        runtimeIDMetadataKey_def enforcementProfileMetadataKey_def settle_def ledgerHasEntries_def)
  then obtain db' where b: "BindRuntimeMetadata no_faults ?db1 mx_runtime ''production'' = (db', Inr ())" by blast
  have o: "OpenSQLiteForRuntime None None no_faults (\<lambda>_. False) mx_db mx_runtime ''production'' = (db', None)"
    by (simp add: OpenSQLiteForRuntime_def mx_input_valid i c b)
  have "mx_runtime \<noteq> ''''" by (simp add: mx_runtime_def)
  with opened_ledger_serves_its_runtime [OF o] o show ?thesis
    by (auto simp: EnforcementProfileDevelopment_def simp del: not_None_eq)
qed

end
