(* ===== verification/Admission_Durability.thy ===== *)
theory Admission_Durability
  imports Kernel_Steps
begin

text \<open>
  An admission lasts: what it wrote stays where it is, and reading it back, however far the run and the
  transaction have got since, finds everything that the reader checks.
\<close>

section \<open>What is stored of an admission\<close>

definition run_id :: "Prepared \<Rightarrow> string" where
  "run_id p = ar_ID (pj_Run (an_Run (pp_Result p)))"

definition tx_id :: "Prepared \<Rightarrow> string" where
  "tx_id p = tx_ID (tj_Transaction (an_Transaction (pp_Result p)))"

definition admitted :: "AdmissionHashing \<Rightarrow> Hashing \<Rightarrow> 'j RunCodec \<Rightarrow> 'j TxCodec \<Rightarrow> 'j AdmissionCodec \<Rightarrow> 'j DB \<Rightarrow> Prepared \<Rightarrow> bool" where
  "admitted N H CR CT M db p \<longleftrightarrow> (let result = pp_Result p; task = an_Task result; contract = an_Contract result; ns = pp_Namespace p in
     Prepared_Validate N H CR p = None \<and>
     (\<exists>data. find (\<lambda>a. mr_namespace a = ns \<and> mr_idempotency_key a = pp_IdempotencyKey p) (db_admissions db) = Some (admissionRow p data) \<and>
        find (\<lambda>a. mr_namespace a = ns \<and> mr_run_id a = run_id p) (db_admissions db) = Some (admissionRow p data) \<and>
        find (\<lambda>a. mr_namespace a = ns \<and> mr_transaction_id a = tx_id p) (db_admissions db) = Some (admissionRow p data) \<and>
        mc_DecResult M data = Some result) \<and>
     (\<exists>data. find (\<lambda>t. kr_namespace t = ns \<and> kr_task_id t = tk_ID task \<and> kr_task_digest t = tk_Digest task) (db_tasks db) =
        Some (taskRow p data) \<and> mc_DecTask M data = Some task \<and> mc_Encode M (ValTask task) \<noteq> None) \<and>
     (\<exists>c. find (\<lambda>c. cr_namespace c = ns \<and> cr_contract_digest c = ec_Digest contract) (db_contracts db) = Some c \<and>
        mc_DecContract M (cr_contract_json c) = Some contract \<and> mc_Encode M (ValContract contract) \<noteq> None) \<and>
     (\<exists>fs. run_histories CR db (ns, run_id p) = Some (pp_RunEvents p @ fs)) \<and>
     (\<exists>fs. tx_histories CT db (ns, tx_id p) = Some (pp_TransactionEvent p # fs)))"

lemma find_appended: "(\<forall>x\<in>set xs. \<not> P x) \<Longrightarrow> P y \<Longrightarrow> find P (xs @ [y]) = Some y"
  by (induction xs) auto

lemma inserted_task:
  assumes "insert_task rows (taskRow p data) = Some rows'"
  shows "find (\<lambda>t. kr_namespace t = pp_Namespace p \<and> kr_task_id t = tk_ID (an_Task (pp_Result p)) \<and>
    kr_task_digest t = tk_Digest (an_Task (pp_Result p))) rows' = Some (taskRow p data)"
  unfolding insert_task_Some [OF assms]
  by (rule find_appended) (use assms in \<open>auto simp: insert_task_def taskRow_def Let_def split: if_splits\<close>)

lemma admitted_after:
  assumes ok: "ledgers_ok H CR CT db"
    and a: "AdmitTask N H CR CT M hook D db p = (db', Inr (r, True))" and rt: "admission_roundtrip CR CT M p"
  shows "admitted N H CR CT M db' p"
proof -
  from a obtain x c cs where r: "r = pp_Result p" and x: "prepareAdmission N H CR CT M p = Inr x"
    and c: "find (\<lambda>c. cr_namespace c = pp_Namespace p \<and> cr_contract_digest c = ec_Digest (an_Contract r)) (db_contracts db') = Some c"
      "cr_contract_json c = xa_Contract x"
    and t: "insert_task (db_tasks db) (taskRow p (xa_Task x)) = Some (db_tasks db')"
    and free: "unadmitted db p"
    and row: "db_admissions db' = db_admissions db @ [admissionRow p (xa_Result x)]"
    by (rule AdmitTask_rows) (rule that)
  note enc = prepareAdmission_Inr [OF x]
  have dec: "mc_DecResult M (xa_Result x) = Some (pp_Result p)" "mc_DecTask M (xa_Task x) = Some (an_Task (pp_Result p))"
    "mc_DecContract M (xa_Contract x) = Some (an_Contract (pp_Result p))"
    using rt enc by (simp_all add: admission_roundtrip_def Let_def)
  have "find (\<lambda>a. mr_namespace a = pp_Namespace p \<and> mr_idempotency_key a = pp_IdempotencyKey p) (db_admissions db') =
      Some (admissionRow p (xa_Result x))"
    "find (\<lambda>a. mr_namespace a = pp_Namespace p \<and> mr_run_id a = run_id p) (db_admissions db') = Some (admissionRow p (xa_Result x))"
    "find (\<lambda>a. mr_namespace a = pp_Namespace p \<and> mr_transaction_id a = tx_id p) (db_admissions db') =
      Some (admissionRow p (xa_Result x))"
    unfolding row using free
    by (intro find_appended; fastforce simp: unadmitted_def admissionRow_def run_id_def tx_id_def Let_def)+
  moreover note inserted_task [OF t]
  moreover have "run_histories CR db' (pp_Namespace p, run_id p) = Some (pp_RunEvents p @ [])"
    using AdmitTask_run_ledger(2) [OF _ a rt] ok by (simp add: ledgers_ok_def run_id_def r)
  moreover have "tx_histories CT db' (pp_Namespace p, tx_id p) = Some (pp_TransactionEvent p # [])"
    using AdmitTask_tx_ledger(2) [OF _ a rt] ok by (simp add: ledgers_ok_def tx_id_def r)
  ultimately show ?thesis
    unfolding admitted_def Let_def using enc(1,3,4) dec c r by (metis option.distinct(1))
qed

lemma admitted_extends:
  assumes a: "admitted N H CR CT M db p" and e: "extends CR CT db db'"
  shows "admitted N H CR CT M db' p"
proof -
  from e obtain as bs cs where l: "db_admissions db' = db_admissions db @ as" "db_tasks db' = db_tasks db @ bs"
    "db_contracts db' = db_contracts db @ cs"
    and g: "grows (run_histories CR db) (run_histories CR db')" "grows (tx_histories CT db) (tx_histories CT db')"
    by (auto simp: extends_def)
  from a obtain x y c fs gs where v: "Prepared_Validate N H CR p = None"
    and f: "find (\<lambda>a. mr_namespace a = pp_Namespace p \<and> mr_idempotency_key a = pp_IdempotencyKey p) (db_admissions db) =
        Some (admissionRow p x)"
      "find (\<lambda>a. mr_namespace a = pp_Namespace p \<and> mr_run_id a = run_id p) (db_admissions db) = Some (admissionRow p x)"
      "find (\<lambda>a. mr_namespace a = pp_Namespace p \<and> mr_transaction_id a = tx_id p) (db_admissions db) = Some (admissionRow p x)"
      "find (\<lambda>t. kr_namespace t = pp_Namespace p \<and> kr_task_id t = tk_ID (an_Task (pp_Result p)) \<and>
        kr_task_digest t = tk_Digest (an_Task (pp_Result p))) (db_tasks db) = Some (taskRow p y)"
      "find (\<lambda>c. cr_namespace c = pp_Namespace p \<and> cr_contract_digest c = ec_Digest (an_Contract (pp_Result p))) (db_contracts db)
        = Some c"
    and d: "mc_DecResult M x = Some (pp_Result p)" "mc_DecTask M y = Some (an_Task (pp_Result p))"
      "mc_DecContract M (cr_contract_json c) = Some (an_Contract (pp_Result p))"
      "mc_Encode M (ValTask (an_Task (pp_Result p))) \<noteq> None" "mc_Encode M (ValContract (an_Contract (pp_Result p))) \<noteq> None"
    and h: "run_histories CR db (pp_Namespace p, run_id p) = Some (pp_RunEvents p @ fs)"
      "tx_histories CT db (pp_Namespace p, tx_id p) = Some (pp_TransactionEvent p # gs)"
    unfolding admitted_def Let_def by blast
  from g h obtain fs' gs' where "run_histories CR db' (pp_Namespace p, run_id p) = Some (pp_RunEvents p @ fs @ fs')"
    "tx_histories CT db' (pp_Namespace p, tx_id p) = Some (pp_TransactionEvent p # gs @ gs')"
    unfolding grows_def by fastforce
  with v d find_extended [OF f(1), of as] find_extended [OF f(2), of as] find_extended [OF f(3), of as]
    find_extended [OF f(4), of bs] find_extended [OF f(5), of cs]
  show ?thesis unfolding admitted_def Let_def l by blast
qed

section \<open>Reading it back\<close>

text \<open>The values that the reader compares as JSON have an encoding.\<close>

definition comparable :: "'j AdmissionCodec \<Rightarrow> AdmissionResult \<Rightarrow> bool" where
  "comparable M result \<longleftrightarrow> (let run = pj_Run (an_Run result); tx = tj_Transaction (an_Transaction result) in
     \<forall>v\<in>set [ValText (ar_ImageDigest run), ValText (ar_ContractDigest run), ValPrincipal (ar_Principal run),
       ValPrincipals (ar_DelegationChain run), ValText (ar_ParentRunID run), ValTime (ar_Deadline run),
       ValLimits (ar_BudgetLimits run), ValText (tx_IntentDigest tx), ValTaskRef (tx_Task tx), ValBinding (tx_Admission tx),
       ValPrincipal (tx_Sponsor tx), ValTexts (tx_AgentRunIDs tx)]. mc_Encode M v \<noteq> None)"

lemma equalJSON_refl: "mc_Encode M v \<noteq> None \<Longrightarrow> equalJSON M v v res = None"
  by (auto simp: equalJSON_def)

lemma loadRunPrefix_stored:
  assumes s: "run_store.stored CR (db_events db) h es p" and k: "hkey h = (ns, i)"
  shows "j + n \<le> length es \<Longrightarrow> loadRunPrefix CR no_faults db ns i j n = Inr (take n (drop j es))"
proof (induction n arbitrary: j)
  case (Suc n)
  then have j: "j < length es" by simp
  from run_store.find_event [OF s j] obtain r where
    "find (\<lambda>r. ekey r = (ns, i) \<and> er_sequence r = int j + 1) (db_events db) = Some r" "rc_DecEvent CR (er_json r) = Some (es ! j)"
    unfolding k by blast
  moreover have "loadRunPrefix CR no_faults db ns i (Suc j) n = Inr (take n (drop (Suc j) es))"
    by (rule Suc.IH) (use Suc.prems in simp)
  moreover have "drop j es = es ! j # drop (Suc j) es" using j by (simp add: Cons_nth_drop_Suc)
  ultimately show ?case
    by (simp add: decodeAdmissionJSON_def no_faults_simps(1) [of "ScanStep j"] del: no_faults_simps)
qed simp

lemma current_bindings_hold:
  assumes c: "comparable M result" and r: "replayFrom (Some (an_Run result)) es = Inr run"
    and t: "replayFromTx H (Some (an_Transaction result)) fs = Inr tx"
  shows "validateCurrentAdmissionBindings M result (pj_Run run) tx = None"
proof -
  have p: "pinned (pj_Run run) = pinned (pj_Run (an_Run result))"
    using r by (induction rule: run_ledger.replay_from_invariant) (auto dest: Apply_pinned)
  have "ar_ParentRunID (pinned q) = ar_ParentRunID q" for q by (simp add: pinned_def)
  with p have parent: "ar_ParentRunID (pj_Run run) = ar_ParentRunID (pj_Run (an_Run result))" by metis
  have q: "pinned_tx (tj_Transaction tx) = pinned_tx (tj_Transaction (an_Transaction result))"
    using t by (induction rule: tx_ledger.replay_from_invariant) (auto dest: ApplyTx_pinned)
  show ?thesis
    using c replayFrom_granted [OF r] pinned_eqD [OF p] parent pinned_tx_eqD [OF q]
    by (simp add: validateCurrentAdmissionBindings_def Let_def comparable_def equalJSON_refl)
qed

text \<open>The current heads of the two histories, seen from the admission.\<close>

lemma admitted_run_head:
  assumes ok: "run_store_ok CR db" and v: "Replay evs = Inr p0" and h: "run_histories CR db (ns, i) = Some (evs @ fs)"
  obtains h p where "select_head (db_runs db) ns i = Some h" and "hkey h = (ns, i)"
    and "run_store.stored CR (db_events db) h (evs @ fs) p" and "rc_DecRun CR (hr_json h) = Some (pj_Run p)"
    and "AgentRun_Validate (pj_Run p) = None" and "IsSHA256Digest (hr_last_event_digest h)"
    and "replayFrom (Some p0) fs = Inr p" and "ar_EventSequence (pj_Run p0) \<le> ar_EventSequence (pj_Run p)"
    and "ar_EventSequence (pj_Run p) = ar_EventSequence (pj_Run p0) \<longrightarrow> hr_last_event_digest h = pj_LastEventDigest p0"
proof -
  from run_history_head [OF ok h] obtain h p where s: "select_head (db_runs db) ns i = Some h" "hkey h = (ns, i)"
    "run_store.stored CR (db_events db) h (evs @ fs) p" .
  then have q: "run_store.head_for CR p h" and r: "replayFrom None (evs @ fs) = Inr p" by (simp_all add: run_store.stored_def)
  have r0: "replayFrom None evs = Inr p0" using v by (simp add: Replay_ledger)
  have step: "replayFrom (Some p0) fs = Inr p" by (rule run_ledger.replay_extended [OF r0 r])
  have n: "ar_EventSequence (pj_Run p) = int (length evs + length fs)" "ar_EventSequence (pj_Run p0) = int (length evs)"
    using run_ledger.replay_sequence [OF r] run_ledger.replay_sequence [OF r0] by simp_all
  have d: "ar_EventSequence (pj_Run p) = ar_EventSequence (pj_Run p0) \<longrightarrow> hr_last_event_digest h = pj_LastEventDigest p0"
    using n step q by (auto simp: run_store.head_for_def)
  show ?thesis
    by (rule that [OF s _ _ _ step _ d])
      (use q n in \<open>auto simp: run_store.head_for_def stored_run_ok_def decode_head_def\<close>)
qed

lemma admitted_tx_head:
  assumes ok: "tx_store_ok H CT db" and v: "ReplayTx H [te] = Inr p0" and h: "tx_histories CT db (ns, i) = Some (te # fs)"
  obtains h p where "select_head (db_transactions db) ns i = Some h" and "hkey h = (ns, i)"
    and "tx_store.stored H CT (db_transaction_events db) h (te # fs) p" and "tc_DecProjection CT (hr_json h) = Some p"
    and "ProjectionTx_Validate H p = None" and "IsSHA256Digest (hr_last_event_digest h)"
    and "replayFromTx H (Some p0) fs = Inr p" and "1 \<le> tx_EventSequence (tj_Transaction p)"
    and "tx_EventSequence (tj_Transaction p) = 1 \<longrightarrow> hr_last_event_digest h = tj_LastEventDigest p0"
proof -
  from tx_history_head [OF ok h] obtain h p where s: "select_head (db_transactions db) ns i = Some h" "hkey h = (ns, i)"
    "tx_store.stored H CT (db_transaction_events db) h (te # fs) p" .
  then have q: "tx_store.head_for H CT p h" and r: "replayFromTx H None ([te] @ fs) = Inr p" by (simp_all add: tx_store.stored_def)
  have r0: "replayFromTx H None [te] = Inr p0" using replayedTx_stream [OF v] .
  have step: "replayFromTx H (Some p0) fs = Inr p" by (rule tx_ledger.replay_extended [OF r0 r])
  have n: "tx_EventSequence (tj_Transaction p) = int (1 + length fs)" using tx_ledger.replay_sequence [OF r] by simp
  have d: "tx_EventSequence (tj_Transaction p) = 1 \<longrightarrow> hr_last_event_digest h = tj_LastEventDigest p0"
    using n step q by (auto simp: tx_store.head_for_def)
  have "IsSHA256Digest (tj_LastEventDigest p)"
    using q by (simp add: tx_store.head_for_def stored_tx_ok_def ProjectionTx_Validate_def Let_def isDigest_iff)
  then have "IsSHA256Digest (hr_last_event_digest h)" using q by (simp add: tx_store.head_for_def)
  then show ?thesis
    by (intro that [OF s _ _ _ step _ d]) (use q n in \<open>auto simp: tx_store.head_for_def stored_tx_ok_def\<close>)
qed

lemma prefixes_verify:
  assumes v: "Prepared_Validate N H CR p = None"
    and r: "run_store.stored CR (db_events db) h (pp_RunEvents p @ fs) q" "hkey h = (pp_Namespace p, run_id p)"
    and t: "tx_store.stored H CT (db_transaction_events db) x (pp_TransactionEvent p # gs) s" "hkey x = (pp_Namespace p, tx_id p)"
  shows "verifyAdmissionEventPrefixes N H CR CT no_faults db (pp_Namespace p) (pp_Result p) = None"
proof -
  note valid = Prepared_Validate_None [OF v]
  have "length (pp_RunEvents p) = 3" using arg_cong [OF valid(4), of length] by simp
  then have runs: "loadRunPrefix CR no_faults db (pp_Namespace p) (run_id p) 0 3 = Inr (pp_RunEvents p)"
    using loadRunPrefix_stored [OF r, of 0 3] by simp
  from tx_store.find_event [OF t(1), of 0] t(2) obtain row where
    "find (\<lambda>r. ekey r = (pp_Namespace p, tx_id p) \<and> er_sequence r = 1) (db_transaction_events db) = Some row"
    "tc_DecEvent CT (er_json row) = Some (pp_TransactionEvent p)" by auto
  moreover have "\<lparr>pp_Namespace = pp_Namespace p, pp_IdempotencyKey = an_IdempotencyKey (pp_Result p),
      pp_RequestDigest = an_RequestDigest (pp_Result p), pp_Result = pp_Result p, pp_RunEvents = pp_RunEvents p,
      pp_TransactionEvent = pp_TransactionEvent p\<rparr> = p"
    using valid(2,3) by simp
  moreover have "ar_EventSequence (pj_Run (an_Run (pp_Result p))) = 3"
    by (rule resultBound_names(3) [OF Result_Validate_None(6) [OF valid(1)]])
  ultimately show ?thesis
    using runs v by (simp add: verifyAdmissionEventPrefixes_def Let_def run_id_def tx_id_def decodeAdmissionJSON_def)
qed

lemma admission_rows [simp]:
  "mr_result_json (admissionRow p x) = x" "mr_task_id (admissionRow p x) = tk_ID (an_Task (pp_Result p))"
  "mr_task_digest (admissionRow p x) = tk_Digest (an_Task (pp_Result p))"
  "mr_contract_digest (admissionRow p x) = ec_Digest (an_Contract (pp_Result p))"
  "mr_run_id (admissionRow p x) = run_id p" "mr_transaction_id (admissionRow p x) = tx_id p"
  "mr_request_digest (admissionRow p x) = pp_RequestDigest p" "kr_task_json (taskRow p y) = y"
  by (simp_all add: admissionRow_def taskRow_def Let_def run_id_def tx_id_def)

theorem admitted_loads:
  assumes ok: "ledgers_ok H CR CT db" and a: "admitted N H CR CT M db p" and c: "comparable M (pp_Result p)"
    and b: "requireStoredRuntimeBinding no_faults db (an_RuntimeID (pp_Result p)) (an_EnforcementProfile (pp_Result p))
      (an_Version (pp_Result p) = LegacyResultVersion) getTaskAdmissionOperation (pp_IdempotencyKey p) = None"
  shows "loadTaskAdmission N H CR CT M no_faults db (pp_Namespace p) (pp_IdempotencyKey p) = Inr (pp_Result p, pp_RequestDigest p)"
proof -
  let ?r = "pp_Result p" and ?ns = "pp_Namespace p"
  from a obtain x y cr fs gs where v: "Prepared_Validate N H CR p = None"
    and f: "find (\<lambda>a. mr_namespace a = ?ns \<and> mr_idempotency_key a = pp_IdempotencyKey p) (db_admissions db) = Some (admissionRow p x)"
      "find (\<lambda>t. kr_namespace t = ?ns \<and> kr_task_id t = tk_ID (an_Task ?r) \<and> kr_task_digest t = tk_Digest (an_Task ?r))
        (db_tasks db) = Some (taskRow p y)"
      "find (\<lambda>c. cr_namespace c = ?ns \<and> cr_contract_digest c = ec_Digest (an_Contract ?r)) (db_contracts db) = Some cr"
    and d: "mc_DecResult M x = Some ?r" "mc_DecTask M y = Some (an_Task ?r)"
      "mc_DecContract M (cr_contract_json cr) = Some (an_Contract ?r)"
      "mc_Encode M (ValTask (an_Task ?r)) \<noteq> None" "mc_Encode M (ValContract (an_Contract ?r)) \<noteq> None"
    and h: "run_histories CR db (?ns, run_id p) = Some (pp_RunEvents p @ fs)"
      "tx_histories CT db (?ns, tx_id p) = Some (pp_TransactionEvent p # gs)"
    unfolding admitted_def Let_def by blast
  note valid = Prepared_Validate_None [OF v]
  note res = Result_Validate_None [OF valid(1)]
  from ok have l: "run_store_ok CR db" "tx_store_ok H CT db" by (simp_all add: ledgers_ok_def)
  from admitted_run_head [OF l(1) valid(5) h(1)] obtain rh rp where r: "select_head (db_runs db) ?ns (run_id p) = Some rh"
    "hkey rh = (?ns, run_id p)" "run_store.stored CR (db_events db) rh (pp_RunEvents p @ fs) rp"
    "rc_DecRun CR (hr_json rh) = Some (pj_Run rp)" "AgentRun_Validate (pj_Run rp) = None" "IsSHA256Digest (hr_last_event_digest rh)"
    "replayFrom (Some (an_Run ?r)) fs = Inr rp" "ar_EventSequence (pj_Run (an_Run ?r)) \<le> ar_EventSequence (pj_Run rp)"
    "ar_EventSequence (pj_Run rp) = ar_EventSequence (pj_Run (an_Run ?r)) \<longrightarrow>
      hr_last_event_digest rh = pj_LastEventDigest (an_Run ?r)" .
  from admitted_tx_head [OF l(2) valid(6) h(2)] obtain th tp where t: "select_head (db_transactions db) ?ns (tx_id p) = Some th"
    "hkey th = (?ns, tx_id p)" "tx_store.stored H CT (db_transaction_events db) th (pp_TransactionEvent p # gs) tp"
    "tc_DecProjection CT (hr_json th) = Some tp" "ProjectionTx_Validate H tp = None" "IsSHA256Digest (hr_last_event_digest th)"
    "replayFromTx H (Some (an_Transaction ?r)) gs = Inr tp" "1 \<le> tx_EventSequence (tj_Transaction tp)"
    "tx_EventSequence (tj_Transaction tp) = 1 \<longrightarrow> hr_last_event_digest th = tj_LastEventDigest (an_Transaction ?r)" .
  have sel: "select_admission db ?ns (pp_IdempotencyKey p) = Some (admissionRow p x, taskRow p y, cr, rh, th)"
    using f r(1) t(1) by (simp add: select_admission_def)
  have loaded: "validateLoadedAdmissionResult N H ?r ?ns (pp_IdempotencyKey p) (pp_RequestDigest p) = None"
    using valid(1-3) by (simp add: validateLoadedAdmissionResult_def Let_def)
  show ?thesis
    unfolding loadTaskAdmission_def Let_def sel
    using d r(4-6,8,9) t(4-6,8,9) b loaded current_bindings_hold [OF c r(7) t(7)] prefixes_verify [OF v r(3,2) t(3,2)]
      equalJSON_refl [OF d(4)] equalJSON_refl [OF d(5)] valid(2,3) res(2) resultBound_names(4) [OF res(6)]
    by (simp add: decodeAdmissionJSON_def run_id_def tx_id_def)
qed

section \<open>The binding that reading requires\<close>

lemma bound_runtime:
  assumes "requireStoredRuntimeBinding D db rid profile False op res = None" and "rid \<noteq> ''''"
  shows "db_metadata db runtimeIDMetadataKey = Some rid" "db_metadata db enforcementProfileMetadataKey = Some profile"
    "IsRuntimeID rid" "IsEnforcementProfile profile"
  using assms by (auto simp: requireStoredRuntimeBinding_def Let_def split: option.splits if_splits)

lemma bound_runtime_accepted:
  assumes "db_metadata db runtimeIDMetadataKey = Some rid" "db_metadata db enforcementProfileMetadataKey = Some profile"
    and "IsRuntimeID rid" "IsEnforcementProfile profile"
  shows "requireStoredRuntimeBinding no_faults db rid profile legacy op res = None"
proof -
  have "rid \<noteq> ''''" using assms(3) by (auto simp: IsRuntimeID_def hex_suffix_def)
  with assms show ?thesis by (simp add: requireStoredRuntimeBinding_def Let_def)
qed

text \<open>Whatever the kernel does after a task was admitted, the admission is found as it was written.\<close>

theorem admission_lasts:
  assumes ok: "ledgers_ok H CR CT db"
    and a: "AdmitTask N H CR CT M hook D db p = (db', Inr (r, True))" and rt: "admission_roundtrip CR CT M p"
    and c: "comparable M r" and v: "an_RuntimeID r \<noteq> ''''" and s: "kernel_steps H CR CT db' db''"
  shows "ledgers_ok H CR CT db''"
    "requireStoredRuntimeBinding no_faults db'' (an_RuntimeID r) (an_EnforcementProfile r) legacy op res = None"
    "loadTaskAdmission N H CR CT M no_faults db'' (pp_Namespace p) (pp_IdempotencyKey p) = Inr (r, pp_RequestDigest p)"
proof -
  from a have r: "r = pp_Result p"
    and b: "requireStoredRuntimeBinding (sub_driver D 0) db (an_RuntimeID r) (an_EnforcementProfile r) False
      admitTaskOperation (pp_IdempotencyKey p) = None" by (auto elim: AdmitTask_created)
  have step: "step_ok H CR CT db db'" using admit_step_ok [OF ok a] rt by blast
  then have ok': "ledgers_ok H CR CT db'" by (simp add: step_ok_def)
  then have steps: "step_ok H CR CT db' db''" using kernel_steps_ok [OF s] by blast
  then show ok'': "ledgers_ok H CR CT db''" by (simp add: step_ok_def)
  note bd = bound_runtime [OF b v]
  have "db_nonempty db'" using AdmitTask_adds(4) [OF a] by (auto simp: db_nonempty_def)
  then have "db_metadata db'' runtimeIDMetadataKey = Some (an_RuntimeID r)"
    "db_metadata db'' enforcementProfileMetadataKey = Some (an_EnforcementProfile r)"
    using steps bd(1,2) AdmitTask_adds(1) [OF a] by (auto simp: step_ok_def keeps_binding_def Let_def)
  then show acc: "requireStoredRuntimeBinding no_faults db'' (an_RuntimeID r) (an_EnforcementProfile r) legacy op res = None"
    for legacy op res using bound_runtime_accepted bd(3,4) by blast
  have "admitted N H CR CT M db'' p"
    using admitted_extends [OF admitted_after [OF ok a rt]] steps by (simp add: step_ok_def)
  then show "loadTaskAdmission N H CR CT M no_faults db'' (pp_Namespace p) (pp_IdempotencyKey p) = Inr (r, pp_RequestDigest p)"
    using admitted_loads [OF ok''] c acc r by blast
qed

end
