(* ===== verification/Admission_Authority.thy ===== *)
theory Admission_Authority
  imports Admission_Store
begin

text \<open>
  What preparation turns a request into: the run, its grants and its transaction carry the authority the
  request asks for, bounded by the deadlines, and nothing else.
\<close>

section \<open>The prepared run\<close>

lemma prepareRun_Inr:
  assumes "prepareRun C contract run actor now = Inr (p, grants, es)"
  shows "Compile (rc_Hash16 C) contract run now = Inr grants"
    "\<exists>n t. pj_Run p = run\<lparr>ar_State := RunAdmitted, ar_StateReason := '''', ar_CompletedAt := None,
       ar_CapabilityIDs := ar_CapabilityIDs run @ map cg_ID grants, ar_EventSequence := n, ar_UpdatedAt := t\<rparr>"
proof -
  from assms obtain e1 p1 e2 d2 p2 e3 where
    c: "createRunEvent C run actor now = Inr e1" "Apply None e1 = Inr p1"
    and g: "Compile (rc_Hash16 C) contract (pj_Run p1) now = Inr grants"
    and n2: "Next (rc_Encodable C) (rc_Digest C) (rc_Hash16 C) p1 EventCapabilitiesGranted capabilityServicePrincipal now
        (CapabilitiesGranted \<lparr>gp_ContractDigest = ec_Digest contract, gp_Grants = grants\<rparr>) = Some e2"
      "Apply (Some p1) (e2\<lparr>ev_PolicyDecisionID := cg_PolicyDecisionID (hd grants), ev_Digest := d2\<rparr>) = Inr p2"
    and n3: "Next (rc_Encodable C) (rc_Digest C) (rc_Hash16 C) p2 EventRunStateChanged capabilityServicePrincipal now
        (RunStateChanged \<lparr>sc_From = RunCreated, sc_To = RunAdmitted, sc_Reason = ''''\<rparr>) = Some e3" "Apply (Some p2) e3 = Inr p"
    by (auto simp: prepareRun_def Let_def)
  have "ev_Payload e1 = RunCreatedPayload run"
    using c(1) by (auto simp: createRunEvent_def Let_def split: if_splits option.splits)
  with Apply_None_Inr [OF c(2)] have p1: "pj_Run p1 = run" by simp
  with g show "Compile (rc_Hash16 C) contract run now = Inr grants" by simp
  let ?e2 = "e2\<lparr>ev_PolicyDecisionID := cg_PolicyDecisionID (hd grants), ev_Digest := d2\<rparr>"
  have "granted_by ?e2 = grants" using Next_Some(6,9) [OF n2(1)] by (simp add: granted_by_def)
  with Apply_granted [OF n2(2)] have ids: "ar_CapabilityIDs (pj_Run p2) = ar_CapabilityIDs run @ map cg_ID grants" using p1 by simp
  from n2(2) obtain r2 where r2: "applyPayload (pj_Run p1) ?e2 = Inr r2" and p2: "p2 = \<lparr>pj_Run = r2\<lparr>ar_EventSequence :=
      ev_Sequence ?e2, ar_UpdatedAt := ev_OccurredAt ?e2\<rparr>, pj_LastEventDigest = ev_Digest ?e2\<rparr>" by (rule Apply_Some_Inr)
  have "r2 = run\<lparr>ar_CapabilityIDs := ar_CapabilityIDs r2\<rparr>"
    using r2 Next_Some(6,9) [OF n2(1)] p1 by (auto simp: applyPayload_def applyCapabilitiesGranted_def)
  with ids p2 have r2': "r2 = run\<lparr>ar_CapabilityIDs := ar_CapabilityIDs run @ map cg_ID grants\<rparr>" by simp
  from n3(2) obtain r3 where r3: "applyPayload (pj_Run p2) e3 = Inr r3" and p: "p = \<lparr>pj_Run = r3\<lparr>ar_EventSequence :=
      ev_Sequence e3, ar_UpdatedAt := ev_OccurredAt e3\<rparr>, pj_LastEventDigest = ev_Digest e3\<rparr>" by (rule Apply_Some_Inr)
  have "r3 = (pj_Run p2)\<lparr>ar_State := RunAdmitted, ar_StateReason := '''', ar_CompletedAt := None\<rparr>"
    using r3 Next_Some(6,9) [OF n3(1)] by (auto simp: applyPayload_def applyStateChanged_Inr)
  then have "pj_Run p = run\<lparr>ar_State := RunAdmitted, ar_StateReason := '''', ar_CompletedAt := None,
       ar_CapabilityIDs := ar_CapabilityIDs run @ map cg_ID grants, ar_EventSequence := ev_Sequence e3,
       ar_UpdatedAt := ev_OccurredAt e3\<rparr>" by (simp add: p p2 r2')
  then show "\<exists>n t. pj_Run p = run\<lparr>ar_State := RunAdmitted, ar_StateReason := '''', ar_CompletedAt := None,
       ar_CapabilityIDs := ar_CapabilityIDs run @ map cg_ID grants, ar_EventSequence := n, ar_UpdatedAt := t\<rparr>" by blast
qed

section \<open>The prepared admission\<close>

text \<open>The steps of \<^const>\<open>Prepare\<close>, read backwards.\<close>

lemma Prepare_Inr:
  assumes "Prepare N H C ns request now = Inr p"
  obtains rid cid tid deadline d task es te where "admittedDeadline request now = Inr deadline"
    and "an_Contract (pp_Result p) = (draftContract cid request deadline)\<lparr>ec_Digest := d\<rparr>"
    and "NewAgentTask H tid (rq_TransactionID request) ns rid (rq_Intent request) (rq_AgentProfile request) now = Inr task"
    and "an_Task (pp_Result p) = task"
    and "prepareRun C (an_Contract (pp_Result p)) (draftRun ns request rid (an_Contract (pp_Result p)) now) (rq_Actor request) now =
      Inr (an_Run (pp_Result p), an_Grants (pp_Result p), es)"
    and "CreationEvent (nh_TxEncodable N) H (draftTransaction ns request rid task (an_Contract (pp_Result p)) now)
      (rq_Actor request) = Some te"
    and "ApplyTx H None te = Inr (an_Transaction (pp_Result p))"
    and "an_RuntimeID (pp_Result p) = rq_ExpectedRuntimeID request"
    and "an_EnforcementProfile (pp_Result p) = rq_ExpectedEnforcementProfile request"
    and "an_IdempotencyKey (pp_Result p) = rq_IdempotencyKey request" and "pp_Namespace p = ns"
    and "Prepared_Validate N H C p = None"
  using assms by (auto simp: Prepare_def Let_def)

text \<open>The deadline is the earlier of the requested one and the end of the wall time.\<close>

lemma admittedDeadline_Inr:
  assumes "admittedDeadline request now = Inr deadline"
  shows "cn_Deadline (rq_Contract request) = Some d \<Longrightarrow> \<exists>e\<le>d. deadline = Some e"
    "MaxWallTimeSeconds (cn_Budgets (rq_Contract request)) = Some s \<Longrightarrow> \<exists>e\<le>now + s * 1000000000. deadline = Some e"
    "deadline = Some e \<Longrightarrow> cn_Deadline (rq_Contract request) = Some e \<or>
      (\<exists>s. MaxWallTimeSeconds (cn_Budgets (rq_Contract request)) = Some s \<and> e = now + s * 1000000000)"
  using assms by (auto simp: admittedDeadline_def Let_def split: option.splits if_splits) (metis not_less)

lemma createdTransaction:
  assumes "CreationEvent encodable H tx actor = Some te" and "ApplyTx H None te = Inr p"
  shows "tj_Transaction p = tx"
  using CreationEvent_Some(8) [OF assms(1)] ApplyTx_None_Inr [OF assms(2)] by simp

lemma NewAgentTask_Inr:
  assumes "NewAgentTask H tid xid ns rid intent profile now = Inr task"
  shows "tk_Intent task = intent" "tk_AgentProfile task = profile" "tk_CreatedAt task = now" "tk_RunID task = rid"
    "tk_TransactionID task = xid" "tk_Namespace task = ns" "tk_ID task = tid"
  using assms by (auto simp: NewAgentTask_def Let_def split: option.splits)

section \<open>The authority of a request\<close>

text \<open>
  What a result must carry: the contract of the request, with a deadline no later than asked; a run that is
  admitted under it and has used nothing; one grant per resource, with its operations, conditions and use
  limit, not delegable, expiring in time; a transaction for the same task and run, in which nothing is staged.
\<close>

definition requested_contract :: "AdmissionRequest \<Rightarrow> time \<Rightarrow> ExecutionContract \<Rightarrow> bool" where
  "requested_contract request now c \<longleftrightarrow> (let spec = rq_Contract request in
     ec_Owner c = rq_Sponsor request \<and> ec_Goal c = rq_Intent request \<and> ec_Risk c = cn_Risk spec \<and>
     ec_Resources c = cn_Resources spec \<and> ec_Budgets c = cn_Budgets spec \<and> ec_MaxChildDepth c = cn_MaxChildDepth spec \<and>
     ec_MaxChildren c = cn_MaxChildren spec \<and> ec_Checkpoints c = cn_Checkpoints spec \<and> ec_Obligations c = cn_Obligations spec \<and>
     ec_Escalation c = cn_Escalation spec \<and> ec_ReleaseContractRef c = cn_ReleaseContractRef spec \<and>
     (\<forall>d. cn_Deadline spec = Some d \<longrightarrow> (\<exists>e\<le>d. ec_Deadline c = Some e)) \<and>
     (\<forall>s. MaxWallTimeSeconds (cn_Budgets spec) = Some s \<longrightarrow> (\<exists>e\<le>now + s * 1000000000. ec_Deadline c = Some e)))"

definition requested_run :: "string \<Rightarrow> AdmissionRequest \<Rightarrow> ExecutionContract \<Rightarrow> CapabilityGrant list \<Rightarrow> AgentRun \<Rightarrow> bool" where
  "requested_run ns request c grants run \<longleftrightarrow> ar_Namespace run = ns \<and> ar_State run = RunAdmitted \<and>
     ar_ContractDigest run = ec_Digest c \<and> ar_DelegationChain run = [rq_Sponsor request] \<and> ar_ParentRunID run = '''' \<and>
     pr_ID (ar_Principal run) = ar_ID run \<and> ar_Deadline run = ec_Deadline c \<and> ar_BudgetLimits run = ec_Budgets c \<and>
     ar_BudgetUsage run = no_usage \<and> ar_ActiveExecutionID run = '''' \<and> ar_CapabilityIDs run = map cg_ID grants"

definition requested_grant :: "AdmissionRequest \<Rightarrow> time \<Rightarrow> ExecutionContract \<Rightarrow> AgentRun \<Rightarrow> ContractResource \<Rightarrow> CapabilityGrant \<Rightarrow> bool" where
  "requested_grant request now c run resource g \<longleftrightarrow> CapabilityGrant_Validate g = None \<and> cg_SubjectRunID g = ar_ID run \<and>
     cg_Resource g = cr_Selector resource \<and> cg_Operations g = cr_Operations resource \<and> cg_Conditions g = cr_Conditions resource \<and>
     cg_MaxUses g = MaxToolCalls (cn_Budgets (rq_Contract request)) \<and> \<not> cg_Delegable g \<and>
     cg_IssuedAt g = now \<and> now < cg_ExpiresAt g \<and> cg_ExpiresAt g \<le> now + defaultGrantTTL \<and>
     (\<forall>t. ec_Deadline c = Some t \<longrightarrow> cg_ExpiresAt g \<le> t)"

definition requested_transaction :: "string \<Rightarrow> AdmissionRequest \<Rightarrow> AgentTask \<Rightarrow> AgentRun \<Rightarrow> AgentTransaction \<Rightarrow> bool" where
  "requested_transaction ns request task run tx \<longleftrightarrow> tx_ID tx = rq_TransactionID request \<and> tx_Namespace tx = ns \<and>
     tx_Sponsor tx = rq_Sponsor request \<and> tx_Task tx = Some task \<and> tk_Intent task = rq_Intent request \<and>
     tk_AgentProfile task = rq_AgentProfile request \<and> tk_RunID task = ar_ID run \<and> tx_AgentRunIDs tx = [ar_ID run] \<and>
     tx_State tx = TransactionCreated \<and> tx_StageBindings tx = [] \<and> tx_EffectIDs tx = [] \<and> tx_OutstandingApprovalIDs tx = [] \<and>
     tx_ApprovalPackageDigest tx = '''' \<and> tx_CommitPlanDigest tx = ''''"

definition carries_requested_authority :: "string \<Rightarrow> AdmissionRequest \<Rightarrow> time \<Rightarrow> AdmissionResult \<Rightarrow> bool" where
  "carries_requested_authority ns request now r \<longleftrightarrow> (let c = an_Contract r; run = pj_Run (an_Run r) in
     requested_contract request now c \<and> requested_run ns request c (an_Grants r) run \<and>
     list_all2 (requested_grant request now c run) (cn_Resources (rq_Contract request)) (an_Grants r) \<and> an_Grants r \<noteq> [] \<and>
     requested_transaction ns request (an_Task r) run (tj_Transaction (an_Transaction r)) \<and>
     an_RuntimeID r = rq_ExpectedRuntimeID request \<and> an_EnforcementProfile r = rq_ExpectedEnforcementProfile request \<and>
     an_IdempotencyKey r = rq_IdempotencyKey request)"

theorem Prepare_authority:
  assumes "Prepare N H C ns request now = Inr p"
  shows "carries_requested_authority ns request now (pp_Result p)" "tk_CreatedAt (an_Task (pp_Result p)) = now"
    "tx_Attempt (tj_Transaction (an_Transaction (pp_Result p))) = 1"
proof -
  let ?r = "pp_Result p" and ?c = "an_Contract (pp_Result p)"
  from assms obtain rid cid tid deadline d task es te where dl: "admittedDeadline request now = Inr deadline"
    and c: "?c = (draftContract cid request deadline)\<lparr>ec_Digest := d\<rparr>"
    and t: "NewAgentTask H tid (rq_TransactionID request) ns rid (rq_Intent request) (rq_AgentProfile request) now = Inr task"
      "an_Task ?r = task"
    and r: "prepareRun C ?c (draftRun ns request rid ?c now) (rq_Actor request) now = Inr (an_Run ?r, an_Grants ?r, es)"
    and x: "CreationEvent (nh_TxEncodable N) H (draftTransaction ns request rid task ?c now) (rq_Actor request) = Some te"
      "ApplyTx H None te = Inr (an_Transaction ?r)"
    and k: "an_RuntimeID ?r = rq_ExpectedRuntimeID request" "an_EnforcementProfile ?r = rq_ExpectedEnforcementProfile request"
      "an_IdempotencyKey ?r = rq_IdempotencyKey request" by (rule Prepare_Inr)
  have contract: "requested_contract request now ?c"
    using admittedDeadline_Inr(1,2) [OF dl] by (simp add: c requested_contract_def draftContract_def Let_def)
  note task = NewAgentTask_Inr [OF t(1)] and tx = createdTransaction [OF x]
  have id: "ar_ID (pj_Run (an_Run ?r)) = rid" and run: "requested_run ns request ?c (an_Grants ?r) (pj_Run (an_Run ?r))"
    using prepareRun_Inr(2) [OF r] by (auto simp: requested_run_def draftRun_def Let_def)
  from prepareRun_Inr(1) [OF r] obtain e where e: "now < e" "e \<le> now + defaultGrantTTL" "\<And>t. ec_Deadline ?c = Some t \<Longrightarrow> e \<le> t"
    and g: "an_Grants ?r = map (compileGrant (rc_Hash16 C) ?c (draftRun ns request rid ?c now) now e) (ec_Resources ?c)"
      "an_Grants ?r \<noteq> []" "\<forall>g\<in>set (an_Grants ?r). CapabilityGrant_Validate g = None" by (rule Compile_Inr) blast
  have "list_all2 (requested_grant request now ?c (pj_Run (an_Run ?r))) (ec_Resources ?c) (an_Grants ?r)"
    using g(3) e contract id unfolding g(1)
    by (auto simp: list_all2_conv_all_nth requested_grant_def compileGrant_def draftRun_def Let_def requested_contract_def)
  with contract have grants: "list_all2 (requested_grant request now ?c (pj_Run (an_Run ?r))) (cn_Resources (rq_Contract request))
      (an_Grants ?r)" by (simp add: requested_contract_def Let_def)
  have transaction: "requested_transaction ns request (an_Task ?r) (pj_Run (an_Run ?r)) (tj_Transaction (an_Transaction ?r))"
    using task tx id t(2) by (simp add: requested_transaction_def draftTransaction_def)
  show "carries_requested_authority ns request now ?r"
    using contract run grants g(2) transaction k by (simp add: carries_requested_authority_def Let_def)
  show "tk_CreatedAt (an_Task ?r) = now" "tx_Attempt (tj_Transaction (an_Transaction ?r)) = 1"
    using task t(2) tx by (simp_all add: draftTransaction_def)
qed

text \<open>A response that a client accepts differs from what the request prepares at most where nothing is granted.\<close>

theorem accepted_authority:
  assumes "ValidateAgainstRequest N H C ns request r = None"
  shows "carries_requested_authority ns request (tk_CreatedAt (an_Task r)) r"
proof -
  from assms obtain p where p: "Prepare N H C ns request (tk_CreatedAt (an_Task r)) = Inr p"
    by (auto simp: ValidateAgainstRequest_def Let_def split: option.splits sum.splits)
  let ?e = "pp_Result p"
  from assms p have same: "an_RuntimeID r = an_RuntimeID ?e" "an_EnforcementProfile r = an_EnforcementProfile ?e"
    "an_IdempotencyKey r = an_IdempotencyKey ?e" "an_Task r = an_Task ?e" "an_Contract r = an_Contract ?e"
    "pj_Run (an_Run r) = pj_Run (an_Run ?e)" "an_Grants r = an_Grants ?e"
    and tx: "tj_Transaction (an_Transaction r) = tj_Transaction (an_Transaction ?e) \<or>
      tj_Transaction (an_Transaction r) = (tj_Transaction (an_Transaction ?e))\<lparr>tx_Attempt := 0\<rparr>"
    using Prepare_authority(1) [OF p]
    by (auto simp: ValidateAgainstRequest_def Let_def carries_requested_authority_def split: option.splits if_splits)
  from tx have "requested_transaction ns request task run (tj_Transaction (an_Transaction r)) =
      requested_transaction ns request task run (tj_Transaction (an_Transaction ?e))" for task run
    by (auto simp: requested_transaction_def)
  with same Prepare_authority(1) [OF p] show ?thesis by (simp add: carries_requested_authority_def Let_def)
qed

theorem prepared_accepted:
  assumes "Prepare N H C ns request now = Inr p"
  shows "ValidateAgainstRequest N H C ns request (pp_Result p) = None"
proof -
  from assms have "Prepared_Validate N H C p = None" "pp_Namespace p = ns" by (auto elim: Prepare_Inr)
  then have "Result_Validate N H ns (pp_Result p) = None" by (auto simp: Prepared_Validate_def Let_def split: sum.splits)
  with Prepare_authority [OF assms] assms show ?thesis
    by (simp add: ValidateAgainstRequest_def Let_def carries_requested_authority_def)
qed

end
