(* ===== verification/Admission_Progress.thy ===== *)
theory Admission_Progress
  imports Kernel_Steps
begin

text \<open>An admission whose identifiers are free succeeds when the database does.\<close>

text \<open>The rows of an admission find no constraint in their way. The contract may be there already, with the same content.\<close>

definition free_for :: "'j DB \<Rightarrow> Prepared \<Rightarrow> 'j \<Rightarrow> bool" where
  "free_for db p contractJSON \<longleftrightarrow> (let result = pp_Result p; ns = pp_Namespace p; task = an_Task result;
       contract = an_Contract result; run = ar_ID (pj_Run (an_Run result)); id = tx_ID (tj_Transaction (an_Transaction result)) in
     (\<forall>a\<in>set (db_admissions db). mr_namespace a = ns \<longrightarrow> mr_idempotency_key a \<noteq> pp_IdempotencyKey p \<and>
        mr_task_id a \<noteq> tk_ID task \<and> mr_run_id a \<noteq> run \<and> mr_transaction_id a \<noteq> id) \<and>
     (\<forall>t\<in>set (db_tasks db). kr_namespace t = ns \<longrightarrow> kr_task_id t \<noteq> tk_ID task \<and> kr_task_digest t \<noteq> tk_Digest task \<and>
        kr_transaction_id t \<noteq> id \<and> kr_run_id t \<noteq> run) \<and>
     (\<forall>c\<in>set (db_contracts db). cr_namespace c = ns \<longrightarrow>
        (cr_contract_digest c = ec_Digest contract) = (cr_contract_id c = ec_ID contract) \<and>
        (cr_contract_digest c = ec_Digest contract \<longrightarrow> cr_contract_json c = contractJSON)) \<and>
     (ns, run) \<notin> hkey ` set (db_runs db) \<and> (ns, id) \<notin> hkey ` set (db_transactions db) \<and>
     distinct (map ev_ID (pp_RunEvents p)) \<and> ev_ID ` set (pp_RunEvents p) \<inter> er_event_id ` set (db_events db) = {} \<and>
     te_ID (pp_TransactionEvent p) \<notin> er_event_id ` set (db_transaction_events db))"

lemma insert_rows_free:
  "distinct (map er_event_id rs) \<Longrightarrow> er_event_id ` set rs \<inter> er_event_id ` set events = {} \<Longrightarrow>
   distinct (map (\<lambda>r. (ekey r, er_sequence r)) rs) \<Longrightarrow>
   (\<lambda>r. (ekey r, er_sequence r)) ` set rs \<inter> (\<lambda>r. (ekey r, er_sequence r)) ` set events = {} \<Longrightarrow>
   (\<forall>r\<in>set rs. 1 \<le> er_sequence r \<and> ekey r \<in> hkey ` set heads) \<Longrightarrow> insert_rows heads events rs = Some (events @ rs)"
proof (induction rs arbitrary: events)
  case (Cons r rs)
  then have "insert_event_row heads events r = Some (events @ [r])" by (auto simp: insert_event_row_def)
  moreover have "insert_rows heads (events @ [r]) rs = Some ((events @ [r]) @ rs)" by (rule Cons.IH) (use Cons.prems in auto)
  ultimately show ?case by simp
qed simp

lemma insertAdmissionEvents_no_faults:
  "insert_rows (db_runs tx) (db_events tx) (map (\<lambda>(e, j). event_row_of ns e j) rows) = Some evs \<Longrightarrow> length rows \<le> length points \<Longrightarrow>
   insertAdmissionEvents (\<lambda>_. False) no_faults key i tx ns points rows = Inr (tx\<lparr>db_events := evs\<rparr>)"
proof (induction rows arbitrary: i tx points)
  case (Cons row rows)
  obtain e j where row: "row = (e, j)" by (cases row)
  obtain q qs where points: "points = q # qs" using Cons.prems(2) by (cases points) auto
  from Cons.prems(1) row obtain es where es:
    "insert_event_row (db_runs tx) (db_events tx) (event_row_of ns e j) = Some es"
    "insert_rows (db_runs tx) es (map (\<lambda>(e, j). event_row_of ns e j) rows) = Some evs"
    by (auto split: option.splits)
  have "insertEvent no_faults tx ns e j = Inr (tx\<lparr>db_events := es\<rparr>)" using es(1) by (simp add: insertEvent_Inr)
  moreover have "insertAdmissionEvents (\<lambda>_. False) no_faults key (Suc i) (tx\<lparr>db_events := es\<rparr>) ns qs rows =
      Inr (tx\<lparr>db_events := es\<rparr>\<lparr>db_events := evs\<rparr>)"
    by (rule Cons.IH) (use Cons.prems es points in auto)
  ultimately show ?case by (simp add: row points runAdmissionFault_def
        no_faults_simps(1) [of CommitStep] del: no_faults_simps(1))
qed (cases points; simp)

lemma ensureExecutionContract_free:
  assumes "free_for db p contractJSON"
  shows "\<exists>cs. ensureExecutionContract no_faults db p contractJSON = Inr (db\<lparr>db_contracts := cs\<rparr>) \<and>
    (pp_Namespace p, ec_Digest (an_Contract (pp_Result p))) \<in> set (map (\<lambda>c. (cr_namespace c, cr_contract_digest c)) cs)"
proof -
  let ?c = "an_Contract (pp_Result p)" and ?ns = "pp_Namespace p"
  have f: "\<forall>c\<in>set (db_contracts db). cr_namespace c = ?ns \<longrightarrow> (cr_contract_digest c = ec_Digest ?c) = (cr_contract_id c = ec_ID ?c) \<and>
      (cr_contract_digest c = ec_Digest ?c \<longrightarrow> cr_contract_json c = contractJSON)"
    using assms by (simp add: free_for_def Let_def)
  show ?thesis
  proof (cases "find (\<lambda>c. cr_namespace c = ?ns \<and> cr_contract_digest c = ec_Digest ?c) (db_contracts db)")
    case None
    let ?row = "\<lparr>cr_namespace = ?ns, cr_contract_digest = ec_Digest ?c, cr_contract_id = ec_ID ?c, cr_contract_json = contractJSON,
      cr_created_at = rfc3339nano (tk_CreatedAt (an_Task (pp_Result p)))\<rparr>"
    have "\<forall>c\<in>set (db_contracts db). cr_namespace c = ?ns \<longrightarrow> cr_contract_digest c \<noteq> ec_Digest ?c"
      using None by (auto simp: find_None_iff)
    with f have "insert_contract (db_contracts db) ?row = Some (db_contracts db @ [?row])"
      unfolding insert_contract_def by simp
    with None have "ensureExecutionContract no_faults db p contractJSON = Inr (db\<lparr>db_contracts := db_contracts db @ [?row]\<rparr>)"
      by (simp add: ensureExecutionContract_def Let_def)
    then show ?thesis by force
  next
    case (Some c)
    then have c: "c \<in> set (db_contracts db)" "cr_namespace c = ?ns" "cr_contract_digest c = ec_Digest ?c"
      by (auto simp: find_Some_iff)
    with f have "cr_contract_id c = ec_ID ?c" "cr_contract_json c = contractJSON" by blast+
    with Some have "ensureExecutionContract no_faults db p contractJSON = Inr (db\<lparr>db_contracts := db_contracts db\<rparr>)"
      by (simp add: ensureExecutionContract_def Let_def)
    with c show ?thesis by force
  qed
qed

lemma execAdmissionStep_free: "st = Some v \<Longrightarrow> execAdmissionStep (\<lambda>_. False) no_faults i point key res st = Inr v"
  by (simp add: execAdmissionStep_def runAdmissionFault_def)

text \<open>The rows of the run's events are new: the run is, and their identifiers are.\<close>

lemma event_rows_free:
  assumes ok: "run_store_ok CR db" and rep: "Replay es = Inr q" and m: "map fst rows = es"
    and new: "(ns, ar_ID (pj_Run q)) \<notin> hkey ` set (db_runs db)"
    and ids: "distinct (map ev_ID es)" "ev_ID ` set es \<inter> er_event_id ` set (db_events db) = {}"
    and h: "hkey h = (ns, ar_ID (pj_Run q))"
  shows "\<exists>evs. insert_rows (db_runs db @ [h]) (db_events db) (map (\<lambda>(e, j). event_row_of ns e j) rows) = Some evs"
proof -
  have r: "replayFrom None es = Inr q" using rep by (simp add: Replay_ledger)
  let ?rs = "map (\<lambda>(e, j). event_row_of ns e j) rows"
  have map_rows: "map f ?rs = map g es" if "\<And>e j. f (event_row_of ns e j) = g e" for f :: "'a event_row \<Rightarrow> 'c" and g
    unfolding m [symmetric] using that by (auto simp: case_prod_beta)
  have id: "map er_event_id ?rs = map ev_ID es" by (rule map_rows) (simp add: event_row_of_def)
  have key: "map (\<lambda>r. (ekey r, er_sequence r)) ?rs = map (\<lambda>e. ((ns, ev_RunID e), ev_Sequence e)) es"
    by (rule map_rows) (simp add: event_row_of_def ekey_def)
  have "map ev_Sequence es = map (\<lambda>i. int i + 1) [0..<length es]"
    using run_ledger.replay_numbered [OF r] by (auto intro: nth_equalityI)
  then have "distinct (map ev_Sequence es)" by (simp add: distinct_map inj_on_def)
  then have dist: "distinct (map (\<lambda>e. ((ns, ev_RunID e), ev_Sequence e)) es)" by (auto simp: distinct_map inj_on_def)
  have run: "\<forall>e\<in>set es. ev_RunID e = ar_ID (pj_Run q) \<and> 1 \<le> ev_Sequence e"
    using run_ledger.replay_stream [OF r] run_ledger.replay_numbered [OF r] by (auto simp: in_set_conv_nth)
  have fk: "ekey ` set (db_events db) \<subseteq> hkey ` set (db_runs db)"
    using ok by (simp add: run_store_ok_def run_store.consistent_def)
  have rowkey: "\<forall>r\<in>set ?rs. ekey r = (ns, ar_ID (pj_Run q)) \<and> 1 \<le> er_sequence r"
  proof
    fix r assume "r \<in> set ?rs"
    then obtain e j where e: "(e, j) \<in> set rows" "r = event_row_of ns e j" by auto
    then have "e \<in> set es" unfolding m [symmetric] by force
    with run e(2) show "ekey r = (ns, ar_ID (pj_Run q)) \<and> 1 \<le> er_sequence r" by (simp add: event_row_of_def ekey_def)
  qed
  have "ekey r \<noteq> (ns, ar_ID (pj_Run q))" if "r \<in> set (db_events db)" for r using that fk new by (metis image_eqI subsetD)
  with rowkey have disj: "(\<lambda>r. (ekey r, er_sequence r)) ` set ?rs \<inter> (\<lambda>r. (ekey r, er_sequence r)) ` set (db_events db) = {}"
    by force
  have each: "\<forall>r\<in>set ?rs. 1 \<le> er_sequence r \<and> ekey r \<in> hkey ` set (db_runs db @ [h])" using rowkey h by simp
  have "er_event_id ` set ?rs = ev_ID ` set es" using id by (metis list.set_map)
  then show ?thesis using insert_rows_free [OF _ _ _ disj each] id key dist ids by metis
qed

lemma tx_event_free:
  assumes "tx_store_ok H CT db" and "ekey r = hkey h" "er_sequence r = 1" and "hkey h \<notin> hkey ` set (db_transactions db)"
    and "er_event_id r \<notin> er_event_id ` set (db_transaction_events db)"
  shows "insert_event_row (db_transactions db @ [h]) (db_transaction_events db) r = Some (db_transaction_events db @ [r])"
proof -
  have "ekey ` set (db_transaction_events db) \<subseteq> hkey ` set (db_transactions db)"
    using assms(1) by (simp add: tx_store_ok_def tx_store.consistent_def)
  with assms(2-) show ?thesis by (auto simp: insert_event_row_def)
qed

lemma three_events:
  assumes "prepareAdmission N H CR CT M p = Inr x"
  shows "length (xa_RunEvents x) = 3"
proof -
  have "length (xa_RunEvents x) = length (pp_RunEvents p)" using prepareAdmission_Inr(8) [OF assms] by (metis length_map)
  also have "\<dots> = 3" using arg_cong [OF Prepared_Validate_None(4) [OF prepareAdmission_Inr(1) [OF assms]], of length] by simp
  finally show ?thesis .
qed

theorem writeAdmission_free:
  assumes ok: "ledgers_ok H CR CT db" and enc: "prepareAdmission N H CR CT M p = Inr x" and f: "free_for db p (xa_Contract x)"
  shows "\<exists>db'. writeAdmission (\<lambda>_. False) no_faults db p x = Inr db'"
proof -
  let ?r = "pp_Result p" and ?ns = "pp_Namespace p"
  let ?run = "run_row_of (an_Run ?r) (xa_Run x)" and ?tx = "tx_row_of (an_Transaction ?r) (xa_Transaction x)"
  note e = prepareAdmission_Inr [OF enc]
  note valid = Prepared_Validate_None [OF e(1)]
  note names = resultBound_names [OF Result_Validate_None(6) [OF valid(1)]]
  from ok have l: "run_store_ok CR db" "tx_store_ok H CT db" by (simp_all add: ledgers_ok_def)
  from ensureExecutionContract_free [OF f] obtain cs where c: "ensureExecutionContract no_faults db p (xa_Contract x) =
      Inr (db\<lparr>db_contracts := cs\<rparr>)" "(?ns, ec_Digest (an_Contract ?r)) \<in> set (map (\<lambda>c. (cr_namespace c, cr_contract_digest c)) cs)"
    by blast
  have task: "insert_task (db_tasks db) (taskRow p (xa_Task x)) = Some (db_tasks db @ [taskRow p (xa_Task x)])"
    using f names(5,6) by (auto simp: insert_task_def taskRow_def free_for_def Let_def)
  have hk: "hkey ?run = (?ns, ar_ID (pj_Run (an_Run ?r)))" "hkey ?tx = (?ns, tx_ID (tj_Transaction (an_Transaction ?r)))"
    using names(1,2) by (simp_all add: hkey_def run_row_of_def tx_row_of_def)
  have run: "insert_head (db_runs db) ?run = Some (db_runs db @ [?run])"
    using f hk(1) names(3) by (auto simp: insert_head_def free_for_def Let_def run_row_of_def)
  have new: "(?ns, ar_ID (pj_Run (an_Run ?r))) \<notin> hkey ` set (db_runs db)" using f by (simp add: free_for_def Let_def)
  have ids: "distinct (map ev_ID (pp_RunEvents p))" "ev_ID ` set (pp_RunEvents p) \<inter> er_event_id ` set (db_events db) = {}"
    using f by (simp_all add: free_for_def Let_def)
  from event_rows_free [OF l(1) valid(5) e(8) new ids hk(1)] obtain evs where evs: "insert_rows (db_runs db @ [?run]) (db_events db)
      (map (\<lambda>(e, j). event_row_of ?ns e j) (xa_RunEvents x)) = Some evs" by blast
  have "length (xa_RunEvents x) = 3" by (rule three_events [OF enc])
  then have events: "insertAdmissionEvents (\<lambda>_. False) no_faults key i (tx\<lparr>db_runs := db_runs db @ [?run]\<rparr>) ?ns [a, b, d] (xa_RunEvents x) =
      Inr (tx\<lparr>db_runs := db_runs db @ [?run], db_events := evs\<rparr>)" if "db_events tx = db_events db" for key i tx a b d
    using insertAdmissionEvents_no_faults [of "tx\<lparr>db_runs := db_runs db @ [?run]\<rparr>" ?ns "xa_RunEvents x" evs "[a, b, d]" key i] evs that
    by simp
  have head: "insert_head (db_transactions db) ?tx = Some (db_transactions db @ [?tx])"
    using f hk(2) names(4) by (auto simp: insert_head_def free_for_def Let_def tx_row_of_def)
  let ?te = "tx_event_row_of ?ns (pp_TransactionEvent p) (xa_TransactionEvent x)"
  have ap: "ApplyTx H None (pp_TransactionEvent p) = Inr (an_Transaction ?r)" using valid(6) by (simp add: ReplayTx_def)
  have "insert_event_row (db_transactions db @ [?tx]) (db_transaction_events db) ?te = Some (db_transaction_events db @ [?te])"
  proof (rule tx_event_free [OF l(2)])
    show "ekey ?te = hkey ?tx" "er_sequence ?te = 1"
      using hk(2) ApplyTx_None_Inr [OF ap] by (simp_all add: tx_event_row_of_def ekey_def)
    show "hkey ?tx \<notin> hkey ` set (db_transactions db)" using f hk(2) by (simp add: free_for_def Let_def)
    show "er_event_id ?te \<notin> er_event_id ` set (db_transaction_events db)"
      using f by (simp add: free_for_def Let_def tx_event_row_of_def)
  qed
  then have tevent: "insertTransactionEvent no_faults 0 tx ?ns (pp_TransactionEvent p) (xa_TransactionEvent x) =
      Inr (tx\<lparr>db_transaction_events := db_transaction_events db @ [?te]\<rparr>)"
    if "db_transactions tx = db_transactions db @ [?tx]" "db_transaction_events tx = db_transaction_events db" for tx
    using that by (simp add: insertTransactionEvent_Inr)
  have admission: "insert_admission tx (admissionRow p (xa_Result x)) = Some (db_admissions db @ [admissionRow p (xa_Result x)])"
    if "db_admissions tx = db_admissions db" "db_tasks tx = db_tasks db @ [taskRow p (xa_Task x)]" "db_contracts tx = cs"
      "db_runs tx = db_runs db @ [?run]" "db_transactions tx = db_transactions db @ [?tx]" for tx
    using that f c(2) hk by (auto simp: insert_admission_def admissionRow_def taskRow_def free_for_def Let_def)
  show ?thesis
    unfolding writeAdmission_def Let_def
    by (simp add: c(1) task run events head tevent admission execAdmissionStep_free runAdmissionFault_def
        no_faults_simps(1) [of CommitStep] del: no_faults_simps(1))
qed

theorem AdmitTask_free:
  assumes ok: "ledgers_ok H CR CT db" and enc: "prepareAdmission N H CR CT M p = Inr x" and f: "free_for db p (xa_Contract x)"
    and k: "IsIdentifier (pp_IdempotencyKey p)"
    and b: "requireStoredRuntimeBinding no_faults db (an_RuntimeID (pp_Result p)) (an_EnforcementProfile (pp_Result p)) False
      admitTaskOperation (pp_IdempotencyKey p) = None"
  shows "\<exists>db'. AdmitTask N H CR CT M (\<lambda>_. False) no_faults db p = (db', Inr (pp_Result p, True))"
proof -
  from writeAdmission_free [OF ok enc f] obtain db' where w: "writeAdmission (\<lambda>_. False) no_faults db p x = Inr db'" by blast
  note valid = Prepared_Validate_None [OF prepareAdmission_Inr(1) [OF enc]]
  have "validateAdmissionKey (pp_Namespace p) (pp_IdempotencyKey p) (pp_RequestDigest p) = None"
    using k valid(3) Result_Validate_None(1,2) [OF valid(1)]
    by (simp add: validateAdmissionKey_def validateAdmissionLookupKey_def validateNamespace_def)
  moreover have "find (\<lambda>a. mr_namespace a = pp_Namespace p \<and> mr_idempotency_key a = pp_IdempotencyKey p) (db_admissions db) = None"
    using f by (auto simp: find_None_iff free_for_def Let_def)
  then have "\<exists>err. loadTaskAdmission N H CR CT M no_faults db (pp_Namespace p) (pp_IdempotencyKey p) = Inl err \<and> ke_Code err = ErrorNotFound"
    by (simp add: loadTaskAdmission_def Let_def select_admission_def)
  ultimately show ?thesis
    using b enc w by (auto simp: AdmitTask_def Let_def settle_def no_faults_simps(1) [of BeginStep]
      simp del: no_faults_simps(1) split: prod.splits)
qed

end
