(* ===== verification/Admission_Examples.thy ===== *)
theory Admission_Examples
  imports Admission_Durability Admission_Authority Admission_Progress Store_Examples
begin

text \<open>A concrete request, its preparation evaluated in the kernel, and its admission.\<close>

section \<open>A codec for every stored value\<close>

datatype ax_json = ARun AgentRun | AEvent RunEvent | AProjection ProjectionTx | ATxEvent TransactionEvent | AValue AdmissionValue

fun un_ARun :: "ax_json \<Rightarrow> AgentRun option" where "un_ARun (ARun x) = Some x" | "un_ARun _ = None"
fun un_AEvent :: "ax_json \<Rightarrow> RunEvent option" where "un_AEvent (AEvent x) = Some x" | "un_AEvent _ = None"
fun un_AProjection :: "ax_json \<Rightarrow> ProjectionTx option" where
  "un_AProjection (AProjection x) = Some x" | "un_AProjection _ = None"
fun un_ATxEvent :: "ax_json \<Rightarrow> TransactionEvent option" where "un_ATxEvent (ATxEvent x) = Some x" | "un_ATxEvent _ = None"
fun un_AResult :: "ax_json \<Rightarrow> AdmissionResult option" where "un_AResult (AValue (ValResult x)) = Some x" | "un_AResult _ = None"
fun un_ATask :: "ax_json \<Rightarrow> AgentTask option" where "un_ATask (AValue (ValTask x)) = Some x" | "un_ATask _ = None"
fun un_AContract :: "ax_json \<Rightarrow> ExecutionContract option" where
  "un_AContract (AValue (ValContract x)) = Some x" | "un_AContract _ = None"

definition ax_hash :: "string \<Rightarrow> string" where
  "ax_hash _ = replicate 32 (CHR ''a'')"

definition ax_CR :: "ax_json RunCodec" where
  "ax_CR = \<lparr>rc_Encodable = (\<lambda>_. True), rc_Digest = (\<lambda>e. Some (sample_digest (if ev_Sequence e = 1 then CHR ''1''
       else if ev_Sequence e = 2 then CHR ''2'' else CHR ''3''))),
     rc_Hash16 = ax_hash, rc_EncRun = (\<lambda>x. Some (ARun x)), rc_DecRun = un_ARun,
     rc_EncEvent = (\<lambda>x. Some (AEvent x)), rc_DecEvent = un_AEvent\<rparr>"

definition ax_CT :: "ax_json TxCodec" where
  "ax_CT = \<lparr>tc_EncProjection = (\<lambda>x. Some (AProjection x)), tc_DecProjection = un_AProjection,
     tc_EncEvent = (\<lambda>x. Some (ATxEvent x)), tc_DecEvent = un_ATxEvent\<rparr>"

definition ax_M :: "ax_json AdmissionCodec" where
  "ax_M = \<lparr>mc_Encode = (\<lambda>x. Some (AValue x)), mc_DecResult = un_AResult, mc_DecTask = un_ATask, mc_DecContract = un_AContract\<rparr>"

definition ax_N :: AdmissionHashing where
  "ax_N = \<lparr>nh_Contract = (\<lambda>_. Some (sample_digest (CHR ''b''))), nh_Request = (\<lambda>_ r. Some (sample_digest
     (if rq_Intent r = ''repair'' then CHR ''c'' else CHR ''d''))), nh_TxEncodable = (\<lambda>_. True)\<rparr>"

definition ax_H :: Hashing where
  "ax_H = \<lparr>hs_Bytes = (\<lambda>_. sample_digest (CHR ''1'')), hs_Hash16 = (\<lambda>_. replicate 32 (CHR ''0'')),
     hs_Task = (\<lambda>_. Some (sample_digest (CHR ''2''))), hs_Effects = (\<lambda>_. Some (sample_digest (CHR ''3''))),
     hs_CommitPlan = (\<lambda>_. Some (sample_digest (CHR ''4''))), hs_ApprovalPackage = (\<lambda>_. Some (sample_digest (CHR ''5''))),
     hs_ApprovalDecision = (\<lambda>_. Some (sample_digest (CHR ''6''))), hs_Event = (\<lambda>e. Some (sample_digest (CHR ''7''))),
     hs_Strings = (\<lambda>_. Some (sample_digest (CHR ''f''))), hs_Struct = (\<lambda>_. Some (sample_digest (CHR ''9''))),
     hs_Policy = (\<lambda>_ n. Some (sample_digest (CHR ''0'')))\<rparr>"

section \<open>A request\<close>

definition ax_runtime :: string where
  "ax_runtime = ''runtime:'' @ replicate 64 (CHR ''e'')"

definition ax_resource :: ContractResource where
  "ax_resource = \<lparr>cr_ID = ''resource:1'', cr_Selector = \<lparr>rs_Kind = ''filesystem'', rs_Pattern = ''workspace/**''\<rparr>,
     cr_Operations = [''filesystem.read'', ''filesystem.write''], cr_Conditions =
       \<lparr>cc_ApprovalRequired = False, cc_WorkspaceRoot = ''workspace'', cc_EnvironmentAllow = [], cc_DataClassifications = [],
        cc_MaxOutputBytes = None\<rparr>\<rparr>"

definition ax_limits :: BudgetLimits where
  "ax_limits = \<lparr>MaxInputTokens = None, MaxOutputTokens = None, MaxModelCalls = None, MaxToolCalls = None,
     MaxCostMicros = None, MaxWallTimeSeconds = Some 3600\<rparr>"

definition ax_spec :: ContractSpec where
  "ax_spec = \<lparr>cn_Risk = ''low'', cn_Resources = [ax_resource], cn_Budgets = ax_limits, cn_Deadline = None, cn_MaxChildDepth = None,
     cn_MaxChildren = None, cn_Checkpoints = [], cn_Obligations = [], cn_Escalation = None, cn_ReleaseContractRef = ''''\<rparr>"

definition ax_request :: AdmissionRequest where
  "ax_request = \<lparr>rq_Version = RequestVersion, rq_ExpectedRuntimeID = ax_runtime,
     rq_ExpectedEnforcementProfile = EnforcementProfileProduction, rq_IdempotencyKey = ''key:1'', rq_TransactionID = ''tx:1'',
     rq_RunID = ''run:1'', rq_Intent = ''repair'',
     rq_AgentProfile = \<lparr>tp_ID = ''profile:1'', tp_Digest = sample_digest (CHR ''a''), tp_RuntimeClass = ''oci'', tp_ImageDigest = sample_digest (CHR ''d''),
       tp_Entrypoint = '''', tp_CommandDigest = sample_digest (CHR ''f'')\<rparr>,
     rq_Sponsor = \<lparr>pr_ID = ''human:alice'', pr_Kind = PrincipalHuman, pr_Issuer = '''', pr_ClaimsDigest = ''''\<rparr>,
     rq_Actor = ex_actor, rq_Contract = ax_spec\<rparr>"

section \<open>What is prepared\<close>

definition ax_id :: "string \<Rightarrow> string" where
  "ax_id kind = kind @ CHR '':'' # replicate 32 (CHR ''a'')"

definition ax_contract :: ExecutionContract where
  "ax_contract = \<lparr>ec_Version = ''gatemole.execution_contract.v0'', ec_ID = ax_id ''contract'', ec_Digest = sample_digest (CHR ''b''),
     ec_Owner = rq_Sponsor ax_request, ec_Goal = ''repair'', ec_NonGoals = [], ec_Risk = ''low'', ec_Resources = [ax_resource],
     ec_Budgets = ax_limits, ec_Deadline = Some 3600000001500, ec_MaxChildDepth = None, ec_MaxChildren = None, ec_Checkpoints = [],
     ec_Obligations = [], ec_Escalation = None, ec_ReleaseContractRef = ''''\<rparr>"

definition ax_task :: AgentTask where
  "ax_task = \<lparr>tk_Version = ''gatemole.agent_task.v0'', tk_ID = ax_id ''task'', tk_TransactionID = ''tx:1'',
     tk_Namespace = ''team'', tk_RunID = ''run:1'', tk_Intent = ''repair'', tk_IntentDigest = sample_digest (CHR ''1''),
     tk_AgentProfile = rq_AgentProfile ax_request, tk_CreatedAt = 1500, tk_Digest = sample_digest (CHR ''2'')\<rparr>"

definition ax_run :: AgentRun where
  "ax_run = draftRun ''team'' ax_request ''run:1'' ax_contract 1500"

definition ax_grant :: CapabilityGrant where
  "ax_grant = compileGrant ax_hash ax_contract ax_run 1500 3600000001500 ax_resource"

lemma ax_identifiers [example_simps]: "IsIdentifier (ax_id ''contract'')" "IsIdentifier (ax_id ''task'')" "IsIdentifier (ax_id ''cap'')"
  "IsIdentifier (ax_id ''decision'')" "IsIdentifier ''key:1''" "IsIdentifier ''human:alice''" "IsIdentifier ''profile:1''"
  "IsIdentifier ''resource:1''" "IsIdentifier ''filesystem.write''" "IsIdentifier ''gatemoled''"
  by code_simp+

lemma ax_chars [example_simps]: "is_lower_hex (CHR ''f'')" "is_lower_hex (CHR ''c'')" "is_lower_hex (CHR ''d'')" "is_lower_hex (CHR ''7'')"
  by code_simp+

lemma ax_stable [simp]: "stableID ax_hash kind xs = ax_id kind"
  by (simp add: stableID_def ax_hash_def ax_id_def)

lemma ax_check: "checkRequest ax_request 1500 = None"
  by code_simp

lemma ax_contract_valid: "ExecutionContract_Validate ax_contract = None"
  by (simp add: ExecutionContract_Validate_def ax_contract_def ax_request_def ax_resource_def ax_limits_def Let_def validate_simps
      validRisk_def example_simps valid_conditions_def limits_nonneg_def limit_nonneg_def valid_principal_def)

lemma ax_run_valid: "AgentRun_Validate ax_run = None"
  by (simp add: ax_run_def draftRun_def ax_request_def ax_contract_def ax_resource_def admittedWorkspaceRoot_def ex_eval ax_limits_def example_simps)

lemma ax_run_moved_valid:
  "AgentRun_Validate (ax_run\<lparr>ar_CapabilityIDs := [ax_id ''cap''], ar_EventSequence := 2, ar_UpdatedAt := 1500\<rparr>) = None"
  "AgentRun_Validate (ax_run\<lparr>ar_CapabilityIDs := [ax_id ''cap''], ar_State := RunAdmitted,
     ar_StateReason := '''', ar_CompletedAt := None, ar_EventSequence := 3, ar_UpdatedAt := 1500\<rparr>) = None"
  by (simp_all add: ax_run_def draftRun_def ax_request_def ax_contract_def ax_resource_def admittedWorkspaceRoot_def ex_eval ax_limits_def example_simps)

lemma ax_service_valid [example_simps]: "valid_principal capabilityServicePrincipal"
  by (simp add: valid_principal_def capabilityServicePrincipal_def example_simps)

lemma ax_grant_valid: "CapabilityGrant_Validate ax_grant = None"
  by (simp add: CapabilityGrant_Validate_def ax_grant_def compileGrant_def ax_resource_def ax_run_def draftRun_def ax_contract_def
      Let_def validate_simps example_simps valid_conditions_def ax_limits_def)

section \<open>The run's events\<close>

definition ax_event :: "int64 \<Rightarrow> RunEventType \<Rightarrow> Principal \<Rightarrow> RunPayload \<Rightarrow> string \<Rightarrow> string \<Rightarrow> string \<Rightarrow> RunEvent" where
  "ax_event n ty actor payload decision prev digest = \<lparr>ev_Version = ''gatemole.run_event.v0'', ev_ID = event_ID ax_hash ''run:1'' n,
     ev_RunID = ''run:1'', ev_Sequence = n, ev_Type = ty, ev_Actor = actor, ev_OccurredAt = 1500, ev_Payload = payload,
     ev_Artifacts = [], ev_PolicyDecisionID = decision, ev_PreviousDigest = prev, ev_Digest = digest\<rparr>"

definition ax_e1 :: RunEvent where
  "ax_e1 = ax_event 1 EventRunCreated ex_actor (RunCreatedPayload ax_run) '''' '''' (sample_digest (CHR ''1''))"

definition ax_e2 :: RunEvent where
  "ax_e2 = ax_event 2 EventCapabilitiesGranted capabilityServicePrincipal
     (CapabilitiesGranted \<lparr>gp_ContractDigest = sample_digest (CHR ''b''), gp_Grants = [ax_grant]\<rparr>)
     (ax_id ''decision'') (sample_digest (CHR ''1'')) (sample_digest (CHR ''2''))"

definition ax_e3 :: RunEvent where
  "ax_e3 = ax_event 3 EventRunStateChanged capabilityServicePrincipal
     (RunStateChanged \<lparr>sc_From = RunCreated, sc_To = RunAdmitted, sc_Reason = ''''\<rparr>) ''''
     (sample_digest (CHR ''2'')) (sample_digest (CHR ''3''))"

definition ax_p1 :: Projection where
  "ax_p1 = \<lparr>pj_Run = ax_run, pj_LastEventDigest = sample_digest (CHR ''1'')\<rparr>"

definition ax_p2 :: Projection where
  "ax_p2 = \<lparr>pj_Run = ax_run\<lparr>ar_CapabilityIDs := [ax_id ''cap''], ar_EventSequence := 2, ar_UpdatedAt := 1500\<rparr>,
            pj_LastEventDigest = sample_digest (CHR ''2'')\<rparr>"

definition ax_p3 :: Projection where
  "ax_p3 = \<lparr>pj_Run = ax_run\<lparr>ar_CapabilityIDs := [ax_id ''cap''], ar_State := RunAdmitted,
     ar_StateReason := '''', ar_CompletedAt := None, ar_EventSequence := 3, ar_UpdatedAt := 1500\<rparr>,
            pj_LastEventDigest = sample_digest (CHR ''3'')\<rparr>"

lemma ax_run_sel [simp]: "ar_ID ax_run = ''run:1''" "ar_Namespace ax_run = ''team''" "ar_State ax_run = RunCreated"
  "ar_EventSequence ax_run = 1" "ar_CreatedAt ax_run = 1500" "ar_UpdatedAt ax_run = 1500" "ar_CapabilityIDs ax_run = []"
  "ar_ContractDigest ax_run = sample_digest (CHR ''b'')" "ar_Deadline ax_run = Some 3600000001500" "ar_StateReason ax_run = ''''"
  "ar_CompletedAt ax_run = None" "ar_ActiveExecutionID ax_run = ''''"
  by (simp_all add: ax_run_def draftRun_def ax_contract_def Let_def)

lemma ax_grant_sel [simp]: "cg_ID ax_grant = ax_id ''cap''" "cg_SubjectRunID ax_grant = ''run:1''"
  "cg_PolicyDecisionID ax_grant = ax_id ''decision''"
  by (simp_all add: ax_grant_def compileGrant_def)

lemma ax_event_valid:
  assumes "IsIdentifier (RunEventType_name ty)" "payload_json payload = RawObject ''''" "1 \<le> n" "n \<le> 3" "valid_principal actor"
    "prev = '''' \<and> n = 1 \<or> IsSHA256Digest prev \<and> 1 < n \<and> prev \<noteq> ''''" "IsSHA256Digest digest" "decision = '''' \<or> IsIdentifier decision"
  shows "RunEvent_Validate (ax_event n ty actor payload decision prev digest) = None"
proof -
  have "IsIdentifier (event_ID ax_hash ''run:1'' 1)" "IsIdentifier (event_ID ax_hash ''run:1'' 2)" "IsIdentifier (event_ID ax_hash ''run:1'' 3)"
    by code_simp+
  moreover have "n = 1 \<or> n = 2 \<or> n = 3" using assms by arith
  ultimately show ?thesis using assms
    by (auto simp: RunEvent_Validate_def ax_event_def Let_def validate_simps example_simps simp del: RunEventType_name.simps)
qed

lemma ax_events_valid: "RunEvent_Validate ax_e1 = None" "RunEvent_Validate ax_e2 = None" "RunEvent_Validate ax_e3 = None"
  unfolding ax_e1_def ax_e2_def ax_e3_def
  by (rule ax_event_valid; simp add: example_simps del: RunEventType_name.simps)+

lemma ax_created: "createRunEvent ax_CR ax_run ex_actor 1500 = Inr ax_e1" "Apply None ax_e1 = Inr ax_p1"
proof -
  show "createRunEvent ax_CR ax_run ex_actor 1500 = Inr ax_e1"
    by (simp add: createRunEvent_def ax_CR_def ax_e1_def ax_event_def ComputeEventDigest_def)
  show "Apply None ax_e1 = Inr ax_p1"
    by (simp add: Apply.simps ax_events_valid applyCreation_def DecodePayloadStrict_def ax_run_valid ax_p1_def)
      (simp add: ax_e1_def ax_event_def ax_run_valid)
qed

lemma ax_compiled: "Compile ax_hash ax_contract ax_run 1500 = Inr [ax_grant]"
proof -
  have "validateFilesystemScope ax_resource = None" by code_simp
  moreover have "rs_Kind (cr_Selector ax_resource) = ''filesystem''" by (simp add: ax_resource_def)
  moreover have "ec_Deadline ax_contract = Some 3600000001500" "ec_Resources ax_contract = [ax_resource]"
    "ec_Digest ax_contract = sample_digest (CHR ''b'')" by (simp_all add: ax_contract_def)
  ultimately show ?thesis
    by (simp add: Compile_def ax_contract_valid ax_run_valid earlier_def defaultGrantTTL_def Let_def ax_grant_valid flip: ax_grant_def)
qed

lemma ax_applied: "Apply (Some ax_p1) ax_e2 = Inr ax_p2" "Apply (Some ax_p2) ax_e3 = Inr ax_p3"
proof -
  show "Apply (Some ax_p1) ax_e2 = Inr ax_p2"
    by (simp add: Apply.simps ax_events_valid)
      (simp add: ax_e2_def ax_event_def ax_p1_def ax_p2_def checkEnvelope_def applyPayload_def DecodePayloadStrict_def
        applyCapabilitiesGranted_def wrap64_def max64_def ax_grant_valid Let_def ax_run_moved_valid)
  show "Apply (Some ax_p2) ax_e3 = Inr ax_p3"
    by (simp add: Apply.simps ax_events_valid)
      (simp add: ax_e3_def ax_event_def ax_p2_def ax_p3_def checkEnvelope_def applyPayload_def DecodePayloadStrict_def
        applyStateChanged_def ValidateTransition_def CanTransition_def requiresReason_def wrap64_def max64_def Let_def ax_run_moved_valid)
qed

lemma ax_prepared_run: "prepareRun ax_CR ax_contract ax_run ex_actor 1500 = Inr (ax_p3, [ax_grant], [ax_e1, ax_e2, ax_e3])"
proof -
  have c: "rc_Hash16 ax_CR = ax_hash" "rc_Encodable ax_CR = (\<lambda>_. True)" "ec_Digest ax_contract = sample_digest (CHR ''b'')"
    "pj_Run ax_p1 = ax_run" by (simp_all add: ax_CR_def ax_contract_def ax_p1_def)
  let ?e2 = "ax_event 2 EventCapabilitiesGranted capabilityServicePrincipal
     (CapabilitiesGranted \<lparr>gp_ContractDigest = sample_digest (CHR ''b''), gp_Grants = [ax_grant]\<rparr>)
     '''' (sample_digest (CHR ''1'')) (sample_digest (CHR ''2''))"
  have n: "Next (\<lambda>_. True) (rc_Digest ax_CR) ax_hash ax_p1 EventCapabilitiesGranted capabilityServicePrincipal 1500
      (CapabilitiesGranted \<lparr>gp_ContractDigest = sample_digest (CHR ''b''), gp_Grants = [ax_grant]\<rparr>) = Some ?e2"
    "Next (\<lambda>_. True) (rc_Digest ax_CR) ax_hash ax_p2 EventRunStateChanged capabilityServicePrincipal 1500
      (RunStateChanged \<lparr>sc_From = RunCreated, sc_To = RunAdmitted, sc_Reason = ''''\<rparr>) = Some ax_e3"
    by (simp_all add: Next_def ax_p1_def ax_p2_def ax_e3_def ax_event_def ax_CR_def ComputeEventDigest_def wrap64_def max64_def Let_def)
  have d: "ComputeEventDigest (rc_Digest ax_CR) (?e2\<lparr>ev_PolicyDecisionID := ax_id ''decision''\<rparr>) = Some (sample_digest (CHR ''2''))"
    "?e2\<lparr>ev_PolicyDecisionID := ax_id ''decision'', ev_Digest := sample_digest (CHR ''2'')\<rparr> = ax_e2"
    by (simp_all add: ax_CR_def ComputeEventDigest_def ax_event_def ax_e2_def)
  show ?thesis
    by (simp add: prepareRun_def ax_created c ax_compiled n d ax_applied Let_def)
qed

section \<open>The transaction\<close>

definition ax_tx :: AgentTransaction where
  "ax_tx = draftTransaction ''team'' ax_request ''run:1'' ax_task ax_contract 1500"

definition ax_te :: TransactionEvent where
  "ax_te = \<lparr>te_Version = ''gatemole.transaction_event.v0'', te_ID = EventID ax_H ''tx:1'' 1, te_TransactionID = ''tx:1'',
     te_Sequence = 1, te_Type = EventTransactionCreated, te_Actor = ex_actor, te_OccurredAt = 1500,
     te_Payload = TransactionCreatedPayload ax_tx, te_Artifacts = [], te_PreviousDigest = '''', te_Digest = sample_digest (CHR ''7'')\<rparr>"

definition ax_q :: ProjectionTx where
  "ax_q = \<lparr>tj_Transaction = ax_tx, tj_Executions = [], tj_Effects = [], tj_Verifications = [],
     tj_SupersededVerifications = [], tj_CommitPlan = None, tj_ApprovalPackage = None,
     tj_ApprovalDigests = [], tj_SupersededAuthorities = [], tj_SupersededAttempts = [],
     tj_LastEventDigest = sample_digest (CHR ''7'')\<rparr>"

lemma ax_H_sel [simp]: "hs_Bytes ax_H x = sample_digest (CHR ''1'')" "hs_Task ax_H t = Some (sample_digest (CHR ''2''))"
  "hs_Event ax_H e = Some (sample_digest (CHR ''7''))"
  by (simp_all add: ax_H_def)

lemma ax_task_valid: "AgentTask_Validate ax_H ax_task = None"
  by (simp add: AgentTask_Validate_def ax_task_def ax_request_def Let_def validate_simps example_simps MaxAgentTaskIntentBytes_def
      ComputeAgentTaskIntentDigest_def ComputeAgentTaskDigest_def)

lemma ax_task_made: "NewAgentTask ax_H (ax_id ''task'') ''tx:1'' ''team'' ''run:1'' ''repair'' (rq_AgentProfile ax_request) 1500 = Inr ax_task"
proof -
  have "\<lparr>tk_Version = ''gatemole.agent_task.v0'', tk_ID = ax_id ''task'', tk_TransactionID = ''tx:1'', tk_Namespace = ''team'',
    tk_RunID = ''run:1'', tk_Intent = ''repair'', tk_IntentDigest = sample_digest (CHR ''1''), tk_AgentProfile = rq_AgentProfile ax_request,
    tk_CreatedAt = 1500, tk_Digest = sample_digest (CHR ''2'')\<rparr> = ax_task" by (simp add: ax_task_def)
  then show ?thesis
    by (simp add: NewAgentTask_def Let_def ComputeAgentTaskIntentDigest_def ComputeAgentTaskDigest_def ax_task_valid)
qed

lemma ax_runtime_valid [example_simps]: "IsRuntimeID ax_runtime" "IsEnforcementProfile EnforcementProfileProduction"
  by code_simp+

lemma ax_task_sel [simp]: "tk_ID ax_task = ax_id ''task''" "tk_IntentDigest ax_task = sample_digest (CHR ''1'')"
  "tk_Namespace ax_task = ''team''" "tk_TransactionID ax_task = ''tx:1''" "tk_CreatedAt ax_task = 1500" "tk_RunID ax_task = ''run:1''"
  "tk_Digest ax_task = sample_digest (CHR ''2'')" "tk_AgentProfile ax_task = rq_AgentProfile ax_request"
  by (simp_all add: ax_task_def)

lemma ax_runtime_ne [simp]: "ax_runtime \<noteq> ''''" "EnforcementProfileProduction \<noteq> ''''"
  by (simp_all add: ax_runtime_def EnforcementProfileProduction_def)

lemma ax_tx_valid: "AgentTransaction_Validate ax_H ax_tx = None"
  by (simp add: AgentTransaction_Validate_def ax_tx_def draftTransaction_def Let_def)
    (simp add: ax_request_def ax_contract_def ax_task_valid validate_simps example_simps
      validateStageBindings_def validateTaskBinding_def validateAdmissionBinding_def optionalDigest_def
      transactionStateRequiresReason_def transactionStateRequiresFrozenEffects_def transactionStateRequiresCommitPlan_def
      valid_principal_def on_some_def)

lemma ax_tx_sel [simp]: "tx_ID ax_tx = ''tx:1''" "tx_Namespace ax_tx = ''team''" "tx_CreatedAt ax_tx = 1500" "tx_UpdatedAt ax_tx = 1500"
  "tx_State ax_tx = TransactionCreated" "tx_Attempt ax_tx = 1" "tx_EventSequence ax_tx = 1" "tx_EffectIDs ax_tx = []"
  "tx_StageBindings ax_tx = []" "tx_VerificationResultIDs ax_tx = []" "tx_OutstandingApprovalIDs ax_tx = []"
  "tx_ApprovalPackageDigest ax_tx = ''''" "tx_CommitPlanDigest ax_tx = ''''" "tx_EffectSetDigest ax_tx = ''''"
  "tx_StagedStateDigest ax_tx = ''''" "tx_Task ax_tx = Some ax_task" "tx_AgentRunIDs ax_tx = [''run:1'']"
  "tx_IntentDigest ax_tx = sample_digest (CHR ''1'')"
  by (simp_all add: ax_tx_def draftTransaction_def ax_request_def)

lemma ax_created_tx: "CreationEvent (nh_TxEncodable ax_N) ax_H ax_tx ex_actor = Some ax_te" "ApplyTx ax_H None ax_te = Inr ax_q"
proof -
  have id: "IsIdentifier (EventID ax_H ''tx:1'' 1)" by code_simp
  show "CreationEvent (nh_TxEncodable ax_N) ax_H ax_tx ex_actor = Some ax_te"
    by (simp add: CreationEvent_def ax_N_def ax_te_def ComputeTransactionEventDigest_def)
  have t: "IsIdentifier (TransactionEventType_name EventTransactionCreated)" by code_simp
  have "TransactionEvent_Validate ax_te = None"
    by (simp add: TransactionEvent_Validate_def ax_te_def Let_def validate_simps example_simps id t del: TransactionEventType_name.simps)
  moreover have "VerifyTransactionEventDigest ax_H ax_te = Some True"
    by (simp add: VerifyTransactionEventDigest_True ax_te_def)
  ultimately have "checkEventTx ax_H ax_te = None" by (simp add: checkEventTx_None)
  then show "ApplyTx ax_H None ax_te = Inr ax_q"
    by (simp add: ApplyTx.simps applyCreationTx_def decodePayload_def ax_te_def ax_tx_valid ax_q_def)
qed

lemma ax_q_valid: "ProjectionTx_Validate ax_H ax_q = None"
  by (simp add: ex_projection_eval) (simp add: ax_q_def example_simps ax_tx_valid)

section \<open>The prepared admission\<close>

definition ax_answer :: AdmissionResult where
  "ax_answer = \<lparr>an_Version = ResultVersion, an_RuntimeID = ax_runtime, an_EnforcementProfile = EnforcementProfileProduction,
     an_IdempotencyKey = ''key:1'', an_RequestDigest = sample_digest (CHR ''c''), an_Task = ax_task, an_Contract = ax_contract,
     an_Run = ax_p3, an_Grants = [ax_grant], an_Transaction = ax_q\<rparr>"

definition ax_prepared :: Prepared where
  "ax_prepared = \<lparr>pp_Namespace = ''team'', pp_IdempotencyKey = ''key:1'', pp_RequestDigest = sample_digest (CHR ''c''),
     pp_Result = ax_answer, pp_RunEvents = [ax_e1, ax_e2, ax_e3], pp_TransactionEvent = ax_te\<rparr>"

lemma ax_p3_sel [simp]: "ar_State (pj_Run ax_p3) = RunAdmitted" "ar_EventSequence (pj_Run ax_p3) = 3" "ar_ID (pj_Run ax_p3) = ''run:1''"
  "ar_Namespace (pj_Run ax_p3) = ''team''" "ar_CapabilityIDs (pj_Run ax_p3) = [ax_id ''cap'']"
  "ar_ContractDigest (pj_Run ax_p3) = sample_digest (CHR ''b'')" "AgentRun_Validate (pj_Run ax_p3) = None"
  by (simp_all add: ax_p3_def ax_run_moved_valid)

lemma ax_contract_sel [simp]: "ec_Digest ax_contract = sample_digest (CHR ''b'')" "ec_ID ax_contract = ax_id ''contract''"
  by (simp_all add: ax_contract_def)

lemma ax_q_sel [simp]: "tj_Transaction ax_q = ax_tx"
  by (simp add: ax_q_def)

lemma ax_bound: "resultBound ''team'' ax_answer"
  by (simp add: resultBound_def ax_answer_def) (simp add: ax_tx_def draftTransaction_def ax_request_def)

lemma ax_answer_valid: "Result_Validate ax_N ax_H ''team'' ax_answer = None"
proof -
  have "checkResultVersion ax_answer = None"
    by (simp add: checkResultVersion_def ax_answer_def example_simps ResultVersion_def LegacyResultVersion_def)
  moreover have "ComputeExecutionContractDigest ax_N ax_contract = Some (sample_digest (CHR ''b''))"
    by (simp add: ComputeExecutionContractDigest_def ax_N_def)
  moreover note ax_bound
  ultimately show ?thesis
    by (simp add: Result_Validate_def Let_def ax_answer_def example_simps ax_task_valid ax_contract_valid ax_q_valid ax_grant_valid)
qed

lemma ax_replays: "Replay [ax_e1, ax_e2, ax_e3] = Inr ax_p3" "ReplayTx ax_H [ax_te] = Inr ax_q"
  by (simp_all add: Replay_def ReplayTx_def ax_created ax_applied ax_created_tx)

lemma ax_event_digests: "VerifyEventDigest (rc_Digest ax_CR) ax_e1 = Some True" "VerifyEventDigest (rc_Digest ax_CR) ax_e2 = Some True"
  "VerifyEventDigest (rc_Digest ax_CR) ax_e3 = Some True"
  by (simp_all add: VerifyEventDigest_True ax_CR_def ax_e1_def ax_e2_def ax_e3_def ax_event_def)

lemma ax_grants: "\<exists>uses. GrantsFromEvents [ax_e1, ax_e2, ax_e3] = Inr ([ax_grant], uses)"
  by (simp add: GrantsFromEvents_def ax_e1_def ax_e2_def ax_e3_def ax_event_def DecodePayloadStrict_def ax_grant_valid)

lemma ax_prepared_valid: "Prepared_Validate ax_N ax_H ax_CR ax_prepared = None"
proof -
  have ty: "ev_Type ax_e1 = EventRunCreated" "ev_Type ax_e2 = EventCapabilitiesGranted" "ev_Type ax_e3 = EventRunStateChanged"
    by (simp_all add: ax_e1_def ax_e2_def ax_e3_def ax_event_def)
  obtain uses where "GrantsFromEvents [ax_e1, ax_e2, ax_e3] = Inr ([ax_grant], uses)" using ax_grants by blast
  moreover have "an_IdempotencyKey ax_answer = ''key:1''" "an_RequestDigest ax_answer = sample_digest (CHR ''c'')"
    "an_Run ax_answer = ax_p3" "an_Grants ax_answer = [ax_grant]" "an_Transaction ax_answer = ax_q" by (simp_all add: ax_answer_def)
  ultimately show ?thesis
    by (simp add: Prepared_Validate_def Let_def check_def ax_prepared_def ax_answer_valid ax_event_digests ty ax_replays kernel_res_def example_simps)
qed

theorem ax_prepare: "Prepare ax_N ax_H ax_CR ''team'' ax_request 1500 = Inr ax_prepared"
proof -
  have sel: "rq_TransactionID ax_request = ''tx:1''" "rq_RunID ax_request = ''run:1''" "rq_Intent ax_request = ''repair''"
    "rq_Actor ax_request = ex_actor" "rq_IdempotencyKey ax_request = ''key:1''" "rq_ExpectedRuntimeID ax_request = ax_runtime"
    "rq_ExpectedEnforcementProfile ax_request = EnforcementProfileProduction" "rq_Version ax_request = RequestVersion"
    "rc_Hash16 ax_CR = ax_hash" by (simp_all add: ax_request_def ax_CR_def)
  have d: "ComputeRequestDigest ax_N ''team'' ax_request = Inr (sample_digest (CHR ''c''))"
    by (simp add: ComputeRequestDigest_def ax_N_def sel Let_def example_simps)
  have dl: "admittedDeadline ax_request 1500 = Inr (Some 3600000001500)"
    by (simp add: admittedDeadline_def ax_request_def ax_spec_def ax_limits_def maxDurationSeconds_def max64_def Let_def)
  have c: "ComputeExecutionContractDigest ax_N (draftContract (ax_id ''contract'') ax_request (Some 3600000001500)) =
      Some (sample_digest (CHR ''b''))"
    "(draftContract (ax_id ''contract'') ax_request (Some 3600000001500))\<lparr>ec_Digest := sample_digest (CHR ''b'')\<rparr> = ax_contract"
    by (simp_all add: ComputeExecutionContractDigest_def ax_N_def draftContract_def ax_contract_def ax_request_def ax_spec_def Let_def)
  have v: "RequestVersion \<noteq> LegacyRequestVersion" by (simp add: RequestVersion_def LegacyRequestVersion_def)
  show ?thesis
    by (simp add: Prepare_def Let_def ax_check sel d dl c ax_contract_valid ax_task_made ax_prepared_run ax_run_valid ax_created_tx
        kernel_res_def other_res_def v flip: ax_run_def ax_tx_def ax_answer_def ax_prepared_def)
      (simp add: ax_prepared_valid)
qed

section \<open>The admission\<close>

text \<open>A new ledger, bound to its Runtime.\<close>

definition ax_db :: "ax_json DB" where
  "ax_db = bound_to empty_db ax_runtime EnforcementProfileProduction"

lemma ax_bound_ledger: "BindRuntimeMetadata no_faults empty_db ax_runtime EnforcementProfileProduction = (ax_db, Inr ())"
  by (simp add: BindRuntimeMetadata_def Let_def validateRuntimeMetadataInput_def example_simps empty_db_def refuseStoredRuntime_def
      refuseStoredProfile_def refuseRelabelling_def ledgerHasEntries_def db_nonempty_def insertKernelMetadata_def knownProfile_def
      readKernelMetadata_def requireOneMetadataRow_def metadata_keys metadata_keys(1) [symmetric] ax_db_def bound_to_def no_faults_simps(1) [of BeginStep] no_faults_simps(1) [of CommitStep]
      no_faults_simps(1) [of "StatementStep n" for n]
      no_faults_simps(1) [of "Sub n s" for n s] del: no_faults_simps(1))

lemma ax_db_reachable: "kernel_reachable ax_H ax_CR ax_CT ax_db"
  by (rule reachable_step [OF reachable_empty kernel_step.bind_runtime [OF ax_bound_ledger]])

lemma ax_codec_sel [simp]: "rc_EncRun ax_CR x = Some (ARun x)" "rc_EncEvent ax_CR e = Some (AEvent e)"
  "rc_DecRun ax_CR = un_ARun" "rc_DecEvent ax_CR = un_AEvent" "tc_EncProjection ax_CT q = Some (AProjection q)"
  "tc_EncEvent ax_CT f = Some (ATxEvent f)" "tc_DecProjection ax_CT = un_AProjection" "tc_DecEvent ax_CT = un_ATxEvent"
  "mc_Encode ax_M v = Some (AValue v)" "mc_DecResult ax_M = un_AResult" "mc_DecTask ax_M = un_ATask" "mc_DecContract ax_M = un_AContract"
  by (simp_all add: ax_CR_def ax_CT_def ax_M_def)

lemma ax_roundtrips [simp]: "run_roundtrip ax_CR e p" "tx_roundtrip ax_CT fs q" "admission_roundtrip ax_CR ax_CT ax_M pr" "comparable ax_M r"
  by (simp_all add: run_roundtrip_def tx_roundtrip_def admission_roundtrip_def comparable_def Let_def)

lemma ax_encoded: "\<exists>x. prepareAdmission ax_N ax_H ax_CR ax_CT ax_M ax_prepared = Inr x"
proof -
  have "\<exists>rows. encode_events ax_CR op es = Inr rows" for op es by (induction es) auto
  then show ?thesis by (simp add: prepareAdmission_def Let_def ax_prepared_valid)
qed

lemma ax_free: "free_for ax_db ax_prepared data"
proof -
  have "event_ID ax_hash ''run:1'' 1 \<noteq> event_ID ax_hash ''run:1'' 2" "event_ID ax_hash ''run:1'' 1 \<noteq> event_ID ax_hash ''run:1'' 3"
    "event_ID ax_hash ''run:1'' 2 \<noteq> event_ID ax_hash ''run:1'' 3" by code_simp+
  then show ?thesis
    by (simp add: free_for_def ax_db_def bound_to_def empty_db_def ax_prepared_def ax_e1_def ax_e2_def ax_e3_def ax_event_def Let_def)
qed

lemma ax_prepared_sel [simp]: "pp_Result ax_prepared = ax_answer" "pp_Namespace ax_prepared = ''team''"
  "pp_IdempotencyKey ax_prepared = ''key:1''" "pp_RequestDigest ax_prepared = sample_digest (CHR ''c'')"
  "an_RuntimeID ax_answer = ax_runtime" "an_EnforcementProfile ax_answer = EnforcementProfileProduction"
  by (simp_all add: ax_prepared_def ax_answer_def)

lemma ax_serves: "requireStoredRuntimeBinding no_faults ax_db ax_runtime EnforcementProfileProduction legacy op res = None"
  by (rule bound_runtime_accepted) (simp_all add: ax_db_def bound_to_def metadata_keys metadata_keys(1) [symmetric] example_simps)

theorem ax_admitted: "\<exists>db'. AdmitTask ax_N ax_H ax_CR ax_CT ax_M (\<lambda>_. False) no_faults ax_db ax_prepared = (db', Inr (ax_answer, True))"
proof -
  from ax_encoded obtain x where "prepareAdmission ax_N ax_H ax_CR ax_CT ax_M ax_prepared = Inr x" by blast
  from AdmitTask_free [OF reachable_ledgers_ok [OF ax_db_reachable] this ax_free] ax_serves show ?thesis by (simp add: example_simps)
qed

end
