(* ===== verification/Admission_Properties.thy ===== *)
theory Admission_Properties
  imports Admission_Examples
begin

text \<open>
  The properties of task admission: what a prepared admission grants, what admitting it does to the
  database, and that an admission, once made, is what every later request under its key gets back.
\<close>

section \<open>What is granted\<close>

text \<open>C7. A request is turned into exactly the authority it asks for: the contract names the requested owner, goal, risk,
  resources, budgets and limits, with a deadline no later than requested and no later than the wall time
  allows; the run is admitted under that contract, has used nothing and holds one capability per resource, with
  its selector, operations, conditions and use limit, not delegable, expiring within the default lifetime and before
  the deadline; the transaction is for the same task, sponsor and run, and nothing is staged or approved in it.\<close>

theorem prepared_authority_is_requested:
  assumes "Prepare N H C ns request now = Inr p"
  shows "carries_requested_authority ns request now (pp_Result p)"
  by (rule Prepare_authority(1) [OF assms])

theorem prepared_authority_is_requested_witness:
  "carries_requested_authority ''team'' ax_request 1500 ax_answer"
  using prepared_authority_is_requested [OF ax_prepare] by simp

text \<open>A client accepts a response of the daemon only if it carries exactly the authority of the request the client sent,
  as of the time of the task it names, and comes from the Runtime and enforcement profile the request expects.\<close>

theorem accepted_response_is_requested:
  assumes "ValidateAgainstRequest N H C ns request result = None"
  shows "carries_requested_authority ns request (tk_CreatedAt (an_Task result)) result \<and>
    an_RuntimeID result = rq_ExpectedRuntimeID request \<and> an_EnforcementProfile result = rq_ExpectedEnforcementProfile request"
  using accepted_authority [OF assms] by (simp add: carries_requested_authority_def Let_def)

theorem accepted_response_is_requested_witness:
  "carries_requested_authority ''team'' ax_request 1500 ax_answer \<and> an_RuntimeID ax_answer = ax_runtime"
proof -
  have "ValidateAgainstRequest ax_N ax_H ax_CR ''team'' ax_request ax_answer = None" using prepared_accepted [OF ax_prepare] by simp
  from accepted_response_is_requested [OF this] show ?thesis by (simp add: ax_answer_def ax_request_def)
qed

text \<open>What preparation returns for a request, the client's check of that request accepts.\<close>

theorem prepared_response_is_accepted:
  assumes "Prepare N H C ns request now = Inr p"
  shows "ValidateAgainstRequest N H C ns request (pp_Result p) = None"
  by (rule prepared_accepted [OF assms])

theorem prepared_response_is_accepted_witness:
  "ValidateAgainstRequest ax_N ax_H ax_CR ''team'' ax_request ax_answer = None"
  using prepared_response_is_accepted [OF ax_prepare] by simp

section \<open>What admission does to the database\<close>

text \<open>The rows of one admission, every column of them, over the tables of \<open>db\<close>: the result \<open>r\<close> with its task, contract, run and
  transaction under the namespace, and the events with their encodings. The contract may have been there.\<close>

definition rows_of_admission :: "'j RunCodec \<Rightarrow> 'j TxCodec \<Rightarrow> 'j AdmissionCodec \<Rightarrow> Prepared \<Rightarrow> AdmissionResult \<Rightarrow> 'j DB \<Rightarrow> 'j DB \<Rightarrow> bool" where
  "rows_of_admission CR CT M p r db db' \<longleftrightarrow> (let ns = pp_Namespace p; task = an_Task r; contract = an_Contract r;
       run = pj_Run (an_Run r); tx = tj_Transaction (an_Transaction r); created = rfc3339nano (tk_CreatedAt task) in
     db_metadata db' = db_metadata db \<and>
     (\<exists>j. mc_Encode M (ValTask task) = Some j \<and> db_tasks db' = db_tasks db @
        [\<lparr>kr_namespace = ns, kr_task_id = tk_ID task, kr_task_digest = tk_Digest task, kr_transaction_id = tx_ID tx,
          kr_run_id = ar_ID run, kr_task_json = j, kr_created_at = created\<rparr>]) \<and>
     (\<exists>j. mc_Encode M (ValResult r) = Some j \<and> db_admissions db' = db_admissions db @
        [\<lparr>mr_namespace = ns, mr_idempotency_key = an_IdempotencyKey r, mr_request_digest = an_RequestDigest r,
          mr_task_id = tk_ID task, mr_task_digest = tk_Digest task, mr_contract_digest = ec_Digest contract,
          mr_run_id = ar_ID run, mr_transaction_id = tx_ID tx, mr_result_json = j, mr_created_at = created\<rparr>]) \<and>
     (\<exists>j. mc_Encode M (ValContract contract) = Some j \<and>
        (if \<exists>c\<in>set (db_contracts db). cr_namespace c = ns \<and> cr_contract_digest c = ec_Digest contract
         then db_contracts db' = db_contracts db \<and> (\<exists>c\<in>set (db_contracts db). cr_namespace c = ns \<and>
           cr_contract_digest c = ec_Digest contract \<and> cr_contract_id c = ec_ID contract \<and> cr_contract_json c = j)
         else db_contracts db' = db_contracts db @
           [\<lparr>cr_namespace = ns, cr_contract_digest = ec_Digest contract, cr_contract_id = ec_ID contract, cr_contract_json = j,
             cr_created_at = created\<rparr>])) \<and>
     (\<exists>j. rc_EncRun CR run = Some j \<and> db_runs db' = db_runs db @
        [\<lparr>hr_namespace = ns, hr_id = ar_ID run, hr_event_sequence = 3, hr_last_event_digest = pj_LastEventDigest (an_Run r),
          hr_json = j, hr_created_at = rfc3339nano (ar_CreatedAt run), hr_updated_at = rfc3339nano (ar_UpdatedAt run)\<rparr>]) \<and>
     (\<exists>j. tc_EncProjection CT (an_Transaction r) = Some j \<and> db_transactions db' = db_transactions db @
        [\<lparr>hr_namespace = ns, hr_id = tx_ID tx, hr_event_sequence = 1, hr_last_event_digest = tj_LastEventDigest (an_Transaction r),
          hr_json = j, hr_created_at = rfc3339nano (tx_CreatedAt tx), hr_updated_at = rfc3339nano (tx_UpdatedAt tx)\<rparr>]) \<and>
     (\<exists>js. map (rc_EncEvent CR) (pp_RunEvents p) = map Some js \<and> db_events db' = db_events db @ map2 (\<lambda>e j.
        \<lparr>er_namespace = ns, er_id = ev_RunID e, er_sequence = ev_Sequence e, er_event_id = ev_ID e,
         er_event_type = RunEventType_name (ev_Type e), er_event_digest = ev_Digest e, er_json = j,
         er_occurred_at = rfc3339nano (ev_OccurredAt e)\<rparr>) (pp_RunEvents p) js) \<and>
     (let e = pp_TransactionEvent p in \<exists>j. tc_EncEvent CT e = Some j \<and> db_transaction_events db' = db_transaction_events db @
        [\<lparr>er_namespace = ns, er_id = te_TransactionID e, er_sequence = te_Sequence e, er_event_id = te_ID e,
          er_event_type = TransactionEventType_name (te_Type e), er_event_digest = te_Digest e, er_json = j,
          er_occurred_at = rfc3339nano (te_OccurredAt e)\<rparr>]))"

text \<open>The contract, which is the only row that may be found.\<close>

lemma ensureExecutionContract_rows:
  assumes "ensureExecutionContract D db p data = Inr tx"
  shows "if \<exists>c\<in>set (db_contracts db). cr_namespace c = pp_Namespace p \<and> cr_contract_digest c = ec_Digest (an_Contract (pp_Result p))
    then db_contracts tx = db_contracts db \<and> (\<exists>c\<in>set (db_contracts db). cr_namespace c = pp_Namespace p \<and>
      cr_contract_digest c = ec_Digest (an_Contract (pp_Result p)) \<and> cr_contract_id c = ec_ID (an_Contract (pp_Result p)) \<and>
      cr_contract_json c = data)
    else db_contracts tx = db_contracts db @ [\<lparr>cr_namespace = pp_Namespace p, cr_contract_digest = ec_Digest (an_Contract (pp_Result p)),
      cr_contract_id = ec_ID (an_Contract (pp_Result p)), cr_contract_json = data,
      cr_created_at = rfc3339nano (tk_CreatedAt (an_Task (pp_Result p)))\<rparr>]"
proof (cases "find (\<lambda>c. cr_namespace c = pp_Namespace p \<and> cr_contract_digest c = ec_Digest (an_Contract (pp_Result p))) (db_contracts db)")
  case None
  then have "\<not> (\<exists>c\<in>set (db_contracts db). cr_namespace c = pp_Namespace p \<and> cr_contract_digest c = ec_Digest (an_Contract (pp_Result p)))"
    by (auto simp: find_None_iff)
  with None assms show ?thesis
    by (auto simp: ensureExecutionContract_def Let_def insert_contract_def split: if_splits)
next
  case (Some c)
  then have "c \<in> set (db_contracts db)" "cr_namespace c = pp_Namespace p" "cr_contract_digest c = ec_Digest (an_Contract (pp_Result p))"
    by (auto simp: find_Some_iff)
  with Some assms show ?thesis by (auto simp: ensureExecutionContract_def Let_def)
qed

lemma insert_rows_appends: "insert_rows heads events rs = Some events' \<Longrightarrow> events' = events @ rs"
  by (induction rs arbitrary: events) (fastforce simp: insert_event_row_Some split: option.splits)+

lemma AdmitTask_all_rows:
  assumes "AdmitTask N H CR CT M hook D db p = (db', Inr (r, True))"
  shows "rows_of_admission CR CT M p r db db'"
proof -
  from assms obtain x where r: "r = pp_Result p" and x: "prepareAdmission N H CR CT M p = Inr x"
    and w: "writeAdmission hook D db p x = Inr db'" by (rule AdmitTask_created)
  note enc = prepareAdmission_Inr [OF x]
  note valid = Prepared_Validate_None [OF enc(1)]
  note bound = Result_Validate_None(6) [OF valid(1)]
  have names: "tk_TransactionID (an_Task r) = tx_ID (tj_Transaction (an_Transaction r))" "tk_RunID (an_Task r) = ar_ID (pj_Run (an_Run r))"
    "ar_EventSequence (pj_Run (an_Run r)) = 3" "tx_EventSequence (tj_Transaction (an_Transaction r)) = 1"
    "ar_Namespace (pj_Run (an_Run r)) = pp_Namespace p" "tx_Namespace (tj_Transaction (an_Transaction r)) = pp_Namespace p"
    using bound r by (simp_all add: resultBound_def Let_def)
  have "length (xa_RunEvents x) = length (pp_RunEvents p)" using enc(8) by (metis length_map)
  also have "\<dots> = 3" using arg_cong [OF valid(4), of length] by simp
  finally obtain tx where tx: "ensureExecutionContract (sub_driver D 2) db p (xa_Contract x) = Inr tx"
    and rows: "insert_task (db_tasks tx) (taskRow p (xa_Task x)) = Some (db_tasks db')"
      "insert_head (db_runs tx) (run_row_of (an_Run (pp_Result p)) (xa_Run x)) = Some (db_runs db')"
      "insert_rows (db_runs db') (db_events tx) (map (\<lambda>(e, j). event_row_of (pp_Namespace p) e j) (xa_RunEvents x)) =
        Some (db_events db')"
      "insert_head (db_transactions tx) (tx_row_of (an_Transaction (pp_Result p)) (xa_Transaction x)) = Some (db_transactions db')"
      "insert_event_row (db_transactions db') (db_transaction_events tx)
        (tx_event_row_of (pp_Namespace p) (pp_TransactionEvent p) (xa_TransactionEvent x)) = Some (db_transaction_events db')"
      "db_admissions db' = db_admissions db @ [admissionRow p (xa_Result x)]"
    and rest: "db_metadata db' = db_metadata tx" "db_contracts db' = db_contracts tx" by (rule writeAdmission_Inr [OF w])
  from tx obtain cs c where "tx = db\<lparr>db_contracts := db_contracts db @ cs\<rparr>" by (rule ensureExecutionContract_Inr)
  then have same: "db_metadata tx = db_metadata db" "db_tasks tx = db_tasks db" "db_runs tx = db_runs db" "db_events tx = db_events db"
    "db_transactions tx = db_transactions db" "db_transaction_events tx = db_transaction_events db" by simp_all
  have task: "db_tasks db' = db_tasks db @ [taskRow p (xa_Task x)]"
    using rows(1) same by (simp add: insert_task_def split: if_splits)
  have heads: "db_runs db' = db_runs db @ [run_row_of (an_Run r) (xa_Run x)]"
      "db_transactions db' = db_transactions db @ [tx_row_of (an_Transaction r) (xa_Transaction x)]"
    using rows(2,4) same r by (auto simp: insert_head_Some)
  have te: "db_transaction_events db' = db_transaction_events db @ [tx_event_row_of (pp_Namespace p) (pp_TransactionEvent p) (xa_TransactionEvent x)]"
    using rows(5) same by (auto simp: insert_event_row_Some)
  have ev: "db_events db' = db_events db @ map (\<lambda>(e, j). event_row_of (pp_Namespace p) e j) (xa_RunEvents x)"
    using insert_rows_appends [OF rows(3)] same by simp
  have js: "map (rc_EncEvent CR) (pp_RunEvents p) = map Some (map snd (xa_RunEvents x))"
    "zip (pp_RunEvents p) (map snd (xa_RunEvents x)) = xa_RunEvents x"
    unfolding enc(8) [symmetric] using enc(9) by (auto simp: zip_map_fst_snd)
  have trow: "taskRow p j = \<lparr>kr_namespace = pp_Namespace p, kr_task_id = tk_ID (an_Task r), kr_task_digest = tk_Digest (an_Task r),
      kr_transaction_id = tx_ID (tj_Transaction (an_Transaction r)), kr_run_id = ar_ID (pj_Run (an_Run r)), kr_task_json = j,
      kr_created_at = rfc3339nano (tk_CreatedAt (an_Task r))\<rparr>" for j
    using names r by (simp add: taskRow_def Let_def)
  have arow: "admissionRow p j = \<lparr>mr_namespace = pp_Namespace p, mr_idempotency_key = an_IdempotencyKey r,
      mr_request_digest = an_RequestDigest r, mr_task_id = tk_ID (an_Task r), mr_task_digest = tk_Digest (an_Task r),
      mr_contract_digest = ec_Digest (an_Contract r), mr_run_id = ar_ID (pj_Run (an_Run r)),
      mr_transaction_id = tx_ID (tj_Transaction (an_Transaction r)), mr_result_json = j,
      mr_created_at = rfc3339nano (tk_CreatedAt (an_Task r))\<rparr>" for j
    using valid(2,3) r by (simp add: admissionRow_def Let_def)
  note contract = ensureExecutionContract_rows [OF tx, folded r, folded rest(2)]
  note enc' = enc(2-7) [folded r]
  show ?thesis
    unfolding rows_of_admission_def Let_def
  proof (intro conjI)
    show "db_metadata db' = db_metadata db" using rest same by simp
    show "\<exists>js. map (rc_EncEvent CR) (pp_RunEvents p) = map Some js \<and> db_events db' = db_events db @ map2 (\<lambda>e j.
        \<lparr>er_namespace = pp_Namespace p, er_id = ev_RunID e, er_sequence = ev_Sequence e, er_event_id = ev_ID e,
         er_event_type = RunEventType_name (ev_Type e), er_event_digest = ev_Digest e, er_json = j,
         er_occurred_at = rfc3339nano (ev_OccurredAt e)\<rparr>) (pp_RunEvents p) js"
      using ev by (intro exI [of _ "map snd (xa_RunEvents x)"]) (simp add: js event_row_of_def)
  qed (use contract enc' in \<open>auto simp: task trow rows(6) arow heads te run_row_of_def tx_row_of_def tx_event_row_of_def names\<close>)
qed

text \<open>C13. Admission is all or nothing: an admission that fails, at whatever statement or fault point, or finds the task
  already admitted, leaves the database as it was; one that creates the task adds exactly the rows of the prepared admission, each
  with every column: one row for the task, one for the admission, one for the contract unless that contract is there
  already, one each for the run and the transaction, and one for each event. When what is encoded decodes, these are exactly two
  histories under new identifiers, the three events of the run and the event of the transaction, which replay to the
  run and the transaction that are returned.\<close>

theorem admission_is_atomic:
  assumes "kernel_reachable H CR CT db" and "AdmitTask N H CR CT M hook D db p = (db', res)"
  shows "case res of Inl err \<Rightarrow> db' = db | Inr (r, created) \<Rightarrow>
    if \<not> created then db' = db
    else r = pp_Result p \<and> pp_IdempotencyKey p = an_IdempotencyKey r \<and> pp_RequestDigest p = an_RequestDigest r \<and>
      rows_of_admission CR CT M p r db db' \<and>
      length (pp_RunEvents p) = 3 \<and> Replay (pp_RunEvents p) = Inr (an_Run r) \<and>
      ReplayTx H [pp_TransactionEvent p] = Inr (an_Transaction r) \<and>
      (admission_roundtrip CR CT M p \<longrightarrow>
      (let run = (pp_Namespace p, ar_ID (pj_Run (an_Run r))); id = (pp_Namespace p, tx_ID (tj_Transaction (an_Transaction r))) in
       run_histories CR db run = None \<and> run_histories CR db' = (run_histories CR db)(run \<mapsto> pp_RunEvents p) \<and>
       tx_histories CT db id = None \<and> tx_histories CT db' = (tx_histories CT db)(id \<mapsto> [pp_TransactionEvent p])))"
proof (cases res)
  case (Inl err)
  with assms(2) show ?thesis by (auto dest: AdmitTask_failed)
next
  case (Inr y)
  obtain r created where y: "y = (r, created)" by (cases y)
  note a = assms(2) [unfolded Inr y]
  from reachable_ok [OF assms(1)] have ok: "run_store_ok CR db" "tx_store_ok H CT db" by simp_all
  show ?thesis
  proof (cases created)
    case False
    with a have "db' = db" by (auto dest: AdmitTask_replayed(1))
    with False Inr y show ?thesis by simp
  next
    case True
    with a have t: "AdmitTask N H CR CT M hook D db p = (db', Inr (r, True))" by simp
    then obtain x where r: "r = pp_Result p" and "prepareAdmission N H CR CT M p = Inr x" by (auto elim: AdmitTask_created)
    note valid = Prepared_Validate_None [OF prepareAdmission_Inr(1) [OF this(2)]]
    have "length (pp_RunEvents p) = 3" using arg_cong [OF valid(4), of length] by simp
    with True Inr y r valid(2,3,5,6) AdmitTask_all_rows [OF t] AdmitTask_run_ledger(2,3) [OF ok(1) t] AdmitTask_tx_ledger(2,3) [OF ok(2) t]
    show ?thesis by (simp add: Let_def)
  qed
qed

theorem admission_is_atomic_witness:
  "\<exists>db'. AdmitTask ax_N ax_H ax_CR ax_CT ax_M (\<lambda>_. False) no_faults ax_db ax_prepared = (db', Inr (ax_answer, True)) \<and>
     rows_of_admission ax_CR ax_CT ax_M ax_prepared ax_answer ax_db db' \<and>
     run_histories ax_CR db' (''team'', ''run:1'') = Some [ax_e1, ax_e2, ax_e3]"
proof -
  from ax_admitted obtain db' where a: "AdmitTask ax_N ax_H ax_CR ax_CT ax_M (\<lambda>_. False) no_faults ax_db ax_prepared = (db', Inr (ax_answer, True))"
    by blast
  from admission_is_atomic [OF ax_db_reachable a] a show ?thesis by (auto simp: Let_def ax_answer_def ax_prepared_def)
qed

text \<open>Admission succeeds when it can: for a valid preparation that can be encoded, addressed to the Runtime the ledger is
  bound to, whose identifiers are free, a database without faults admits the task.\<close>

theorem free_admission_succeeds:
  assumes "kernel_reachable H CR CT db" and "prepareAdmission N H CR CT M p = Inr x" and "free_for db p (xa_Contract x)"
    and "IsIdentifier (pp_IdempotencyKey p)"
    and "requireStoredRuntimeBinding no_faults db (an_RuntimeID (pp_Result p)) (an_EnforcementProfile (pp_Result p)) False
      admitTaskOperation (pp_IdempotencyKey p) = None"
  shows "\<exists>db'. AdmitTask N H CR CT M (\<lambda>_. False) no_faults db p = (db', Inr (pp_Result p, True))"
  using AdmitTask_free [OF reachable_ledgers_ok [OF assms(1)] assms(2-5)] .

theorem free_admission_succeeds_witness:
  "\<exists>db'. AdmitTask ax_N ax_H ax_CR ax_CT ax_M (\<lambda>_. False) no_faults ax_db ax_prepared = (db', Inr (ax_answer, True))"
proof -
  from ax_encoded obtain x where "prepareAdmission ax_N ax_H ax_CR ax_CT ax_M ax_prepared = Inr x" by blast
  from free_admission_succeeds [OF ax_db_reachable this ax_free] ax_serves show ?thesis by (simp add: example_simps)
qed

section \<open>What lasts\<close>

text \<open>C6. An admission is made once: after a task was admitted for a Runtime, whatever the kernel does to the ledger, with
  whatever faults, rebinding and reopening included, its admission reads back as it was returned, and a further
  request under the same key and for the same Runtime gets that first result if its digest is the same and an
  idempotency conflict if not, and in both cases changes nothing.\<close>

theorem admission_is_idempotent:
  assumes "kernel_reachable H CR CT db" and a: "AdmitTask N H CR CT M hook D db p = (db', Inr (r, True))"
    and "admission_roundtrip CR CT M p" and "comparable M r" and "an_RuntimeID r \<noteq> ''''" and "kernel_steps H CR CT db' db''"
    and q: "pp_Namespace q = pp_Namespace p" "pp_IdempotencyKey q = pp_IdempotencyKey p" "IsSHA256Digest (pp_RequestDigest q)"
      "an_RuntimeID (pp_Result q) = an_RuntimeID r" "an_EnforcementProfile (pp_Result q) = an_EnforcementProfile r"
  shows "GetTaskAdmission N H CR CT M no_faults db'' (pp_Namespace p) (pp_IdempotencyKey p) = Inr (r, pp_RequestDigest p) \<and>
    AdmitTask N H CR CT M hook' no_faults db'' q =
      (db'', if pp_RequestDigest q = pp_RequestDigest p then Inr (r, False)
             else Inl (storeError ErrorIdempotencyConflict admitTaskOperation (pp_IdempotencyKey p)))"
proof -
  note lasts = admission_lasts [OF reachable_ledgers_ok [OF assms(1)] a assms(3-6)]
  from a have "validateAdmissionKey (pp_Namespace p) (pp_IdempotencyKey p) (pp_RequestDigest p) = None" by (rule AdmitTask_created)
  then have key: "validateAdmissionLookupKey (pp_Namespace p) (pp_IdempotencyKey p) = None" by (simp add: validateAdmissionKey_def)
  then have "validateAdmissionKey (pp_Namespace p) (pp_IdempotencyKey p) (pp_RequestDigest q) = None"
    using q(3) by (simp add: validateAdmissionKey_def)
  with key q lasts show ?thesis
    by (auto simp: GetTaskAdmission_def AdmitTask_def Let_def settle_def no_faults_simps(1) [of BeginStep] simp del: no_faults_simps(1))
qed

theorem admission_is_idempotent_witness:
  "\<exists>db' db''. kernel_step ax_H ax_CR ax_CT db' db'' \<and>
     AdmitTask ax_N ax_H ax_CR ax_CT ax_M (\<lambda>_. False) no_faults db'' ax_prepared = (db'', Inr (ax_answer, False)) \<and>
     AdmitTask ax_N ax_H ax_CR ax_CT ax_M (\<lambda>_. False) no_faults db'' (ax_prepared\<lparr>pp_RequestDigest := sample_digest (CHR ''d'')\<rparr>) =
       (db'', Inl (storeError ErrorIdempotencyConflict admitTaskOperation ''key:1''))"
proof -
  from ax_admitted obtain db' where a: "AdmitTask ax_N ax_H ax_CR ax_CT ax_M (\<lambda>_. False) no_faults ax_db ax_prepared = (db', Inr (ax_answer, True))"
    by blast
  obtain db'' res where "AppendEvent ax_CR no_faults db' ''team'' 3 ax_e3 = (db'', res)" by (cases "AppendEvent ax_CR no_faults db' ''team'' 3 ax_e3")
  then have s: "kernel_step ax_H ax_CR ax_CT db' db''" by (rule kernel_step.append_run) simp
  then have steps: "kernel_steps ax_H ax_CR ax_CT db' db''" by (rule r_into_rtranclp)
  have "is_lower_hex (CHR ''d'')" by code_simp
  then have d: "IsSHA256Digest (sample_digest (CHR ''d''))" by (simp add: example_simps)
  have ne: "sample_digest (CHR ''d'') \<noteq> sample_digest (CHR ''c'')" by (simp add: sample_digest_def)
  note idem = admission_is_idempotent [OF ax_db_reachable a _ _ _ steps, where hook' = "\<lambda>_. False"]
  from idem [of ax_prepared] have "AdmitTask ax_N ax_H ax_CR ax_CT ax_M (\<lambda>_. False) no_faults db'' ax_prepared = (db'', Inr (ax_answer, False))"
    by (simp add: example_simps)
  moreover from idem [of "ax_prepared\<lparr>pp_RequestDigest := sample_digest (CHR ''d'')\<rparr>"]
  have "AdmitTask ax_N ax_H ax_CR ax_CT ax_M (\<lambda>_. False) no_faults db'' (ax_prepared\<lparr>pp_RequestDigest := sample_digest (CHR ''d'')\<rparr>) =
       (db'', Inl (storeError ErrorIdempotencyConflict admitTaskOperation ''key:1''))"
    using d ne by simp
  ultimately show ?thesis using s by blast
qed

end
