(* ===== verification/Execution_Authority.thy ===== *)
theory Execution_Authority
  imports Admission_Authority
begin

text \<open>
  \<^verbatim>\<open>store/execution_authority_store.go\<close>: the authority of an admitted task, read in one transaction
  immediately before its execution. The admission is read back and checked, then both ledgers are read
  whole, every row against its event and every event against its digest, and replayed.

  \<open>reflect.DeepEqual\<close> on projections is equality of their values.
\<close>

record ExecutionAuthoritySnapshot =
  sn_Task :: AgentTask
  sn_Contract :: ExecutionContract
  sn_Grants :: "CapabilityGrant list"
  sn_Run :: Projection
  sn_Transaction :: ProjectionTx

definition getExecutionAuthorityOperation :: string where
  "getExecutionAuthorityOperation = ''get_execution_authority''"

definition getRunExecutionAuthorityOperation :: string where
  "getRunExecutionAuthorityOperation = ''get_run_execution_authority''"

definition authoritySnapshotError :: "string \<Rightarrow> KernelError \<Rightarrow> KernelError" where
  "authoritySnapshotError resource cause =
     storeError (if ke_Code cause = ErrorInternal then ErrorInternal else ErrorEventChain) getExecutionAuthorityOperation resource"

text \<open>\<^verbatim>\<open>... WHERE namespace = ? AND run_id = ? ORDER BY sequence\<close>\<close>

definition ordered_rows :: "'j event_row list \<Rightarrow> string \<Rightarrow> string \<Rightarrow> 'j event_row list" where
  "ordered_rows rows namespace ident = sort_key er_sequence (filter (\<lambda>r. ekey r = (namespace, ident)) rows)"

section \<open>Verifying a ledger against its rows\<close>

definition liveRunEvent :: "'j RunCodec \<Rightarrow> string \<Rightarrow> 'j event_row \<Rightarrow> KernelError + RunEvent" where
  "liveRunEvent C runID row = (let op = getExecutionAuthorityOperation in
     bind_res (or_error ErrorEventChain op runID (rc_DecEvent C (er_json row))) (\<lambda>event.
     ok_then (first_error
       [fail_if (ev_RunID event \<noteq> runID \<or> ev_Sequence event \<noteq> er_sequence row \<or> ev_ID event \<noteq> er_event_id row \<or>
           RunEventType_name (ev_Type event) \<noteq> er_event_type row \<or> ev_Digest event \<noteq> er_event_digest row)
         (storeError ErrorEventChain op runID),
        map_option (authoritySnapshotError runID) (verifyEventDigest C event)])
       (Inr event)))"

definition verifyLiveRunProjection :: "'j RunCodec \<Rightarrow> driver \<Rightarrow> 'j DB \<Rightarrow> string \<Rightarrow> Projection \<Rightarrow> KernelError option" where
  "verifyLiveRunProjection C D db namespace current = (let op = getExecutionAuthorityOperation; runID = ar_ID (pj_Run current) in
     case ok_then (read_step D QueryStep op runID)
       (bind_res (scan_rows D op runID (liveRunEvent C runID) 0 (ordered_rows (db_events db) namespace runID)) (\<lambda>events.
        bind_res (wrap_error ErrorEventChain op runID (Replay events)) (\<lambda>replayed.
        ok_then (fail_if (replayed \<noteq> current) (storeError ErrorEventChain op runID)) (Inr ()))))
     of Inl err \<Rightarrow> Some err | Inr _ \<Rightarrow> None)"

definition liveTransactionEvent :: "Hashing \<Rightarrow> 'j TxCodec \<Rightarrow> string \<Rightarrow> 'j event_row \<Rightarrow> KernelError + TransactionEvent" where
  "liveTransactionEvent H C transactionID row = (let op = getExecutionAuthorityOperation in
     bind_res (or_error ErrorEventChain op transactionID (tc_DecEvent C (er_json row))) (\<lambda>event.
     ok_then (first_error
       [fail_if (te_TransactionID event \<noteq> transactionID \<or> te_Sequence event \<noteq> er_sequence row \<or> te_ID event \<noteq> er_event_id row \<or>
           TransactionEventType_name (te_Type event) \<noteq> er_event_type row \<or> te_Digest event \<noteq> er_event_digest row)
         (storeError ErrorEventChain op transactionID),
        map_option (authoritySnapshotError transactionID) (verifyTransactionEventDigest H event)])
       (Inr event)))"

definition verifyLiveTransactionProjection :: "Hashing \<Rightarrow> 'j TxCodec \<Rightarrow> driver \<Rightarrow> 'j DB \<Rightarrow> string \<Rightarrow> ProjectionTx \<Rightarrow>
    KernelError option" where
  "verifyLiveTransactionProjection H C D db namespace current =
     (let op = getExecutionAuthorityOperation; transactionID = tx_ID (tj_Transaction current) in
     case ok_then (read_step D QueryStep op transactionID)
       (bind_res (scan_rows D op transactionID (liveTransactionEvent H C transactionID) 0
          (ordered_rows (db_transaction_events db) namespace transactionID)) (\<lambda>events.
        bind_res (wrap_error ErrorEventChain op transactionID (ReplayTx H events)) (\<lambda>replayed.
        ok_then (fail_if (replayed \<noteq> current) (storeError ErrorEventChain op transactionID)) (Inr ()))))
     of Inl err \<Rightarrow> Some err | Inr _ \<Rightarrow> None)"

section \<open>Reading the authority\<close>

definition GetExecutionAuthority :: "AdmissionHashing \<Rightarrow> Hashing \<Rightarrow> 'j RunCodec \<Rightarrow> 'j TxCodec \<Rightarrow> 'j AdmissionCodec \<Rightarrow> driver \<Rightarrow>
    'j DB \<Rightarrow> string \<Rightarrow> string \<Rightarrow> KernelError + ExecutionAuthoritySnapshot" where
  "GetExecutionAuthority N H CR CT M D db namespace transactionID = (let op = getExecutionAuthorityOperation in
     ok_then (first_error [validateNamespace namespace,
         fail_if (\<not> IsIdentifier transactionID) (storeError ErrorSchemaInvalid op transactionID),
         read_step D BeginStep op transactionID, read_step D QueryStep op transactionID])
    (bind_res (or_error ErrorNotFound op transactionID
        (find (\<lambda>a. mr_namespace a = namespace \<and> mr_transaction_id a = transactionID) (db_admissions db))) (\<lambda>row.
     bind_res (case loadTaskAdmission N H CR CT M (sub_driver D 0) db namespace (mr_idempotency_key row) of
         Inl err \<Rightarrow> Inl (authoritySnapshotError transactionID err) | Inr x \<Rightarrow> Inr x) (\<lambda>(initial, _).
     ok_then (first_error
       [fail_if (an_Version initial \<noteq> ResultVersion) (storeError ErrorCapabilityDenied op transactionID),
        fail_if (tx_ID (tj_Transaction (an_Transaction initial)) \<noteq> transactionID) (storeError ErrorEventChain op transactionID)])
    (bind_res (loadProjection CR (sub_driver D 1) db namespace (ar_ID (pj_Run (an_Run initial)))) (\<lambda>currentRun.
     bind_res (loadTransactionProjection H CT (sub_driver D 2) db namespace transactionID) (\<lambda>currentTransaction.
     ok_then (first_error
       [map_option (authoritySnapshotError transactionID)
          (validateCurrentAdmissionBindings M initial (pj_Run currentRun) currentTransaction),
        verifyLiveRunProjection CR (sub_driver D 3) db namespace currentRun,
        verifyLiveTransactionProjection H CT (sub_driver D 4) db namespace currentTransaction,
        read_step D CommitStep op transactionID])
     (Inr \<lparr>sn_Task = an_Task initial, sn_Contract = an_Contract initial, sn_Grants = an_Grants initial,
       sn_Run = currentRun, sn_Transaction = currentTransaction\<rparr>))))))))"

definition GetExecutionAuthorityForRun :: "AdmissionHashing \<Rightarrow> Hashing \<Rightarrow> 'j RunCodec \<Rightarrow> 'j TxCodec \<Rightarrow> 'j AdmissionCodec \<Rightarrow> driver \<Rightarrow>
    'j DB \<Rightarrow> string \<Rightarrow> string \<Rightarrow> KernelError + ExecutionAuthoritySnapshot" where
  "GetExecutionAuthorityForRun N H CR CT M D db namespace runID = (let op = getRunExecutionAuthorityOperation in
     ok_then (first_error [validateNamespace namespace,
         fail_if (\<not> IsIdentifier runID) (storeError ErrorSchemaInvalid op runID), read_step D QueryStep op runID])
    (bind_res (or_error ErrorCapabilityDenied op runID
        (find (\<lambda>a. mr_namespace a = namespace \<and> mr_run_id a = runID) (db_admissions db))) (\<lambda>row.
     bind_res (GetExecutionAuthority N H CR CT M (sub_driver D 0) db namespace (mr_transaction_id row)) (\<lambda>snapshot.
     ok_then (fail_if (ar_ID (pj_Run (sn_Run snapshot)) \<noteq> runID) (storeError ErrorEventChain op runID)) (Inr snapshot)))))"

section \<open>What verification establishes\<close>

text \<open>The rows of a stream are the events, in order, each with its own columns and digest.\<close>

definition run_rows_verified :: "'j RunCodec \<Rightarrow> string \<Rightarrow> 'j event_row list \<Rightarrow> RunEvent list \<Rightarrow> bool" where
  "run_rows_verified C runID rows es \<longleftrightarrow> list_all2 (\<lambda>row e. rc_DecEvent C (er_json row) = Some e \<and> ev_RunID e = runID \<and>
     er_sequence row = ev_Sequence e \<and> er_event_id row = ev_ID e \<and> er_event_type row = RunEventType_name (ev_Type e) \<and>
     er_event_digest row = ev_Digest e \<and> VerifyEventDigest (rc_Digest C) e = Some True) rows es"

definition tx_rows_verified :: "Hashing \<Rightarrow> 'j TxCodec \<Rightarrow> string \<Rightarrow> 'j event_row list \<Rightarrow> TransactionEvent list \<Rightarrow> bool" where
  "tx_rows_verified H C transactionID rows es \<longleftrightarrow> list_all2 (\<lambda>row e. tc_DecEvent C (er_json row) = Some e \<and>
     te_TransactionID e = transactionID \<and> er_sequence row = te_Sequence e \<and> er_event_id row = te_ID e \<and>
     er_event_type row = TransactionEventType_name (te_Type e) \<and> er_event_digest row = te_Digest e \<and>
     VerifyTransactionEventDigest H e = Some True) rows es"

lemma verifyEventDigest_None: "verifyEventDigest C e = None \<longleftrightarrow> VerifyEventDigest (rc_Digest C) e = Some True"
  by (simp add: verifyEventDigest_def split: option.splits)

lemma verifyTransactionEventDigest_None: "verifyTransactionEventDigest H e = None \<longleftrightarrow> VerifyTransactionEventDigest H e = Some True"
  by (simp add: verifyTransactionEventDigest_def split: option.splits)

lemma liveRunEvent_Inr: "liveRunEvent C runID row = Inr e \<longleftrightarrow>
    rc_DecEvent C (er_json row) = Some e \<and> ev_RunID e = runID \<and> er_sequence row = ev_Sequence e \<and> er_event_id row = ev_ID e \<and>
    er_event_type row = RunEventType_name (ev_Type e) \<and> er_event_digest row = ev_Digest e \<and>
    VerifyEventDigest (rc_Digest C) e = Some True"
  by (auto simp: liveRunEvent_def Let_def verifyEventDigest_None)

lemma liveTransactionEvent_Inr: "liveTransactionEvent H C transactionID row = Inr e \<longleftrightarrow>
    tc_DecEvent C (er_json row) = Some e \<and> te_TransactionID e = transactionID \<and> er_sequence row = te_Sequence e \<and>
    er_event_id row = te_ID e \<and> er_event_type row = TransactionEventType_name (te_Type e) \<and> er_event_digest row = te_Digest e \<and>
    VerifyTransactionEventDigest H e = Some True"
  by (auto simp: liveTransactionEvent_def Let_def verifyTransactionEventDigest_None)

lemma verifyLiveRun_sound:
  assumes "verifyLiveRunProjection C D db ns p = None"
  obtains es where "run_rows_verified C (ar_ID (pj_Run p)) (ordered_rows (db_events db) ns (ar_ID (pj_Run p))) es"
    and "Replay es = Inr p"
  using assms scan_rows_InrD
  by (fastforce simp: verifyLiveRunProjection_def Let_def run_rows_verified_def liveRunEvent_Inr split: sum.splits)

lemma verifyLiveTransaction_sound:
  assumes "verifyLiveTransactionProjection H C D db ns p = None"
  obtains es where "tx_rows_verified H C (tx_ID (tj_Transaction p))
      (ordered_rows (db_transaction_events db) ns (tx_ID (tj_Transaction p))) es"
    and "ReplayTx H es = Inr p"
  using assms scan_rows_InrD
  by (fastforce simp: verifyLiveTransactionProjection_def Let_def tx_rows_verified_def liveTransactionEvent_Inr split: sum.splits)

end
