(* ===== verification/Authority_Snapshot.thy ===== *)
theory Authority_Snapshot
  imports Execution_Authority Admission_Durability
begin

text \<open>
  What a snapshot of execution authority is worth: whatever the database holds, a snapshot that is returned
  is the replay of verified rows that begin with a valid admission; and after an admission there is one.
\<close>

section \<open>The rows that an admission is checked against\<close>

text \<open>Events numbered from one, looked up by their numbers among the rows they are stored in, are the first
  events.\<close>

lemma looked_up_prefix:
  assumes l: "list_all2 (\<lambda>r e. decode r = Some e \<and> er_sequence r = num e) rs es"
    and n: "\<And>m. m < length es \<Longrightarrow> num (es ! m) = int m + 1"
    and f: "\<And>k. k < length pre \<Longrightarrow> \<exists>r\<in>set rs. er_sequence r = int k + 1 \<and> decode r = Some (pre ! k)"
  shows "\<exists>rest. es = pre @ rest"
proof -
  have k: "k < length es \<and> es ! k = pre ! k" if "k < length pre" for k
  proof -
    from f [OF that] obtain m where m: "m < length rs" "er_sequence (rs ! m) = int k + 1" "decode (rs ! m) = Some (pre ! k)"
      by (auto simp: in_set_conv_nth)
    with l n [of m] show ?thesis by (auto simp: list_all2_conv_all_nth)
  qed
  then have "length pre \<le> length es" by (cases "length pre") (auto simp: Suc_le_eq)
  with k have "take (length pre) es = pre" by (intro nth_equalityI) auto
  then show ?thesis by (metis append_take_drop_id)
qed

lemma ordered_rows_set: "r \<in> set (ordered_rows rows ns i) \<longleftrightarrow> r \<in> set rows \<and> ekey r = (ns, i)"
  by (auto simp: ordered_rows_def)

lemma loadRunPrefix_Inr:
  "loadRunPrefix C D db ns i j n = Inr es \<Longrightarrow> length es = n \<and>
     (\<forall>k<n. \<exists>r\<in>set (ordered_rows (db_events db) ns i). er_sequence r = int (j + k) + 1 \<and> rc_DecEvent C (er_json r) = Some (es ! k))"
proof (induction n arbitrary: j es)
  case (Suc n)
  from Suc.prems obtain r e fs where r: "find (\<lambda>r. ekey r = (ns, i) \<and> er_sequence r = int j + 1) (db_events db) = Some r"
    and e: "rc_DecEvent C (er_json r) = Some e" "loadRunPrefix C D db ns i (Suc j) n = Inr fs" "es = e # fs"
    by (auto simp: decodeAdmissionJSON_def)
  from r have "r \<in> set (ordered_rows (db_events db) ns i) \<and> er_sequence r = int j + 1"
    by (auto simp: ordered_rows_set find_Some_iff)
  with Suc.IH [OF e(2)] e(1,3) show ?case by (auto simp: less_Suc_eq_0_disj)
qed simp

lemma prefixes_Inr:
  assumes "verifyAdmissionEventPrefixes N H CR CT D db ns result = None"
  obtains p r where "Prepared_Validate N H CR p = None" and "pp_Namespace p = ns" and "pp_Result p = result"
    and "loadRunPrefix CR D db ns (run_id p) 0 (nat (ar_EventSequence (pj_Run (an_Run result)))) = Inr (pp_RunEvents p)"
    and "r \<in> set (ordered_rows (db_transaction_events db) ns (tx_id p))" and "er_sequence r = 1"
    and "tc_DecEvent CT (er_json r) = Some (pp_TransactionEvent p)"
proof -
  from assms obtain es r e where
      es: "loadRunPrefix CR D db ns (ar_ID (pj_Run (an_Run result))) 0 (nat (ar_EventSequence (pj_Run (an_Run result)))) = Inr es"
    and r: "find (\<lambda>r. ekey r = (ns, tx_ID (tj_Transaction (an_Transaction result))) \<and> er_sequence r = 1) (db_transaction_events db) = Some r"
      "tc_DecEvent CT (er_json r) = Some e"
    and v: "Prepared_Validate N H CR \<lparr>pp_Namespace = ns, pp_IdempotencyKey = an_IdempotencyKey result,
      pp_RequestDigest = an_RequestDigest result, pp_Result = result, pp_RunEvents = es, pp_TransactionEvent = e\<rparr> = None"
    by (auto simp: verifyAdmissionEventPrefixes_def decodeAdmissionJSON_def Let_def split: sum.splits)
  from r(1) have "r \<in> set (ordered_rows (db_transaction_events db) ns (tx_ID (tj_Transaction (an_Transaction result)))) \<and>
      er_sequence r = 1" by (auto simp: ordered_rows_set find_Some_iff)
  with that [OF v, of r] es r(2) show ?thesis by (simp add: run_id_def tx_id_def)
qed

lemma loadTaskAdmission_Inr:
  assumes "loadTaskAdmission N H CR CT M D db ns key = Inr (result, digest)"
  shows "requireStoredRuntimeBinding (sub_driver D 0) db (an_RuntimeID result) (an_EnforcementProfile result)
      (an_Version result = LegacyResultVersion) getTaskAdmissionOperation key = None"
    "verifyAdmissionEventPrefixes N H CR CT (sub_driver D 1) db ns result = None"
  using assms by (auto simp: loadTaskAdmission_def Let_def)

section \<open>A snapshot is verified\<close>

lemma wrapped_Inr: "(case r of Inl e \<Rightarrow> Inl (f e) | Inr x \<Rightarrow> Inr x) = Inr y \<longleftrightarrow> r = Inr y"
  by (cases r) simp_all

lemma GetExecutionAuthority_Inr:
  assumes "GetExecutionAuthority N H CR CT M D db ns i = Inr s"
  obtains key initial digest where "loadTaskAdmission N H CR CT M (sub_driver D 0) db ns key = Inr (initial, digest)"
    and "an_Version initial = ResultVersion" and "tx_ID (tj_Transaction (an_Transaction initial)) = i"
    and "loadProjection CR (sub_driver D 1) db ns (ar_ID (pj_Run (an_Run initial))) = Inr (sn_Run s)"
    and "loadTransactionProjection H CT (sub_driver D 2) db ns i = Inr (sn_Transaction s)"
    and "verifyLiveRunProjection CR (sub_driver D 3) db ns (sn_Run s) = None"
    and "verifyLiveTransactionProjection H CT (sub_driver D 4) db ns (sn_Transaction s) = None"
    and "sn_Task s = an_Task initial" "sn_Contract s = an_Contract initial" "sn_Grants s = an_Grants initial"
  using assms by (auto simp: GetExecutionAuthority_def Let_def wrapped_Inr)

lemma current_version_bound:
  assumes "Result_Validate N H ns result = None" and "an_Version result = ResultVersion"
  shows "an_RuntimeID result \<noteq> ''''" "an_Version result \<noteq> LegacyResultVersion"
  using Result_Validate_None(3) [OF assms(1)] assms(2)
  by (auto simp: checkResultVersion_def ResultVersion_def LegacyResultVersion_def IsRuntimeID_def hex_suffix_def split: if_splits)

lemma loadProjection_names: "loadProjection C D db ns i = Inr p \<Longrightarrow> ar_Namespace (pj_Run p) = ns \<and> ar_ID (pj_Run p) = i"
  by (auto simp: loadProjection_def)

lemma loadTransactionProjection_names:
  "loadTransactionProjection H C D db ns i = Inr p \<Longrightarrow> tx_Namespace (tj_Transaction p) = ns \<and> tx_ID (tj_Transaction p) = i"
  by (auto simp: loadTransactionProjection_def Let_def)

text \<open>What a snapshot of \<open>p\<close>'s authority is: the immutable part as admitted, for the Runtime of the ledger, and the
  current projections as the replay of all stored events, each verified, the first ones those of the admission.\<close>

definition snapshot_of :: "AdmissionHashing \<Rightarrow> Hashing \<Rightarrow> 'j RunCodec \<Rightarrow> 'j TxCodec \<Rightarrow> 'j DB \<Rightarrow> Prepared \<Rightarrow>
    ExecutionAuthoritySnapshot \<Rightarrow> bool" where
  "snapshot_of N H CR CT db p s \<longleftrightarrow> (let ns = pp_Namespace p; result = pp_Result p in
     Prepared_Validate N H CR p = None \<and> an_Version result = ResultVersion \<and>
     db_metadata db runtimeIDMetadataKey = Some (an_RuntimeID result) \<and>
     db_metadata db enforcementProfileMetadataKey = Some (an_EnforcementProfile result) \<and>
     sn_Task s = an_Task result \<and> sn_Contract s = an_Contract result \<and> sn_Grants s = an_Grants result \<and>
     (\<exists>es. run_rows_verified CR (run_id p) (ordered_rows (db_events db) ns (run_id p)) (pp_RunEvents p @ es) \<and>
        Replay (pp_RunEvents p @ es) = Inr (sn_Run s)) \<and>
     (\<exists>fs. tx_rows_verified H CT (tx_id p) (ordered_rows (db_transaction_events db) ns (tx_id p)) (pp_TransactionEvent p # fs) \<and>
        ReplayTx H (pp_TransactionEvent p # fs) = Inr (sn_Transaction s)))"

theorem GetExecutionAuthority_verified:
  assumes "GetExecutionAuthority N H CR CT M D db ns i = Inr s"
  shows "\<exists>p. pp_Namespace p = ns \<and> tx_id p = i \<and> snapshot_of N H CR CT db p s"
proof -
  from assms obtain key initial digest where load: "loadTaskAdmission N H CR CT M (sub_driver D 0) db ns key = Inr (initial, digest)"
    and version: "an_Version initial = ResultVersion" and i: "tx_ID (tj_Transaction (an_Transaction initial)) = i"
    and run: "loadProjection CR (sub_driver D 1) db ns (ar_ID (pj_Run (an_Run initial))) = Inr (sn_Run s)"
    and tx: "loadTransactionProjection H CT (sub_driver D 2) db ns i = Inr (sn_Transaction s)"
    and live: "verifyLiveRunProjection CR (sub_driver D 3) db ns (sn_Run s) = None"
      "verifyLiveTransactionProjection H CT (sub_driver D 4) db ns (sn_Transaction s) = None"
    and parts: "sn_Task s = an_Task initial" "sn_Contract s = an_Contract initial" "sn_Grants s = an_Grants initial"
    by (rule GetExecutionAuthority_Inr)
  note loaded = loadTaskAdmission_Inr [OF load]
  from loaded(2) obtain p r where p: "Prepared_Validate N H CR p = None" "pp_Namespace p = ns" "pp_Result p = initial"
    and pre: "loadRunPrefix CR (sub_driver (sub_driver D 0) 1) db ns (run_id p) 0 (nat (ar_EventSequence (pj_Run (an_Run initial)))) =
      Inr (pp_RunEvents p)"
    and r: "r \<in> set (ordered_rows (db_transaction_events db) ns (tx_id p))" "er_sequence r = 1"
      "tc_DecEvent CT (er_json r) = Some (pp_TransactionEvent p)" by (rule prefixes_Inr)
  have ids: "ar_ID (pj_Run (sn_Run s)) = run_id p" "tx_ID (tj_Transaction (sn_Transaction s)) = tx_id p" "tx_id p = i"
    using loadProjection_names [OF run] loadTransactionProjection_names [OF tx] p(3) i by (simp_all add: run_id_def tx_id_def)
  note valid = Prepared_Validate_None [OF p(1), unfolded p(3)]
  note current = current_version_bound [OF valid(1) version]
  from loaded(1) current(2) have "requireStoredRuntimeBinding (sub_driver (sub_driver D 0) 0) db (an_RuntimeID initial)
      (an_EnforcementProfile initial) False getTaskAdmissionOperation key = None" by simp
  note bd = bound_runtime [OF this current(1)]
  from live(1) [THEN verifyLiveRun_sound] obtain es where
    es: "run_rows_verified CR (run_id p) (ordered_rows (db_events db) ns (run_id p)) es" "Replay es = Inr (sn_Run s)"
    unfolding ids by metis
  have "\<exists>rest. es = pp_RunEvents p @ rest"
  proof (rule looked_up_prefix)
    show "list_all2 (\<lambda>r e. rc_DecEvent CR (er_json r) = Some e \<and> er_sequence r = ev_Sequence e) (ordered_rows (db_events db) ns (run_id p)) es"
      using es(1) unfolding run_rows_verified_def by (rule list.rel_mono_strong) simp
    show "ev_Sequence (es ! m) = int m + 1" if "m < length es" for m
      using run_ledger.replay_numbered [OF replayed_stream [OF es(2)] that] .
  qed (use loadRunPrefix_Inr [OF pre] in auto)
  moreover from live(2) [THEN verifyLiveTransaction_sound] obtain fs where
    fs: "tx_rows_verified H CT (tx_id p) (ordered_rows (db_transaction_events db) ns (tx_id p)) fs" "ReplayTx H fs = Inr (sn_Transaction s)"
    unfolding ids by metis
  moreover have "\<exists>rest. fs = [pp_TransactionEvent p] @ rest"
  proof (rule looked_up_prefix)
    show "list_all2 (\<lambda>r e. tc_DecEvent CT (er_json r) = Some e \<and> er_sequence r = te_Sequence e)
        (ordered_rows (db_transaction_events db) ns (tx_id p)) fs"
      using fs(1) unfolding tx_rows_verified_def by (rule list.rel_mono_strong) simp
    show "te_Sequence (fs ! m) = int m + 1" if "m < length fs" for m
      using tx_ledger.replay_numbered [OF replayedTx_stream [OF fs(2)] that] .
  qed (use r in auto)
  ultimately show ?thesis
    using es p version parts bd ids(3) by (intro exI [of _ p]) (auto simp: snapshot_of_def Let_def)
qed

section \<open>There is a snapshot of every admission\<close>

lemma verifyLiveRun_complete:
  assumes s: "run_store.stored CR (db_events db) h es p" and k: "hkey h = (ns, ar_ID (pj_Run p))" and r: "Replay es = Inr p"
  shows "verifyLiveRunProjection CR no_faults db ns p = None"
proof -
  let ?rows = "filter (\<lambda>r. ekey r = (ns, ar_ID (pj_Run p))) (db_events db)"
  have rows: "list_all2 (run_store.row_for CR ns) es ?rows" using s k by (simp add: run_store.stored_def run_store.rows_of_def)
  have "sorted (map er_sequence ?rows)" using run_store.stored_sorted [OF s] k by (simp add: run_store.rows_of_def)
  then have "ordered_rows (db_events db) ns (ar_ID (pj_Run p)) = ?rows" by (simp add: ordered_rows_def sort_key_id_if_sorted)
  moreover have "list_all2 (\<lambda>r e. liveRunEvent CR (ar_ID (pj_Run p)) r = Inr e) ?rows es"
    using rows nth_mem [of _ ?rows] unfolding list_all2_conv_all_nth liveRunEvent_Inr
    by (auto simp: run_store.row_for_def ekey_def)
  ultimately show ?thesis
    using scan_rows_Inr [of no_faults "liveRunEvent CR (ar_ID (pj_Run p))" ?rows] r
    by (simp add: verifyLiveRunProjection_def Let_def)
qed

lemma verifyLiveTransaction_complete:
  assumes s: "tx_store.stored H CT (db_transaction_events db) h es p" and k: "hkey h = (ns, tx_ID (tj_Transaction p))"
    and r: "ReplayTx H es = Inr p"
  shows "verifyLiveTransactionProjection H CT no_faults db ns p = None"
proof -
  let ?rows = "filter (\<lambda>r. ekey r = (ns, tx_ID (tj_Transaction p))) (db_transaction_events db)"
  have rows: "list_all2 (tx_store.row_for CT H ns) es ?rows" using s k by (simp add: tx_store.stored_def tx_store.rows_of_def)
  have "sorted (map er_sequence ?rows)" using tx_store.stored_sorted [OF s] k by (simp add: tx_store.rows_of_def)
  then have "ordered_rows (db_transaction_events db) ns (tx_ID (tj_Transaction p)) = ?rows"
    by (simp add: ordered_rows_def sort_key_id_if_sorted)
  moreover have "list_all2 (\<lambda>r e. liveTransactionEvent H CT (tx_ID (tj_Transaction p)) r = Inr e) ?rows es"
    using rows nth_mem [of _ ?rows] unfolding list_all2_conv_all_nth liveTransactionEvent_Inr
    by (auto simp: tx_store.row_for_def ekey_def)
  ultimately show ?thesis
    using scan_rows_Inr [of no_faults "liveTransactionEvent H CT (tx_ID (tj_Transaction p))" ?rows] r
    by (simp add: verifyLiveTransactionProjection_def Let_def)
qed

theorem GetExecutionAuthority_complete:
  assumes ok: "ledgers_ok H CR CT db" and a: "admitted N H CR CT M db p" and c: "comparable M (pp_Result p)"
    and v: "an_Version (pp_Result p) = ResultVersion"
    and load: "loadTaskAdmission N H CR CT M no_faults db (pp_Namespace p) (pp_IdempotencyKey p) = Inr (pp_Result p, pp_RequestDigest p)"
  shows "\<exists>s. GetExecutionAuthority N H CR CT M no_faults db (pp_Namespace p) (tx_id p) = Inr s \<and>
    GetExecutionAuthorityForRun N H CR CT M no_faults db (pp_Namespace p) (run_id p) = Inr s \<and>
    sn_Task s = an_Task (pp_Result p) \<and> sn_Contract s = an_Contract (pp_Result p) \<and> sn_Grants s = an_Grants (pp_Result p) \<and>
    GetRun CR no_faults db (pp_Namespace p) (run_id p) = Inr (sn_Run s) \<and>
    GetTransaction H CT no_faults db (pp_Namespace p) (tx_id p) = Inr (sn_Transaction s)"
proof -
  let ?r = "pp_Result p" and ?ns = "pp_Namespace p"
  from a obtain x fs gs where pv: "Prepared_Validate N H CR p = None"
    and f: "find (\<lambda>a. mr_namespace a = ?ns \<and> mr_run_id a = run_id p) (db_admissions db) = Some (admissionRow p x)"
      "find (\<lambda>a. mr_namespace a = ?ns \<and> mr_transaction_id a = tx_id p) (db_admissions db) = Some (admissionRow p x)"
    and h: "run_histories CR db (?ns, run_id p) = Some (pp_RunEvents p @ fs)"
      "tx_histories CT db (?ns, tx_id p) = Some (pp_TransactionEvent p # gs)"
    unfolding admitted_def Let_def by blast
  note valid = Prepared_Validate_None [OF pv]
  from ok have l: "run_store_ok CR db" "tx_store_ok H CT db" by (simp_all add: ledgers_ok_def)
  from admitted_run_head [OF l(1) valid(5) h(1)] obtain rh rp where r: "hkey rh = (?ns, run_id p)"
    "run_store.stored CR (db_events db) rh (pp_RunEvents p @ fs) rp" "replayFrom (Some (an_Run ?r)) fs = Inr rp" .
  from admitted_tx_head [OF l(2) valid(6) h(2)] obtain th tp where t: "hkey th = (?ns, tx_id p)"
    "tx_store.stored H CT (db_transaction_events db) th (pp_TransactionEvent p # gs) tp"
    "replayFromTx H (Some (an_Transaction ?r)) gs = Inr tp" .
  from GetRun_complete [OF l(1) h(1)] obtain rp' where gr: "GetRun CR no_faults db ?ns (run_id p) = Inr rp'"
    "Replay (pp_RunEvents p @ fs) = Inr rp'" by blast
  from GetTransaction_complete [OF l(2) h(2)] obtain tp' where gt: "GetTransaction H CT no_faults db ?ns (tx_id p) = Inr tp'"
    "ReplayTx H (pp_TransactionEvent p # gs) = Inr tp'" by blast
  have same: "rp' = rp" "tp' = tp"
    using r(2) t(2) replayed_stream [OF gr(2)] replayedTx_stream [OF gt(2)] by (auto simp: run_store.stored_def tx_store.stored_def)
  have load_run: "loadProjection CR no_faults db ?ns (run_id p) = Inr rp"
    using gr(1) same by (auto simp: GetRun_def)
  have load_tx: "loadTransactionProjection H CT no_faults db ?ns (tx_id p) = Inr tp"
    using gt(1) same by (auto simp: GetTransaction_def)
  note names = loadProjection_names [OF load_run] loadTransactionProjection_names [OF load_tx]
  have live: "verifyLiveRunProjection CR no_faults db ?ns rp = None" "verifyLiveTransactionProjection H CT no_faults db ?ns tp = None"
    using verifyLiveRun_complete [OF r(2)] verifyLiveTransaction_complete [OF t(2)] r(1) t(1) names gr(2) gt(2) same by simp_all
  have ids: "validateNamespace ?ns = None" "IsIdentifier (tx_id p)" "IsIdentifier (run_id p)"
    using run_history_identity [OF l(1) h(1)] tx_history_identity [OF l(2) h(2)] by (simp_all add: validateNamespace_def)
  let ?s = "\<lparr>sn_Task = an_Task ?r, sn_Contract = an_Contract ?r, sn_Grants = an_Grants ?r, sn_Run = rp, sn_Transaction = tp\<rparr>"
  have get: "GetExecutionAuthority N H CR CT M no_faults db ?ns (tx_id p) = Inr ?s"
    unfolding GetExecutionAuthority_def Let_def
    using f(2) load load_run load_tx live ids(1,2) v current_bindings_hold [OF c r(3) t(3)]
    by (simp add: admissionRow_def run_id_def tx_id_def Let_def)
  moreover have "GetExecutionAuthorityForRun N H CR CT M no_faults db ?ns (run_id p) = Inr ?s"
    unfolding GetExecutionAuthorityForRun_def Let_def
    using f(1) get ids(1,3) names by (simp add: admission_rows)
  ultimately show ?thesis using gr(1) gt(1) same by simp
qed

text \<open>After an admission, whatever the kernel does to the ledger.\<close>

theorem admission_yields_authority:
  assumes ok: "ledgers_ok H CR CT db"
    and a: "AdmitTask N H CR CT M hook D db p = (db', Inr (r, True))" and rt: "admission_roundtrip CR CT M p"
    and c: "comparable M r" and v: "an_Version r = ResultVersion" and s: "kernel_steps H CR CT db' db''"
  shows "\<exists>s. GetExecutionAuthority N H CR CT M no_faults db'' (pp_Namespace p) (tx_id p) = Inr s \<and>
    GetExecutionAuthorityForRun N H CR CT M no_faults db'' (pp_Namespace p) (run_id p) = Inr s \<and>
    sn_Task s = an_Task r \<and> sn_Contract s = an_Contract r \<and> sn_Grants s = an_Grants r \<and>
    GetRun CR no_faults db'' (pp_Namespace p) (run_id p) = Inr (sn_Run s) \<and>
    GetTransaction H CT no_faults db'' (pp_Namespace p) (tx_id p) = Inr (sn_Transaction s)"
proof -
  from a obtain x where r: "r = pp_Result p" and x: "prepareAdmission N H CR CT M p = Inr x" by (auto elim: AdmitTask_created)
  have bound: "an_RuntimeID r \<noteq> ''''"
    using current_version_bound(1) [OF Prepared_Validate_None(1) [OF prepareAdmission_Inr(1) [OF x]]] v r by simp
  note lasts = admission_lasts [OF ok a rt c bound s]
  have step: "step_ok H CR CT db db'" using admit_step_ok [OF ok a] rt by blast
  then have "step_ok H CR CT db' db''" using kernel_steps_ok [OF s] by (simp add: step_ok_def)
  then have "admitted N H CR CT M db'' p" using admitted_extends [OF admitted_after [OF ok a rt]] by (simp add: step_ok_def)
  from GetExecutionAuthority_complete [OF lasts(1) this] c v lasts(3) show ?thesis unfolding r by blast
qed

end
