(* ===== verification/Execution_Plan.thy ===== *)
theory Execution_Plan
  imports Admission
begin

text \<open>
  \<^verbatim>\<open>internal/kernel/authority/authority.go\<close>: live authority is lowered into the plan of one execution in a
  container. \<open>CompilePlan\<close> is its \<^verbatim>\<open>Compile\<close>. The stored objects are trusted, the image reference and
  the command are not: they must have the digests that were admitted. \<^verbatim>\<open>sandbox.ImageDigest\<close>
  (\<^verbatim>\<open>sandbox/oci.go\<close>) is here too. Multiplying a count of seconds by \<^verbatim>\<open>time.Second\<close> wraps around.
\<close>

section \<open>Inputs and plans\<close>

record ModelBrokerCeiling =
  bc_Provider :: string
  bc_AllowedModels :: "string list"
  bc_ImageDigest :: string
  bc_PolicyDigest :: string
  bc_MaxModelCalls :: int64
  bc_MaxInputTokens :: int64
  bc_MaxOutputTokens :: int64
  bc_MaxOutputTokensPerRequest :: int64

record DaemonCeilings =
  dc_MaxWallTimeSeconds :: int64
  dc_AllowedImageDigests :: "string list"
  dc_ModelBroker :: "ModelBrokerCeiling option"

record CompileInput =
  ci_Task :: AgentTask
  ci_Contract :: ExecutionContract
  ci_Run :: AgentRun
  ci_Grants :: "CapabilityGrant list"
  ci_Transaction :: AgentTransaction
  ci_Executions :: "AgentExecution list"
  ci_ImageReference :: string
  ci_Command :: "string list"
  ci_Ceilings :: DaemonCeilings
  ci_CallerTimeoutSeconds :: "int64 option"
  ci_Now :: time

text \<open>The struct \<^verbatim>\<open>ModelBrokerPlan\<close> has the fields of the ceiling, and copies them.\<close>

type_synonym ModelBrokerPlan = ModelBrokerCeiling

record ExecutionPlan =
  xp_Namespace :: string
  xp_TransactionID :: string
  xp_StageBindingID :: string
  xp_TaskID :: string
  xp_TaskDigest :: string
  xp_ContractID :: string
  xp_ContractDigest :: string
  xp_RunID :: string
  xp_CapabilityIDs :: "string list"
  xp_ImageReference :: string
  xp_ImageDigest :: string
  xp_CommandDigest :: string
  xp_Entrypoint :: string
  xp_Command :: "string list"
  xp_WorkspaceAccess :: string
  xp_NetworkAccess :: string
  xp_ModelBroker :: "ModelBrokerPlan option"
  xp_CompiledAt :: time
  xp_NotAfter :: time
  xp_TimeoutSeconds :: int64

definition WorkspaceReadWrite :: string where "WorkspaceReadWrite = ''rw''"
definition NetworkNone :: string where "NetworkNone = ''none''"
definition NetworkModelBroker :: string where "NetworkModelBroker = ''internal_model_broker''"
definition ModelResourceKind :: string where "ModelResourceKind = ''model''"
definition ModelInvoke :: string where "ModelInvoke = ''model.invoke''"

definition deny :: "ErrorCode \<Rightarrow> string \<Rightarrow> KernelError" where
  "deny code resource = newError code ''compile_execution_authority'' resource ''''"

section \<open>Image and command\<close>

text \<open>The digest of a reference that pins its image: the reference itself or what follows its only \<^verbatim>\<open>@\<close>.\<close>

definition ImageDigest :: "string \<Rightarrow> string option" where
  "ImageDigest reference =
     (if trim_space reference \<noteq> reference \<or> reference = '''' \<or>
         list_ex (\<lambda>c. c \<in> set (CHR '' '' # bytes [9, 13, 10, 0])) reference \<or> has_prefix ''-'' reference then None
      else if length (filter (\<lambda>c. c = CHR ''@'') reference) > 1 then None
      else case find_index (\<lambda>c. c = CHR ''@'') reference of
        None \<Rightarrow> if IsSHA256Digest reference then Some reference else None
      | Some separator \<Rightarrow>
          if separator = 0 \<or> separator = length reference - 1 then None
          else let digest = drop (Suc separator) reference in if IsSHA256Digest digest then Some digest else None)"

definition commandDigest :: "Hashing \<Rightarrow> string list \<Rightarrow> string option" where
  "commandDigest H command =
     (if command = [] \<or> blank (hd command) then None
      else if list_ex has_nul command then None
      else ComputeCommandDigest H command)"

section \<open>Validation\<close>

definition validateObjects :: "AdmissionHashing \<Rightarrow> Hashing \<Rightarrow> CompileInput \<Rightarrow> KernelError option" where
  "validateObjects N H input = (let contract = ci_Contract input in first_error
     [AgentTask_Validate H (ci_Task input),
      ExecutionContract_Validate contract,
      AgentRun_Validate (ci_Run input),
      AgentTransaction_Validate H (ci_Transaction input),
      (case ComputeExecutionContractDigest N contract of
         None \<Rightarrow> Some (deny ErrorInternal (ec_ID contract))
       | Some digest \<Rightarrow> fail_if (digest \<noteq> ec_Digest contract) (deny ErrorEventChain (ec_ID contract))),
      check_each (\<lambda>_. CapabilityGrant_Validate) 0 (ci_Grants input)])"

fun executionLaunchableRunState :: "RunState \<Rightarrow> bool" where
  "executionLaunchableRunState RunAdmitted = True"
| "executionLaunchableRunState RunWaitingForAgent = True"
| "executionLaunchableRunState RunWaitingForEvent = True"
| "executionLaunchableRunState _ = False"

definition hasActiveExecution :: "AgentExecution list \<Rightarrow> bool" where
  "hasActiveExecution executions = list_ex (\<lambda>execution. case ax_Status execution of
     AgentExecutionSucceeded \<Rightarrow> False | AgentExecutionFailed \<Rightarrow> False | AgentExecutionInterrupted \<Rightarrow> False
   | AgentExecutionStartFailed \<Rightarrow> False | _ \<Rightarrow> True) executions"

text \<open>The disjunction that checks that the four objects name each other.\<close>

definition crossBound :: "CompileInput \<Rightarrow> bool" where
  "crossBound input \<longleftrightarrow> (let task = ci_Task input; contract = ci_Contract input; run = ci_Run input; tx = ci_Transaction input in
     (case tx_Admission tx of None \<Rightarrow> False | Some binding \<Rightarrow>
        ab_TaskDigest binding = tk_Digest task \<and> ab_RunID binding = ar_ID run \<and>
        ab_ContractDigest binding = ec_Digest contract) \<and>
     tx_Task tx = Some task \<and> tk_Namespace task = ar_Namespace run \<and> tk_Namespace task = tx_Namespace tx \<and>
     tk_TransactionID task = tx_ID tx \<and> tk_RunID task = ar_ID run \<and> ar_ContractDigest run = ec_Digest contract \<and>
     tx_IntentDigest tx = tk_IntentDigest task \<and> tx_AgentRunIDs tx = [ar_ID run])"

text \<open>Controls of a contract that an execution plan cannot express.\<close>

definition unsupportedControls :: "ExecutionContract \<Rightarrow> bool" where
  "unsupportedControls contract \<longleftrightarrow> ec_MaxChildDepth contract \<noteq> None \<or> ec_MaxChildren contract \<noteq> None \<or>
     ec_Checkpoints contract \<noteq> [] \<or> ec_Obligations contract \<noteq> [] \<or> ec_Escalation contract \<noteq> None \<or>
     ec_ReleaseContractRef contract \<noteq> '''' \<or> MaxToolCalls (ec_Budgets contract) \<noteq> None \<or>
     MaxCostMicros (ec_Budgets contract) \<noteq> None"

definition validatePlanBindings :: "CompileInput \<Rightarrow> KernelError option" where
  "validatePlanBindings input = (let task = ci_Task input; contract = ci_Contract input; run = ci_Run input;
       tx = ci_Transaction input in first_error
     [fail_if (tp_RuntimeClass (tk_AgentProfile task) \<noteq> ''oci'') (deny ErrorCapabilityDenied (tk_ID task)),
      fail_if (\<not> executionLaunchableRunState (ar_State run) \<or> ar_ActiveExecutionID run \<noteq> '''' \<or> ar_Runtime run \<noteq> None \<or>
          ar_ParentRunID run \<noteq> '''' \<or> ar_CheckpointID run \<noteq> '''' \<or> ar_OutstandingApprovalIDs run \<noteq> [])
        (deny ErrorTransitionInvalid (ar_ID run)),
      fail_if (tx_State tx \<noteq> TransactionRunning \<or> length (tx_StageBindings tx) \<noteq> 1 \<or>
          hasActiveExecution (ci_Executions input)) (deny ErrorTransitionInvalid (tx_ID tx)),
      fail_if (\<not> crossBound input) (deny ErrorEventChain (tx_ID tx)),
      fail_if (ec_Owner contract \<noteq> tx_Sponsor tx \<or> ar_DelegationChain run \<noteq> [tx_Sponsor tx])
        (deny ErrorIdentityInvalid (ar_ID run)),
      fail_if (ar_ImageDigest run \<noteq> tp_ImageDigest (tk_AgentProfile task) \<or> ar_Deadline run \<noteq> ec_Deadline contract \<or>
          ar_BudgetLimits run \<noteq> ec_Budgets contract) (deny ErrorEventChain (ar_ID run)),
      fail_if (unsupportedControls contract) (deny ErrorCapabilityDenied (ec_ID contract))])"

definition validateBrokerCeiling :: "ModelBrokerCeiling \<Rightarrow> KernelError option" where
  "validateBrokerCeiling broker = (let wrong = deny ErrorSchemaInvalid ''daemon-model-broker'' in first_error
     [fail_if (\<not> IsIdentifier (bc_Provider broker) \<or> \<not> IsSHA256Digest (bc_ImageDigest broker) \<or>
          \<not> IsSHA256Digest (bc_PolicyDigest broker) \<or> bc_AllowedModels broker = [] \<or>
          bc_MaxModelCalls broker < 1 \<or> bc_MaxInputTokens broker < 1 \<or> bc_MaxOutputTokens broker < 1 \<or>
          bc_MaxOutputTokensPerRequest broker < 1 \<or> bc_MaxOutputTokensPerRequest broker > bc_MaxOutputTokens broker) wrong,
      check_each (\<lambda>_ allowed. fail_if (trim_space allowed \<noteq> allowed \<or> allowed = '''' \<or> has_nul allowed) wrong) 0 (bc_AllowedModels broker)])"

definition validateCeilings :: "DaemonCeilings \<Rightarrow> KernelError option" where
  "validateCeilings ceilings = (let wrong = deny ErrorSchemaInvalid ''daemon'' in first_error
     [fail_if (dc_MaxWallTimeSeconds ceilings < 1 \<or> dc_AllowedImageDigests ceilings = []) wrong,
      check_unique (\<lambda>digest. digest) (\<lambda>_ digest. fail_if (\<not> IsSHA256Digest digest) wrong) (\<lambda>_. wrong) (\<lambda>_ _. None) [] 0
        (dc_AllowedImageDigests ceilings),
      on_some (dc_ModelBroker ceilings) validateBrokerCeiling])"

definition unsupportedConditions :: "CapabilityConditions \<Rightarrow> bool \<Rightarrow> bool" where
  "unsupportedConditions conditions workspace \<longleftrightarrow> cc_ApprovalRequired conditions \<or>
     \<not> workspace \<and> cc_WorkspaceRoot conditions \<noteq> '''' \<or> cc_EnvironmentAllow conditions \<noteq> [] \<or>
     cc_DataClassifications conditions \<noteq> [] \<or> cc_MaxOutputBytes conditions \<noteq> None"

definition exactOperations :: "string list \<Rightarrow> string list \<Rightarrow> bool" where
  "exactOperations actual expected \<longleftrightarrow>
     length actual = length expected \<and> list_all (\<lambda>operation. operation \<in> set actual) expected"

section \<open>Grants\<close>

text \<open>One round of the loop over the grants: the grant is the one compiled for the resource at its place and is
  active; \<open>seen\<close> are the workspace and the model found so far, \<open>decision\<close> the decision they share.\<close>

definition checkGrant :: "CompileInput \<Rightarrow> time \<Rightarrow> string \<Rightarrow> CapabilityGrant \<Rightarrow> ContractResource \<Rightarrow> string \<Rightarrow> KernelError option" where
  "checkGrant input now decision grant resource capabilityID = (let run = ci_Run input; id = cg_ID grant in first_error
     [fail_if (id \<noteq> capabilityID \<or> cg_SubjectRunID grant \<noteq> ar_ID run \<or> cg_Resource grant \<noteq> cr_Selector resource \<or>
          cg_Operations grant \<noteq> cr_Operations resource \<or> cg_Conditions grant \<noteq> cr_Conditions resource \<or>
          cg_Issuer grant \<noteq> capabilityServicePrincipal \<or> cg_Delegable grant \<or> cg_DelegationParentID grant \<noteq> '''' \<or>
          cg_IssuedAt grant \<noteq> ar_CreatedAt run \<or> cg_MaxUses grant \<noteq> None) (deny ErrorEventChain id),
      fail_if (decision \<noteq> '''' \<and> decision \<noteq> cg_PolicyDecisionID grant) (deny ErrorEventChain id),
      fail_if (cg_RevokedAt grant \<noteq> None) (deny ErrorCapabilityRevoked id),
      fail_if (cg_IssuedAt grant > now) (deny ErrorCapabilityDenied id),
      fail_if (\<not> cg_ExpiresAt grant > now) (deny ErrorCapabilityExpired id),
      fail_if (case ar_Deadline run of None \<Rightarrow> False | Some deadline \<Rightarrow> cg_ExpiresAt grant > deadline)
        (deny ErrorEventChain id)])"

fun checkGrants :: "CompileInput \<Rightarrow> time \<Rightarrow> bool \<times> bool \<Rightarrow> string \<Rightarrow> CapabilityGrant list \<Rightarrow> ContractResource list \<Rightarrow>
    string list \<Rightarrow> KernelError + bool \<times> bool" where
  "checkGrants input now (workspaceSeen, modelSeen) decision (grant # grants) (resource # resources) (capabilityID # ids) =
     ok_then (checkGrant input now decision grant resource capabilityID)
     (let denied = Inl (deny ErrorCapabilityDenied (cr_ID resource)); selector = cr_Selector resource;
          decision = (if decision = '''' then cg_PolicyDecisionID grant else decision) in
      if rs_Kind selector = ''filesystem'' then
        if workspaceSeen \<or> rs_Pattern selector \<noteq> ''workspace/**'' \<or>
           \<not> exactOperations (cr_Operations resource) [''filesystem.read'', ''filesystem.write''] \<or>
           cc_WorkspaceRoot (cr_Conditions resource) \<noteq> ''workspace'' \<or> unsupportedConditions (cr_Conditions resource) True
        then denied
        else checkGrants input now (True, modelSeen) decision grants resources ids
      else if rs_Kind selector = ModelResourceKind then
        if modelSeen then denied
        else case dc_ModelBroker (ci_Ceilings input) of
          None \<Rightarrow> denied
        | Some broker \<Rightarrow>
            if rs_Pattern selector \<noteq> bc_Provider broker @ ''/*'' \<or> \<not> exactOperations (cr_Operations resource) [ModelInvoke] \<or>
               unsupportedConditions (cr_Conditions resource) False
            then denied
            else checkGrants input now (workspaceSeen, True) decision grants resources ids
      else denied)"
| "checkGrants input now seen decision grants resources ids = Inr seen"

definition checkModelBudget :: "string \<Rightarrow> int64 option \<times> int64 \<times> int64 \<Rightarrow> KernelError option" where
  "checkModelBudget runID limit = (case limit of (contract, usage, daemon) \<Rightarrow> on_some contract (\<lambda>c.
     let remaining = wrap64 (c - usage) in first_error
       [fail_if (remaining < 1) (deny ErrorBudgetExceeded runID), fail_if (daemon > remaining) (deny ErrorCapabilityDenied runID)]))"

definition validateGrants :: "CompileInput \<Rightarrow> time \<Rightarrow> KernelError + ModelBrokerPlan option \<times> string" where
  "validateGrants input now = (let contract = ci_Contract input; run = ci_Run input; budgets = ec_Budgets contract;
       used = ar_BudgetUsage run in
     ok_then (fail_if (length (ci_Grants input) \<noteq> length (ec_Resources contract) \<or>
         length (ci_Grants input) \<noteq> length (ar_CapabilityIDs run)) (deny ErrorEventChain (ar_ID run)))
    (bind_res (checkGrants input now (False, False) '''' (ci_Grants input) (ec_Resources contract) (ar_CapabilityIDs run))
      (\<lambda>(workspaceSeen, modelSeen).
     if \<not> workspaceSeen then Inl (deny ErrorCapabilityDenied (ec_ID contract))
     else case (if modelSeen then dc_ModelBroker (ci_Ceilings input) else None) of
       None \<Rightarrow>
         if MaxInputTokens budgets \<noteq> None \<or> MaxOutputTokens budgets \<noteq> None \<or> MaxModelCalls budgets \<noteq> None
         then Inl (deny ErrorCapabilityDenied (ec_ID contract)) else Inr (None, NetworkNone)
     | Some broker \<Rightarrow>
         ok_then (check_each (\<lambda>_. checkModelBudget (ar_ID run)) 0
           [(MaxModelCalls budgets, ModelCalls used, bc_MaxModelCalls broker),
            (MaxInputTokens budgets, InputTokens used, bc_MaxInputTokens broker),
            (MaxOutputTokens budgets, OutputTokens used, bc_MaxOutputTokens broker)])
         (Inr (Some broker, NetworkModelBroker)))))"

section \<open>Time\<close>

text \<open>\<^verbatim>\<open>now.Add(time.Duration(seconds) * time.Second)\<close>\<close>

definition addSeconds :: "time \<Rightarrow> int64 \<Rightarrow> time" where
  "addSeconds now seconds = now + wrap64 (seconds * Second)"

definition sooner :: "time \<Rightarrow> time option \<Rightarrow> time" where
  "sooner notAfter bound = (case bound of None \<Rightarrow> notAfter | Some t \<Rightarrow> if t < notAfter then t else notAfter)"

definition timeoutBoundary :: "CompileInput \<Rightarrow> time \<Rightarrow> KernelError + time \<times> int64" where
  "timeoutBoundary input now = (let contract = ci_Contract input; run = ci_Run input;
       notAfter = foldl sooner (addSeconds now (dc_MaxWallTimeSeconds (ci_Ceilings input)))
         ([ec_Deadline contract, ar_Deadline run] @ map (\<lambda>grant. Some (cg_ExpiresAt grant)) (ci_Grants input)) in
     bind_res (case MaxWallTimeSeconds (ec_Budgets contract) of
         None \<Rightarrow> Inr notAfter
       | Some wall \<Rightarrow> let remaining = wrap64 (wall - WallTimeSeconds (ar_BudgetUsage run)) in
           if remaining < 1 then Inl (deny ErrorBudgetExceeded (ar_ID run))
           else Inr (sooner notAfter (Some (addSeconds now remaining)))) (\<lambda>notAfter.
     let maximum = go_quot (time_Sub notAfter now) Second in
     if maximum < 1 then Inl (deny ErrorCapabilityExpired (ar_ID run))
     else case ci_CallerTimeoutSeconds input of
       None \<Rightarrow> Inr (notAfter, maximum)
     | Some timeout \<Rightarrow>
         if timeout < 1 then Inl (deny ErrorSchemaInvalid (ar_ID run))
         else if timeout > maximum then Inl (deny ErrorCapabilityDenied (ar_ID run))
         else Inr (addSeconds now timeout, timeout)))"

section \<open>The plan\<close>

text \<open>Image and command against what was admitted: the image's digest, the command's digest and what is left of
  the command after its entry point.\<close>

definition checkExecutable :: "Hashing \<Rightarrow> CompileInput \<Rightarrow> KernelError + string \<times> string \<times> string list" where
  "checkExecutable H input = (let task = ci_Task input; run = ci_Run input; profile = tk_AgentProfile task;
       denied = deny ErrorCapabilityDenied (ar_ID run) in
     case ImageDigest (ci_ImageReference input) of
       None \<Rightarrow> Inl (deny ErrorSchemaInvalid (tk_ID task))
     | Some imageDigest \<Rightarrow>
         ok_then (first_error
           [fail_if (imageDigest \<noteq> tp_ImageDigest profile \<or> imageDigest \<noteq> ar_ImageDigest run) denied,
            fail_if (imageDigest \<notin> set (dc_AllowedImageDigests (ci_Ceilings input))) (deny ErrorCapabilityDenied imageDigest)])
         (case commandDigest H (ci_Command input) of
            None \<Rightarrow> Inl (deny ErrorSchemaInvalid (tk_ID task))
          | Some digest \<Rightarrow>
              if digest \<noteq> tp_CommandDigest profile then Inl denied
              else if tp_Entrypoint profile = '''' then Inr (imageDigest, digest, ci_Command input)
              else if hd (ci_Command input) \<noteq> tp_Entrypoint profile then Inl denied
              else Inr (imageDigest, digest, tl (ci_Command input))))"

definition CompilePlan :: "AdmissionHashing \<Rightarrow> Hashing \<Rightarrow> CompileInput \<Rightarrow> KernelError + ExecutionPlan" where
  "CompilePlan N H input = (let now = ci_Now input; task = ci_Task input; contract = ci_Contract input; run = ci_Run input;
       tx = ci_Transaction input in
     ok_then (first_error [fail_if (now = 0) (deny ErrorSchemaInvalid (ar_ID run)), validateObjects N H input,
         validatePlanBindings input, validateCeilings (ci_Ceilings input)])
    (bind_res (checkExecutable H input) (\<lambda>(imageDigest, digest, command).
     bind_res (validateGrants input now) (\<lambda>(modelPlan, network).
     bind_res (timeoutBoundary input now) (\<lambda>(notAfter, timeout).
     Inr \<lparr>xp_Namespace = tk_Namespace task, xp_TransactionID = tx_ID tx, xp_StageBindingID = sb_ID (hd (tx_StageBindings tx)),
       xp_TaskID = tk_ID task, xp_TaskDigest = tk_Digest task, xp_ContractID = ec_ID contract, xp_ContractDigest = ec_Digest contract,
       xp_RunID = ar_ID run, xp_CapabilityIDs = ar_CapabilityIDs run, xp_ImageReference = ci_ImageReference input,
       xp_ImageDigest = imageDigest, xp_CommandDigest = digest, xp_Entrypoint = tp_Entrypoint (tk_AgentProfile task),
       xp_Command = command, xp_WorkspaceAccess = WorkspaceReadWrite, xp_NetworkAccess = network, xp_ModelBroker = modelPlan,
       xp_CompiledAt = now, xp_NotAfter = notAfter, xp_TimeoutSeconds = timeout\<rparr>)))))"

end
