(* ===== verification/Plan_Safety.thy ===== *)
theory Plan_Safety
  imports Execution_Plan Execution_Store
begin

text \<open>
  What a compiled plan may do. \<open>plan_within\<close> states it of the plan and the stored authority alone; the
  lemmas follow the checks of \<^const>\<open>CompilePlan\<close> one by one.
\<close>

section \<open>The contract of a plan\<close>

text \<open>The conditions of a grant that no more than names a root.\<close>

definition plain_conditions :: "string \<Rightarrow> CapabilityConditions" where
  "plain_conditions root = \<lparr>cc_ApprovalRequired = False, cc_WorkspaceRoot = root, cc_EnvironmentAllow = [],
     cc_DataClassifications = [], cc_MaxOutputBytes = None\<rparr>"

text \<open>The grant that writing the workspace rests on, and the one that calling a model provider rests on.\<close>

definition workspace_grant :: "CapabilityGrant \<Rightarrow> bool" where
  "workspace_grant g \<longleftrightarrow> cg_Resource g = \<lparr>rs_Kind = ''filesystem'', rs_Pattern = ''workspace/**''\<rparr> \<and>
     cg_Operations g \<in> {[''filesystem.read'', ''filesystem.write''], [''filesystem.write'', ''filesystem.read'']} \<and>
     cg_Conditions g = plain_conditions ''workspace''"

definition model_grant :: "string \<Rightarrow> CapabilityGrant \<Rightarrow> bool" where
  "model_grant provider g \<longleftrightarrow> cg_Resource g = \<lparr>rs_Kind = ''model'', rs_Pattern = provider @ ''/*''\<rparr> \<and>
     cg_Operations g = [''model.invoke''] \<and> cg_Conditions g = plain_conditions ''''"

text \<open>What a plan may reach is what the grants say, and there is no other grant: the workspace for the one workspace grant,
  a network for the one model grant.\<close>

definition access_within :: "CapabilityGrant list \<Rightarrow> ExecutionPlan \<Rightarrow> bool" where
  "access_within grants plan \<longleftrightarrow> xp_WorkspaceAccess plan = ''rw'' \<and> (\<exists>w. workspace_grant w \<and>
     (case xp_ModelBroker plan of
        None \<Rightarrow> xp_NetworkAccess plan = ''none'' \<and> grants = [w]
      | Some broker \<Rightarrow> xp_NetworkAccess plan = ''internal_model_broker'' \<and>
          (\<exists>m. model_grant (bc_Provider broker) m \<and> (grants = [w, m] \<or> grants = [m, w]))))"

text \<open>The grants are the ones compiled for the resources of the contract, in their order.\<close>

definition compiled_for :: "ExecutionContract \<Rightarrow> CapabilityGrant list \<Rightarrow> bool" where
  "compiled_for contract grants \<longleftrightarrow> map cg_Resource grants = map cr_Selector (ec_Resources contract) \<and>
     map cg_Operations grants = map cr_Operations (ec_Resources contract) \<and>
     map cg_Conditions grants = map cr_Conditions (ec_Resources contract)"

text \<open>A grant that the plan rests on: the capability service issued it to the run when the run was created, under the
  decision of the first grant; it is neither revoked nor delegated, nor are its uses counted, and it is active
  from the plan's compilation until the plan ends, but not beyond the run's deadline.\<close>

definition grant_covers :: "AgentRun \<Rightarrow> string \<Rightarrow> CapabilityGrant \<Rightarrow> ExecutionPlan \<Rightarrow> bool" where
  "grant_covers run decision grant plan \<longleftrightarrow> cg_SubjectRunID grant = ar_ID run \<and> cg_Issuer grant = capabilityServicePrincipal \<and>
     cg_PolicyDecisionID grant = decision \<and> cg_RevokedAt grant = None \<and>
     \<not> cg_Delegable grant \<and> cg_DelegationParentID grant = '''' \<and> cg_MaxUses grant = None \<and>
     cg_IssuedAt grant = ar_CreatedAt run \<and> cg_IssuedAt grant \<le> xp_CompiledAt plan \<and> xp_CompiledAt plan < cg_ExpiresAt grant \<and>
     xp_NotAfter plan \<le> cg_ExpiresAt grant \<and> (\<forall>d. ar_Deadline run = Some d \<longrightarrow> cg_ExpiresAt grant \<le> d)"

definition grants_within :: "CompileInput \<Rightarrow> ExecutionPlan \<Rightarrow> bool" where
  "grants_within input plan \<longleftrightarrow> xp_CapabilityIDs plan = map cg_ID (ci_Grants input) \<and>
     ar_CapabilityIDs (ci_Run input) = map cg_ID (ci_Grants input) \<and>
     compiled_for (ci_Contract input) (ci_Grants input) \<and> access_within (ci_Grants input) plan \<and>
     (\<exists>decision. \<forall>grant\<in>set (ci_Grants input). grant_covers (ci_Run input) decision grant plan)"

text \<open>What is left of a budget covers an amount.\<close>

definition budget_covers :: "int64 option \<Rightarrow> int64 \<Rightarrow> int64 \<Rightarrow> bool" where
  "budget_covers limit used amount \<longleftrightarrow> (case limit of None \<Rightarrow> True | Some l \<Rightarrow> used + amount \<le> l)"

text \<open>A provider is the daemon's, with quotas of at least one that the budgets cover; without one there are no
  budgets for a model.\<close>

definition model_within :: "CompileInput \<Rightarrow> ExecutionPlan \<Rightarrow> bool" where
  "model_within input plan \<longleftrightarrow> (let budgets = ar_BudgetLimits (ci_Run input); used = ar_BudgetUsage (ci_Run input) in
     case xp_ModelBroker plan of
       None \<Rightarrow> MaxModelCalls budgets = None \<and> MaxInputTokens budgets = None \<and> MaxOutputTokens budgets = None
     | Some broker \<Rightarrow> dc_ModelBroker (ci_Ceilings input) = Some broker \<and> IsIdentifier (bc_Provider broker) \<and>
         IsSHA256Digest (bc_ImageDigest broker) \<and> IsSHA256Digest (bc_PolicyDigest broker) \<and> bc_AllowedModels broker \<noteq> [] \<and>
         (\<forall>m\<in>set (bc_AllowedModels broker). trim_space m = m \<and> m \<noteq> '''' \<and> \<not> has_nul m) \<and>
         1 \<le> bc_MaxModelCalls broker \<and> 1 \<le> bc_MaxInputTokens broker \<and> 1 \<le> bc_MaxOutputTokens broker \<and>
         1 \<le> bc_MaxOutputTokensPerRequest broker \<and> bc_MaxOutputTokensPerRequest broker \<le> bc_MaxOutputTokens broker \<and>
         budget_covers (MaxModelCalls budgets) (ModelCalls used) (bc_MaxModelCalls broker) \<and>
         budget_covers (MaxInputTokens budgets) (InputTokens used) (bc_MaxInputTokens broker) \<and>
         budget_covers (MaxOutputTokens budgets) (OutputTokens used) (bc_MaxOutputTokens broker))"

definition time_within :: "CompileInput \<Rightarrow> ExecutionPlan \<Rightarrow> bool" where
  "time_within input plan \<longleftrightarrow> xp_CompiledAt plan = ci_Now input \<and> ci_Now input \<noteq> 0 \<and> 1 \<le> xp_TimeoutSeconds plan \<and>
     xp_CompiledAt plan + xp_TimeoutSeconds plan * Second \<le> xp_NotAfter plan \<and>
     (\<forall>d. ar_Deadline (ci_Run input) = Some d \<longrightarrow> xp_NotAfter plan \<le> d) \<and>
     xp_TimeoutSeconds plan \<le> dc_MaxWallTimeSeconds (ci_Ceilings input) \<and>
     budget_covers (MaxWallTimeSeconds (ar_BudgetLimits (ci_Run input))) (WallTimeSeconds (ar_BudgetUsage (ci_Run input)))
       (xp_TimeoutSeconds plan) \<and>
     (\<forall>s. ci_CallerTimeoutSeconds input = Some s \<longrightarrow> xp_TimeoutSeconds plan = s)"

text \<open>What runs is what was admitted: \<open>whole\<close> is the entry point with its arguments, as the caller gave them.\<close>

definition executable_within :: "Hashing \<Rightarrow> CompileInput \<Rightarrow> ExecutionPlan \<Rightarrow> bool" where
  "executable_within H input plan \<longleftrightarrow> (let profile = tk_AgentProfile (ci_Task input);
       whole = (if xp_Entrypoint plan = '''' then xp_Command plan else xp_Entrypoint plan # xp_Command plan) in
     tp_RuntimeClass profile = ''oci'' \<and> xp_ImageReference plan = ci_ImageReference input \<and>
     ImageDigest (xp_ImageReference plan) = Some (xp_ImageDigest plan) \<and> xp_ImageDigest plan = tp_ImageDigest profile \<and>
     xp_ImageDigest plan = ar_ImageDigest (ci_Run input) \<and> xp_ImageDigest plan \<in> set (dc_AllowedImageDigests (ci_Ceilings input)) \<and>
     whole = ci_Command input \<and> whole \<noteq> [] \<and> \<not> blank (hd whole) \<and> (\<forall>w\<in>set whole. \<not> has_nul w) \<and>
     xp_Entrypoint plan = tp_Entrypoint profile \<and> xp_CommandDigest plan = tp_CommandDigest profile \<and>
     ComputeCommandDigest H whole = Some (tp_CommandDigest profile))"

text \<open>The plan names one task, contract, run and transaction, which are valid and name each other; the sponsor of the
  transaction owns the contract and is the only one whom the run acts for; the run waits for a
  launch, and the transaction runs with one stage and without an execution in progress.\<close>

definition lineage_within :: "CompileInput \<Rightarrow> ExecutionPlan \<Rightarrow> bool" where
  "lineage_within input plan \<longleftrightarrow> (let task = ci_Task input; contract = ci_Contract input; run = ci_Run input; tx = ci_Transaction input in
     xp_Namespace plan = tk_Namespace task \<and> xp_Namespace plan = ar_Namespace run \<and> xp_Namespace plan = tx_Namespace tx \<and>
     xp_TaskID plan = tk_ID task \<and> xp_TaskDigest plan = tk_Digest task \<and> tx_Task tx = Some task \<and>
     xp_ContractID plan = ec_ID contract \<and> xp_ContractDigest plan = ec_Digest contract \<and> ar_ContractDigest run = ec_Digest contract \<and>
     xp_RunID plan = ar_ID run \<and> tk_RunID task = ar_ID run \<and> tx_AgentRunIDs tx = [ar_ID run] \<and>
     xp_TransactionID plan = tx_ID tx \<and> tk_TransactionID task = tx_ID tx \<and> tx_IntentDigest tx = tk_IntentDigest task \<and>
     (\<exists>binding. tx_Admission tx = Some binding \<and> ab_TaskDigest binding = tk_Digest task \<and> ab_RunID binding = ar_ID run \<and>
        ab_ContractDigest binding = ec_Digest contract) \<and>
     ec_Owner contract = tx_Sponsor tx \<and> ar_DelegationChain run = [tx_Sponsor tx] \<and>
     ar_Deadline run = ec_Deadline contract \<and> ar_BudgetLimits run = ec_Budgets contract \<and>
     tx_State tx = TransactionRunning \<and> (\<exists>stage. tx_StageBindings tx = [stage] \<and> xp_StageBindingID plan = sb_ID stage))"

definition launchable :: "CompileInput \<Rightarrow> bool" where
  "launchable input \<longleftrightarrow> (let run = ci_Run input in
     ar_State run \<in> {RunAdmitted, RunWaitingForAgent, RunWaitingForEvent} \<and> ar_ActiveExecutionID run = '''' \<and> ar_Runtime run = None \<and>
     ar_ParentRunID run = '''' \<and> ar_CheckpointID run = '''' \<and> ar_OutstandingApprovalIDs run = [] \<and>
     (\<forall>execution\<in>set (ci_Executions input). ax_Status execution \<in>
        {AgentExecutionSucceeded, AgentExecutionFailed, AgentExecutionInterrupted, AgentExecutionStartFailed}))"

text \<open>The contract asks for nothing that a plan cannot keep.\<close>

definition enforceable :: "ExecutionContract \<Rightarrow> bool" where
  "enforceable contract \<longleftrightarrow> ec_MaxChildDepth contract = None \<and> ec_MaxChildren contract = None \<and> ec_Checkpoints contract = [] \<and>
     ec_Obligations contract = [] \<and> ec_Escalation contract = None \<and> ec_ReleaseContractRef contract = '''' \<and>
     MaxToolCalls (ec_Budgets contract) = None \<and> MaxCostMicros (ec_Budgets contract) = None"

text \<open>Everything that the plan rests on is valid in itself, and the contract has its own digest.\<close>

definition sound_objects :: "AdmissionHashing \<Rightarrow> Hashing \<Rightarrow> CompileInput \<Rightarrow> bool" where
  "sound_objects N H input \<longleftrightarrow> AgentTask_Validate H (ci_Task input) = None \<and> ExecutionContract_Validate (ci_Contract input) = None \<and>
     AgentRun_Validate (ci_Run input) = None \<and> AgentTransaction_Validate H (ci_Transaction input) = None \<and>
     ComputeExecutionContractDigest N (ci_Contract input) = Some (ec_Digest (ci_Contract input)) \<and>
     (\<forall>grant\<in>set (ci_Grants input). CapabilityGrant_Validate grant = None)"

definition plan_within :: "AdmissionHashing \<Rightarrow> Hashing \<Rightarrow> CompileInput \<Rightarrow> ExecutionPlan \<Rightarrow> bool" where
  "plan_within N H input plan \<longleftrightarrow> sound_objects N H input \<and> lineage_within input plan \<and> launchable input \<and>
     enforceable (ci_Contract input) \<and> grants_within input plan \<and> executable_within H input plan \<and>
     model_within input plan \<and> time_within input plan"

section \<open>Time\<close>

lemma wrap64_le: "0 \<le> x \<Longrightarrow> wrap64 x \<le> x"
  using zmod_le_nonneg_dividend [of "x + 2 ^ 63" "2 ^ 64"] by (simp add: wrap64_def)

lemma addSeconds_le: "1 \<le> s \<Longrightarrow> addSeconds now s \<le> now + s * Second"
  by (simp add: addSeconds_def wrap64_le Second_def)

lemma addSeconds_exact: "0 \<le> s \<Longrightarrow> s * Second \<le> max64 \<Longrightarrow> addSeconds now s = now + s * Second"
  by (simp add: addSeconds_def wrap64_id in64_def min64_def Second_def)

lemma sooner_le: "sooner t b \<le> t" "sooner t (Some u) \<le> u"
  by (auto simp: sooner_def split: option.splits)

lemma foldl_sooner: "foldl sooner t bs \<le> t \<and> (\<forall>u. Some u \<in> set bs \<longrightarrow> foldl sooner t bs \<le> u)"
proof (induction bs arbitrary: t)
  case (Cons b bs)
  note ih = Cons.IH [of "sooner t b"]
  then have "foldl sooner t (b # bs) \<le> t" using sooner_le(1) [of t b] by simp
  moreover have "foldl sooner t (b # bs) \<le> u" if "Some u \<in> set (b # bs)" for u
    using that ih sooner_le(2) [of t u] by auto
  ultimately show ?case by blast
qed simp

lemma whole_seconds:
  assumes "m = go_quot (time_Sub notAfter now) Second" and "1 \<le> m"
  shows "now + m * Second \<le> notAfter" "m * Second \<le> max64"
proof -
  let ?d = "time_Sub notAfter now"
  have "go_quot ?d Second = sgn ?d * (\<bar>?d\<bar> div Second)" "0 \<le> \<bar>?d\<bar> div Second" by (simp_all add: go_quot_def Second_def)
  moreover have "sgn ?d \<le> 0" if "?d \<le> 0" using that by (simp add: sgn_if)
  ultimately have pos: "0 < ?d"
    using assms mult_nonpos_nonneg [of "sgn ?d" "\<bar>?d\<bar> div Second"] by (cases "?d \<le> 0") linarith+
  then have m: "m = ?d div Second" using assms(1) by (simp add: go_quot_def Second_def)
  then have "m * Second \<le> ?d" by (simp add: Second_def)
  with pos show "now + m * Second \<le> notAfter" "m * Second \<le> max64"
    by (auto simp: time_Sub_def min64_def max_def min_def split: if_splits)
qed

lemma timeoutBoundary_Inr:
  assumes t: "timeoutBoundary input now = Inr (notAfter, seconds)" and c: "1 \<le> dc_MaxWallTimeSeconds (ci_Ceilings input)"
  shows "1 \<le> seconds" "now + seconds * Second \<le> notAfter" "\<forall>d. ar_Deadline (ci_Run input) = Some d \<longrightarrow> notAfter \<le> d"
    "\<forall>grant\<in>set (ci_Grants input). notAfter \<le> cg_ExpiresAt grant"
    "seconds \<le> dc_MaxWallTimeSeconds (ci_Ceilings input)"
    "\<forall>l. MaxWallTimeSeconds (ec_Budgets (ci_Contract input)) = Some l \<longrightarrow>
       seconds \<le> wrap64 (l - WallTimeSeconds (ar_BudgetUsage (ci_Run input)))"
    "\<forall>s. ci_CallerTimeoutSeconds input = Some s \<longrightarrow> seconds = s"
proof -
  let ?m = "dc_MaxWallTimeSeconds (ci_Ceilings input)" and ?w = "MaxWallTimeSeconds (ec_Budgets (ci_Contract input))"
  let ?r = "\<lambda>wall. wrap64 (wall - WallTimeSeconds (ar_BudgetUsage (ci_Run input)))"
  let ?bs = "[ec_Deadline (ci_Contract input), ar_Deadline (ci_Run input)] @ map (\<lambda>grant. Some (cg_ExpiresAt grant)) (ci_Grants input)"
  define base where "base = foldl sooner (addSeconds now ?m) ?bs"
  have b: "base \<le> addSeconds now ?m" "\<And>u. Some u \<in> set ?bs \<Longrightarrow> base \<le> u"
    using foldl_sooner unfolding base_def by blast+
  let ?wall = "case ?w of None \<Rightarrow> Inr base | Some wall \<Rightarrow> if ?r wall < 1 then Inl (deny ErrorBudgetExceeded (ar_ID (ci_Run input)))
    else Inr (sooner base (Some (addSeconds now (?r wall))))"
  have eq: "timeoutBoundary input now = bind_res ?wall (\<lambda>na. let maximum = go_quot (time_Sub na now) Second in
     if maximum < 1 then Inl (deny ErrorCapabilityExpired (ar_ID (ci_Run input)))
     else case ci_CallerTimeoutSeconds input of
       None \<Rightarrow> Inr (na, maximum)
     | Some timeout \<Rightarrow>
         if timeout < 1 then Inl (deny ErrorSchemaInvalid (ar_ID (ci_Run input)))
         else if timeout > maximum then Inl (deny ErrorCapabilityDenied (ar_ID (ci_Run input)))
         else Inr (addSeconds now timeout, timeout))"
    unfolding timeoutBoundary_def Let_def base_def by (rule refl)
  from t [unfolded eq bind_res_Inr Let_def] obtain na where w: "?wall = Inr na"
    and r: "(if go_quot (time_Sub na now) Second < 1 then Inl (deny ErrorCapabilityExpired (ar_ID (ci_Run input)))
     else case ci_CallerTimeoutSeconds input of
       None \<Rightarrow> Inr (na, go_quot (time_Sub na now) Second)
     | Some timeout \<Rightarrow>
         if timeout < 1 then Inl (deny ErrorSchemaInvalid (ar_ID (ci_Run input)))
         else if timeout > go_quot (time_Sub na now) Second then Inl (deny ErrorCapabilityDenied (ar_ID (ci_Run input)))
         else Inr (addSeconds now timeout, timeout)) = Inr (notAfter, seconds)" by blast
  from w have na: "case ?w of None \<Rightarrow> na = base | Some wall \<Rightarrow> 1 \<le> ?r wall \<and> na = sooner base (Some (addSeconds now (?r wall)))"
    by (cases ?w) (simp_all split: if_splits)
  from r have q: "1 \<le> go_quot (time_Sub na now) Second" by (simp split: if_splits)
  with r have s: "case ci_CallerTimeoutSeconds input of
        None \<Rightarrow> notAfter = na \<and> seconds = go_quot (time_Sub na now) Second
      | Some s \<Rightarrow> 1 \<le> s \<and> s \<le> go_quot (time_Sub na now) Second \<and> notAfter = addSeconds now s \<and> seconds = s"
    by (cases "ci_CallerTimeoutSeconds input") (auto split: if_splits)
  have na_le: "na \<le> base" using na sooner_le(1) by (auto split: option.splits)
  note whole = whole_seconds [OF refl q]
  have sec: "1 \<le> seconds" "seconds \<le> go_quot (time_Sub na now) Second" using s q by (auto split: option.splits)
  then have le: "seconds * Second \<le> go_quot (time_Sub na now) Second * Second" by (simp add: Second_def)
  have up: "now + seconds * Second \<le> na" using le whole(1) by linarith
  have "addSeconds now seconds = now + seconds * Second" using sec(1) le whole(2) by (intro addSeconds_exact) linarith+
  then have fin: "now + seconds * Second \<le> notAfter" "notAfter \<le> na" using s up by (auto split: option.splits)
  show "1 \<le> seconds" by (rule sec(1))
  show "now + seconds * Second \<le> notAfter" by (rule fin(1))
  show "\<forall>d. ar_Deadline (ci_Run input) = Some d \<longrightarrow> notAfter \<le> d"
  proof (intro allI impI)
    fix d assume "ar_Deadline (ci_Run input) = Some d"
    then have "base \<le> d" by (intro b(2)) simp
    with fin na_le show "notAfter \<le> d" by linarith
  qed
  show "\<forall>grant\<in>set (ci_Grants input). notAfter \<le> cg_ExpiresAt grant"
  proof
    fix grant assume "grant \<in> set (ci_Grants input)"
    then have "base \<le> cg_ExpiresAt grant" by (intro b(2)) auto
    with fin na_le show "notAfter \<le> cg_ExpiresAt grant" by linarith
  qed
  have "seconds * Second \<le> ?m * Second" using fin na_le b(1) addSeconds_le [OF c, of now] by linarith
  then show "seconds \<le> ?m" by (simp add: Second_def)
  show "\<forall>l. ?w = Some l \<longrightarrow> seconds \<le> ?r l"
  proof (intro allI impI)
    fix l assume "?w = Some l"
    with na have r: "1 \<le> ?r l" "na \<le> addSeconds now (?r l)" using sooner_le(2) by auto
    then have "seconds * Second \<le> ?r l * Second" using fin addSeconds_le [OF r(1), of now] by linarith
    then show "seconds \<le> ?r l" by (simp add: Second_def)
  qed
  show "\<forall>s. ci_CallerTimeoutSeconds input = Some s \<longrightarrow> seconds = s" using s by auto
qed

section \<open>Grants and budgets\<close>

definition of_kind :: "string \<Rightarrow> CapabilityGrant list \<Rightarrow> CapabilityGrant list" where
  "of_kind kind grants = filter (\<lambda>g. rs_Kind (cg_Resource g) = kind) grants"

lemma exactOperations_1: "exactOperations ops [x] \<longleftrightarrow> ops = [x]"
  by (cases ops) (auto simp: exactOperations_def)

lemma exactOperations_2: "x \<noteq> y \<Longrightarrow> exactOperations ops [x, y] \<longleftrightarrow> ops = [x, y] \<or> ops = [y, x]"
  by (auto simp: exactOperations_def length_Suc_conv numeral_2_eq_2)

lemma supported_workspace: "\<not> unsupportedConditions c True \<and> cc_WorkspaceRoot c = root \<longleftrightarrow> c = plain_conditions root"
  by (cases c) (auto simp: unsupportedConditions_def plain_conditions_def)

lemma supported_model: "\<not> unsupportedConditions c False \<longleftrightarrow> c = plain_conditions ''''"
  by (cases c) (auto simp: unsupportedConditions_def plain_conditions_def)

lemma selector_eq: "rs_Kind s = k \<and> rs_Pattern s = p \<longleftrightarrow> s = \<lparr>rs_Kind = k, rs_Pattern = p\<rparr>"
  by (cases s) auto

text \<open>One round.\<close>

lemma checkGrants_Cons:
  assumes "checkGrants input now (ws, ms) decision (g # gs) (r # rs) (i # ids) = Inr (ws', ms')"
  shows "checkGrant input now decision g r i = None"
    and "\<exists>ws1 ms1. checkGrants input now (ws1, ms1) (if decision = '''' then cg_PolicyDecisionID g else decision) gs rs ids = Inr (ws', ms') \<and>
      (\<not> ws \<and> ws1 \<and> ms1 = ms \<and> workspace_grant g \<or>
       \<not> ms \<and> ms1 \<and> ws1 = ws \<and> (\<exists>b. dc_ModelBroker (ci_Ceilings input) = Some b \<and> model_grant (bc_Provider b) g))"
proof -
  from assms show g: "checkGrant input now decision g r i = None" by (simp add: Let_def)
  then have e: "cg_Resource g = cr_Selector r" "cg_Operations g = cr_Operations r" "cg_Conditions g = cr_Conditions r"
    by (auto simp: checkGrant_def Let_def)
  have mk: "ModelResourceKind \<noteq> ''filesystem''" by (simp add: ModelResourceKind_def)
  have w: "workspace_grant g \<longleftrightarrow> rs_Kind (cr_Selector r) = ''filesystem'' \<and> rs_Pattern (cr_Selector r) = ''workspace/**'' \<and>
      exactOperations (cr_Operations r) [''filesystem.read'', ''filesystem.write''] \<and>
      cc_WorkspaceRoot (cr_Conditions r) = ''workspace'' \<and> \<not> unsupportedConditions (cr_Conditions r) True"
    by (simp add: workspace_grant_def e exactOperations_2 supported_workspace [symmetric] selector_eq [symmetric]) blast
  have m: "model_grant p g \<longleftrightarrow> rs_Kind (cr_Selector r) = ModelResourceKind \<and> rs_Pattern (cr_Selector r) = p @ ''/*'' \<and>
      exactOperations (cr_Operations r) [ModelInvoke] \<and> \<not> unsupportedConditions (cr_Conditions r) False" for p
    by (simp add: model_grant_def e exactOperations_1 supported_model selector_eq [symmetric] ModelResourceKind_def ModelInvoke_def)
  from assms g mk show "\<exists>ws1 ms1. checkGrants input now (ws1, ms1) (if decision = '''' then cg_PolicyDecisionID g else decision) gs rs ids = Inr (ws', ms') \<and>
      (\<not> ws \<and> ws1 \<and> ms1 = ms \<and> workspace_grant g \<or>
       \<not> ms \<and> ms1 \<and> ws1 = ws \<and> (\<exists>b. dc_ModelBroker (ci_Ceilings input) = Some b \<and> model_grant (bc_Provider b) g))"
    unfolding w m by (simp add: Let_def split: if_splits option.splits) blast+
qed

lemma grant_kinds: "workspace_grant g \<Longrightarrow> rs_Kind (cg_Resource g) = ''filesystem''" "model_grant p g \<Longrightarrow> rs_Kind (cg_Resource g) = ''model''"
  by (simp_all add: workspace_grant_def model_grant_def)

text \<open>The whole loop, and what it says of the single grants.\<close>

lemma checkGrants_loop:
  assumes "checkGrants input now (ws, ms) decision gs rs ids = Inr (ws', ms')" and "length gs = length rs" and "length gs = length ids"
    and "\<forall>g\<in>set gs. cg_PolicyDecisionID g \<noteq> ''''"
  shows "map cg_ID gs = ids \<and> map cg_Resource gs = map cr_Selector rs \<and> map cg_Operations gs = map cr_Operations rs \<and>
    map cg_Conditions gs = map cr_Conditions rs \<and> (\<forall>g\<in>set gs. \<exists>decision r i. checkGrant input now decision g r i = None) \<and>
    (\<forall>g\<in>set gs. cg_PolicyDecisionID g = (if decision = '''' then cg_PolicyDecisionID (hd gs) else decision)) \<and>
    (\<forall>g\<in>set gs. workspace_grant g \<or> (\<exists>b. dc_ModelBroker (ci_Ceilings input) = Some b \<and> model_grant (bc_Provider b) g)) \<and>
    length (of_kind ''filesystem'' gs) + of_bool ws = of_bool ws' \<and> length (of_kind ''model'' gs) + of_bool ms = of_bool ms'"
  using assms
proof (induction gs arbitrary: ws ms decision rs ids)
  case (Cons g gs)
  from Cons.prems(2,3) obtain r rs' i ids' where l: "rs = r # rs'" "ids = i # ids'" by (metis length_Suc_conv)
  note round = checkGrants_Cons [OF Cons.prems(1) [unfolded l]]
  let ?d = "if decision = '''' then cg_PolicyDecisionID g else decision"
  from round(2) obtain ws1 ms1 where rest: "checkGrants input now (ws1, ms1) ?d gs rs' ids' = Inr (ws', ms')"
    and k: "\<not> ws \<and> ws1 \<and> ms1 = ms \<and> workspace_grant g \<or>
       \<not> ms \<and> ms1 \<and> ws1 = ws \<and> (\<exists>b. dc_ModelBroker (ci_Ceilings input) = Some b \<and> model_grant (bc_Provider b) g)" by blast
  have n: "length gs = length rs'" "length gs = length ids'" "\<forall>g\<in>set gs. cg_PolicyDecisionID g \<noteq> ''''"
    using Cons.prems(2-4) l by auto
  from round(1) have e: "cg_ID g = i" "cg_Resource g = cr_Selector r" "cg_Operations g = cr_Operations r" "cg_Conditions g = cr_Conditions r"
    "decision \<noteq> '''' \<longrightarrow> decision = cg_PolicyDecisionID g" by (auto simp: checkGrant_def Let_def)
  have d: "?d \<noteq> ''''" using Cons.prems(4) by simp
  have kinds: "length (of_kind ''filesystem'' (g # gs)) + of_bool ws = length (of_kind ''filesystem'' gs) + of_bool ws1"
    "length (of_kind ''model'' (g # gs)) + of_bool ms = length (of_kind ''model'' gs) + of_bool ms1"
    using k by (auto simp: of_kind_def dest!: grant_kinds)
  from Cons.IH [OF rest n] kinds e d k l round(1) show ?case by (auto split: if_splits)
qed (simp_all add: of_kind_def)

lemma checkGrants_Inr:
  assumes "checkGrants input now (False, False) '''' gs rs ids = Inr (ws, ms)" and "length gs = length rs" and "length gs = length ids"
    and "\<forall>g\<in>set gs. cg_PolicyDecisionID g \<noteq> ''''"
  shows "map cg_ID gs = ids" "map cg_Resource gs = map cr_Selector rs" "map cg_Operations gs = map cr_Operations rs"
    "map cg_Conditions gs = map cr_Conditions rs"
    "\<forall>g\<in>set gs. \<exists>decision r i. checkGrant input now decision g r i = None"
    "\<forall>g\<in>set gs. cg_PolicyDecisionID g = cg_PolicyDecisionID (hd gs)"
    "\<forall>g\<in>set gs. workspace_grant g \<or> (\<exists>b. dc_ModelBroker (ci_Ceilings input) = Some b \<and> model_grant (bc_Provider b) g)"
    "length (of_kind ''filesystem'' gs) = of_bool ws" "length (of_kind ''model'' gs) = of_bool ms"
  using checkGrants_loop [OF assms] by simp_all

text \<open>Lists of at most one grant of each kind.\<close>

lemma two_kinds:
  assumes "\<forall>g\<in>set gs. rs_Kind (cg_Resource g) = ''filesystem'' \<or> rs_Kind (cg_Resource g) = ''model''"
  shows "length gs = length (of_kind ''filesystem'' gs) + length (of_kind ''model'' gs)"
  using assms by (induction gs) (auto simp: of_kind_def)

lemma access_grants:
  assumes "\<forall>g\<in>set gs. workspace_grant g \<or> (\<exists>b. broker = Some b \<and> model_grant (bc_Provider b) g)"
    and "length (of_kind ''filesystem'' gs) = 1" and "length (of_kind ''model'' gs) = of_bool ms"
  shows "\<exists>w. workspace_grant w \<and> (if ms then \<exists>b m. broker = Some b \<and> model_grant (bc_Provider b) m \<and> (gs = [w, m] \<or> gs = [m, w])
    else gs = [w])"
proof -
  have "\<forall>g\<in>set gs. rs_Kind (cg_Resource g) = ''filesystem'' \<or> rs_Kind (cg_Resource g) = ''model''"
    using assms(1) by (auto dest: grant_kinds)
  from two_kinds [OF this] assms(2,3) have n: "length gs = Suc (of_bool ms)" by simp
  have w: "workspace_grant g \<longleftrightarrow> rs_Kind (cg_Resource g) = ''filesystem''" if "g \<in> set gs" for g
  proof
    assume f: "rs_Kind (cg_Resource g) = ''filesystem''"
    from assms(1) that have "workspace_grant g \<or> (\<exists>b. broker = Some b \<and> model_grant (bc_Provider b) g)" by (rule bspec)
    then show "workspace_grant g" using f by (auto dest: grant_kinds(2))
  qed (rule grant_kinds(1))
  show ?thesis
  proof (cases ms)
    case True
    with n obtain g h where gs: "gs = [g, h]" by (auto simp: length_Suc_conv)
    have "workspace_grant g \<and> \<not> workspace_grant h \<or> \<not> workspace_grant g \<and> workspace_grant h"
      using assms(2) w [of g] w [of h] unfolding gs of_kind_def by (simp split: if_splits)
    moreover have "workspace_grant g \<or> (\<exists>b. broker = Some b \<and> model_grant (bc_Provider b) g)"
      "workspace_grant h \<or> (\<exists>b. broker = Some b \<and> model_grant (bc_Provider b) h)" using assms(1) unfolding gs by simp_all
    ultimately show ?thesis using True unfolding gs by (simp only: if_True) blast
  next
    case False
    with n obtain g where gs: "gs = [g]" by (auto simp: length_Suc_conv)
    have "workspace_grant g" using assms(2) w [of g] unfolding gs of_kind_def by (simp split: if_splits)
    with gs False show ?thesis by simp
  qed
qed

lemma checkModelBudget_None:
  assumes "checkModelBudget i (limit, used, amount) = None" and "0 \<le> used" and "\<And>l. limit = Some l \<Longrightarrow> used \<le> l \<and> l \<le> max64"
  shows "budget_covers limit used amount"
proof (cases limit)
  case (Some l)
  with assms have "wrap64 (l - used) = l - used" by (simp add: wrap64_eq_iff in64_def min64_def)
  with Some assms(1) show ?thesis by (simp add: checkModelBudget_def Let_def budget_covers_def)
qed (simp add: budget_covers_def)

text \<open>What the loop over the grants and the quotas establish.\<close>

lemma validateGrants_Inr:
  assumes "validateGrants input now = Inr (broker, network)" and v: "\<forall>g\<in>set (ci_Grants input). cg_PolicyDecisionID g \<noteq> ''''"
  obtains ms where "checkGrants input now (False, False) '''' (ci_Grants input) (ec_Resources (ci_Contract input))
      (ar_CapabilityIDs (ci_Run input)) = Inr (True, ms)"
    and "length (ci_Grants input) = length (ec_Resources (ci_Contract input))" "length (ci_Grants input) = length (ar_CapabilityIDs (ci_Run input))"
    and "broker = (if ms then dc_ModelBroker (ci_Ceilings input) else None)"
    and "ms \<longrightarrow> broker \<noteq> None"
    and "let budgets = ec_Budgets (ci_Contract input); used = ar_BudgetUsage (ci_Run input);
          ok = (\<lambda>x. checkModelBudget (ar_ID (ci_Run input)) x = None) in
      case broker of
        None \<Rightarrow> network = NetworkNone \<and> MaxModelCalls budgets = None \<and> MaxInputTokens budgets = None \<and> MaxOutputTokens budgets = None
      | Some b \<Rightarrow> network = NetworkModelBroker \<and> ok (MaxModelCalls budgets, ModelCalls used, bc_MaxModelCalls b) \<and>
          ok (MaxInputTokens budgets, InputTokens used, bc_MaxInputTokens b) \<and>
          ok (MaxOutputTokens budgets, OutputTokens used, bc_MaxOutputTokens b)"
proof -
  from assms(1) obtain ws ms where c: "checkGrants input now (False, False) '''' (ci_Grants input) (ec_Resources (ci_Contract input))
      (ar_CapabilityIDs (ci_Run input)) = Inr (ws, ms)"
    and l: "length (ci_Grants input) = length (ec_Resources (ci_Contract input))"
      "length (ci_Grants input) = length (ar_CapabilityIDs (ci_Run input))"
    and ws: "ws"
    by (auto simp: validateGrants_def Let_def split: if_splits)
  note ok = checkGrants_Inr [OF c l v]
  have some: "dc_ModelBroker (ci_Ceilings input) \<noteq> None" if ms
  proof -
    from ok(9) that have "of_kind ''model'' (ci_Grants input) \<noteq> []" by auto
    then obtain g where g: "g \<in> set (ci_Grants input)" "rs_Kind (cg_Resource g) = ''model''"
      by (auto simp: of_kind_def filter_empty_conv)
    with ok(7) grant_kinds(1) [of g] show ?thesis by auto
  qed
  let ?b = "if ms then dc_ModelBroker (ci_Ceilings input) else None"
  show thesis
  proof (rule that [of ms])
    show "checkGrants input now (False, False) '''' (ci_Grants input) (ec_Resources (ci_Contract input))
      (ar_CapabilityIDs (ci_Run input)) = Inr (True, ms)" using c ws by simp
    show b: "broker = ?b"
      using assms(1) c l ws by (cases ?b) (auto simp: validateGrants_def Let_def split: if_splits option.splits)
    show "ms \<longrightarrow> broker \<noteq> None" using b some by simp
    show "let budgets = ec_Budgets (ci_Contract input); used = ar_BudgetUsage (ci_Run input);
          ok = (\<lambda>x. checkModelBudget (ar_ID (ci_Run input)) x = None) in
      case broker of
        None \<Rightarrow> network = NetworkNone \<and> MaxModelCalls budgets = None \<and> MaxInputTokens budgets = None \<and> MaxOutputTokens budgets = None
      | Some b \<Rightarrow> network = NetworkModelBroker \<and> ok (MaxModelCalls budgets, ModelCalls used, bc_MaxModelCalls b) \<and>
          ok (MaxInputTokens budgets, InputTokens used, bc_MaxInputTokens b) \<and>
          ok (MaxOutputTokens budgets, OutputTokens used, bc_MaxOutputTokens b)"
      using assms(1) c l ws b by (cases ?b) (auto simp: validateGrants_def Let_def split: if_splits)
  qed (use l in simp_all)
qed

section \<open>The plan\<close>

lemma checkExecutable_Inr:
  assumes "checkExecutable H input = Inr (img, digest, command)"
  shows "ImageDigest (ci_ImageReference input) = Some img \<and> img = tp_ImageDigest (tk_AgentProfile (ci_Task input)) \<and>
    img = ar_ImageDigest (ci_Run input) \<and> img \<in> set (dc_AllowedImageDigests (ci_Ceilings input)) \<and>
    digest = tp_CommandDigest (tk_AgentProfile (ci_Task input)) \<and>
    ci_Command input = (let entry = tp_Entrypoint (tk_AgentProfile (ci_Task input)) in if entry = '''' then command else entry # command) \<and>
    ci_Command input \<noteq> [] \<and> \<not> blank (hd (ci_Command input)) \<and> (\<forall>w\<in>set (ci_Command input). \<not> has_nul w) \<and>
    ComputeCommandDigest H (ci_Command input) = Some digest"
  using assms
  by (cases "ci_Command input") (auto simp: checkExecutable_def Let_def commandDigest_def list_ex_iff split: option.splits if_splits)

text \<open>The checks of the bindings, as facts.\<close>

lemma validatePlanBindings_None:
  assumes "validatePlanBindings input = None"
  shows "tp_RuntimeClass (tk_AgentProfile (ci_Task input)) = ''oci''" "launchable input" "enforceable (ci_Contract input)"
    "crossBound input" "tx_State (ci_Transaction input) = TransactionRunning" "\<exists>stage. tx_StageBindings (ci_Transaction input) = [stage]"
    "ec_Owner (ci_Contract input) = tx_Sponsor (ci_Transaction input)"
    "ar_DelegationChain (ci_Run input) = [tx_Sponsor (ci_Transaction input)]"
    "ar_Deadline (ci_Run input) = ec_Deadline (ci_Contract input)" "ar_BudgetLimits (ci_Run input) = ec_Budgets (ci_Contract input)"
proof -
  have st: "executionLaunchableRunState s \<Longrightarrow> s \<in> {RunAdmitted, RunWaitingForAgent, RunWaitingForEvent}" for s by (cases s) simp_all
  have ax: "(case s of AgentExecutionSucceeded \<Rightarrow> False | AgentExecutionFailed \<Rightarrow> False | AgentExecutionInterrupted \<Rightarrow> False
      | AgentExecutionStartFailed \<Rightarrow> False | _ \<Rightarrow> True) \<or>
      s \<in> {AgentExecutionSucceeded, AgentExecutionFailed, AgentExecutionInterrupted, AgentExecutionStartFailed}" for s
    by (cases s) simp_all
  then have ac: "\<not> hasActiveExecution xs \<Longrightarrow> \<forall>x\<in>set xs. ax_Status x \<in>
      {AgentExecutionSucceeded, AgentExecutionFailed, AgentExecutionInterrupted, AgentExecutionStartFailed}" for xs
    unfolding hasActiveExecution_def list_ex_iff by blast
  note facts = assms [unfolded validatePlanBindings_def Let_def, simplified]
  show "launchable input" using facts st ac unfolding launchable_def Let_def by blast
  show "enforceable (ci_Contract input)" using facts by (auto simp: enforceable_def unsupportedControls_def)
  show "\<exists>stage. tx_StageBindings (ci_Transaction input) = [stage]" using facts by (auto simp: length_Suc_conv)
  show "tp_RuntimeClass (tk_AgentProfile (ci_Task input)) = ''oci''" "crossBound input"
    "tx_State (ci_Transaction input) = TransactionRunning" "ec_Owner (ci_Contract input) = tx_Sponsor (ci_Transaction input)"
    "ar_DelegationChain (ci_Run input) = [tx_Sponsor (ci_Transaction input)]"
    "ar_Deadline (ci_Run input) = ec_Deadline (ci_Contract input)" "ar_BudgetLimits (ci_Run input) = ec_Budgets (ci_Contract input)"
    using facts by blast+
qed

lemma validateObjects_None:
  assumes "validateObjects N H input = None"
  shows "sound_objects N H input" "\<forall>g\<in>set (ci_Grants input). cg_PolicyDecisionID g \<noteq> ''''"
proof -
  have each: "check_each (\<lambda>_. CapabilityGrant_Validate) 0 gs = None \<longleftrightarrow> (\<forall>g\<in>set gs. CapabilityGrant_Validate g = None)" for gs
    by (rule check_each_None) simp
  show s: "sound_objects N H input"
    using assms unfolding validateObjects_def sound_objects_def Let_def by (auto simp: each split: option.splits)
  show "\<forall>g\<in>set (ci_Grants input). cg_PolicyDecisionID g \<noteq> ''''"
  proof
    fix g assume "g \<in> set (ci_Grants input)"
    with s have "CapabilityGrant_Validate g = None" by (simp add: sound_objects_def)
    then show "cg_PolicyDecisionID g \<noteq> ''''" by (auto simp: CapabilityGrant_Validate_def Let_def validateIdentifier_def)
  qed
qed

lemma budget_covers_wrap:
  assumes "within_limit used limit" and "\<forall>l. limit = Some l \<longrightarrow> l \<le> max64"
    and "\<forall>l. limit = Some l \<longrightarrow> amount \<le> wrap64 (l - used)"
  shows "budget_covers limit used amount"
  using assms by (auto simp: budget_covers_def within_limit_def wrap64_id in64_def min64_def split: option.splits)

theorem CompilePlan_within:
  assumes "CompilePlan N H input = Inr plan" and l: "limits_in64 (ar_BudgetLimits (ci_Run input))"
  shows "plan_within N H input plan"
proof -
  let ?run = "ci_Run input" and ?task = "ci_Task input" and ?contract = "ci_Contract input" and ?tx = "ci_Transaction input"
  from assms(1) obtain img digest command broker network notAfter seconds where
      v: "validateObjects N H input = None" "validatePlanBindings input = None" "validateCeilings (ci_Ceilings input) = None"
        "ci_Now input \<noteq> 0"
    and e: "checkExecutable H input = Inr (img, digest, command)"
    and g: "validateGrants input (ci_Now input) = Inr (broker, network)"
    and t: "timeoutBoundary input (ci_Now input) = Inr (notAfter, seconds)"
    and p: "plan = \<lparr>xp_Namespace = tk_Namespace ?task, xp_TransactionID = tx_ID ?tx, xp_StageBindingID = sb_ID (hd (tx_StageBindings ?tx)),
       xp_TaskID = tk_ID ?task, xp_TaskDigest = tk_Digest ?task, xp_ContractID = ec_ID ?contract, xp_ContractDigest = ec_Digest ?contract,
       xp_RunID = ar_ID ?run, xp_CapabilityIDs = ar_CapabilityIDs ?run, xp_ImageReference = ci_ImageReference input,
       xp_ImageDigest = img, xp_CommandDigest = digest, xp_Entrypoint = tp_Entrypoint (tk_AgentProfile ?task),
       xp_Command = command, xp_WorkspaceAccess = WorkspaceReadWrite, xp_NetworkAccess = network, xp_ModelBroker = broker,
       xp_CompiledAt = ci_Now input, xp_NotAfter = notAfter, xp_TimeoutSeconds = seconds\<rparr>"
    by (auto simp: CompilePlan_def Let_def)
  note bound = validatePlanBindings_None [OF v(2)] and sound = validateObjects_None [OF v(1)]
  have c: "1 \<le> dc_MaxWallTimeSeconds (ci_Ceilings input)" "\<And>b. dc_ModelBroker (ci_Ceilings input) = Some b \<Longrightarrow> validateBrokerCeiling b = None"
    using v(3) by (simp_all add: validateCeilings_def Let_def)
  note time = timeoutBoundary_Inr [OF t c(1)]
  from g sound(2) obtain ms where
      m: "checkGrants input (ci_Now input) (False, False) '''' (ci_Grants input) (ec_Resources ?contract) (ar_CapabilityIDs ?run) = Inr (True, ms)"
        "length (ci_Grants input) = length (ec_Resources ?contract)" "length (ci_Grants input) = length (ar_CapabilityIDs ?run)"
    and b: "broker = (if ms then dc_ModelBroker (ci_Ceilings input) else None)" "ms \<longrightarrow> broker \<noteq> None"
    and quota: "let budgets = ec_Budgets (ci_Contract input); used = ar_BudgetUsage (ci_Run input);
          ok = (\<lambda>x. checkModelBudget (ar_ID (ci_Run input)) x = None) in
      case broker of
        None \<Rightarrow> network = NetworkNone \<and> MaxModelCalls budgets = None \<and> MaxInputTokens budgets = None \<and> MaxOutputTokens budgets = None
      | Some b \<Rightarrow> network = NetworkModelBroker \<and> ok (MaxModelCalls budgets, ModelCalls used, bc_MaxModelCalls b) \<and>
          ok (MaxInputTokens budgets, InputTokens used, bc_MaxInputTokens b) \<and>
          ok (MaxOutputTokens budgets, OutputTokens used, bc_MaxOutputTokens b)" by (rule validateGrants_Inr)
  note grants = checkGrants_Inr [OF m sound(2)]
  have "lineage_within input plan"
    using bound(4-10) unfolding lineage_within_def p by (auto simp: crossBound_def Let_def split: option.splits)
  moreover have "executable_within H input plan"
    using checkExecutable_Inr [OF e] bound(1) unfolding executable_within_def p by (auto simp: Let_def)
  moreover have "grants_within input plan"
  proof -
    have "length (of_kind ''filesystem'' (ci_Grants input)) = 1" "length (of_kind ''model'' (ci_Grants input)) = of_bool ms"
      using grants(8,9) by simp_all
    note acc = access_grants [OF grants(7) this]
    have "access_within (ci_Grants input) plan"
    proof (cases broker)
      case None
      with acc b quota show ?thesis
        unfolding access_within_def p by (auto simp: Let_def WorkspaceReadWrite_def NetworkNone_def)
    next
      case (Some x)
      with b have x: "ms" "dc_ModelBroker (ci_Ceilings input) = Some x" by (auto split: if_splits)
      with acc have "\<exists>w m. workspace_grant w \<and> model_grant (bc_Provider x) m \<and> (ci_Grants input = [w, m] \<or> ci_Grants input = [m, w])"
        by auto
      with quota Some show ?thesis
        unfolding access_within_def p by (simp add: Let_def WorkspaceReadWrite_def NetworkModelBroker_def)
    qed
    moreover have "\<forall>grant\<in>set (ci_Grants input). grant_covers ?run (cg_PolicyDecisionID (hd (ci_Grants input))) grant plan"
      using grants(5,6) time(4) unfolding grant_covers_def p by (fastforce simp: checkGrant_def Let_def split: option.splits)
    ultimately show ?thesis using grants(1-4) unfolding grants_within_def compiled_for_def p by auto
  qed
  moreover have "model_within input plan"
  proof -
    have w: "within_limits (ar_BudgetUsage ?run) (ar_BudgetLimits ?run)"
      using valid_run_budget sound(1) by (simp add: valid_run_def sound_objects_def)
    have covers: "budget_covers limit used amount" if "checkModelBudget i (limit, used, amount) = None" "within_limit used limit"
        "limit \<in> {MaxModelCalls (ar_BudgetLimits ?run), MaxInputTokens (ar_BudgetLimits ?run), MaxOutputTokens (ar_BudgetLimits ?run)}"
      for i limit used amount
      using that l by (intro checkModelBudget_None [of i]) (auto simp: within_limit_def limits_in64_def)
    show ?thesis
    proof (cases broker)
      case None
      with quota bound(10) show ?thesis unfolding model_within_def p by (simp add: Let_def)
    next
      case (Some x)
      with b have x: "dc_ModelBroker (ci_Ceilings input) = Some x" by (auto split: if_splits)
      from Some quota covers w bound(10) have
        "budget_covers (MaxModelCalls (ar_BudgetLimits ?run)) (ModelCalls (ar_BudgetUsage ?run)) (bc_MaxModelCalls x)"
        "budget_covers (MaxInputTokens (ar_BudgetLimits ?run)) (InputTokens (ar_BudgetUsage ?run)) (bc_MaxInputTokens x)"
        "budget_covers (MaxOutputTokens (ar_BudgetLimits ?run)) (OutputTokens (ar_BudgetUsage ?run)) (bc_MaxOutputTokens x)"
        by (auto simp: within_limits_def Let_def)
      moreover have "check_each (\<lambda>_ allowed. fail_if (trim_space allowed \<noteq> allowed \<or> allowed = '''' \<or> has_nul allowed)
            (deny ErrorSchemaInvalid ''daemon-model-broker'')) 0 ms = None \<longleftrightarrow>
          (\<forall>m\<in>set ms. trim_space m = m \<and> m \<noteq> '''' \<and> \<not> has_nul m)" for ms by (rule check_each_None) auto
      ultimately show ?thesis
        using c(2) [OF x] x Some unfolding model_within_def p by (simp add: Let_def validateBrokerCeiling_def)
    qed
  qed
  moreover have "time_within input plan"
  proof -
    have "within_limits (ar_BudgetUsage ?run) (ar_BudgetLimits ?run)"
      using valid_run_budget sound(1) by (simp add: valid_run_def sound_objects_def)
    with time l bound(10) v(4) show ?thesis
      unfolding time_within_def p by (auto simp: within_limits_def limits_in64_def intro!: budget_covers_wrap)
  qed
  ultimately show ?thesis using bound(2,3) sound(1) unfolding plan_within_def by blast
qed

end
