(* ===== verification/Live_Authority.thy ===== *)
theory Live_Authority
  imports Authority_Snapshot Plan_Safety
begin

text \<open>
  \<^verbatim>\<open>api/execution_authority.go\<close>: the daemon reads the authority snapshot of a transaction, narrows it by its own
  policy and compiles the plan of one execution. The theorem composes the snapshot, the ceilings and the plan.

  A Go set \<^verbatim>\<open>map[string]struct{}\<close> is the list of its keys, \<^const>\<open>None\<close> where it is nil. The verifier profiles, which
  this code does not read, are values of a type \<open>'v\<close>.
\<close>

section \<open>The daemon's policy\<close>

record BrokerPolicy =
  bp_Version :: string
  bp_Provider :: string
  bp_UpstreamBaseURL :: string
  bp_AllowedModels :: "string list"
  bp_AllowedToolTypes :: "string list"
  bp_ProviderHeaders :: "string \<rightharpoonup> string"
  bp_MaxRequests :: int64
  bp_MaxRequestBytes :: int64
  bp_MaxResponseBytes :: int64
  bp_MaxOutputTokensPerRequest :: int64
  bp_MaxTotalInputTokens :: int64
  bp_MaxTotalOutputTokens :: int64
  bp_RequestTimeoutSeconds :: int64
  bp_ForceStoreFalse :: bool

record ModelBrokerRuntimePolicy =
  rb_Image :: string
  rb_PolicyData :: string
  rb_PolicyDigest :: string
  rb_Policy :: BrokerPolicy
  rb_ProviderBearerToken :: string

record 'v ExecutionRuntimePolicy =
  rp_AllowHost :: bool
  rp_AllowExternalExecution :: bool
  rp_AllowExternalVerification :: bool
  rp_AllowedAgentImageDigests :: "string list option"
  rp_AllowedAgentImages :: "string list"
  rp_AllowedImageDigests :: "string list option"
  rp_VerifierProfiles :: "'v option"
  rp_VerifierProfilesSourceDigest :: string
  rp_RequireVerifierProfiles :: bool
  rp_EnforcementProfile :: string
  rp_IdentityTrustDigest :: string
  rp_ApprovalTrustDigest :: string
  rp_EnginePath :: string
  rp_VerifierUID :: int
  rp_VerifierGID :: int
  rp_VerifierMemoryBytes :: int64
  rp_VerifierCPUMillis :: int64
  rp_VerifierPIDsLimit :: int64
  rp_VerifierTmpfsBytes :: int64
  rp_MaxVerificationTimeoutSecs :: int64
  rp_MaxAgentTimeoutSecs :: int64
  rp_MaxConcurrentWorkloads :: int
  rp_ModelBroker :: "ModelBrokerRuntimePolicy option"

definition allowedDigests :: "'v ExecutionRuntimePolicy \<Rightarrow> string list" where
  "allowedDigests policy = (case rp_AllowedAgentImageDigests policy of
     Some digests \<Rightarrow> digests
   | None \<Rightarrow> (case rp_AllowedImageDigests policy of Some digests \<Rightarrow> digests | None \<Rightarrow> []))"

definition agentImageAllowed :: "'v ExecutionRuntimePolicy \<Rightarrow> string \<Rightarrow> bool" where
  "agentImageAllowed policy digest =
     (if allowedDigests policy = [] then rp_EnforcementProfile policy \<noteq> EnforcementProfileProduction
      else digest \<in> set (allowedDigests policy))"

definition brokerCeiling :: "ModelBrokerRuntimePolicy \<Rightarrow> KernelError + ModelBrokerCeiling" where
  "brokerCeiling broker = (let policy = rb_Policy broker in case ImageDigest (rb_Image broker) of
     None \<Rightarrow> Inl (deny ErrorSchemaInvalid (rb_Image broker))
   | Some imageDigest \<Rightarrow> Inr \<lparr>bc_Provider = bp_Provider policy, bc_AllowedModels = bp_AllowedModels policy,
       bc_ImageDigest = imageDigest, bc_PolicyDigest = rb_PolicyDigest broker, bc_MaxModelCalls = bp_MaxRequests policy,
       bc_MaxInputTokens = bp_MaxTotalInputTokens policy, bc_MaxOutputTokens = bp_MaxTotalOutputTokens policy,
       bc_MaxOutputTokensPerRequest = bp_MaxOutputTokensPerRequest policy\<rparr>)"

definition executionAuthorityCeilings :: "'v ExecutionRuntimePolicy \<Rightarrow> string \<Rightarrow> KernelError + DaemonCeilings" where
  "executionAuthorityCeilings policy requestedImage =
     bind_res (if allowedDigests policy \<noteq> [] then Inr (allowedDigests policy)
        else if rp_EnforcementProfile policy = EnforcementProfileProduction then Inl (deny ErrorCapabilityDenied requestedImage)
        else case ImageDigest requestedImage of
          None \<Rightarrow> Inl (deny ErrorSchemaInvalid requestedImage)
        | Some digest \<Rightarrow> Inr [digest]) (\<lambda>digests.
     bind_res (case rp_ModelBroker policy of None \<Rightarrow> Inr None | Some broker \<Rightarrow> bind_res (brokerCeiling broker) (\<lambda>c. Inr (Some c)))
     (\<lambda>broker. Inr \<lparr>dc_MaxWallTimeSeconds = rp_MaxAgentTimeoutSecs policy, dc_AllowedImageDigests = sort digests,
        dc_ModelBroker = broker\<rparr>))"

section \<open>The authority of a request\<close>

record LiveExecutionAuthority =
  la_Plan :: ExecutionPlan
  la_RunSequence :: int64
  la_RunLastEventDigest :: string

definition require_error :: "ErrorCode \<Rightarrow> string \<Rightarrow> KernelError" where
  "require_error code resource = newError code ''require_runtime_authority'' resource ''''"

text \<open>\<^verbatim>\<open>s.store\<close> is the database under its driver; \<open>runtimeID\<close> is the server's, blank where none is configured.\<close>

definition requireCurrentRuntimeRunAuthority :: "AdmissionHashing \<Rightarrow> Hashing \<Rightarrow> 'j RunCodec \<Rightarrow> 'j TxCodec \<Rightarrow> 'j AdmissionCodec \<Rightarrow>
    driver \<Rightarrow> 'j DB \<Rightarrow> string \<Rightarrow> string \<Rightarrow> string \<Rightarrow> KernelError option" where
  "requireCurrentRuntimeRunAuthority N H CR CT M D db runtimeID namespace runID =
     (if \<not> IsRuntimeID runtimeID then None
      else case GetExecutionAuthorityForRun N H CR CT M D db namespace runID of Inl err \<Rightarrow> Some err | Inr _ \<Rightarrow> None)"

definition sameHead :: "ProjectionTx \<Rightarrow> ProjectionTx \<Rightarrow> bool" where
  "sameHead p q \<longleftrightarrow> tx_EventSequence (tj_Transaction p) = tx_EventSequence (tj_Transaction q) \<and>
     tj_LastEventDigest p = tj_LastEventDigest q"

definition requireCurrentRuntimeAuthority :: "AdmissionHashing \<Rightarrow> Hashing \<Rightarrow> 'j RunCodec \<Rightarrow> 'j TxCodec \<Rightarrow> 'j AdmissionCodec \<Rightarrow>
    driver \<Rightarrow> 'j DB \<Rightarrow> string \<Rightarrow> string \<Rightarrow> string \<Rightarrow> ProjectionTx \<Rightarrow> KernelError option" where
  "requireCurrentRuntimeAuthority N H CR CT M D db runtimeID namespace transactionID current =
     (if \<not> IsRuntimeID runtimeID then None
      else case GetExecutionAuthority N H CR CT M D db namespace transactionID of
        Inl err \<Rightarrow> Some (if ke_Code err = ErrorNotFound then require_error ErrorCapabilityDenied transactionID else err)
      | Inr snapshot \<Rightarrow> fail_if (\<not> sameHead (sn_Transaction snapshot) current) (require_error ErrorConflict transactionID))"

definition compile_input :: "ExecutionAuthoritySnapshot \<Rightarrow> DaemonCeilings \<Rightarrow> time \<Rightarrow> string \<Rightarrow> string list \<Rightarrow> int64 \<Rightarrow> CompileInput" where
  "compile_input snapshot ceilings now reference command timeoutSeconds =
     \<lparr>ci_Task = sn_Task snapshot, ci_Contract = sn_Contract snapshot, ci_Run = pj_Run (sn_Run snapshot),
      ci_Grants = sn_Grants snapshot, ci_Transaction = tj_Transaction (sn_Transaction snapshot),
      ci_Executions = tj_Executions (sn_Transaction snapshot), ci_ImageReference = reference, ci_Command = command,
      ci_Ceilings = ceilings, ci_CallerTimeoutSeconds = (if timeoutSeconds > 0 then Some timeoutSeconds else None), ci_Now = now\<rparr>"

definition compileLiveExecutionAuthority :: "AdmissionHashing \<Rightarrow> Hashing \<Rightarrow> 'j RunCodec \<Rightarrow> 'j TxCodec \<Rightarrow> 'j AdmissionCodec \<Rightarrow>
    driver \<Rightarrow> 'j DB \<Rightarrow> 'v ExecutionRuntimePolicy \<Rightarrow> time \<Rightarrow> string \<Rightarrow> string \<Rightarrow> ProjectionTx \<Rightarrow> string \<Rightarrow> string list \<Rightarrow> int64 \<Rightarrow>
    KernelError + LiveExecutionAuthority" where
  "compileLiveExecutionAuthority N H CR CT M D db policy now namespace transactionID current reference command timeoutSeconds =
     bind_res (case GetExecutionAuthority N H CR CT M D db namespace transactionID of
         Inl err \<Rightarrow> Inl (if ke_Code err = ErrorNotFound then deny ErrorCapabilityDenied transactionID else err)
       | Inr snapshot \<Rightarrow> Inr snapshot) (\<lambda>snapshot.
     ok_then (fail_if (\<not> sameHead (sn_Transaction snapshot) current) (deny ErrorConflict transactionID))
    (bind_res (executionAuthorityCeilings policy reference) (\<lambda>ceilings.
     bind_res (CompilePlan N H (compile_input snapshot ceilings now reference command timeoutSeconds)) (\<lambda>plan.
     Inr \<lparr>la_Plan = plan, la_RunSequence = ar_EventSequence (pj_Run (sn_Run snapshot)),
       la_RunLastEventDigest = pj_LastEventDigest (sn_Run snapshot)\<rparr>))))"

text \<open>The check again, immediately before launch; \<open>cancelled\<close> says that the request's context has ended.\<close>

definition requireLiveExecutionAuthority :: "time \<Rightarrow> bool \<Rightarrow> string \<Rightarrow> time \<Rightarrow> KernelError option" where
  "requireLiveExecutionAuthority now cancelled transactionID notAfter =
     (let expired = newError ErrorCapabilityExpired ''claim_execution_authority'' transactionID '''' in first_error
       [fail_if (\<not> now < notAfter) expired, fail_if cancelled expired])"

section \<open>What is authorized\<close>

lemma executionAuthorityCeilings_Inr:
  assumes "executionAuthorityCeilings policy reference = Inr c"
  shows "dc_MaxWallTimeSeconds c = rp_MaxAgentTimeoutSecs policy"
    "set (dc_AllowedImageDigests c) = {d. d \<in> set (allowedDigests policy) \<or> allowedDigests policy = [] \<and> ImageDigest reference = Some d}"
    "allowedDigests policy = [] \<Longrightarrow> rp_EnforcementProfile policy \<noteq> EnforcementProfileProduction"
    "\<And>b. dc_ModelBroker c = Some b \<Longrightarrow> \<exists>r. rp_ModelBroker policy = Some r \<and> brokerCeiling r = Inr b"
  using assms by (auto simp: executionAuthorityCeilings_def split: if_splits option.splits)

lemma ceilings_allow:
  assumes "executionAuthorityCeilings policy reference = Inr c" and "ImageDigest reference = Some d" and "d \<in> set (dc_AllowedImageDigests c)"
  shows "agentImageAllowed policy d"
  using executionAuthorityCeilings_Inr [OF assms(1)] assms(2,3) by (auto simp: agentImageAllowed_def)

lemma compileLive_Inr:
  assumes "compileLiveExecutionAuthority N H CR CT M D db policy now ns i current reference command timeout = Inr live"
  obtains s c where "GetExecutionAuthority N H CR CT M D db ns i = Inr s" and "sameHead (sn_Transaction s) current"
    and "executionAuthorityCeilings policy reference = Inr c"
    and "CompilePlan N H (compile_input s c now reference command timeout) = Inr (la_Plan live)"
    and "la_RunSequence live = ar_EventSequence (pj_Run (sn_Run s))" "la_RunLastEventDigest live = pj_LastEventDigest (sn_Run s)"
  using assms by (auto simp: compileLiveExecutionAuthority_def wrapped_Inr)

text \<open>The provider of a plan is the configured one, with its models, its policy and its limits.\<close>

definition configured :: "ModelBrokerRuntimePolicy \<Rightarrow> ModelBrokerPlan \<Rightarrow> bool" where
  "configured r b \<longleftrightarrow> (let policy = rb_Policy r in ImageDigest (rb_Image r) = Some (bc_ImageDigest b) \<and>
     bc_PolicyDigest b = rb_PolicyDigest r \<and> bc_Provider b = bp_Provider policy \<and> bc_AllowedModels b = bp_AllowedModels policy \<and>
     bc_MaxModelCalls b = bp_MaxRequests policy \<and> bc_MaxInputTokens b = bp_MaxTotalInputTokens policy \<and>
     bc_MaxOutputTokens b = bp_MaxTotalOutputTokens policy \<and>
     bc_MaxOutputTokensPerRequest b = bp_MaxOutputTokensPerRequest policy)"

lemma brokerCeiling_configured: "brokerCeiling r = Inr b \<Longrightarrow> configured r b"
  by (auto simp: brokerCeiling_def configured_def Let_def split: option.splits)

text \<open>The authority of an execution: it is compiled from a snapshot of an admission, for the transaction head that the
  request was made against, within the daemon's policy.\<close>

definition live_within :: "AdmissionHashing \<Rightarrow> Hashing \<Rightarrow> 'j RunCodec \<Rightarrow> 'j TxCodec \<Rightarrow> 'j DB \<Rightarrow> 'v ExecutionRuntimePolicy \<Rightarrow> time \<Rightarrow>
    ProjectionTx \<Rightarrow> string \<Rightarrow> string list \<Rightarrow> int64 \<Rightarrow> Prepared \<Rightarrow> LiveExecutionAuthority \<Rightarrow> bool" where
  "live_within N H CR CT db policy now current reference command timeout p live \<longleftrightarrow> (let plan = la_Plan live in
     \<exists>s c. snapshot_of N H CR CT db p s \<and> sameHead (sn_Transaction s) current \<and> executionAuthorityCeilings policy reference = Inr c \<and>
       la_RunSequence live = ar_EventSequence (pj_Run (sn_Run s)) \<and> la_RunLastEventDigest live = pj_LastEventDigest (sn_Run s) \<and>
       plan_within N H (compile_input s c now reference command timeout) plan \<and>
       (if allowedDigests policy = [] then rp_EnforcementProfile policy \<noteq> ''production''
        else xp_ImageDigest plan \<in> set (allowedDigests policy)) \<and> xp_TimeoutSeconds plan \<le> rp_MaxAgentTimeoutSecs policy \<and>
       (\<forall>b. xp_ModelBroker plan = Some b \<longrightarrow> (\<exists>r. rp_ModelBroker policy = Some r \<and> configured r b)))"

text \<open>The decoder yields 64-bit limits for the stored runs.\<close>

definition decodes_int64 :: "'j RunCodec \<Rightarrow> 'j DB \<Rightarrow> bool" where
  "decodes_int64 CR db \<longleftrightarrow> (\<forall>h\<in>set (db_runs db). \<forall>run. rc_DecRun CR (hr_json h) = Some run \<longrightarrow> limits_in64 (ar_BudgetLimits run))"

lemma loadProjection_limits:
  assumes "loadProjection CR D db ns i = Inr p" and "decodes_int64 CR db"
  shows "limits_in64 (ar_BudgetLimits (pj_Run p))"
  using assms by (auto simp: loadProjection_def decodes_int64_def dest!: select_head_Some)

theorem compileLive_within:
  assumes "compileLiveExecutionAuthority N H CR CT M D db policy now ns i current reference command timeout = Inr live"
    and dec: "decodes_int64 CR db"
  shows "\<exists>p. pp_Namespace p = ns \<and> tx_id p = i \<and> live_within N H CR CT db policy now current reference command timeout p live"
proof -
  from assms(1) obtain s c where s: "GetExecutionAuthority N H CR CT M D db ns i = Inr s" "sameHead (sn_Transaction s) current"
    and c: "executionAuthorityCeilings policy reference = Inr c"
    and plan: "CompilePlan N H (compile_input s c now reference command timeout) = Inr (la_Plan live)"
    and head: "la_RunSequence live = ar_EventSequence (pj_Run (sn_Run s))" "la_RunLastEventDigest live = pj_LastEventDigest (sn_Run s)"
    by (rule compileLive_Inr)
  let ?input = "compile_input s c now reference command timeout"
  from GetExecutionAuthority_verified [OF s(1)] obtain p where p: "pp_Namespace p = ns" "tx_id p = i" "snapshot_of N H CR CT db p s"
    by blast
  from s(1) obtain id' where "loadProjection CR (sub_driver D 1) db ns id' = Inr (sn_Run s)"
    by (blast elim: GetExecutionAuthority_Inr)
  then have "limits_in64 (ar_BudgetLimits (ci_Run ?input))"
    using loadProjection_limits dec by (simp add: compile_input_def)
  note within = CompilePlan_within [OF plan this]
  then have e: "executable_within H ?input (la_Plan live)" and t: "time_within ?input (la_Plan live)"
    and m: "model_within ?input (la_Plan live)" by (simp_all add: plan_within_def)
  have img: "ImageDigest reference = Some (xp_ImageDigest (la_Plan live))"
    using e by (auto simp: executable_within_def Let_def compile_input_def)
  have "if allowedDigests policy = [] then rp_EnforcementProfile policy \<noteq> ''production''
      else xp_ImageDigest (la_Plan live) \<in> set (allowedDigests policy)"
    using ceilings_allow [OF c img] e
    by (auto simp: executable_within_def Let_def compile_input_def agentImageAllowed_def EnforcementProfileProduction_def)
  moreover have "xp_TimeoutSeconds (la_Plan live) \<le> rp_MaxAgentTimeoutSecs policy"
    using t executionAuthorityCeilings_Inr(1) [OF c] by (simp add: time_within_def compile_input_def)
  moreover have "\<exists>r. rp_ModelBroker policy = Some r \<and> configured r b" if "xp_ModelBroker (la_Plan live) = Some b" for b
    using m that executionAuthorityCeilings_Inr(4) [OF c] brokerCeiling_configured by (fastforce simp: model_within_def Let_def compile_input_def)
  ultimately show ?thesis
    using p s(2) c head within unfolding live_within_def Let_def by blast
qed

end
