(* ===== verification/Plan_Examples.thy ===== *)
theory Plan_Examples
  imports Live_Authority Admission_Examples
begin

text \<open>An execution plan for the admitted task of the examples, and a ledger in which its transaction runs.\<close>

section \<open>A plan\<close>

definition lx_stage :: StageBinding where
  "lx_stage = \<lparr>sb_ID = ''stage:1'', sb_Kind = ''git'', sb_Resource = \<lparr>rs_Kind = ''filesystem'', rs_Pattern = ''workspace/**''\<rparr>,
     sb_Location = ''work'', sb_BaseRevision = ''abc'', sb_CreatedAt = 1700\<rparr>"

definition lx_input :: CompileInput where
  "lx_input = \<lparr>ci_Task = ax_task, ci_Contract = ax_contract, ci_Run = pj_Run ax_p3, ci_Grants = [ax_grant],
     ci_Transaction = ax_tx\<lparr>tx_StageBindings := [lx_stage], tx_State := TransactionRunning, tx_EventSequence := 3, tx_UpdatedAt := 1700\<rparr>,
     ci_Executions = [], ci_ImageReference = ''agent@'' @ sample_digest (CHR ''d''), ci_Command = [''agent'', ''run''],
     ci_Ceilings = \<lparr>dc_MaxWallTimeSeconds = 1800, dc_AllowedImageDigests = [sample_digest (CHR ''d'')], dc_ModelBroker = None\<rparr>,
     ci_CallerTimeoutSeconds = None, ci_Now = 2000\<rparr>"

lemma lx_tx_valid: "AgentTransaction_Validate ax_H (ci_Transaction lx_input) = None"
  by (simp add: AgentTransaction_Validate_def lx_input_def ax_tx_def draftTransaction_def Let_def)
    (simp add: ax_request_def ax_contract_def ax_task_valid validate_simps example_simps lx_stage_def
      validateStageBindings_def validateTaskBinding_def validateAdmissionBinding_def optionalDigest_def Let_def
      transactionStateRequiresReason_def transactionStateRequiresFrozenEffects_def transactionStateRequiresCommitPlan_def
      valid_principal_def on_some_def has_nul_def)

lemma lx_image: "ImageDigest (''agent@'' @ sample_digest (CHR ''d'')) = Some (sample_digest (CHR ''d''))"
proof -
  have "sample_digest (CHR ''d'') = ''sha256:'' @ replicate 63 (CHR ''d'') @ [CHR ''d'']"
    by (simp add: sample_digest_def replicate_append_same [symmetric] numeral_eq_Suc)
  moreover have "is_alnum (CHR ''a'')" "is_alnum (CHR ''d'')" by code_simp+
  ultimately have t: "trim_space (''agent@'' @ sample_digest (CHR ''d'')) = ''agent@'' @ sample_digest (CHR ''d'')"
    using trim_space_id [of "CHR ''a''" "CHR ''d''" "''gent@sha256:'' @ replicate 63 (CHR ''d'')"] by simp
  have "find_index (\<lambda>c. c = CHR ''@'') (''agent@'' @ s) = Some 5" "\<not> has_prefix ''-'' (''agent@'' @ s)" for s by simp_all
  moreover have "IsSHA256Digest (sample_digest (CHR ''d''))" by (simp add: example_simps)
  moreover have "filter (\<lambda>c. c = CHR ''@'') (sample_digest (CHR ''d'')) = []" by (simp add: sample_digest_def)
  moreover have "\<not> list_ex (\<lambda>c. c \<in> set (CHR '' '' # bytes [9, 13, 10, 0])) (''agent@'' @ sample_digest (CHR ''d''))"
    by (simp add: sample_digest_def list_ex_iff bytes_def char_of_def)
  ultimately show ?thesis
    unfolding ImageDigest_def Let_def t by simp
qed

lemma lx_objects: "validateObjects ax_N ax_H lx_input = None"
  using lx_tx_valid
  by (simp add: validateObjects_def Let_def lx_input_def ax_task_valid ax_contract_valid ax_grant_valid
      ComputeExecutionContractDigest_def ax_N_def)

lemma lx_bindings: "validatePlanBindings lx_input = None" "validateCeilings (ci_Ceilings lx_input) = None"
  by (simp_all add: validatePlanBindings_def validateCeilings_def crossBound_def unsupportedControls_def hasActiveExecution_def
      lx_input_def ax_p3_def ax_run_def draftRun_def ax_contract_def ax_task_def ax_tx_def draftTransaction_def ax_request_def
      ax_limits_def Let_def example_simps)

lemma lx_executable: "checkExecutable ax_H lx_input = Inr (sample_digest (CHR ''d''), sample_digest (CHR ''f''), [''agent'', ''run''])"
proof -
  have "commandDigest ax_H [''agent'', ''run''] = Some (sample_digest (CHR ''f''))"
    by (simp add: commandDigest_def ComputeCommandDigest_def ax_H_def example_simps has_nul_def)
  then show ?thesis
    using lx_image by (simp add: checkExecutable_def Let_def lx_input_def ax_task_def ax_request_def ax_p3_def ax_run_def draftRun_def)
qed

lemma lx_granted: "validateGrants lx_input 2000 = Inr (None, NetworkNone)"
  by (simp add: validateGrants_def checkGrant_def lx_input_def ax_contract_def ax_resource_def ax_grant_def compileGrant_def
      ax_p3_def ax_run_def draftRun_def ax_request_def ax_limits_def exactOperations_def unsupportedConditions_def Let_def)

lemma lx_time: "timeoutBoundary lx_input 2000 = Inr (1800000002000, 1800)"
  by (simp add: timeoutBoundary_def lx_input_def ax_contract_def ax_grant_def compileGrant_def ax_p3_def ax_run_def draftRun_def
      ax_request_def ax_limits_def no_usage_def addSeconds_def sooner_def wrap64_def Second_def go_quot_def time_Sub_def min64_def
      max64_def Let_def)

section \<open>The running transaction\<close>

definition lx_event :: "int64 \<Rightarrow> TransactionEventType \<Rightarrow> TransactionPayload \<Rightarrow> time \<Rightarrow> TransactionEvent" where
  "lx_event n ty payload t = \<lparr>te_Version = ''gatemole.transaction_event.v0'', te_ID = EventID ax_H ''tx:1'' n,
     te_TransactionID = ''tx:1'', te_Sequence = n, te_Type = ty, te_Actor = ex_daemon, te_OccurredAt = t, te_Payload = payload,
     te_Artifacts = [], te_PreviousDigest = sample_digest (CHR ''7''), te_Digest = sample_digest (CHR ''7'')\<rparr>"

definition lx_started :: TransactionEvent where
  "lx_started = lx_event 2 EventTransactionStateChanged (TransactionStateChanged
     \<lparr>tc_From = TransactionCreated, tc_To = TransactionRunning, tc_Reason = '''', tc_OutstandingApprovalIDs = []\<rparr>) 1600"

definition lx_bound :: TransactionEvent where
  "lx_bound = lx_event 3 EventStageBindingCreated (StageBindingCreatedPayload lx_stage) 1700"

definition lx_q2 :: ProjectionTx where
  "lx_q2 = ax_q\<lparr>tj_Transaction := ax_tx\<lparr>tx_State := TransactionRunning, tx_EventSequence := 2, tx_UpdatedAt := 1600\<rparr>\<rparr>"

definition lx_q3 :: ProjectionTx where
  "lx_q3 = ax_q\<lparr>tj_Transaction := ci_Transaction lx_input\<rparr>"

lemma lx_events_check: "checkEventTx ax_H lx_started = None" "checkEventTx ax_H lx_bound = None"
proof -
  have i: "IsIdentifier (EventID ax_H ''tx:1'' 2)" "IsIdentifier (EventID ax_H ''tx:1'' 3)" by code_simp+
  have t: "IsIdentifier (TransactionEventType_name EventTransactionStateChanged)"
    "IsIdentifier (TransactionEventType_name EventStageBindingCreated)" by code_simp+
  show "checkEventTx ax_H lx_started = None" "checkEventTx ax_H lx_bound = None"
    by (simp_all add: checkEventTx_None VerifyTransactionEventDigest_True TransactionEvent_Validate_def lx_started_def lx_bound_def
        lx_event_def Let_def validate_simps example_simps i t del: TransactionEventType_name.simps)
qed

lemma lx_running_valid: "AgentTransaction_Validate ax_H (tj_Transaction lx_q2) = None"
  by (simp add: AgentTransaction_Validate_def lx_q2_def ax_tx_def draftTransaction_def Let_def)
    (simp add: ax_request_def ax_contract_def ax_task_valid validate_simps example_simps
      validateStageBindings_def validateTaskBinding_def validateAdmissionBinding_def optionalDigest_def
      transactionStateRequiresReason_def transactionStateRequiresFrozenEffects_def transactionStateRequiresCommitPlan_def
      valid_principal_def on_some_def)

text \<open>Entering the running state resets fields that are empty in the admitted transaction.\<close>

lemma lx_started_tx:
  "ax_tx\<lparr>tx_State := TransactionRunning, tx_StateReason := '''', tx_EffectIDs := [], tx_StagedStateDigest := '''',
     tx_EffectSetDigest := '''', tx_VerificationResultIDs := [], tx_OutstandingApprovalIDs := [], tx_ApprovalPackageDigest := '''',
     tx_CommitPlanDigest := '''', tx_CompletedAt := None, tx_EventSequence := 2, tx_UpdatedAt := 1600\<rparr> =
   ax_tx\<lparr>tx_State := TransactionRunning, tx_EventSequence := 2, tx_UpdatedAt := 1600\<rparr>"
  by (simp add: ax_tx_def draftTransaction_def)

lemma lx_bound_tx:
  "ax_tx\<lparr>tx_State := TransactionRunning, tx_StageBindings := bs, tx_EventSequence := 3, tx_UpdatedAt := 1700\<rparr> =
   ax_tx\<lparr>tx_StageBindings := bs, tx_State := TransactionRunning, tx_EventSequence := 3, tx_UpdatedAt := 1700\<rparr>"
  by (simp add: ax_tx_def draftTransaction_def)

lemma lx_apply2: "ApplyTx ax_H (Some ax_q) lx_started = Inr lx_q2"
  using lx_running_valid
  by (subst ApplyTx_eval [OF lx_events_check(1)])
    (simp add: ex_tx_ops lx_started_def lx_event_def ax_q_def Let_def del: ok_then_Inr bind_res_Inr,
      simp add: lx_q2_def ax_q_def lx_started_tx)

lemma lx_apply3: "ApplyTx ax_H (Some lx_q2) lx_bound = Inr lx_q3"
  using lx_tx_valid
  by (subst ApplyTx_eval [OF lx_events_check(2)])
    (simp add: ex_tx_ops lx_bound_def lx_event_def lx_q2_def ax_q_def Let_def applyStageBindingCreated_def lx_stage_def
      validate_simps example_simps del: ok_then_Inr bind_res_Inr,
      simp add: lx_q3_def ax_q_def lx_input_def lx_stage_def lx_bound_tx)

lemma lx_replay: "ReplayTx ax_H [ax_te, lx_started, lx_bound] = Inr lx_q3"
  by (simp add: ReplayTx_def ax_created_tx lx_apply2 lx_apply3)

lemma lx_q3_valid: "ProjectionTx_Validate ax_H lx_q3 = None"
  using lx_tx_valid
  by (simp add: ex_projection_eval) (simp add: lx_q3_def lx_input_def ax_q_def example_simps)

section \<open>Its ledger\<close>

definition lx_run_row :: "ax_json head_row" where
  "lx_run_row = run_row_of ax_p3 (ARun (pj_Run ax_p3))"

definition lx_tx_row :: "ax_json head_row" where
  "lx_tx_row = tx_row_of lx_q3 (AProjection lx_q3)"

definition lx_db :: "ax_json DB" where
  "lx_db = ax_db\<lparr>db_runs := [lx_run_row], db_events := map (\<lambda>e. event_row_of ''team'' e (AEvent e)) [ax_e1, ax_e2, ax_e3],
     db_transactions := [lx_tx_row],
     db_transaction_events := map (\<lambda>e. tx_event_row_of ''team'' e (ATxEvent e)) [ax_te, lx_started, lx_bound],
     db_contracts := [\<lparr>cr_namespace = ''team'', cr_contract_digest = ec_Digest ax_contract, cr_contract_id = ec_ID ax_contract,
       cr_contract_json = AValue (ValContract ax_contract), cr_created_at = ''''\<rparr>],
     db_tasks := [taskRow ax_prepared (AValue (ValTask ax_task))],
     db_admissions := [admissionRow ax_prepared (AValue (ValResult ax_answer))]\<rparr>"

lemma lx_ids: "run_id ax_prepared = ''run:1''" "tx_id ax_prepared = ''tx:1''"
  by (simp_all add: run_id_def tx_id_def ax_answer_def)

lemma lx_db_sel [simp]: "db_runs lx_db = [lx_run_row]" "db_transactions lx_db = [lx_tx_row]"
  "db_events lx_db = map (\<lambda>e. event_row_of ''team'' e (AEvent e)) [ax_e1, ax_e2, ax_e3]"
  "db_transaction_events lx_db = map (\<lambda>e. tx_event_row_of ''team'' e (ATxEvent e)) [ax_te, lx_started, lx_bound]"
  "db_metadata lx_db = db_metadata ax_db"
  by (simp_all add: lx_db_def)

lemma lx_q3_sel [simp]: "tx_Namespace (tj_Transaction lx_q3) = ''team''" "tx_ID (tj_Transaction lx_q3) = ''tx:1''"
  by (simp_all add: lx_q3_def lx_input_def)

lemma lx_runs: "run_store_ok ax_CR lx_db" "run_histories ax_CR lx_db = [(''team'', ''run:1'') \<mapsto> [ax_e1, ax_e2, ax_e3]]"
proof -
  have r: "replayFrom None [ax_e1, ax_e2, ax_e3] = Inr ax_p3" by (rule replayed_stream [OF ax_replays(1)])
  have "stored_run_ok ax_p3" using Apply_stored_ok [OF ax_applied(2)] by simp
  then have h: "run_store.head_for ax_CR ax_p3 lx_run_row"
    unfolding run_store.head_for_def by (simp add: lx_run_row_def run_row_of_def hkey_def decode_head_def)
  have rows: "list_all2 (run_store.row_for ax_CR (ar_Namespace (pj_Run ax_p3))) [ax_e1, ax_e2, ax_e3] (db_events lx_db)"
    unfolding lx_db_sel list.rel_map run_store.row_for_def
    by (intro list.rel_refl_strong) (auto simp: event_row_of_def ekey_def ax_event_digests)
  have d: "distinct (map ev_ID [ax_e1, ax_e2, ax_e3])" by code_simp
  have k: "hkey lx_run_row = (''team'', ''run:1'')" by (simp add: hkey_def lx_run_row_def run_row_of_def)
  from run_store.consistent_single [OF r h rows d] k
  show "run_store_ok ax_CR lx_db" "run_histories ax_CR lx_db = [(''team'', ''run:1'') \<mapsto> [ax_e1, ax_e2, ax_e3]]"
    unfolding run_store_ok_def run_histories_eq by simp_all
qed

lemma lx_txs: "tx_store_ok ax_H ax_CT lx_db" "tx_histories ax_CT lx_db = [(''team'', ''tx:1'') \<mapsto> [ax_te, lx_started, lx_bound]]"
proof -
  have r: "replayFromTx ax_H None [ax_te, lx_started, lx_bound] = Inr lx_q3" by (rule replayedTx_stream [OF lx_replay])
  have h: "tx_store.head_for ax_H ax_CT lx_q3 lx_tx_row"
    unfolding tx_store.head_for_def by (simp add: lx_tx_row_def tx_row_of_def hkey_def stored_tx_ok_def lx_q3_valid)
  have rows: "list_all2 (tx_store.row_for ax_CT ax_H (tx_Namespace (tj_Transaction lx_q3))) [ax_te, lx_started, lx_bound]
      (db_transaction_events lx_db)"
    unfolding lx_db_sel list.rel_map tx_store.row_for_def using replayFromTx_sealed [OF r]
    by (intro list.rel_refl_strong) (auto simp: tx_event_row_of_def ekey_def)
  have d: "distinct (map te_ID [ax_te, lx_started, lx_bound])" by code_simp
  have k: "hkey lx_tx_row = (''team'', ''tx:1'')" by (simp add: hkey_def lx_tx_row_def tx_row_of_def)
  from tx_store.consistent_single [OF r h rows d] k
  show "tx_store_ok ax_H ax_CT lx_db" "tx_histories ax_CT lx_db = [(''team'', ''tx:1'') \<mapsto> [ax_te, lx_started, lx_bound]]"
    unfolding tx_store_ok_def tx_histories_eq by simp_all
qed

lemma lx_admitted: "admitted ax_N ax_H ax_CR ax_CT ax_M lx_db ax_prepared"
  using lx_runs(2) lx_txs(2)
  by (simp add: admitted_def Let_def ax_prepared_valid lx_ids lx_db_def)
    (simp add: admissionRow_def taskRow_def ax_answer_def ax_prepared_def Let_def)

lemma lx_authority:
  "\<exists>s. GetExecutionAuthority ax_N ax_H ax_CR ax_CT ax_M no_faults lx_db ''team'' ''tx:1'' = Inr s \<and> sn_Task s = ax_task \<and>
     sn_Contract s = ax_contract \<and> sn_Grants s = [ax_grant] \<and> sn_Run s = ax_p3 \<and> sn_Transaction s = lx_q3"
proof -
  have ok: "ledgers_ok ax_H ax_CR ax_CT lx_db" using lx_runs(1) lx_txs(1) by (simp add: ledgers_ok_def)
  have "requireStoredRuntimeBinding no_faults lx_db ax_runtime EnforcementProfileProduction legacy op res = None" for legacy op res
    by (rule bound_runtime_accepted) (simp_all add: ax_db_def bound_to_def metadata_keys metadata_keys(1) [symmetric] example_simps)
  then have load: "loadTaskAdmission ax_N ax_H ax_CR ax_CT ax_M no_faults lx_db (pp_Namespace ax_prepared) (pp_IdempotencyKey ax_prepared) =
      Inr (pp_Result ax_prepared, pp_RequestDigest ax_prepared)"
    by (intro admitted_loads [OF ok lx_admitted]) simp_all
  from GetExecutionAuthority_complete [OF ok lx_admitted _ _ load] obtain s where
    s: "GetExecutionAuthority ax_N ax_H ax_CR ax_CT ax_M no_faults lx_db ''team'' ''tx:1'' = Inr s"
      "sn_Task s = ax_task \<and> sn_Contract s = ax_contract \<and> sn_Grants s = [ax_grant]"
    and g: "GetRun ax_CR no_faults lx_db ''team'' ''run:1'' = Inr (sn_Run s)"
      "GetTransaction ax_H ax_CT no_faults lx_db ''team'' ''tx:1'' = Inr (sn_Transaction s)"
    by (auto simp: lx_ids ax_answer_def)
  have "sn_Run s = ax_p3" using GetRun_complete [OF lx_runs(1), of "''team''" "''run:1''"] g(1) ax_replays(1) by (auto simp: lx_runs(2))
  moreover have "sn_Transaction s = lx_q3"
    using GetTransaction_complete [OF lx_txs(1), of "''team''" "''tx:1''"] g(2) lx_replay by (auto simp: lx_txs(2))
  ultimately show ?thesis using s by blast
qed

section \<open>Its execution\<close>

definition lx_policy :: "unit ExecutionRuntimePolicy" where
  "lx_policy = \<lparr>rp_AllowHost = False, rp_AllowExternalExecution = False, rp_AllowExternalVerification = False,
     rp_AllowedAgentImageDigests = Some [sample_digest (CHR ''d'')], rp_AllowedAgentImages = [], rp_AllowedImageDigests = None,
     rp_VerifierProfiles = None, rp_VerifierProfilesSourceDigest = '''', rp_RequireVerifierProfiles = True,
     rp_EnforcementProfile = EnforcementProfileProduction, rp_IdentityTrustDigest = '''', rp_ApprovalTrustDigest = '''',
     rp_EnginePath = ''/usr/bin/docker'', rp_VerifierUID = 1000, rp_VerifierGID = 1000, rp_VerifierMemoryBytes = 1000000000,
     rp_VerifierCPUMillis = 1000, rp_VerifierPIDsLimit = 64, rp_VerifierTmpfsBytes = 1000000, rp_MaxVerificationTimeoutSecs = 600,
     rp_MaxAgentTimeoutSecs = 1800, rp_MaxConcurrentWorkloads = 1, rp_ModelBroker = None\<rparr>"

lemma lx_plan: "\<exists>plan. CompilePlan ax_N ax_H lx_input = Inr plan \<and> xp_NotAfter plan = 1800000002000"
  using lx_objects lx_bindings lx_executable lx_granted lx_time
  by (simp add: CompilePlan_def Let_def lx_input_def)

lemma lx_live:
  "\<exists>live. compileLiveExecutionAuthority ax_N ax_H ax_CR ax_CT ax_M no_faults lx_db lx_policy 2000 ''team'' ''tx:1'' lx_q3
     (''agent@'' @ sample_digest (CHR ''d'')) [''agent'', ''run''] 0 = Inr live \<and> xp_NotAfter (la_Plan live) = 1800000002000"
proof -
  from lx_authority obtain s where s: "GetExecutionAuthority ax_N ax_H ax_CR ax_CT ax_M no_faults lx_db ''team'' ''tx:1'' = Inr s"
    "sn_Task s = ax_task" "sn_Contract s = ax_contract" "sn_Grants s = [ax_grant]" "sn_Run s = ax_p3" "sn_Transaction s = lx_q3" by blast
  have c: "executionAuthorityCeilings lx_policy reference = Inr (ci_Ceilings lx_input)" for reference
    by (simp add: executionAuthorityCeilings_def lx_policy_def allowedDigests_def lx_input_def)
  have "compile_input s (ci_Ceilings lx_input) 2000 (''agent@'' @ sample_digest (CHR ''d'')) [''agent'', ''run''] 0 = lx_input"
    using s by (simp add: compile_input_def lx_input_def lx_q3_def ax_q_def)
  with lx_plan s c show ?thesis by (auto simp: compileLiveExecutionAuthority_def sameHead_def)
qed

end
