(* ===== verification/Plan_Properties.thy ===== *)
theory Plan_Properties
  imports Plan_Examples
begin

text \<open>
  The properties of the authority of an execution: of the snapshot of the stored authority, of the plan it is
  compiled to, and of both together, which is what the daemon launches an agent under.
\<close>

section \<open>Plans\<close>

text \<open>C8. A compiled plan never widens authority. It writes the workspace because there is exactly one grant to read and
  write \<^verbatim>\<open>workspace/**\<close> below the root \<^verbatim>\<open>workspace\<close>; it has a network only for the model provider of the one
  grant to invoke its models; there is no other grant, and neither has a condition that a plan cannot keep. The grants are
  those the contract was compiled to, with the contract's operations and conditions, issued to the run at its
  creation under one decision, not revoked, delegable, delegated or counted, and active until the plan ends. The plan runs the
  admitted command in the admitted image, which the daemon allows; the provider is the daemon's, with
  quotas that what is left of the contract's budgets covers, and without a provider the contract has no such budgets. The plan
  lasts at least a second and ends before every deadline, within the daemon's limit and what is left of the wall time
  budget, after exactly the time the caller asked for. It names one valid task, contract, run and transaction, which name each other;
  the run waits for a launch, nothing of the transaction is executing, and the contract asks for no control that a plan
  cannot express.\<close>

theorem execution_plan_never_widens:
  assumes "CompilePlan N H input = Inr plan" and "limits_in64 (ar_BudgetLimits (ci_Run input))"
  shows "plan_within N H input plan"
  by (rule CompilePlan_within [OF assms])

theorem execution_plan_never_widens_witness:
  "\<exists>plan. CompilePlan ax_N ax_H lx_input = Inr plan \<and> plan_within ax_N ax_H lx_input plan \<and> xp_NotAfter plan = 1800000002000"
proof -
  have "limits_in64 (ar_BudgetLimits (ci_Run lx_input))"
    by (simp add: limits_in64_def lx_input_def ax_p3_def ax_run_def draftRun_def ax_contract_def ax_limits_def max64_def Let_def)
  with lx_plan show ?thesis using execution_plan_never_widens [of ax_N ax_H lx_input] by blast
qed

section \<open>Snapshots\<close>

text \<open>C9. Stored authority cannot be forged by changing rows: whatever a database holds and whatever faults occur, a
  snapshot that is returned is that of one valid admission of the present version, made for the Runtime and profile the
  ledger is bound to; its task, contract and grants are the admitted ones, and its run and transaction are the replay
  of all stored events of theirs, each with its own columns and a digest that verifies, of which the first are those of
  the admission.\<close>

theorem authority_snapshot_is_verified:
  assumes "GetExecutionAuthority N H CR CT M D db ns i = Inr s"
  shows "\<exists>p. pp_Namespace p = ns \<and> tx_id p = i \<and> snapshot_of N H CR CT db p s"
  by (rule GetExecutionAuthority_verified [OF assms])

theorem authority_snapshot_is_verified_witness:
  "\<exists>s p. GetExecutionAuthority ax_N ax_H ax_CR ax_CT ax_M no_faults lx_db ''team'' ''tx:1'' = Inr s \<and> sn_Run s = ax_p3 \<and>
     tx_id p = ''tx:1'' \<and> snapshot_of ax_N ax_H ax_CR ax_CT lx_db p s"
  using lx_authority authority_snapshot_is_verified [of ax_N ax_H ax_CR ax_CT ax_M no_faults lx_db "''team''" "''tx:1''"] by blast

text \<open>C40. An admitted task has its authority: after the admission of a task of the present version and whatever the kernel did
  to the ledger since, a database without faults yields the snapshot, by the transaction and by the run, with the admitted
  task, contract and grants and the run and the transaction as they are read now.\<close>

theorem admitted_task_has_authority:
  assumes "kernel_reachable H CR CT db" and "AdmitTask N H CR CT M hook D db p = (db', Inr (r, True))"
    and "admission_roundtrip CR CT M p" and "comparable M r" and "an_Version r = ResultVersion" and "kernel_steps H CR CT db' db''"
  shows "\<exists>s. GetExecutionAuthority N H CR CT M no_faults db'' (pp_Namespace p) (tx_id p) = Inr s \<and>
    GetExecutionAuthorityForRun N H CR CT M no_faults db'' (pp_Namespace p) (run_id p) = Inr s \<and>
    sn_Task s = an_Task r \<and> sn_Contract s = an_Contract r \<and> sn_Grants s = an_Grants r \<and>
    GetRun CR no_faults db'' (pp_Namespace p) (run_id p) = Inr (sn_Run s) \<and>
    GetTransaction H CT no_faults db'' (pp_Namespace p) (tx_id p) = Inr (sn_Transaction s)"
  by (rule admission_yields_authority [OF reachable_ledgers_ok [OF assms(1)] assms(2-6)])

theorem admitted_task_has_authority_witness:
  "\<exists>db' db'' s. kernel_step ax_H ax_CR ax_CT db' db'' \<and>
     GetExecutionAuthority ax_N ax_H ax_CR ax_CT ax_M no_faults db'' ''team'' ''tx:1'' = Inr s \<and> sn_Task s = ax_task"
proof -
  from ax_admitted obtain db' where a: "AdmitTask ax_N ax_H ax_CR ax_CT ax_M (\<lambda>_. False) no_faults ax_db ax_prepared = (db', Inr (ax_answer, True))"
    by blast
  obtain db'' res where "AppendTransactionEvents ax_H ax_CT no_faults db' ''team'' 1 [lx_started, lx_bound] = (db'', res)" by fastforce
  then have s: "kernel_step ax_H ax_CR ax_CT db' db''" by (rule kernel_step.append_tx) simp
  then have steps: "kernel_steps ax_H ax_CR ax_CT db' db''" by (rule r_into_rtranclp)
  have "an_Version ax_answer = ResultVersion" by (simp add: ax_answer_def)
  from admitted_task_has_authority [OF ax_db_reachable a _ _ this steps] s show ?thesis
    by (auto simp: lx_ids ax_answer_def)
qed

section \<open>Launches\<close>

text \<open>C2. What the daemon launches is within admitted authority, whatever the database holds: the plan is compiled from the
  snapshot of one valid admission under the transaction of the request, whose head is the one the request was made against, and is within that snapshot in the sense of the property of
  plans above: it rests on exactly one workspace grant and, with a provider, one grant to invoke its models; its
  image is one the daemon's policy allows, its time is within the policy's limit and its model provider is the
  configured one, with the configured models and limits.\<close>

theorem launch_is_within_admitted_authority:
  assumes "compileLiveExecutionAuthority N H CR CT M D db policy now ns i current reference command timeout = Inr live"
    and "decodes_int64 CR db"
  shows "\<exists>p. pp_Namespace p = ns \<and> tx_id p = i \<and> live_within N H CR CT db policy now current reference command timeout p live"
  by (rule compileLive_within [OF assms])

theorem launch_is_within_admitted_authority_witness:
  "\<exists>p live. xp_NotAfter (la_Plan live) = 1800000002000 \<and> tx_id p = ''tx:1'' \<and>
     live_within ax_N ax_H ax_CR ax_CT lx_db lx_policy 2000 lx_q3 (''agent@'' @ sample_digest (CHR ''d'')) [''agent'', ''run''] 0 p live"
proof -
  have "decodes_int64 ax_CR lx_db"
    by (simp add: decodes_int64_def lx_run_row_def run_row_of_def limits_in64_def ax_p3_def ax_run_def draftRun_def ax_contract_def
        ax_limits_def max64_def Let_def)
  with lx_live launch_is_within_admitted_authority show ?thesis by blast
qed

end
