(* ===== verification/Spec2Isabelle.thy ===== *)
theory Spec2Isabelle
  imports Run_Properties Transaction_Properties Authority_Properties Store_Properties Boundary_Facts Driver_Properties
    Metadata_Properties Admission_Properties Plan_Properties
begin

text \<open>
  A verification development of the Gatemole kernel (Go, \<^verbatim>\<open>src/internal/kernel\<close>).

  \<^bold>\<open>The program.\<close> Gatemole runs coding agents under a daemon that owns two append-only ledgers. A \<^emph>\<open>run\<close>
  ledger records one agent run: its creation, the capabilities granted to it, its life cycle, the
  executions that charge its budget, the actions it requests. A \<^emph>\<open>transaction\<close> ledger records what the
  run wants to change: staged effects, their verification, a commit plan and an approval package, human
  approvals, the release of each effect. The state of both is a fold of a reducer over the events, kept
  in SQLite beside the events it was computed from. Every event names its predecessor's digest.

  \<^bold>\<open>Theories, from the code's lower layers to its upper ones.\<close>

  \<^item> \<open>Go_Prelude\<close>, \<open>Go_Strings\<close>, \<open>Go_Time\<close>: the Go standard library as far as the code uses it: errors as
    options and sums (\<open>first_error\<close>, \<open>ok_then\<close>, \<open>bind_res\<close>), 64-bit integers as \<open>int\<close> with \<open>wrap64\<close> written where
    the code adds or subtracts, strings of bytes, times as nanoseconds since January 1 of year 1.
  \<^item> \<open>Kernel_Types\<close>, \<open>Kernel_Validate\<close>: \<^verbatim>\<open>model/types.go\<close>, \<^verbatim>\<open>model/validate.go\<close>, \<^verbatim>\<open>model/errors.go\<close>.
  \<^item> \<open>Event_Ledger\<close>: the interface of a ledger as a locale (apply one event, its sequence number and
    digests), with the facts about every ledger: chains are contiguous, the head digest determines the
    history, what one event preserves a history preserves. Interpreted for runs in \<open>Run_Reducer\<close> and for
    transactions in \<open>Transaction_Reducer\<close>.
  \<^item> \<open>Run_Reducer\<close> (\<^verbatim>\<open>reducer/reducer.go\<close>), \<open>Event_Log\<close> (\<^verbatim>\<open>eventlog/event.go\<close>, \<^verbatim>\<open>model/event_digest.go\<close>).
  \<^item> \<open>Transaction_Types\<close>, \<open>Transaction_Validate\<close> (\<^verbatim>\<open>model/transaction_types.go\<close>, \<^verbatim>\<open>transaction_validate.go\<close>,
    \<^verbatim>\<open>agent_task.go\<close>), \<open>Transaction_Digest\<close> (\<^verbatim>\<open>transaction/digest.go\<close>), \<open>Transaction_Reducer\<close>,
    \<open>Transaction_Projection\<close> (\<^verbatim>\<open>transaction/reducer.go\<close>), \<open>Transaction_Events\<close> (\<^verbatim>\<open>transaction/event.go\<close>),
    \<open>Transaction_Policy\<close> (\<^verbatim>\<open>transaction/policy.go\<close>, \<^verbatim>\<open>prepare.go\<close>).
  \<^item> \<open>Transaction_Invariant\<close>, \<open>Transaction_History\<close>, \<open>Commit_Plan\<close>: the invariant of the transaction
    reducer, one conjunct per concern, what it implies along histories, and the reading of a valid plan.
  \<^item> \<open>Store_Tables\<close>: the tables of the database with their keys and constraints as functions on row lists,
    and the driver. \<open>Event_Store\<close>: the contract of a store of histories, a locale extending the ledger's;
    interpreted for runs in \<open>Run_Store\<close> (\<^verbatim>\<open>store/sqlite.go\<close>) and for transactions in
    \<open>Transaction_Store\<close> (\<^verbatim>\<open>store/transaction_store.go\<close>). \<open>Execution_Store\<close> (\<^verbatim>\<open>store/execution_store.go\<close>) is
    the append that writes both.
  \<^item> \<open>Runtime_Metadata\<close> (\<^verbatim>\<open>store/runtime_metadata.go\<close>, \<^verbatim>\<open>enforcement_profile.go\<close>): the binding of a ledger to one
    Runtime and enforcement profile, and its inspection before a ledger is opened.
  \<^item> \<open>Admission\<close> (\<^verbatim>\<open>admission/admission.go\<close>): a request is prepared into contract, task, run, grants and
    transaction, and results are validated. \<open>Admission_Store\<close> (\<^verbatim>\<open>store/admission_store.go\<close>): the idempotent
    write of all of them and their verified reading.
  \<^item> \<open>Admission_Authority\<close>: what a preparation grants. \<open>Admission_Safety\<close>, \<open>Admission_Progress\<close>: what an admission
    writes, and that it succeeds. \<open>Kernel_Steps\<close>: every write operation of the store as one step relation, and
    what each step keeps. \<open>Admission_Durability\<close>: an admission survives every sequence of steps.
  \<^item> \<open>Execution_Authority\<close> (\<^verbatim>\<open>store/execution_authority_store.go\<close>): the snapshot of the authority of an admitted task.
    \<open>Authority_Snapshot\<close>: that it is verified, and that it exists. \<open>Execution_Plan\<close> (\<^verbatim>\<open>authority/authority.go\<close>,
    \<^verbatim>\<open>sandbox.ImageDigest\<close>): a snapshot is lowered into the plan of one execution. \<open>Plan_Safety\<close>: what a plan may do.
    \<open>Live_Authority\<close> (\<^verbatim>\<open>api/execution_authority.go\<close>): snapshot, daemon policy and plan together.
  \<^item> \<open>Go_Path\<close>, \<open>Go_Glob\<close>: \<^verbatim>\<open>path.Clean\<close>, \<^verbatim>\<open>path.Join\<close>, \<^verbatim>\<open>path.Match\<close> of the Go library on strings, with the
    reading of a clean path as its list of components. \<open>Capability\<close> (\<^verbatim>\<open>capability/compiler.go\<close>): resource
    matching, the grants a contract compiles to, the grants and uses a history installs.
    \<open>Filesystem_Driver\<close> (\<^verbatim>\<open>driver/filesystem.go\<close>): guarded reads and atomic writes. \<open>Broker\<close>
    (\<^verbatim>\<open>broker/broker.go\<close>): an action is requested, authorized, started, performed and closed, each step an
    append to the run's history before the next, and what a restart does with what was left open.
  \<^item> \<open>Broker_Safety\<close>, \<open>Broker_Progress\<close>, \<open>Broker_Recovery\<close>, \<open>Driver_Safety\<close>, \<open>Base64_Roundtrip\<close>: the abstract
    traces of an action and that the broker's executions are among them, its progress, recovery, the
    reading of the driver's guards.
  \<^item> \<open>Run_Examples\<close>, \<open>Transaction_Examples\<close>, \<open>Store_Examples\<close>, \<open>Broker_Examples\<close>,
    \<open>Admission_Examples\<close>, \<open>Plan_Examples\<close>: concrete histories and databases, evaluated
    in the kernel, on which the witnesses apply the properties.
  \<^item> \<open>Run_Properties\<close>, \<open>Transaction_Properties\<close>, \<open>Authority_Properties\<close>, \<open>Store_Properties\<close>,
    \<open>Broker_Properties\<close>, \<open>Driver_Properties\<close>, \<open>Metadata_Properties\<close>, \<open>Admission_Properties\<close>, \<open>Plan_Properties\<close>: the
    properties.
    \<open>Boundary_Facts\<close>: corner cases where the code departs from its documentation or its own intent, among them that a
    grant may use authority the sequence grants to itself.

  \<^bold>\<open>How state and operations correspond.\<close> A Go struct is a record with the same fields under a two-letter
  prefix; a string enumeration is a datatype with one constructor per constant and one for every other
  string; a method that returns an error is a function to \<open>KernelError option\<close> or a sum. A kernel error keeps
  its code, operation and resource and, where the code branches on it, its field; messages are left out.
  An operation of the store takes the database and returns it with the result: an SQL transaction that
  fails returns the database unchanged (\<open>settle\<close>).

  \<^bold>\<open>Parameters.\<close> What lies outside the repository is an argument. \<open>Hashing\<close> holds the digests of encoded
  values (SHA-256 over JSON), \<open>RunCodec\<close> and \<open>TxCodec\<close> the encoding of stored values; encoding may fail, and
  a stored value may fail to decode. A property that needs a fact about them states it: \<open>digest_format\<close> and
  \<open>hash16_format\<close> (what a hash prints as), \<open>run_roundtrip\<close> and \<open>tx_roundtrip\<close> (what was just encoded
  decodes to itself), \<open>clean_event\<close> (the payload of an event survives Go's JSON) and, where two histories
  are compared, that the digest separates the events concerned. The \<open>driver\<close> says at which statement the
  database fails and how; nothing is assumed of it except where a property says that a step succeeds.
  The broker gets a clock reading and a database driver for every step (\<open>BrokerEnv\<close>); the filesystem driver
  an operating system (\<open>OS\<close>: a state and the operations of \<^verbatim>\<open>os.Root\<close>, each of which may fail) and the
  decoding of typed arguments (\<open>ArgumentCodec\<close>). \<open>posix_root\<close> states what POSIX documents of these
  operations, \<open>serviceable\<close> and \<open>fresh_ids\<close> that no database fault occurs and event identifiers are new.
  \<open>AdmissionHashing\<close> and \<open>AdmissionCodec\<close> hold the digests and encodings of admission, with \<open>admission_roundtrip\<close> (what
  was just encoded decodes) and \<open>comparable\<close> (the values that a reader compares have an encoding); \<open>decodes_int64\<close>
  says that decoded limits are 64-bit integers. \<^verbatim>\<open>reflect.DeepEqual\<close> is equality of values.
  Payloads are values: a payload that is not the JSON of its type is the value \<open>Undecodable\<close>.

  \<^bold>\<open>What the properties show.\<close> For runs: validity and budget invariants of every accepted history, exact
  budget sums without wrap-around, exclusiveness of executions, pinned authority, final states, the
  life cycle as a refinement, event by event. For transactions: the same refinement; no release without platform-run verification, a plan
  and a package bound to the frozen effects and the human approvals the package requires; receipts of
  committed effects; frozen effects stay fixed; executions are exclusive; superseded attempts are kept.
  For authority: the outcome of each decision, valid plans as release orders, the baseline policy. For
  the store: in every reachable database what is stored is the replay of what was appended; appends
  are atomic and extend one history; racing writers conflict; both ledgers of an execution agree; the
  settlement of an execution is always possible and charges what is left at most. For the broker: nothing is
  done before request, authorization and start are recorded, under a grant that is installed, covers the
  request and is still usable; use limits and the uniqueness of attempts hold for ever; an authorized
  request is performed; recovery closes what a crash left open and never decides in favour. For the
  driver: a change is a write below the workspace that the grant covers, made at the root of that workspace past real
  directories; a failed write changes nothing; a read is exact within its limit. For
  admission: a prepared admission carries exactly the requested authority; it is written whole or not at all, once
  per key, and lasts; a ledger keeps its Runtime and profile. For execution: in every reachable database each
  stored event has its own columns and a digest that verifies; a snapshot is verified whatever a database holds,
  and an admitted task has one; a plan stays within the snapshot it is compiled from and the daemon's policy, and rests on
  exactly the grants that its access to the workspace and to a model provider needs.

  \<^bold>\<open>Specifications.\<close> What a component promises is stated apart from the code that keeps it: \<open>lifecycle\<close> and \<open>run_step\<close> (the
  documented moves of a run, and which an event may make), \<open>tx_lifecycle\<close> and \<open>tx_step\<close> (the same of a transaction),
  \<open>action_trace\<close> (the record of an action), \<open>rows_of_admission\<close> (every column an admission writes), \<open>plan_within\<close> (what a plan
  may do: its parts name the grants, the executable, the model provider, the time and the lineage), \<open>live_within\<close> (the same with the
  daemon's policy), \<open>written\<close> and \<open>real_directories\<close> (the operations of one write, and the directories it may pass). The inspection
  of a ledger and its binding are separate copies of one decision in the code and in the model; that they agree is proved.

  \<^bold>\<open>Bounds.\<close> No definition needs fuel: recursion is structural on events, effects or rows, or on a measure that decreases
  (lengths of strings, digits of numbers).

  \<^bold>\<open>Not modelled.\<close> Opening the database file (its permissions, links and pragmas); HTTP handlers other than the
  authority they require, client, daemon start-up, command line and onboarding (input and output around the
  reducers and the store); staging with git, sandboxes and the model broker's proxy (external processes and
  networks); signed approvals, certificates and identity tokens (their content is signature and parser library
  code); the profiles of the verifier (configuration files).
\<close>

end
